(* ===== verification/Prelude.thy ===== *)
theory Prelude
  imports Main "HOL-Library.AList"
begin

section \<open>Shared vocabulary of the development\<close>

text \<open>
  What every component theory uses: the Python exceptions as values, computations that
  read and write a state and may raise, insertion-ordered dictionaries as association
  lists, the order-preserving duplicate removal of \<^verbatim>\<open>dict.fromkeys\<close>, and the
  time and identifier types.
  \<^item> An aware UTC \<^verbatim>\<open>datetime\<close> is the number of microseconds since the epoch
    (\<open>datetime\<close>), so that comparing and subtracting instants are integer operations.
  \<^item> A \<^verbatim>\<open>uuid4\<close> value is a natural number drawn from a counter that the
    component state carries: what the code relies on is only that a new identifier
    differs from every earlier one.
  \<^item> A mutable object keeps the effects of the statements before an exception, so a
    computation returns the state in both cases: \<open>'s \<Rightarrow> (py_exn + 'a) \<times> 's\<close>.
\<close>

named_theorems run_simps \<open>equations that run a stateful computation\<close>
named_theorems dict_simps \<open>lookups after dictionary updates\<close>

type_synonym datetime = int
type_synonym uuid = nat
type_synonym ('k, 'v) dict = "('k \<times> 'v) list"

datatype py_exn =
    ValueError string
  | RuntimeError string
  | IllegalTransition string
  | IllegalIncidentTransition string
  | IllegalWithdrawalTransition string
  | KeyError string
  | TypeError string
  | ImmutableJournalError string
  | RetentionFrozenError string
  | ExecutionDisabledError string
  | SizingError string
  | MoneyError string
  | OverflowError string
  | InvalidOperation
  | DivisionByZero
  | IndexError

definition seconds :: "int \<Rightarrow> int" where
  "seconds n = n * 1000000"

lemma seconds_mono [simp]: "seconds a \<le> seconds b \<longleftrightarrow> a \<le> b"
  by (simp add: seconds_def)

lemma seconds_nonneg [simp]: "0 \<le> seconds a \<longleftrightarrow> 0 \<le> a"
  by (simp add: seconds_def zero_le_mult_iff)

subsection \<open>Computations with state and exceptions\<close>

type_synonym ('s, 'a) comp = "'s \<Rightarrow> (py_exn + 'a) \<times> 's"

definition ret :: "'a \<Rightarrow> ('s, 'a) comp" where
  "ret x s = (Inr x, s)"

definition raise_exn :: "py_exn \<Rightarrow> ('s, 'a) comp" where
  "raise_exn e s = (Inl e, s)"

definition bnd :: "('s, 'a) comp \<Rightarrow> ('a \<Rightarrow> ('s, 'b) comp) \<Rightarrow> ('s, 'b) comp" where
  "bnd m f s = (case m s of (Inl e, s') \<Rightarrow> (Inl e, s') | (Inr x, s') \<Rightarrow> f x s')"

definition get_st :: "('s \<Rightarrow> 'a) \<Rightarrow> ('s, 'a) comp" where
  "get_st f s = (Inr (f s), s)"

definition upd_st :: "('s \<Rightarrow> 's) \<Rightarrow> ('s, unit) comp" where
  "upd_st f s = (Inr (), f s)"

definition lift_res :: "py_exn + 'a \<Rightarrow> ('s, 'a) comp" where
  "lift_res r s = (r, s)"

lemma ret_run [run_simps]: "ret x s = (Inr x, s)"
  by (simp add: ret_def)

lemma raise_run [run_simps]: "raise_exn e s = (Inl e, s)"
  by (simp add: raise_exn_def)

lemma get_st_run [run_simps]: "get_st f s = (Inr (f s), s)"
  by (simp add: get_st_def)

lemma upd_st_run [run_simps]: "upd_st f s = (Inr (), f s)"
  by (simp add: upd_st_def)

lemma lift_res_run [run_simps]: "lift_res r s = (r, s)"
  by (simp add: lift_res_def)

lemma bnd_Inr: "m s = (Inr x, s') \<Longrightarrow> bnd m f s = f x s'"
  by (simp add: bnd_def)

lemma bnd_Inl: "m s = (Inl e, s') \<Longrightarrow> bnd m f s = (Inl e, s')"
  by (simp add: bnd_def)

lemma bnd_ret [run_simps]: "bnd (ret x) f s = f x s"
  by (simp add: bnd_def ret_def)

lemma bnd_raise [run_simps]: "bnd (raise_exn e) f s = (Inl e, s)"
  by (simp add: bnd_def raise_exn_def)

lemma bnd_get [run_simps]: "bnd (get_st g) f s = f (g s) s"
  by (simp add: bnd_def get_st_def)

lemma bnd_upd [run_simps]: "bnd (upd_st u) f s = f () (u s)"
  by (simp add: bnd_def upd_st_def)

lemma bnd_lift [run_simps]:
  "bnd (lift_res r) f s = (case r of Inl e \<Rightarrow> (Inl e, s) | Inr x \<Rightarrow> f x s)"
  by (simp add: bnd_def lift_res_def split: sum.splits)

lemma bnd_assoc: "bnd (bnd m f) g = bnd m (\<lambda>x. bnd (f x) g)"
  by (rule ext) (simp add: bnd_def split: sum.splits prod.splits)

subsection \<open>Triples\<close>

text \<open>
  \<open>triple P m Q E\<close>: started in a state with \<open>P\<close>, the computation either returns a value
  and a state with \<open>Q\<close>, or raises in a state with \<open>E\<close>. With \<open>E = (\<lambda>_ _. False)\<close> it says
  that the computation does not raise. The rules are syntax-directed, so a fact of a
  handler follows from the facts of the operations it calls.
\<close>

definition triple ::
  "('s \<Rightarrow> bool) \<Rightarrow> ('s, 'a) comp \<Rightarrow> ('a \<Rightarrow> 's \<Rightarrow> bool) \<Rightarrow> (py_exn \<Rightarrow> 's \<Rightarrow> bool) \<Rightarrow> bool" where
  "triple P m Q E \<longleftrightarrow>
     (\<forall>s. P s \<longrightarrow> (case m s of (Inr x, s') \<Rightarrow> Q x s' | (Inl e, s') \<Rightarrow> E e s'))"

abbreviation no_raise :: "py_exn \<Rightarrow> 's \<Rightarrow> bool" where
  "no_raise \<equiv> (\<lambda>_ _. False)"

named_theorems triples \<open>triples of the basic computations\<close>

lemma tripleI:
  "(\<And>s. P s \<Longrightarrow> case m s of (Inr x, s') \<Rightarrow> Q x s' | (Inl e, s') \<Rightarrow> E e s') \<Longrightarrow> triple P m Q E"
  by (simp add: triple_def)

lemma tripleD_Inr: "triple P m Q E \<Longrightarrow> P s \<Longrightarrow> m s = (Inr x, s') \<Longrightarrow> Q x s'"
  unfolding triple_def by (drule spec [of _ s]) simp

lemma tripleD_Inl: "triple P m Q E \<Longrightarrow> P s \<Longrightarrow> m s = (Inl e, s') \<Longrightarrow> E e s'"
  unfolding triple_def by (drule spec [of _ s]) simp

lemma triple_no_raise:
  assumes "triple P m Q no_raise" and "P s"
  obtains x s' where "m s = (Inr x, s')" and "Q x s'"
proof (cases "m s")
  case (Pair r s')
  show ?thesis
  proof (cases r)
    case (Inl e)
    with Pair assms show ?thesis by (auto dest: tripleD_Inl)
  next
    case (Inr x)
    with Pair assms that show ?thesis by (auto dest: tripleD_Inr)
  qed
qed

lemma triple_conseq:
  assumes "triple P m Q E"
    and "\<And>s. P' s \<Longrightarrow> P s" and "\<And>x s. Q x s \<Longrightarrow> Q' x s" and "\<And>e s. E e s \<Longrightarrow> E' e s"
  shows "triple P' m Q' E'"
  unfolding triple_def
proof (intro allI impI)
  fix s assume "P' s"
  then have "P s" by (rule assms(2))
  obtain r s' where m: "m s = (r, s')" by (cases "m s")
  show "case m s of (Inr x, s') \<Rightarrow> Q' x s' | (Inl e, s') \<Rightarrow> E' e s'"
  proof (cases r)
    case (Inl e)
    with m \<open>P s\<close> assms(1) have "E e s'" by (auto dest: tripleD_Inl)
    with Inl m show ?thesis by (simp add: assms(4))
  next
    case (Inr x)
    with m \<open>P s\<close> assms(1) have "Q x s'" by (auto dest: tripleD_Inr)
    with Inr m show ?thesis by (simp add: assms(3))
  qed
qed

lemma triple_bnd:
  assumes "triple P m R E" and "\<And>x. triple (R x) (f x) Q E"
  shows "triple P (bnd m f) Q E"
proof (rule tripleI)
  fix s assume "P s"
  obtain r s' where m: "m s = (r, s')" by (cases "m s")
  show "case bnd m f s of (Inr x, s') \<Rightarrow> Q x s' | (Inl e, s') \<Rightarrow> E e s'"
  proof (cases r)
    case (Inl e)
    with m \<open>P s\<close> assms(1) have "E e s'" by (auto dest: tripleD_Inl)
    with Inl m show ?thesis by (simp add: bnd_def)
  next
    case (Inr x)
    with m \<open>P s\<close> assms(1) have "R x s'" by (auto dest: tripleD_Inr)
    with assms(2) [of x] Inr m show ?thesis by (simp add: bnd_def triple_def)
  qed
qed

lemma triple_ret: "(\<And>s. P s \<Longrightarrow> Q x s) \<Longrightarrow> triple P (ret x) Q E"
  by (simp add: triple_def run_simps)

lemma triple_raise: "(\<And>s. P s \<Longrightarrow> E e s) \<Longrightarrow> triple P (raise_exn e) Q E"
  by (simp add: triple_def run_simps)

lemma triple_get: "(\<And>s. P s \<Longrightarrow> Q (f s) s) \<Longrightarrow> triple P (get_st f) Q E"
  by (simp add: triple_def run_simps)

lemma triple_upd: "(\<And>s. P s \<Longrightarrow> Q () (u s)) \<Longrightarrow> triple P (upd_st u) Q E"
  by (simp add: triple_def run_simps)

lemma triple_lift_Inr: "(\<And>s. P s \<Longrightarrow> Q x s) \<Longrightarrow> triple P (lift_res (Inr x)) Q E"
  by (simp add: triple_def run_simps)

lemma triple_if:
  "(b \<Longrightarrow> triple P m Q E) \<Longrightarrow> (\<not> b \<Longrightarrow> triple P m' Q E) \<Longrightarrow> triple P (if b then m else m') Q E"
  by simp

lemma triple_option:
  "(x = None \<Longrightarrow> triple P m Q E) \<Longrightarrow> (\<And>y. x = Some y \<Longrightarrow> triple P (f y) Q E) \<Longrightarrow>
   triple P (case x of None \<Rightarrow> m | Some y \<Rightarrow> f y) Q E"
  by (cases x) simp_all

lemma triple_pre: "(\<And>s. P s \<Longrightarrow> triple (\<lambda>t. t = s) m Q E) \<Longrightarrow> triple P m Q E"
  by (simp add: triple_def)

lemma triple_fact: "(B \<Longrightarrow> triple P m Q E) \<Longrightarrow> triple (\<lambda>s. P s \<and> B) m Q E"
  by (auto simp: triple_def)

lemma triple_frame: "triple P m Q E \<Longrightarrow> triple (\<lambda>s. B \<and> P s) m (\<lambda>x s. B \<and> Q x s) E"
  by (rule triple_pre) (auto elim: triple_conseq)

text \<open>A call whose result is known goes on with that result.\<close>

lemma triple_eq: "triple P (f y) Q E \<Longrightarrow> triple (\<lambda>s. x = y \<and> P s) (f x) Q E"
  by (auto simp: triple_def)

lemma triple_False [simp]: "triple (\<lambda>s. False) m Q E"
  by (simp add: triple_def)

subsection \<open>Insertion-ordered dictionaries\<close>

text \<open>
  A Python dictionary keeps the position of a key that is assigned again and appends a
  new key, which is what \<^const>\<open>AList.update\<close> does on association lists.
\<close>

definition dict_get :: "('k, 'v) dict \<Rightarrow> 'k \<Rightarrow> 'v option" where
  "dict_get d k = map_of d k"

definition dict_put :: "'k \<Rightarrow> 'v \<Rightarrow> ('k, 'v) dict \<Rightarrow> ('k, 'v) dict" where
  "dict_put k v d = AList.update k v d"

definition dict_values :: "('k, 'v) dict \<Rightarrow> 'v list" where
  "dict_values d = map snd d"

text \<open>\<^verbatim>\<open>d.setdefault(k, []).append(v)\<close>\<close>

definition dict_append :: "'k \<Rightarrow> 'v \<Rightarrow> ('k, 'v list) dict \<Rightarrow> ('k, 'v list) dict" where
  "dict_append k v d = dict_put k ((case dict_get d k of None \<Rightarrow> [] | Some vs \<Rightarrow> vs) @ [v]) d"

text \<open>\<^verbatim>\<open>d.get(k, ())\<close> on a dictionary of lists\<close>

definition dict_list :: "('k, 'v list) dict \<Rightarrow> 'k \<Rightarrow> 'v list" where
  "dict_list d k = (case dict_get d k of None \<Rightarrow> [] | Some vs \<Rightarrow> vs)"

lemma dict_get_put [dict_simps]:
  "dict_get (dict_put k v d) k' = (if k' = k then Some v else dict_get d k')"
  by (simp add: dict_get_def dict_put_def update_conv')

lemma dict_get_Nil [dict_simps]: "dict_get [] k = None"
  by (simp add: dict_get_def)

lemma dict_list_append [dict_simps]:
  "dict_list (dict_append k v d) k' = (if k' = k then dict_list d k @ [v] else dict_list d k')"
  by (simp add: dict_list_def dict_append_def dict_simps)

lemma dict_list_put [dict_simps]:
  "dict_list (dict_put k v d) k' = (if k' = k then v else dict_list d k')"
  by (simp add: dict_list_def dict_simps)

lemma dict_put_keys: "set (map fst (dict_put k v d)) = insert k (set (map fst d))"
  using dom_update [of k v d] by (simp add: dict_put_def)

lemma dict_put_distinct: "distinct (map fst d) \<Longrightarrow> distinct (map fst (dict_put k v d))"
  by (simp add: dict_put_def distinct_update)

lemma dict_get_None: "dict_get d k = None \<longleftrightarrow> k \<notin> set (map fst d)"
  by (simp add: dict_get_def map_of_eq_None_iff)

lemma dict_values_get:
  "distinct (map fst d) \<Longrightarrow> x \<in> set (dict_values d) \<longleftrightarrow> (\<exists>k. dict_get d k = Some x)"
  by (force simp: dict_values_def dict_get_def)

lemma dict_get_in_values: "dict_get d k = Some x \<Longrightarrow> x \<in> set (dict_values d)"
  by (force simp: dict_values_def dict_get_def dest: map_of_SomeD)

lemma dict_put_new:
  "dict_get d k = None \<Longrightarrow> dict_put k v d = d @ [(k, v)]"
  by (induction d) (auto simp: dict_get_def dict_put_def split: if_splits)

lemma dict_put_length:
  "length (dict_put k v d) = (if dict_get d k = None then Suc (length d) else length d)"
  by (induction d) (auto simp: dict_get_def dict_put_def)

subsection \<open>Order-preserving duplicate removal\<close>

text \<open>\<^verbatim>\<open>list(dict.fromkeys(xs))\<close> keeps the first occurrence of each element.\<close>

fun fromkeys :: "'a list \<Rightarrow> 'a list" where
  "fromkeys [] = []"
| "fromkeys (x # xs) = x # fromkeys (filter (\<lambda>y. y \<noteq> x) xs)"

lemma set_fromkeys [simp]: "set (fromkeys xs) = set xs"
  by (induction xs rule: fromkeys.induct) auto

lemma distinct_fromkeys [simp]: "distinct (fromkeys xs)"
  by (induction xs rule: fromkeys.induct) auto

lemma fromkeys_Nil_iff [simp]: "fromkeys xs = [] \<longleftrightarrow> xs = []"
  by (cases xs) auto

text \<open>\<^verbatim>\<open>"sep".join(xs)\<close>\<close>

fun join :: "string \<Rightarrow> string list \<Rightarrow> string" where
  "join sep [] = []"
| "join sep [x] = x"
| "join sep (x # y # ys) = x @ sep @ join sep (y # ys)"

text \<open>A statement \<^verbatim>\<open>if b: xs.append(x)\<close> on a list of reasons.\<close>

definition reason_if :: "bool \<Rightarrow> 'a \<Rightarrow> 'a list" where
  "reason_if b x = (if b then [x] else [])"

lemma set_reason_if [simp]: "set (reason_if b x) = (if b then {x} else {})"
  by (cases b) (simp_all add: reason_if_def)

lemma reason_if_Nil [simp]: "reason_if b x = [] \<longleftrightarrow> \<not> b"
  by (simp add: reason_if_def)

end
