(* ===== verification/PyDecimal.thy ===== *)
theory PyDecimal
  imports Prelude Complex_Main
begin

section \<open>Finite decimals in the default context\<close>

text \<open>
  The code computes with \<^verbatim>\<open>decimal.Decimal\<close> in Python's default context: 28
  significant digits, \<^verbatim>\<open>ROUND_HALF_EVEN\<close>. A finite decimal is its rational
  value (\<open>dec\<close>); \<^verbatim>\<open>+ - * /\<close>, unary minus and \<^verbatim>\<open>abs\<close> compute the exact
  result and round it to 28 significant digits (\<open>dec_fix\<close>), while comparisons,
  \<^verbatim>\<open>min\<close> and \<^verbatim>\<open>max\<close> are exact. \<^verbatim>\<open>quantize\<close> rounds to a given exponent
  and signals \<^verbatim>\<open>InvalidOperation\<close> when the coefficient does not fit the
  precision. NaN and infinities do not occur: the contracts reject them. The exponent
  range of the context (about a million) is not modelled.

  The lemmas are the ones the components rest on: rounding is monotone, odd, keeps signs
  and is the identity on values of at most 28 digits.
\<close>

type_synonym dec = rat

definition prec :: int where
  "prec = 28"

subsection \<open>Decimal digits and the adjusted exponent\<close>

fun ndigits :: "nat \<Rightarrow> nat" where
  "ndigits n = (if n < 10 then 1 else Suc (ndigits (n div 10)))"

declare ndigits.simps [simp del]

lemma ndigits_pos: "0 < ndigits n"
  by (subst ndigits.simps) simp

lemma ndigits_upper: "n < 10 ^ ndigits n"
proof (induction n rule: ndigits.induct)
  case (1 n)
  show ?case
  proof (cases "n < 10")
    case True
    then show ?thesis by (subst ndigits.simps) simp
  next
    case False
    with 1 have "n div 10 < 10 ^ ndigits (n div 10)" by simp
    then have "n < 10 * 10 ^ ndigits (n div 10)"
      by (simp add: div_less_iff_less_mult mult.commute)
    with False show ?thesis by (subst ndigits.simps) simp
  qed
qed

lemma ndigits_lower: "0 < n \<Longrightarrow> 10 ^ (ndigits n - 1) \<le> n"
proof (induction n rule: ndigits.induct)
  case (1 n)
  show ?case
  proof (cases "n < 10")
    case True
    with 1 show ?thesis by (subst ndigits.simps) simp
  next
    case False
    with 1 have "10 ^ (ndigits (n div 10) - 1) \<le> n div 10" by simp
    then have "10 * 10 ^ (ndigits (n div 10) - 1) \<le> n"
      by (simp add: less_eq_div_iff_mult_less_eq mult.commute)
    moreover have "10 * 10 ^ (ndigits (n div 10) - 1) = (10::nat) ^ ndigits (n div 10)"
      using ndigits_pos [of "n div 10"] by (metis Suc_pred' power_Suc diff_Suc_1)
    ultimately show ?thesis using False by (subst ndigits.simps) simp
  qed
qed

text \<open>The adjusted exponent: the exponent of the most significant digit.\<close>

definition adjusted :: "dec \<Rightarrow> int" where
  "adjusted x = (case quotient_of \<bar>x\<bar> of (n, d) \<Rightarrow>
     let e = int (ndigits (nat n)) - int (ndigits (nat d)) in
     if \<bar>x\<bar> < 10 powi e then e - 1 else e)"

lemma pow10_less [simp]: "(10::rat) powi a < 10 powi b \<longleftrightarrow> a < b"
  by (metis power_int_strict_increasing one_less_numeral_iff semiring_norm(76) not_less_iff_gr_or_eq)

lemma pow10_le [simp]: "(10::rat) powi a \<le> 10 powi b \<longleftrightarrow> a \<le> b"
  by (simp flip: not_less)

lemma pow10_pos [simp]: "0 < (10::rat) powi a"
  by simp

lemma adjusted_raw:
  assumes "x \<noteq> 0" and q: "quotient_of \<bar>x\<bar> = (n, d)"
    and e: "e = int (ndigits (nat n)) - int (ndigits (nat d))"
  shows "10 powi (e - 1) < \<bar>x\<bar>" and "\<bar>x\<bar> < 10 powi (e + 1)"
proof -
  let ?k = "ndigits (nat n)" and ?l = "ndigits (nat d)"
  have x: "\<bar>x\<bar> = of_int n / of_int d" using q by (rule quotient_of_div)
  have d: "0 < d" using quotient_of_denom_pos [OF q] .
  have n: "0 < n"
  proof -
    have "0 < \<bar>x\<bar>" using assms(1) by simp
    then show ?thesis using x d by (simp add: zero_less_divide_iff)
  qed
  have nu: "(of_int n :: rat) < 10 ^ ?k"
    using ndigits_upper [of "nat n"] n
    by (metis of_int_less_iff of_int_power of_int_numeral nat_less_numeral_power_cancel_iff)
  have du: "(of_int d :: rat) < 10 ^ ?l"
    using ndigits_upper [of "nat d"] d
    by (metis of_int_less_iff of_int_power of_int_numeral nat_less_numeral_power_cancel_iff)
  have nl: "10 ^ (?k - 1) \<le> (of_int n :: rat)"
  proof -
    have "int (10 ^ (?k - 1)) \<le> n" using ndigits_lower [of "nat n"] n by linarith
    then have "(of_int (int (10 ^ (?k - 1))) :: rat) \<le> of_int n" by (rule of_int_le_iff [THEN iffD2])
    then show ?thesis by simp
  qed
  have dl: "10 ^ (?l - 1) \<le> (of_int d :: rat)"
  proof -
    have "int (10 ^ (?l - 1)) \<le> d" using ndigits_lower [of "nat d"] d by linarith
    then have "(of_int (int (10 ^ (?l - 1))) :: rat) \<le> of_int d" by (rule of_int_le_iff [THEN iffD2])
    then show ?thesis by simp
  qed
  have kpos: "0 < ?k" and lpos: "0 < ?l" by (simp_all add: ndigits_pos)
  have "10 powi (e - 1) = 10 ^ (?k - 1) / (10 ^ ?l :: rat)"
    using kpos by (simp add: e power_int_diff of_nat_diff flip: power_int_of_nat)
  also have "\<dots> < of_int n / of_int d"
    using nl du d n by (intro frac_less2) auto
  finally show "10 powi (e - 1) < \<bar>x\<bar>" by (simp add: x)
  have "of_int n / of_int d < 10 ^ ?k / (10 ^ (?l - 1) :: rat)"
    using nu dl d n by (intro frac_less) auto
  also have "\<dots> = 10 powi (e + 1)"
    using lpos by (simp add: e power_int_diff power_int_add of_nat_diff flip: power_int_of_nat)
  finally show "\<bar>x\<bar> < 10 powi (e + 1)" by (simp add: x)
qed

lemma adjusted_bounds:
  assumes "x \<noteq> 0"
  shows "10 powi (adjusted x) \<le> \<bar>x\<bar>" and "\<bar>x\<bar> < 10 powi (adjusted x + 1)"
proof -
  obtain n d where q: "quotient_of \<bar>x\<bar> = (n, d)" by force
  note raw = adjusted_raw [OF assms q refl]
  show "10 powi (adjusted x) \<le> \<bar>x\<bar>" and "\<bar>x\<bar> < 10 powi (adjusted x + 1)"
    using raw by (auto simp: adjusted_def q Let_def)
qed

lemma adjusted_unique:
  assumes "10 powi e \<le> \<bar>x\<bar>" and "\<bar>x\<bar> < 10 powi (e + 1)"
  shows "adjusted x = e"
proof -
  have "x \<noteq> 0" using assms(1) pow10_pos [of e] by (metis abs_zero not_less)
  note b = adjusted_bounds [OF this]
  have "10 powi e < (10::rat) powi (adjusted x + 1)" using assms(1) b(2) by linarith
  moreover have "10 powi (adjusted x) < (10::rat) powi (e + 1)" using assms(2) b(1) by linarith
  ultimately show ?thesis by simp
qed

lemma adjusted_uminus [simp]: "adjusted (- x) = adjusted x"
  by (simp add: adjusted_def)

lemma adjusted_mono:
  assumes "x \<noteq> 0" and "\<bar>x\<bar> \<le> \<bar>y\<bar>"
  shows "adjusted x \<le> adjusted y"
proof -
  have y: "y \<noteq> 0" using assms by auto
  have "10 powi (adjusted x) < (10::rat) powi (adjusted y + 1)"
    using adjusted_bounds(1) [OF assms(1)] adjusted_bounds(2) [OF y] assms(2) by linarith
  then show ?thesis by simp
qed

subsection \<open>Rounding to an integer\<close>

definition round_half_even :: "rat \<Rightarrow> int" where
  "round_half_even x =
     (let f = \<lfloor>x\<rfloor>; r = x - of_int f in
      if r < 1 / 2 then f else if r > 1 / 2 then f + 1 else if even f then f else f + 1)"

definition round_down :: "rat \<Rightarrow> int" where
  "round_down x = (if 0 \<le> x then \<lfloor>x\<rfloor> else \<lceil>x\<rceil>)"

lemma round_half_even_of_int [simp]: "round_half_even (of_int k) = k"
  by (simp add: round_half_even_def)

lemma round_half_even_cases:
  "round_half_even x = \<lfloor>x\<rfloor> \<and> x - of_int \<lfloor>x\<rfloor> \<le> 1 / 2
   \<or> round_half_even x = \<lfloor>x\<rfloor> + 1 \<and> 1 / 2 \<le> x - of_int \<lfloor>x\<rfloor>"
  by (auto simp: round_half_even_def Let_def)

lemma round_half_even_mono: "x \<le> y \<Longrightarrow> round_half_even x \<le> round_half_even y"
proof -
  assume xy: "x \<le> y"
  then have f: "\<lfloor>x\<rfloor> \<le> \<lfloor>y\<rfloor>" by (rule floor_mono)
  show ?thesis
  proof (cases "\<lfloor>x\<rfloor> = \<lfloor>y\<rfloor>")
    case True
    with xy show ?thesis by (auto simp: round_half_even_def Let_def)
  next
    case False
    with f have "\<lfloor>x\<rfloor> + 1 \<le> \<lfloor>y\<rfloor>" by simp
    then show ?thesis using round_half_even_cases [of x] round_half_even_cases [of y] by linarith
  qed
qed

lemma round_half_even_uminus: "round_half_even (- x) = - round_half_even x"
proof (cases "x \<in> \<int>")
  case True
  then obtain k where "x = of_int k" by (auto elim: Ints_cases)
  then show ?thesis by (metis of_int_minus round_half_even_of_int)
next
  case False
  then have "\<lfloor>- x\<rfloor> = - \<lfloor>x\<rfloor> - 1"
    by (simp add: floor_minus ceiling_altdef) (metis Ints_of_int)
  then show ?thesis by (auto simp: round_half_even_def Let_def)
qed

lemma round_half_even_error: "\<bar>of_int (round_half_even x) - x\<bar> \<le> 1 / 2"
  using round_half_even_cases [of x] by linarith

lemma round_down_le: "0 \<le> x \<Longrightarrow> of_int (round_down x) \<le> x"
  by (simp add: round_down_def)

lemma round_down_nonneg: "0 \<le> x \<Longrightarrow> 0 \<le> round_down x"
  by (simp add: round_down_def)

lemma round_down_gt: "0 \<le> x \<Longrightarrow> x < of_int (round_down x) + 1"
  by (simp add: round_down_def) linarith

subsection \<open>Rounding to the context precision\<close>

definition ulp :: "dec \<Rightarrow> rat" where
  "ulp x = 10 powi (adjusted x - (prec - 1))"

definition dec_fix :: "rat \<Rightarrow> dec" where
  "dec_fix x = (if x = 0 then 0 else of_int (round_half_even (x / ulp x)) * ulp x)"

definition dadd :: "dec \<Rightarrow> dec \<Rightarrow> dec" where
  "dadd a b = dec_fix (a + b)"

definition dsub :: "dec \<Rightarrow> dec \<Rightarrow> dec" where
  "dsub a b = dec_fix (a - b)"

definition dmul :: "dec \<Rightarrow> dec \<Rightarrow> dec" where
  "dmul a b = dec_fix (a * b)"

text \<open>Division; every use in the code is guarded by a non-zero divisor.\<close>

definition ddiv :: "dec \<Rightarrow> dec \<Rightarrow> dec" where
  "ddiv a b = dec_fix (a / b)"

definition dabs :: "dec \<Rightarrow> dec" where
  "dabs a = dec_fix \<bar>a\<bar>"

definition dneg :: "dec \<Rightarrow> dec" where
  "dneg a = dec_fix (- a)"

definition dsum :: "dec list \<Rightarrow> dec" where
  "dsum xs = foldl dadd 0 xs"

lemma ulp_pos [simp]: "0 < ulp x"
  by (simp add: ulp_def)

lemma ulp_nonneg [simp]: "0 \<le> ulp x"
  using ulp_pos [of x] by (rule less_imp_le)

lemma ulp_uminus [simp]: "ulp (- x) = ulp x"
  by (simp add: ulp_def)

lemma dec_fix_0 [simp]: "dec_fix 0 = 0"
  by (simp add: dec_fix_def)

lemma dec_fix_uminus: "dec_fix (- x) = - dec_fix x"
  by (simp add: dec_fix_def round_half_even_uminus)

text \<open>The scaled coefficient of a non-zero value has exactly 28 integer digits.\<close>

lemma coeff_bounds:
  assumes "0 < x"
  shows "10 ^ 27 \<le> x / ulp x" and "x / ulp x < 10 ^ 28"
proof -
  have b: "10 powi (adjusted x) \<le> x" "x < 10 powi (adjusted x + 1)"
    using adjusted_bounds [of x] assms by simp_all
  have l: "10 ^ 27 * ulp x = 10 powi (adjusted x)"
    by (simp add: ulp_def prec_def power_int_diff)
  have u: "10 ^ 28 * ulp x = 10 powi (adjusted x + 1)"
    by (simp add: ulp_def prec_def power_int_diff power_int_add)
  show "10 ^ 27 \<le> x / ulp x" using b(1) l by (simp only: pos_le_divide_eq ulp_pos)
  show "x / ulp x < 10 ^ 28" using b(2) u by (simp only: pos_divide_less_eq ulp_pos)
qed

lemma dec_fix_range:
  assumes "0 < x"
  shows "10 powi (adjusted x) \<le> dec_fix x" and "dec_fix x \<le> 10 powi (adjusted x + 1)"
proof -
  let ?c = "round_half_even (x / ulp x)"
  have "round_half_even (of_int (10 ^ 27)) \<le> ?c"
    using coeff_bounds(1) [OF assms] by (intro round_half_even_mono) simp
  then have "(10::int) ^ 27 \<le> ?c" by (simp only: round_half_even_of_int)
  then have l: "(10::rat) ^ 27 \<le> of_int ?c"
    by (metis of_int_le_iff of_int_numeral of_int_power)
  have "?c \<le> round_half_even (of_int (10 ^ 28))"
    using coeff_bounds(2) [OF assms] by (intro round_half_even_mono) simp
  then have "?c \<le> (10::int) ^ 28" by (simp only: round_half_even_of_int)
  then have u: "of_int ?c \<le> (10::rat) ^ 28"
    by (metis of_int_le_iff of_int_numeral of_int_power)
  have "10 powi (adjusted x) = 10 ^ 27 * ulp x"
    by (simp add: ulp_def prec_def power_int_diff)
  also have "\<dots> \<le> of_int ?c * ulp x" using l by (intro mult_right_mono) simp_all
  finally show "10 powi (adjusted x) \<le> dec_fix x" using assms by (simp add: dec_fix_def)
  have "of_int ?c * ulp x \<le> 10 ^ 28 * ulp x" using u by (intro mult_right_mono) simp_all
  also have "\<dots> = 10 powi (adjusted x + 1)"
    by (simp add: ulp_def prec_def power_int_diff power_int_add)
  finally show "dec_fix x \<le> 10 powi (adjusted x + 1)" using assms by (simp add: dec_fix_def)
qed

lemma dec_fix_pos: "0 < x \<Longrightarrow> 0 < dec_fix x"
  using dec_fix_range(1) [of x] pow10_pos [of "adjusted x"] by linarith

lemma dec_fix_mono_pos:
  assumes "0 < x" and "x \<le> y"
  shows "dec_fix x \<le> dec_fix y"
proof (cases "adjusted x = adjusted y")
  case True
  then have u: "ulp x = ulp y" by (simp add: ulp_def)
  have "x / ulp y \<le> y / ulp y" using assms by (simp add: divide_right_mono less_imp_le)
  then have "round_half_even (x / ulp y) \<le> round_half_even (y / ulp y)"
    by (rule round_half_even_mono)
  then show ?thesis using assms u by (simp add: dec_fix_def mult_right_mono less_imp_le)
next
  case False
  have "adjusted x \<le> adjusted y" using assms by (intro adjusted_mono) simp_all
  with False have "10 powi (adjusted x + 1) \<le> (10::rat) powi (adjusted y)" by simp
  with dec_fix_range [of x] dec_fix_range [of y] assms show ?thesis by linarith
qed

lemma dec_fix_mono: "x \<le> y \<Longrightarrow> dec_fix x \<le> dec_fix y"
proof -
  assume xy: "x \<le> y"
  consider "0 < x" | "y < 0" | "x \<le> 0" "0 \<le> y" using xy by linarith
  then show ?thesis
  proof cases
    case 1
    then show ?thesis using xy by (rule dec_fix_mono_pos)
  next
    case 2
    then have "dec_fix (- y) \<le> dec_fix (- x)" using xy by (intro dec_fix_mono_pos) simp_all
    then show ?thesis by (simp add: dec_fix_uminus)
  next
    case 3
    have "dec_fix x \<le> 0"
      using 3(1) dec_fix_pos [of "- x"] by (cases "x = 0") (simp_all add: dec_fix_uminus)
    moreover have "0 \<le> dec_fix y"
      using 3(2) dec_fix_pos [of y] by (cases "y = 0") simp_all
    ultimately show ?thesis by linarith
  qed
qed

lemma dec_fix_nonneg: "0 \<le> x \<Longrightarrow> 0 \<le> dec_fix x"
  using dec_fix_mono [of 0 x] by simp

lemma dec_fix_nonpos: "x \<le> 0 \<Longrightarrow> dec_fix x \<le> 0"
  using dec_fix_mono [of x 0] by simp

lemma dec_fix_pos_iff [simp]: "0 < dec_fix x \<longleftrightarrow> 0 < x"
  using dec_fix_pos [of x] dec_fix_nonpos [of x] by linarith

lemma dec_fix_neg_iff [simp]: "dec_fix x < 0 \<longleftrightarrow> x < 0"
  using dec_fix_pos_iff [of "- x"] by (simp add: dec_fix_uminus)

lemma dec_fix_eq_0_iff [simp]: "dec_fix x = 0 \<longleftrightarrow> x = 0"
proof
  assume "dec_fix x = 0"
  then have "\<not> 0 < dec_fix x" and "\<not> dec_fix x < 0" by simp_all
  then show "x = 0" by simp
qed simp

subsection \<open>Values of at most 28 digits\<close>

definition dec28 :: "dec \<Rightarrow> bool" where
  "dec28 x \<longleftrightarrow> dec_fix x = x"

lemma dec28_coeff:
  assumes "\<bar>c\<bar> < 10 ^ 28"
  shows "dec28 (of_int c * 10 powi e)"
proof (cases "c = 0")
  case True
  then show ?thesis by (simp add: dec28_def)
next
  case False
  let ?x = "of_int c * (10::rat) powi e"
  have x0: "?x \<noteq> 0" using False by simp
  have "\<bar>?x\<bar> < 10 ^ 28 * 10 powi e"
  proof -
    have "\<bar>of_int c\<bar> < (10::rat) ^ 28"
      using assms by (metis of_int_abs of_int_less_iff of_int_numeral of_int_power)
    then show ?thesis by (simp add: abs_mult)
  qed
  also have "\<dots> = 10 powi (e + 28)" by (simp add: power_int_add)
  finally have "10 powi (adjusted ?x) < (10::rat) powi (e + 28)"
    using adjusted_bounds(1) [OF x0] by linarith
  then have "adjusted ?x - (prec - 1) \<le> e" by (simp add: prec_def)
  then obtain k where k: "e = adjusted ?x - (prec - 1) + int k"
    by (metis zle_iff_zadd)
  have "(10::rat) powi e = 10 ^ k * ulp ?x"
    unfolding ulp_def by (subst k) (simp add: power_int_add)
  then have "?x = of_int (c * 10 ^ k) * ulp ?x" by simp
  moreover have "ulp ?x \<noteq> 0" using ulp_pos [of ?x] by linarith
  ultimately have "?x / ulp ?x = of_int (c * 10 ^ k)" by (simp add: field_simps)
  then show ?thesis using x0 \<open>?x = of_int (c * 10 ^ k) * ulp ?x\<close>
    unfolding dec28_def dec_fix_def by (simp only: round_half_even_of_int if_False)
qed

lemma dec28_int: "\<bar>c\<bar> < 10 ^ 28 \<Longrightarrow> dec28 (of_int c)"
  using dec28_coeff [of c 0] by simp

lemma dec28_0 [simp]: "dec28 0"
  by (simp add: dec28_def)

lemma dec_fix_dec28: "dec28 x \<Longrightarrow> dec_fix x = x"
  by (simp add: dec28_def)

text \<open>Every result of an operation is a value of the context.\<close>

lemma dec28_dec_fix_pos:
  assumes "0 < x"
  shows "dec28 (dec_fix x)"
proof -
  let ?c = "round_half_even (x / ulp x)"
  have fx: "dec_fix x = of_int ?c * 10 powi (adjusted x - (prec - 1))"
    using assms by (simp add: dec_fix_def ulp_def)
  have "?c \<le> round_half_even (of_int (10 ^ 28))"
    using coeff_bounds(2) [OF assms] by (intro round_half_even_mono) simp
  then have u: "?c \<le> 10 ^ 28" by (simp only: round_half_even_of_int)
  have "round_half_even (of_int 0) \<le> ?c"
    using assms by (intro round_half_even_mono) (simp add: less_imp_le)
  then have l: "0 \<le> ?c" by (simp only: round_half_even_of_int)
  show ?thesis
  proof (cases "?c = 10 ^ 28")
    case False
    with u l show ?thesis unfolding fx by (intro dec28_coeff) simp
  next
    case True
    have "dec_fix x = of_int 1 * 10 powi (adjusted x + 1)"
      unfolding fx True by (simp add: prec_def power_int_diff power_int_add)
    moreover have "dec28 (of_int 1 * 10 powi (adjusted x + 1))" by (rule dec28_coeff) simp
    ultimately show ?thesis by (simp only:)
  qed
qed

lemma dec28_uminus [simp]: "dec28 (- x) \<longleftrightarrow> dec28 x"
  by (simp add: dec28_def dec_fix_uminus)

lemma dec28_dec_fix [simp]: "dec28 (dec_fix x)"
proof (cases "x = 0")
  case False
  then consider "0 < x" | "0 < - x" by linarith
  then show ?thesis
  proof cases
    case 2
    then have "dec28 (dec_fix (- x))" by (rule dec28_dec_fix_pos)
    then show ?thesis by (simp add: dec_fix_uminus)
  qed (rule dec28_dec_fix_pos)
qed simp

text \<open>Rounding stays on the same side of a value of the context.\<close>

lemma dec_fix_le_iff: "dec28 b \<Longrightarrow> x \<le> b \<Longrightarrow> dec_fix x \<le> b"
  using dec_fix_mono [of x b] by (simp add: dec28_def)

lemma dec_fix_ge_iff: "dec28 b \<Longrightarrow> b \<le> x \<Longrightarrow> b \<le> dec_fix x"
  using dec_fix_mono [of b x] by (simp add: dec28_def)

lemmas dec_ops = dadd_def dsub_def dmul_def ddiv_def dabs_def dneg_def

subsection \<open>Quantize\<close>

text \<open>
  \<^verbatim>\<open>x.quantize(Decimal((0, (1,), e)), rounding=r)\<close>: the multiple of \<open>10\<close> to the \<open>e\<close>
  selected by the rounding mode, or \<^verbatim>\<open>InvalidOperation\<close> when its coefficient has
  more than 28 digits.
\<close>

definition quantize :: "(rat \<Rightarrow> int) \<Rightarrow> int \<Rightarrow> dec \<Rightarrow> py_exn + dec" where
  "quantize rnd e x =
     (let c = rnd (x / 10 powi e) in
      if \<bar>c\<bar> < 10 ^ 28 then Inr (of_int c * 10 powi e) else Inl InvalidOperation)"

lemma quantize_dec28: "quantize rnd e x = Inr y \<Longrightarrow> dec28 y"
  by (auto simp: quantize_def Let_def dec28_coeff split: if_splits)

lemma quantize_down_le:
  assumes "0 \<le> x" and "quantize round_down e x = Inr y"
  shows "0 \<le> y" and "y \<le> x" and "x < y + 10 powi e"
proof -
  let ?q = "x / 10 powi e"
  have y: "y = of_int (round_down ?q) * 10 powi e"
    using assms(2) by (auto simp: quantize_def Let_def split: if_splits)
  have q: "0 \<le> ?q" using assms(1) by simp
  show "0 \<le> y" using round_down_nonneg [OF q] by (simp add: y)
  have "y \<le> ?q * 10 powi e"
    unfolding y using round_down_le [OF q] by (intro mult_right_mono) simp_all
  then show "y \<le> x" by simp
  have "?q * 10 powi e < (of_int (round_down ?q) + 1) * 10 powi e"
    using round_down_gt [OF q] by (intro mult_strict_right_mono) simp_all
  then show "x < y + 10 powi e" by (simp add: y algebra_simps)
qed

lemma quantize_exact: "\<bar>c\<bar> < 10 ^ 28 \<Longrightarrow> (\<And>k. rnd (of_int k) = k) \<Longrightarrow>
  quantize rnd e (of_int c * 10 powi e) = Inr (of_int c * 10 powi e)"
  by (simp add: quantize_def)

text \<open>
  \<^verbatim>\<open>x.normalize()\<close> strips trailing zeros; the exponent that remains is a function of
  the value. For a value \<open>n / d\<close> in lowest terms it is the number of trailing zeros of
  \<open>n\<close> when \<open>d = 1\<close>, and otherwise minus the least \<open>k\<close> such that \<open>d\<close> divides
  \<open>10 ^ k\<close> (at most \<open>d\<close> when \<open>d\<close> has no prime factor but 2 and 5).
\<close>

fun trailing_zeros :: "nat \<Rightarrow> nat" where
  "trailing_zeros n = (if n = 0 \<or> n mod 10 \<noteq> 0 then 0 else Suc (trailing_zeros (n div 10)))"

fun frac_digits :: "nat \<Rightarrow> nat \<Rightarrow> nat \<Rightarrow> nat" where
  "frac_digits 0 k d = k"
| "frac_digits (Suc fuel) k d = (if d dvd 10 ^ k then k else frac_digits fuel (Suc k) d)"

definition norm_exp :: "dec \<Rightarrow> int" where
  "norm_exp x = (case quotient_of \<bar>x\<bar> of (n, d) \<Rightarrow>
     if d = 1 then int (trailing_zeros (nat n)) else - int (frac_digits (nat d) 0 (nat d)))"

end
