(* ===== verification/RiskContracts.thy ===== *)
theory RiskContracts
  imports PyDecimal PyText
begin

section \<open>Contracts of the risk gate\<close>

text \<open>
  The v1 contracts of \<^verbatim>\<open>contracts/v1/risk.py\<close> (and the two enumerations of
  \<^verbatim>\<open>contracts/v1/strategy.py\<close> they use): enumerations as datatypes with the function
  that gives their string \<^verbatim>\<open>value\<close>, frozen models as records. A constructor carries
  a prefix where two enumerations share a member name, and so does a field where two
  models do. A model validator is a function into \<open>py_exn + 'a\<close>.
\<close>

subsection \<open>Enumerations\<close>

datatype Direction =
    BUY
  | SELL
  | FLAT

datatype EntryType =
    ET_MARKET
  | ET_LIMIT
  | ET_STOP
  | ET_STOP_LIMIT

datatype RiskVerdictStatus =
    ALLOW
  | DENY
  | HALT

fun verdict_value :: "RiskVerdictStatus \<Rightarrow> string" where
  "verdict_value ALLOW = ''allow''"
| "verdict_value DENY = ''deny''"
| "verdict_value HALT = ''halt''"

datatype RiskRejectionReason =
    RJ_ENGINE_UNAVAILABLE
  | RJ_NOT_READY
  | RJ_LIVE_DISABLED
  | RJ_EXPOSURE_LIMIT
  | RJ_DRAWDOWN_LIMIT
  | RJ_STALE_DATA
  | RJ_LEDGER_INCONSISTENT
  | RJ_KILL_SWITCH
  | RJ_INVALID_INTENT
  | RJ_POLICY
  | RJ_UNKNOWN_STATE
  | RJ_MISSING_FORECAST
  | RJ_MISSING_CANDIDATE
  | RJ_FORECAST_INVALID
  | RJ_HANDOFF_INELIGIBLE
  | RJ_CONCENTRATION_LIMIT
  | RJ_HEAT_LIMIT
  | RJ_DUPLICATE_INTENT
  | RJ_SESSION_RESTRICTED
  | RJ_LIQUIDITY
  | RJ_SIZE_ZERO
  | RJ_FAT_FINGER
  | RJ_PRICE_COLLAR
  | RJ_BURST_THROTTLE
  | RJ_DEGRADED_MODE
  | RJ_RECOVERY_GATE
  | RJ_LOOKAHEAD
  | RJ_BUDGET_EXHAUSTED
  | RJ_FEATURE_DISABLED
  | RJ_CLOSE_ONLY
  | RJ_NO_NEW_RISK
  | RJ_SYMBOL_MISMATCH
  | RJ_STOP_MISSING
  | RJ_ROUTE_INELIGIBLE
  | RJ_MALFORMED

fun rejection_value :: "RiskRejectionReason \<Rightarrow> string" where
  "rejection_value RJ_ENGINE_UNAVAILABLE = ''engine_unavailable''"
| "rejection_value RJ_NOT_READY = ''not_ready''"
| "rejection_value RJ_LIVE_DISABLED = ''live_disabled''"
| "rejection_value RJ_EXPOSURE_LIMIT = ''exposure_limit''"
| "rejection_value RJ_DRAWDOWN_LIMIT = ''drawdown_limit''"
| "rejection_value RJ_STALE_DATA = ''stale_data''"
| "rejection_value RJ_LEDGER_INCONSISTENT = ''ledger_inconsistent''"
| "rejection_value RJ_KILL_SWITCH = ''kill_switch''"
| "rejection_value RJ_INVALID_INTENT = ''invalid_intent''"
| "rejection_value RJ_POLICY = ''policy''"
| "rejection_value RJ_UNKNOWN_STATE = ''unknown_state''"
| "rejection_value RJ_MISSING_FORECAST = ''missing_forecast''"
| "rejection_value RJ_MISSING_CANDIDATE = ''missing_candidate''"
| "rejection_value RJ_FORECAST_INVALID = ''forecast_invalid''"
| "rejection_value RJ_HANDOFF_INELIGIBLE = ''handoff_ineligible''"
| "rejection_value RJ_CONCENTRATION_LIMIT = ''concentration_limit''"
| "rejection_value RJ_HEAT_LIMIT = ''heat_limit''"
| "rejection_value RJ_DUPLICATE_INTENT = ''duplicate_intent''"
| "rejection_value RJ_SESSION_RESTRICTED = ''session_restricted''"
| "rejection_value RJ_LIQUIDITY = ''liquidity''"
| "rejection_value RJ_SIZE_ZERO = ''size_zero''"
| "rejection_value RJ_FAT_FINGER = ''fat_finger''"
| "rejection_value RJ_PRICE_COLLAR = ''price_collar''"
| "rejection_value RJ_BURST_THROTTLE = ''burst_throttle''"
| "rejection_value RJ_DEGRADED_MODE = ''degraded_mode''"
| "rejection_value RJ_RECOVERY_GATE = ''recovery_gate''"
| "rejection_value RJ_LOOKAHEAD = ''lookahead''"
| "rejection_value RJ_BUDGET_EXHAUSTED = ''budget_exhausted''"
| "rejection_value RJ_FEATURE_DISABLED = ''feature_disabled''"
| "rejection_value RJ_CLOSE_ONLY = ''close_only''"
| "rejection_value RJ_NO_NEW_RISK = ''no_new_risk''"
| "rejection_value RJ_SYMBOL_MISMATCH = ''symbol_mismatch''"
| "rejection_value RJ_STOP_MISSING = ''stop_missing''"
| "rejection_value RJ_ROUTE_INELIGIBLE = ''route_ineligible''"
| "rejection_value RJ_MALFORMED = ''malformed''"

datatype RiskDecisionTier =
    TIER_HARD_VETO
  | TIER_POLICY_REJECT
  | TIER_REDUCED
  | TIER_CONDITIONAL
  | TIER_ADMITTED

datatype RiskAdmissionDecision =
    AD_APPROVE
  | AD_REDUCE
  | AD_REJECT
  | AD_FREEZE
  | AD_KILL_PROTECTED

fun admission_value :: "RiskAdmissionDecision \<Rightarrow> string" where
  "admission_value AD_APPROVE = ''approve''"
| "admission_value AD_REDUCE = ''reduce''"
| "admission_value AD_REJECT = ''reject''"
| "admission_value AD_FREEZE = ''freeze''"
| "admission_value AD_KILL_PROTECTED = ''kill_protected''"

datatype DrawdownStage =
    DD_NORMAL
  | DD_MILD_THROTTLE
  | DD_REDUCED_RISK
  | DD_RESTRICTED_RISK
  | DD_FREEZE
  | DD_KILL_PROTECTED
  | DD_RECOVERY

datatype HeatRegime =
    HEAT_COOL
  | HEAT_WARM
  | HEAT_HOT
  | HEAT_CRITICAL
  | HEAT_STRESSED

datatype ConcentrationState =
    CONC_DIVERSIFIED
  | CONC_ELEVATED
  | CONC_CROWDED
  | CONC_STRESSED
  | CONC_BLOCKED

datatype KillSwitchScope =
    KS_SYMBOL
  | KS_STRATEGY
  | KS_CLUSTER
  | KS_ACCOUNT

fun scope_value :: "KillSwitchScope \<Rightarrow> string" where
  "scope_value KS_SYMBOL = ''symbol''"
| "scope_value KS_STRATEGY = ''strategy''"
| "scope_value KS_CLUSTER = ''cluster''"
| "scope_value KS_ACCOUNT = ''account''"

datatype KillSwitchStatus =
    KILL_DISARMED
  | KILL_ARMED
  | KILL_TRIPPED
  | KILL_LATCHED

fun kill_status_value :: "KillSwitchStatus \<Rightarrow> string" where
  "kill_status_value KILL_DISARMED = ''disarmed''"
| "kill_status_value KILL_ARMED = ''armed''"
| "kill_status_value KILL_TRIPPED = ''tripped''"
| "kill_status_value KILL_LATCHED = ''latched''"

datatype RecoveryStage =
    REC_NONE
  | REC_INELIGIBLE
  | REC_COOLDOWN
  | REC_MANUAL_REVIEW
  | REC_STAGED
  | REC_CLEARED

datatype ControlBreachType =
    BR_FAT_FINGER
  | BR_MAX_ORDER_SIZE
  | BR_MAX_INTRADAY_POSITION
  | BR_MAX_NOTIONAL
  | BR_PRICE_COLLAR
  | BR_SLIPPAGE
  | BR_DUPLICATE
  | BR_BURST
  | BR_STALE_QUOTE
  | BR_UNREASONABLE_MARKET_DATA
  | BR_ROUTE
  | BR_CANCEL_ON_DISCONNECT

fun breach_value :: "ControlBreachType \<Rightarrow> string" where
  "breach_value BR_FAT_FINGER = ''fat_finger''"
| "breach_value BR_MAX_ORDER_SIZE = ''max_order_size''"
| "breach_value BR_MAX_INTRADAY_POSITION = ''max_intraday_position''"
| "breach_value BR_MAX_NOTIONAL = ''max_notional''"
| "breach_value BR_PRICE_COLLAR = ''price_collar''"
| "breach_value BR_SLIPPAGE = ''slippage''"
| "breach_value BR_DUPLICATE = ''duplicate''"
| "breach_value BR_BURST = ''burst''"
| "breach_value BR_STALE_QUOTE = ''stale_quote''"
| "breach_value BR_UNREASONABLE_MARKET_DATA = ''unreasonable_market_data''"
| "breach_value BR_ROUTE = ''route''"
| "breach_value BR_CANCEL_ON_DISCONNECT = ''cancel_on_disconnect''"

datatype RiskMode =
    MODE_NORMAL
  | MODE_THROTTLE
  | MODE_PROTECTION
  | MODE_FREEZE
  | MODE_CLOSE_ONLY
  | MODE_NO_NEW_RISK
  | MODE_KILL_PROTECTED
  | MODE_MANUAL_REVIEW
  | MODE_RECOVERY

fun mode_value :: "RiskMode \<Rightarrow> string" where
  "mode_value MODE_NORMAL = ''normal''"
| "mode_value MODE_THROTTLE = ''throttle''"
| "mode_value MODE_PROTECTION = ''protection''"
| "mode_value MODE_FREEZE = ''freeze''"
| "mode_value MODE_CLOSE_ONLY = ''close_only''"
| "mode_value MODE_NO_NEW_RISK = ''no_new_risk''"
| "mode_value MODE_KILL_PROTECTED = ''kill_protected''"
| "mode_value MODE_MANUAL_REVIEW = ''manual_review''"
| "mode_value MODE_RECOVERY = ''recovery''"

datatype RiskSeverity =
    SEV_INFO
  | SEV_LOW
  | SEV_MEDIUM
  | SEV_HIGH
  | SEV_CRITICAL

datatype HandoffEligibility =
    HO_INELIGIBLE
  | HO_ELIGIBLE_PENDING_PM5
  | HO_BLOCKED_KILL
  | HO_BLOCKED_CONTROLS
  | HO_BLOCKED_DEGRADED

fun handoff_value :: "HandoffEligibility \<Rightarrow> string" where
  "handoff_value HO_INELIGIBLE = ''ineligible''"
| "handoff_value HO_ELIGIBLE_PENDING_PM5 = ''eligible_pending_pm5''"
| "handoff_value HO_BLOCKED_KILL = ''blocked_kill''"
| "handoff_value HO_BLOCKED_CONTROLS = ''blocked_controls''"
| "handoff_value HO_BLOCKED_DEGRADED = ''blocked_degraded''"

datatype RiskEventType =
    EV_ADMISSION
  | EV_SIZING
  | EV_HEAT
  | EV_CONCENTRATION
  | EV_DRAWDOWN
  | EV_PRETRADE
  | EV_KILL_SWITCH
  | EV_RECOVERY
  | EV_INCIDENT
  | EV_GOVERNANCE
  | EV_PUBLICATION


text \<open>
  \<^verbatim>\<open>RiskRejectionReason(raw)\<close>: the member with that value, \<^verbatim>\<open>ValueError\<close>
  (here \<open>None\<close>) when there is none.
\<close>

definition rejection_all :: "RiskRejectionReason list" where
  "rejection_all =
     [RJ_ENGINE_UNAVAILABLE, RJ_NOT_READY, RJ_LIVE_DISABLED, RJ_EXPOSURE_LIMIT, RJ_DRAWDOWN_LIMIT,
      RJ_STALE_DATA, RJ_LEDGER_INCONSISTENT, RJ_KILL_SWITCH, RJ_INVALID_INTENT, RJ_POLICY,
      RJ_UNKNOWN_STATE, RJ_MISSING_FORECAST, RJ_MISSING_CANDIDATE, RJ_FORECAST_INVALID,
      RJ_HANDOFF_INELIGIBLE, RJ_CONCENTRATION_LIMIT, RJ_HEAT_LIMIT, RJ_DUPLICATE_INTENT,
      RJ_SESSION_RESTRICTED, RJ_LIQUIDITY, RJ_SIZE_ZERO, RJ_FAT_FINGER, RJ_PRICE_COLLAR,
      RJ_BURST_THROTTLE, RJ_DEGRADED_MODE, RJ_RECOVERY_GATE, RJ_LOOKAHEAD, RJ_BUDGET_EXHAUSTED,
      RJ_FEATURE_DISABLED, RJ_CLOSE_ONLY, RJ_NO_NEW_RISK, RJ_SYMBOL_MISMATCH, RJ_STOP_MISSING,
      RJ_ROUTE_INELIGIBLE, RJ_MALFORMED]"

definition rejection_of :: "string \<Rightarrow> RiskRejectionReason option" where
  "rejection_of raw = find (\<lambda>r. rejection_value r = raw) rejection_all"

lemma rejection_of_value [simp]: "rejection_of (rejection_value r) = Some r"
  by (cases r) (simp_all add: rejection_of_def rejection_all_def)

lemma rejection_value_inj: "rejection_value r = rejection_value r' \<longleftrightarrow> r = r'"
  by (metis rejection_of_value option.inject)

subsection \<open>Models\<close>

record ExposureSnapshot =
  ex_as_of :: datetime
  gross_notional :: dec
  net_notional :: dec
  ex_open_position_count :: nat
  heat_r :: dec
  ex_equity :: dec
  realized_pnl :: dec
  unrealized_pnl :: dec
  ex_peak_equity :: dec
  intraday_pnl :: dec
  ex_losing_streak :: nat
  ex_pending_order_count :: nat
  ex_symbols :: "string list"
  ex_clusters :: "string list"
  directional_net :: dec

record RiskVerdict =
  verdict_id :: uuid
  rv_intent_id :: uuid
  rv_event_id :: uuid
  rv_correlation_id :: uuid
  rv_causation_id :: "uuid option"
  rv_idempotency_key :: "string option"
  rv_occurred_at :: datetime
  rv_status :: RiskVerdictStatus
  rv_reasons :: "RiskRejectionReason list"
  rv_detail :: "string option"
  rv_expires_at :: "datetime option"
  rv_producer :: string
  recommended_volume :: "dec option"
  rv_handoff_eligibility :: HandoffEligibility

record RiskAdmissionCard =
  ac_decision :: RiskAdmissionDecision
  ac_tier :: RiskDecisionTier
  ac_reasons :: "string list"
  ac_active_controls :: "string list"
  ac_trace_id :: uuid
  ac_vetoes :: "string list"
  ac_detail :: string

record RiskBudgetCard =
  account_budget :: dec
  sleeve_budget :: dec
  regime_budget :: dec
  cluster_budget :: dec
  symbol_budget :: dec
  candidate_budget :: dec
  residual_headroom :: dec
  consumed_headroom :: dec
  bc_proposed_risk :: dec
  bc_throttle_factor :: dec
  bc_tree :: "(string, dec) dict"

record PositionSizingDecision =
  recommended_size :: dec
  size_unit :: string
  base_risk_percentage :: dec
  adjusted_risk_percentage :: dec
  ps_stop_distance :: dec
  stop_distance_basis :: string
  ps_uncertainty_discount :: dec
  predictive_quality_factor :: dec
  drawdown_throttle :: dec
  ps_liquidity_factor :: dec
  correlation_penalty :: dec
  heat_cap_factor :: dec
  hard_cap_applied :: bool
  ps_account_equity :: dec
  risk_amount :: dec

record PortfolioHeatCard =
  raw_heat :: dec
  effective_heat :: dec
  cluster_heat :: dec
  ph_directional_heat :: dec
  session_heat :: dec
  residual_heat_headroom :: dec
  heat_regime :: HeatRegime
  stressed_heat :: dec
  proposed_incremental_heat :: dec

record ConcentrationExposureCard =
  symbol_overlap :: "string list"
  currency_overlap :: "string list"
  cluster_exposure :: "(string, dec) dict"
  crowding_penalty :: dec
  stressed_concentration_state :: ConcentrationState
  usd_concentration :: dec
  european_basket :: dec
  one_per_cluster_blocked :: bool
  ce_cluster_id :: "string option"

record DrawdownStateCard =
  current_drawdown :: dec
  peak_to_trough_drawdown :: dec
  intraday_loss :: dec
  ds_losing_streak :: nat
  throttle_stage :: DrawdownStage
  protection_stage :: DrawdownStage
  freeze_state :: bool
  ds_throttle_factor :: dec

record PreTradeControlDecision =
  pt_passed :: bool
  breach_reasons :: "ControlBreachType list"
  order_size_legal :: bool
  price_legal :: bool
  message_legal :: bool
  route_eligible :: bool
  pt_checks :: "(string, bool) dict"
  pt_detail :: string

record KillSwitchState =
  ks_status :: KillSwitchStatus
  ks_scope :: KillSwitchScope
  ks_scope_id :: "string option"
  trigger_reason :: "string option"
  cancel_orders_status :: string
  new_order_block_status :: bool
  risk_reducing_order_policy :: bool
  recovery_eligibility :: RecoveryStage
  ks_tripped_at :: "datetime option"
  ks_actor :: "string option"

text \<open>
  The publication bundle. Its two informational dictionaries keep the entries that vary:
  of the diagnostics the mode, the feature flag and the stop distance, of the audit
  summary the number of entries and the last summary line.
\<close>

record RiskPublicationBundle =
  bundle_id :: uuid
  rb_event_id :: uuid
  rb_correlation_id :: uuid
  rb_causation_id :: "uuid option"
  rb_idempotency_key :: "string option"
  rb_occurred_at :: datetime
  rb_intent_id :: uuid
  rb_candidate_id :: "uuid option"
  rb_forecast_id :: "uuid option"
  rb_symbol :: string
  rb_verdict :: RiskVerdict
  rb_admission :: RiskAdmissionCard
  rb_budget :: RiskBudgetCard
  rb_sizing :: PositionSizingDecision
  rb_heat :: PortfolioHeatCard
  rb_concentration :: ConcentrationExposureCard
  rb_drawdown :: DrawdownStateCard
  rb_pretrade :: PreTradeControlDecision
  rb_kill_switch :: KillSwitchState
  rb_diagnostics :: "RiskMode \<times> bool \<times> dec"
  rb_audit_summary :: "nat \<times> string option"
  rb_handoff_eligibility :: HandoffEligibility
  execution_permitted :: bool
  rb_producer :: string
  rb_risk_mode :: RiskMode

text \<open>The model validator of the bundle.\<close>

definition never_an_order :: "RiskPublicationBundle \<Rightarrow> py_exn + RiskPublicationBundle" where
  "never_an_order b =
     (if execution_permitted b
      then Inl (ValueError (''RiskPublicationBundle.execution_permitted must stay false; '' @
        ''PM4 does not authorize broker execution in Sequence 06''))
      else Inr b)"

end
