(* ===== verification/ExecContracts.thy ===== *)
theory ExecContracts
  imports RiskContracts
begin

section \<open>Contracts of the execution fabric\<close>

text \<open>
  The Sequence 07 contracts of \<^verbatim>\<open>contracts/v1/execution.py\<close> and the knobs of
  \<^verbatim>\<open>pm5_execution/config/schema.py\<close>: enumerations as datatypes, frozen models as
  records, the model validators as functions into \<open>py_exn + 'a\<close>. Enumeration
  constructors carry a short prefix where two enumerations share a member name.
\<close>

subsection \<open>Enumerations\<close>

datatype ExecutionMode =
    EM_DISABLED
  | EM_SHADOW
  | EM_SIMULATION
  | EM_DEMO_CANDIDATE
  | EM_DEMO_ENABLED
  | EM_LIVE

datatype ExecutionLifecycleState =
    INTENT_CREATED
  | VALIDATED
  | BLOCKED
  | QUEUED
  | SUBMITTED
  | ACKNOWLEDGED
  | PARTIALLY_FILLED
  | FILLED
  | CANCEL_REQUESTED
  | CANCELLED
  | MODIFY_REQUESTED
  | MODIFIED
  | REJECTED
  | EXPIRED
  | RECONCILIATION_PENDING
  | RECONCILED
  | MISMATCH_DETECTED
  | RECOVERY_PENDING
  | RECOVERED
  | FROZEN

fun lifecycle_value :: "ExecutionLifecycleState \<Rightarrow> string" where
  "lifecycle_value INTENT_CREATED = ''intent_created''"
| "lifecycle_value VALIDATED = ''validated''"
| "lifecycle_value BLOCKED = ''blocked''"
| "lifecycle_value QUEUED = ''queued''"
| "lifecycle_value SUBMITTED = ''submitted''"
| "lifecycle_value ACKNOWLEDGED = ''acknowledged''"
| "lifecycle_value PARTIALLY_FILLED = ''partially_filled''"
| "lifecycle_value FILLED = ''filled''"
| "lifecycle_value CANCEL_REQUESTED = ''cancel_requested''"
| "lifecycle_value CANCELLED = ''cancelled''"
| "lifecycle_value MODIFY_REQUESTED = ''modify_requested''"
| "lifecycle_value MODIFIED = ''modified''"
| "lifecycle_value REJECTED = ''rejected''"
| "lifecycle_value EXPIRED = ''expired''"
| "lifecycle_value RECONCILIATION_PENDING = ''reconciliation_pending''"
| "lifecycle_value RECONCILED = ''reconciled''"
| "lifecycle_value MISMATCH_DETECTED = ''mismatch_detected''"
| "lifecycle_value RECOVERY_PENDING = ''recovery_pending''"
| "lifecycle_value RECOVERED = ''recovered''"
| "lifecycle_value FROZEN = ''frozen''"

datatype ExecutionRejectReason =
    RR_MISSING_AUTHORIZATION
  | RR_PM4_DENY
  | RR_EXECUTION_NOT_PERMITTED
  | RR_STALE_INTENT
  | RR_LOOKAHEAD
  | RR_SCHEMA_MISMATCH
  | RR_UNSUPPORTED_SYMBOL
  | RR_UNSUPPORTED_SIDE
  | RR_INVALID_QUANTITY
  | RR_QUANTITY_EXCEEDS_PM4
  | RR_INVALID_ORDER_TYPE
  | RR_MISSING_TRACE
  | RR_DUPLICATE_CONFLICT
  | RR_KILL_SWITCH
  | RR_CONTROL_BLOCKED
  | RR_FEATURE_DISABLED
  | RR_BROKER_UNAVAILABLE
  | RR_MODE_DISABLED
  | RR_LIVE_BLOCKED
  | RR_SESSION_NOT_EXECUTABLE
  | RR_RECONCILIATION_CRITICAL
  | RR_THROTTLED
  | RR_IDEMPOTENT_REPLAY
  | RR_ADAPTER_DISABLED

fun reject_value :: "ExecutionRejectReason \<Rightarrow> string" where
  "reject_value RR_MISSING_AUTHORIZATION = ''missing_authorization''"
| "reject_value RR_PM4_DENY = ''pm4_deny''"
| "reject_value RR_EXECUTION_NOT_PERMITTED = ''execution_not_permitted''"
| "reject_value RR_STALE_INTENT = ''stale_intent''"
| "reject_value RR_LOOKAHEAD = ''lookahead''"
| "reject_value RR_SCHEMA_MISMATCH = ''schema_mismatch''"
| "reject_value RR_UNSUPPORTED_SYMBOL = ''unsupported_symbol''"
| "reject_value RR_UNSUPPORTED_SIDE = ''unsupported_side''"
| "reject_value RR_INVALID_QUANTITY = ''invalid_quantity''"
| "reject_value RR_QUANTITY_EXCEEDS_PM4 = ''quantity_exceeds_pm4''"
| "reject_value RR_INVALID_ORDER_TYPE = ''invalid_order_type''"
| "reject_value RR_MISSING_TRACE = ''missing_trace''"
| "reject_value RR_DUPLICATE_CONFLICT = ''duplicate_conflict''"
| "reject_value RR_KILL_SWITCH = ''kill_switch''"
| "reject_value RR_CONTROL_BLOCKED = ''control_blocked''"
| "reject_value RR_FEATURE_DISABLED = ''feature_disabled''"
| "reject_value RR_BROKER_UNAVAILABLE = ''broker_unavailable''"
| "reject_value RR_MODE_DISABLED = ''mode_disabled''"
| "reject_value RR_LIVE_BLOCKED = ''live_blocked''"
| "reject_value RR_SESSION_NOT_EXECUTABLE = ''session_not_executable''"
| "reject_value RR_RECONCILIATION_CRITICAL = ''reconciliation_critical''"
| "reject_value RR_THROTTLED = ''throttled''"
| "reject_value RR_IDEMPOTENT_REPLAY = ''idempotent_replay''"
| "reject_value RR_ADAPTER_DISABLED = ''adapter_disabled''"

datatype ReconciliationOutcome =
    RO_PASS
  | RO_MISMATCH
  | RO_DEGRADED
  | RO_CRITICAL

datatype Pm5OperatingState =
    OS_NORMAL
  | OS_THROTTLED
  | OS_DEGRADED
  | OS_RECONCILIATION_WARNING
  | OS_RECONCILIATION_CRITICAL
  | OS_CLOSE_ONLY
  | OS_FREEZE_NEW_ORDERS
  | OS_EMERGENCY_CANCEL
  | OS_MANUAL_REVIEW_REQUIRED
  | OS_ORDERLY_WITHDRAWAL
  | OS_RECOVERY_REPLAY
  | OS_RECOVERED

datatype ControlActionType =
    CA_CANCEL_ORDER
  | CA_CANCEL_GROUP
  | CA_CANCEL_ALL
  | CA_BLOCK_NEW
  | CA_FREEZE
  | CA_CLOSE_ONLY
  | CA_NO_NEW_RISK
  | CA_EMERGENCY_CANCEL
  | CA_MANUAL_REVIEW
  | CA_RECOVERY_REQUEST
  | CA_REENABLE

datatype ControlScope =
    SC_SYMBOL
  | SC_STRATEGY
  | SC_CLUSTER
  | SC_ACCOUNT
  | SC_GLOBAL

datatype BrokerEventType =
    BE_DISABLED
  | BE_SIMULATED_ACK
  | BE_SIMULATED_FILL
  | BE_SIMULATED_CANCEL
  | BE_SIMULATED_REJECT
  | BE_UNAVAILABLE
  | BE_TIMEOUT
  | BE_ERROR


subsection \<open>Models\<close>

record ReconciliationRecord =
  record_id :: uuid
  rc_as_of :: datetime
  consistent :: bool
  ledger_position_count :: nat
  broker_position_count :: nat
  rc_notes :: string
  rc_outcome :: ReconciliationOutcome
  mismatch_type :: "string option"
  rc_severity :: string
  local_state :: "(string, nat) dict"
  broker_state :: "(string, bool) dict"
  rc_recommended_action :: string
  remediation_status :: string
  rc_broker_truth_available :: bool

record NormalizedExecutionCommand =
  command_id :: uuid
  cm_order_id :: uuid
  cm_pm4_decision_id :: uuid
  cm_symbol :: string
  cm_direction :: Direction
  cm_approved_quantity :: dec
  cm_requested_quantity :: dec
  cm_order_type :: string
  cm_entry_price :: "dec option"
  cm_stop_price :: "dec option"
  slippage_tolerance :: dec
  cm_expiry :: "datetime option"
  urgency :: string
  cm_execution_policy :: string
  route_restrictions :: "string list"
  cm_idempotency_key :: string
  cm_correlation_id :: uuid
  cm_causation_id :: "uuid option"
  broker_eligible :: bool

text \<open>The model validator \<^verbatim>\<open>NormalizedExecutionCommand._qty\<close>.\<close>

definition command_qty_ok ::
  "NormalizedExecutionCommand \<Rightarrow> py_exn + NormalizedExecutionCommand" where
  "command_qty_ok c =
     (if cm_approved_quantity c < cm_requested_quantity c
      then Inl (ValueError ''PM5 cannot request quantity above PM4 approved size'')
      else if cm_requested_quantity c < 0 \<or> cm_approved_quantity c < 0
      then Inl (ValueError ''quantity must be >= 0'')
      else Inr c)"

text \<open>The payloads the replay log keeps.\<close>

datatype replay_item =
    R_lifecycle "ExecutionLifecycleState option" ExecutionLifecycleState string string string datetime
  | R_command bool dec
  | R_fill string dec "string option"

record OrderLifecycleEvent =
  le_event_id :: uuid
  le_order_id :: uuid
  le_occurred_at :: datetime
  from_state :: "ExecutionLifecycleState option"
  to_state :: ExecutionLifecycleState
  le_reason :: string
  le_actor :: string
  le_source :: string
  le_correlation_id :: uuid

record OrderRecord =
  order_id :: uuid
  intent_id :: uuid
  pm4_decision_id :: uuid
  idempotency_key :: string
  correlation_id :: uuid
  causation_id :: "uuid option"
  occurred_at :: datetime
  symbol :: string
  direction :: Direction
  entry_type :: EntryType
  original_quantity :: dec
  remaining_quantity :: dec
  filled_quantity :: dec
  state :: ExecutionLifecycleState
  broker_ticket :: "string option"
  broker_side_effect :: bool
  simulation :: bool
  stop_price :: "dec option"
  entry_price :: "dec option"
  average_fill_price :: "dec option"
  reject_reason :: "ExecutionRejectReason option"
  detail :: string

record BrokerAckEvent =
  ba_event_id :: uuid
  ba_order_id :: uuid
  ba_occurred_at :: datetime
  ba_kind :: BrokerEventType
  ba_ticket :: "string option"
  ba_message :: string

record FillEvent =
  fill_id :: uuid
  fl_order_id :: uuid
  fl_occurred_at :: datetime
  fl_quantity :: dec
  fl_price :: dec
  fl_source :: string
  fl_ticket :: "string option"

record ControlActionRecord =
  action_id :: uuid
  ca_occurred_at :: datetime
  ca_action :: ControlActionType
  ca_scope :: ControlScope
  ca_scope_id :: "string option"
  ca_actor :: string
  ca_reason :: string
  trigger_source :: string
  affected_order_ids :: "uuid list"
  ca_result :: string

record SurveillanceAlert =
  alert_id :: uuid
  sa_occurred_at :: datetime
  sa_severity :: string
  sa_category :: string
  sa_detector :: string
  observed :: "(string, int) dict"
  thresholds :: "(string, nat) dict"
  sa_scope :: string
  sa_trace_id :: "uuid option"
  sa_recommended_action :: string
  automatic_protection :: bool

record ExecutionQualityReport =
  eq_as_of :: datetime
  decision_to_submit_ms :: "int option"
  submit_to_ack_ms :: "int option"
  ack_to_fill_ms :: "int option"
  total_completion_ms :: "int option"
  realized_slippage :: "dec option"
  reject_rate :: "dec option"
  partial_fill_ratio :: "dec option"
  cancel_ratio :: "dec option"
  success_rate :: "dec option"
  sample_size :: nat
  data_status :: string
  eq_dimensions :: "(string \<times> uuid) option"

record ExposureState =
  es_as_of :: datetime
  working_orders :: nat
  open_positions :: nat
  working_quantity :: dec
  position_quantity :: dec
  es_remaining_quantity :: dec
  expected_exposure :: dec
  broker_exposure :: "dec option"
  exposure_delta :: "dec option"
  reconciliation_status :: ReconciliationOutcome
  last_broker_refresh :: "datetime option"
  es_stale :: bool
  es_broker_truth_available :: bool

record ExecutionIntentReceipt =
  accepted :: bool
  rp_order_id :: "uuid option"
  rp_state :: "ExecutionLifecycleState option"
  rp_reasons :: "ExecutionRejectReason list"
  rp_detail :: string
  rp_broker_side_effect :: bool
  rp_simulation :: bool
  idempotent_replay :: bool

record ReplayBundle =
  rpb_bundle_id :: uuid
  rpb_order_id :: uuid
  rpb_events :: "replay_item list"
  deterministic :: bool

record ExecutionPublicationBundle =
  eb_bundle_id :: uuid
  eb_occurred_at :: datetime
  eb_order :: "OrderRecord option"
  eb_receipt :: ExecutionIntentReceipt
  eb_command :: "NormalizedExecutionCommand option"
  eb_lifecycle :: "OrderLifecycleEvent list"
  eb_fills :: "FillEvent list"
  eb_control :: "ControlActionRecord list"
  eb_reconciliation :: "ReconciliationRecord option"
  eb_exposure :: "ExposureState option"
  eb_quality :: "ExecutionQualityReport option"
  eb_alerts :: "SurveillanceAlert list"
  eb_operating_state :: Pm5OperatingState
  eb_execution_mode :: ExecutionMode
  eb_broker_side_effect :: bool
  eb_mt5_used :: bool
  eb_durable :: bool
  eb_producer :: string

text \<open>The model validator \<^verbatim>\<open>ExecutionPublicationBundle._no_live_send\<close>.\<close>

definition no_live_send ::
  "ExecutionPublicationBundle \<Rightarrow> py_exn + ExecutionPublicationBundle" where
  "no_live_send b =
     (if eb_mt5_used b then Inl (ValueError ''Sequence 07 forbids mt5_used=true'')
      else if eb_broker_side_effect b
      then Inl (ValueError ''Sequence 07 forbids broker_side_effect=true'')
      else if eb_execution_mode b \<in> {EM_LIVE, EM_DEMO_ENABLED}
      then Inl (ValueError ''Sequence 07 forbids live/demo_enabled publication'')
      else Inr b)"

subsection \<open>Configuration\<close>

record Pm5ExecutionConfig =
  operating_mode :: string
  observe_only :: bool
  allowed_order_types :: "string list"
  symbol_allowlist :: "string list"
  execution_policy :: string
  stale_ttl_seconds :: int
  idempotency_ttl_seconds :: int
  submit_timeout_ms :: int
  max_retries :: int
  submit_burst :: nat
  reject_burst :: nat
  cancel_burst :: nat
  modify_burst :: nat
  burst_window_seconds :: int
  recovery_cooldown_seconds :: int
  require_manual_recovery :: bool
  auto_rearm :: bool
  broker_adapter_enabled :: bool
  mt5_enabled :: bool
  simulation_auto_fill :: bool
  slippage_limit :: dec
  cancel_on_disconnect :: bool
  telemetry_verbose :: bool

text \<open>The field constraints and validators of \<^verbatim>\<open>Pm5ExecutionConfig\<close>.\<close>

definition pm5_config_ok :: "Pm5ExecutionConfig \<Rightarrow> bool" where
  "pm5_config_ok c \<longleftrightarrow>
     operating_mode c \<in> {''disabled'', ''shadow'', ''simulation''} \<and>
     60 \<le> stale_ttl_seconds c \<and> 1 \<le> idempotency_ttl_seconds c \<and> 1 \<le> submit_timeout_ms c \<and> 0 \<le> max_retries c \<and> max_retries c \<le> 5 \<and>
     1 \<le> submit_burst c \<and> 1 \<le> reject_burst c \<and> 1 \<le> cancel_burst c \<and> 1 \<le> modify_burst c \<and>
     1 \<le> burst_window_seconds c \<and> 1 \<le> recovery_cooldown_seconds c \<and>
     \<not> auto_rearm c \<and> \<not> broker_adapter_enabled c \<and> \<not> mt5_enabled c"

definition pm5_config_default :: Pm5ExecutionConfig where
  "pm5_config_default =
     \<lparr>operating_mode = ''disabled'', observe_only = True, allowed_order_types = [''market'', ''limit''],
      symbol_allowlist = [''EURUSD'', ''GBPUSD'', ''USDJPY'', ''AUDUSD''],
      execution_policy = ''simulation_only'', stale_ttl_seconds = 14400,
      idempotency_ttl_seconds = 86400, submit_timeout_ms = 5000, max_retries = 2, submit_burst = 8, reject_burst = 6,
      cancel_burst = 12, modify_burst = 8, burst_window_seconds = 60,
      recovery_cooldown_seconds = 300, require_manual_recovery = True, auto_rearm = False, broker_adapter_enabled = False,
      mt5_enabled = False, simulation_auto_fill = True,
      slippage_limit = 5/10000, cancel_on_disconnect = True, telemetry_verbose = True\<rparr>"

lemma pm5_config_default_ok [simp]: "pm5_config_ok pm5_config_default"
  by (simp add: pm5_config_ok_def pm5_config_default_def)

end
