(* ===== verification/Oms.thy ===== *)
theory Oms
  imports ExecContracts
begin

section \<open>The order management system\<close>

text \<open>
  \<^verbatim>\<open>pm5_execution/domain/states.py\<close>, \<^verbatim>\<open>oms/state_machine.py\<close> and
  \<^verbatim>\<open>oms/core.py\<close>: the transition table of the order lifecycle, the guarded
  transition, and the in-memory order book with its event log, idempotency index and
  payload index.

  The lemmas establish the audit property of the book: for every order the logged events
  form a path through the transition table that starts at the creation event and ends in
  the state the book holds (\<open>oms_inv\<close>), and this is kept by every operation.
\<close>

subsection \<open>The transition table\<close>

fun TRANSITIONS :: "ExecutionLifecycleState \<Rightarrow> ExecutionLifecycleState list" where
  "TRANSITIONS INTENT_CREATED = [VALIDATED, BLOCKED, REJECTED]"
| "TRANSITIONS VALIDATED = [QUEUED, BLOCKED, FROZEN, REJECTED]"
| "TRANSITIONS QUEUED = [SUBMITTED, BLOCKED, FROZEN, REJECTED, CANCEL_REQUESTED]"
| "TRANSITIONS SUBMITTED = [ACKNOWLEDGED, REJECTED, BLOCKED, RECONCILIATION_PENDING]"
| "TRANSITIONS ACKNOWLEDGED =
     [PARTIALLY_FILLED, FILLED, CANCEL_REQUESTED, MODIFY_REQUESTED, EXPIRED, FROZEN]"
| "TRANSITIONS PARTIALLY_FILLED = [PARTIALLY_FILLED, FILLED, CANCEL_REQUESTED, EXPIRED]"
| "TRANSITIONS FILLED = [RECONCILIATION_PENDING, RECONCILED]"
| "TRANSITIONS CANCEL_REQUESTED = [CANCELLED, ACKNOWLEDGED, REJECTED]"
| "TRANSITIONS CANCELLED = [RECONCILIATION_PENDING, RECONCILED]"
| "TRANSITIONS MODIFY_REQUESTED = [MODIFIED, ACKNOWLEDGED, REJECTED]"
| "TRANSITIONS MODIFIED = [ACKNOWLEDGED, QUEUED]"
| "TRANSITIONS REJECTED = []"
| "TRANSITIONS EXPIRED = [RECONCILIATION_PENDING]"
| "TRANSITIONS BLOCKED = [FROZEN, REJECTED, QUEUED, RECOVERY_PENDING]"
| "TRANSITIONS FROZEN = [RECOVERY_PENDING, REJECTED]"
| "TRANSITIONS RECONCILIATION_PENDING = [RECONCILED, MISMATCH_DETECTED]"
| "TRANSITIONS RECONCILED = []"
| "TRANSITIONS MISMATCH_DETECTED = [RECOVERY_PENDING, FROZEN]"
| "TRANSITIONS RECOVERY_PENDING = [RECOVERED, FROZEN]"
| "TRANSITIONS RECOVERED = [QUEUED, BLOCKED]"

definition TERMINAL :: "ExecutionLifecycleState list" where
  "TERMINAL = [REJECTED, RECONCILED]"

definition can_transition :: "ExecutionLifecycleState \<Rightarrow> ExecutionLifecycleState \<Rightarrow> bool" where
  "can_transition current target \<longleftrightarrow> target \<in> set (TRANSITIONS current)"

text \<open>Terminal states are exactly the states without successor.\<close>

lemma terminal_iff_no_successor: "s \<in> set TERMINAL \<longleftrightarrow> TRANSITIONS s = []"
  by (cases s) (simp_all add: TERMINAL_def)

subsection \<open>One transition\<close>

text \<open>
  \<^verbatim>\<open>apply_transition\<close>: the keyword updates of the call are a function \<open>upd\<close> on the
  record, applied with the new state; \<open>eid\<close> is the fresh event identifier.
\<close>

definition apply_transition ::
  "uuid \<Rightarrow> OrderRecord \<Rightarrow> ExecutionLifecycleState \<Rightarrow> datetime \<Rightarrow> string \<Rightarrow> string \<Rightarrow> string \<Rightarrow>
   (OrderRecord \<Rightarrow> OrderRecord) \<Rightarrow> py_exn + (OrderRecord \<times> OrderLifecycleEvent)" where
  "apply_transition eid r target now reason actor source upd =
     (if state r \<in> set TERMINAL
      then Inl (IllegalTransition (''terminal state '' @ lifecycle_value (state r) @ '' cannot move''))
      else if \<not> (state r = target \<and> target = PARTIALLY_FILLED) \<and> \<not> can_transition (state r) target
      then Inl (IllegalTransition (lifecycle_value (state r) @ '' -> '' @ lifecycle_value target @ '' is illegal''))
      else Inr (upd (r\<lparr>state := target\<rparr>),
                \<lparr>le_event_id = eid, le_order_id = order_id r, le_occurred_at = now,
                 from_state = Some (state r), to_state = target, le_reason = reason,
                 le_actor = actor, le_source = source, le_correlation_id = correlation_id r\<rparr>))"

text \<open>
  The guard is exactly the table: the special case for a repeated partial fill is covered
  by the table's own loop.
\<close>

lemma apply_transition_ok_iff:
  "(\<exists>x. apply_transition eid r t now re ac so upd = Inr x) \<longleftrightarrow> can_transition (state r) t"
  by (cases "state r") (auto simp: apply_transition_def can_transition_def TERMINAL_def)

lemma apply_transition_Inr:
  assumes "can_transition (state r) t"
  shows "apply_transition eid r t now re ac so upd =
    Inr (upd (r\<lparr>state := t\<rparr>),
         \<lparr>le_event_id = eid, le_order_id = order_id r, le_occurred_at = now,
          from_state = Some (state r), to_state = t, le_reason = re,
          le_actor = ac, le_source = so, le_correlation_id = correlation_id r\<rparr>)"
proof -
  have "state r \<notin> set TERMINAL"
    using assms by (auto simp: terminal_iff_no_successor can_transition_def)
  then show ?thesis using assms by (simp add: apply_transition_def)
qed

lemma apply_transition_Inl:
  assumes "\<not> can_transition (state r) t"
  shows "\<exists>m. apply_transition eid r t now re ac so upd = Inl (IllegalTransition m)"
proof -
  have "\<not> (state r = t \<and> t = PARTIALLY_FILLED)"
    using assms by (auto simp: can_transition_def)
  then show ?thesis using assms by (simp add: apply_transition_def)
qed

subsection \<open>The order book\<close>

type_synonym oms_payload = "string \<times> Direction \<times> dec"

record oms =
  om_orders :: "(uuid, OrderRecord) dict"
  om_events :: "(uuid, OrderLifecycleEvent list) dict"
  om_by_key :: "(string, uuid) dict"
  om_payload :: "(string, oms_payload) dict"

definition oms_init :: oms where
  "oms_init = \<lparr>om_orders = [], om_events = [], om_by_key = [], om_payload = []\<rparr>"

definition oms_get :: "oms \<Rightarrow> uuid \<Rightarrow> OrderRecord option" where
  "oms_get m oid = dict_get (om_orders m) oid"

definition oms_by_key :: "oms \<Rightarrow> string \<Rightarrow> OrderRecord option" where
  "oms_by_key m key = (case dict_get (om_by_key m) key of None \<Rightarrow> None | Some oid \<Rightarrow> oms_get m oid)"

definition oms_events :: "oms \<Rightarrow> uuid \<Rightarrow> OrderLifecycleEvent list" where
  "oms_events m oid = dict_list (om_events m) oid"

definition oms_all_orders :: "oms \<Rightarrow> OrderRecord list" where
  "oms_all_orders m = dict_values (om_orders m)"

definition oms_put_new :: "OrderRecord \<Rightarrow> OrderLifecycleEvent \<Rightarrow> oms \<Rightarrow> oms" where
  "oms_put_new r ev m =
     m\<lparr>om_orders := dict_put (order_id r) r (om_orders m),
       om_events := dict_append (order_id r) ev (om_events m),
       om_by_key := dict_put (idempotency_key r) (order_id r) (om_by_key m),
       om_payload := dict_put (idempotency_key r) (symbol r, direction r, original_quantity r) (om_payload m)\<rparr>"

definition oms_payload_for :: "oms \<Rightarrow> string \<Rightarrow> oms_payload option" where
  "oms_payload_for m key = dict_get (om_payload m) key"

definition oms_transit ::
  "uuid \<Rightarrow> OrderRecord \<Rightarrow> ExecutionLifecycleState \<Rightarrow> datetime \<Rightarrow> string \<Rightarrow> string \<Rightarrow> string \<Rightarrow>
   (OrderRecord \<Rightarrow> OrderRecord) \<Rightarrow> oms \<Rightarrow> (py_exn + OrderRecord) \<times> oms" where
  "oms_transit eid r target now reason actor source upd m =
     (case apply_transition eid r target now reason actor source upd of
        Inl e \<Rightarrow> (Inl e, m)
      | Inr (nxt, event) \<Rightarrow>
          (Inr nxt, m\<lparr>om_orders := dict_put (order_id r) nxt (om_orders m),
                      om_events := dict_append (order_id r) event (om_events m)\<rparr>))"

text \<open>\<^verbatim>\<open>apply_fill\<close>: the quantities, the average price and the target state.\<close>

definition fill_quantities :: "OrderRecord \<Rightarrow> FillEvent \<Rightarrow> dec \<times> dec" where
  "fill_quantities r fill =
     (let filled = dadd (filled_quantity r) (fl_quantity fill);
          remaining = dsub (original_quantity r) filled
      in (filled, if remaining < 0 then 0 else remaining))"

definition fill_average :: "OrderRecord \<Rightarrow> FillEvent \<Rightarrow> dec \<Rightarrow> dec" where
  "fill_average r fill filled =
     (case average_fill_price r of
        Some avg \<Rightarrow>
          if filled_quantity r > 0
          then ddiv (dadd (dmul avg (filled_quantity r)) (dmul (fl_price fill) (fl_quantity fill))) filled
          else fl_price fill
      | None \<Rightarrow> fl_price fill)"

definition oms_apply_fill ::
  "uuid \<Rightarrow> OrderRecord \<Rightarrow> FillEvent \<Rightarrow> datetime \<Rightarrow> oms \<Rightarrow> (py_exn + OrderRecord) \<times> oms" where
  "oms_apply_fill eid r fill now m =
     (let (filled, remaining) = fill_quantities r fill;
          avg = fill_average r fill filled;
          target = (if remaining = 0 then FILLED else PARTIALLY_FILLED);
          ticket = (case fl_ticket fill of None \<Rightarrow> broker_ticket r
                    | Some t \<Rightarrow> if t = [] then broker_ticket r else Some t)
      in oms_transit eid r target now ''fill'' ''simulation_adapter'' ''ems''
           (\<lambda>x. x\<lparr>filled_quantity := filled, remaining_quantity := remaining,
                   average_fill_price := Some avg, broker_ticket := ticket\<rparr>) m)"

subsection \<open>Legal event logs\<close>

text \<open>
  A log of an order is legal for a state when it starts with the creation event and every
  further event moves along the table from the state before it.
\<close>

inductive legal_log :: "uuid \<Rightarrow> OrderLifecycleEvent list \<Rightarrow> ExecutionLifecycleState \<Rightarrow> bool"
  for oid where
  created: "from_state ev = None \<Longrightarrow> to_state ev = INTENT_CREATED \<Longrightarrow> le_order_id ev = oid \<Longrightarrow>
     legal_log oid [ev] INTENT_CREATED"
| moved: "legal_log oid evs s \<Longrightarrow> from_state ev = Some s \<Longrightarrow> to_state ev = t \<Longrightarrow>
     can_transition s t \<Longrightarrow> le_order_id ev = oid \<Longrightarrow> legal_log oid (evs @ [ev]) t"

inductive_cases legal_log_snocE: "legal_log oid (evs @ [ev]) t"

lemma legal_log_nonempty: "legal_log oid evs s \<Longrightarrow> evs \<noteq> []"
  by (induction rule: legal_log.induct) simp_all

lemma legal_log_last: "legal_log oid evs s \<Longrightarrow> to_state (last evs) = s"
  by (induction rule: legal_log.induct) simp_all

lemma legal_log_order: "legal_log oid evs s \<Longrightarrow> ev \<in> set evs \<Longrightarrow> le_order_id ev = oid"
  by (induction rule: legal_log.induct) auto

text \<open>Consecutive events are linked and follow the table.\<close>

lemma legal_log_linked:
  "legal_log oid evs s \<Longrightarrow> Suc i < length evs \<Longrightarrow>
   from_state (evs ! Suc i) = Some (to_state (evs ! i)) \<and>
   can_transition (to_state (evs ! i)) (to_state (evs ! Suc i))"
proof (induction rule: legal_log.induct)
  case (moved evs s ev t)
  show ?case
  proof (cases "Suc i < length evs")
    case True
    with moved.IH show ?thesis by (simp add: nth_append)
  next
    case False
    with moved.prems have i: "Suc i = length evs" by simp
    then have "evs ! i = last evs"
      using legal_log_nonempty [OF moved.hyps(1)] by (metis last_conv_nth diff_Suc_1)
    with i moved.hyps legal_log_last [OF moved.hyps(1)] show ?thesis
      by (simp add: nth_append)
  qed
qed simp

text \<open>No event follows a terminal state.\<close>

lemma legal_log_terminal_last:
  assumes "legal_log oid evs s" and "i < length evs" and "to_state (evs ! i) \<in> set TERMINAL"
  shows "Suc i = length evs"
proof (rule ccontr)
  assume "Suc i \<noteq> length evs"
  with assms(2) have "Suc i < length evs" by simp
  from legal_log_linked [OF assms(1) this] assms(3) show False
    by (simp add: terminal_iff_no_successor can_transition_def)
qed

subsection \<open>The invariant of the book\<close>

definition order_ok :: "oms \<Rightarrow> uuid \<Rightarrow> OrderRecord \<Rightarrow> bool" where
  "order_ok m oid r \<longleftrightarrow> order_id r = oid \<and> legal_log oid (oms_events m oid) (state r)"

definition index_ok :: "oms \<Rightarrow> string \<Rightarrow> uuid \<Rightarrow> bool" where
  "index_ok m key oid \<longleftrightarrow>
     (\<exists>r. oms_get m oid = Some r \<and> idempotency_key r = key \<and>
          oms_payload_for m key = Some (symbol r, direction r, original_quantity r))"

definition oms_inv :: "oms \<Rightarrow> bool" where
  "oms_inv m \<longleftrightarrow>
     distinct (map fst (om_orders m)) \<and>
     (\<forall>oid r. oms_get m oid = Some r \<longrightarrow> order_ok m oid r) \<and>
     (\<forall>oid. oms_get m oid = None \<longrightarrow> oms_events m oid = []) \<and>
     (\<forall>key oid. dict_get (om_by_key m) key = Some oid \<longrightarrow> index_ok m key oid)"

lemma oms_invI:
  assumes "distinct (map fst (om_orders m))"
    and "\<And>oid r. oms_get m oid = Some r \<Longrightarrow> order_ok m oid r"
    and "\<And>oid. oms_get m oid = None \<Longrightarrow> oms_events m oid = []"
    and "\<And>key oid. dict_get (om_by_key m) key = Some oid \<Longrightarrow> index_ok m key oid"
  shows "oms_inv m"
  using assms by (simp add: oms_inv_def)

lemma oms_invD:
  assumes "oms_inv m"
  shows "distinct (map fst (om_orders m))"
    and "oms_get m oid = Some r \<Longrightarrow> order_ok m oid r"
    and "oms_get m oid = None \<Longrightarrow> oms_events m oid = []"
    and "dict_get (om_by_key m) key = Some oid \<Longrightarrow> index_ok m key oid"
  using assms by (simp_all add: oms_inv_def)

text \<open>What the keyword updates of a transition leave alone.\<close>

definition upd_frame :: "(OrderRecord \<Rightarrow> OrderRecord) \<Rightarrow> bool" where
  "upd_frame upd \<longleftrightarrow>
     (\<forall>x. order_id (upd x) = order_id x \<and> state (upd x) = state x \<and>
          idempotency_key (upd x) = idempotency_key x \<and> symbol (upd x) = symbol x \<and>
          direction (upd x) = direction x \<and> original_quantity (upd x) = original_quantity x)"

lemma upd_frame_id [simp]: "upd_frame (\<lambda>x. x)"
  by (simp add: upd_frame_def)

lemma oms_init_inv [simp]: "oms_inv oms_init"
  by (rule oms_invI) (simp_all add: oms_init_def oms_get_def oms_events_def dict_simps dict_list_def)

lemma oms_inv_orderD:
  "oms_inv m \<Longrightarrow> oms_get m oid = Some r \<Longrightarrow>
   order_id r = oid \<and> legal_log oid (oms_events m oid) (state r)"
  by (simp add: oms_inv_def order_ok_def)

lemma oms_inv_by_keyD:
  assumes "oms_inv m" and "oms_by_key m key = Some r"
  shows "idempotency_key r = key" and "oms_get m (order_id r) = Some r"
    and "oms_payload_for m key = Some (symbol r, direction r, original_quantity r)"
proof -
  obtain oid where oid: "dict_get (om_by_key m) key = Some oid" "oms_get m oid = Some r"
    using assms(2) by (auto simp: oms_by_key_def split: option.splits)
  with oms_invD(4) [OF assms(1)] have "index_ok m key oid" by blast
  with oid show "idempotency_key r = key"
    and "oms_payload_for m key = Some (symbol r, direction r, original_quantity r)"
    by (auto simp: index_ok_def)
  from oid(2) oms_inv_orderD [OF assms(1)] show "oms_get m (order_id r) = Some r" by blast
qed

text \<open>Reading the book after a transition and after an insertion.\<close>

lemma oms_transit_Inr:
  assumes "can_transition (state r) t"
  shows "fst (oms_transit eid r t now re ac so upd m) = Inr (upd (r\<lparr>state := t\<rparr>))"
  by (simp add: oms_transit_def apply_transition_Inr [OF assms])

lemma oms_transit_Inl:
  assumes "\<not> can_transition (state r) t"
  shows "\<exists>msg. oms_transit eid r t now re ac so upd m = (Inl (IllegalTransition msg), m)"
proof -
  from apply_transition_Inl [OF assms] obtain msg
    where "apply_transition eid r t now re ac so upd = Inl (IllegalTransition msg)" by blast
  then show ?thesis by (simp add: oms_transit_def)
qed

lemma oms_get_transit:
  assumes "can_transition (state r) t"
  shows "oms_get (snd (oms_transit eid r t now re ac so upd m)) oid =
    (if oid = order_id r then Some (upd (r\<lparr>state := t\<rparr>)) else oms_get m oid)"
  by (simp add: oms_transit_def apply_transition_Inr [OF assms] oms_get_def dict_simps)

lemma oms_events_transit:
  assumes "can_transition (state r) t"
  shows "oms_events (snd (oms_transit eid r t now re ac so upd m)) oid =
    oms_events m oid @ (if oid = order_id r then
      [\<lparr>le_event_id = eid, le_order_id = order_id r, le_occurred_at = now,
        from_state = Some (state r), to_state = t, le_reason = re,
        le_actor = ac, le_source = so, le_correlation_id = correlation_id r\<rparr>] else [])"
  by (simp add: oms_transit_def apply_transition_Inr [OF assms] oms_events_def dict_simps)

lemma oms_transit_index [simp]:
  "om_by_key (snd (oms_transit eid r t now re ac so upd m)) = om_by_key m"
  "om_payload (snd (oms_transit eid r t now re ac so upd m)) = om_payload m"
  by (simp_all add: oms_transit_def split: sum.splits prod.splits)

lemma oms_transit_distinct:
  "distinct (map fst (om_orders m)) \<Longrightarrow>
   distinct (map fst (om_orders (snd (oms_transit eid r t now re ac so upd m))))"
  by (simp add: oms_transit_def dict_put_distinct split: sum.splits prod.splits)

lemma oms_get_put_new:
  "oms_get (oms_put_new r ev m) oid = (if oid = order_id r then Some r else oms_get m oid)"
  by (simp add: oms_get_def oms_put_new_def dict_simps)

lemma oms_events_put_new:
  "oms_events (oms_put_new r ev m) oid =
   oms_events m oid @ (if oid = order_id r then [ev] else [])"
  by (simp add: oms_events_def oms_put_new_def dict_simps)

lemma oms_by_key_put_new:
  "oms_by_key (oms_put_new r ev m) (idempotency_key r) = Some r"
  by (simp add: oms_by_key_def oms_get_def oms_put_new_def dict_simps)

text \<open>Every operation keeps the invariant.\<close>

lemma oms_put_new_inv:
  assumes inv: "oms_inv m" and new: "oms_get m (order_id r) = None"
    and st: "state r = INTENT_CREATED"
    and ev: "from_state ev = None" "to_state ev = INTENT_CREATED" "le_order_id ev = order_id r"
  shows "oms_inv (oms_put_new r ev m)" (is "oms_inv ?m")
proof (rule oms_invI)
  show "distinct (map fst (om_orders ?m))"
    using oms_invD(1) [OF inv] by (simp add: oms_put_new_def dict_put_distinct)
next
  fix oid r' assume get: "oms_get ?m oid = Some r'"
  show "order_ok ?m oid r'"
  proof (cases "oid = order_id r")
    case True
    with get oms_invD(3) [OF inv new] ev st show ?thesis
      by (simp add: order_ok_def oms_get_put_new oms_events_put_new legal_log.created)
  next
    case False
    with get oms_invD(2) [OF inv, of oid r'] show ?thesis
      by (simp add: order_ok_def oms_get_put_new oms_events_put_new)
  qed
next
  fix oid assume "oms_get ?m oid = None"
  then show "oms_events ?m oid = []"
    using oms_invD(3) [OF inv, of oid]
    by (simp add: oms_get_put_new oms_events_put_new split: if_splits)
next
  fix key oid assume k: "dict_get (om_by_key ?m) key = Some oid"
  show "index_ok ?m key oid"
  proof (cases "key = idempotency_key r")
    case True
    with k show ?thesis
      by (simp add: index_ok_def oms_payload_for_def oms_get_def oms_put_new_def dict_simps)
  next
    case False
    with k have "dict_get (om_by_key m) key = Some oid" by (simp add: oms_put_new_def dict_simps)
    from oms_invD(4) [OF inv this] new False show ?thesis
      by (auto simp: index_ok_def oms_get_put_new)
        (simp_all add: oms_payload_for_def oms_put_new_def dict_simps)
  qed
qed

lemma oms_transit_inv:
  assumes inv: "oms_inv m" and cur: "oms_get m (order_id r) = Some r" and fr: "upd_frame upd"
  shows "oms_inv (snd (oms_transit eid r t now re ac so upd m))" (is "oms_inv ?m")
proof (cases "can_transition (state r) t")
  case False
  from oms_transit_Inl [OF this] obtain msg
    where "oms_transit eid r t now re ac so upd m = (Inl (IllegalTransition msg), m)" by blast
  then show ?thesis using inv by simp
next
  case True
  let ?n = "upd (r\<lparr>state := t\<rparr>)"
  have n: "order_id ?n = order_id r" "state ?n = t" "idempotency_key ?n = idempotency_key r"
    "symbol ?n = symbol r" "direction ?n = direction r"
    "original_quantity ?n = original_quantity r"
    using fr by (simp_all add: upd_frame_def)
  show ?thesis
  proof (rule oms_invI)
    show "distinct (map fst (om_orders ?m))"
      by (rule oms_transit_distinct) (rule oms_invD(1) [OF inv])
  next
    fix oid r' assume get: "oms_get ?m oid = Some r'"
    show "order_ok ?m oid r'"
    proof (cases "oid = order_id r")
      case True
      with get \<open>can_transition (state r) t\<close> n oms_invD(2) [OF inv cur] show ?thesis
        by (simp add: order_ok_def oms_get_transit oms_events_transit legal_log.moved)
    next
      case False
      with get \<open>can_transition (state r) t\<close> oms_invD(2) [OF inv, of oid r'] show ?thesis
        by (simp add: order_ok_def oms_get_transit oms_events_transit)
    qed
  next
    fix oid assume "oms_get ?m oid = None"
    then show "oms_events ?m oid = []"
      using oms_invD(3) [OF inv, of oid] True
      by (simp add: oms_get_transit oms_events_transit split: if_splits)
  next
    fix key oid assume k: "dict_get (om_by_key ?m) key = Some oid"
    then have "index_ok m key oid" using oms_invD(4) [OF inv] by simp
    then show "index_ok ?m key oid"
      using n cur True by (auto simp: index_ok_def oms_get_transit oms_payload_for_def)
  qed
qed

lemma apply_fill_frame [simp]:
  "upd_frame (\<lambda>x. x\<lparr>filled_quantity := a, remaining_quantity := b,
      average_fill_price := c, broker_ticket := d\<rparr>)"
  by (simp add: upd_frame_def)

lemma oms_apply_fill_inv:
  assumes "oms_inv m" and "oms_get m (order_id r) = Some r"
  shows "oms_inv (snd (oms_apply_fill eid r fill now m))"
  unfolding oms_apply_fill_def Let_def
  by (auto intro!: oms_transit_inv assms split: prod.splits)

subsection \<open>Fills\<close>

text \<open>The remaining quantity never goes below zero, and an order is filled exactly when
  the fills have reached its original quantity, whatever the rounding.\<close>

lemma fill_remaining_nonneg: "0 \<le> snd (fill_quantities r fill)"
  by (simp add: fill_quantities_def Let_def)

lemma fill_complete_iff:
  "snd (fill_quantities r fill) = 0 \<longleftrightarrow>
   original_quantity r \<le> dadd (filled_quantity r) (fl_quantity fill)"
  by (auto simp: fill_quantities_def Let_def dsub_def not_less)

lemma fill_conserves:
  assumes "filled_quantity r + remaining_quantity r = original_quantity r"
    and "fl_quantity fill \<le> remaining_quantity r"
    and "dec28 (filled_quantity r + fl_quantity fill)"
    and "dec28 (remaining_quantity r - fl_quantity fill)"
  shows "fst (fill_quantities r fill) + snd (fill_quantities r fill) = original_quantity r"
proof -
  have f: "dadd (filled_quantity r) (fl_quantity fill) = filled_quantity r + fl_quantity fill"
    using assms(3) by (simp add: dadd_def dec28_def)
  have "original_quantity r - (filled_quantity r + fl_quantity fill) =
      remaining_quantity r - fl_quantity fill"
    using assms(1) by linarith
  then have "dsub (original_quantity r) (filled_quantity r + fl_quantity fill) =
      remaining_quantity r - fl_quantity fill"
    using assms(4) unfolding dsub_def dec28_def by (simp only:)
  with f assms(1,2) show ?thesis by (simp add: fill_quantities_def Let_def)
qed

subsection \<open>The order book as an interface\<close>

text \<open>
  What the execution module relies on: a guarded move that either raises and leaves the
  book alone, or stores the moved record, and an invariant under which the log of every
  order is legal. The facts a client needs are proved once over these laws.
\<close>

locale order_book =
  fixes book_get :: "'m \<Rightarrow> uuid \<Rightarrow> OrderRecord option"
    and book_log :: "'m \<Rightarrow> uuid \<Rightarrow> OrderLifecycleEvent list"
    and book_move :: "uuid \<Rightarrow> OrderRecord \<Rightarrow> ExecutionLifecycleState \<Rightarrow> datetime \<Rightarrow> string \<Rightarrow>
      string \<Rightarrow> string \<Rightarrow> (OrderRecord \<Rightarrow> OrderRecord) \<Rightarrow> 'm \<Rightarrow> (py_exn + OrderRecord) \<times> 'm"
    and book_inv :: "'m \<Rightarrow> bool"
  assumes move_result: "can_transition (state r) t \<Longrightarrow>
      fst (book_move eid r t now re ac so upd m) = Inr (upd (r\<lparr>state := t\<rparr>))"
    and move_get: "can_transition (state r) t \<Longrightarrow>
      book_get (snd (book_move eid r t now re ac so upd m)) oid =
        (if oid = order_id r then Some (upd (r\<lparr>state := t\<rparr>)) else book_get m oid)"
    and move_illegal: "\<not> can_transition (state r) t \<Longrightarrow>
      \<exists>msg. book_move eid r t now re ac so upd m = (Inl (IllegalTransition msg), m)"
    and move_inv: "book_inv m \<Longrightarrow> book_get m (order_id r) = Some r \<Longrightarrow> upd_frame upd \<Longrightarrow>
      book_inv (snd (book_move eid r t now re ac so upd m))"
    and inv_log: "book_inv m \<Longrightarrow> book_get m oid = Some r \<Longrightarrow>
      order_id r = oid \<and> legal_log oid (book_log m oid) (state r)"
begin

lemma move_ok:
  assumes "can_transition (state r) t"
  obtains m' where "book_move eid r t now re ac so upd m = (Inr (upd (r\<lparr>state := t\<rparr>)), m')"
    and "\<And>oid. book_get m' oid =
      (if oid = order_id r then Some (upd (r\<lparr>state := t\<rparr>)) else book_get m oid)"
proof
  show "book_move eid r t now re ac so upd m =
      (Inr (upd (r\<lparr>state := t\<rparr>)), snd (book_move eid r t now re ac so upd m))"
    using move_result [OF assms] by (metis prod.collapse)
  show "\<And>oid. book_get (snd (book_move eid r t now re ac so upd m)) oid =
      (if oid = order_id r then Some (upd (r\<lparr>state := t\<rparr>)) else book_get m oid)"
    by (rule move_get [OF assms])
qed

text \<open>An order in a terminal state refuses every move.\<close>

lemma terminal_refused:
  assumes "state r \<in> set TERMINAL"
  shows "\<exists>msg. book_move eid r t now re ac so upd m = (Inl (IllegalTransition msg), m)"
proof -
  from assms have "TRANSITIONS (state r) = []" by (simp only: terminal_iff_no_successor)
  then have "\<not> can_transition (state r) t" by (simp add: can_transition_def)
  then show ?thesis by (rule move_illegal)
qed

text \<open>A move never touches another order.\<close>

lemma move_other:
  "oid \<noteq> order_id r \<Longrightarrow> book_get (snd (book_move eid r t now re ac so upd m)) oid = book_get m oid"
  using move_get [of r t eid now re ac so upd m oid] move_illegal [of r t eid now re ac so upd m]
  by (cases "can_transition (state r) t") auto

text \<open>After a move the book still holds the moved record under its identifier.\<close>

lemma move_current:
  assumes "upd_frame upd" and "can_transition (state r) t"
  shows "book_get (snd (book_move eid r t now re ac so upd m)) (order_id (upd (r\<lparr>state := t\<rparr>))) =
    Some (upd (r\<lparr>state := t\<rparr>))"
  using assms move_get [OF assms(2)] by (simp add: upd_frame_def)

end

interpretation book: order_book oms_get oms_events oms_transit oms_inv
proof
  fix m :: oms and r oid
  assume "oms_inv m" and "oms_get m oid = Some r"
  then show "order_id r = oid \<and> legal_log oid (oms_events m oid) (state r)"
    by (rule oms_inv_orderD)
qed (fact oms_transit_Inr oms_get_transit oms_transit_Inl oms_transit_inv)+

end
