(* ===== verification/ControlPlane.thy ===== *)
theory ControlPlane
  imports ExecContracts
begin

section \<open>The control plane\<close>

text \<open>
  \<^verbatim>\<open>pm5_execution/control_plane/controller.py\<close>: the latches that stop new orders
  (freeze, close-only, no-new-risk, emergency cancel), the record of control actions and
  the recovery with its cooldown. Each operation takes the fresh identifier of the action
  record it appends and returns that record with the new state.

  The lemmas show that the kill latch implies the new-order block, that no operation but a
  recovery with a reason after the cooldown opens the plane, and that the action log only
  grows.
\<close>

record control_plane =
  cp_cooldown_seconds :: int
  cp_actions :: "ControlActionRecord list"
  cp_block_new :: bool
  cp_close_only :: bool
  cp_frozen_scopes :: "(ControlScope \<times> string option) list"
  cp_kill_latched :: bool
  cp_kill_reason :: "string option"
  cp_tripped_at :: "datetime option"
  cp_operating :: Pm5OperatingState

definition control_init :: "Pm5ExecutionConfig \<Rightarrow> control_plane" where
  "control_init c =
     \<lparr>cp_cooldown_seconds = recovery_cooldown_seconds c, cp_actions = [], cp_block_new = False,
      cp_close_only = False, cp_frozen_scopes = [], cp_kill_latched = False,
      cp_kill_reason = None, cp_tripped_at = None, cp_operating = OS_NORMAL\<rparr>"

definition control_record ::
  "uuid \<Rightarrow> datetime \<Rightarrow> ControlActionType \<Rightarrow> ControlScope \<Rightarrow> string \<Rightarrow> string \<Rightarrow> string \<Rightarrow>
   string option \<Rightarrow> uuid list \<Rightarrow> control_plane \<Rightarrow> ControlActionRecord \<times> control_plane" where
  "control_record aid now action scope reason actor trigger scope_id affected cp =
     (let rec = \<lparr>action_id = aid, ca_occurred_at = now, ca_action = action, ca_scope = scope,
                 ca_scope_id = scope_id, ca_actor = actor, ca_reason = reason,
                 trigger_source = trigger, affected_order_ids = affected, ca_result = ''applied''\<rparr>
      in (rec, cp\<lparr>cp_actions := cp_actions cp @ [rec]\<rparr>))"

definition control_blocks ::
  "control_plane \<Rightarrow> string \<Rightarrow> string option \<Rightarrow> string option \<Rightarrow> bool" where
  "control_blocks cp sy strategy cluster \<longleftrightarrow>
     (if cp_kill_latched cp \<or> cp_block_new cp then True
      else if cp_close_only cp then True
      else let checks = [(SC_GLOBAL, None), (SC_SYMBOL, Some sy), (SC_STRATEGY, strategy),
                         (SC_CLUSTER, cluster), (SC_ACCOUNT, Some ''account'')]
           in list_ex (\<lambda>c. List.member checks c) (cp_frozen_scopes cp))"

definition control_freeze ::
  "uuid \<Rightarrow> datetime \<Rightarrow> ControlScope \<Rightarrow> string \<Rightarrow> string \<Rightarrow> string option \<Rightarrow> control_plane \<Rightarrow>
   ControlActionRecord \<times> control_plane" where
  "control_freeze aid now scope reason actor scope_id cp =
     control_record aid now CA_FREEZE scope reason actor ''control_plane'' scope_id []
       (cp\<lparr>cp_frozen_scopes := List.insert (scope, scope_id) (cp_frozen_scopes cp),
           cp_block_new := True, cp_operating := OS_FREEZE_NEW_ORDERS\<rparr>)"

definition control_close_only ::
  "uuid \<Rightarrow> datetime \<Rightarrow> string \<Rightarrow> string \<Rightarrow> control_plane \<Rightarrow> ControlActionRecord \<times> control_plane" where
  "control_close_only aid now reason actor cp =
     control_record aid now CA_CLOSE_ONLY SC_GLOBAL reason actor ''control_plane'' None []
       (cp\<lparr>cp_close_only := True, cp_block_new := True, cp_operating := OS_CLOSE_ONLY\<rparr>)"

definition control_no_new_risk ::
  "uuid \<Rightarrow> datetime \<Rightarrow> string \<Rightarrow> string \<Rightarrow> control_plane \<Rightarrow> ControlActionRecord \<times> control_plane" where
  "control_no_new_risk aid now reason actor cp =
     control_record aid now CA_NO_NEW_RISK SC_GLOBAL reason actor ''control_plane'' None []
       (cp\<lparr>cp_block_new := True, cp_operating := OS_FREEZE_NEW_ORDERS\<rparr>)"

definition control_emergency_cancel ::
  "uuid \<Rightarrow> datetime \<Rightarrow> string \<Rightarrow> string \<Rightarrow> uuid list \<Rightarrow> control_plane \<Rightarrow>
   ControlActionRecord \<times> control_plane" where
  "control_emergency_cancel aid now reason actor affected cp =
     control_record aid now CA_EMERGENCY_CANCEL SC_GLOBAL reason actor ''kill'' None affected
       (cp\<lparr>cp_kill_latched := True, cp_block_new := True, cp_tripped_at := Some now,
           cp_kill_reason := Some reason, cp_operating := OS_EMERGENCY_CANCEL\<rparr>)"

definition cooling_down :: "control_plane \<Rightarrow> datetime \<Rightarrow> bool" where
  "cooling_down cp now \<longleftrightarrow>
     (case cp_tripped_at cp of None \<Rightarrow> False | Some t \<Rightarrow> now - t < seconds (cp_cooldown_seconds cp))"

definition control_recover ::
  "uuid \<Rightarrow> datetime \<Rightarrow> string \<Rightarrow> string \<Rightarrow> control_plane \<Rightarrow> ControlActionRecord \<times> control_plane" where
  "control_recover aid now reason actor cp =
     (if blank reason
      then control_record aid now CA_RECOVERY_REQUEST SC_GLOBAL ''empty_reason'' actor ''recovery'' None [] cp
      else if cooling_down cp now
      then (let (rec, cp') = control_record aid now CA_RECOVERY_REQUEST SC_GLOBAL ''cooldown'' actor
                               ''recovery'' None [] (cp\<lparr>cp_operating := OS_MANUAL_REVIEW_REQUIRED\<rparr>)
            in (rec\<lparr>ca_result := ''cooldown''\<rparr>, cp'))
      else control_record aid now CA_REENABLE SC_GLOBAL reason actor ''recovery'' None []
             (cp\<lparr>cp_kill_latched := False, cp_block_new := False, cp_close_only := False,
                 cp_frozen_scopes := [], cp_operating := OS_RECOVERED\<rparr>))"

subsection \<open>The plane as a step relation\<close>

text \<open>The calls an operator or a detector can make.\<close>

datatype control_call =
    C_freeze ControlScope string string "string option"
  | C_close_only string string
  | C_no_new_risk string string
  | C_emergency string string "uuid list"
  | C_recover string string
  | C_record ControlActionType ControlScope string string string "string option" "uuid list"

fun do_control :: "uuid \<Rightarrow> datetime \<Rightarrow> control_call \<Rightarrow> control_plane \<Rightarrow> control_plane" where
  "do_control aid now (C_freeze sc re ac sid) cp = snd (control_freeze aid now sc re ac sid cp)"
| "do_control aid now (C_close_only re ac) cp = snd (control_close_only aid now re ac cp)"
| "do_control aid now (C_no_new_risk re ac) cp = snd (control_no_new_risk aid now re ac cp)"
| "do_control aid now (C_emergency re ac af) cp = snd (control_emergency_cancel aid now re ac af cp)"
| "do_control aid now (C_recover re ac) cp = snd (control_recover aid now re ac cp)"
| "do_control aid now (C_record a sc re ac tr sid af) cp =
     snd (control_record aid now a sc re ac tr sid af cp)"

inductive control_reach :: "control_plane \<Rightarrow> control_plane \<Rightarrow> bool" for cp0 where
  start: "control_reach cp0 cp0"
| step: "control_reach cp0 cp \<Longrightarrow> control_reach cp0 (do_control aid now c cp)"

lemmas control_defs = control_record_def control_freeze_def control_close_only_def
  control_no_new_risk_def control_emergency_cancel_def control_recover_def Let_def

text \<open>The new-order block covers every other latch.\<close>

definition control_inv :: "control_plane \<Rightarrow> bool" where
  "control_inv cp \<longleftrightarrow>
     (cp_kill_latched cp \<longrightarrow> cp_block_new cp \<and> cp_tripped_at cp \<noteq> None) \<and>
     (cp_close_only cp \<longrightarrow> cp_block_new cp) \<and>
     (cp_frozen_scopes cp \<noteq> [] \<longrightarrow> cp_block_new cp)"

lemma control_init_inv [simp]: "control_inv (control_init c)"
  by (simp add: control_inv_def control_init_def)

lemma control_call_inv: "control_inv cp \<Longrightarrow> control_inv (do_control aid now c cp)"
  by (cases c) (auto simp: control_inv_def control_defs)

lemma control_reach_inv: "control_reach cp0 cp \<Longrightarrow> control_inv cp0 \<Longrightarrow> control_inv cp"
  by (induction rule: control_reach.induct) (auto intro: control_call_inv)

text \<open>With the invariant, blocking is the one flag.\<close>

lemma control_blocks_iff: "control_inv cp \<Longrightarrow> control_blocks cp sy st cl \<longleftrightarrow> cp_block_new cp"
  by (cases "cp_frozen_scopes cp") (auto simp: control_blocks_def control_inv_def)

text \<open>Only a recovery with a reason outside the cooldown opens the plane.\<close>

lemma control_call_opens:
  assumes "cp_block_new cp" and "\<not> cp_block_new (do_control aid now c cp)"
  shows "\<exists>re ac. c = C_recover re ac \<and> \<not> blank re \<and> \<not> cooling_down cp now"
  using assms by (cases c) (auto simp: control_defs split: if_splits)

lemma control_call_unlatches:
  assumes "cp_kill_latched cp" and "\<not> cp_kill_latched (do_control aid now c cp)"
  shows "\<exists>re ac. c = C_recover re ac \<and> \<not> blank re \<and> \<not> cooling_down cp now"
  using assms by (cases c) (auto simp: control_defs split: if_splits)

lemma control_call_actions:
  "\<exists>rec. cp_actions (do_control aid now c cp) = cp_actions cp @ [rec]"
  by (cases c) (auto simp: control_defs split: if_splits)

lemma control_reach_actions:
  "control_reach cp0 cp \<Longrightarrow> \<exists>log. cp_actions cp = cp_actions cp0 @ log"
proof (induction rule: control_reach.induct)
  case (step cp aid now c)
  then show ?case using control_call_actions [of aid now c cp] by auto
qed simp

lemma control_call_cooldown [simp]:
  "cp_cooldown_seconds (do_control aid now c cp) = cp_cooldown_seconds cp"
  by (cases c) (auto simp: control_defs)

end
