(* ===== verification/Surveillance.thy ===== *)
theory Surveillance
  imports ExecContracts
begin

section \<open>Burst surveillance\<close>

text \<open>
  \<^verbatim>\<open>pm5_execution/surveillance/engine.py\<close>: four sliding windows of timestamps
  (submits, rejects, cancels, modifies) with a limit each. A note prunes the front of its
  window, appends the instant and raises an alert when the window is over its limit.

  The lemmas compare the pruning loop, which only looks at the front, with the set of
  instants that lie in the window: for a clock that does not go back the two agree, so an
  alert is raised exactly when more than the limit of notes fell into the last window.
\<close>

record surveillance =
  sv_window_seconds :: int
  sv_submit_burst :: nat
  sv_reject_burst :: nat
  sv_cancel_burst :: nat
  sv_modify_burst :: nat
  sv_submits :: "datetime list"
  sv_rejects :: "datetime list"
  sv_cancels :: "datetime list"
  sv_modifies :: "datetime list"
  sv_alerts :: "SurveillanceAlert list"

definition surveillance_init :: "Pm5ExecutionConfig \<Rightarrow> surveillance" where
  "surveillance_init c =
     \<lparr>sv_window_seconds = burst_window_seconds c, sv_submit_burst = submit_burst c,
      sv_reject_burst = reject_burst c, sv_cancel_burst = cancel_burst c,
      sv_modify_burst = modify_burst c, sv_submits = [], sv_rejects = [], sv_cancels = [],
      sv_modifies = [], sv_alerts = []\<rparr>"

text \<open>\<^verbatim>\<open>_prune\<close>: drop from the left while the front is older than the window.\<close>

fun prune :: "int \<Rightarrow> datetime \<Rightarrow> datetime list \<Rightarrow> datetime list" where
  "prune window now [] = []"
| "prune window now (t # q) = (if now - t > window then prune window now q else t # q)"

definition surv_alert ::
  "uuid \<Rightarrow> datetime \<Rightarrow> string \<Rightarrow> string \<Rightarrow> bool \<Rightarrow> surveillance \<Rightarrow> SurveillanceAlert \<times> surveillance" where
  "surv_alert aid now detector action auto sv =
     (let alert = \<lparr>alert_id = aid, sa_occurred_at = now, sa_severity = ''high'',
                   sa_category = ''repeated_execution'', sa_detector = detector,
                   observed = [(''window_s'', sv_window_seconds sv)],
                   thresholds = [(''submit'', sv_submit_burst sv), (''reject'', sv_reject_burst sv)],
                   sa_scope = ''account'', sa_trace_id = None, sa_recommended_action = action,
                   automatic_protection = auto\<rparr>
      in (alert, sv\<lparr>sv_alerts := sv_alerts sv @ [alert]\<rparr>))"

definition note_submit ::
  "uuid \<Rightarrow> datetime \<Rightarrow> surveillance \<Rightarrow> SurveillanceAlert option \<times> surveillance" where
  "note_submit aid now sv =
     (let q = prune (seconds (sv_window_seconds sv)) now (sv_submits sv) @ [now];
          sv' = sv\<lparr>sv_submits := q\<rparr>
      in if length q > sv_submit_burst sv
         then apfst Some (surv_alert aid now ''submit_burst'' ''throttle'' True sv')
         else (None, sv'))"

definition note_reject ::
  "uuid \<Rightarrow> datetime \<Rightarrow> surveillance \<Rightarrow> SurveillanceAlert option \<times> surveillance" where
  "note_reject aid now sv =
     (let q = prune (seconds (sv_window_seconds sv)) now (sv_rejects sv) @ [now];
          sv' = sv\<lparr>sv_rejects := q\<rparr>
      in if length q > sv_reject_burst sv
         then apfst Some (surv_alert aid now ''reject_burst'' ''kill'' True sv')
         else (None, sv'))"

definition note_cancel ::
  "uuid \<Rightarrow> datetime \<Rightarrow> surveillance \<Rightarrow> SurveillanceAlert option \<times> surveillance" where
  "note_cancel aid now sv =
     (let q = prune (seconds (sv_window_seconds sv)) now (sv_cancels sv) @ [now];
          sv' = sv\<lparr>sv_cancels := q\<rparr>
      in if length q > sv_cancel_burst sv
         then apfst Some (surv_alert aid now ''cancel_storm'' ''throttle'' True sv')
         else (None, sv'))"

definition note_modify ::
  "uuid \<Rightarrow> datetime \<Rightarrow> surveillance \<Rightarrow> SurveillanceAlert option \<times> surveillance" where
  "note_modify aid now sv =
     (let q = prune (seconds (sv_window_seconds sv)) now (sv_modifies sv) @ [now];
          sv' = sv\<lparr>sv_modifies := q\<rparr>
      in if length q > sv_modify_burst sv
         then apfst Some (surv_alert aid now ''modify_storm'' ''throttle'' True sv')
         else (None, sv'))"

lemmas note_defs = note_submit_def note_reject_def note_cancel_def note_modify_def
  surv_alert_def Let_def

subsection \<open>The pruning loop\<close>

lemma prune_subset: "set (prune w now q) \<subseteq> set q"
  by (induction q) auto

lemma prune_sorted: "sorted q \<Longrightarrow> sorted (prune w now q)"
  by (induction q) auto

text \<open>On a sorted window the loop is the filter by age.\<close>

lemma prune_eq_filter: "sorted q \<Longrightarrow> prune w now q = filter (\<lambda>t. now - t \<le> w) q"
proof (induction q)
  case (Cons t q)
  show ?case
  proof (cases "now - t > w")
    case True
    with Cons show ?thesis by simp
  next
    case False
    with Cons.prems have "\<forall>u \<in> set q. now - u \<le> w" by fastforce
    then have "filter (\<lambda>u. now - u \<le> w) q = q" by (rule filter_True)
    with False show ?thesis by simp
  qed
qed simp

text \<open>One window of notes: the reference is the filter of the whole history by age.\<close>

definition window_of :: "int \<Rightarrow> datetime list \<Rightarrow> datetime \<Rightarrow> datetime list" where
  "window_of w hist now = filter (\<lambda>t. now - t \<le> w) hist"

definition note_all :: "int \<Rightarrow> datetime list \<Rightarrow> datetime list" where
  "note_all w hist = foldl (\<lambda>q now. prune w now q @ [now]) [] hist"

lemma note_all_snoc: "note_all w (hist @ [now]) = prune w now (note_all w hist) @ [now]"
  by (simp add: note_all_def)

lemma note_all_window:
  assumes "sorted hist" and "hist \<noteq> []" and "0 \<le> w"
  shows "note_all w hist = window_of w hist (last hist)"
  using assms(1,2)
proof (induction hist rule: rev_induct)
  case (snoc now hist)
  show ?case
  proof (cases "hist = []")
    case True
    then show ?thesis using assms(3) by (simp add: note_all_def window_of_def)
  next
    case False
    from snoc.prems have s: "sorted hist" and le: "\<forall>t \<in> set hist. t \<le> now"
      by (auto simp: sorted_append)
    then have l: "last hist \<le> now" using False by simp
    have q: "note_all w hist = window_of w hist (last hist)" using snoc.IH s False by blast
    have "sorted (window_of w hist (last hist))"
      using s by (simp add: window_of_def sorted_wrt_filter)
    then have "prune w now (note_all w hist) =
        filter (\<lambda>t. now - t \<le> w) (window_of w hist (last hist))"
      using q by (simp add: prune_eq_filter)
    also have "\<dots> = window_of w hist now"
      using l by (auto simp: window_of_def intro!: filter_cong)
    finally show ?thesis
      using assms(3) by (simp add: note_all_snoc window_of_def)
  qed
qed simp

end
