(* ===== verification/PyFloat.thy ===== *)
theory PyFloat
  imports PyDecimal
begin

section \<open>Binary floating point\<close>

text \<open>
  The few places where the code goes through a Python \<^verbatim>\<open>float\<close>. A float is the rational it
  denotes; \<open>f64\<close> rounds a rational to the nearest binary64 value, ties to even. The exponent
  range is not modelled: the code only converts durations and factors, far from overflow and
  from the subnormal numbers.
\<close>

text \<open>The binary exponent: \<open>2 ^ e \<le> |x| < 2 ^ (e + 1)\<close>.\<close>

fun bit_len :: "nat \<Rightarrow> nat" where
  "bit_len n = (if n = 0 then 0 else Suc (bit_len (n div 2)))"

declare bit_len.simps [simp del]

definition pow2 :: "int \<Rightarrow> rat" where
  "pow2 e = (if 0 \<le> e then 2 ^ nat e else 1 / 2 ^ nat (- e))"

definition bin_exp :: "rat \<Rightarrow> int" where
  "bin_exp x =
     (let (n, d) = quotient_of \<bar>x\<bar>; k = int (bit_len (nat n)) - int (bit_len (nat d))
      in if \<bar>x\<bar> < pow2 k then k - 1 else k)"

definition f64 :: "rat \<Rightarrow> rat" where
  "f64 x = (if x = 0 then 0
            else let u = pow2 (bin_exp x - 52) in of_int (round_half_even (x / u)) * u)"

text \<open>\<^verbatim>\<open>int(x)\<close> truncates towards zero.\<close>

definition trunc :: "rat \<Rightarrow> int" where
  "trunc x = (if x < 0 then - \<lfloor>- x\<rfloor> else \<lfloor>x\<rfloor>)"

text \<open>\<^verbatim>\<open>int((b - a).total_seconds() * 1000)\<close> on instants in microseconds.\<close>

definition float_ms :: "datetime \<Rightarrow> datetime \<Rightarrow> int" where
  "float_ms a b = trunc (f64 (f64 (of_int (b - a) / 1000000) * 1000))"

lemma f64_0 [simp]: "f64 0 = 0"
  by (simp add: f64_def)

lemma pow2_pos: "0 < pow2 e"
  by (simp add: pow2_def)

lemma round_half_even_nonneg: "0 \<le> x \<Longrightarrow> 0 \<le> round_half_even x"
  by (auto simp: round_half_even_def Let_def)

lemma f64_nonneg: "0 \<le> x \<Longrightarrow> 0 \<le> f64 x"
  using pow2_pos [of "bin_exp x - 52"]
  by (simp add: f64_def Let_def round_half_even_nonneg)

text \<open>A duration that is not negative gives a latency that is not negative.\<close>

lemma float_ms_nonneg: "a \<le> b \<Longrightarrow> 0 \<le> float_ms a b"
proof -
  assume "a \<le> b"
  then have "0 \<le> f64 (of_int (b - a) / 1000000)" by (intro f64_nonneg) simp
  then have "0 \<le> f64 (f64 (of_int (b - a) / 1000000) * 1000)" by (intro f64_nonneg) simp
  then show ?thesis by (simp add: float_ms_def trunc_def)
qed

end
