(* ===== verification/Pm5Services.thy ===== *)
theory Pm5Services
  imports Oms ControlPlane Surveillance PyFloat
begin

section \<open>Services of the execution fabric\<close>

text \<open>
  The stateless services of \<^verbatim>\<open>pm5_execution\<close>: intake validation
  (\<^verbatim>\<open>intake/validators.py\<close>), the normalized command (\<^verbatim>\<open>intake/normalizer.py\<close>),
  the broker adapters (\<^verbatim>\<open>ems\<close>), reconciliation, exposure truth and execution
  quality. Fresh identifiers are arguments.
\<close>

subsection \<open>Intake validation\<close>

definition approved_quantity :: "RiskPublicationBundle \<Rightarrow> dec" where
  "approved_quantity b =
     (case recommended_volume (rb_verdict b) of Some v \<Rightarrow> v | None \<Rightarrow> recommended_size (rb_sizing b))"

definition validate_intake ::
  "RiskPublicationBundle option \<Rightarrow> datetime \<Rightarrow> Pm5ExecutionConfig \<Rightarrow> Direction option \<Rightarrow>
   dec option \<Rightarrow> string option \<Rightarrow> bool \<Rightarrow> bool \<Rightarrow> ExecutionMode \<Rightarrow> bool \<Rightarrow> string \<Rightarrow> bool \<Rightarrow>
   ExecutionRejectReason list" where
  "validate_intake bndl now config dir quantity sy kill_blocks control_blk mode feature_enabled
       order_type broker_path =
     (let head = reason_if (\<not> feature_enabled \<or> mode = EM_DISABLED) RR_FEATURE_DISABLED @
                 reason_if (mode = EM_LIVE) RR_LIVE_BLOCKED
      in case bndl of
           None \<Rightarrow> head @ [RR_MISSING_AUTHORIZATION]
         | Some b \<Rightarrow>
             (let cap = approved_quantity b;
                  qty = (case quantity of Some q \<Rightarrow> q | None \<Rightarrow> cap);
                  name = (case sy of Some n \<Rightarrow> if n = [] then rb_symbol b else n | None \<Rightarrow> rb_symbol b)
              in fromkeys (head @
                 reason_if (rb_idempotency_key b \<in> {None, Some []}) RR_MISSING_TRACE @
                 reason_if (rv_status (rb_verdict b) \<noteq> ALLOW) RR_PM4_DENY @
                 reason_if (ac_decision (rb_admission b) \<in> {AD_REJECT, AD_FREEZE, AD_KILL_PROTECTED})
                   RR_PM4_DENY @
                 reason_if (ks_status (rb_kill_switch b) \<in> {KILL_TRIPPED, KILL_LATCHED}) RR_KILL_SWITCH @
                 reason_if (kill_blocks \<or> control_blk) RR_CONTROL_BLOCKED @
                 reason_if ((broker_path \<or> mode \<notin> {EM_SIMULATION, EM_SHADOW}) \<and> \<not> execution_permitted b)
                   RR_EXECUTION_NOT_PERMITTED @
                 reason_if (rb_occurred_at b > now) RR_LOOKAHEAD @
                 reason_if (now - rb_occurred_at b > seconds (stale_ttl_seconds config)) RR_STALE_INTENT @
                 reason_if (case rv_expires_at (rb_verdict b) of None \<Rightarrow> False | Some e \<Rightarrow> now > e)
                   RR_STALE_INTENT @
                 reason_if (name \<notin> set (symbol_allowlist config)) RR_UNSUPPORTED_SYMBOL @
                 reason_if (dir = None) RR_UNSUPPORTED_SIDE @
                 (if qty \<le> 0 then [RR_INVALID_QUANTITY]
                  else if qty > cap then [RR_QUANTITY_EXCEEDS_PM4] else []) @
                 reason_if (order_type \<notin> set (allowed_order_types config)) RR_INVALID_ORDER_TYPE)))"

text \<open>What an empty list of reasons guarantees.\<close>

lemma validate_intake_NilD:
  assumes "validate_intake bndl now config dir quantity sy kb cb mode fe ot bp = []"
  shows "\<exists>b d. bndl = Some b \<and> dir = Some d \<and> fe \<and> mode \<notin> {EM_DISABLED, EM_LIVE} \<and>
    \<not> kb \<and> \<not> cb \<and>
    rv_status (rb_verdict b) = ALLOW \<and>
    ac_decision (rb_admission b) \<in> {AD_APPROVE, AD_REDUCE} \<and>
    ks_status (rb_kill_switch b) \<in> {KILL_DISARMED, KILL_ARMED} \<and>
    rb_occurred_at b \<le> now \<and> now - rb_occurred_at b \<le> seconds (stale_ttl_seconds config) \<and>
    (\<forall>e. rv_expires_at (rb_verdict b) = Some e \<longrightarrow> now \<le> e) \<and>
    ot \<in> set (allowed_order_types config) \<and>
    (let q = (case quantity of Some q \<Rightarrow> q | None \<Rightarrow> approved_quantity b)
     in 0 < q \<and> q \<le> approved_quantity b)"
proof -
  obtain b where b: "bndl = Some b"
    using assms by (cases bndl) (auto simp: validate_intake_def Let_def)
  obtain d where d: "dir = Some d"
    using assms b by (cases dir) (auto simp: validate_intake_def Let_def)
  have ad: "ac_decision (rb_admission b) \<in> {AD_APPROVE, AD_REDUCE}"
    using assms b
    by (cases "ac_decision (rb_admission b)") (auto simp: validate_intake_def Let_def)
  have ks: "ks_status (rb_kill_switch b) \<in> {KILL_DISARMED, KILL_ARMED}"
    using assms b
    by (cases "ks_status (rb_kill_switch b)") (auto simp: validate_intake_def Let_def)
  show ?thesis
    using assms ad ks unfolding b d
    by (auto simp: validate_intake_def Let_def not_le not_less split: option.splits if_splits)
qed

lemma validate_intake_control_blocked:
  "kb \<or> cb \<Longrightarrow> RR_CONTROL_BLOCKED \<in> set (validate_intake (Some b) now config dir q sy kb cb mode fe ot bp)"
  by (simp add: validate_intake_def Let_def)

lemma validate_intake_None_ne: "validate_intake None now config dir q sy kb cb mode fe ot bp \<noteq> []"
  by (simp add: validate_intake_def Let_def)

subsection \<open>The normalized command\<close>

definition to_command ::
  "uuid \<Rightarrow> RiskPublicationBundle \<Rightarrow> OrderRecord \<Rightarrow> dec \<Rightarrow> string \<Rightarrow> dec option \<Rightarrow> dec option \<Rightarrow>
   py_exn + NormalizedExecutionCommand" where
  "to_command cid b r quantity order_type entry stop =
     command_qty_ok
       \<lparr>command_id = cid, cm_order_id = order_id r, cm_pm4_decision_id = verdict_id (rb_verdict b),
        cm_symbol = symbol r, cm_direction = direction r,
        cm_approved_quantity = approved_quantity b, cm_requested_quantity = quantity,
        cm_order_type = order_type, cm_entry_price = entry, cm_stop_price = stop,
        slippage_tolerance = 0, cm_expiry = None, urgency = ''normal'',
        cm_execution_policy = ''simulation_only'', route_restrictions = [''broker_closed''],
        cm_idempotency_key = idempotency_key r, cm_correlation_id = correlation_id r,
        cm_causation_id = causation_id r, broker_eligible = False\<rparr>"

lemma to_command_ok:
  "0 \<le> q \<Longrightarrow> q \<le> approved_quantity b \<Longrightarrow>
   \<exists>c. to_command cid b r q ot en st = Inr c \<and> cm_order_id c = order_id r \<and>
       cm_requested_quantity c = q \<and> cm_entry_price c = en \<and> \<not> broker_eligible c"
  by (auto simp: to_command_def command_qty_ok_def)

subsection \<open>Broker adapters\<close>

definition sim_ticket :: "uuid \<Rightarrow> string" where
  "sim_ticket oid = ''SIM-'' @ take 10 (uuid_hex oid)"

datatype broker_adapter = SimulationBrokerAdapter | DisabledBrokerAdapter | Mt5BrokerAdapter

datatype broker_event = Ack BrokerAckEvent | Fill FillEvent

definition select_adapter :: "ExecutionMode \<Rightarrow> broker_adapter" where
  "select_adapter mode = (if mode = EM_SIMULATION then SimulationBrokerAdapter else DisabledBrokerAdapter)"

fun adapter_submit ::
  "broker_adapter \<Rightarrow> uuid \<Rightarrow> uuid \<Rightarrow> NormalizedExecutionCommand \<Rightarrow> datetime \<Rightarrow> py_exn + broker_event list" where
  "adapter_submit SimulationBrokerAdapter eid fid cmd now =
     Inr [Ack \<lparr>ba_event_id = eid, ba_order_id = cm_order_id cmd, ba_occurred_at = now,
               ba_kind = BE_SIMULATED_ACK, ba_ticket = Some (sim_ticket (cm_order_id cmd)),
               ba_message = ''simulation acknowledgement''\<rparr>,
          Fill \<lparr>fill_id = fid, fl_order_id = cm_order_id cmd, fl_occurred_at = now,
                fl_quantity = cm_requested_quantity cmd,
                fl_price = (case cm_entry_price cmd of None \<Rightarrow> 0 | Some p \<Rightarrow> p),
                fl_source = ''simulation'', fl_ticket = Some (sim_ticket (cm_order_id cmd))\<rparr>]"
| "adapter_submit DisabledBrokerAdapter eid fid cmd now =
     Inr [Ack \<lparr>ba_event_id = eid, ba_order_id = cm_order_id cmd, ba_occurred_at = now,
               ba_kind = BE_DISABLED, ba_ticket = None,
               ba_message = ''DisabledBrokerAdapter: no side effect, no MT5, no ticket''\<rparr>]"
| "adapter_submit Mt5BrokerAdapter eid fid cmd now =
     Inl (ExecutionDisabledError ''MT5 adapter is unavailable in Sequence 07'')"

fun adapter_cancel ::
  "broker_adapter \<Rightarrow> uuid \<Rightarrow> NormalizedExecutionCommand \<Rightarrow> datetime \<Rightarrow> py_exn + broker_event list" where
  "adapter_cancel SimulationBrokerAdapter eid cmd now =
     Inr [Ack \<lparr>ba_event_id = eid, ba_order_id = cm_order_id cmd, ba_occurred_at = now,
               ba_kind = BE_SIMULATED_CANCEL, ba_ticket = Some (sim_ticket (cm_order_id cmd)),
               ba_message = ''simulation cancel''\<rparr>]"
| "adapter_cancel DisabledBrokerAdapter eid cmd now = adapter_submit DisabledBrokerAdapter eid eid cmd now"
| "adapter_cancel Mt5BrokerAdapter eid cmd now =
     Inl (ExecutionDisabledError ''MT5 adapter is unavailable in Sequence 07'')"

lemma select_adapter_not_mt5 [simp]: "select_adapter mode \<noteq> Mt5BrokerAdapter"
  by (simp add: select_adapter_def)

subsection \<open>Reconciliation\<close>

definition recon_run ::
  "uuid \<Rightarrow> datetime \<Rightarrow> nat \<Rightarrow> nat option \<Rightarrow> bool \<Rightarrow> bool \<Rightarrow> bool \<Rightarrow> bool \<Rightarrow> bool \<Rightarrow> ReconciliationRecord" where
  "recon_run rid now local_count broker_count truth fill_mm pos_mm missing unexpected =
     (let n = (case broker_count of None \<Rightarrow> 0 | Some k \<Rightarrow> k) in
      if \<not> truth then
        \<lparr>record_id = rid, rc_as_of = now, consistent = False, ledger_position_count = local_count,
         broker_position_count = n, rc_notes = ''broker truth unavailable; simulation is not a venue'',
         rc_outcome = RO_DEGRADED, mismatch_type = Some ''broker_truth_unavailable'',
         rc_severity = ''medium'', local_state = [(''orders'', local_count)],
         broker_state = [(''available'', False)], rc_recommended_action = ''do_not_submit_to_broker'',
         remediation_status = ''accepted_limitation'', rc_broker_truth_available = False\<rparr>
      else if fill_mm \<or> pos_mm \<or> missing \<or> unexpected then
        (let critical = (pos_mm \<or> missing) in
        \<lparr>record_id = rid, rc_as_of = now, consistent = False, ledger_position_count = local_count,
         broker_position_count = n, rc_notes = ''mismatch versus broker truth'',
         rc_outcome = (if critical then RO_CRITICAL else RO_MISMATCH),
         mismatch_type = Some ''state_delta'',
         rc_severity = (if critical then ''critical'' else ''high''),
         local_state = [], broker_state = [], rc_recommended_action = ''block_new_orders_and_recover'',
         remediation_status = ''open'', rc_broker_truth_available = True\<rparr>)
      else
        \<lparr>record_id = rid, rc_as_of = now, consistent = True, ledger_position_count = local_count,
         broker_position_count = n, rc_notes = ''local equals broker'', rc_outcome = RO_PASS,
         mismatch_type = None, rc_severity = ''medium'', local_state = [], broker_state = [],
         rc_recommended_action = ''none'',
         remediation_status = ''cleared'', rc_broker_truth_available = True\<rparr>)"

lemma recon_pass_iff:
  "rc_outcome (recon_run rid now l n truth f p m u) = RO_PASS \<longleftrightarrow> truth \<and> \<not> f \<and> \<not> p \<and> \<not> m \<and> \<not> u"
  by (simp add: recon_run_def Let_def)

subsection \<open>Exposure truth\<close>

definition working_states :: "ExecutionLifecycleState list" where
  "working_states = [QUEUED, SUBMITTED, ACKNOWLEDGED, PARTIALLY_FILLED, CANCEL_REQUESTED,
     MODIFY_REQUESTED, RECONCILIATION_PENDING]"

definition exposure_snapshot ::
  "OrderRecord list \<Rightarrow> datetime \<Rightarrow> ReconciliationRecord option \<Rightarrow> ExposureState" where
  "exposure_snapshot orders now recon =
     (let working = filter (\<lambda>r. state r \<in> set working_states) orders;
          positions = filter (\<lambda>r. filled_quantity r > 0) orders;
          working_qty = dsum (map remaining_quantity working);
          pos_qty = dsum (map filled_quantity positions)
      in \<lparr>es_as_of = now, working_orders = length working, open_positions = length positions,
          working_quantity = working_qty, position_quantity = pos_qty,
          es_remaining_quantity = dsum (map remaining_quantity orders),
          expected_exposure = dadd working_qty pos_qty, broker_exposure = None, exposure_delta = None,
          reconciliation_status = (case recon of None \<Rightarrow> RO_DEGRADED | Some r \<Rightarrow> rc_outcome r),
          last_broker_refresh = None, es_stale = True, es_broker_truth_available = False\<rparr>)"

subsection \<open>Execution quality\<close>

text \<open>\<^verbatim>\<open>by_state.get(...)\<close>: the instant of the last event into a state.\<close>

definition last_at :: "OrderLifecycleEvent list \<Rightarrow> ExecutionLifecycleState \<Rightarrow> datetime option" where
  "last_at events t = map_option le_occurred_at (List.find (\<lambda>e. to_state e = t) (rev events))"

definition ms_between :: "datetime option \<Rightarrow> datetime option \<Rightarrow> int option" where
  "ms_between a b = (case (a, b) of (Some x, Some y) \<Rightarrow> Some (float_ms x y) | _ \<Rightarrow> None)"

definition py_or :: "'a option \<Rightarrow> 'a option \<Rightarrow> 'a option" where
  "py_or a b = (case a of None \<Rightarrow> b | Some x \<Rightarrow> Some x)"

definition no_quality :: "datetime \<Rightarrow> ExecutionQualityReport" where
  "no_quality now =
     \<lparr>eq_as_of = now, decision_to_submit_ms = None, submit_to_ack_ms = None, ack_to_fill_ms = None,
      total_completion_ms = None, realized_slippage = None, reject_rate = None,
      partial_fill_ratio = None, cancel_ratio = None, success_rate = None, sample_size = 0,
      data_status = ''insufficient_data'', eq_dimensions = None\<rparr>"

definition quality_report ::
  "OrderRecord option \<Rightarrow> OrderLifecycleEvent list \<Rightarrow> FillEvent list \<Rightarrow> datetime \<Rightarrow> nat \<Rightarrow> nat \<Rightarrow>
   ExecutionQualityReport" where
  "quality_report rec events fills now rejects submits =
     (case rec of
        None \<Rightarrow> no_quality now
      | Some r \<Rightarrow>
          if events = [] then no_quality now
          else
            (let created = Some (le_occurred_at (hd events)); submitted = last_at events SUBMITTED;
                 ack = last_at events ACKNOWLEDGED; filled = last_at events FILLED
             in
            \<lparr>eq_as_of = now,
             decision_to_submit_ms = ms_between created submitted,
             submit_to_ack_ms = ms_between submitted ack,
             ack_to_fill_ms = ms_between ack filled,
             total_completion_ms = ms_between created (py_or filled (py_or ack submitted)),
             realized_slippage =
               (case entry_price r of None \<Rightarrow> None
                | Some p \<Rightarrow> if fills = [] then None else Some (dsub (fl_price (last fills)) p)),
             reject_rate = (if submits + rejects = 0 then None
                            else Some (ddiv (of_nat rejects) (of_nat (submits + rejects)))),
             partial_fill_ratio = Some (if state r = PARTIALLY_FILLED then 1 else 0),
             cancel_ratio = None,
             success_rate = Some (if state r \<in> {FILLED, RECONCILIATION_PENDING} then 1 else 0),
             sample_size = length events,
             data_status = (if submitted \<noteq> None then ''ok'' else ''insufficient_data''),
             eq_dimensions = Some (symbol r, order_id r)\<rparr>))"

text \<open>The reject rate is a rate.\<close>

lemma quality_reject_rate_bounds:
  assumes "reject_rate (quality_report rec events fills now rejects submits) = Some x"
  shows "0 \<le> x \<and> x \<le> 1"
proof -
  have pos: "0 < submits + rejects" and x: "x = ddiv (of_nat rejects) (of_nat (submits + rejects))"
    using assms by (auto simp: quality_report_def no_quality_def Let_def split: option.splits if_splits)
  have "dec28 1" using dec28_int [of 1] by simp
  moreover have "of_nat rejects / of_nat (submits + rejects) \<le> (1::rat)"
    using pos by (simp add: divide_le_eq)
  ultimately have "x \<le> 1" unfolding x ddiv_def by (intro dec_fix_le_iff)
  moreover have "0 \<le> x" unfolding x ddiv_def by (intro dec_fix_nonneg) simp
  ultimately show ?thesis by simp
qed

end
