(* ===== verification/Pm5Module.thy ===== *)
theory Pm5Module
  imports Pm5Services
begin

section \<open>The execution module\<close>

text \<open>
  \<^verbatim>\<open>pm5_execution/module.py\<close> with the audit registry and the replay log: the state
  of \<^verbatim>\<open>PM5ExecutionModule\<close> as a record, its handlers as computations that return a
  value or raise and always return the state. Statements are composed with \<open>bnd\<close> in
  the order of the code; \<open>fresh\<close> stands for \<^verbatim>\<open>new_id()\<close>, and the instant of
  \<^verbatim>\<open>self.clock.now()\<close> is an argument of each handler.
\<close>

subsection \<open>State\<close>

record audit_item =
  ai_id :: uuid
  ai_occurred_at :: datetime
  ai_kind :: string
  ai_summary :: string
  ai_durable :: bool

record incident_item =
  ii_id :: uuid
  ii_occurred_at :: datetime
  ii_title :: string
  ii_severity :: string
  ii_detail :: string
  ii_durable :: bool

record pm5 =
  pm_config :: Pm5ExecutionConfig
  pm_simulation_enabled :: bool
  pm_execution_flag :: bool
  pm_mode :: ExecutionMode
  pm_adapter :: broker_adapter
  pm_oms :: oms
  pm_control :: control_plane
  pm_surv :: surveillance
  pm_audit :: "audit_item list"
  pm_incidents :: "incident_item list"
  pm_replay :: "(uuid, replay_item list) dict"
  pm_last_recon :: "ReconciliationRecord option"
  pm_fills :: "(uuid, FillEvent list) dict"
  pm_commands :: "(uuid, NormalizedExecutionCommand) dict"
  pm_submit_count :: nat
  pm_reject_count :: nat
  pm_next_id :: uuid

definition pm5_init :: "Pm5ExecutionConfig \<Rightarrow> bool \<Rightarrow> bool \<Rightarrow> pm5" where
  "pm5_init config simulation_enabled execution_flag =
     (let mode = (if simulation_enabled then EM_SIMULATION else EM_DISABLED) in
      \<lparr>pm_config = config, pm_simulation_enabled = simulation_enabled,
       pm_execution_flag = execution_flag, pm_mode = mode, pm_adapter = select_adapter mode,
       pm_oms = oms_init, pm_control = control_init config, pm_surv = surveillance_init config,
       pm_audit = [], pm_incidents = [], pm_replay = [], pm_last_recon = None, pm_fills = [],
       pm_commands = [], pm_submit_count = 0, pm_reject_count = 0, pm_next_id = 0\<rparr>)"

subsection \<open>The calls into the parts\<close>

definition fresh :: "(pm5, uuid) comp" where
  "fresh s = (Inr (pm_next_id s), s\<lparr>pm_next_id := Suc (pm_next_id s)\<rparr>)"

definition p_audit :: "datetime \<Rightarrow> string \<Rightarrow> string \<Rightarrow> (pm5, unit) comp" where
  "p_audit now kind summary =
     bnd fresh (\<lambda>i. upd_st (\<lambda>s. s\<lparr>pm_audit := pm_audit s @
       [\<lparr>ai_id = i, ai_occurred_at = now, ai_kind = kind, ai_summary = summary,
         ai_durable = False\<rparr>]\<rparr>))"

definition p_incident :: "datetime \<Rightarrow> string \<Rightarrow> string \<Rightarrow> string \<Rightarrow> (pm5, unit) comp" where
  "p_incident now title severity det =
     bnd fresh (\<lambda>i. upd_st (\<lambda>s. s\<lparr>pm_incidents := pm_incidents s @
       [\<lparr>ii_id = i, ii_occurred_at = now, ii_title = title, ii_severity = severity,
         ii_detail = det, ii_durable = False\<rparr>]\<rparr>))"

definition p_replay :: "uuid \<Rightarrow> replay_item \<Rightarrow> (pm5, unit) comp" where
  "p_replay oid item = upd_st (\<lambda>s. s\<lparr>pm_replay := dict_append oid item (pm_replay s)\<rparr>)"

definition lifecycle_item :: "OrderLifecycleEvent \<Rightarrow> replay_item" where
  "lifecycle_item ev =
     R_lifecycle (from_state ev) (to_state ev) (le_reason ev) (le_actor ev) (le_source ev) (le_occurred_at ev)"

definition note_lifecycle :: "OrderLifecycleEvent \<Rightarrow> (pm5, unit) comp" where
  "note_lifecycle ev = p_replay (le_order_id ev) (lifecycle_item ev)"

text \<open>\<^verbatim>\<open>self.replay.note_lifecycle(self.oms.events(record.order_id)[-1])\<close>\<close>

definition p_note_last :: "OrderRecord \<Rightarrow> (pm5, unit) comp" where
  "p_note_last r =
     bnd (get_st (\<lambda>s. oms_events (pm_oms s) (order_id r))) (\<lambda>evs.
       if evs = [] then raise_exn IndexError else note_lifecycle (last evs))"

definition p_transit ::
  "OrderRecord \<Rightarrow> ExecutionLifecycleState \<Rightarrow> datetime \<Rightarrow> string \<Rightarrow> string \<Rightarrow> string \<Rightarrow>
   (OrderRecord \<Rightarrow> OrderRecord) \<Rightarrow> (pm5, OrderRecord) comp" where
  "p_transit r target now reason actor source upd =
     bnd fresh (\<lambda>eid s.
       (case oms_transit eid r target now reason actor source upd (pm_oms s) of
          (res, m) \<Rightarrow> (res, s\<lparr>pm_oms := m\<rparr>)))"

definition p_apply_fill :: "OrderRecord \<Rightarrow> FillEvent \<Rightarrow> datetime \<Rightarrow> (pm5, OrderRecord) comp" where
  "p_apply_fill r fill now =
     bnd fresh (\<lambda>eid s.
       (case oms_apply_fill eid r fill now (pm_oms s) of (res, m) \<Rightarrow> (res, s\<lparr>pm_oms := m\<rparr>)))"

definition p_control ::
  "(uuid \<Rightarrow> control_plane \<Rightarrow> ControlActionRecord \<times> control_plane) \<Rightarrow> (pm5, ControlActionRecord) comp" where
  "p_control f =
     bnd fresh (\<lambda>aid s. (case f aid (pm_control s) of (rec, cp) \<Rightarrow> (Inr rec, s\<lparr>pm_control := cp\<rparr>)))"

definition p_surv ::
  "(uuid \<Rightarrow> surveillance \<Rightarrow> SurveillanceAlert option \<times> surveillance) \<Rightarrow>
   (pm5, SurveillanceAlert option) comp" where
  "p_surv f =
     bnd fresh (\<lambda>aid s. (case f aid (pm_surv s) of (al, sv) \<Rightarrow> (Inr al, s\<lparr>pm_surv := sv\<rparr>)))"

text \<open>\<^verbatim>\<open>self.recon.run(...)\<close> as every call in the module makes it.\<close>

definition p_recon :: "datetime \<Rightarrow> (pm5, ReconciliationRecord) comp" where
  "p_recon now =
     bnd fresh (\<lambda>rid. get_st (\<lambda>s.
       recon_run rid now (length (oms_all_orders (pm_oms s))) (Some 0) False False False False False))"

subsection \<open>Publication\<close>

definition published_operating :: "pm5 \<Rightarrow> Pm5OperatingState" where
  "published_operating s =
     (if cp_operating (pm_control s) = OS_NORMAL then OS_DEGRADED else cp_operating (pm_control s))"

definition build_bundle ::
  "uuid \<Rightarrow> datetime \<Rightarrow> ExecutionIntentReceipt \<Rightarrow> OrderRecord option \<Rightarrow>
   NormalizedExecutionCommand option \<Rightarrow> OrderLifecycleEvent list \<Rightarrow> FillEvent list \<Rightarrow>
   ReconciliationRecord \<Rightarrow> pm5 \<Rightarrow> py_exn + ExecutionPublicationBundle" where
  "build_bundle bid now receipt order command lifecycle fills recon s =
     no_live_send
       \<lparr>eb_bundle_id = bid, eb_occurred_at = now, eb_order = order, eb_receipt = receipt,
        eb_command = command, eb_lifecycle = lifecycle, eb_fills = fills,
        eb_control = cp_actions (pm_control s), eb_reconciliation = Some recon,
        eb_exposure = Some (exposure_snapshot (oms_all_orders (pm_oms s)) now (Some recon)),
        eb_quality = Some (quality_report order lifecycle fills now (pm_reject_count s) (pm_submit_count s)),
        eb_alerts = sv_alerts (pm_surv s), eb_operating_state = published_operating s,
        eb_execution_mode = pm_mode s, eb_broker_side_effect = False, eb_mt5_used = False,
        eb_durable = False, eb_producer = ''pm5_execution''\<rparr>"

definition p_publish ::
  "OrderRecord \<Rightarrow> datetime \<Rightarrow> bool \<Rightarrow> ExecutionRejectReason list \<Rightarrow>
   NormalizedExecutionCommand option \<Rightarrow> bool \<Rightarrow> (pm5, ExecutionPublicationBundle) comp" where
  "p_publish r now acc reasons command idempotent =
     bnd (get_st pm_last_recon) (\<lambda>last.
     bnd (case last of Some x \<Rightarrow> ret x | None \<Rightarrow> p_recon now) (\<lambda>recon.
     bnd (upd_st (\<lambda>s. s\<lparr>pm_last_recon := Some recon\<rparr>)) (\<lambda>_.
     bnd fresh (\<lambda>bid s.
       (build_bundle bid now
          \<lparr>accepted = acc, rp_order_id = Some (order_id r), rp_state = Some (state r),
           rp_reasons = reasons, rp_detail = detail r, rp_broker_side_effect = False,
           rp_simulation = True, idempotent_replay = idempotent\<rparr>
          (Some r)
          (case command of Some c \<Rightarrow> Some c | None \<Rightarrow> dict_get (pm_commands s) (order_id r))
          (oms_events (pm_oms s) (order_id r)) (dict_list (pm_fills s) (order_id r)) recon s, s)))))"

definition p_reject_bundle ::
  "datetime \<Rightarrow> OrderRecord option \<Rightarrow> ExecutionRejectReason list \<Rightarrow> string \<Rightarrow>
   (pm5, ExecutionPublicationBundle) comp" where
  "p_reject_bundle now order reasons det =
     bnd (p_recon now) (\<lambda>recon.
     bnd (upd_st (\<lambda>s. s\<lparr>pm_last_recon := Some recon\<rparr>)) (\<lambda>_.
     bnd fresh (\<lambda>bid s.
       (build_bundle bid now
          \<lparr>accepted = False, rp_order_id = map_option order_id order,
           rp_state = map_option state order, rp_reasons = reasons, rp_detail = det,
           rp_broker_side_effect = False, rp_simulation = True, idempotent_replay = False\<rparr>
          order None
          (case order of None \<Rightarrow> [] | Some r \<Rightarrow> oms_events (pm_oms s) (order_id r))
          [] recon s, s))))"

subsection \<open>Ingest\<close>

record ingest_args =
  ia_direction :: "Direction option"
  ia_entry_type :: EntryType
  ia_quantity :: "dec option"
  ia_order_type :: string
  ia_entry_price :: "dec option"
  ia_stop_price :: "dec option"
  ia_strategy_id :: "string option"
  ia_cluster :: "string option"

definition seed_order ::
  "uuid \<Rightarrow> uuid \<Rightarrow> RiskPublicationBundle \<Rightarrow> ingest_args \<Rightarrow> Direction \<Rightarrow> dec \<Rightarrow> datetime \<Rightarrow>
   ExecutionRejectReason option \<Rightarrow> string \<Rightarrow> OrderRecord" where
  "seed_order oid kid b a dir qty now rr det =
     \<lparr>order_id = oid, intent_id = rb_intent_id b, pm4_decision_id = verdict_id (rb_verdict b),
      idempotency_key = (case rb_idempotency_key b of None \<Rightarrow> uuid_str kid
                         | Some k \<Rightarrow> if k = [] then uuid_str kid else k),
      correlation_id = rb_correlation_id b, causation_id = rb_causation_id b,
      occurred_at = now, symbol = rb_symbol b, direction = dir, entry_type = ia_entry_type a,
      original_quantity = qty, remaining_quantity = qty, filled_quantity = 0,
      state = INTENT_CREATED, broker_ticket = None, broker_side_effect = False,
      simulation = True, stop_price = ia_stop_price a, entry_price = ia_entry_price a,
      average_fill_price = None, reject_reason = rr, detail = det\<rparr>"

definition created_event :: "uuid \<Rightarrow> OrderRecord \<Rightarrow> datetime \<Rightarrow> OrderLifecycleEvent" where
  "created_event eid r now =
     \<lparr>le_event_id = eid, le_order_id = order_id r, le_occurred_at = now, from_state = None,
      to_state = state r, le_reason = ''created'', le_actor = ''intake'', le_source = ''pm5'',
      le_correlation_id = correlation_id r\<rparr>"

definition p_seed_record ::
  "RiskPublicationBundle \<Rightarrow> ingest_args \<Rightarrow> Direction \<Rightarrow> dec \<Rightarrow> datetime \<Rightarrow>
   ExecutionRejectReason option \<Rightarrow> string \<Rightarrow> (pm5, OrderRecord) comp" where
  "p_seed_record b a dir qty now rr det =
     bnd fresh (\<lambda>oid. bnd fresh (\<lambda>kid. bnd fresh (\<lambda>eid.
       (let r = seed_order oid kid b a dir qty now rr det; ev = created_event eid r now in
        bnd (upd_st (\<lambda>s. s\<lparr>pm_oms := oms_put_new r ev (pm_oms s)\<rparr>)) (\<lambda>_.
        bnd (note_lifecycle ev) (\<lambda>_. ret r))))))"

text \<open>A transition followed by the note of its event in the replay log.\<close>

definition p_move ::
  "OrderRecord \<Rightarrow> ExecutionLifecycleState \<Rightarrow> datetime \<Rightarrow> string \<Rightarrow> string \<Rightarrow> string \<Rightarrow>
   (OrderRecord \<Rightarrow> OrderRecord) \<Rightarrow> (pm5, OrderRecord) comp" where
  "p_move r target now reason actor source upd =
     bnd (p_transit r target now reason actor source upd) (\<lambda>r'.
     bnd (p_note_last r') (\<lambda>_. ret r'))"

definition ingest_rejected ::
  "datetime \<Rightarrow> RiskPublicationBundle option \<Rightarrow> ingest_args \<Rightarrow> dec option \<Rightarrow>
   ExecutionRejectReason list \<Rightarrow> (pm5, ExecutionPublicationBundle) comp" where
  "ingest_rejected now bndl a qty reasons =
     (let text = join '','' (map reject_value reasons) in
     bnd (upd_st (\<lambda>s. s\<lparr>pm_reject_count := Suc (pm_reject_count s)\<rparr>)) (\<lambda>_.
     bnd (p_surv (\<lambda>i. note_reject i now)) (\<lambda>alert.
     bnd (case alert of
            None \<Rightarrow> ret ()
          | Some al \<Rightarrow>
              if automatic_protection al \<and> sa_detector al = ''reject_burst''
              then bnd (p_control (\<lambda>i. control_emergency_cancel i now (sa_detector al) ''surveillance'' []))
                     (\<lambda>_. ret ())
              else ret ()) (\<lambda>_.
     bnd (p_audit now ''reject'' text) (\<lambda>_.
     (case (bndl, ia_direction a) of
        (Some b, Some dir) \<Rightarrow>
          bnd (p_seed_record b a dir (case qty of None \<Rightarrow> 0 | Some q \<Rightarrow> q) now
                 (Some (hd reasons)) text) (\<lambda>r.
          bnd (p_move r REJECTED now (reject_value (hd reasons)) ''intake'' ''pm5''
                 (\<lambda>x. x\<lparr>reject_reason := Some (hd reasons), detail := detail r\<rparr>)) (\<lambda>r'.
          p_publish r' now False reasons None False))
      | _ \<Rightarrow> p_reject_bundle now None reasons ''intake rejected''))))))"

text \<open>The loop over the adapter's events.\<close>

fun p_adapter_events :: "datetime \<Rightarrow> OrderRecord \<Rightarrow> broker_event list \<Rightarrow> (pm5, OrderRecord) comp" where
  "p_adapter_events now r [] = ret r"
| "p_adapter_events now r (Ack ev # evs) =
     (if ba_kind ev = BE_SIMULATED_ACK then
        bnd (p_move r ACKNOWLEDGED now ''simulated_ack'' ''simulation_adapter'' ''ems''
               (\<lambda>x. x\<lparr>broker_ticket := ba_ticket ev\<rparr>)) (\<lambda>r'. p_adapter_events now r' evs)
      else if ba_kind ev = BE_DISABLED then
        bnd (p_transit r BLOCKED now ''adapter_disabled'' ''disabled_adapter'' ''ems'' (\<lambda>x. x))
          (\<lambda>r'. p_adapter_events now r' evs)
      else p_adapter_events now r evs)"
| "p_adapter_events now r (Fill ev # evs) =
     bnd (get_st (\<lambda>s. simulation_auto_fill (pm_config s))) (\<lambda>auto.
       if \<not> auto then p_adapter_events now r evs
       else bnd (p_apply_fill r ev now) (\<lambda>r'.
            bnd (upd_st (\<lambda>s. s\<lparr>pm_fills := dict_append (order_id r') ev (pm_fills s)\<rparr>)) (\<lambda>_.
            bnd (p_replay (order_id r') (R_fill (fl_source ev) (fl_quantity ev) (fl_ticket ev))) (\<lambda>_.
            p_adapter_events now r' evs))))"

definition p_settle :: "datetime \<Rightarrow> OrderRecord \<Rightarrow> (pm5, OrderRecord) comp" where
  "p_settle now r =
     (if state r = FILLED
      then p_move r RECONCILIATION_PENDING now ''awaiting_broker_truth'' ''recon'' ''oms'' (\<lambda>x. x)
      else ret r)"

text \<open>The accepted path in its three stages: to the submission, through the adapter, publication.\<close>

definition accept_queue :: "datetime \<Rightarrow> OrderRecord \<Rightarrow> (pm5, OrderRecord) comp" where
  "accept_queue now r0 =
     bnd (p_move r0 VALIDATED now ''intake_ok'' ''intake'' ''oms'' (\<lambda>x. x)) (\<lambda>r1.
     bnd (p_move r1 QUEUED now ''queued'' ''oms'' ''oms'' (\<lambda>x. x)) (\<lambda>r2.
     bnd (upd_st (\<lambda>s. s\<lparr>pm_submit_count := Suc (pm_submit_count s)\<rparr>)) (\<lambda>_.
     bnd (p_surv (\<lambda>i. note_submit i now)) (\<lambda>alert.
     bnd (case alert of
            None \<Rightarrow> ret ()
          | Some al \<Rightarrow>
              if automatic_protection al
              then bnd (p_control (\<lambda>i. control_no_new_risk i now (sa_detector al) ''surveillance'')) (\<lambda>_.
                   p_incident now (sa_detector al) ''high'' (sa_recommended_action al))
              else ret ()) (\<lambda>_.
     p_move r2 SUBMITTED now ''simulation_submit'' ''ems'' ''oms'' (\<lambda>x. x))))))"

definition accept_route ::
  "datetime \<Rightarrow> RiskPublicationBundle \<Rightarrow> dec \<Rightarrow> ingest_args \<Rightarrow> OrderRecord \<Rightarrow>
   (pm5, NormalizedExecutionCommand \<times> OrderRecord) comp" where
  "accept_route now b qty a r3 =
     bnd fresh (\<lambda>cid.
     bnd (lift_res (to_command cid b r3 qty (ia_order_type a) (ia_entry_price a) (ia_stop_price a))) (\<lambda>cmd.
     bnd (upd_st (\<lambda>s. s\<lparr>pm_commands := dict_put (order_id r3) cmd (pm_commands s)\<rparr>)) (\<lambda>_.
     bnd (p_replay (order_id r3) (R_command False qty)) (\<lambda>_.
     bnd fresh (\<lambda>eid. bnd fresh (\<lambda>fid.
     bnd (get_st pm_adapter) (\<lambda>ad.
     bnd (lift_res (adapter_submit ad eid fid cmd now)) (\<lambda>events.
     bnd (bnd (p_adapter_events now r3 events) (p_settle now)) (\<lambda>r5.
     ret (cmd, r5))))))))))"

definition ingest_accepted ::
  "datetime \<Rightarrow> RiskPublicationBundle \<Rightarrow> Direction \<Rightarrow> dec \<Rightarrow> ingest_args \<Rightarrow>
   (pm5, ExecutionPublicationBundle) comp" where
  "ingest_accepted now b dir qty a =
     bnd (p_seed_record b a dir qty now None []) (\<lambda>r0.
     bnd (accept_queue now r0) (\<lambda>r3.
     bnd (accept_route now b qty a r3) (\<lambda>(cmd, r5).
     bnd (p_recon now) (\<lambda>recon.
     bnd (upd_st (\<lambda>s. s\<lparr>pm_last_recon := Some recon\<rparr>)) (\<lambda>_.
     bnd (p_audit now ''ingest'' (''accepted '' @ uuid_str (order_id r5))) (\<lambda>_.
     p_publish r5 now True [] (Some cmd) False))))))"

definition ingest_blocks :: "string option \<Rightarrow> ingest_args \<Rightarrow> pm5 \<Rightarrow> bool" where
  "ingest_blocks sy a s =
     (if truthy sy
      then control_blocks (pm_control s) (the sy) (ia_strategy_id a) (ia_cluster a)
      else cp_kill_latched (pm_control s) \<or> cp_block_new (pm_control s))"

definition ingest_qty :: "RiskPublicationBundle option \<Rightarrow> ingest_args \<Rightarrow> dec option" where
  "ingest_qty bndl a =
     (case (bndl, ia_quantity a) of (Some b, None) \<Rightarrow> Some (approved_quantity b) | _ \<Rightarrow> ia_quantity a)"

definition ingest_reasons ::
  "datetime \<Rightarrow> RiskPublicationBundle option \<Rightarrow> ingest_args \<Rightarrow> pm5 \<Rightarrow> ExecutionRejectReason list" where
  "ingest_reasons now bndl a s =
     (let sy = map_option rb_symbol bndl in
      validate_intake bndl now (pm_config s) (ia_direction a) (ingest_qty bndl a) sy
        (cp_kill_latched (pm_control s)) (ingest_blocks sy a s) (pm_mode s)
        (pm_simulation_enabled s) (ia_order_type a) False)"

definition ingest_new ::
  "datetime \<Rightarrow> RiskPublicationBundle option \<Rightarrow> ingest_args \<Rightarrow> (pm5, ExecutionPublicationBundle) comp" where
  "ingest_new now bndl a =
     bnd (get_st (ingest_reasons now bndl a)) (\<lambda>reasons.
       if reasons \<noteq> [] then ingest_rejected now bndl a (ingest_qty bndl a) reasons
       else ingest_accepted now (the bndl) (the (ia_direction a)) (the (ingest_qty bndl a)) a)"

definition ingest_existing ::
  "datetime \<Rightarrow> RiskPublicationBundle option \<Rightarrow> ingest_args \<Rightarrow> string \<Rightarrow> OrderRecord \<Rightarrow>
   (pm5, ExecutionPublicationBundle) comp" where
  "ingest_existing now bndl a key existing =
     bnd (get_st (\<lambda>s. oms_payload_for (pm_oms s) key)) (\<lambda>stored.
       if (case (stored, map_option rb_symbol bndl, ia_direction a, ingest_qty bndl a) of
             (Some (sy, d, q), Some sy', Some d', Some q') \<Rightarrow> sy = sy' \<and> d = d' \<and> q = q'
           | _ \<Rightarrow> False)
       then bnd (get_st (\<lambda>s. dict_get (pm_commands s) (order_id existing))) (\<lambda>cmd.
            p_publish existing now True [] cmd True)
       else bnd (upd_st (\<lambda>s. s\<lparr>pm_reject_count := Suc (pm_reject_count s)\<rparr>)) (\<lambda>_.
            bnd (p_surv (\<lambda>i. note_reject i now)) (\<lambda>_.
            bnd (p_audit now ''reject'' ''duplicate_conflict'') (\<lambda>_.
            p_reject_bundle now (Some existing) [RR_DUPLICATE_CONFLICT]
              ''conflicting payload for idempotency key''))))"

definition ingest ::
  "datetime \<Rightarrow> RiskPublicationBundle option \<Rightarrow> ingest_args \<Rightarrow> (pm5, ExecutionPublicationBundle) comp" where
  "ingest now bndl a =
     (let key = Option.bind bndl rb_idempotency_key in
      bnd (get_st (\<lambda>s. if truthy key then oms_by_key (pm_oms s) (the key) else None)) (\<lambda>existing.
        case existing of
          Some r \<Rightarrow> ingest_existing now bndl a (the key) r
        | None \<Rightarrow> ingest_new now bndl a))"

subsection \<open>Cancel, emergency cancel and the other handlers\<close>

definition cancel_order ::
  "datetime \<Rightarrow> uuid \<Rightarrow> string \<Rightarrow> string \<Rightarrow> (pm5, OrderRecord option) comp" where
  "cancel_order now oid reason actor =
     bnd (get_st (\<lambda>s. oms_get (pm_oms s) oid)) (\<lambda>found.
     case found of
       None \<Rightarrow> ret None
     | Some r \<Rightarrow>
         bnd (p_surv (\<lambda>i. note_cancel i now)) (\<lambda>alert.
         bnd (case alert of
                None \<Rightarrow> ret ()
              | Some al \<Rightarrow> bnd (p_control (\<lambda>i. control_no_new_risk i now (sa_detector al) ''surveillance''))
                             (\<lambda>_. ret ())) (\<lambda>_.
         bnd (get_st (\<lambda>s. dict_get (pm_commands s) oid)) (\<lambda>command.
         bnd (p_transit r CANCEL_REQUESTED now reason actor ''control_plane'' (\<lambda>x. x)) (\<lambda>r1.
         bnd (case command of
                None \<Rightarrow> ret ()
              | Some cmd \<Rightarrow> bnd fresh (\<lambda>eid. bnd (get_st pm_adapter) (\<lambda>ad.
                             bnd (lift_res (adapter_cancel ad eid cmd now)) (\<lambda>_. ret ())))) (\<lambda>_.
         bnd (p_transit r1 CANCELLED now ''simulation_cancel'' ''simulation_adapter'' ''ems'' (\<lambda>x. x)) (\<lambda>r2.
         bnd (p_control (\<lambda>i. control_record i now CA_CANCEL_ORDER SC_SYMBOL reason actor ''control_plane''
                (Some (symbol r2)) [order_id r2])) (\<lambda>_.
         ret (Some r2)))))))))"

text \<open>
  The loop of \<^verbatim>\<open>emergency_cancel\<close>: an \<^verbatim>\<open>IllegalTransition\<close> is swallowed and the
  next order is tried; each call reads the clock again (\<open>clk\<close>).
\<close>

fun cancel_each :: "(uuid \<Rightarrow> datetime) \<Rightarrow> string \<Rightarrow> uuid list \<Rightarrow> (pm5, unit) comp" where
  "cancel_each clk actor [] s = (Inr (), s)"
| "cancel_each clk actor (oid # oids) s =
     (case cancel_order (clk oid) oid ''emergency_cancel'' actor s of
        (Inr _, s') \<Rightarrow> cancel_each clk actor oids s'
      | (Inl (IllegalTransition _), s') \<Rightarrow> cancel_each clk actor oids s'
      | (Inl e, s') \<Rightarrow> (Inl e, s'))"

definition cancellable_states :: "ExecutionLifecycleState list" where
  "cancellable_states = [QUEUED, SUBMITTED, ACKNOWLEDGED, PARTIALLY_FILLED]"

definition emergency_cancel ::
  "datetime \<Rightarrow> (uuid \<Rightarrow> datetime) \<Rightarrow> string \<Rightarrow> string \<Rightarrow> (pm5, ControlActionRecord) comp" where
  "emergency_cancel now clk reason actor =
     bnd (get_st (\<lambda>s. map order_id
            (filter (\<lambda>r. state r \<in> set cancellable_states) (oms_all_orders (pm_oms s))))) (\<lambda>working.
     bnd (p_control (\<lambda>i. control_emergency_cancel i now reason actor working)) (\<lambda>rec.
     bnd (cancel_each clk actor working) (\<lambda>_.
     bnd (p_incident now ''emergency_cancel'' ''critical'' reason) (\<lambda>_.
     ret rec))))"

definition freeze_scope ::
  "datetime \<Rightarrow> ControlScope \<Rightarrow> string \<Rightarrow> string \<Rightarrow> string option \<Rightarrow> (pm5, ControlActionRecord) comp" where
  "freeze_scope now scope reason actor scope_id =
     p_control (\<lambda>i. control_freeze i now scope reason actor scope_id)"

definition enter_close_only :: "datetime \<Rightarrow> string \<Rightarrow> string \<Rightarrow> (pm5, ControlActionRecord) comp" where
  "enter_close_only now reason actor = p_control (\<lambda>i. control_close_only i now reason actor)"

definition no_new_risk :: "datetime \<Rightarrow> string \<Rightarrow> string \<Rightarrow> (pm5, ControlActionRecord) comp" where
  "no_new_risk now reason actor = p_control (\<lambda>i. control_no_new_risk i now reason actor)"

definition request_recovery :: "datetime \<Rightarrow> string \<Rightarrow> string \<Rightarrow> (pm5, ControlActionRecord) comp" where
  "request_recovery now reason actor = p_control (\<lambda>i. control_recover i now reason actor)"

text \<open>\<^verbatim>\<open>submit\<close> always raises and \<^verbatim>\<open>broker_submit\<close> always refuses.\<close>

definition submit :: "'request \<Rightarrow> (pm5, 'report) comp" where
  "submit request =
     raise_exn (ExecutionDisabledError
       (''PM5 submit(OrderRequest) is disabled in Sequence 07. '' @
        ''Simulation ingest records OMS state only. No MT5, no broker send.''))"

definition broker_submit :: "uuid \<Rightarrow> (pm5, ExecutionIntentReceipt) comp" where
  "broker_submit oid =
     get_st (\<lambda>s. let rec = oms_get (pm_oms s) oid in
       \<lparr>accepted = False, rp_order_id = (if rec = None then None else Some oid),
        rp_state = map_option state rec,
        rp_reasons = [RR_EXECUTION_NOT_PERMITTED, RR_BROKER_UNAVAILABLE],
        rp_detail = ''execution_permitted=false; Sequence 07 has no broker path'',
        rp_broker_side_effect = False, rp_simulation = True, idempotent_replay = False\<rparr>)"

subsection \<open>Queries\<close>

definition list_working_orders :: "pm5 \<Rightarrow> OrderRecord list" where
  "list_working_orders s =
     filter (\<lambda>r. state r \<in> {QUEUED, SUBMITTED, ACKNOWLEDGED, PARTIALLY_FILLED, RECONCILIATION_PENDING})
       (oms_all_orders (pm_oms s))"

definition get_exposure :: "datetime \<Rightarrow> pm5 \<Rightarrow> ExposureState" where
  "get_exposure now s = exposure_snapshot (oms_all_orders (pm_oms s)) now (pm_last_recon s)"

definition get_reconciliation_status :: "datetime \<Rightarrow> (pm5, ReconciliationRecord) comp" where
  "get_reconciliation_status now =
     bnd (get_st pm_last_recon) (\<lambda>last. case last of Some r \<Rightarrow> ret r | None \<Rightarrow> p_recon now)"

definition get_replay_bundle :: "uuid \<Rightarrow> (pm5, ReplayBundle) comp" where
  "get_replay_bundle oid =
     bnd fresh (\<lambda>bid. get_st (\<lambda>s. \<lparr>rpb_bundle_id = bid, rpb_order_id = oid,
       rpb_events = dict_list (pm_replay s) oid, deterministic = True\<rparr>))"

definition get_control_state ::
  "pm5 \<Rightarrow> Pm5OperatingState \<times> bool \<times> bool \<times> bool \<times> ExecutionMode" where
  "get_control_state s =
     (cp_operating (pm_control s), cp_block_new (pm_control s), cp_close_only (pm_control s),
      cp_kill_latched (pm_control s), pm_mode s)"

subsection \<open>The handlers as steps\<close>

text \<open>One call of the module's interface, and the states that calls can lead to.\<close>

datatype pm5_call =
    M_ingest datetime "RiskPublicationBundle option" ingest_args
  | M_cancel datetime uuid string string
  | M_emergency datetime "uuid \<Rightarrow> datetime" string string
  | M_freeze datetime ControlScope string string "string option"
  | M_close_only datetime string string
  | M_no_new_risk datetime string string
  | M_recover datetime string string

fun pm5_do :: "pm5_call \<Rightarrow> pm5 \<Rightarrow> pm5" where
  "pm5_do (M_ingest now b a) s = snd (ingest now b a s)"
| "pm5_do (M_cancel now oid re ac) s = snd (cancel_order now oid re ac s)"
| "pm5_do (M_emergency now clk re ac) s = snd (emergency_cancel now clk re ac s)"
| "pm5_do (M_freeze now sc re ac sid) s = snd (freeze_scope now sc re ac sid s)"
| "pm5_do (M_close_only now re ac) s = snd (enter_close_only now re ac s)"
| "pm5_do (M_no_new_risk now re ac) s = snd (no_new_risk now re ac s)"
| "pm5_do (M_recover now re ac) s = snd (request_recovery now re ac s)"

inductive pm5_reach :: "pm5 \<Rightarrow> bool" where
  init: "pm5_reach (pm5_init config sim ex)"
| call: "pm5_reach s \<Longrightarrow> pm5_reach (pm5_do c s)"

end
