(* ===== verification/Pm5Props.thy ===== *)
theory Pm5Props
  imports Pm5Module
begin

section \<open>Properties of the execution module\<close>

text \<open>
  The invariant of the module and what its handlers do: every handler keeps the legality
  of the order logs and the control latches; a passed intake creates an order that walks
  the table to its settled state without raising; a blocked module creates rejected orders
  only; an idempotency key is honoured; an emergency cancel cancels what the table lets it
  cancel.
\<close>

subsection \<open>The invariant\<close>

definition pm5_inv :: "pm5 \<Rightarrow> bool" where
  "pm5_inv s \<longleftrightarrow>
     oms_inv (pm_oms s) \<and> control_inv (pm_control s) \<and>
     (\<forall>oid. pm_next_id s \<le> oid \<longrightarrow> oms_get (pm_oms s) oid = None) \<and>
     pm_adapter s = select_adapter (pm_mode s) \<and>
     pm_mode s = (if pm_simulation_enabled s then EM_SIMULATION else EM_DISABLED)"

lemma pm5_init_inv [simp]: "pm5_inv (pm5_init c sim ex)"
  by (simp add: pm5_inv_def pm5_init_def Let_def) (simp add: oms_init_def oms_get_def dict_simps)

text \<open>
  What a handler started in \<open>s0\<close> has done to the book so far: it holds exactly the orders
  of the map \<open>g\<close> and the key index \<open>k\<close>; configuration and mode are those of the start, and
  no latch that was set has been released.
\<close>

definition tracks ::
  "pm5 \<Rightarrow> (uuid \<Rightarrow> OrderRecord option) \<Rightarrow> (string \<Rightarrow> uuid option) \<Rightarrow> pm5 \<Rightarrow> bool" where
  "tracks s0 g k s \<longleftrightarrow>
     pm5_inv s \<and> (\<forall>oid. oms_get (pm_oms s) oid = g oid) \<and>
     (\<forall>key. dict_get (om_by_key (pm_oms s)) key = k key) \<and>
     pm_config s = pm_config s0 \<and> pm_simulation_enabled s = pm_simulation_enabled s0 \<and>
     (cp_block_new (pm_control s0) \<longrightarrow> cp_block_new (pm_control s)) \<and>
     (cp_kill_latched (pm_control s0) \<longrightarrow> cp_kill_latched (pm_control s))"

abbreviation book_of :: "pm5 \<Rightarrow> uuid \<Rightarrow> OrderRecord option" where
  "book_of s \<equiv> oms_get (pm_oms s)"

abbreviation keys_of :: "pm5 \<Rightarrow> string \<Rightarrow> uuid option" where
  "keys_of s \<equiv> dict_get (om_by_key (pm_oms s))"

lemma tracks_refl [simp]: "tracks s (book_of s) (keys_of s) s \<longleftrightarrow> pm5_inv s"
  by (simp add: tracks_def)

lemma tracks_inv: "tracks s0 g k s \<Longrightarrow> pm5_inv s"
  by (simp add: tracks_def)

lemma tracks_mode: "tracks s0 g k s \<Longrightarrow> pm_mode s \<in> {EM_SIMULATION, EM_DISABLED}"
  by (simp add: tracks_def pm5_inv_def)

subsection \<open>Calls that leave the book and the control plane alone\<close>

definition core :: "pm5 \<Rightarrow> Pm5ExecutionConfig \<times> bool \<times> ExecutionMode \<times> broker_adapter \<times> oms \<times> control_plane" where
  "core s = (pm_config s, pm_simulation_enabled s, pm_mode s, pm_adapter s, pm_oms s, pm_control s)"

definition core_step :: "pm5 \<Rightarrow> pm5 \<Rightarrow> bool" where
  "core_step s s' \<longleftrightarrow> core s' = core s \<and> pm_next_id s \<le> pm_next_id s'"

lemma core_step_inv: "core_step s s' \<Longrightarrow> pm5_inv s \<Longrightarrow> pm5_inv s'"
  by (auto simp: core_step_def core_def pm5_inv_def)

lemma core_step_tracks: "core_step s s' \<Longrightarrow> tracks s0 g k s \<Longrightarrow> tracks s0 g k s'"
  using core_step_inv [of s s'] by (auto simp: core_step_def core_def tracks_def)

text \<open>A predicate that survives core steps.\<close>

definition core_stable :: "(pm5 \<Rightarrow> bool) \<Rightarrow> bool" where
  "core_stable P \<longleftrightarrow> (\<forall>s s'. P s \<longrightarrow> core_step s s' \<longrightarrow> P s')"

lemma core_stable_tracks [simp, intro]: "core_stable (tracks s0 g k)"
  by (auto simp: core_stable_def intro: core_step_tracks)

lemma core_stable_conj [intro]: "core_stable P \<Longrightarrow> core_stable Q \<Longrightarrow> core_stable (\<lambda>s. P s \<and> Q s)"
  by (auto simp: core_stable_def)

lemma core_stable_pure [simp, intro]: "core_stable (\<lambda>s. B)"
  by (simp add: core_stable_def)

lemma core_upd:
  assumes "core_stable P" and "\<And>s. core_step s (u s)"
  shows "triple P (upd_st u) (\<lambda>_. P) no_raise"
  using assms by (intro triple_upd) (auto simp: core_stable_def)

lemma t_fresh: "core_stable P \<Longrightarrow> triple P fresh (\<lambda>_. P) no_raise"
  by (auto simp: triple_def fresh_def core_stable_def core_step_def core_def)

lemma t_replay: "core_stable P \<Longrightarrow> triple P (p_replay oid item) (\<lambda>_. P) no_raise"
  unfolding p_replay_def by (rule core_upd) (auto simp: core_step_def core_def)

lemma t_audit: "core_stable P \<Longrightarrow> triple P (p_audit now kd t) (\<lambda>_. P) no_raise"
  unfolding p_audit_def
  by (rule triple_bnd [OF t_fresh], assumption, rule core_upd) (auto simp: core_step_def core_def)

lemma t_incident: "core_stable P \<Longrightarrow> triple P (p_incident now t se d) (\<lambda>_. P) no_raise"
  unfolding p_incident_def
  by (rule triple_bnd [OF t_fresh], assumption, rule core_upd) (auto simp: core_step_def core_def)

lemma t_surv: "core_stable P \<Longrightarrow> triple P (p_surv f) (\<lambda>_. P) no_raise"
  unfolding p_surv_def
  by (rule triple_bnd [OF t_fresh], assumption)
    (auto simp: triple_def core_stable_def core_step_def core_def split: prod.splits)

lemma t_recon: "core_stable P \<Longrightarrow> triple P (p_recon now) (\<lambda>_. P) no_raise"
  unfolding p_recon_def by (rule triple_bnd [OF t_fresh], assumption, rule triple_get)

lemma t_lifecycle: "core_stable P \<Longrightarrow> triple P (note_lifecycle ev) (\<lambda>_. P) no_raise"
  unfolding note_lifecycle_def by (rule t_replay)

subsection \<open>Calls that change the control plane or the book\<close>

text \<open>A control operation that keeps its invariant and releases no latch.\<close>

definition tightens :: "(uuid \<Rightarrow> control_plane \<Rightarrow> ControlActionRecord \<times> control_plane) \<Rightarrow> bool" where
  "tightens f \<longleftrightarrow>
     (\<forall>i cp. control_inv cp \<longrightarrow> control_inv (snd (f i cp)) \<and>
        (cp_block_new cp \<longrightarrow> cp_block_new (snd (f i cp))) \<and>
        (cp_kill_latched cp \<longrightarrow> cp_kill_latched (snd (f i cp))))"

lemma tightens_ops [simp]:
  "tightens (\<lambda>i. control_no_new_risk i now re ac)"
  "tightens (\<lambda>i. control_emergency_cancel i now re ac af)"
  "tightens (\<lambda>i. control_record i now act sc re ac tr sid af)"
  "tightens (\<lambda>i. control_freeze i now sc re ac sid)"
  "tightens (\<lambda>i. control_close_only i now re ac)"
  by (auto simp: tightens_def control_inv_def control_defs)

lemma t_control: "tightens f \<Longrightarrow> triple (tracks s0 g k) (p_control f) (\<lambda>_. tracks s0 g k) no_raise"
  unfolding p_control_def
proof (rule triple_bnd [OF t_fresh], simp, rule tripleI)
  fix i s assume f: "tightens f" and tr: "tracks s0 g k s"
  obtain rec cp where cp: "f i (pm_control s) = (rec, cp)" by (cases "f i (pm_control s)")
  have "control_inv (pm_control s)" using tr by (simp add: tracks_def pm5_inv_def)
  with f cp have "control_inv cp" "cp_block_new (pm_control s) \<longrightarrow> cp_block_new cp"
    "cp_kill_latched (pm_control s) \<longrightarrow> cp_kill_latched cp"
    unfolding tightens_def by (metis snd_conv)+
  with tr have "tracks s0 g k (s\<lparr>pm_control := cp\<rparr>)" by (auto simp: tracks_def pm5_inv_def)
  with cp show "case (case f i (pm_control s) of (rec, cp) \<Rightarrow> (Inr rec, s\<lparr>pm_control := cp\<rparr>)) of
      (Inl e, s') \<Rightarrow> False | (Inr x, s') \<Rightarrow> tracks s0 g k s'"
    by simp
qed

lemma t_transit:
  assumes "can_transition (state r) t" and "g (order_id r) = Some r" and "upd_frame upd"
  shows "triple (tracks s0 g k) (p_transit r t now re ac so upd)
    (\<lambda>x s. x = upd (r\<lparr>state := t\<rparr>) \<and> tracks s0 (g(order_id r \<mapsto> upd (r\<lparr>state := t\<rparr>))) k s) no_raise"
  unfolding p_transit_def
proof (rule triple_bnd [OF t_fresh], simp, rule tripleI)
  fix eid s assume tr: "tracks s0 g k s"
  let ?r = "upd (r\<lparr>state := t\<rparr>)"
  obtain m where m: "oms_transit eid r t now re ac so upd (pm_oms s) = (Inr ?r, m)"
    and get: "\<And>oid. oms_get m oid = (if oid = order_id r then Some ?r else book_of s oid)"
    using book.move_ok [OF assms(1)] by metis
  have "oms_get (pm_oms s) (order_id r) = Some r" and "oms_inv (pm_oms s)"
    using tr assms(2) by (simp_all add: tracks_def pm5_inv_def)
  with book.move_inv [of "pm_oms s" r upd eid t now re ac so] m assms(3) have "oms_inv m" by simp
  moreover have "om_by_key m = om_by_key (pm_oms s)"
    using oms_transit_index(1) [of eid r t now re ac so upd "pm_oms s"] m by simp
  ultimately have "tracks s0 (g(order_id r \<mapsto> ?r)) k (s\<lparr>pm_oms := m\<rparr>)"
    using tr get assms(2) by (auto simp: tracks_def pm5_inv_def)
  with m show "case (case oms_transit eid r t now re ac so upd (pm_oms s) of
         (res, m) \<Rightarrow> (res, s\<lparr>pm_oms := m\<rparr>)) of
       (Inl e, s') \<Rightarrow> False
     | (Inr x, s') \<Rightarrow> x = ?r \<and> tracks s0 (g(order_id r \<mapsto> ?r)) k s'"
    by simp
qed

lemma t_note_last:
  assumes "g (order_id r) = Some r"
  shows "triple (tracks s0 g k) (p_note_last r) (\<lambda>_. tracks s0 g k) no_raise"
  unfolding p_note_last_def
proof (rule triple_bnd [where R = "\<lambda>evs s. tracks s0 g k s \<and> evs \<noteq> []"])
  show "triple (tracks s0 g k) (get_st (\<lambda>s. oms_events (pm_oms s) (order_id r)))
     (\<lambda>evs s. tracks s0 g k s \<and> evs \<noteq> []) no_raise"
    using assms legal_log_nonempty
    by (intro triple_get) (fastforce simp: tracks_def pm5_inv_def dest: oms_inv_orderD)
qed (auto intro!: triple_fact t_lifecycle)

lemma t_move:
  assumes "can_transition (state r) t" and "g (order_id r) = Some r" and "upd_frame upd"
  shows "triple (tracks s0 g k) (p_move r t now re ac so upd)
    (\<lambda>x s. x = upd (r\<lparr>state := t\<rparr>) \<and> tracks s0 (g(order_id r \<mapsto> upd (r\<lparr>state := t\<rparr>))) k s) no_raise"
  unfolding p_move_def
proof (rule triple_bnd [OF t_transit [where r = r and t = t and upd = upd and g = g, OF assms]], rule triple_eq)
  let ?r = "upd (r\<lparr>state := t\<rparr>)"
  have "order_id ?r = order_id r" using assms(3) by (simp add: upd_frame_def)
  then show "triple (tracks s0 (g(order_id r \<mapsto> ?r)) k) (bnd (p_note_last ?r) (\<lambda>_. ret ?r))
      (\<lambda>x s. x = ?r \<and> tracks s0 (g(order_id r \<mapsto> ?r)) k s) no_raise"
    by (intro triple_bnd [OF t_note_last] triple_ret) auto
qed

text \<open>Seeding an order: a new identifier, the record of the code and the key index entry.\<close>

lemma t_seed:
  shows "triple (tracks s0 g k) (p_seed_record b a dir qty now rr det)
    (\<lambda>r s. \<exists>oid kid. r = seed_order oid kid b a dir qty now rr det \<and> g oid = None \<and>
       tracks s0 (g(oid \<mapsto> r)) (k(idempotency_key r \<mapsto> oid)) s) no_raise"
proof (rule tripleI)
  fix s assume tr: "tracks s0 g k s"
  define oid where "oid = pm_next_id s"
  define r where "r = seed_order oid (Suc oid) b a dir qty now rr det"
  define ev where "ev = created_event (Suc (Suc oid)) r now"
  define s' where "s' = s\<lparr>pm_next_id := Suc (Suc (Suc oid)), pm_oms := oms_put_new r ev (pm_oms s),
     pm_replay := dict_append (le_order_id ev) (lifecycle_item ev) (pm_replay s)\<rparr>"
  have run: "p_seed_record b a dir qty now rr det s = (Inr r, s')"
    by (simp add: p_seed_record_def fresh_def bnd_def upd_st_def ret_def note_lifecycle_def
        p_replay_def Let_def r_def ev_def oid_def s'_def)
  have id: "order_id r = oid" by (simp add: r_def seed_order_def)
  have new: "oms_get (pm_oms s) oid = None" "g oid = None"
    using tr by (auto simp: tracks_def pm5_inv_def oid_def)
  have "oms_inv (oms_put_new r ev (pm_oms s))"
    using tr new(1) id
    by (intro oms_put_new_inv)
      (simp_all add: tracks_def pm5_inv_def ev_def created_event_def, simp_all add: r_def seed_order_def)
  moreover have "om_by_key (oms_put_new r ev (pm_oms s)) =
      dict_put (idempotency_key r) oid (om_by_key (pm_oms s))"
    by (simp add: oms_put_new_def id)
  ultimately have "tracks s0 (g(oid \<mapsto> r)) (k(idempotency_key r \<mapsto> oid)) s'"
    using tr id by (auto simp: tracks_def pm5_inv_def s'_def oms_get_put_new dict_simps oid_def)
  with run new(2) show "case p_seed_record b a dir qty now rr det s of
      (Inl e, s') \<Rightarrow> False
    | (Inr r, s') \<Rightarrow> \<exists>oid kid. r = seed_order oid kid b a dir qty now rr det \<and> g oid = None \<and>
       tracks s0 (g(oid \<mapsto> r)) (k(idempotency_key r \<mapsto> oid)) s'"
    by (auto simp: r_def)
qed

lemma t_apply_fill:
  assumes "fill_quantities r fill = (filled, rest)"
    and "can_transition (state r) (if rest = 0 then FILLED else PARTIALLY_FILLED)"
    and "g (order_id r) = Some r"
  shows "triple (tracks s0 g k) (p_apply_fill r fill now)
    (\<lambda>x s. order_id x = order_id r \<and> state x = (if rest = 0 then FILLED else PARTIALLY_FILLED) \<and>
       filled_quantity x = filled \<and> remaining_quantity x = rest \<and>
       idempotency_key x = idempotency_key r \<and> symbol x = symbol r \<and> direction x = direction r \<and>
       original_quantity x = original_quantity r \<and> tracks s0 (g(order_id r \<mapsto> x)) k s) no_raise"
proof -
  let ?u = "\<lambda>x. x\<lparr>filled_quantity := filled, remaining_quantity := rest,
     average_fill_price := Some (fill_average r fill filled),
     broker_ticket := (case fl_ticket fill of None \<Rightarrow> broker_ticket r
                       | Some t \<Rightarrow> if t = [] then broker_ticket r else Some t)\<rparr>"
  let ?t = "if rest = 0 then FILLED else PARTIALLY_FILLED"
  have eq: "p_apply_fill r fill now =
      p_transit r ?t now ''fill'' ''simulation_adapter'' ''ems'' ?u"
    by (simp add: p_apply_fill_def p_transit_def oms_apply_fill_def Let_def assms(1))
  have "triple (tracks s0 g k) (p_transit r ?t now ''fill'' ''simulation_adapter'' ''ems'' ?u)
      (\<lambda>x s. x = ?u (r\<lparr>state := ?t\<rparr>) \<and> tracks s0 (g(order_id r \<mapsto> ?u (r\<lparr>state := ?t\<rparr>))) k s) no_raise"
    using assms by (intro t_transit) auto
  then show ?thesis
    unfolding eq by (rule triple_conseq) auto
qed

text \<open>Publication only reads the book, and its own guard never fires: the mode is never live.\<close>

lemma t_build:
  "triple (tracks s0 g k) (\<lambda>s. (build_bundle bid now rc od (cm s) (lc s) (fi s) re s, s))
     (\<lambda>bn s. eb_receipt bn = rc \<and> eb_order bn = od \<and> tracks s0 g k s) no_raise"
proof (rule tripleI)
  fix s assume tr: "tracks s0 g k s"
  with tracks_mode [OF tr]
  show "case (build_bundle bid now rc od (cm s) (lc s) (fi s) re s, s) of
      (Inl e, s') \<Rightarrow> False
    | (Inr bn, s') \<Rightarrow> eb_receipt bn = rc \<and> eb_order bn = od \<and> tracks s0 g k s'"
    by (auto simp: build_bundle_def no_live_send_def)
qed

lemma t_get: "triple P (get_st f) (\<lambda>_. P) no_raise"
  by (rule triple_get)

lemma t_set_recon:
  "triple (tracks s0 g k) (upd_st (\<lambda>s. s\<lparr>pm_last_recon := Some re\<rparr>)) (\<lambda>_. tracks s0 g k) no_raise"
  by (rule core_upd) (auto simp: core_step_def core_def)

lemma t_last_recon:
  "triple (tracks s0 g k) (case lr of None \<Rightarrow> p_recon now | Some x \<Rightarrow> ret x) (\<lambda>_. tracks s0 g k) no_raise"
  by (rule triple_option) (auto intro: t_recon triple_ret)

text \<open>What a receipt for an order says.\<close>

definition says ::
  "bool \<Rightarrow> bool \<Rightarrow> ExecutionRejectReason list \<Rightarrow> OrderRecord option \<Rightarrow> ExecutionPublicationBundle \<Rightarrow> bool" where
  "says acc idem reasons od bn \<longleftrightarrow>
     accepted (eb_receipt bn) = acc \<and> idempotent_replay (eb_receipt bn) = idem \<and>
     rp_reasons (eb_receipt bn) = reasons \<and> rp_state (eb_receipt bn) = map_option state od \<and>
     rp_order_id (eb_receipt bn) = map_option order_id od \<and> eb_order bn = od"

lemma t_publish:
  "triple (tracks s0 g k) (p_publish r now acc reasons cmd idem)
     (\<lambda>bn s. says acc idem reasons (Some r) bn \<and> tracks s0 g k s) no_raise"
  unfolding p_publish_def
  by (rule triple_bnd [OF t_get], rule triple_bnd [OF t_last_recon], rule triple_bnd [OF t_set_recon],
      rule triple_bnd [OF t_fresh], simp, rule triple_conseq [OF t_build]) (auto simp: says_def)

lemma t_reject_bundle:
  "triple (tracks s0 g k) (p_reject_bundle now od reasons det)
     (\<lambda>bn s. says False False reasons od bn \<and> tracks s0 g k s) no_raise"
  unfolding p_reject_bundle_def
  by (rule triple_bnd [OF t_recon], simp, rule triple_bnd [OF t_set_recon],
      rule triple_bnd [OF t_fresh], simp, rule triple_conseq [OF t_build]) (auto simp: says_def)

subsection \<open>Ingest\<close>

lemma t_count:
  "triple (tracks s0 g k) (upd_st (\<lambda>s. s\<lparr>pm_reject_count := Suc (pm_reject_count s)\<rparr>)) (\<lambda>_. tracks s0 g k) no_raise"
  "triple (tracks s0 g k) (upd_st (\<lambda>s. s\<lparr>pm_submit_count := Suc (pm_submit_count s)\<rparr>)) (\<lambda>_. tracks s0 g k) no_raise"
  by (rule core_upd; auto simp: core_step_def core_def)+

lemma t_protect:
  "tightens f \<Longrightarrow>
   triple (tracks s0 g k) (bnd (p_control f) (\<lambda>_. ret ())) (\<lambda>_. tracks s0 g k) no_raise"
  by (rule triple_bnd [OF t_control]) (auto intro: triple_ret)

lemma t_reject_alert:
  "triple (tracks s0 g k)
     (case alert of None \<Rightarrow> ret ()
      | Some al \<Rightarrow> if automatic_protection al \<and> sa_detector al = ''reject_burst''
          then bnd (p_control (\<lambda>i. control_emergency_cancel i now (sa_detector al) ''surveillance'' []))
                 (\<lambda>_. ret ())
          else ret ()) (\<lambda>_. tracks s0 g k) no_raise"
  by (rule triple_option; (rule triple_if)?; (rule t_protect triple_ret)?; simp)

lemma triple_option2:
  "(\<And>b d. x = Some b \<Longrightarrow> y = Some d \<Longrightarrow> triple P (f b d) Q E) \<Longrightarrow>
   (x = None \<or> y = None \<Longrightarrow> triple P m Q E) \<Longrightarrow>
   triple P (case (x, y) of (Some b, Some d) \<Rightarrow> f b d | _ \<Rightarrow> m) Q E"
  by (cases x; cases y) simp_all

text \<open>The record an intake leaves: none without a bundle or a side, else one with their payload.\<close>

definition seeded_from ::
  "RiskPublicationBundle option \<Rightarrow> ingest_args \<Rightarrow> dec option \<Rightarrow> OrderRecord option \<Rightarrow> bool" where
  "seeded_from bndl a qty od \<longleftrightarrow>
     (if bndl = None \<or> ia_direction a = None then od = None
      else \<exists>r. od = Some r \<and> symbol r = rb_symbol (the bndl) \<and> Some (direction r) = ia_direction a \<and>
        original_quantity r = (case qty of None \<Rightarrow> 0 | Some q \<Rightarrow> q) \<and>
        (\<forall>key. rb_idempotency_key (the bndl) = Some key \<longrightarrow> key \<noteq> [] \<longrightarrow> idempotency_key r = key))"

text \<open>An intake with reasons: at most one new order, and it is rejected.\<close>

lemma t_ingest_rejected:
  assumes "reasons \<noteq> []"
  shows "triple (tracks s0 g k) (ingest_rejected now bndl a qty reasons)
    (\<lambda>bn s. \<exists>od. says False False reasons od bn \<and> seeded_from bndl a qty od \<and>
       (case od of None \<Rightarrow> tracks s0 g k s
        | Some r \<Rightarrow> g (order_id r) = None \<and> state r = REJECTED \<and> filled_quantity r = 0 \<and>
            tracks s0 (g(order_id r \<mapsto> r)) (k(idempotency_key r \<mapsto> order_id r)) s)) no_raise"
    (is "triple _ _ ?Q _")
proof -
  have seeded: "triple (tracks s0 g k)
      (bnd (p_seed_record b a dir q now rr det) (\<lambda>r.
       bnd (p_move r REJECTED now t ''intake'' ''pm5''
              (\<lambda>x. x\<lparr>reject_reason := rr, detail := detail r\<rparr>)) (\<lambda>r'.
       p_publish r' now False reasons None False))) ?Q no_raise"
    if "bndl = Some b" "ia_direction a = Some dir" "q = (case qty of None \<Rightarrow> 0 | Some q \<Rightarrow> q)"
    for b dir q rr det t
  proof (rule triple_bnd [OF t_seed], rule triple_pre, elim exE conjE)
    fix r s oid kid
    assume r: "r = seed_order oid kid b a dir q now rr det" and new: "g oid = None"
      and tr: "tracks s0 (g(oid \<mapsto> r)) (k(idempotency_key r \<mapsto> oid)) s"
    let ?u = "\<lambda>x. x\<lparr>reject_reason := rr, detail := detail r\<rparr>"
    let ?r = "?u (r\<lparr>state := REJECTED\<rparr>)"
    have id: "order_id r = oid" and st: "state r = INTENT_CREATED" and fq: "filled_quantity r = 0"
      by (simp_all add: r seed_order_def)
    have sd: "seeded_from bndl a qty (Some (r\<lparr>state := REJECTED, reject_reason := rr\<rparr>))"
      by (simp add: seeded_from_def that r seed_order_def)
    have "triple (tracks s0 (g(oid \<mapsto> r)) (k(idempotency_key r \<mapsto> oid)))
       (bnd (p_move r REJECTED now t ''intake'' ''pm5'' ?u) (\<lambda>r'.
        p_publish r' now False reasons None False)) ?Q no_raise"
    proof (rule triple_bnd [OF t_move [where r = r and g = "g(oid \<mapsto> r)"]])
      fix x
      show "triple (\<lambda>s. x = ?r \<and> tracks s0 ((g(oid \<mapsto> r))(order_id r \<mapsto> ?r))
               (k(idempotency_key r \<mapsto> oid)) s)
            (p_publish x now False reasons None False) ?Q no_raise"
        by (rule triple_eq, rule triple_conseq [OF t_publish])
          (auto intro!: exI [of _ "Some ?r"] simp: id new fq sd)
    qed (auto simp: can_transition_def st id upd_frame_def)
    then show "triple (\<lambda>t. t = s) (bnd (p_move r REJECTED now t ''intake'' ''pm5'' ?u) (\<lambda>r'.
        p_publish r' now False reasons None False)) ?Q no_raise"
      by (rule triple_conseq) (use tr in auto)
  qed
  have plain: "triple (tracks s0 g k) (p_reject_bundle now None reasons det) ?Q no_raise"
    if "bndl = None \<or> ia_direction a = None" for det
    by (rule triple_conseq [OF t_reject_bundle]) (use that in \<open>auto intro: exI [of _ None] simp: seeded_from_def\<close>)
  show ?thesis
    unfolding ingest_rejected_def Let_def
    by (rule triple_bnd [OF t_count(1)], rule triple_bnd [OF t_surv], simp,
        rule triple_bnd [OF t_reject_alert], rule triple_bnd [OF t_audit], simp,
        rule triple_option2) (erule (1) seeded, rule refl, erule plain)
qed

text \<open>
  The accepted path. \<open>order_at\<close>: the handler holds the record \<open>r\<close> of the new order, in state
  \<open>t\<close> with \<open>fq\<close> filled, and the book is the old one with that record.
\<close>

definition order_at ::
  "pm5 \<Rightarrow> (uuid \<Rightarrow> OrderRecord option) \<Rightarrow> (string \<Rightarrow> uuid option) \<Rightarrow> uuid \<Rightarrow> string \<Rightarrow> oms_payload \<Rightarrow>
   ExecutionLifecycleState \<Rightarrow> dec \<Rightarrow> OrderRecord \<Rightarrow> pm5 \<Rightarrow> bool" where
  "order_at s0 g k oid key p t fq r s \<longleftrightarrow>
     order_id r = oid \<and> idempotency_key r = key \<and> (symbol r, direction r, original_quantity r) = p \<and>
     state r = t \<and> filled_quantity r = fq \<and> tracks s0 (g(oid \<mapsto> r)) k s"

lemma core_stable_order_at [simp, intro]: "core_stable (order_at s0 g k oid key p t fq r)"
  by (auto simp: core_stable_def order_at_def intro: core_step_tracks)

lemma order_at_tracks:
  "order_at s0 g k oid key p t fq r s \<Longrightarrow> tracks s0 (g(oid \<mapsto> r)) k s"
  by (simp add: order_at_def)

lemma t_walk:
  assumes "can_transition t t'" and "upd_frame upd" and "\<And>x. filled_quantity (upd x) = filled_quantity x"
  shows "triple (order_at s0 g k oid key p t fq r) (p_move r t' now re ac so upd)
    (order_at s0 g k oid key p t' fq) no_raise"
proof (rule triple_pre)
  fix s assume at: "order_at s0 g k oid key p t fq r s"
  let ?r = "upd (r\<lparr>state := t'\<rparr>)"
  have "triple (tracks s0 (g(oid \<mapsto> r)) k) (p_move r t' now re ac so upd)
     (\<lambda>x s. x = ?r \<and> tracks s0 ((g(oid \<mapsto> r))(order_id r \<mapsto> ?r)) k s) no_raise"
    using at assms by (intro t_move) (auto simp: order_at_def)
  then show "triple (\<lambda>u. u = s) (p_move r t' now re ac so upd) (order_at s0 g k oid key p t' fq) no_raise"
    by (rule triple_conseq) (use at assms in \<open>auto simp: order_at_def upd_frame_def\<close>)
qed

lemma t_walk_fill:
  assumes "can_transition t (if rest = 0 then FILLED else PARTIALLY_FILLED)"
    and "\<And>r. filled_quantity r = fq \<Longrightarrow> original_quantity r = snd (snd p) \<Longrightarrow>
      fill_quantities r ev = (fq', rest)"
  shows "triple (order_at s0 g k oid key p t fq r) (p_apply_fill r ev now)
    (order_at s0 g k oid key p (if rest = 0 then FILLED else PARTIALLY_FILLED) fq') no_raise"
proof (rule triple_pre)
  fix s assume at: "order_at s0 g k oid key p t fq r s"
  have "fill_quantities r ev = (fq', rest)" using at by (intro assms(2)) (auto simp: order_at_def)
  then have "triple (tracks s0 (g(oid \<mapsto> r)) k) (p_apply_fill r ev now)
    (\<lambda>x s. order_id x = order_id r \<and> state x = (if rest = 0 then FILLED else PARTIALLY_FILLED) \<and>
       filled_quantity x = fq' \<and> remaining_quantity x = rest \<and>
       idempotency_key x = idempotency_key r \<and> symbol x = symbol r \<and> direction x = direction r \<and>
       original_quantity x = original_quantity r \<and>
       tracks s0 ((g(oid \<mapsto> r))(order_id r \<mapsto> x)) k s) no_raise"
    using at assms(1) by (intro t_apply_fill) (simp_all add: order_at_def)
  then show "triple (\<lambda>u. u = s) (p_apply_fill r ev now)
    (order_at s0 g k oid key p (if rest = 0 then FILLED else PARTIALLY_FILLED) fq') no_raise"
    by (rule triple_conseq) (use at in \<open>auto simp: order_at_def\<close>)
qed

lemma t_protect_at:
  "tightens f \<Longrightarrow>
   triple (order_at s0 g k oid key p t fq r) (p_control f) (\<lambda>_. order_at s0 g k oid key p t fq r) no_raise"
  unfolding order_at_def conj_assoc [symmetric] by (intro triple_frame t_control)

text \<open>Where an accepted order of quantity \<open>q\<close> ends: with automatic fills, filled and awaiting
  reconciliation; a quantity of more than 28 digits is rounded by the fill and may stay partial.\<close>

definition settled_state :: "bool \<Rightarrow> dec \<Rightarrow> ExecutionLifecycleState" where
  "settled_state auto q =
     (if \<not> auto then ACKNOWLEDGED else if q \<le> dadd 0 q then RECONCILIATION_PENDING else PARTIALLY_FILLED)"

definition settled_fill :: "bool \<Rightarrow> dec \<Rightarrow> dec" where
  "settled_fill auto q = (if auto then dadd 0 q else 0)"

lemma fill_all:
  assumes "filled_quantity r = 0" and "original_quantity r = q" and "fl_quantity ev = q"
  shows "fill_quantities r ev =
    (dadd 0 q, if q \<le> dadd 0 q then 0 else dsub q (dadd 0 q))"
  using assms by (auto simp: fill_quantities_def Let_def dsub_def not_less)

lemma fill_rest_iff: "(if q \<le> dadd 0 q then 0 else dsub q (dadd 0 q)) = 0 \<longleftrightarrow> q \<le> dadd 0 q"
  by (simp add: dsub_def)

lemma t_settle:
  assumes "st = (if q \<le> dadd 0 q then FILLED else PARTIALLY_FILLED)"
  shows "triple (order_at s0 g k oid key p st fq r) (p_settle now r)
    (order_at s0 g k oid key p (if q \<le> dadd 0 q then RECONCILIATION_PENDING else PARTIALLY_FILLED) fq)
    no_raise"
proof (cases "q \<le> dadd 0 q")
  case True
  show ?thesis
  proof (rule triple_pre)
    fix s assume at: "order_at s0 g k oid key p st fq r s"
    then have "state r = FILLED" using True assms by (simp add: order_at_def)
    then have eq: "p_settle now r =
        p_move r RECONCILIATION_PENDING now ''awaiting_broker_truth'' ''recon'' ''oms'' (\<lambda>x. x)"
      by (simp add: p_settle_def)
    have "triple (order_at s0 g k oid key p st fq r) (p_settle now r)
        (order_at s0 g k oid key p RECONCILIATION_PENDING fq) no_raise"
      unfolding eq by (rule t_walk) (simp_all add: can_transition_def True assms)
    then show "triple (\<lambda>u. u = s) (p_settle now r)
        (order_at s0 g k oid key p (if q \<le> dadd 0 q then RECONCILIATION_PENDING else PARTIALLY_FILLED) fq)
        no_raise"
      by (rule triple_conseq) (use at True in auto)
  qed
next
  case False
  then show ?thesis
    using assms by (auto simp: triple_def p_settle_def order_at_def ret_def)
qed

text \<open>The events of the simulation adapter, and what the loop makes of them.\<close>

lemma t_adapter:
  assumes ev: "adapter_submit SimulationBrokerAdapter eid fid cmd now = Inr evs"
    and q: "cm_requested_quantity cmd = q" "p = (sy, d, q)"
  shows "triple (order_at s0 g k oid key p SUBMITTED 0 r)
    (bnd (p_adapter_events now r evs) (p_settle now))
    (order_at s0 g k oid key p
       (settled_state (simulation_auto_fill (pm_config s0)) q)
       (settled_fill (simulation_auto_fill (pm_config s0)) q)) no_raise"
    (is "triple _ _ (?at (settled_state ?auto q) (settled_fill ?auto q)) _")
proof -
  obtain ack fill where evs: "evs = [Ack ack, Fill fill]" and ack: "ba_kind ack = BE_SIMULATED_ACK"
    and fq: "fl_quantity fill = q"
    using ev q by auto
  have acked: "triple (order_at s0 g k oid key p SUBMITTED 0 r)
      (p_move r ACKNOWLEDGED now ''simulated_ack'' ''simulation_adapter'' ''ems''
         (\<lambda>x. x\<lparr>broker_ticket := ba_ticket ack\<rparr>)) (?at ACKNOWLEDGED 0) no_raise"
    by (rule t_walk) (simp_all add: can_transition_def upd_frame_def)
  let ?st = "if q \<le> dadd 0 q then FILLED else PARTIALLY_FILLED"
  have filled: "triple (?at ACKNOWLEDGED 0 r1) (p_apply_fill r1 fill now) (?at ?st (dadd 0 q)) no_raise"
    for r1
    using t_walk_fill [of ACKNOWLEDGED "if q \<le> dadd 0 q then 0 else dsub q (dadd 0 q)" 0 p fill
        "dadd 0 q" s0 g k oid key r1 now] fill_all [of _ q fill] fq q(2)
    by (simp add: can_transition_def fill_rest_iff)
  have noted: "triple (?at t f r1) (upd_st (\<lambda>s. s\<lparr>pm_fills := dict_append i e (pm_fills s)\<rparr>))
      (\<lambda>_. ?at t f r1) no_raise" for t f r1 i e
    by (rule core_upd) (auto simp: core_step_def core_def)
  have auto_read: "triple (?at t f r1) (get_st (\<lambda>s. simulation_auto_fill (pm_config s)))
      (\<lambda>b s. b = ?auto \<and> ?at t f r1 s) no_raise" for t f r1
    by (rule triple_get) (simp add: order_at_def tracks_def)
  show ?thesis
    unfolding evs p_adapter_events.simps
  proof (simp only: ack simp_thms if_True bnd_assoc, rule triple_bnd [OF acked],
      rule triple_bnd [OF auto_read], rule triple_eq)
    fix r1 :: OrderRecord
    show "triple (?at ACKNOWLEDGED 0 r1)
      (bnd (if \<not> ?auto then ret r1
           else bnd (p_apply_fill r1 fill now) (\<lambda>r'.
            bnd (upd_st (\<lambda>s. s\<lparr>pm_fills := dict_append (order_id r') fill (pm_fills s)\<rparr>)) (\<lambda>_.
            bnd (p_replay (order_id r') (R_fill (fl_source fill) (fl_quantity fill) (fl_ticket fill))) (\<lambda>_.
            ret r')))) (p_settle now)) (?at (settled_state ?auto q) (settled_fill ?auto q)) no_raise"
    proof (cases ?auto)
      case True
      then show ?thesis
        by (simp only: settled_state_def settled_fill_def bnd_assoc simp_thms if_True if_False)
          (rule triple_bnd [OF filled], rule triple_bnd [OF noted], rule triple_bnd [OF t_replay], simp,
            rule triple_bnd [OF triple_ret], assumption, rule t_settle, simp)
    next
      case False
      then show ?thesis
        by (auto simp: triple_def settled_state_def settled_fill_def bnd_def ret_def p_settle_def order_at_def)
    qed
  qed
qed

text \<open>The whole accepted path: it never raises, and it adds exactly one order, settled.\<close>

lemma t_accept_queue:
  "triple (order_at s0 g k oid key p INTENT_CREATED fq r0) (accept_queue now r0)
     (order_at s0 g k oid key p SUBMITTED fq) no_raise"
proof -
  let ?at = "order_at s0 g k oid key p"
  have mv: "triple (?at t fq r) (p_move r t' now re ac so (\<lambda>x. x)) (?at t' fq) no_raise"
    if "can_transition t t'" for t t' r re ac so
    using that by (rule t_walk) simp_all
  have count: "triple (?at t fq r) (upd_st (\<lambda>s. s\<lparr>pm_submit_count := Suc (pm_submit_count s)\<rparr>))
      (\<lambda>_. ?at t fq r) no_raise" for t r
    by (rule core_upd) (auto simp: core_step_def core_def)
  have alert: "triple (?at t fq r) (case al of None \<Rightarrow> ret ()
      | Some al \<Rightarrow> if automatic_protection al
          then bnd (p_control (\<lambda>i. control_no_new_risk i now (sa_detector al) ''surveillance'')) (\<lambda>_.
               p_incident now (sa_detector al) ''high'' (sa_recommended_action al))
          else ret ()) (\<lambda>_. ?at t fq r) no_raise" for t r al
    by (rule triple_option; (rule triple_if)?; (rule triple_ret, assumption)?)
      (rule triple_bnd [OF t_protect_at], simp, rule t_incident, simp)
  show ?thesis
    unfolding accept_queue_def
    by (rule triple_bnd [OF mv], simp add: can_transition_def,
        rule triple_bnd [OF mv], simp add: can_transition_def, rule triple_bnd [OF count],
        rule triple_bnd [OF t_surv], simp, rule triple_bnd [OF alert], rule mv)
      (simp add: can_transition_def)
qed

lemma t_accept_route:
  assumes q: "0 \<le> qty" "qty \<le> approved_quantity b" and sim: "pm_simulation_enabled s0"
    and auto: "auto = simulation_auto_fill (pm_config s0)"
  shows "triple (order_at s0 g k oid key (sy, d, qty) SUBMITTED 0 r) (accept_route now b qty a r)
    (\<lambda>(cmd, r'). order_at s0 g k oid key (sy, d, qty) (settled_state auto qty) (settled_fill auto qty) r')
    no_raise"
proof -
  let ?at = "order_at s0 g k oid key (sy, d, qty)"
  have cmd: "triple (?at SUBMITTED 0 r)
      (lift_res (to_command cid b r qty (ia_order_type a) (ia_entry_price a) (ia_stop_price a)))
      (\<lambda>cmd s. ?at SUBMITTED 0 r s \<and> cm_requested_quantity cmd = qty) no_raise" for cid
    using to_command_ok [OF q, of cid r "ia_order_type a" "ia_entry_price a" "ia_stop_price a"]
    by (auto intro!: triple_lift_Inr)
  have ad: "triple (?at SUBMITTED 0 r) (get_st pm_adapter)
      (\<lambda>ad s. ad = SimulationBrokerAdapter \<and> ?at SUBMITTED 0 r s) no_raise"
    using sim by (intro triple_get) (auto simp: order_at_def tracks_def pm5_inv_def select_adapter_def)
  have put: "triple (?at SUBMITTED 0 r) (upd_st (\<lambda>s. s\<lparr>pm_commands := dict_put i c (pm_commands s)\<rparr>))
      (\<lambda>_. ?at SUBMITTED 0 r) no_raise" for i c
    by (rule core_upd) (auto simp: core_step_def core_def)
  have routed: "triple (?at SUBMITTED 0 r)
      (bnd (lift_res (adapter_submit SimulationBrokerAdapter eid fid cmd now)) (\<lambda>events.
       bnd (bnd (p_adapter_events now r events) (p_settle now)) (\<lambda>r5. ret (cmd, r5))))
      (\<lambda>(cmd, r'). ?at (settled_state auto qty) (settled_fill auto qty) r') no_raise"
    if "cm_requested_quantity cmd = qty" for eid fid cmd
  proof -
    obtain evs where evs: "adapter_submit SimulationBrokerAdapter eid fid cmd now = Inr evs" by simp
    show ?thesis
      unfolding evs
      by (rule triple_bnd [where R = "\<lambda>e s. e = evs \<and> ?at SUBMITTED 0 r s"], rule triple_lift_Inr, simp,
          rule triple_eq, rule triple_bnd [OF t_adapter [OF evs that refl]], rule triple_ret)
        (simp add: auto)
  qed
  show ?thesis
    unfolding accept_route_def
    by (rule triple_bnd [OF t_fresh], simp, rule triple_bnd [OF cmd], rule triple_fact,
        rule triple_bnd [OF put], rule triple_bnd [OF t_replay], simp,
        rule triple_bnd [OF t_fresh], simp, rule triple_bnd [OF t_fresh], simp,
        rule triple_bnd [OF ad], rule triple_eq, rule routed)
qed

lemma t_ingest_accepted:
  assumes q: "0 < qty" "qty \<le> approved_quantity b" and sim: "pm_simulation_enabled s0"
    and key: "rb_idempotency_key b = Some key" "key \<noteq> []"
    and auto: "auto = simulation_auto_fill (pm_config s0)"
  shows "triple (tracks s0 g k) (ingest_accepted now b dir qty a)
    (\<lambda>bn s. \<exists>r. says True False [] (Some r) bn \<and> g (order_id r) = None \<and>
       order_at s0 g (k(key \<mapsto> order_id r)) (order_id r) key (rb_symbol b, dir, qty)
         (settled_state auto qty) (settled_fill auto qty) r s) no_raise"
    (is "triple _ _ ?Q _")
proof -
  let ?at = "\<lambda>oid. order_at s0 g (k(key \<mapsto> oid)) oid key (rb_symbol b, dir, qty)"
  have publish: "triple (?at oid (settled_state auto qty) (settled_fill auto qty) r)
      (bnd (p_recon now) (\<lambda>recon.
       bnd (upd_st (\<lambda>s. s\<lparr>pm_last_recon := Some recon\<rparr>)) (\<lambda>_.
       bnd (p_audit now ''ingest'' t) (\<lambda>_.
       p_publish r now True [] (Some cmd) False)))) ?Q no_raise" if "g oid = None" for oid r cmd t
  proof (rule triple_bnd [OF t_recon], simp, rule triple_bnd [OF core_upd], simp,
      simp add: core_step_def core_def, rule triple_bnd [OF t_audit], simp)
    let ?B = "order_id r = oid \<and> idempotency_key r = key \<and>
      (symbol r, direction r, original_quantity r) = (rb_symbol b, dir, qty) \<and>
      state r = settled_state auto qty \<and> filled_quantity r = settled_fill auto qty"
    have "triple (\<lambda>s. ?B \<and> tracks s0 (g(oid \<mapsto> r)) (k(key \<mapsto> oid)) s)
        (p_publish r now True [] (Some cmd) False)
        (\<lambda>bn s. ?B \<and> says True False [] (Some r) bn \<and> tracks s0 (g(oid \<mapsto> r)) (k(key \<mapsto> oid)) s)
        no_raise"
      by (rule triple_frame) (rule t_publish)
    then show "triple (?at oid (settled_state auto qty) (settled_fill auto qty) r)
        (p_publish r now True [] (Some cmd) False) ?Q no_raise"
      by (rule triple_conseq) (use that in \<open>auto simp: order_at_def\<close>)
  qed
  have from_seed: "triple (?at oid INTENT_CREATED 0 r0)
     (bnd (accept_queue now r0) (\<lambda>r3. bnd (accept_route now b qty a r3) (\<lambda>(cmd, r5).
      bnd (p_recon now) (\<lambda>recon. bnd (upd_st (\<lambda>s. s\<lparr>pm_last_recon := Some recon\<rparr>)) (\<lambda>_.
      bnd (p_audit now ''ingest'' (''accepted '' @ uuid_str (order_id r5))) (\<lambda>_.
      p_publish r5 now True [] (Some cmd) False)))))) ?Q no_raise" if "g oid = None" for oid r0
    by (rule triple_bnd [OF t_accept_queue], rule triple_bnd [OF t_accept_route [OF _ q(2) sim auto]])
      (use q that in \<open>auto intro: publish split: prod.splits\<close>)
  have seeded: "triple (\<lambda>s. \<exists>oid kid. r0 = seed_order oid kid b a dir qty now None [] \<and> g oid = None \<and>
      tracks s0 (g(oid \<mapsto> r0)) (k(idempotency_key r0 \<mapsto> oid)) s)
     (bnd (accept_queue now r0) (\<lambda>r3. bnd (accept_route now b qty a r3) (\<lambda>(cmd, r5).
      bnd (p_recon now) (\<lambda>recon. bnd (upd_st (\<lambda>s. s\<lparr>pm_last_recon := Some recon\<rparr>)) (\<lambda>_.
      bnd (p_audit now ''ingest'' (''accepted '' @ uuid_str (order_id r5))) (\<lambda>_.
      p_publish r5 now True [] (Some cmd) False)))))) ?Q no_raise" for r0
  proof (rule triple_pre, elim exE conjE)
    fix s oid kid
    assume r0: "r0 = seed_order oid kid b a dir qty now None []" and new: "g oid = None"
      and tr: "tracks s0 (g(oid \<mapsto> r0)) (k(idempotency_key r0 \<mapsto> oid)) s"
    have "?at oid INTENT_CREATED 0 r0 s"
      using tr unfolding r0 order_at_def by (simp add: seed_order_def key)
    then show "triple (\<lambda>t. t = s)
     (bnd (accept_queue now r0) (\<lambda>r3. bnd (accept_route now b qty a r3) (\<lambda>(cmd, r5).
      bnd (p_recon now) (\<lambda>recon. bnd (upd_st (\<lambda>s. s\<lparr>pm_last_recon := Some recon\<rparr>)) (\<lambda>_.
      bnd (p_audit now ''ingest'' (''accepted '' @ uuid_str (order_id r5))) (\<lambda>_.
      p_publish r5 now True [] (Some cmd) False)))))) ?Q no_raise"
      by - (rule triple_conseq [OF from_seed [OF new]], simp_all)
  qed
  show ?thesis
    unfolding ingest_accepted_def by (rule triple_bnd [OF t_seed]) (rule seeded)
qed

text \<open>A known key: the same payload is replayed, another one is refused; the book stays.\<close>

definition same_payload :: "RiskPublicationBundle option \<Rightarrow> ingest_args \<Rightarrow> OrderRecord \<Rightarrow> bool" where
  "same_payload bndl a r \<longleftrightarrow>
     map_option rb_symbol bndl = Some (symbol r) \<and> ia_direction a = Some (direction r) \<and>
     ingest_qty bndl a = Some (original_quantity r)"

lemma t_ingest_existing:
  assumes pl: "\<And>s. tracks s0 g k s \<Longrightarrow>
      oms_payload_for (pm_oms s) key = Some (symbol r, direction r, original_quantity r)"
  shows "triple (tracks s0 g k) (ingest_existing now bndl a key r)
    (\<lambda>bn s. (if same_payload bndl a r then says True True [] (Some r) bn
             else says False False [RR_DUPLICATE_CONFLICT] (Some r) bn) \<and> tracks s0 g k s) no_raise"
proof -
  have read: "triple (tracks s0 g k) (get_st (\<lambda>s. oms_payload_for (pm_oms s) key))
     (\<lambda>p s. p = Some (symbol r, direction r, original_quantity r) \<and> tracks s0 g k s) no_raise"
    using pl by (rule_tac triple_get) simp
  have test: "(case (Some (symbol r, direction r, original_quantity r), map_option rb_symbol bndl,
        ia_direction a, ingest_qty bndl a) of
       (Some (sy, d, q), Some sy', Some d', Some q') \<Rightarrow> sy = sy' \<and> d = d' \<and> q = q' | _ \<Rightarrow> False) =
     same_payload bndl a r"
    by (auto simp: same_payload_def split: option.splits)
  show ?thesis
    unfolding ingest_existing_def
  proof (rule triple_bnd [OF read], rule triple_eq, unfold test, rule triple_if)
    assume "same_payload bndl a r"
    then show "triple (tracks s0 g k)
       (bnd (get_st (\<lambda>s. dict_get (pm_commands s) (order_id r))) (\<lambda>cmd. p_publish r now True [] cmd True))
       (\<lambda>bn s. (if same_payload bndl a r then says True True [] (Some r) bn
             else says False False [RR_DUPLICATE_CONFLICT] (Some r) bn) \<and> tracks s0 g k s) no_raise"
      by simp (rule triple_bnd [OF t_get t_publish])
  next
    assume "\<not> same_payload bndl a r"
    then show "triple (tracks s0 g k)
       (bnd (upd_st (\<lambda>s. s\<lparr>pm_reject_count := Suc (pm_reject_count s)\<rparr>)) (\<lambda>_.
        bnd (p_surv (\<lambda>i. note_reject i now)) (\<lambda>_.
        bnd (p_audit now ''reject'' ''duplicate_conflict'') (\<lambda>_.
        p_reject_bundle now (Some r) [RR_DUPLICATE_CONFLICT]
          ''conflicting payload for idempotency key''))))
       (\<lambda>bn s. (if same_payload bndl a r then says True True [] (Some r) bn
             else says False False [RR_DUPLICATE_CONFLICT] (Some r) bn) \<and> tracks s0 g k s) no_raise"
      by simp (rule triple_bnd [OF t_count(1)], rule triple_bnd [OF t_surv], simp,
          rule triple_bnd [OF t_audit], simp, rule t_reject_bundle)
  qed
qed

text \<open>
  The three outcomes of an intake, as a relation between the state before, the returned
  bundle and the state after.
\<close>

definition intake_key :: "RiskPublicationBundle option \<Rightarrow> string option" where
  "intake_key bndl = (let key = Option.bind bndl rb_idempotency_key in if truthy key then key else None)"

definition known_order :: "pm5 \<Rightarrow> RiskPublicationBundle option \<Rightarrow> OrderRecord option" where
  "known_order s bndl = Option.bind (intake_key bndl) (oms_by_key (pm_oms s))"

definition replayed :: "pm5 \<Rightarrow> OrderRecord \<Rightarrow> bool \<Rightarrow> ExecutionPublicationBundle \<Rightarrow> pm5 \<Rightarrow> bool" where
  "replayed s r same bn s' \<longleftrightarrow>
     (if same then says True True [] (Some r) bn
      else says False False [RR_DUPLICATE_CONFLICT] (Some r) bn) \<and>
     tracks s (book_of s) (keys_of s) s'"

definition refused ::
  "pm5 \<Rightarrow> RiskPublicationBundle option \<Rightarrow> ingest_args \<Rightarrow> ExecutionRejectReason list \<Rightarrow> ExecutionPublicationBundle \<Rightarrow> pm5 \<Rightarrow> bool" where
  "refused s bndl a reasons bn s' \<longleftrightarrow>
     (\<exists>od. says False False reasons od bn \<and> seeded_from bndl a (ingest_qty bndl a) od \<and>
       (case od of None \<Rightarrow> tracks s (book_of s) (keys_of s) s'
        | Some r \<Rightarrow> book_of s (order_id r) = None \<and> state r = REJECTED \<and> filled_quantity r = 0 \<and>
            tracks s ((book_of s)(order_id r \<mapsto> r)) ((keys_of s)(idempotency_key r \<mapsto> order_id r)) s'))"

definition taken ::
  "pm5 \<Rightarrow> RiskPublicationBundle \<Rightarrow> ingest_args \<Rightarrow> ExecutionPublicationBundle \<Rightarrow> pm5 \<Rightarrow> bool" where
  "taken s b a bn s' \<longleftrightarrow>
     (\<exists>r key dir q. says True False [] (Some r) bn \<and> book_of s (order_id r) = None \<and>
       rb_idempotency_key b = Some key \<and> key \<noteq> [] \<and> ia_direction a = Some dir \<and>
       ingest_qty (Some b) a = Some q \<and> 0 < q \<and> q \<le> approved_quantity b \<and>
       order_at s (book_of s) ((keys_of s)(key \<mapsto> order_id r)) (order_id r) key (rb_symbol b, dir, q)
         (settled_state (simulation_auto_fill (pm_config s)) q)
         (settled_fill (simulation_auto_fill (pm_config s)) q) r s')"

lemma ingest_reasons_NilD:
  assumes "ingest_reasons now bndl a s = []"
  obtains b dir key q where "bndl = Some b" "ia_direction a = Some dir"
    "rb_idempotency_key b = Some key" "key \<noteq> []" "ingest_qty bndl a = Some q"
    "0 < q" "q \<le> approved_quantity b" "pm_simulation_enabled s" "\<not> cp_block_new (pm_control s)"
    "\<not> cp_kill_latched (pm_control s)"
proof -
  from validate_intake_NilD [OF assms [unfolded ingest_reasons_def Let_def]]
  obtain b dir where b: "bndl = Some b" "ia_direction a = Some dir" "pm_simulation_enabled s"
    "\<not> cp_kill_latched (pm_control s)" "\<not> ingest_blocks (map_option rb_symbol bndl) a s"
    and q: "let q = (case ingest_qty bndl a of Some q \<Rightarrow> q | None \<Rightarrow> approved_quantity b)
       in 0 < q \<and> q \<le> approved_quantity b"
    by blast
  have "rb_idempotency_key b \<notin> {None, Some []}"
    using assms b(1) by (auto simp: ingest_reasons_def validate_intake_def Let_def)
  then obtain key where key: "rb_idempotency_key b = Some key" "key \<noteq> []" by auto
  obtain q where "ingest_qty bndl a = Some q"
    using b(1) by (cases "ia_quantity a") (auto simp: ingest_qty_def)
  moreover have "\<not> cp_block_new (pm_control s)"
    using b(5) by (auto simp: ingest_blocks_def control_blocks_def split: if_splits)
  ultimately show ?thesis using that b q key by simp
qed

lemma ingest_outcome:
  assumes inv: "pm5_inv s"
  shows "\<exists>bn s'. ingest now bndl a s = (Inr bn, s') \<and>
    (case known_order s bndl of
       Some r \<Rightarrow> replayed s r (same_payload bndl a r) bn s'
     | None \<Rightarrow> (if ingest_reasons now bndl a s = [] then taken s (the bndl) a bn s'
               else refused s bndl a (ingest_reasons now bndl a s) bn s'))"
proof -
  let ?key = "Option.bind bndl rb_idempotency_key"
  have ex: "(if truthy ?key then oms_by_key (pm_oms s) (the ?key) else None) = known_order s bndl"
    by (cases bndl) (auto simp: known_order_def intake_key_def truthy_def Let_def split: option.splits)
  have ingest: "ingest now bndl a s = (case known_order s bndl of
      Some r \<Rightarrow> ingest_existing now bndl a (the ?key) r s | None \<Rightarrow> ingest_new now bndl a s)"
    unfolding ingest_def Let_def bnd_get ex by (simp split: option.split)
  show ?thesis
  proof (cases "known_order s bndl")
    case (Some r)
    then obtain key where key: "?key = Some key" "oms_by_key (pm_oms s) key = Some r"
      by (auto simp: known_order_def intake_key_def Let_def bind_eq_Some_conv split: if_splits)
    have "triple (tracks s (book_of s) (keys_of s)) (ingest_existing now bndl a key r)
      (\<lambda>bn s'. (if same_payload bndl a r then says True True [] (Some r) bn
             else says False False [RR_DUPLICATE_CONFLICT] (Some r) bn) \<and>
         tracks s (book_of s) (keys_of s) s') no_raise"
    proof (rule t_ingest_existing)
      fix u assume tr: "tracks s (book_of s) (keys_of s) u"
      with key(2) have "oms_by_key (pm_oms u) key = Some r"
        by (simp add: oms_by_key_def tracks_def split: option.splits)
      with tr show "oms_payload_for (pm_oms u) key = Some (symbol r, direction r, original_quantity r)"
        by (auto simp: tracks_def pm5_inv_def dest: oms_inv_by_keyD(3))
    qed
    from triple_no_raise [OF this, of s] inv
    obtain bn s' where "ingest_existing now bndl a key r s = (Inr bn, s')"
      and "replayed s r (same_payload bndl a r) bn s'"
      unfolding replayed_def by (metis tracks_refl)
    moreover have "ingest now bndl a s = ingest_existing now bndl a key r s"
      unfolding ingest Some using key(1) by simp
    ultimately show ?thesis using Some by simp
  next
    case None
    show ?thesis
    proof (cases "ingest_reasons now bndl a s = []")
      case True
      from ingest_reasons_NilD [OF True] obtain b dir key q
        where b: "bndl = Some b" "ia_direction a = Some dir" "rb_idempotency_key b = Some key" "key \<noteq> []"
          "ingest_qty bndl a = Some q" "0 < q" "q \<le> approved_quantity b" "pm_simulation_enabled s" .
      from triple_no_raise [OF t_ingest_accepted [OF b(6,7,8,3,4) refl], of "book_of s" "keys_of s" s now dir a]
        inv obtain bn s' r where run: "ingest_accepted now b dir q a s = (Inr bn, s')"
        and out: "says True False [] (Some r) bn" "book_of s (order_id r) = None"
         "order_at s (book_of s) ((keys_of s)(key \<mapsto> order_id r)) (order_id r) key (rb_symbol b, dir, q)
         (settled_state (simulation_auto_fill (pm_config s)) q)
         (settled_fill (simulation_auto_fill (pm_config s)) q) r s'"
        by (metis tracks_refl)
      have "ingest now bndl a s = (Inr bn, s')"
        unfolding ingest using None True b run by (simp add: ingest_new_def run_simps)
      moreover have "taken s (the bndl) a bn s'"
        unfolding taken_def using out b by auto
      ultimately show ?thesis using None True by simp
    next
      case False
      from inv have pre: "tracks s (book_of s) (keys_of s) s" by simp
      obtain bn s' where run: "ingest_rejected now bndl a (ingest_qty bndl a)
          (ingest_reasons now bndl a s) s = (Inr bn, s')"
        and "refused s bndl a (ingest_reasons now bndl a s) bn s'"
        unfolding refused_def by (rule triple_no_raise [OF t_ingest_rejected [OF False] pre])
      then show ?thesis
        unfolding ingest using None False by (simp add: ingest_new_def run_simps)
    qed
  qed
qed

subsection \<open>Cancel and emergency cancel\<close>

lemma tracks_trans: "tracks s0 g k s1 \<Longrightarrow> tracks s1 g' k' s2 \<Longrightarrow> tracks s0 g' k' s2"
  by (auto simp: tracks_def)

lemma t_adapter_cancel:
  "triple (tracks s0 g k)
     (case command of None \<Rightarrow> ret ()
      | Some cmd \<Rightarrow> bnd fresh (\<lambda>eid. bnd (get_st pm_adapter) (\<lambda>ad.
                      bnd (lift_res (adapter_cancel ad eid cmd now)) (\<lambda>_. ret ()))))
     (\<lambda>_. tracks s0 g k) no_raise"
proof (rule triple_option)
  fix cmd
  have ad: "triple (tracks s0 g k) (get_st pm_adapter)
      (\<lambda>ad s. tracks s0 g k s \<and> ad \<noteq> Mt5BrokerAdapter) no_raise"
    by (rule triple_get) (auto simp: tracks_def pm5_inv_def)
  have "triple (tracks s0 g k) (bnd (lift_res (adapter_cancel ad eid cmd now)) (\<lambda>_. ret ()))
      (\<lambda>_. tracks s0 g k) no_raise" if "ad \<noteq> Mt5BrokerAdapter" for ad eid
    using that by (cases ad) (auto simp: triple_def run_simps)
  then show "triple (tracks s0 g k) (bnd fresh (\<lambda>eid. bnd (get_st pm_adapter) (\<lambda>ad.
       bnd (lift_res (adapter_cancel ad eid cmd now)) (\<lambda>_. ret ())))) (\<lambda>_. tracks s0 g k) no_raise"
    by (intro triple_bnd [OF t_fresh] triple_bnd [OF ad] triple_fact) simp_all
qed (rule triple_ret)

lemma t_cancel_alert:
  "triple (tracks s0 g k)
     (case alert of None \<Rightarrow> ret ()
      | Some al \<Rightarrow> bnd (p_control (\<lambda>i. control_no_new_risk i now (sa_detector al) ''surveillance''))
                     (\<lambda>_. ret ())) (\<lambda>_. tracks s0 g k) no_raise"
  by (rule triple_option; (rule t_protect triple_ret)?; simp)

text \<open>A cancel moves a cancellable order to \<^const>\<open>CANCELLED\<close>, and raises on any other.\<close>

lemma t_cancel_ok:
  assumes get: "g oid = Some r" "order_id r = oid" and ok: "can_transition (state r) CANCEL_REQUESTED"
  shows "triple (tracks s0 g k) (cancel_order now oid re ac)
    (\<lambda>x s. x = Some (r\<lparr>state := CANCELLED\<rparr>) \<and> tracks s0 (g(oid \<mapsto> r\<lparr>state := CANCELLED\<rparr>)) k s) no_raise"
proof -
  let ?r1 = "r\<lparr>state := CANCEL_REQUESTED\<rparr>" and ?r2 = "r\<lparr>state := CANCELLED\<rparr>"
  have read: "triple (tracks s0 g k) (get_st (\<lambda>s. oms_get (pm_oms s) oid))
     (\<lambda>x s. x = Some r \<and> tracks s0 g k s) no_raise"
    by (rule triple_get) (simp add: tracks_def get)
  have first: "triple (tracks s0 g k) (p_transit r CANCEL_REQUESTED now re ac ''control_plane'' (\<lambda>x. x))
     (\<lambda>x s. x = ?r1 \<and> tracks s0 (g(oid \<mapsto> ?r1)) k s) no_raise"
    using t_transit [of r CANCEL_REQUESTED g "\<lambda>x. x"] get ok by simp
  have second: "triple (tracks s0 (g(oid \<mapsto> ?r1)) k)
      (p_transit ?r1 CANCELLED now ''simulation_cancel'' ''simulation_adapter'' ''ems'' (\<lambda>x. x))
      (\<lambda>x s. x = ?r2 \<and> tracks s0 (g(oid \<mapsto> ?r2)) k s) no_raise"
    using t_transit [of ?r1 CANCELLED "g(oid \<mapsto> ?r1)" "\<lambda>x. x"] get by (simp add: can_transition_def)
  show ?thesis
    unfolding cancel_order_def
    by (rule triple_bnd [OF read], rule triple_eq, simp only: option.case,
        rule triple_bnd [OF t_surv], simp, rule triple_bnd [OF t_cancel_alert],
        rule triple_bnd [OF t_get], rule triple_bnd [OF first], rule triple_eq,
        rule triple_bnd [OF t_adapter_cancel], rule triple_bnd [OF second], rule triple_eq,
        rule triple_bnd [OF t_control], simp, rule triple_ret) simp
qed

lemma t_cancel_illegal:
  assumes get: "g oid = Some r" "order_id r = oid" and ok: "\<not> can_transition (state r) CANCEL_REQUESTED"
  shows "triple (tracks s0 g k) (cancel_order now oid re ac) (\<lambda>_ _. False)
    (\<lambda>e s. (\<exists>msg. e = IllegalTransition msg) \<and> tracks s0 g k s)" (is "triple _ _ _ ?E")
proof -
  have weak: "triple P m Q ?E" if "triple P m Q no_raise" for P m and Q :: "'x \<Rightarrow> pm5 \<Rightarrow> bool"
    using that by (rule triple_conseq) auto
  have read: "triple (tracks s0 g k) (get_st (\<lambda>s. oms_get (pm_oms s) oid))
     (\<lambda>x s. x = Some r \<and> tracks s0 g k s) ?E"
    by (rule triple_get) (simp add: tracks_def get)
  have "triple (tracks s0 g k) (p_transit r CANCEL_REQUESTED now re ac ''control_plane'' (\<lambda>x. x))
      (\<lambda>_ _. False) ?E"
    unfolding p_transit_def
  proof (rule triple_bnd [OF weak [OF t_fresh]], simp, rule tripleI)
    fix eid s assume tr: "tracks s0 g k s"
    from book.move_illegal [OF ok, of eid now re ac "''control_plane''" "\<lambda>x. x" "pm_oms s"]
    obtain msg where "oms_transit eid r CANCEL_REQUESTED now re ac ''control_plane'' (\<lambda>x. x) (pm_oms s) =
        (Inl (IllegalTransition msg), pm_oms s)" by blast
    with tr show "case (case oms_transit eid r CANCEL_REQUESTED now re ac ''control_plane'' (\<lambda>x. x) (pm_oms s) of
         (res, m) \<Rightarrow> (res, s\<lparr>pm_oms := m\<rparr>)) of
        (Inl e, s') \<Rightarrow> ?E e s' | (Inr x, s') \<Rightarrow> False" by simp
  qed
  note first = this
  show ?thesis
    unfolding cancel_order_def
    by (rule triple_bnd [OF read], rule triple_eq, simp only: option.case,
        rule triple_bnd [OF weak [OF t_surv]], simp, rule triple_bnd [OF weak [OF t_cancel_alert]],
        rule triple_bnd [OF weak [OF t_get]], rule triple_bnd [OF first]) simp
qed

text \<open>The book after the cancels of a list of orders.\<close>

definition cancelled :: "(uuid \<Rightarrow> OrderRecord option) \<Rightarrow> uuid set \<Rightarrow> uuid \<Rightarrow> OrderRecord option" where
  "cancelled g A oid =
     (case g oid of None \<Rightarrow> None
      | Some r \<Rightarrow> if oid \<in> A \<and> can_transition (state r) CANCEL_REQUESTED
                  then Some (r\<lparr>state := CANCELLED\<rparr>) else Some r)"

lemma cancelled_empty [simp]: "cancelled g {} = g"
  by (rule ext) (simp add: cancelled_def split: option.split)

lemma cancelled_insert_ok:
  assumes "g oid = Some r" and "can_transition (state r) CANCEL_REQUESTED"
  shows "cancelled (g(oid \<mapsto> r\<lparr>state := CANCELLED\<rparr>)) A = cancelled g (insert oid A)"
  by (rule ext) (use assms in \<open>auto simp: cancelled_def can_transition_def split: option.split\<close>)

lemma cancelled_insert_other:
  assumes "\<And>r. g oid = Some r \<Longrightarrow> \<not> can_transition (state r) CANCEL_REQUESTED"
  shows "cancelled g A = cancelled g (insert oid A)"
  by (rule ext) (use assms in \<open>auto simp: cancelled_def split: option.split\<close>)

lemma cancel_each_run:
  "tracks s0 g k s \<Longrightarrow>
   \<exists>s'. cancel_each clk actor oids s = (Inr (), s') \<and> tracks s0 (cancelled g (set oids)) k s'"
proof (induction oids arbitrary: g s)
  case Nil
  then show ?case by simp
next
  case (Cons oid oids)
  let ?c = "cancel_order (clk oid) oid ''emergency_cancel'' actor"
  consider (none) "g oid = None"
    | (ok) r where "g oid = Some r" "can_transition (state r) CANCEL_REQUESTED"
    | (no) r where "g oid = Some r" "\<not> can_transition (state r) CANCEL_REQUESTED"
    by (cases "g oid") auto
  then show ?case
  proof cases
    case none
    with Cons.prems have "?c s = (Inr None, s)"
      by (simp add: cancel_order_def run_simps tracks_def)
    moreover have "cancelled g (set oids) = cancelled g (set (oid # oids))"
      using none cancelled_insert_other [of g oid] by simp
    ultimately show ?thesis using Cons.IH [OF Cons.prems] by simp
  next
    case ok
    then have id: "order_id r = oid"
      using Cons.prems by (auto simp: tracks_def pm5_inv_def dest: oms_inv_orderD)
    obtain s1 where c: "?c s = (Inr (Some (r\<lparr>state := CANCELLED\<rparr>)), s1)"
      and tr: "tracks s0 (g(oid \<mapsto> r\<lparr>state := CANCELLED\<rparr>)) k s1"
      using triple_no_raise [OF t_cancel_ok [where g = g, OF ok(1) id ok(2)] Cons.prems] by metis
    from Cons.IH [OF tr] c show ?thesis
      unfolding cancelled_insert_ok [where g = g, OF ok] by simp
  next
    case no
    then have id: "order_id r = oid"
      using Cons.prems by (auto simp: tracks_def pm5_inv_def dest: oms_inv_orderD)
    note t = t_cancel_illegal [where g = g, OF no(1) id no(2), of s0 k "clk oid" "''emergency_cancel''" actor]
    obtain e s1 where c: "?c s = (e, s1)" by (cases "?c s")
    obtain msg where "e = Inl (IllegalTransition msg)" and tr: "tracks s0 g k s1"
      using tripleD_Inr [OF t Cons.prems] tripleD_Inl [OF t Cons.prems] c by (cases e) auto
    moreover have "cancelled g (set oids) = cancelled g (set (oid # oids))"
      using no cancelled_insert_other [of g oid] by simp
    ultimately show ?thesis using Cons.IH [OF tr] c by simp
  qed
qed

lemma working_ids:
  assumes "oms_inv m"
  shows "oid \<in> set (map order_id (filter (\<lambda>r. state r \<in> set cancellable_states) (oms_all_orders m))) \<longleftrightarrow>
    (\<exists>r. oms_get m oid = Some r \<and> state r \<in> set cancellable_states)"
proof -
  have "r \<in> set (oms_all_orders m) \<longleftrightarrow> (\<exists>k. oms_get m k = Some r)" for r
    using dict_values_get [OF oms_invD(1) [OF assms]] by (simp add: oms_all_orders_def oms_get_def)
  then show ?thesis
    using oms_inv_orderD [OF assms] by (auto simp: image_iff)
qed

definition emergency_target :: "OrderRecord \<Rightarrow> OrderRecord" where
  "emergency_target r =
     (if state r \<in> {QUEUED, ACKNOWLEDGED, PARTIALLY_FILLED} then r\<lparr>state := CANCELLED\<rparr> else r)"

lemma cancelled_working:
  assumes "oms_inv m"
    and "A = set (map order_id (filter (\<lambda>r. state r \<in> set cancellable_states) (oms_all_orders m)))"
  shows "cancelled (oms_get m) A = (\<lambda>oid. map_option emergency_target (oms_get m oid))"
proof (rule ext)
  fix oid
  show "cancelled (oms_get m) A oid = map_option emergency_target (oms_get m oid)"
    using working_ids [OF assms(1), of oid]
    by (cases "oms_get m oid")
      (auto simp: cancelled_def emergency_target_def can_transition_def cancellable_states_def assms(2)
        split del: if_split split: if_splits)
qed

lemma emergency_cancel_run:
  assumes inv: "pm5_inv s"
  shows "\<exists>rec s'. emergency_cancel now clk reason actor s = (Inr rec, s') \<and>
    tracks s (\<lambda>oid. map_option emergency_target (book_of s oid)) (keys_of s) s' \<and>
    cp_kill_latched (pm_control s') \<and> cp_block_new (pm_control s')"
proof -
  define working where "working = map order_id
    (filter (\<lambda>r. state r \<in> set cancellable_states) (oms_all_orders (pm_oms s)))"
  let ?f = "\<lambda>i. control_emergency_cancel i now reason actor working"
  obtain rec s1 where c: "p_control ?f s = (Inr rec, s1)" and tr: "tracks s (book_of s) (keys_of s) s1"
    using triple_no_raise [OF t_control [of ?f s "book_of s" "keys_of s"], of s] inv
    by (metis tightens_ops(2) tracks_refl)
  have latch: "cp_kill_latched (pm_control s1)" "cp_block_new (pm_control s1)"
    using c by (auto simp: p_control_def bnd_def fresh_def control_defs)
  have tr1: "tracks s1 (book_of s) (keys_of s) s1" using tr by (simp add: tracks_def)
  from cancel_each_run [OF tr1, of clk actor working] obtain s2
    where e: "cancel_each clk actor working s1 = (Inr (), s2)"
      and tr2: "tracks s1 (cancelled (book_of s) (set working)) (keys_of s) s2" by blast
  obtain s3 where i: "p_incident now ''emergency_cancel'' ''critical'' reason s2 = (Inr (), s3)"
    and tr3: "tracks s1 (cancelled (book_of s) (set working)) (keys_of s) s3"
    using triple_no_raise [OF t_incident [OF core_stable_tracks] tr2] by (metis old.unit.exhaust)
  have "emergency_cancel now clk reason actor s = (Inr rec, s3)"
    using c e i by (simp add: emergency_cancel_def working_def [symmetric] bnd_def run_simps)
  moreover have "cancelled (book_of s) (set working) = (\<lambda>oid. map_option emergency_target (book_of s oid))"
    using inv by (intro cancelled_working) (simp_all add: pm5_inv_def working_def)
  moreover have "cp_kill_latched (pm_control s3)" "cp_block_new (pm_control s3)"
    using tr3 latch by (simp_all add: tracks_def)
  ultimately show ?thesis using tracks_trans [OF tr tr3] by auto
qed

lemma cancel_order_run:
  assumes inv: "pm5_inv s"
  shows "tracks s (cancelled (book_of s) {oid}) (keys_of s) (snd (cancel_order now oid re ac s))"
proof (cases "book_of s oid")
  case None
  with inv have "cancel_order now oid re ac s = (Inr None, s)" by (simp add: cancel_order_def run_simps)
  moreover have "cancelled (book_of s) {oid} = book_of s"
    using cancelled_insert_other [of "book_of s" oid "{}"] None by simp
  ultimately show ?thesis using inv by simp
next
  case (Some r)
  with inv have id: "order_id r = oid" by (auto simp: pm5_inv_def dest: oms_inv_orderD)
  from inv have tr: "tracks s (book_of s) (keys_of s) s" by simp
  show ?thesis
  proof (cases "can_transition (state r) CANCEL_REQUESTED")
    case True
    obtain s1 where "cancel_order now oid re ac s = (Inr (Some (r\<lparr>state := CANCELLED\<rparr>)), s1)"
      and "tracks s ((book_of s)(oid \<mapsto> r\<lparr>state := CANCELLED\<rparr>)) (keys_of s) s1"
      using triple_no_raise [OF t_cancel_ok [where g = "book_of s", OF Some id True] tr] by metis
    moreover have "cancelled (book_of s) {oid} = (book_of s)(oid \<mapsto> r\<lparr>state := CANCELLED\<rparr>)"
      using cancelled_insert_ok [where g = "book_of s", OF Some True, of "{}"]
      unfolding cancelled_empty by (rule sym)
    ultimately show ?thesis by (simp only: snd_conv)
  next
    case False
    note t = t_cancel_illegal [where g = "book_of s", OF Some id False, of s "keys_of s" now re ac]
    have "cancelled (book_of s) {oid} = book_of s"
      using cancelled_insert_other [of "book_of s" oid "{}"] Some False by simp
    moreover obtain e s1 where c: "cancel_order now oid re ac s = (e, s1)"
      by (cases "cancel_order now oid re ac s")
    moreover have "tracks s (book_of s) (keys_of s) s1"
      using tripleD_Inr [OF t tr] tripleD_Inl [OF t tr] c by (cases e) auto
    ultimately show ?thesis by simp
  qed
qed

subsection \<open>Every handler keeps the invariant\<close>

lemma p_control_inv:
  assumes "pm5_inv s" and "\<And>i cp. control_inv cp \<Longrightarrow> control_inv (snd (f i cp))"
  shows "pm5_inv (snd (p_control f s))" and "book_of (snd (p_control f s)) = book_of s"
  using assms by (auto simp: p_control_def bnd_def fresh_def pm5_inv_def split: prod.splits)
    (metis snd_conv)

lemma recover_inv: "control_inv cp \<Longrightarrow> control_inv (snd (control_recover i now re ac cp))"
  using control_call_inv [of cp i now "C_recover re ac"] by simp

lemma outcome_inv:
  "replayed s r sm bn s' \<Longrightarrow> pm5_inv s'"
  "refused s bndl a rs bn s' \<Longrightarrow> pm5_inv s'"
  "taken s b a bn s' \<Longrightarrow> pm5_inv s'"
  by (auto simp: replayed_def refused_def taken_def order_at_def split: option.splits dest: tracks_inv)

lemma ingest_inv:
  assumes "pm5_inv s"
  shows "pm5_inv (snd (ingest now bndl a s))"
proof -
  from ingest_outcome [OF assms, of now bndl a] obtain bn s'
    where run: "ingest now bndl a s = (Inr bn, s')"
    and out: "case known_order s bndl of Some r \<Rightarrow> replayed s r (same_payload bndl a r) bn s'
     | None \<Rightarrow> (if ingest_reasons now bndl a s = [] then taken s (the bndl) a bn s'
               else refused s bndl a (ingest_reasons now bndl a s) bn s')" by blast
  from out have "pm5_inv s'" by (auto split: option.splits if_splits intro: outcome_inv)
  with run show ?thesis by simp
qed

lemmas handler_defs = freeze_scope_def enter_close_only_def no_new_risk_def request_recovery_def

lemma tightens_inv: "tightens f \<Longrightarrow> pm5_inv s \<Longrightarrow> pm5_inv (snd (p_control f s))"
  by (rule p_control_inv(1)) (simp_all add: tightens_def)

lemma pm5_do_inv:
  assumes "pm5_inv s"
  shows "pm5_inv (pm5_do c s)"
proof (cases c)
  case (M_emergency now clk re ac)
  then show ?thesis
    using emergency_cancel_run [OF assms, of now clk re ac] by (auto dest: tracks_inv)
next
  case (M_cancel now oid re ac)
  then show ?thesis using tracks_inv [OF cancel_order_run [OF assms]] by simp
qed (simp_all add: handler_defs ingest_inv tightens_inv p_control_inv recover_inv assms)

lemma pm5_reach_inv: "pm5_reach s \<Longrightarrow> pm5_inv s"
  by (induction rule: pm5_reach.induct) (simp_all add: pm5_do_inv)

end
