(* ===== verification/Latch.thy ===== *)
theory Latch
  imports Main
begin

section \<open>Latched controls\<close>

text \<open>
  The contract of a latched safety control: a component whose calls change a state, a latch
  on that state, and the calls that may release it. What a client gets from the contract is a
  statement about whole call sequences: the latch holds until an authorised release. The
  control plane of the execution module and the kill switch of the risk gate provide it.
\<close>

locale latch =
  fixes inv :: "'s \<Rightarrow> bool" and latched :: "'s \<Rightarrow> bool"
    and perform :: "'c \<Rightarrow> 's \<Rightarrow> 's" and releases :: "'c \<Rightarrow> 's \<Rightarrow> bool"
  assumes inv_perform: "inv s \<Longrightarrow> inv (perform c s)"
    and release: "inv s \<Longrightarrow> latched s \<Longrightarrow> \<not> latched (perform c s) \<Longrightarrow> releases c s"
begin

lemma inv_run: "inv s \<Longrightarrow> inv (fold perform cs s)"
  by (induction cs arbitrary: s) (simp_all add: inv_perform)

lemma released_by:
  "inv s \<Longrightarrow> latched s \<Longrightarrow> \<not> latched (fold perform cs s) \<Longrightarrow>
   \<exists>pre c post. cs = pre @ c # post \<and> latched (fold perform pre s) \<and> releases c (fold perform pre s)"
proof (induction cs arbitrary: s)
  case (Cons c cs)
  show ?case
  proof (cases "latched (perform c s)")
    case True
    with Cons.IH [of "perform c s"] Cons.prems obtain pre d post
      where "cs = pre @ d # post" "latched (fold perform pre (perform c s))"
        "releases d (fold perform pre (perform c s))"
      by (auto simp: inv_perform)
    then show ?thesis by (intro exI [of _ "c # pre"] exI [of _ d] exI [of _ post]) simp
  next
    case False
    with Cons.prems release show ?thesis by (intro exI [of _ "[]"] exI [of _ c] exI [of _ cs]) simp
  qed
qed simp

lemma holds:
  assumes "inv s" and "latched s"
    and "\<And>pre c post. cs = pre @ c # post \<Longrightarrow> \<not> releases c (fold perform pre s)"
  shows "latched (fold perform cs s)"
  using released_by [OF assms(1, 2), of cs] assms(3) by blast

end

end
