(* ===== verification/Pm5Guarantees.thy ===== *)
theory Pm5Guarantees
  imports Pm5Props Latch
begin

section \<open>Guarantees of the execution fabric\<close>

text \<open>
  The properties of \<^verbatim>\<open>pm5_execution\<close> over all sequences of calls of its interface, from
  the facts of the book, the control plane and the handlers, with witnesses on a sample
  bundle.
\<close>

subsection \<open>What a call does to the book\<close>

lemma tracks_book: "tracks s0 g k s \<Longrightarrow> book_of s = g"
  by (simp add: tracks_def fun_eq_iff)

lemma tracks_keys: "tracks s0 g k s \<Longrightarrow> keys_of s = k"
  by (simp add: tracks_def fun_eq_iff)

lemma takenE:
  assumes "taken s b a bn s'"
  obtains r key dir q where "says True False [] (Some r) bn" "book_of s (order_id r) = None"
    "rb_idempotency_key b = Some key" "key \<noteq> []" "ia_direction a = Some dir"
    "ingest_qty (Some b) a = Some q" "0 < q" "q \<le> approved_quantity b"
    "idempotency_key r = key" "symbol r = rb_symbol b" "direction r = dir" "original_quantity r = q"
    "state r = settled_state (simulation_auto_fill (pm_config s)) q"
    "filled_quantity r = settled_fill (simulation_auto_fill (pm_config s)) q"
    "book_of s' = (book_of s)(order_id r \<mapsto> r)" "keys_of s' = (keys_of s)(key \<mapsto> order_id r)"
    "pm5_inv s'"
  using assms unfolding taken_def order_at_def
  by (elim exE conjE) (metis (no_types, lifting) tracks_book tracks_keys tracks_inv prod.inject)

lemma settled_state_cases: "settled_state auto q \<in> {ACKNOWLEDGED, RECONCILIATION_PENDING, PARTIALLY_FILLED}"
  by (simp add: settled_state_def)

lemma ingest_book:
  assumes "pm5_inv s"
  shows "book_of (snd (ingest now bndl a s)) = book_of s \<or>
    (\<exists>r. book_of s (order_id r) = None \<and>
       book_of (snd (ingest now bndl a s)) = (book_of s)(order_id r \<mapsto> r) \<and>
       (state r = REJECTED \<and> filled_quantity r = 0 \<or>
        (\<exists>auto q. state r = settled_state auto q \<and> filled_quantity r = settled_fill auto q) \<and>
        \<not> cp_block_new (pm_control s)))"
proof -
  from ingest_outcome [OF assms, of now bndl a] obtain bn s'
    where run: "ingest now bndl a s = (Inr bn, s')"
    and out: "case known_order s bndl of Some r \<Rightarrow> replayed s r (same_payload bndl a r) bn s'
     | None \<Rightarrow> (if ingest_reasons now bndl a s = [] then taken s (the bndl) a bn s'
               else refused s bndl a (ingest_reasons now bndl a s) bn s')" by blast
  consider (re) r where "replayed s r (same_payload bndl a r) bn s'"
    | (tk) "taken s (the bndl) a bn s'" "ingest_reasons now bndl a s = []"
    | (rf) "refused s bndl a (ingest_reasons now bndl a s) bn s'"
    using out by (auto split: option.splits if_splits)
  then show ?thesis
  proof cases
    case re
    then have "book_of s' = book_of s" unfolding replayed_def by (blast dest: tracks_book)
    with run show ?thesis by simp
  next
    case tk
    obtain b dir key q where open_plane: "\<not> cp_block_new (pm_control s)"
      by (rule ingest_reasons_NilD [OF tk(2)])
    from tk(1) obtain r auto q where "book_of s (order_id r) = None"
      "book_of s' = (book_of s)(order_id r \<mapsto> r)"
      "state r = settled_state auto q" "filled_quantity r = settled_fill auto q"
      unfolding taken_def order_at_def by (meson tracks_book)
    with run open_plane show ?thesis by auto
  next
    case rf
    then obtain od where od: "case od of None \<Rightarrow> tracks s (book_of s) (keys_of s) s'
        | Some r \<Rightarrow> book_of s (order_id r) = None \<and> state r = REJECTED \<and> filled_quantity r = 0 \<and>
            tracks s ((book_of s)(order_id r \<mapsto> r)) ((keys_of s)(idempotency_key r \<mapsto> order_id r)) s'"
      by (auto simp: refused_def)
    show ?thesis
    proof (cases od)
      case None
      with od run show ?thesis by (simp add: tracks_book)
    next
      case (Some r)
      with od have "book_of s' = (book_of s)(order_id r \<mapsto> r)" by (auto dest: tracks_book)
      with od Some run show ?thesis by auto
    qed
  qed
qed

lemma control_book: "book_of (snd (p_control f s)) = book_of s"
  by (simp add: p_control_def bnd_def fresh_def split: prod.splits)

text \<open>An order that is in the book stays there; the only move a call makes is a cancel.\<close>

lemma pm5_do_keeps:
  assumes inv: "pm5_inv s" and get: "book_of s oid = Some r"
  shows "book_of (pm5_do c s) oid = Some r \<or>
    can_transition (state r) CANCEL_REQUESTED \<and> book_of (pm5_do c s) oid = Some (r\<lparr>state := CANCELLED\<rparr>)"
proof (cases c)
  case (M_ingest now b a)
  from ingest_book [OF inv, of now b a] get have "book_of (snd (ingest now b a s)) oid = Some r"
    by (auto simp: fun_eq_iff)
  with M_ingest show ?thesis by simp
next
  case (M_cancel now i re ac)
  have "book_of (pm5_do c s) oid = cancelled (book_of s) {i} oid"
    using cancel_order_run [OF inv] M_cancel by (simp add: tracks_def)
  with get show ?thesis by (auto simp: cancelled_def)
next
  case (M_emergency now clk re ac)
  have "book_of (pm5_do c s) oid = map_option emergency_target (book_of s oid)"
    using emergency_cancel_run [OF inv, of now clk re ac] M_emergency by (auto simp: tracks_def)
  with get show ?thesis by (auto simp: emergency_target_def can_transition_def)
qed (simp_all add: handler_defs control_book get)

text \<open>An order that a call adds is rejected or settled.\<close>

lemma pm5_do_adds:
  assumes inv: "pm5_inv s" and new: "book_of s oid = None" and get: "book_of (pm5_do c s) oid = Some r"
  shows "state r = REJECTED \<and> filled_quantity r = 0 \<or>
    (\<exists>auto q. state r = settled_state auto q \<and> filled_quantity r = settled_fill auto q) \<and>
    \<not> cp_block_new (pm_control s)"
proof (cases c)
  case (M_ingest now b a)
  with ingest_book [OF inv, of now b a] get new show ?thesis by (auto split: if_splits)
next
  case (M_cancel now i re ac)
  have "book_of (pm5_do c s) oid = cancelled (book_of s) {i} oid"
    using cancel_order_run [OF inv] M_cancel by (simp add: tracks_def)
  with get new show ?thesis by (simp add: cancelled_def)
next
  case (M_emergency now clk re ac)
  have "book_of (pm5_do c s) oid = map_option emergency_target (book_of s oid)"
    using emergency_cancel_run [OF inv, of now clk re ac] M_emergency by (auto simp: tracks_def)
  with get new show ?thesis by simp
qed (use get new in \<open>simp_all add: handler_defs control_book\<close>)

text \<open>Between two calls no order is in an intermediate state.\<close>

definition resting_states :: "ExecutionLifecycleState set" where
  "resting_states = {REJECTED, ACKNOWLEDGED, PARTIALLY_FILLED, RECONCILIATION_PENDING, CANCELLED}"

lemma pm5_reach_resting: "pm5_reach s \<Longrightarrow> book_of s oid = Some r \<Longrightarrow> state r \<in> resting_states"
proof (induction arbitrary: oid r rule: pm5_reach.induct)
  case (init config sim ex)
  then show ?case by (simp add: pm5_init_def Let_def oms_init_def oms_get_def dict_simps)
next
  case (call s c)
  note inv = pm5_reach_inv [OF call.hyps]
  show ?case
  proof (cases "book_of s oid")
    case None
    from pm5_do_adds [OF inv this call.prems] show ?thesis
      unfolding resting_states_def using settled_state_cases by fastforce
  next
    case (Some q)
    from pm5_do_keeps [OF inv Some, of c] call.prems call.IH [OF Some] show ?thesis
      by (auto simp: resting_states_def)
  qed
qed

subsection \<open>What an intake returns\<close>

lemma ingest_cases:
  assumes "pm5_inv s"
  obtains
    (replay) r bn s' where "known_order s bndl = Some r" "ingest now bndl a s = (Inr bn, s')"
      "replayed s r (same_payload bndl a r) bn s'"
  | (take) b bn s' where "known_order s bndl = None" "ingest_reasons now bndl a s = []"
      "bndl = Some b" "ingest now bndl a s = (Inr bn, s')" "taken s b a bn s'"
  | (refuse) bn s' where "known_order s bndl = None" "ingest_reasons now bndl a s \<noteq> []"
      "ingest now bndl a s = (Inr bn, s')" "refused s bndl a (ingest_reasons now bndl a s) bn s'"
proof -
  from ingest_outcome [OF assms, of now bndl a] obtain bn s'
    where run: "ingest now bndl a s = (Inr bn, s')"
    and out: "case known_order s bndl of Some r \<Rightarrow> replayed s r (same_payload bndl a r) bn s'
     | None \<Rightarrow> (if ingest_reasons now bndl a s = [] then taken s (the bndl) a bn s'
               else refused s bndl a (ingest_reasons now bndl a s) bn s')" by blast
  show ?thesis
  proof (cases "known_order s bndl")
    case (Some r)
    with run out replay show ?thesis by simp
  next
    case None
    show ?thesis
    proof (cases "ingest_reasons now bndl a s = []")
      case True
      then obtain b where "bndl = Some b" by (rule ingest_reasons_NilD)
      with None True run out take show ?thesis by simp
    next
      case False
      with None run out refuse show ?thesis by simp
    qed
  qed
qed

lemma replayed_book: "replayed s r sm bn s' \<Longrightarrow> book_of s' = book_of s \<and> keys_of s' = keys_of s"
  unfolding replayed_def by (blast dest: tracks_book tracks_keys)

lemma refusedE:
  assumes "refused s bndl a rs bn s'"
  obtains (none) "says False False rs None bn" "book_of s' = book_of s" "keys_of s' = keys_of s"
  | (order) r where "says False False rs (Some r) bn" "book_of s (order_id r) = None" "state r = REJECTED"
      "filled_quantity r = 0" "book_of s' = (book_of s)(order_id r \<mapsto> r)"
      "keys_of s' = (keys_of s)(idempotency_key r \<mapsto> order_id r)"
      "seeded_from bndl a (ingest_qty bndl a) (Some r)"
  using assms unfolding refused_def
  by (elim exE conjE, case_tac od) (auto dest: tracks_book tracks_keys)

lemma outcome_latches:
  assumes "replayed s r sm bn s' \<or> refused s bndl a' rs bn s' \<or> taken s b a bn s'"
  shows "(cp_block_new (pm_control s) \<longrightarrow> cp_block_new (pm_control s')) \<and>
    (cp_kill_latched (pm_control s) \<longrightarrow> cp_kill_latched (pm_control s'))"
proof -
  have "\<exists>g k. tracks s g k s'"
    using assms unfolding replayed_def refused_def taken_def order_at_def
    by (auto split: option.splits)
  then show ?thesis by (auto simp: tracks_def)
qed

lemma ingest_latches:
  assumes "pm5_inv s"
  shows "(cp_block_new (pm_control s) \<longrightarrow> cp_block_new (pm_control (snd (ingest now bndl a s)))) \<and>
    (cp_kill_latched (pm_control s) \<longrightarrow> cp_kill_latched (pm_control (snd (ingest now bndl a s))))"
  using assms
proof (cases rule: ingest_cases [where bndl = bndl and now = now and a = a])
  case (replay r bn s')
  with outcome_latches [of s r "same_payload bndl a r" bn s'] show ?thesis by simp
next
  case (take b bn s')
  with outcome_latches [of s _ _ bn s' _ _ _ b a] show ?thesis by simp
next
  case (refuse bn s')
  with outcome_latches [of s _ _ bn s' bndl a "ingest_reasons now bndl a s"] show ?thesis by simp
qed

subsection \<open>Sample inputs\<close>

text \<open>A bundle of an admitted request, as the risk gate publishes it, and call arguments.\<close>

definition sample_bundle :: "datetime \<Rightarrow> string \<Rightarrow> dec \<Rightarrow> RiskPublicationBundle" where
  "sample_bundle t key q =
     \<lparr>bundle_id = 1, rb_event_id = 2, rb_correlation_id = 3, rb_causation_id = None,
      rb_idempotency_key = Some key, rb_occurred_at = t, rb_intent_id = 4, rb_candidate_id = None,
      rb_forecast_id = None, rb_symbol = ''EURUSD'',
      rb_verdict = \<lparr>verdict_id = 5, rv_intent_id = 4, rv_event_id = 2, rv_correlation_id = 3,
        rv_causation_id = None, rv_idempotency_key = Some key, rv_occurred_at = t, rv_status = ALLOW,
        rv_reasons = [], rv_detail = None, rv_expires_at = None, rv_producer = ''pm4_risk_gate'',
        recommended_volume = Some q, rv_handoff_eligibility = HO_ELIGIBLE_PENDING_PM5\<rparr>,
      rb_admission = \<lparr>ac_decision = AD_APPROVE, ac_tier = TIER_ADMITTED, ac_reasons = [],
        ac_active_controls = [], ac_trace_id = 3, ac_vetoes = [], ac_detail = []\<rparr>,
      rb_budget = \<lparr>account_budget = 1, sleeve_budget = 1, regime_budget = 1, cluster_budget = 1,
        symbol_budget = 1, candidate_budget = 1, residual_headroom = 1, consumed_headroom = 0,
        bc_proposed_risk = 1/100, bc_throttle_factor = 1, bc_tree = []\<rparr>,
      rb_sizing = \<lparr>recommended_size = q, size_unit = ''lots'', base_risk_percentage = 1/100,
        adjusted_risk_percentage = 1/100, ps_stop_distance = 1/1000, stop_distance_basis = ''price'',
        ps_uncertainty_discount = 1, predictive_quality_factor = 1, drawdown_throttle = 1,
        ps_liquidity_factor = 1, correlation_penalty = 1, heat_cap_factor = 1,
        hard_cap_applied = False, ps_account_equity = 100000, risk_amount = 1000\<rparr>,
      rb_heat = \<lparr>raw_heat = 0, effective_heat = 0, cluster_heat = 0, ph_directional_heat = 0,
        session_heat = 0, residual_heat_headroom = 1, heat_regime = HEAT_COOL, stressed_heat = 0,
        proposed_incremental_heat = 0\<rparr>,
      rb_concentration = \<lparr>symbol_overlap = [], currency_overlap = [], cluster_exposure = [],
        crowding_penalty = 0, stressed_concentration_state = CONC_DIVERSIFIED, usd_concentration = 0,
        european_basket = 0, one_per_cluster_blocked = False, ce_cluster_id = None\<rparr>,
      rb_drawdown = \<lparr>current_drawdown = 0, peak_to_trough_drawdown = 0, intraday_loss = 0,
        ds_losing_streak = 0, throttle_stage = DD_NORMAL, protection_stage = DD_NORMAL,
        freeze_state = False, ds_throttle_factor = 1\<rparr>,
      rb_pretrade = \<lparr>pt_passed = True, breach_reasons = [], order_size_legal = True,
        price_legal = True, message_legal = True, route_eligible = True, pt_checks = [],
        pt_detail = []\<rparr>,
      rb_kill_switch = \<lparr>ks_status = KILL_ARMED, ks_scope = KS_ACCOUNT, ks_scope_id = None,
        trigger_reason = None, cancel_orders_status = ''none'', new_order_block_status = False,
        risk_reducing_order_policy = True, recovery_eligibility = REC_NONE, ks_tripped_at = None,
        ks_actor = None\<rparr>,
      rb_diagnostics = (MODE_NORMAL, True, 0), rb_audit_summary = (0, None),
      rb_handoff_eligibility = HO_ELIGIBLE_PENDING_PM5, execution_permitted = False,
      rb_producer = ''pm4_risk_gate'', rb_risk_mode = MODE_NORMAL\<rparr>"

definition sample_args :: ingest_args where
  "sample_args = \<lparr>ia_direction = Some BUY, ia_entry_type = ET_MARKET, ia_quantity = None,
     ia_order_type = ''market'', ia_entry_price = Some (11/10), ia_stop_price = None,
     ia_strategy_id = None, ia_cluster = None\<rparr>"

definition sample_pm5 :: pm5 where
  "sample_pm5 = pm5_init pm5_config_default True False"

definition sample_filled :: pm5 where
  "sample_filled = snd (ingest 0 (Some (sample_bundle 0 ''k1'' 2)) sample_args sample_pm5)"

definition sample_blocked :: pm5 where
  "sample_blocked = snd (no_new_risk 0 ''news'' ''operator'' sample_pm5)"

lemma sample_pm5_reach [simp]: "pm5_reach sample_pm5"
  unfolding sample_pm5_def by (rule pm5_reach.init)

lemma sample_filled_reach [simp]: "pm5_reach sample_filled"
  using pm5_reach.call [OF sample_pm5_reach, of "M_ingest 0 (Some (sample_bundle 0 ''k1'' 2)) sample_args"]
  by (simp add: sample_filled_def)

lemma sample_blocked_reach [simp]: "pm5_reach sample_blocked"
  using pm5_reach.call [OF sample_pm5_reach, of "M_no_new_risk 0 ''news'' ''operator''"]
  by (simp add: sample_blocked_def)

lemma sample_reasons: "ingest_reasons 0 (Some (sample_bundle 0 ''k1'' 2)) sample_args sample_pm5 = []"
  by code_simp

lemma sample_unknown: "known_order sample_pm5 b = None"
  by (simp add: known_order_def sample_pm5_def pm5_init_def Let_def oms_init_def oms_by_key_def
      dict_simps split: option.split bind_split)

lemma sample_settled: "settled_state True 2 = RECONCILIATION_PENDING" "settled_fill True 2 = 2"
  by code_simp+

lemma sample_taken:
  "\<exists>bn. ingest 0 (Some (sample_bundle 0 ''k1'' 2)) sample_args sample_pm5 = (Inr bn, sample_filled) \<and>
     taken sample_pm5 (sample_bundle 0 ''k1'' 2) sample_args bn sample_filled"
  using ingest_outcome [OF pm5_reach_inv [OF sample_pm5_reach], of 0 "Some (sample_bundle 0 ''k1'' 2)" sample_args]
  by (auto simp: sample_reasons sample_unknown sample_filled_def)

lemma sample_filled_order:
  obtains r where "book_of sample_filled (order_id r) = Some r" "state r = RECONCILIATION_PENDING"
    "filled_quantity r = 2" "idempotency_key r = ''k1''"
proof -
  from sample_taken obtain bn where "taken sample_pm5 (sample_bundle 0 ''k1'' 2) sample_args bn sample_filled"
    by blast
  moreover have "simulation_auto_fill (pm_config sample_pm5)"
    by (simp add: sample_pm5_def pm5_init_def Let_def pm5_config_default_def)
  moreover have "ingest_qty (Some (sample_bundle 0 ''k1'' 2)) sample_args = Some 2" by code_simp
  moreover have "rb_idempotency_key (sample_bundle 0 ''k1'' 2) = Some ''k1''" by (simp add: sample_bundle_def)
  ultimately obtain r where "book_of sample_filled = (book_of sample_pm5)(order_id r \<mapsto> r)"
    "state r = settled_state True 2" "filled_quantity r = settled_fill True 2" "idempotency_key r = ''k1''"
    by (elim takenE) auto
  then show ?thesis by (intro that [of r]) (simp_all add: sample_settled)
qed

subsection \<open>The book over all call sequences\<close>

text \<open>
  Claim C1. Whatever sequence of calls the module has served (intakes, cancels, emergency
  cancels, control actions, recoveries, with any interleaving and any clock), the audit log of
  every order in the book starts at its creation, moves only along the transition table, and
  ends in exactly the state the book holds.
\<close>

theorem pm5_orders_legal:
  assumes "pm5_reach s" and "oms_get (pm_oms s) oid = Some r"
  shows "order_id r = oid \<and> legal_log oid (oms_events (pm_oms s) oid) (state r)"
  using pm5_reach_inv [OF assms(1)] assms(2) unfolding pm5_inv_def by (blast dest: oms_inv_orderD)

theorem pm5_orders_legal_witness:
  "\<exists>oid r. oms_get (pm_oms sample_filled) oid = Some r \<and> state r = RECONCILIATION_PENDING \<and>
     legal_log oid (oms_events (pm_oms sample_filled) oid) (state r)"
proof -
  obtain r where r: "book_of sample_filled (order_id r) = Some r" "state r = RECONCILIATION_PENDING"
    by (rule sample_filled_order)
  with pm5_orders_legal [OF sample_filled_reach r(1)] show ?thesis by blast
qed

text \<open>
  A call never removes an order from the book and never changes a settled one: the
  only change it can make to an existing order is to cancel it, and only when the transition
  table lets the order be cancelled. In particular rejected, cancelled and reconciliation
  pending orders stay as they are for ever.
\<close>

theorem pm5_orders_kept:
  assumes "pm5_reach s" and "oms_get (pm_oms s) oid = Some r"
  shows "oms_get (pm_oms (pm5_do c s)) oid = Some r \<or>
    state r \<in> {ACKNOWLEDGED, PARTIALLY_FILLED} \<and>
    oms_get (pm_oms (pm5_do c s)) oid = Some (r\<lparr>state := CANCELLED\<rparr>)"
  using pm5_do_keeps [OF pm5_reach_inv [OF assms(1)] assms(2), of c] pm5_reach_resting [OF assms]
  by (auto simp: resting_states_def can_transition_def)

theorem pm5_orders_kept_witness:
  "\<exists>oid r. oms_get (pm_oms sample_filled) oid = Some r \<and>
     oms_get (pm_oms (pm5_do (M_emergency 5 (\<lambda>_. 5) ''drill'' ''operator'') sample_filled)) oid = Some r"
proof -
  obtain r where r: "book_of sample_filled (order_id r) = Some r" "state r = RECONCILIATION_PENDING"
    by (rule sample_filled_order)
  with pm5_orders_kept [OF sample_filled_reach r(1)] show ?thesis by fastforce
qed

subsection \<open>Intake\<close>

subsection \<open>Intake\<close>

lemma accept_authorised:
  assumes "pm5_reach s" and "ingest now bndl a s = (Inr bn, s')"
    and "accepted (eb_receipt bn)" and "\<not> idempotent_replay (eb_receipt bn)"
  shows "\<exists>b r. bndl = Some b \<and> rv_status (rb_verdict b) = ALLOW \<and>
    ac_decision (rb_admission b) \<in> {AD_APPROVE, AD_REDUCE} \<and>
    ks_status (rb_kill_switch b) \<in> {KILL_DISARMED, KILL_ARMED} \<and>
    rb_occurred_at b \<le> now \<and> now - rb_occurred_at b \<le> seconds (stale_ttl_seconds (pm_config s)) \<and>
    \<not> cp_kill_latched (pm_control s) \<and> \<not> cp_block_new (pm_control s) \<and>
    oms_get (pm_oms s) (order_id r) = None \<and> eb_order bn = Some r \<and>
    oms_get (pm_oms s') = (oms_get (pm_oms s))(order_id r \<mapsto> r) \<and>
    0 < original_quantity r \<and> original_quantity r \<le> approved_quantity b"
proof -
  from pm5_reach_inv [OF assms(1)] have inv: "pm5_inv s" .
  from inv show ?thesis
  proof (cases rule: ingest_cases [where bndl = bndl and now = now and a = a])
    case (replay r bn' s'')
    with assms show ?thesis by (auto simp: replayed_def says_def split: if_splits)
  next
    case (refuse bn' s'')
    with assms show ?thesis by (auto simp: refused_def says_def)
  next
    case (take b bn' s'')
    with assms(2) have tk: "taken s b a bn s'" by simp
    from validate_intake_NilD [OF take(2) [unfolded ingest_reasons_def Let_def]] take(3)
    have "rv_status (rb_verdict b) = ALLOW \<and> ac_decision (rb_admission b) \<in> {AD_APPROVE, AD_REDUCE} \<and>
      ks_status (rb_kill_switch b) \<in> {KILL_DISARMED, KILL_ARMED} \<and>
      rb_occurred_at b \<le> now \<and> now - rb_occurred_at b \<le> seconds (stale_ttl_seconds (pm_config s))" by auto
    moreover from ingest_reasons_NilD [OF take(2)]
    have "\<not> cp_kill_latched (pm_control s) \<and> \<not> cp_block_new (pm_control s)" by blast
    moreover from tk obtain r where "says True False [] (Some r) bn" "book_of s (order_id r) = None"
      "book_of s' = (book_of s)(order_id r \<mapsto> r)" "0 < original_quantity r"
      "original_quantity r \<le> approved_quantity b"
      by (elim takenE) auto
    ultimately show ?thesis using take(3) by (auto simp: says_def)
  qed
qed

text \<open>
  Claim C5. A fresh acceptance is authorised: on a reachable state, when an intake reports
  acceptance and is not an idempotent replay, the request carried a bundle whose PM4 verdict is
  ALLOW, whose admission approves or reduces and whose kill switch is not tripped; the bundle is
  neither from the future nor stale; no latch of the control plane was set; and the book has
  gained one order, of a positive quantity not above the quantity PM4 approved.
\<close>

theorem pm5_accept_authorised:
  assumes "pm5_reach s" and "ingest now bndl a s = (Inr bn, s')"
    and "accepted (eb_receipt bn)" and "\<not> idempotent_replay (eb_receipt bn)"
  shows "\<exists>b r. bndl = Some b \<and> rv_status (rb_verdict b) = ALLOW \<and>
    ac_decision (rb_admission b) \<in> {AD_APPROVE, AD_REDUCE} \<and>
    ks_status (rb_kill_switch b) \<in> {KILL_DISARMED, KILL_ARMED} \<and>
    rb_occurred_at b \<le> now \<and> now - rb_occurred_at b \<le> seconds (stale_ttl_seconds (pm_config s)) \<and>
    \<not> cp_kill_latched (pm_control s) \<and> \<not> cp_block_new (pm_control s) \<and>
    oms_get (pm_oms s) (order_id r) = None \<and> eb_order bn = Some r \<and>
    oms_get (pm_oms s') = (oms_get (pm_oms s))(order_id r \<mapsto> r) \<and>
    0 < original_quantity r \<and> original_quantity r \<le> approved_quantity b"
  using assms by (rule accept_authorised)

theorem pm5_accept_authorised_witness:
  "\<exists>r. oms_get (pm_oms sample_filled) = (oms_get (pm_oms sample_pm5))(order_id r \<mapsto> r) \<and>
     original_quantity r \<le> approved_quantity (sample_bundle 0 ''k1'' 2)"
proof -
  from sample_taken obtain bn
    where run: "ingest 0 (Some (sample_bundle 0 ''k1'' 2)) sample_args sample_pm5 = (Inr bn, sample_filled)"
      and "taken sample_pm5 (sample_bundle 0 ''k1'' 2) sample_args bn sample_filled" by blast
  then have "accepted (eb_receipt bn)" "\<not> idempotent_replay (eb_receipt bn)"
    by (auto elim: takenE simp: says_def)
  from pm5_accept_authorised [OF sample_pm5_reach run this] show ?thesis by auto
qed

text \<open>
  An intake always returns, and what it does is decided by the key index and the
  list of reasons alone: with a new key and no reasons the order settles in the same call,
  completely filled and awaiting reconciliation when automatic fills are on (for quantities of
  up to 28 digits, the decimal context's precision), acknowledged and unfilled otherwise.
\<close>

theorem pm5_ingest_settles:
  assumes "pm5_reach s" and "known_order s (Some b) = None"
    and "ingest_reasons now (Some b) a s = []"
    and "ingest_qty (Some b) a = Some q" and "dec28 q"
  shows "\<exists>bn s' r. ingest now (Some b) a s = (Inr bn, s') \<and> accepted (eb_receipt bn) \<and>
    eb_order bn = Some r \<and> oms_get (pm_oms s') = (oms_get (pm_oms s))(order_id r \<mapsto> r) \<and>
    original_quantity r = q \<and>
    (if simulation_auto_fill (pm_config s)
     then state r = RECONCILIATION_PENDING \<and> filled_quantity r = q
     else state r = ACKNOWLEDGED \<and> filled_quantity r = 0)"
proof -
  have q: "dadd 0 q = q" using assms(5) by (simp add: dadd_def dec28_def)
  from pm5_reach_inv [OF assms(1)] have inv: "pm5_inv s" .
  from inv show ?thesis
  proof (cases rule: ingest_cases [where bndl = "Some b" and now = now and a = a])
    case (take b' bn s')
    then obtain r where "says True False [] (Some r) bn" "book_of s' = (book_of s)(order_id r \<mapsto> r)"
      "original_quantity r = q" "state r = settled_state (simulation_auto_fill (pm_config s)) q"
      "filled_quantity r = settled_fill (simulation_auto_fill (pm_config s)) q"
      using assms(4) by (elim takenE) auto
    with take show ?thesis by (auto simp: says_def settled_state_def settled_fill_def q)
  qed (use assms in simp_all)
qed

theorem pm5_ingest_settles_witness:
  "\<exists>bn s' r. ingest 0 (Some (sample_bundle 0 ''k1'' 2)) sample_args sample_pm5 = (Inr bn, s') \<and>
     eb_order bn = Some r \<and> state r = RECONCILIATION_PENDING \<and> filled_quantity r = 2"
proof -
  have "ingest_qty (Some (sample_bundle 0 ''k1'' 2)) sample_args = Some 2" by code_simp
  moreover have "dec28 2" by code_simp
  moreover have "simulation_auto_fill (pm_config sample_pm5)" by code_simp
  ultimately show ?thesis
    using pm5_ingest_settles [OF sample_pm5_reach sample_unknown sample_reasons] by auto
qed

text \<open>
  While new orders are blocked (freeze, close-only, no-new-risk or kill), an intake
  with a new key is refused, names the control block when a bundle was given, keeps the block,
  and can add to the book nothing but a rejected, unfilled order.
\<close>

theorem pm5_blocked_refuses:
  assumes "pm5_reach s" and "cp_block_new (pm_control s)" and "known_order s bndl = None"
  shows "\<exists>bn s'. ingest now bndl a s = (Inr bn, s') \<and> \<not> accepted (eb_receipt bn) \<and>
    (bndl \<noteq> None \<longrightarrow> RR_CONTROL_BLOCKED \<in> set (rp_reasons (eb_receipt bn))) \<and>
    cp_block_new (pm_control s') \<and>
    (\<forall>oid r. oms_get (pm_oms s') oid = Some r \<longrightarrow>
       oms_get (pm_oms s) oid = Some r \<or> state r = REJECTED \<and> filled_quantity r = 0)"
proof -
  from pm5_reach_inv [OF assms(1)] have inv: "pm5_inv s" .
  from inv show ?thesis
  proof (cases rule: ingest_cases [where bndl = bndl and now = now and a = a])
    case (replay r bn s')
    with assms(3) show ?thesis by simp
  next
    case (take b bn s')
    from ingest_reasons_NilD [OF take(2)] assms(2) show ?thesis by blast
  next
    case (refuse bn s')
    have blocked: "bndl \<noteq> None \<longrightarrow> RR_CONTROL_BLOCKED \<in> set (ingest_reasons now bndl a s)"
      using assms(2) inv
      by (auto simp: ingest_reasons_def Let_def ingest_blocks_def pm5_inv_def control_blocks_iff
          intro!: validate_intake_control_blocked)
    have latch: "cp_block_new (pm_control s')"
      using ingest_latches [OF inv, of now bndl a] assms(2) refuse(3) by simp
    from refuse(4) show ?thesis
      using refuse(3) blocked latch
      by (cases rule: refusedE) (auto simp: says_def split: if_splits)
  qed
qed

theorem pm5_blocked_refuses_witness:
  "\<exists>bn s'. ingest 0 (Some (sample_bundle 0 ''k1'' 2)) sample_args sample_blocked = (Inr bn, s') \<and>
     \<not> accepted (eb_receipt bn) \<and> RR_CONTROL_BLOCKED \<in> set (rp_reasons (eb_receipt bn))"
proof -
  have "cp_block_new (pm_control sample_blocked)" by code_simp
  moreover have "known_order sample_blocked (Some (sample_bundle 0 ''k1'' 2)) = None" by code_simp
  ultimately show ?thesis using pm5_blocked_refuses [OF sample_blocked_reach] by blast
qed

subsection \<open>Idempotency\<close>

lemma known_order_keys: "known_order s bndl =
   Option.bind (intake_key bndl) (\<lambda>key. Option.bind (keys_of s key) (book_of s))"
  by (simp add: known_order_def oms_by_key_def split: option.splits bind_split)

lemma replay_ingest:
  assumes "pm5_inv s" and "known_order s bndl = Some r"
  obtains bn s' where "ingest now bndl a s = (Inr bn, s')" "replayed s r (same_payload bndl a r) bn s'"
  using assms(1)
  by (cases rule: ingest_cases [where bndl = bndl and now = now and a = a]) (use assms(2) in auto)

text \<open>
  Claim C34. Idempotency: after an accepted intake, submitting the same bundle with the same
  arguments again, at any later or earlier clock reading and without anything else in between,
  returns an accepted receipt marked as a replay with the very same order, and the book does
  not change.
\<close>

theorem pm5_ingest_idempotent:
  assumes "pm5_reach s" and "ingest now (Some b) a s = (Inr bn, s')" and "accepted (eb_receipt bn)"
  shows "\<exists>bn2 s2. ingest now2 (Some b) a s' = (Inr bn2, s2) \<and> accepted (eb_receipt bn2) \<and>
    idempotent_replay (eb_receipt bn2) \<and> eb_order bn2 = eb_order bn \<and>
    oms_get (pm_oms s2) = oms_get (pm_oms s')"
proof -
  from pm5_reach_inv [OF assms(1)] have inv: "pm5_inv s" .
  have inv': "pm5_inv s'" using ingest_inv [OF inv, of now "Some b" a] assms(2) by simp
  have "\<exists>r. known_order s' (Some b) = Some r \<and> same_payload (Some b) a r \<and> eb_order bn = Some r"
    using inv
  proof (cases rule: ingest_cases [where bndl = "Some b" and now = now and a = a])
    case (replay r bn' s'')
    then have "same_payload (Some b) a r" "eb_order bn = Some r"
      using assms by (auto simp: replayed_def says_def split: if_splits)
    moreover have "known_order s' (Some b) = Some r"
      using replay assms(2) replayed_book [OF replay(3)] by (simp add: known_order_keys)
    ultimately show ?thesis by blast
  next
    case (take b' bn' s'')
    with assms(2) have "taken s b a bn s'" by simp
    then obtain r key dir q where r: "says True False [] (Some r) bn" "rb_idempotency_key b = Some key" "key \<noteq> []"
      "ia_direction a = Some dir" "ingest_qty (Some b) a = Some q" "idempotency_key r = key"
      "symbol r = rb_symbol b" "direction r = dir" "original_quantity r = q"
      "book_of s' = (book_of s)(order_id r \<mapsto> r)" "keys_of s' = (keys_of s)(key \<mapsto> order_id r)"
      by (elim takenE) blast
    then have "known_order s' (Some b) = Some r"
      by (simp add: known_order_keys intake_key_def truthy_def)
    with r show ?thesis by (auto simp: same_payload_def says_def)
  next
    case (refuse bn' s'')
    with assms show ?thesis by (auto simp: refused_def says_def)
  qed
  then obtain r where r: "known_order s' (Some b) = Some r" "same_payload (Some b) a r" "eb_order bn = Some r"
    by blast
  from replay_ingest [OF inv' r(1)] obtain bn2 s2
    where "ingest now2 (Some b) a s' = (Inr bn2, s2)" "replayed s' r (same_payload (Some b) a r) bn2 s2" .
  with r show ?thesis using replayed_book [of s' r _ bn2 s2] by (auto simp: replayed_def says_def)
qed

theorem pm5_ingest_idempotent_witness:
  "\<exists>bn2 s2. ingest 7 (Some (sample_bundle 0 ''k1'' 2)) sample_args sample_filled = (Inr bn2, s2) \<and>
     idempotent_replay (eb_receipt bn2) \<and> oms_get (pm_oms s2) = oms_get (pm_oms sample_filled)"
proof -
  from sample_taken obtain bn
    where run: "ingest 0 (Some (sample_bundle 0 ''k1'' 2)) sample_args sample_pm5 = (Inr bn, sample_filled)"
      and "taken sample_pm5 (sample_bundle 0 ''k1'' 2) sample_args bn sample_filled" by blast
  then have "accepted (eb_receipt bn)" by (auto elim: takenE simp: says_def)
  from pm5_ingest_idempotent [OF sample_pm5_reach run this, of 7] show ?thesis by blast
qed

text \<open>
  A key that is already in the book with another payload (symbol, side or quantity)
  is refused as a duplicate conflict, and neither the book nor the key index changes.
\<close>

theorem pm5_conflict_refused:
  assumes "pm5_reach s" and "known_order s bndl = Some r" and "\<not> same_payload bndl a r"
  shows "\<exists>bn s'. ingest now bndl a s = (Inr bn, s') \<and> \<not> accepted (eb_receipt bn) \<and>
    rp_reasons (eb_receipt bn) = [RR_DUPLICATE_CONFLICT] \<and>
    oms_get (pm_oms s') = oms_get (pm_oms s) \<and> oms_by_key (pm_oms s') = oms_by_key (pm_oms s)"
proof -
  obtain bn s' where run: "ingest now bndl a s = (Inr bn, s')"
    and re: "replayed s r (same_payload bndl a r) bn s'"
    by (rule replay_ingest [OF pm5_reach_inv [OF assms(1)] assms(2)])
  have "book_of s' = book_of s" "keys_of s' = keys_of s" using replayed_book [OF re] by simp_all
  then have "oms_by_key (pm_oms s') = oms_by_key (pm_oms s)"
    by (intro ext) (simp add: oms_by_key_def fun_eq_iff split: option.split)
  with run re assms(3) \<open>book_of s' = book_of s\<close> show ?thesis by (auto simp: replayed_def says_def)
qed

lemma sample_known: "\<exists>r. known_order sample_filled (Some (sample_bundle 0 ''k1'' 2)) = Some r \<and> direction r = BUY"
proof -
  from sample_taken obtain bn where "taken sample_pm5 (sample_bundle 0 ''k1'' 2) sample_args bn sample_filled"
    by blast
  then show ?thesis
  proof (rule takenE)
    fix r key dir q
    assume "rb_idempotency_key (sample_bundle 0 ''k1'' 2) = Some key" "key \<noteq> []"
      "ia_direction sample_args = Some dir" "direction r = dir"
      "book_of sample_filled = (book_of sample_pm5)(order_id r \<mapsto> r)"
      "keys_of sample_filled = (keys_of sample_pm5)(key \<mapsto> order_id r)"
    then show ?thesis
      by (auto simp: known_order_keys intake_key_def truthy_def sample_args_def)
  qed
qed

theorem pm5_conflict_refused_witness:
  "\<exists>bn s'. ingest 3 (Some (sample_bundle 0 ''k1'' 2)) (sample_args\<lparr>ia_direction := Some SELL\<rparr>) sample_filled =
     (Inr bn, s') \<and> rp_reasons (eb_receipt bn) = [RR_DUPLICATE_CONFLICT]"
proof -
  obtain r where r: "known_order sample_filled (Some (sample_bundle 0 ''k1'' 2)) = Some r" "direction r = BUY"
    using sample_known by blast
  have "\<not> same_payload (Some (sample_bundle 0 ''k1'' 2)) (sample_args\<lparr>ia_direction := Some SELL\<rparr>) r"
    using r(2) by (simp add: same_payload_def)
  from pm5_conflict_refused [OF sample_filled_reach r(1) this] show ?thesis by blast
qed

text \<open>
  Claim C39. A refused order is replayed as accepted. When an intake with a bundle that has a
  key, and with a side, is refused for any reason (a control block, staleness, a PM4 denial),
  its rejected order enters the book under that key, and the same intake sent again returns a
  receipt with \<^verbatim>\<open>accepted=True\<close> and no reasons, although the order it names is
  \<^const>\<open>REJECTED\<close>.
\<close>

theorem pm5_rejected_replayed_as_accepted:
  assumes "pm5_reach s" and "known_order s (Some b) = None" and "ingest_reasons now (Some b) a s \<noteq> []"
    and "rb_idempotency_key b = Some key" and "key \<noteq> []" and "ia_direction a \<noteq> None"
  shows "\<exists>bn s' bn2 s2. ingest now (Some b) a s = (Inr bn, s') \<and> \<not> accepted (eb_receipt bn) \<and>
    ingest now2 (Some b) a s' = (Inr bn2, s2) \<and> accepted (eb_receipt bn2) \<and>
    rp_reasons (eb_receipt bn2) = [] \<and> rp_state (eb_receipt bn2) = Some REJECTED"
proof -
  from pm5_reach_inv [OF assms(1)] have inv: "pm5_inv s" .
  then obtain bn s' where run: "ingest now (Some b) a s = (Inr bn, s')"
    and rf: "refused s (Some b) a (ingest_reasons now (Some b) a s) bn s'"
    by (rule ingest_cases [where bndl = "Some b" and now = now and a = a]) (use assms in auto)
  have inv': "pm5_inv s'" using ingest_inv [OF inv, of now "Some b" a] run by simp
  obtain q where q: "ingest_qty (Some b) a = Some q"
    by (cases "ia_quantity a") (auto simp: ingest_qty_def)
  from rf show ?thesis
  proof (cases rule: refusedE)
    case none
    with rf assms(6) show ?thesis by (auto simp: refused_def seeded_from_def says_def)
  next
    case (order r)
    then have r: "idempotency_key r = key" "same_payload (Some b) a r"
      using assms(4-6) q by (auto simp: seeded_from_def same_payload_def)
    with order assms(4,5) have known: "known_order s' (Some b) = Some r"
      by (simp add: known_order_keys intake_key_def truthy_def)
    obtain bn2 s2 where "ingest now2 (Some b) a s' = (Inr bn2, s2)"
      and "replayed s' r (same_payload (Some b) a r) bn2 s2"
      by (rule replay_ingest [OF inv' known])
    with run order r show ?thesis by (auto simp: replayed_def says_def)
  qed
qed

theorem pm5_rejected_replayed_as_accepted_witness:
  "\<exists>bn s' bn2 s2. ingest 0 (Some (sample_bundle 0 ''k1'' 2)) sample_args sample_blocked = (Inr bn, s') \<and>
     \<not> accepted (eb_receipt bn) \<and>
     ingest 9 (Some (sample_bundle 0 ''k1'' 2)) sample_args s' = (Inr bn2, s2) \<and>
     accepted (eb_receipt bn2) \<and> rp_state (eb_receipt bn2) = Some REJECTED"
proof -
  have "known_order sample_blocked (Some (sample_bundle 0 ''k1'' 2)) = None" by code_simp
  moreover have "ingest_reasons 0 (Some (sample_bundle 0 ''k1'' 2)) sample_args sample_blocked \<noteq> []" by code_simp
  moreover have "rb_idempotency_key (sample_bundle 0 ''k1'' 2) = Some ''k1''" "ia_direction sample_args \<noteq> None"
    by code_simp+
  ultimately show ?thesis
    using pm5_rejected_replayed_as_accepted [OF sample_blocked_reach, of "sample_bundle 0 ''k1'' 2" 0
        sample_args "''k1''" 9] by blast
qed

subsection \<open>Emergency cancel and recovery\<close>

lemma emergency_result:
  assumes "pm5_reach s"
  obtains rec s' where "emergency_cancel now clk reason actor s = (Inr rec, s')"
    "cp_kill_latched (pm_control s')" "cp_block_new (pm_control s')"
    "\<And>oid. book_of s' oid =
       map_option (\<lambda>r. if state r \<in> {ACKNOWLEDGED, PARTIALLY_FILLED} then r\<lparr>state := CANCELLED\<rparr> else r)
         (book_of s oid)"
    "\<And>oid r. book_of s' oid = Some r \<Longrightarrow> state r \<notin> {QUEUED, SUBMITTED, ACKNOWLEDGED, PARTIALLY_FILLED}"
proof -
  from pm5_reach_inv [OF assms] have inv: "pm5_inv s" .
  obtain rec s' where run: "emergency_cancel now clk reason actor s = (Inr rec, s')"
    and tr: "tracks s (\<lambda>oid. map_option emergency_target (book_of s oid)) (keys_of s) s'"
    and latch: "cp_kill_latched (pm_control s')" "cp_block_new (pm_control s')"
    using emergency_cancel_run [OF inv] by blast
  have rest: "state r \<in> resting_states" if "book_of s oid = Some r" for oid r
    using pm5_reach_resting [OF assms that] .
  have upd: "map_option emergency_target (book_of s oid) =
      map_option (\<lambda>r. if state r \<in> {ACKNOWLEDGED, PARTIALLY_FILLED} then r\<lparr>state := CANCELLED\<rparr> else r)
        (book_of s oid)" for oid
    using rest [of oid] by (cases "book_of s oid") (auto simp: emergency_target_def resting_states_def)
  have "state r \<notin> {QUEUED, SUBMITTED, ACKNOWLEDGED, PARTIALLY_FILLED}"
    if "book_of s' oid = Some r" for oid r
    using that rest [of oid] unfolding tracks_book [OF tr] upd
    by (cases "book_of s oid") (auto simp: resting_states_def split: if_splits)
  moreover have "book_of s' oid =
      map_option (\<lambda>r. if state r \<in> {ACKNOWLEDGED, PARTIALLY_FILLED} then r\<lparr>state := CANCELLED\<rparr> else r)
        (book_of s oid)" for oid
    unfolding tracks_book [OF tr] by (rule upd)
  ultimately show ?thesis using that run latch by blast
qed

text \<open>
  Claim C13. An emergency cancel always returns, latches the kill switch and the new-order
  block, and leaves no working order behind: every acknowledged or partially filled order is
  cancelled with its filled quantity kept, every other order is as before, and afterwards no
  order is queued, submitted, acknowledged or partially filled.
\<close>

theorem pm5_emergency_clears:
  assumes "pm5_reach s"
  shows "\<exists>rec s'. emergency_cancel now clk reason actor s = (Inr rec, s') \<and>
    cp_kill_latched (pm_control s') \<and> cp_block_new (pm_control s') \<and>
    (\<forall>oid. oms_get (pm_oms s') oid =
       map_option (\<lambda>r. if state r \<in> {ACKNOWLEDGED, PARTIALLY_FILLED} then r\<lparr>state := CANCELLED\<rparr> else r)
         (oms_get (pm_oms s) oid)) \<and>
    (\<forall>oid r. oms_get (pm_oms s') oid = Some r \<longrightarrow>
       state r \<notin> {QUEUED, SUBMITTED, ACKNOWLEDGED, PARTIALLY_FILLED})"
  by (rule emergency_result [OF assms, of now clk reason actor]) blast

theorem pm5_emergency_clears_witness:
  "\<exists>rec s'. emergency_cancel 5 (\<lambda>_. 5) ''drill'' ''operator'' sample_filled = (Inr rec, s') \<and>
     cp_kill_latched (pm_control s')"
  using pm5_emergency_clears [OF sample_filled_reach] by blast

lemma control_latches:
  assumes "tightens f" and "pm5_inv s"
  shows "cp_block_new (pm_control s) \<longrightarrow> cp_block_new (pm_control (snd (p_control f s)))"
    and "cp_kill_latched (pm_control s) \<longrightarrow> cp_kill_latched (pm_control (snd (p_control f s)))"
proof -
  have tr: "tracks s (book_of s) (keys_of s) s" using assms(2) by simp
  obtain rec s' where "p_control f s = (Inr rec, s')" "tracks s (book_of s) (keys_of s) s'"
    using triple_no_raise [OF t_control [OF assms(1)] tr] by metis
  then show "cp_block_new (pm_control s) \<longrightarrow> cp_block_new (pm_control (snd (p_control f s)))"
    and "cp_kill_latched (pm_control s) \<longrightarrow> cp_kill_latched (pm_control (snd (p_control f s)))"
    by (auto simp: tracks_def)
qed

text \<open>Only a reasoned recovery outside the cooldown opens the module or releases the kill.\<close>

definition reopens :: "pm5_call \<Rightarrow> pm5 \<Rightarrow> bool" where
  "reopens c s \<longleftrightarrow>
     (case c of M_recover now reason actor \<Rightarrow> \<not> blank reason \<and> \<not> cooling_down (pm_control s) now | _ \<Rightarrow> False)"

lemma reopensE:
  assumes "reopens c s"
  obtains now reason actor where "c = M_recover now reason actor" "\<not> blank reason" "\<not> cooling_down (pm_control s) now"
  using assms by (cases c) (auto simp: reopens_def)

lemma pm5_do_reopens:
  assumes inv: "pm5_inv s" and "cp_block_new (pm_control s) \<and> \<not> cp_block_new (pm_control (pm5_do c s)) \<or>
      cp_kill_latched (pm_control s) \<and> \<not> cp_kill_latched (pm_control (pm5_do c s))"
  shows "reopens c s"
proof (cases c)
  case (M_ingest now b a)
  with assms(2) ingest_latches [OF inv] show ?thesis by auto
next
  case (M_cancel now oid re ac)
  with assms(2) cancel_order_run [OF inv, of oid now re ac] show ?thesis by (auto simp: tracks_def)
next
  case (M_emergency now clk re ac)
  with assms(2) emergency_cancel_run [OF inv, of now clk re ac] show ?thesis by auto
next
  case (M_recover now re ac)
  have "pm_control (pm5_do c s) = snd (control_recover (pm_next_id s) now re ac (pm_control s))"
    using M_recover by (simp add: request_recovery_def p_control_def bnd_def fresh_def split: prod.splits)
  with assms(2) show ?thesis
    using M_recover by (auto simp: reopens_def control_defs split: if_splits)
qed (use assms(2) control_latches [OF _ inv] in \<open>auto simp: handler_defs\<close>)

interpretation block: latch pm5_inv "\<lambda>s. cp_block_new (pm_control s)" pm5_do reopens
  by unfold_locales (simp_all add: pm5_do_inv pm5_do_reopens)

interpretation killed: latch pm5_inv "\<lambda>s. cp_kill_latched (pm_control s)" pm5_do reopens
  by unfold_locales (simp_all add: pm5_do_inv pm5_do_reopens)

text \<open>
  The block is sticky: the only call that can reopen the module for new orders, or
  release the kill latch, is a recovery request with a non-blank reason that comes after the
  cooldown since the last trip. Neither intakes nor cancels nor other control actions can.
\<close>

theorem pm5_only_recovery_reopens:
  assumes "pm5_reach s" and "cp_block_new (pm_control s) \<and> \<not> cp_block_new (pm_control (pm5_do c s)) \<or>
      cp_kill_latched (pm_control s) \<and> \<not> cp_kill_latched (pm_control (pm5_do c s))"
  shows "\<exists>now reason actor. c = M_recover now reason actor \<and> \<not> blank reason \<and>
    \<not> cooling_down (pm_control s) now"
  using pm5_do_reopens [OF pm5_reach_inv [OF assms(1)] assms(2)] by (elim reopensE) blast

theorem pm5_only_recovery_reopens_witness:
  "\<not> blank ''all clear'' \<and> \<not> cooling_down (pm_control sample_blocked) 1"
proof -
  have "cp_block_new (pm_control sample_blocked)" by code_simp
  moreover have "\<not> cp_block_new (pm_control (pm5_do (M_recover 1 ''all clear'' ''operator'') sample_blocked))"
    by code_simp
  ultimately show ?thesis
    using pm5_only_recovery_reopens [OF sample_blocked_reach,
        of "M_recover 1 ''all clear'' ''operator''"] by simp
qed

text \<open>A shut module gains no working order.\<close>

definition no_working :: "pm5 \<Rightarrow> bool" where
  "no_working s \<longleftrightarrow> (\<forall>oid r. book_of s oid = Some r \<longrightarrow>
     state r \<notin> {QUEUED, SUBMITTED, ACKNOWLEDGED, PARTIALLY_FILLED})"

lemma emergency_shuts:
  assumes "pm5_reach s"
  shows "cp_kill_latched (pm_control (pm5_do (M_emergency now clk reason actor) s)) \<and>
    cp_block_new (pm_control (pm5_do (M_emergency now clk reason actor) s)) \<and>
    no_working (pm5_do (M_emergency now clk reason actor) s)"
proof -
  obtain rec s' where s': "emergency_cancel now clk reason actor s = (Inr rec, s')"
    "cp_kill_latched (pm_control s')" "cp_block_new (pm_control s')"
    and none: "\<And>oid r. book_of s' oid = Some r \<Longrightarrow>
      state r \<notin> {QUEUED, SUBMITTED, ACKNOWLEDGED, PARTIALLY_FILLED}"
    using emergency_result [OF assms, of now clk reason actor] by metis
  have "no_working s'" unfolding no_working_def using none by blast
  with s' show ?thesis by simp
qed

lemma pm5_do_no_working:
  assumes inv: "pm5_inv s" and blocked: "cp_block_new (pm_control s)" and none: "no_working s"
  shows "no_working (pm5_do c s)"
  unfolding no_working_def
proof (intro allI impI)
  fix oid r assume r: "book_of (pm5_do c s) oid = Some r"
  show "state r \<notin> {QUEUED, SUBMITTED, ACKNOWLEDGED, PARTIALLY_FILLED}"
  proof (cases "book_of s oid")
    case None
    with pm5_do_adds [OF inv None r] blocked show ?thesis by auto
  next
    case (Some q)
    with pm5_do_keeps [OF inv Some, of c] r none show ?thesis by (auto simp: no_working_def)
  qed
qed

lemma shut_run:
  assumes "pm5_inv s" and "cp_block_new (pm_control s)" and "no_working s"
    and "\<And>pre c post. cs = pre @ c # post \<Longrightarrow> \<not> reopens c (fold pm5_do pre s)"
  shows "no_working (fold pm5_do cs s) \<and> cp_block_new (pm_control (fold pm5_do cs s))"
  using assms
proof (induction cs rule: rev_induct)
  case (snoc c cs)
  have rest: "\<not> reopens d (fold pm5_do pre s)" if "cs = pre @ d # post" for pre d post
    using snoc.prems(4) [of pre d "post @ [c]"] that by simp
  have "no_working (fold pm5_do cs s)" "cp_block_new (pm_control (fold pm5_do cs s))"
    using snoc.IH [OF snoc.prems(1-3) rest] by simp_all
  moreover have "cp_block_new (pm_control (fold pm5_do (cs @ [c]) s))"
    using block.holds [OF snoc.prems(1, 2, 4)] .
  ultimately show ?case
    using pm5_do_no_working block.inv_run [OF snoc.prems(1)] by simp
qed simp

lemma pm5_reach_run: "pm5_reach s \<Longrightarrow> pm5_reach (fold pm5_do cs s)"
  by (induction cs arbitrary: s) (simp_all add: pm5_reach.call)

lemma blocked_refuses:
  assumes inv: "pm5_inv s" and blocked: "cp_block_new (pm_control s)" and new: "known_order s bndl = None"
  shows "\<exists>bn s'. ingest now bndl a s = (Inr bn, s') \<and> \<not> accepted (eb_receipt bn)"
  using inv
proof (cases rule: ingest_cases [where bndl = bndl and now = now and a = a])
  case (take b bn s')
  from ingest_reasons_NilD [OF take(2)] blocked show ?thesis by blast
next
  case (refuse bn s')
  from refuse(4) show ?thesis using refuse(3) by (cases rule: refusedE) (auto simp: says_def)
qed (use new in simp)

text \<open>
  After an emergency cancel the module stays shut: whatever calls follow, as long as
  none of them is a recovery request with a non-blank reason outside the cooldown, the kill
  latch holds, no order of the book is working, and an intake with a new key is refused.
\<close>

theorem pm5_emergency_holds:
  assumes "pm5_reach s" and "s1 = pm5_do (M_emergency now clk reason actor) s"
    and "\<forall>pre c post. cs = pre @ c # post \<longrightarrow> \<not> reopens c (fold pm5_do pre s1)"
    and "known_order (fold pm5_do cs s1) bndl = None"
  shows "cp_kill_latched (pm_control (fold pm5_do cs s1)) \<and>
    (\<forall>oid r. oms_get (pm_oms (fold pm5_do cs s1)) oid = Some r \<longrightarrow>
       state r \<notin> {QUEUED, SUBMITTED, ACKNOWLEDGED, PARTIALLY_FILLED}) \<and>
    (\<exists>bn s'. ingest later bndl a (fold pm5_do cs s1) = (Inr bn, s') \<and> \<not> accepted (eb_receipt bn))"
proof -
  have quiet: "\<not> reopens c (fold pm5_do pre s1)" if "cs = pre @ c # post" for pre c post
    using assms(3) that by blast
  from emergency_shuts [OF assms(1), of now clk reason actor] assms(2)
  have latch: "cp_kill_latched (pm_control s1)" "cp_block_new (pm_control s1)" and none: "no_working s1"
    by simp_all
  have inv1: "pm5_inv s1" unfolding assms(2) using pm5_reach_inv [OF assms(1)] by (rule pm5_do_inv)
  from shut_run [OF inv1 latch(2) none quiet]
  have run: "no_working (fold pm5_do cs s1)" "cp_block_new (pm_control (fold pm5_do cs s1))" by simp_all
  moreover have "cp_kill_latched (pm_control (fold pm5_do cs s1))"
    using killed.holds [OF inv1 latch(1) quiet] .
  moreover have "pm5_inv (fold pm5_do cs s1)" using block.inv_run [OF inv1] .
  ultimately show ?thesis
    using blocked_refuses [OF _ run(2) assms(4)] by (simp add: no_working_def)
qed

theorem pm5_emergency_holds_witness:
  "\<not> reopens (M_recover 6 '' '' ''operator'') (pm5_do (M_emergency 5 (\<lambda>_. 5) ''drill'' ''operator'') sample_filled) \<and>
   cp_kill_latched (pm_control (fold pm5_do [M_recover 6 '' '' ''operator'']
     (pm5_do (M_emergency 5 (\<lambda>_. 5) ''drill'' ''operator'') sample_filled)))"
proof -
  let ?s = "pm5_do (M_emergency 5 (\<lambda>_. 5) ''drill'' ''operator'') sample_filled"
  have no: "\<not> reopens (M_recover 6 '' '' ''operator'') s" for s
    by (simp add: reopens_def blank_def strip_def is_space_def)
  have quiet: "\<forall>pre c post. [M_recover 6 '' '' ''operator''] = pre @ c # post \<longrightarrow> \<not> reopens c (fold pm5_do pre ?s)"
    by (auto simp: Cons_eq_append_conv no)
  have unknown: "known_order (fold pm5_do [M_recover 6 '' '' ''operator''] ?s) None = None"
    by (simp add: known_order_def intake_key_def truthy_def)
  from no pm5_emergency_holds [OF sample_filled_reach refl quiet unknown, THEN conjunct1]
  show ?thesis by (rule conjI)
qed

subsection \<open>Surveillance, fills and quality\<close>

text \<open>The detector fed with a history of rejections, oldest first.\<close>

definition reject_history :: "Pm5ExecutionConfig \<Rightarrow> datetime list \<Rightarrow> SurveillanceAlert option \<times> surveillance" where
  "reject_history c hist =
     foldl (\<lambda>st now. note_reject 0 now (snd st)) (None, surveillance_init c) hist"

lemma reject_history_window:
  "sv_rejects (snd (reject_history c hist)) = note_all (seconds (burst_window_seconds c)) hist \<and>
   sv_window_seconds (snd (reject_history c hist)) = burst_window_seconds c \<and>
   sv_reject_burst (snd (reject_history c hist)) = reject_burst c"
proof (induction hist rule: rev_induct)
  case Nil
  then show ?case by (simp add: reject_history_def note_all_def surveillance_init_def)
next
  case (snoc now hist)
  then show ?case by (auto simp: reject_history_def note_all_snoc note_defs apfst_def)
qed

text \<open>
  The burst detector is exact: fed with a history of rejections whose clock never
  runs backwards, it raises its (automatic, killing) alert at the last one if and only if more
  than the configured number of rejections lie within the configured window before it. The
  engine only ever prunes the front of its queue; the reference counts the whole history.
\<close>

theorem reject_burst_exact:
  assumes "sorted (hist @ [now])" and "0 \<le> burst_window_seconds c"
  shows "(fst (reject_history c (hist @ [now])) \<noteq> None) \<longleftrightarrow>
    reject_burst c < length (filter (\<lambda>t. now - t \<le> seconds (burst_window_seconds c)) (hist @ [now]))"
proof -
  let ?w = "seconds (burst_window_seconds c)" and ?sv = "snd (reject_history c hist)"
  have "fst (reject_history c (hist @ [now])) \<noteq> None \<longleftrightarrow>
      sv_reject_burst ?sv < length (prune (seconds (sv_window_seconds ?sv)) now (sv_rejects ?sv) @ [now])"
    by (simp add: reject_history_def note_defs apfst_def)
  also have "\<dots> \<longleftrightarrow> reject_burst c < length (note_all ?w (hist @ [now]))"
    using reject_history_window [of c hist] by (simp add: note_all_snoc)
  also have "note_all ?w (hist @ [now]) = window_of ?w (hist @ [now]) now"
    using note_all_window [OF assms(1), of ?w] assms(2) by simp
  finally show ?thesis by (simp add: window_of_def)
qed

theorem reject_burst_exact_witness:
  "fst (reject_history (pm5_config_default\<lparr>reject_burst := 2\<rparr>) ([0, seconds 50, seconds 60] @ [seconds 70])) \<noteq> None"
proof -
  have "sorted ([0, seconds 50, seconds 60] @ [seconds 70])" by code_simp
  moreover have "0 \<le> burst_window_seconds (pm5_config_default\<lparr>reject_burst := 2\<rparr>)" by code_simp
  ultimately show ?thesis
    using reject_burst_exact [of "[0, seconds 50, seconds 60]" "seconds 70" "pm5_config_default\<lparr>reject_burst := 2\<rparr>"]
    by (simp add: pm5_config_default_def seconds_def)
qed

text \<open>
  A fill conserves quantity and never overfills silently: for an order whose filled
  and remaining quantities add up to the original one, a fill within the remainder (with the
  exact sums inside the 28-digit context) moves exactly its quantity from remaining to filled,
  and the order becomes filled precisely when nothing remains, in the returned record and in
  the book.
\<close>

theorem fill_moves_quantity:
  assumes "filled_quantity r + remaining_quantity r = original_quantity r"
    and "fl_quantity fill \<le> remaining_quantity r"
    and "dec28 (filled_quantity r + fl_quantity fill)"
    and "dec28 (remaining_quantity r - fl_quantity fill)"
    and "state r \<in> {ACKNOWLEDGED, PARTIALLY_FILLED}"
  shows "\<exists>r'. fst (oms_apply_fill eid r fill now m) = Inr r' \<and>
    oms_get (snd (oms_apply_fill eid r fill now m)) (order_id r) = Some r' \<and>
    filled_quantity r' = filled_quantity r + fl_quantity fill \<and>
    remaining_quantity r' = remaining_quantity r - fl_quantity fill \<and>
    (state r' = FILLED \<longleftrightarrow> remaining_quantity r = fl_quantity fill) \<and>
    (state r' = PARTIALLY_FILLED \<longleftrightarrow> remaining_quantity r \<noteq> fl_quantity fill)"
proof -
  let ?f = "filled_quantity r + fl_quantity fill" and ?rest = "remaining_quantity r - fl_quantity fill"
  have "fst (fill_quantities r fill) = ?f"
    using assms(3) by (simp add: fill_quantities_def Let_def dadd_def dec28_def)
  moreover have "fst (fill_quantities r fill) + snd (fill_quantities r fill) = original_quantity r"
    by (rule fill_conserves [OF assms(1-4)])
  ultimately have "fill_quantities r fill = (?f, ?rest)"
    using assms(1) by (cases "fill_quantities r fill") simp
  moreover have "can_transition (state r) FILLED" "can_transition (state r) PARTIALLY_FILLED"
    using assms(5) by (auto simp: can_transition_def)
  ultimately show ?thesis
    by (cases "?rest = 0") (simp_all add: oms_apply_fill_def Let_def oms_transit_Inr oms_get_transit)
qed

definition sample_order :: OrderRecord where
  "sample_order = (seed_order 0 1 (sample_bundle 0 ''k1'' 2) sample_args BUY 2 0 None [])\<lparr>state := ACKNOWLEDGED\<rparr>"

definition sample_fill :: "dec \<Rightarrow> FillEvent" where
  "sample_fill q = \<lparr>fill_id = 9, fl_order_id = 0, fl_occurred_at = 1, fl_quantity = q, fl_price = 1,
     fl_source = ''simulation'', fl_ticket = None\<rparr>"

theorem fill_moves_quantity_witness:
  "\<exists>r'. fst (oms_apply_fill 8 sample_order (sample_fill 1) 1 oms_init) = Inr r' \<and>
     filled_quantity r' = 1 \<and> remaining_quantity r' = 1 \<and> state r' = PARTIALLY_FILLED"
proof -
  have q: "filled_quantity sample_order = 0" "remaining_quantity sample_order = 2"
    "original_quantity sample_order = 2" "state sample_order = ACKNOWLEDGED" "fl_quantity (sample_fill 1) = 1"
    by (simp_all add: sample_order_def seed_order_def sample_fill_def)
  have "dec28 1" using dec28_int [of 1] by simp
  then show ?thesis
    using fill_moves_quantity [of sample_order "sample_fill 1" 8 1 oms_init] by (auto simp: q)
qed

end
