(* ===== verification/RiskInputs.thy ===== *)
theory RiskInputs
  imports RiskContracts
begin

section \<open>Inputs of the risk gate\<close>

text \<open>
  The upstream artifacts the gate reads: the trade intent of the strategy engine, the ranked
  candidate of the market-context module, the forecast, the intake request that bundles them,
  and the configuration of \<^verbatim>\<open>pm4_risk_gate/config/schema.py\<close>.

  Scores that are Python floats are held as the exact value of their shortest decimal
  rendering: the code turns each into \<^verbatim>\<open>Decimal(str(x))\<close> or compares two of them, and the
  rendering is injective and monotone, so both give what the code gets. The configuration is
  a chain of record extensions, one link per group of knobs; \<^verbatim>\<open>lot_step\<close> is kept with the
  exponent of its literal, which is what \<^verbatim>\<open>Decimal.quantize\<close> looks at.
\<close>

subsection \<open>Enumerations\<close>

datatype ConsensusDecision =
    CD_ACCEPT
  | CD_REJECT
  | CD_ABSTAIN
  | CD_GO_LONG
  | CD_GO_SHORT
  | CD_WAIT
  | CD_NO_TRADE

datatype StopType =
    ST_HARD
  | ST_STRUCTURE
  | ST_ATR
  | ST_TIME
  | ST_NONE

datatype UrgencyClass =
    UC_LOW
  | UC_NORMAL
  | UC_HIGH
  | UC_EXPIRE_SOON

datatype QualityTier =
    QT_SUPPRESS
  | QT_WATCH
  | QT_ELIGIBLE
  | QT_HIGH
  | QT_TOP

datatype QualificationStateName =
    QS_NEUTRAL
  | QS_FORMING
  | QS_QUALIFIED
  | QS_CONFIRMED
  | QS_COOLDOWN
  | QS_SUPPRESSED
  | QS_INVALIDATED
  | QS_STALE

datatype DataQualityStatus =
    DQ_OK
  | DQ_DEGRADED
  | DQ_STALE
  | DQ_INCOMPLETE
  | DQ_MALFORMED

datatype RegimeType =
    RG_TRENDING
  | RG_RANGING
  | RG_VOLATILE
  | RG_COMPRESSION
  | RG_TRANSITIONAL
  | RG_UNTRADEABLE
  | RG_NEUTRAL
  | RG_UNKNOWN

fun regime_value :: "RegimeType \<Rightarrow> string" where
  "regime_value RG_TRENDING = ''trending''"
| "regime_value RG_RANGING = ''ranging''"
| "regime_value RG_VOLATILE = ''volatile''"
| "regime_value RG_COMPRESSION = ''compression''"
| "regime_value RG_TRANSITIONAL = ''transitional''"
| "regime_value RG_UNTRADEABLE = ''untradeable''"
| "regime_value RG_NEUTRAL = ''neutral''"
| "regime_value RG_UNKNOWN = ''unknown''"

datatype SessionName =
    SN_SYDNEY
  | SN_TOKYO
  | SN_LONDON
  | SN_NEW_YORK
  | SN_OVERLAP_LONDON_NY
  | SN_OFF_SESSION
  | SN_ROLLOVER

subsection \<open>Trade intent\<close>

record ExitPlan =
  xp_stop_loss :: "dec option"
  xp_take_profit :: "dec option"
  xp_time_stop_seconds :: "int option"
  xp_notes :: "string option"
  xp_stop_type :: StopType
  xp_stop_price :: "dec option"
  xp_tp_plan :: "string option"
  xp_trail_plan :: "string option"
  xp_time_stop_plan :: "string option"

text \<open>The values of the free-form diagnostic dictionaries, as far as the code tells them apart.\<close>

datatype diag_value = DBool bool | DOther

record TradeIntent =
  ti_intent_id :: uuid
  ti_event_id :: uuid
  ti_correlation_id :: uuid
  ti_causation_id :: "uuid option"
  ti_idempotency_key :: string
  ti_occurred_at :: datetime
  ti_symbol :: string
  ti_direction :: Direction
  ti_entry_type :: EntryType
  ti_requested_volume :: "dec option"
  ti_entry_price :: "dec option"
  ti_exit_plan :: "ExitPlan option"
  ti_consensus :: ConsensusDecision
  ti_producer :: string
  ti_thesis :: "string option"
  ti_profile_id :: "string option"
  ti_version_id :: "string option"
  ti_entry_zone_low :: "dec option"
  ti_entry_zone_high :: "dec option"
  ti_confidence_score :: dec
  ti_setup_quality :: dec
  ti_consensus_score :: dec
  ti_regime_state :: "string option"
  ti_urgency_class :: UrgencyClass
  ti_signal_expiry :: "datetime option"
  ti_diagnostics :: "(string, diag_value) dict"
  ti_source_candidate_id :: "uuid option"
  ti_pm2_rank :: "int option"
  ti_created_at :: "datetime option"

text \<open>The validators of \<^verbatim>\<open>TradeIntent\<close> and the bounds of its scores.\<close>

definition trade_intent_ok :: "TradeIntent \<Rightarrow> bool" where
  "trade_intent_ok t \<longleftrightarrow>
     \<not> blank (ti_idempotency_key t) \<and> ti_requested_volume t = None \<and>
     0 \<le> ti_confidence_score t \<and> ti_confidence_score t \<le> 1 \<and>
     0 \<le> ti_setup_quality t \<and> ti_setup_quality t \<le> 1 \<and>
     0 \<le> ti_consensus_score t \<and> ti_consensus_score t \<le> 1"

subsection \<open>Ranked candidate\<close>

record CandidateContextSnapshot =
  cc_candidate_id :: uuid
  cc_event_id :: uuid
  cc_correlation_id :: uuid
  cc_symbol :: string
  cc_as_of :: datetime
  cc_timeframes :: "string list"
  cc_regime :: RegimeType
  cc_regime_confidence :: dec
  cc_sessions :: "SessionName list"
  cc_session_quality :: dec
  cc_data_quality :: DataQualityStatus
  cc_feature_family_summary :: "(string, dec) dict"
  cc_feature_set_version :: string
  cc_producer :: string

record CandidateScoreCard =
  sc_long_score :: dec
  sc_short_score :: dec
  sc_final_confluence_score :: dec
  sc_directional_edge_gap :: dec
  sc_regime_score :: dec
  sc_structure_score :: dec
  sc_momentum_score :: dec
  sc_volatility_score :: dec
  sc_session_score :: dec
  sc_liquidity_score :: dec
  sc_correlation_penalty :: dec
  sc_feature_redundancy_penalty :: dec
  sc_confidence_score :: dec
  sc_quality_tier :: QualityTier
  sc_components :: "(string, dec) dict"
  sc_vetoes :: "string list"

record CandidateQualificationState =
  cq_state :: QualificationStateName
  cq_entered_at :: datetime
  cq_persistence_count :: nat
  cq_cooldown_until :: "datetime option"
  cq_stale_after :: "datetime option"
  cq_last_transition_reason :: string

record SuppressionRecord =
  sr_symbol :: string
  sr_as_of :: datetime
  sr_suppression_reasons :: "string list"
  sr_veto_triggers :: "string list"
  sr_conflict_group :: "string option"
  sr_ghost_tracking_eligibility :: bool

record RankedCandidate =
  rk_candidate_id :: uuid
  rk_event_id :: uuid
  rk_correlation_id :: uuid
  rk_causation_id :: "uuid option"
  rk_symbol :: string
  rk_as_of :: datetime
  rk_final_rank :: nat
  rk_shortlist_rank :: "nat option"
  rk_scorecard :: CandidateScoreCard
  rk_state :: CandidateQualificationState
  rk_context :: CandidateContextSnapshot
  rk_suppression :: "SuppressionRecord option"
  rk_correlation_cluster :: "string option"
  rk_handoff_eligibility :: bool
  rk_side_bias :: string
  rk_timing_valid_until :: "datetime option"
  rk_producer :: string

subsection \<open>Forecast\<close>

record QuantileSet =
  q05 :: dec
  q25 :: dec
  q50 :: dec
  q75 :: dec
  q95 :: dec

definition quantiles_ok :: "QuantileSet \<Rightarrow> bool" where
  "quantiles_ok q \<longleftrightarrow> q05 q \<le> q25 q \<and> q25 q \<le> q50 q \<and> q50 q \<le> q75 q \<and> q75 q \<le> q95 q"

record ModelVersionInfo =
  mv_model_id :: string
  mv_version :: string
  mv_trained_at :: "datetime option"
  mv_registry_uri :: "string option"

record ForecastOutput =
  fo_forecast_id :: uuid
  fo_intent_id :: uuid
  fo_event_id :: uuid
  fo_correlation_id :: uuid
  fo_causation_id :: "uuid option"
  fo_occurred_at :: datetime
  fo_symbol :: string
  fo_horizon_bars :: nat
  fo_quantiles :: QuantileSet
  fo_model :: ModelVersionInfo
  fo_producer :: string
  fo_coverage :: "dec option"
  fo_sample_size :: "nat option"
  fo_horizon_seconds :: "nat option"
  fo_diagnostics :: "(string, diag_value) dict"

subsection \<open>Intake request\<close>

record RiskIntakeRequest =
  rq_workflow_id :: uuid
  rq_as_of :: datetime
  rq_intent :: TradeIntent
  rq_candidate :: "RankedCandidate option"
  rq_forecast :: "ForecastOutput option"
  rq_exposure :: ExposureSnapshot
  rq_mid_price :: "dec option"
  rq_spread :: "dec option"
  rq_session :: "string option"
  rq_trace :: "(string, diag_value) dict"

subsection \<open>Configuration\<close>

record pm4_account_knobs =
  pm4_operating_mode :: string
  pm4_observe_only :: bool
  account_equity :: dec
  account_currency :: string
  contract_size :: dec
  lot_step :: dec
  lot_step_exp :: int
  min_lots :: dec
  max_lots :: dec

record pm4_budget_knobs = pm4_account_knobs +
  account_risk_pct :: dec
  sleeve_risk_pct :: dec
  regime_risk_pct :: dec
  symbol_risk_pct :: dec
  cluster_risk_pct :: dec
  candidate_risk_pct :: dec
  max_per_trade_risk_pct :: dec
  max_open_risk_pct :: dec
  max_intraday_loss_pct :: dec
  max_daily_loss_pct :: dec

record pm4_ladder_knobs = pm4_budget_knobs +
  heat_warm :: dec
  heat_hot :: dec
  heat_critical :: dec
  max_effective_heat :: dec
  dd_mild :: dec
  dd_reduced :: dec
  dd_restricted :: dec
  dd_freeze :: dec
  dd_kill :: dec
  losing_streak_throttle :: nat

record pm4_concentration_knobs = pm4_ladder_knobs +
  cluster_cap :: dec
  usd_concentration_cap :: dec
  european_basket_cap :: dec
  crowding_block :: dec
  one_per_cluster :: bool

record pm4_limit_knobs = pm4_concentration_knobs +
  pm4_stale_ttl_seconds :: int
  min_forecast_samples :: nat
  wide_interval_pct :: dec
  min_liquidity_score :: dec
  min_stop_distance :: dec
  max_stop_distance :: dec
  price_collar_bps :: dec
  max_notional :: dec
  burst_limit :: nat
  pm4_burst_window_seconds :: int
  duplicate_ttl_seconds :: int
  verdict_ttl_seconds :: int

record pm4_operation_knobs = pm4_limit_knobs +
  session_allow :: "string list"
  risk_reducing_only_on_kill :: bool
  pm4_recovery_cooldown_seconds :: int
  require_manual_recovery_after_kill :: bool
  pm4_auto_rearm :: bool
  pm4_telemetry_verbose :: bool
  pm4_cancel_on_disconnect :: bool
  route_name :: string

record Pm4RiskGateConfig = pm4_operation_knobs +
  policy_id :: string
  policy_version :: string
  include_transaction_costs :: bool
  require_model :: bool
  max_spread :: dec
  max_slippage :: dec
  max_commission :: dec
  max_cost_to_edge :: dec
  min_reward_risk :: dec
  max_uncertainty_span :: dec
  market_stale_seconds :: int
  account_stale_seconds :: int
  model_stale_seconds :: int
  max_simultaneous_positions :: nat
  max_symbol_exposure_pct :: dec
  max_currency_exposure_pct :: dec
  max_correlation_pct :: dec
  max_strategy_pct :: dec
  max_profile_pct :: dec
  consecutive_loss_limit :: nat
  equity_floor :: dec
  free_margin_floor :: dec
  allowed_symbols :: "string list"

definition is_pct :: "dec \<Rightarrow> bool" where
  "is_pct x \<longleftrightarrow> 0 \<le> x \<and> x \<le> 1"

text \<open>The field constraints and validators of \<^verbatim>\<open>Pm4RiskGateConfig\<close>.\<close>

definition pm4_config_ok :: "Pm4RiskGateConfig \<Rightarrow> bool" where
  "pm4_config_ok c \<longleftrightarrow>
     pm4_operating_mode c \<in> {''shadow'', ''observe-only'', ''paper''} \<and>
     list_all (\<lambda>x. 0 < x) [account_equity c, contract_size c, lot_step c, min_lots c, max_lots c,
       min_stop_distance c, max_stop_distance c, max_notional c, max_uncertainty_span c] \<and>
     list_all is_pct [account_risk_pct c, sleeve_risk_pct c, regime_risk_pct c, symbol_risk_pct c,
       cluster_risk_pct c, candidate_risk_pct c, max_per_trade_risk_pct c, max_open_risk_pct c,
       max_intraday_loss_pct c, max_daily_loss_pct c, heat_warm c, heat_hot c, heat_critical c,
       max_effective_heat c, dd_mild c, dd_reduced c, dd_restricted c, dd_freeze c, dd_kill c,
       cluster_cap c, usd_concentration_cap c, european_basket_cap c, crowding_block c,
       wide_interval_pct c, max_cost_to_edge c, max_symbol_exposure_pct c,
       max_currency_exposure_pct c, max_correlation_pct c, max_strategy_pct c, max_profile_pct c] \<and>
     list_all (\<lambda>x. 0 \<le> x) [max_spread c, max_slippage c, max_commission c, min_reward_risk c,
       equity_floor c, free_margin_floor c] \<and>
     list_all (\<lambda>n. 1 \<le> n) [losing_streak_throttle c, min_forecast_samples c, burst_limit c,
       max_simultaneous_positions c, consecutive_loss_limit c] \<and>
     60 \<le> pm4_stale_ttl_seconds c \<and> pm4_stale_ttl_seconds c \<le> 172800 \<and>
     0 \<le> min_liquidity_score c \<and> min_liquidity_score c \<le> 100 \<and>
     list_all (\<lambda>n. 1 \<le> n) [pm4_burst_window_seconds c, duplicate_ttl_seconds c,
       pm4_recovery_cooldown_seconds c, market_stale_seconds c, account_stale_seconds c,
       model_stale_seconds c] \<and>
     60 \<le> verdict_ttl_seconds c \<and>
     \<not> pm4_auto_rearm c \<and> min_lots c \<le> max_lots c \<and>
     dd_mild c \<le> dd_reduced c \<and> dd_reduced c \<le> dd_restricted c \<and>
     dd_restricted c \<le> dd_freeze c \<and> dd_freeze c \<le> dd_kill c \<and>
     heat_warm c \<le> heat_hot c \<and> heat_hot c \<le> heat_critical c \<and> heat_critical c \<le> max_effective_heat c"

definition pm4_config_default :: Pm4RiskGateConfig where
  "pm4_config_default =
     \<lparr>pm4_operating_mode = ''shadow'', pm4_observe_only = True, account_equity = 100000,
      account_currency = ''USD'', contract_size = 100000, lot_step = 1/100, lot_step_exp = -2,
      min_lots = 1/100, max_lots = 5,
      account_risk_pct = 20/1000, sleeve_risk_pct = 10/1000, regime_risk_pct = 8/1000,
      symbol_risk_pct = 5/1000, cluster_risk_pct = 10/1000, candidate_risk_pct = 5/1000,
      max_per_trade_risk_pct = 5/1000, max_open_risk_pct = 20/1000, max_intraday_loss_pct = 15/1000,
      max_daily_loss_pct = 20/1000,
      heat_warm = 8/1000, heat_hot = 14/1000, heat_critical = 18/1000, max_effective_heat = 20/1000,
      dd_mild = 20/1000, dd_reduced = 40/1000, dd_restricted = 60/1000, dd_freeze = 80/1000,
      dd_kill = 100/1000, losing_streak_throttle = 4,
      cluster_cap = 12/1000, usd_concentration_cap = 15/1000, european_basket_cap = 12/1000,
      crowding_block = 80/100, one_per_cluster = True,
      pm4_stale_ttl_seconds = 14400, min_forecast_samples = 20, wide_interval_pct = 8/1000,
      min_liquidity_score = 40, min_stop_distance = 1/10000, max_stop_distance = 5/100,
      price_collar_bps = 50, max_notional = 500000, burst_limit = 8, pm4_burst_window_seconds = 60,
      duplicate_ttl_seconds = 86400, verdict_ttl_seconds = 3600,
      session_allow = [''london'', ''new_york'', ''overlap'', ''asia''],
      risk_reducing_only_on_kill = True, pm4_recovery_cooldown_seconds = 300,
      require_manual_recovery_after_kill = True, pm4_auto_rearm = False,
      pm4_telemetry_verbose = True, pm4_cancel_on_disconnect = True, route_name = ''pm5_pending'',
      policy_id = ''pm4-capital'', policy_version = ''1.0.0'', include_transaction_costs = True,
      require_model = True, max_spread = 40/100000, max_slippage = 20/100000, max_commission = 10,
      max_cost_to_edge = 50/100, min_reward_risk = 80/100, max_uncertainty_span = 20/1000,
      market_stale_seconds = 30, account_stale_seconds = 30, model_stale_seconds = 300,
      max_simultaneous_positions = 8, max_symbol_exposure_pct = 3/100,
      max_currency_exposure_pct = 5/100, max_correlation_pct = 4/100, max_strategy_pct = 50/100,
      max_profile_pct = 50/100, consecutive_loss_limit = 5, equity_floor = 1000,
      free_margin_floor = 500,
      allowed_symbols = [''EURUSD'', ''GBPUSD'', ''USDJPY'', ''AUDUSD'']\<rparr>"

lemma pm4_config_default_ok: "pm4_config_ok pm4_config_default"
  by (simp add: pm4_config_ok_def pm4_config_default_def is_pct_def)

end
