(* ===== verification/RiskLadders.thy ===== *)
theory RiskLadders
  imports RiskInputs
begin

section \<open>Kill switch, drawdown ladder, heat and budgets\<close>

text \<open>
  The engines of \<^verbatim>\<open>pm4_risk_gate\<close> that keep or derive control state:
  \<^verbatim>\<open>kill/\<close>, \<^verbatim>\<open>drawdown/\<close>, \<^verbatim>\<open>heat/\<close>, \<^verbatim>\<open>budgeting/\<close> and the degraded modes of
  \<^verbatim>\<open>health/degraded_modes.py\<close>. The lemmas show that the latch of the kill switch is released
  by a reasoned recovery after the cooldown only, that a deeper drawdown never loosens the
  throttle, and that an allocation never promises more than any level of the budget tree has
  left.
\<close>

subsection \<open>Policies\<close>

fun THROTTLE_FACTOR :: "DrawdownStage \<Rightarrow> dec" where
  "THROTTLE_FACTOR DD_NORMAL = 1"
| "THROTTLE_FACTOR DD_MILD_THROTTLE = 75/100"
| "THROTTLE_FACTOR DD_REDUCED_RISK = 50/100"
| "THROTTLE_FACTOR DD_RESTRICTED_RISK = 25/100"
| "THROTTLE_FACTOR DD_FREEZE = 0"
| "THROTTLE_FACTOR DD_KILL_PROTECTED = 0"
| "THROTTLE_FACTOR DD_RECOVERY = 35/100"

definition MODE_BLOCKS_NEW_RISK :: "RiskMode list" where
  "MODE_BLOCKS_NEW_RISK =
     [MODE_FREEZE, MODE_CLOSE_ONLY, MODE_NO_NEW_RISK, MODE_KILL_PROTECTED, MODE_MANUAL_REVIEW]"

definition EUROPEAN_MAJORS :: "string list" where
  "EUROPEAN_MAJORS = [''EURUSD'', ''GBPUSD'', ''EURGBP'', ''EURJPY'', ''GBPJPY'']"

subsection \<open>Kill switch\<close>

definition kill_matches ::
  "KillSwitchScope \<Rightarrow> string option \<Rightarrow> string \<Rightarrow> string option \<Rightarrow> string option \<Rightarrow> bool" where
  "kill_matches scope scope_id sy sleeve cluster =
     (case scope of
        KS_ACCOUNT \<Rightarrow> True
      | KS_SYMBOL \<Rightarrow> upper (or_else scope_id []) = upper sy
      | KS_STRATEGY \<Rightarrow> truthy sleeve \<and> scope_id = sleeve
      | KS_CLUSTER \<Rightarrow> truthy cluster \<and> scope_id = cluster)"

definition kill_init :: "Pm4RiskGateConfig \<Rightarrow> KillSwitchState" where
  "kill_init c =
     \<lparr>ks_status = KILL_ARMED, ks_scope = KS_ACCOUNT, ks_scope_id = None, trigger_reason = None,
      cancel_orders_status = ''placeholder_pending_pm5'', new_order_block_status = False,
      risk_reducing_order_policy = risk_reducing_only_on_kill c, recovery_eligibility = REC_NONE,
      ks_tripped_at = None, ks_actor = None\<rparr>"

definition kill_trip ::
  "Pm4RiskGateConfig \<Rightarrow> string \<Rightarrow> datetime \<Rightarrow> KillSwitchScope \<Rightarrow> string option \<Rightarrow> string \<Rightarrow> KillSwitchState" where
  "kill_trip c reason now scope scope_id actor =
     \<lparr>ks_status = KILL_LATCHED, ks_scope = scope, ks_scope_id = scope_id,
      trigger_reason = Some reason, cancel_orders_status = ''placeholder_pending_pm5'',
      new_order_block_status = True, risk_reducing_order_policy = risk_reducing_only_on_kill c,
      recovery_eligibility = REC_INELIGIBLE, ks_tripped_at = Some now, ks_actor = Some actor\<rparr>"

definition kill_latched :: "KillSwitchState \<Rightarrow> bool" where
  "kill_latched k \<longleftrightarrow> ks_status k \<in> {KILL_TRIPPED, KILL_LATCHED}"

definition kill_blocks :: "KillSwitchState \<Rightarrow> string \<Rightarrow> string option \<Rightarrow> string option \<Rightarrow> bool" where
  "kill_blocks k sy sleeve cluster \<longleftrightarrow>
     (if ks_status k \<notin> {KILL_TRIPPED, KILL_LATCHED} then False
      else kill_matches (ks_scope k) (ks_scope_id k) sy sleeve cluster)"

definition may_recover ::
  "KillSwitchStatus \<Rightarrow> Pm4RiskGateConfig \<Rightarrow> string \<Rightarrow> string \<Rightarrow> datetime option \<Rightarrow> datetime \<Rightarrow> bool \<times> RecoveryStage" where
  "may_recover status c reason actor tripped_at now =
     (if status \<notin> {KILL_TRIPPED, KILL_LATCHED} then (False, REC_NONE)
      else if pm4_auto_rearm c then (False, REC_INELIGIBLE)
      else if blank reason \<or> blank actor then (False, REC_INELIGIBLE)
      else case tripped_at of
             Some t \<Rightarrow>
               if require_manual_recovery_after_kill c
               then if now < t + seconds (pm4_recovery_cooldown_seconds c) then (False, REC_COOLDOWN)
                    else (True, REC_MANUAL_REVIEW)
               else (True, REC_STAGED)
           | None \<Rightarrow> (True, REC_STAGED))"

definition kill_recover ::
  "Pm4RiskGateConfig \<Rightarrow> string \<Rightarrow> string \<Rightarrow> datetime \<Rightarrow> KillSwitchState \<Rightarrow> KillSwitchState" where
  "kill_recover c reason actor now k =
     (case may_recover (ks_status k) c reason actor (ks_tripped_at k) now of
        (ok, stage) \<Rightarrow>
          if \<not> ok then k\<lparr>recovery_eligibility := stage\<rparr>
          else \<lparr>ks_status = KILL_ARMED, ks_scope = KS_ACCOUNT, ks_scope_id = None,
                trigger_reason = None, cancel_orders_status = ''placeholder_pending_pm5'',
                new_order_block_status = False,
                risk_reducing_order_policy = risk_reducing_only_on_kill c,
                recovery_eligibility = REC_CLEARED, ks_tripped_at = None, ks_actor = Some actor\<rparr>)"

text \<open>What a recovery that releases the latch needed.\<close>

lemma kill_recover_releases:
  assumes "kill_latched k" and "\<not> kill_latched (kill_recover c reason actor now k)"
  shows "\<not> pm4_auto_rearm c \<and> \<not> blank reason \<and> \<not> blank actor \<and>
    (\<forall>t. require_manual_recovery_after_kill c \<longrightarrow> ks_tripped_at k = Some t \<longrightarrow>
       t + seconds (pm4_recovery_cooldown_seconds c) \<le> now)"
  using assms
  by (auto simp: kill_recover_def may_recover_def kill_latched_def split: if_splits option.splits)

lemma kill_trip_latched [simp]: "kill_latched (kill_trip c re now sc sid ac)"
  by (simp add: kill_latched_def kill_trip_def)

lemma kill_trip_blocks_account [simp]: "kill_blocks (kill_trip c re now KS_ACCOUNT sid ac) sy sl cl"
  by (simp add: kill_blocks_def kill_trip_def kill_matches_def)

lemma kill_init_armed [simp]: "\<not> kill_latched (kill_init c)" "\<not> kill_blocks (kill_init c) sy sl cl"
  by (simp_all add: kill_latched_def kill_blocks_def kill_init_def)

lemma kill_blocks_latched: "kill_blocks k sy sl cl \<Longrightarrow> kill_latched k"
  by (simp add: kill_blocks_def kill_latched_def split: if_splits)

subsection \<open>Drawdown ladder\<close>

definition peak_to_trough :: "ExposureSnapshot \<Rightarrow> dec" where
  "peak_to_trough x =
     (let peak = (if ex_peak_equity x > 0 then ex_peak_equity x else ex_equity x) in
      if peak \<le> 0 then 0
      else let trough = dadd (ex_equity x) (unrealized_pnl x); dd = ddiv (dsub peak trough) peak
           in if dd > 0 then dd else 0)"

definition stage_for :: "dec \<Rightarrow> Pm4RiskGateConfig \<Rightarrow> nat \<Rightarrow> DrawdownStage" where
  "stage_for drawdown c losing_streak =
     (if drawdown \<ge> dd_kill c then DD_KILL_PROTECTED
      else if drawdown \<ge> dd_freeze c then DD_FREEZE
      else if drawdown \<ge> dd_restricted c then DD_RESTRICTED_RISK
      else if drawdown \<ge> dd_reduced c then DD_REDUCED_RISK
      else if drawdown \<ge> dd_mild c \<or> losing_streak \<ge> losing_streak_throttle c then DD_MILD_THROTTLE
      else DD_NORMAL)"

definition drawdown_evaluate ::
  "Pm4RiskGateConfig \<Rightarrow> DrawdownStage option \<Rightarrow> ExposureSnapshot \<Rightarrow> DrawdownStateCard" where
  "drawdown_evaluate c forced x =
     (let dd = peak_to_trough x;
          current = (if ex_equity x > 0
                     then max dd (ddiv (dabs (min (realized_pnl x) 0)) (ex_equity x)) else dd);
          intraday = (if ex_equity x > 0 \<and> intraday_pnl x < 0
                      then ddiv (dabs (intraday_pnl x)) (ex_equity x) else 0);
          stage = (case forced of Some s \<Rightarrow> s
                   | None \<Rightarrow> stage_for (max current intraday) c (ex_losing_streak x))
      in \<lparr>current_drawdown = current, peak_to_trough_drawdown = dd, intraday_loss = intraday,
          ds_losing_streak = ex_losing_streak x, throttle_stage = stage, protection_stage = stage,
          freeze_state = (stage \<in> {DD_FREEZE, DD_KILL_PROTECTED}),
          ds_throttle_factor = THROTTLE_FACTOR stage\<rparr>)"

definition recovery_stage ::
  "DrawdownStage \<Rightarrow> Pm4RiskGateConfig \<Rightarrow> bool \<Rightarrow> string \<Rightarrow> RecoveryStage" where
  "recovery_stage current c explicit reason =
     (if current = DD_KILL_PROTECTED then
        (if \<not> require_manual_recovery_after_kill c then REC_INELIGIBLE
         else if \<not> explicit \<or> blank reason then REC_INELIGIBLE else REC_MANUAL_REVIEW)
      else if current = DD_FREEZE then (if explicit then REC_COOLDOWN else REC_INELIGIBLE)
      else if current \<in> {DD_RESTRICTED_RISK, DD_REDUCED_RISK} then REC_STAGED
      else REC_CLEARED)"

text \<open>The severity of a stage along the ladder.\<close>

fun stage_rank :: "DrawdownStage \<Rightarrow> nat" where
  "stage_rank DD_NORMAL = 0"
| "stage_rank DD_MILD_THROTTLE = 1"
| "stage_rank DD_RECOVERY = 2"
| "stage_rank DD_REDUCED_RISK = 2"
| "stage_rank DD_RESTRICTED_RISK = 3"
| "stage_rank DD_FREEZE = 4"
| "stage_rank DD_KILL_PROTECTED = 5"

lemma stage_for_mono:
  assumes "dd_mild c \<le> dd_reduced c" "dd_reduced c \<le> dd_restricted c"
    and "dd_restricted c \<le> dd_freeze c" "dd_freeze c \<le> dd_kill c"
    and "d \<le> d'" and "n \<le> n'"
  shows "stage_rank (stage_for d c n) \<le> stage_rank (stage_for d' c n')"
  using assms by (auto simp: stage_for_def)

lemma throttle_antimono:
  assumes "stage_rank (stage_for d c n) \<le> stage_rank (stage_for d' c n')"
  shows "THROTTLE_FACTOR (stage_for d' c n') \<le> THROTTLE_FACTOR (stage_for d c n)"
  using assms by (auto simp: stage_for_def split: if_splits)

lemma throttle_bounds: "0 \<le> THROTTLE_FACTOR s \<and> THROTTLE_FACTOR s \<le> 1"
  by (cases s) simp_all

lemma peak_to_trough_nonneg: "0 \<le> peak_to_trough x"
  by (simp add: peak_to_trough_def Let_def)

subsection \<open>Portfolio heat\<close>

text \<open>\<^verbatim>\<open>residual\<close> of \<^verbatim>\<open>heat/residual_heat.py\<close> and of \<^verbatim>\<open>budgeting/headroom.py\<close>.\<close>

definition residual :: "dec \<Rightarrow> dec \<Rightarrow> dec" where
  "residual limit used = (let left = dsub limit used in if left > 0 then left else 0)"

definition effective_from_raw :: "dec \<Rightarrow> dec \<Rightarrow> dec" where
  "effective_from_raw raw crowding = dmul raw (dadd 1 crowding)"

definition directional_heat :: "ExposureSnapshot \<Rightarrow> dec \<Rightarrow> dec" where
  "directional_heat x equity = (if equity \<le> 0 then 0 else ddiv (dabs (directional_net x)) equity)"

definition heat_regime_for :: "Pm4RiskGateConfig \<Rightarrow> bool \<Rightarrow> dec \<Rightarrow> dec \<Rightarrow> HeatRegime" where
  "heat_regime_for c stressed effective stressed_h =
     (if stressed_h \<ge> heat_critical c \<or> effective \<ge> max_effective_heat c then HEAT_CRITICAL
      else if stressed then HEAT_STRESSED
      else if effective \<ge> heat_hot c then HEAT_HOT
      else if effective \<ge> heat_warm c then HEAT_WARM
      else HEAT_COOL)"

definition heat_evaluate ::
  "Pm4RiskGateConfig \<Rightarrow> ExposureSnapshot \<Rightarrow> ConcentrationExposureCard \<Rightarrow> dec \<Rightarrow> dec \<Rightarrow> bool \<Rightarrow> PortfolioHeatCard" where
  "heat_evaluate c x conc proposed equity stressed =
     (let raw_open = (if heat_r x > 0 then heat_r x
                      else if equity > 0 then ddiv (gross_notional x) equity else 0);
          incremental = (if equity > 0 then ddiv proposed equity else 0);
          raw = dadd raw_open incremental;
          effective = effective_from_raw raw (crowding_penalty conc);
          cluster = (if cluster_exposure conc = [] then 0
                     else Max (set (dict_values (cluster_exposure conc))));
          directional = dadd (directional_heat x equity) incremental;
          stressed_h = (if stressed then dmul effective (125/100) else effective)
      in \<lparr>raw_heat = raw, effective_heat = effective, cluster_heat = cluster,
          ph_directional_heat = directional, session_heat = raw,
          residual_heat_headroom = residual (max_effective_heat c) effective,
          heat_regime = heat_regime_for c stressed effective stressed_h,
          stressed_heat = stressed_h, proposed_incremental_heat = incremental\<rparr>)"

lemma residual_nonneg: "0 \<le> residual l u"
  by (simp add: residual_def Let_def)

lemma residual_pos_iff: "0 < residual l u \<longleftrightarrow> u < l"
  by (simp add: residual_def Let_def dsub_def)

lemma residual_eq: "u \<le> l \<Longrightarrow> residual l u = dsub l u"
  by (auto simp: residual_def Let_def dsub_def)

text \<open>Heat headroom is left exactly when the effective heat is under its maximum.\<close>

lemma heat_headroom_iff:
  "0 < residual_heat_headroom (heat_evaluate c x conc p e st) \<longleftrightarrow>
   effective_heat (heat_evaluate c x conc p e st) < max_effective_heat c"
  by (simp add: heat_evaluate_def Let_def residual_pos_iff)

subsection \<open>Budget tree\<close>

definition alloc_used :: "(string, dec) dict \<Rightarrow> string \<Rightarrow> dec" where
  "alloc_used d key = (case dict_get d key of None \<Rightarrow> 0 | Some v \<Rightarrow> v)"

definition alloc_consume :: "string \<Rightarrow> dec \<Rightarrow> (string, dec) dict \<Rightarrow> (string, dec) dict" where
  "alloc_consume key amount d = dict_put key (dadd (alloc_used d key) amount) d"

definition sleeve_key :: "RiskIntakeRequest \<Rightarrow> string" where
  "sleeve_key rq = or_else (ti_profile_id (rq_intent rq)) ''default_sleeve''"

definition regime_key :: "RiskIntakeRequest \<Rightarrow> string" where
  "regime_key rq =
     (if truthy (ti_regime_state (rq_intent rq)) then the (ti_regime_state (rq_intent rq))
      else case rq_candidate rq of Some k \<Rightarrow> regime_value (cc_regime (rk_context k)) | None \<Rightarrow> ''unknown'')"

definition cluster_key :: "RiskIntakeRequest \<Rightarrow> string" where
  "cluster_key rq =
     (case rq_candidate rq of
        Some k \<Rightarrow> or_else (rk_correlation_cluster k) (ti_symbol (rq_intent rq))
      | None \<Rightarrow> ti_symbol (rq_intent rq))"

text \<open>The levels of the tree: name, limit and what is used of it.\<close>

definition level_limit :: "dec \<Rightarrow> dec \<Rightarrow> dec \<Rightarrow> dec" where
  "level_limit equity pct throttle = dmul (dmul equity pct) throttle"

definition alloc_levels ::
  "Pm4RiskGateConfig \<Rightarrow> (string, dec) dict \<Rightarrow> RiskIntakeRequest \<Rightarrow> dec \<Rightarrow> dec \<Rightarrow> (string \<times> dec \<times> dec) list" where
  "alloc_levels c d rq equity throttle =
     [(''account'', level_limit equity (account_risk_pct c) throttle, alloc_used d ''account''),
      (''sleeve:'' @ sleeve_key rq, level_limit equity (sleeve_risk_pct c) throttle,
        alloc_used d (''sleeve:'' @ sleeve_key rq)),
      (''regime:'' @ regime_key rq, level_limit equity (regime_risk_pct c) throttle,
        alloc_used d (''regime:'' @ regime_key rq)),
      (''cluster:'' @ cluster_key rq, level_limit equity (cluster_risk_pct c) throttle,
        alloc_used d (''cluster:'' @ cluster_key rq)),
      (''symbol:'' @ ti_symbol (rq_intent rq), level_limit equity (symbol_risk_pct c) throttle,
        alloc_used d (''symbol:'' @ ti_symbol (rq_intent rq))),
      (''candidate:'' @ uuid_str (ti_intent_id (rq_intent rq)),
        level_limit equity (candidate_risk_pct c) throttle, 0)]"

definition alloc_headroom :: "(string \<times> dec \<times> dec) list \<Rightarrow> dec" where
  "alloc_headroom levels =
     (if levels = [] then 0 else Min (set (map (\<lambda>(_, limit, used). residual limit used) levels)))"

definition alloc_allocate ::
  "Pm4RiskGateConfig \<Rightarrow> (string, dec) dict \<Rightarrow> RiskIntakeRequest \<Rightarrow> dec \<Rightarrow> dec \<Rightarrow> DrawdownStateCard \<Rightarrow> RiskBudgetCard" where
  "alloc_allocate c d rq equity proposed dd =
     (let throttle = ds_throttle_factor dd; levels = alloc_levels c d rq equity throttle;
          head = alloc_headroom levels
      in \<lparr>account_budget = level_limit equity (account_risk_pct c) throttle,
          sleeve_budget = level_limit equity (sleeve_risk_pct c) throttle,
          regime_budget = level_limit equity (regime_risk_pct c) throttle,
          cluster_budget = level_limit equity (cluster_risk_pct c) throttle,
          symbol_budget = level_limit equity (symbol_risk_pct c) throttle,
          candidate_budget = level_limit equity (candidate_risk_pct c) throttle,
          residual_headroom = head,
          consumed_headroom = max 0 (if proposed \<le> head then proposed else head),
          bc_proposed_risk = proposed, bc_throttle_factor = throttle,
          bc_tree = map (\<lambda>(name, limit, _). (name, limit)) levels\<rparr>)"

text \<open>The headroom is the least residual of any level.\<close>

lemma alloc_headroom_le:
  "(name, limit, used) \<in> set levels \<Longrightarrow> alloc_headroom levels \<le> residual limit used"
  by (auto simp: alloc_headroom_def intro!: Min_le intro: rev_image_eqI)

lemma alloc_headroom_pos:
  "0 < alloc_headroom levels \<Longrightarrow> (name, limit, used) \<in> set levels \<Longrightarrow> used < limit"
  using alloc_headroom_le [of name limit used levels] residual_pos_iff [of limit used] by linarith

lemma alloc_used_consume:
  "alloc_used (alloc_consume key a d) key' =
     (if key' = key then dadd (alloc_used d key) a else alloc_used d key')"
  by (simp add: alloc_used_def alloc_consume_def dict_simps)

subsection \<open>Modes\<close>

definition mode_from :: "DrawdownStage \<Rightarrow> bool \<Rightarrow> RiskMode option \<Rightarrow> RiskMode" where
  "mode_from drawdown kill_blk forced =
     (case forced of
        Some m \<Rightarrow> m
      | None \<Rightarrow>
          if kill_blk then MODE_KILL_PROTECTED
          else case drawdown of
                 DD_KILL_PROTECTED \<Rightarrow> MODE_KILL_PROTECTED
               | DD_FREEZE \<Rightarrow> MODE_FREEZE
               | DD_RESTRICTED_RISK \<Rightarrow> MODE_PROTECTION
               | DD_REDUCED_RISK \<Rightarrow> MODE_THROTTLE
               | DD_MILD_THROTTLE \<Rightarrow> MODE_THROTTLE
               | DD_RECOVERY \<Rightarrow> MODE_RECOVERY
               | DD_NORMAL \<Rightarrow> MODE_NORMAL)"

end
