(* ===== verification/RiskChecks.thy ===== *)
theory RiskChecks
  imports RiskLadders "HOL-Library.Char_ord" "HOL-Library.List_Lexorder"
begin

section \<open>Intake checks, concentration, sizing, controls and admission\<close>

text \<open>
  The per-request engines of \<^verbatim>\<open>pm4_risk_gate\<close>: \<^verbatim>\<open>intake/validators.py\<close>,
  \<^verbatim>\<open>concentration/\<close>, \<^verbatim>\<open>sizing/\<close>, \<^verbatim>\<open>controls/\<close>, \<^verbatim>\<open>intake/admission.py\<close> and
  \<^verbatim>\<open>publication/handoff_gateway.py\<close>. Decimal operations that can raise are values of the
  sum type. The free-text rationale of a sizing decision is left out.
\<close>

subsection \<open>Prices and distances\<close>

definition entry_mid :: "TradeIntent \<Rightarrow> dec option" where
  "entry_mid t =
     (case (ti_entry_zone_low t, ti_entry_zone_high t) of
        (Some lo, Some hi) \<Rightarrow> Some (ddiv (dadd lo hi) 2) | _ \<Rightarrow> None)"

definition reference_price :: "RiskIntakeRequest \<Rightarrow> dec option" where
  "reference_price rq =
     (case ti_entry_price (rq_intent rq) of
        Some p \<Rightarrow> Some p
      | None \<Rightarrow> (case entry_mid (rq_intent rq) of Some m \<Rightarrow> Some m | None \<Rightarrow> rq_mid_price rq))"

definition stop_distance :: "RiskIntakeRequest \<Rightarrow> dec option" where
  "stop_distance rq =
     (case (ti_exit_plan (rq_intent rq), reference_price rq) of
        (Some plan, Some entry) \<Rightarrow>
          (case (case xp_stop_price plan of Some p \<Rightarrow> Some p | None \<Rightarrow> xp_stop_loss plan) of
             None \<Rightarrow> None
           | Some stop \<Rightarrow> let d = dabs (dsub entry stop) in if d \<le> 0 then None else Some d)
      | _ \<Rightarrow> None)"

definition interval_width :: "RiskIntakeRequest \<Rightarrow> dec option" where
  "interval_width rq =
     map_option (\<lambda>f. dsub (q95 (fo_quantiles f)) (q05 (fo_quantiles f))) (rq_forecast rq)"

lemma stop_distance_pos: "stop_distance rq = Some d \<Longrightarrow> 0 < d"
  by (auto simp: stop_distance_def Let_def split: option.splits if_splits)

subsection \<open>Intake validation\<close>

definition stale :: "Pm4RiskGateConfig \<Rightarrow> datetime \<Rightarrow> datetime \<Rightarrow> bool" where
  "stale c now t \<longleftrightarrow> now - t > seconds (pm4_stale_ttl_seconds c)"

definition intent_reasons :: "Pm4RiskGateConfig \<Rightarrow> datetime \<Rightarrow> TradeIntent \<Rightarrow> RiskRejectionReason list" where
  "intent_reasons c now t =
     reason_if (ti_occurred_at t > now) RJ_LOOKAHEAD @
     reason_if (stale c now (ti_occurred_at t)) RJ_STALE_DATA @
     reason_if (case ti_signal_expiry t of None \<Rightarrow> False | Some e \<Rightarrow> now > e) RJ_STALE_DATA @
     reason_if (ti_direction t = FLAT) RJ_INVALID_INTENT @
     reason_if (blank (ti_symbol t)) RJ_INVALID_INTENT"

definition candidate_reasons ::
  "Pm4RiskGateConfig \<Rightarrow> datetime \<Rightarrow> TradeIntent \<Rightarrow> RankedCandidate option \<Rightarrow> RiskRejectionReason list" where
  "candidate_reasons c now t cand =
     (case cand of
        None \<Rightarrow> [RJ_MISSING_CANDIDATE]
      | Some k \<Rightarrow>
          reason_if (rk_as_of k > now) RJ_LOOKAHEAD @
          reason_if (stale c now (rk_as_of k)) RJ_STALE_DATA @
          reason_if (rk_symbol k \<noteq> ti_symbol t) RJ_SYMBOL_MISMATCH @
          reason_if (case ti_source_candidate_id t of None \<Rightarrow> False | Some i \<Rightarrow> i \<noteq> rk_candidate_id k)
            RJ_MALFORMED @
          reason_if (\<not> rk_handoff_eligibility k) RJ_HANDOFF_INELIGIBLE @
          reason_if (cq_state (rk_state k) \<in> {QS_STALE, QS_SUPPRESSED, QS_INVALIDATED, QS_COOLDOWN})
            RJ_HANDOFF_INELIGIBLE @
          reason_if (cc_data_quality (rk_context k) \<in> {DQ_STALE, DQ_MALFORMED, DQ_INCOMPLETE})
            RJ_STALE_DATA @
          reason_if (case rk_timing_valid_until k of None \<Rightarrow> False | Some u \<Rightarrow> now > u) RJ_STALE_DATA)"

definition forecast_reasons ::
  "Pm4RiskGateConfig \<Rightarrow> datetime \<Rightarrow> TradeIntent \<Rightarrow> ForecastOutput option \<Rightarrow> RiskRejectionReason list" where
  "forecast_reasons c now t fc =
     (case fc of
        None \<Rightarrow> [RJ_MISSING_FORECAST]
      | Some f \<Rightarrow>
          reason_if (fo_occurred_at f > now) RJ_LOOKAHEAD @
          reason_if (stale c now (fo_occurred_at f)) RJ_STALE_DATA @
          reason_if (fo_symbol f \<noteq> ti_symbol t) RJ_SYMBOL_MISMATCH @
          reason_if (fo_intent_id f \<noteq> ti_intent_id t) RJ_MALFORMED @
          (let dg = fo_diagnostics f in
           if dg = [] then [RJ_FORECAST_INVALID]
           else reason_if (dict_get dg ''lookahead'' = Some (DBool True)) RJ_LOOKAHEAD @
                reason_if (dict_get dg ''forming_bar'' = Some (DBool True)) RJ_FORECAST_INVALID @
                reason_if (dict_get dg ''valid'' = Some (DBool False)) RJ_FORECAST_INVALID) @
          reason_if (case fo_sample_size f of None \<Rightarrow> True | Some n \<Rightarrow> n < min_forecast_samples c)
            RJ_FORECAST_INVALID)"

definition stop_reasons :: "Pm4RiskGateConfig \<Rightarrow> RiskIntakeRequest \<Rightarrow> RiskRejectionReason list" where
  "stop_reasons c rq =
     (case stop_distance rq of
        None \<Rightarrow> [RJ_STOP_MISSING]
      | Some d \<Rightarrow> reason_if (d < min_stop_distance c \<or> d > max_stop_distance c) RJ_INVALID_INTENT)"

definition risk_validate_intake ::
  "RiskIntakeRequest \<Rightarrow> Pm4RiskGateConfig \<Rightarrow> datetime \<Rightarrow> RiskRejectionReason list" where
  "risk_validate_intake rq c now =
     fromkeys (reason_if (rq_as_of rq > now) RJ_LOOKAHEAD @
       intent_reasons c now (rq_intent rq) @
       candidate_reasons c now (rq_intent rq) (rq_candidate rq) @
       forecast_reasons c now (rq_intent rq) (rq_forecast rq) @ stop_reasons c rq)"

text \<open>What an empty list of reasons guarantees.\<close>

definition fresh_at :: "Pm4RiskGateConfig \<Rightarrow> datetime \<Rightarrow> datetime \<Rightarrow> bool" where
  "fresh_at c now t \<longleftrightarrow> t \<le> now \<and> now - t \<le> seconds (pm4_stale_ttl_seconds c)"

lemma risk_validate_intake_NilD:
  assumes "risk_validate_intake rq c now = []"
  shows "\<exists>k f d. rq_candidate rq = Some k \<and> rq_forecast rq = Some f \<and> stop_distance rq = Some d \<and>
    fresh_at c now (ti_occurred_at (rq_intent rq)) \<and> fresh_at c now (rk_as_of k) \<and>
    fresh_at c now (fo_occurred_at f) \<and>
    ti_direction (rq_intent rq) \<noteq> FLAT \<and> rk_symbol k = ti_symbol (rq_intent rq) \<and>
    fo_symbol f = ti_symbol (rq_intent rq) \<and> fo_intent_id f = ti_intent_id (rq_intent rq) \<and>
    rk_handoff_eligibility k \<and> min_stop_distance c \<le> d \<and> d \<le> max_stop_distance c"
proof -
  from assms have parts: "intent_reasons c now (rq_intent rq) = []"
    "candidate_reasons c now (rq_intent rq) (rq_candidate rq) = []"
    "forecast_reasons c now (rq_intent rq) (rq_forecast rq) = []" "stop_reasons c rq = []"
    by (simp_all add: risk_validate_intake_def)
  from parts(2) obtain k where k: "rq_candidate rq = Some k"
    by (cases "rq_candidate rq") (auto simp: candidate_reasons_def)
  from parts(3) obtain f where f: "rq_forecast rq = Some f"
    by (cases "rq_forecast rq") (auto simp: forecast_reasons_def)
  from parts(4) obtain d where d: "stop_distance rq = Some d"
    by (cases "stop_distance rq") (auto simp: stop_reasons_def)
  show ?thesis
    using parts unfolding k f d
    by (auto simp: intent_reasons_def candidate_reasons_def forecast_reasons_def stop_reasons_def
        stale_def fresh_at_def not_less d)
qed

subsection \<open>Currency overlap\<close>

definition pair_text :: "string \<Rightarrow> string" where
  "pair_text sy = drop_slash (upper (strip sy))"

definition split_pair :: "string \<Rightarrow> string \<times> string" where
  "split_pair sy =
     (let t = pair_text sy in if length t \<ge> 6 then (take 3 t, take 3 (drop 3 t)) else (t, []))"

definition currencies :: "string \<Rightarrow> string list" where
  "currencies sy = (let (base, quo) = split_pair sy in remdups (filter (\<lambda>x. x \<noteq> []) [base, quo]))"

definition cluster_id :: "string \<Rightarrow> string" where
  "cluster_id sy =
     (let t = pair_text sy; (base, quo) = split_pair t in
      if t \<in> set EUROPEAN_MAJORS then ''european_majors''
      else if ''USD'' \<in> {base, quo} then
        ''usd_block:'' @ (if base \<noteq> ''USD'' then base else if quo \<noteq> ''USD'' then quo else ''USD'')
      else base @ ''|'' @ quo)"

definition usd_weight :: "string \<Rightarrow> dec" where
  "usd_weight sy = (if ''USD'' \<in> set (currencies sy) then 1 else 0)"

definition european_weight :: "string \<Rightarrow> dec" where
  "european_weight sy = (if pair_text sy \<in> set EUROPEAN_MAJORS then 1 else 0)"

definition request_cluster :: "RiskIntakeRequest \<Rightarrow> string" where
  "request_cluster rq =
     (case rq_candidate rq of
        Some k \<Rightarrow> or_else (rk_correlation_cluster k) (cluster_id (ti_symbol (rq_intent rq)))
      | None \<Rightarrow> cluster_id (ti_symbol (rq_intent rq)))"

definition overlapping :: "string \<Rightarrow> string list \<Rightarrow> string list" where
  "overlapping sy open_symbols =
     filter (\<lambda>s. list_ex (\<lambda>x. x \<in> set (currencies sy)) (currencies s)) open_symbols"

definition base_penalty :: "RiskIntakeRequest \<Rightarrow> string list \<Rightarrow> dec" where
  "base_penalty rq overlap =
     (let p = (if overlap \<noteq> [] then min (60/100) (dmul (15/100) (of_nat (length overlap))) else 0)
      in case rq_candidate rq of
           None \<Rightarrow> p
         | Some k \<Rightarrow> max p (ddiv (sc_correlation_penalty (rk_scorecard k)) 100))"

definition concentration_evaluate ::
  "Pm4RiskGateConfig \<Rightarrow> RiskIntakeRequest \<Rightarrow> ExposureSnapshot \<Rightarrow> dec \<Rightarrow> dec \<Rightarrow> ConcentrationExposureCard" where
  "concentration_evaluate c rq x proposed equity =
     (let sy = ti_symbol (rq_intent rq); cid = request_cluster rq; open_symbols = ex_symbols x;
          overlap = overlapping sy open_symbols;
          incremental = (if equity > 0 then ddiv proposed equity else 0);
          existing = (if cid \<in> set (ex_clusters x) \<and> equity > 0 then heat_r x else 0);
          cluster = dadd existing incremental;
          usd_conc = dmul (usd_weight sy) cluster; euro_conc = dmul (european_weight sy) cluster;
          crowded = (one_per_cluster c \<and> list_ex (\<lambda>s. cluster_id s = cid \<or> s = sy) open_symbols);
          p = base_penalty rq overlap;
          (st, blocked, penalty) =
            (if crowded \<and> one_per_cluster c then (CONC_BLOCKED, True, max p 1)
             else if cluster \<ge> cluster_cap c \<or> usd_conc \<ge> usd_concentration_cap c
             then (CONC_STRESSED, False, max p (85/100))
             else if p \<ge> crowding_block c then (CONC_CROWDED, False, p)
             else if p > 20/100 \<or> overlap \<noteq> [] then (CONC_ELEVATED, False, p)
             else (CONC_DIVERSIFIED, False, p))
      in \<lparr>symbol_overlap = overlap, currency_overlap = sort (currencies sy),
          cluster_exposure = [(cid, cluster)], crowding_penalty = penalty,
          stressed_concentration_state = st, usd_concentration = usd_conc,
          european_basket = euro_conc, one_per_cluster_blocked = blocked, ce_cluster_id = Some cid\<rparr>)"

text \<open>With one position per cluster, a second symbol of an open cluster is blocked.\<close>

lemma concentration_blocked_iff:
  "one_per_cluster_blocked (concentration_evaluate c rq x p e) \<longleftrightarrow>
     one_per_cluster c \<and> (\<exists>s \<in> set (ex_symbols x). cluster_id s = request_cluster rq \<or> s = ti_symbol (rq_intent rq))"
  by (auto simp: concentration_evaluate_def Let_def list_ex_iff)

lemma concentration_blocked_state:
  "one_per_cluster_blocked (concentration_evaluate c rq x p e) \<longleftrightarrow>
     stressed_concentration_state (concentration_evaluate c rq x p e) = CONC_BLOCKED"
  by (auto simp: concentration_evaluate_def Let_def)

subsection \<open>Position sizing\<close>

definition clip :: "dec \<Rightarrow> dec \<Rightarrow> dec \<Rightarrow> dec" where
  "clip v lo hi = (if v < lo then lo else if v > hi then hi else v)"

definition predictive_quality :: "RiskIntakeRequest \<Rightarrow> Pm4RiskGateConfig \<Rightarrow> dec" where
  "predictive_quality rq c =
     (let q0 = (case Option.bind (rq_forecast rq) fo_sample_size of
                  None \<Rightarrow> 55/100
                | Some n \<Rightarrow> if n = 0 then 55/100
                    else clip (ddiv (of_nat n) (of_nat (max (min_forecast_samples c) 1))) (40/100) 1);
          q1 = (case Option.bind (rq_forecast rq) fo_coverage of
                  None \<Rightarrow> q0
                | Some cov \<Rightarrow> dmul q0 (clip (ddiv cov (90/100)) (70/100) 1));
          blend = ddiv (dadd (ti_setup_quality (rq_intent rq)) (ti_confidence_score (rq_intent rq))) 2;
          q2 = (if blend > 0 then dmul q1 (clip blend (50/100) 1) else q1)
      in clip q2 (20/100) 1)"

definition uncertainty_discount :: "RiskIntakeRequest \<Rightarrow> Pm4RiskGateConfig \<Rightarrow> py_exn + dec" where
  "uncertainty_discount rq c =
     (case (interval_width rq, reference_price rq) of
        (Some width, Some px) \<Rightarrow>
          if px \<le> 0 then Inr (50/100)
          else let relative = ddiv width px in
               if relative \<le> wide_interval_pct c then Inr 1
               else if wide_interval_pct c = 0 then Inl DivisionByZero
               else let extra = ddiv (dsub relative (wide_interval_pct c)) (wide_interval_pct c)
                    in Inr (clip (dsub 1 (clip extra 0 (80/100))) (20/100) 1)
      | _ \<Rightarrow> Inr (50/100))"

definition liquidity_factor :: "RiskIntakeRequest \<Rightarrow> Pm4RiskGateConfig \<Rightarrow> dec" where
  "liquidity_factor rq c =
     (case rq_candidate rq of
        None \<Rightarrow> 50/100
      | Some k \<Rightarrow>
          if sc_liquidity_score (rk_scorecard k) < min_liquidity_score c then 0
          else clip (ddiv (sc_liquidity_score (rk_scorecard k)) 100) (40/100) 1)"

definition heat_cap_of :: "Pm4RiskGateConfig \<Rightarrow> PortfolioHeatCard \<Rightarrow> dec" where
  "heat_cap_of c h =
     (if residual_heat_headroom h \<le> 0 then 0
      else if effective_heat h > 0 \<and> max_effective_heat c > 0
      then clip (ddiv (residual_heat_headroom h) (max_effective_heat c)) 0 1 else 1)"

text \<open>The risk percentage after all discounts, the budget and the per-trade cap.\<close>

definition adjusted_pct ::
  "Pm4RiskGateConfig \<Rightarrow> dec \<Rightarrow> dec \<Rightarrow> dec \<Rightarrow> dec \<Rightarrow> dec \<Rightarrow> dec \<Rightarrow> dec \<Rightarrow> dec \<Rightarrow> dec" where
  "adjusted_pct c quality uncertain dd liq corr heat_cap budget_headroom equity =
     (let a0 = dmul (dmul (dmul (dmul (dmul (dmul (max_per_trade_risk_pct c) quality) uncertain) dd) liq) corr) heat_cap;
          a1 = (if budget_headroom > 0 \<and> equity > 0
                then let b = ddiv budget_headroom equity in if a0 > b then b else a0
                else a0)
      in if a1 > max_per_trade_risk_pct c then max_per_trade_risk_pct c else a1)"

text \<open>Lots before the quantization, and whether the hard cap applied.\<close>

definition raw_lots :: "Pm4RiskGateConfig \<Rightarrow> dec \<Rightarrow> dec \<Rightarrow> dec \<times> bool" where
  "raw_lots c risk stop =
     (let l0 = (if stop > 0 \<and> contract_size c > 0 then ddiv risk (dmul stop (contract_size c)) else 0);
          hard = (l0 > max_lots c); l1 = (if hard then max_lots c else l0);
          l2 = (if l1 > 0 \<and> l1 < min_lots c then 0 else l1)
      in (l2, hard))"

definition size_request ::
  "Pm4RiskGateConfig \<Rightarrow> RiskIntakeRequest \<Rightarrow> dec \<Rightarrow> DrawdownStateCard \<Rightarrow> ConcentrationExposureCard \<Rightarrow>
   PortfolioHeatCard \<Rightarrow> dec \<Rightarrow> py_exn + PositionSizingDecision" where
  "size_request c rq equity dd conc h budget_headroom =
     (let stop = (case stop_distance rq of None \<Rightarrow> 0 | Some d \<Rightarrow> d);
          quality = predictive_quality rq c
      in case uncertainty_discount rq c of
           Inl e \<Rightarrow> Inl e
         | Inr uncertain \<Rightarrow>
             (let liq = liquidity_factor rq c;
                  corr0 = dsub 1 (crowding_penalty conc); corr = (if corr0 < 0 then 0 else corr0);
                  throttle = ds_throttle_factor dd; heat_cap = heat_cap_of c h;
                  adj = adjusted_pct c quality uncertain throttle liq corr heat_cap budget_headroom equity;
                  risk = dmul equity adj;
                  (l, hard) = raw_lots c risk stop
              in case quantize round_down (lot_step_exp c) l of
                   Inl e \<Rightarrow> Inl e
                 | Inr lots \<Rightarrow> Inr
                     \<lparr>recommended_size = lots, size_unit = ''lots'',
                      base_risk_percentage = max_per_trade_risk_pct c,
                      adjusted_risk_percentage = (if lots > 0 then adj else 0),
                      ps_stop_distance = stop,
                      stop_distance_basis =
                        (if stop > 0 \<and> contract_size c > 0 then ''stop_distance'' else ''unavailable''),
                      ps_uncertainty_discount = uncertain, predictive_quality_factor = quality,
                      drawdown_throttle = throttle, ps_liquidity_factor = liq,
                      correlation_penalty = crowding_penalty conc, heat_cap_factor = heat_cap,
                      hard_cap_applied = hard, ps_account_equity = equity,
                      risk_amount = (if lots > 0 then risk else 0)\<rparr>))"

definition empty_sizing :: "dec \<Rightarrow> PositionSizingDecision" where
  "empty_sizing equity =
     \<lparr>recommended_size = 0, size_unit = ''lots'', base_risk_percentage = 0,
      adjusted_risk_percentage = 0, ps_stop_distance = 0, stop_distance_basis = ''none'',
      ps_uncertainty_discount = 0, predictive_quality_factor = 0, drawdown_throttle = 0,
      ps_liquidity_factor = 0, correlation_penalty = 0, heat_cap_factor = 0,
      hard_cap_applied = False, ps_account_equity = equity, risk_amount = 0\<rparr>"

lemma clip_bounds: "lo \<le> hi \<Longrightarrow> lo \<le> clip v lo hi \<and> clip v lo hi \<le> hi"
  by (simp add: clip_def)

lemma adjusted_pct_le: "adjusted_pct c q u d l co h b e \<le> max_per_trade_risk_pct c"
  by (simp add: adjusted_pct_def Let_def)

lemma adjusted_pct_budget:
  assumes "0 < b" and "0 < e"
  shows "adjusted_pct c q u d l co h b e \<le> ddiv b e"
  using assms by (auto simp: adjusted_pct_def Let_def)

lemma raw_lots_le: "0 \<le> max_lots c \<Longrightarrow> fst (raw_lots c risk stop) \<le> max_lots c"
  by (simp add: raw_lots_def Let_def)

lemma raw_lots_risk:
  assumes "0 < stop" and "0 < contract_size c" and "0 \<le> risk"
  shows "fst (raw_lots c risk stop) \<le> ddiv risk (dmul stop (contract_size c))"
proof -
  have "0 \<le> ddiv risk (dmul stop (contract_size c))"
    using assms by (simp add: ddiv_def dmul_def dec_fix_nonneg)
  then show ?thesis using assms by (auto simp: raw_lots_def Let_def)
qed

lemma raw_lots_nonneg:
  "0 \<le> risk \<Longrightarrow> 0 \<le> max_lots c \<Longrightarrow> 0 \<le> fst (raw_lots c risk stop)"
  by (auto simp: raw_lots_def Let_def ddiv_def dmul_def dec_fix_nonneg)

subsection \<open>Pre-trade controls\<close>

definition price_inside_collar :: "RiskIntakeRequest \<Rightarrow> Pm4RiskGateConfig \<Rightarrow> bool" where
  "price_inside_collar rq c =
     (case reference_price rq of
        None \<Rightarrow> False
      | Some px \<Rightarrow>
          (case rq_mid_price rq of
             None \<Rightarrow> True
           | Some mid \<Rightarrow> if mid \<le> 0 then False
               else dmul (ddiv (dabs (dsub px mid)) mid) 10000 \<le> price_collar_bps c))"

definition market_data_reasonable :: "RiskIntakeRequest \<Rightarrow> bool" where
  "market_data_reasonable rq =
     (case reference_price rq of
        None \<Rightarrow> False
      | Some px \<Rightarrow>
          if px \<le> 0 then False
          else if (case interval_width rq of None \<Rightarrow> False | Some w \<Rightarrow> w < 0) then False
          else case rq_spread rq of
                 None \<Rightarrow> True
               | Some s \<Rightarrow> if s < 0 then False else if ddiv s px > 1/100 then False else True)"

text \<open>\<^verbatim>\<open>BurstTracker.allow\<close>: the hits of the window, and whether another one is allowed.\<close>

definition burst_allow :: "nat \<Rightarrow> int \<Rightarrow> datetime \<Rightarrow> datetime list \<Rightarrow> bool \<times> datetime list" where
  "burst_allow limit window now hits =
     (let kept = filter (\<lambda>t. t \<ge> now - seconds window) hits in
      if length kept \<ge> limit then (False, kept) else (True, kept @ [now]))"

definition pretrade_breaches ::
  "Pm4RiskGateConfig \<Rightarrow> RiskIntakeRequest \<Rightarrow> PositionSizingDecision \<Rightarrow> bool \<Rightarrow> bool \<Rightarrow> bool \<Rightarrow> ControlBreachType list" where
  "pretrade_breaches c rq sz burst_ok duplicate route_open =
     (let px = (case reference_price rq of None \<Rightarrow> 0 | Some p \<Rightarrow> p);
          notional = dmul (dmul (recommended_size sz) (contract_size c)) px
      in reason_if (recommended_size sz = 0) BR_MAX_ORDER_SIZE @
         reason_if (recommended_size sz > max_lots c) BR_FAT_FINGER @
         reason_if (notional > max_notional c) BR_MAX_NOTIONAL @
         reason_if (\<not> price_inside_collar rq c) BR_PRICE_COLLAR @
         reason_if (\<not> market_data_reasonable rq) BR_UNREASONABLE_MARKET_DATA @
         reason_if (\<not> burst_ok) BR_BURST @
         reason_if duplicate BR_DUPLICATE @
         reason_if (\<not> route_open) BR_ROUTE)"

definition size_legal :: "Pm4RiskGateConfig \<Rightarrow> dec \<Rightarrow> bool" where
  "size_legal c n \<longleftrightarrow> min_lots c \<le> n \<and> n \<le> max_lots c \<and> n \<noteq> 0"

definition pretrade_evaluate ::
  "Pm4RiskGateConfig \<Rightarrow> datetime list \<Rightarrow> RiskIntakeRequest \<Rightarrow> PositionSizingDecision \<Rightarrow> datetime \<Rightarrow>
   bool \<Rightarrow> bool \<Rightarrow> PreTradeControlDecision \<times> datetime list" where
  "pretrade_evaluate c hits rq sz now duplicate route_open =
     (let (burst_ok, hits') = burst_allow (burst_limit c) (pm4_burst_window_seconds c) now hits;
          px = (case reference_price rq of None \<Rightarrow> 0 | Some p \<Rightarrow> p);
          notional = dmul (dmul (recommended_size sz) (contract_size c)) px;
          breaches = pretrade_breaches c rq sz burst_ok duplicate route_open;
          collar = price_inside_collar rq c; md = market_data_reasonable rq;
          fatal = filter (\<lambda>b. b \<notin> {BR_ROUTE, BR_CANCEL_ON_DISCONNECT}) breaches
      in (\<lparr>pt_passed = (fatal = []), breach_reasons = breaches,
           order_size_legal = size_legal c (recommended_size sz), price_legal = (collar \<and> md),
           message_legal = (burst_ok \<and> \<not> duplicate), route_eligible = route_open,
           pt_checks = [(''order_size'', size_legal c (recommended_size sz)),
             (''notional'', notional \<le> max_notional c), (''price_collar'', collar),
             (''market_data'', md), (''burst'', burst_ok), (''duplicate'', \<not> duplicate),
             (''route'', route_open),
             (''cancel_on_disconnect_policy'', pm4_cancel_on_disconnect c)],
           pt_detail = ''pre-trade controls; route remains PM5-closed''\<rparr>, hits'))"

lemma pretrade_passed_iff:
  "pt_passed (fst (pretrade_evaluate c hits rq sz now dup route)) \<longleftrightarrow>
     recommended_size sz \<noteq> 0 \<and> recommended_size sz \<le> max_lots c \<and>
     dmul (dmul (recommended_size sz) (contract_size c))
       (case reference_price rq of None \<Rightarrow> 0 | Some p \<Rightarrow> p) \<le> max_notional c \<and>
     price_inside_collar rq c \<and> market_data_reasonable rq \<and>
     fst (burst_allow (burst_limit c) (pm4_burst_window_seconds c) now hits) \<and> \<not> dup"
  by (auto simp: pretrade_evaluate_def pretrade_breaches_def Let_def not_less reason_if_def
      split: prod.splits)

text \<open>The burst tracker keeps at most the limit of hits, all inside the window.\<close>

lemma burst_allow_bound:
  "length hits \<le> limit \<Longrightarrow> length (snd (burst_allow limit w now hits)) \<le> limit"
proof -
  assume "length hits \<le> limit"
  moreover have "length (filter (\<lambda>t. t \<ge> now - seconds w) hits) \<le> length hits" by (rule length_filter_le)
  ultimately have "length (filter (\<lambda>t. t \<ge> now - seconds w) hits) \<le> limit" by linarith
  then show ?thesis unfolding burst_allow_def Let_def by (auto simp del: length_filter_le)
qed

lemma burst_allow_window:
  "0 \<le> w \<Longrightarrow> t \<in> set (snd (burst_allow limit w now hits)) \<Longrightarrow> now - seconds w \<le> t"
  by (auto simp: burst_allow_def Let_def split: if_splits)

subsection \<open>Admission\<close>

definition mode_veto :: "RiskMode \<Rightarrow> RiskRejectionReason list" where
  "mode_veto m =
     (if m \<in> set MODE_BLOCKS_NEW_RISK
      then [if m = MODE_CLOSE_ONLY then RJ_CLOSE_ONLY
            else if m = MODE_NO_NEW_RISK then RJ_NO_NEW_RISK
            else if m = MODE_KILL_PROTECTED then RJ_KILL_SWITCH else RJ_DEGRADED_MODE]
      else [])"

definition admission_vetoes ::
  "Pm4RiskGateConfig \<Rightarrow> RiskIntakeRequest \<Rightarrow> RiskRejectionReason list \<Rightarrow> DrawdownStateCard \<Rightarrow>
   PortfolioHeatCard \<Rightarrow> ConcentrationExposureCard \<Rightarrow> RiskMode \<Rightarrow> dec \<Rightarrow> bool \<Rightarrow> RiskRejectionReason list" where
  "admission_vetoes c rq intake dd h conc mode headroom feature =
     fromkeys (
       reason_if (\<not> feature) RJ_FEATURE_DISABLED @ intake @ mode_veto mode @
       reason_if (throttle_stage dd \<in> {DD_FREEZE, DD_KILL_PROTECTED}) RJ_DRAWDOWN_LIMIT @
       reason_if (intraday_loss dd \<ge> max_intraday_loss_pct c) RJ_DRAWDOWN_LIMIT @
       reason_if (residual_heat_headroom h \<le> 0 \<or> heat_regime h = HEAT_CRITICAL) RJ_HEAT_LIMIT @
       reason_if (one_per_cluster_blocked conc \<or> stressed_concentration_state conc = CONC_BLOCKED)
         RJ_CONCENTRATION_LIMIT @
       reason_if (headroom \<le> 0) RJ_BUDGET_EXHAUSTED @
       reason_if (truthy (rq_session rq) \<and>
                  lower (the (rq_session rq)) \<notin> set (map lower (session_allow c))) RJ_SESSION_RESTRICTED @
       reason_if (case rq_candidate rq of None \<Rightarrow> False
                  | Some k \<Rightarrow> sc_quality_tier (rk_scorecard k) = QT_SUPPRESS) RJ_HANDOFF_INELIGIBLE @
       reason_if (case rq_candidate rq of None \<Rightarrow> False
                  | Some k \<Rightarrow> sc_liquidity_score (rk_scorecard k) < min_liquidity_score c) RJ_LIQUIDITY)"

definition admission_decide ::
  "Pm4RiskGateConfig \<Rightarrow> uuid \<Rightarrow> RiskIntakeRequest \<Rightarrow> RiskRejectionReason list \<Rightarrow> DrawdownStateCard \<Rightarrow>
   PortfolioHeatCard \<Rightarrow> ConcentrationExposureCard \<Rightarrow> RiskMode \<Rightarrow> dec \<Rightarrow> bool \<Rightarrow> RiskAdmissionCard" where
  "admission_decide c tid rq intake dd h conc mode headroom feature =
     (let vetoes = admission_vetoes c rq intake dd h conc mode headroom feature;
          unique = map rejection_value vetoes
      in if vetoes \<noteq> [] then
           \<lparr>ac_decision = (if RJ_KILL_SWITCH \<in> set vetoes then AD_KILL_PROTECTED
                           else if RJ_DRAWDOWN_LIMIT \<in> set vetoes \<and> freeze_state dd then AD_FREEZE
                           else AD_REJECT),
            ac_tier = (if RJ_KILL_SWITCH \<in> set vetoes \<or>
                          RJ_DRAWDOWN_LIMIT \<in> set vetoes \<and> freeze_state dd \<or> length vetoes > 1
                       then TIER_HARD_VETO else TIER_POLICY_REJECT),
            ac_reasons = unique, ac_active_controls = [''admission'', ''deny_by_default''],
            ac_trace_id = tid, ac_vetoes = unique,
            ac_detail = ''deny-by-default; hard veto before sizing is trusted''\<rparr>
         else if ds_throttle_factor dd < 1 \<or> crowding_penalty conc > 15/100 \<or>
                 heat_regime h \<in> {HEAT_WARM, HEAT_HOT, HEAT_STRESSED} then
           \<lparr>ac_decision = AD_REDUCE, ac_tier = TIER_REDUCED, ac_reasons = [''throttled_or_crowded''],
            ac_active_controls = [''admission'', ''throttle''], ac_trace_id = tid, ac_vetoes = [],
            ac_detail = ''admitted with reduction''\<rparr>
         else
           \<lparr>ac_decision = AD_APPROVE, ac_tier = TIER_ADMITTED, ac_reasons = [''all_hard_vetoes_clear''],
            ac_active_controls = [''admission''], ac_trace_id = tid, ac_vetoes = [],
            ac_detail = ''admitted''\<rparr>)"

lemma admission_admits_iff:
  "ac_decision (admission_decide c tid rq intake dd h conc mode headroom feature) \<in> {AD_APPROVE, AD_REDUCE} \<longleftrightarrow>
   admission_vetoes c rq intake dd h conc mode headroom feature = []"
  by (simp add: admission_decide_def Let_def)

lemma admission_vetoes_NilD:
  assumes "admission_vetoes c rq intake dd h conc mode headroom feature = []"
  shows "feature \<and> intake = [] \<and> mode \<notin> set MODE_BLOCKS_NEW_RISK \<and>
    throttle_stage dd \<notin> {DD_FREEZE, DD_KILL_PROTECTED} \<and> intraday_loss dd < max_intraday_loss_pct c \<and>
    0 < residual_heat_headroom h \<and> heat_regime h \<noteq> HEAT_CRITICAL \<and> \<not> one_per_cluster_blocked conc \<and>
    0 < headroom"
  using assms by (auto simp: admission_vetoes_def mode_veto_def not_le split: if_splits)

lemma admission_kill:
  "RJ_KILL_SWITCH \<in> set intake \<Longrightarrow>
   ac_decision (admission_decide c tid rq intake dd h conc mode headroom feature) = AD_KILL_PROTECTED"
proof -
  assume "RJ_KILL_SWITCH \<in> set intake"
  then have "RJ_KILL_SWITCH \<in> set (admission_vetoes c rq intake dd h conc mode headroom feature)"
    by (simp add: admission_vetoes_def)
  then show ?thesis by (auto simp: admission_decide_def Let_def)
qed

subsection \<open>Handoff\<close>

definition handoff_for ::
  "RiskAdmissionDecision \<Rightarrow> RiskVerdictStatus \<Rightarrow> KillSwitchStatus \<Rightarrow> RiskMode \<Rightarrow> bool \<Rightarrow> HandoffEligibility" where
  "handoff_for admission verdict kill mode passed =
     (if kill \<in> {KILL_TRIPPED, KILL_LATCHED} then HO_BLOCKED_KILL
      else if mode \<in> set MODE_BLOCKS_NEW_RISK then HO_BLOCKED_DEGRADED
      else if \<not> passed then HO_BLOCKED_CONTROLS
      else if verdict = ALLOW \<and> admission \<in> {AD_APPROVE, AD_REDUCE} then HO_ELIGIBLE_PENDING_PM5
      else HO_INELIGIBLE)"

end
