(* ===== verification/RiskGate.thy ===== *)
theory RiskGate
  imports RiskChecks
begin

section \<open>The risk gate\<close>

text \<open>
  \<^verbatim>\<open>pm4_risk_gate/module.py\<close> with its in-memory state, audit recorder, incident log and
  publisher. The state of \<^verbatim>\<open>PM4RiskGateModule\<close> is a record; the handlers are computations
  that return a value or raise and always return the state. \<open>g_fresh\<close> stands for
  \<^verbatim>\<open>new_id()\<close> and the instant of the clock is an argument.
\<close>

subsection \<open>State\<close>

text \<open>
  A journal entry of the audit recorder; the value of an attribute is a text, or a decimal
  printed by \<^verbatim>\<open>str\<close>.
\<close>

datatype audit_value = AText string | ADec dec

record risk_audit_entry =
  ra_correlation_id :: uuid
  ra_causation_id :: "uuid option"
  ra_idempotency_key :: "string option"
  ra_occurred_at :: datetime
  ra_kind :: RiskEventType
  ra_summary :: string
  ra_attributes :: "(string, audit_value) dict"

record risk_incident =
  rn_at :: datetime
  rn_title :: string
  rn_severity :: RiskSeverity
  rn_detail :: string

record risk_gate =
  g_config :: Pm4RiskGateConfig
  g_feature_enabled :: bool
  g_consumed :: "(string, dec) dict"
  g_forced_stage :: "DrawdownStage option"
  g_hits :: "datetime list"
  g_kill :: KillSwitchState
  g_incidents :: "risk_incident list"
  g_by_key :: "(string, RiskPublicationBundle) dict"
  g_intents :: "string list"
  g_audit :: "risk_audit_entry list"
  g_published :: "RiskPublicationBundle list"
  g_forced_mode :: "RiskMode option"
  g_last_mode :: RiskMode
  g_next_id :: uuid

definition risk_gate_init :: "Pm4RiskGateConfig \<Rightarrow> bool \<Rightarrow> risk_gate" where
  "risk_gate_init c feature =
     \<lparr>g_config = c, g_feature_enabled = feature, g_consumed = [], g_forced_stage = None, g_hits = [],
      g_kill = kill_init c, g_incidents = [], g_by_key = [], g_intents = [], g_audit = [],
      g_published = [], g_forced_mode = None, g_last_mode = MODE_NORMAL, g_next_id = 0\<rparr>"

definition g_fresh :: "(risk_gate, uuid) comp" where
  "g_fresh s = (Inr (g_next_id s), s\<lparr>g_next_id := Suc (g_next_id s)\<rparr>)"

definition g_record ::
  "datetime \<Rightarrow> RiskEventType \<Rightarrow> string \<Rightarrow> uuid \<Rightarrow> uuid option \<Rightarrow> string option \<Rightarrow>
   (string, audit_value) dict \<Rightarrow> (risk_gate, unit) comp" where
  "g_record now kind summary corr caus key attributes =
     upd_st (\<lambda>s. s\<lparr>g_audit := g_audit s @
       [\<lparr>ra_correlation_id = corr, ra_causation_id = caus, ra_idempotency_key = key,
         ra_occurred_at = now, ra_kind = kind, ra_summary = summary, ra_attributes = attributes\<rparr>]\<rparr>)"

definition g_incident :: "datetime \<Rightarrow> string \<Rightarrow> RiskSeverity \<Rightarrow> string \<Rightarrow> (risk_gate, unit) comp" where
  "g_incident now title severity det =
     upd_st (\<lambda>s. s\<lparr>g_incidents := g_incidents s @
       [\<lparr>rn_at = now, rn_title = title, rn_severity = severity, rn_detail = det\<rparr>]\<rparr>)"

definition audit_summary :: "risk_gate \<Rightarrow> nat \<times> string option" where
  "audit_summary s =
     (length (g_audit s), if g_audit s = [] then None else Some (ra_summary (last (g_audit s))))"

subsection \<open>Operator calls\<close>

definition trip_kill_switch ::
  "datetime \<Rightarrow> string \<Rightarrow> KillSwitchScope \<Rightarrow> string option \<Rightarrow> string \<Rightarrow> (risk_gate, KillSwitchState) comp" where
  "trip_kill_switch now reason scope scope_id actor =
     bnd (upd_st (\<lambda>s. s\<lparr>g_kill := kill_trip (g_config s) reason now scope scope_id actor\<rparr>)) (\<lambda>_.
     bnd g_fresh (\<lambda>cid.
     bnd (g_record now EV_KILL_SWITCH (''kill-switch latched: '' @ reason) cid None None
            [(''actor'', AText actor), (''scope'', AText (scope_value scope))]) (\<lambda>_.
     bnd (g_incident now ''kill_switch'' SEV_CRITICAL reason) (\<lambda>_.
     get_st g_kill))))"

definition recover_kill_switch ::
  "datetime \<Rightarrow> string \<Rightarrow> string \<Rightarrow> (risk_gate, KillSwitchState) comp" where
  "recover_kill_switch now reason actor =
     bnd (upd_st (\<lambda>s. s\<lparr>g_kill := kill_recover (g_config s) reason actor now (g_kill s)\<rparr>)) (\<lambda>_.
     bnd g_fresh (\<lambda>cid.
     bnd (get_st g_kill) (\<lambda>st.
     bnd (g_record now EV_RECOVERY (''kill-switch recovery attempted: '' @ reason) cid None None
            [(''actor'', AText actor), (''status'', AText (kill_status_value (ks_status st)))]) (\<lambda>_.
     ret st))))"

definition force_mode :: "RiskMode option \<Rightarrow> (risk_gate, unit) comp" where
  "force_mode m = upd_st (\<lambda>s. s\<lparr>g_forced_mode := m\<rparr>)"

definition force_stage :: "DrawdownStage option \<Rightarrow> (risk_gate, unit) comp" where
  "force_stage st = upd_st (\<lambda>s. s\<lparr>g_forced_stage := st\<rparr>)"

subsection \<open>Evaluation\<close>

definition map_reason :: "string \<Rightarrow> RiskRejectionReason" where
  "map_reason raw = (case rejection_of raw of Some r \<Rightarrow> r | None \<Rightarrow> RJ_POLICY)"

definition verdict_from ::
  "RiskAdmissionCard \<Rightarrow> RiskMode \<Rightarrow> RiskVerdictStatus \<times> RiskRejectionReason list \<times> string" where
  "verdict_from adm mode =
     (let mapped = map map_reason (ac_vetoes adm @ ac_reasons adm);
          ded = (\<lambda>dflt. fromkeys (if mapped = [] then [dflt] else mapped))
      in case ac_decision adm of
           AD_KILL_PROTECTED \<Rightarrow> (HALT, ded RJ_KILL_SWITCH, ''kill-switch latched; no new risk'')
         | AD_FREEZE \<Rightarrow> (DENY, ded RJ_DRAWDOWN_LIMIT, ''drawdown freeze; no new risk'')
         | AD_REJECT \<Rightarrow> (DENY, ded RJ_POLICY, if ac_detail adm = [] then ''rejected'' else ac_detail adm)
         | _ \<Rightarrow>
             if mode \<in> set MODE_BLOCKS_NEW_RISK
             then (DENY, [RJ_DEGRADED_MODE], ''degraded mode '' @ mode_value mode)
             else if ac_decision adm \<in> {AD_APPROVE, AD_REDUCE}
             then (ALLOW, [], ''risk-governed handoff pending PM5; not an order'')
             else (DENY, [RJ_UNKNOWN_STATE], ''unknown admission''))"

text \<open>The cards the evaluation works with, and the context it reads once.\<close>

record risk_cards =
  kc_admission :: RiskAdmissionCard
  kc_budget :: RiskBudgetCard
  kc_sizing :: PositionSizingDecision
  kc_heat :: PortfolioHeatCard

record risk_context =
  kx_now :: datetime
  kx_equity :: dec
  kx_drawdown :: DrawdownStateCard
  kx_mode :: RiskMode
  kx_concentration :: ConcentrationExposureCard
  kx_stop :: dec

definition admits :: "RiskAdmissionCard \<Rightarrow> bool" where
  "admits adm \<longleftrightarrow> ac_decision adm \<in> {AD_APPROVE, AD_REDUCE}"

definition gate_equity :: "Pm4RiskGateConfig \<Rightarrow> RiskIntakeRequest \<Rightarrow> dec" where
  "gate_equity c rq = (if ex_equity (rq_exposure rq) > 0 then ex_equity (rq_exposure rq) else account_equity c)"

text \<open>First stage: drawdown (with the automatic trip), intake reasons, mode.\<close>

definition gate_intake_reasons ::
  "datetime \<Rightarrow> RiskIntakeRequest \<Rightarrow> risk_gate \<Rightarrow> RiskRejectionReason list" where
  "gate_intake_reasons now rq s =
     reason_if (\<not> g_feature_enabled s) RJ_FEATURE_DISABLED @
     risk_validate_intake rq (g_config s) now @
     reason_if (kill_blocks (g_kill s) (ti_symbol (rq_intent rq)) (ti_profile_id (rq_intent rq))
                  (Option.bind (rq_candidate rq) rk_correlation_cluster)) RJ_KILL_SWITCH"

definition gate_protect :: "datetime \<Rightarrow> RiskIntakeRequest \<Rightarrow> (risk_gate, DrawdownStateCard) comp" where
  "gate_protect now rq =
     bnd (get_st (\<lambda>s. drawdown_evaluate (g_config s) (g_forced_stage s) (rq_exposure rq))) (\<lambda>dd.
     bnd (if throttle_stage dd = DD_KILL_PROTECTED
          then upd_st (\<lambda>s. s\<lparr>g_kill := kill_trip (g_config s) ''drawdown_kill_protected'' now
                                          KS_ACCOUNT None ''automatic''\<rparr>)
          else ret ()) (\<lambda>_. ret dd))"

definition gate_mode :: "RiskIntakeRequest \<Rightarrow> DrawdownStateCard \<Rightarrow> risk_gate \<Rightarrow> RiskMode" where
  "gate_mode rq dd s =
     mode_from (throttle_stage dd)
       (kill_blocks (g_kill s) (ti_symbol (rq_intent rq)) (ti_profile_id (rq_intent rq))
          (Option.bind (rq_candidate rq) rk_correlation_cluster)) (g_forced_mode s)"

text \<open>Second stage: the cards before any sizing.\<close>

definition stressed_states :: "ConcentrationState list" where
  "stressed_states = [CONC_STRESSED, CONC_CROWDED, CONC_BLOCKED]"

definition gate_context ::
  "datetime \<Rightarrow> RiskIntakeRequest \<Rightarrow> DrawdownStateCard \<Rightarrow> risk_gate \<Rightarrow> risk_context" where
  "gate_context now rq dd s =
     (let c = g_config s; equity = gate_equity c rq; naive = dmul equity (max_per_trade_risk_pct c)
      in \<lparr>kx_now = now, kx_equity = equity, kx_drawdown = dd, kx_mode = gate_mode rq dd s,
          kx_concentration = concentration_evaluate c rq (rq_exposure rq) naive equity,
          kx_stop = (case stop_distance rq of None \<Rightarrow> 0 | Some d \<Rightarrow> d)\<rparr>)"

definition gate_first_cards ::
  "uuid \<Rightarrow> RiskIntakeRequest \<Rightarrow> RiskRejectionReason list \<Rightarrow> risk_context \<Rightarrow> risk_gate \<Rightarrow> risk_cards" where
  "gate_first_cards tid rq intake x s =
     (let c = g_config s; equity = kx_equity x; naive = dmul equity (max_per_trade_risk_pct c);
          conc = kx_concentration x; dd = kx_drawdown x;
          h = heat_evaluate c (rq_exposure rq) conc naive equity
                (stressed_concentration_state conc \<in> set stressed_states);
          b = alloc_allocate c (g_consumed s) rq equity naive dd
      in \<lparr>kc_admission = admission_decide c tid rq intake dd h conc (kx_mode x) (residual_headroom b)
                          (g_feature_enabled s),
          kc_budget = b, kc_sizing = empty_sizing equity, kc_heat = h\<rparr>)"

text \<open>Third stage: sizing of an admitted request.\<close>

definition gate_sized ::
  "RiskIntakeRequest \<Rightarrow> risk_context \<Rightarrow> risk_gate \<Rightarrow> risk_cards \<Rightarrow> py_exn + risk_cards" where
  "gate_sized rq x s k =
     (if \<not> admits (kc_admission k) then Inr k
      else
        (let c = g_config s; equity = kx_equity x in
         case size_request c rq equity (kx_drawdown x) (kx_concentration x) (kc_heat k)
                (residual_headroom (kc_budget k)) of
           Inl e \<Rightarrow> Inl e
         | Inr sz \<Rightarrow>
             (let h = heat_evaluate c (rq_exposure rq) (kx_concentration x) (risk_amount sz) equity
                        (heat_regime (kc_heat k) \<in> {HEAT_HOT, HEAT_CRITICAL, HEAT_STRESSED});
                  b = alloc_allocate c (g_consumed s) rq equity (risk_amount sz) (kx_drawdown x);
                  k' = k\<lparr>kc_sizing := sz, kc_heat := h, kc_budget := b\<rparr>
              in Inr (if recommended_size sz \<le> 0
                      then k'\<lparr>kc_sizing := empty_sizing equity,
                              kc_admission := (kc_admission k)\<lparr>ac_decision := AD_REJECT,
                                ac_reasons := ac_reasons (kc_admission k) @ [''size_zero''],
                                ac_vetoes := ac_vetoes (kc_admission k) @ [rejection_value RJ_SIZE_ZERO],
                                ac_detail := ''sized to zero after discounts''\<rparr>\<rparr>
                      else k'))))"

text \<open>Fourth stage: pre-trade controls over the sized request.\<close>

definition gate_controlled ::
  "risk_context \<Rightarrow> PreTradeControlDecision \<Rightarrow> risk_cards \<Rightarrow> risk_cards" where
  "gate_controlled x pt k =
     (if admits (kc_admission k) \<and> \<not> pt_passed pt
      then k\<lparr>kc_sizing := empty_sizing (kx_equity x),
             kc_admission := (kc_admission k)\<lparr>ac_decision := AD_REJECT,
               ac_reasons := ac_reasons (kc_admission k) @ map breach_value (breach_reasons pt),
               ac_detail := ''pre-trade controls rejected''\<rparr>\<rparr>
      else k)"

definition gate_verdict ::
  "uuid \<Rightarrow> uuid \<Rightarrow> RiskIntakeRequest \<Rightarrow> risk_context \<Rightarrow> PreTradeControlDecision \<Rightarrow> risk_cards \<Rightarrow> risk_gate \<Rightarrow> RiskVerdict" where
  "gate_verdict vid eid rq x pt k s =
     (case verdict_from (kc_admission k) (kx_mode x) of
        (status, reasons, det) \<Rightarrow>
          \<lparr>verdict_id = vid, rv_intent_id = ti_intent_id (rq_intent rq), rv_event_id = eid,
           rv_correlation_id = ti_correlation_id (rq_intent rq),
           rv_causation_id = Some (ti_event_id (rq_intent rq)),
           rv_idempotency_key = Some (ti_idempotency_key (rq_intent rq)),
           rv_occurred_at = kx_now x, rv_status = status, rv_reasons = reasons, rv_detail = Some det,
           rv_expires_at = Some (kx_now x + seconds (verdict_ttl_seconds (g_config s))),
           rv_producer = ''pm4_risk_gate'',
           recommended_volume = (if status = ALLOW then Some (recommended_size (kc_sizing k)) else None),
           rv_handoff_eligibility =
             (if status = ALLOW then HO_ELIGIBLE_PENDING_PM5
              else handoff_for (ac_decision (kc_admission k)) status (ks_status (g_kill s)) (kx_mode x)
                     (pt_passed pt))\<rparr>)"

definition gate_bundle ::
  "uuid \<Rightarrow> RiskIntakeRequest \<Rightarrow> risk_context \<Rightarrow> PreTradeControlDecision \<Rightarrow> risk_cards \<Rightarrow> RiskVerdict \<Rightarrow>
   risk_gate \<Rightarrow> py_exn + RiskPublicationBundle" where
  "gate_bundle bid rq x pt k v s =
     never_an_order
       \<lparr>bundle_id = bid, rb_event_id = rv_event_id v, rb_correlation_id = rv_correlation_id v,
        rb_causation_id = rv_causation_id v, rb_idempotency_key = Some (ti_idempotency_key (rq_intent rq)),
        rb_occurred_at = kx_now x, rb_intent_id = ti_intent_id (rq_intent rq),
        rb_candidate_id = map_option rk_candidate_id (rq_candidate rq),
        rb_forecast_id = map_option fo_forecast_id (rq_forecast rq),
        rb_symbol = ti_symbol (rq_intent rq), rb_verdict = v, rb_admission = kc_admission k,
        rb_budget = kc_budget k, rb_sizing = kc_sizing k, rb_heat = kc_heat k,
        rb_concentration = kx_concentration x, rb_drawdown = kx_drawdown x, rb_pretrade = pt,
        rb_kill_switch = g_kill s, rb_diagnostics = (kx_mode x, g_feature_enabled s, kx_stop x),
        rb_audit_summary = audit_summary s, rb_handoff_eligibility = rv_handoff_eligibility v,
        execution_permitted = False, rb_producer = ''pm4_risk_gate'', rb_risk_mode = kx_mode x\<rparr>"

text \<open>Fifth stage: budget consumption, publication, cache, audit, incident.\<close>

definition gate_consume :: "RiskIntakeRequest \<Rightarrow> dec \<Rightarrow> (string, dec) dict \<Rightarrow> (string, dec) dict" where
  "gate_consume rq amount d =
     alloc_consume (''symbol:'' @ ti_symbol (rq_intent rq)) amount
       (alloc_consume (''sleeve:'' @ sleeve_key rq) amount (alloc_consume ''account'' amount d))"

definition gate_publish ::
  "RiskIntakeRequest \<Rightarrow> risk_cards \<Rightarrow> RiskPublicationBundle \<Rightarrow> (risk_gate, RiskPublicationBundle) comp" where
  "gate_publish rq k b =
     (let key = ti_idempotency_key (rq_intent rq); v = rb_verdict b; now = rb_occurred_at b in
     bnd (if rv_status v = ALLOW
          then upd_st (\<lambda>s. s\<lparr>g_consumed := gate_consume rq (risk_amount (kc_sizing k)) (g_consumed s)\<rparr>)
          else ret ()) (\<lambda>_.
     bnd (upd_st (\<lambda>s. s\<lparr>g_published := g_published s @ [b]\<rparr>)) (\<lambda>_.
     bnd (upd_st (\<lambda>s. s\<lparr>g_by_key := dict_put key b (g_by_key s), g_intents := g_intents s @ [key]\<rparr>)) (\<lambda>_.
     bnd (g_record now EV_PUBLICATION
            (''risk '' @ verdict_value (rv_status v) @ '' '' @ ti_symbol (rq_intent rq))
            (rv_correlation_id v) (rv_causation_id v) (Some key)
            [(''admission'', AText (admission_value (ac_decision (kc_admission k)))),
             (''handoff'', AText (handoff_value (rb_handoff_eligibility b))),
             (''size'', ADec (recommended_size (kc_sizing k)))]) (\<lambda>_.
     bnd (if rv_status v \<noteq> ALLOW
          then g_incident now ''risk_deny'' SEV_MEDIUM (case rv_detail v of None \<Rightarrow> [] | Some d \<Rightarrow> d)
          else ret ()) (\<lambda>_.
     ret b))))))"

definition evaluate_fresh ::
  "datetime \<Rightarrow> RiskIntakeRequest \<Rightarrow> (risk_gate, RiskPublicationBundle) comp" where
  "evaluate_fresh now rq =
     bnd (gate_protect now rq) (\<lambda>dd.
     bnd (get_st (gate_intake_reasons now rq)) (\<lambda>intake.
     bnd (get_st (gate_context now rq dd)) (\<lambda>x.
     bnd (upd_st (\<lambda>s. s\<lparr>g_last_mode := kx_mode x\<rparr>)) (\<lambda>_.
     bnd g_fresh (\<lambda>tid.
     bnd (get_st (gate_first_cards tid rq intake x)) (\<lambda>k0.
     bnd (get_st (\<lambda>s. gate_sized rq x s k0)) (\<lambda>sized.
     bnd (lift_res sized) (\<lambda>k1.
     bnd (get_st (\<lambda>s. pretrade_evaluate (g_config s) (g_hits s) rq
            (if recommended_size (kc_sizing k1) > 0 then kc_sizing k1 else empty_sizing (kx_equity x))
            now False False)) (\<lambda>(pt, hits).
     bnd (upd_st (\<lambda>s. s\<lparr>g_hits := hits\<rparr>)) (\<lambda>_.
     bnd g_fresh (\<lambda>vid. bnd g_fresh (\<lambda>eid. bnd g_fresh (\<lambda>bid.
     (let k2 = gate_controlled x pt k1 in
     bnd (get_st (gate_verdict vid eid rq x pt k2)) (\<lambda>v.
     bnd (get_st (gate_bundle bid rq x pt k2 v)) (\<lambda>res.
     bnd (lift_res res) (\<lambda>b.
     gate_publish rq k2 b)))))))))))))))))"

definition evaluate_request ::
  "datetime \<Rightarrow> RiskIntakeRequest \<Rightarrow> (risk_gate, RiskPublicationBundle) comp" where
  "evaluate_request now rq =
     bnd (get_st (\<lambda>s. dict_get (g_by_key s) (ti_idempotency_key (rq_intent rq)))) (\<lambda>cached.
       case cached of Some b \<Rightarrow> ret b | None \<Rightarrow> evaluate_fresh now rq)"

text \<open>The gateway: a request from its parts, and the \<^verbatim>\<open>RiskGate\<close> protocol.\<close>

definition gate_normalize ::
  "uuid \<Rightarrow> TradeIntent \<Rightarrow> ExposureSnapshot \<Rightarrow> RankedCandidate option \<Rightarrow> ForecastOutput option \<Rightarrow>
   datetime option \<Rightarrow> dec option \<Rightarrow> dec option \<Rightarrow> string option \<Rightarrow> RiskIntakeRequest" where
  "gate_normalize wid t x cand fc as_of mid spread session =
     \<lparr>rq_workflow_id = wid, rq_as_of = (case as_of of None \<Rightarrow> ti_occurred_at t | Some a \<Rightarrow> a),
      rq_intent = t, rq_candidate = cand, rq_forecast = fc, rq_exposure = x, rq_mid_price = mid,
      rq_spread = spread, rq_session = session, rq_trace = []\<rparr>"

definition evaluate_intent ::
  "datetime \<Rightarrow> TradeIntent \<Rightarrow> ExposureSnapshot \<Rightarrow> RankedCandidate option \<Rightarrow> ForecastOutput option \<Rightarrow>
   datetime option \<Rightarrow> dec option \<Rightarrow> dec option \<Rightarrow> string option \<Rightarrow> (risk_gate, RiskPublicationBundle) comp" where
  "evaluate_intent now t x cand fc as_of mid spread session =
     bnd g_fresh (\<lambda>wid. evaluate_request now (gate_normalize wid t x cand fc as_of mid spread session))"

definition risk_evaluate :: "datetime \<Rightarrow> TradeIntent \<Rightarrow> ExposureSnapshot \<Rightarrow> (risk_gate, RiskVerdict) comp" where
  "risk_evaluate now t x =
     bnd (evaluate_intent now t x None None None None None None) (\<lambda>b. ret (rb_verdict b))"

subsection \<open>The gate as a step relation\<close>

text \<open>A configuration object has passed its validators, so a gate starts with a valid one.\<close>

datatype gate_call =
    G_evaluate datetime RiskIntakeRequest
  | G_trip datetime string KillSwitchScope "string option" string
  | G_recover datetime string string
  | G_force_mode "RiskMode option"
  | G_force_stage "DrawdownStage option"

fun gate_do :: "gate_call \<Rightarrow> risk_gate \<Rightarrow> risk_gate" where
  "gate_do (G_evaluate now rq) s = snd (evaluate_request now rq s)"
| "gate_do (G_trip now re sc sid ac) s = snd (trip_kill_switch now re sc sid ac s)"
| "gate_do (G_recover now re ac) s = snd (recover_kill_switch now re ac s)"
| "gate_do (G_force_mode m) s = snd (force_mode m s)"
| "gate_do (G_force_stage st) s = snd (force_stage st s)"

inductive gate_reach :: "risk_gate \<Rightarrow> bool" where
  init: "pm4_config_ok c \<Longrightarrow> gate_reach (risk_gate_init c feature)"
| call: "gate_reach s \<Longrightarrow> gate_reach (gate_do call s)"

end
