(* ===== verification/DecimalError.thy ===== *)
theory DecimalError
  imports PyDecimal
begin

section \<open>Rounding errors of decimal arithmetic\<close>

text \<open>
  Comparison up to rounding: \<open>leq_upto n x y\<close> says that \<open>x\<close> exceeds \<open>y\<close> by at most \<open>n\<close> relative
  rounding errors of the 28-digit context. The rules compose along a chain of decimal
  operations, so that a bound on exact rationals follows for what the code computes.
\<close>

definition eps :: rat where
  "eps = 1 / 10 ^ 27"

definition leq_upto :: "nat \<Rightarrow> rat \<Rightarrow> rat \<Rightarrow> bool" where
  "leq_upto n x y \<longleftrightarrow> x \<le> y * (1 + eps) ^ n"

lemma eps_nonneg [simp]: "0 \<le> eps"
  by (simp add: eps_def)

lemma dec_fix_error:
  assumes "0 \<le> x"
  shows "\<bar>dec_fix x - x\<bar> \<le> x * eps / 2"
proof (cases "x = 0")
  case False
  with assms have x: "0 < x" by simp
  have "10 ^ 27 * ulp x \<le> x"
    using coeff_bounds(1) [OF x] by (simp only: pos_le_divide_eq ulp_pos)
  then have u: "ulp x \<le> x * eps" by (simp add: eps_def field_simps)
  have "dec_fix x - x = (of_int (round_half_even (x / ulp x)) - x / ulp x) * ulp x"
    using False ulp_pos [of x] by (simp add: dec_fix_def left_diff_distrib del: ulp_pos)
  then have "\<bar>dec_fix x - x\<bar> = \<bar>of_int (round_half_even (x / ulp x)) - x / ulp x\<bar> * ulp x"
    by (simp add: abs_mult)
  also have "\<dots> \<le> 1 / 2 * ulp x"
    by (intro mult_right_mono round_half_even_error) simp
  finally show ?thesis using u by simp
qed simp

lemma pow_eps_ge1: "1 \<le> (1 + eps) ^ n"
  by (simp add: one_le_power)

lemma upto_refl [simp]: "0 \<le> x \<Longrightarrow> leq_upto n x x"
  using mult_left_mono [OF pow_eps_ge1 [of n], of x] by (simp add: leq_upto_def)

lemma upto_le: "x \<le> y \<Longrightarrow> 0 \<le> y \<Longrightarrow> leq_upto n x y"
  using upto_refl [of y n] by (simp add: leq_upto_def)

lemma upto_trans: "leq_upto m x y \<Longrightarrow> leq_upto n y z \<Longrightarrow> leq_upto (m + n) x z"
proof -
  assume a: "leq_upto m x y" and b: "leq_upto n y z"
  have "y * (1 + eps) ^ m \<le> z * (1 + eps) ^ n * (1 + eps) ^ m"
    using b pow_eps_ge1 [of m] by (intro mult_right_mono) (simp_all add: leq_upto_def)
  with a show ?thesis by (simp add: leq_upto_def power_add ac_simps)
qed

lemma upto_le_trans: "leq_upto m x y \<Longrightarrow> y \<le> z \<Longrightarrow> leq_upto m x z"
proof -
  assume a: "leq_upto m x y" and "y \<le> z"
  then have "y * (1 + eps) ^ m \<le> z * (1 + eps) ^ m"
    using pow_eps_ge1 [of m] by (intro mult_right_mono) simp_all
  with a show ?thesis by (simp add: leq_upto_def)
qed

lemma le_upto_trans: "x \<le> y \<Longrightarrow> leq_upto m y z \<Longrightarrow> leq_upto m x z"
  by (simp add: leq_upto_def)

lemma upto_mult: "leq_upto n x y \<Longrightarrow> 0 \<le> c \<Longrightarrow> leq_upto n (c * x) (c * y)"
  using mult_left_mono [of x "y * (1 + eps) ^ n" c] by (simp add: leq_upto_def ac_simps)

lemma upto_add: "leq_upto n x y \<Longrightarrow> leq_upto n x' y' \<Longrightarrow> leq_upto n (x + x') (y + y')"
  by (simp add: leq_upto_def distrib_right)

lemma upto_div: "leq_upto n x y \<Longrightarrow> 0 < c \<Longrightarrow> leq_upto n (x / c) (y / c)"
  using upto_mult [of n x y "1 / c"] by simp

lemma upto_fix: "0 \<le> x \<Longrightarrow> leq_upto 1 (dec_fix x) x"
proof -
  assume x: "0 \<le> x"
  then have "0 \<le> x * eps" by simp
  with dec_fix_error [OF x] have "dec_fix x \<le> x + x * eps" by linarith
  then show ?thesis by (simp add: leq_upto_def distrib_left)
qed

lemma upto_unfix:
  assumes "0 \<le> x"
  shows "leq_upto 1 x (dec_fix x)"
proof -
  have "x * (1 - eps / 2) \<le> dec_fix x"
  proof -
    have "x - x * eps / 2 \<le> dec_fix x" using dec_fix_error [OF assms] by linarith
    then show ?thesis by (simp add: right_diff_distrib)
  qed
  then have "x * (1 - eps / 2) * (1 + eps) \<le> dec_fix x * (1 + eps)"
    by (rule mult_right_mono) simp
  moreover have "1 \<le> (1 - eps / 2) * (1 + eps)" by (simp add: eps_def)
  then have "x * 1 \<le> x * ((1 - eps / 2) * (1 + eps))" using assms by (rule mult_left_mono)
  ultimately show ?thesis by (simp add: leq_upto_def mult.assoc)
qed

lemma upto_dmul: "0 \<le> a \<Longrightarrow> 0 \<le> b \<Longrightarrow> leq_upto 1 (dmul a b) (a * b)"
  unfolding dmul_def by (rule upto_fix) simp

lemma upto_ddiv: "0 \<le> a \<Longrightarrow> 0 < b \<Longrightarrow> leq_upto 1 (ddiv a b) (a / b)"
  unfolding ddiv_def by (rule upto_fix) simp

lemma upto_dadd: "0 \<le> a \<Longrightarrow> 0 \<le> b \<Longrightarrow> leq_upto 1 (dadd a b) (a + b)"
  unfolding dadd_def by (rule upto_fix) simp

lemma upto_dsub: "b \<le> a \<Longrightarrow> leq_upto 1 (dsub a b) (a - b)"
  unfolding dsub_def by (rule upto_fix) simp

text \<open>Up to nine roundings add less than \<open>10\<close> to the \<open>- 26\<close> of the value.\<close>

lemma upto_bound:
  assumes "leq_upto n x y" and "n \<le> 9" and "0 \<le> y"
  shows "x \<le> y * (1 + 1 / 10 ^ 26)"
proof -
  have "(1 + eps) ^ n \<le> (1 + eps) ^ 9" using assms(2) by (intro power_increasing) simp_all
  also have "\<dots> \<le> 1 + 1 / 10 ^ 26" by (simp add: eps_def power_divide)
  finally have "y * (1 + eps) ^ n \<le> y * (1 + 1 / 10 ^ 26)" using assms(3) by (rule mult_left_mono)
  with assms(1) show ?thesis by (simp add: leq_upto_def)
qed

subsection \<open>Evaluation\<close>

text \<open>
  A value with at most twelve decimal places and a coefficient that fits is not rounded at all:
  the equation evaluation uses, which spares it the search for the adjusted exponent.
\<close>

lemma dec_fix_fast [code]:
  "dec_fix x = (case quotient_of (x * 1000000000000) of (c, d) \<Rightarrow>
     if d = 1 \<and> \<bar>c\<bar> < 10000000000000000000000000000 then of_int c / 1000000000000
     else if x = 0 then 0 else of_int (round_half_even (x / ulp x)) * ulp x)"
proof (cases "quotient_of (x * 1000000000000)")
  case (Pair c d)
  show ?thesis
  proof (cases "d = 1 \<and> \<bar>c\<bar> < 10 ^ 28")
    case True
    then have "x * 1000000000000 = of_int c" using quotient_of_div [OF Pair] by simp
    then have "x = of_int c * 10 powi (- 12)" by (simp add: power_int_minus field_simps)
    then have "dec28 x" using True by (metis dec28_coeff)
    then have "dec_fix x = of_int c / 1000000000000"
      using \<open>x * 1000000000000 = of_int c\<close> by (simp add: dec28_def field_simps)
    then show ?thesis using True Pair by simp
  qed (use Pair in \<open>auto simp: dec_fix_def\<close>)
qed

end
