(* ===== verification/RiskProps.thy ===== *)
theory RiskProps
  imports RiskGate DecimalError
begin

section \<open>How an evaluation runs\<close>

text \<open>
  The evaluation of a request as one equation over its stages, the cases of its outcome, and
  what each stage keeps. The properties of the gate in \<^verbatim>\<open>RiskGuarantees\<close> rest on these
  facts.
\<close>

subsection \<open>The stages in one state\<close>

text \<open>The state after the drawdown stage, and after all stages before the publication.\<close>

definition after_protect :: "datetime \<Rightarrow> RiskIntakeRequest \<Rightarrow> risk_gate \<Rightarrow> risk_gate" where
  "after_protect now rq s =
     (if throttle_stage (drawdown_evaluate (g_config s) (g_forced_stage s) (rq_exposure rq)) = DD_KILL_PROTECTED
      then s\<lparr>g_kill := kill_trip (g_config s) ''drawdown_kill_protected'' now KS_ACCOUNT None ''automatic''\<rparr>
      else s)"

definition request_drawdown :: "RiskIntakeRequest \<Rightarrow> risk_gate \<Rightarrow> DrawdownStateCard" where
  "request_drawdown rq s = drawdown_evaluate (g_config s) (g_forced_stage s) (rq_exposure rq)"

definition request_context :: "datetime \<Rightarrow> RiskIntakeRequest \<Rightarrow> risk_gate \<Rightarrow> risk_context" where
  "request_context now rq s = gate_context now rq (request_drawdown rq s) (after_protect now rq s)"

definition first_cards :: "datetime \<Rightarrow> RiskIntakeRequest \<Rightarrow> risk_gate \<Rightarrow> risk_cards" where
  "first_cards now rq s =
     gate_first_cards (g_next_id s) rq (gate_intake_reasons now rq (after_protect now rq s))
       (request_context now rq s) (after_protect now rq s)"

definition sized_cards :: "datetime \<Rightarrow> RiskIntakeRequest \<Rightarrow> risk_gate \<Rightarrow> py_exn + risk_cards" where
  "sized_cards now rq s = gate_sized rq (request_context now rq s) s (first_cards now rq s)"

definition controls_of ::
  "datetime \<Rightarrow> RiskIntakeRequest \<Rightarrow> risk_gate \<Rightarrow> risk_cards \<Rightarrow> PreTradeControlDecision \<times> datetime list" where
  "controls_of now rq s k =
     pretrade_evaluate (g_config s) (g_hits s) rq
       (if recommended_size (kc_sizing k) > 0 then kc_sizing k
        else empty_sizing (kx_equity (request_context now rq s))) now False False"

lemma after_protect_same [simp]:
  "g_config (after_protect now rq s) = g_config s"
  "g_feature_enabled (after_protect now rq s) = g_feature_enabled s"
  "g_consumed (after_protect now rq s) = g_consumed s"
  "g_forced_stage (after_protect now rq s) = g_forced_stage s"
  "g_hits (after_protect now rq s) = g_hits s"
  "g_by_key (after_protect now rq s) = g_by_key s"
  "g_intents (after_protect now rq s) = g_intents s"
  "g_published (after_protect now rq s) = g_published s"
  "g_audit (after_protect now rq s) = g_audit s"
  "g_incidents (after_protect now rq s) = g_incidents s"
  "g_forced_mode (after_protect now rq s) = g_forced_mode s"
  "g_next_id (after_protect now rq s) = g_next_id s"
  by (simp_all add: after_protect_def)

lemma gate_protect_run: "gate_protect now rq s = (Inr (request_drawdown rq s), after_protect now rq s)"
  by (simp add: gate_protect_def after_protect_def request_drawdown_def run_simps)

lemma fresh_run [run_simps]: "bnd g_fresh f s = f (g_next_id s) (s\<lparr>g_next_id := Suc (g_next_id s)\<rparr>)"
  by (simp add: bnd_def g_fresh_def)

text \<open>Which parts of the state the pure stages read.\<close>

lemma gate_first_cards_state:
  "g_config s = g_config t \<Longrightarrow> g_consumed s = g_consumed t \<Longrightarrow> g_feature_enabled s = g_feature_enabled t \<Longrightarrow>
   gate_first_cards i rq rs x s = gate_first_cards i rq rs x t"
  by (simp add: gate_first_cards_def)

lemma gate_sized_state:
  assumes "g_config s = g_config t" and "g_consumed s = g_consumed t"
  shows "gate_sized rq x s k = gate_sized rq x t k"
  unfolding gate_sized_def assms by (rule refl)

lemma gate_verdict_state:
  assumes "g_config s = g_config t" and "g_kill s = g_kill t"
  shows "gate_verdict vid eid rq x pt k s = gate_verdict vid eid rq x pt k t"
  unfolding gate_verdict_def assms by (rule refl)

definition request_verdict ::
  "datetime \<Rightarrow> RiskIntakeRequest \<Rightarrow> risk_gate \<Rightarrow> risk_cards \<Rightarrow> RiskVerdict" where
  "request_verdict now rq s k =
     gate_verdict (Suc (g_next_id s)) (g_next_id s + 2) rq (request_context now rq s)
       (fst (controls_of now rq s k))
       (gate_controlled (request_context now rq s) (fst (controls_of now rq s k)) k) (after_protect now rq s)"

definition before_publish ::
  "datetime \<Rightarrow> RiskIntakeRequest \<Rightarrow> risk_gate \<Rightarrow> risk_cards \<Rightarrow> risk_gate" where
  "before_publish now rq s k =
     (after_protect now rq s)\<lparr>g_last_mode := kx_mode (request_context now rq s),
        g_hits := snd (controls_of now rq s k), g_next_id := g_next_id s + 4\<rparr>"

lemma evaluate_fresh_run:
  "evaluate_fresh now rq s =
     (case sized_cards now rq s of
        Inl e \<Rightarrow> (Inl e, (after_protect now rq s)\<lparr>g_last_mode := kx_mode (request_context now rq s),
                           g_next_id := Suc (g_next_id s)\<rparr>)
      | Inr k \<Rightarrow>
          (let x = request_context now rq s; pt = fst (controls_of now rq s k);
               k2 = gate_controlled x pt k; s2 = before_publish now rq s k in
           case gate_bundle (g_next_id s + 3) rq x pt k2 (request_verdict now rq s k) s2 of
             Inl e \<Rightarrow> (Inl e, s2) | Inr b \<Rightarrow> gate_publish rq k2 b s2))"
proof -
  let ?s1 = "(after_protect now rq s)\<lparr>g_last_mode := kx_mode (request_context now rq s)\<rparr>"
  let ?s2 = "?s1\<lparr>g_next_id := Suc (g_next_id s)\<rparr>"
  have k0: "gate_first_cards (g_next_id s) rq (gate_intake_reasons now rq (after_protect now rq s))
      (request_context now rq s) ?s2 = first_cards now rq s"
    unfolding first_cards_def by (rule gate_first_cards_state) simp_all
  have k1: "gate_sized rq (request_context now rq s) ?s2 (first_cards now rq s) = sized_cards now rq s"
    unfolding sized_cards_def by (rule gate_sized_state) simp_all
  have x: "gate_context now rq (request_drawdown rq s) (after_protect now rq s) = request_context now rq s"
    by (simp add: request_context_def)
  have v: "\<And>k. gate_verdict (Suc (g_next_id s)) (g_next_id s + 2) rq (request_context now rq s)
      (fst (controls_of now rq s k)) (gate_controlled (request_context now rq s) (fst (controls_of now rq s k)) k)
      (before_publish now rq s k) = request_verdict now rq s k"
    unfolding request_verdict_def by (rule gate_verdict_state) (simp_all add: before_publish_def)
  show ?thesis
    unfolding evaluate_fresh_def
    by (simp add: bnd_Inr [OF gate_protect_run] run_simps x k0 k1 Let_def
        flip: v split: sum.splits)
      (simp add: controls_of_def before_publish_def case_prod_unfold run_simps
        eval_nat_numeral split: sum.splits)
qed

text \<open>The published bundle: the model validator never refuses it.\<close>

definition request_bundle ::
  "datetime \<Rightarrow> RiskIntakeRequest \<Rightarrow> risk_gate \<Rightarrow> risk_cards \<Rightarrow> RiskPublicationBundle" where
  "request_bundle now rq s k =
     (let x = request_context now rq s; pt = fst (controls_of now rq s k) in
      projr (gate_bundle (g_next_id s + 3) rq x pt (gate_controlled x pt k) (request_verdict now rq s k)
        (before_publish now rq s k)))"

lemma gate_bundle_ok: "gate_bundle i rq x pt k v s = Inr (projr (gate_bundle i rq x pt k v s))"
  by (simp add: gate_bundle_def never_an_order_def)

lemma request_bundle_sel [simp]:
  "rb_verdict (request_bundle now rq s k) = request_verdict now rq s k"
  "rb_occurred_at (request_bundle now rq s k) = now"
  "rb_symbol (request_bundle now rq s k) = ti_symbol (rq_intent rq)"
  "rb_intent_id (request_bundle now rq s k) = ti_intent_id (rq_intent rq)"
  "rb_idempotency_key (request_bundle now rq s k) = Some (ti_idempotency_key (rq_intent rq))"
  "rb_drawdown (request_bundle now rq s k) = request_drawdown rq s"
  "rb_risk_mode (request_bundle now rq s k) = kx_mode (request_context now rq s)"
  "rb_pretrade (request_bundle now rq s k) = fst (controls_of now rq s k)"
  "rb_kill_switch (request_bundle now rq s k) = g_kill (after_protect now rq s)"
  "rb_concentration (request_bundle now rq s k) = kx_concentration (request_context now rq s)"
  "rb_handoff_eligibility (request_bundle now rq s k) = rv_handoff_eligibility (request_verdict now rq s k)"
  "execution_permitted (request_bundle now rq s k) = False"
  by (simp_all add: request_bundle_def Let_def gate_bundle_def never_an_order_def request_context_def
      gate_context_def before_publish_def)

lemma request_bundle_cards:
  "rb_admission (request_bundle now rq s k) =
     kc_admission (gate_controlled (request_context now rq s) (fst (controls_of now rq s k)) k)"
  "rb_sizing (request_bundle now rq s k) =
     kc_sizing (gate_controlled (request_context now rq s) (fst (controls_of now rq s k)) k)"
  "rb_budget (request_bundle now rq s k) =
     kc_budget (gate_controlled (request_context now rq s) (fst (controls_of now rq s k)) k)"
  "rb_heat (request_bundle now rq s k) =
     kc_heat (gate_controlled (request_context now rq s) (fst (controls_of now rq s k)) k)"
  by (simp_all add: request_bundle_def Let_def gate_bundle_def never_an_order_def)

text \<open>The state after a publication.\<close>

definition after_publish ::
  "datetime \<Rightarrow> RiskIntakeRequest \<Rightarrow> risk_gate \<Rightarrow> risk_cards \<Rightarrow> risk_gate \<Rightarrow> bool" where
  "after_publish now rq s k t \<longleftrightarrow>
     (let b = request_bundle now rq s k; key = ti_idempotency_key (rq_intent rq) in
      g_config t = g_config s \<and> g_feature_enabled t = g_feature_enabled s \<and>
      g_forced_stage t = g_forced_stage s \<and> g_forced_mode t = g_forced_mode s \<and>
      g_kill t = g_kill (after_protect now rq s) \<and> g_hits t = snd (controls_of now rq s k) \<and>
      g_last_mode t = rb_risk_mode b \<and> g_next_id t = g_next_id s + 4 \<and>
      g_consumed t = (if rv_status (rb_verdict b) = ALLOW
        then gate_consume rq (risk_amount (rb_sizing b)) (g_consumed s) else g_consumed s) \<and>
      g_published t = g_published s @ [b] \<and> g_by_key t = dict_put key b (g_by_key s) \<and>
      g_intents t = g_intents s @ [key] \<and> length (g_audit t) = Suc (length (g_audit s)) \<and>
      length (g_incidents t) =
        (if rv_status (rb_verdict b) = ALLOW then length (g_incidents s) else Suc (length (g_incidents s))))"

lemma gate_publish_run:
  "\<exists>t. gate_publish rq (gate_controlled (request_context now rq s) (fst (controls_of now rq s k)) k)
        (request_bundle now rq s k) (before_publish now rq s k) = (Inr (request_bundle now rq s k), t) \<and>
      after_publish now rq s k t"
  by (cases "rv_status (request_verdict now rq s k) = ALLOW")
    (simp_all add: gate_publish_def Let_def run_simps g_record_def g_incident_def after_publish_def
        before_publish_def request_bundle_cards)

lemma evaluate_fresh_cases:
  obtains (raised) e t where "sized_cards now rq s = Inl e" "evaluate_fresh now rq s = (Inl e, t)"
      "t = (after_protect now rq s)\<lparr>g_last_mode := kx_mode (request_context now rq s),
                           g_next_id := Suc (g_next_id s)\<rparr>"
  | (published) k t where "sized_cards now rq s = Inr k"
      "evaluate_fresh now rq s = (Inr (request_bundle now rq s k), t)" "after_publish now rq s k t"
proof (cases "sized_cards now rq s")
  case (Inl e)
  then show ?thesis using raised by (simp add: evaluate_fresh_run)
next
  case (Inr k)
  let ?b = "request_bundle now rq s k"
  let ?k2 = "gate_controlled (request_context now rq s) (fst (controls_of now rq s k)) k"
  have run: "evaluate_fresh now rq s = gate_publish rq ?k2 ?b (before_publish now rq s k)"
    unfolding evaluate_fresh_run Inr request_bundle_def Let_def
    by (subst gate_bundle_ok) simp
  from gate_publish_run obtain t where "gate_publish rq ?k2 ?b (before_publish now rq s k) = (Inr ?b, t)"
    and "after_publish now rq s k t" by blast
  then show ?thesis using published Inr run by simp
qed

subsection \<open>What an ALLOW verdict went through\<close>

lemma verdict_allow_iff:
  "fst (verdict_from adm m) = ALLOW \<longleftrightarrow> admits adm \<and> m \<notin> set MODE_BLOCKS_NEW_RISK"
  by (cases "ac_decision adm") (auto simp: verdict_from_def admits_def Let_def)

lemma verdict_halt: "ac_decision adm = AD_KILL_PROTECTED \<Longrightarrow> fst (verdict_from adm m) = HALT"
  by (simp add: verdict_from_def Let_def)

lemma gate_verdict_sel [simp]:
  "rv_status (gate_verdict vid eid rq x pt k s) = fst (verdict_from (kc_admission k) (kx_mode x))"
  "recommended_volume (gate_verdict vid eid rq x pt k s) =
     (if fst (verdict_from (kc_admission k) (kx_mode x)) = ALLOW then Some (recommended_size (kc_sizing k)) else None)"
  "rv_occurred_at (gate_verdict vid eid rq x pt k s) = kx_now x"
  "rv_expires_at (gate_verdict vid eid rq x pt k s) =
     Some (kx_now x + seconds (verdict_ttl_seconds (g_config s)))"
  "rv_intent_id (gate_verdict vid eid rq x pt k s) = ti_intent_id (rq_intent rq)"
  by (simp_all add: gate_verdict_def split: prod.splits)

lemma gate_verdict_handoff:
  "rv_handoff_eligibility (gate_verdict vid eid rq x pt k s) = HO_ELIGIBLE_PENDING_PM5 \<longleftrightarrow>
   fst (verdict_from (kc_admission k) (kx_mode x)) = ALLOW"
  by (simp add: gate_verdict_def handoff_for_def split: prod.splits)

lemma controlled_admits:
  assumes "admits (kc_admission (gate_controlled x pt k))"
  shows "pt_passed pt \<and> gate_controlled x pt k = k"
  using assms by (auto simp: gate_controlled_def admits_def split: if_splits)

lemma sized_admits:
  assumes "gate_sized rq x s k = Inr k'" and "admits (kc_admission k')"
  shows "admits (kc_admission k) \<and>
    size_request (g_config s) rq (kx_equity x) (kx_drawdown x) (kx_concentration x) (kc_heat k)
      (residual_headroom (kc_budget k)) = Inr (kc_sizing k') \<and> 0 < recommended_size (kc_sizing k')"
  using assms
  by (auto simp: gate_sized_def Let_def admits_def not_le split: if_splits sum.splits)

text \<open>The kill switch cannot be waved through: neither sizing nor controls restore an admission.\<close>

lemma sized_refused:
  "\<not> admits (kc_admission k) \<Longrightarrow> gate_sized rq x s k = Inr k"
  by (simp add: gate_sized_def)

lemma controlled_refused: "\<not> admits (kc_admission k) \<Longrightarrow> gate_controlled x pt k = k"
  by (simp add: gate_controlled_def)

definition request_blocked :: "RiskIntakeRequest \<Rightarrow> KillSwitchState \<Rightarrow> bool" where
  "request_blocked rq ks \<longleftrightarrow>
     kill_blocks ks (ti_symbol (rq_intent rq)) (ti_profile_id (rq_intent rq))
       (Option.bind (rq_candidate rq) rk_correlation_cluster)"

text \<open>The heat and budget cards the admission decision sees.\<close>

definition request_heat :: "RiskIntakeRequest \<Rightarrow> risk_gate \<Rightarrow> PortfolioHeatCard" where
  "request_heat rq s =
     (let c = g_config s; equity = gate_equity c rq; naive = dmul equity (max_per_trade_risk_pct c);
          conc = concentration_evaluate c rq (rq_exposure rq) naive equity
      in heat_evaluate c (rq_exposure rq) conc naive equity
           (stressed_concentration_state conc \<in> set stressed_states))"

definition request_levels :: "RiskIntakeRequest \<Rightarrow> risk_gate \<Rightarrow> (string \<times> dec \<times> dec) list" where
  "request_levels rq s =
     alloc_levels (g_config s) (g_consumed s) rq (gate_equity (g_config s) rq)
       (ds_throttle_factor (request_drawdown rq s))"

lemma request_context_sel [simp]:
  "kx_now (request_context now rq s) = now"
  "kx_equity (request_context now rq s) = gate_equity (g_config s) rq"
  "kx_drawdown (request_context now rq s) = request_drawdown rq s"
  "kx_concentration (request_context now rq s) =
     concentration_evaluate (g_config s) rq (rq_exposure rq)
       (dmul (gate_equity (g_config s) rq) (max_per_trade_risk_pct (g_config s))) (gate_equity (g_config s) rq)"
  by (simp_all add: request_context_def gate_context_def Let_def)

lemma first_cards_sel [simp]:
  "kc_heat (first_cards now rq s) = request_heat rq s"
  "residual_headroom (kc_budget (first_cards now rq s)) = alloc_headroom (request_levels rq s)"
  by (simp_all add: first_cards_def gate_first_cards_def Let_def request_heat_def request_levels_def
      alloc_allocate_def)

lemma first_cards_admission:
  "kc_admission (first_cards now rq s) =
     admission_decide (g_config s) (g_next_id s) rq (gate_intake_reasons now rq (after_protect now rq s))
       (request_drawdown rq s) (request_heat rq s) (kx_concentration (request_context now rq s))
       (kx_mode (request_context now rq s)) (alloc_headroom (request_levels rq s)) (g_feature_enabled s)"
  by (simp add: first_cards_def gate_first_cards_def Let_def request_heat_def request_levels_def
      alloc_allocate_def)

lemma admits_decide_iff:
  "admits (admission_decide c tid rq intake dd h conc mode headroom feature) \<longleftrightarrow>
   admission_vetoes c rq intake dd h conc mode headroom feature = []"
  unfolding admits_def by (rule admission_admits_iff)

lemma first_admits:
  assumes "admits (kc_admission (first_cards now rq s))"
  shows "gate_intake_reasons now rq (after_protect now rq s) = [] \<and>
    kx_mode (request_context now rq s) \<notin> set MODE_BLOCKS_NEW_RISK \<and>
    throttle_stage (request_drawdown rq s) \<notin> {DD_FREEZE, DD_KILL_PROTECTED} \<and>
    intraday_loss (request_drawdown rq s) < max_intraday_loss_pct (g_config s) \<and>
    effective_heat (request_heat rq s) < max_effective_heat (g_config s) \<and>
    \<not> one_per_cluster_blocked (kx_concentration (request_context now rq s)) \<and>
    0 < alloc_headroom (request_levels rq s)"
proof -
  have h: "0 < residual_heat_headroom (request_heat rq s) \<longleftrightarrow>
    effective_heat (request_heat rq s) < max_effective_heat (g_config s)"
    by (simp only: request_heat_def Let_def heat_headroom_iff)
  from assms admission_vetoes_NilD show ?thesis
    unfolding first_cards_admission admits_decide_iff h [symmetric] by blast
qed

subsection \<open>Sizing\<close>

lemma dmul_nonneg [simp]: "0 \<le> a \<Longrightarrow> 0 \<le> b \<Longrightarrow> 0 \<le> dmul a b"
  by (simp add: dmul_def dec_fix_nonneg)

lemma ddiv_nonneg [simp]: "0 \<le> a \<Longrightarrow> 0 \<le> b \<Longrightarrow> 0 \<le> ddiv a b"
  by (simp add: ddiv_def dec_fix_nonneg)

lemma dadd_nonneg [simp]: "0 \<le> a \<Longrightarrow> 0 \<le> b \<Longrightarrow> 0 \<le> dadd a b"
  by (simp add: dadd_def dec_fix_nonneg)

lemma clip_nonneg: "0 \<le> lo \<Longrightarrow> 0 \<le> hi \<Longrightarrow> 0 \<le> clip v lo hi"
  by (simp add: clip_def)

lemma predictive_quality_nonneg [simp]: "0 \<le> predictive_quality rq c"
  unfolding predictive_quality_def Let_def by (rule clip_nonneg) simp_all

lemma uncertainty_nonneg: "uncertainty_discount rq c = Inr u \<Longrightarrow> 0 \<le> u"
  by (auto simp: uncertainty_discount_def Let_def clip_nonneg split: option.splits if_splits)

lemma liquidity_nonneg [simp]: "0 \<le> liquidity_factor rq c"
  by (auto simp: liquidity_factor_def clip_nonneg split: option.splits)

lemma heat_cap_nonneg [simp]: "0 \<le> heat_cap_of c h"
  by (simp add: heat_cap_of_def clip_nonneg)

lemma adjusted_pct_nonneg:
  assumes "0 \<le> max_per_trade_risk_pct c" "0 \<le> q" "0 \<le> u" "0 \<le> d" "0 \<le> l" "0 \<le> co" "0 \<le> h"
  shows "0 \<le> adjusted_pct c q u d l co h b e"
  using assms by (simp add: adjusted_pct_def Let_def)

text \<open>A sized request: the percentage, the risk it stands for, and the lots.\<close>

lemma size_requestE:
  assumes sz: "size_request c rq equity dd conc h head = Inr sz"
    and pct: "0 \<le> max_per_trade_risk_pct c" and dd: "0 \<le> ds_throttle_factor dd"
  obtains adj stop where "stop = (case stop_distance rq of None \<Rightarrow> 0 | Some d \<Rightarrow> d)"
    "0 \<le> adj" "adj \<le> max_per_trade_risk_pct c" "0 < head \<Longrightarrow> 0 < equity \<Longrightarrow> adj \<le> ddiv head equity"
    "quantize round_down (lot_step_exp c) (fst (raw_lots c (dmul equity adj) stop)) = Inr (recommended_size sz)"
    "risk_amount sz = (if 0 < recommended_size sz then dmul equity adj else 0)"
proof -
  from sz obtain u where u: "uncertainty_discount rq c = Inr u"
    by (auto simp: size_request_def Let_def split: sum.splits)
  let ?adj = "adjusted_pct c (predictive_quality rq c) u (ds_throttle_factor dd) (liquidity_factor rq c)
    (if dsub 1 (crowding_penalty conc) < 0 then 0 else dsub 1 (crowding_penalty conc)) (heat_cap_of c h) head equity"
  have "0 \<le> ?adj"
    using pct dd uncertainty_nonneg [OF u] by (intro adjusted_pct_nonneg) simp_all
  moreover have "?adj \<le> max_per_trade_risk_pct c" by (rule adjusted_pct_le)
  moreover have "0 < head \<Longrightarrow> 0 < equity \<Longrightarrow> ?adj \<le> ddiv head equity" by (rule adjusted_pct_budget)
  ultimately show ?thesis
    using sz u by (intro that [of _ ?adj]) (auto simp: size_request_def Let_def split: sum.splits prod.splits)
qed

text \<open>A position whose lots are the risk over the loss per lot loses at most the risk at its stop.\<close>

lemma lots_loss:
  assumes d: "0 < d" and cs: "0 < cs" and risk: "0 \<le> risk" and lots: "0 \<le> lots"
    and le: "lots \<le> ddiv risk (dmul d cs)"
  shows "leq_upto 2 (lots * (d * cs)) risk"
proof -
  have D: "0 < dmul d cs" using d cs by (simp add: dmul_def)
  have "leq_upto 1 lots (risk / dmul d cs)" using le upto_ddiv [OF risk D] by (rule le_upto_trans)
  from upto_mult [OF this, of "dmul d cs"] D have l: "leq_upto 1 (dmul d cs * lots) risk"
    by (simp add: field_simps)
  have "leq_upto 1 (d * cs) (dmul d cs)" unfolding dmul_def using d cs by (intro upto_unfix) simp
  from upto_mult [OF this lots] have "leq_upto 1 (lots * (d * cs)) (dmul d cs * lots)"
    by (simp add: mult.commute)
  from upto_trans [OF this l] show ?thesis by (simp add: numeral_2_eq_2)
qed

text \<open>
  The lots lie between zero and the hard cap, the loss at the stop is at most the risked share
  of the equity, and the risk fits the headroom of the budget, all up to the rounding of the
  decimal context.
\<close>

lemma size_request_bounds:
  assumes sz: "size_request c rq equity dd conc h head = Inr sz"
    and ok: "pm4_config_ok c" and dd: "0 \<le> ds_throttle_factor dd" and eq: "0 < equity" and head: "0 < head"
  shows "0 \<le> recommended_size sz" "recommended_size sz \<le> max_lots c"
    "stop_distance rq = Some d \<Longrightarrow> leq_upto 2 (recommended_size sz * (d * contract_size c)) (risk_amount sz)"
    "0 \<le> risk_amount sz"
    "leq_upto 1 (risk_amount sz) (equity * max_per_trade_risk_pct c)"
    "leq_upto 2 (risk_amount sz) head"
proof -
  from ok have pos: "0 < contract_size c" "0 \<le> max_per_trade_risk_pct c" "0 < max_lots c"
    by (simp_all add: pm4_config_ok_def is_pct_def)
  obtain adj stop where stop: "stop = (case stop_distance rq of None \<Rightarrow> 0 | Some d \<Rightarrow> d)"
    and adj: "0 \<le> adj" "adj \<le> max_per_trade_risk_pct c" "adj \<le> ddiv head equity"
    and q: "quantize round_down (lot_step_exp c) (fst (raw_lots c (dmul equity adj) stop)) = Inr (recommended_size sz)"
    and risk: "risk_amount sz = (if 0 < recommended_size sz then dmul equity adj else 0)"
    using size_requestE [OF sz pos(2) dd] head eq by metis
  have r0: "0 \<le> dmul equity adj" using eq adj by simp
  then have raw: "0 \<le> fst (raw_lots c (dmul equity adj) stop)"
    "fst (raw_lots c (dmul equity adj) stop) \<le> max_lots c"
    using pos by (simp_all add: raw_lots_nonneg raw_lots_le)
  note qd = quantize_down_le [OF raw(1) q]
  show "0 \<le> recommended_size sz" and "recommended_size sz \<le> max_lots c" using qd raw(2) by simp_all
  show "0 \<le> risk_amount sz" using r0 risk by simp
  have e: "leq_upto 1 (dmul equity adj) (equity * adj)" using eq adj by (intro upto_dmul) simp_all
  have le: "equity * adj \<le> equity * max_per_trade_risk_pct c" using adj eq by simp
  then have "leq_upto 1 (dmul equity adj) (equity * max_per_trade_risk_pct c)"
    by (rule upto_le_trans [OF e])
  then show "leq_upto 1 (risk_amount sz) (equity * max_per_trade_risk_pct c)"
    using risk pos eq by (auto simp: upto_le)
  have "leq_upto 1 (equity * adj) head"
    using upto_mult [OF le_upto_trans [OF adj(3) upto_ddiv [of head equity]], of equity] head eq by simp
  from upto_trans [OF e this] show "leq_upto 2 (risk_amount sz) head"
    using risk head by (auto simp: upto_le numeral_2_eq_2)
  show "leq_upto 2 (recommended_size sz * (d * contract_size c)) (risk_amount sz)"
    if d: "stop_distance rq = Some d"
  proof (cases "0 < recommended_size sz")
    case True
    have dp: "0 < d" using d by (rule stop_distance_pos)
    have "recommended_size sz \<le> ddiv (dmul equity adj) (dmul d (contract_size c))"
      using qd(2) raw_lots_risk [OF dp pos(1) r0] stop d by simp
    from lots_loss [OF dp pos(1) r0 qd(1) this] True risk show ?thesis by simp
  next
    case False
    then have "recommended_size sz = 0" using qd(1) by simp
    then show ?thesis using r0 risk by (simp add: leq_upto_def)
  qed
qed

subsection \<open>A fresh ALLOW\<close>

lemma request_drawdown_throttle: "0 \<le> ds_throttle_factor (request_drawdown rq s)"
  using throttle_bounds by (simp add: request_drawdown_def drawdown_evaluate_def Let_def)

lemma after_protect_kept:
  "throttle_stage (request_drawdown rq s) \<noteq> DD_KILL_PROTECTED \<Longrightarrow> after_protect now rq s = s"
  by (simp add: after_protect_def request_drawdown_def)

lemma gate_intake_NilD:
  assumes "gate_intake_reasons now rq s = []"
  shows "g_feature_enabled s \<and> risk_validate_intake rq (g_config s) now = [] \<and> \<not> request_blocked rq (g_kill s)"
  using assms by (simp add: gate_intake_reasons_def request_blocked_def)

lemma allow_outcome:
  assumes k: "sized_cards now rq s = Inr k" and allow: "rv_status (request_verdict now rq s k) = ALLOW"
  shows "admits (kc_admission (first_cards now rq s))"
    and "pt_passed (fst (controls_of now rq s k))"
    and "rb_sizing (request_bundle now rq s k) = kc_sizing k" and "0 < recommended_size (kc_sizing k)"
    and "size_request (g_config s) rq (gate_equity (g_config s) rq) (request_drawdown rq s)
           (kx_concentration (request_context now rq s)) (request_heat rq s)
           (alloc_headroom (request_levels rq s)) = Inr (kc_sizing k)"
    and "recommended_volume (request_verdict now rq s k) = Some (recommended_size (kc_sizing k))"
proof -
  let ?x = "request_context now rq s" and ?pt = "fst (controls_of now rq s k)"
  have ad: "admits (kc_admission (gate_controlled ?x ?pt k))"
    using allow by (simp add: request_verdict_def verdict_allow_iff)
  from controlled_admits [OF this] have pt: "pt_passed ?pt" and same: "gate_controlled ?x ?pt k = k" by simp_all
  from ad same k sized_admits [of rq ?x s "first_cards now rq s" k]
  have sized: "admits (kc_admission (first_cards now rq s)) \<and> size_request (g_config s) rq (kx_equity ?x)
      (kx_drawdown ?x) (kx_concentration ?x) (kc_heat (first_cards now rq s))
      (residual_headroom (kc_budget (first_cards now rq s))) = Inr (kc_sizing k) \<and>
      0 < recommended_size (kc_sizing k)"
    by (simp only: sized_cards_def)
  show "admits (kc_admission (first_cards now rq s))" and "pt_passed ?pt"
    and "0 < recommended_size (kc_sizing k)" using sized pt by simp_all
  show "size_request (g_config s) rq (gate_equity (g_config s) rq) (request_drawdown rq s)
           (kx_concentration ?x) (request_heat rq s) (alloc_headroom (request_levels rq s)) = Inr (kc_sizing k)"
    using sized by simp
  show "rb_sizing (request_bundle now rq s k) = kc_sizing k" by (simp add: request_bundle_cards same)
  show "recommended_volume (request_verdict now rq s k) = Some (recommended_size (kc_sizing k))"
    using allow by (simp add: request_verdict_def same)
qed

lemma gate_equity_pos: "pm4_config_ok c \<Longrightarrow> 0 < gate_equity c rq"
  by (simp add: gate_equity_def pm4_config_ok_def)

end
