(* ===== verification/RiskSamples.thy ===== *)
theory RiskSamples
  imports RiskProps
begin

section \<open>A sample request\<close>

text \<open>
  A EURUSD request that the default configuration allows, and the gates the witnesses of the
  properties run it on.
\<close>

definition sample_intent :: TradeIntent where
  "sample_intent =
     \<lparr>ti_intent_id = 1, ti_event_id = 2, ti_correlation_id = 3, ti_causation_id = None,
      ti_idempotency_key = ''k1'', ti_occurred_at = 0, ti_symbol = ''EURUSD'', ti_direction = BUY,
      ti_entry_type = ET_MARKET, ti_requested_volume = None, ti_entry_price = Some 1,
      ti_exit_plan = Some \<lparr>xp_stop_loss = None, xp_take_profit = None, xp_time_stop_seconds = None,
        xp_notes = None, xp_stop_type = ST_HARD, xp_stop_price = Some (99/100), xp_tp_plan = None,
        xp_trail_plan = None, xp_time_stop_plan = None\<rparr>,
      ti_consensus = CD_GO_LONG, ti_producer = ''pm3'', ti_thesis = None, ti_profile_id = None,
      ti_version_id = None, ti_entry_zone_low = None, ti_entry_zone_high = None,
      ti_confidence_score = 1, ti_setup_quality = 1, ti_consensus_score = 1, ti_regime_state = None,
      ti_urgency_class = UC_NORMAL, ti_signal_expiry = None, ti_diagnostics = [],
      ti_source_candidate_id = None, ti_pm2_rank = None, ti_created_at = None\<rparr>"

definition sample_candidate :: RankedCandidate where
  "sample_candidate =
     \<lparr>rk_candidate_id = 4, rk_event_id = 5, rk_correlation_id = 3, rk_causation_id = None,
      rk_symbol = ''EURUSD'', rk_as_of = 0, rk_final_rank = 1, rk_shortlist_rank = None,
      rk_scorecard = \<lparr>sc_long_score = 90, sc_short_score = 10, sc_final_confluence_score = 90,
        sc_directional_edge_gap = 80, sc_regime_score = 90, sc_structure_score = 90,
        sc_momentum_score = 90, sc_volatility_score = 90, sc_session_score = 90,
        sc_liquidity_score = 100, sc_correlation_penalty = 0, sc_feature_redundancy_penalty = 0,
        sc_confidence_score = 90, sc_quality_tier = QT_HIGH, sc_components = [], sc_vetoes = []\<rparr>,
      rk_state = \<lparr>cq_state = QS_CONFIRMED, cq_entered_at = 0, cq_persistence_count = 1,
        cq_cooldown_until = None, cq_stale_after = None, cq_last_transition_reason = ''confirmed''\<rparr>,
      rk_context = \<lparr>cc_candidate_id = 4, cc_event_id = 5, cc_correlation_id = 3, cc_symbol = ''EURUSD'',
        cc_as_of = 0, cc_timeframes = [''H1''], cc_regime = RG_TRENDING, cc_regime_confidence = 1,
        cc_sessions = [SN_LONDON], cc_session_quality = 1, cc_data_quality = DQ_OK,
        cc_feature_family_summary = [], cc_feature_set_version = ''v1'', cc_producer = ''pm2''\<rparr>,
      rk_suppression = None, rk_correlation_cluster = None, rk_handoff_eligibility = True,
      rk_side_bias = ''long'', rk_timing_valid_until = None, rk_producer = ''pm2''\<rparr>"

definition sample_forecast :: ForecastOutput where
  "sample_forecast =
     \<lparr>fo_forecast_id = 6, fo_intent_id = 1, fo_event_id = 7, fo_correlation_id = 3,
      fo_causation_id = None, fo_occurred_at = 0, fo_symbol = ''EURUSD'', fo_horizon_bars = 1,
      fo_quantiles = \<lparr>q05 = 998/1000, q25 = 999/1000, q50 = 1, q75 = 1001/1000, q95 = 1002/1000\<rparr>,
      fo_model = \<lparr>mv_model_id = ''m'', mv_version = ''1'', mv_trained_at = None, mv_registry_uri = None\<rparr>,
      fo_producer = ''pm3'', fo_coverage = None, fo_sample_size = Some 20, fo_horizon_seconds = None,
      fo_diagnostics = [(''valid'', DBool True)]\<rparr>"

definition sample_exposure :: ExposureSnapshot where
  "sample_exposure =
     \<lparr>ex_as_of = 0, gross_notional = 0, net_notional = 0, ex_open_position_count = 0, heat_r = 0,
      ex_equity = 100000, realized_pnl = 0, unrealized_pnl = 0, ex_peak_equity = 100000,
      intraday_pnl = 0, ex_losing_streak = 0, ex_pending_order_count = 0, ex_symbols = [],
      ex_clusters = [], directional_net = 0\<rparr>"

definition sample_request :: RiskIntakeRequest where
  "sample_request =
     \<lparr>rq_workflow_id = 8, rq_as_of = 0, rq_intent = sample_intent, rq_candidate = Some sample_candidate,
      rq_forecast = Some sample_forecast, rq_exposure = sample_exposure, rq_mid_price = Some 1,
      rq_spread = None, rq_session = Some ''london'', rq_trace = []\<rparr>"

definition sample_gate :: risk_gate where
  "sample_gate = risk_gate_init pm4_config_default True"

text \<open>The account after losing a tenth of its peak.\<close>

definition drawn_request :: RiskIntakeRequest where
  "drawn_request = sample_request\<lparr>rq_exposure := sample_exposure\<lparr>unrealized_pnl := - 10000\<rparr>\<rparr>"

definition tripped_gate :: risk_gate where
  "tripped_gate = gate_do (G_trip 0 ''drill'' KS_ACCOUNT None ''operator'') sample_gate"

lemma sample_gate_reach: "gate_reach sample_gate"
  unfolding sample_gate_def by (rule gate_reach.init, rule pm4_config_default_ok)

lemma tripped_gate_reach: "gate_reach tripped_gate"
  unfolding tripped_gate_def by (rule gate_reach.call, rule sample_gate_reach)


text \<open>The cards of its evaluation, stage by stage.\<close>

definition sample_drawdown :: DrawdownStateCard where
  "sample_drawdown =
     \<lparr>current_drawdown = 0, peak_to_trough_drawdown = 0, intraday_loss = 0, ds_losing_streak = 0,
      throttle_stage = DD_NORMAL, protection_stage = DD_NORMAL, freeze_state = False,
      ds_throttle_factor = 1\<rparr>"

definition sample_concentration :: ConcentrationExposureCard where
  "sample_concentration =
     \<lparr>symbol_overlap = [], currency_overlap = [''EUR'', ''USD''],
      cluster_exposure = [(''european_majors'', 5/1000)], crowding_penalty = 0,
      stressed_concentration_state = CONC_DIVERSIFIED, usd_concentration = 5/1000,
      european_basket = 5/1000, one_per_cluster_blocked = False, ce_cluster_id = Some ''european_majors''\<rparr>"

definition sample_heat :: PortfolioHeatCard where
  "sample_heat =
     \<lparr>raw_heat = 5/1000, effective_heat = 5/1000, cluster_heat = 5/1000, ph_directional_heat = 5/1000,
      session_heat = 5/1000, residual_heat_headroom = 15/1000, heat_regime = HEAT_COOL,
      stressed_heat = 5/1000, proposed_incremental_heat = 5/1000\<rparr>"

definition sample_sizing :: PositionSizingDecision where
  "sample_sizing =
     \<lparr>recommended_size = 37/100, size_unit = ''lots'', base_risk_percentage = 5/1000,
      adjusted_risk_percentage = 375/100000, ps_stop_distance = 1/100,
      stop_distance_basis = ''stop_distance'', ps_uncertainty_discount = 1,
      predictive_quality_factor = 1, drawdown_throttle = 1, ps_liquidity_factor = 1,
      correlation_penalty = 0, heat_cap_factor = 75/100, hard_cap_applied = False,
      ps_account_equity = 100000, risk_amount = 375\<rparr>"

lemma sample_gate_sel [simp]:
  "g_config sample_gate = pm4_config_default" "g_feature_enabled sample_gate = True"
  "g_consumed sample_gate = []" "g_forced_stage sample_gate = None" "g_hits sample_gate = []"
  "g_by_key sample_gate = []" "g_forced_mode sample_gate = None" "g_kill sample_gate = kill_init pm4_config_default"
  by (simp_all add: sample_gate_def risk_gate_init_def)

lemma sample_drawdown: "request_drawdown sample_request sample_gate = sample_drawdown"
  by code_simp

lemma sample_protect: "after_protect 0 sample_request sample_gate = sample_gate"
  by (rule after_protect_kept) (simp add: sample_drawdown sample_drawdown_def)

lemma sample_equity: "gate_equity pm4_config_default sample_request = 100000"
  by code_simp

lemma sample_naive: "dmul 100000 (max_per_trade_risk_pct pm4_config_default) = 500"
  by code_simp

lemma sample_concentration_run:
  "concentration_evaluate pm4_config_default sample_request sample_exposure 500 100000 = sample_concentration"
  by code_simp

lemma sample_concentration:
  "kx_concentration (request_context 0 sample_request sample_gate) = sample_concentration"
  using sample_concentration_run
  by (simp add: sample_equity sample_naive) (simp add: sample_request_def)

lemma sample_heat_run:
  "heat_evaluate pm4_config_default sample_exposure sample_concentration 500 100000 False = sample_heat"
  by code_simp

lemma sample_heat: "request_heat sample_request sample_gate = sample_heat"
  using sample_heat_run sample_concentration
  by (simp add: request_heat_def sample_equity sample_naive)
    (simp add: sample_request_def sample_concentration_def stressed_states_def)

lemma sample_headroom: "alloc_headroom (request_levels sample_request sample_gate) = 500"
  by code_simp

lemma sample_intake: "gate_intake_reasons 0 sample_request sample_gate = []"
  by code_simp

lemma sample_mode: "kx_mode (request_context 0 sample_request sample_gate) = MODE_NORMAL"
  by (simp add: request_context_def sample_protect sample_drawdown gate_context_def Let_def gate_mode_def mode_from_def
      sample_drawdown_def)

lemma sample_vetoes:
  "admission_vetoes pm4_config_default sample_request [] sample_drawdown sample_heat sample_concentration
     MODE_NORMAL 500 True = []"
  by code_simp

lemma sample_size:
  "size_request pm4_config_default sample_request 100000 sample_drawdown sample_concentration sample_heat 500 =
     Inr sample_sizing"
  by code_simp

lemma sample_controls:
  "price_inside_collar sample_request pm4_config_default" "market_data_reasonable sample_request"
  "fst (burst_allow (burst_limit pm4_config_default) (pm4_burst_window_seconds pm4_config_default) 0 [])"
  "dmul (dmul (recommended_size sample_sizing) (contract_size pm4_config_default))
     (case reference_price sample_request of None \<Rightarrow> 0 | Some p \<Rightarrow> p) \<le> max_notional pm4_config_default"
  by code_simp+

lemma sample_stop: "stop_distance sample_request = Some (1/100)"
  by code_simp

lemma sample_fresh: "dict_get (g_by_key sample_gate) (ti_idempotency_key (rq_intent sample_request)) = None"
  by (simp add: dict_simps)

end
