(* ===== verification/RiskGuarantees.thy ===== *)
theory RiskGuarantees
  imports RiskSamples Latch
begin

section \<open>Guarantees of the risk gate\<close>

text \<open>
  The invariant of the gate over all call sequences, and its properties: an ALLOW verdict went
  through every check and respects the size, loss and budget limits; a blocking kill switch
  yields HALT; only a reasoned recovery releases the latch; a published verdict is final; the
  evaluation returns.
\<close>

subsection \<open>The invariant\<close>

definition bundle_sound :: "Pm4RiskGateConfig \<Rightarrow> RiskPublicationBundle \<Rightarrow> bool" where
  "bundle_sound c b \<longleftrightarrow>
     \<not> execution_permitted b \<and>
     (rb_handoff_eligibility b = HO_ELIGIBLE_PENDING_PM5 \<longleftrightarrow> rv_status (rb_verdict b) = ALLOW) \<and>
     (case recommended_volume (rb_verdict b) of
        None \<Rightarrow> rv_status (rb_verdict b) \<noteq> ALLOW
      | Some q \<Rightarrow> rv_status (rb_verdict b) = ALLOW \<and> q = recommended_size (rb_sizing b) \<and>
          0 < q \<and> q \<le> max_lots c) \<and>
     rv_expires_at (rb_verdict b) = Some (rb_occurred_at b + seconds (verdict_ttl_seconds c))"

lemma request_sizing_bounds:
  assumes ok: "pm4_config_ok (g_config s)" and k: "sized_cards now rq s = Inr k"
    and allow: "rv_status (request_verdict now rq s k) = ALLOW"
  shows "recommended_size (kc_sizing k) \<le> max_lots (g_config s)"
    "stop_distance rq = Some d \<Longrightarrow>
       leq_upto 2 (recommended_size (kc_sizing k) * (d * contract_size (g_config s))) (risk_amount (kc_sizing k))"
    "0 \<le> risk_amount (kc_sizing k)"
    "leq_upto 1 (risk_amount (kc_sizing k)) (gate_equity (g_config s) rq * max_per_trade_risk_pct (g_config s))"
    "leq_upto 2 (risk_amount (kc_sizing k)) (alloc_headroom (request_levels rq s))"
proof -
  note out = allow_outcome [OF k allow]
  have head: "0 < alloc_headroom (request_levels rq s)" using first_admits [OF out(1)] by simp
  note b = size_request_bounds [OF out(5) ok request_drawdown_throttle gate_equity_pos [OF ok] head]
  show "recommended_size (kc_sizing k) \<le> max_lots (g_config s)"
    "stop_distance rq = Some d \<Longrightarrow>
       leq_upto 2 (recommended_size (kc_sizing k) * (d * contract_size (g_config s))) (risk_amount (kc_sizing k))"
    "0 \<le> risk_amount (kc_sizing k)"
    "leq_upto 1 (risk_amount (kc_sizing k)) (gate_equity (g_config s) rq * max_per_trade_risk_pct (g_config s))"
    "leq_upto 2 (risk_amount (kc_sizing k)) (alloc_headroom (request_levels rq s))"
    using b by simp_all
qed

lemma request_bundle_sound:
  assumes ok: "pm4_config_ok (g_config s)" and k: "sized_cards now rq s = Inr k"
  shows "bundle_sound (g_config s) (request_bundle now rq s k)"
proof (cases "rv_status (request_verdict now rq s k) = ALLOW")
  case True
  with allow_outcome [OF k True] request_sizing_bounds(1) [OF ok k True] show ?thesis
    by (simp add: bundle_sound_def) (simp add: request_verdict_def gate_verdict_handoff)
next
  case False
  then show ?thesis
    by (simp add: bundle_sound_def request_verdict_def gate_verdict_handoff)
qed

text \<open>Keys that the publication never consumes.\<close>

definition untouched_keys :: "string set" where
  "untouched_keys = {key. \<exists>x. key = ''regime:'' @ x \<or> key = ''cluster:'' @ x}"

definition gate_inv :: "risk_gate \<Rightarrow> bool" where
  "gate_inv s \<longleftrightarrow>
     pm4_config_ok (g_config s) \<and>
     (\<forall>key. 0 \<le> alloc_used (g_consumed s) key) \<and>
     (\<forall>key \<in> untouched_keys. alloc_used (g_consumed s) key = 0) \<and>
     (kill_latched (g_kill s) \<longrightarrow> ks_tripped_at (g_kill s) \<noteq> None) \<and>
     list_all (bundle_sound (g_config s)) (g_published s) \<and>
     length (g_intents s) = length (g_published s) \<and> distinct (g_intents s) \<and>
     g_by_key s = zip (g_intents s) (g_published s) \<and>
     length (g_hits s) \<le> burst_limit (g_config s)"

lemma alloc_used_gate_consume:
  assumes "0 \<le> amount" and "\<And>key. 0 \<le> alloc_used d key"
  shows "0 \<le> alloc_used (gate_consume rq amount d) key"
  using assms by (simp add: gate_consume_def alloc_used_consume)

lemma gate_consume_untouched:
  "key \<in> untouched_keys \<Longrightarrow> alloc_used (gate_consume rq amount d) key = alloc_used d key"
  by (auto simp: untouched_keys_def gate_consume_def alloc_used_consume)

lemma kill_recover_tripped:
  "(kill_latched k \<longrightarrow> ks_tripped_at k \<noteq> None) \<Longrightarrow>
   kill_latched (kill_recover c re ac now k) \<longrightarrow> ks_tripped_at (kill_recover c re ac now k) \<noteq> None"
  by (auto simp: kill_recover_def kill_latched_def split: prod.splits)

lemma after_protect_tripped:
  "(kill_latched (g_kill s) \<longrightarrow> ks_tripped_at (g_kill s) \<noteq> None) \<Longrightarrow>
   kill_latched (g_kill (after_protect now rq s)) \<longrightarrow> ks_tripped_at (g_kill (after_protect now rq s)) \<noteq> None"
  by (simp add: after_protect_def kill_trip_def)

lemma controls_of_hits:
  "length (g_hits s) \<le> burst_limit (g_config s) \<Longrightarrow>
   length (snd (controls_of now rq s k)) \<le> burst_limit (g_config s)"
  unfolding controls_of_def pretrade_evaluate_def Let_def
  by (simp add: case_prod_unfold burst_allow_bound)

lemma after_publish_inv:
  assumes inv: "gate_inv s" and new: "dict_get (g_by_key s) (ti_idempotency_key (rq_intent rq)) = None"
    and k: "sized_cards now rq s = Inr k" and t: "after_publish now rq s k t"
  shows "gate_inv t"
proof -
  let ?b = "request_bundle now rq s k" and ?key = "ti_idempotency_key (rq_intent rq)"
  from inv have ok: "pm4_config_ok (g_config s)" and len: "length (g_intents s) = length (g_published s)"
    and by_key: "g_by_key s = zip (g_intents s) (g_published s)" by (simp_all add: gate_inv_def)
  have risk: "0 \<le> risk_amount (rb_sizing ?b)" if "rv_status (request_verdict now rq s k) = ALLOW"
    using request_sizing_bounds(3) [OF ok k that] allow_outcome(3) [OF k that] by simp
  have fresh: "?key \<notin> set (g_intents s)" using new len by (simp add: by_key dict_get_None)
  have put: "dict_put ?key ?b (g_by_key s) = zip (g_intents s @ [?key]) (g_published s @ [?b])"
    using new len by (simp add: dict_put_new by_key)
  show ?thesis
    using inv t fresh put risk request_bundle_sound [OF ok k] after_protect_tripped [of s now rq]
      controls_of_hits [of s now rq k]
    by (auto simp: gate_inv_def after_publish_def Let_def alloc_used_gate_consume gate_consume_untouched
        split: if_splits)
qed

lemma evaluate_request_cases:
  obtains (cached) b where "dict_get (g_by_key s) (ti_idempotency_key (rq_intent rq)) = Some b"
      "evaluate_request now rq s = (Inr b, s)"
  | (fresh) "dict_get (g_by_key s) (ti_idempotency_key (rq_intent rq)) = None"
      "evaluate_request now rq s = evaluate_fresh now rq s"
  by (cases "dict_get (g_by_key s) (ti_idempotency_key (rq_intent rq))")
    (simp_all add: evaluate_request_def run_simps)

lemma evaluate_request_inv:
  assumes "gate_inv s"
  shows "gate_inv (snd (evaluate_request now rq s))"
proof (cases rule: evaluate_request_cases [of s rq now])
  case (cached b)
  with assms show ?thesis by simp
next
  case fresh
  show ?thesis
  proof (cases rule: evaluate_fresh_cases [of now rq s])
    case (raised e t)
    then show ?thesis using assms fresh after_protect_tripped [of s now rq] by (simp add: gate_inv_def)
  next
    case (published k t)
    with after_publish_inv [OF assms fresh(1) published(1, 3)] fresh(2) show ?thesis by simp
  qed
qed

lemmas operator_defs = trip_kill_switch_def recover_kill_switch_def force_mode_def force_stage_def
  g_record_def g_incident_def

lemma gate_do_inv:
  assumes "gate_inv s"
  shows "gate_inv (gate_do c s)"
proof (cases c)
  case (G_evaluate now rq)
  with evaluate_request_inv [OF assms] show ?thesis by simp
next
  case (G_recover now re ac)
  with assms show ?thesis using kill_recover_tripped [of "g_kill s" "g_config s" re ac now]
    by (simp add: operator_defs run_simps gate_inv_def)
qed (use assms in \<open>simp_all add: operator_defs run_simps gate_inv_def kill_trip_def\<close>)

lemma gate_reach_inv: "gate_reach s \<Longrightarrow> gate_inv s"
proof (induction rule: gate_reach.induct)
  case (init c feature)
  then show ?case by (simp add: gate_inv_def risk_gate_init_def alloc_used_def dict_simps)
qed (rule gate_do_inv)

subsection \<open>What ALLOW means\<close>

lemma evaluate_fresh_Inr:
  assumes "dict_get (g_by_key s) (ti_idempotency_key (rq_intent rq)) = None"
    and "evaluate_request now rq s = (Inr b, t)"
  obtains k where "sized_cards now rq s = Inr k" "b = request_bundle now rq s k" "after_publish now rq s k t"
proof -
  have run: "evaluate_fresh now rq s = (Inr b, t)" using assms by (simp add: evaluate_request_def run_simps)
  show ?thesis
  proof (cases rule: evaluate_fresh_cases [of now rq s])
    case (raised e t')
    with run show ?thesis by simp
  next
    case (published k t')
    with run show ?thesis by (intro that [of k]) simp_all
  qed
qed

lemma request_mode_eq:
  "kx_mode (request_context now rq s) =
     mode_from (throttle_stage (request_drawdown rq s)) (request_blocked rq (g_kill (after_protect now rq s)))
       (g_forced_mode s)"
  by (simp add: request_context_def gate_context_def Let_def gate_mode_def request_blocked_def)

text \<open>The mode, from the state before the evaluation.\<close>

definition request_mode :: "RiskIntakeRequest \<Rightarrow> risk_gate \<Rightarrow> RiskMode" where
  "request_mode rq s =
     mode_from (throttle_stage (request_drawdown rq s)) (request_blocked rq (g_kill s)) (g_forced_mode s)"

definition request_concentration :: "RiskIntakeRequest \<Rightarrow> risk_gate \<Rightarrow> ConcentrationExposureCard" where
  "request_concentration rq s =
     concentration_evaluate (g_config s) rq (rq_exposure rq)
       (dmul (gate_equity (g_config s) rq) (max_per_trade_risk_pct (g_config s))) (gate_equity (g_config s) rq)"

lemma allow_complete:
  assumes "dict_get (g_by_key s) (ti_idempotency_key (rq_intent rq)) = None"
    and "admission_vetoes (g_config s) rq (gate_intake_reasons now rq s) (request_drawdown rq s) (request_heat rq s)
      (request_concentration rq s) (request_mode rq s) (alloc_headroom (request_levels rq s)) (g_feature_enabled s) = []"
    and "size_request (g_config s) rq (gate_equity (g_config s) rq) (request_drawdown rq s) (request_concentration rq s)
      (request_heat rq s) (alloc_headroom (request_levels rq s)) = Inr sz"
    and "0 < recommended_size sz" and "recommended_size sz \<le> max_lots (g_config s)"
    and "dmul (dmul (recommended_size sz) (contract_size (g_config s)))
      (case reference_price rq of None \<Rightarrow> 0 | Some p \<Rightarrow> p) \<le> max_notional (g_config s)"
    and "price_inside_collar rq (g_config s)" and "market_data_reasonable rq"
    and "fst (burst_allow (burst_limit (g_config s)) (pm4_burst_window_seconds (g_config s)) now (g_hits s))"
  shows "\<exists>b t. evaluate_request now rq s = (Inr b, t) \<and> rv_status (rb_verdict b) = ALLOW \<and>
    recommended_volume (rb_verdict b) = Some (recommended_size sz) \<and> rb_sizing b = sz"
proof -
  note nil = admission_vetoes_NilD [OF assms(2)]
  then have same: "after_protect now rq s = s" by (simp add: after_protect_kept)
  have mode: "kx_mode (request_context now rq s) = request_mode rq s"
    unfolding request_mode_eq request_mode_def same ..
  have adm: "admits (kc_admission (first_cards now rq s))"
    using assms(2) unfolding first_cards_admission admits_decide_iff same mode by (simp add: request_concentration_def)
  obtain k where k: "sized_cards now rq s = Inr k" and ksz: "kc_sizing k = sz"
    and kadm: "kc_admission k = kc_admission (first_cards now rq s)"
    using adm assms(3, 4) by (simp add: sized_cards_def gate_sized_def Let_def request_concentration_def)
  have pt: "pt_passed (fst (controls_of now rq s k))"
    using assms(4-9) by (simp add: controls_of_def pretrade_passed_iff ksz)
  have ctl: "gate_controlled (request_context now rq s) (fst (controls_of now rq s k)) k = k"
    using pt by (simp add: gate_controlled_def)
  have v: "rv_status (request_verdict now rq s k) = ALLOW"
    using adm kadm nil mode by (simp add: request_verdict_def ctl verdict_allow_iff)
  have out: "rb_sizing (request_bundle now rq s k) = sz"
    "recommended_volume (request_verdict now rq s k) = Some (recommended_size sz)"
    using allow_outcome(3, 6) [OF k v] ksz by simp_all
  show ?thesis
  proof (cases rule: evaluate_fresh_cases [of now rq s])
    case (published k' t)
    with k v out assms(1) show ?thesis by (simp add: evaluate_request_def run_simps)
  qed (use k in simp)
qed

text \<open>
  Claim C36. A good request is not turned away: a new request with no admission veto whose sizing
  is positive, within the hard cap and the notional limit, priced inside the collar on reasonable
  market data while the burst tracker has room, gets ALLOW for exactly the computed size.
\<close>

theorem pm4_allow_complete:
  assumes "dict_get (g_by_key s) (ti_idempotency_key (rq_intent rq)) = None"
    and "admission_vetoes (g_config s) rq (gate_intake_reasons now rq s) (request_drawdown rq s) (request_heat rq s)
      (request_concentration rq s) (request_mode rq s) (alloc_headroom (request_levels rq s)) (g_feature_enabled s) = []"
    and "size_request (g_config s) rq (gate_equity (g_config s) rq) (request_drawdown rq s) (request_concentration rq s)
      (request_heat rq s) (alloc_headroom (request_levels rq s)) = Inr sz"
    and "0 < recommended_size sz" and "recommended_size sz \<le> max_lots (g_config s)"
    and "dmul (dmul (recommended_size sz) (contract_size (g_config s)))
      (case reference_price rq of None \<Rightarrow> 0 | Some p \<Rightarrow> p) \<le> max_notional (g_config s)"
    and "price_inside_collar rq (g_config s)" and "market_data_reasonable rq"
    and "fst (burst_allow (burst_limit (g_config s)) (pm4_burst_window_seconds (g_config s)) now (g_hits s))"
  shows "\<exists>b t. evaluate_request now rq s = (Inr b, t) \<and> rv_status (rb_verdict b) = ALLOW \<and>
    recommended_volume (rb_verdict b) = Some (recommended_size sz) \<and> rb_sizing b = sz"
  using assms by (rule allow_complete)

lemma sample_unblocked: "\<not> request_blocked sample_request (kill_init pm4_config_default)"
  by (simp add: request_blocked_def)

lemma sample_request_mode: "request_mode sample_request sample_gate = MODE_NORMAL"
  by (simp add: request_mode_def sample_unblocked sample_drawdown sample_drawdown_def mode_from_def)

lemma sample_request_concentration: "request_concentration sample_request sample_gate = sample_concentration"
  using sample_concentration by (simp add: request_concentration_def)

lemmas sample_stages = sample_intake sample_drawdown sample_heat sample_headroom sample_equity
  sample_request_mode sample_request_concentration

lemma sample_complete:
  "admission_vetoes (g_config sample_gate) sample_request (gate_intake_reasons 0 sample_request sample_gate)
     (request_drawdown sample_request sample_gate) (request_heat sample_request sample_gate)
     (request_concentration sample_request sample_gate) (request_mode sample_request sample_gate)
     (alloc_headroom (request_levels sample_request sample_gate)) (g_feature_enabled sample_gate) = []"
  "size_request (g_config sample_gate) sample_request (gate_equity (g_config sample_gate) sample_request)
     (request_drawdown sample_request sample_gate) (request_concentration sample_request sample_gate)
     (request_heat sample_request sample_gate) (alloc_headroom (request_levels sample_request sample_gate)) =
     Inr sample_sizing"
  "0 < recommended_size sample_sizing" "recommended_size sample_sizing \<le> max_lots (g_config sample_gate)"
  using sample_vetoes sample_size
  by (simp_all add: sample_stages) (simp_all add: sample_sizing_def pm4_config_default_def)

lemma sample_passes:
  "dmul (dmul (recommended_size sample_sizing) (contract_size (g_config sample_gate)))
     (case reference_price sample_request of None \<Rightarrow> 0 | Some p \<Rightarrow> p) \<le> max_notional (g_config sample_gate)"
  "price_inside_collar sample_request (g_config sample_gate)" "market_data_reasonable sample_request"
  "fst (burst_allow (burst_limit (g_config sample_gate)) (pm4_burst_window_seconds (g_config sample_gate)) 0
     (g_hits sample_gate))"
  using sample_controls by simp_all

lemma sample_evaluated:
  obtains b t where "evaluate_request 0 sample_request sample_gate = (Inr b, t)" "rv_status (rb_verdict b) = ALLOW"
  using allow_complete [OF sample_fresh sample_complete sample_passes] by blast

theorem pm4_allow_complete_witness:
  "\<exists>b t. evaluate_request 0 sample_request sample_gate = (Inr b, t) \<and> rv_status (rb_verdict b) = ALLOW \<and>
     recommended_volume (rb_verdict b) = Some (37/100)"
proof -
  have "recommended_size sample_sizing = 37/100" by (simp add: sample_sizing_def)
  with pm4_allow_complete [OF sample_fresh sample_complete sample_passes] show ?thesis by metis
qed

lemma allow_sound:
  assumes "dict_get (g_by_key s) (ti_idempotency_key (rq_intent rq)) = None"
    and "evaluate_request now rq s = (Inr b, t)" and "rv_status (rb_verdict b) = ALLOW"
  shows "g_feature_enabled s \<and> \<not> request_blocked rq (g_kill s) \<and>
    rb_risk_mode b \<notin> set MODE_BLOCKS_NEW_RISK \<and>
    throttle_stage (rb_drawdown b) \<notin> {DD_FREEZE, DD_KILL_PROTECTED} \<and>
    (\<exists>cand fc d. rq_candidate rq = Some cand \<and> rq_forecast rq = Some fc \<and> stop_distance rq = Some d \<and>
       fresh_at (g_config s) now (ti_occurred_at (rq_intent rq)) \<and> fresh_at (g_config s) now (rk_as_of cand) \<and>
       fresh_at (g_config s) now (fo_occurred_at fc) \<and> rk_handoff_eligibility cand \<and>
       rk_symbol cand = ti_symbol (rq_intent rq) \<and> fo_symbol fc = ti_symbol (rq_intent rq) \<and>
       fo_intent_id fc = ti_intent_id (rq_intent rq) \<and>
       min_stop_distance (g_config s) \<le> d \<and> d \<le> max_stop_distance (g_config s)) \<and>
    (\<forall>name limit used. (name, limit, used) \<in> set (request_levels rq s) \<longrightarrow> used < limit) \<and>
    effective_heat (request_heat rq s) < max_effective_heat (g_config s) \<and>
    (one_per_cluster (g_config s) \<longrightarrow> (\<forall>sy \<in> set (ex_symbols (rq_exposure rq)).
       cluster_id sy \<noteq> request_cluster rq \<and> sy \<noteq> ti_symbol (rq_intent rq))) \<and>
    pt_passed (rb_pretrade b) \<and> price_inside_collar rq (g_config s) \<and> market_data_reasonable rq \<and>
    recommended_volume (rb_verdict b) = Some (recommended_size (rb_sizing b))"
proof -
  obtain k where k: "sized_cards now rq s = Inr k" and b: "b = request_bundle now rq s k"
    using evaluate_fresh_Inr [OF assms(1, 2)] by metis
  have allow: "rv_status (request_verdict now rq s k) = ALLOW" using assms(3) b by simp
  note out = allow_outcome [OF k allow]
  note adm = first_admits [OF out(1)]
  have same: "after_protect now rq s = s" using adm by (simp add: after_protect_kept)
  have nil: "g_feature_enabled s \<and> risk_validate_intake rq (g_config s) now = [] \<and> \<not> request_blocked rq (g_kill s)"
    using adm same gate_intake_NilD [of now rq s] by simp
  have levels: "\<forall>name limit used. (name, limit, used) \<in> set (request_levels rq s) \<longrightarrow> used < limit"
    using adm alloc_headroom_pos by blast
  have ctl: "price_inside_collar rq (g_config s) \<and> market_data_reasonable rq"
    using out(2) by (simp add: controls_of_def pretrade_passed_iff)
  have cluster: "one_per_cluster (g_config s) \<longrightarrow> (\<forall>sy \<in> set (ex_symbols (rq_exposure rq)).
       cluster_id sy \<noteq> request_cluster rq \<and> sy \<noteq> ti_symbol (rq_intent rq))"
    using adm by (auto simp: concentration_blocked_iff)
  from risk_validate_intake_NilD [of rq "g_config s" now] nil
  have intake: "\<exists>cand fc d. rq_candidate rq = Some cand \<and> rq_forecast rq = Some fc \<and> stop_distance rq = Some d \<and>
       fresh_at (g_config s) now (ti_occurred_at (rq_intent rq)) \<and> fresh_at (g_config s) now (rk_as_of cand) \<and>
       fresh_at (g_config s) now (fo_occurred_at fc) \<and> rk_handoff_eligibility cand \<and>
       rk_symbol cand = ti_symbol (rq_intent rq) \<and> fo_symbol fc = ti_symbol (rq_intent rq) \<and>
       fo_intent_id fc = ti_intent_id (rq_intent rq) \<and>
       min_stop_distance (g_config s) \<le> d \<and> d \<le> max_stop_distance (g_config s)"
    by blast
  show ?thesis
    using nil adm intake levels cluster out(2, 6) ctl unfolding b by (simp add: out(3))
qed

text \<open>The guards of a request, written out field by field.\<close>

definition intent_clear :: "Pm4RiskGateConfig \<Rightarrow> datetime \<Rightarrow> TradeIntent \<Rightarrow> bool" where
  "intent_clear c now t \<longleftrightarrow>
     fresh_at c now (ti_occurred_at t) \<and> (\<forall>e. ti_signal_expiry t = Some e \<longrightarrow> now \<le> e) \<and>
     ti_direction t \<noteq> FLAT \<and> \<not> blank (ti_symbol t)"

definition candidate_clear :: "Pm4RiskGateConfig \<Rightarrow> datetime \<Rightarrow> TradeIntent \<Rightarrow> RankedCandidate \<Rightarrow> bool" where
  "candidate_clear c now t k \<longleftrightarrow>
     fresh_at c now (rk_as_of k) \<and> rk_symbol k = ti_symbol t \<and>
     (\<forall>i. ti_source_candidate_id t = Some i \<longrightarrow> i = rk_candidate_id k) \<and> rk_handoff_eligibility k \<and>
     cq_state (rk_state k) \<notin> {QS_STALE, QS_SUPPRESSED, QS_INVALIDATED, QS_COOLDOWN} \<and>
     cc_data_quality (rk_context k) \<notin> {DQ_STALE, DQ_MALFORMED, DQ_INCOMPLETE} \<and>
     (\<forall>u. rk_timing_valid_until k = Some u \<longrightarrow> now \<le> u) \<and>
     sc_quality_tier (rk_scorecard k) \<noteq> QT_SUPPRESS \<and> min_liquidity_score c \<le> sc_liquidity_score (rk_scorecard k)"

definition forecast_clear :: "Pm4RiskGateConfig \<Rightarrow> datetime \<Rightarrow> TradeIntent \<Rightarrow> ForecastOutput \<Rightarrow> bool" where
  "forecast_clear c now t f \<longleftrightarrow>
     fresh_at c now (fo_occurred_at f) \<and> fo_symbol f = ti_symbol t \<and> fo_intent_id f = ti_intent_id t \<and>
     fo_diagnostics f \<noteq> [] \<and> dict_get (fo_diagnostics f) ''lookahead'' \<noteq> Some (DBool True) \<and>
     dict_get (fo_diagnostics f) ''forming_bar'' \<noteq> Some (DBool True) \<and>
     dict_get (fo_diagnostics f) ''valid'' \<noteq> Some (DBool False) \<and>
     (\<exists>n. fo_sample_size f = Some n \<and> min_forecast_samples c \<le> n)"

lemma intake_clear:
  assumes "risk_validate_intake rq c now = []"
  shows "rq_as_of rq \<le> now" and "intent_clear c now (rq_intent rq)"
    and "\<exists>f. rq_forecast rq = Some f \<and> forecast_clear c now (rq_intent rq) f"
    and "\<exists>d. stop_distance rq = Some d \<and> min_stop_distance c \<le> d \<and> d \<le> max_stop_distance c"
proof -
  from assms have parts: "intent_reasons c now (rq_intent rq) = []"
    "forecast_reasons c now (rq_intent rq) (rq_forecast rq) = []" "stop_reasons c rq = []"
    and "\<not> now < rq_as_of rq"
    by (simp_all add: risk_validate_intake_def)
  then show "rq_as_of rq \<le> now" by simp
  show "intent_clear c now (rq_intent rq)"
    using parts(1) by (auto simp: intent_reasons_def intent_clear_def stale_def fresh_at_def not_less split: option.splits)
  from parts(2) obtain f where f: "rq_forecast rq = Some f"
    by (cases "rq_forecast rq") (auto simp: forecast_reasons_def)
  with parts(2) show "\<exists>f. rq_forecast rq = Some f \<and> forecast_clear c now (rq_intent rq) f"
    by (auto simp: forecast_reasons_def forecast_clear_def stale_def fresh_at_def not_less Let_def split: option.splits if_splits)
  show "\<exists>d. stop_distance rq = Some d \<and> min_stop_distance c \<le> d \<and> d \<le> max_stop_distance c"
    using parts(3) by (auto simp: stop_reasons_def not_less split: option.splits)
qed

lemma admitted_candidate:
  assumes "risk_validate_intake rq c now = []"
    and "admission_vetoes c rq intake dd h conc mode headroom feature = []"
  shows "\<exists>k. rq_candidate rq = Some k \<and> candidate_clear c now (rq_intent rq) k"
proof -
  from assms(1) have "candidate_reasons c now (rq_intent rq) (rq_candidate rq) = []"
    by (simp add: risk_validate_intake_def)
  moreover from this obtain k where k: "rq_candidate rq = Some k"
    by (cases "rq_candidate rq") (auto simp: candidate_reasons_def)
  moreover have "sc_quality_tier (rk_scorecard k) \<noteq> QT_SUPPRESS" "min_liquidity_score c \<le> sc_liquidity_score (rk_scorecard k)"
    using assms(2) k by (simp_all add: admission_vetoes_def not_less)
  ultimately show ?thesis
    by (auto simp: candidate_reasons_def candidate_clear_def stale_def fresh_at_def not_less split: option.splits)
qed

lemma admitted_limits:
  assumes "admission_vetoes c rq intake dd h conc mode headroom feature = []"
  shows "intraday_loss dd < max_intraday_loss_pct c" and "heat_regime h \<noteq> HEAT_CRITICAL"
    and "stressed_concentration_state conc \<noteq> CONC_BLOCKED"
    and "truthy (rq_session rq) \<Longrightarrow> lower (the (rq_session rq)) \<in> set (map lower (session_allow c))"
  using assms by (auto simp: admission_vetoes_def not_le)

text \<open>
  Claim C3. A fresh ALLOW verdict is earned. The feature is on, the kill switch does not block the
  request, and neither the mode nor the drawdown stage forbids new risk; the request is not from the
  future. The intent is fresh, unexpired, directed and names a symbol; the candidate is fresh, the
  one the intent names, eligible, qualified, of sound data quality, within its timing, not of the
  suppressed tier and liquid enough; the forecast is fresh, belongs to the intent, is diagnosed
  valid and rests on enough samples; the stop lies in the configured band. The intraday loss and
  the heat are below their maximum, every level of the budget tree has something left, the
  concentration is not blocked, no open position shares the cluster when one per cluster is
  configured, and a named session is allowed. The size is positive, at most the hard cap and within
  the notional limit, the price is inside its collar, the market data reasonable, and the burst
  tracker has room; that size is the one published.
\<close>

theorem pm4_allow_sound:
  assumes "dict_get (g_by_key s) (ti_idempotency_key (rq_intent rq)) = None"
    and "evaluate_request now rq s = (Inr b, t)" and "rv_status (rb_verdict b) = ALLOW"
  shows "g_feature_enabled s \<and> \<not> request_blocked rq (g_kill s) \<and>
    rb_risk_mode b \<notin> set MODE_BLOCKS_NEW_RISK \<and>
    throttle_stage (rb_drawdown b) \<notin> {DD_FREEZE, DD_KILL_PROTECTED} \<and>
    rq_as_of rq \<le> now \<and> intent_clear (g_config s) now (rq_intent rq) \<and>
    (\<exists>cand. rq_candidate rq = Some cand \<and> candidate_clear (g_config s) now (rq_intent rq) cand) \<and>
    (\<exists>fc. rq_forecast rq = Some fc \<and> forecast_clear (g_config s) now (rq_intent rq) fc) \<and>
    (\<exists>d. stop_distance rq = Some d \<and> min_stop_distance (g_config s) \<le> d \<and> d \<le> max_stop_distance (g_config s)) \<and>
    intraday_loss (rb_drawdown b) < max_intraday_loss_pct (g_config s) \<and>
    (\<forall>name limit used. (name, limit, used) \<in> set (request_levels rq s) \<longrightarrow> used < limit) \<and>
    effective_heat (request_heat rq s) < max_effective_heat (g_config s) \<and>
    heat_regime (request_heat rq s) \<noteq> HEAT_CRITICAL \<and>
    stressed_concentration_state (request_concentration rq s) \<noteq> CONC_BLOCKED \<and>
    (one_per_cluster (g_config s) \<longrightarrow> (\<forall>sy \<in> set (ex_symbols (rq_exposure rq)).
       cluster_id sy \<noteq> request_cluster rq \<and> sy \<noteq> ti_symbol (rq_intent rq))) \<and>
    (truthy (rq_session rq) \<longrightarrow> lower (the (rq_session rq)) \<in> set (map lower (session_allow (g_config s)))) \<and>
    pt_passed (rb_pretrade b) \<and> 0 < recommended_size (rb_sizing b) \<and>
    recommended_size (rb_sizing b) \<le> max_lots (g_config s) \<and>
    dmul (dmul (recommended_size (rb_sizing b)) (contract_size (g_config s)))
      (case reference_price rq of None \<Rightarrow> 0 | Some p \<Rightarrow> p) \<le> max_notional (g_config s) \<and>
    price_inside_collar rq (g_config s) \<and> market_data_reasonable rq \<and>
    fst (burst_allow (burst_limit (g_config s)) (pm4_burst_window_seconds (g_config s)) now (g_hits s)) \<and>
    recommended_volume (rb_verdict b) = Some (recommended_size (rb_sizing b))"
proof -
  note base = allow_sound [OF assms]
  obtain k where k: "sized_cards now rq s = Inr k" and b: "b = request_bundle now rq s k"
    using evaluate_fresh_Inr [OF assms(1, 2)] by metis
  have allow: "rv_status (request_verdict now rq s k) = ALLOW" using assms(3) b by simp
  note out = allow_outcome [OF k allow]
  have same: "after_protect now rq s = s" using first_admits [OF out(1)] by (simp add: after_protect_kept)
  have vetoes: "admission_vetoes (g_config s) rq (gate_intake_reasons now rq s) (request_drawdown rq s) (request_heat rq s)
      (kx_concentration (request_context now rq s)) (kx_mode (request_context now rq s)) (alloc_headroom (request_levels rq s))
      (g_feature_enabled s) = []"
    using out(1) unfolding first_cards_admission admits_decide_iff same .
  have intake: "risk_validate_intake rq (g_config s) now = []"
    using first_admits [OF out(1)] same gate_intake_NilD [of now rq s] by simp
  have sizes: "recommended_size (kc_sizing k) \<le> max_lots (g_config s)"
    "dmul (dmul (recommended_size (kc_sizing k)) (contract_size (g_config s)))
      (case reference_price rq of None \<Rightarrow> 0 | Some p \<Rightarrow> p) \<le> max_notional (g_config s)"
    "fst (burst_allow (burst_limit (g_config s)) (pm4_burst_window_seconds (g_config s)) now (g_hits s))"
    using out(2,4) same by (simp_all add: controls_of_def pretrade_passed_iff)
  show ?thesis
    using base intake_clear [OF intake] admitted_candidate [OF intake vetoes] admitted_limits [OF vetoes] out(3,4) sizes
    unfolding b by (simp add: request_concentration_def)
qed

theorem pm4_allow_sound_witness:
  "\<exists>b t. evaluate_request 0 sample_request sample_gate = (Inr b, t) \<and> rv_status (rb_verdict b) = ALLOW \<and>
     pt_passed (rb_pretrade b)"
proof -
  obtain b t where run: "evaluate_request 0 sample_request sample_gate = (Inr b, t)"
    and allow: "rv_status (rb_verdict b) = ALLOW" by (rule sample_evaluated)
  from pm4_allow_sound [OF sample_fresh run allow] have "pt_passed (rb_pretrade b)" by blast
  with run allow show ?thesis by blast
qed

text \<open>Risk within the headroom leaves every level within its limit.\<close>

lemma level_room:
  assumes "leq_upto 2 risk (alloc_headroom levels)" and "(name, limit, used) \<in> set levels"
    and "0 < alloc_headroom levels"
  shows "leq_upto 3 risk (limit - used)"
proof -
  have lt: "used < limit" using alloc_headroom_pos [OF assms(3, 2)] .
  have "alloc_headroom levels \<le> dsub limit used"
    using alloc_headroom_le [OF assms(2)] lt by (simp add: residual_eq)
  from le_upto_trans [OF this upto_dsub] lt have "leq_upto 1 (alloc_headroom levels) (limit - used)" by simp
  from upto_trans [OF assms(1) this] show ?thesis by (simp add: numeral_3_eq_3 numeral_2_eq_2)
qed

lemma level_filled:
  assumes "leq_upto 3 risk (level_limit e p th - used)" and "0 \<le> used" and "0 \<le> risk"
    and "0 \<le> e" and "0 \<le> p" and "0 \<le> th"
  shows "dadd used risk \<le> e * p * th * (1 + 1 / 10 ^ 26)"
proof -
  have "leq_upto 3 (used + risk) (used + (level_limit e p th - used))"
    using assms by (intro upto_add) simp_all
  then have "leq_upto 3 (used + risk) (level_limit e p th)" by simp
  from upto_trans [OF upto_dadd [OF assms(2, 3)] this]
  have used: "leq_upto 4 (dadd used risk) (level_limit e p th)" by (simp add: eval_nat_numeral)
  have "leq_upto 1 (dmul e p * th) (e * p * th)"
    using upto_mult [OF upto_dmul [of e p], of th] assms by (simp add: mult.commute)
  from upto_trans [OF upto_dmul this] assms have "leq_upto 2 (level_limit e p th) (e * p * th)"
    by (simp add: level_limit_def numeral_2_eq_2)
  from upto_trans [OF used this] have "leq_upto 6 (dadd used risk) (e * p * th)" by simp
  then show ?thesis by (rule upto_bound) (use assms in simp_all)
qed

lemma request_levels_mem:
  "(''account'', level_limit (gate_equity (g_config s) rq) (account_risk_pct (g_config s))
     (ds_throttle_factor (request_drawdown rq s)), alloc_used (g_consumed s) ''account'') \<in> set (request_levels rq s)"
  "(''sleeve:'' @ sleeve_key rq, level_limit (gate_equity (g_config s) rq) (sleeve_risk_pct (g_config s))
     (ds_throttle_factor (request_drawdown rq s)),
     alloc_used (g_consumed s) (''sleeve:'' @ sleeve_key rq)) \<in> set (request_levels rq s)"
  "(''symbol:'' @ ti_symbol (rq_intent rq), level_limit (gate_equity (g_config s) rq) (symbol_risk_pct (g_config s))
     (ds_throttle_factor (request_drawdown rq s)),
     alloc_used (g_consumed s) (''symbol:'' @ ti_symbol (rq_intent rq))) \<in> set (request_levels rq s)"
  by (simp_all add: request_levels_def alloc_levels_def)

lemma upto_risk:
  assumes "leq_upto 2 loss risk" and "leq_upto n risk y" and "n \<le> 7" and "0 \<le> y"
  shows "loss \<le> y * (1 + 1 / 10 ^ 26)"
  using upto_trans [OF assms(1, 2)] by (rule upto_bound) (use assms in simp_all)

lemma allow_bounded:
  assumes "gate_reach s" and "dict_get (g_by_key s) (ti_idempotency_key (rq_intent rq)) = None"
    and "evaluate_request now rq s = (Inr b, t)" and "rv_status (rb_verdict b) = ALLOW"
    and "stop_distance rq = Some d"
  shows "let c = g_config s; e = gate_equity c rq; q = recommended_size (rb_sizing b);
      lim = (\<lambda>p. e * p * ds_throttle_factor (rb_drawdown b) * (1 + 1 / 10 ^ 26)) in
    0 < q \<and> q \<le> max_lots c \<and>
    q * (d * contract_size c) \<le> e * max_per_trade_risk_pct c * (1 + 1 / 10 ^ 26) \<and>
    (\<forall>name limit used. (name, limit, used) \<in> set (request_levels rq s) \<longrightarrow>
       q * (d * contract_size c) \<le> (limit - used) * (1 + 1 / 10 ^ 26)) \<and>
    alloc_used (g_consumed t) ''account'' \<le> lim (account_risk_pct c) \<and>
    alloc_used (g_consumed t) (''sleeve:'' @ sleeve_key rq) \<le> lim (sleeve_risk_pct c) \<and>
    alloc_used (g_consumed t) (''symbol:'' @ ti_symbol (rq_intent rq)) \<le> lim (symbol_risk_pct c)"
proof -
  let ?c = "g_config s" and ?e = "gate_equity (g_config s) rq" and ?th = "ds_throttle_factor (request_drawdown rq s)"
  from gate_reach_inv [OF assms(1)] have inv: "gate_inv s" .
  then have ok: "pm4_config_ok ?c" and used0: "\<And>key. 0 \<le> alloc_used (g_consumed s) key"
    by (simp_all add: gate_inv_def)
  obtain k where k: "sized_cards now rq s = Inr k" and b: "b = request_bundle now rq s k"
    and t: "after_publish now rq s k t"
    using evaluate_fresh_Inr [OF assms(2, 3)] by metis
  have allow: "rv_status (request_verdict now rq s k) = ALLOW" using assms(4) b by simp
  note out = allow_outcome [OF k allow]
  note bnd = request_sizing_bounds [OF ok k allow]
  let ?q = "recommended_size (kc_sizing k)" and ?r = "risk_amount (kc_sizing k)"
  have head: "0 < alloc_headroom (request_levels rq s)" using first_admits [OF out(1)] by simp
  have e: "0 < ?e" using ok by (rule gate_equity_pos)
  have pct: "0 \<le> account_risk_pct ?c" "0 \<le> sleeve_risk_pct ?c" "0 \<le> symbol_risk_pct ?c"
    "0 \<le> max_per_trade_risk_pct ?c" using ok by (simp_all add: pm4_config_ok_def is_pct_def)
  note room = level_room [OF bnd(5) _ head]
  note rooms = request_levels_mem [THEN room]
  have consumed: "g_consumed t = gate_consume rq ?r (g_consumed s)"
    using t allow by (simp add: after_publish_def Let_def out(3))
  have fill: "dadd used ?r \<le> ?e * p * ?th * (1 + 1 / 10 ^ 26)"
    if "leq_upto 3 ?r (level_limit ?e p ?th - used)" "0 \<le> used" "0 \<le> p" for used p
    using that(1, 2) bnd(3) less_imp_le [OF e] that(3) request_drawdown_throttle by (rule level_filled)
  have levels: "?q * (d * contract_size ?c) \<le> (limit - used) * (1 + 1 / 10 ^ 26)"
    if l: "(name, limit, used) \<in> set (request_levels rq s)" for name limit used
    using upto_risk [OF bnd(2) [OF assms(5)] room [OF l]] alloc_headroom_pos [OF head l] by simp
  have loss: "?q * (d * contract_size ?c) \<le> ?e * max_per_trade_risk_pct ?c * (1 + 1 / 10 ^ 26)"
    using upto_risk [OF bnd(2) [OF assms(5)] bnd(4)] e pct by simp
  show ?thesis
    using out(4) bnd(1) loss levels fill [OF rooms(1) used0 pct(1)] fill [OF rooms(2) used0 pct(2)]
      fill [OF rooms(3) used0 pct(3)]
    unfolding Let_def b by (simp add: out(3) consumed gate_consume_def alloc_used_consume)
qed

text \<open>
  Claim C2. The size of a fresh ALLOW verdict respects every limit: it is positive and at most
  the hard cap in lots; the loss it takes at its stop is at most the per-trade share of the
  equity and at most what is left at every level of the budget tree; and after the publication
  the consumed account, sleeve and symbol budgets are within their limits. All bounds hold up
  to one part in ten to the 26, the rounding of the decimal context.
\<close>

theorem pm4_allow_bounded:
  assumes "gate_reach s" and "dict_get (g_by_key s) (ti_idempotency_key (rq_intent rq)) = None"
    and "evaluate_request now rq s = (Inr b, t)" and "rv_status (rb_verdict b) = ALLOW"
    and "stop_distance rq = Some d"
  shows "let c = g_config s; e = gate_equity c rq; q = recommended_size (rb_sizing b);
      lim = (\<lambda>p. e * p * ds_throttle_factor (rb_drawdown b) * (1 + 1 / 10 ^ 26)) in
    0 < q \<and> q \<le> max_lots c \<and>
    q * (d * contract_size c) \<le> e * max_per_trade_risk_pct c * (1 + 1 / 10 ^ 26) \<and>
    (\<forall>name limit used. (name, limit, used) \<in> set (request_levels rq s) \<longrightarrow>
       q * (d * contract_size c) \<le> (limit - used) * (1 + 1 / 10 ^ 26)) \<and>
    alloc_used (g_consumed t) ''account'' \<le> lim (account_risk_pct c) \<and>
    alloc_used (g_consumed t) (''sleeve:'' @ sleeve_key rq) \<le> lim (sleeve_risk_pct c) \<and>
    alloc_used (g_consumed t) (''symbol:'' @ ti_symbol (rq_intent rq)) \<le> lim (symbol_risk_pct c)"
  using assms by (rule allow_bounded)

theorem pm4_allow_bounded_witness:
  "\<exists>b t. evaluate_request 0 sample_request sample_gate = (Inr b, t) \<and> 0 < recommended_size (rb_sizing b)"
proof -
  obtain b t where run: "evaluate_request 0 sample_request sample_gate = (Inr b, t)"
    and allow: "rv_status (rb_verdict b) = ALLOW" by (rule sample_evaluated)
  from pm4_allow_bounded [OF sample_gate_reach sample_fresh run allow sample_stop]
  have "0 < recommended_size (rb_sizing b)" unfolding Let_def by blast
  with run show ?thesis by blast
qed

subsection \<open>Kill switch\<close>

lemma blocked_first_cards:
  assumes "request_blocked rq (g_kill (after_protect now rq s))"
  shows "ac_decision (kc_admission (first_cards now rq s)) = AD_KILL_PROTECTED"
proof -
  have "RJ_KILL_SWITCH \<in> set (gate_intake_reasons now rq (after_protect now rq s))"
    using assms by (simp add: gate_intake_reasons_def request_blocked_def)
  then show ?thesis unfolding first_cards_admission by (rule admission_kill)
qed

lemma blocked_outcome:
  assumes "request_blocked rq (g_kill (after_protect now rq s))"
    and "dict_get (g_by_key s) (ti_idempotency_key (rq_intent rq)) = None"
  obtains b t where "evaluate_request now rq s = (Inr b, t)" "rv_status (rb_verdict b) = HALT"
    "recommended_volume (rb_verdict b) = None" "g_consumed t = g_consumed s"
    "g_kill t = g_kill (after_protect now rq s)" "recommended_size (rb_sizing b) = 0"
proof -
  let ?k = "first_cards now rq s"
  have dec: "ac_decision (kc_admission ?k) = AD_KILL_PROTECTED" using assms(1) by (rule blocked_first_cards)
  then have no: "\<not> admits (kc_admission ?k)" by (simp add: admits_def)
  then have k: "sized_cards now rq s = Inr ?k" by (simp add: sized_cards_def sized_refused)
  have halt: "fst (verdict_from (kc_admission ?k) m) = HALT" for m using dec by (rule verdict_halt)
  obtain t where run: "evaluate_request now rq s = (Inr (request_bundle now rq s ?k), t)"
    and t: "after_publish now rq s ?k t"
  proof (cases rule: evaluate_fresh_cases [of now rq s])
    case (published k' t)
    with k that assms(2) show ?thesis by (simp add: evaluate_request_def run_simps)
  qed (use k in simp)
  have v: "rv_status (request_verdict now rq s ?k) = HALT" "recommended_volume (request_verdict now rq s ?k) = None"
    using no halt by (simp_all add: request_verdict_def controlled_refused)
  have size: "recommended_size (rb_sizing (request_bundle now rq s ?k)) = 0"
    using no by (simp add: request_bundle_cards controlled_refused first_cards_def gate_first_cards_def Let_def
        empty_sizing_def)
  from t v have "g_consumed t = g_consumed s" "g_kill t = g_kill (after_protect now rq s)"
    by (simp_all add: after_publish_def Let_def)
  with that run v size show ?thesis by simp
qed

lemma after_protect_blocked:
  "request_blocked rq (g_kill s) \<Longrightarrow> request_blocked rq (g_kill (after_protect now rq s))"
  by (simp add: after_protect_def request_blocked_def)

lemma tripped_gate_sel [simp]:
  "g_kill tripped_gate = kill_trip pm4_config_default ''drill'' 0 KS_ACCOUNT None ''operator''"
  "g_by_key tripped_gate = []"
  by (simp_all add: tripped_gate_def operator_defs run_simps)

lemma tripped_fresh: "dict_get (g_by_key tripped_gate) key = None"
  by (simp add: dict_simps)

text \<open>
  Claim C11. A blocking kill switch halts: the evaluation of a new request that the latched switch
  covers always returns, with verdict HALT, no volume and size zero, and consumes no budget,
  whatever else the request, the forced mode or the forced stage say.
\<close>

theorem pm4_kill_halts:
  assumes "request_blocked rq (g_kill s)"
    and "dict_get (g_by_key s) (ti_idempotency_key (rq_intent rq)) = None"
  shows "\<exists>b t. evaluate_request now rq s = (Inr b, t) \<and> rv_status (rb_verdict b) = HALT \<and>
    recommended_volume (rb_verdict b) = None \<and> recommended_size (rb_sizing b) = 0 \<and>
    g_consumed t = g_consumed s"
  by (rule blocked_outcome [OF after_protect_blocked [OF assms(1)] assms(2), of now]) blast

theorem pm4_kill_halts_witness:
  "\<exists>b t. evaluate_request 0 sample_request tripped_gate = (Inr b, t) \<and> rv_status (rb_verdict b) = HALT"
proof -
  have "request_blocked sample_request (g_kill tripped_gate)" by (simp add: request_blocked_def)
  from pm4_kill_halts [OF this tripped_fresh] show ?thesis by blast
qed

text \<open>
  A drawdown at the kill threshold trips the switch by itself: when the ladder (or a
  forced stage) puts a new request at the kill-protected stage, the call returns HALT and the
  account-wide latch it leaves behind blocks every symbol, sleeve and cluster.
\<close>

theorem pm4_drawdown_trips:
  assumes "throttle_stage (drawdown_evaluate (g_config s) (g_forced_stage s) (rq_exposure rq)) = DD_KILL_PROTECTED"
    and "dict_get (g_by_key s) (ti_idempotency_key (rq_intent rq)) = None"
  shows "\<exists>b t. evaluate_request now rq s = (Inr b, t) \<and> rv_status (rb_verdict b) = HALT \<and>
    kill_latched (g_kill t) \<and> (\<forall>sy sleeve cl. kill_blocks (g_kill t) sy sleeve cl) \<and>
    ks_tripped_at (g_kill t) = Some now"
proof -
  have trip: "g_kill (after_protect now rq s) =
      kill_trip (g_config s) ''drawdown_kill_protected'' now KS_ACCOUNT None ''automatic''"
    using assms(1) by (simp add: after_protect_def)
  then have "request_blocked rq (g_kill (after_protect now rq s))" by (simp add: request_blocked_def)
  from blocked_outcome [OF this assms(2)] obtain b t where
    "evaluate_request now rq s = (Inr b, t)" "rv_status (rb_verdict b) = HALT"
    "g_kill t = g_kill (after_protect now rq s)" by metis
  with trip show ?thesis by (auto simp: kill_trip_def [where scope = KS_ACCOUNT] kill_latched_def
        kill_blocks_def kill_matches_def)
qed

theorem pm4_drawdown_trips_witness:
  "\<exists>b t. evaluate_request 0 drawn_request sample_gate = (Inr b, t) \<and> rv_status (rb_verdict b) = HALT \<and>
     kill_latched (g_kill t)"
proof -
  have "throttle_stage (drawdown_evaluate (g_config sample_gate) (g_forced_stage sample_gate)
      (rq_exposure drawn_request)) = DD_KILL_PROTECTED" by code_simp
  moreover have "dict_get (g_by_key sample_gate) (ti_idempotency_key (rq_intent drawn_request)) = None"
    by (simp add: dict_simps)
  ultimately show ?thesis using pm4_drawdown_trips [of sample_gate drawn_request 0] by blast
qed

text \<open>The calls that may release the latch.\<close>

definition rearms :: "gate_call \<Rightarrow> risk_gate \<Rightarrow> bool" where
  "rearms c s \<longleftrightarrow>
     (case c of
        G_recover now reason actor \<Rightarrow>
          \<not> blank reason \<and> \<not> blank actor \<and>
          (\<exists>t. ks_tripped_at (g_kill s) = Some t \<and>
            (require_manual_recovery_after_kill (g_config s) \<longrightarrow>
               t + seconds (pm4_recovery_cooldown_seconds (g_config s)) \<le> now))
      | _ \<Rightarrow> False)"

lemma evaluate_request_kill:
  "g_kill (snd (evaluate_request now rq s)) \<in> {g_kill s, g_kill (after_protect now rq s)}"
proof (cases rule: evaluate_request_cases [of s rq now])
  case fresh
  then show ?thesis
    by (cases rule: evaluate_fresh_cases [of now rq s]) (simp_all add: after_publish_def Let_def)
qed simp

lemma gate_do_rearms:
  assumes inv: "gate_inv s" and on: "kill_latched (g_kill s)" and off: "\<not> kill_latched (g_kill (gate_do c s))"
  shows "rearms c s"
proof (cases c)
  case (G_evaluate now rq)
  then show ?thesis using evaluate_request_kill [of now rq s] on off
    by (auto simp: after_protect_def split: if_splits)
next
  case (G_recover now re ac)
  have "\<not> kill_latched (kill_recover (g_config s) re ac now (g_kill s))"
    using off G_recover by (simp add: operator_defs run_simps)
  from kill_recover_releases [OF on this] inv on show ?thesis
    by (auto simp: rearms_def G_recover gate_inv_def)
qed (use on off in \<open>simp_all add: operator_defs run_simps\<close>)

interpretation gate_kill: latch gate_inv "\<lambda>s. kill_latched (g_kill s)" gate_do rearms
  by unfold_locales (simp_all add: gate_do_inv gate_do_rearms)

text \<open>
  Claim C12. The kill latch is sticky over whole call sequences: if a latched gate is found armed
  after any sequence of evaluations, trips, recoveries and forced modes, then one of those calls
  was a recovery with a non-blank reason and actor which, where manual recovery is required, came
  after the cooldown since the trip.
\<close>

theorem pm4_latch_holds:
  assumes "gate_reach s" and "kill_latched (g_kill s)" and "\<not> kill_latched (g_kill (fold gate_do cs s))"
  shows "\<exists>pre now reason actor post t. cs = pre @ G_recover now reason actor # post \<and>
    \<not> blank reason \<and> \<not> blank actor \<and> kill_latched (g_kill (fold gate_do pre s)) \<and>
    ks_tripped_at (g_kill (fold gate_do pre s)) = Some t \<and>
    (require_manual_recovery_after_kill (g_config (fold gate_do pre s)) \<longrightarrow>
       t + seconds (pm4_recovery_cooldown_seconds (g_config (fold gate_do pre s))) \<le> now)"
proof -
  from gate_kill.released_by [OF gate_reach_inv [OF assms(1)] assms(2, 3)] obtain pre c post
    where "cs = pre @ c # post" "kill_latched (g_kill (fold gate_do pre s))" "rearms c (fold gate_do pre s)"
    by blast
  moreover from this(3) obtain now reason actor t where "c = G_recover now reason actor"
    "\<not> blank reason" "\<not> blank actor" "ks_tripped_at (g_kill (fold gate_do pre s)) = Some t"
    "require_manual_recovery_after_kill (g_config (fold gate_do pre s)) \<longrightarrow>
       t + seconds (pm4_recovery_cooldown_seconds (g_config (fold gate_do pre s))) \<le> now"
    by (cases c) (auto simp: rearms_def)
  ultimately show ?thesis by metis
qed

theorem pm4_latch_holds_witness:
  "\<not> blank ''all clear'' \<and>
   \<not> kill_latched (g_kill (fold gate_do [G_recover (seconds 300) ''all clear'' ''operator''] tripped_gate))"
proof -
  have on: "kill_latched (g_kill tripped_gate)" by simp
  have off: "\<not> kill_latched (g_kill (fold gate_do [G_recover (seconds 300) ''all clear'' ''operator''] tripped_gate))"
    by code_simp
  from pm4_latch_holds [OF tripped_gate_reach on off] have "\<not> blank ''all clear''"
    by (auto simp: Cons_eq_append_conv)
  with off show ?thesis by blast
qed

subsection \<open>Published verdicts\<close>

lemma evaluate_request_keeps:
  assumes "dict_get (g_by_key s) key = Some b"
  shows "dict_get (g_by_key (snd (evaluate_request now rq s))) key = Some b"
proof (cases rule: evaluate_request_cases [of s rq now])
  case fresh
  then show ?thesis using assms
    by (cases rule: evaluate_fresh_cases [of now rq s]) (auto simp: after_publish_def Let_def dict_simps)
qed (use assms in simp)

lemma gate_do_keeps:
  "dict_get (g_by_key s) key = Some b \<Longrightarrow> dict_get (g_by_key (gate_do c s)) key = Some b"
  by (cases c) (simp_all add: evaluate_request_keeps operator_defs run_simps)

lemma gate_run_keeps:
  "dict_get (g_by_key s) key = Some b \<Longrightarrow> dict_get (g_by_key (fold gate_do cs s)) key = Some b"
  by (induction cs arbitrary: s) (simp_all add: gate_do_keeps)

lemma evaluate_request_stores:
  assumes "evaluate_request now rq s = (Inr b, t)"
  shows "dict_get (g_by_key t) (ti_idempotency_key (rq_intent rq)) = Some b"
proof (cases rule: evaluate_request_cases [of s rq now])
  case fresh
  then show ?thesis using assms
    by (cases rule: evaluate_fresh_cases [of now rq s]) (auto simp: after_publish_def Let_def dict_simps)
qed (use assms in simp)

text \<open>
  A verdict is final: once an evaluation returned a bundle, then after any further
  calls (trips, recoveries and forced modes included) every request with the same idempotency
  key gets that very bundle back, at any clock reading, and the gate does not change.
\<close>

theorem pm4_verdict_final:
  assumes "evaluate_request now rq s = (Inr b, t)"
    and "ti_idempotency_key (rq_intent rq') = ti_idempotency_key (rq_intent rq)"
  shows "evaluate_request later rq' (fold gate_do cs t) = (Inr b, fold gate_do cs t)"
  using gate_run_keeps [OF evaluate_request_stores [OF assms(1)], of cs] assms(2)
  by (simp add: evaluate_request_def run_simps)

theorem pm4_verdict_final_witness:
  "\<exists>b t. rv_status (rb_verdict b) = ALLOW \<and>
     evaluate_request 9 sample_request (fold gate_do [G_trip 5 ''drill'' KS_ACCOUNT None ''operator''] t) =
       (Inr b, fold gate_do [G_trip 5 ''drill'' KS_ACCOUNT None ''operator''] t)"
proof -
  obtain b t where run: "evaluate_request 0 sample_request sample_gate = (Inr b, t)"
    and allow: "rv_status (rb_verdict b) = ALLOW" by (rule sample_evaluated)
  from pm4_verdict_final [OF run refl, of 9 "[G_trip 5 ''drill'' KS_ACCOUNT None ''operator'']"] allow
  show ?thesis by blast
qed

text \<open>
  Over every call sequence, the log of published bundles is sound and complete: no
  bundle permits execution; a volume is present exactly with ALLOW, is the published size,
  positive and at most the hard cap; exactly the ALLOW bundles are eligible for handoff; every
  verdict expires one configured lifetime after its publication; and the idempotency index is
  the log itself, in order and without repeated keys.
\<close>

theorem pm4_published_sound:
  assumes "gate_reach s"
  shows "(\<forall>b \<in> set (g_published s).
      \<not> execution_permitted b \<and>
      (rb_handoff_eligibility b = HO_ELIGIBLE_PENDING_PM5 \<longleftrightarrow> rv_status (rb_verdict b) = ALLOW) \<and>
      (recommended_volume (rb_verdict b) \<noteq> None \<longleftrightarrow> rv_status (rb_verdict b) = ALLOW) \<and>
      (\<forall>q. recommended_volume (rb_verdict b) = Some q \<longrightarrow>
         q = recommended_size (rb_sizing b) \<and> 0 < q \<and> q \<le> max_lots (g_config s)) \<and>
      rv_expires_at (rb_verdict b) = Some (rb_occurred_at b + seconds (verdict_ttl_seconds (g_config s)))) \<and>
    map snd (g_by_key s) = g_published s \<and> map fst (g_by_key s) = g_intents s \<and> distinct (g_intents s)"
proof -
  from gate_reach_inv [OF assms] have sound: "\<forall>b \<in> set (g_published s). bundle_sound (g_config s) b"
    and index: "g_by_key s = zip (g_intents s) (g_published s)" "length (g_intents s) = length (g_published s)"
      "distinct (g_intents s)"
    by (simp_all add: gate_inv_def list_all_iff)
  then show ?thesis by (auto simp: bundle_sound_def split: option.splits)
qed

theorem pm4_published_sound_witness:
  "distinct (g_intents (gate_do (G_evaluate 0 sample_request) sample_gate))"
  using pm4_published_sound [OF gate_reach.call [OF sample_gate_reach], of "G_evaluate 0 sample_request"] by blast

subsection \<open>Evaluation returns\<close>

lemma quantize_lots_ok:
  assumes ok: "pm4_config_ok c" and fits: "max_lots c / 10 powi (lot_step_exp c) < 10 ^ 28" and risk: "0 \<le> risk"
  shows "\<exists>q. quantize round_down (lot_step_exp c) (fst (raw_lots c risk stop)) = Inr q"
proof -
  from ok have m: "0 \<le> max_lots c" by (simp add: pm4_config_ok_def)
  let ?l = "fst (raw_lots c risk stop)"
  have l: "0 \<le> ?l" "?l \<le> max_lots c" using m risk by (simp_all add: raw_lots_nonneg raw_lots_le)
  let ?x = "?l / 10 powi (lot_step_exp c)"
  have x: "0 \<le> ?x" using l by simp
  have "?x \<le> max_lots c / 10 powi (lot_step_exp c)" using l by (simp add: divide_right_mono)
  with fits round_down_le [OF x] have "of_int (round_down ?x) < (10::rat) ^ 28" by linarith
  then have "round_down ?x < 10 ^ 28" by (metis of_int_less_iff of_int_numeral of_int_power)
  with round_down_nonneg [OF x] show ?thesis by (simp add: quantize_def Let_def)
qed

lemma size_request_ok:
  assumes ok: "pm4_config_ok c" and fits: "max_lots c / 10 powi (lot_step_exp c) < 10 ^ 28"
    and wide: "0 < wide_interval_pct c" and e: "0 < equity" and dd: "0 \<le> ds_throttle_factor dd"
  shows "\<exists>sz. size_request c rq equity dd conc h head = Inr sz"
proof -
  from ok have pct: "0 \<le> max_per_trade_risk_pct c" by (simp add: pm4_config_ok_def is_pct_def)
  obtain u where u: "uncertainty_discount rq c = Inr u"
    using wide by (cases "uncertainty_discount rq c")
      (auto simp: uncertainty_discount_def Let_def split: option.splits if_splits)
  let ?adj = "adjusted_pct c (predictive_quality rq c) u (ds_throttle_factor dd) (liquidity_factor rq c)
    (if dsub 1 (crowding_penalty conc) < 0 then 0 else dsub 1 (crowding_penalty conc)) (heat_cap_of c h) head equity"
  have "0 \<le> dmul equity ?adj"
    using pct dd e uncertainty_nonneg [OF u] by (intro dmul_nonneg adjusted_pct_nonneg) simp_all
  from quantize_lots_ok [OF ok fits this, of "case stop_distance rq of None \<Rightarrow> 0 | Some d \<Rightarrow> d"]
  obtain q where q: "quantize round_down (lot_step_exp c) (fst (raw_lots c (dmul equity ?adj)
      (case stop_distance rq of None \<Rightarrow> 0 | Some d \<Rightarrow> d))) = Inr q" by blast
  show ?thesis unfolding size_request_def Let_def u case_prod_unfold sum.case q by simp
qed

text \<open>
  Claim C37. The evaluation returns: with a valid configuration whose interval threshold is not
  zero and whose hard cap, in lot steps, fits the decimal precision, no request in any reachable
  state makes the evaluation raise.
\<close>

theorem pm4_evaluate_returns:
  assumes "gate_reach s" and "0 < wide_interval_pct (g_config s)"
    and "max_lots (g_config s) / 10 powi (lot_step_exp (g_config s)) < 10 ^ 28"
  shows "\<exists>b t. evaluate_request now rq s = (Inr b, t)"
proof (cases rule: evaluate_request_cases [of s rq now])
  case fresh
  from gate_reach_inv [OF assms(1)] have ok: "pm4_config_ok (g_config s)" by (simp add: gate_inv_def)
  obtain sz where sz: "size_request (g_config s) rq (gate_equity (g_config s) rq) (request_drawdown rq s)
      (kx_concentration (request_context now rq s)) (request_heat rq s) (alloc_headroom (request_levels rq s)) = Inr sz"
    using size_request_ok [OF ok assms(3, 2) gate_equity_pos [OF ok] request_drawdown_throttle] by blast
  then have "\<exists>k. sized_cards now rq s = Inr k"
    by (simp add: sized_cards_def gate_sized_def Let_def)
  then show ?thesis using fresh by (cases rule: evaluate_fresh_cases [of now rq s]) auto
qed simp

theorem pm4_evaluate_returns_witness:
  "\<exists>b t. evaluate_request 0 drawn_request tripped_gate = (Inr b, t)"
proof -
  have c: "g_config tripped_gate = pm4_config_default"
    by (simp add: tripped_gate_def operator_defs run_simps)
  have "0 < wide_interval_pct (g_config tripped_gate)" by (simp add: c pm4_config_default_def)
  moreover have "max_lots (g_config tripped_gate) / 10 powi (lot_step_exp (g_config tripped_gate)) < 10 ^ 28"
    by (simp add: c pm4_config_default_def power_int_minus)
  ultimately show ?thesis by (rule pm4_evaluate_returns [OF tripped_gate_reach])
qed

subsection \<open>The drawdown ladder\<close>

lemma dadd_mono: "a \<le> a' \<Longrightarrow> b \<le> b' \<Longrightarrow> dadd a b \<le> dadd a' b'"
  by (simp add: dadd_def dec_fix_mono)

lemma dsub_mono: "a \<le> a' \<Longrightarrow> b' \<le> b \<Longrightarrow> dsub a b \<le> dsub a' b'"
  by (simp add: dsub_def dec_fix_mono)

lemma ddiv_mono: "a \<le> a' \<Longrightarrow> 0 < b \<Longrightarrow> ddiv a b \<le> ddiv a' b"
  by (simp add: ddiv_def dec_fix_mono divide_right_mono)

lemma dabs_neg_mono: "a' \<le> a \<Longrightarrow> a \<le> 0 \<Longrightarrow> dabs a \<le> dabs a'"
  by (simp add: dabs_def dec_fix_mono)

definition worse_exposure :: "ExposureSnapshot \<Rightarrow> ExposureSnapshot \<Rightarrow> bool" where
  "worse_exposure x' x \<longleftrightarrow>
     ex_equity x' = ex_equity x \<and> ex_peak_equity x' = ex_peak_equity x \<and>
     unrealized_pnl x' \<le> unrealized_pnl x \<and> realized_pnl x' \<le> realized_pnl x \<and>
     intraday_pnl x' \<le> intraday_pnl x \<and> ex_losing_streak x \<le> ex_losing_streak x'"

lemma peak_to_trough_mono: "worse_exposure x' x \<Longrightarrow> peak_to_trough x \<le> peak_to_trough x'"
proof -
  assume w: "worse_exposure x' x"
  let ?p = "if ex_peak_equity x > 0 then ex_peak_equity x else ex_equity x"
  let ?t = "\<lambda>x. ddiv (dsub ?p (dadd (ex_equity x) (unrealized_pnl x))) ?p"
  have t: "?t x \<le> ?t x'" if "0 < ?p"
    using w that by (intro ddiv_mono dsub_mono dadd_mono) (simp_all add: worse_exposure_def)
  have eq: "peak_to_trough y = (if ?p \<le> 0 then 0 else max 0 (?t y))"
    if "ex_equity y = ex_equity x" "ex_peak_equity y = ex_peak_equity x" for y
    using that by (simp add: peak_to_trough_def Let_def max_def not_less [symmetric])
  show ?thesis using w t by (subst (1 2) eq) (auto simp: worse_exposure_def not_le max_def)
qed

lemma drawdown_parts_mono:
  assumes "worse_exposure x' x"
  shows "current_drawdown (drawdown_evaluate c None x) \<le> current_drawdown (drawdown_evaluate c None x')"
    and "intraday_loss (drawdown_evaluate c None x) \<le> intraday_loss (drawdown_evaluate c None x')"
proof -
  from assms have e: "ex_equity x' = ex_equity x" and r: "min (realized_pnl x') 0 \<le> min (realized_pnl x) 0"
    and i: "intraday_pnl x' \<le> intraday_pnl x" by (auto simp: worse_exposure_def)
  have "ddiv (dabs (min (realized_pnl x) 0)) (ex_equity x) \<le> ddiv (dabs (min (realized_pnl x') 0)) (ex_equity x)"
    if "0 < ex_equity x" using that r by (intro ddiv_mono dabs_neg_mono) simp_all
  then show "current_drawdown (drawdown_evaluate c None x) \<le> current_drawdown (drawdown_evaluate c None x')"
    using peak_to_trough_mono [OF assms] by (auto simp: drawdown_evaluate_def Let_def e max_def)
  have "ddiv (dabs (intraday_pnl x)) (ex_equity x) \<le> ddiv (dabs (intraday_pnl x')) (ex_equity x)"
    if "0 < ex_equity x" "intraday_pnl x < 0" using that i by (intro ddiv_mono dabs_neg_mono) simp_all
  moreover have "0 \<le> ddiv (dabs (intraday_pnl x')) (ex_equity x)" if "0 < ex_equity x"
    using that by (simp add: dabs_def dec_fix_nonneg)
  ultimately show "intraday_loss (drawdown_evaluate c None x) \<le> intraday_loss (drawdown_evaluate c None x')"
    using i by (auto simp: drawdown_evaluate_def Let_def e)
qed

text \<open>
  The drawdown ladder is monotone: for a valid configuration, an account that is worse
  off (same equity and peak, no better realized, unrealized and intraday results, no shorter
  losing streak) never gets a milder stage nor a larger throttle factor.
\<close>

theorem pm4_drawdown_antitone:
  assumes "pm4_config_ok c" and "worse_exposure x' x"
  shows "stage_rank (throttle_stage (drawdown_evaluate c None x)) \<le>
      stage_rank (throttle_stage (drawdown_evaluate c None x')) \<and>
    ds_throttle_factor (drawdown_evaluate c None x') \<le> ds_throttle_factor (drawdown_evaluate c None x)"
proof -
  let ?d = "\<lambda>x. max (current_drawdown (drawdown_evaluate c None x)) (intraday_loss (drawdown_evaluate c None x))"
  have stage: "throttle_stage (drawdown_evaluate c None x) = stage_for (?d x) c (ex_losing_streak x)" for x
    by (simp add: drawdown_evaluate_def Let_def)
  have thr: "ds_throttle_factor (drawdown_evaluate c None x) = THROTTLE_FACTOR (stage_for (?d x) c (ex_losing_streak x))" for x
    by (simp add: drawdown_evaluate_def Let_def)
  have "?d x \<le> ?d x'" using drawdown_parts_mono [OF assms(2), of c] by (rule max.mono)
  moreover have "ex_losing_streak x \<le> ex_losing_streak x'" using assms(2) by (simp add: worse_exposure_def)
  ultimately have rank: "stage_rank (stage_for (?d x) c (ex_losing_streak x)) \<le>
      stage_rank (stage_for (?d x') c (ex_losing_streak x'))"
    using assms(1) by (intro stage_for_mono) (simp_all add: pm4_config_ok_def)
  from rank throttle_antimono [OF rank] show ?thesis by (simp only: stage thr)
qed

theorem pm4_drawdown_antitone_witness:
  "worse_exposure (rq_exposure drawn_request) sample_exposure \<and>
   ds_throttle_factor (drawdown_evaluate pm4_config_default None (rq_exposure drawn_request)) \<le>
     ds_throttle_factor (drawdown_evaluate pm4_config_default None sample_exposure)"
proof -
  have "worse_exposure (rq_exposure drawn_request) sample_exposure"
    by (simp add: worse_exposure_def drawn_request_def sample_exposure_def)
  with pm4_drawdown_antitone [OF pm4_config_default_ok this] show ?thesis by blast
qed

subsection \<open>Gaps\<close>

text \<open>
  The regime and cluster levels of the budget tree are never filled: over every call
  sequence the amount used of any \<^verbatim>\<open>regime:\<close> or \<^verbatim>\<open>cluster:\<close> key is zero, because an ALLOW
  publication consumes the account, sleeve and symbol keys only. Their limits therefore bound
  single requests and not the sum of what a regime or cluster carries.
\<close>

theorem pm4_regime_cluster_unfilled:
  assumes "gate_reach s"
  shows "alloc_used (g_consumed s) (''regime:'' @ regime) = 0 \<and> alloc_used (g_consumed s) (''cluster:'' @ cluster) = 0"
  using gate_reach_inv [OF assms] unfolding gate_inv_def untouched_keys_def by blast

theorem pm4_regime_cluster_unfilled_witness:
  "alloc_used (g_consumed (gate_do (G_evaluate 0 sample_request) sample_gate)) (''regime:'' @ ''trending'') = 0"
  using pm4_regime_cluster_unfilled [OF gate_reach.call [OF sample_gate_reach], of "G_evaluate 0 sample_request"]
  by blast

text \<open>
  Claim C38. A trip with a narrower scope loosens an account-wide latch: whatever the kill switch
  blocked before, after tripping it for one symbol no request for another symbol is blocked,
  although nothing was recovered.
\<close>

theorem pm4_narrow_trip_unblocks:
  assumes "upper other \<noteq> upper sy"
  shows "kill_latched (g_kill (gate_do (G_trip now reason KS_SYMBOL (Some sy) actor) s)) \<and>
    \<not> kill_blocks (g_kill (gate_do (G_trip now reason KS_SYMBOL (Some sy) actor) s)) other sleeve cl"
  using assms
  by (auto simp: operator_defs run_simps kill_blocks_def kill_trip_def kill_matches_def kill_latched_def
      or_else_def truthy_def)

theorem pm4_narrow_trip_unblocks_witness:
  "kill_blocks (g_kill tripped_gate) ''GBPUSD'' None None \<and>
   \<not> kill_blocks (g_kill (gate_do (G_trip 1 ''x'' KS_SYMBOL (Some ''EURUSD'') ''operator'') tripped_gate))
     ''GBPUSD'' None None"
proof -
  have "upper ''GBPUSD'' \<noteq> upper ''EURUSD''" by code_simp
  from pm4_narrow_trip_unblocks [OF this] show ?thesis by (metis kill_trip_blocks_account tripped_gate_sel(1))
qed

end
