(* ===== verification/PyNumText.thy ===== *)
theory PyNumText
  imports PyText PyDecimal
begin

section \<open>Numbers as text, and money\<close>

text \<open>
  Results that may be an exception and change no state (\<open>rbind\<close>, \<open>collect\<close>), Python's \<^verbatim>\<open>str\<close>
  on integers, and \<^verbatim>\<open>pm8_persistence/money.py\<close>: \<^verbatim>\<open>decimal_from\<close> rounds an amount to eight
  decimal places, \<^verbatim>\<open>canonical\<close> prints it in positional notation, and \<open>read_decimal\<close> is what
  \<^verbatim>\<open>Decimal(text)\<close> makes of such a text. A decimal is its value, so a negative zero, which
  Python prints with its sign, is not told apart from zero.
\<close>

subsection \<open>Results\<close>

type_synonym 'a res = "py_exn + 'a"

definition rbind :: "'a res \<Rightarrow> ('a \<Rightarrow> 'b res) \<Rightarrow> 'b res" where
  "rbind r f = (case r of Inl e \<Rightarrow> Inl e | Inr x \<Rightarrow> f x)"

text \<open>\<^verbatim>\<open>if b: raise e\<close>\<close>

definition raise_if :: "bool \<Rightarrow> py_exn \<Rightarrow> 'a res \<Rightarrow> 'a res" where
  "raise_if b e r = (if b then Inl e else r)"

text \<open>Statements run in turn, each yielding a list.\<close>

fun collect :: "'a list res list \<Rightarrow> 'a list res" where
  "collect [] = Inr []"
| "collect (r # rs) = rbind r (\<lambda>xs. rbind (collect rs) (\<lambda>ys. Inr (xs @ ys)))"

lemma rbind_Inr [simp]: "rbind (Inr x) f = f x"
  by (simp add: rbind_def)

lemma rbind_Inl [simp]: "rbind (Inl e) f = Inl e"
  by (simp add: rbind_def)

lemma rbind_eq_Inr: "rbind r f = Inr y \<longleftrightarrow> (\<exists>x. r = Inr x \<and> f x = Inr y)"
  by (cases r) simp_all

lemma raise_if_eq_Inr: "raise_if b e r = Inr y \<longleftrightarrow> \<not> b \<and> r = Inr y"
  by (simp add: raise_if_def)

lemmas res_simps = rbind_eq_Inr raise_if_eq_Inr

lemma collect_all: "collect (map Inr xss) = Inr (concat xss)"
  by (induction xss) simp_all

lemma collect_Inr:
  "collect rs = Inr xs \<longleftrightarrow> (\<exists>xss. rs = map Inr xss \<and> xs = concat xss)"
proof (induction rs arbitrary: xs)
  case (Cons r rs)
  show ?case
  proof (cases r)
    case (Inr ys)
    have "collect (r # rs) = Inr xs \<longleftrightarrow> (\<exists>zs. collect rs = Inr zs \<and> xs = ys @ zs)"
      using Inr by (auto simp: res_simps)
    also have "\<dots> \<longleftrightarrow> (\<exists>xss. rs = map Inr xss \<and> xs = ys @ concat xss)"
      using Cons.IH by auto
    also have "\<dots> \<longleftrightarrow> (\<exists>xss. r # rs = map Inr xss \<and> xs = concat xss)"
      using Inr by (auto simp: Cons_eq_map_conv)
    finally show ?thesis .
  qed (auto simp: Cons_eq_map_conv)
qed auto

subsection \<open>Digits\<close>

definition digit_char :: "nat \<Rightarrow> char" where
  "digit_char d = char_of (48 + d mod 10)"

fun nat_str :: "nat \<Rightarrow> string" where
  "nat_str n = (if n < 10 then [digit_char n] else nat_str (n div 10) @ [digit_char n])"

declare nat_str.simps [simp del]

definition int_str :: "int \<Rightarrow> string" where
  "int_str i = (if i < 0 then ''-'' @ nat_str (nat (- i)) else nat_str (nat i))"

text \<open>The \<open>k\<close> low digits of \<open>n\<close>, with leading zeros.\<close>

fun fixed_digits :: "nat \<Rightarrow> nat \<Rightarrow> string" where
  "fixed_digits 0 n = []"
| "fixed_digits (Suc k) n = fixed_digits k (n div 10) @ [digit_char n]"

definition is_digit :: "char \<Rightarrow> bool" where
  "is_digit c \<longleftrightarrow> 48 \<le> (of_char c :: nat) \<and> (of_char c :: nat) \<le> 57"

definition digit_value :: "char \<Rightarrow> nat" where
  "digit_value c = of_char c - 48"

definition digits_value :: "string \<Rightarrow> nat" where
  "digits_value s = foldl (\<lambda>n c. 10 * n + digit_value c) 0 s"

lemma digit_char_of: "(of_char (char_of (48 + d mod 10) :: char) :: nat) = 48 + d mod 10"
proof -
  have "48 + d mod 10 < (256::nat)" using mod_less_divisor [of 10 d] by linarith
  then show ?thesis by (simp only: of_char_of) (simp add: take_bit_nat_eq_self mod_less)
qed

lemma digit_char_value [simp]: "digit_value (digit_char d) = d mod 10"
  using digit_char_of [of d] by (simp add: digit_value_def digit_char_def)

lemma is_digit_digit_char [simp]: "is_digit (digit_char d)"
proof -
  have "d mod 10 < 10" by simp
  then show ?thesis using digit_char_of [of d] by (simp add: is_digit_def digit_char_def)
qed

lemma digits_value_snoc [simp]: "digits_value (s @ [c]) = 10 * digits_value s + digit_value c"
  by (simp add: digits_value_def)

lemma digits_value_nat_str [simp]: "digits_value (nat_str n) = n"
proof (induction n rule: nat_str.induct)
  case (1 n)
  then show ?case
    by (subst nat_str.simps) (auto simp: digits_value_def)
qed

lemma nat_str_digits: "list_all is_digit (nat_str n)"
proof (induction n rule: nat_str.induct)
  case (1 n)
  then show ?case by (subst nat_str.simps) auto
qed

lemma nat_str_nonempty [simp]: "nat_str n \<noteq> []"
  by (subst nat_str.simps) simp

lemma fixed_digits_length [simp]: "length (fixed_digits k n) = k"
  by (induction k arbitrary: n) simp_all

lemma fixed_digits_digits: "list_all is_digit (fixed_digits k n)"
  by (induction k arbitrary: n) simp_all

lemma digits_value_fixed: "n < 10 ^ k \<Longrightarrow> digits_value (fixed_digits k n) = n"
proof (induction k arbitrary: n)
  case (Suc k)
  then have "n div 10 < 10 ^ k" by (simp add: less_mult_imp_div_less mult.commute)
  with Suc.IH show ?case by simp
qed (simp add: digits_value_def)

subsection \<open>Money\<close>

definition decimal_from :: "dec \<Rightarrow> dec res" where
  "decimal_from x = quantize round_half_even (- 8) x"

definition format_f8 :: "bool \<Rightarrow> nat \<Rightarrow> string" where
  "format_f8 neg c =
     (if neg then ''-'' else []) @ nat_str (c div 100000000) @ ''.'' @ fixed_digits 8 (c mod 100000000)"

text \<open>The coefficient of the amount in units of \<open>10\<close> to the \<open>- 8\<close>.\<close>

definition coeff8 :: "dec \<Rightarrow> nat" where
  "coeff8 y = nat \<bar>\<lfloor>y * 100000000\<rfloor>\<bar>"

definition canonical :: "dec \<Rightarrow> string res" where
  "canonical x = rbind (decimal_from x) (\<lambda>y. Inr (format_f8 (x < 0) (coeff8 y)))"

text \<open>\<^verbatim>\<open>Decimal(text)\<close> on \<open>[-]digits[.digits]\<close>; other texts are not produced by \<^verbatim>\<open>canonical\<close>.\<close>

definition read_decimal :: "string \<Rightarrow> dec option" where
  "read_decimal s =
     (let neg = (s \<noteq> [] \<and> hd s = CHR ''-''); t = (if neg then tl s else s);
          ip = takeWhile is_digit t; r = dropWhile is_digit t; fp = tl r
      in if ip \<noteq> [] \<and> (r = [] \<or> hd r = CHR ''.'') \<and> list_all is_digit fp
         then Some ((if neg then - 1 else 1) *
                (of_nat (digits_value ip) + of_nat (digits_value fp) / 10 ^ length fp))
         else None)"

text \<open>An amount that has passed \<^verbatim>\<open>decimal_from\<close>.\<close>

definition money :: "dec \<Rightarrow> bool" where
  "money x \<longleftrightarrow> decimal_from x = Inr x"

lemma decimal_from_coeff:
  assumes "decimal_from x = Inr y"
  obtains c :: int where "y = of_int c / 100000000" and "\<bar>c\<bar> < 10 ^ 28"
    and "c = round_half_even (x * 100000000)"
proof -
  let ?c = "round_half_even (x * 100000000)"
  have "y = of_int ?c / 100000000 \<and> \<bar>?c\<bar> < 10 ^ 28"
    using assms unfolding decimal_from_def quantize_def
    by (auto simp: Let_def power_int_minus split: if_splits)
  with that [of ?c] show ?thesis by simp
qed

lemma money_coeff: "\<bar>c\<bar> < 10 ^ 28 \<Longrightarrow> money (of_int c / 100000000)"
  by (simp add: money_def decimal_from_def quantize_def power_int_minus)

lemma decimal_from_money: "decimal_from x = Inr y \<Longrightarrow> money y"
  using money_coeff by (elim decimal_from_coeff) metis

lemma money_dec28: "money x \<Longrightarrow> dec28 x"
  unfolding money_def decimal_from_def by (rule quantize_dec28)

lemma money_0 [simp]: "money 0"
  using money_coeff [of 0] by simp

lemma money_uminus [simp]: "money (- x) \<longleftrightarrow> money x"
proof -
  have "money y \<Longrightarrow> money (- y)" for y
  proof -
    assume "money y"
    then obtain c where "y = of_int c / 100000000" "\<bar>c\<bar> < 10 ^ 28"
      unfolding money_def by (rule decimal_from_coeff)
    then show "money (- y)" using money_coeff [of "- c"] by (simp only: of_int_minus abs_minus_cancel minus_divide_left)
  qed
  from this [of x] this [of "- x"] show ?thesis by auto
qed

lemma money_canonical: "money x \<Longrightarrow> canonical x = Inr (format_f8 (x < 0) (coeff8 x))"
  by (simp add: money_def canonical_def)

text \<open>An amount below \<open>10\<close> to the \<open>20\<close> fits the precision.\<close>

lemma decimal_from_small:
  assumes "\<bar>x\<bar> < 10 ^ 19"
  shows "\<exists>y. decimal_from x = Inr y"
proof -
  have "\<bar>x * 100000000\<bar> < 1000000000000000000000000000" using assms by simp
  then have "\<bar>of_int (round_half_even (x * 100000000))\<bar> < (10000000000000000000000000000::rat)"
    using round_half_even_error [of "x * 100000000"] by linarith
  then have "\<bar>of_int (round_half_even (x * 100000000))\<bar> < (10::rat) ^ 28" by simp
  then have "\<bar>round_half_even (x * 100000000)\<bar> < 10 ^ 28"
    by (metis of_int_abs of_int_less_iff of_int_numeral of_int_power)
  then have "decimal_from x = Inr (of_int (round_half_even (x * 100000000)) / 100000000)"
    by (simp add: decimal_from_def quantize_def power_int_minus)
  then show ?thesis ..
qed

lemma canonical_defined: "canonical x = Inl e \<longleftrightarrow> decimal_from x = Inl e"
  by (cases "decimal_from x") (simp_all add: canonical_def)

lemma canonical_exn: "canonical x = Inl e \<Longrightarrow> e = InvalidOperation"
  by (auto simp: canonical_defined decimal_from_def quantize_def Let_def split: if_splits)

subsection \<open>Printing and reading back\<close>

lemma takeWhile_digits:
  "list_all is_digit ds \<Longrightarrow> \<not> is_digit c \<Longrightarrow>
   takeWhile is_digit (ds @ c # r) = ds \<and> dropWhile is_digit (ds @ c # r) = c # r"
  by (induction ds) auto

lemma dot_no_digit [simp]: "\<not> is_digit (CHR ''.'')"
  by (simp add: is_digit_def)

lemma minus_no_digit [simp]: "\<not> is_digit (CHR ''-'')"
  by (simp add: is_digit_def)

lemma nat_str_hd: "hd (nat_str n @ r) \<noteq> CHR ''-''"
  using nat_str_digits [of n] nat_str_nonempty [of n] minus_no_digit
  by (cases "nat_str n") auto

lemma read_format:
  "read_decimal (format_f8 neg c) = Some ((if neg then - 1 else 1) * (of_nat c / 100000000))"
proof -
  let ?i = "nat_str (c div 100000000)" and ?f = "fixed_digits 8 (c mod 100000000)"
  have tw: "takeWhile is_digit (?i @ CHR ''.'' # ?f) = ?i"
    "dropWhile is_digit (?i @ CHR ''.'' # ?f) = CHR ''.'' # ?f"
    using takeWhile_digits [OF nat_str_digits dot_no_digit] by simp_all
  have f: "digits_value ?f = c mod 100000000" by (rule digits_value_fixed) simp
  have "of_nat (c div 100000000) + of_nat (c mod 100000000) / 100000000 = (of_nat c / 100000000 :: rat)"
  proof -
    have "(of_nat c :: rat) = of_nat (100000000 * (c div 100000000) + c mod 100000000)" by simp
    also have "\<dots> = 100000000 * of_nat (c div 100000000) + of_nat (c mod 100000000)"
      by (simp only: of_nat_add of_nat_mult of_nat_numeral)
    finally show ?thesis by (simp add: field_simps)
  qed
  then show ?thesis
    using nat_str_hd [of "c div 100000000" "''.'' @ ?f"]
    by (cases neg) (simp_all add: read_decimal_def format_f8_def Let_def tw f fixed_digits_digits
      del: fixed_digits.simps)
qed

lemma read_canonical:
  assumes "canonical x = Inr t"
  shows "\<exists>y. decimal_from x = Inr y \<and> read_decimal t = Some y"
proof -
  obtain y where y: "decimal_from x = Inr y" and t: "t = format_f8 (x < 0) (coeff8 y)"
    using assms by (auto simp: canonical_def res_simps)
  obtain c where c: "y = of_int c / 100000000" "c = round_half_even (x * 100000000)"
    using y by (rule decimal_from_coeff)
  have k: "coeff8 y = nat \<bar>c\<bar>" by (simp add: coeff8_def c(1))
  have "(if x < 0 then - 1 else 1) * (of_nat (nat \<bar>c\<bar>) / 100000000) = y"
  proof (cases "x < 0")
    case True
    then have "c \<le> 0" using round_half_even_mono [of "x * 100000000" "of_int 0"]
      unfolding c(2) round_half_even_of_int by simp
    then show ?thesis using True by (simp add: c(1))
  next
    case False
    then have "0 \<le> c" using round_half_even_mono [of "of_int 0" "x * 100000000"]
      unfolding c(2) round_half_even_of_int by simp
    then show ?thesis using False by (simp add: c(1))
  qed
  then show ?thesis using y unfolding t read_format k by simp
qed

lemma read_canonical_money: "money x \<Longrightarrow> canonical x = Inr t \<Longrightarrow> read_decimal t = Some x"
  using read_canonical [of x t] by (auto simp: money_def)

lemma canonical_inj: "money x \<Longrightarrow> money y \<Longrightarrow> canonical x = canonical y \<Longrightarrow> x = y"
  by (metis money_canonical read_canonical_money option.inject)

end
