(* ===== verification/CapitalContracts.thy ===== *)
theory CapitalContracts
  imports PyNumText RiskInputs
begin

section \<open>Contracts of the capital gate\<close>

text \<open>
  The data of \<^verbatim>\<open>contracts/v1/pm4_capital.py\<close>: the evaluation request, the check outcomes, the
  sizing trace, the decision, the executable intent, the rejection and the result, with the
  validators that run when one is built. A request with its many fields is a chain of record
  extensions in the order of the source. Identifiers are texts here; \<^verbatim>\<open>metadata\<close>, which only
  enters the request's hash, is a JSON object.

  \<^verbatim>\<open>canonical_hash\<close> (\<^verbatim>\<open>capital/hashing.py\<close>) is SHA-256 over sorted JSON. Nothing of its value
  is used but equality, so it is a parameter of every definition that hashes: a function \<open>H\<close>
  from the payload to the text of the digest.
\<close>

datatype CapitalDecisionState =
    CS_PENDING
  | CS_APPROVED
  | CS_APPROVED_REDUCED_SIZE
  | CS_REJECTED
  | CS_DEFERRED
  | CS_EXPIRED
  | CS_BLOCKED_SYSTEM
  | CS_BLOCKED_DATA
  | CS_BLOCKED_MODEL
  | CS_BLOCKED_ACCOUNT
  | CS_BLOCKED_DRAWDOWN
  | CS_BLOCKED_PORTFOLIO_HEAT
  | CS_BLOCKED_EXPOSURE
  | CS_BLOCKED_CONCENTRATION
  | CS_BLOCKED_SPREAD
  | CS_BLOCKED_SLIPPAGE
  | CS_BLOCKED_RECONCILIATION
  | CS_BLOCKED_POLICY
  | CS_ERROR_FAIL_CLOSED
  | CS_REPLAY_DIVERGENCE

fun capital_state_value :: "CapitalDecisionState \<Rightarrow> string" where
  "capital_state_value CS_PENDING = ''PENDING''"
| "capital_state_value CS_APPROVED = ''APPROVED''"
| "capital_state_value CS_APPROVED_REDUCED_SIZE = ''APPROVED_REDUCED_SIZE''"
| "capital_state_value CS_REJECTED = ''REJECTED''"
| "capital_state_value CS_DEFERRED = ''DEFERRED''"
| "capital_state_value CS_EXPIRED = ''EXPIRED''"
| "capital_state_value CS_BLOCKED_SYSTEM = ''BLOCKED_SYSTEM''"
| "capital_state_value CS_BLOCKED_DATA = ''BLOCKED_DATA''"
| "capital_state_value CS_BLOCKED_MODEL = ''BLOCKED_MODEL''"
| "capital_state_value CS_BLOCKED_ACCOUNT = ''BLOCKED_ACCOUNT''"
| "capital_state_value CS_BLOCKED_DRAWDOWN = ''BLOCKED_DRAWDOWN''"
| "capital_state_value CS_BLOCKED_PORTFOLIO_HEAT = ''BLOCKED_PORTFOLIO_HEAT''"
| "capital_state_value CS_BLOCKED_EXPOSURE = ''BLOCKED_EXPOSURE''"
| "capital_state_value CS_BLOCKED_CONCENTRATION = ''BLOCKED_CONCENTRATION''"
| "capital_state_value CS_BLOCKED_SPREAD = ''BLOCKED_SPREAD''"
| "capital_state_value CS_BLOCKED_SLIPPAGE = ''BLOCKED_SLIPPAGE''"
| "capital_state_value CS_BLOCKED_RECONCILIATION = ''BLOCKED_RECONCILIATION''"
| "capital_state_value CS_BLOCKED_POLICY = ''BLOCKED_POLICY''"
| "capital_state_value CS_ERROR_FAIL_CLOSED = ''ERROR_FAIL_CLOSED''"
| "capital_state_value CS_REPLAY_DIVERGENCE = ''REPLAY_DIVERGENCE''"

datatype CheckStatus =
    CK_PASS
  | CK_FAIL
  | CK_BLOCK
  | CK_SKIP

fun check_status_value :: "CheckStatus \<Rightarrow> string" where
  "check_status_value CK_PASS = ''pass''"
| "check_status_value CK_FAIL = ''fail''"
| "check_status_value CK_BLOCK = ''block''"
| "check_status_value CK_SKIP = ''skip''"

text \<open>
  The text of a measurement or a limit. Most are texts the code builds (\<^verbatim>\<open>canonical\<close>, \<^verbatim>\<open>str\<close>
  of an integer); \<open>MRange lo hi\<close> is \<^verbatim>\<open>f"{lo}-{hi}"\<close> on two decimals and \<open>MInstant\<close> the
  \<^verbatim>\<open>isoformat()\<close> of an instant, whose renderings are not unfolded.
\<close>

datatype check_text = MText string | MRange dec dec | MInstant datetime

datatype json = JNull | JBool bool | JNum dec | JStr string | JArr "json list" | JObj "(string \<times> json) list"

record CheckOutcome =
  co_name :: string
  co_status :: CheckStatus
  co_measured :: "check_text option"
  co_limit :: "check_text option"
  co_severity :: string
  co_reason :: string
  co_policy_version :: string
  co_evidence :: "string list"
  co_blocking :: bool

record QuantileBand =
  qb_q05 :: dec
  qb_q25 :: dec
  qb_q50 :: dec
  qb_q75 :: dec
  qb_q95 :: dec

record request_identity =
  cr_request_id :: string
  cr_idempotency_key :: string
  cr_correlation_id :: string
  cr_causation_id :: string
  cr_trade_intent_id :: string
  cr_strategy_id :: string
  cr_strategy_version :: string
  cr_profile_id :: string
  cr_profile_version :: string
  cr_symbol :: string
  cr_timeframe :: string
  cr_side :: string
  cr_requested_quantity :: dec
  cr_entry_price :: dec
  cr_stop_loss_price :: dec
  cr_take_profit_price :: "dec option"

record request_market = request_identity +
  cr_signal_timestamp :: datetime
  cr_intent_created_at :: datetime
  cr_market_snapshot_id :: string
  cr_regime_snapshot_id :: string
  cr_model_snapshot_id :: "string option"
  cr_model_version :: "string option"
  cr_model_quality_status :: string
  cr_predicted_quantiles :: "QuantileBand option"
  cr_expected_return :: "dec option"
  cr_expected_adverse_excursion :: "dec option"
  cr_spread :: dec
  cr_estimated_slippage :: dec
  cr_estimated_commission :: dec
  cr_estimated_swap :: dec

record request_account = request_market +
  cr_account_snapshot_id :: string
  cr_portfolio_snapshot_id :: string
  cr_current_positions_snapshot_id :: string
  cr_current_orders_snapshot_id :: string
  cr_risk_policy_version :: string
  cr_execution_policy_version :: string
  cr_account_equity :: dec
  cr_peak_equity :: dec
  cr_free_margin :: dec
  cr_realized_pnl_day :: dec
  cr_open_position_risk :: dec
  cr_pending_order_risk :: dec
  cr_open_position_count :: int
  cr_pending_order_count :: int
  cr_symbol_exposure :: dec
  cr_currency_exposure :: dec
  cr_directional_exposure :: dec
  cr_strategy_exposure :: dec
  cr_profile_exposure :: dec
  cr_correlated_exposure :: dec
  cr_conversion_rate :: "dec option"
  cr_pip_value :: "dec option"

record RiskEvaluationRequest = request_account +
  cr_contract_size :: "dec option"
  cr_volume_step :: "dec option"
  cr_losing_streak :: int
  cr_session :: string
  cr_regime :: string
  cr_market_age_seconds :: int
  cr_account_age_seconds :: int
  cr_portfolio_age_seconds :: int
  cr_model_age_seconds :: int
  cr_account_unknown :: bool
  cr_exposure_unknown :: bool
  cr_open_orders_unknown :: bool
  cr_reconciliation_status :: string
  cr_reconciliation_critical :: bool
  cr_safe_halt :: bool
  cr_control_state :: string
  cr_cooldown_until :: "datetime option"
  cr_existing_symbol_side :: "string option"
  cr_persistence_available :: bool
  cr_metadata :: "(string \<times> json) list"

record SizingTrace =
  sz_theoretical_size :: dec
  sz_constrained_size :: dec
  sz_rounded_size :: dec
  sz_final_risk :: dec
  sz_stop_distance :: dec
  sz_effective_stop :: dec
  sz_limiting_constraints :: "string list"
  sz_calculation_version :: string
  sz_input_hash :: string
  sz_output_hash :: string
  sz_include_costs :: bool

record decision_identity =
  cd_decision_id :: string
  cd_decision_status :: CapitalDecisionState
  cd_decision_timestamp :: datetime
  cd_expires_at :: datetime
  cd_correlation_id :: string
  cd_causation_id :: string
  cd_trade_intent_id :: string
  cd_strategy_id :: string
  cd_strategy_version :: string
  cd_profile_id :: string
  cd_profile_version :: string
  cd_symbol :: string
  cd_side :: string
  cd_requested_quantity :: dec
  cd_approved_quantity :: dec
  cd_entry_price :: dec
  cd_stop_loss_price :: dec
  cd_take_profit_price :: "dec option"

record decision_figures = decision_identity +
  cd_stop_distance :: dec
  cd_monetary_risk :: dec
  cd_risk_percent_of_equity :: dec
  cd_portfolio_heat_before :: dec
  cd_portfolio_heat_after :: dec
  cd_currency_exposure_before :: dec
  cd_currency_exposure_after :: dec
  cd_concentration_before :: dec
  cd_concentration_after :: dec
  cd_spread :: dec
  cd_slippage_estimate :: dec
  cd_expected_cost :: dec
  cd_model_quality_status :: string
  cd_regime_status :: string
  cd_session_status :: string

record RiskDecision = decision_figures +
  cd_account_status :: string
  cd_final_decision :: CapitalDecisionState
  cd_decision_reasons :: "string list"
  cd_failed_checks :: "string list"
  cd_warnings :: "string list"
  cd_policy_version :: string
  cd_policy_id :: string
  cd_configuration_hash :: string
  cd_input_hash :: string
  cd_output_hash :: string
  cd_audit_reference :: string
  cd_persistence_reference :: "string option"
  cd_checks :: "CheckOutcome list"
  cd_sizing :: "SizingTrace option"
  cd_execution_permitted :: bool
  cd_trading_readiness :: bool

record RiskApprovedExecutableIntent =
  ei_executable_intent_id :: string
  ei_risk_decision_id :: string
  ei_trade_intent_id :: string
  ei_symbol :: string
  ei_side :: string
  ei_approved_quantity :: dec
  ei_entry_price :: dec
  ei_stop_loss_price :: dec
  ei_take_profit_price :: "dec option"
  ei_maximum_slippage :: dec
  ei_maximum_latency_ms :: int
  ei_expires_at :: datetime
  ei_strategy_id :: string
  ei_profile_id :: string
  ei_correlation_id :: string
  ei_risk_policy_version :: string
  ei_execution_policy_version :: string
  ei_execution_allowed :: bool
  ei_audit_reference :: string
  ei_persistence_reference :: string
  ei_creates_order :: bool

record RiskRejection =
  rr_rejection_id :: string
  rr_trade_intent_id :: string
  rr_rejection_code :: string
  rr_rejection_category :: string
  rr_severity :: string
  rr_explanation :: string
  rr_failed_measurements :: "string list"
  rr_applicable_limits :: "check_text list"
  rr_policy_version :: string
  rr_timestamp :: datetime
  rr_correlation_id :: string
  rr_persistence_reference :: "string option"

record CapitalEvaluationResult =
  ce_decision :: RiskDecision
  ce_executable_intent :: "RiskApprovedExecutableIntent option"
  ce_rejection :: "RiskRejection option"
  ce_replay_match :: "bool option"

subsection \<open>Hash payloads\<close>

text \<open>What the capital gate hashes: a request, a policy, a flat object, the body of a decision.\<close>

record decision_body =
  db_state :: string
  db_approved_quantity :: string
  db_projected_risk :: string
  db_failed :: "string list"
  db_input_hash :: string
  db_policy_hash :: string
  db_check_status :: "(string \<times> string \<times> check_text option) list"

datatype hash_payload =
    HRequest RiskEvaluationRequest
  | HPolicy Pm4RiskGateConfig
  | HFields "(string \<times> string) list"
  | HBody decision_body

type_synonym hash = "hash_payload \<Rightarrow> string"

subsection \<open>Validators\<close>

text \<open>\<^verbatim>\<open>str(exc)\<close>\<close>

fun exn_text :: "py_exn \<Rightarrow> string" where
  "exn_text (ValueError m) = m"
| "exn_text (RuntimeError m) = m"
| "exn_text (IllegalTransition m) = m"
| "exn_text (IllegalIncidentTransition m) = m"
| "exn_text (IllegalWithdrawalTransition m) = m"
| "exn_text (KeyError m) = m"
| "exn_text (TypeError m) = m"
| "exn_text (ImmutableJournalError m) = m"
| "exn_text (RetentionFrozenError m) = m"
| "exn_text (ExecutionDisabledError m) = m"
| "exn_text (SizingError m) = m"
| "exn_text (MoneyError m) = m"
| "exn_text InvalidOperation = ''[<class 'decimal.InvalidOperation'>]''"
| "exn_text DivisionByZero = ''[<class 'decimal.DivisionByZero'>]''"
| "exn_text IndexError = ''list index out of range''"

text \<open>The subclasses of \<^verbatim>\<open>ValueError\<close>; the signals of \<^verbatim>\<open>decimal\<close> are \<^verbatim>\<open>ArithmeticError\<close>s.\<close>

fun is_value_error :: "py_exn \<Rightarrow> bool" where
  "is_value_error (ValueError m) = True"
| "is_value_error (SizingError m) = True"
| "is_value_error (MoneyError m) = True"
| "is_value_error (IllegalTransition m) = True"
| "is_value_error (IllegalIncidentTransition m) = True"
| "is_value_error (IllegalWithdrawalTransition m) = True"
| "is_value_error _ = False"

definition quantile_band :: "QuantileBand \<Rightarrow> QuantileBand res" where
  "quantile_band b =
     rbind (decimal_from (qb_q05 b)) (\<lambda>a05. rbind (decimal_from (qb_q25 b)) (\<lambda>a25.
     rbind (decimal_from (qb_q50 b)) (\<lambda>a50. rbind (decimal_from (qb_q75 b)) (\<lambda>a75.
     rbind (decimal_from (qb_q95 b)) (\<lambda>a95.
     raise_if (a25 < a05 \<or> a50 < a25 \<or> a75 < a50 \<or> a95 < a75)
       (ValueError ''quantiles must be non-decreasing'')
       (Inr \<lparr>qb_q05 = a05, qb_q25 = a25, qb_q50 = a50, qb_q75 = a75, qb_q95 = a95\<rparr>))))))"

text \<open>
  The field validators of a request. A decimal that does not fit raises at once, while the
  \<^verbatim>\<open>ValueError\<close>s are collected into one \<^verbatim>\<open>ValidationError\<close>, so the decimals come first.
\<close>

definition fits :: "dec \<Rightarrow> bool" where
  "fits x \<longleftrightarrow> (case decimal_from x of Inl _ \<Rightarrow> False | Inr _ \<Rightarrow> True)"

definition to_money :: "dec \<Rightarrow> dec" where
  "to_money x = (case decimal_from x of Inl _ \<Rightarrow> x | Inr y \<Rightarrow> y)"

lemma pred_option_code [code]: "pred_option P None = True" "pred_option P (Some x) = P x"
  by simp_all

definition request_amounts :: "RiskEvaluationRequest \<Rightarrow> dec list" where
  "request_amounts r =
     [cr_requested_quantity r, cr_entry_price r, cr_stop_loss_price r, cr_spread r,
      cr_estimated_slippage r, cr_estimated_commission r, cr_estimated_swap r, cr_account_equity r,
      cr_peak_equity r, cr_free_margin r, cr_realized_pnl_day r, cr_open_position_risk r,
      cr_pending_order_risk r, cr_symbol_exposure r, cr_currency_exposure r,
      cr_directional_exposure r, cr_strategy_exposure r, cr_profile_exposure r,
      cr_correlated_exposure r]"

definition request_optional_amounts :: "RiskEvaluationRequest \<Rightarrow> dec option list" where
  "request_optional_amounts r =
     [cr_take_profit_price r, cr_expected_return r, cr_expected_adverse_excursion r,
      cr_conversion_rate r, cr_pip_value r, cr_contract_size r, cr_volume_step r]"

definition round_request :: "RiskEvaluationRequest \<Rightarrow> RiskEvaluationRequest" where
  "round_request r = r\<lparr>
     cr_requested_quantity := to_money (cr_requested_quantity r),
     cr_entry_price := to_money (cr_entry_price r),
     cr_stop_loss_price := to_money (cr_stop_loss_price r),
     cr_take_profit_price := map_option to_money (cr_take_profit_price r),
     cr_expected_return := map_option to_money (cr_expected_return r),
     cr_expected_adverse_excursion := map_option to_money (cr_expected_adverse_excursion r),
     cr_spread := to_money (cr_spread r),
     cr_estimated_slippage := to_money (cr_estimated_slippage r),
     cr_estimated_commission := to_money (cr_estimated_commission r),
     cr_estimated_swap := to_money (cr_estimated_swap r),
     cr_account_equity := to_money (cr_account_equity r),
     cr_peak_equity := to_money (cr_peak_equity r),
     cr_free_margin := to_money (cr_free_margin r),
     cr_realized_pnl_day := to_money (cr_realized_pnl_day r),
     cr_open_position_risk := to_money (cr_open_position_risk r),
     cr_pending_order_risk := to_money (cr_pending_order_risk r),
     cr_symbol_exposure := to_money (cr_symbol_exposure r),
     cr_currency_exposure := to_money (cr_currency_exposure r),
     cr_directional_exposure := to_money (cr_directional_exposure r),
     cr_strategy_exposure := to_money (cr_strategy_exposure r),
     cr_profile_exposure := to_money (cr_profile_exposure r),
     cr_correlated_exposure := to_money (cr_correlated_exposure r),
     cr_conversion_rate := map_option to_money (cr_conversion_rate r),
     cr_pip_value := map_option to_money (cr_pip_value r),
     cr_contract_size := map_option to_money (cr_contract_size r),
     cr_volume_step := map_option to_money (cr_volume_step r)\<rparr>"

definition validate_request :: "RiskEvaluationRequest \<Rightarrow> RiskEvaluationRequest res" where
  "validate_request r =
     raise_if (\<not> list_all fits (request_amounts r) \<or>
               \<not> list_all (pred_option fits) (request_optional_amounts r)) InvalidOperation
     (let side = lower (strip (cr_side r)); symbol = upper (strip (cr_symbol r)) in
      raise_if (side \<notin> {''buy'', ''sell''}) (ValueError ''side must be buy|sell'')
      (raise_if (symbol = []) (ValueError ''symbol is required'')
      (Inr ((round_request r)\<lparr>cr_side := side, cr_symbol := symbol\<rparr>))))"

definition no_exec :: "RiskDecision \<Rightarrow> RiskDecision res" where
  "no_exec d =
     raise_if (cd_execution_permitted d \<or> cd_trading_readiness d)
       (ValueError ''capital decision cannot set execution_permitted or trading_readiness'')
     (raise_if (cd_final_decision d = CS_ERROR_FAIL_CLOSED \<and> cd_approved_quantity d \<noteq> 0)
       (ValueError ''fail-closed decisions must size to zero'') (Inr d))"

definition never_order :: "RiskApprovedExecutableIntent \<Rightarrow> RiskApprovedExecutableIntent res" where
  "never_order i =
     raise_if (ei_execution_allowed i \<or> ei_creates_order i)
       (ValueError ''executable intent cannot authorize execution in this stage'') (Inr i)"

definition capital_approved :: "CapitalDecisionState \<Rightarrow> bool" where
  "capital_approved s \<longleftrightarrow> s \<in> {CS_APPROVED, CS_APPROVED_REDUCED_SIZE}"

definition result_shape :: "CapitalEvaluationResult \<Rightarrow> CapitalEvaluationResult res" where
  "result_shape r =
     (let approved = capital_approved (cd_final_decision (ce_decision r)) in
      raise_if (approved \<and> ce_executable_intent r = None)
        (ValueError ''approved decisions must emit an executable intent'')
      (raise_if (approved \<and> (case ce_executable_intent r of None \<Rightarrow> False | Some i \<Rightarrow> ei_execution_allowed i))
        (ValueError ''execution_allowed must stay false'')
      (raise_if (\<not> approved \<and> ce_executable_intent r \<noteq> None)
        (ValueError ''non-approved decisions cannot emit executable intents'')
      (Inr r))))"

end
