(* ===== verification/CapitalSizing.thy ===== *)
theory CapitalSizing
  imports CapitalContracts DecimalError
begin

section \<open>Capital sizing and portfolio heat\<close>

text \<open>
  \<^verbatim>\<open>capital/sizing.py\<close> and \<^verbatim>\<open>capital/portfolio.py\<close>. The sizer divides the risk budget by the risk
  of one lot and rounds down to the exponent of the lot step; its facts are that the rounded
  size never exceeds the request, the configured maximum or the budget, and never falls
  between zero and the minimum.
\<close>

subsection \<open>Operations\<close>

text \<open>\<^verbatim>\<open>x or default\<close> on an optional decimal: zero is false.\<close>

definition or_dec :: "dec option \<Rightarrow> dec \<Rightarrow> dec" where
  "or_dec x d = (case x of None \<Rightarrow> d | Some v \<Rightarrow> if v = 0 then d else v)"

definition cap_stop_distance :: "RiskEvaluationRequest \<Rightarrow> dec res" where
  "cap_stop_distance rq =
     decimal_from (if cr_side rq = ''buy'' then dsub (cr_entry_price rq) (cr_stop_loss_price rq)
                   else dsub (cr_stop_loss_price rq) (cr_entry_price rq))"

definition size_budget :: "RiskEvaluationRequest \<Rightarrow> Pm4RiskGateConfig \<Rightarrow> dec \<Rightarrow> dec \<Rightarrow> dec" where
  "size_budget rq c headroom remaining =
     (let share = dmul (cr_account_equity rq) (max_per_trade_risk_pct c);
          b0 = min share (if remaining > 0 then remaining else share);
          b1 = (if headroom > 0 then min b0 (dmul headroom (cr_account_equity rq)) else b0)
      in if include_transaction_costs c then dsub b1 (cr_estimated_commission rq) else b1)"

definition size_quantity ::
  "RiskEvaluationRequest \<Rightarrow> Pm4RiskGateConfig \<Rightarrow> dec \<Rightarrow> dec \<Rightarrow> dec \<Rightarrow> dec \<Rightarrow> dec \<Rightarrow>
   (dec \<times> dec \<times> string list) res" where
  "size_quantity rq c budget risk_per_lot theoretical constrained step =
     (if constrained < min_lots c then Inr (0, 0, [''below_min_lots''])
      else rbind (quantize round_down (norm_exp step) constrained) (\<lambda>rounded.
        if rounded < min_lots c then Inr (0, 0, [''quantize_below_min''])
        else
          (let position_risk = dmul rounded risk_per_lot in
           raise_if (position_risk > budget)
             (SizingError ''rounded quantity would breach the risk budget'')
           (Inr (rounded,
                 dadd position_risk (if include_transaction_costs c then cr_estimated_commission rq else 0),
                 reason_if (rounded < cr_requested_quantity rq) ''requested_quantity'' @
                 reason_if (rounded < theoretical) ''risk_budget'' @
                 reason_if (rounded = max_lots c) ''max_lots'')))))"

definition hash_amounts :: "hash \<Rightarrow> (string \<times> dec) list \<Rightarrow> string res" where
  "hash_amounts H kvs =
     rbind (collect (map (\<lambda>(k, v). rbind (canonical v) (\<lambda>t. Inr [(k, t)])) kvs)) (\<lambda>fs. Inr (H (HFields fs)))"

definition size_position ::
  "hash \<Rightarrow> RiskEvaluationRequest \<Rightarrow> Pm4RiskGateConfig \<Rightarrow> dec \<Rightarrow> dec \<Rightarrow> SizingTrace res" where
  "size_position H rq c headroom remaining =
     rbind (cap_stop_distance rq) (\<lambda>stop.
     raise_if (stop \<le> 0) (SizingError ''stop distance must be positive for the side'')
     (let spread = (if include_transaction_costs c then cr_spread rq else 0);
          slip = (if include_transaction_costs c then cr_estimated_slippage rq else 0);
          effective_stop = dadd (dadd stop spread) slip
      in raise_if (effective_stop \<le> 0) (SizingError ''effective stop is not positive'')
     (let contract = or_dec (cr_contract_size rq) (contract_size c);
          step = dec_fix (or_dec (cr_volume_step rq) (lot_step c))
      in raise_if (step \<le> 0) (SizingError ''lot step must be positive'')
     (case cr_conversion_rate rq of
        None \<Rightarrow> Inl (SizingError ''conversion_rate missing'')
      | Some rate \<Rightarrow>
         raise_if (rate \<le> 0) (SizingError ''conversion_rate must be positive'')
        (raise_if (cr_account_equity rq \<le> 0) (SizingError ''account equity unknown or non-positive'')
        (let budget = size_budget rq c headroom remaining in
         raise_if (budget \<le> 0) (SizingError ''no remaining risk budget'')
        (let risk_per_lot = dmul (dmul effective_stop contract) rate in
         raise_if (risk_per_lot \<le> 0) (SizingError ''risk per lot is not positive'')
        (let theoretical = ddiv budget risk_per_lot;
             constrained = min theoretical (min (max_lots c) (cr_requested_quantity rq))
         in rbind (size_quantity rq c budget risk_per_lot theoretical constrained step)
              (\<lambda>(rounded, final_risk, constraints).
            rbind (hash_amounts H
                [(''equity'', cr_account_equity rq), (''stop'', stop), (''effective_stop'', effective_stop),
                 (''budget'', budget), (''contract'', contract), (''rate'', rate),
                 (''requested'', cr_requested_quantity rq)]) (\<lambda>ih.
            rbind (hash_amounts H
                [(''theoretical'', theoretical), (''constrained'', constrained),
                 (''rounded'', rounded), (''final_risk'', final_risk)]) (\<lambda>oh.
            Inr \<lparr>sz_theoretical_size = theoretical, sz_constrained_size = constrained,
                 sz_rounded_size = rounded, sz_final_risk = final_risk, sz_stop_distance = stop,
                 sz_effective_stop = effective_stop, sz_limiting_constraints = constraints,
                 sz_calculation_version = ''capital-sizer-v1'', sz_input_hash = ih,
                 sz_output_hash = oh, sz_include_costs = include_transaction_costs c\<rparr>)))))))))))"

definition heat_before :: "RiskEvaluationRequest \<Rightarrow> dec res" where
  "heat_before rq =
     raise_if (cr_account_equity rq \<le> 0) (ValueError ''cannot compute heat without equity'')
     (Inr (ddiv (dadd (cr_open_position_risk rq) (cr_pending_order_risk rq)) (cr_account_equity rq)))"

definition heat_after :: "RiskEvaluationRequest \<Rightarrow> dec \<Rightarrow> dec res" where
  "heat_after rq projected =
     raise_if (cr_account_equity rq \<le> 0) (ValueError ''cannot compute heat without equity'')
     (Inr (ddiv (dadd (dadd (cr_open_position_risk rq) (cr_pending_order_risk rq)) projected)
        (cr_account_equity rq)))"

definition heat_headroom :: "RiskEvaluationRequest \<Rightarrow> Pm4RiskGateConfig \<Rightarrow> dec res" where
  "heat_headroom rq c =
     rbind (heat_before rq) (\<lambda>heat0.
       let leftover = dsub (max_effective_heat c) heat0 in Inr (if leftover > 0 then leftover else 0))"

definition currency_after :: "RiskEvaluationRequest \<Rightarrow> dec \<Rightarrow> dec" where
  "currency_after rq projected = dadd (cr_currency_exposure rq) projected"

definition concentration_after :: "RiskEvaluationRequest \<Rightarrow> dec \<Rightarrow> dec" where
  "concentration_after rq projected = dadd (cr_correlated_exposure rq) projected"

subsection \<open>What the sizer guarantees\<close>

lemma size_quantity_bounds:
  assumes "size_quantity rq c budget rpl th cn step = Inr (q, risk, cs)"
    and "0 < min_lots c" and "cn \<le> max_lots c" and "cn \<le> cr_requested_quantity rq"
  shows "q = 0 \<and> risk = 0 \<or>
    min_lots c \<le> q \<and> q \<le> max_lots c \<and> q \<le> cr_requested_quantity rq \<and> q \<le> cn \<and>
    dmul q rpl \<le> budget \<and>
    risk = dadd (dmul q rpl) (if include_transaction_costs c then cr_estimated_commission rq else 0)"
proof (cases "cn < min_lots c")
  case True
  with assms(1) show ?thesis by (simp add: size_quantity_def)
next
  case False
  with assms(2) have "0 \<le> cn" by simp
  from assms(1) False obtain r where r: "quantize round_down (norm_exp step) cn = Inr r"
    by (auto simp: size_quantity_def res_simps)
  have "r \<le> cn" by (rule quantize_down_le [OF \<open>0 \<le> cn\<close> r])
  with assms False r show ?thesis
    by (auto simp: size_quantity_def res_simps Let_def split: if_splits)
qed

text \<open>
  The inversion of a successful sizing: every guard has passed, and the fields of the trace
  are the values computed on the way.
\<close>

lemma size_position_cases:
  assumes "size_position H rq c headroom remaining = Inr t"
  obtains stop rate where
    "cap_stop_distance rq = Inr stop" "0 < stop" "cr_conversion_rate rq = Some rate" "0 < rate"
    "0 < cr_account_equity rq" "sz_stop_distance t = stop"
    "sz_effective_stop t = dadd (dadd stop (if include_transaction_costs c then cr_spread rq else 0))
       (if include_transaction_costs c then cr_estimated_slippage rq else 0)"
    "0 < sz_effective_stop t"
    "0 < size_budget rq c headroom remaining"
    "0 < dmul (dmul (sz_effective_stop t) (or_dec (cr_contract_size rq) (contract_size c))) rate"
    "sz_constrained_size t = min (sz_theoretical_size t) (min (max_lots c) (cr_requested_quantity rq))"
    "size_quantity rq c (size_budget rq c headroom remaining)
       (dmul (dmul (sz_effective_stop t) (or_dec (cr_contract_size rq) (contract_size c))) rate)
       (sz_theoretical_size t) (sz_constrained_size t)
       (dec_fix (or_dec (cr_volume_step rq) (lot_step c))) =
     Inr (sz_rounded_size t, sz_final_risk t, sz_limiting_constraints t)"
proof -
  from assms obtain stop where s: "cap_stop_distance rq = Inr stop"
    by (auto simp: size_position_def res_simps)
  from assms obtain rate where r: "cr_conversion_rate rq = Some rate"
    by (cases "cr_conversion_rate rq") (auto simp: size_position_def res_simps Let_def)
  show ?thesis
    using assms s r by (intro that) (auto simp: size_position_def res_simps Let_def)
qed

end
