(* ===== verification/CapitalChecks.thy ===== *)
theory CapitalChecks
  imports CapitalSizing
begin

section \<open>The forty capital checks\<close>

text \<open>
  \<^verbatim>\<open>capital/catalog.py\<close> and \<^verbatim>\<open>capital/checks.py\<close>. Every statement of \<^verbatim>\<open>run_checks\<close> is a
  definition that yields the outcomes it puts, or raises when an amount does not fit the decimal
  context; the two \<^verbatim>\<open>try\<close> blocks turn an exception into failed outcomes. The outcomes are then
  put into a dictionary and read out in the order of the catalogue.
\<close>

definition CHECK_CATALOG :: "string list" where
  "CHECK_CATALOG =
    [''input_schema'', ''idempotency'', ''market_freshness'', ''account_freshness'',
     ''portfolio_freshness'', ''session_eligibility'', ''regime_eligibility'',
     ''symbol_eligibility'', ''strategy_profile_eligibility'', ''model_availability'',
     ''model_freshness'', ''model_quality'', ''model_uncertainty'', ''spread_limit'',
     ''slippage_limit'', ''commission_cost_limit'', ''stop_loss_existence'',
     ''stop_loss_distance'', ''min_reward_risk'', ''position_size_validity'',
     ''max_single_trade_risk'', ''daily_loss_limit'', ''equity_drawdown_limit'',
     ''consecutive_loss'', ''portfolio_heat'', ''symbol_exposure'', ''currency_exposure'',
     ''directional_exposure'', ''correlation_concentration'', ''strategy_concentration'',
     ''profile_allocation'', ''open_order_exposure'', ''pending_order_exposure'',
     ''duplicate_position'', ''cooldown'', ''max_simultaneous_positions'',
     ''reconciliation_status'', ''persistence_availability'', ''system_control_state'',
     ''global_safe_halt'']"

subsection \<open>Outcomes\<close>

definition check_out ::
  "Pm4RiskGateConfig \<Rightarrow> string \<Rightarrow> CheckStatus \<Rightarrow> string \<Rightarrow> check_text option \<Rightarrow> check_text option \<Rightarrow>
   bool \<Rightarrow> string \<Rightarrow> CheckOutcome" where
  "check_out c name status reason measured limit blocking severity =
     \<lparr>co_name = name, co_status = status, co_measured = measured, co_limit = limit,
      co_severity = severity, co_reason = reason, co_policy_version = policy_version c,
      co_evidence = [], co_blocking = (blocking \<and> status \<in> {CK_FAIL, CK_BLOCK})\<rparr>"

text \<open>
  The three ways the code calls \<^verbatim>\<open>_out\<close>: a pass is informational, a failure keeps the defaults,
  a block is critical.
\<close>

definition ck_pass ::
  "Pm4RiskGateConfig \<Rightarrow> string \<Rightarrow> string \<Rightarrow> check_text option \<Rightarrow> check_text option \<Rightarrow> CheckOutcome" where
  "ck_pass c name reason measured limit = check_out c name CK_PASS reason measured limit False ''info''"

definition ck_fail ::
  "Pm4RiskGateConfig \<Rightarrow> string \<Rightarrow> string \<Rightarrow> check_text option \<Rightarrow> check_text option \<Rightarrow> CheckOutcome" where
  "ck_fail c name reason measured limit = check_out c name CK_FAIL reason measured limit True ''high''"

definition ck_block ::
  "Pm4RiskGateConfig \<Rightarrow> string \<Rightarrow> string \<Rightarrow> check_text option \<Rightarrow> CheckOutcome" where
  "ck_block c name reason measured = check_out c name CK_BLOCK reason measured None True ''critical''"

definition ck_skip :: "Pm4RiskGateConfig \<Rightarrow> string \<Rightarrow> string \<Rightarrow> string \<Rightarrow> CheckOutcome" where
  "ck_skip c name reason severity = check_out c name CK_SKIP reason None None False severity"

abbreviation txt_of :: "string \<Rightarrow> check_text option" where
  "txt_of s \<equiv> Some (MText s)"

abbreviation num_of :: "int \<Rightarrow> check_text option" where
  "num_of i \<equiv> Some (MText (int_str i))"

text \<open>An outcome whose measurement, and limit if it has one, are canonical amounts.\<close>

definition with_amount :: "dec \<Rightarrow> (check_text option \<Rightarrow> CheckOutcome) \<Rightarrow> CheckOutcome list res" where
  "with_amount x f = rbind (canonical x) (\<lambda>m. Inr [f (txt_of m)])"

definition with_amounts ::
  "dec \<Rightarrow> dec \<Rightarrow> (check_text option \<Rightarrow> check_text option \<Rightarrow> CheckOutcome) \<Rightarrow> CheckOutcome list res" where
  "with_amounts x y f = rbind (canonical x) (\<lambda>m. rbind (canonical y) (\<lambda>l. Inr [f (txt_of m) (txt_of l)]))"

subsection \<open>Data checks\<close>

definition ck_intake :: "Pm4RiskGateConfig \<Rightarrow> RiskEvaluationRequest \<Rightarrow> CheckOutcome list res" where
  "ck_intake c rq = Inr
     [ck_pass c ''input_schema'' ''schema accepted'' None None,
      ck_pass c ''idempotency'' ''key present'' (txt_of (cr_idempotency_key rq)) None]"

definition ck_market :: "Pm4RiskGateConfig \<Rightarrow> RiskEvaluationRequest \<Rightarrow> CheckOutcome list res" where
  "ck_market c rq = Inr
     [if cr_market_age_seconds rq > market_stale_seconds c
      then ck_fail c ''market_freshness'' ''market snapshot stale''
             (num_of (cr_market_age_seconds rq)) (num_of (market_stale_seconds c))
      else ck_pass c ''market_freshness'' ''market fresh''
             (num_of (cr_market_age_seconds rq)) (num_of (market_stale_seconds c))]"

definition ck_account :: "Pm4RiskGateConfig \<Rightarrow> RiskEvaluationRequest \<Rightarrow> CheckOutcome list res" where
  "ck_account c rq =
     (if cr_account_unknown rq \<or> cr_account_equity rq \<le> 0
      then Inr [ck_block c ''account_freshness'' ''account equity unknown'' None]
      else if cr_account_age_seconds rq > account_stale_seconds c
      then Inr [ck_fail c ''account_freshness'' ''account snapshot stale''
             (num_of (cr_account_age_seconds rq)) (num_of (account_stale_seconds c))]
      else if cr_free_margin rq < free_margin_floor c
      then with_amounts (cr_free_margin rq) (free_margin_floor c)
             (ck_fail c ''account_freshness'' ''free margin below floor'')
      else Inr [ck_pass c ''account_freshness'' ''account fresh'' None None])"

definition ck_portfolio :: "Pm4RiskGateConfig \<Rightarrow> RiskEvaluationRequest \<Rightarrow> CheckOutcome list res" where
  "ck_portfolio c rq = Inr
     [if cr_exposure_unknown rq then ck_block c ''portfolio_freshness'' ''exposure unknown'' None
      else if cr_portfolio_age_seconds rq > account_stale_seconds c
      then ck_fail c ''portfolio_freshness'' ''portfolio snapshot stale''
             (num_of (cr_portfolio_age_seconds rq)) None
      else ck_pass c ''portfolio_freshness'' ''portfolio fresh'' None None]"

definition ck_eligibility :: "Pm4RiskGateConfig \<Rightarrow> RiskEvaluationRequest \<Rightarrow> CheckOutcome list res" where
  "ck_eligibility c rq = Inr
     [if cr_session rq \<notin> set (session_allow c)
      then ck_fail c ''session_eligibility'' ''session not permitted'' (txt_of (cr_session rq))
             (txt_of (join '','' (session_allow c)))
      else ck_pass c ''session_eligibility'' ''session allowed'' (txt_of (cr_session rq)) None,
      if lower (cr_regime rq) \<in> {''unknown'', ''invalid'', ''''}
      then ck_fail c ''regime_eligibility'' ''regime ineligible'' (txt_of (cr_regime rq)) None
      else ck_pass c ''regime_eligibility'' ''regime eligible'' (txt_of (cr_regime rq)) None,
      if cr_symbol rq \<notin> set (allowed_symbols c)
      then ck_fail c ''symbol_eligibility'' ''symbol not on allowlist'' (txt_of (cr_symbol rq)) None
      else ck_pass c ''symbol_eligibility'' ''symbol allowed'' (txt_of (cr_symbol rq)) None,
      if cr_strategy_id rq = [] \<or> cr_profile_id rq = [] \<or> cr_strategy_version rq = [] \<or>
         cr_profile_version rq = []
      then ck_fail c ''strategy_profile_eligibility'' ''strategy/profile version missing'' None None
      else ck_pass c ''strategy_profile_eligibility'' ''strategy/profile present'' None None]"

definition ck_model :: "Pm4RiskGateConfig \<Rightarrow> RiskEvaluationRequest \<Rightarrow> CheckOutcome list res" where
  "ck_model c rq = Inr
     [if require_model c \<and> \<not> truthy (cr_model_snapshot_id rq)
      then ck_fail c ''model_availability'' ''model snapshot required'' None None
      else ck_pass c ''model_availability'' ''model present or not required'' None None,
      if require_model c \<and> cr_model_age_seconds rq > model_stale_seconds c
      then ck_fail c ''model_freshness'' ''model stale''
             (num_of (cr_model_age_seconds rq)) (num_of (model_stale_seconds c))
      else ck_pass c ''model_freshness'' ''model fresh'' None None,
      if require_model c \<and> cr_model_quality_status rq \<notin> {''ok'', ''pass'', ''valid'', ''good''}
      then ck_fail c ''model_quality'' ''model quality unknown or failed''
             (txt_of (cr_model_quality_status rq)) None
      else ck_pass c ''model_quality'' ''model quality acceptable''
             (txt_of (cr_model_quality_status rq)) None]"

definition ck_uncertainty :: "Pm4RiskGateConfig \<Rightarrow> RiskEvaluationRequest \<Rightarrow> CheckOutcome list res" where
  "ck_uncertainty c rq =
     (if require_model c then
        (case cr_predicted_quantiles rq of
           None \<Rightarrow> Inr [ck_fail c ''model_uncertainty'' ''quantiles missing'' None None]
         | Some band \<Rightarrow>
             let span = dsub (qb_q95 band) (qb_q05 band) in
             if span > max_uncertainty_span c
             then with_amounts span (max_uncertainty_span c)
                    (ck_fail c ''model_uncertainty'' ''uncertainty exceeds maximum'')
             else with_amount span
                    (\<lambda>m. ck_pass c ''model_uncertainty'' ''uncertainty within cap'' m None))
      else Inr [ck_skip c ''model_uncertainty'' ''model not required'' ''info''])"

subsection \<open>Cost checks\<close>

definition ck_spread :: "Pm4RiskGateConfig \<Rightarrow> RiskEvaluationRequest \<Rightarrow> CheckOutcome list res" where
  "ck_spread c rq =
     (if cr_spread rq > max_spread c
      then with_amounts (cr_spread rq) (max_spread c) (ck_fail c ''spread_limit'' ''spread exceeds limit'')
      else with_amount (cr_spread rq) (\<lambda>m. ck_pass c ''spread_limit'' ''spread ok'' m None))"

definition ck_slippage :: "Pm4RiskGateConfig \<Rightarrow> RiskEvaluationRequest \<Rightarrow> CheckOutcome list res" where
  "ck_slippage c rq =
     (if cr_estimated_slippage rq > max_slippage c
      then with_amounts (cr_estimated_slippage rq) (max_slippage c)
             (ck_fail c ''slippage_limit'' ''slippage exceeds limit'')
      else with_amount (cr_estimated_slippage rq)
             (\<lambda>m. ck_pass c ''slippage_limit'' ''slippage ok'' m None))"

definition ck_commission :: "Pm4RiskGateConfig \<Rightarrow> RiskEvaluationRequest \<Rightarrow> CheckOutcome list res" where
  "ck_commission c rq =
     (if cr_estimated_commission rq > max_commission c
      then with_amounts (cr_estimated_commission rq) (max_commission c)
             (ck_fail c ''commission_cost_limit'' ''commission exceeds limit'')
      else
        (let cost = dadd (cr_estimated_commission rq) (cr_estimated_swap rq);
             ok = Inr [ck_pass c ''commission_cost_limit'' ''cost ok'' None None]
         in case cr_expected_return rq of
              None \<Rightarrow> ok
            | Some edge \<Rightarrow>
                if edge > 0 \<and> ddiv cost edge > max_cost_to_edge c
                then with_amounts (ddiv cost edge) (max_cost_to_edge c)
                       (ck_fail c ''commission_cost_limit'' ''cost-to-edge exceeds policy'')
                else ok))"

subsection \<open>Stop, size and loss checks\<close>

definition reward_of :: "RiskEvaluationRequest \<Rightarrow> dec \<Rightarrow> dec" where
  "reward_of rq tp = (if cr_side rq = ''buy'' then dsub tp (cr_entry_price rq) else dsub (cr_entry_price rq) tp)"

definition reward_outcome ::
  "Pm4RiskGateConfig \<Rightarrow> RiskEvaluationRequest \<Rightarrow> dec \<Rightarrow> CheckOutcome list res" where
  "reward_outcome c rq stop =
     (case cr_take_profit_price rq of
        None \<Rightarrow> Inr [ck_skip c ''min_reward_risk'' ''take-profit not provided'' ''low'']
      | Some tp \<Rightarrow>
          if stop > 0 then
            (let rr = ddiv (reward_of rq tp) stop in
             if rr < min_reward_risk c
             then with_amounts rr (min_reward_risk c)
                    (ck_fail c ''min_reward_risk'' ''reward/risk below minimum'')
             else with_amount rr (\<lambda>m. ck_pass c ''min_reward_risk'' ''reward/risk ok'' m None))
          else Inr [ck_skip c ''min_reward_risk'' ''take-profit not provided'' ''low''])"

text \<open>The first \<^verbatim>\<open>try\<close> block: its exception handler replaces all three outcomes.\<close>

definition stop_outcomes :: "Pm4RiskGateConfig \<Rightarrow> RiskEvaluationRequest \<Rightarrow> CheckOutcome list res" where
  "stop_outcomes c rq =
     rbind (cap_stop_distance rq) (\<lambda>stop.
     rbind (canonical stop) (\<lambda>m.
     rbind (reward_outcome c rq stop) (\<lambda>reward.
     Inr ([ck_pass c ''stop_loss_existence'' ''stop present'' (txt_of m) None,
           if stop < min_stop_distance c \<or> stop > max_stop_distance c
           then ck_fail c ''stop_loss_distance'' ''stop distance outside bounds'' (txt_of m)
                  (Some (MRange (min_stop_distance c) (max_stop_distance c)))
           else ck_pass c ''stop_loss_distance'' ''stop distance ok'' (txt_of m) None] @ reward))))"

definition ck_stop :: "Pm4RiskGateConfig \<Rightarrow> RiskEvaluationRequest \<Rightarrow> CheckOutcome list res" where
  "ck_stop c rq =
     (case stop_outcomes c rq of
        Inr os \<Rightarrow> Inr os
      | Inl e \<Rightarrow> Inr
          [ck_fail c ''stop_loss_existence'' (exn_text e) None None,
           ck_fail c ''stop_loss_distance'' ''stop unusable'' None None,
           ck_fail c ''min_reward_risk'' ''stop unusable'' None None])"

definition ck_size ::
  "Pm4RiskGateConfig \<Rightarrow> RiskEvaluationRequest \<Rightarrow> string option \<Rightarrow> CheckOutcome list res" where
  "ck_size c rq sizing_error =
     (if cr_requested_quantity rq \<le> 0
      then with_amount (cr_requested_quantity rq)
             (\<lambda>m. ck_fail c ''position_size_validity'' ''non-positive quantity'' m None)
      else if truthy sizing_error
      then Inr [ck_fail c ''position_size_validity'' (the sizing_error) None None]
      else Inr [ck_pass c ''position_size_validity'' ''quantity usable'' None None])"

definition ck_trade_risk ::
  "Pm4RiskGateConfig \<Rightarrow> RiskEvaluationRequest \<Rightarrow> dec option \<Rightarrow> CheckOutcome list res" where
  "ck_trade_risk c rq projected =
     (let equity = cr_account_equity rq;
          cap = (if equity > 0 then dmul equity (max_per_trade_risk_pct c) else 0);
          risk = (case projected of None \<Rightarrow> 0 | Some r \<Rightarrow> r)
      in if projected \<noteq> None \<and> equity > 0 \<and> risk > cap
         then with_amounts risk cap (ck_fail c ''max_single_trade_risk'' ''single-trade risk exceeds cap'')
         else with_amount risk (\<lambda>m. ck_pass c ''max_single_trade_risk'' ''single-trade risk ok'' m None))"

definition day_loss :: "RiskEvaluationRequest \<Rightarrow> dec" where
  "day_loss rq = dabs (min (cr_realized_pnl_day rq) 0)"

definition ck_daily :: "Pm4RiskGateConfig \<Rightarrow> RiskEvaluationRequest \<Rightarrow> CheckOutcome list res" where
  "ck_daily c rq =
     (let equity = cr_account_equity rq;
          daily_cap = (if equity > 0 then dmul equity (max_daily_loss_pct c) else 0)
      in if equity > 0 \<and> day_loss rq \<ge> daily_cap
         then with_amounts (day_loss rq) daily_cap (ck_fail c ''daily_loss_limit'' ''daily loss limit reached'')
         else with_amount (day_loss rq)
                (\<lambda>m. ck_pass c ''daily_loss_limit'' ''daily loss inside cap'' m None))"

definition cap_drawdown :: "RiskEvaluationRequest \<Rightarrow> dec" where
  "cap_drawdown rq = ddiv (dsub (cr_peak_equity rq) (cr_account_equity rq)) (cr_peak_equity rq)"

definition ck_drawdown :: "Pm4RiskGateConfig \<Rightarrow> RiskEvaluationRequest \<Rightarrow> CheckOutcome list res" where
  "ck_drawdown c rq =
     (if cr_account_equity rq > 0 \<and> cr_peak_equity rq > 0 then
        if cr_account_equity rq < equity_floor c
        then with_amounts (cr_account_equity rq) (equity_floor c)
               (ck_fail c ''equity_drawdown_limit'' ''equity floor breached'')
        else if cap_drawdown rq \<ge> dd_freeze c
        then with_amounts (cap_drawdown rq) (dd_freeze c)
               (ck_fail c ''equity_drawdown_limit'' ''drawdown freeze'')
        else with_amount (cap_drawdown rq)
               (\<lambda>m. ck_pass c ''equity_drawdown_limit'' ''drawdown inside freeze'' m None)
      else Inr [ck_block c ''equity_drawdown_limit'' ''cannot compute drawdown'' None])"

definition ck_streak :: "Pm4RiskGateConfig \<Rightarrow> RiskEvaluationRequest \<Rightarrow> CheckOutcome list res" where
  "ck_streak c rq = Inr
     [if cr_losing_streak rq \<ge> int (consecutive_loss_limit c)
      then ck_fail c ''consecutive_loss'' ''losing streak lock'' (num_of (cr_losing_streak rq))
             (num_of (int (consecutive_loss_limit c)))
      else ck_pass c ''consecutive_loss'' ''streak inside cap'' (num_of (cr_losing_streak rq)) None]"

subsection \<open>Exposure checks\<close>

definition ck_heat :: "Pm4RiskGateConfig \<Rightarrow> RiskEvaluationRequest \<Rightarrow> dec \<Rightarrow> CheckOutcome list res" where
  "ck_heat c rq risk =
     (case rbind (heat_after rq risk) (\<lambda>after.
        if after > max_effective_heat c
        then with_amounts after (max_effective_heat c)
               (ck_fail c ''portfolio_heat'' ''portfolio heat would exceed cap'')
        else with_amount after (\<lambda>m. ck_pass c ''portfolio_heat'' ''heat inside cap'' m None)) of
        Inr os \<Rightarrow> Inr os
      | Inl e \<Rightarrow> Inr [ck_block c ''portfolio_heat'' (exn_text e) None])"

definition exposure_check ::
  "Pm4RiskGateConfig \<Rightarrow> string \<Rightarrow> string \<Rightarrow> string \<Rightarrow> dec \<Rightarrow> dec \<Rightarrow> CheckOutcome list res" where
  "exposure_check c name reason severity x cap =
     with_amounts x cap (\<lambda>m l. check_out c name (if x > cap then CK_FAIL else CK_PASS) reason m l
       (x > cap) (if x > cap then severity else ''info''))"

definition exposure_share :: "RiskEvaluationRequest \<Rightarrow> dec \<Rightarrow> dec \<Rightarrow> dec" where
  "exposure_share rq x risk = ddiv (dadd x risk) (cr_account_equity rq)"

definition ck_exposures :: "Pm4RiskGateConfig \<Rightarrow> RiskEvaluationRequest \<Rightarrow> dec \<Rightarrow> CheckOutcome list res" where
  "ck_exposures c rq risk =
     (if cr_account_equity rq > 0 then collect
        [exposure_check c ''symbol_exposure'' ''symbol exposure'' ''high''
           (exposure_share rq (cr_symbol_exposure rq) risk) (max_symbol_exposure_pct c),
         exposure_check c ''currency_exposure'' ''currency exposure'' ''high''
           (exposure_share rq (cr_currency_exposure rq) risk) (max_currency_exposure_pct c),
         exposure_check c ''directional_exposure'' ''directional exposure'' ''high''
           (exposure_share rq (dabs (cr_directional_exposure rq)) risk) (max_currency_exposure_pct c),
         exposure_check c ''correlation_concentration'' ''correlated exposure'' ''high''
           (exposure_share rq (cr_correlated_exposure rq) risk) (max_correlation_pct c),
         exposure_check c ''strategy_concentration'' ''strategy concentration'' ''medium''
           (exposure_share rq (cr_strategy_exposure rq) risk) (max_strategy_pct c),
         exposure_check c ''profile_allocation'' ''profile allocation'' ''medium''
           (exposure_share rq (cr_profile_exposure rq) risk) (max_profile_pct c)]
      else Inr (map (\<lambda>name. ck_block c name ''equity unknown'' None)
        [''symbol_exposure'', ''currency_exposure'', ''directional_exposure'',
         ''correlation_concentration'', ''strategy_concentration'', ''profile_allocation'']))"

definition ck_orders :: "Pm4RiskGateConfig \<Rightarrow> RiskEvaluationRequest \<Rightarrow> CheckOutcome list res" where
  "ck_orders c rq = Inr
     (if cr_open_orders_unknown rq
      then [ck_block c ''open_order_exposure'' ''open orders unknown'' None,
            ck_block c ''pending_order_exposure'' ''pending orders unknown'' None]
      else [ck_pass c ''open_order_exposure'' ''open orders known''
              (num_of (cr_open_position_count rq)) None,
            ck_pass c ''pending_order_exposure'' ''pending orders known''
              (num_of (cr_pending_order_count rq)) None])"

definition ck_duplicate :: "Pm4RiskGateConfig \<Rightarrow> RiskEvaluationRequest \<Rightarrow> CheckOutcome list res" where
  "ck_duplicate c rq = Inr
     [if truthy (cr_existing_symbol_side rq) \<and> lower (the (cr_existing_symbol_side rq)) = cr_side rq
      then ck_fail c ''duplicate_position'' ''duplicate same-side position''
             (map_option MText (cr_existing_symbol_side rq)) None
      else ck_pass c ''duplicate_position'' ''no duplicate same-side position'' None None]"

definition ck_cooldown ::
  "Pm4RiskGateConfig \<Rightarrow> RiskEvaluationRequest \<Rightarrow> datetime \<Rightarrow> CheckOutcome list res" where
  "ck_cooldown c rq now = Inr
     [case cr_cooldown_until rq of
        Some t \<Rightarrow> if t > now
          then ck_fail c ''cooldown'' ''cooldown active'' (Some (MInstant t)) None
          else ck_pass c ''cooldown'' ''no cooldown'' None None
      | None \<Rightarrow> ck_pass c ''cooldown'' ''no cooldown'' None None]"

definition ck_positions :: "Pm4RiskGateConfig \<Rightarrow> RiskEvaluationRequest \<Rightarrow> CheckOutcome list res" where
  "ck_positions c rq = Inr
     [if cr_open_position_count rq \<ge> int (max_simultaneous_positions c)
      then ck_fail c ''max_simultaneous_positions'' ''simultaneous position cap''
             (num_of (cr_open_position_count rq)) (num_of (int (max_simultaneous_positions c)))
      else ck_pass c ''max_simultaneous_positions'' ''position count inside cap''
             (num_of (cr_open_position_count rq)) None]"

subsection \<open>System checks\<close>

definition ck_reconciliation :: "Pm4RiskGateConfig \<Rightarrow> RiskEvaluationRequest \<Rightarrow> CheckOutcome list res" where
  "ck_reconciliation c rq = Inr
     [if cr_reconciliation_critical rq \<or>
         lower (cr_reconciliation_status rq) \<in> {''unknown'', ''mismatch'', ''critical''}
      then ck_block c ''reconciliation_status'' ''reconciliation unresolved''
             (txt_of (cr_reconciliation_status rq))
      else ck_pass c ''reconciliation_status'' ''reconciliation not blocking''
             (txt_of (cr_reconciliation_status rq)) None]"

definition ck_system ::
  "Pm4RiskGateConfig \<Rightarrow> RiskEvaluationRequest \<Rightarrow> bool \<Rightarrow> bool \<Rightarrow> CheckOutcome list res" where
  "ck_system c rq halt persistence_ok = Inr
     [if \<not> persistence_ok
      then ck_block c ''persistence_availability'' ''persistence unavailable'' None
      else ck_pass c ''persistence_availability'' ''persistence available'' None None,
      if cr_control_state rq \<notin> {''active'', ''armed'', ''normal''}
      then ck_block c ''system_control_state'' ''control state does not permit evaluation''
             (txt_of (cr_control_state rq))
      else ck_pass c ''system_control_state'' ''control state active'' (txt_of (cr_control_state rq)) None,
      if halt \<or> cr_safe_halt rq
      then ck_block c ''global_safe_halt'' ''safe-halt latched'' None
      else ck_pass c ''global_safe_halt'' ''safe-halt clear'' None None]"

subsection \<open>All checks\<close>

definition order_checks :: "Pm4RiskGateConfig \<Rightarrow> CheckOutcome list \<Rightarrow> CheckOutcome list" where
  "order_checks c outs =
     (let results = fold (\<lambda>o' d. dict_put (co_name o') o' d) outs [] in
      List.map_filter (dict_get results) CHECK_CATALOG @
      map (\<lambda>name. ck_block c name ''check not executed'' None)
        (filter (\<lambda>name. dict_get results name = None) CHECK_CATALOG))"

definition all_checks ::
  "Pm4RiskGateConfig \<Rightarrow> RiskEvaluationRequest \<Rightarrow> datetime \<Rightarrow> bool \<Rightarrow> bool \<Rightarrow> dec option \<Rightarrow> string option \<Rightarrow>
   CheckOutcome list res list" where
  "all_checks c rq now halt persistence_ok projected sizing_error =
     (let risk = (case projected of None \<Rightarrow> 0 | Some r \<Rightarrow> r) in
      [ck_intake c rq, ck_market c rq, ck_account c rq, ck_portfolio c rq, ck_eligibility c rq,
       ck_model c rq, ck_uncertainty c rq, ck_spread c rq, ck_slippage c rq, ck_commission c rq,
       ck_stop c rq, ck_size c rq sizing_error, ck_trade_risk c rq projected, ck_daily c rq,
       ck_drawdown c rq, ck_streak c rq, ck_heat c rq risk, ck_exposures c rq risk, ck_orders c rq,
       ck_duplicate c rq, ck_cooldown c rq now, ck_positions c rq, ck_reconciliation c rq,
       ck_system c rq halt persistence_ok])"

definition run_checks ::
  "Pm4RiskGateConfig \<Rightarrow> RiskEvaluationRequest \<Rightarrow> datetime \<Rightarrow> bool \<Rightarrow> bool \<Rightarrow> dec option \<Rightarrow> string option \<Rightarrow>
   CheckOutcome list res" where
  "run_checks c rq now halt persistence_ok projected sizing_error =
     rbind (collect (all_checks c rq now halt persistence_ok projected sizing_error))
       (\<lambda>outs. Inr (order_checks c outs))"

subsection \<open>Shape of the outcomes\<close>

text \<open>An outcome is clear when it neither failed nor blocked; only then it does not block.\<close>

definition clear :: "CheckOutcome \<Rightarrow> bool" where
  "clear o' \<longleftrightarrow> co_status o' \<notin> {CK_FAIL, CK_BLOCK}"

definition settled :: "CheckOutcome \<Rightarrow> bool" where
  "settled o' \<longleftrightarrow> co_blocking o' = (\<not> clear o')"

named_theorems outs \<open>outcomes of the checks\<close>

lemma check_out_simps [outs]:
  "co_name (check_out c n st r m l b sv) = n"
  "clear (check_out c n st r m l b sv) \<longleftrightarrow> st \<notin> {CK_FAIL, CK_BLOCK}"
  "settled (check_out c n st r m l b sv) \<longleftrightarrow> b \<or> st \<notin> {CK_FAIL, CK_BLOCK}"
  by (auto simp: check_out_def clear_def settled_def)

lemma ck_simps [outs]:
  "co_name (ck_pass c n r m l) = n" "clear (ck_pass c n r m l)" "settled (ck_pass c n r m l)"
  "co_name (ck_fail c n r m l) = n" "\<not> clear (ck_fail c n r m l)" "settled (ck_fail c n r m l)"
  "co_name (ck_block c n r m) = n" "\<not> clear (ck_block c n r m)" "settled (ck_block c n r m)"
  "co_name (ck_skip c n r sv) = n" "clear (ck_skip c n r sv)" "settled (ck_skip c n r sv)"
  by (simp_all add: ck_pass_def ck_fail_def ck_block_def ck_skip_def outs)

lemma with_amount_Inr [outs]:
  "with_amount x f = Inr os \<longleftrightarrow> (\<exists>m. canonical x = Inr m \<and> os = [f (txt_of m)])"
  "with_amounts x y g = Inr os \<longleftrightarrow>
     (\<exists>m l. canonical x = Inr m \<and> canonical y = Inr l \<and> os = [g (txt_of m) (txt_of l)])"
  by (auto simp: with_amount_def with_amounts_def res_simps)

text \<open>
  \<open>check_group r ns P\<close>: a group of checks that returns puts one settled outcome for each name in
  turn, and they are all clear exactly when the condition holds.
\<close>

definition check_group :: "CheckOutcome list res \<Rightarrow> string list \<Rightarrow> bool \<Rightarrow> bool" where
  "check_group r ns P \<longleftrightarrow>
     (\<forall>os. r = Inr os \<longrightarrow> map co_name os = ns \<and> list_all settled os \<and> (list_all clear os \<longleftrightarrow> P))"

lemma check_groupI:
  "(\<And>os. r = Inr os \<Longrightarrow> map co_name os = ns \<and> list_all settled os \<and> (list_all clear os \<longleftrightarrow> P)) \<Longrightarrow>
   check_group r ns P"
  by (simp add: check_group_def)

lemma check_group_Nil: "check_group (collect []) [] True"
  by (simp add: check_group_def)

lemma check_group_Cons:
  "check_group r ns P \<Longrightarrow> check_group (collect rs) ms Q \<Longrightarrow>
   check_group (collect (r # rs)) (ns @ ms) (P \<and> Q)"
  by (auto simp: check_group_def res_simps)

lemma check_group_cong: "check_group r ns P \<Longrightarrow> ns = ms \<Longrightarrow> P = Q \<Longrightarrow> check_group r ms Q"
  by simp

subsection \<open>The conditions the checks stand for\<close>

definition data_ok :: "Pm4RiskGateConfig \<Rightarrow> RiskEvaluationRequest \<Rightarrow> bool" where
  "data_ok c rq \<longleftrightarrow>
     cr_market_age_seconds rq \<le> market_stale_seconds c \<and>
     \<not> cr_account_unknown rq \<and> 0 < cr_account_equity rq \<and>
     cr_account_age_seconds rq \<le> account_stale_seconds c \<and> free_margin_floor c \<le> cr_free_margin rq \<and>
     \<not> cr_exposure_unknown rq \<and> cr_portfolio_age_seconds rq \<le> account_stale_seconds c"

definition eligible_ok :: "Pm4RiskGateConfig \<Rightarrow> RiskEvaluationRequest \<Rightarrow> bool" where
  "eligible_ok c rq \<longleftrightarrow>
     cr_session rq \<in> set (session_allow c) \<and> lower (cr_regime rq) \<notin> {''unknown'', ''invalid'', ''''} \<and>
     cr_symbol rq \<in> set (allowed_symbols c) \<and> cr_strategy_id rq \<noteq> [] \<and> cr_profile_id rq \<noteq> [] \<and>
     cr_strategy_version rq \<noteq> [] \<and> cr_profile_version rq \<noteq> []"

definition model_ok :: "Pm4RiskGateConfig \<Rightarrow> RiskEvaluationRequest \<Rightarrow> bool" where
  "model_ok c rq \<longleftrightarrow>
     (require_model c \<longrightarrow>
        truthy (cr_model_snapshot_id rq) \<and> cr_model_age_seconds rq \<le> model_stale_seconds c \<and>
        cr_model_quality_status rq \<in> {''ok'', ''pass'', ''valid'', ''good''} \<and>
        (\<exists>b. cr_predicted_quantiles rq = Some b \<and> dsub (qb_q95 b) (qb_q05 b) \<le> max_uncertainty_span c))"

definition cost_ok :: "Pm4RiskGateConfig \<Rightarrow> RiskEvaluationRequest \<Rightarrow> bool" where
  "cost_ok c rq \<longleftrightarrow>
     cr_spread rq \<le> max_spread c \<and> cr_estimated_slippage rq \<le> max_slippage c \<and>
     cr_estimated_commission rq \<le> max_commission c \<and>
     (\<forall>edge. cr_expected_return rq = Some edge \<longrightarrow> 0 < edge \<longrightarrow>
        ddiv (dadd (cr_estimated_commission rq) (cr_estimated_swap rq)) edge \<le> max_cost_to_edge c)"

definition reward_ok :: "Pm4RiskGateConfig \<Rightarrow> RiskEvaluationRequest \<Rightarrow> dec \<Rightarrow> bool" where
  "reward_ok c rq stop \<longleftrightarrow>
     (\<forall>tp. cr_take_profit_price rq = Some tp \<longrightarrow> 0 < stop \<longrightarrow>
        min_reward_risk c \<le> ddiv (reward_of rq tp) stop \<and> fits (ddiv (reward_of rq tp) stop))"

definition stop_ok :: "Pm4RiskGateConfig \<Rightarrow> RiskEvaluationRequest \<Rightarrow> bool" where
  "stop_ok c rq \<longleftrightarrow>
     (\<exists>stop. cap_stop_distance rq = Inr stop \<and> min_stop_distance c \<le> stop \<and> stop \<le> max_stop_distance c \<and>
        reward_ok c rq stop)"

definition loss_ok :: "Pm4RiskGateConfig \<Rightarrow> RiskEvaluationRequest \<Rightarrow> bool" where
  "loss_ok c rq \<longleftrightarrow>
     (0 < cr_account_equity rq \<longrightarrow> day_loss rq < dmul (cr_account_equity rq) (max_daily_loss_pct c)) \<and>
     0 < cr_account_equity rq \<and> 0 < cr_peak_equity rq \<and>
     equity_floor c \<le> cr_account_equity rq \<and> cap_drawdown rq < dd_freeze c \<and>
     cr_losing_streak rq < int (consecutive_loss_limit c)"

definition exposure_ok :: "Pm4RiskGateConfig \<Rightarrow> RiskEvaluationRequest \<Rightarrow> dec \<Rightarrow> bool" where
  "exposure_ok c rq risk \<longleftrightarrow>
     (\<exists>after. heat_after rq risk = Inr after \<and> after \<le> max_effective_heat c \<and> fits after) \<and>
     0 < cr_account_equity rq \<and>
     exposure_share rq (cr_symbol_exposure rq) risk \<le> max_symbol_exposure_pct c \<and>
     exposure_share rq (cr_currency_exposure rq) risk \<le> max_currency_exposure_pct c \<and>
     exposure_share rq (dabs (cr_directional_exposure rq)) risk \<le> max_currency_exposure_pct c \<and>
     exposure_share rq (cr_correlated_exposure rq) risk \<le> max_correlation_pct c \<and>
     exposure_share rq (cr_strategy_exposure rq) risk \<le> max_strategy_pct c \<and>
     exposure_share rq (cr_profile_exposure rq) risk \<le> max_profile_pct c"

definition system_ok :: "Pm4RiskGateConfig \<Rightarrow> RiskEvaluationRequest \<Rightarrow> datetime \<Rightarrow> bool \<Rightarrow> bool \<Rightarrow> bool" where
  "system_ok c rq now halt persistence_ok \<longleftrightarrow>
     \<not> cr_open_orders_unknown rq \<and>
     \<not> (truthy (cr_existing_symbol_side rq) \<and> lower (the (cr_existing_symbol_side rq)) = cr_side rq) \<and>
     (\<forall>t. cr_cooldown_until rq = Some t \<longrightarrow> t \<le> now) \<and>
     cr_open_position_count rq < int (max_simultaneous_positions c) \<and>
     \<not> cr_reconciliation_critical rq \<and>
     lower (cr_reconciliation_status rq) \<notin> {''unknown'', ''mismatch'', ''critical''} \<and>
     persistence_ok \<and> cr_control_state rq \<in> {''active'', ''armed'', ''normal''} \<and>
     \<not> halt \<and> \<not> cr_safe_halt rq"

text \<open>What the forty checks demand together.\<close>

definition capital_limits ::
  "Pm4RiskGateConfig \<Rightarrow> RiskEvaluationRequest \<Rightarrow> datetime \<Rightarrow> bool \<Rightarrow> bool \<Rightarrow> dec option \<Rightarrow> string option \<Rightarrow> bool" where
  "capital_limits c rq now halt persistence_ok projected sizing_error \<longleftrightarrow>
     data_ok c rq \<and> eligible_ok c rq \<and> model_ok c rq \<and> cost_ok c rq \<and> stop_ok c rq \<and>
     0 < cr_requested_quantity rq \<and> \<not> truthy sizing_error \<and>
     (\<forall>risk. projected = Some risk \<longrightarrow> 0 < cr_account_equity rq \<longrightarrow>
        risk \<le> dmul (cr_account_equity rq) (max_per_trade_risk_pct c)) \<and>
     loss_ok c rq \<and> exposure_ok c rq (case projected of None \<Rightarrow> 0 | Some r \<Rightarrow> r) \<and>
     system_ok c rq now halt persistence_ok"

subsection \<open>The checks decide the conditions\<close>

lemma fits_canonical: "fits x \<longleftrightarrow> (\<exists>t. canonical x = Inr t)"
  by (cases "decimal_from x") (simp_all add: fits_def canonical_def)

lemma group_intake: "check_group (ck_intake c rq) [''input_schema'', ''idempotency''] True"
  by (auto simp: check_group_def ck_intake_def outs)

lemma group_data:
  "check_group (ck_market c rq) [''market_freshness''] (cr_market_age_seconds rq \<le> market_stale_seconds c)"
  "check_group (ck_account c rq) [''account_freshness'']
     (\<not> cr_account_unknown rq \<and> 0 < cr_account_equity rq \<and>
      cr_account_age_seconds rq \<le> account_stale_seconds c \<and> free_margin_floor c \<le> cr_free_margin rq)"
  "check_group (ck_portfolio c rq) [''portfolio_freshness'']
     (\<not> cr_exposure_unknown rq \<and> cr_portfolio_age_seconds rq \<le> account_stale_seconds c)"
  by (auto simp: check_group_def ck_market_def ck_account_def ck_portfolio_def outs split: if_splits)

lemma group_eligible:
  "check_group (ck_eligibility c rq)
     [''session_eligibility'', ''regime_eligibility'', ''symbol_eligibility'', ''strategy_profile_eligibility'']
     (eligible_ok c rq)"
  by (auto simp: check_group_def ck_eligibility_def eligible_ok_def outs)

lemma group_model:
  "check_group (ck_model c rq) [''model_availability'', ''model_freshness'', ''model_quality'']
     (require_model c \<longrightarrow> truthy (cr_model_snapshot_id rq) \<and>
        cr_model_age_seconds rq \<le> model_stale_seconds c \<and>
        cr_model_quality_status rq \<in> {''ok'', ''pass'', ''valid'', ''good''})"
  "check_group (ck_uncertainty c rq) [''model_uncertainty'']
     (require_model c \<longrightarrow>
        (\<exists>b. cr_predicted_quantiles rq = Some b \<and> dsub (qb_q95 b) (qb_q05 b) \<le> max_uncertainty_span c))"
  by (auto simp: check_group_def ck_model_def ck_uncertainty_def Let_def outs
        split: if_splits option.splits)

lemma group_cost:
  "check_group (ck_spread c rq) [''spread_limit''] (cr_spread rq \<le> max_spread c)"
  "check_group (ck_slippage c rq) [''slippage_limit''] (cr_estimated_slippage rq \<le> max_slippage c)"
  "check_group (ck_commission c rq) [''commission_cost_limit'']
     (cr_estimated_commission rq \<le> max_commission c \<and>
      (\<forall>edge. cr_expected_return rq = Some edge \<longrightarrow> 0 < edge \<longrightarrow>
         ddiv (dadd (cr_estimated_commission rq) (cr_estimated_swap rq)) edge \<le> max_cost_to_edge c))"
  by (auto simp: check_group_def ck_spread_def ck_slippage_def ck_commission_def Let_def outs
        split: if_splits option.splits)

lemma group_reward: "check_group (reward_outcome c rq stop) [''min_reward_risk''] (reward_ok c rq stop)"
  by (auto simp: check_group_def reward_outcome_def reward_ok_def Let_def outs fits_canonical
        split: option.splits if_splits)

lemma reward_defined: "reward_ok c rq stop \<Longrightarrow> \<exists>os. reward_outcome c rq stop = Inr os"
  by (auto simp: reward_outcome_def reward_ok_def with_amount_def fits_canonical Let_def
        split: option.splits)

lemma group_stop:
  "check_group (ck_stop c rq) [''stop_loss_existence'', ''stop_loss_distance'', ''min_reward_risk'']
     (stop_ok c rq)"
proof (rule check_groupI)
  fix os assume os: "ck_stop c rq = Inr os"
  let ?ns = "[''stop_loss_existence'', ''stop_loss_distance'', ''min_reward_risk'']"
  show "map co_name os = ?ns \<and> list_all settled os \<and> (list_all clear os \<longleftrightarrow> stop_ok c rq)"
  proof (cases "stop_outcomes c rq")
    case (Inl e)
    have "\<not> stop_ok c rq"
    proof
      assume "stop_ok c rq"
      then obtain stop where s: "cap_stop_distance rq = Inr stop" and t: "reward_ok c rq stop"
        by (auto simp: stop_ok_def)
      have "money stop" using s unfolding cap_stop_distance_def by (rule decimal_from_money)
      then obtain m where "canonical stop = Inr m" using money_canonical by blast
      with s reward_defined [OF t] Inl show False by (auto simp: stop_outcomes_def)
    qed
    with Inl os show ?thesis by (auto simp: ck_stop_def outs)
  next
    case (Inr xs)
    then obtain stop rs where s: "cap_stop_distance rq = Inr stop" and r: "reward_outcome c rq stop = Inr rs"
      by (auto simp: stop_outcomes_def res_simps)
    with Inr os group_reward [of c rq stop] show ?thesis
      by (cases "stop < min_stop_distance c \<or> stop > max_stop_distance c")
        (auto simp: ck_stop_def stop_outcomes_def stop_ok_def check_group_def res_simps outs)
  qed
qed

lemma group_size:
  "check_group (ck_size c rq err) [''position_size_validity'']
     (0 < cr_requested_quantity rq \<and> \<not> truthy err)"
  "check_group (ck_trade_risk c rq projected) [''max_single_trade_risk'']
     (\<forall>risk. projected = Some risk \<longrightarrow> 0 < cr_account_equity rq \<longrightarrow>
        risk \<le> dmul (cr_account_equity rq) (max_per_trade_risk_pct c))"
  by (auto simp: check_group_def ck_size_def ck_trade_risk_def Let_def outs
        split: if_splits option.splits)

lemma group_loss:
  "check_group (ck_daily c rq) [''daily_loss_limit'']
     (0 < cr_account_equity rq \<longrightarrow> day_loss rq < dmul (cr_account_equity rq) (max_daily_loss_pct c))"
  "check_group (ck_drawdown c rq) [''equity_drawdown_limit'']
     (0 < cr_account_equity rq \<and> 0 < cr_peak_equity rq \<and>
      equity_floor c \<le> cr_account_equity rq \<and> cap_drawdown rq < dd_freeze c)"
  "check_group (ck_streak c rq) [''consecutive_loss''] (cr_losing_streak rq < int (consecutive_loss_limit c))"
  by (auto simp: check_group_def ck_daily_def ck_drawdown_def ck_streak_def Let_def outs
        split: if_splits)

lemma group_heat:
  "check_group (ck_heat c rq risk) [''portfolio_heat'']
     (\<exists>after. heat_after rq risk = Inr after \<and> after \<le> max_effective_heat c \<and> fits after)"
  by (cases "heat_after rq risk")
    (auto simp: check_group_def ck_heat_def with_amount_def with_amounts_def outs fits_canonical rbind_def
        split: if_splits sum.splits)

lemma group_exposure_check:
  "check_group (exposure_check c n r sv x cap) [n] (x \<le> cap)"
  by (auto simp: check_group_def exposure_check_def outs)

lemma group_exposures:
  "check_group (ck_exposures c rq risk)
     [''symbol_exposure'', ''currency_exposure'', ''directional_exposure'',
      ''correlation_concentration'', ''strategy_concentration'', ''profile_allocation'']
     (0 < cr_account_equity rq \<and>
      exposure_share rq (cr_symbol_exposure rq) risk \<le> max_symbol_exposure_pct c \<and>
      exposure_share rq (cr_currency_exposure rq) risk \<le> max_currency_exposure_pct c \<and>
      exposure_share rq (dabs (cr_directional_exposure rq)) risk \<le> max_currency_exposure_pct c \<and>
      exposure_share rq (cr_correlated_exposure rq) risk \<le> max_correlation_pct c \<and>
      exposure_share rq (cr_strategy_exposure rq) risk \<le> max_strategy_pct c \<and>
      exposure_share rq (cr_profile_exposure rq) risk \<le> max_profile_pct c)"
proof (cases "0 < cr_account_equity rq")
  case False
  then show ?thesis by (auto simp: check_group_def ck_exposures_def outs)
next
  case True
  show ?thesis
    unfolding ck_exposures_def if_P [OF True]
    by (rule check_group_cong,
        (rule check_group_Cons check_group_Nil group_exposure_check)+) (simp_all add: True)
qed

lemma group_orders:
  "check_group (ck_orders c rq) [''open_order_exposure'', ''pending_order_exposure'']
     (\<not> cr_open_orders_unknown rq)"
  by (simp add: check_group_def ck_orders_def outs)

lemma group_positions:
  "check_group (ck_duplicate c rq) [''duplicate_position'']
     (\<not> (truthy (cr_existing_symbol_side rq) \<and> lower (the (cr_existing_symbol_side rq)) = cr_side rq))"
  "check_group (ck_positions c rq) [''max_simultaneous_positions'']
     (cr_open_position_count rq < int (max_simultaneous_positions c))"
  by (simp_all add: check_group_def ck_duplicate_def ck_positions_def outs not_le)

lemma group_cooldown:
  "check_group (ck_cooldown c rq now) [''cooldown'']
     (\<forall>t. cr_cooldown_until rq = Some t \<longrightarrow> t \<le> now)"
  by (cases "cr_cooldown_until rq") (simp_all add: check_group_def ck_cooldown_def outs)

lemma group_system:
  "check_group (ck_reconciliation c rq) [''reconciliation_status'']
     (\<not> cr_reconciliation_critical rq \<and>
      lower (cr_reconciliation_status rq) \<notin> {''unknown'', ''mismatch'', ''critical''})"
  "check_group (ck_system c rq halt ok)
     [''persistence_availability'', ''system_control_state'', ''global_safe_halt'']
     (ok \<and> cr_control_state rq \<in> {''active'', ''armed'', ''normal''} \<and> \<not> halt \<and> \<not> cr_safe_halt rq)"
  by (simp_all add: check_group_def ck_reconciliation_def ck_system_def outs)

lemmas check_groups = group_intake group_data group_eligible group_model group_cost group_stop
  group_size group_loss group_heat group_exposures group_orders
  group_positions group_cooldown group_system

text \<open>The outcomes of a run are in the order of the catalogue, so putting them in order changes nothing.\<close>

lemma fold_dict_put:
  "distinct (map f xs) \<Longrightarrow>
   dict_get (fold (\<lambda>x d. dict_put (f x) x d) xs d) k =
     (case find (\<lambda>x. f x = k) xs of Some x \<Rightarrow> Some x | None \<Rightarrow> dict_get d k)"
proof (induction xs arbitrary: d)
  case (Cons x xs)
  have "find (\<lambda>y. f y = k) xs = None" if "f x = k"
    using Cons.prems that by (auto simp: find_None_iff) (metis imageI)
  then show ?case using Cons by (auto simp: dict_simps split: option.splits)
qed simp

lemma find_key: "distinct (map f xs) \<Longrightarrow> x \<in> set xs \<Longrightarrow> find (\<lambda>y. f y = f x) xs = Some x"
  by (induction xs) auto

lemma order_checks_id:
  assumes "map co_name outs = CHECK_CATALOG"
  shows "order_checks c outs = outs"
proof -
  have d: "distinct (map co_name outs)"
    unfolding assms CHECK_CATALOG_def by simp
  let ?res = "fold (\<lambda>o' d. dict_put (co_name o') o' d) outs []"
  have g: "x \<in> set outs \<Longrightarrow> dict_get ?res (co_name x) = Some x" for x
    using fold_dict_put [OF d, of "[]" "co_name x"] find_key [OF d, of x] by simp
  have "List.map_filter (dict_get ?res) (map co_name xs) = xs"
    and "filter (\<lambda>n. dict_get ?res n = None) (map co_name xs) = []"
    if "set xs \<subseteq> set outs" for xs
    using that by (induction xs) (simp_all add: List.map_filter_simps g)
  from this [OF subset_refl] show ?thesis by (simp add: order_checks_def Let_def flip: assms)
qed

lemma all_checks_group:
  "check_group (collect (all_checks c rq now halt ok projected err)) CHECK_CATALOG
     (capital_limits c rq now halt ok projected err)"
  unfolding all_checks_def Let_def
  by (rule check_group_cong, (rule check_group_Cons check_group_Nil check_groups)+)
    (simp add: CHECK_CATALOG_def,
     unfold capital_limits_def data_ok_def model_ok_def cost_ok_def loss_ok_def exposure_ok_def system_ok_def,
     blast)

lemma run_checks_group:
  "check_group (run_checks c rq now halt ok projected err) CHECK_CATALOG
     (capital_limits c rq now halt ok projected err)"
proof (rule check_groupI)
  fix os assume "run_checks c rq now halt ok projected err = Inr os"
  then obtain xs where xs: "collect (all_checks c rq now halt ok projected err) = Inr xs"
    and os: "os = order_checks c xs"
    by (auto simp: run_checks_def res_simps)
  with all_checks_group [of c rq now halt ok projected err] order_checks_id [of xs c]
  show "map co_name os = CHECK_CATALOG \<and> list_all settled os \<and>
    (list_all clear os \<longleftrightarrow> capital_limits c rq now halt ok projected err)"
    by (simp add: check_group_def)
qed

end
