(* ===== verification/CapitalLedger.thy ===== *)
theory CapitalLedger
  imports CapitalContracts
begin

section \<open>Drawdown ledger and safe halt\<close>

text \<open>
  \<^verbatim>\<open>capital/drawdown_ledger.py\<close> and \<^verbatim>\<open>capital/safe_halt.py\<close>. The ledger merges every observation
  into a peak, a daily loss and a losing streak that only grow (the loss starts again with a
  new UTC day, which is the number of the day here), writes each merge to the event log as a
  snapshot of canonical texts, and reads the log back after a restart. The log is the list of
  events in sequence order; \<open>list_events\<close> is the \<^verbatim>\<open>SELECT ... ORDER BY sequence_no ASC LIMIT\<close>
  of \<^verbatim>\<open>SqliteStore.list_events\<close>, and the JSON encoding of the payload is not unfolded.
\<close>

subsection \<open>State and operations\<close>

record drawdown_ledger =
  dl_peak_equity :: "dec option"
  dl_daily_loss :: dec
  dl_daily_key :: "int option"
  dl_losing_streak :: int
  dl_loaded :: bool

definition ledger_init :: drawdown_ledger where
  "ledger_init = \<lparr>dl_peak_equity = None, dl_daily_loss = 0, dl_daily_key = None,
     dl_losing_streak = 0, dl_loaded = False\<rparr>"

record drawdown_snapshot =
  sn_peak_equity :: string
  sn_daily_loss :: string
  sn_daily_key :: "int option"
  sn_losing_streak :: int
  sn_equity :: string

definition day_key :: "datetime \<Rightarrow> int" where
  "day_key now = now div seconds 86400"

text \<open>The assignments of \<^verbatim>\<open>observe\<close>, before the snapshot is printed.\<close>

definition ledger_roll :: "datetime \<Rightarrow> drawdown_ledger \<Rightarrow> drawdown_ledger" where
  "ledger_roll now l =
     (if dl_daily_key l = None then l\<lparr>dl_daily_key := Some (day_key now)\<rparr>
      else if dl_daily_key l \<noteq> Some (day_key now)
      then l\<lparr>dl_daily_loss := 0, dl_daily_key := Some (day_key now)\<rparr>
      else l)"

definition merge_peak :: "dec \<Rightarrow> dec \<Rightarrow> dec option \<Rightarrow> dec" where
  "merge_peak equity peak old =
     (let p0 = (case old of None \<Rightarrow> if peak > 0 then peak else equity | Some p \<Rightarrow> p);
          p1 = (if peak > p0 then peak else p0)
      in if equity > p1 then equity else p1)"

definition ledger_merge ::
  "dec \<Rightarrow> dec \<Rightarrow> dec \<Rightarrow> int \<Rightarrow> datetime \<Rightarrow> drawdown_ledger \<Rightarrow> drawdown_ledger" where
  "ledger_merge equity peak realized_day streak now l =
     (let l' = ledger_roll now l; loss = dabs (min realized_day 0) in
      l'\<lparr>dl_peak_equity := Some (merge_peak equity peak (dl_peak_equity l')),
         dl_daily_loss := (if loss > dl_daily_loss l' then loss else dl_daily_loss l'),
         dl_losing_streak := (if streak > dl_losing_streak l' then streak else dl_losing_streak l')\<rparr>)"

definition ledger_snapshot :: "dec \<Rightarrow> drawdown_ledger \<Rightarrow> drawdown_snapshot res" where
  "ledger_snapshot equity l =
     rbind (canonical (case dl_peak_equity l of None \<Rightarrow> 0 | Some p \<Rightarrow> p)) (\<lambda>p.
     rbind (canonical (dl_daily_loss l)) (\<lambda>d.
     rbind (canonical equity) (\<lambda>e.
     Inr \<lparr>sn_peak_equity = p, sn_daily_loss = d, sn_daily_key = dl_daily_key l,
          sn_losing_streak = dl_losing_streak l, sn_equity = e\<rparr>)))"

definition ledger_observe ::
  "dec \<Rightarrow> dec \<Rightarrow> dec \<Rightarrow> int \<Rightarrow> datetime \<Rightarrow> (drawdown_ledger, drawdown_snapshot) comp" where
  "ledger_observe equity peak realized_day streak now =
     bnd (upd_st (ledger_merge equity peak realized_day streak now)) (\<lambda>_.
     bnd (get_st (ledger_snapshot equity)) (\<lambda>snap.
     lift_res snap))"

definition drawdown_pct :: "dec \<Rightarrow> drawdown_ledger \<Rightarrow> dec" where
  "drawdown_pct equity l =
     (case dl_peak_equity l of
        None \<Rightarrow> 0
      | Some p \<Rightarrow> if p \<le> 0 \<or> equity \<ge> p then 0 else ddiv (dsub p equity) p)"

subsection \<open>The event log\<close>

datatype log_event = DrawdownSnapshot drawdown_snapshot | OtherEvent string

definition list_events :: "nat \<Rightarrow> 'e list \<Rightarrow> 'e list" where
  "list_events limit evlog = take limit evlog"

fun latest_snapshot :: "log_event list \<Rightarrow> drawdown_snapshot option \<Rightarrow> drawdown_snapshot option" where
  "latest_snapshot [] latest = latest"
| "latest_snapshot (DrawdownSnapshot s # evs) latest = latest_snapshot evs (Some s)"
| "latest_snapshot (OtherEvent t # evs) latest = latest_snapshot evs latest"

text \<open>\<^verbatim>\<open>decimal_from\<close> on a text\<close>

definition decimal_from_text :: "string \<Rightarrow> string \<Rightarrow> dec res" where
  "decimal_from_text field t =
     (case read_decimal t of None \<Rightarrow> Inl (MoneyError (field @ '' is not a finite decimal''))
      | Some x \<Rightarrow> decimal_from x)"

definition ledger_reload :: "log_event list \<Rightarrow> drawdown_ledger \<Rightarrow> drawdown_ledger res" where
  "ledger_reload evlog l =
     (case latest_snapshot (list_events 10000 evlog) None of
        None \<Rightarrow> Inr (l\<lparr>dl_loaded := True\<rparr>)
      | Some s \<Rightarrow>
          rbind (decimal_from_text ''peak_equity'' (sn_peak_equity s)) (\<lambda>p.
          rbind (decimal_from_text ''daily_loss''
                   (if sn_daily_loss s = [] then ''0'' else sn_daily_loss s)) (\<lambda>d.
          Inr \<lparr>dl_peak_equity = Some p, dl_daily_loss = d, dl_daily_key = sn_daily_key s,
               dl_losing_streak = sn_losing_streak s, dl_loaded = True\<rparr>)))"

text \<open>\<^verbatim>\<open>observe\<close> with a persistence: the snapshot is appended to the log.\<close>

definition ledger_observe_logged ::
  "dec \<Rightarrow> dec \<Rightarrow> dec \<Rightarrow> int \<Rightarrow> datetime \<Rightarrow> drawdown_ledger \<times> log_event list \<Rightarrow>
   drawdown_snapshot res \<times> drawdown_ledger \<times> log_event list" where
  "ledger_observe_logged equity peak realized_day streak now = (\<lambda>(l, evlog).
     case ledger_observe equity peak realized_day streak now l of
       (Inl e, l') \<Rightarrow> (Inl e, l', evlog)
     | (Inr s, l') \<Rightarrow> (Inr s, l', evlog @ [DrawdownSnapshot s]))"

subsection \<open>Safe halt\<close>

record safe_halt =
  sh_halted :: bool
  sh_reason :: string

definition halt_init :: safe_halt where
  "halt_init = \<lparr>sh_halted = False, sh_reason = ''''\<rparr>"

definition halt_trip :: "string \<Rightarrow> safe_halt \<Rightarrow> safe_halt" where
  "halt_trip reason h = h\<lparr>sh_halted := True, sh_reason := reason\<rparr>"

definition halt_recover :: "string \<Rightarrow> string \<Rightarrow> (safe_halt, unit) comp" where
  "halt_recover actor reason =
     (if actor = [] \<or> actor = ''automatic''
      then raise_exn (ValueError ''safe-halt recovery must be explicit and non-automatic'')
      else upd_st (\<lambda>h. h\<lparr>sh_halted := False, sh_reason := ''recovered:'' @ reason\<rparr>))"

subsection \<open>The ledger only tightens\<close>

text \<open>A ledger is below another when its peak, streak and, within a day, its loss are.\<close>

definition ledger_le :: "drawdown_ledger \<Rightarrow> drawdown_ledger \<Rightarrow> bool" where
  "ledger_le l l' \<longleftrightarrow>
     (\<forall>p. dl_peak_equity l = Some p \<longrightarrow> (\<exists>p'. dl_peak_equity l' = Some p' \<and> p \<le> p')) \<and>
     dl_losing_streak l \<le> dl_losing_streak l' \<and>
     (dl_daily_key l = dl_daily_key l' \<longrightarrow> dl_daily_loss l \<le> dl_daily_loss l')"

lemma merge_peak_ge: "merge_peak e p (Some q) \<ge> q" "merge_peak e p old \<ge> e"
  by (auto simp: merge_peak_def Let_def)

lemma merge_peak_cases: "merge_peak e p old \<in> {e, p} \<union> set_option old"
  by (auto simp: merge_peak_def Let_def split: option.splits)

lemma merge_le: "ledger_le l (ledger_merge e p r st now l)"
  using merge_peak_ge(1)
  by (auto simp: ledger_le_def ledger_merge_def ledger_roll_def Let_def split: option.splits)

lemma merge_key [simp]: "dl_daily_key (ledger_merge e p r st now l) = Some (day_key now)"
  by (auto simp: ledger_merge_def ledger_roll_def Let_def)

text \<open>Amounts of the ledger stay amounts: the snapshot can always be printed.\<close>

definition ledger_ok :: "drawdown_ledger \<Rightarrow> bool" where
  "ledger_ok l \<longleftrightarrow> pred_option money (dl_peak_equity l) \<and> money (dl_daily_loss l) \<and> 0 \<le> dl_daily_loss l"

lemma money_dabs: "money x \<Longrightarrow> money (dabs x)"
  using money_dec28 [of x] by (cases "0 \<le> x") (simp_all add: dabs_def dec_fix_dec28 dec_fix_uminus)

lemma ledger_init_ok: "ledger_ok ledger_init"
  by (simp add: ledger_ok_def ledger_init_def)

lemma merge_ok:
  assumes "ledger_ok l" and "money e" and "money p" and "money r"
  shows "ledger_ok (ledger_merge e p r st now l)"
proof -
  have "money (dabs (min r 0))" using assms(4) by (intro money_dabs) (simp add: min_def)
  moreover have "0 \<le> dabs (min r 0)" by (simp add: dabs_def dec_fix_nonneg)
  moreover have "money (merge_peak e p old)" if "pred_option money old" for old
    using merge_peak_cases [of e p old] that assms(2, 3) by (cases old) auto
  ultimately show ?thesis using assms(1)
    by (auto simp: ledger_ok_def ledger_merge_def ledger_roll_def Let_def)
qed

lemma snapshot_defined:
  assumes "ledger_ok l" and "money e"
  shows "\<exists>s. ledger_snapshot e l = Inr s"
  using assms by (cases "dl_peak_equity l") (simp_all add: ledger_snapshot_def ledger_ok_def money_canonical)

subsection \<open>Reading the log back\<close>

lemma latest_snoc: "latest_snapshot (evs @ [DrawdownSnapshot s]) x = Some s"
  by (induction evs x rule: latest_snapshot.induct) simp_all

lemma read_back:
  assumes "money x" and "canonical x = Inr t"
  shows "decimal_from_text f t = Inr x" and "t \<noteq> []"
  using assms read_canonical_money [OF assms]
  by (auto simp: decimal_from_text_def money_def read_decimal_def)

lemma reload_snapshot:
  assumes ok: "ledger_ok l" and p: "dl_peak_equity l = Some p" and s: "ledger_snapshot e l = Inr s"
    and evlog: "length evlog < 10000"
  shows "ledger_reload (evlog @ [DrawdownSnapshot s]) l0 = Inr (l\<lparr>dl_loaded := True\<rparr>)"
proof -
  obtain tp td where tp: "canonical p = Inr tp" and td: "canonical (dl_daily_loss l) = Inr td"
    and sn: "sn_peak_equity s = tp" "sn_daily_loss s = td" "sn_daily_key s = dl_daily_key l"
      "sn_losing_streak s = dl_losing_streak l"
    using s p by (auto simp: ledger_snapshot_def res_simps)
  have m: "money p" "money (dl_daily_loss l)" using ok p by (simp_all add: ledger_ok_def)
  show ?thesis
    using evlog p read_back [OF m(1) tp] read_back [OF m(2) td]
    by (simp add: ledger_reload_def list_events_def latest_snoc sn)
qed

end
