(* ===== verification/CapitalService.thy ===== *)
theory CapitalService
  imports CapitalChecks CapitalLedger
begin

section \<open>The capital evaluation service\<close>

text \<open>
  \<^verbatim>\<open>capital/evaluation.py\<close> with \<^verbatim>\<open>capital/metrics.py\<close>, as \<^verbatim>\<open>PM4RiskGateModule\<close> builds it: without a
  persistence (\<^verbatim>\<open>CapitalPersistence(None)\<close> finds nothing, commits to a memory reference and
  records no divergence). The service is a record; its lock makes evaluations one after the
  other, so an evaluation is one step. \<open>H\<close> is \<^verbatim>\<open>canonical_hash\<close>, the instant of the clock is an
  argument and \<open>cs_fresh\<close> stands for \<^verbatim>\<open>uuid4\<close>. The latency of the metrics is not modelled.
\<close>

subsection \<open>State\<close>

record capital_metrics =
  cm_evaluations :: nat
  cm_by_state :: "(string, nat) dict"
  cm_failed_checks :: "(string, nat) dict"

definition counter_inc :: "string \<Rightarrow> (string, nat) dict \<Rightarrow> (string, nat) dict" where
  "counter_inc k d = dict_put k (Suc (case dict_get d k of None \<Rightarrow> 0 | Some n \<Rightarrow> n)) d"

definition metrics_observe :: "string \<Rightarrow> string list \<Rightarrow> capital_metrics \<Rightarrow> capital_metrics" where
  "metrics_observe state failed m =
     \<lparr>cm_evaluations = Suc (cm_evaluations m), cm_by_state = counter_inc state (cm_by_state m),
      cm_failed_checks = fold counter_inc failed (cm_failed_checks m)\<rparr>"

record capital =
  cs_config :: Pm4RiskGateConfig
  cs_metrics :: capital_metrics
  cs_halt :: safe_halt
  cs_require_persistence :: bool
  cs_ledger :: drawdown_ledger
  cs_inject_fault :: "string option"
  cs_seen :: "(string, string \<times> CapitalEvaluationResult) dict"
  cs_next_id :: uuid

definition capital_init :: "Pm4RiskGateConfig \<Rightarrow> bool \<Rightarrow> capital" where
  "capital_init c require_persistence =
     \<lparr>cs_config = c, cs_metrics = \<lparr>cm_evaluations = 0, cm_by_state = [], cm_failed_checks = []\<rparr>,
      cs_halt = halt_init, cs_require_persistence = require_persistence, cs_ledger = ledger_init,
      cs_inject_fault = None, cs_seen = [], cs_next_id = 0\<rparr>"

definition cs_fresh :: "(capital, string) comp" where
  "cs_fresh s = (Inr (uuid_str (cs_next_id s)), s\<lparr>cs_next_id := Suc (cs_next_id s)\<rparr>)"

definition cs_fault :: "string \<Rightarrow> (capital, unit) comp" where
  "cs_fault point s =
     (if cs_inject_fault s = Some point then (Inl (RuntimeError (''injected fault:'' @ point)), s)
      else (Inr (), s))"

text \<open>\<^verbatim>\<open>try: m except Exception as e: h e\<close>\<close>

definition try_catch :: "('s, 'a) comp \<Rightarrow> (py_exn \<Rightarrow> ('s, 'a) comp) \<Rightarrow> ('s, 'a) comp" where
  "try_catch m h s = (case m s of (Inl e, s') \<Rightarrow> h e s' | (Inr x, s') \<Rightarrow> (Inr x, s'))"

text \<open>\<^verbatim>\<open>p in s\<close> on texts\<close>

fun contains :: "string \<Rightarrow> string \<Rightarrow> bool" where
  "contains p [] \<longleftrightarrow> p = []"
| "contains p (x # xs) \<longleftrightarrow> take (length p) (x # xs) = p \<or> contains p xs"

subsection \<open>Deciding\<close>

definition BLOCK_MAP :: "(string \<times> CapitalDecisionState) list" where
  "BLOCK_MAP =
    [(''global_safe_halt'', CS_BLOCKED_SYSTEM), (''system_control_state'', CS_BLOCKED_SYSTEM),
     (''persistence_availability'', CS_BLOCKED_SYSTEM),
     (''reconciliation_status'', CS_BLOCKED_RECONCILIATION),
     (''account_freshness'', CS_BLOCKED_ACCOUNT), (''portfolio_freshness'', CS_BLOCKED_DATA),
     (''market_freshness'', CS_BLOCKED_DATA), (''model_availability'', CS_BLOCKED_MODEL),
     (''model_freshness'', CS_BLOCKED_MODEL), (''model_quality'', CS_BLOCKED_MODEL),
     (''model_uncertainty'', CS_BLOCKED_MODEL), (''equity_drawdown_limit'', CS_BLOCKED_DRAWDOWN),
     (''daily_loss_limit'', CS_BLOCKED_DRAWDOWN), (''consecutive_loss'', CS_BLOCKED_DRAWDOWN),
     (''portfolio_heat'', CS_BLOCKED_PORTFOLIO_HEAT), (''symbol_exposure'', CS_BLOCKED_EXPOSURE),
     (''currency_exposure'', CS_BLOCKED_EXPOSURE), (''directional_exposure'', CS_BLOCKED_EXPOSURE),
     (''open_order_exposure'', CS_BLOCKED_EXPOSURE), (''pending_order_exposure'', CS_BLOCKED_EXPOSURE),
     (''correlation_concentration'', CS_BLOCKED_CONCENTRATION),
     (''strategy_concentration'', CS_BLOCKED_CONCENTRATION),
     (''profile_allocation'', CS_BLOCKED_CONCENTRATION), (''spread_limit'', CS_BLOCKED_SPREAD),
     (''slippage_limit'', CS_BLOCKED_SLIPPAGE)]"

definition blocking_names :: "CheckOutcome list \<Rightarrow> string list" where
  "blocking_names checks =
     map co_name (filter (\<lambda>o'. co_blocking o' \<and> co_status o' \<in> {CK_FAIL, CK_BLOCK}) checks)"

definition state_from ::
  "CheckOutcome list \<Rightarrow> SizingTrace option \<Rightarrow> RiskEvaluationRequest \<Rightarrow> CapitalDecisionState" where
  "state_from checks sizing rq =
     (let blocking = fromkeys (blocking_names checks) in
      case find (\<lambda>(name, state). name \<in> set blocking) BLOCK_MAP of
        Some (name, state) \<Rightarrow> state
      | None \<Rightarrow>
          if ''cooldown'' \<in> set blocking \<and> length blocking = 1 then CS_DEFERRED
          else if blocking \<noteq> [] then CS_REJECTED
          else case sizing of
            None \<Rightarrow> CS_REJECTED
          | Some t \<Rightarrow>
              if sz_rounded_size t \<le> 0 then CS_REJECTED
              else if sz_rounded_size t < cr_requested_quantity rq then CS_APPROVED_REDUCED_SIZE
              else CS_APPROVED)"

text \<open>The request with the ledger merged in.\<close>

definition effective_request :: "RiskEvaluationRequest \<Rightarrow> drawdown_ledger \<Rightarrow> RiskEvaluationRequest" where
  "effective_request rq l = rq\<lparr>
     cr_peak_equity := or_dec (dl_peak_equity l) (cr_peak_equity rq),
     cr_realized_pnl_day := min (cr_realized_pnl_day rq) (dneg (dl_daily_loss l)),
     cr_losing_streak := max (cr_losing_streak rq) (dl_losing_streak l)\<rparr>"

text \<open>The sizing block: a \<^verbatim>\<open>ValueError\<close> becomes the text of the size check, another exception escapes.\<close>

definition capital_size ::
  "hash \<Rightarrow> Pm4RiskGateConfig \<Rightarrow> RiskEvaluationRequest \<Rightarrow> SizingTrace res" where
  "capital_size H c eff =
     rbind (if cr_account_equity eff > 0 \<and> \<not> cr_exposure_unknown eff then heat_headroom eff c else Inr 0)
       (\<lambda>headroom. size_position H eff c headroom
          (if cr_account_equity eff > 0 then dmul (cr_account_equity eff) (max_per_trade_risk_pct c) else 0))"

definition try_sizing ::
  "hash \<Rightarrow> Pm4RiskGateConfig \<Rightarrow> RiskEvaluationRequest \<Rightarrow> (SizingTrace option \<times> string option) res" where
  "try_sizing H c eff =
     (case capital_size H c eff of
        Inr t \<Rightarrow> Inr (Some t, None)
      | Inl e \<Rightarrow> if is_value_error e then Inr (None, Some (exn_text e)) else Inl e)"

text \<open>What a decision settles: state, quantity, failed checks and projected risk.\<close>

record capital_verdict =
  cv_state :: CapitalDecisionState
  cv_quantity :: dec
  cv_failed :: "string list"
  cv_projected :: dec

definition settle_verdict ::
  "CheckOutcome list \<Rightarrow> SizingTrace option \<Rightarrow> RiskEvaluationRequest \<Rightarrow> capital_verdict" where
  "settle_verdict checks sizing eff =
     (let state = state_from checks sizing eff; failed = blocking_names checks;
          projected = (case sizing of None \<Rightarrow> 0 | Some t \<Rightarrow> sz_final_risk t);
          qty = (case sizing of None \<Rightarrow> 0 | Some t \<Rightarrow> sz_rounded_size t)
      in if state = CS_ERROR_FAIL_CLOSED
         then \<lparr>cv_state = state, cv_quantity = 0, cv_failed = failed, cv_projected = 0\<rparr>
         else if capital_approved state
         then if qty \<le> 0
              then \<lparr>cv_state = CS_REJECTED, cv_quantity = qty,
                    cv_failed = failed @ [''position_size_validity''], cv_projected = projected\<rparr>
              else \<lparr>cv_state = state, cv_quantity = qty, cv_failed = failed, cv_projected = projected\<rparr>
         else \<lparr>cv_state = state, cv_quantity = 0, cv_failed = failed, cv_projected = projected\<rparr>)"

record exposure_figures =
  ef_heat_before :: dec
  ef_heat_after :: dec
  ef_currency_before :: dec
  ef_currency_after :: dec
  ef_concentration_before :: dec
  ef_concentration_after :: dec

definition figures_of :: "RiskEvaluationRequest \<Rightarrow> dec \<Rightarrow> exposure_figures res" where
  "figures_of eff projected =
     rbind (if cr_account_equity eff > 0 then heat_before eff else Inr 0) (\<lambda>hb.
     rbind (if cr_account_equity eff > 0 then heat_after eff projected else Inr 0) (\<lambda>ha.
     Inr \<lparr>ef_heat_before = hb, ef_heat_after = ha, ef_currency_before = cr_currency_exposure eff,
          ef_currency_after = currency_after eff projected,
          ef_concentration_before = cr_correlated_exposure eff,
          ef_concentration_after = concentration_after eff projected\<rparr>))"

text \<open>The guarded block around them: without figures an approval becomes fail-closed.\<close>

definition figures_or_zero ::
  "RiskEvaluationRequest \<Rightarrow> capital_verdict \<Rightarrow> exposure_figures \<times> capital_verdict" where
  "figures_or_zero eff v =
     (case figures_of eff (cv_projected v) of
        Inr f \<Rightarrow> (f, v)
      | Inl e \<Rightarrow>
          (\<lparr>ef_heat_before = 0, ef_heat_after = 0, ef_currency_before = 0, ef_currency_after = 0,
            ef_concentration_before = 0, ef_concentration_after = 0\<rparr>,
           if capital_approved (cv_state v)
           then v\<lparr>cv_state := CS_ERROR_FAIL_CLOSED, cv_quantity := 0\<rparr> else v))"

subsection \<open>Building the result\<close>

definition check_body ::
  "capital_verdict \<Rightarrow> string \<Rightarrow> string \<Rightarrow> CheckOutcome list \<Rightarrow> decision_body res" where
  "check_body v input_hash policy_hash checks =
     rbind (canonical (cv_quantity v)) (\<lambda>q.
     rbind (canonical (cv_projected v)) (\<lambda>p.
     Inr \<lparr>db_state = capital_state_value (cv_state v), db_approved_quantity = q, db_projected_risk = p,
          db_failed = cv_failed v, db_input_hash = input_hash, db_policy_hash = policy_hash,
          db_check_status = map (\<lambda>o'. (co_name o', check_status_value (co_status o'), co_measured o')) checks\<rparr>))"

definition decision_of ::
  "string \<Rightarrow> datetime \<Rightarrow> Pm4RiskGateConfig \<Rightarrow> RiskEvaluationRequest \<Rightarrow> capital_verdict \<Rightarrow>
   exposure_figures \<Rightarrow> CheckOutcome list \<Rightarrow> SizingTrace option \<Rightarrow> string \<Rightarrow> string \<Rightarrow> string \<Rightarrow> RiskDecision" where
  "decision_of did now c eff v f checks sizing input_hash policy_hash output_hash =
     (let ok = capital_approved (cv_state v);
          equity = (if cr_account_equity eff > 0 then cr_account_equity eff else 1);
          stop = (case cap_stop_distance eff of Inr d \<Rightarrow> d | Inl _ \<Rightarrow> 0);
          reasons = map co_reason (filter (\<lambda>o'. co_name o' \<in> set (cv_failed v)) checks)
      in \<lparr>cd_decision_id = did, cd_decision_status = cv_state v, cd_decision_timestamp = now,
          cd_expires_at = now + seconds (verdict_ttl_seconds c),
          cd_correlation_id = cr_correlation_id eff, cd_causation_id = cr_causation_id eff,
          cd_trade_intent_id = cr_trade_intent_id eff, cd_strategy_id = cr_strategy_id eff,
          cd_strategy_version = cr_strategy_version eff, cd_profile_id = cr_profile_id eff,
          cd_profile_version = cr_profile_version eff, cd_symbol = cr_symbol eff, cd_side = cr_side eff,
          cd_requested_quantity = cr_requested_quantity eff, cd_approved_quantity = cv_quantity v,
          cd_entry_price = cr_entry_price eff, cd_stop_loss_price = cr_stop_loss_price eff,
          cd_take_profit_price = cr_take_profit_price eff, cd_stop_distance = stop,
          cd_monetary_risk = (if ok then cv_projected v else 0),
          cd_risk_percent_of_equity = (if ok then ddiv (cv_projected v) equity else 0),
          cd_portfolio_heat_before = ef_heat_before f,
          cd_portfolio_heat_after = (if ok then ef_heat_after f else ef_heat_before f),
          cd_currency_exposure_before = ef_currency_before f,
          cd_currency_exposure_after = (if ok then ef_currency_after f else ef_currency_before f),
          cd_concentration_before = ef_concentration_before f,
          cd_concentration_after = (if ok then ef_concentration_after f else ef_concentration_before f),
          cd_spread = cr_spread eff, cd_slippage_estimate = cr_estimated_slippage eff,
          cd_expected_cost = dadd (cr_estimated_commission eff) (cr_estimated_swap eff),
          cd_model_quality_status = cr_model_quality_status eff, cd_regime_status = cr_regime eff,
          cd_session_status = cr_session eff,
          cd_account_status = (if cr_account_unknown eff then ''unknown'' else ''fresh''),
          cd_final_decision = cv_state v,
          cd_decision_reasons = (if reasons = [] then [capital_state_value (cv_state v)] else reasons),
          cd_failed_checks = cv_failed v,
          cd_warnings = map co_name (filter (\<lambda>o'. co_status o' = CK_FAIL \<and> \<not> co_blocking o') checks),
          cd_policy_version = policy_version c, cd_policy_id = policy_id c,
          cd_configuration_hash = policy_hash, cd_input_hash = input_hash, cd_output_hash = output_hash,
          cd_audit_reference = ''audit:'' @ did, cd_persistence_reference = None,
          cd_checks = checks, cd_sizing = sizing, cd_execution_permitted = False,
          cd_trading_readiness = False\<rparr>)"

definition executable_of ::
  "string \<Rightarrow> RiskEvaluationRequest \<Rightarrow> RiskDecision \<Rightarrow> RiskApprovedExecutableIntent" where
  "executable_of xid eff d =
     \<lparr>ei_executable_intent_id = xid, ei_risk_decision_id = cd_decision_id d,
      ei_trade_intent_id = cr_trade_intent_id eff, ei_symbol = cr_symbol eff, ei_side = cr_side eff,
      ei_approved_quantity = cd_approved_quantity d, ei_entry_price = cr_entry_price eff,
      ei_stop_loss_price = cr_stop_loss_price eff, ei_take_profit_price = cr_take_profit_price eff,
      ei_maximum_slippage = cr_estimated_slippage eff, ei_maximum_latency_ms = 500,
      ei_expires_at = cd_expires_at d, ei_strategy_id = cr_strategy_id eff,
      ei_profile_id = cr_profile_id eff, ei_correlation_id = cr_correlation_id eff,
      ei_risk_policy_version = cr_risk_policy_version eff,
      ei_execution_policy_version = cr_execution_policy_version eff, ei_execution_allowed = False,
      ei_audit_reference = cd_audit_reference d, ei_persistence_reference = cd_audit_reference d,
      ei_creates_order = False\<rparr>"

text \<open>The limits that enter a rejection are the ones whose text is not empty.\<close>

definition limit_truthy :: "check_text \<Rightarrow> bool" where
  "limit_truthy t \<longleftrightarrow> t \<noteq> MText []"

definition rejection_from ::
  "string \<Rightarrow> datetime \<Rightarrow> Pm4RiskGateConfig \<Rightarrow> RiskEvaluationRequest \<Rightarrow> RiskDecision \<Rightarrow> RiskRejection" where
  "rejection_from rid now c eff d =
     \<lparr>rr_rejection_id = rid, rr_trade_intent_id = cr_trade_intent_id eff,
      rr_rejection_code = capital_state_value (cd_final_decision d),
      rr_rejection_category = capital_state_value (cd_final_decision d),
      rr_severity = (if cd_final_decision d = CS_ERROR_FAIL_CLOSED then ''critical'' else ''high''),
      rr_explanation = join ''; '' (cd_decision_reasons d),
      rr_failed_measurements = cd_failed_checks d,
      rr_applicable_limits = filter limit_truthy (List.map_filter co_limit (cd_checks d)),
      rr_policy_version = policy_version c, rr_timestamp = now,
      rr_correlation_id = cr_correlation_id eff, rr_persistence_reference = None\<rparr>"

definition fail_closed ::
  "hash \<Rightarrow> datetime \<Rightarrow> RiskEvaluationRequest \<Rightarrow> string \<Rightarrow> (capital, CapitalEvaluationResult) comp" where
  "fail_closed H now rq reason =
     bnd cs_fresh (\<lambda>did.
     bnd (get_st cs_config) (\<lambda>c.
     bnd (lift_res (no_exec
       \<lparr>cd_decision_id = did, cd_decision_status = CS_ERROR_FAIL_CLOSED, cd_decision_timestamp = now,
        cd_expires_at = now + seconds (verdict_ttl_seconds c),
        cd_correlation_id = cr_correlation_id rq, cd_causation_id = cr_causation_id rq,
        cd_trade_intent_id = cr_trade_intent_id rq, cd_strategy_id = cr_strategy_id rq,
        cd_strategy_version = cr_strategy_version rq, cd_profile_id = cr_profile_id rq,
        cd_profile_version = cr_profile_version rq, cd_symbol = cr_symbol rq, cd_side = cr_side rq,
        cd_requested_quantity = cr_requested_quantity rq, cd_approved_quantity = 0,
        cd_entry_price = cr_entry_price rq, cd_stop_loss_price = cr_stop_loss_price rq,
        cd_take_profit_price = cr_take_profit_price rq, cd_stop_distance = 0, cd_monetary_risk = 0,
        cd_risk_percent_of_equity = 0, cd_portfolio_heat_before = 0, cd_portfolio_heat_after = 0,
        cd_currency_exposure_before = 0, cd_currency_exposure_after = 0, cd_concentration_before = 0,
        cd_concentration_after = 0, cd_spread = cr_spread rq,
        cd_slippage_estimate = cr_estimated_slippage rq, cd_expected_cost = 0,
        cd_model_quality_status = cr_model_quality_status rq, cd_regime_status = cr_regime rq,
        cd_session_status = cr_session rq, cd_account_status = ''fail_closed'',
        cd_final_decision = CS_ERROR_FAIL_CLOSED, cd_decision_reasons = [reason],
        cd_failed_checks = [''global_safe_halt''], cd_warnings = [],
        cd_policy_version = policy_version c, cd_policy_id = policy_id c,
        cd_configuration_hash = H (HPolicy c), cd_input_hash = H (HFields [(''fail'', reason)]),
        cd_output_hash = H (HFields [(''state'', ''ERROR_FAIL_CLOSED''), (''reason'', reason)]),
        cd_audit_reference = ''audit:'' @ did, cd_persistence_reference = None,
        cd_checks = map (\<lambda>name. \<lparr>co_name = name, co_status = CK_BLOCK, co_measured = None,
            co_limit = None, co_severity = ''critical'', co_reason = reason,
            co_policy_version = policy_version c, co_evidence = [], co_blocking = True\<rparr>) CHECK_CATALOG,
        cd_sizing = None, cd_execution_permitted = False, cd_trading_readiness = False\<rparr>)) (\<lambda>d.
     bnd cs_fresh (\<lambda>rid.
     lift_res (result_shape
       \<lparr>ce_decision = d, ce_executable_intent = None,
        ce_rejection = Some \<lparr>rr_rejection_id = rid, rr_trade_intent_id = cr_trade_intent_id rq,
          rr_rejection_code = ''ERROR_FAIL_CLOSED'', rr_rejection_category = ''fail_closed'',
          rr_severity = ''critical'', rr_explanation = reason, rr_failed_measurements = [],
          rr_applicable_limits = [], rr_policy_version = policy_version c, rr_timestamp = now,
          rr_correlation_id = cr_correlation_id rq, rr_persistence_reference = None\<rparr>,
        ce_replay_match = None\<rparr>)))))"

subsection \<open>Evaluation\<close>

text \<open>From the request to the outcomes: the ledger, the sizing and the checks.\<close>

definition cs_observe :: "datetime \<Rightarrow> RiskEvaluationRequest \<Rightarrow> (capital, drawdown_snapshot) comp" where
  "cs_observe now rq s =
     (case ledger_observe (if cr_account_equity rq > 0 then cr_account_equity rq else 0)
             (cr_peak_equity rq) (cr_realized_pnl_day rq) (cr_losing_streak rq) now (cs_ledger s) of
        (r, l) \<Rightarrow> (r, s\<lparr>cs_ledger := l\<rparr>))"

definition cs_checks ::
  "datetime \<Rightarrow> RiskEvaluationRequest \<Rightarrow> RiskEvaluationRequest \<Rightarrow> SizingTrace option \<Rightarrow> string option \<Rightarrow>
   capital \<Rightarrow> CheckOutcome list res" where
  "cs_checks now rq eff sizing sizing_error s =
     run_checks (cs_config s) eff now (sh_halted (cs_halt s))
       (cr_persistence_available rq \<and> \<not> cs_require_persistence s)
       (map_option sz_final_risk sizing) sizing_error"

text \<open>From the verdict to the result.\<close>

definition cs_result ::
  "hash \<Rightarrow> datetime \<Rightarrow> RiskEvaluationRequest \<Rightarrow> SizingTrace option \<Rightarrow> CheckOutcome list \<Rightarrow> capital_verdict \<Rightarrow>
   string \<Rightarrow> string \<Rightarrow> (capital, CapitalEvaluationResult) comp" where
  "cs_result H now eff sizing checks v0 input_hash policy_hash =
     (case figures_or_zero eff v0 of (f, v) \<Rightarrow>
     bnd cs_fresh (\<lambda>did.
     bnd (lift_res (check_body v input_hash policy_hash checks)) (\<lambda>body.
     bnd (get_st cs_config) (\<lambda>c.
     bnd (lift_res (no_exec
            (decision_of did now c eff v f checks sizing input_hash policy_hash (H (HBody body))))) (\<lambda>d.
     bnd cs_fresh (\<lambda>oid.
     if capital_approved (cv_state v)
     then bnd (lift_res (never_order (executable_of oid eff d))) (\<lambda>x.
            lift_res (result_shape \<lparr>ce_decision = d, ce_executable_intent = Some x,
              ce_rejection = None, ce_replay_match = None\<rparr>))
     else lift_res (result_shape \<lparr>ce_decision = d, ce_executable_intent = None,
              ce_rejection = Some (rejection_from oid now c eff d), ce_replay_match = None\<rparr>)))))))"

text \<open>The references that a commit to memory writes into the result.\<close>

definition with_reference :: "string \<Rightarrow> CapitalEvaluationResult \<Rightarrow> CapitalEvaluationResult" where
  "with_reference ref r =
     \<lparr>ce_decision = (ce_decision r)\<lparr>cd_persistence_reference := Some ref\<rparr>,
      ce_executable_intent = map_option (\<lambda>x. x\<lparr>ei_persistence_reference := ref\<rparr>) (ce_executable_intent r),
      ce_rejection = map_option (\<lambda>x. x\<lparr>rr_persistence_reference := Some ref\<rparr>) (ce_rejection r),
      ce_replay_match = None\<rparr>"

definition cs_persist ::
  "hash \<Rightarrow> datetime \<Rightarrow> RiskEvaluationRequest \<Rightarrow> CapitalEvaluationResult \<Rightarrow>
   (capital, CapitalEvaluationResult) comp" where
  "cs_persist H now eff r =
     bnd (cs_fault ''before_persist'') (\<lambda>_.
     try_catch
       (bnd (cs_fault ''after_decision_before_audit'') (\<lambda>_.
        bnd (cs_fault ''after_audit_before_outbox'') (\<lambda>_.
        bnd (cs_fault ''after_commit'') (\<lambda>_.
        lift_res (result_shape (with_reference (''memory:'' @ cd_decision_id (ce_decision r)) r))))))
       (\<lambda>e. if is_value_error e \<and> contains ''idempotency conflict'' (exn_text e) then raise_exn e
            else fail_closed H now eff (''persist:'' @ exn_text e)))"

text \<open>From the outcomes to the stored result: the halt, the result, the commit, the memo.\<close>

definition cs_conclude ::
  "hash \<Rightarrow> datetime \<Rightarrow> bool \<Rightarrow> bool \<Rightarrow> RiskEvaluationRequest \<Rightarrow> RiskEvaluationRequest \<Rightarrow> SizingTrace option \<Rightarrow>
   CheckOutcome list \<Rightarrow> string \<Rightarrow> (capital, CapitalEvaluationResult) comp" where
  "cs_conclude H now persist use_memo rq eff sizing checks policy_hash =
     (let v = settle_verdict checks sizing eff in
     bnd (if cv_state v \<in> {CS_BLOCKED_DRAWDOWN, CS_BLOCKED_SYSTEM}
          then upd_st (\<lambda>s. s\<lparr>cs_halt := halt_trip (capital_state_value (cv_state v)) (cs_halt s)\<rparr>)
          else ret ()) (\<lambda>_.
     bnd (cs_result H now eff sizing checks v (H (HRequest rq)) policy_hash) (\<lambda>r0.
     bnd (if persist then cs_persist H now eff r0 else ret r0) (\<lambda>r1.
     bnd (get_st cs_require_persistence) (\<lambda>required.
     bnd (if required \<and> persist \<and> cd_persistence_reference (ce_decision r1) = None \<and>
             capital_approved (cd_final_decision (ce_decision r1))
          then fail_closed H now eff ''persistence reference missing'' else ret r1) (\<lambda>r2.
     bnd (if use_memo
          then upd_st (\<lambda>s. s\<lparr>cs_seen := dict_put (cr_idempotency_key rq) (H (HRequest rq), r2) (cs_seen s)\<rparr>)
          else ret ()) (\<lambda>_.
     ret r2)))))))"

definition cs_decide ::
  "hash \<Rightarrow> datetime \<Rightarrow> bool \<Rightarrow> bool \<Rightarrow> RiskEvaluationRequest \<Rightarrow> (capital, CapitalEvaluationResult) comp" where
  "cs_decide H now persist use_memo rq =
     bnd (cs_fault ''before_policy'') (\<lambda>_.
     bnd (get_st (\<lambda>s. H (HPolicy (cs_config s)))) (\<lambda>policy_hash.
     bnd (cs_fault ''after_policy'') (\<lambda>_.
     bnd (cs_fault ''during_account'') (\<lambda>_.
     bnd (cs_fault ''during_portfolio'') (\<lambda>_.
     bnd (cs_fault ''during_model'') (\<lambda>_.
     bnd (cs_observe now rq) (\<lambda>_.
     bnd (get_st (\<lambda>s. effective_request rq (cs_ledger s))) (\<lambda>eff.
     bnd (cs_fault ''during_sizing'') (\<lambda>_.
     bnd (get_st cs_config) (\<lambda>c.
     bnd (lift_res (try_sizing H c eff)) (\<lambda>(sizing, sizing_error).
     bnd (cs_fault ''during_heat'') (\<lambda>_.
     bnd (get_st (cs_checks now rq eff sizing sizing_error)) (\<lambda>outcome.
     bnd (lift_res outcome) (\<lambda>checks.
     cs_conclude H now persist use_memo rq eff sizing checks policy_hash))))))))))))))"

definition cs_evaluate ::
  "hash \<Rightarrow> datetime \<Rightarrow> bool \<Rightarrow> bool \<Rightarrow> RiskEvaluationRequest \<Rightarrow> (capital, CapitalEvaluationResult) comp" where
  "cs_evaluate H now persist use_memo rq =
     bnd (get_st (\<lambda>s. dict_get (cs_seen s) (cr_idempotency_key rq))) (\<lambda>cached.
     case (if use_memo then cached else None) of
       Some (stored_hash, stored) \<Rightarrow>
         if stored_hash \<noteq> H (HRequest rq)
         then raise_exn (ValueError ''idempotency conflict: same key with different payload'')
         else ret stored
     | None \<Rightarrow> cs_decide H now persist use_memo rq)"

definition capital_handler ::
  "hash \<Rightarrow> datetime \<Rightarrow> RiskEvaluationRequest \<Rightarrow> py_exn \<Rightarrow> (capital, CapitalEvaluationResult) comp" where
  "capital_handler H now rq e =
     (case e of
        MoneyError m \<Rightarrow> fail_closed H now rq (''non-finite money: '' @ m)
      | _ \<Rightarrow>
          if is_value_error e \<and> contains ''idempotency conflict'' (exn_text e) then raise_exn e
          else fail_closed H now rq (''evaluation exception: '' @ exn_text e))"

definition capital_evaluate ::
  "hash \<Rightarrow> datetime \<Rightarrow> RiskEvaluationRequest \<Rightarrow> (capital, CapitalEvaluationResult) comp" where
  "capital_evaluate H now rq =
     bnd (try_catch (cs_evaluate H now True True rq) (capital_handler H now rq)) (\<lambda>r.
     bnd (upd_st (\<lambda>s. s\<lparr>cs_metrics :=
            metrics_observe (capital_state_value (cd_final_decision (ce_decision r)))
              (cd_failed_checks (ce_decision r)) (cs_metrics s)\<rparr>)) (\<lambda>_.
     ret r))"

definition capital_replay ::
  "hash \<Rightarrow> datetime \<Rightarrow> CapitalEvaluationResult \<Rightarrow> RiskEvaluationRequest \<Rightarrow>
   (capital, CapitalEvaluationResult) comp" where
  "capital_replay H now r rq =
     bnd (cs_evaluate H now False False rq) (\<lambda>replayed.
     if cd_output_hash (ce_decision replayed) = cd_output_hash (ce_decision r)
     then ret (r\<lparr>ce_replay_match := Some True\<rparr>)
     else lift_res (result_shape
            \<lparr>ce_decision = (ce_decision r)\<lparr>cd_decision_status := CS_REPLAY_DIVERGENCE\<rparr>,
             ce_executable_intent = None, ce_rejection = ce_rejection r,
             ce_replay_match = Some False\<rparr>))"

subsection \<open>The service as a step relation\<close>

definition cs_trip :: "string \<Rightarrow> (capital, unit) comp" where
  "cs_trip reason = upd_st (\<lambda>s. s\<lparr>cs_halt := halt_trip reason (cs_halt s)\<rparr>)"

definition cs_recover :: "string \<Rightarrow> string \<Rightarrow> (capital, unit) comp" where
  "cs_recover actor reason s =
     (case halt_recover actor reason (cs_halt s) of (r, h) \<Rightarrow> (r, s\<lparr>cs_halt := h\<rparr>))"

datatype capital_call =
    K_evaluate datetime RiskEvaluationRequest
  | K_replay datetime CapitalEvaluationResult RiskEvaluationRequest
  | K_trip string
  | K_recover string string
  | K_inject "string option"

fun capital_do :: "hash \<Rightarrow> capital_call \<Rightarrow> capital \<Rightarrow> capital" where
  "capital_do H (K_evaluate now rq) s = snd (capital_evaluate H now rq s)"
| "capital_do H (K_replay now r rq) s = snd (capital_replay H now r rq s)"
| "capital_do H (K_trip reason) s = snd (cs_trip reason s)"
| "capital_do H (K_recover actor reason) s = snd (cs_recover actor reason s)"
| "capital_do H (K_inject point) s = s\<lparr>cs_inject_fault := point\<rparr>"

text \<open>A request object has passed its validators, which leave it as it is when run again.\<close>

definition request_ok :: "RiskEvaluationRequest \<Rightarrow> bool" where
  "request_ok rq \<longleftrightarrow> validate_request rq = Inr rq"

fun call_ok :: "capital_call \<Rightarrow> bool" where
  "call_ok (K_evaluate now rq) = request_ok rq"
| "call_ok (K_replay now r rq) = request_ok rq"
| "call_ok k = True"

inductive capital_reach :: "hash \<Rightarrow> capital \<Rightarrow> bool" where
  init: "pm4_config_ok c \<Longrightarrow> capital_reach H (capital_init c required)"
| call: "capital_reach H s \<Longrightarrow> call_ok k \<Longrightarrow> capital_reach H (capital_do H k s)"

end
