(* ===== verification/CapitalProps.thy ===== *)
theory CapitalProps
  imports CapitalService
begin

section \<open>How an evaluation runs\<close>

text \<open>
  The lemmas the guarantees of the capital gate rest on: what the validators leave of a request,
  how a computation of the service returns or raises, and the inversion of an evaluation into
  the ledger, sizing, checks and verdict it went through.
\<close>

subsection \<open>Validated requests\<close>

lemma to_money_money: "fits x \<Longrightarrow> money (to_money x)"
  by (auto simp: fits_def to_money_def dest: decimal_from_money split: sum.splits)

lemma money_fits [simp]: "money x \<Longrightarrow> fits x"
  by (simp add: money_def fits_def)

lemma to_money_id [simp]: "money x \<Longrightarrow> to_money x = x"
  by (simp add: money_def to_money_def)

lemma request_ok_money: "request_ok rq \<Longrightarrow> list_all money (request_amounts rq)"
proof -
  assume "request_ok rq"
  then have fit: "list_all fits (request_amounts rq)"
    and eq: "(round_request rq)\<lparr>cr_side := lower (strip (cr_side rq)),
      cr_symbol := upper (strip (cr_symbol rq))\<rparr> = rq"
    by (auto simp: request_ok_def validate_request_def res_simps Let_def)
  have "list_all money (map to_money (request_amounts rq))"
    using fit by (simp add: list_all_iff to_money_money)
  also have "map to_money (request_amounts rq) =
    request_amounts ((round_request rq)\<lparr>cr_side := lower (strip (cr_side rq)),
      cr_symbol := upper (strip (cr_symbol rq))\<rparr>)"
    by (simp add: request_amounts_def round_request_def)
  finally show ?thesis unfolding eq .
qed

lemma lower_idem: "lower (lower s) = lower s"
proof -
  have "lower_char (lower_char c) = lower_char c" for c
    by (auto simp: lower_char_def Let_def)
  then show ?thesis by (simp add: lower_def)
qed

lemma upper_idem: "upper (upper s) = upper s"
proof -
  have "upper_char (upper_char c) = upper_char c" for c
    by (auto simp: upper_char_def Let_def)
  then show ?thesis by (simp add: upper_def)
qed

lemma is_space_upper [simp]: "is_space (upper_char c) = is_space c"
proof (cases "97 \<le> (of_char c :: nat) \<and> (of_char c :: nat) \<le> 122")
  case True
  then have "(of_char (char_of (of_char c - 32 :: nat) :: char) :: nat) = of_char c - 32"
    unfolding of_char_of by (intro mod_less) linarith
  with True show ?thesis by (auto simp: is_space_def upper_char_def Let_def)
next
  case False
  then have "upper_char c = c" unfolding upper_char_def Let_def by (rule if_not_P)
  then show ?thesis by simp
qed

lemma strip_upper: "strip (upper s) = upper (strip s)"
proof -
  have "is_space \<circ> upper_char = is_space" by (rule ext) simp
  then have "dropWhile is_space (map upper_char t) = map upper_char (dropWhile is_space t)" for t
    by (simp add: dropWhile_map)
  then show ?thesis by (simp add: strip_def upper_def rev_map)
qed

lemma validated_side: "x \<in> {''buy'', ''sell''} \<Longrightarrow> lower (strip x) = x"
  by (auto simp: lower_def lower_char_def strip_def is_space_def)

lemma to_money_idem [simp]: "to_money (to_money x) = to_money x"
  by (cases "fits x") (simp_all add: to_money_money, simp add: fits_def to_money_def split: sum.splits)

lemma round_request_idem: "round_request (round_request r) = round_request r"
  by (simp add: round_request_def option.map_comp comp_def)

lemma round_request_names:
  "round_request (r\<lparr>cr_side := a, cr_symbol := b\<rparr>) = (round_request r)\<lparr>cr_side := a, cr_symbol := b\<rparr>"
  by (cases r) (simp add: round_request_def)

lemma validate_idem:
  assumes "validate_request r = Inr q"
  shows "request_ok q"
proof -
  let ?side = "lower (strip (cr_side r))" and ?sym = "upper (strip (cr_symbol r))"
  have fit: "list_all fits (request_amounts r)" "list_all (pred_option fits) (request_optional_amounts r)"
    and sd: "?side \<in> {''buy'', ''sell''}" and sy: "?sym \<noteq> []"
    and q: "q = (round_request r)\<lparr>cr_side := ?side, cr_symbol := ?sym\<rparr>"
    using assms by (auto simp: validate_request_def res_simps Let_def)
  have a: "list_all fits (request_amounts q)" "list_all (pred_option fits) (request_optional_amounts q)"
  proof -
    have "request_amounts q = map to_money (request_amounts r)"
      "request_optional_amounts q = map (map_option to_money) (request_optional_amounts r)"
      by (simp_all add: q request_amounts_def request_optional_amounts_def round_request_def)
    then show "list_all fits (request_amounts q)" "list_all (pred_option fits) (request_optional_amounts q)"
      using fit by (auto simp: list_all_iff to_money_money option.pred_set split: option.splits)
  qed
  have "round_request q = q" by (simp only: q round_request_names round_request_idem)
  moreover have "lower (strip (cr_side q)) = cr_side q" "upper (strip (cr_symbol q)) = cr_symbol q"
    using validated_side [OF sd] by (simp_all add: q strip_upper strip_idem upper_idem)
  ultimately have "(round_request q)\<lparr>cr_side := lower (strip (cr_side q)), cr_symbol := upper (strip (cr_symbol q))\<rparr> = q"
    and "lower (strip (cr_side q)) \<in> {''buy'', ''sell''}" and "upper (strip (cr_symbol q)) \<noteq> []"
    using sd sy by (simp_all add: q)
  with a show ?thesis by (simp only: request_ok_def validate_request_def raise_if_def Let_def) simp
qed

subsection \<open>Running the service\<close>

lemma bnd_eq_Inr: "bnd m f s = (Inr y, s') \<longleftrightarrow> (\<exists>x t. m s = (Inr x, t) \<and> f x t = (Inr y, s'))"
  by (auto simp: bnd_def split: prod.splits sum.splits)

lemma bnd_InrE:
  assumes "bnd m f s = (Inr y, s')"
  obtains x t where "m s = (Inr x, t)" and "f x t = (Inr y, s')"
  using assms by (auto simp: bnd_eq_Inr)

lemma cs_fault_eq: "cs_fault p s = (Inr u, s') \<longleftrightarrow> s' = s \<and> cs_inject_fault s \<noteq> Some p"
  by (auto simp: cs_fault_def)

lemma basic_eq:
  "ret x s = (Inr y, s') \<longleftrightarrow> y = x \<and> s' = s"
  "lift_res r s = (Inr y, s') \<longleftrightarrow> r = Inr y \<and> s' = s"
  "get_st g s = (Inr z, s') \<longleftrightarrow> z = g s \<and> s' = s"
  "upd_st u s = (Inr w, s') \<longleftrightarrow> s' = u s"
  "cs_fresh s = (Inr i, s') \<longleftrightarrow> i = uuid_str (cs_next_id s) \<and> s' = s\<lparr>cs_next_id := Suc (cs_next_id s)\<rparr>"
  by (auto simp: run_simps cs_fresh_def)

lemmas comp_eq = bnd_eq_Inr basic_eq cs_fault_eq

text \<open>A computation that only draws identifiers.\<close>

definition same_service :: "capital \<Rightarrow> capital \<Rightarrow> bool" where
  "same_service s s' \<longleftrightarrow> (\<exists>n. s' = s\<lparr>cs_next_id := n\<rparr>)"

lemma same_service_refl [simp]: "same_service s s"
  by (auto simp: same_service_def intro: exI [of _ "cs_next_id s"])

lemma same_service_id [simp]: "same_service s (s\<lparr>cs_next_id := n\<rparr>)"
  by (auto simp: same_service_def)

lemma same_service_trans: "same_service s t \<Longrightarrow> same_service t u \<Longrightarrow> same_service s u"
  by (auto simp: same_service_def)

lemma same_service_simps:
  assumes "same_service s s'"
  shows "cs_config s' = cs_config s" "cs_halt s' = cs_halt s" "cs_ledger s' = cs_ledger s"
    "cs_seen s' = cs_seen s" "cs_inject_fault s' = cs_inject_fault s"
    "cs_require_persistence s' = cs_require_persistence s" "cs_metrics s' = cs_metrics s"
  using assms by (auto simp: same_service_def)

text \<open>A fail-closed result.\<close>

definition closed_result :: "CapitalEvaluationResult \<Rightarrow> bool" where
  "closed_result r \<longleftrightarrow>
     cd_final_decision (ce_decision r) = CS_ERROR_FAIL_CLOSED \<and> cd_approved_quantity (ce_decision r) = 0 \<and>
     ce_executable_intent r = None \<and> ce_rejection r \<noteq> None \<and>
     map co_name (cd_checks (ce_decision r)) = CHECK_CATALOG \<and>
     list_all (\<lambda>o'. co_blocking o' \<and> \<not> clear o') (cd_checks (ce_decision r)) \<and>
     cd_failed_checks (ce_decision r) = [''global_safe_halt'']"

lemma fail_closed_run:
  obtains r s' where "fail_closed H now rq reason s = (Inr r, s')" and "closed_result r" and "same_service s s'"
proof -
  obtain r s' where "fail_closed H now rq reason s = (Inr r, s')" "closed_result r" "same_service s s'"
    unfolding fail_closed_def
    by (simp add: bnd_def cs_fresh_def run_simps no_exec_def result_shape_def raise_if_def
      capital_approved_def closed_result_def list_all_iff clear_def comp_def)
  then show ?thesis by (rule that)
qed

lemma fail_closed_Inr:
  assumes "fail_closed H now rq reason s = (x, s')"
  obtains r where "x = Inr r" and "closed_result r" and "same_service s s'"
  using assms by (metis fail_closed_run prod.inject)

subsection \<open>Exceptions\<close>

text \<open>The exception that leaves \<^verbatim>\<open>evaluate\<close>, and the computations that never raise it.\<close>

definition conflict_exn :: "py_exn \<Rightarrow> bool" where
  "conflict_exn e \<longleftrightarrow> is_value_error e \<and> contains ''idempotency conflict'' (exn_text e)"

definition contained :: "('s, 'a) comp \<Rightarrow> bool" where
  "contained m \<longleftrightarrow> (\<forall>s e s'. m s = (Inl e, s') \<longrightarrow> \<not> conflict_exn e)"

lemma conflict_exn_simps [simp]:
  "\<not> conflict_exn InvalidOperation" "\<not> conflict_exn (RuntimeError m)"
  by (simp_all add: conflict_exn_def)

lemma contained_basic:
  "contained (ret x)" "contained (get_st g)" "contained (upd_st u)" "contained cs_fresh" "contained (cs_fault p)"
  by (simp_all add: contained_def run_simps cs_fresh_def cs_fault_def)

lemma contained_lift: "(\<And>e. r = Inl e \<Longrightarrow> \<not> conflict_exn e) \<Longrightarrow> contained (lift_res r)"
  by (auto simp: contained_def run_simps)

lemma contained_bnd: "contained m \<Longrightarrow> (\<And>x. contained (f x)) \<Longrightarrow> contained (bnd m f)"
  unfolding contained_def bnd_def by (auto split: prod.splits sum.splits)

lemma contained_if: "contained m \<Longrightarrow> contained m' \<Longrightarrow> contained (if b then m else m')"
  by simp

lemma contained_prod: "(\<And>a b. contained (f a b)) \<Longrightarrow> contained (case p of (a, b) \<Rightarrow> f a b)"
  by (cases p) simp

lemma contained_fail_closed: "contained (fail_closed H now rq reason)"
  unfolding contained_def by (metis fail_closed_run Inl_Inr_False prod.inject)

lemma contained_try:
  assumes "\<And>s e s'. m s = (Inl e, s') \<Longrightarrow> contained (h e)"
  shows "contained (try_catch m h)"
  using assms unfolding contained_def try_catch_def by (fastforce split: prod.splits sum.splits)

lemma rbind_exn: "rbind r f = Inl e \<Longrightarrow> r = Inl e \<or> (\<exists>x. r = Inr x \<and> f x = Inl e)"
  by (cases r) simp_all

text \<open>Computing with amounts raises nothing but \<^verbatim>\<open>InvalidOperation\<close>.\<close>

definition quiet :: "'a res \<Rightarrow> bool" where
  "quiet r \<longleftrightarrow> (\<forall>e. r = Inl e \<longrightarrow> e = InvalidOperation)"

lemma quiet_simps [simp]:
  "quiet (Inr x)" "quiet (canonical d)" "quiet (with_amount d f)" "quiet (with_amounts d d' g)"
  by (auto simp: quiet_def with_amount_def with_amounts_def dest!: rbind_exn canonical_exn)

lemma quiet_if [simp]: "quiet (if b then r else r') \<longleftrightarrow> (if b then quiet r else quiet r')"
  by simp

lemma quiet_collect: "list_all quiet rs \<Longrightarrow> quiet (collect rs)"
  by (induction rs) (auto simp: quiet_def dest!: rbind_exn)

lemma quiet_exposures [simp]: "quiet (ck_exposures c rq risk)"
proof -
  have "quiet (exposure_check c n r sv x cap)" for n r sv x cap by (simp add: exposure_check_def)
  then show ?thesis by (simp add: ck_exposures_def quiet_collect del: collect.simps)
qed

lemma quiet_checks:
  "quiet (ck_intake c rq)" "quiet (ck_market c rq)" "quiet (ck_account c rq)" "quiet (ck_portfolio c rq)"
  "quiet (ck_eligibility c rq)" "quiet (ck_model c rq)" "quiet (ck_uncertainty c rq)" "quiet (ck_spread c rq)"
  "quiet (ck_slippage c rq)" "quiet (ck_commission c rq)" "quiet (ck_stop c rq)" "quiet (ck_size c rq err)"
  "quiet (ck_trade_risk c rq projected)" "quiet (ck_daily c rq)" "quiet (ck_drawdown c rq)"
  "quiet (ck_streak c rq)" "quiet (ck_heat c rq risk)" "quiet (ck_orders c rq)" "quiet (ck_duplicate c rq)"
  "quiet (ck_cooldown c rq now)" "quiet (ck_positions c rq)" "quiet (ck_reconciliation c rq)"
  "quiet (ck_system c rq halt ok)"
  by (simp_all add: ck_intake_def ck_market_def ck_account_def ck_portfolio_def ck_eligibility_def
      ck_model_def ck_uncertainty_def ck_spread_def ck_slippage_def ck_commission_def ck_stop_def
      ck_size_def ck_trade_risk_def ck_daily_def ck_drawdown_def ck_streak_def ck_heat_def ck_orders_def
      ck_duplicate_def ck_cooldown_def ck_positions_def ck_reconciliation_def ck_system_def Let_def
      split: option.splits sum.splits)

lemma run_checks_exn: "run_checks c rq now halt ok projected err = Inl e \<Longrightarrow> e = InvalidOperation"
proof -
  have "quiet (collect (all_checks c rq now halt ok projected err))"
    by (rule quiet_collect) (simp add: all_checks_def Let_def quiet_checks)
  then show "run_checks c rq now halt ok projected err = Inl e \<Longrightarrow> e = InvalidOperation"
    by (auto simp: run_checks_def quiet_def dest!: rbind_exn)
qed

lemma contract_exns:
  "no_exec d = Inl e \<Longrightarrow> \<not> conflict_exn e" "never_order i = Inl e \<Longrightarrow> \<not> conflict_exn e"
  "result_shape r = Inl e \<Longrightarrow> \<not> conflict_exn e" "try_sizing H c eff = Inl e \<Longrightarrow> \<not> conflict_exn e"
  "check_body v ih ph os = Inl e \<Longrightarrow> \<not> conflict_exn e" "ledger_snapshot q l = Inl e \<Longrightarrow> \<not> conflict_exn e"
  by (auto simp: no_exec_def never_order_def result_shape_def try_sizing_def check_body_def
      ledger_snapshot_def raise_if_def Let_def conflict_exn_def split: if_splits sum.splits
      dest!: rbind_exn canonical_exn)

lemma contained_observe: "contained (cs_observe now rq)"
  unfolding contained_def cs_observe_def ledger_observe_def
  by (auto simp: run_simps dest: contract_exns split: sum.splits prod.splits)

lemma contained_result: "contained (cs_result H now eff sizing os v ih ph)"
  unfolding cs_result_def
  by (intro contained_prod contained_bnd contained_basic contained_lift contained_if)
    (auto dest: contract_exns)

lemma contained_persist: "contained (cs_persist H now eff r)"
proof -
  let ?m = "bnd (cs_fault ''after_decision_before_audit'') (\<lambda>_.
        bnd (cs_fault ''after_audit_before_outbox'') (\<lambda>_.
        bnd (cs_fault ''after_commit'') (\<lambda>_.
        lift_res (result_shape (with_reference (''memory:'' @ cd_decision_id (ce_decision r)) r)))))"
  have "contained ?m"
    by (intro contained_bnd contained_basic contained_lift) (rule contract_exns)
  then have e: "\<not> conflict_exn e" if "?m s = (Inl e, s')" for s e s'
    using that unfolding contained_def by blast
  show ?thesis
    unfolding cs_persist_def
    by (intro contained_bnd contained_basic contained_try)
      (drule e, auto simp: conflict_exn_def contained_fail_closed)
qed

lemma contained_decide: "contained (cs_decide H now persist memo rq)"
proof -
  have c: "contained (lift_res (cs_checks now rq eff sizing err s))" for eff sizing err s
    by (rule contained_lift) (auto simp: cs_checks_def dest: run_checks_exn)
  have checks: "contained (bnd (get_st (cs_checks now rq eff sizing err)) (\<lambda>o'. bnd (lift_res o') f))"
    if "\<And>x. contained (f x)" for eff sizing err and f :: "CheckOutcome list \<Rightarrow> (capital, 'x) comp"
    using contained_bnd [OF c that] unfolding contained_def by (simp add: bnd_get)
  have conclude: "contained (cs_conclude H now persist memo rq eff sizing os ph)" for eff sizing os ph
    unfolding cs_conclude_def Let_def
    by (intro contained_bnd contained_result contained_if contained_persist contained_fail_closed contained_basic)
  show ?thesis
    unfolding cs_decide_def
    by (intro contained_bnd [OF contained_basic(5)] contained_bnd [OF contained_observe]
        contained_bnd [OF contained_basic(2)] contained_prod contained_bnd [OF contained_lift] checks conclude)
      (rule contract_exns)
qed

text \<open>A key that was used with another payload.\<close>

definition key_conflict :: "hash \<Rightarrow> RiskEvaluationRequest \<Rightarrow> capital \<Rightarrow> bool" where
  "key_conflict H rq s \<longleftrightarrow>
     (case dict_get (cs_seen s) (cr_idempotency_key rq) of
        None \<Rightarrow> False | Some (h, r) \<Rightarrow> h \<noteq> H (HRequest rq))"

lemma handler_run:
  assumes "\<not> conflict_exn e"
  obtains r s' where "capital_handler H now rq e s = (Inr r, s')" and "closed_result r" and "same_service s s'"
proof -
  obtain reason where "capital_handler H now rq e = fail_closed H now rq reason"
    using assms by (cases e) (auto simp: capital_handler_def conflict_exn_def)
  with that show ?thesis by (metis fail_closed_run)
qed

lemma capital_evaluate_cases:
  obtains
    (conflict) "key_conflict H rq s"
      "capital_evaluate H now rq s =
         (Inl (ValueError ''idempotency conflict: same key with different payload''), s)"
  | (stored) r where "dict_get (cs_seen s) (cr_idempotency_key rq) = Some (H (HRequest rq), r)"
      "fst (capital_evaluate H now rq s) = Inr r"
      "same_service s (snd (capital_evaluate H now rq s)\<lparr>cs_metrics := cs_metrics s\<rparr>)"
  | (decided) r s1 where "dict_get (cs_seen s) (cr_idempotency_key rq) = None"
      "cs_decide H now True True rq s = (Inr r, s1)" "fst (capital_evaluate H now rq s) = Inr r"
      "same_service s1 (snd (capital_evaluate H now rq s)\<lparr>cs_metrics := cs_metrics s1\<rparr>)"
  | (failed) e r s1 where "dict_get (cs_seen s) (cr_idempotency_key rq) = None"
      "cs_decide H now True True rq s = (Inl e, s1)" "closed_result r"
      "fst (capital_evaluate H now rq s) = Inr r"
      "same_service s1 (snd (capital_evaluate H now rq s)\<lparr>cs_metrics := cs_metrics s1\<rparr>)"
proof (cases "dict_get (cs_seen s) (cr_idempotency_key rq)")
  case (Some p)
  obtain h r where p: "p = (h, r)" by (cases p)
  show ?thesis
  proof (cases "h = H (HRequest rq)")
    case True
    with Some p show ?thesis
      by (intro stored) (auto simp: capital_evaluate_def cs_evaluate_def bnd_def try_catch_def run_simps)
  next
    case False
    with Some p show ?thesis
      by (intro conflict) (auto simp: key_conflict_def capital_evaluate_def cs_evaluate_def bnd_def
          try_catch_def run_simps capital_handler_def)
  qed
next
  case None
  obtain x s1 where d: "cs_decide H now True True rq s = (x, s1)" by (cases "cs_decide H now True True rq s")
  show ?thesis
  proof (cases x)
    case (Inr r)
    with None d show ?thesis
      by (intro decided [of r s1])
        (auto simp: capital_evaluate_def cs_evaluate_def bnd_def try_catch_def run_simps)
  next
    case (Inl e)
    with d contained_decide [of H now True True rq] have "\<not> conflict_exn e"
      by (auto simp: contained_def)
    then obtain r s' where h: "capital_handler H now rq e s1 = (Inr r, s')" "closed_result r" "same_service s1 s'"
      by (rule handler_run)
    with None d Inl show ?thesis
      by (intro failed [of e s1 r])
        (auto simp: capital_evaluate_def cs_evaluate_def bnd_def try_catch_def run_simps same_service_def)
  qed
qed

subsection \<open>What an evaluation keeps of the state\<close>

text \<open>
  \<open>stays\<close>: configuration, mode, fault hook and ledger as they were, the halt latched if it was.
  \<open>observes\<close>: the same, with the observation of the request merged into the ledger or not.
\<close>

definition observed :: "datetime \<Rightarrow> RiskEvaluationRequest \<Rightarrow> drawdown_ledger \<Rightarrow> drawdown_ledger" where
  "observed now rq = ledger_merge (if cr_account_equity rq > 0 then cr_account_equity rq else 0)
     (cr_peak_equity rq) (cr_realized_pnl_day rq) (cr_losing_streak rq) now"

definition same_setup :: "capital \<Rightarrow> capital \<Rightarrow> bool" where
  "same_setup s s' \<longleftrightarrow>
     cs_config s' = cs_config s \<and> cs_require_persistence s' = cs_require_persistence s \<and>
     cs_inject_fault s' = cs_inject_fault s \<and> (sh_halted (cs_halt s) \<longrightarrow> sh_halted (cs_halt s'))"

definition stays :: "capital \<Rightarrow> capital \<Rightarrow> bool" where
  "stays s s' \<longleftrightarrow> same_setup s s' \<and> cs_ledger s' = cs_ledger s"

definition observes :: "datetime \<Rightarrow> RiskEvaluationRequest \<Rightarrow> capital \<Rightarrow> capital \<Rightarrow> bool" where
  "observes now rq s s' \<longleftrightarrow>
     same_setup s s' \<and> cs_ledger s' \<in> {cs_ledger s, observed now rq (cs_ledger s)}"

definition keeps :: "('s \<Rightarrow> 's \<Rightarrow> bool) \<Rightarrow> ('s, 'a) comp \<Rightarrow> bool" where
  "keeps R m \<longleftrightarrow> (\<forall>s. R s (snd (m s)))"

lemma keeps_bnd:
  assumes "keeps A m" and "\<And>x. keeps B (f x)"
    and "\<And>s t u. A s t \<Longrightarrow> B t u \<Longrightarrow> C s u" and "\<And>s t. A s t \<Longrightarrow> C s t"
  shows "keeps C (bnd m f)"
  using assms unfolding keeps_def bnd_def by (auto split: prod.splits sum.splits) (metis snd_conv)+

lemma stays_trans: "stays s t \<Longrightarrow> stays t u \<Longrightarrow> stays s u"
  by (auto simp: stays_def same_setup_def)

lemma stays_observes: "stays s t \<Longrightarrow> observes now rq t u \<Longrightarrow> observes now rq s u"
  "observes now rq s t \<Longrightarrow> stays t u \<Longrightarrow> observes now rq s u" "stays s t \<Longrightarrow> observes now rq s t"
  by (auto simp: stays_def observes_def same_setup_def)

lemma same_service_stays: "same_service s t \<Longrightarrow> stays s t"
  by (auto simp: same_service_def stays_def same_setup_def)

lemma keeps_stays_bnd: "keeps stays m \<Longrightarrow> (\<And>x. keeps stays (f x)) \<Longrightarrow> keeps stays (bnd m f)"
  by (rule keeps_bnd [where A = stays and B = stays]) (auto intro: stays_trans)

lemma keeps_basic:
  "keeps stays (ret x)" "keeps stays (get_st g)" "keeps stays (lift_res r)" "keeps stays (raise_exn e)"
  "keeps stays cs_fresh" "keeps stays (cs_fault p)" "keeps stays (fail_closed H now rq reason)"
proof -
  show "keeps stays (fail_closed H now rq reason)"
    unfolding keeps_def by (metis fail_closed_run same_service_stays snd_conv)
qed (auto simp: keeps_def run_simps cs_fresh_def cs_fault_def stays_def same_setup_def)

lemma keeps_if: "keeps R m \<Longrightarrow> keeps R m' \<Longrightarrow> keeps R (if b then m else m')"
  by simp

lemma keeps_prod: "(\<And>a b. keeps R (f a b)) \<Longrightarrow> keeps R (case p of (a, b) \<Rightarrow> f a b)"
  by (cases p) simp

lemma keeps_try: "keeps stays m \<Longrightarrow> (\<And>e. keeps stays (h e)) \<Longrightarrow> keeps stays (try_catch m h)"
  unfolding keeps_def try_catch_def by (auto split: prod.splits sum.splits) (metis snd_conv stays_trans)+

lemma keeps_upd:
  "keeps stays (upd_st (\<lambda>s. s\<lparr>cs_halt := halt_trip reason (cs_halt s)\<rparr>))"
  "keeps stays (upd_st (\<lambda>s. s\<lparr>cs_seen := g (cs_seen s)\<rparr>))"
  "keeps stays (upd_st (\<lambda>s. s\<lparr>cs_metrics := g' (cs_metrics s)\<rparr>))"
  by (simp_all add: keeps_def run_simps stays_def same_setup_def halt_trip_def)

lemma keeps_result: "keeps stays (cs_result H now eff sizing os v ih ph)"
  unfolding cs_result_def by (intro keeps_prod keeps_stays_bnd keeps_basic keeps_if)

lemma keeps_persist: "keeps stays (cs_persist H now eff r)"
  unfolding cs_persist_def by (intro keeps_stays_bnd keeps_basic keeps_try keeps_if)

lemma keeps_observe: "keeps (observes now rq) (cs_observe now rq)"
  by (auto simp: keeps_def cs_observe_def ledger_observe_def run_simps observes_def same_setup_def
    observed_def split: sum.splits)

lemma keeps_stays_then:
  "keeps stays m \<Longrightarrow> (\<And>x. keeps (observes now rq) (f x)) \<Longrightarrow> keeps (observes now rq) (bnd m f)"
  by (rule keeps_bnd [where A = stays and B = "observes now rq"]) (auto intro: stays_observes)

lemma keeps_observe_then:
  "(\<And>x. keeps stays (f x)) \<Longrightarrow> keeps (observes now rq) (bnd (cs_observe now rq) f)"
  by (rule keeps_bnd [where A = "observes now rq" and B = stays])
    (auto intro: stays_observes keeps_observe)

lemma keeps_conclude: "keeps stays (cs_conclude H now persist memo rq eff sizing os ph)"
  unfolding cs_conclude_def Let_def
  by (intro keeps_stays_bnd keeps_basic keeps_result keeps_persist keeps_if keeps_upd)

lemma keeps_decide: "keeps (observes now rq) (cs_decide H now persist memo rq)"
  unfolding cs_decide_def
  by ((rule keeps_stays_then, rule keeps_basic)+, rule keeps_observe_then)
    (intro keeps_stays_bnd keeps_basic keeps_prod keeps_conclude)

lemma keeps_observes_bnd:
  "keeps (observes now rq) m \<Longrightarrow> (\<And>x. keeps stays (f x)) \<Longrightarrow> keeps (observes now rq) (bnd m f)"
  by (rule keeps_bnd [where A = "observes now rq" and B = stays]) (auto intro: stays_observes)

lemma keeps_observes_try:
  "keeps (observes now rq) m \<Longrightarrow> (\<And>e. keeps stays (h e)) \<Longrightarrow> keeps (observes now rq) (try_catch m h)"
  unfolding keeps_def try_catch_def
  by (auto split: prod.splits sum.splits) (metis snd_conv stays_observes(2))+

lemma keeps_weaken: "keeps stays m \<Longrightarrow> keeps (observes now rq) m"
  by (simp add: keeps_def stays_observes(3))

lemma keeps_evaluate: "keeps (observes now rq) (cs_evaluate H now persist memo rq)"
  unfolding cs_evaluate_def
  by (rule keeps_stays_then, rule keeps_basic)
    (auto intro: keeps_weaken keeps_basic keeps_decide split: option.splits prod.splits)

lemma keeps_handler: "keeps stays (capital_handler H now rq e)"
  by (cases e) (auto simp: capital_handler_def keeps_basic)

lemma keeps_capital:
  "keeps (observes now rq) (capital_evaluate H now rq)"
  "keeps (observes now rq) (capital_replay H now r rq)"
  unfolding capital_evaluate_def capital_replay_def
  by (intro keeps_observes_bnd keeps_observes_try keeps_evaluate keeps_handler keeps_stays_bnd
      keeps_basic keeps_upd keeps_if)+

subsection \<open>From a result back to its evaluation\<close>

text \<open>The inversion of a decision: everything it computed, up to the identifiers it drew.\<close>

lemma cs_observe_eq:
  "cs_observe now rq s = (Inr x, s') \<Longrightarrow> s' = s\<lparr>cs_ledger := observed now rq (cs_ledger s)\<rparr>"
  by (auto simp: cs_observe_def ledger_observe_def run_simps observed_def split: sum.splits)

lemma cs_checks_ledger [simp]: "cs_checks now rq eff sizing err (s\<lparr>cs_ledger := l\<rparr>) = cs_checks now rq eff sizing err s"
  by (simp add: cs_checks_def)

lemma cs_decide_cases:
  assumes "cs_decide H now persist memo rq s = (Inr r, s')"
  obtains eff sizing err checks where
    "eff = effective_request rq (observed now rq (cs_ledger s))"
    "try_sizing H (cs_config s) eff = Inr (sizing, err)"
    "cs_checks now rq eff sizing err s = Inr checks"
    "cs_conclude H now persist memo rq eff sizing checks (H (HPolicy (cs_config s)))
       (s\<lparr>cs_ledger := observed now rq (cs_ledger s)\<rparr>) = (Inr r, s')"
  using assms unfolding cs_decide_def by (auto simp: comp_eq dest!: cs_observe_eq)

text \<open>
  A decision keeps its body through the commit: a result either fails closed or carries the
  decision built from the verdict, with the reference of the commit.
\<close>

definition intent_of :: "RiskDecision \<Rightarrow> RiskApprovedExecutableIntent \<Rightarrow> bool" where
  "intent_of d x \<longleftrightarrow>
     ei_approved_quantity x = cd_approved_quantity d \<and> ei_risk_decision_id x = cd_decision_id d \<and>
     ei_symbol x = cd_symbol d \<and> ei_side x = cd_side d \<and> ei_entry_price x = cd_entry_price d \<and>
     ei_stop_loss_price x = cd_stop_loss_price d \<and> ei_take_profit_price x = cd_take_profit_price d \<and>
     ei_expires_at x = cd_expires_at d \<and> \<not> ei_execution_allowed x \<and> \<not> ei_creates_order x"

definition decision_from ::
  "datetime \<Rightarrow> Pm4RiskGateConfig \<Rightarrow> RiskEvaluationRequest \<Rightarrow> capital_verdict \<Rightarrow> exposure_figures \<Rightarrow>
   CheckOutcome list \<Rightarrow> SizingTrace option \<Rightarrow> hash \<Rightarrow> string \<Rightarrow> string \<Rightarrow> CapitalEvaluationResult \<Rightarrow> bool" where
  "decision_from now c eff v f checks sizing H ih ph r \<longleftrightarrow>
     (\<exists>did body. check_body v ih ph checks = Inr body \<and>
        (ce_decision r)\<lparr>cd_persistence_reference := None\<rparr> =
          decision_of did now c eff v f checks sizing ih ph (H (HBody body))) \<and>
     (if capital_approved (cv_state v)
      then ce_rejection r = None \<and>
        (\<exists>x. ce_executable_intent r = Some x \<and> intent_of (ce_decision r) x)
      else ce_executable_intent r = None \<and> ce_rejection r \<noteq> None)"

lemma cs_result_run:
  assumes "cs_result H now eff sizing checks v0 ih ph s = (Inr r, s')" and "figures_or_zero eff v0 = (f, v)"
  shows "decision_from now (cs_config s) eff v f checks sizing H ih ph r" and "same_service s s'"
    and "ce_replay_match r = None"
proof -
  from assms obtain body d where b: "check_body v ih ph checks = Inr body"
    and d: "d = decision_of (uuid_str (cs_next_id s)) now (cs_config s) eff v f checks sizing ih ph (H (HBody body))"
    and r: "r = (if capital_approved (cv_state v)
        then \<lparr>ce_decision = d, ce_executable_intent = Some (executable_of (uuid_str (Suc (cs_next_id s))) eff d),
              ce_rejection = None, ce_replay_match = None\<rparr>
        else \<lparr>ce_decision = d, ce_executable_intent = None,
              ce_rejection = Some (rejection_from (uuid_str (Suc (cs_next_id s))) now (cs_config s) eff d),
              ce_replay_match = None\<rparr>)"
    and s': "s' = s\<lparr>cs_next_id := Suc (Suc (cs_next_id s))\<rparr>"
    by (auto simp: cs_result_def comp_eq no_exec_def never_order_def result_shape_def res_simps Let_def
      split: if_splits)
  show "decision_from now (cs_config s) eff v f checks sizing H ih ph r"
    unfolding decision_from_def r using b
    by (auto simp: d decision_of_def Let_def executable_of_def intent_of_def)
  show "same_service s s'" by (simp add: s')
  show "ce_replay_match r = None" by (simp add: r)
qed

lemma with_reference_from:
  "decision_from now c eff v f checks sizing H ih ph r \<Longrightarrow>
   decision_from now c eff v f checks sizing H ih ph (with_reference ref r)"
  by (auto simp: decision_from_def with_reference_def intent_of_def)

lemma cs_persist_run:
  assumes "cs_persist H now eff r s = (Inr r', s')"
  shows "closed_result r' \<or> (\<exists>ref. r' = with_reference ref r)" and "same_service s s'"
proof -
  let ?ref = "''memory:'' @ cd_decision_id (ce_decision r)"
  have "(closed_result r' \<or> r' = with_reference ?ref r) \<and> same_service s s'"
  proof (cases "r' = with_reference ?ref r \<and> s' = s")
    case False
    with assms obtain reason where "fail_closed H now eff reason s = (Inr r', s')"
      unfolding cs_persist_def
      by (auto simp: comp_eq try_catch_def bnd_def cs_fault_def run_simps raise_exn_def result_shape_def
        raise_if_def Let_def split: if_splits)
    then show ?thesis by (auto elim: fail_closed_Inr)
  qed simp
  then show "closed_result r' \<or> (\<exists>ref. r' = with_reference ref r)" "same_service s s'" by auto
qed

text \<open>The whole conclusion.\<close>

definition concluded :: "datetime \<Rightarrow> hash \<Rightarrow> Pm4RiskGateConfig \<Rightarrow> RiskEvaluationRequest \<Rightarrow>
    CheckOutcome list \<Rightarrow> SizingTrace option \<Rightarrow> string \<Rightarrow> string \<Rightarrow> CapitalEvaluationResult \<Rightarrow> bool" where
  "concluded now H c eff checks sizing ih ph r \<longleftrightarrow>
     closed_result r \<or>
     (case figures_or_zero eff (settle_verdict checks sizing eff) of
        (f, v) \<Rightarrow> decision_from now c eff v f checks sizing H ih ph r)"

lemma cs_conclude_run:
  assumes "cs_conclude H now persist memo rq eff sizing checks ph s = (Inr r, s')"
  shows "concluded now H (cs_config s) eff checks sizing (H (HRequest rq)) ph r"
    and "memo \<Longrightarrow> dict_get (cs_seen s') (cr_idempotency_key rq) = Some (H (HRequest rq), r)"
    and "sh_halted (cs_halt s') \<longleftrightarrow> sh_halted (cs_halt s) \<or>
      cv_state (settle_verdict checks sizing eff) \<in> {CS_BLOCKED_DRAWDOWN, CS_BLOCKED_SYSTEM}"
proof -
  let ?v = "settle_verdict checks sizing eff"
  obtain f v where fv: "figures_or_zero eff ?v = (f, v)" by (cases "figures_or_zero eff ?v")
  obtain u s1 r0 s2 r1 s3 req t3 r2 s4 w s5 where
    a1: "(if cv_state ?v \<in> {CS_BLOCKED_DRAWDOWN, CS_BLOCKED_SYSTEM}
          then upd_st (\<lambda>s. s\<lparr>cs_halt := halt_trip (capital_state_value (cv_state ?v)) (cs_halt s)\<rparr>)
          else ret ()) s = (Inr u, s1)"
    and r0: "cs_result H now eff sizing checks ?v (H (HRequest rq)) ph s1 = (Inr r0, s2)"
    and r1: "(if persist then cs_persist H now eff r0 else ret r0) s2 = (Inr r1, s3)"
    and "get_st cs_require_persistence s3 = (Inr req, t3)"
    and a2: "(if req \<and> persist \<and> cd_persistence_reference (ce_decision r1) = None \<and>
             capital_approved (cd_final_decision (ce_decision r1))
          then fail_closed H now eff ''persistence reference missing'' else ret r1) t3 = (Inr r2, s4)"
    and a3: "(if memo
          then upd_st (\<lambda>s. s\<lparr>cs_seen := dict_put (cr_idempotency_key rq) (H (HRequest rq), r2) (cs_seen s)\<rparr>)
          else ret ()) s4 = (Inr w, s5)" and a4: "ret r2 s5 = (Inr r, s')"
    using assms unfolding cs_conclude_def Let_def
    by (elim bnd_InrE) (rule that)
  then have t3: "t3 = s3" and r: "r2 = r" "s5 = s'" by (simp_all add: basic_eq)
  have s1: "s1 = (if cv_state ?v \<in> {CS_BLOCKED_DRAWDOWN, CS_BLOCKED_SYSTEM}
          then s\<lparr>cs_halt := halt_trip (capital_state_value (cv_state ?v)) (cs_halt s)\<rparr> else s)"
    using a1 by (cases "cv_state ?v \<in> {CS_BLOCKED_DRAWDOWN, CS_BLOCKED_SYSTEM}")
      (simp_all only: basic_eq if_True if_False)
  have s': "s' = (if memo
      then s4\<lparr>cs_seen := dict_put (cr_idempotency_key rq) (H (HRequest rq), r) (cs_seen s4)\<rparr> else s4)"
    using a3 by (simp add: r basic_eq split: if_splits)
  have c: "cs_config s1 = cs_config s" by (simp add: s1)
  have d0: "decision_from now (cs_config s) eff v f checks sizing H (H (HRequest rq)) ph r0" "same_service s1 s2"
    using cs_result_run [OF r0 fv] c by simp_all
  have d1: "concluded now H (cs_config s) eff checks sizing (H (HRequest rq)) ph r1" "same_service s2 s3"
    using r1 d0(1) cs_persist_run [of H now eff r0 s2 r1 s3] with_reference_from
    by (auto simp: concluded_def fv basic_eq split: if_splits)
  have d2: "concluded now H (cs_config s) eff checks sizing (H (HRequest rq)) ph r" "same_service s3 s4"
    using a2 d1(1) by (auto simp: t3 r concluded_def basic_eq elim: fail_closed_Inr split: if_splits)
  show "concluded now H (cs_config s) eff checks sizing (H (HRequest rq)) ph r" by (rule d2(1))
  show "memo \<Longrightarrow> dict_get (cs_seen s') (cr_idempotency_key rq) = Some (H (HRequest rq), r)"
    by (simp add: s' dict_simps)
  have "same_service s1 s4" using d0(2) d1(2) d2(2) same_service_trans by blast
  then have "cs_halt s' = cs_halt s1" by (simp add: s' same_service_simps)
  then show "sh_halted (cs_halt s') \<longleftrightarrow>
      sh_halted (cs_halt s) \<or> cv_state ?v \<in> {CS_BLOCKED_DRAWDOWN, CS_BLOCKED_SYSTEM}"
    by (simp add: s1 halt_trip_def)
qed

subsection \<open>Verdicts\<close>

lemma blocking_names_clear:
  assumes "list_all settled checks"
  shows "blocking_names checks = [] \<longleftrightarrow> list_all clear checks"
    and "name \<in> set (blocking_names checks) \<longleftrightarrow> (\<exists>o' \<in> set checks. co_name o' = name \<and> \<not> clear o')"
  using assms
  by (auto simp: blocking_names_def settled_def clear_def list_all_iff filter_empty_conv)

lemma block_map_state: "(name, st) \<in> set BLOCK_MAP \<Longrightarrow> \<not> capital_approved st \<and> st \<noteq> CS_ERROR_FAIL_CLOSED"
  by (auto simp: BLOCK_MAP_def capital_approved_def)

lemma find_in: "find P xs = Some x \<Longrightarrow> x \<in> set xs \<and> P x"
  by (induction xs) (auto split: if_splits)

lemma state_from_approved:
  assumes "list_all settled checks"
  shows "capital_approved (state_from checks sizing rq) \<longleftrightarrow>
     list_all clear checks \<and> (\<exists>t. sizing = Some t \<and> 0 < sz_rounded_size t)"
proof (cases "find (\<lambda>(name, st). name \<in> set (fromkeys (blocking_names checks))) BLOCK_MAP")
  case None
  then show ?thesis using blocking_names_clear(1) [OF assms]
    by (auto simp: state_from_def Let_def capital_approved_def split: option.splits if_splits)
next
  case (Some p)
  obtain name st where p: "p = (name, st)" by (cases p)
  from Some p have "(name, st) \<in> set BLOCK_MAP" "name \<in> set (blocking_names checks)"
    by (auto dest!: find_in)
  then have "\<not> capital_approved st" "blocking_names checks \<noteq> []"
    using block_map_state by auto
  then show ?thesis using Some p blocking_names_clear(1) [OF assms]
    by (simp add: state_from_def Let_def)
qed

lemma settle_approved:
  assumes "list_all settled checks" and "capital_approved (cv_state (settle_verdict checks sizing eff))"
  obtains t where "list_all clear checks" "sizing = Some t" "0 < sz_rounded_size t"
    "settle_verdict checks sizing eff =
       \<lparr>cv_state = (if sz_rounded_size t < cr_requested_quantity eff then CS_APPROVED_REDUCED_SIZE else CS_APPROVED),
        cv_quantity = sz_rounded_size t, cv_failed = [], cv_projected = sz_final_risk t\<rparr>"
proof -
  let ?st = "state_from checks sizing eff"
  have ap: "capital_approved ?st" and ne: "?st \<noteq> CS_ERROR_FAIL_CLOSED"
    using assms(2) by (auto simp: settle_verdict_def Let_def capital_approved_def split: if_splits)
  then obtain t where t: "list_all clear checks" "sizing = Some t" "0 < sz_rounded_size t"
    using state_from_approved [OF assms(1)] by auto
  moreover have b: "blocking_names checks = []" using t(1) blocking_names_clear(1) [OF assms(1)] by simp
  moreover have "?st = (if sz_rounded_size t < cr_requested_quantity eff then CS_APPROVED_REDUCED_SIZE else CS_APPROVED)"
    using ap t b unfolding state_from_def Let_def
    by (auto simp: capital_approved_def split: option.splits dest!: find_in)
  ultimately show ?thesis using ap ne that by (auto simp: settle_verdict_def Let_def)
qed

lemma settle_states: "cv_state (settle_verdict checks sizing eff) \<noteq> CS_ERROR_FAIL_CLOSED"
proof -
  have "state_from checks sizing eff \<noteq> CS_ERROR_FAIL_CLOSED"
  proof (cases "find (\<lambda>(name, st). name \<in> set (fromkeys (blocking_names checks))) BLOCK_MAP")
    case (Some p)
    then have "p \<in> set BLOCK_MAP" by (auto dest!: find_in)
    with Some block_map_state show ?thesis by (cases p) (auto simp: state_from_def Let_def)
  qed (auto simp: state_from_def Let_def split: option.splits)
  then show ?thesis by (auto simp: settle_verdict_def Let_def)
qed

lemma figures_defined:
  "\<exists>f. figures_of eff projected = Inr f"
  by (auto simp: figures_of_def heat_before_def heat_after_def raise_if_def)

lemma figures_or_zero_verdict: "figures_or_zero eff v = (f, v') \<Longrightarrow> v' = v"
  using figures_defined [of eff "cv_projected v"] by (auto simp: figures_or_zero_def)

text \<open>A quantity is granted only with an approval.\<close>

lemma settle_quantity:
  "\<not> capital_approved (cv_state (settle_verdict checks sizing eff)) \<Longrightarrow>
   cv_quantity (settle_verdict checks sizing eff) \<le> 0"
  by (auto simp: settle_verdict_def Let_def split: if_splits)

text \<open>The safe halt comes first in the block map, so a halted service blocks whatever else failed.\<close>

lemma state_from_halt:
  assumes "''global_safe_halt'' \<in> set (blocking_names checks)"
  shows "state_from checks sizing eff = CS_BLOCKED_SYSTEM"
  using assms by (simp add: state_from_def BLOCK_MAP_def Let_def)

end
