(* ===== verification/CapitalReturns.thy ===== *)
theory CapitalReturns
  imports CapitalProps
begin

section \<open>When checks and sizing return\<close>

text \<open>
  The checks and the sizer raise only when an amount they print does not fit 28 digits at eight
  decimal places. Here are the amounts they print, and the converse: when those fit, the checks
  return and the sizer returns once its guards pass.
\<close>

definition defined :: "'a res \<Rightarrow> bool" where
  "defined r \<longleftrightarrow> (\<exists>x. r = Inr x)"

lemma defined_simps [simp]:
  "defined (Inr x)" "defined (with_amount d f) \<longleftrightarrow> fits d"
  "defined (with_amounts d d' g) \<longleftrightarrow> fits d \<and> fits d'"
  by (auto simp: defined_def with_amount_def with_amounts_def fits_canonical res_simps)

lemma defined_collect: "list_all defined rs \<Longrightarrow> defined (collect rs)"
  by (induction rs) (auto simp: defined_def)

lemma small_fits: "\<bar>x\<bar> < 10 ^ 19 \<Longrightarrow> fits x"
  using decimal_from_small [of x] by (auto simp: fits_def)

subsection \<open>Checks\<close>

definition cost_amounts :: "Pm4RiskGateConfig \<Rightarrow> RiskEvaluationRequest \<Rightarrow> dec list" where
  "cost_amounts c rq =
     [cr_free_margin rq, free_margin_floor c, max_uncertainty_span c, cr_spread rq, max_spread c,
      cr_estimated_slippage rq, max_slippage c, cr_estimated_commission rq, max_commission c,
      max_cost_to_edge c, cr_requested_quantity rq] @
     (case cr_predicted_quantiles rq of None \<Rightarrow> [] | Some b \<Rightarrow> [dsub (qb_q95 b) (qb_q05 b)]) @
     (case cr_expected_return rq of
        None \<Rightarrow> [] | Some e \<Rightarrow> [ddiv (dadd (cr_estimated_commission rq) (cr_estimated_swap rq)) e])"

definition loss_amounts :: "Pm4RiskGateConfig \<Rightarrow> RiskEvaluationRequest \<Rightarrow> dec \<Rightarrow> dec list" where
  "loss_amounts c rq risk =
     [risk, dmul (cr_account_equity rq) (max_per_trade_risk_pct c), day_loss rq,
      dmul (cr_account_equity rq) (max_daily_loss_pct c), 0, cr_account_equity rq, equity_floor c,
      cap_drawdown rq, dd_freeze c]"

definition exposure_amounts :: "Pm4RiskGateConfig \<Rightarrow> RiskEvaluationRequest \<Rightarrow> dec \<Rightarrow> dec list" where
  "exposure_amounts c rq risk =
     map (\<lambda>x. exposure_share rq x risk)
       [cr_symbol_exposure rq, cr_currency_exposure rq, dabs (cr_directional_exposure rq),
        cr_correlated_exposure rq, cr_strategy_exposure rq, cr_profile_exposure rq] @
     [max_symbol_exposure_pct c, max_currency_exposure_pct c, max_correlation_pct c, max_strategy_pct c,
      max_profile_pct c]"

definition printable :: "Pm4RiskGateConfig \<Rightarrow> RiskEvaluationRequest \<Rightarrow> dec \<Rightarrow> bool" where
  "printable c rq risk \<longleftrightarrow>
     list_all fits (cost_amounts c rq) \<and> list_all fits (loss_amounts c rq risk) \<and>
     list_all fits (exposure_amounts c rq risk)"

lemma defined_plain:
  "defined (ck_intake c rq)" "defined (ck_market c rq)" "defined (ck_portfolio c rq)"
  "defined (ck_eligibility c rq)" "defined (ck_model c rq)" "defined (ck_stop c rq)"
  "defined (ck_streak c rq)" "defined (ck_heat c rq risk)" "defined (ck_orders c rq)"
  "defined (ck_duplicate c rq)" "defined (ck_cooldown c rq now)" "defined (ck_positions c rq)"
  "defined (ck_reconciliation c rq)" "defined (ck_system c rq halt ok)"
  by (simp_all add: ck_intake_def ck_market_def ck_portfolio_def ck_eligibility_def ck_model_def
      ck_stop_def ck_streak_def ck_heat_def ck_orders_def ck_duplicate_def ck_cooldown_def
      ck_positions_def ck_reconciliation_def ck_system_def split: sum.splits)

lemma defined_cost:
  assumes "list_all fits (cost_amounts c rq)"
  shows "defined (ck_account c rq)" "defined (ck_uncertainty c rq)" "defined (ck_spread c rq)"
    "defined (ck_slippage c rq)" "defined (ck_commission c rq)" "defined (ck_size c rq err)"
  using assms
  by (auto simp: cost_amounts_def ck_account_def ck_uncertainty_def ck_spread_def ck_slippage_def
      ck_commission_def ck_size_def Let_def split: option.splits)

lemma defined_loss:
  assumes "list_all fits (loss_amounts c rq (case projected of None \<Rightarrow> 0 | Some r \<Rightarrow> r))"
  shows "defined (ck_trade_risk c rq projected)" "defined (ck_daily c rq)" "defined (ck_drawdown c rq)"
  using assms by (auto simp: loss_amounts_def ck_trade_risk_def ck_daily_def ck_drawdown_def Let_def)

lemma defined_exposures:
  assumes "list_all fits (exposure_amounts c rq risk)"
  shows "defined (ck_exposures c rq risk)"
proof (cases "0 < cr_account_equity rq")
  case True
  have "defined (exposure_check c n r sv x cap) \<longleftrightarrow> fits x \<and> fits cap" for n r sv x cap
    by (simp add: exposure_check_def)
  with True assms show ?thesis
    unfolding ck_exposures_def by (simp add: defined_collect exposure_amounts_def del: collect.simps)
qed (simp add: ck_exposures_def)

lemma run_checks_returns:
  assumes "printable c rq (case projected of None \<Rightarrow> 0 | Some r \<Rightarrow> r)"
  obtains os where "run_checks c rq now halt ok projected err = Inr os"
proof -
  have "list_all defined (all_checks c rq now halt ok projected err)"
    using assms unfolding printable_def all_checks_def Let_def
    by (simp add: defined_plain defined_cost defined_loss [where c = c and rq = rq and projected = projected]
        defined_exposures)
  from defined_collect [OF this] that show ?thesis by (auto simp: defined_def run_checks_def)
qed

subsection \<open>Sizing\<close>

lemma hash_amounts_returns:
  assumes "list_all fits (map snd kvs)"
  shows "\<exists>h. hash_amounts H kvs = Inr h"
proof -
  have "list_all defined (map (\<lambda>(k, v). rbind (canonical v) (\<lambda>t. Inr [(k, t)])) kvs)"
    using assms by (auto simp: list_all_iff defined_def fits_canonical)
  from defined_collect [OF this] show ?thesis by (auto simp: defined_def hash_amounts_def)
qed

lemma size_position_returns:
  assumes stop: "cap_stop_distance rq = Inr stop" "0 < stop"
    and es: "es = dadd (dadd stop (if include_transaction_costs c then cr_spread rq else 0))
       (if include_transaction_costs c then cr_estimated_slippage rq else 0)" "0 < es"
    and step: "step = dec_fix (or_dec (cr_volume_step rq) (lot_step c))" "0 < step"
    and rate: "cr_conversion_rate rq = Some rate" "0 < rate" and eq: "0 < cr_account_equity rq"
    and k: "k = or_dec (cr_contract_size rq) (contract_size c)"
    and b: "b = size_budget rq c headroom remaining" "0 < b"
    and rpl: "rpl = dmul (dmul es k) rate" "0 < rpl"
    and th: "th = ddiv b rpl" and cn: "cn = min th (min (max_lots c) (cr_requested_quantity rq))"
    and q: "size_quantity rq c b rpl th cn step = Inr (q, risk, cs)"
    and fit: "list_all fits [cr_account_equity rq, stop, es, b, k, rate, cr_requested_quantity rq, th, cn, q, risk]"
  obtains t where "size_position H rq c headroom remaining = Inr t"
    and "sz_rounded_size t = q" and "sz_final_risk t = risk" and "sz_effective_stop t = es"
proof -
  let ?in = "[(''equity'', cr_account_equity rq), (''stop'', stop), (''effective_stop'', es), (''budget'', b),
    (''contract'', k), (''rate'', rate), (''requested'', cr_requested_quantity rq)]"
  let ?out = "[(''theoretical'', th), (''constrained'', cn), (''rounded'', q), (''final_risk'', risk)]"
  have "list_all fits (map snd ?in)" "list_all fits (map snd ?out)" using fit by simp_all
  then obtain ih oh where ih: "hash_amounts H ?in = Inr ih" and oh: "hash_amounts H ?out = Inr oh"
    using hash_amounts_returns by blast
  have "\<exists>t. size_position H rq c headroom remaining = Inr t \<and>
      sz_rounded_size t = q \<and> sz_final_risk t = risk \<and> sz_effective_stop t = es"
    using stop rate es(2) step(2) eq b(2) rpl(2) q ih oh
    unfolding size_position_def Let_def b(1) [symmetric]
    by (simp add: raise_if_def flip: es(1) step(1) k rpl(1) th cn)
  with that show ?thesis by blast
qed

end
