(* ===== verification/CapitalGuarantees.thy ===== *)
theory CapitalGuarantees
  imports CapitalReturns Latch
begin

section \<open>What the capital gate guarantees\<close>

text \<open>
  The properties of the capital gate: when it approves and with which size, that it answers
  every request or refuses a reused key, that its halt holds until an operator releases it,
  and that its memo keeps every stored result. The claims themselves are in \<open>CapitalClaims\<close>.
\<close>

subsection \<open>Approvals\<close>

text \<open>What an approval rests on: a positive size and every limit, on the merged request.\<close>

definition effective :: "datetime \<Rightarrow> RiskEvaluationRequest \<Rightarrow> capital \<Rightarrow> RiskEvaluationRequest" where
  "effective now rq s = effective_request rq (observed now rq (cs_ledger s))"

definition admissible :: "hash \<Rightarrow> datetime \<Rightarrow> RiskEvaluationRequest \<Rightarrow> capital \<Rightarrow> SizingTrace \<Rightarrow> bool" where
  "admissible H now rq s t \<longleftrightarrow>
     capital_size H (cs_config s) (effective now rq s) = Inr t \<and> 0 < sz_rounded_size t \<and>
     capital_limits (cs_config s) (effective now rq s) now (sh_halted (cs_halt s))
       (cr_persistence_available rq \<and> \<not> cs_require_persistence s) (Some (sz_final_risk t)) None"

lemma try_sizing_cases:
  assumes "try_sizing H c eff = Inr (sizing, err)"
  obtains (sized) t where "sizing = Some t" "err = None" "capital_size H c eff = Inr t"
  | (refused) e where "sizing = None" "err = Some (exn_text e)" "capital_size H c eff = Inl e" "is_value_error e"
  using assms by (auto simp: try_sizing_def split: sum.splits if_splits)

text \<open>The facts of one decision, collected.\<close>

definition decision_facts ::
  "hash \<Rightarrow> datetime \<Rightarrow> RiskEvaluationRequest \<Rightarrow> capital \<Rightarrow> CapitalEvaluationResult \<Rightarrow> bool" where
  "decision_facts H now rq s r \<longleftrightarrow>
     map co_name (cd_checks (ce_decision r)) = CHECK_CATALOG \<and>
     (capital_approved (cd_final_decision (ce_decision r)) \<longrightarrow>
        (\<exists>t x. admissible H now rq s t \<and> list_all clear (cd_checks (ce_decision r)) \<and>
           cd_final_decision (ce_decision r) =
             (if sz_rounded_size t < cr_requested_quantity rq then CS_APPROVED_REDUCED_SIZE else CS_APPROVED) \<and>
           cd_approved_quantity (ce_decision r) = sz_rounded_size t \<and>
           cd_monetary_risk (ce_decision r) = sz_final_risk t \<and> cd_sizing (ce_decision r) = Some t \<and>
           cd_requested_quantity (ce_decision r) = cr_requested_quantity rq \<and>
           ce_executable_intent r = Some x \<and> intent_of (ce_decision r) x \<and> ce_rejection r = None)) \<and>
     (\<not> capital_approved (cd_final_decision (ce_decision r)) \<longrightarrow>
        cd_approved_quantity (ce_decision r) = 0 \<and> ce_executable_intent r = None \<and> ce_rejection r \<noteq> None) \<and>
     (cd_final_decision (ce_decision r) \<noteq> CS_ERROR_FAIL_CLOSED \<longrightarrow>
        (\<exists>t. admissible H now rq s t) \<longrightarrow> capital_approved (cd_final_decision (ce_decision r)))"

lemma closed_facts: "closed_result r \<Longrightarrow> decision_facts H now rq s r"
  by (auto simp: closed_result_def decision_facts_def capital_approved_def)

lemma settle_zero:
  assumes "list_all settled checks" and "\<not> capital_approved (cv_state (settle_verdict checks sizing eff))"
  shows "cv_quantity (settle_verdict checks sizing eff) = 0"
proof (cases "capital_approved (state_from checks sizing eff)")
  case True
  then obtain t where "sizing = Some t" "0 < sz_rounded_size t"
    using state_from_approved [OF assms(1)] by auto
  with True assms(2) show ?thesis by (auto simp: settle_verdict_def Let_def capital_approved_def split: if_splits)
qed (auto simp: settle_verdict_def Let_def)

lemma effective_quantity [simp]: "cr_requested_quantity (effective now rq s) = cr_requested_quantity rq"
  by (simp add: effective_def effective_request_def)

text \<open>The fields of a decision, whatever reference its commit wrote.\<close>

lemma decision_from_fields:
  assumes "decision_from now c eff v f checks sizing H ih ph r"
  shows "cd_checks (ce_decision r) = checks" and "cd_final_decision (ce_decision r) = cv_state v"
    and "cd_approved_quantity (ce_decision r) = cv_quantity v"
    and "cd_requested_quantity (ce_decision r) = cr_requested_quantity eff"
    and "cd_sizing (ce_decision r) = sizing"
    and "cd_monetary_risk (ce_decision r) = (if capital_approved (cv_state v) then cv_projected v else 0)"
    and "\<exists>body. check_body v ih ph checks = Inr body \<and> cd_output_hash (ce_decision r) = H (HBody body)"
proof -
  obtain did body where b: "check_body v ih ph checks = Inr body"
    and dec: "(ce_decision r)\<lparr>cd_persistence_reference := None\<rparr> =
      decision_of did now c eff v f checks sizing ih ph (H (HBody body))"
    using assms by (auto simp: decision_from_def)
  note g = arg_cong [OF dec]
  show "cd_checks (ce_decision r) = checks" using g [of cd_checks] by (simp add: decision_of_def Let_def)
  show "cd_final_decision (ce_decision r) = cv_state v"
    using g [of cd_final_decision] by (simp add: decision_of_def Let_def)
  show "cd_approved_quantity (ce_decision r) = cv_quantity v"
    using g [of cd_approved_quantity] by (simp add: decision_of_def Let_def)
  show "cd_requested_quantity (ce_decision r) = cr_requested_quantity eff"
    using g [of cd_requested_quantity] by (simp add: decision_of_def Let_def)
  show "cd_sizing (ce_decision r) = sizing" using g [of cd_sizing] by (simp add: decision_of_def Let_def)
  show "cd_monetary_risk (ce_decision r) = (if capital_approved (cv_state v) then cv_projected v else 0)"
    using g [of cd_monetary_risk] by (simp add: decision_of_def Let_def)
  show "\<exists>body. check_body v ih ph checks = Inr body \<and> cd_output_hash (ce_decision r) = H (HBody body)"
    using g [of cd_output_hash] b by (simp add: decision_of_def Let_def)
qed

lemma decide_facts:
  assumes "cs_decide H now persist memo rq s = (Inr r, s')"
  shows "decision_facts H now rq s r"
proof -
  let ?eff = "effective now rq s"
  obtain sizing err checks where sz: "try_sizing H (cs_config s) ?eff = Inr (sizing, err)"
    and ck: "cs_checks now rq ?eff sizing err s = Inr checks"
    and cc: "cs_conclude H now persist memo rq ?eff sizing checks (H (HPolicy (cs_config s)))
       (s\<lparr>cs_ledger := observed now rq (cs_ledger s)\<rparr>) = (Inr r, s')"
    using assms unfolding effective_def by (rule cs_decide_cases) blast
  define v where "v = settle_verdict checks sizing ?eff"
  obtain f where fv: "figures_or_zero ?eff v = (f, v)"
    using figures_or_zero_verdict [of ?eff v] by (metis surj_pair)
  have grp: "map co_name checks = CHECK_CATALOG" "list_all settled checks"
    and lim: "list_all clear checks \<longleftrightarrow> capital_limits (cs_config s) ?eff now (sh_halted (cs_halt s))
       (cr_persistence_available rq \<and> \<not> cs_require_persistence s) (map_option sz_final_risk sizing) err"
    using run_checks_group ck unfolding cs_checks_def check_group_def by blast+
  from cs_conclude_run(1) [OF cc] have "closed_result r \<or>
    decision_from now (cs_config s) ?eff v f checks sizing H (H (HRequest rq)) (H (HPolicy (cs_config s))) r"
    by (simp add: concluded_def fv flip: v_def)
  then show ?thesis
  proof
    assume d: "decision_from now (cs_config s) ?eff v f checks sizing H (H (HRequest rq)) (H (HPolicy (cs_config s))) r"
    note fields = decision_from_fields [OF this]
    have adm: "admissible H now rq s t \<longleftrightarrow> sizing = Some t \<and> 0 < sz_rounded_size t \<and> list_all clear checks" for t
      using sz lim by (cases rule: try_sizing_cases) (auto simp: admissible_def)
    show ?thesis
    proof (cases "capital_approved (cv_state v)")
      case True
      then obtain t where t: "list_all clear checks" "sizing = Some t" "0 < sz_rounded_size t"
        "v = \<lparr>cv_state = (if sz_rounded_size t < cr_requested_quantity ?eff then CS_APPROVED_REDUCED_SIZE else CS_APPROVED),
          cv_quantity = sz_rounded_size t, cv_failed = [], cv_projected = sz_final_risk t\<rparr>"
        unfolding v_def using settle_approved [OF grp(2)] by metis
      with True d fields grp(1) show ?thesis
        by (auto simp: decision_facts_def adm decision_from_def)
    next
      case False
      have "\<not> admissible H now rq s t" for t
      proof
        assume "admissible H now rq s t"
        then have t: "sizing = Some t" "0 < sz_rounded_size t" "list_all clear checks" by (simp_all add: adm)
        then have "capital_approved (state_from checks sizing ?eff)"
          using state_from_approved [OF grp(2)] by simp
        with t False show False
          by (auto simp: v_def settle_verdict_def Let_def capital_approved_def split: if_splits)
      qed
      with False d fields grp settle_zero [OF grp(2), of sizing ?eff] show ?thesis
        by (auto simp: decision_facts_def decision_from_def v_def)
    qed
  qed (rule closed_facts)
qed

subsection \<open>Bounds of a size\<close>

text \<open>The value of one lot's risk that the sizer divides by, without rounding.\<close>

definition lot_risk :: "Pm4RiskGateConfig \<Rightarrow> RiskEvaluationRequest \<Rightarrow> SizingTrace \<Rightarrow> dec" where
  "lot_risk c rq t = sz_effective_stop t * or_dec (cr_contract_size rq) (contract_size c) *
     (case cr_conversion_rate rq of None \<Rightarrow> 0 | Some rate \<Rightarrow> rate)"

lemma dmul_pos_iff: "0 < a \<Longrightarrow> 0 < dmul a b \<longleftrightarrow> 0 < b"
  by (simp add: dmul_def zero_less_mult_iff)

lemma upto_dmul_ge: "0 \<le> a \<Longrightarrow> 0 \<le> b \<Longrightarrow> leq_upto 1 (a * b) (dmul a b)"
  unfolding dmul_def by (rule upto_unfix) simp

text \<open>A negative commission raises the budget by its amount: nothing rejects one.\<close>

lemma size_budget_le:
  "size_budget rq c headroom remaining \<le>
     dadd (dmul (cr_account_equity rq) (max_per_trade_risk_pct c)) (max 0 (- cr_estimated_commission rq))"
proof -
  let ?share = "dmul (cr_account_equity rq) (max_per_trade_risk_pct c)" and ?m = "max 0 (- cr_estimated_commission rq)"
  define b0 where "b0 = min ?share (if remaining > 0 then remaining else ?share)"
  define b1 where "b1 = (if headroom > 0 then min b0 (dmul headroom (cr_account_equity rq)) else b0)"
  have b1: "b1 \<le> ?share" by (auto simp: b1_def b0_def)
  have "dsub b1 (cr_estimated_commission rq) \<le> dadd ?share ?m"
    unfolding dsub_def dadd_def using b1 by (intro dec_fix_mono) linarith
  moreover have "?share \<le> dadd ?share ?m"
    unfolding dadd_def by (intro dec_fix_ge_iff) (simp_all add: dmul_def)
  moreover have "size_budget rq c headroom remaining =
      (if include_transaction_costs c then dsub b1 (cr_estimated_commission rq) else b1)"
    by (simp only: size_budget_def Let_def b0_def b1_def)
  ultimately show ?thesis using b1 by simp
qed

lemma capital_size_bounds:
  assumes ok: "pm4_config_ok c" and sz: "capital_size H c eff = Inr t" and q: "0 < sz_rounded_size t"
  shows "min_lots c \<le> sz_rounded_size t" and "sz_rounded_size t \<le> max_lots c"
    and "sz_rounded_size t \<le> cr_requested_quantity eff"
    and "leq_upto 5 (sz_rounded_size t * lot_risk c eff t)
      (cr_account_equity eff * max_per_trade_risk_pct c + max 0 (- cr_estimated_commission eff))"
    and "0 \<le> cr_account_equity eff * max_per_trade_risk_pct c"
proof -
  obtain headroom remaining where sp: "size_position H eff c headroom remaining = Inr t"
    using sz by (auto simp: capital_size_def res_simps split: if_splits)
  let ?k = "or_dec (cr_contract_size eff) (contract_size c)"
  obtain stop rate where rate: "cr_conversion_rate eff = Some rate" "0 < rate"
    and eq: "0 < cr_account_equity eff" and es: "0 < sz_effective_stop t"
    and rpl: "0 < dmul (dmul (sz_effective_stop t) ?k) rate"
    and cn: "sz_constrained_size t = min (sz_theoretical_size t) (min (max_lots c) (cr_requested_quantity eff))"
    and sq: "size_quantity eff c (size_budget eff c headroom remaining) (dmul (dmul (sz_effective_stop t) ?k) rate)
       (sz_theoretical_size t) (sz_constrained_size t) (dec_fix (or_dec (cr_volume_step eff) (lot_step c))) =
     Inr (sz_rounded_size t, sz_final_risk t, sz_limiting_constraints t)"
    using sp by (rule size_position_cases)
  have ml: "0 < min_lots c" and pct: "0 \<le> max_per_trade_risk_pct c"
    using ok by (simp_all add: pm4_config_ok_def is_pct_def)
  have b: "min_lots c \<le> sz_rounded_size t" "sz_rounded_size t \<le> max_lots c"
    "sz_rounded_size t \<le> cr_requested_quantity eff"
    and pos: "dmul (sz_rounded_size t) (dmul (dmul (sz_effective_stop t) ?k) rate) \<le> size_budget eff c headroom remaining"
    using size_quantity_bounds [OF sq ml] q by (auto simp: cn)
  show "min_lots c \<le> sz_rounded_size t" "sz_rounded_size t \<le> max_lots c"
    "sz_rounded_size t \<le> cr_requested_quantity eff" by (rule b)+
  show nn: "0 \<le> cr_account_equity eff * max_per_trade_risk_pct c" using eq pct by simp
  have ek: "0 < dmul (sz_effective_stop t) ?k" using rpl rate(2) by (simp add: dmul_def zero_less_mult_iff)
  have k: "0 < ?k" using ek es by (simp add: dmul_pos_iff)
  let ?q = "sz_rounded_size t" and ?r1 = "dmul (sz_effective_stop t) ?k"
  let ?rpl = "dmul ?r1 rate" and ?share = "dmul (cr_account_equity eff) (max_per_trade_risk_pct c)"
  have 1: "leq_upto 1 (?q * (rate * (sz_effective_stop t * ?k))) (?q * (rate * ?r1))"
    using upto_dmul_ge [of "sz_effective_stop t" ?k] es k q rate(2) by (intro upto_mult) simp_all
  have 2: "leq_upto 1 (?q * (rate * ?r1)) (?q * ?rpl)"
    using upto_dmul_ge [of ?r1 rate] ek q rate(2) by (intro upto_mult) (simp_all add: mult.commute)
  have 3: "leq_upto 1 (?q * ?rpl) (dmul ?q ?rpl)"
    using q rpl by (intro upto_dmul_ge) simp_all
  let ?m = "max 0 (- cr_estimated_commission eff)"
  have "leq_upto 1 ?share (cr_account_equity eff * max_per_trade_risk_pct c)"
    using eq pct by (intro upto_dmul) simp_all
  then have "leq_upto 1 (?share + ?m) (cr_account_equity eff * max_per_trade_risk_pct c + ?m)"
    by (intro upto_add upto_refl) simp_all
  moreover have "leq_upto 1 (dadd ?share ?m) (?share + ?m)"
    using eq pct by (intro upto_dadd) (simp_all add: dmul_def dec_fix_nonneg)
  ultimately have 4: "leq_upto (1 + 1) (dadd ?share ?m) (cr_account_equity eff * max_per_trade_risk_pct c + ?m)"
    by (metis upto_trans)
  have "dmul ?q ?rpl \<le> dadd ?share ?m" using pos size_budget_le by (rule order_trans)
  note chain = upto_trans [OF upto_le_trans [OF upto_trans [OF upto_trans [OF 1 2] 3] this] 4]
  have "lot_risk c eff t = rate * (sz_effective_stop t * ?k)" by (simp add: lot_risk_def rate(1))
  with chain have "leq_upto (1 + 1 + 1 + (1 + 1)) (?q * lot_risk c eff t)
      (cr_account_equity eff * max_per_trade_risk_pct c + ?m)" by (simp only:)
  then show "leq_upto 5 (sz_rounded_size t * lot_risk c eff t) (cr_account_equity eff * max_per_trade_risk_pct c + ?m)"
    by (simp add: eval_nat_numeral)
qed

subsection \<open>Decisions that return\<close>

text \<open>
  Without an injected fault, an evaluation whose amounts can be printed returns the decision
  built from its verdict.
\<close>

lemma cs_fault_none: "cs_inject_fault s = None \<Longrightarrow> cs_fault p s = (Inr (), s)"
  by (simp add: cs_fault_def)

lemma cs_result_returns:
  assumes body: "check_body v ih ph checks = Inr body" and fv: "figures_or_zero eff v0 = (f, v)"
    and ne: "cv_state v \<noteq> CS_ERROR_FAIL_CLOSED"
  obtains r s' where "cs_result H now eff sizing checks v0 ih ph s = (Inr r, s')" and "same_service s s'"
proof -
  have "\<exists>r s'. cs_result H now eff sizing checks v0 ih ph s = (Inr r, s') \<and> same_service s s'"
    using body ne
    by (auto simp: cs_result_def fv bnd_def cs_fresh_def run_simps no_exec_def never_order_def result_shape_def
      raise_if_def decision_of_def executable_of_def Let_def)
  with that show ?thesis by blast
qed

lemma result_shape_reference:
  "decision_from now c eff v f checks sizing H ih ph r \<Longrightarrow>
   result_shape (with_reference ref r) = Inr (with_reference ref r)"
proof -
  assume d: "decision_from now c eff v f checks sizing H ih ph r"
  with decision_from_fields(2) [OF d] show ?thesis
    by (cases "capital_approved (cv_state v)") (auto simp: decision_from_def result_shape_def with_reference_def raise_if_def Let_def intent_of_def)
qed

lemma cs_persist_returns:
  assumes "cs_inject_fault s = None" and "decision_from now c eff v f checks sizing H ih ph r"
  shows "cs_persist H now eff r s = (Inr (with_reference (''memory:'' @ cd_decision_id (ce_decision r)) r), s)"
  using assms by (simp add: cs_persist_def bnd_def cs_fault_none try_catch_def run_simps result_shape_reference)

lemma cs_conclude_returns:
  assumes ff: "cs_inject_fault s = None" and v: "v = settle_verdict checks sizing eff"
    and body: "check_body v (H (HRequest rq)) ph checks = Inr body"
  obtains r s' where "cs_conclude H now persist memo rq eff sizing checks ph s = (Inr r, s')"
    and "cd_final_decision (ce_decision r) = cv_state v"
proof -
  obtain f where fv: "figures_or_zero eff v = (f, v)"
    using figures_or_zero_verdict [of eff v] by (metis surj_pair)
  have ne: "cv_state v \<noteq> CS_ERROR_FAIL_CLOSED" unfolding v by (rule settle_states)
  define s1 where "s1 = (if cv_state v \<in> {CS_BLOCKED_DRAWDOWN, CS_BLOCKED_SYSTEM}
    then s\<lparr>cs_halt := halt_trip (capital_state_value (cv_state v)) (cs_halt s)\<rparr> else s)"
  have trip: "(if cv_state v \<in> {CS_BLOCKED_DRAWDOWN, CS_BLOCKED_SYSTEM}
     then upd_st (\<lambda>s. s\<lparr>cs_halt := halt_trip (capital_state_value (cv_state v)) (cs_halt s)\<rparr>)
     else ret ()) s = (Inr (), s1)"
    by (cases "cv_state v \<in> {CS_BLOCKED_DRAWDOWN, CS_BLOCKED_SYSTEM}") (simp_all only: s1_def run_simps if_True if_False)
  obtain r0 s2 where r0: "cs_result H now eff sizing checks v (H (HRequest rq)) ph s1 = (Inr r0, s2)"
    and s2: "same_service s1 s2"
    using cs_result_returns [OF body fv ne] by blast
  have d0: "decision_from now (cs_config s1) eff v f checks sizing H (H (HRequest rq)) ph r0"
    using cs_result_run(1) [OF r0 fv] .
  have f2: "cs_inject_fault s2 = None" using ff s2 by (simp add: same_service_simps s1_def)
  let ?r1 = "if persist then with_reference (''memory:'' @ cd_decision_id (ce_decision r0)) r0 else r0"
  have r1: "(if persist then cs_persist H now eff r0 else ret r0) s2 = (Inr ?r1, s2)"
    using cs_persist_returns [OF f2 d0] by (simp add: run_simps)
  have fin: "cd_final_decision (ce_decision r0) = cv_state v" by (rule decision_from_fields(2) [OF d0])
  have ref: "\<not> (persist \<and> cd_persistence_reference (ce_decision ?r1) = None)" by (simp add: with_reference_def)
  have "\<exists>s'. cs_conclude H now persist memo rq eff sizing checks ph s = (Inr ?r1, s')"
    unfolding cs_conclude_def Let_def v [symmetric]
    by (simp only: bnd_def trip r0 r1 prod.case sum.case get_st_run)
      (use ref in \<open>auto simp: run_simps\<close>)
  moreover have "cd_final_decision (ce_decision ?r1) = cv_state v" using fin by (simp add: with_reference_def)
  ultimately show ?thesis using that by blast
qed

lemma cs_observe_returns:
  assumes "ledger_ok (cs_ledger s)" and "request_ok rq"
  obtains x where "cs_observe now rq s = (Inr x, s\<lparr>cs_ledger := observed now rq (cs_ledger s)\<rparr>)"
proof -
  let ?e = "if cr_account_equity rq > 0 then cr_account_equity rq else 0"
  have m: "money (cr_account_equity rq)" "money (cr_peak_equity rq)" "money (cr_realized_pnl_day rq)"
    using request_ok_money [OF assms(2)] by (simp_all add: request_amounts_def)
  then have "money ?e" by simp
  then have "ledger_ok (observed now rq (cs_ledger s))"
    unfolding observed_def using assms(1) m by (intro merge_ok)
  then obtain x where "ledger_snapshot ?e (observed now rq (cs_ledger s)) = Inr x"
    using snapshot_defined \<open>money ?e\<close> by blast
  then show ?thesis
    by (intro that [of x]) (simp add: cs_observe_def ledger_observe_def run_simps observed_def)
qed

lemma cs_decide_returns:
  assumes ff: "cs_inject_fault s = None" and ok: "ledger_ok (cs_ledger s)" "request_ok rq"
    and sz: "try_sizing H (cs_config s) (effective now rq s) = Inr (sizing, err)"
    and ck: "cs_checks now rq (effective now rq s) sizing err s = Inr checks"
    and body: "check_body (settle_verdict checks sizing (effective now rq s))
      (H (HRequest rq)) (H (HPolicy (cs_config s))) checks = Inr body"
  obtains r s' where "cs_decide H now persist memo rq s = (Inr r, s')"
    and "cd_final_decision (ce_decision r) = cv_state (settle_verdict checks sizing (effective now rq s))"
proof -
  let ?t = "s\<lparr>cs_ledger := observed now rq (cs_ledger s)\<rparr>"
  obtain x where ob: "cs_observe now rq s = (Inr x, ?t)" using ok by (rule cs_observe_returns)
  have ft: "cs_inject_fault ?t = None" using ff by simp
  obtain r s' where r: "cs_conclude H now persist memo rq (effective now rq s) sizing checks
      (H (HPolicy (cs_config s))) ?t = (Inr r, s')"
    and fin: "cd_final_decision (ce_decision r) = cv_state (settle_verdict checks sizing (effective now rq s))"
    by (rule cs_conclude_returns [where s = ?t and eff = "effective now rq s" and H = H and rq = rq,
      OF ft refl body])
  have "cs_decide H now persist memo rq s = (Inr r, s')"
    using r sz ck unfolding cs_decide_def effective_def
    by (simp add: bnd_def cs_fault_none ff ob run_simps)
  with fin that show ?thesis by blast
qed

subsection \<open>Reachable services\<close>

text \<open>What every result of the service satisfies.\<close>

definition result_wf :: "CapitalEvaluationResult \<Rightarrow> bool" where
  "result_wf r \<longleftrightarrow>
     map co_name (cd_checks (ce_decision r)) = CHECK_CATALOG \<and>
     (if capital_approved (cd_final_decision (ce_decision r))
      then list_all clear (cd_checks (ce_decision r)) \<and> 0 < cd_approved_quantity (ce_decision r) \<and>
        (\<exists>x. ce_executable_intent r = Some x \<and> intent_of (ce_decision r) x) \<and> ce_rejection r = None
      else cd_approved_quantity (ce_decision r) = 0 \<and> ce_executable_intent r = None \<and> ce_rejection r \<noteq> None)"

definition capital_inv :: "capital \<Rightarrow> bool" where
  "capital_inv s \<longleftrightarrow>
     pm4_config_ok (cs_config s) \<and> ledger_ok (cs_ledger s) \<and>
     (\<forall>key h r. dict_get (cs_seen s) key = Some (h, r) \<longrightarrow> result_wf r)"

lemma facts_wf: "decision_facts H now rq s r \<Longrightarrow> result_wf r"
  by (auto simp: decision_facts_def result_wf_def admissible_def)

lemma closed_wf: "closed_result r \<Longrightarrow> result_wf r"
  by (rule facts_wf [OF closed_facts])

lemma decide_wf: "cs_decide H now persist memo rq s = (Inr r, s') \<Longrightarrow> result_wf r"
  by (rule facts_wf [OF decide_facts])

text \<open>The memo only ever gains the entry of the evaluation that stores it.\<close>

definition same_seen :: "capital \<Rightarrow> capital \<Rightarrow> bool" where
  "same_seen s s' \<longleftrightarrow> cs_seen s' = cs_seen s"

definition memoises ::
  "hash \<Rightarrow> RiskEvaluationRequest \<Rightarrow> (capital, CapitalEvaluationResult) comp \<Rightarrow> bool" where
  "memoises H rq m \<longleftrightarrow> (\<forall>s. same_seen s (snd (m s)) \<or>
     (\<exists>r. fst (m s) = Inr r \<and>
        cs_seen (snd (m s)) = dict_put (cr_idempotency_key rq) (H (HRequest rq), r) (cs_seen s)))"

lemma seen_bnd: "keeps same_seen m \<Longrightarrow> (\<And>x. keeps same_seen (f x)) \<Longrightarrow> keeps same_seen (bnd m f)"
  by (rule keeps_bnd [where A = same_seen and B = same_seen]) (auto simp: same_seen_def)

lemma seen_basic:
  "keeps same_seen (ret x)" "keeps same_seen (get_st g)" "keeps same_seen (lift_res r)"
  "keeps same_seen (raise_exn e)" "keeps same_seen cs_fresh" "keeps same_seen (cs_fault p)"
  "keeps same_seen (fail_closed H now rq reason)" "keeps same_seen (cs_observe now rq)"
  "keeps same_seen (upd_st (\<lambda>s. s\<lparr>cs_halt := h s\<rparr>))"
proof -
  show "keeps same_seen (fail_closed H now rq reason)"
    unfolding keeps_def same_seen_def by (metis fail_closed_run same_service_simps(4) snd_conv)
qed (auto simp: keeps_def run_simps cs_fresh_def cs_fault_def same_seen_def cs_observe_def split: prod.splits)

lemma seen_try: "keeps same_seen m \<Longrightarrow> (\<And>e. keeps same_seen (h e)) \<Longrightarrow> keeps same_seen (try_catch m h)"
  unfolding keeps_def try_catch_def same_seen_def by (auto split: prod.splits sum.splits) (metis snd_conv)+

lemma seen_parts:
  "keeps same_seen (cs_result H now eff sizing os v ih ph)" "keeps same_seen (cs_persist H now eff r)"
  unfolding cs_result_def cs_persist_def
  by (intro keeps_prod seen_bnd seen_basic seen_try keeps_if)+

lemma memo_bnd: "keeps same_seen m \<Longrightarrow> (\<And>x. memoises H rq (f x)) \<Longrightarrow> memoises H rq (bnd m f)"
  unfolding keeps_def memoises_def bnd_def same_seen_def
  by (auto split: prod.splits sum.splits) (metis fst_conv snd_conv)+

lemma memo_seen: "keeps same_seen m \<Longrightarrow> memoises H rq m"
  by (simp add: keeps_def memoises_def)

lemma memo_prod: "(\<And>a b. memoises H rq (f a b)) \<Longrightarrow> memoises H rq (case p of (a, b) \<Rightarrow> f a b)"
  by (cases p) simp

lemma memo_conclude: "memoises H rq (cs_conclude H now persist memo rq eff sizing os ph)"
proof -
  have last: "memoises H rq (bnd (if memo
      then upd_st (\<lambda>s. s\<lparr>cs_seen := dict_put (cr_idempotency_key rq) (H (HRequest rq), r) (cs_seen s)\<rparr>)
      else ret ()) (\<lambda>_. ret r))" for r
    by (auto simp: memoises_def bnd_def run_simps same_seen_def)
  show ?thesis
    unfolding cs_conclude_def Let_def
    by (intro memo_bnd last keeps_if seen_basic seen_parts)
qed

lemma memo_decide: "memoises H rq (cs_decide H now persist memo rq)"
  unfolding cs_decide_def by (intro memo_bnd memo_prod seen_basic memo_conclude)

lemma seen_decide: "keeps same_seen (cs_decide H now persist False rq)"
proof -
  have "keeps same_seen (cs_conclude H now persist False rq eff sizing os ph)" for eff sizing os ph
    unfolding cs_conclude_def Let_def if_False by (intro seen_bnd keeps_if seen_basic seen_parts)
  then show ?thesis unfolding cs_decide_def by (intro seen_bnd keeps_prod seen_basic)
qed

text \<open>An entry of the memo stays; a new one is the result just returned.\<close>

lemma evaluate_seen:
  "same_seen s (snd (capital_evaluate H now rq s)) \<or>
   dict_get (cs_seen s) (cr_idempotency_key rq) = None \<and>
   (\<exists>r s1. cs_decide H now True True rq s = (Inr r, s1) \<and> fst (capital_evaluate H now rq s) = Inr r \<and>
      cs_seen (snd (capital_evaluate H now rq s)) =
        dict_put (cr_idempotency_key rq) (H (HRequest rq), r) (cs_seen s))"
proof (cases rule: capital_evaluate_cases [of H rq s now])
  case (decided r s1)
  then have "cs_seen (snd (capital_evaluate H now rq s)) = cs_seen s1"
    by (auto simp: same_service_def dest: arg_cong [of _ _ cs_seen])
  with decided memo_decide [of H rq now True True] show ?thesis
    unfolding memoises_def same_seen_def by (metis fst_conv snd_conv Inr_inject)
next
  case (failed e r s1)
  then have "cs_seen (snd (capital_evaluate H now rq s)) = cs_seen s1"
    by (auto simp: same_service_def dest: arg_cong [of _ _ cs_seen])
  with failed memo_decide [of H rq now True True] show ?thesis
    unfolding memoises_def same_seen_def by (metis fst_conv snd_conv Inl_Inr_False)
qed (auto simp: same_seen_def same_service_def dest: arg_cong [of _ _ cs_seen])

lemma replay_seen: "same_seen s (snd (capital_replay H now r rq s))"
proof -
  have "keeps same_seen (cs_evaluate H now False False rq)"
    unfolding cs_evaluate_def if_False option.case by (intro seen_bnd seen_basic seen_decide)
  then have "keeps same_seen (capital_replay H now r rq)"
    unfolding capital_replay_def by (intro seen_bnd keeps_if seen_basic)
  then show ?thesis by (simp add: keeps_def)
qed

lemma call_seen:
  assumes "dict_get (cs_seen s) key = Some v"
  shows "dict_get (cs_seen (capital_do H k s)) key = Some v"
proof (cases k)
  case (K_evaluate now rq)
  show ?thesis using evaluate_seen [of s H now rq]
  proof
    assume "same_seen s (snd (capital_evaluate H now rq s))"
    with assms K_evaluate show ?thesis by (simp add: same_seen_def)
  next
    assume a: "dict_get (cs_seen s) (cr_idempotency_key rq) = None \<and>
      (\<exists>r s1. cs_decide H now True True rq s = (Inr r, s1) \<and> fst (capital_evaluate H now rq s) = Inr r \<and>
        cs_seen (snd (capital_evaluate H now rq s)) =
          dict_put (cr_idempotency_key rq) (H (HRequest rq), r) (cs_seen s))"
    with assms have "key \<noteq> cr_idempotency_key rq" by auto
    with a assms K_evaluate show ?thesis by (auto simp: dict_simps)
  qed
next
  case (K_replay now r rq)
  with assms replay_seen [of s H now r rq] show ?thesis by (simp add: same_seen_def)
qed (simp_all add: assms cs_trip_def cs_recover_def halt_recover_def run_simps split: if_splits prod.splits)

lemma calls_seen:
  "dict_get (cs_seen s) key = Some v \<Longrightarrow> dict_get (cs_seen (fold (capital_do H) ks s)) key = Some v"
  by (induction ks arbitrary: s) (simp_all add: call_seen)

text \<open>The invariant of a reachable service.\<close>

lemma observed_ok:
  assumes "ledger_ok l" and "request_ok rq"
  shows "ledger_ok (observed now rq l)"
proof -
  have "money (cr_account_equity rq)" "money (cr_peak_equity rq)" "money (cr_realized_pnl_day rq)"
    using request_ok_money [OF assms(2)] by (simp_all add: request_amounts_def)
  then show ?thesis unfolding observed_def using assms(1) by (intro merge_ok) simp_all
qed

lemma observes_inv:
  assumes "observes now rq s s'" and "request_ok rq" and "pm4_config_ok (cs_config s) \<and> ledger_ok (cs_ledger s)"
  shows "pm4_config_ok (cs_config s') \<and> ledger_ok (cs_ledger s')"
  using assms observed_ok by (auto simp: observes_def same_setup_def)

lemma call_inv:
  assumes "capital_inv s" and "call_ok k"
  shows "capital_inv (capital_do H k s)"
proof -
  have b: "pm4_config_ok (cs_config s) \<and> ledger_ok (cs_ledger s)"
    using assms(1) by (simp add: capital_inv_def)
  have "pm4_config_ok (cs_config (capital_do H k s)) \<and> ledger_ok (cs_ledger (capital_do H k s))"
  proof (cases k)
    case (K_evaluate now rq)
    with keeps_capital(1) [of now rq H] assms(2) show ?thesis
      using observes_inv [of now rq s "capital_do H k s", OF _ _ b] by (simp add: keeps_def)
  next
    case (K_replay now r rq)
    with keeps_capital(2) [of now rq H r] assms(2) show ?thesis
      using observes_inv [of now rq s "capital_do H k s", OF _ _ b] by (simp add: keeps_def)
  qed (use b in \<open>simp_all add: cs_trip_def cs_recover_def halt_recover_def run_simps\<close>)
  moreover have "result_wf r" if "dict_get (cs_seen (capital_do H k s)) key = Some (h, r)" for key h r
  proof (cases "dict_get (cs_seen s) key")
    case (Some v)
    with call_seen [OF this, of H k] that assms(1) show ?thesis by (auto simp: capital_inv_def)
  next
    case None
    with that obtain now rq where k: "k = K_evaluate now rq"
      using replay_seen [of s H]
      by (cases k) (auto simp: same_seen_def cs_trip_def cs_recover_def halt_recover_def run_simps split: if_splits)
    with None that evaluate_seen [of s H now rq] show ?thesis
      by (auto simp: same_seen_def dict_simps split: if_splits intro: decide_wf)
  qed
  ultimately show ?thesis by (simp add: capital_inv_def)
qed

lemma capital_reach_inv: "capital_reach H s \<Longrightarrow> capital_inv s"
proof (induction rule: capital_reach.induct)
  case (init c H required)
  then show ?case by (simp add: capital_inv_def capital_init_def ledger_init_ok dict_simps)
qed (rule call_inv)

lemma evaluate_answers:
  assumes "capital_inv s"
  shows "key_conflict H rq s \<and> capital_evaluate H now rq s =
      (Inl (ValueError ''idempotency conflict: same key with different payload''), s) \<or>
    \<not> key_conflict H rq s \<and> (\<exists>r s'. capital_evaluate H now rq s = (Inr r, s') \<and> result_wf r)"
proof (cases rule: capital_evaluate_cases [of H rq s now])
  case (stored r)
  then have "\<not> key_conflict H rq s" "result_wf r"
    using assms by (auto simp: key_conflict_def capital_inv_def)
  with stored(2) show ?thesis by (metis prod.collapse)
next
  case (decided r s1)
  then have "\<not> key_conflict H rq s" "result_wf r"
    using decide_wf [OF decided(2)] by (auto simp: key_conflict_def)
  with decided(3) show ?thesis by (metis prod.collapse)
next
  case (failed e r s1)
  then have "\<not> key_conflict H rq s" "result_wf r" by (auto simp: key_conflict_def closed_wf)
  with failed(4) show ?thesis by (metis prod.collapse)
qed simp

lemma fresh_facts:
  assumes "dict_get (cs_seen s) (cr_idempotency_key rq) = None" and "fst (capital_evaluate H now rq s) = Inr r"
  shows "decision_facts H now rq s r"
  using assms by (cases rule: capital_evaluate_cases [of H rq s now]) (auto intro: decide_facts closed_facts)

subsection \<open>The halt\<close>

fun operator_recovery :: "capital_call \<Rightarrow> bool" where
  "operator_recovery (K_recover actor reason) \<longleftrightarrow> actor \<noteq> [] \<and> actor \<noteq> ''automatic''"
| "operator_recovery k \<longleftrightarrow> False"

lemma call_halt:
  assumes "sh_halted (cs_halt s)" and "\<not> sh_halted (cs_halt (capital_do H k s))"
  shows "operator_recovery k"
proof (cases k)
  case (K_evaluate now rq)
  with assms keeps_capital(1) [of now rq H] show ?thesis by (auto simp: keeps_def observes_def same_setup_def)
next
  case (K_replay now r rq)
  with assms keeps_capital(2) [of now rq H r] show ?thesis by (auto simp: keeps_def observes_def same_setup_def)
qed (use assms in \<open>auto simp: cs_trip_def cs_recover_def halt_trip_def halt_recover_def run_simps split: if_splits\<close>)

interpretation capital_halt: latch "\<lambda>_. True" "\<lambda>s. sh_halted (cs_halt s)" "capital_do H" "\<lambda>k s. operator_recovery k"
  for H
  by unfold_locales (auto intro: call_halt)

lemma blocking_names_in:
  "o' \<in> set os \<Longrightarrow> co_blocking o' \<Longrightarrow> co_status o' \<in> {CK_FAIL, CK_BLOCK} \<Longrightarrow>
   co_name o' \<in> set (blocking_names os)"
  by (auto simp: blocking_names_def)

lemma halted_blocks:
  assumes "run_checks c rq now halt ok projected err = Inr os" and halt: "halt \<or> cr_safe_halt rq"
  shows "''global_safe_halt'' \<in> set (blocking_names os)"
proof -
  obtain xs where xs: "collect (all_checks c rq now halt ok projected err) = Inr xs" and os: "os = order_checks c xs"
    using assms by (auto simp: run_checks_def res_simps)
  have "map co_name xs = CHECK_CATALOG"
    using all_checks_group [of c rq now halt ok projected err] xs by (simp add: check_group_def)
  then have os: "os = xs" using os by (simp add: order_checks_id)
  obtain yss where yss: "all_checks c rq now halt ok projected err = map Inr yss" and cat: "xs = concat yss"
    using xs by (auto simp: collect_Inr)
  have "ck_system c rq halt ok \<in> set (map Inr yss)" by (simp add: all_checks_def Let_def flip: yss)
  then obtain ys where ys: "ck_system c rq halt ok = Inr ys" "ys \<in> set yss" by auto
  have "ck_block c ''global_safe_halt'' ''safe-halt latched'' None \<in> set ys"
    using ys(1) halt by (auto simp: ck_system_def)
  then have "ck_block c ''global_safe_halt'' ''safe-halt latched'' None \<in> set os"
    using ys(2) os cat by auto
  from blocking_names_in [OF this] show ?thesis by (simp add: ck_block_def check_out_def)
qed

lemma halted_decision:
  assumes "cs_decide H now persist memo rq s = (Inr r, s')" and "sh_halted (cs_halt s) \<or> cr_safe_halt rq"
  shows "cd_final_decision (ce_decision r) \<in> {CS_BLOCKED_SYSTEM, CS_ERROR_FAIL_CLOSED}"
proof -
  let ?eff = "effective now rq s"
  obtain sizing err checks where ck: "cs_checks now rq ?eff sizing err s = Inr checks"
    and cc: "cs_conclude H now persist memo rq ?eff sizing checks (H (HPolicy (cs_config s)))
       (s\<lparr>cs_ledger := observed now rq (cs_ledger s)\<rparr>) = (Inr r, s')"
    using assms(1) unfolding effective_def by (rule cs_decide_cases) blast
  define v where "v = settle_verdict checks sizing ?eff"
  have "''global_safe_halt'' \<in> set (blocking_names checks)"
    using ck assms(2) unfolding cs_checks_def
    by (elim halted_blocks) (simp add: effective_def effective_request_def)
  then have st: "state_from checks sizing ?eff = CS_BLOCKED_SYSTEM" by (rule state_from_halt)
  then have "cv_state v = CS_BLOCKED_SYSTEM" by (simp add: v_def settle_verdict_def Let_def capital_approved_def)
  moreover obtain f where "figures_or_zero ?eff v = (f, v)"
    using figures_or_zero_verdict [of ?eff v] by (metis surj_pair)
  ultimately show ?thesis
    using cs_conclude_run(1) [OF cc] decision_from_fields(2)
    by (auto simp: concluded_def closed_result_def simp flip: v_def)
qed

lemma decide_trips:
  assumes "cs_decide H now persist memo rq s = (Inr r, s')"
    and "cd_final_decision (ce_decision r) \<noteq> CS_ERROR_FAIL_CLOSED"
  shows "sh_halted (cs_halt s') \<longleftrightarrow> sh_halted (cs_halt s) \<or>
    cd_final_decision (ce_decision r) \<in> {CS_BLOCKED_DRAWDOWN, CS_BLOCKED_SYSTEM}"
proof -
  let ?eff = "effective now rq s"
  obtain sizing checks where cc: "cs_conclude H now persist memo rq ?eff sizing checks (H (HPolicy (cs_config s)))
       (s\<lparr>cs_ledger := observed now rq (cs_ledger s)\<rparr>) = (Inr r, s')"
    using assms(1) unfolding effective_def by (rule cs_decide_cases) blast
  define v where "v = settle_verdict checks sizing ?eff"
  obtain f where "figures_or_zero ?eff v = (f, v)"
    using figures_or_zero_verdict [of ?eff v] by (metis surj_pair)
  with cs_conclude_run(1) [OF cc] assms(2) have "cv_state v = cd_final_decision (ce_decision r)"
    using decision_from_fields(2) by (auto simp: concluded_def closed_result_def simp flip: v_def)
  with cs_conclude_run(3) [OF cc] show ?thesis by (simp flip: v_def)
qed

subsection \<open>Evaluations that approve\<close>

text \<open>A fresh key leads to a decision, and a decision that returns is the answer.\<close>

lemma evaluate_decided:
  assumes "dict_get (cs_seen s) (cr_idempotency_key rq) = None" and "cs_decide H now True True rq s = (Inr r, s1)"
  shows "fst (capital_evaluate H now rq s) = Inr r"
    and "same_service s1 (snd (capital_evaluate H now rq s)\<lparr>cs_metrics := cs_metrics s1\<rparr>)"
  using assms by (cases rule: capital_evaluate_cases [of H rq s now]; auto simp: key_conflict_def)+

lemma check_body_returns:
  "fits (cv_quantity v) \<Longrightarrow> fits (cv_projected v) \<Longrightarrow> \<exists>body. check_body v ih ph checks = Inr body"
  by (auto simp: check_body_def fits_canonical)

lemma decide_open:
  assumes ok: "capital_inv s" "cs_inject_fault s = None" "request_ok rq"
    and size: "capital_size H (cs_config s) (effective now rq s) = Inr t"
    and fit: "printable (cs_config s) (effective now rq s) (sz_final_risk t)" "fits (sz_rounded_size t)"
  obtains r s' where "cs_decide H now persist memo rq s = (Inr r, s')"
    and "cd_final_decision (ce_decision r) \<noteq> CS_ERROR_FAIL_CLOSED"
proof -
  let ?eff = "effective now rq s"
  have sz: "try_sizing H (cs_config s) ?eff = Inr (Some t, None)" using size by (simp add: try_sizing_def)
  obtain checks where ck: "cs_checks now rq ?eff (Some t) None s = Inr checks"
    using run_checks_returns [of "cs_config s" ?eff "Some (sz_final_risk t)"] fit(1)
    unfolding cs_checks_def by (metis option.simps(5) option.map(2))
  define v where "v = settle_verdict checks (Some t) ?eff"
  have "fits (sz_final_risk t)" using fit(1) by (simp add: printable_def loss_amounts_def)
  then have "fits (cv_quantity v)" "fits (cv_projected v)"
    using fit(2) by (auto simp: v_def settle_verdict_def Let_def)
  then obtain body where "check_body v (H (HRequest rq)) (H (HPolicy (cs_config s))) checks = Inr body"
    using check_body_returns by blast
  with ok sz ck obtain r s' where d: "cs_decide H now persist memo rq s = (Inr r, s')"
    and fin: "cd_final_decision (ce_decision r) = cv_state v"
    unfolding v_def capital_inv_def by (metis cs_decide_returns)
  moreover have "cd_final_decision (ce_decision r) \<noteq> CS_ERROR_FAIL_CLOSED"
    unfolding fin v_def by (rule settle_states)
  ultimately show ?thesis using that by blast
qed

text \<open>The answer of a decision is stored under its key.\<close>

lemma evaluate_stores:
  assumes fresh: "dict_get (cs_seen s) (cr_idempotency_key rq) = None"
    and r: "fst (capital_evaluate H now rq s) = Inr r"
    and "cd_final_decision (ce_decision r) \<noteq> CS_ERROR_FAIL_CLOSED"
  obtains s1 where "cs_decide H now True True rq s = (Inr r, s1)"
    and "same_service s1 (snd (capital_evaluate H now rq s)\<lparr>cs_metrics := cs_metrics s1\<rparr>)"
    and "dict_get (cs_seen (snd (capital_evaluate H now rq s))) (cr_idempotency_key rq) = Some (H (HRequest rq), r)"
proof -
  obtain s1 where d: "cs_decide H now True True rq s = (Inr r, s1)"
    and ss: "same_service s1 (snd (capital_evaluate H now rq s)\<lparr>cs_metrics := cs_metrics s1\<rparr>)"
    using assms by (cases rule: capital_evaluate_cases [of H rq s now]) (auto simp: key_conflict_def closed_result_def)
  have "dict_get (cs_seen s1) (cr_idempotency_key rq) = Some (H (HRequest rq), r)"
    using d unfolding cs_decide_def cs_conclude_def Let_def by (auto simp: comp_eq dict_simps)
  moreover have "cs_seen (snd (capital_evaluate H now rq s)) = cs_seen s1"
    using ss by (auto simp: same_service_def dest: arg_cong [of _ _ cs_seen])
  ultimately show ?thesis using d ss that by simp
qed

lemma evaluate_approves:
  assumes "capital_inv s" "cs_inject_fault s = None" "request_ok rq"
    and fresh: "dict_get (cs_seen s) (cr_idempotency_key rq) = None"
    and "admissible H now rq s t"
    and "printable (cs_config s) (effective now rq s) (sz_final_risk t)" "fits (sz_rounded_size t)"
  obtains r where "fst (capital_evaluate H now rq s) = Inr r"
    and "capital_approved (cd_final_decision (ce_decision r))"
proof -
  have "capital_size H (cs_config s) (effective now rq s) = Inr t" using assms(5) by (simp add: admissible_def)
  then obtain r s1 where d: "cs_decide H now True True rq s = (Inr r, s1)"
    and "cd_final_decision (ce_decision r) \<noteq> CS_ERROR_FAIL_CLOSED"
    using assms(1-3,6-) by (metis decide_open)
  then have "capital_approved (cd_final_decision (ce_decision r))"
    using decide_facts [OF d] assms(5) by (auto simp: decision_facts_def)
  with evaluate_decided(1) [OF fresh d] that show ?thesis by blast
qed

end
