(* ===== verification/CapitalSamples.thy ===== *)
theory CapitalSamples
  imports CapitalGuarantees "HOL-Library.Code_Target_Nat"
begin

section \<open>A sample capital request\<close>

text \<open>
  The request of the program's own tests: one lot of EURUSD with a stop of fifty points on an
  account of 100000, which the default policy approves at a reduced size; the same request with
  the flag of a safe halt; and a hash that tells requests by their identifier and decisions by
  their state.
\<close>

definition demo_hash :: hash where
  "demo_hash p = (case p of HRequest r \<Rightarrow> cr_request_id r | HBody b \<Rightarrow> db_state b | _ \<Rightarrow> ''fixed'')"

definition cap_request :: RiskEvaluationRequest where
  "cap_request =
     \<lparr>cr_request_id = ''req-1'', cr_idempotency_key = ''idem-1'', cr_correlation_id = ''corr'',
      cr_causation_id = ''cause'', cr_trade_intent_id = ''intent'', cr_strategy_id = ''trend_pullback'',
      cr_strategy_version = ''v1'', cr_profile_id = ''trend_pullback'', cr_profile_version = ''v1'',
      cr_symbol = ''EURUSD'', cr_timeframe = ''H1'', cr_side = ''buy'', cr_requested_quantity = 1,
      cr_entry_price = 11/10, cr_stop_loss_price = 10952/10000, cr_take_profit_price = Some (11096/10000),
      cr_signal_timestamp = 0, cr_intent_created_at = 0, cr_market_snapshot_id = ''mkt-1'',
      cr_regime_snapshot_id = ''reg-1'', cr_model_snapshot_id = Some ''model-1'',
      cr_model_version = Some ''0.1.0'', cr_model_quality_status = ''ok'',
      cr_predicted_quantiles = Some \<lparr>qb_q05 = - (1/1000), qb_q25 = 0, qb_q50 = 1/1000, qb_q75 = 2/1000,
        qb_q95 = 3/1000\<rparr>,
      cr_expected_return = None, cr_expected_adverse_excursion = None, cr_spread = 1/10000,
      cr_estimated_slippage = 1/10000, cr_estimated_commission = 2, cr_estimated_swap = 0,
      cr_account_snapshot_id = ''acct-1'', cr_portfolio_snapshot_id = ''port-1'',
      cr_current_positions_snapshot_id = ''pos-1'', cr_current_orders_snapshot_id = ''ord-1'',
      cr_risk_policy_version = ''1.0.0'', cr_execution_policy_version = ''sim-1'',
      cr_account_equity = 100000, cr_peak_equity = 100000, cr_free_margin = 100000,
      cr_realized_pnl_day = 0, cr_open_position_risk = 0, cr_pending_order_risk = 0,
      cr_open_position_count = 0, cr_pending_order_count = 0, cr_symbol_exposure = 0,
      cr_currency_exposure = 0, cr_directional_exposure = 0, cr_strategy_exposure = 0,
      cr_profile_exposure = 0, cr_correlated_exposure = 0, cr_conversion_rate = Some 1,
      cr_pip_value = None, cr_contract_size = Some 100000, cr_volume_step = Some (1/100),
      cr_losing_streak = 0, cr_session = ''london'', cr_regime = ''trending'', cr_market_age_seconds = 1,
      cr_account_age_seconds = 1, cr_portfolio_age_seconds = 1, cr_model_age_seconds = 1,
      cr_account_unknown = False, cr_exposure_unknown = False, cr_open_orders_unknown = False,
      cr_reconciliation_status = ''ok'', cr_reconciliation_critical = False, cr_safe_halt = False,
      cr_control_state = ''active'', cr_cooldown_until = None, cr_existing_symbol_side = None,
      cr_persistence_available = True, cr_metadata = []\<rparr>"

definition cap_halting :: RiskEvaluationRequest where
  "cap_halting = cap_request\<lparr>cr_request_id := ''req-2'', cr_idempotency_key := ''idem-2'', cr_safe_halt := True\<rparr>"

definition cap_service :: capital where
  "cap_service = capital_init pm4_config_default False"

lemma cap_service_reach: "capital_reach H cap_service"
  unfolding cap_service_def by (rule capital_reach.init) (rule pm4_config_default_ok)

subsection \<open>What the sample evaluates to\<close>

lemma cap_request_ok: "request_ok cap_request"
  by code_simp

lemma cap_effective: "effective 0 cap_request cap_service = cap_request"
  by code_simp

lemma cap_fresh: "dict_get (cs_seen cap_service) key = None"
  by (simp add: cap_service_def capital_init_def dict_simps)

lemma cap_config: "cs_config cap_service = pm4_config_default" "cs_inject_fault cap_service = None"
  "cs_ledger cap_service = ledger_init" "\<not> sh_halted (cs_halt cap_service)"
  "\<not> cs_require_persistence cap_service"
  by (simp_all add: cap_service_def capital_init_def halt_init_def)

lemma ex_case:
  "(\<exists>y. x = Some y \<and> P y) \<longleftrightarrow> (case x of None \<Rightarrow> False | Some y \<Rightarrow> P y)"
  "(\<forall>y. x = Some y \<longrightarrow> P y) \<longleftrightarrow> (case x of None \<Rightarrow> True | Some y \<Rightarrow> P y)"
  "(\<exists>y. r = Inr y \<and> P y) \<longleftrightarrow> (case r of Inl e \<Rightarrow> False | Inr y \<Rightarrow> P y)"
  by (auto split: option.splits sum.splits)

lemma cap_limits: "capital_limits pm4_config_default cap_request 0 False True (Some 497) None"
  unfolding capital_limits_def model_ok_def cost_ok_def reward_ok_def stop_ok_def exposure_ok_def
    system_ok_def ex_case
  by code_simp

lemma fits_small: "list_all (\<lambda>x. \<bar>x\<bar> < 10 ^ 19) xs \<Longrightarrow> list_all fits xs"
  by (auto simp: list_all_iff intro: small_fits)

lemma cap_printable: "printable pm4_config_default cap_request 497"
  unfolding printable_def
proof (intro conjI)
  show "list_all fits (cost_amounts pm4_config_default cap_request)" by (rule fits_small) code_simp
  show "list_all fits (loss_amounts pm4_config_default cap_request 497)" by (rule fits_small) code_simp
  show "list_all fits (exposure_amounts pm4_config_default cap_request 497)" by (rule fits_small) code_simp
qed

lemma cap_size:
  obtains t where "capital_size H pm4_config_default cap_request = Inr t"
    and "sz_rounded_size t = 99/100" and "sz_final_risk t = 497"
proof -
  let ?c = pm4_config_default
  have hr: "heat_headroom cap_request ?c = Inr (max_effective_heat ?c)" by code_simp
  have guards: "0 < cr_account_equity cap_request \<and> \<not> cr_exposure_unknown cap_request" by code_simp
  have pct: "dmul (cr_account_equity cap_request) (max_per_trade_risk_pct ?c) = 500" by code_simp
  have 1: "cap_stop_distance cap_request = Inr (48/10000)" by code_simp
  have 2: "5/1000 = dadd (dadd (48/10000) (if include_transaction_costs ?c then cr_spread cap_request else 0))
       (if include_transaction_costs ?c then cr_estimated_slippage cap_request else 0)" by code_simp
  have 3: "1/100 = dec_fix (or_dec (cr_volume_step cap_request) (lot_step ?c))" by code_simp
  have 4: "cr_conversion_rate cap_request = Some 1" by code_simp
  have 5: "100000 = or_dec (cr_contract_size cap_request) (contract_size ?c)" by code_simp
  have 6: "498 = size_budget cap_request ?c (max_effective_heat ?c) 500" by code_simp
  have 7: "500 = dmul (dmul (5/1000) 100000) 1" by code_simp
  have 8: "996/1000 = ddiv 498 500" by code_simp
  have 9: "996/1000 = min (996/1000) (min (max_lots ?c) (cr_requested_quantity cap_request))" by code_simp
  have 10: "size_quantity cap_request ?c 498 500 (996/1000) (996/1000) (1/100) =
    Inr (99/100, 497, [''requested_quantity'', ''risk_budget''])" by code_simp
  have 11: "list_all fits [cr_account_equity cap_request, 48/10000, 5/1000, 498, 100000, 1,
    cr_requested_quantity cap_request, 996/1000, 996/1000, 99/100, 497]" by (rule fits_small) code_simp
  obtain t where "size_position H cap_request ?c (max_effective_heat ?c) 500 = Inr t"
    "sz_rounded_size t = 99/100" "sz_final_risk t = 497"
    by (rule size_position_returns [OF 1 _ 2 _ 3 _ 4 _ _ 5 6 _ 7 _ 8 9 10 11, of H])
      (simp_all only: guards zero_less_numeral zero_less_divide_iff zero_less_one simp_thms)
  with guards hr pct that show ?thesis by (simp add: capital_size_def)
qed

lemma cap_admissible:
  obtains t where "admissible H 0 cap_request cap_service t"
    and "sz_rounded_size t = 99/100" and "sz_final_risk t = 497"
proof -
  obtain t where "capital_size H pm4_config_default cap_request = Inr t"
    and t: "sz_rounded_size t = 99/100" "sz_final_risk t = 497" by (rule cap_size)
  moreover have "cr_persistence_available cap_request" by code_simp
  ultimately have "admissible H 0 cap_request cap_service t"
    by (simp add: admissible_def cap_effective cap_config cap_limits)
  with t that show ?thesis by blast
qed

end
