(* ===== verification/CapitalClaims.thy ===== *)
theory CapitalClaims
  imports CapitalSamples
begin

section \<open>The claims about the capital gate\<close>

text \<open>
  The properties of the capital gate, each with its witness on the sample request: what an
  approval means and that a good request gets one, the bounds of its size, that the service
  always answers, that a blocking decision latches the halt, that the ledger only tightens and
  survives a restart within the window the reload reads, that a key has one answer, and that
  the service implements an abstract gate of a latch and a table of answers.
\<close>

lemma cap_inv: "capital_inv cap_service"
  using capital_reach_inv [OF cap_service_reach] .

lemma cap_approves:
  obtains r where "fst (capital_evaluate H 0 cap_request cap_service) = Inr r"
    and "capital_approved (cd_final_decision (ce_decision r))"
proof -
  obtain t where t: "admissible H 0 cap_request cap_service t" "sz_rounded_size t = 99/100" "sz_final_risk t = 497"
    by (rule cap_admissible)
  have "printable (cs_config cap_service) (effective 0 cap_request cap_service) (sz_final_risk t)"
    by (simp add: t(3) cap_effective cap_config cap_printable)
  moreover have "fits (sz_rounded_size t)" unfolding t(2) by (rule small_fits) simp
  ultimately show ?thesis
    by (rule evaluate_approves [OF cap_inv cap_config(2) cap_request_ok cap_fresh t(1)]) (rule that)
qed

lemma approved_open: "capital_approved st \<Longrightarrow> st \<noteq> CS_ERROR_FAIL_CLOSED"
  by (auto simp: capital_approved_def)

subsection \<open>Approvals\<close>

text \<open>
  Claim C6. The forty checks and the sizer decide one condition: a fresh evaluation that does not
  fail closed approves exactly when some sizing of the request, merged with the ledger, is
  positive and every capital limit holds for its risk.
\<close>

theorem capital_approved_iff:
  assumes "dict_get (cs_seen s) (cr_idempotency_key rq) = None"
    and "fst (capital_evaluate H now rq s) = Inr r"
    and "cd_final_decision (ce_decision r) \<noteq> CS_ERROR_FAIL_CLOSED"
  shows "capital_approved (cd_final_decision (ce_decision r)) \<longleftrightarrow> (\<exists>t. admissible H now rq s t)"
  using fresh_facts [OF assms(1, 2)] assms(3) by (auto simp: decision_facts_def)

lemma capital_approved_iff_witness:
  "\<exists>r t. fst (capital_evaluate demo_hash 0 cap_request cap_service) = Inr r \<and>
     capital_approved (cd_final_decision (ce_decision r)) \<and> admissible demo_hash 0 cap_request cap_service t"
proof -
  obtain r where r: "fst (capital_evaluate demo_hash 0 cap_request cap_service) = Inr r"
    "capital_approved (cd_final_decision (ce_decision r))" by (rule cap_approves)
  with capital_approved_iff [OF cap_fresh r(1) approved_open [OF r(2)]] show ?thesis by blast
qed

text \<open>
  A request is not turned away for nothing: on a reachable service without an injected
  fault, a valid request under a new key whose sizing is positive, whose limits all hold and
  whose amounts can be printed is evaluated and approved, at the reduced state exactly when the
  size is below the request, with the computed size and risk.
\<close>

theorem capital_approves:
  assumes "capital_reach H s" and "cs_inject_fault s = None" and "request_ok rq"
    and "dict_get (cs_seen s) (cr_idempotency_key rq) = None" and "admissible H now rq s t"
    and "printable (cs_config s) (effective now rq s) (sz_final_risk t)" and "fits (sz_rounded_size t)"
  shows "\<exists>r. fst (capital_evaluate H now rq s) = Inr r \<and>
    cd_final_decision (ce_decision r) =
      (if sz_rounded_size t < cr_requested_quantity rq then CS_APPROVED_REDUCED_SIZE else CS_APPROVED) \<and>
    cd_approved_quantity (ce_decision r) = sz_rounded_size t \<and>
    cd_monetary_risk (ce_decision r) = sz_final_risk t"
proof -
  obtain r where r: "fst (capital_evaluate H now rq s) = Inr r"
    and ap: "capital_approved (cd_final_decision (ce_decision r))"
    by (rule evaluate_approves [OF capital_reach_inv [OF assms(1)] assms(2-)])
  from fresh_facts [OF assms(4) r] ap obtain t' where t': "admissible H now rq s t'"
    "cd_final_decision (ce_decision r) =
      (if sz_rounded_size t' < cr_requested_quantity rq then CS_APPROVED_REDUCED_SIZE else CS_APPROVED)"
    "cd_approved_quantity (ce_decision r) = sz_rounded_size t'" "cd_monetary_risk (ce_decision r) = sz_final_risk t'"
    unfolding decision_facts_def by blast
  moreover have "t' = t" using t'(1) assms(5) by (simp add: admissible_def)
  ultimately show ?thesis using r by blast
qed

lemma capital_approves_witness:
  "\<exists>r. fst (capital_evaluate demo_hash 0 cap_request cap_service) = Inr r \<and>
    cd_final_decision (ce_decision r) = CS_APPROVED_REDUCED_SIZE \<and>
    cd_approved_quantity (ce_decision r) = 99/100 \<and> cd_monetary_risk (ce_decision r) = 497"
proof -
  obtain t where t: "admissible demo_hash 0 cap_request cap_service t" "sz_rounded_size t = 99/100" "sz_final_risk t = 497"
    by (rule cap_admissible)
  have p: "printable (cs_config cap_service) (effective 0 cap_request cap_service) (sz_final_risk t)"
    by (simp add: t(3) cap_effective cap_config cap_printable)
  have f: "fits (sz_rounded_size t)" unfolding t(2) by (rule small_fits) simp
  have q: "cr_requested_quantity cap_request = 1" by (simp add: cap_request_def)
  from capital_approves [OF cap_service_reach cap_config(2) cap_request_ok cap_fresh t(1) p f] show ?thesis
    unfolding t(2, 3) q by simp
qed

text \<open>
  Claim C7. An approval is bounded: its quantity lies between the configured minimum and maximum
  and within the request, its monetary risk is at most the per-trade share of the equity, and
  quantity times the value of one lot's stop (without any rounding) exceeds that share, plus the
  amount of a negative commission (which no validator rejects and which the sizer adds to the budget;
  nothing for a commission that is not negative), by at most one part in ten to the 26; its executable intent carries the decision's quantity, prices
  and expiry and allows no execution.
\<close>

theorem capital_approved_bounded:
  assumes "capital_reach H s" and "dict_get (cs_seen s) (cr_idempotency_key rq) = None"
    and "fst (capital_evaluate H now rq s) = Inr r"
    and "capital_approved (cd_final_decision (ce_decision r))"
  shows "min_lots (cs_config s) \<le> cd_approved_quantity (ce_decision r) \<and>
    cd_approved_quantity (ce_decision r) \<le> max_lots (cs_config s) \<and>
    cd_approved_quantity (ce_decision r) \<le> cr_requested_quantity rq \<and>
    cd_monetary_risk (ce_decision r) \<le> dmul (cr_account_equity rq) (max_per_trade_risk_pct (cs_config s)) \<and>
    (\<exists>t. cd_sizing (ce_decision r) = Some t \<and>
      cd_approved_quantity (ce_decision r) * lot_risk (cs_config s) rq t \<le>
        (cr_account_equity rq * max_per_trade_risk_pct (cs_config s) + max 0 (- cr_estimated_commission rq)) *
          (1 + 1 / 10 ^ 26)) \<and>
    (\<exists>x. ce_executable_intent r = Some x \<and> intent_of (ce_decision r) x)"
proof -
  let ?eff = "effective now rq s" and ?c = "cs_config s"
  have e: "cr_account_equity ?eff = cr_account_equity rq" "cr_estimated_commission ?eff = cr_estimated_commission rq"
    "lot_risk ?c ?eff t = lot_risk ?c rq t" for t
    by (simp_all add: effective_def effective_request_def lot_risk_def)
  from fresh_facts [OF assms(2, 3)] assms(4) obtain t x where t: "admissible H now rq s t"
    "cd_approved_quantity (ce_decision r) = sz_rounded_size t" "cd_monetary_risk (ce_decision r) = sz_final_risk t"
    "cd_sizing (ce_decision r) = Some t" "ce_executable_intent r = Some x" "intent_of (ce_decision r) x"
    unfolding decision_facts_def by blast
  have ok: "pm4_config_ok ?c" using capital_reach_inv [OF assms(1)] by (simp add: capital_inv_def)
  have sz: "capital_size H ?c ?eff = Inr t" "0 < sz_rounded_size t"
    using t(1) by (simp_all add: admissible_def)
  note bounds = capital_size_bounds [OF ok sz]
  have "sz_final_risk t \<le> dmul (cr_account_equity rq) (max_per_trade_risk_pct ?c)"
    using t(1) by (simp add: admissible_def capital_limits_def data_ok_def e)
  with t bounds(1-3) upto_bound [OF bounds(4)] bounds(5) show ?thesis by (simp add: e)
qed

lemma capital_approved_bounded_witness:
  "\<exists>r. fst (capital_evaluate demo_hash 0 cap_request cap_service) = Inr r \<and>
     min_lots pm4_config_default \<le> cd_approved_quantity (ce_decision r) \<and>
     cd_approved_quantity (ce_decision r) \<le> 1 \<and>
     cd_monetary_risk (ce_decision r) \<le> dmul 100000 (max_per_trade_risk_pct pm4_config_default)"
proof -
  obtain r where r: "fst (capital_evaluate demo_hash 0 cap_request cap_service) = Inr r"
    "capital_approved (cd_final_decision (ce_decision r))" by (rule cap_approves)
  have "cr_requested_quantity cap_request = 1"
    "cr_account_equity cap_request = 100000" by (simp_all add: cap_request_def)
  with capital_approved_bounded [OF cap_service_reach cap_fresh r] r(1) show ?thesis
    by (auto simp: cap_config)
qed

subsection \<open>Answers\<close>

text \<open>
  Claim C9. A reachable service answers every request: it raises exactly when the key was used
  with another payload, and then changes nothing; otherwise it returns a result with one outcome
  for every check of the catalogue, in order, that is either an approval with all checks clear,
  a positive quantity and an intent, or a rejection with quantity zero and no intent. No fault
  and no exception inside the evaluation escapes.
\<close>

theorem capital_evaluate_answers:
  assumes "capital_reach H s"
  shows "if key_conflict H rq s
    then capital_evaluate H now rq s =
      (Inl (ValueError ''idempotency conflict: same key with different payload''), s)
    else \<exists>r s'. capital_evaluate H now rq s = (Inr r, s') \<and> result_wf r"
  using evaluate_answers [OF capital_reach_inv [OF assms], of H rq now] by auto

lemma capital_evaluate_answers_witness:
  "\<exists>r s'. capital_evaluate demo_hash 0 cap_request (cap_service\<lparr>cs_inject_fault := Some ''during_heat''\<rparr>) =
     (Inr r, s') \<and> result_wf r"
proof -
  have "capital_reach demo_hash (capital_do demo_hash (K_inject (Some ''during_heat'')) cap_service)"
    by (rule capital_reach.call [OF cap_service_reach]) simp
  from capital_evaluate_answers [OF this, of cap_request 0] show ?thesis
    by (simp add: key_conflict_def cap_fresh)
qed

text \<open>
  A key has one answer: the result of a fresh evaluation that does not fail closed is
  returned unchanged to every later evaluation of the same request, whatever calls come in
  between (other requests, replays, halts, recoveries, injected faults), and that evaluation
  changes neither the ledger nor the halt.
\<close>

theorem capital_idempotent:
  assumes "dict_get (cs_seen s) (cr_idempotency_key rq) = None"
    and "fst (capital_evaluate H now rq s) = Inr r"
    and "cd_final_decision (ce_decision r) \<noteq> CS_ERROR_FAIL_CLOSED"
    and "s' = fold (capital_do H) ks (snd (capital_evaluate H now rq s))"
  shows "fst (capital_evaluate H now' rq s') = Inr r \<and>
    cs_ledger (snd (capital_evaluate H now' rq s')) = cs_ledger s' \<and>
    cs_halt (snd (capital_evaluate H now' rq s')) = cs_halt s'"
proof -
  obtain s1 where "dict_get (cs_seen (snd (capital_evaluate H now rq s))) (cr_idempotency_key rq) = Some (H (HRequest rq), r)"
    using evaluate_stores [OF assms(1-3)] by metis
  then have "dict_get (cs_seen s') (cr_idempotency_key rq) = Some (H (HRequest rq), r)"
    unfolding assms(4) by (rule calls_seen)
  then show ?thesis
    by (simp add: capital_evaluate_def cs_evaluate_def bnd_def try_catch_def run_simps)
qed

lemma capital_idempotent_witness:
  "\<exists>r. capital_approved (cd_final_decision (ce_decision r)) \<and>
     fst (capital_evaluate demo_hash 7 cap_request
       (capital_do demo_hash (K_trip ''manual'') (snd (capital_evaluate demo_hash 0 cap_request cap_service)))) = Inr r"
proof -
  obtain r where r: "fst (capital_evaluate demo_hash 0 cap_request cap_service) = Inr r"
    "capital_approved (cd_final_decision (ce_decision r))" by (rule cap_approves)
  with capital_idempotent [OF cap_fresh r(1) approved_open [OF r(2)] refl, of 7 "[K_trip ''manual'']"] show ?thesis
    by auto
qed

subsection \<open>The halt\<close>

text \<open>
  Claim C8. A blocking decision latches the gate: after a fresh evaluation that ends in
  BLOCKED_DRAWDOWN or BLOCKED_SYSTEM, and any calls without a recovery by a named operator, every
  evaluation under a new key ends in BLOCKED_SYSTEM or ERROR_FAIL_CLOSED, with quantity zero and
  no executable intent. Evaluations and replays never release the halt.
\<close>

theorem capital_block_latches:
  assumes "dict_get (cs_seen s) (cr_idempotency_key rq) = None"
    and "fst (capital_evaluate H now rq s) = Inr r"
    and "cd_final_decision (ce_decision r) \<in> {CS_BLOCKED_DRAWDOWN, CS_BLOCKED_SYSTEM}"
    and "\<forall>k \<in> set ks. \<not> operator_recovery k"
    and "s' = fold (capital_do H) ks (snd (capital_evaluate H now rq s))"
    and "dict_get (cs_seen s') (cr_idempotency_key rq') = None"
    and "fst (capital_evaluate H now' rq' s') = Inr r'"
  shows "cd_final_decision (ce_decision r') \<in> {CS_BLOCKED_SYSTEM, CS_ERROR_FAIL_CLOSED} \<and>
    cd_approved_quantity (ce_decision r') = 0 \<and> ce_executable_intent r' = None"
proof -
  have ne: "cd_final_decision (ce_decision r) \<noteq> CS_ERROR_FAIL_CLOSED" using assms(3) by auto
  then obtain s1 where d: "cs_decide H now True True rq s = (Inr r, s1)"
    and ss: "same_service s1 (snd (capital_evaluate H now rq s)\<lparr>cs_metrics := cs_metrics s1\<rparr>)"
    using evaluate_stores [OF assms(1, 2)] by metis
  have "cs_halt (snd (capital_evaluate H now rq s)) = cs_halt s1"
    using ss by (auto simp: same_service_def dest: arg_cong [of _ _ cs_halt])
  with decide_trips [OF d ne] assms(3) have "sh_halted (cs_halt (snd (capital_evaluate H now rq s)))" by simp
  then have h: "sh_halted (cs_halt s')"
    unfolding assms(5) using assms(4) by (intro capital_halt.holds) auto
  have st: "cd_final_decision (ce_decision r') \<in> {CS_BLOCKED_SYSTEM, CS_ERROR_FAIL_CLOSED}"
    using assms(6, 7) h
    by (cases rule: capital_evaluate_cases [of H rq' s' now'])
      (auto simp: key_conflict_def closed_result_def dest!: halted_decision)
  then have "\<not> capital_approved (cd_final_decision (ce_decision r'))" by (auto simp: capital_approved_def)
  with st fresh_facts [OF assms(6, 7)] show ?thesis by (simp add: decision_facts_def)
qed

lemma capital_size_cong:
  assumes fields: "cr_side a = cr_side b" "cr_entry_price a = cr_entry_price b"
    "cr_stop_loss_price a = cr_stop_loss_price b" "cr_spread a = cr_spread b"
    "cr_estimated_slippage a = cr_estimated_slippage b" "cr_estimated_commission a = cr_estimated_commission b"
    "cr_contract_size a = cr_contract_size b" "cr_volume_step a = cr_volume_step b"
    "cr_conversion_rate a = cr_conversion_rate b" "cr_account_equity a = cr_account_equity b"
    "cr_requested_quantity a = cr_requested_quantity b" "cr_exposure_unknown a = cr_exposure_unknown b"
    "cr_open_position_risk a = cr_open_position_risk b" "cr_pending_order_risk a = cr_pending_order_risk b"
  shows "capital_size H c a = capital_size H c b"
  unfolding capital_size_def heat_headroom_def heat_before_def size_position_def cap_stop_distance_def
    size_budget_def size_quantity_def fields ..

lemma cap_blocks:
  obtains r where "fst (capital_evaluate H 0 cap_halting cap_service) = Inr r"
    and "cd_final_decision (ce_decision r) = CS_BLOCKED_SYSTEM"
proof -
  have eff: "effective 0 cap_halting cap_service = cap_halting" by code_simp
  have "request_ok cap_halting" by code_simp
  obtain t where t: "capital_size H pm4_config_default cap_request = Inr t" "sz_rounded_size t = 99/100"
    "sz_final_risk t = 497" by (rule cap_size)
  have size: "capital_size H (cs_config cap_service) (effective 0 cap_halting cap_service) = Inr t"
    unfolding eff cap_config t(1) [symmetric] by (rule capital_size_cong) (simp_all add: cap_halting_def)
  have "printable (cs_config cap_service) (effective 0 cap_halting cap_service) (sz_final_risk t)"
    using cap_printable unfolding eff cap_config t(3)
    by (simp add: cap_halting_def printable_def cost_amounts_def loss_amounts_def exposure_amounts_def
        day_loss_def cap_drawdown_def exposure_share_def cong: option.case_cong)
  moreover have "fits (sz_rounded_size t)" unfolding t(2) by (rule small_fits) simp
  ultimately obtain r s' where d: "cs_decide H 0 True True cap_halting cap_service = (Inr r, s')"
    and ne: "cd_final_decision (ce_decision r) \<noteq> CS_ERROR_FAIL_CLOSED"
    by (rule decide_open [OF cap_inv cap_config(2) \<open>request_ok cap_halting\<close> size])
  have "cr_safe_halt cap_halting" by (simp add: cap_halting_def)
  with halted_decision [OF d] ne evaluate_decided(1) [OF cap_fresh d] that show ?thesis by auto
qed

lemma capital_block_latches_witness:
  "\<exists>r'. fst (capital_evaluate demo_hash 5 cap_request
       (capital_do demo_hash (K_recover ''automatic'' ''timer'')
         (snd (capital_evaluate demo_hash 0 cap_halting cap_service)))) = Inr r' \<and>
     cd_approved_quantity (ce_decision r') = 0 \<and> ce_executable_intent r' = None"
proof -
  let ?s1 = "snd (capital_evaluate demo_hash 0 cap_halting cap_service)"
  let ?ks = "[K_recover ''automatic'' ''timer'']"
  let ?s2 = "fold (capital_do demo_hash) ?ks ?s1"
  obtain r where r: "fst (capital_evaluate demo_hash 0 cap_halting cap_service) = Inr r"
    and b: "cd_final_decision (ce_decision r) = CS_BLOCKED_SYSTEM" by (rule cap_blocks)
  have "request_ok cap_halting" by code_simp
  then have "capital_reach demo_hash (capital_do demo_hash (K_evaluate 0 cap_halting) cap_service)"
    by (intro capital_reach.call [OF cap_service_reach]) simp
  then have "capital_reach demo_hash (capital_do demo_hash (K_recover ''automatic'' ''timer'')
      (capital_do demo_hash (K_evaluate 0 cap_halting) cap_service))"
    by (rule capital_reach.call) simp
  then have reach: "capital_reach demo_hash ?s2" by simp
  have "dict_get (cs_seen ?s1) (cr_idempotency_key cap_request) = None"
    using evaluate_seen [of cap_service demo_hash 0 cap_halting] cap_fresh
    by (auto simp: same_seen_def dict_simps cap_halting_def cap_request_def)
  then have fresh: "dict_get (cs_seen ?s2) (cr_idempotency_key cap_request) = None"
    by (simp add: cs_recover_def halt_recover_def run_simps)
  then obtain r' where r': "fst (capital_evaluate demo_hash 5 cap_request ?s2) = Inr r'"
    using evaluate_answers [OF capital_reach_inv [OF reach], of demo_hash cap_request 5]
    by (auto simp: key_conflict_def)
  have ks: "\<forall>k \<in> set ?ks. \<not> operator_recovery k" by simp
  have b': "cd_final_decision (ce_decision r) \<in> {CS_BLOCKED_DRAWDOWN, CS_BLOCKED_SYSTEM}" using b by simp
  from capital_block_latches [OF cap_fresh r b' ks refl fresh r'] r' show ?thesis by auto
qed

subsection \<open>The ledger\<close>

text \<open>The UTC day of a call that observes a request.\<close>

fun call_day :: "capital_call \<Rightarrow> int option" where
  "call_day (K_evaluate now rq) = Some (day_key now)"
| "call_day (K_replay now r rq) = Some (day_key now)"
| "call_day k = None"

lemma call_ledger:
  "ledger_le (cs_ledger s) (cs_ledger (capital_do H k s)) \<and>
   (dl_daily_key (cs_ledger (capital_do H k s)) = dl_daily_key (cs_ledger s) \<or>
    dl_daily_key (cs_ledger (capital_do H k s)) = call_day k)"
proof -
  have refl: "ledger_le l l" for l by (auto simp: ledger_le_def)
  have obs: "ledger_le (cs_ledger s) (cs_ledger s') \<and>
     (dl_daily_key (cs_ledger s') = dl_daily_key (cs_ledger s) \<or> dl_daily_key (cs_ledger s') = Some (day_key now))"
    if "observes now rq s s'" for now rq s'
    using that merge_le refl by (auto simp: observes_def observed_def)
  show ?thesis
  proof (cases k)
    case (K_evaluate now rq)
    with obs [of now rq "snd (capital_evaluate H now rq s)"] keeps_capital(1) [of now rq H] show ?thesis
      by (simp add: keeps_def)
  next
    case (K_replay now r rq)
    with obs [of now rq "snd (capital_replay H now r rq s)"] keeps_capital(2) [of now rq H r] show ?thesis
      by (simp add: keeps_def)
  qed (auto simp: refl cs_trip_def cs_recover_def halt_recover_def run_simps split: if_splits)
qed

lemma calls_ledger:
  "(\<forall>p. dl_peak_equity (cs_ledger s) = Some p \<longrightarrow>
      (\<exists>p'. dl_peak_equity (cs_ledger (fold (capital_do H) ks s)) = Some p' \<and> p \<le> p')) \<and>
   dl_losing_streak (cs_ledger s) \<le> dl_losing_streak (cs_ledger (fold (capital_do H) ks s)) \<and>
   (dl_daily_key (cs_ledger s) = Some d \<longrightarrow> (\<forall>k \<in> set ks. call_day k \<in> {None, Some d}) \<longrightarrow>
      dl_daily_loss (cs_ledger s) \<le> dl_daily_loss (cs_ledger (fold (capital_do H) ks s)))"
proof (induction ks arbitrary: s)
  case (Cons k ks)
  let ?t = "capital_do H k s"
  have le: "ledger_le (cs_ledger s) (cs_ledger ?t)" using call_ledger by blast
  have key: "dl_daily_key (cs_ledger ?t) = Some d"
    if "dl_daily_key (cs_ledger s) = Some d" "call_day k \<in> {None, Some d}"
    using call_ledger [of s H k] that
    by (cases k) (auto simp: cs_trip_def cs_recover_def halt_recover_def run_simps split: if_splits)
  show ?case
  proof (intro conjI impI allI)
    fix p assume "dl_peak_equity (cs_ledger s) = Some p"
    with le obtain q where "dl_peak_equity (cs_ledger ?t) = Some q" "p \<le> q" by (auto simp: ledger_le_def)
    with Cons.IH [of ?t]
    show "\<exists>p'. dl_peak_equity (cs_ledger (fold (capital_do H) (k # ks) s)) = Some p' \<and> p \<le> p'"
      by force
  next
    show "dl_losing_streak (cs_ledger s) \<le> dl_losing_streak (cs_ledger (fold (capital_do H) (k # ks) s))"
      using le Cons.IH [of ?t] by (auto simp: ledger_le_def)
  next
    assume k: "dl_daily_key (cs_ledger s) = Some d" "\<forall>k \<in> set (k # ks). call_day k \<in> {None, Some d}"
    with key have "dl_daily_key (cs_ledger ?t) = Some d" by simp
    with k le Cons.IH [of ?t]
    show "dl_daily_loss (cs_ledger s) \<le> dl_daily_loss (cs_ledger (fold (capital_do H) (k # ks) s))"
      by (auto simp: ledger_le_def)
  qed
qed simp

text \<open>
  The ledger only tightens: over any sequence of calls the recorded peak equity and the
  losing streak never fall, and as long as all evaluations fall on the ledger's day the recorded
  daily loss never falls either, whatever smaller figures later requests report.
\<close>

theorem capital_ledger_tightens:
  assumes "dl_daily_key (cs_ledger s) = Some d" and "\<forall>k \<in> set ks. call_day k \<in> {None, Some d}"
    and "s' = fold (capital_do H) ks s"
  shows "dl_daily_loss (cs_ledger s) \<le> dl_daily_loss (cs_ledger s') \<and>
    dl_losing_streak (cs_ledger s) \<le> dl_losing_streak (cs_ledger s') \<and>
    (\<forall>p. dl_peak_equity (cs_ledger s) = Some p \<longrightarrow> (\<exists>p'. dl_peak_equity (cs_ledger s') = Some p' \<and> p \<le> p'))"
  using calls_ledger [of s H ks d] assms by simp

lemma capital_ledger_tightens_witness:
  "\<exists>p. dl_peak_equity (cs_ledger (fold (capital_do demo_hash)
      [K_evaluate 5 (cap_request\<lparr>cr_peak_equity := 90000\<rparr>)]
      (cap_service\<lparr>cs_ledger := observed 0 cap_request ledger_init\<rparr>))) = Some p \<and> 100000 \<le> p"
proof -
  let ?s = "cap_service\<lparr>cs_ledger := observed 0 cap_request ledger_init\<rparr>"
  let ?ks = "[K_evaluate 5 (cap_request\<lparr>cr_peak_equity := 90000\<rparr>)]"
  have k: "dl_daily_key (cs_ledger ?s) = Some 0" by (simp add: observed_def day_key_def)
  have d: "\<forall>k \<in> set ?ks. call_day k \<in> {None, Some 0}" by (simp add: day_key_def seconds_def)
  have p: "dl_peak_equity (cs_ledger ?s) = Some 100000" by code_simp
  from capital_ledger_tightens [OF k d refl, of demo_hash] p show ?thesis by blast
qed

subsection \<open>Restart\<close>

text \<open>Observations, one after the other, with the log the ledger writes.\<close>

type_synonym observation = "dec \<times> dec \<times> dec \<times> int \<times> datetime"

definition observe_all ::
  "observation list \<Rightarrow> drawdown_ledger \<times> log_event list \<Rightarrow> drawdown_ledger \<times> log_event list" where
  "observe_all = fold (\<lambda>(e, p, r, st, now) x. snd (ledger_observe_logged e p r st now x))"

fun observation_ok :: "observation \<Rightarrow> bool" where
  "observation_ok (e, p, r, st, now) \<longleftrightarrow> money e \<and> money p \<and> money r"

lemma observe_step:
  assumes "ledger_ok l" and "observation_ok (e, p, r, st, now)"
  obtains sn where "ledger_snapshot e (ledger_merge e p r st now l) = Inr sn"
    and "ledger_ok (ledger_merge e p r st now l)"
    and "snd (ledger_observe_logged e p r st now (l, evlog)) =
      (ledger_merge e p r st now l, evlog @ [DrawdownSnapshot sn])"
proof -
  have ok: "ledger_ok (ledger_merge e p r st now l)" using assms by (intro merge_ok) simp_all
  then obtain sn where "ledger_snapshot e (ledger_merge e p r st now l) = Inr sn"
    using snapshot_defined assms(2) by auto
  with ok that show ?thesis
    by (simp add: ledger_observe_logged_def ledger_observe_def run_simps)
qed

lemma observe_all_ok:
  "ledger_ok l \<Longrightarrow> list_all observation_ok obs \<Longrightarrow>
   \<exists>l' more. observe_all obs (l, evlog) = (l', evlog @ more) \<and> ledger_ok l' \<and> length more = length obs"
proof (induction obs arbitrary: l evlog)
  case (Cons ob obs)
  obtain e p r st now where ob: "ob = (e, p, r, st, now)" by (cases ob) auto
  with Cons.prems have good: "observation_ok (e, p, r, st, now)" by simp
  from observe_step [OF Cons.prems(1) good] obtain sn where
    st: "ledger_ok (ledger_merge e p r st now l)"
      "snd (ledger_observe_logged e p r st now (l, evlog)) =
        (ledger_merge e p r st now l, evlog @ [DrawdownSnapshot sn])" by metis
  from Cons.IH [OF st(1), of "evlog @ [DrawdownSnapshot sn]"] Cons.prems(2) show ?case
    by (auto simp: observe_all_def ob st(2))
qed (simp add: observe_all_def)

text \<open>
  A restart restores the ledger: after any observations of printable amounts on top of
  an existing log, as long as the log stays within the ten thousand events the reload reads, a
  new ledger that reloads the log holds exactly the peak, daily loss, day and streak of the old
  one. The amounts go through their canonical text and back.
\<close>

theorem ledger_restart:
  assumes "list_all observation_ok obs" and "obs \<noteq> []" and "length evlog + length obs \<le> 10000"
    and "observe_all obs (ledger_init, evlog) = (l, evlog')"
  shows "ledger_reload evlog' ledger_init = Inr (l\<lparr>dl_loaded := True\<rparr>)"
proof -
  obtain xs e p r st now where obs: "obs = xs @ [(e, p, r, st, now)]"
    using assms(2) by (metis append_butlast_last_id prod_cases5)
  obtain l0 more where l0: "observe_all xs (ledger_init, evlog) = (l0, evlog @ more)" "ledger_ok l0"
    "length more = length xs"
    using observe_all_ok [OF ledger_init_ok, of xs evlog] assms(1) by (auto simp: obs)
  have good: "observation_ok (e, p, r, st, now)" using assms(1) by (simp add: obs)
  obtain sn where sn: "ledger_snapshot e (ledger_merge e p r st now l0) = Inr sn"
    "ledger_ok (ledger_merge e p r st now l0)"
    "snd (ledger_observe_logged e p r st now (l0, evlog @ more)) =
      (ledger_merge e p r st now l0, (evlog @ more) @ [DrawdownSnapshot sn])"
    by (rule observe_step [OF l0(2) good])
  have "(l, evlog') = (ledger_merge e p r st now l0, (evlog @ more) @ [DrawdownSnapshot sn])"
    using assms(4) l0(1) sn(3) by (simp add: observe_all_def obs)
  then have l: "l = ledger_merge e p r st now l0" and ev: "evlog' = (evlog @ more) @ [DrawdownSnapshot sn]" by simp_all
  obtain q where q: "dl_peak_equity l = Some q" by (simp add: l ledger_merge_def Let_def)
  have "length (evlog @ more) < 10000" using assms(3) l0(3) by (simp add: obs)
  from reload_snapshot [OF sn(2) _ sn(1) this] q show ?thesis by (simp add: l ev)
qed

lemma ledger_restart_witness:
  "ledger_reload (snd (observe_all [(100, 100, - 5, 2, 0), (97, 100, - 8, 3, 1)] (ledger_init, [OtherEvent ''x''])))
     ledger_init =
   Inr ((fst (observe_all [(100, 100, - 5, 2, 0), (97, 100, - 8, 3, 1)] (ledger_init, [OtherEvent ''x''])))\<lparr>dl_loaded := True\<rparr>)"
proof (rule ledger_restart [where evlog = "[OtherEvent ''x'']" and obs = "[(100, 100, - 5, 2, 0), (97, 100, - 8, 3, 1)]"])
  show "list_all observation_ok [(100, 100, - 5, 2, 0), (97, 100, - 8, 3, 1)]"
    unfolding list.pred_inject observation_ok.simps money_def by code_simp
qed simp_all

text \<open>
  Beyond the window a restart loses the ledger: once ten thousand events were in the log,
  no later observation has any effect on what a reload restores, so peaks, losses and streaks
  recorded since then are forgotten.
\<close>

theorem ledger_restart_window:
  assumes "10000 \<le> length evlog" and "observe_all obs (l0, evlog) = (l, evlog')"
  shows "ledger_reload evlog' l1 = ledger_reload evlog l1"
proof -
  have "\<exists>more. snd (observe_all obs (l0, evlog)) = evlog @ more" for l0 evlog
  proof (induction obs arbitrary: l0 evlog)
    case (Cons ob obs)
    obtain e p r st now where ob: "ob = (e, p, r, st, now)" by (cases ob) auto
    obtain l1 m1 where m1: "snd (ledger_observe_logged e p r st now (l0, evlog)) = (l1, evlog @ m1)"
      by (cases "ledger_observe e p r st now l0"; cases "fst (ledger_observe e p r st now l0)")
        (auto simp: ledger_observe_logged_def)
    from Cons.IH [of l1 "evlog @ m1"] show ?case by (auto simp: observe_all_def ob m1)
  qed (simp add: observe_all_def)
  then obtain more where "evlog' = evlog @ more" using assms(2) by (metis snd_conv)
  with assms(1) show ?thesis by (simp add: ledger_reload_def list_events_def)
qed

lemma ledger_restart_window_witness:
  "ledger_reload (snd (observe_all [(100, 100, - 5, 2, 0)] (ledger_init, replicate 10000 (OtherEvent ''x'')))) ledger_init =
     Inr (ledger_init\<lparr>dl_loaded := True\<rparr>)"
proof -
  have "latest_snapshot (replicate n (OtherEvent t)) None = None" for n t by (induction n) simp_all
  then have "ledger_reload (replicate 10000 (OtherEvent ''x'')) ledger_init = Inr (ledger_init\<lparr>dl_loaded := True\<rparr>)"
    by (simp add: ledger_reload_def list_events_def)
  with ledger_restart_window [of "replicate 10000 (OtherEvent ''x'')" "[(100, 100, - 5, 2, 0)]" ledger_init] show ?thesis
    by (metis length_replicate order_refl prod.collapse)
qed

subsection \<open>Validated requests\<close>

lemma request_ok_optional:
  assumes "request_ok rq"
  shows "list_all (pred_option money) (request_optional_amounts rq)"
proof -
  have fit: "list_all (pred_option fits) (request_optional_amounts rq)"
    and eq: "(round_request rq)\<lparr>cr_side := lower (strip (cr_side rq)),
      cr_symbol := upper (strip (cr_symbol rq))\<rparr> = rq"
    using assms by (auto simp: request_ok_def validate_request_def res_simps Let_def)
  have "list_all (pred_option money) (map (map_option to_money) (request_optional_amounts rq))"
    using fit by (auto simp: list_all_iff option.pred_set to_money_money)
  also have "map (map_option to_money) (request_optional_amounts rq) =
    request_optional_amounts ((round_request rq)\<lparr>cr_side := lower (strip (cr_side rq)),
      cr_symbol := upper (strip (cr_symbol rq))\<rparr>)"
    by (simp add: request_optional_amounts_def round_request_def)
  finally show ?thesis unfolding eq .
qed

text \<open>
  Claim C40. Validation settles a request: what the validators return passes them again unchanged,
  its side is buy or sell, its symbol is not empty, and every amount, optional ones included, is
  a value of eight decimal places that prints and reads back as itself.
\<close>

theorem request_validation_stable:
  assumes "validate_request r = Inr q"
  shows "validate_request q = Inr q \<and> cr_side q \<in> {''buy'', ''sell''} \<and> cr_symbol q \<noteq> [] \<and>
    (\<forall>x \<in> set (request_amounts q) \<union> \<Union> (set_option ` set (request_optional_amounts q)).
       \<exists>t. canonical x = Inr t \<and> read_decimal t = Some x)"
proof -
  have ok: "request_ok q" using assms by (rule validate_idem)
  then have v: "validate_request q = Inr q" by (simp add: request_ok_def)
  have "money x" if "x \<in> set (request_amounts q) \<union> \<Union> (set_option ` set (request_optional_amounts q))" for x
    using request_ok_money [OF ok] request_ok_optional [OF ok] that by (auto simp: list_all_iff option.pred_set)
  then have "\<exists>t. canonical x = Inr t \<and> read_decimal t = Some x"
    if "x \<in> set (request_amounts q) \<union> \<Union> (set_option ` set (request_optional_amounts q))" for x
    using that money_canonical read_canonical_money by metis
  moreover have "cr_side q \<in> {''buy'', ''sell''} \<and> cr_symbol q \<noteq> []"
    using assms by (auto simp: validate_request_def res_simps Let_def)
  ultimately show ?thesis using v by blast
qed

lemma request_validation_stable_witness:
  "cr_side (round_request cap_request) = ''buy'' \<and> (\<exists>t. canonical 100000 = Inr t \<and> read_decimal t = Some 100000)"
proof -
  have v: "validate_request cap_request = Inr cap_request" using cap_request_ok by (simp add: request_ok_def)
  have "100000 \<in> set (request_amounts cap_request)" by (simp add: request_amounts_def cap_request_def)
  with request_validation_stable [OF v] show ?thesis by (auto simp: round_request_def cap_request_def)
qed

subsection \<open>The gate as a latch and a table of answers\<close>

text \<open>
  What the capital gate promises its callers, without requests, ledgers, checks or sizes: a halt
  flag and the answers given so far, by key. A question under a known key gets the known answer
  or a refusal and changes nothing. A question under a new key gets a well-formed answer, which
  is no approval while the gate is halted; the answer is kept, or it fails closed and may be
  forgotten. An answer that blocks on drawdown or system state halts the gate; only an operator
  releases it.
\<close>

record gate =
  gt_halted :: bool
  gt_answers :: "string \<rightharpoonup> CapitalEvaluationResult"

definition final_of :: "CapitalEvaluationResult \<Rightarrow> CapitalDecisionState" where
  "final_of r = cd_final_decision (ce_decision r)"

inductive gate_step :: "gate \<Rightarrow> capital_call \<Rightarrow> CapitalEvaluationResult option \<Rightarrow> gate \<Rightarrow> bool" where
  known: "gt_answers g (cr_idempotency_key rq) = Some r \<Longrightarrow> out \<in> {None, Some r} \<Longrightarrow>
    gate_step g (K_evaluate now rq) out g"
| answer: "gt_answers g (cr_idempotency_key rq) = None \<Longrightarrow> result_wf r \<Longrightarrow> final_of r \<noteq> CS_ERROR_FAIL_CLOSED \<Longrightarrow>
    (gt_halted g \<Longrightarrow> final_of r = CS_BLOCKED_SYSTEM) \<Longrightarrow>
    h = (gt_halted g \<or> final_of r \<in> {CS_BLOCKED_DRAWDOWN, CS_BLOCKED_SYSTEM}) \<Longrightarrow>
    gate_step g (K_evaluate now rq) (Some r)
      \<lparr>gt_halted = h, gt_answers = (gt_answers g)(cr_idempotency_key rq \<mapsto> r)\<rparr>"
| closed: "gt_answers g (cr_idempotency_key rq) = None \<Longrightarrow> result_wf r \<Longrightarrow> final_of r = CS_ERROR_FAIL_CLOSED \<Longrightarrow>
    (gt_halted g \<Longrightarrow> h) \<Longrightarrow> as \<in> {gt_answers g, (gt_answers g)(cr_idempotency_key rq \<mapsto> r)} \<Longrightarrow>
    gate_step g (K_evaluate now rq) (Some r) \<lparr>gt_halted = h, gt_answers = as\<rparr>"
| replay: "(gt_halted g \<Longrightarrow> h) \<Longrightarrow> gate_step g (K_replay now r rq) None (g\<lparr>gt_halted := h\<rparr>)"
| trip: "gate_step g (K_trip reason) None (g\<lparr>gt_halted := True\<rparr>)"
| recover: "operator_recovery (K_recover actor reason) \<Longrightarrow>
    gate_step g (K_recover actor reason) None (g\<lparr>gt_halted := False\<rparr>)"
| refused: "\<not> operator_recovery (K_recover actor reason) \<Longrightarrow> gate_step g (K_recover actor reason) None g"
| inject: "gate_step g (K_inject point) None g"

definition gate_of :: "capital \<Rightarrow> gate" where
  "gate_of s = \<lparr>gt_halted = sh_halted (cs_halt s),
     gt_answers = (\<lambda>key. map_option snd (dict_get (cs_seen s) key))\<rparr>"

fun capital_out :: "hash \<Rightarrow> capital_call \<Rightarrow> capital \<Rightarrow> CapitalEvaluationResult option" where
  "capital_out H (K_evaluate now rq) s =
     (case fst (capital_evaluate H now rq s) of Inl e \<Rightarrow> None | Inr r \<Rightarrow> Some r)"
| "capital_out H k s = None"

lemma same_service_gate:
  "same_service s (t\<lparr>cs_metrics := m\<rparr>) \<Longrightarrow> gate_of t = gate_of s"
  by (auto simp: same_service_def gate_of_def dest: arg_cong [of _ _ cs_halt] arg_cong [of _ _ cs_seen])

lemma gate_of_put:
  "cs_seen t = dict_put key (h, r) (cs_seen s) \<Longrightarrow>
   gate_of t = \<lparr>gt_halted = sh_halted (cs_halt t), gt_answers = (gt_answers (gate_of s))(key \<mapsto> r)\<rparr>"
  by (auto simp: gate_of_def dict_simps)

lemma evaluate_gate: "gate_step (gate_of s) (K_evaluate now rq) (capital_out H (K_evaluate now rq) s)
  (gate_of (snd (capital_evaluate H now rq s)))"
proof -
  let ?t = "snd (capital_evaluate H now rq s)"
  have mono: "sh_halted (cs_halt s) \<Longrightarrow> sh_halted (cs_halt ?t)"
    using keeps_capital(1) [of now rq H] by (auto simp: keeps_def observes_def same_setup_def)
  show ?thesis
  proof (cases rule: capital_evaluate_cases [of H rq s now])
    case conflict
    then obtain h r where "dict_get (cs_seen s) (cr_idempotency_key rq) = Some (h, r)"
      by (auto simp: key_conflict_def split: option.splits)
    with conflict show ?thesis by (auto intro!: gate_step.known [of _ _ r] simp: gate_of_def)
  next
    case (stored r)
    from same_service_gate [OF stored(3)] have "gate_of ?t = gate_of s" .
    with stored show ?thesis by (auto intro!: gate_step.known [of _ _ r] simp: gate_of_def)
  next
    case (decided r s1)
    have new: "gt_answers (gate_of s) (cr_idempotency_key rq) = None" using decided(1) by (simp add: gate_of_def)
    have t: "gate_of ?t = gate_of s1" by (rule same_service_gate [OF decided(4)])
    have wf: "result_wf r" by (rule decide_wf [OF decided(2)])
    show ?thesis
    proof (cases "final_of r = CS_ERROR_FAIL_CLOSED")
      case True
      from memo_decide [of H rq now True True] decided(2)
      have "gt_answers (gate_of s1) \<in> {gt_answers (gate_of s), (gt_answers (gate_of s))(cr_idempotency_key rq \<mapsto> r)}"
        unfolding memoises_def same_seen_def
        by (auto simp: gate_of_def dict_simps fun_eq_iff dest!: spec [of _ s])
      then have "gate_step (gate_of s) (K_evaluate now rq) (Some r)
          \<lparr>gt_halted = sh_halted (cs_halt ?t), gt_answers = gt_answers (gate_of s1)\<rparr>"
        using new wf True mono by (intro gate_step.closed) (simp_all add: gate_of_def)
      moreover have "gate_of ?t = \<lparr>gt_halted = sh_halted (cs_halt ?t), gt_answers = gt_answers (gate_of s1)\<rparr>"
        using t by (simp add: gate_of_def)
      ultimately show ?thesis using decided(3) by simp
    next
      case False
      then have ne: "cd_final_decision (ce_decision r) \<noteq> CS_ERROR_FAIL_CLOSED" by (simp add: final_of_def)
      have put: "gate_of ?t = \<lparr>gt_halted = sh_halted (cs_halt ?t),
          gt_answers = (gt_answers (gate_of s))(cr_idempotency_key rq \<mapsto> r)\<rparr>"
      proof (rule gate_of_put)
        have "dict_get (cs_seen ?t) (cr_idempotency_key rq) \<noteq> None"
          using evaluate_stores [OF decided(1, 3) ne] by (metis option.distinct(1))
        then have "\<not> same_seen s ?t" using decided(1) by (auto simp: same_seen_def)
        with evaluate_seen [of s H now rq] decided(3)
        show "cs_seen ?t = dict_put (cr_idempotency_key rq) (H (HRequest rq), r) (cs_seen s)" by auto
      qed
      have halt: "sh_halted (cs_halt ?t) \<longleftrightarrow> gt_halted (gate_of s) \<or>
          final_of r \<in> {CS_BLOCKED_DRAWDOWN, CS_BLOCKED_SYSTEM}"
        using decide_trips [OF decided(2) ne] t by (simp add: gate_of_def final_of_def)
      have "gt_halted (gate_of s) \<Longrightarrow> final_of r = CS_BLOCKED_SYSTEM"
        using halted_decision [OF decided(2)] ne by (simp add: gate_of_def final_of_def)
      then have "gate_step (gate_of s) (K_evaluate now rq) (Some r) \<lparr>gt_halted = sh_halted (cs_halt ?t),
          gt_answers = (gt_answers (gate_of s))(cr_idempotency_key rq \<mapsto> r)\<rparr>"
        using new wf False halt by (intro gate_step.answer) assumption+
      with put decided(3) show ?thesis by simp
    qed
  next
    case (failed e r s1)
    have new: "gt_answers (gate_of s) (cr_idempotency_key rq) = None" using failed(1) by (simp add: gate_of_def)
    have "cs_seen ?t = cs_seen s"
      using memo_decide [of H rq now True True] failed(2, 5)
      by (auto simp: memoises_def same_seen_def same_service_def dest!: spec [of _ s] dest: arg_cong [of _ _ cs_seen])
    then have t: "gate_of ?t = \<lparr>gt_halted = sh_halted (cs_halt ?t), gt_answers = gt_answers (gate_of s)\<rparr>"
      by (simp add: gate_of_def)
    have "result_wf r" "final_of r = CS_ERROR_FAIL_CLOSED"
      using failed(3) by (simp_all add: closed_wf final_of_def closed_result_def)
    with new mono failed(4) show ?thesis
      unfolding t by (simp, intro gate_step.closed) (simp_all add: gate_of_def)
  qed
qed

text \<open>
  Claim C10. The capital service implements the abstract gate: whatever its state, every call and
  what it returns is a step of the gate between the abstractions of the states before and after.
\<close>

theorem capital_refines_gate:
  "gate_step (gate_of s) k (capital_out H k s) (gate_of (capital_do H k s))"
proof (cases k)
  case (K_evaluate now rq)
  with evaluate_gate [of s now rq H] show ?thesis by simp
next
  case (K_replay now r rq)
  let ?t = "snd (capital_replay H now r rq s)"
  have "gate_of ?t = (gate_of s)\<lparr>gt_halted := sh_halted (cs_halt ?t)\<rparr>"
    using replay_seen [of s H now r rq] by (simp add: gate_of_def same_seen_def)
  moreover have "sh_halted (cs_halt s) \<Longrightarrow> sh_halted (cs_halt ?t)"
    using keeps_capital(2) [of now rq H r] by (auto simp: keeps_def observes_def same_setup_def)
  then have "gate_step (gate_of s) (K_replay now r rq) None ((gate_of s)\<lparr>gt_halted := sh_halted (cs_halt ?t)\<rparr>)"
    by (intro gate_step.replay) (simp add: gate_of_def)
  ultimately show ?thesis using K_replay by simp
next
  case (K_trip reason)
  have "gate_of (snd (cs_trip reason s)) = (gate_of s)\<lparr>gt_halted := True\<rparr>"
    by (simp add: gate_of_def cs_trip_def run_simps halt_trip_def)
  with K_trip show ?thesis by (simp add: gate_step.trip)
next
  case (K_recover actor reason)
  have "gate_of (snd (cs_recover actor reason s)) =
      (if operator_recovery k then (gate_of s)\<lparr>gt_halted := False\<rparr> else gate_of s)"
    by (auto simp: K_recover gate_of_def cs_recover_def run_simps halt_recover_def)
  with K_recover show ?thesis by (auto simp del: operator_recovery.simps intro: gate_step.recover gate_step.refused)
next
  case (K_inject point)
  have "gate_of (s\<lparr>cs_inject_fault := point\<rparr>) = gate_of s" by (simp add: gate_of_def)
  with K_inject show ?thesis by (simp add: gate_step.inject)
qed

end
