(* ===== verification/PostTradeContracts.thy ===== *)
theory PostTradeContracts
  imports ExecContracts PyNumText
begin

section \<open>Contracts of post-trade monitoring\<close>

text \<open>
  \<^verbatim>\<open>contracts/v1/post_trade.py\<close> and \<^verbatim>\<open>pm6_post_trade/config/schema.py\<close>: the enumerations with their
  values, the frozen models as records (without the version field, which is constant, and the
  two evidence fields no code sets), the validators and the state tables of
  \<^verbatim>\<open>pm6_post_trade/domain/states.py\<close>.
\<close>

subsection \<open>Enumerations\<close>

datatype TruthSource =
    TS_LOCAL_OMS_TRUTH
  | TS_SIMULATION_TRUTH
  | TS_BROKER_TRUTH
  | TS_RECONCILED_TRUTH
  | TS_UNRESOLVED_MISMATCH
  | TS_UNKNOWN
  | TS_STALE

fun truth_value :: "TruthSource \<Rightarrow> string" where
  "truth_value TS_LOCAL_OMS_TRUTH = ''local_oms_truth''"
| "truth_value TS_SIMULATION_TRUTH = ''simulation_truth''"
| "truth_value TS_BROKER_TRUTH = ''broker_truth''"
| "truth_value TS_RECONCILED_TRUTH = ''reconciled_truth''"
| "truth_value TS_UNRESOLVED_MISMATCH = ''unresolved_mismatch''"
| "truth_value TS_UNKNOWN = ''unknown''"
| "truth_value TS_STALE = ''stale''"

datatype IntakeDisposition =
    ID_ACCEPTED
  | ID_QUARANTINED
  | ID_REJECTED
  | ID_DEGRADED
  | ID_REQUIRES_REVIEW

fun disposition_value :: "IntakeDisposition \<Rightarrow> string" where
  "disposition_value ID_ACCEPTED = ''accepted''"
| "disposition_value ID_QUARANTINED = ''quarantined''"
| "disposition_value ID_REJECTED = ''rejected''"
| "disposition_value ID_DEGRADED = ''degraded''"
| "disposition_value ID_REQUIRES_REVIEW = ''requires_review''"

datatype MonitoringState =
    MS_HEALTHY
  | MS_WATCH
  | MS_WARNING
  | MS_DEGRADED
  | MS_CRITICAL
  | MS_INCIDENT_ACTIVE
  | MS_WITHDRAWAL_IN_PROGRESS
  | MS_REVIEW_PENDING
  | MS_STABILIZED

fun monitoring_value :: "MonitoringState \<Rightarrow> string" where
  "monitoring_value MS_HEALTHY = ''healthy''"
| "monitoring_value MS_WATCH = ''watch''"
| "monitoring_value MS_WARNING = ''warning''"
| "monitoring_value MS_DEGRADED = ''degraded''"
| "monitoring_value MS_CRITICAL = ''critical''"
| "monitoring_value MS_INCIDENT_ACTIVE = ''incident_active''"
| "monitoring_value MS_WITHDRAWAL_IN_PROGRESS = ''withdrawal_in_progress''"
| "monitoring_value MS_REVIEW_PENDING = ''review_pending''"
| "monitoring_value MS_STABILIZED = ''stabilized''"

datatype IncidentState =
    IS_DETECTED
  | IS_TRIAGED
  | IS_CLASSIFIED
  | IS_ESCALATED
  | IS_CONTAINMENT_IN_PROGRESS
  | IS_REMEDIATION_IN_PROGRESS
  | IS_CONTAINED
  | IS_RESOLVED
  | IS_REVIEW_PENDING
  | IS_CLOSED
  | IS_TRANSFERRED_TO_PERSISTENCE

fun incident_state_value :: "IncidentState \<Rightarrow> string" where
  "incident_state_value IS_DETECTED = ''detected''"
| "incident_state_value IS_TRIAGED = ''triaged''"
| "incident_state_value IS_CLASSIFIED = ''classified''"
| "incident_state_value IS_ESCALATED = ''escalated''"
| "incident_state_value IS_CONTAINMENT_IN_PROGRESS = ''containment_in_progress''"
| "incident_state_value IS_REMEDIATION_IN_PROGRESS = ''remediation_in_progress''"
| "incident_state_value IS_CONTAINED = ''contained''"
| "incident_state_value IS_RESOLVED = ''resolved''"
| "incident_state_value IS_REVIEW_PENDING = ''review_pending''"
| "incident_state_value IS_CLOSED = ''closed''"
| "incident_state_value IS_TRANSFERRED_TO_PERSISTENCE = ''transferred_to_persistence''"

datatype IncidentCategory =
    IC_TECHNICAL
  | IC_EXECUTION
  | IC_RECONCILIATION
  | IC_RISK_CONTROL
  | IC_MONITORING
  | IC_GOVERNANCE
  | IC_OPERATOR
  | IC_CONDUCT
  | IC_DATA_QUALITY
  | IC_SECURITY
  | IC_RECOVERY

datatype IncidentType =
    IT_POST_TRADE_CONTROL_BREACH
  | IT_MONITORING_ALERT_BURST
  | IT_EXECUTION_ANOMALY
  | IT_RECONCILIATION_FOLLOWUP_REQUIRED
  | IT_KILL_STATE_BREACH
  | IT_ORDERLY_WITHDRAWAL_REQUIRED
  | IT_MANUAL_OVERRIDE_INCIDENT
  | IT_AUDIT_EVIDENCE_GAP
  | IT_VALIDATION_GAP
  | IT_UNEXPECTED_TRADING_CONTINUATION
  | IT_STALE_MONITORING_DATA
  | IT_TRUTH_PROVENANCE_CONFLICT
  | IT_REPEATED_EXECUTION_ANOMALY
  | IT_CONTROL_STATE_INCONSISTENCY

fun incident_type_value :: "IncidentType \<Rightarrow> string" where
  "incident_type_value IT_POST_TRADE_CONTROL_BREACH = ''post_trade_control_breach''"
| "incident_type_value IT_MONITORING_ALERT_BURST = ''monitoring_alert_burst''"
| "incident_type_value IT_EXECUTION_ANOMALY = ''execution_anomaly''"
| "incident_type_value IT_RECONCILIATION_FOLLOWUP_REQUIRED = ''reconciliation_followup_required''"
| "incident_type_value IT_KILL_STATE_BREACH = ''kill_state_breach''"
| "incident_type_value IT_ORDERLY_WITHDRAWAL_REQUIRED = ''orderly_withdrawal_required''"
| "incident_type_value IT_MANUAL_OVERRIDE_INCIDENT = ''manual_override_incident''"
| "incident_type_value IT_AUDIT_EVIDENCE_GAP = ''audit_evidence_gap''"
| "incident_type_value IT_VALIDATION_GAP = ''validation_gap''"
| "incident_type_value IT_UNEXPECTED_TRADING_CONTINUATION = ''unexpected_trading_continuation''"
| "incident_type_value IT_STALE_MONITORING_DATA = ''stale_monitoring_data''"
| "incident_type_value IT_TRUTH_PROVENANCE_CONFLICT = ''truth_provenance_conflict''"
| "incident_type_value IT_REPEATED_EXECUTION_ANOMALY = ''repeated_execution_anomaly''"
| "incident_type_value IT_CONTROL_STATE_INCONSISTENCY = ''control_state_inconsistency''"

datatype SeverityLevel =
    SV_INFO
  | SV_LOW
  | SV_MEDIUM
  | SV_HIGH
  | SV_CRITICAL

datatype EscalationRoute =
    ER_IMMEDIATE
  | ER_SAME_SESSION
  | ER_SAME_DAY
  | ER_SCHEDULED_REVIEW

datatype WithdrawalState =
    WS_NOT_REQUIRED
  | WS_RECOMMENDED
  | WS_APPROVAL_PENDING
  | WS_INITIATED
  | WS_IN_PROGRESS
  | WS_CONFIRMED
  | WS_COMPLETED
  | WS_FAILED
  | WS_MANUAL_REVIEW

fun withdrawal_value :: "WithdrawalState \<Rightarrow> string" where
  "withdrawal_value WS_NOT_REQUIRED = ''not_required''"
| "withdrawal_value WS_RECOMMENDED = ''recommended''"
| "withdrawal_value WS_APPROVAL_PENDING = ''approval_pending''"
| "withdrawal_value WS_INITIATED = ''initiated''"
| "withdrawal_value WS_IN_PROGRESS = ''in_progress''"
| "withdrawal_value WS_CONFIRMED = ''confirmed''"
| "withdrawal_value WS_COMPLETED = ''completed''"
| "withdrawal_value WS_FAILED = ''failed''"
| "withdrawal_value WS_MANUAL_REVIEW = ''manual_review''"

datatype GovernanceReviewState =
    GR_SCHEDULED
  | GR_IN_REVIEW
  | GR_EVIDENCE_COMPILED
  | GR_DECISION_PENDING
  | GR_APPROVED
  | GR_REMEDIATION_REQUIRED
  | GR_CLOSED

datatype LaneKind =
    LK_OPERATOR
  | LK_CONTROL

datatype ControlRequestKind =
    CQ_FREEZE
  | CQ_CLOSE_ONLY
  | CQ_NO_NEW_RISK
  | CQ_CANCEL_WORKING
  | CQ_MANUAL_REVIEW
  | CQ_ORDERLY_WITHDRAWAL

text \<open>The values of the execution enumerations that the monitor prints.\<close>

fun exec_mode_value :: "ExecutionMode \<Rightarrow> string" where
  "exec_mode_value EM_DISABLED = ''disabled''"
| "exec_mode_value EM_SHADOW = ''shadow''"
| "exec_mode_value EM_SIMULATION = ''simulation''"
| "exec_mode_value EM_DEMO_CANDIDATE = ''demo_candidate''"
| "exec_mode_value EM_DEMO_ENABLED = ''demo_enabled''"
| "exec_mode_value EM_LIVE = ''live''"
fun recon_value :: "ReconciliationOutcome \<Rightarrow> string" where
  "recon_value RO_PASS = ''pass''"
| "recon_value RO_MISMATCH = ''mismatch''"
| "recon_value RO_DEGRADED = ''degraded''"
| "recon_value RO_CRITICAL = ''critical''"
fun operating_value :: "Pm5OperatingState \<Rightarrow> string" where
  "operating_value OS_NORMAL = ''normal''"
| "operating_value OS_THROTTLED = ''throttled''"
| "operating_value OS_DEGRADED = ''degraded''"
| "operating_value OS_RECONCILIATION_WARNING = ''reconciliation_warning''"
| "operating_value OS_RECONCILIATION_CRITICAL = ''reconciliation_critical''"
| "operating_value OS_CLOSE_ONLY = ''close_only''"
| "operating_value OS_FREEZE_NEW_ORDERS = ''freeze_new_orders''"
| "operating_value OS_EMERGENCY_CANCEL = ''emergency_cancel''"
| "operating_value OS_MANUAL_REVIEW_REQUIRED = ''manual_review_required''"
| "operating_value OS_ORDERLY_WITHDRAWAL = ''orderly_withdrawal''"
| "operating_value OS_RECOVERY_REPLAY = ''recovery_replay''"
| "operating_value OS_RECOVERED = ''recovered''"

subsection \<open>Models\<close>

text \<open>The measurements a finding carries: a printed decimal, a count, a flag.\<close>

datatype reading = M_dec dec | M_int int | M_flag bool

text \<open>A line of the timeline: the instant it starts with and the text after it.\<close>

type_synonym timeline_line = "datetime \<times> string"

record IntakeRecord =
  ir_disposition :: IntakeDisposition
  ir_reasons :: "string list"
  ir_detail :: string
  ir_source :: string
  ir_event_id :: "uuid option"
  ir_trace_id :: "uuid option"
  ir_occurred_at :: "datetime option"

record LaneSummary =
  ln_lane :: LaneKind
  ln_as_of :: datetime
  ln_priority :: SeverityLevel
  ln_headline :: string
  ln_items :: "string list"
  ln_recommended_action :: string
  ln_incident_count :: nat
  ln_alert_count :: nat

record PostTradeAlert =
  al_alert_id :: uuid
  al_occurred_at :: datetime
  al_created_at :: datetime
  al_observed_at :: datetime
  al_category :: string
  al_severity :: SeverityLevel
  al_source :: string
  al_detector :: string
  al_detector_version :: string
  al_description :: string
  al_evidence_refs :: "string list"
  al_linked_events :: "uuid list"
  al_linked_orders :: "uuid list"
  al_scope :: string
  al_threshold :: "(string, reading) dict"
  al_observed :: "(string, reading) dict"
  al_recommended_action :: string
  al_auto_action_status :: string
  al_truth_source :: TruthSource
  al_fingerprint :: string
  al_suppressed :: bool
  al_suppress_count :: nat
  al_correlation_id :: "uuid option"
  al_trace_id :: "uuid option"

record IncidentRecord =
  ic_incident_id :: uuid
  ic_occurred_at :: datetime
  ic_updated_at :: datetime
  ic_incident_type :: IncidentType
  ic_category :: IncidentCategory
  ic_severity :: SeverityLevel
  ic_state :: IncidentState
  ic_root_cause_hypothesis :: string
  ic_linked_alerts :: "uuid list"
  ic_linked_execution_events :: "uuid list"
  ic_linked_control_events :: "uuid list"
  ic_linked_operator_actions :: "uuid list"
  ic_affected_scope :: string
  ic_owner :: string
  ic_containment_status :: string
  ic_remediation_status :: string
  ic_closure_criteria :: string
  ic_review_status :: string
  ic_truth_source :: TruthSource
  ic_detail :: string
  ic_suppressed :: bool
  ic_suppress_reason :: "string option"

record EscalationAction =
  ea_escalation_id :: uuid
  ea_occurred_at :: datetime
  ea_route :: EscalationRoute
  ea_target_role :: string
  ea_incident_id :: uuid
  ea_required_response :: string
  ea_deadline_seconds :: int
  ea_severity :: SeverityLevel
  ea_reason :: string
  ea_status :: string
  ea_actor :: string

record RemediationTask =
  rt_task_id :: uuid
  rt_occurred_at :: datetime
  rt_incident_id :: uuid
  rt_action :: string
  rt_owner :: string
  rt_priority :: SeverityLevel
  rt_due_seconds :: int
  rt_closure_criteria :: string
  rt_status :: string
  rt_evidence_required :: bool

record ControlRequest =
  ct_request_id :: uuid
  ct_occurred_at :: datetime
  ct_kind :: ControlRequestKind
  ct_scope :: string
  ct_scope_id :: "string option"
  ct_reason :: string
  ct_actor :: string
  ct_approval_required :: bool
  ct_broker_command :: bool
  ct_status :: string

record OrderlyWithdrawalPlan =
  wp_withdrawal_id :: uuid
  wp_occurred_at :: datetime
  wp_scope :: string
  wp_trigger_reason :: string
  wp_severity :: SeverityLevel
  wp_steps :: "string list"
  wp_pm5_request :: "ControlRequest option"
  wp_close_only :: bool
  wp_no_new_risk :: bool
  wp_expected_transitions :: "string list"
  wp_confirmation_criteria :: string
  wp_approval_required :: bool
  wp_state :: WithdrawalState
  wp_confirmed :: bool
  wp_detail :: string

record AuditEvidenceBundle =
  av_evidence_id :: uuid
  av_occurred_at :: datetime
  av_events :: "(IntakeDisposition \<times> string list) list"
    av_incident_ids :: "uuid list"
  av_timeline :: "timeline_line list"
  av_provenance :: TruthSource
  av_policy_version :: string
  av_fingerprint :: string
  av_persistence_handoff :: string
  av_durable :: bool

record GovernanceReviewPacket =
  gp_packet_id :: uuid
  gp_generated_at :: datetime
  gp_period :: string
  gp_kind :: string
  gp_incident_trends :: "(string, nat) dict"
  gp_alert_trends :: "(string, nat) dict"
  gp_unresolved :: nat
  gp_control_trigger_counts :: "(string, nat) dict"
  gp_false_positive_observations :: string
  gp_review_flags :: "string list"
  gp_validation_notes :: string
  gp_recommendations :: "string list"
  gp_state :: GovernanceReviewState

record ValidationReviewPacket =
  vp_packet_id :: uuid
  vp_generated_at :: datetime
  vp_rule_performance :: "(string, nat) dict"
  vp_alert_precision :: string
  vp_false_positive :: string
  vp_false_negative :: string
  vp_missed_event :: string
  vp_control_calibration :: string
  vp_data_quality_issues :: "string list"
  vp_recommended_tuning :: "string list"
  vp_review_state :: GovernanceReviewState
  vp_sample_size :: nat

record MonitoringSnapshot =
  ms_monitoring_id :: uuid
  ms_as_of :: datetime
  ms_state :: MonitoringState
  ms_execution_mode :: string
  ms_truth_source :: TruthSource
  ms_active_controls :: "string list"
  ms_open_orders :: nat
  ms_fills :: nat
  ms_positions :: nat
  ms_exposure :: dec
  ms_alert_count :: nat
  ms_incident_count :: nat
  ms_drift_status :: string
  ms_reconciliation_status :: string
  ms_broker_truth_available :: bool
  ms_operational_status :: string
  ms_freshness_seconds :: int
  ms_last_event_at :: "datetime option"
  ms_stale :: bool
  ms_durable :: bool
  ms_producer :: string

record OperationalTruthBundle =
  ot_bundle_id :: uuid
  ot_occurred_at :: datetime
  ot_intake :: IntakeRecord
  ot_snapshot :: MonitoringSnapshot
  ot_operator_lane :: LaneSummary
  ot_control_lane :: LaneSummary
  ot_alerts :: "PostTradeAlert list"
  ot_incidents :: "IncidentRecord list"
  ot_escalations :: "EscalationAction list"
  ot_remediation :: "RemediationTask list"
  ot_withdrawal :: "OrderlyWithdrawalPlan option"
  ot_control_requests :: "ControlRequest list"
  ot_evidence :: "AuditEvidenceBundle option"
  ot_governance :: "GovernanceReviewPacket option"
  ot_validation :: "ValidationReviewPacket option"
  ot_execution_mode :: string
  ot_truth_source :: TruthSource
  ot_broker_side_effect :: bool
  ot_mt5_used :: bool
  ot_durable :: bool
  ot_producer :: string

text \<open>The model validators.\<close>

definition no_broker :: "ControlRequest \<Rightarrow> ControlRequest res" where
  "no_broker r =
     raise_if (ct_broker_command r) (ValueError ''PM6 ControlRequest cannot be a broker command'') (Inr r)"

definition complete_needs_confirm :: "OrderlyWithdrawalPlan \<Rightarrow> OrderlyWithdrawalPlan res" where
  "complete_needs_confirm p =
     raise_if (wp_state p = WS_COMPLETED \<and> \<not> wp_confirmed p)
       (ValueError ''withdrawal cannot complete without confirmation'') (Inr p)"

definition truth_safety :: "OperationalTruthBundle \<Rightarrow> OperationalTruthBundle res" where
  "truth_safety b =
     raise_if (ot_mt5_used b) (ValueError ''Sequence 08 forbids mt5_used=true'')
     (raise_if (ot_broker_side_effect b) (ValueError ''Sequence 08 forbids broker_side_effect=true'')
     (raise_if (ot_truth_source b = TS_BROKER_TRUTH) (ValueError ''Sequence 08 has no broker truth'')
     (raise_if (ot_durable b) (ValueError ''PM6 evidence is non-durable before PM7'') (Inr b))))"

subsection \<open>State tables\<close>

definition INCIDENT_TRANSITIONS :: "(IncidentState \<times> IncidentState list) list" where
  "INCIDENT_TRANSITIONS =
    [(IS_DETECTED, [IS_TRIAGED, IS_TRANSFERRED_TO_PERSISTENCE]),
     (IS_TRIAGED, [IS_CLASSIFIED, IS_TRANSFERRED_TO_PERSISTENCE]),
     (IS_CLASSIFIED, [IS_ESCALATED, IS_REMEDIATION_IN_PROGRESS, IS_CONTAINMENT_IN_PROGRESS,
        IS_TRANSFERRED_TO_PERSISTENCE]),
     (IS_ESCALATED, [IS_CONTAINMENT_IN_PROGRESS, IS_REMEDIATION_IN_PROGRESS, IS_TRANSFERRED_TO_PERSISTENCE]),
     (IS_CONTAINMENT_IN_PROGRESS, [IS_CONTAINED, IS_REMEDIATION_IN_PROGRESS, IS_TRANSFERRED_TO_PERSISTENCE]),
     (IS_REMEDIATION_IN_PROGRESS, [IS_CONTAINED, IS_RESOLVED, IS_TRANSFERRED_TO_PERSISTENCE]),
     (IS_CONTAINED, [IS_REMEDIATION_IN_PROGRESS, IS_RESOLVED, IS_TRANSFERRED_TO_PERSISTENCE]),
     (IS_RESOLVED, [IS_REVIEW_PENDING, IS_CLOSED, IS_TRANSFERRED_TO_PERSISTENCE]),
     (IS_REVIEW_PENDING, [IS_CLOSED, IS_REMEDIATION_IN_PROGRESS, IS_TRANSFERRED_TO_PERSISTENCE]),
     (IS_CLOSED, []), (IS_TRANSFERRED_TO_PERSISTENCE, [IS_CLOSED])]"

definition WITHDRAWAL_TRANSITIONS :: "(WithdrawalState \<times> WithdrawalState list) list" where
  "WITHDRAWAL_TRANSITIONS =
    [(WS_NOT_REQUIRED, [WS_RECOMMENDED]), (WS_RECOMMENDED, [WS_APPROVAL_PENDING, WS_MANUAL_REVIEW]),
     (WS_APPROVAL_PENDING, [WS_INITIATED, WS_MANUAL_REVIEW, WS_FAILED]),
     (WS_INITIATED, [WS_IN_PROGRESS, WS_FAILED, WS_MANUAL_REVIEW]),
     (WS_IN_PROGRESS, [WS_CONFIRMED, WS_FAILED, WS_MANUAL_REVIEW]), (WS_CONFIRMED, [WS_COMPLETED, WS_FAILED]),
     (WS_COMPLETED, []), (WS_FAILED, [WS_MANUAL_REVIEW, WS_RECOMMENDED]),
     (WS_MANUAL_REVIEW, [WS_RECOMMENDED, WS_APPROVAL_PENDING])]"

definition GOVERNANCE_TRANSITIONS :: "(GovernanceReviewState \<times> GovernanceReviewState list) list" where
  "GOVERNANCE_TRANSITIONS =
    [(GR_SCHEDULED, [GR_IN_REVIEW, GR_EVIDENCE_COMPILED]), (GR_IN_REVIEW, [GR_EVIDENCE_COMPILED, GR_DECISION_PENDING]),
     (GR_EVIDENCE_COMPILED, [GR_DECISION_PENDING]), (GR_DECISION_PENDING, [GR_APPROVED, GR_REMEDIATION_REQUIRED]),
     (GR_APPROVED, [GR_CLOSED]), (GR_REMEDIATION_REQUIRED, [GR_IN_REVIEW, GR_CLOSED]), (GR_CLOSED, [])]"

definition can_incident :: "IncidentState \<Rightarrow> IncidentState \<Rightarrow> bool" where
  "can_incident current target \<longleftrightarrow>
     (case map_of INCIDENT_TRANSITIONS current of None \<Rightarrow> False | Some ts \<Rightarrow> target \<in> set ts)"

definition can_withdrawal :: "WithdrawalState \<Rightarrow> WithdrawalState \<Rightarrow> bool" where
  "can_withdrawal current target \<longleftrightarrow>
     (case map_of WITHDRAWAL_TRANSITIONS current of None \<Rightarrow> False | Some ts \<Rightarrow> target \<in> set ts)"

fun MONITORING_RANK :: "MonitoringState \<Rightarrow> nat" where
  "MONITORING_RANK MS_HEALTHY = 0"
| "MONITORING_RANK MS_STABILIZED = 1"
| "MONITORING_RANK MS_WATCH = 2"
| "MONITORING_RANK MS_WARNING = 3"
| "MONITORING_RANK MS_DEGRADED = 4"
| "MONITORING_RANK MS_REVIEW_PENDING = 5"
| "MONITORING_RANK MS_INCIDENT_ACTIVE = 6"
| "MONITORING_RANK MS_WITHDRAWAL_IN_PROGRESS = 7"
| "MONITORING_RANK MS_CRITICAL = 8"

definition worse :: "MonitoringState \<Rightarrow> MonitoringState \<Rightarrow> MonitoringState" where
  "worse a b = (if MONITORING_RANK a \<ge> MONITORING_RANK b then a else b)"

fun SEVERITY_RANK :: "SeverityLevel \<Rightarrow> nat" where
  "SEVERITY_RANK SV_INFO = 0"
| "SEVERITY_RANK SV_LOW = 1"
| "SEVERITY_RANK SV_MEDIUM = 2"
| "SEVERITY_RANK SV_HIGH = 3"
| "SEVERITY_RANK SV_CRITICAL = 4"

definition worse_severity :: "SeverityLevel \<Rightarrow> SeverityLevel \<Rightarrow> SeverityLevel" where
  "worse_severity a b = (if SEVERITY_RANK a \<ge> SEVERITY_RANK b then a else b)"

subsection \<open>Configuration\<close>

record Pm6PostTradeConfig =
  pc_operating_mode :: string
  pc_observe_only :: bool
  pc_freshness_ttl_seconds :: int
  pc_stale_ttl_seconds :: int
  pc_alert_dedup_seconds :: int
  pc_incident_correlation_seconds :: int
  pc_submit_burst :: nat
  pc_reject_burst :: nat
  pc_cancel_burst :: nat
  pc_fill_burst :: nat
  pc_burst_window_seconds :: int
  pc_silence_seconds :: int
  pc_quantity_drift_bps :: int
  pc_escalation_critical_seconds :: int
  pc_escalation_high_seconds :: int
  pc_require_withdrawal_approval :: bool
  pc_require_withdrawal_confirmation :: bool
  pc_auto_rearm :: bool
  pc_auto_complete_withdrawal :: bool
  pc_mt5_enabled :: bool
  pc_broker_commands :: bool
  pc_durable :: bool
  pc_telemetry_verbose :: bool
  pc_surveillance_enabled :: bool
  pc_incident_response_enabled :: bool
  pc_governance_enabled :: bool
  pc_withdrawal_planner_enabled :: bool

definition pm6_config_ok :: "Pm6PostTradeConfig \<Rightarrow> bool" where
  "pm6_config_ok c \<longleftrightarrow>
     pc_operating_mode c \<in> {''disabled'', ''shadow'', ''observe''} \<and>
     1 \<le> pc_freshness_ttl_seconds c \<and> 60 \<le> pc_stale_ttl_seconds c \<and> 1 \<le> pc_alert_dedup_seconds c \<and>
     1 \<le> pc_incident_correlation_seconds c \<and> 1 \<le> pc_submit_burst c \<and> 1 \<le> pc_reject_burst c \<and>
     1 \<le> pc_cancel_burst c \<and> 1 \<le> pc_fill_burst c \<and> 1 \<le> pc_burst_window_seconds c \<and>
     1 \<le> pc_silence_seconds c \<and> 0 \<le> pc_quantity_drift_bps c \<and> 0 \<le> pc_escalation_critical_seconds c \<and>
     0 \<le> pc_escalation_high_seconds c \<and>
     \<not> pc_auto_rearm c \<and> \<not> pc_mt5_enabled c \<and> \<not> pc_broker_commands c \<and> \<not> pc_durable c \<and>
     \<not> pc_auto_complete_withdrawal c"

definition pm6_config_default :: Pm6PostTradeConfig where
  "pm6_config_default =
     \<lparr>pc_operating_mode = ''shadow'', pc_observe_only = True, pc_freshness_ttl_seconds = 300,
      pc_stale_ttl_seconds = 14400, pc_alert_dedup_seconds = 60, pc_incident_correlation_seconds = 300,
      pc_submit_burst = 8, pc_reject_burst = 6, pc_cancel_burst = 12, pc_fill_burst = 8,
      pc_burst_window_seconds = 60, pc_silence_seconds = 600, pc_quantity_drift_bps = 0,
      pc_escalation_critical_seconds = 0, pc_escalation_high_seconds = 300,
      pc_require_withdrawal_approval = True, pc_require_withdrawal_confirmation = True,
      pc_auto_rearm = False, pc_auto_complete_withdrawal = False, pc_mt5_enabled = False,
      pc_broker_commands = False, pc_durable = False, pc_telemetry_verbose = True,
      pc_surveillance_enabled = True, pc_incident_response_enabled = True, pc_governance_enabled = True,
      pc_withdrawal_planner_enabled = True\<rparr>"

lemma pm6_config_default_ok: "pm6_config_ok pm6_config_default"
  by (simp add: pm6_config_ok_def pm6_config_default_def)

end
