(* ===== verification/PostTradeServices.thy ===== *)
theory PostTradeServices
  imports PostTradeContracts
begin

section \<open>The services of post-trade monitoring\<close>

text \<open>
  What \<^verbatim>\<open>PM6PostTradeModule.observe\<close> calls: the intake of \<^verbatim>\<open>pm6_post_trade/intake\<close>, the control
  evaluation, freshness, snapshot and lanes of \<^verbatim>\<open>monitoring\<close>, the detectors and the alert
  deduplication of \<^verbatim>\<open>surveillance\<close>, the incident classifier and lifecycle, escalation,
  remediation, the withdrawal planner and the governance packets. A service that draws an
  identifier takes it as an argument; a schema version or an execution mode that its type makes
  constant or non-empty is not checked again.
\<close>

subsection \<open>Intake\<close>

text \<open>\<^verbatim>\<open>ticket and str(ticket).startswith("SIM-")\<close>\<close>

definition sim_ticketed :: "ExecutionPublicationBundle \<Rightarrow> bool" where
  "sim_ticketed b =
     (case eb_order b of None \<Rightarrow> False
      | Some r \<Rightarrow> (case broker_ticket r of None \<Rightarrow> False | Some t \<Rightarrow> take 4 t = ''SIM-''))"

definition broker_truth :: "ExecutionPublicationBundle \<Rightarrow> bool" where
  "broker_truth b =
     (case eb_reconciliation b of None \<Rightarrow> False | Some r \<Rightarrow> rc_broker_truth_available r)"

text \<open>The trace of an execution bundle: its order's correlation or the receipt's order.\<close>

definition execution_trace :: "ExecutionPublicationBundle \<Rightarrow> uuid option" where
  "execution_trace b =
     (case eb_order b of Some r \<Rightarrow> Some (correlation_id r) | None \<Rightarrow> rp_order_id (eb_receipt b))"

definition execution_reasons :: "ExecutionPublicationBundle \<Rightarrow> string list" where
  "execution_reasons b =
     reason_if (execution_trace b = None) ''missing_trace'' @
     reason_if (sim_ticketed b \<and> broker_truth b) ''sim_labelled_broker_truth'' @
     reason_if (sim_ticketed b \<and> \<not> rp_simulation (eb_receipt b)) ''sim_labelled_broker_truth'' @
     reason_if (eb_mt5_used b \<or> eb_broker_side_effect b) ''broker_side_effect_forbidden'' @
     reason_if (eb_execution_mode b = EM_LIVE) ''live_blocked''"

definition risk_reasons :: "RiskPublicationBundle \<Rightarrow> string list" where
  "risk_reasons r = reason_if (\<not> truthy (rb_idempotency_key r)) ''missing_trace''"

definition time_reasons :: "Pm6PostTradeConfig \<Rightarrow> datetime \<Rightarrow> datetime \<Rightarrow> string list \<times> IntakeDisposition" where
  "time_reasons c now stamp =
     (if stamp > now then ([''future_dated''], ID_REJECTED)
      else if now - stamp > seconds (pc_stale_ttl_seconds c) then ([''stale''], ID_QUARANTINED)
      else ([], ID_ACCEPTED))"

text \<open>The disposition after the time checks, from the reasons found.\<close>

definition settle_disposition :: "string list \<Rightarrow> IntakeDisposition \<Rightarrow> IntakeDisposition" where
  "settle_disposition reasons d =
     (if ''sim_labelled_broker_truth'' \<in> set reasons \<or> ''broker_side_effect_forbidden'' \<in> set reasons
      then ID_REJECTED
      else if ''live_blocked'' \<in> set reasons then ID_REJECTED
      else if ''missing_trace'' \<in> set reasons then (if d = ID_ACCEPTED then ID_REJECTED else d)
      else d)"

definition validate_observe ::
  "ExecutionPublicationBundle option \<Rightarrow> RiskPublicationBundle option \<Rightarrow> datetime \<Rightarrow> Pm6PostTradeConfig \<Rightarrow>
   bool \<Rightarrow> IntakeRecord" where
  "validate_observe execution risk now c feature_enabled =
     (if \<not> feature_enabled
      then \<lparr>ir_disposition = ID_REJECTED, ir_reasons = [''feature_disabled''],
            ir_detail = ''enable_pm6_post_trade is off'', ir_source = ''pm6_post_trade'',
            ir_event_id = None, ir_trace_id = None, ir_occurred_at = Some now\<rparr>
      else if execution = None \<and> risk = None
      then \<lparr>ir_disposition = ID_QUARANTINED, ir_reasons = [''missing_source''],
            ir_detail = ''neither PM5 nor PM4 payload provided'', ir_source = ''pm6_post_trade'',
            ir_event_id = None, ir_trace_id = None, ir_occurred_at = Some now\<rparr>
      else
        (let stamp = (case execution of Some e \<Rightarrow> eb_occurred_at e | None \<Rightarrow> rb_occurred_at (the risk));
             event = (case execution of Some e \<Rightarrow> eb_bundle_id e | None \<Rightarrow> bundle_id (the risk));
             trace0 = Option.bind execution execution_trace;
             trace = (if trace0 = None then map_option rb_correlation_id risk else trace0);
             found = (case execution of None \<Rightarrow> [] | Some e \<Rightarrow> execution_reasons e) @
                     (case risk of None \<Rightarrow> [] | Some r \<Rightarrow> risk_reasons r);
             (late, d0) = time_reasons c now stamp;
             d1 = settle_disposition (found @ late) d0;
             degraded = (d1 = ID_ACCEPTED \<and> (case execution of None \<Rightarrow> False | Some e \<Rightarrow> \<not> broker_truth e));
             reasons = fromkeys (found @ late @ reason_if degraded ''broker_truth_unavailable'')
         in \<lparr>ir_disposition = (if degraded then ID_DEGRADED else d1), ir_reasons = reasons,
             ir_detail = (if reasons = [] then ''accepted'' else join '','' reasons),
             ir_source = ''pm6_post_trade'', ir_event_id = Some event, ir_trace_id = trace,
             ir_occurred_at = Some now\<rparr>))"

definition classify_truth :: "ExecutionPublicationBundle option \<Rightarrow> TruthSource" where
  "classify_truth bundle =
     (case bundle of
        None \<Rightarrow> TS_UNKNOWN
      | Some b \<Rightarrow>
          (let recon = eb_reconciliation b in
           if recon \<noteq> None \<and> rc_outcome (the recon) \<in> {RO_MISMATCH, RO_CRITICAL} then TS_UNRESOLVED_MISMATCH
           else if sim_ticketed b then TS_SIMULATION_TRUTH
           else if eb_execution_mode b = EM_SIMULATION \<or> rp_simulation (eb_receipt b) then TS_SIMULATION_TRUTH
           else if recon \<noteq> None \<and> rc_broker_truth_available (the recon) \<and> rc_outcome (the recon) = RO_PASS
           then TS_RECONCILED_TRUTH
           else if eb_order b \<noteq> None then TS_LOCAL_OMS_TRUTH
           else TS_UNKNOWN))"

definition approved_qty :: "ExecutionPublicationBundle \<Rightarrow> dec option" where
  "approved_qty b =
     (case eb_command b of
        Some c \<Rightarrow> Some (cm_approved_quantity c)
      | None \<Rightarrow> map_option original_quantity (eb_order b))"

fun fill_total :: "FillEvent list \<Rightarrow> dec option \<Rightarrow> dec option" where
  "fill_total [] acc = acc"
| "fill_total (f # fs) None = fill_total fs (Some (fl_quantity f))"
| "fill_total (f # fs) (Some t) = fill_total fs (Some (dadd t (fl_quantity f)))"

definition filled_qty :: "ExecutionPublicationBundle \<Rightarrow> dec option" where
  "filled_qty b = (case eb_order b of Some r \<Rightarrow> Some (filled_quantity r) | None \<Rightarrow> fill_total (eb_fills b) None)"

definition risk_kill_latched :: "RiskPublicationBundle option \<Rightarrow> bool" where
  "risk_kill_latched bundle =
     (case bundle of None \<Rightarrow> False | Some b \<Rightarrow> ks_status (rb_kill_switch b) \<in> {KILL_TRIPPED, KILL_LATCHED})"

definition freeze_or_halt :: "RiskPublicationBundle option \<Rightarrow> bool" where
  "freeze_or_halt bundle =
     (case bundle of None \<Rightarrow> False
      | Some b \<Rightarrow> rv_status (rb_verdict b) = HALT \<or>
          ac_decision (rb_admission b) \<in> {AD_FREEZE, AD_KILL_PROTECTED})"

record NormalizedObserve =
  ob_execution :: "ExecutionPublicationBundle option"
  ob_risk :: "RiskPublicationBundle option"
  ob_truth :: TruthSource
  ob_kill :: bool
  ob_freeze :: bool
  ob_approved :: "dec option"
  ob_filled :: "dec option"
  ob_symbol :: "string option"
  ob_now :: datetime

definition normalize_observe ::
  "ExecutionPublicationBundle option \<Rightarrow> RiskPublicationBundle option \<Rightarrow> datetime \<Rightarrow> NormalizedObserve" where
  "normalize_observe execution risk now =
     \<lparr>ob_execution = execution, ob_risk = risk, ob_truth = classify_truth execution,
      ob_kill = risk_kill_latched risk, ob_freeze = freeze_or_halt risk,
      ob_approved = Option.bind execution approved_qty, ob_filled = Option.bind execution filled_qty,
      ob_symbol = (case Option.bind execution eb_order of
                     Some r \<Rightarrow> Some (symbol r) | None \<Rightarrow> map_option rb_symbol risk),
      ob_now = now\<rparr>"

subsection \<open>Findings\<close>

record Finding =
  fd_detector :: string
  fd_category :: string
  fd_severity :: SeverityLevel
  fd_description :: string
  fd_recommended_action :: string
  fd_incident_type :: "IncidentType option"
  fd_observed :: "(string, reading) dict"
  fd_threshold :: "(string, reading) dict"
  fd_scope :: string
  fd_auto_action :: string
  fd_fingerprint :: string

text \<open>A finding with the defaults of the dataclass.\<close>

definition finding ::
  "string \<Rightarrow> string \<Rightarrow> SeverityLevel \<Rightarrow> string \<Rightarrow> string \<Rightarrow> IncidentType \<Rightarrow> string \<Rightarrow> Finding" where
  "finding det cat sev desc action itype fp =
     \<lparr>fd_detector = det, fd_category = cat, fd_severity = sev, fd_description = desc,
      fd_recommended_action = action, fd_incident_type = Some itype, fd_observed = [], fd_threshold = [],
      fd_scope = ''account'', fd_auto_action = ''none'', fd_fingerprint = fp\<rparr>"

definition fp_of :: "string \<Rightarrow> string \<Rightarrow> string" where
  "fp_of label part = label @ ''|'' @ part"

definition order_part :: "OrderRecord option \<Rightarrow> string" where
  "order_part x = (case x of None \<Rightarrow> ''none'' | Some r \<Rightarrow> uuid_str (order_id r))"

definition inactive_states :: "ExecutionLifecycleState list" where
  "inactive_states = [REJECTED, CANCELLED, EXPIRED, BLOCKED]"

definition order_working :: "ExecutionPublicationBundle \<Rightarrow> bool" where
  "order_working e = (case eb_order e of None \<Rightarrow> False | Some r \<Rightarrow> state r \<notin> set inactive_states)"

definition truth_findings :: "ExecutionPublicationBundle \<Rightarrow> Finding list" where
  "truth_findings e =
     reason_if (sim_ticketed e \<and> broker_truth e)
       (finding ''sim_as_broker'' ''data-quality'' SV_CRITICAL
          ''SIM-* ticket presented with broker_truth_available'' ''quarantine_and_review''
          IT_TRUTH_PROVENANCE_CONFLICT (fp_of ''sim_as_broker'' (the (broker_ticket (the (eb_order e))))))"

definition drift_findings :: "NormalizedObserve \<Rightarrow> ExecutionPublicationBundle \<Rightarrow> Finding list" where
  "drift_findings obs e =
     (case (ob_approved obs, ob_filled obs) of
        (Some a, Some f) \<Rightarrow>
          reason_if (f > a)
            ((finding ''quantity_drift'' ''execution'' SV_HIGH
                ''filled quantity exceeds PM4/PM5 approved quantity'' ''contain_and_review''
                IT_POST_TRADE_CONTROL_BREACH (fp_of ''quantity_drift'' (order_part (eb_order e))))
             \<lparr>fd_observed := [(''approved'', M_dec a), (''filled'', M_dec f)]\<rparr>)
      | _ \<Rightarrow> [])"

definition kill_findings :: "NormalizedObserve \<Rightarrow> ExecutionPublicationBundle \<Rightarrow> Finding list" where
  "kill_findings obs e =
     (if ob_kill obs \<and> accepted (eb_receipt e) \<and> order_working e
      then [finding ''execution_after_kill'' ''risk/control'' SV_CRITICAL
              ''execution activity after kill-switch latch'' ''emergency_containment''
              IT_KILL_STATE_BREACH (fp_of ''kill_breach'' (order_part (eb_order e))),
            finding ''unexpected_continuation'' ''execution'' SV_CRITICAL
              ''trading continuation while kill is latched'' ''orderly_withdrawal''
              IT_UNEXPECTED_TRADING_CONTINUATION (fp_of ''continuation'' (order_part (eb_order e)))]
      else []) @
     reason_if (ob_freeze obs \<and> accepted (eb_receipt e) \<and> order_working e \<and> \<not> ob_kill obs)
       (finding ''execution_after_freeze'' ''risk/control'' SV_HIGH
          ''execution activity after freeze/halt admission'' ''freeze_and_review''
          IT_CONTROL_STATE_INCONSISTENCY (fp_of ''freeze_breach'' (order_part (eb_order e))))"

definition recon_findings :: "ExecutionPublicationBundle \<Rightarrow> Finding list" where
  "recon_findings e =
     (case eb_reconciliation e of
        None \<Rightarrow> []
      | Some r \<Rightarrow>
          (if rc_outcome r = RO_CRITICAL
           then [finding ''recon_critical'' ''reconciliation'' SV_CRITICAL ''critical reconciliation mismatch''
                   ''block_new_and_recover'' IT_RECONCILIATION_FOLLOWUP_REQUIRED
                   (fp_of ''recon_critical'' (uuid_str (record_id r)))]
           else if rc_outcome r = RO_MISMATCH
           then [finding ''recon_mismatch'' ''reconciliation'' SV_HIGH
                   ''local versus claimed broker state mismatch'' ''manual_review''
                   IT_RECONCILIATION_FOLLOWUP_REQUIRED (fp_of ''recon_mismatch'' (uuid_str (record_id r)))]
           else []) @
          (case eb_order e of
             None \<Rightarrow> []
           | Some x \<Rightarrow>
               reason_if (filled_quantity x > 0 \<and> broker_position_count r = 0 \<and> rc_broker_truth_available r)
                 (finding ''unexpected_position'' ''execution'' SV_HIGH ''local fill with no broker position''
                    ''reconcile'' IT_EXECUTION_ANOMALY (fp_of ''unexpected_position'' (uuid_str (order_id x))))))"

definition activity_findings :: "bool \<Rightarrow> ExecutionPublicationBundle \<Rightarrow> Finding list" where
  "activity_findings withdrawal_active e =
     reason_if (withdrawal_active \<and> accepted (eb_receipt e) \<and> order_working e)
       (finding ''activity_during_withdrawal'' ''governance'' SV_HIGH
          ''execution after orderly withdrawal initiation'' ''halt_and_review''
          IT_UNEXPECTED_TRADING_CONTINUATION (fp_of ''withdrawal_activity'' (order_part (eb_order e)))) @
     (case eb_order e of
        None \<Rightarrow> []
      | Some x \<Rightarrow>
          reason_if (accepted (eb_receipt e) \<and> eb_lifecycle e = [])
            (finding ''missing_lifecycle'' ''monitoring'' SV_MEDIUM
               ''accepted receipt without lifecycle events'' ''review_feed'' IT_AUDIT_EVIDENCE_GAP
               (fp_of ''missing_lifecycle'' (uuid_str (order_id x)))))"

definition evaluate_controls :: "NormalizedObserve \<Rightarrow> bool \<Rightarrow> Finding list" where
  "evaluate_controls obs withdrawal_active =
     (case ob_execution obs of
        None \<Rightarrow> []
      | Some e \<Rightarrow> truth_findings e @ drift_findings obs e @ kill_findings obs e @ recon_findings e @
          activity_findings withdrawal_active e)"

subsection \<open>Surveillance\<close>

record burst_book =
  bb_submits :: "datetime list"
  bb_rejects :: "datetime list"
  bb_fills :: "datetime list"
  bb_cancels :: "datetime list"

definition burst_init :: burst_book where
  "burst_init = \<lparr>bb_submits = [], bb_rejects = [], bb_fills = [], bb_cancels = []\<rparr>"

definition burst_prune :: "Pm6PostTradeConfig \<Rightarrow> datetime \<Rightarrow> datetime list \<Rightarrow> datetime list" where
  "burst_prune c now q = dropWhile (\<lambda>t. now - t > seconds (pc_burst_window_seconds c)) q"

definition burst_finding :: "string \<Rightarrow> nat \<Rightarrow> nat \<Rightarrow> Finding" where
  "burst_finding det limit count =
     (finding det ''execution'' SV_HIGH (det @ '' exceeded '' @ nat_str limit @ '' in window'') ''throttle''
        IT_MONITORING_ALERT_BURST (det @ ''|window''))
     \<lparr>fd_observed := [(''count'', M_int (int count))], fd_threshold := [(''limit'', M_int (int limit))]\<rparr>"

text \<open>One queue of the book: prune, append, compare with the limit.\<close>

definition burst_push ::
  "Pm6PostTradeConfig \<Rightarrow> datetime \<Rightarrow> nat \<Rightarrow> string \<Rightarrow> datetime list \<Rightarrow> Finding option \<times> datetime list" where
  "burst_push c now limit det q =
     (let q' = burst_prune c now q @ [now] in
      (if length q' > limit then Some (burst_finding det limit (length q')) else None, q'))"

datatype burst_kind = B_submit | B_reject | B_fill | B_cancel

fun burst_note ::
  "Pm6PostTradeConfig \<Rightarrow> burst_kind \<Rightarrow> datetime \<Rightarrow> burst_book \<Rightarrow> Finding option \<times> burst_book" where
  "burst_note c B_submit now b =
     (case burst_push c now (pc_submit_burst c) ''submit_burst'' (bb_submits b) of
        (f, q) \<Rightarrow> (f, b\<lparr>bb_submits := q\<rparr>))"
| "burst_note c B_reject now b =
     (case burst_push c now (pc_reject_burst c) ''reject_burst'' (bb_rejects b) of
        (f, q) \<Rightarrow> (f, b\<lparr>bb_rejects := q\<rparr>))"
| "burst_note c B_fill now b =
     (case burst_push c now (pc_fill_burst c) ''fill_burst'' (bb_fills b) of
        (f, q) \<Rightarrow> (f, b\<lparr>bb_fills := q\<rparr>))"
| "burst_note c B_cancel now b =
     (case burst_push c now (pc_cancel_burst c) ''cancel_storm'' (bb_cancels b) of
        (f, q) \<Rightarrow> (f, b\<lparr>bb_cancels := q\<rparr>))"

text \<open>\<^verbatim>\<open>int(gap.total_seconds())\<close> on the gaps the code prints, which are positive.\<close>

definition whole_seconds :: "int \<Rightarrow> int" where
  "whole_seconds gap = gap div seconds 1"

definition silence_finding :: "datetime option \<Rightarrow> datetime \<Rightarrow> Pm6PostTradeConfig \<Rightarrow> Finding option" where
  "silence_finding last_event now c =
     (case last_event of
        None \<Rightarrow> None
      | Some t \<Rightarrow>
          if now - t > seconds (pc_silence_seconds c)
          then Some ((finding ''monitoring_silence'' ''monitoring'' SV_MEDIUM
                 ''monitoring feed silent beyond threshold'' ''degrade'' IT_STALE_MONITORING_DATA ''silence'')
               \<lparr>fd_observed := [(''gap_s'', M_int (whole_seconds (now - t)))],
                fd_threshold := [(''silence_s'', M_int (pc_silence_seconds c))]\<rparr>)
          else None)"

definition observed_stamp :: "NormalizedObserve \<Rightarrow> datetime option" where
  "observed_stamp obs =
     (case ob_execution obs of Some e \<Rightarrow> Some (eb_occurred_at e) | None \<Rightarrow> map_option rb_occurred_at (ob_risk obs))"

definition stale_finding :: "NormalizedObserve \<Rightarrow> Pm6PostTradeConfig \<Rightarrow> Finding option" where
  "stale_finding obs c =
     (case observed_stamp obs of
        None \<Rightarrow> None
      | Some t \<Rightarrow>
          if ob_now obs - t > seconds (pc_freshness_ttl_seconds c)
          then Some ((finding ''stale_event'' ''monitoring'' SV_MEDIUM ''event older than freshness TTL''
                 ''degrade'' IT_STALE_MONITORING_DATA ''stale'')
               \<lparr>fd_observed := [(''age_s'', M_int (whole_seconds (ob_now obs - t)))]\<rparr>)
          else None)"

definition opt_list :: "'a option \<Rightarrow> 'a list" where
  "opt_list x = (case x of None \<Rightarrow> [] | Some y \<Rightarrow> [y])"

definition burst_findings ::
  "Pm6PostTradeConfig \<Rightarrow> NormalizedObserve \<Rightarrow> datetime \<Rightarrow> burst_book \<Rightarrow> Finding list \<times> burst_book" where
  "burst_findings c obs now b =
     (case ob_execution obs of
        None \<Rightarrow> ([], b)
      | Some e \<Rightarrow>
          if accepted (eb_receipt e)
          then (case burst_note c B_submit now b of (f1, b1) \<Rightarrow>
                if eb_fills e \<noteq> []
                then (case burst_note c B_fill now b1 of (f2, b2) \<Rightarrow> (opt_list f1 @ opt_list f2, b2))
                else (opt_list f1, b1))
          else (case burst_note c B_reject now b of (f1, b1) \<Rightarrow> (opt_list f1, b1)))"

definition extra_findings ::
  "Pm6PostTradeConfig \<Rightarrow> NormalizedObserve \<Rightarrow> datetime \<Rightarrow> datetime option \<Rightarrow> burst_book \<Rightarrow> Finding list \<times> burst_book" where
  "extra_findings c obs now last_event b =
     (case burst_findings c obs now b of (found, b') \<Rightarrow>
      (found @ opt_list (stale_finding obs c) @ opt_list (silence_finding last_event now c), b'))"

text \<open>\<^verbatim>\<open>AlertDeduper.apply\<close>: a repeated fingerprint within the window returns the first alert again, suppressed.\<close>

definition dedup_apply ::
  "Pm6PostTradeConfig \<Rightarrow> PostTradeAlert \<Rightarrow> datetime \<Rightarrow> (string, PostTradeAlert) dict \<Rightarrow>
   PostTradeAlert \<times> (string, PostTradeAlert) dict" where
  "dedup_apply c alert now seen =
     (case dict_get seen (al_fingerprint alert) of
        None \<Rightarrow> (alert, dict_put (al_fingerprint alert) alert seen)
      | Some prev \<Rightarrow>
          if now - al_occurred_at prev \<le> seconds (pc_alert_dedup_seconds c)
          then (let upd = prev\<lparr>al_suppressed := True, al_suppress_count := Suc (al_suppress_count prev),
                       al_observed := dict_put ''duplicate'' (M_flag True) (al_observed prev)\<rparr>
                in (upd, dict_put (al_fingerprint alert) upd seen))
          else (alert, dict_put (al_fingerprint alert) alert seen))"

definition alert_of ::
  "uuid \<Rightarrow> Finding \<Rightarrow> datetime \<Rightarrow> TruthSource \<Rightarrow> uuid option \<Rightarrow> PostTradeAlert" where
  "alert_of aid f now truth order =
     \<lparr>al_alert_id = aid, al_occurred_at = now, al_created_at = now, al_observed_at = now,
      al_category = fd_category f, al_severity = fd_severity f, al_source = ''pm6_post_trade'',
      al_detector = fd_detector f, al_detector_version = ''v1'', al_description = fd_description f,
      al_evidence_refs = [], al_linked_events = [], al_linked_orders = opt_list order,
      al_scope = fd_scope f, al_threshold = fd_threshold f, al_observed = fd_observed f,
      al_recommended_action = fd_recommended_action f, al_auto_action_status = fd_auto_action f,
      al_truth_source = truth,
      al_fingerprint = (if fd_fingerprint f = [] then fd_detector f else fd_fingerprint f),
      al_suppressed = False, al_suppress_count = 0, al_correlation_id = None, al_trace_id = None\<rparr>"

subsection \<open>Incidents\<close>

definition TYPE_TO_CATEGORY :: "(IncidentType \<times> IncidentCategory) list" where
  "TYPE_TO_CATEGORY =
    [(IT_POST_TRADE_CONTROL_BREACH, IC_RISK_CONTROL), (IT_MONITORING_ALERT_BURST, IC_MONITORING),
     (IT_EXECUTION_ANOMALY, IC_EXECUTION), (IT_RECONCILIATION_FOLLOWUP_REQUIRED, IC_RECONCILIATION),
     (IT_KILL_STATE_BREACH, IC_RISK_CONTROL), (IT_ORDERLY_WITHDRAWAL_REQUIRED, IC_GOVERNANCE),
     (IT_MANUAL_OVERRIDE_INCIDENT, IC_OPERATOR), (IT_AUDIT_EVIDENCE_GAP, IC_GOVERNANCE),
     (IT_VALIDATION_GAP, IC_GOVERNANCE), (IT_UNEXPECTED_TRADING_CONTINUATION, IC_EXECUTION),
     (IT_STALE_MONITORING_DATA, IC_MONITORING), (IT_TRUTH_PROVENANCE_CONFLICT, IC_DATA_QUALITY),
     (IT_REPEATED_EXECUTION_ANOMALY, IC_EXECUTION), (IT_CONTROL_STATE_INCONSISTENCY, IC_RISK_CONTROL)]"

definition classify_finding :: "Finding \<Rightarrow> IncidentType \<times> IncidentCategory \<times> SeverityLevel" where
  "classify_finding f =
     (let itype = (case fd_incident_type f of None \<Rightarrow> IT_EXECUTION_ANOMALY | Some t \<Rightarrow> t) in
      (itype, (case map_of TYPE_TO_CATEGORY itype of None \<Rightarrow> IC_MONITORING | Some c \<Rightarrow> c), fd_severity f))"

definition incident_transit :: "IncidentState \<Rightarrow> datetime \<Rightarrow> IncidentRecord \<Rightarrow> IncidentRecord res" where
  "incident_transit target now r =
     raise_if (\<not> can_incident (ic_state r) target)
       (IllegalIncidentTransition (incident_state_value (ic_state r) @ '' -> '' @ incident_state_value target @
          '' is illegal''))
     (Inr (r\<lparr>ic_state := target, ic_updated_at := now\<rparr>))"

definition detected_incident ::
  "uuid \<Rightarrow> Finding \<Rightarrow> PostTradeAlert \<Rightarrow> datetime \<Rightarrow> TruthSource \<Rightarrow> IncidentRecord" where
  "detected_incident iid f alert now truth =
     (case classify_finding f of (itype, category, severity) \<Rightarrow>
      \<lparr>ic_incident_id = iid, ic_occurred_at = now, ic_updated_at = now, ic_incident_type = itype,
       ic_category = category, ic_severity = severity, ic_state = IS_DETECTED,
       ic_root_cause_hypothesis = fd_description f, ic_linked_alerts = [al_alert_id alert],
       ic_linked_execution_events = [], ic_linked_control_events = [], ic_linked_operator_actions = [],
       ic_affected_scope = fd_scope f, ic_owner = ''pm6'', ic_containment_status = ''open'',
       ic_remediation_status = ''open'', ic_closure_criteria = ''manual_review'',
       ic_review_status = ''pending'', ic_truth_source = truth, ic_detail = fd_description f,
       ic_suppressed = False, ic_suppress_reason = None\<rparr>)"

definition open_from ::
  "uuid \<Rightarrow> Finding \<Rightarrow> PostTradeAlert \<Rightarrow> datetime \<Rightarrow> TruthSource \<Rightarrow> IncidentRecord res" where
  "open_from iid f alert now truth =
     rbind (incident_transit IS_TRIAGED now (detected_incident iid f alert now truth)) (\<lambda>r1.
     rbind (incident_transit IS_CLASSIFIED now r1) (\<lambda>r2.
     if ic_severity r2 \<in> {SV_HIGH, SV_CRITICAL} then incident_transit IS_ESCALATED now r2 else Inr r2))"

definition incident_by_id :: "uuid \<Rightarrow> IncidentRecord list \<Rightarrow> IncidentRecord option" where
  "incident_by_id iid rs = find (\<lambda>r. ic_incident_id r = iid) rs"

definition incident_replace :: "IncidentRecord \<Rightarrow> IncidentRecord list \<Rightarrow> IncidentRecord list" where
  "incident_replace r rs = map (\<lambda>i. if ic_incident_id i = ic_incident_id r then r else i) rs"

definition incident_open :: "IncidentRecord \<Rightarrow> bool" where
  "incident_open r \<longleftrightarrow> ic_state r \<notin> {IS_CLOSED, IS_TRANSFERRED_TO_PERSISTENCE}"

subsection \<open>Escalation, remediation, withdrawal\<close>

text \<open>\<^verbatim>\<open>incident.detail or incident.incident_type.value\<close>\<close>

definition incident_reason :: "IncidentRecord \<Rightarrow> string" where
  "incident_reason r = (if ic_detail r = [] then incident_type_value (ic_incident_type r) else ic_detail r)"

definition escalate :: "uuid \<Rightarrow> IncidentRecord \<Rightarrow> datetime \<Rightarrow> Pm6PostTradeConfig \<Rightarrow> EscalationAction" where
  "escalate eid r now c =
     (let (route, deadline, role) =
        (if ic_severity r = SV_CRITICAL then (ER_IMMEDIATE, pc_escalation_critical_seconds c, ''risk_officer'')
         else if ic_severity r = SV_HIGH then (ER_SAME_SESSION, pc_escalation_high_seconds c, ''desk_lead'')
         else if ic_severity r = SV_MEDIUM then (ER_SAME_DAY, 3600, ''operator'')
         else (ER_SCHEDULED_REVIEW, 86400, ''governance''))
      in \<lparr>ea_escalation_id = eid, ea_occurred_at = now, ea_route = route, ea_target_role = role,
          ea_incident_id = ic_incident_id r,
          ea_required_response = (if ic_severity r = SV_CRITICAL then ''acknowledge_and_contain'' else ''review''),
          ea_deadline_seconds = deadline, ea_severity = ic_severity r, ea_reason = incident_reason r,
          ea_status = ''open'', ea_actor = ''pm6''\<rparr>)"

definition open_task :: "uuid \<Rightarrow> IncidentRecord \<Rightarrow> datetime \<Rightarrow> RemediationTask" where
  "open_task tid r now =
     \<lparr>rt_task_id = tid, rt_occurred_at = now, rt_incident_id = ic_incident_id r, rt_action = incident_reason r,
      rt_owner = ic_owner r, rt_priority = ic_severity r,
      rt_due_seconds = (if ic_severity r = SV_CRITICAL then 0 else 300),
      rt_closure_criteria = ic_closure_criteria r, rt_status = ''open'', rt_evidence_required = True\<rparr>"

definition close_task :: "string \<Rightarrow> RemediationTask \<Rightarrow> RemediationTask" where
  "close_task evidence t = (if blank evidence then t\<lparr>rt_status := ''evidence_required''\<rparr> else t\<lparr>rt_status := ''closed''\<rparr>)"

definition TYPE_TO_REQUEST :: "(IncidentType \<times> ControlRequestKind) list" where
  "TYPE_TO_REQUEST =
    [(IT_KILL_STATE_BREACH, CQ_FREEZE), (IT_UNEXPECTED_TRADING_CONTINUATION, CQ_ORDERLY_WITHDRAWAL),
     (IT_ORDERLY_WITHDRAWAL_REQUIRED, CQ_ORDERLY_WITHDRAWAL),
     (IT_RECONCILIATION_FOLLOWUP_REQUIRED, CQ_NO_NEW_RISK), (IT_POST_TRADE_CONTROL_BREACH, CQ_CLOSE_ONLY)]"

definition control_request ::
  "uuid \<Rightarrow> datetime \<Rightarrow> ControlRequestKind \<Rightarrow> string \<Rightarrow> string \<Rightarrow> ControlRequest res" where
  "control_request qid now kind scope reason =
     no_broker \<lparr>ct_request_id = qid, ct_occurred_at = now, ct_kind = kind, ct_scope = scope,
       ct_scope_id = None, ct_reason = reason, ct_actor = ''pm6'', ct_approval_required = True,
       ct_broker_command = False, ct_status = ''recommended''\<rparr>"

definition withdrawal_recommend ::
  "uuid \<Rightarrow> uuid \<Rightarrow> IncidentRecord \<Rightarrow> datetime \<Rightarrow> string \<Rightarrow> OrderlyWithdrawalPlan res" where
  "withdrawal_recommend qid wid r now scope =
     rbind (control_request qid now CQ_ORDERLY_WITHDRAWAL scope (incident_reason r)) (\<lambda>q.
     complete_needs_confirm
       \<lparr>wp_withdrawal_id = wid, wp_occurred_at = now, wp_scope = scope,
        wp_trigger_reason = incident_type_value (ic_incident_type r),
        wp_severity = (if ic_severity r \<noteq> SV_INFO then ic_severity r else SV_HIGH),
        wp_steps = [''stop_new_activity'', ''request_pm5_freeze'', ''request_cancel_working'',
          ''enter_close_only'', ''wait_reconciliation'', ''manual_confirm''],
        wp_pm5_request = Some q, wp_close_only = True, wp_no_new_risk = True, wp_expected_transitions = [],
        wp_confirmation_criteria = ''operator_confirm_plus_recon'', wp_approval_required = True,
        wp_state = WS_RECOMMENDED, wp_confirmed = False, wp_detail = []\<rparr>)"

definition withdrawal_transit ::
  "WithdrawalState \<Rightarrow> datetime \<Rightarrow> bool \<Rightarrow> OrderlyWithdrawalPlan option \<Rightarrow> OrderlyWithdrawalPlan res" where
  "withdrawal_transit target now confirmed plan =
     (case plan of
        None \<Rightarrow> Inl (IllegalWithdrawalTransition ''no plan'')
      | Some p \<Rightarrow>
          raise_if (\<not> can_withdrawal (wp_state p) target)
            (IllegalWithdrawalTransition (withdrawal_value (wp_state p) @ '' -> '' @ withdrawal_value target))
          (raise_if (target = WS_COMPLETED \<and> \<not> (confirmed \<or> wp_confirmed p))
            (IllegalWithdrawalTransition ''confirmation required'')
          (Inr (p\<lparr>wp_state := target, wp_confirmed := wp_confirmed p \<or> confirmed, wp_occurred_at := now\<rparr>))))"

subsection \<open>Snapshot, lanes, packets\<close>

definition age_seconds :: "datetime option \<Rightarrow> datetime \<Rightarrow> int" where
  "age_seconds stamp now = (case stamp of None \<Rightarrow> 0 | Some t \<Rightarrow> whole_seconds (max 0 (now - t)))"

definition is_stale :: "datetime option \<Rightarrow> datetime \<Rightarrow> int \<Rightarrow> bool" where
  "is_stale stamp now ttl = (case stamp of None \<Rightarrow> True | Some t \<Rightarrow> now - t > seconds ttl)"

text \<open>The figures that \<^verbatim>\<open>observe\<close> hands to the snapshot.\<close>

record snapshot_args =
  sg_state :: MonitoringState
  sg_mode :: string
  sg_truth :: TruthSource
  sg_controls :: "string list"
  sg_open_orders :: nat
  sg_fills :: nat
  sg_positions :: nat
  sg_exposure :: dec
  sg_alerts :: nat
  sg_incidents :: nat
  sg_recon :: string

definition build_snapshot :: "uuid \<Rightarrow> datetime \<Rightarrow> datetime option \<Rightarrow> int \<Rightarrow> snapshot_args \<Rightarrow> MonitoringSnapshot" where
  "build_snapshot mid now last_event ttl a =
     (let stale = is_stale last_event now ttl in
      \<lparr>ms_monitoring_id = mid, ms_as_of = now,
       ms_state = (if stale then worse (sg_state a) MS_WARNING else sg_state a),
       ms_execution_mode = sg_mode a, ms_truth_source = sg_truth a, ms_active_controls = sg_controls a,
       ms_open_orders = sg_open_orders a, ms_fills = sg_fills a, ms_positions = sg_positions a,
       ms_exposure = sg_exposure a, ms_alert_count = sg_alerts a, ms_incident_count = sg_incidents a,
       ms_drift_status = ''none'', ms_reconciliation_status = sg_recon a, ms_broker_truth_available = False,
       ms_operational_status = ''observe_only'', ms_freshness_seconds = age_seconds last_event now,
       ms_last_event_at = last_event, ms_stale = stale, ms_durable = False,
       ms_producer = ''pm6_post_trade''\<rparr>)"

definition bool_str :: "bool \<Rightarrow> string" where
  "bool_str b = (if b then ''True'' else ''False'')"

definition lane_priority :: "PostTradeAlert list \<Rightarrow> SeverityLevel" where
  "lane_priority as = foldl worse_severity SV_INFO (map al_severity (filter (\<lambda>a. \<not> al_suppressed a) as))"

definition build_lanes ::
  "datetime \<Rightarrow> PostTradeAlert list \<Rightarrow> IncidentRecord list \<Rightarrow> string \<Rightarrow> string \<Rightarrow> string \<Rightarrow> bool \<Rightarrow> bool \<Rightarrow>
   LaneSummary \<times> LaneSummary" where
  "build_lanes now alerts incidents mode recon truth taken kill =
     (let n = length (filter incident_open incidents);
          control_alerts = filter (\<lambda>a. al_category a \<in> {''risk/control'', ''reconciliation'', ''data-quality''}) alerts;
          op = lane_priority alerts;
          cp = (if kill then worse_severity (lane_priority control_alerts) SV_CRITICAL
                else lane_priority control_alerts)
      in (\<lparr>ln_lane = LK_OPERATOR, ln_as_of = now, ln_priority = op, ln_headline = ''operator working picture'',
           ln_items = [''mode='' @ mode, ''accepted='' @ bool_str taken, ''open_incidents='' @ nat_str n,
             ''truth='' @ truth],
           ln_recommended_action = (if op \<in> {SV_INFO, SV_LOW} then ''observe'' else ''respond''),
           ln_incident_count = n, ln_alert_count = length alerts\<rparr>,
          \<lparr>ln_lane = LK_CONTROL, ln_as_of = now, ln_priority = cp,
           ln_headline = ''independent risk/control picture'',
           ln_items = [''recon='' @ recon, ''kill='' @ bool_str kill,
             ''control_alerts='' @ nat_str (length control_alerts), ''truth='' @ truth],
           ln_recommended_action = (if cp \<in> {SV_INFO, SV_LOW} then ''observe'' else ''contain''),
           ln_incident_count = n, ln_alert_count = length control_alerts\<rparr>))"

text \<open>\<^verbatim>\<open>dict(Counter(xs))\<close>\<close>

definition count_values :: "string list \<Rightarrow> (string, nat) dict" where
  "count_values xs = map (\<lambda>x. (x, length (filter (\<lambda>y. y = x) xs))) (fromkeys xs)"

definition governance_packet ::
  "uuid \<Rightarrow> datetime \<Rightarrow> PostTradeAlert list \<Rightarrow> IncidentRecord list \<Rightarrow> GovernanceReviewPacket" where
  "governance_packet pid now alerts incidents =
     \<lparr>gp_packet_id = pid, gp_generated_at = now, gp_period = ''session'', gp_kind = ''daily'',
      gp_incident_trends = count_values (map (\<lambda>i. incident_type_value (ic_incident_type i)) incidents),
      gp_alert_trends = count_values (map al_detector alerts),
      gp_unresolved = length (filter incident_open incidents),
      gp_control_trigger_counts =
        count_values (map al_detector (filter (\<lambda>a. al_category a \<in> {''risk/control'', ''execution''}) alerts)),
      gp_false_positive_observations = ''insufficient_data'', gp_review_flags = [], gp_validation_notes = [],
      gp_recommendations = [''retain_simulation_truth_label'', ''do_not_treat_degraded_recon_as_pass''],
      gp_state = GR_SCHEDULED\<rparr>"

definition validation_packet :: "uuid \<Rightarrow> datetime \<Rightarrow> nat \<Rightarrow> nat \<Rightarrow> ValidationReviewPacket" where
  "validation_packet pid now alert_count incident_count =
     \<lparr>vp_packet_id = pid, vp_generated_at = now,
      vp_rule_performance = [(''alerts'', alert_count), (''incidents'', incident_count)],
      vp_alert_precision = ''insufficient_data'', vp_false_positive = ''insufficient_data'',
      vp_false_negative = ''insufficient_data'', vp_missed_event = ''insufficient_data'',
      vp_control_calibration = ''not_available'', vp_data_quality_issues = [], vp_recommended_tuning = [],
      vp_review_state = GR_SCHEDULED, vp_sample_size = alert_count\<rparr>"

end
