(* ===== verification/PostTradeModule.thy ===== *)
theory PostTradeModule
  imports PostTradeServices CapitalService
begin

section \<open>The post-trade monitor\<close>

text \<open>
  \<^verbatim>\<open>PM6PostTradeModule\<close> of \<^verbatim>\<open>pm6_post_trade/module.py\<close> with the state of the services it owns: the
  surveillance engine, the incident list, the withdrawal planner, the evidence registry and the
  in-memory repositories. The clock reading is an argument, \<open>m6_fresh\<close> stands for \<^verbatim>\<open>uuid4\<close> and
  \<open>H\<close> for the first sixteen hex digits of the SHA-256 of the joined timeline. The text of an
  operator action stands for the dictionary that \<^verbatim>\<open>observe\<close> prints.
\<close>

subsection \<open>State\<close>

record pm6 =
  m6_config :: Pm6PostTradeConfig
  m6_feature_enabled :: bool
  m6_surveillance_enabled :: bool
  m6_incident_enabled :: bool
  m6_governance_enabled :: bool
  m6_withdrawal_enabled :: bool
  m6_bursts :: burst_book
  m6_seen :: "(string, PostTradeAlert) dict"
  m6_alerts :: "PostTradeAlert list"
  m6_last_event :: "datetime option"
  m6_incidents :: "IncidentRecord list"
  m6_plan :: "OrderlyWithdrawalPlan option"
  m6_bundles :: "AuditEvidenceBundle list"
  m6_timeline :: "timeline_line list"
  m6_monitoring_repo :: "MonitoringSnapshot list"
  m6_alert_repo :: "PostTradeAlert list"
  m6_incident_repo :: "IncidentRecord list"
  m6_evidence_repo :: "AuditEvidenceBundle list"
  m6_governance_repo :: "GovernanceReviewPacket list"
  m6_escalations :: "EscalationAction list"
  m6_tasks :: "RemediationTask list"
  m6_requests :: "ControlRequest list"
  m6_last_truth :: TruthSource
  m6_last_bundle :: "OperationalTruthBundle option"
  m6_next_id :: uuid

definition pm6_init :: "Pm6PostTradeConfig \<Rightarrow> bool \<Rightarrow> bool \<Rightarrow> bool \<Rightarrow> bool \<Rightarrow> bool \<Rightarrow> pm6" where
  "pm6_init c feature surveillance incident governance withdrawal =
     \<lparr>m6_config = c, m6_feature_enabled = feature,
      m6_surveillance_enabled = (surveillance \<and> feature), m6_incident_enabled = (incident \<and> feature),
      m6_governance_enabled = (governance \<and> feature), m6_withdrawal_enabled = (withdrawal \<and> feature),
      m6_bursts = burst_init, m6_seen = [], m6_alerts = [], m6_last_event = None, m6_incidents = [],
      m6_plan = None, m6_bundles = [], m6_timeline = [], m6_monitoring_repo = [], m6_alert_repo = [],
      m6_incident_repo = [], m6_evidence_repo = [], m6_governance_repo = [], m6_escalations = [],
      m6_tasks = [], m6_requests = [], m6_last_truth = TS_UNKNOWN, m6_last_bundle = None,
      m6_next_id = 0\<rparr>"

definition m6_fresh :: "(pm6, uuid) comp" where
  "m6_fresh s = (Inr (m6_next_id s), s\<lparr>m6_next_id := Suc (m6_next_id s)\<rparr>)"

definition m6_note :: "datetime \<Rightarrow> string \<Rightarrow> (pm6, unit) comp" where
  "m6_note now text = upd_st (\<lambda>s. s\<lparr>m6_timeline := m6_timeline s @ [(now, text)]\<rparr>)"

subsection \<open>One finding\<close>

definition m6_to_alert ::
  "datetime \<Rightarrow> TruthSource \<Rightarrow> uuid option \<Rightarrow> Finding \<Rightarrow> (pm6, PostTradeAlert) comp" where
  "m6_to_alert now truth order f =
     bnd m6_fresh (\<lambda>aid s.
       case dedup_apply (m6_config s) (alert_of aid f now truth order) now (m6_seen s) of
         (a, seen) \<Rightarrow> (Inr a, s\<lparr>m6_seen := seen\<rparr>))"

definition m6_open_from ::
  "datetime \<Rightarrow> TruthSource \<Rightarrow> Finding \<Rightarrow> PostTradeAlert \<Rightarrow> (pm6, IncidentRecord) comp" where
  "m6_open_from now truth f alert =
     bnd m6_fresh (\<lambda>iid.
     bnd (lift_res (open_from iid f alert now truth)) (\<lambda>inc.
     bnd (upd_st (\<lambda>s. s\<lparr>m6_incidents := m6_incidents s @ [inc]\<rparr>)) (\<lambda>_. ret inc)))"

text \<open>An escalated incident: its escalation, its task and, for a mapped type, its control request.\<close>

definition m6_escalate :: "datetime \<Rightarrow> IncidentRecord \<Rightarrow> (pm6, unit) comp" where
  "m6_escalate now inc =
     bnd m6_fresh (\<lambda>eid.
     bnd (upd_st (\<lambda>s. s\<lparr>m6_escalations := m6_escalations s @ [escalate eid inc now (m6_config s)]\<rparr>)) (\<lambda>_.
     bnd m6_fresh (\<lambda>tid.
     bnd (upd_st (\<lambda>s. s\<lparr>m6_tasks := m6_tasks s @ [open_task tid inc now]\<rparr>)) (\<lambda>_.
     case map_of TYPE_TO_REQUEST (ic_incident_type inc) of
       None \<Rightarrow> ret ()
     | Some kind \<Rightarrow>
         bnd m6_fresh (\<lambda>qid.
         bnd (lift_res (control_request qid now kind (ic_affected_scope inc) (ic_detail inc))) (\<lambda>q.
         upd_st (\<lambda>s. s\<lparr>m6_requests := m6_requests s @ [q]\<rparr>)))))))"

definition withdrawal_types :: "IncidentType list" where
  "withdrawal_types =
     [IT_KILL_STATE_BREACH, IT_UNEXPECTED_TRADING_CONTINUATION, IT_ORDERLY_WITHDRAWAL_REQUIRED]"

definition plan_idle :: "OrderlyWithdrawalPlan option \<Rightarrow> bool" where
  "plan_idle plan \<longleftrightarrow>
     (case plan of None \<Rightarrow> True | Some p \<Rightarrow> wp_state p \<in> {WS_NOT_REQUIRED, WS_COMPLETED, WS_FAILED})"

definition m6_recommend :: "datetime \<Rightarrow> IncidentRecord \<Rightarrow> (pm6, unit) comp" where
  "m6_recommend now inc =
     bnd m6_fresh (\<lambda>qid.
     bnd m6_fresh (\<lambda>wid.
     bnd (lift_res (withdrawal_recommend qid wid inc now (ic_affected_scope inc))) (\<lambda>p.
     upd_st (\<lambda>s. s\<lparr>m6_plan := Some p\<rparr>))))"

definition m6_incident :: "datetime \<Rightarrow> TruthSource \<Rightarrow> Finding \<Rightarrow> PostTradeAlert \<Rightarrow> (pm6, unit) comp" where
  "m6_incident now truth f alert =
     bnd (m6_open_from now truth f alert) (\<lambda>inc.
     bnd (upd_st (\<lambda>s. s\<lparr>m6_incident_repo := m6_incident_repo s @ [inc]\<rparr>)) (\<lambda>_.
     bnd (if ic_state inc = IS_ESCALATED then m6_escalate now inc else ret ()) (\<lambda>_.
     bnd (get_st (\<lambda>s. m6_withdrawal_enabled s \<and> ic_incident_type inc \<in> set withdrawal_types \<and>
                      plan_idle (m6_plan s))) (\<lambda>wanted.
     if wanted then m6_recommend now inc else ret ()))))"

definition opens_incident :: "Finding \<Rightarrow> PostTradeAlert \<Rightarrow> pm6 \<Rightarrow> bool" where
  "opens_incident f alert s \<longleftrightarrow>
     m6_incident_enabled s \<and> fd_incident_type f \<noteq> None \<and>
     fd_severity f \<in> {SV_MEDIUM, SV_HIGH, SV_CRITICAL} \<and> \<not> al_suppressed alert"

definition m6_finding ::
  "datetime \<Rightarrow> TruthSource \<Rightarrow> uuid option \<Rightarrow> Finding \<Rightarrow> (pm6, PostTradeAlert) comp" where
  "m6_finding now truth order f =
     bnd (m6_to_alert now truth order f) (\<lambda>alert.
     bnd (upd_st (\<lambda>s. s\<lparr>m6_alert_repo := m6_alert_repo s @ [alert], m6_alerts := m6_alerts s @ [alert]\<rparr>)) (\<lambda>_.
     bnd (m6_note now (''alert '' @ fd_detector f @ '' suppressed='' @ bool_str (al_suppressed alert))) (\<lambda>_.
     bnd (get_st (opens_incident f alert)) (\<lambda>opens.
     bnd (if opens then m6_incident now truth f alert else ret ()) (\<lambda>_.
     ret alert)))))"

definition burst_detectors :: "string list" where
  "burst_detectors = [''submit_burst'', ''reject_burst'', ''fill_burst'']"

fun m6_findings ::
  "datetime \<Rightarrow> TruthSource \<Rightarrow> uuid option \<Rightarrow> Finding list \<Rightarrow> (pm6, PostTradeAlert list) comp" where
  "m6_findings now truth order [] = ret []"
| "m6_findings now truth order (f # fs) =
     bnd (get_st (\<lambda>s. \<not> m6_surveillance_enabled s \<and> fd_detector f \<in> set burst_detectors)) (\<lambda>skip.
     if skip then m6_findings now truth order fs
     else bnd (m6_finding now truth order f) (\<lambda>a.
          bnd (m6_findings now truth order fs) (\<lambda>as. ret (a # as))))"

subsection \<open>Observing\<close>

datatype observed = No_execution | Journal string | Execution ExecutionPublicationBundle

fun execution_of :: "observed \<Rightarrow> ExecutionPublicationBundle option" where
  "execution_of (Execution e) = Some e"
| "execution_of _ = None"

definition m6_journal :: "datetime \<Rightarrow> observed \<Rightarrow> (pm6, unit) comp" where
  "m6_journal now x = (case x of Journal summary \<Rightarrow> m6_note now (''journal '' @ summary) | _ \<Rightarrow> ret ())"

definition m6_mark_event ::
  "ExecutionPublicationBundle option \<Rightarrow> RiskPublicationBundle option \<Rightarrow> TruthSource \<Rightarrow> (pm6, unit) comp" where
  "m6_mark_event execution risk truth =
     upd_st (\<lambda>s. s\<lparr>m6_last_truth := truth,
       m6_last_event := (case execution of Some e \<Rightarrow> Some (eb_occurred_at e)
                         | None \<Rightarrow> (case risk of Some r \<Rightarrow> Some (rb_occurred_at r) | None \<Rightarrow> m6_last_event s))\<rparr>)"

definition withdrawal_active :: "OrderlyWithdrawalPlan option \<Rightarrow> bool" where
  "withdrawal_active plan \<longleftrightarrow>
     (case plan of None \<Rightarrow> False | Some p \<Rightarrow> wp_state p \<notin> {WS_NOT_REQUIRED, WS_COMPLETED})"

definition inspected :: "IntakeRecord \<Rightarrow> bool" where
  "inspected intake \<longleftrightarrow>
     ir_disposition intake \<noteq> ID_REJECTED \<or> ''sim_labelled_broker_truth'' \<in> set (ir_reasons intake)"

definition m6_collect :: "datetime \<Rightarrow> IntakeRecord \<Rightarrow> NormalizedObserve \<Rightarrow> (pm6, Finding list) comp" where
  "m6_collect now intake obs s =
     (if \<not> inspected intake then (Inr [], s)
      else
        (let controls = evaluate_controls obs (withdrawal_active (m6_plan s)) in
         if m6_surveillance_enabled s
         then (case extra_findings (m6_config s) obs now (m6_last_event s) (m6_bursts s) of
                 (extra, b) \<Rightarrow> (Inr (controls @ extra), s\<lparr>m6_bursts := b\<rparr>))
         else (Inr controls, s)))"

definition recon_status :: "ExecutionPublicationBundle option \<Rightarrow> string" where
  "recon_status execution =
     (case Option.bind execution eb_reconciliation of None \<Rightarrow> ''unavailable'' | Some r \<Rightarrow> recon_value (rc_outcome r))"

definition mode_text :: "ExecutionPublicationBundle option \<Rightarrow> string" where
  "mode_text execution = (case execution of None \<Rightarrow> ''disabled'' | Some e \<Rightarrow> exec_mode_value (eb_execution_mode e))"

definition fires :: "SeverityLevel \<Rightarrow> PostTradeAlert list \<Rightarrow> bool" where
  "fires sev alerts \<longleftrightarrow> list_ex (\<lambda>a. al_severity a = sev \<and> \<not> al_suppressed a) alerts"

definition plan_running :: "OrderlyWithdrawalPlan option \<Rightarrow> bool" where
  "plan_running plan \<longleftrightarrow>
     (case plan of None \<Rightarrow> False | Some p \<Rightarrow> wp_state p \<in> {WS_INITIATED, WS_IN_PROGRESS, WS_CONFIRMED})"

definition worse_if :: "bool \<Rightarrow> MonitoringState \<Rightarrow> MonitoringState \<Rightarrow> MonitoringState" where
  "worse_if b target cur = (if b then worse cur target else cur)"

definition monitoring_state ::
  "string \<Rightarrow> IntakeRecord \<Rightarrow> PostTradeAlert list \<Rightarrow> IncidentRecord list \<Rightarrow> OrderlyWithdrawalPlan option \<Rightarrow>
   MonitoringState" where
  "monitoring_state recon intake alerts incidents plan =
     worse_if (plan_running plan) MS_WITHDRAWAL_IN_PROGRESS
     (worse_if (fires SV_CRITICAL alerts) MS_CRITICAL
     (worse_if (list_ex incident_open incidents) MS_INCIDENT_ACTIVE
     (worse_if (fires SV_HIGH alerts) MS_WARNING
     (worse_if (ir_disposition intake = ID_QUARANTINED) MS_WARNING
     (worse_if (recon \<in> {''degraded'', ''unavailable''}) MS_DEGRADED MS_HEALTHY)))))"

definition active_controls :: "NormalizedObserve \<Rightarrow> string list" where
  "active_controls obs =
     reason_if (ob_kill obs) ''kill_latched'' @ reason_if (ob_freeze obs) ''freeze'' @
     (case ob_execution obs of None \<Rightarrow> [] | Some e \<Rightarrow> [operating_value (eb_operating_state e)])"

text \<open>\<^verbatim>\<open>exposure or Decimal("0")\<close> is the exposure itself, up to the sign of a zero.\<close>

definition snapshot_of ::
  "NormalizedObserve \<Rightarrow> IntakeRecord \<Rightarrow> PostTradeAlert list \<Rightarrow> pm6 \<Rightarrow> snapshot_args" where
  "snapshot_of obs intake alerts s =
     (let execution = ob_execution obs; order = Option.bind execution eb_order;
          filled = (case order of None \<Rightarrow> 0 | Some r \<Rightarrow> filled_quantity r);
          recon = recon_status execution
      in \<lparr>sg_state = monitoring_state recon intake alerts (m6_incidents s) (m6_plan s),
          sg_mode = mode_text execution, sg_truth = ob_truth obs, sg_controls = active_controls obs,
          sg_open_orders = (case execution of None \<Rightarrow> 0
             | Some e \<Rightarrow> if eb_order e \<noteq> None \<and> accepted (eb_receipt e) then 1 else 0),
          sg_fills = (case execution of None \<Rightarrow> 0 | Some e \<Rightarrow> length (eb_fills e)),
          sg_positions = (if filled > 0 then 1 else 0), sg_exposure = filled,
          sg_alerts = length alerts, sg_incidents = length (filter incident_open (m6_incidents s)),
          sg_recon = recon\<rparr>)"

definition m6_snapshot ::
  "datetime \<Rightarrow> NormalizedObserve \<Rightarrow> IntakeRecord \<Rightarrow> PostTradeAlert list \<Rightarrow> (pm6, MonitoringSnapshot) comp" where
  "m6_snapshot now obs intake alerts =
     bnd m6_fresh (\<lambda>mid.
     bnd (get_st (\<lambda>s. build_snapshot mid now (m6_last_event s) (pc_freshness_ttl_seconds (m6_config s))
            (snapshot_of obs intake alerts s))) (\<lambda>snap.
     bnd (upd_st (\<lambda>s. s\<lparr>m6_monitoring_repo := m6_monitoring_repo s @ [snap]\<rparr>)) (\<lambda>_. ret snap)))"

definition m6_governance ::
  "datetime \<Rightarrow> (pm6, GovernanceReviewPacket option \<times> ValidationReviewPacket option) comp" where
  "m6_governance now =
     bnd (get_st m6_governance_enabled) (\<lambda>on.
     if \<not> on then ret (None, None)
     else bnd m6_fresh (\<lambda>gid.
          bnd (get_st (\<lambda>s. governance_packet gid now (m6_alerts s) (m6_incidents s))) (\<lambda>gov.
          bnd m6_fresh (\<lambda>vid.
          bnd (get_st (\<lambda>s. validation_packet vid now (length (m6_alerts s)) (length (m6_incidents s)))) (\<lambda>val.
          bnd (upd_st (\<lambda>s. s\<lparr>m6_governance_repo := m6_governance_repo s @ [gov]\<rparr>)) (\<lambda>_.
          ret (Some gov, Some val)))))))"

text \<open>\<^verbatim>\<open>xs[-n:]\<close>\<close>

definition last_n :: "nat \<Rightarrow> 'a list \<Rightarrow> 'a list" where
  "last_n n xs = drop (length xs - n) xs"

definition m6_evidence ::
  "(timeline_line list \<Rightarrow> string) \<Rightarrow> datetime \<Rightarrow> IntakeRecord \<Rightarrow> TruthSource \<Rightarrow> (pm6, AuditEvidenceBundle) comp" where
  "m6_evidence H now intake truth =
     bnd m6_fresh (\<lambda>vid.
     bnd (get_st (\<lambda>s. (let timeline = last_n 40 (m6_timeline s) in
       \<lparr>av_evidence_id = vid, av_occurred_at = now, av_events = [(ir_disposition intake, ir_reasons intake)],
        av_incident_ids = map ic_incident_id (filter incident_open (m6_incidents s)),
        av_timeline = timeline, av_provenance = truth, av_policy_version = ''pm6-seq08-v1'',
        av_fingerprint = H timeline, av_persistence_handoff = ''non_durable_before_pm7'',
        av_durable = False\<rparr>))) (\<lambda>ev.
     bnd (upd_st (\<lambda>s. s\<lparr>m6_bundles := m6_bundles s @ [ev], m6_evidence_repo := m6_evidence_repo s @ [ev]\<rparr>)) (\<lambda>_.
     ret ev)))"

text \<open>The bundle of an observation and its publication.\<close>

definition m6_bundle ::
  "datetime \<Rightarrow> NormalizedObserve \<Rightarrow> IntakeRecord \<Rightarrow> PostTradeAlert list \<Rightarrow> MonitoringSnapshot \<Rightarrow>
   LaneSummary \<times> LaneSummary \<Rightarrow> GovernanceReviewPacket option \<times> ValidationReviewPacket option \<Rightarrow>
   AuditEvidenceBundle \<Rightarrow> (pm6, OperationalTruthBundle) comp" where
  "m6_bundle now obs intake alerts snap lanes packets ev =
     bnd m6_fresh (\<lambda>bid.
     bnd (get_st (\<lambda>s. truth_safety
       \<lparr>ot_bundle_id = bid, ot_occurred_at = now, ot_intake = intake, ot_snapshot = snap,
        ot_operator_lane = fst lanes, ot_control_lane = snd lanes, ot_alerts = alerts,
        ot_incidents = filter incident_open (m6_incidents s), ot_escalations = last_n 8 (m6_escalations s),
        ot_remediation = last_n 8 (m6_tasks s), ot_withdrawal = m6_plan s,
        ot_control_requests = last_n 8 (m6_requests s), ot_evidence = Some ev, ot_governance = fst packets,
        ot_validation = snd packets, ot_execution_mode = mode_text (ob_execution obs),
        ot_truth_source = ob_truth obs, ot_broker_side_effect = False, ot_mt5_used = False,
        ot_durable = False, ot_producer = ''pm6_post_trade''\<rparr>)) (\<lambda>r.
     bnd (lift_res r) (\<lambda>b.
     bnd (upd_st (\<lambda>s. s\<lparr>m6_last_bundle := Some b\<rparr>)) (\<lambda>_. ret b))))"

text \<open>What follows the loop over the findings.\<close>

definition m6_report ::
  "(timeline_line list \<Rightarrow> string) \<Rightarrow> datetime \<Rightarrow> NormalizedObserve \<Rightarrow> IntakeRecord \<Rightarrow> string option \<Rightarrow>
   PostTradeAlert list \<Rightarrow> (pm6, OperationalTruthBundle) comp" where
  "m6_report H now obs intake operator_action alerts =
     bnd (m6_snapshot now obs intake alerts) (\<lambda>snap.
     bnd (get_st (\<lambda>s. build_lanes now alerts (m6_incidents s) (mode_text (ob_execution obs))
            (recon_status (ob_execution obs)) (truth_value (ob_truth obs))
            (case ob_execution obs of None \<Rightarrow> False | Some e \<Rightarrow> accepted (eb_receipt e)) (ob_kill obs))) (\<lambda>lanes.
     bnd (m6_governance now) (\<lambda>packets.
     bnd (m6_evidence H now intake (ob_truth obs)) (\<lambda>ev.
     bnd (case operator_action of None \<Rightarrow> ret () | Some text \<Rightarrow> m6_note now (''operator '' @ text)) (\<lambda>_.
     m6_bundle now obs intake alerts snap lanes packets ev)))))"

definition observe ::
  "(timeline_line list \<Rightarrow> string) \<Rightarrow> datetime \<Rightarrow> observed \<Rightarrow> RiskPublicationBundle option \<Rightarrow> string option \<Rightarrow>
   (pm6, OperationalTruthBundle) comp" where
  "observe H now x risk operator_action =
     bnd (m6_journal now x) (\<lambda>_.
     bnd (get_st (\<lambda>s. validate_observe (execution_of x) risk now (m6_config s) (m6_feature_enabled s))) (\<lambda>intake.
     let obs = normalize_observe (execution_of x) risk now;
         order = map_option order_id (Option.bind (execution_of x) eb_order) in
     bnd (m6_mark_event (execution_of x) risk (ob_truth obs)) (\<lambda>_.
     bnd (m6_note now (''observe '' @ disposition_value (ir_disposition intake))) (\<lambda>_.
     bnd (m6_collect now intake obs) (\<lambda>findings.
     bnd (m6_findings now (ob_truth obs) order findings) (\<lambda>alerts.
     m6_report H now obs intake operator_action alerts))))))"

subsection \<open>Queries\<close>

definition get_monitoring_snapshot :: "pm6 \<Rightarrow> MonitoringSnapshot option" where
  "get_monitoring_snapshot s = map_option ot_snapshot (m6_last_bundle s)"

definition get_operator_lane :: "pm6 \<Rightarrow> LaneSummary option" where
  "get_operator_lane s = map_option ot_operator_lane (m6_last_bundle s)"

definition get_control_lane :: "pm6 \<Rightarrow> LaneSummary option" where
  "get_control_lane s = map_option ot_control_lane (m6_last_bundle s)"

definition list_active_alerts :: "pm6 \<Rightarrow> PostTradeAlert list" where
  "list_active_alerts s = filter (\<lambda>a. \<not> al_suppressed a) (m6_alerts s)"

definition list_incidents :: "pm6 \<Rightarrow> IncidentRecord list" where
  "list_incidents s = m6_incidents s"

text \<open>
  The line starts with an instant, which holds neither a space nor a letter of a type's name and
  is shorter than an identifier, so a match lies in the text after it.
\<close>

definition get_incident_timeline :: "uuid \<Rightarrow> pm6 \<Rightarrow> timeline_line list" where
  "get_incident_timeline iid s =
     (case incident_by_id iid (m6_incidents s) of
        None \<Rightarrow> []
      | Some r \<Rightarrow> filter (\<lambda>(t, text). contains (uuid_str iid) text \<or>
                                     contains (incident_type_value (ic_incident_type r)) text) (m6_timeline s))"

definition list_open_remediation_tasks :: "pm6 \<Rightarrow> RemediationTask list" where
  "list_open_remediation_tasks s = filter (\<lambda>t. rt_status t = ''open'') (m6_tasks s)"

definition get_withdrawal_plan :: "pm6 \<Rightarrow> OrderlyWithdrawalPlan option" where
  "get_withdrawal_plan s = m6_plan s"

definition get_evidence_bundle :: "pm6 \<Rightarrow> AuditEvidenceBundle option" where
  "get_evidence_bundle s = (if m6_bundles s = [] then None else Some (last (m6_bundles s)))"

definition get_governance_packet :: "pm6 \<Rightarrow> GovernanceReviewPacket option" where
  "get_governance_packet s = Option.bind (m6_last_bundle s) ot_governance"

definition get_validation_packet :: "pm6 \<Rightarrow> ValidationReviewPacket option" where
  "get_validation_packet s = Option.bind (m6_last_bundle s) ot_validation"

definition get_operational_truth :: "pm6 \<Rightarrow> OperationalTruthBundle option" where
  "get_operational_truth s = m6_last_bundle s"

subsection \<open>Handling an incident\<close>

text \<open>
  The frame of the handlers: an unknown identifier is a \<^verbatim>\<open>KeyError\<close>, otherwise the handler's
  record replaces the one with that identifier. \<open>step_if\<close> is a guarded transition.
\<close>

definition m6_handle :: "uuid \<Rightarrow> (IncidentRecord \<Rightarrow> IncidentRecord res) \<Rightarrow> (pm6, IncidentRecord) comp" where
  "m6_handle iid f =
     bnd (get_st (\<lambda>s. incident_by_id iid (m6_incidents s))) (\<lambda>found.
     case found of
       None \<Rightarrow> raise_exn (KeyError (uuid_str iid))
     | Some r \<Rightarrow>
         bnd (lift_res (f r)) (\<lambda>r'.
         bnd (upd_st (\<lambda>s. s\<lparr>m6_incidents := incident_replace r' (m6_incidents s)\<rparr>)) (\<lambda>_. ret r')))"

definition step_if ::
  "IncidentState \<Rightarrow> IncidentState \<Rightarrow> datetime \<Rightarrow> IncidentRecord \<Rightarrow> IncidentRecord res" where
  "step_if from target now r = (if ic_state r = from then incident_transit target now r else Inr r)"

definition classify_incident :: "datetime \<Rightarrow> uuid \<Rightarrow> (pm6, IncidentRecord) comp" where
  "classify_incident now iid = m6_handle iid (\<lambda>r.
     rbind (step_if IS_DETECTED IS_TRIAGED now r) (step_if IS_TRIAGED IS_CLASSIFIED now))"

definition contain_incident :: "datetime \<Rightarrow> uuid \<Rightarrow> (pm6, IncidentRecord) comp" where
  "contain_incident now iid = m6_handle iid (\<lambda>r.
     rbind (step_if IS_ESCALATED IS_CONTAINMENT_IN_PROGRESS now r) (\<lambda>cur.
     if ic_state cur = IS_CONTAINMENT_IN_PROGRESS
     then rbind (incident_transit IS_CONTAINED now cur) (\<lambda>n. Inr (n\<lparr>ic_containment_status := ''contained''\<rparr>))
     else Inr cur))"

definition resolve_incident :: "datetime \<Rightarrow> uuid \<Rightarrow> (pm6, IncidentRecord) comp" where
  "resolve_incident now iid = m6_handle iid (\<lambda>r.
     if ic_state r = IS_CONTAINED
     then rbind (incident_transit IS_RESOLVED now r) (\<lambda>n. Inr (n\<lparr>ic_remediation_status := ''resolved''\<rparr>))
     else if ic_state r = IS_REMEDIATION_IN_PROGRESS
     then rbind (incident_transit IS_RESOLVED now r) (\<lambda>n. Inr (n\<lparr>ic_remediation_status := ''resolved''\<rparr>))
     else Inr r)"

definition close_incident :: "datetime \<Rightarrow> string \<Rightarrow> uuid \<Rightarrow> (pm6, IncidentRecord) comp" where
  "close_incident now reason iid = m6_handle iid (\<lambda>r.
     rbind (step_if IS_RESOLVED IS_REVIEW_PENDING now r) (\<lambda>cur.
     if ic_state cur = IS_REVIEW_PENDING
     then rbind (incident_transit IS_CLOSED now cur) (\<lambda>n. Inr (n\<lparr>ic_review_status := reason\<rparr>))
     else Inr cur))"

definition transfer_incident :: "datetime \<Rightarrow> uuid \<Rightarrow> (pm6, IncidentRecord) comp" where
  "transfer_incident now iid = m6_handle iid (incident_transit IS_TRANSFERRED_TO_PERSISTENCE now)"

definition suppress_incident :: "datetime \<Rightarrow> string \<Rightarrow> uuid \<Rightarrow> (pm6, IncidentRecord) comp" where
  "suppress_incident now reason iid = m6_handle iid (\<lambda>r.
     raise_if (blank reason) (ValueError ''suppression requires a reason'')
     (Inr (r\<lparr>ic_suppressed := True, ic_suppress_reason := Some reason, ic_updated_at := now\<rparr>)))"

subsection \<open>Remediation and withdrawal\<close>

fun close_first :: "uuid \<Rightarrow> string \<Rightarrow> RemediationTask list \<Rightarrow> (RemediationTask \<times> RemediationTask list) option" where
  "close_first tid evidence [] = None"
| "close_first tid evidence (t # ts) =
     (if rt_task_id t = tid then Some (close_task evidence t, close_task evidence t # ts)
      else map_option (\<lambda>(n, ts'). (n, t # ts')) (close_first tid evidence ts))"

definition close_remediation :: "string \<Rightarrow> uuid \<Rightarrow> (pm6, RemediationTask) comp" where
  "close_remediation evidence tid s =
     (case close_first tid evidence (m6_tasks s) of
        None \<Rightarrow> (Inl (KeyError (uuid_str tid)), s)
      | Some (t, ts) \<Rightarrow> (Inr t, s\<lparr>m6_tasks := ts\<rparr>))"

definition m6_withdraw :: "WithdrawalState \<Rightarrow> datetime \<Rightarrow> bool \<Rightarrow> (pm6, OrderlyWithdrawalPlan) comp" where
  "m6_withdraw target now confirmed =
     bnd (get_st (\<lambda>s. withdrawal_transit target now confirmed (m6_plan s))) (\<lambda>r.
     bnd (lift_res r) (\<lambda>p.
     bnd (upd_st (\<lambda>s. s\<lparr>m6_plan := Some p\<rparr>)) (\<lambda>_. ret p)))"

definition approve_withdrawal :: "datetime \<Rightarrow> (pm6, OrderlyWithdrawalPlan) comp" where
  "approve_withdrawal now = m6_withdraw WS_APPROVAL_PENDING now False"

definition initiate_withdrawal :: "datetime \<Rightarrow> (pm6, OrderlyWithdrawalPlan) comp" where
  "initiate_withdrawal now =
     bnd (get_st (\<lambda>s. case m6_plan s of None \<Rightarrow> False | Some p \<Rightarrow> wp_state p = WS_RECOMMENDED)) (\<lambda>fresh.
     bnd (if fresh then bnd (m6_withdraw WS_APPROVAL_PENDING now False) (\<lambda>_. ret ()) else ret ()) (\<lambda>_.
     m6_withdraw WS_INITIATED now False))"

definition progress_withdrawal :: "datetime \<Rightarrow> (pm6, OrderlyWithdrawalPlan) comp" where
  "progress_withdrawal now = m6_withdraw WS_IN_PROGRESS now False"

definition confirm_withdrawal :: "datetime \<Rightarrow> (pm6, OrderlyWithdrawalPlan) comp" where
  "confirm_withdrawal now = m6_withdraw WS_CONFIRMED now True"

definition complete_withdrawal :: "datetime \<Rightarrow> (pm6, OrderlyWithdrawalPlan) comp" where
  "complete_withdrawal now = m6_withdraw WS_COMPLETED now True"

definition fail_withdrawal :: "datetime \<Rightarrow> (pm6, OrderlyWithdrawalPlan) comp" where
  "fail_withdrawal now = m6_withdraw WS_FAILED now False"

subsection \<open>Calls\<close>

datatype pm6_call =
    Observe datetime observed "RiskPublicationBundle option" "string option"
  | Classify datetime uuid
  | Contain datetime uuid
  | Resolve datetime uuid
  | Close datetime string uuid
  | Transfer datetime uuid
  | Suppress datetime string uuid
  | Close_remediation string uuid
  | Approve_withdrawal datetime
  | Initiate_withdrawal datetime
  | Progress_withdrawal datetime
  | Confirm_withdrawal datetime
  | Complete_withdrawal datetime
  | Fail_withdrawal datetime

fun pm6_run :: "(timeline_line list \<Rightarrow> string) \<Rightarrow> pm6_call \<Rightarrow> pm6 \<Rightarrow> pm6" where
  "pm6_run H (Observe now x risk act) s = snd (observe H now x risk act s)"
| "pm6_run H (Classify now i) s = snd (classify_incident now i s)"
| "pm6_run H (Contain now i) s = snd (contain_incident now i s)"
| "pm6_run H (Resolve now i) s = snd (resolve_incident now i s)"
| "pm6_run H (Close now reason i) s = snd (close_incident now reason i s)"
| "pm6_run H (Transfer now i) s = snd (transfer_incident now i s)"
| "pm6_run H (Suppress now reason i) s = snd (suppress_incident now reason i s)"
| "pm6_run H (Close_remediation evidence i) s = snd (close_remediation evidence i s)"
| "pm6_run H (Approve_withdrawal now) s = snd (approve_withdrawal now s)"
| "pm6_run H (Initiate_withdrawal now) s = snd (initiate_withdrawal now s)"
| "pm6_run H (Progress_withdrawal now) s = snd (progress_withdrawal now s)"
| "pm6_run H (Confirm_withdrawal now) s = snd (confirm_withdrawal now s)"
| "pm6_run H (Complete_withdrawal now) s = snd (complete_withdrawal now s)"
| "pm6_run H (Fail_withdrawal now) s = snd (fail_withdrawal now s)"

text \<open>The states reached from a state by any sequence of calls, whether they return or raise.\<close>

inductive pm6_reach :: "(timeline_line list \<Rightarrow> string) \<Rightarrow> pm6 \<Rightarrow> pm6 \<Rightarrow> bool" for H s where
  start: "pm6_reach H s s"
| step: "pm6_reach H s t \<Longrightarrow> pm6_reach H s (pm6_run H call t)"

end
