(* ===== verification/PostTradeProps.thy ===== *)
theory PostTradeProps
  imports PostTradeModule
begin

section \<open>What the handlers of the monitor do\<close>

text \<open>
  No step of an observation raises, so each is a function on the state: \<open>after_escalate\<close>,
  \<open>after_recommend\<close>, \<open>after_incident\<close>, \<open>after_finding\<close>. The invariants of the monitor are then
  facts about these functions.
\<close>

subsection \<open>Opening an incident\<close>

definition opened :: "uuid \<Rightarrow> Finding \<Rightarrow> PostTradeAlert \<Rightarrow> datetime \<Rightarrow> TruthSource \<Rightarrow> IncidentRecord" where
  "opened iid f alert now truth =
     (detected_incident iid f alert now truth)
       \<lparr>ic_state := if fd_severity f \<in> {SV_HIGH, SV_CRITICAL} then IS_ESCALATED else IS_CLASSIFIED\<rparr>"

lemma can_incident_table:
  "can_incident a b \<longleftrightarrow> (a, b) \<in> set (concat (map (\<lambda>(x, ys). map (Pair x) ys) INCIDENT_TRANSITIONS))"
  by (cases a) (auto simp: can_incident_def INCIDENT_TRANSITIONS_def)

lemma can_incident_steps [simp]:
  "can_incident IS_DETECTED IS_TRIAGED" "can_incident IS_TRIAGED IS_CLASSIFIED"
  "can_incident IS_CLASSIFIED IS_ESCALATED" "can_incident IS_ESCALATED IS_CONTAINMENT_IN_PROGRESS"
  "can_incident IS_CONTAINMENT_IN_PROGRESS IS_CONTAINED" "can_incident IS_CONTAINED IS_RESOLVED"
  "can_incident IS_REMEDIATION_IN_PROGRESS IS_RESOLVED" "can_incident IS_RESOLVED IS_REVIEW_PENDING"
  "can_incident IS_REVIEW_PENDING IS_CLOSED"
  by (simp_all add: can_incident_def INCIDENT_TRANSITIONS_def)

lemma incident_transit_ok:
  "can_incident (ic_state r) target \<Longrightarrow> incident_transit target now r = Inr (r\<lparr>ic_state := target, ic_updated_at := now\<rparr>)"
  by (simp add: incident_transit_def raise_if_def)

lemma open_from_opened: "open_from iid f alert now truth = Inr (opened iid f alert now truth)"
  by (simp add: open_from_def incident_transit_ok detected_incident_def classify_finding_def Let_def opened_def)

lemma opened_simps [simp]:
  "ic_incident_id (opened iid f alert now truth) = iid"
  "ic_severity (opened iid f alert now truth) = fd_severity f"
  "ic_state (opened iid f alert now truth) =
     (if fd_severity f \<in> {SV_HIGH, SV_CRITICAL} then IS_ESCALATED else IS_CLASSIFIED)"
  "fd_incident_type f = Some t \<Longrightarrow> ic_incident_type (opened iid f alert now truth) = t"
  "ic_linked_alerts (opened iid f alert now truth) = [al_alert_id alert]"
  "ic_affected_scope (opened iid f alert now truth) = fd_scope f"
  "ic_detail (opened iid f alert now truth) = fd_description f"
  by (simp_all add: opened_def detected_incident_def classify_finding_def Let_def)

subsection \<open>Steps of an observation as functions\<close>

definition request_of :: "uuid \<Rightarrow> datetime \<Rightarrow> ControlRequestKind \<Rightarrow> string \<Rightarrow> string \<Rightarrow> ControlRequest" where
  "request_of qid now kind scope reason =
     \<lparr>ct_request_id = qid, ct_occurred_at = now, ct_kind = kind, ct_scope = scope, ct_scope_id = None,
      ct_reason = reason, ct_actor = ''pm6'', ct_approval_required = True, ct_broker_command = False,
      ct_status = ''recommended''\<rparr>"

lemma control_request_ok: "control_request qid now kind scope reason = Inr (request_of qid now kind scope reason)"
  by (simp add: control_request_def no_broker_def raise_if_def request_of_def)

definition after_escalate :: "datetime \<Rightarrow> IncidentRecord \<Rightarrow> pm6 \<Rightarrow> pm6" where
  "after_escalate now inc s =
     (let n = m6_next_id s; kind = map_of TYPE_TO_REQUEST (ic_incident_type inc) in
      s\<lparr>m6_escalations := m6_escalations s @ [escalate n inc now (m6_config s)],
        m6_tasks := m6_tasks s @ [open_task (Suc n) inc now],
        m6_requests := m6_requests s @ (case kind of None \<Rightarrow> []
          | Some k \<Rightarrow> [request_of (Suc (Suc n)) now k (ic_affected_scope inc) (ic_detail inc)]),
        m6_next_id := (case kind of None \<Rightarrow> Suc (Suc n) | Some k \<Rightarrow> Suc (Suc (Suc n)))\<rparr>)"

lemma m6_escalate_run: "m6_escalate now inc s = (Inr (), after_escalate now inc s)"
  by (simp add: m6_escalate_def after_escalate_def m6_fresh_def bnd_def upd_st_def lift_res_def ret_def
      control_request_ok Let_def split: option.splits)

definition recommended :: "uuid \<Rightarrow> uuid \<Rightarrow> IncidentRecord \<Rightarrow> datetime \<Rightarrow> OrderlyWithdrawalPlan" where
  "recommended qid wid inc now =
     (case withdrawal_recommend qid wid inc now (ic_affected_scope inc) of Inr p \<Rightarrow> p)"

lemma withdrawal_recommend_ok:
  "withdrawal_recommend qid wid inc now (ic_affected_scope inc) = Inr (recommended qid wid inc now)"
  by (simp add: recommended_def withdrawal_recommend_def control_request_ok complete_needs_confirm_def raise_if_def)

lemma recommended_simps [simp]:
  "wp_state (recommended qid wid inc now) = WS_RECOMMENDED"
  "\<not> wp_confirmed (recommended qid wid inc now)"
  "wp_approval_required (recommended qid wid inc now)"
  by (simp_all add: recommended_def withdrawal_recommend_def control_request_ok complete_needs_confirm_def raise_if_def)

definition after_recommend :: "datetime \<Rightarrow> IncidentRecord \<Rightarrow> pm6 \<Rightarrow> pm6" where
  "after_recommend now inc s =
     (if m6_withdrawal_enabled s \<and> ic_incident_type inc \<in> set withdrawal_types \<and> plan_idle (m6_plan s)
      then s\<lparr>m6_plan := Some (recommended (m6_next_id s) (Suc (m6_next_id s)) inc now),
             m6_next_id := Suc (Suc (m6_next_id s))\<rparr>
      else s)"

definition after_incident :: "datetime \<Rightarrow> TruthSource \<Rightarrow> Finding \<Rightarrow> PostTradeAlert \<Rightarrow> pm6 \<Rightarrow> pm6" where
  "after_incident now truth f alert s =
     (let inc = opened (m6_next_id s) f alert now truth;
          s1 = s\<lparr>m6_next_id := Suc (m6_next_id s), m6_incidents := m6_incidents s @ [inc],
                 m6_incident_repo := m6_incident_repo s @ [inc]\<rparr>
      in after_recommend now inc (if ic_state inc = IS_ESCALATED then after_escalate now inc s1 else s1))"

lemma m6_recommend_run:
  "(if m6_withdrawal_enabled s \<and> ic_incident_type inc \<in> set withdrawal_types \<and> plan_idle (m6_plan s)
    then m6_recommend now inc else ret ()) s = (Inr (), after_recommend now inc s)"
  by (simp add: m6_recommend_def after_recommend_def m6_fresh_def bnd_def upd_st_def lift_res_def ret_def
      withdrawal_recommend_ok)

lemma m6_incident_run: "m6_incident now truth f alert s = (Inr (), after_incident now truth f alert s)"
  by (simp add: m6_incident_def m6_open_from_def after_incident_def bnd_def m6_fresh_def lift_res_def
      open_from_opened upd_st_def ret_def get_st_def m6_escalate_run m6_recommend_run Let_def)

text \<open>The alert of a finding, with the deduplication already applied, and the state after it.\<close>

definition finding_alert :: "datetime \<Rightarrow> TruthSource \<Rightarrow> uuid option \<Rightarrow> Finding \<Rightarrow> pm6 \<Rightarrow> PostTradeAlert" where
  "finding_alert now truth order f s =
     fst (dedup_apply (m6_config s) (alert_of (m6_next_id s) f now truth order) now (m6_seen s))"

definition after_alert :: "datetime \<Rightarrow> TruthSource \<Rightarrow> uuid option \<Rightarrow> Finding \<Rightarrow> pm6 \<Rightarrow> pm6" where
  "after_alert now truth order f s =
     (let a = finding_alert now truth order f s in
      s\<lparr>m6_next_id := Suc (m6_next_id s),
        m6_seen := snd (dedup_apply (m6_config s) (alert_of (m6_next_id s) f now truth order) now (m6_seen s)),
        m6_alert_repo := m6_alert_repo s @ [a], m6_alerts := m6_alerts s @ [a],
        m6_timeline := m6_timeline s @
          [(now, ''alert '' @ fd_detector f @ '' suppressed='' @ bool_str (al_suppressed a))]\<rparr>)"

definition after_finding :: "datetime \<Rightarrow> TruthSource \<Rightarrow> uuid option \<Rightarrow> Finding \<Rightarrow> pm6 \<Rightarrow> pm6" where
  "after_finding now truth order f s =
     (let a = finding_alert now truth order f s; s1 = after_alert now truth order f s in
      if opens_incident f a s then after_incident now truth f a s1 else s1)"

lemma m6_finding_run:
  "m6_finding now truth order f s = (Inr (finding_alert now truth order f s), after_finding now truth order f s)"
proof -
  let ?a = "finding_alert now truth order f s" and ?s = "after_alert now truth order f s"
  have "m6_finding now truth order f s =
      bnd (get_st (opens_incident f ?a)) (\<lambda>opens.
      bnd (if opens then m6_incident now truth f ?a else ret ()) (\<lambda>_. ret ?a)) ?s"
    by (cases "dedup_apply (m6_config s) (alert_of (m6_next_id s) f now truth order) now (m6_seen s)")
       (simp add: m6_finding_def m6_to_alert_def after_alert_def finding_alert_def bnd_def m6_fresh_def
        upd_st_def m6_note_def get_st_def Let_def)
  moreover have "opens_incident f ?a ?s = opens_incident f ?a s"
    by (simp add: opens_incident_def after_alert_def Let_def)
  ultimately show ?thesis
    by (simp add: bnd_def get_st_def ret_def m6_incident_run after_finding_def Let_def)
qed

text \<open>The findings that are not skipped, one after the other.\<close>

definition watched :: "pm6 \<Rightarrow> Finding list \<Rightarrow> Finding list" where
  "watched s fs = filter (\<lambda>f. m6_surveillance_enabled s \<or> fd_detector f \<notin> set burst_detectors) fs"

fun finding_alerts ::
  "datetime \<Rightarrow> TruthSource \<Rightarrow> uuid option \<Rightarrow> Finding list \<Rightarrow> pm6 \<Rightarrow> PostTradeAlert list" where
  "finding_alerts now truth order [] s = []"
| "finding_alerts now truth order (f # fs) s =
     finding_alert now truth order f s # finding_alerts now truth order fs (after_finding now truth order f s)"

definition after_findings :: "datetime \<Rightarrow> TruthSource \<Rightarrow> uuid option \<Rightarrow> Finding list \<Rightarrow> pm6 \<Rightarrow> pm6" where
  "after_findings now truth order fs s = fold (after_finding now truth order) fs s"

lemma after_finding_flags [simp]:
  "m6_feature_enabled (after_finding now truth order f s) = m6_feature_enabled s"
  "m6_surveillance_enabled (after_finding now truth order f s) = m6_surveillance_enabled s"
  "m6_incident_enabled (after_finding now truth order f s) = m6_incident_enabled s"
  "m6_withdrawal_enabled (after_finding now truth order f s) = m6_withdrawal_enabled s"
  "m6_config (after_finding now truth order f s) = m6_config s"
  by (simp_all add: after_finding_def after_alert_def after_incident_def after_escalate_def after_recommend_def Let_def)

lemma m6_findings_run:
  "m6_findings now truth order fs s =
     (Inr (finding_alerts now truth order (watched s fs) s), after_findings now truth order (watched s fs) s)"
proof (induction fs arbitrary: s)
  case Nil
  show ?case by (simp add: watched_def after_findings_def ret_def)
next
  case (Cons f fs)
  have same: "watched (after_finding now truth order f s) fs = watched s fs"
    by (simp add: watched_def)
  show ?case
    by (simp add: bnd_def get_st_def ret_def m6_finding_run Cons.IH same)
       (simp add: watched_def after_findings_def)
qed


subsection \<open>An observation\<close>

text \<open>What the reporting after the findings leaves alone.\<close>

definition same_book :: "pm6 \<Rightarrow> pm6 \<Rightarrow> bool" where
  "same_book s t \<longleftrightarrow>
     m6_config t = m6_config s \<and> m6_feature_enabled t = m6_feature_enabled s \<and>
     m6_surveillance_enabled t = m6_surveillance_enabled s \<and>
     m6_incident_enabled t = m6_incident_enabled s \<and> m6_withdrawal_enabled t = m6_withdrawal_enabled s \<and>
     m6_seen t = m6_seen s \<and> m6_alerts t = m6_alerts s \<and> m6_incidents t = m6_incidents s \<and>
     m6_plan t = m6_plan s \<and> m6_escalations t = m6_escalations s \<and> m6_tasks t = m6_tasks s \<and>
     m6_requests t = m6_requests s \<and> m6_next_id s \<le> m6_next_id t"

lemma classify_truth_safe: "classify_truth x \<noteq> TS_BROKER_TRUTH"
  by (simp add: classify_truth_def Let_def split: option.splits)

lemma truth_of_observe [simp]: "ob_truth (normalize_observe x risk now) = classify_truth x"
  by (simp add: normalize_observe_def)

text \<open>The report of the state after the findings.\<close>

definition reports :: "datetime \<Rightarrow> NormalizedObserve \<Rightarrow> IntakeRecord \<Rightarrow> PostTradeAlert list \<Rightarrow> pm6 \<Rightarrow>
   OperationalTruthBundle \<Rightarrow> bool" where
  "reports now obs intake alerts s b \<longleftrightarrow>
     ot_occurred_at b = now \<and> ot_intake b = intake \<and> ot_alerts b = alerts \<and>
     ot_incidents b = filter incident_open (m6_incidents s) \<and> ot_withdrawal b = m6_plan s \<and>
     ot_control_requests b = last_n 8 (m6_requests s) \<and> ot_truth_source b = ob_truth obs \<and>
     \<not> ot_broker_side_effect b \<and> \<not> ot_mt5_used b \<and> \<not> ot_durable b \<and>
     ot_snapshot b = build_snapshot (m6_next_id s) now (m6_last_event s)
       (pc_freshness_ttl_seconds (m6_config s)) (snapshot_of obs intake alerts s) \<and>
     ot_control_lane b = snd (build_lanes now alerts (m6_incidents s) (mode_text (ob_execution obs))
       (recon_status (ob_execution obs)) (truth_value (ob_truth obs))
       (case ob_execution obs of None \<Rightarrow> False | Some e \<Rightarrow> accepted (eb_receipt e)) (ob_kill obs))"

lemma snapshot_of_next [simp]:
  "snapshot_of obs intake alerts (s\<lparr>m6_next_id := n\<rparr>) = snapshot_of obs intake alerts s"
  by (simp add: snapshot_of_def)

lemma m6_report_run:
  assumes "ob_truth obs \<noteq> TS_BROKER_TRUTH"
  obtains b t where "m6_report H now obs intake act alerts s = (Inr b, t)"
    and "same_book s t" and "reports now obs intake alerts s b" and "m6_last_bundle t = Some b"
proof -
  have run: "\<exists>b t. m6_report H now obs intake act alerts s = (Inr b, t) \<and>
      same_book s t \<and> reports now obs intake alerts s b \<and> m6_last_bundle t = Some b"
    using assms
    by (simp add: m6_report_def m6_snapshot_def m6_governance_def m6_evidence_def m6_bundle_def m6_note_def
        m6_fresh_def bnd_def get_st_def upd_st_def ret_def lift_res_def truth_safety_def raise_if_def
        same_book_def reports_def Let_def split: option.splits)
  then show ?thesis using that by blast
qed

text \<open>The findings of an observation and the state in which they are handled.\<close>

definition intake_of :: "datetime \<Rightarrow> observed \<Rightarrow> RiskPublicationBundle option \<Rightarrow> pm6 \<Rightarrow> IntakeRecord" where
  "intake_of now x risk s =
     validate_observe (execution_of x) risk now (m6_config s) (m6_feature_enabled s)"

definition marked :: "datetime \<Rightarrow> observed \<Rightarrow> RiskPublicationBundle option \<Rightarrow> pm6 \<Rightarrow> pm6" where
  "marked now x risk s =
     snd (m6_note now (''observe '' @ disposition_value (ir_disposition (intake_of now x risk s)))
       (snd (m6_mark_event (execution_of x) risk (classify_truth (execution_of x)) (snd (m6_journal now x s)))))"

definition findings_of :: "datetime \<Rightarrow> observed \<Rightarrow> RiskPublicationBundle option \<Rightarrow> pm6 \<Rightarrow> Finding list" where
  "findings_of now x risk s =
     (let obs = normalize_observe (execution_of x) risk now; t = marked now x risk s in
      if \<not> inspected (intake_of now x risk s) then []
      else watched s (evaluate_controls obs (withdrawal_active (m6_plan s)) @
        (if m6_surveillance_enabled s
         then fst (extra_findings (m6_config s) obs now (m6_last_event t) (m6_bursts s)) else [])))"

definition collected :: "datetime \<Rightarrow> observed \<Rightarrow> RiskPublicationBundle option \<Rightarrow> pm6 \<Rightarrow> pm6" where
  "collected now x risk s =
     snd (m6_collect now (intake_of now x risk s) (normalize_observe (execution_of x) risk now) (marked now x risk s))"

definition handled :: "datetime \<Rightarrow> observed \<Rightarrow> RiskPublicationBundle option \<Rightarrow> pm6 \<Rightarrow> pm6" where
  "handled now x risk s =
     after_findings now (classify_truth (execution_of x)) (map_option order_id (Option.bind (execution_of x) eb_order))
       (findings_of now x risk s) (collected now x risk s)"

definition alerts_of :: "datetime \<Rightarrow> observed \<Rightarrow> RiskPublicationBundle option \<Rightarrow> pm6 \<Rightarrow> PostTradeAlert list" where
  "alerts_of now x risk s =
     finding_alerts now (classify_truth (execution_of x)) (map_option order_id (Option.bind (execution_of x) eb_order))
       (findings_of now x risk s) (collected now x risk s)"

lemma marked_fields [simp]:
  "m6_config (marked now x risk s) = m6_config s" "m6_feature_enabled (marked now x risk s) = m6_feature_enabled s"
  "m6_surveillance_enabled (marked now x risk s) = m6_surveillance_enabled s"
  "m6_incident_enabled (marked now x risk s) = m6_incident_enabled s"
  "m6_withdrawal_enabled (marked now x risk s) = m6_withdrawal_enabled s"
  "m6_bursts (marked now x risk s) = m6_bursts s" "m6_seen (marked now x risk s) = m6_seen s"
  "m6_alerts (marked now x risk s) = m6_alerts s" "m6_incidents (marked now x risk s) = m6_incidents s"
  "m6_plan (marked now x risk s) = m6_plan s" "m6_escalations (marked now x risk s) = m6_escalations s"
  "m6_tasks (marked now x risk s) = m6_tasks s" "m6_requests (marked now x risk s) = m6_requests s"
  "m6_next_id (marked now x risk s) = m6_next_id s"
  by (simp_all add: marked_def m6_note_def m6_mark_event_def m6_journal_def upd_st_def ret_def split: observed.splits)

lemma collect_run:
  "m6_collect now (intake_of now x risk s) (normalize_observe (execution_of x) risk now) (marked now x risk s) = (Inr fs, t) \<Longrightarrow>
   watched t fs = findings_of now x risk s \<and> t = collected now x risk s \<and> same_book s t"
  by (auto simp: m6_collect_def findings_of_def collected_def same_book_def watched_def Let_def
      split: if_splits prod.splits)

lemma collect_returns:
  obtains fs t where "m6_collect now intake obs s = (Inr fs, t)"
proof -
  have "\<exists>fs t. m6_collect now intake obs s = (Inr fs, t)"
    by (auto simp: m6_collect_def Let_def split: prod.splits)
  then show ?thesis using that by blast
qed

lemma collected_book: "same_book s (collected now x risk s)"
  by (rule collect_returns [of now "intake_of now x risk s" "normalize_observe (execution_of x) risk now" "marked now x risk s"])
     (use collect_run in blast)

lemma observe_steps:
  "observe H now x risk act s =
     m6_report H now (normalize_observe (execution_of x) risk now) (intake_of now x risk s) act
       (alerts_of now x risk s) (handled now x risk s)"
proof -
  obtain fs t where c: "m6_collect now (intake_of now x risk s) (normalize_observe (execution_of x) risk now)
      (marked now x risk s) = (Inr fs, t)"
    by (rule collect_returns)
  obtain j where j: "m6_journal now x s = (Inr (), j)" "m6_config j = m6_config s"
      "m6_feature_enabled j = m6_feature_enabled s"
    by (cases x) (simp_all add: m6_journal_def m6_note_def upd_st_def ret_def)
  have "observe H now x risk act s =
      bnd (m6_collect now (intake_of now x risk s) (normalize_observe (execution_of x) risk now)) (\<lambda>findings.
      bnd (m6_findings now (classify_truth (execution_of x)) (map_option order_id (Option.bind (execution_of x) eb_order))
        findings)
        (m6_report H now (normalize_observe (execution_of x) risk now) (intake_of now x risk s) act))
      (marked now x risk s)"
    by (simp add: observe_def marked_def intake_of_def m6_mark_event_def m6_note_def bnd_Inr [where m = "m6_journal now x", OF j(1)] j
        run_simps Let_def)
  moreover have "watched t fs = findings_of now x risk s" "t = collected now x risk s"
    using collect_run [OF c] by blast+
  ultimately show ?thesis
    using c by (simp add: bnd_def m6_findings_run handled_def alerts_of_def)
qed

text \<open>An observation returns, and reports the state after its findings.\<close>

lemma observe_run:
  obtains b t where "observe H now x risk act s = (Inr b, t)"
    and "same_book (handled now x risk s) t"
    and "reports now (normalize_observe (execution_of x) risk now) (intake_of now x risk s)
           (alerts_of now x risk s) (handled now x risk s) b"
    and "m6_last_bundle t = Some b"
  unfolding observe_steps
  by (rule m6_report_run [of "normalize_observe (execution_of x) risk now"])
     (use classify_truth_safe in auto)

subsection \<open>Incidents along the table\<close>

text \<open>
  \<open>moves r r'\<close>: the record \<open>r'\<close> is \<open>r\<close> after transitions of the table. What identifies the incident
  is kept.
\<close>

definition moves :: "IncidentRecord \<Rightarrow> IncidentRecord \<Rightarrow> bool" where
  "moves r r' \<longleftrightarrow>
     ic_incident_id r' = ic_incident_id r \<and> ic_incident_type r' = ic_incident_type r \<and>
     ic_severity r' = ic_severity r \<and> ic_occurred_at r' = ic_occurred_at r \<and>
     ic_linked_alerts r' = ic_linked_alerts r \<and> can_incident\<^sup>*\<^sup>* (ic_state r) (ic_state r')"

lemma moves_refl [simp]: "moves r r"
  by (simp add: moves_def)

lemma moves_trans: "moves r r' \<Longrightarrow> moves r' r'' \<Longrightarrow> moves r r''"
  unfolding moves_def by (auto intro: rtranclp_trans)

lemma moves_transit: "incident_transit target now r = Inr r' \<Longrightarrow> moves r r' \<and> ic_state r' = target"
  by (auto simp: incident_transit_def moves_def res_simps)

lemma closed_stays: "can_incident\<^sup>*\<^sup>* IS_CLOSED x \<Longrightarrow> x = IS_CLOSED"
  by (erule converse_rtranclpE) (auto simp: can_incident_def INCIDENT_TRANSITIONS_def)

text \<open>What a list of incidents keeps.\<close>

definition evolves :: "pm6 \<Rightarrow> pm6 \<Rightarrow> bool" where
  "evolves s t \<longleftrightarrow> (\<forall>r \<in> set (m6_incidents s). \<exists>r' \<in> set (m6_incidents t). moves r r')"

lemma evolves_refl: "evolves s s"
  unfolding evolves_def using moves_refl by blast

lemma evolves_trans: "evolves s t \<Longrightarrow> evolves t u \<Longrightarrow> evolves s u"
  unfolding evolves_def by (meson moves_trans)

subsection \<open>The invariant\<close>

definition early :: "IncidentState \<Rightarrow> bool" where
  "early x \<longleftrightarrow> x \<in> {IS_DETECTED, IS_TRIAGED, IS_CLASSIFIED}"

definition parked :: "IncidentState \<Rightarrow> bool" where
  "parked x \<longleftrightarrow> x \<in> {IS_CLASSIFIED, IS_TRANSFERRED_TO_PERSISTENCE}"

text \<open>
  An incident that the module opened: it is backed by an alert that was not suppressed; a high
  or critical one was escalated and has a task; a medium one has not gone past classification,
  unless it was transferred.
\<close>

definition backed :: "pm6 \<Rightarrow> IncidentRecord \<Rightarrow> bool" where
  "backed s r \<longleftrightarrow>
     (\<exists>a \<in> set (m6_alerts s). ic_linked_alerts r = [al_alert_id a] \<and> \<not> al_suppressed a \<and>
        al_severity a = ic_severity r)"

definition answered :: "pm6 \<Rightarrow> IncidentRecord \<Rightarrow> bool" where
  "answered s r \<longleftrightarrow>
     (\<exists>e \<in> set (m6_escalations s). ea_incident_id e = ic_incident_id r \<and> ea_severity e = ic_severity r) \<and>
     ic_incident_id r \<in> rt_incident_id ` set (m6_tasks s)"

definition tracked :: "pm6 \<Rightarrow> IncidentRecord \<Rightarrow> bool" where
  "tracked s r \<longleftrightarrow>
     backed s r \<and> ic_incident_id r < m6_next_id s \<and> ic_severity r \<in> {SV_MEDIUM, SV_HIGH, SV_CRITICAL} \<and>
     (ic_severity r = SV_MEDIUM \<longrightarrow> parked (ic_state r)) \<and>
     (ic_severity r \<noteq> SV_MEDIUM \<longrightarrow> \<not> early (ic_state r) \<and> answered s r)"

definition harmless :: "ControlRequest \<Rightarrow> bool" where
  "harmless q \<longleftrightarrow> \<not> ct_broker_command q \<and> ct_approval_required q"

definition plan_ok :: "OrderlyWithdrawalPlan option \<Rightarrow> bool" where
  "plan_ok plan \<longleftrightarrow>
     (case plan of None \<Rightarrow> True | Some p \<Rightarrow> wp_state p \<in> {WS_CONFIRMED, WS_COMPLETED} \<longrightarrow> wp_confirmed p)"

definition m6_inv :: "pm6 \<Rightarrow> bool" where
  "m6_inv s \<longleftrightarrow>
     distinct (map ic_incident_id (m6_incidents s)) \<and> (\<forall>r \<in> set (m6_incidents s). tracked s r) \<and>
     (\<forall>q \<in> set (m6_requests s). harmless q) \<and> plan_ok (m6_plan s)"

lemma m6_inv_init: "m6_inv (pm6_init c f v i g w)"
  by (simp add: m6_inv_def pm6_init_def plan_ok_def)

text \<open>Growth of the logs keeps an incident tracked.\<close>

definition grows :: "pm6 \<Rightarrow> pm6 \<Rightarrow> bool" where
  "grows s t \<longleftrightarrow>
     set (m6_alerts s) \<subseteq> set (m6_alerts t) \<and> set (m6_escalations s) \<subseteq> set (m6_escalations t) \<and>
     rt_incident_id ` set (m6_tasks s) \<subseteq> rt_incident_id ` set (m6_tasks t) \<and> m6_next_id s \<le> m6_next_id t"

lemma tracked_grows: "tracked s r \<Longrightarrow> grows s t \<Longrightarrow> tracked t r"
  unfolding tracked_def grows_def backed_def answered_def by (auto 0 4 intro: less_le_trans)

lemma same_book_inv: "same_book s t \<Longrightarrow> m6_inv s \<Longrightarrow> m6_inv t"
  unfolding m6_inv_def using tracked_grows [of s _ t] by (auto simp: same_book_def grows_def)

lemma subset_evolves: "set (m6_incidents s) \<subseteq> set (m6_incidents t) \<Longrightarrow> evolves s t"
  unfolding evolves_def using moves_refl by blast

lemma same_book_evolves: "same_book s t \<Longrightarrow> evolves s t"
  by (rule subset_evolves) (simp add: same_book_def)

subsection \<open>Findings keep the invariant\<close>

lemma dedup_fresh:
  "fst (dedup_apply c a now seen) = a \<or> al_suppressed (fst (dedup_apply c a now seen))"
  by (simp add: dedup_apply_def Let_def split: option.splits)

lemma unsuppressed_alert:
  "\<not> al_suppressed (finding_alert now truth order f s) \<Longrightarrow>
   finding_alert now truth order f s = alert_of (m6_next_id s) f now truth order"
  using dedup_fresh unfolding finding_alert_def by metis

lemma after_alert_book [simp]:
  "m6_alerts (after_alert now truth order f s) = m6_alerts s @ [finding_alert now truth order f s]"
  "m6_incidents (after_alert now truth order f s) = m6_incidents s"
  "m6_escalations (after_alert now truth order f s) = m6_escalations s"
  "m6_tasks (after_alert now truth order f s) = m6_tasks s"
  "m6_requests (after_alert now truth order f s) = m6_requests s"
  "m6_plan (after_alert now truth order f s) = m6_plan s"
  "m6_next_id (after_alert now truth order f s) = Suc (m6_next_id s)"
  by (simp_all add: after_alert_def Let_def)

lemma after_incident_book [simp]:
  "m6_alerts (after_incident now truth f a s) = m6_alerts s"
  "m6_seen (after_incident now truth f a s) = m6_seen s"
  "m6_incidents (after_incident now truth f a s) = m6_incidents s @ [opened (m6_next_id s) f a now truth]"
  by (simp_all add: after_incident_def after_escalate_def after_recommend_def Let_def)

lemma after_alert_grows: "grows s (after_alert now truth order f s)"
  by (auto simp: grows_def)

lemma after_incident_grows: "grows s (after_incident now truth f a s)"
  by (auto simp: grows_def after_incident_def after_escalate_def after_recommend_def Let_def split: option.splits)

lemma after_incident_requests:
  "q \<in> set (m6_requests (after_incident now truth f a s)) \<Longrightarrow> q \<in> set (m6_requests s) \<or> harmless q"
  by (auto simp: after_incident_def after_escalate_def after_recommend_def Let_def harmless_def request_of_def
      split: option.splits if_splits)

lemma after_incident_plan: "plan_ok (m6_plan s) \<Longrightarrow> plan_ok (m6_plan (after_incident now truth f a s))"
  by (simp add: after_incident_def after_escalate_def after_recommend_def Let_def plan_ok_def)

lemma after_incident_next: "m6_next_id s < m6_next_id (after_incident now truth f a s)"
  by (simp add: after_incident_def after_escalate_def after_recommend_def Let_def split: option.splits)

lemma after_incident_answers:
  assumes "fd_severity f \<in> {SV_HIGH, SV_CRITICAL}"
  shows "answered (after_incident now truth f a s) (opened (m6_next_id s) f a now truth)"
  using assms
  by (auto simp: answered_def after_incident_def after_escalate_def after_recommend_def Let_def escalate_def
      open_task_def)

lemma after_incident_tracked:
  assumes "fd_severity f \<in> {SV_MEDIUM, SV_HIGH, SV_CRITICAL}" "a \<in> set (m6_alerts s)" "\<not> al_suppressed a"
    and "al_severity a = fd_severity f"
  shows "tracked (after_incident now truth f a s) (opened (m6_next_id s) f a now truth)"
  unfolding tracked_def
  using assms after_incident_next [of s now truth f a] after_incident_answers [of f now truth a s]
  by (auto simp: backed_def parked_def early_def)

lemma after_alert_inv: "m6_inv s \<Longrightarrow> m6_inv (after_alert now truth order f s)"
  unfolding m6_inv_def using tracked_grows [OF _ after_alert_grows [of s now truth order f]] by simp

lemma after_incident_inv:
  assumes inv: "m6_inv s" and sev: "fd_severity f \<in> {SV_MEDIUM, SV_HIGH, SV_CRITICAL}"
    and a: "a \<in> set (m6_alerts s)" "\<not> al_suppressed a" "al_severity a = fd_severity f"
  shows "m6_inv (after_incident now truth f a s)"
proof -
  have "m6_next_id s \<notin> ic_incident_id ` set (m6_incidents s)"
    using inv by (auto simp: m6_inv_def tracked_def)
  then have "distinct (map ic_incident_id (m6_incidents (after_incident now truth f a s)))"
    using inv by (simp add: m6_inv_def)
  moreover have "tracked (after_incident now truth f a s) r"
    if "r \<in> set (m6_incidents (after_incident now truth f a s))" for r
    using that inv after_incident_tracked [OF sev a] tracked_grows [OF _ after_incident_grows]
    by (auto simp: m6_inv_def)
  ultimately show ?thesis
    using inv after_incident_requests after_incident_plan unfolding m6_inv_def by blast
qed

lemma after_finding_inv:
  assumes "m6_inv s"
  shows "m6_inv (after_finding now truth order f s)"
proof (cases "opens_incident f (finding_alert now truth order f s) s")
  case True
  then have sev: "fd_severity f \<in> {SV_MEDIUM, SV_HIGH, SV_CRITICAL}"
    and un: "\<not> al_suppressed (finding_alert now truth order f s)"
    by (auto simp: opens_incident_def)
  have "al_severity (finding_alert now truth order f s) = fd_severity f"
    using unsuppressed_alert [OF un] by (simp add: alert_of_def)
  with True sev un after_alert_inv [OF assms] show ?thesis
    by (simp add: after_finding_def after_incident_inv)
next
  case False
  with after_alert_inv [OF assms] show ?thesis by (simp add: after_finding_def)
qed

lemma after_findings_inv: "m6_inv s \<Longrightarrow> m6_inv (after_findings now truth order fs s)"
  unfolding after_findings_def by (induction fs arbitrary: s) (simp_all add: after_finding_inv)

lemma after_finding_incidents:
  "m6_incidents (after_finding now truth order f s) =
     m6_incidents s @ (if opens_incident f (finding_alert now truth order f s) s
       then [opened (Suc (m6_next_id s)) f (finding_alert now truth order f s) now truth] else [])"
  by (simp add: after_finding_def)

lemma after_findings_incidents:
  "set (m6_incidents s) \<subseteq> set (m6_incidents (after_findings now truth order fs s))"
  unfolding after_findings_def
proof (induction fs arbitrary: s)
  case (Cons f fs)
  have "set (m6_incidents s) \<subseteq> set (m6_incidents (after_finding now truth order f s))"
    by (auto simp: after_finding_incidents)
  with Cons [of "after_finding now truth order f s"] show ?case by auto
qed simp

lemma observe_inv: "m6_inv s \<Longrightarrow> m6_inv (snd (observe H now x risk act s))"
  by (rule observe_run [of H now x risk act s])
     (auto simp: handled_def intro: same_book_inv after_findings_inv same_book_inv [OF collected_book])

lemma handled_evolves: "evolves s (handled now x risk s)"
  unfolding handled_def
  by (rule evolves_trans [OF same_book_evolves [OF collected_book [of s now x risk]]])
     (intro subset_evolves after_findings_incidents)

lemma observe_evolves: "evolves s (snd (observe H now x risk act s))"
  by (rule observe_run [of H now x risk act s])
     (use evolves_trans [OF handled_evolves same_book_evolves] in auto)

subsection \<open>Handlers of an incident\<close>

text \<open>
  The contract that the six handlers share: the record moves along the table, a parked state
  stays parked, a transferred incident stays transferred, and a state past classification is
  not left for an early one.
\<close>

locale incident_handler =
  fixes step :: "IncidentRecord \<Rightarrow> IncidentRecord res"
  assumes keeps: "step r = Inr r' \<Longrightarrow> moves r r'"
    and parks: "step r = Inr r' \<Longrightarrow> parked (ic_state r) \<Longrightarrow> parked (ic_state r')"
    and past: "step r = Inr r' \<Longrightarrow> \<not> early (ic_state r) \<Longrightarrow> \<not> early (ic_state r')"
begin

lemma step_tracked: "step r = Inr r' \<Longrightarrow> tracked s r \<Longrightarrow> tracked s r'"
  using keeps [of r r'] parks [of r r'] past [of r r']
  unfolding tracked_def moves_def backed_def answered_def by simp

lemma handle_cases:
  obtains e where "m6_handle iid step s = (Inl e, s)"
  | r r' where "m6_handle iid step s = (Inr r', s\<lparr>m6_incidents := incident_replace r' (m6_incidents s)\<rparr>)"
      and "incident_by_id iid (m6_incidents s) = Some r" and "step r = Inr r'"
proof (cases "incident_by_id iid (m6_incidents s)")
  case None
  then show ?thesis using that(1) by (simp add: m6_handle_def run_simps)
next
  case (Some r)
  show ?thesis
  proof (cases "step r")
    case (Inl e)
    with Some show ?thesis using that(1) by (simp add: m6_handle_def run_simps)
  next
    case (Inr r')
    with Some show ?thesis using that(2) by (simp add: m6_handle_def run_simps)
  qed
qed

lemma replaced:
  assumes "distinct (map ic_incident_id rs)" "incident_by_id iid rs = Some r" "step r = Inr r'" "i \<in> set rs"
    and "ic_incident_id i = ic_incident_id r'"
  shows "moves i r'" and "tracked s i \<Longrightarrow> tracked s r'"
proof -
  have "r \<in> set rs"
    using assms(2) by (auto simp: incident_by_id_def find_Some_iff)
  moreover have "ic_incident_id r' = ic_incident_id r"
    using keeps [OF assms(3)] by (simp add: moves_def)
  ultimately have "i = r"
    using assms(1,4,5) by (auto simp: distinct_map dest: inj_onD)
  with assms(3) show "moves i r'" and "tracked s i \<Longrightarrow> tracked s r'"
    using keeps step_tracked by auto
qed

lemma handle_evolves:
  assumes "m6_inv s"
  shows "evolves s (snd (m6_handle iid step s))"
proof (rule handle_cases [of iid s])
  fix r r'
  assume run: "m6_handle iid step s = (Inr r', s\<lparr>m6_incidents := incident_replace r' (m6_incidents s)\<rparr>)"
    and found: "incident_by_id iid (m6_incidents s) = Some r" "step r = Inr r'"
  have d: "distinct (map ic_incident_id (m6_incidents s))" using assms by (simp add: m6_inv_def)
  have "\<exists>j \<in> set (incident_replace r' (m6_incidents s)). moves i j" if "i \<in> set (m6_incidents s)" for i
  proof -
    have "(if ic_incident_id i = ic_incident_id r' then r' else i) \<in> set (incident_replace r' (m6_incidents s))"
      using that by (simp add: incident_replace_def)
    moreover have "moves i (if ic_incident_id i = ic_incident_id r' then r' else i)"
      using replaced(1) [OF d found that] by simp
    ultimately show ?thesis by blast
  qed
  with run show ?thesis by (simp add: evolves_def)
qed (simp add: evolves_refl)

lemma handle_inv:
  assumes "m6_inv s"
  shows "m6_inv (snd (m6_handle iid step s))"
proof (rule handle_cases [of iid s])
  fix r r'
  assume run: "m6_handle iid step s = (Inr r', s\<lparr>m6_incidents := incident_replace r' (m6_incidents s)\<rparr>)"
    and found: "incident_by_id iid (m6_incidents s) = Some r" "step r = Inr r'"
  let ?t = "s\<lparr>m6_incidents := incident_replace r' (m6_incidents s)\<rparr>"
  have d: "distinct (map ic_incident_id (m6_incidents s))" using assms by (simp add: m6_inv_def)
  have "map ic_incident_id (incident_replace r' (m6_incidents s)) = map ic_incident_id (m6_incidents s)"
    by (simp add: incident_replace_def)
  moreover have "tracked ?t i" if i: "i \<in> set (incident_replace r' (m6_incidents s))" for i
  proof -
    obtain j where j: "j \<in> set (m6_incidents s)" "i = (if ic_incident_id j = ic_incident_id r' then r' else j)"
      using i unfolding incident_replace_def set_map by blast
    moreover have "tracked s j" using assms j(1) by (simp add: m6_inv_def)
    ultimately have "tracked s i" using replaced(2) [OF d found j(1)] by simp
    then show ?thesis by (rule tracked_grows) (simp add: grows_def)
  qed
  ultimately show ?thesis using assms run by (simp add: m6_inv_def)
qed (use assms in simp)

end

lemma step_if_Inr:
  "step_if from target now r = Inr r' \<longleftrightarrow>
     (if ic_state r = from then incident_transit target now r = Inr r' else r' = r)"
  by (auto simp: step_if_def)

lemmas handler_simps = step_if_Inr res_simps parked_def early_def

interpretation classify: incident_handler
  "\<lambda>r. rbind (step_if IS_DETECTED IS_TRIAGED now r) (step_if IS_TRIAGED IS_CLASSIFIED now)"
  by unfold_locales
     (auto simp: handler_simps split: if_splits dest!: moves_transit intro: moves_trans)

text \<open>Writing a status into the record after a transition is still a move.\<close>

lemma moves_status [simp]:
  "moves r (n\<lparr>ic_containment_status := x\<rparr>) \<longleftrightarrow> moves r n" "moves r (n\<lparr>ic_remediation_status := x\<rparr>) \<longleftrightarrow> moves r n"
  "moves r (n\<lparr>ic_review_status := x\<rparr>) \<longleftrightarrow> moves r n"
  "moves r (n\<lparr>ic_suppressed := b, ic_suppress_reason := y, ic_updated_at := z\<rparr>) \<longleftrightarrow> moves r n"
  by (simp_all add: moves_def)

interpretation contain: incident_handler
  "\<lambda>r. rbind (step_if IS_ESCALATED IS_CONTAINMENT_IN_PROGRESS now r) (\<lambda>cur.
     if ic_state cur = IS_CONTAINMENT_IN_PROGRESS
     then rbind (incident_transit IS_CONTAINED now cur) (\<lambda>n. Inr (n\<lparr>ic_containment_status := ''contained''\<rparr>))
     else Inr cur)"
  by unfold_locales
     (auto simp: handler_simps split: if_splits dest!: moves_transit intro: moves_trans)

interpretation resolve: incident_handler
  "\<lambda>r. if ic_state r = IS_CONTAINED
     then rbind (incident_transit IS_RESOLVED now r) (\<lambda>n. Inr (n\<lparr>ic_remediation_status := ''resolved''\<rparr>))
     else if ic_state r = IS_REMEDIATION_IN_PROGRESS
     then rbind (incident_transit IS_RESOLVED now r) (\<lambda>n. Inr (n\<lparr>ic_remediation_status := ''resolved''\<rparr>))
     else Inr r"
  by unfold_locales
     (auto simp: handler_simps split: if_splits dest!: moves_transit intro: moves_trans)

interpretation closing: incident_handler
  "\<lambda>r. rbind (step_if IS_RESOLVED IS_REVIEW_PENDING now r) (\<lambda>cur.
     if ic_state cur = IS_REVIEW_PENDING
     then rbind (incident_transit IS_CLOSED now cur) (\<lambda>n. Inr (n\<lparr>ic_review_status := reason\<rparr>))
     else Inr cur)"
  by unfold_locales
     (auto simp: handler_simps split: if_splits dest!: moves_transit intro: moves_trans)

interpretation transfer: incident_handler "incident_transit IS_TRANSFERRED_TO_PERSISTENCE now"
  by unfold_locales (auto simp: handler_simps dest!: moves_transit)

interpretation suppress: incident_handler
  "\<lambda>r. raise_if (blank reason) (ValueError ''suppression requires a reason'')
     (Inr (r\<lparr>ic_suppressed := True, ic_suppress_reason := Some reason, ic_updated_at := now\<rparr>))"
  by unfold_locales (auto simp: handler_simps)

lemmas handlers_inv = classify.handle_inv contain.handle_inv resolve.handle_inv closing.handle_inv
  transfer.handle_inv suppress.handle_inv

lemmas handlers_evolve = classify.handle_evolves contain.handle_evolves resolve.handle_evolves
  closing.handle_evolves transfer.handle_evolves suppress.handle_evolves

lemmas m6_handler_defs = classify_incident_def contain_incident_def resolve_incident_def close_incident_def
  transfer_incident_def suppress_incident_def

subsection \<open>Remediation and withdrawal\<close>

lemma close_first_ids:
  "close_first tid ev ts = Some (t, ts') \<Longrightarrow> map rt_incident_id ts' = map rt_incident_id ts"
  by (induction ts arbitrary: t ts') (auto simp: close_task_def split: if_splits)

lemma close_remediation_inv:
  assumes "m6_inv s"
  shows "m6_inv (snd (close_remediation ev tid s)) \<and> evolves s (snd (close_remediation ev tid s))"
proof (cases "close_first tid ev (m6_tasks s)")
  case None
  with assms show ?thesis by (simp add: close_remediation_def evolves_refl)
next
  case (Some p)
  obtain t ts where p: "p = (t, ts)" by (cases p)
  let ?u = "s\<lparr>m6_tasks := ts\<rparr>"
  have "map rt_incident_id ts = map rt_incident_id (m6_tasks s)"
    using Some p close_first_ids by simp
  then have "rt_incident_id ` set ts = rt_incident_id ` set (m6_tasks s)"
    by (metis set_map)
  then have "grows s ?u" by (simp add: grows_def)
  then have "m6_inv ?u"
    using assms tracked_grows [of s _ ?u] by (simp add: m6_inv_def)
  moreover have "evolves s ?u" by (rule subset_evolves) simp
  ultimately show ?thesis using Some p by (simp add: close_remediation_def)
qed

lemma m6_withdraw_cases:
  obtains e where "m6_withdraw target now c s = (Inl e, s)"
  | p p' where "m6_withdraw target now c s = (Inr p', s\<lparr>m6_plan := Some p'\<rparr>)" "m6_plan s = Some p"
      "can_withdrawal (wp_state p) target" "wp_state p' = target" "wp_confirmed p' = (wp_confirmed p \<or> c)"
proof -
  have "(\<exists>e. m6_withdraw target now c s = (Inl e, s)) \<or>
    (\<exists>p p'. m6_withdraw target now c s = (Inr p', s\<lparr>m6_plan := Some p'\<rparr>) \<and> m6_plan s = Some p \<and>
       can_withdrawal (wp_state p) target \<and> wp_state p' = target \<and> wp_confirmed p' = (wp_confirmed p \<or> c))"
    by (simp add: m6_withdraw_def withdrawal_transit_def raise_if_def run_simps split: option.splits)
  then show ?thesis using that by blast
qed

lemma plan_update_inv:
  assumes "m6_inv s" "plan_ok plan"
  shows "m6_inv (s\<lparr>m6_plan := plan\<rparr>) \<and> evolves s (s\<lparr>m6_plan := plan\<rparr>)"
  using assms tracked_grows [of s _ "s\<lparr>m6_plan := plan\<rparr>"] subset_evolves [of s "s\<lparr>m6_plan := plan\<rparr>"]
  by (simp add: m6_inv_def grows_def)

lemma m6_withdraw_inv:
  assumes "m6_inv s" "target \<in> {WS_CONFIRMED, WS_COMPLETED} \<longrightarrow> c"
  shows "m6_inv (snd (m6_withdraw target now c s)) \<and> evolves s (snd (m6_withdraw target now c s))"
  by (rule m6_withdraw_cases [of target now c s])
     (use assms plan_update_inv [OF assms(1)] evolves_refl in \<open>auto simp: plan_ok_def\<close>)

lemma initiate_inv:
  assumes "m6_inv s"
  shows "m6_inv (snd (initiate_withdrawal now s)) \<and> evolves s (snd (initiate_withdrawal now s))"
proof (rule m6_withdraw_cases [of WS_APPROVAL_PENDING now False s])
  fix e assume "m6_withdraw WS_APPROVAL_PENDING now False s = (Inl e, s)"
  with assms m6_withdraw_inv [of s WS_INITIATED False now] evolves_refl show ?thesis
    by (simp add: initiate_withdrawal_def bnd_def get_st_def ret_def)
next
  fix p p'
  assume run: "m6_withdraw WS_APPROVAL_PENDING now False s = (Inr p', s\<lparr>m6_plan := Some p'\<rparr>)"
    and p': "wp_state p' = WS_APPROVAL_PENDING"
  have mid: "m6_inv (s\<lparr>m6_plan := Some p'\<rparr>)" "evolves s (s\<lparr>m6_plan := Some p'\<rparr>)"
    using plan_update_inv [OF assms, of "Some p'"] p' by (simp_all add: plan_ok_def)
  with run assms m6_withdraw_inv [of _ WS_INITIATED False now] evolves_trans [OF mid(2)] show ?thesis
    by (simp add: initiate_withdrawal_def bnd_def get_st_def ret_def)
qed

lemmas withdrawal_defs = approve_withdrawal_def progress_withdrawal_def confirm_withdrawal_def
  complete_withdrawal_def fail_withdrawal_def

subsection \<open>Every call\<close>

lemma pm6_run_inv: "m6_inv s \<Longrightarrow> m6_inv (pm6_run H call s)"
  by (cases call)
     (simp_all add: observe_inv m6_handler_defs handlers_inv close_remediation_inv initiate_inv withdrawal_defs
        m6_withdraw_inv)

lemma pm6_run_evolves: "m6_inv s \<Longrightarrow> evolves s (pm6_run H call s)"
  by (cases call)
     (simp_all add: observe_evolves m6_handler_defs handlers_evolve close_remediation_inv initiate_inv withdrawal_defs
        m6_withdraw_inv)

lemma pm6_reach_inv: "pm6_reach H s t \<Longrightarrow> m6_inv s \<Longrightarrow> m6_inv t"
  by (induction rule: pm6_reach.induct) (simp_all add: pm6_run_inv)

lemma pm6_reach_evolves: "pm6_reach H s t \<Longrightarrow> m6_inv s \<Longrightarrow> evolves s t"
proof (induction rule: pm6_reach.induct)
  case start
  show ?case by (rule evolves_refl)
next
  case (step t call)
  then show ?case using evolves_trans pm6_run_evolves pm6_reach_inv by blast
qed

end
