(* ===== verification/PostTradeGuarantees.thy ===== *)
theory PostTradeGuarantees
  imports PostTradeProps
begin

section \<open>What the monitor guarantees\<close>

text \<open>
  The spacing of alerts by the deduplication, the handling of an execution after a kill latch
  and the need for a confirmation, as lemmas on the handlers.
\<close>

subsection \<open>Spacing of alerts\<close>

text \<open>Alerts of one fingerprint that were not suppressed are more than the window apart.\<close>

definition spaced :: "int \<Rightarrow> PostTradeAlert \<Rightarrow> PostTradeAlert \<Rightarrow> bool" where
  "spaced w a b \<longleftrightarrow>
     (\<not> al_suppressed a \<and> \<not> al_suppressed b \<and> al_fingerprint a = al_fingerprint b \<longrightarrow>
      al_occurred_at b - al_occurred_at a > w)"

definition dedup_inv :: "pm6 \<Rightarrow> bool" where
  "dedup_inv s \<longleftrightarrow>
     sorted_wrt (spaced (seconds (pc_alert_dedup_seconds (m6_config s)))) (m6_alerts s) \<and>
     (\<forall>a \<in> set (m6_alerts s). \<not> al_suppressed a \<longrightarrow>
        (\<exists>p. dict_get (m6_seen s) (al_fingerprint a) = Some p \<and> al_occurred_at a \<le> al_occurred_at p))"

lemma dedup_apply_cases:
  assumes "dedup_apply c alert now seen = (a, seen')"
  obtains (fresh) "a = alert" "seen' = dict_put (al_fingerprint alert) alert seen"
      "\<forall>p. dict_get seen (al_fingerprint alert) = Some p \<longrightarrow>
         now - al_occurred_at p > seconds (pc_alert_dedup_seconds c)"
  | (again) p where "al_suppressed a" "dict_get seen (al_fingerprint alert) = Some p"
      "seen' = dict_put (al_fingerprint alert) a seen" "al_occurred_at a = al_occurred_at p"
  using assms by (auto simp: dedup_apply_def Let_def split: option.splits if_splits)

lemma after_alert_dedup:
  assumes inv: "dedup_inv s" and w: "0 \<le> pc_alert_dedup_seconds (m6_config s)"
  shows "dedup_inv (after_alert now truth order f s)"
proof -
  let ?alert = "alert_of (m6_next_id s) f now truth order" and ?c = "m6_config s"
  have now: "al_occurred_at ?alert = now" by (simp add: alert_of_def)
  obtain a seen where d: "dedup_apply ?c ?alert now (m6_seen s) = (a, seen)" by fastforce
  have t: "after_alert now truth order f s = s\<lparr>m6_next_id := Suc (m6_next_id s), m6_seen := seen,
      m6_alert_repo := m6_alert_repo s @ [a], m6_alerts := m6_alerts s @ [a],
      m6_timeline := m6_timeline s @ [(now, ''alert '' @ fd_detector f @ '' suppressed='' @ bool_str (al_suppressed a))]\<rparr>"
    using d by (simp add: after_alert_def finding_alert_def Let_def)
  have old: "\<exists>p. dict_get (m6_seen s) (al_fingerprint b) = Some p \<and> al_occurred_at b \<le> al_occurred_at p"
    if "b \<in> set (m6_alerts s)" "\<not> al_suppressed b" for b
    using inv that by (auto simp: dedup_inv_def)
  have "0 \<le> seconds (pc_alert_dedup_seconds ?c)" using w by simp
  from d show ?thesis
  proof (cases rule: dedup_apply_cases)
    case fresh
    have gap: "now - al_occurred_at b > seconds (pc_alert_dedup_seconds ?c)"
      if b: "b \<in> set (m6_alerts s)" "\<not> al_suppressed b" "al_fingerprint b = al_fingerprint ?alert" for b
      using old [OF b(1,2)] fresh(3) b(3) by fastforce
    then have "spaced (seconds (pc_alert_dedup_seconds ?c)) b a" if "b \<in> set (m6_alerts s)" for b
      using that now fresh(1) by (auto simp: spaced_def)
    moreover have "\<exists>p. dict_get seen (al_fingerprint b) = Some p \<and> al_occurred_at b \<le> al_occurred_at p"
      if b: "b \<in> set (m6_alerts s @ [a])" "\<not> al_suppressed b" for b
      using that old [of b] gap [of b] fresh now w by (auto simp: dict_simps seconds_def)
    ultimately show ?thesis
      using inv by (simp add: dedup_inv_def t sorted_wrt_append)
  next
    case (again p)
    have "\<exists>q. dict_get seen (al_fingerprint b) = Some q \<and> al_occurred_at b \<le> al_occurred_at q"
      if "b \<in> set (m6_alerts s)" "\<not> al_suppressed b" for b
      using old [OF that] again by (auto simp: dict_simps)
    with again inv show ?thesis
      by (simp add: dedup_inv_def t sorted_wrt_append spaced_def)
  qed
qed

lemma after_finding_dedup:
  "dedup_inv s \<Longrightarrow> 0 \<le> pc_alert_dedup_seconds (m6_config s) \<Longrightarrow> dedup_inv (after_finding now truth order f s)"
  using after_alert_dedup [of s now truth order f]
  by (auto simp: after_finding_def Let_def dedup_inv_def after_incident_def after_escalate_def after_recommend_def)

lemma after_findings_dedup:
  "dedup_inv s \<Longrightarrow> 0 \<le> pc_alert_dedup_seconds (m6_config s) \<Longrightarrow>
   dedup_inv (after_findings now truth order fs s) \<and> m6_config (after_findings now truth order fs s) = m6_config s"
  unfolding after_findings_def by (induction fs arbitrary: s) (simp_all add: after_finding_dedup)

lemma same_book_dedup:
  "same_book s t \<Longrightarrow> dedup_inv s \<Longrightarrow> dedup_inv t \<and> m6_config t = m6_config s"
  by (simp add: same_book_def dedup_inv_def)

lemma handled_dedup:
  "dedup_inv s \<Longrightarrow> 0 \<le> pc_alert_dedup_seconds (m6_config s) \<Longrightarrow>
   dedup_inv (handled now x risk s) \<and> m6_config (handled now x risk s) = m6_config s"
  unfolding handled_def
  using same_book_dedup [OF collected_book [of s now x risk]] after_findings_dedup by metis

text \<open>The other calls touch neither the alerts nor the table of fingerprints.\<close>

definition same_alerts :: "pm6 \<Rightarrow> pm6 \<Rightarrow> bool" where
  "same_alerts s t \<longleftrightarrow> m6_alerts t = m6_alerts s \<and> m6_seen t = m6_seen s \<and> m6_config t = m6_config s"

lemma same_alerts_dedup: "same_alerts s t \<Longrightarrow> dedup_inv s \<Longrightarrow> dedup_inv t \<and> m6_config t = m6_config s"
  by (simp add: same_alerts_def dedup_inv_def)

lemma m6_handle_alerts: "same_alerts s (snd (m6_handle iid f s))"
  by (simp add: m6_handle_def run_simps same_alerts_def split: option.splits sum.splits)

lemma m6_withdraw_alerts: "same_alerts s (snd (m6_withdraw target now c s))"
  by (rule m6_withdraw_cases [of target now c s]) (simp_all add: same_alerts_def)

lemma initiate_alerts: "same_alerts s (snd (initiate_withdrawal now s))"
  using m6_withdraw_alerts [of s WS_APPROVAL_PENDING now False] m6_withdraw_alerts [of _ WS_INITIATED now False]
  by (auto simp: initiate_withdrawal_def bnd_def get_st_def ret_def same_alerts_def split: prod.splits sum.splits)

lemma close_remediation_alerts: "same_alerts s (snd (close_remediation ev tid s))"
  by (simp add: close_remediation_def same_alerts_def split: option.splits prod.splits)

lemma pm6_run_dedup:
  assumes "dedup_inv s" "0 \<le> pc_alert_dedup_seconds (m6_config s)"
  shows "dedup_inv (pm6_run H call s) \<and> m6_config (pm6_run H call s) = m6_config s"
proof (cases "\<exists>now x risk act. call = Observe now x risk act")
  case True
  then obtain now x risk act where "call = Observe now x risk act" by blast
  then show ?thesis
    by simp (rule observe_run [of H now x risk act s],
      use same_book_dedup handled_dedup [OF assms, of now x risk] in auto)
next
  case False
  then have "same_alerts s (pm6_run H call s)"
    by (cases call) (simp_all add: m6_handler_defs m6_handle_alerts withdrawal_defs m6_withdraw_alerts initiate_alerts
        close_remediation_alerts)
  then show ?thesis using assms(1) by (rule same_alerts_dedup)
qed

lemma pm6_reach_dedup:
  "pm6_reach H s t \<Longrightarrow> dedup_inv s \<Longrightarrow> 0 \<le> pc_alert_dedup_seconds (m6_config s) \<Longrightarrow>
   dedup_inv t \<and> m6_config t = m6_config s"
  by (induction rule: pm6_reach.induct) (use pm6_run_dedup in auto)

lemma dedup_inv_init: "dedup_inv (pm6_init c f v i g w)"
  by (simp add: dedup_inv_def pm6_init_def)

subsection \<open>Execution after a kill latch\<close>

text \<open>A finding only touches the entry of its own fingerprint.\<close>

definition fingerprint :: "Finding \<Rightarrow> string" where
  "fingerprint f = (if fd_fingerprint f = [] then fd_detector f else fd_fingerprint f)"

lemma alert_fingerprint [simp]: "al_fingerprint (alert_of aid f now truth order) = fingerprint f"
  by (simp add: alert_of_def fingerprint_def)

lemma after_finding_seen:
  "fingerprint f \<noteq> k \<Longrightarrow> dict_get (m6_seen (after_finding now truth order f s)) k = dict_get (m6_seen s) k"
  by (auto simp: after_finding_def after_alert_def Let_def dedup_apply_def dict_simps split: option.splits)

lemma after_findings_seen:
  "\<forall>f \<in> set fs. fingerprint f \<noteq> k \<Longrightarrow>
   dict_get (m6_seen (after_findings now truth order fs s)) k = dict_get (m6_seen s) k"
  unfolding after_findings_def by (induction fs arbitrary: s) (simp_all add: after_finding_seen)

lemma after_findings_flags [simp]:
  "m6_surveillance_enabled (after_findings now truth order fs s) = m6_surveillance_enabled s"
  "m6_incident_enabled (after_findings now truth order fs s) = m6_incident_enabled s"
  "m6_withdrawal_enabled (after_findings now truth order fs s) = m6_withdrawal_enabled s"
  "m6_config (after_findings now truth order fs s) = m6_config s"
  unfolding after_findings_def by (induction fs arbitrary: s) simp_all

text \<open>A fingerprint is quiet when the next finding with it is not a duplicate.\<close>

definition quiet :: "pm6 \<Rightarrow> string \<Rightarrow> datetime \<Rightarrow> bool" where
  "quiet s k now \<longleftrightarrow>
     (case dict_get (m6_seen s) k of None \<Rightarrow> True
      | Some p \<Rightarrow> now - al_occurred_at p > seconds (pc_alert_dedup_seconds (m6_config s)))"

lemma quiet_alert:
  "quiet s (fingerprint f) now \<Longrightarrow> finding_alert now truth order f s = alert_of (m6_next_id s) f now truth order"
  by (simp add: finding_alert_def dedup_apply_def quiet_def split: option.splits)

lemma quiet_seen:
  "quiet s (fingerprint f) now \<Longrightarrow>
   m6_seen (after_finding now truth order f s) =
     dict_put (fingerprint f) (alert_of (m6_next_id s) f now truth order) (m6_seen s)"
  by (simp add: after_finding_def after_alert_def dedup_apply_def quiet_def Let_def split: option.splits)

lemma finding_alerts_append:
  "finding_alerts now truth order (fs @ gs) s =
     finding_alerts now truth order fs s @ finding_alerts now truth order gs (after_findings now truth order fs s)"
  by (induction fs arbitrary: s) (simp_all add: after_findings_def)

lemma after_findings_append:
  "after_findings now truth order (fs @ gs) s = after_findings now truth order gs (after_findings now truth order fs s)"
  by (simp add: after_findings_def)

text \<open>What a later finding keeps: incidents, requests, a plan that is under way.\<close>

definition under_way :: "OrderlyWithdrawalPlan option \<Rightarrow> bool" where
  "under_way plan \<longleftrightarrow> \<not> plan_idle plan"

definition keeps_book :: "pm6 \<Rightarrow> pm6 \<Rightarrow> bool" where
  "keeps_book s t \<longleftrightarrow>
     set (m6_incidents s) \<subseteq> set (m6_incidents t) \<and> set (m6_requests s) \<subseteq> set (m6_requests t) \<and>
     (under_way (m6_plan s) \<longrightarrow> under_way (m6_plan t))"

lemma keeps_book_trans: "keeps_book s t \<Longrightarrow> keeps_book t u \<Longrightarrow> keeps_book s u"
  by (auto simp: keeps_book_def)

lemma after_finding_keeps: "keeps_book s (after_finding now truth order f s)"
  by (auto simp: keeps_book_def after_finding_def after_incident_def after_escalate_def after_recommend_def
      under_way_def Let_def split: option.splits)

lemma after_findings_keeps: "keeps_book s (after_findings now truth order fs s)"
  unfolding after_findings_def
proof (induction fs arbitrary: s)
  case Nil
  show ?case by (simp add: keeps_book_def)
next
  case (Cons f fs)
  then show ?case
    using keeps_book_trans [OF after_finding_keeps [of s now truth order f]] by simp
qed

text \<open>What one escalating finding of a mapped type adds.\<close>

lemma finding_escalates:
  assumes "quiet s (fingerprint f) now" "m6_incident_enabled s" "fd_severity f \<in> {SV_HIGH, SV_CRITICAL}"
    and ty: "fd_incident_type f = Some ty" and kind: "map_of TYPE_TO_REQUEST ty = Some k"
  shows "(\<exists>i \<in> set (m6_incidents (after_finding now truth order f s)).
           ic_incident_type i = ty \<and> ic_severity i = fd_severity f \<and> ic_state i = IS_ESCALATED \<and>
           ic_occurred_at i = now) \<and>
         (\<exists>q \<in> set (m6_requests (after_finding now truth order f s)).
           ct_kind q = k \<and> ct_occurred_at q = now) \<and>
         (m6_withdrawal_enabled s \<and> ty \<in> set withdrawal_types \<longrightarrow>
           under_way (m6_plan (after_finding now truth order f s)))"
proof -
  let ?a = "finding_alert now truth order f s" and ?s = "after_alert now truth order f s"
  let ?inc = "opened (m6_next_id ?s) f ?a now truth"
  have "opens_incident f ?a s"
    using assms by (auto simp: opens_incident_def quiet_alert alert_of_def)
  then have t: "after_finding now truth order f s = after_incident now truth f ?a ?s"
    by (simp add: after_finding_def)
  have esc: "ic_state ?inc = IS_ESCALATED" and of_ty: "ic_incident_type ?inc = ty"
    using assms(3) ty by simp_all
  have flag: "m6_withdrawal_enabled ?s = m6_withdrawal_enabled s"
    by (simp add: after_alert_def Let_def)
  have "?inc \<in> set (m6_incidents (after_incident now truth f ?a ?s))" by simp
  moreover have "ic_occurred_at ?inc = now"
    by (simp add: opened_def detected_incident_def classify_finding_def Let_def)
  moreover have "\<exists>q \<in> set (m6_requests (after_incident now truth f ?a ?s)). ct_kind q = k \<and> ct_occurred_at q = now"
    using esc of_ty kind
    by (simp add: after_incident_def after_escalate_def after_recommend_def Let_def request_of_def)
  moreover have "under_way (m6_plan (after_incident now truth f ?a ?s))"
    if "m6_withdrawal_enabled s" "ty \<in> set withdrawal_types"
    using that esc of_ty flag
    by (simp add: after_incident_def after_escalate_def after_recommend_def Let_def under_way_def plan_idle_def)
  ultimately show ?thesis using esc of_ty by (auto simp: t)
qed

text \<open>The finding of the breach is among the findings, behind others with other fingerprints.\<close>

definition breach :: "OrderRecord \<Rightarrow> Finding" where
  "breach ord = finding ''execution_after_kill'' ''risk/control'' SV_CRITICAL
     ''execution activity after kill-switch latch'' ''emergency_containment'' IT_KILL_STATE_BREACH
     (fp_of ''kill_breach'' (uuid_str (order_id ord)))"

lemma breach_simps [simp]:
  "fd_severity (breach ord) = SV_CRITICAL" "fd_incident_type (breach ord) = Some IT_KILL_STATE_BREACH"
  "fingerprint (breach ord) = fp_of ''kill_breach'' (uuid_str (order_id ord))"
  "fd_detector (breach ord) = ''execution_after_kill''"
  by (simp_all add: breach_def finding_def fingerprint_def fp_of_def)

lemma earlier_fingerprints:
  "f \<in> set (truth_findings e @ drift_findings obs e) \<Longrightarrow> fingerprint f \<noteq> fp_of ''kill_breach'' part"
  by (auto simp: truth_findings_def drift_findings_def finding_def fingerprint_def fp_of_def
      split: option.splits if_splits)

lemma findings_split:
  assumes kill: "ks_status (rb_kill_switch r) \<in> {KILL_TRIPPED, KILL_LATCHED}"
    and work: "accepted (eb_receipt e)" "eb_order e = Some ord" "state ord \<notin> set inactive_states"
    and seen: "inspected (intake_of now (Execution e) (Some r) s)"
  obtains A B where "findings_of now (Execution e) (Some r) s = A @ breach ord # B"
    and "\<forall>f \<in> set A. fingerprint f \<noteq> fp_of ''kill_breach'' (uuid_str (order_id ord))"
proof -
  let ?obs = "normalize_observe (Some e) (Some r) now"
  let ?A = "truth_findings e @ drift_findings ?obs e"
  have obs: "ob_kill ?obs" "ob_execution ?obs = Some e"
    using kill by (auto simp: normalize_observe_def risk_kill_latched_def)
  have "\<exists>K. kill_findings ?obs e = breach ord # K"
    using obs work by (auto simp: kill_findings_def order_working_def order_part_def breach_def)
  then obtain K where K: "kill_findings ?obs e = breach ord # K" by blast
  have "\<exists>X. findings_of now (Execution e) (Some r) s = watched s (?A @ breach ord # X)"
    using seen obs(2) K by (simp add: findings_of_def evaluate_controls_def Let_def) blast
  then obtain X where X: "findings_of now (Execution e) (Some r) s = watched s (?A @ breach ord # X)" by blast
  have "watched s (?A @ breach ord # X) = watched s ?A @ breach ord # watched s X"
    by (simp add: watched_def burst_detectors_def)
  moreover have "\<forall>f \<in> set (watched s ?A). fingerprint f \<noteq> fp_of ''kill_breach'' (uuid_str (order_id ord))"
    unfolding watched_def using earlier_fingerprints by auto
  ultimately show ?thesis using that [of "watched s ?A" "watched s X"] X by simp
qed

lemma kill_handled:
  assumes kill: "ks_status (rb_kill_switch r) \<in> {KILL_TRIPPED, KILL_LATCHED}"
    and work: "accepted (eb_receipt e)" "eb_order e = Some ord" "state ord \<notin> set inactive_states"
    and seen: "inspected (intake_of now (Execution e) (Some r) s)" and on: "m6_incident_enabled s"
    and q: "quiet s (fp_of ''kill_breach'' (uuid_str (order_id ord))) now"
  defines "t \<equiv> handled now (Execution e) (Some r) s"
  shows "fires SV_CRITICAL (alerts_of now (Execution e) (Some r) s)"
    and "\<exists>i \<in> set (m6_incidents t). ic_incident_type i = IT_KILL_STATE_BREACH \<and> ic_severity i = SV_CRITICAL \<and>
           ic_state i = IS_ESCALATED \<and> ic_occurred_at i = now"
    and "\<exists>q \<in> set (m6_requests t). ct_kind q = CQ_FREEZE \<and> ct_occurred_at q = now"
    and "m6_withdrawal_enabled s \<Longrightarrow> under_way (m6_plan t)"
proof -
  let ?truth = "classify_truth (Some e)" and ?order = "map_option order_id (eb_order e)"
  let ?c = "collected now (Execution e) (Some r) s"
  obtain A B where fs: "findings_of now (Execution e) (Some r) s = A @ breach ord # B"
    and A: "\<forall>f \<in> set A. fingerprint f \<noteq> fp_of ''kill_breach'' (uuid_str (order_id ord))"
    by (rule findings_split [OF kill work seen])
  let ?s1 = "after_findings now ?truth ?order A ?c"
  let ?s2 = "after_finding now ?truth ?order (breach ord) ?s1"
  have c: "m6_seen ?c = m6_seen s" "m6_config ?c = m6_config s" "m6_incident_enabled ?c = m6_incident_enabled s"
    "m6_withdrawal_enabled ?c = m6_withdrawal_enabled s"
    using collected_book [of s now "Execution e" "Some r"] by (simp_all add: same_book_def)
  have quiet1: "quiet ?s1 (fingerprint (breach ord)) now"
    using q A by (simp add: quiet_def after_findings_seen c split: option.splits)
  have t: "t = after_findings now ?truth ?order B ?s2"
    by (simp add: t_def handled_def fs after_findings_append) (simp add: after_findings_def)
  then have keep: "keeps_book ?s2 t" by (simp add: after_findings_keeps)
  have esc: "(\<exists>i \<in> set (m6_incidents ?s2). ic_incident_type i = IT_KILL_STATE_BREACH \<and> ic_severity i = SV_CRITICAL \<and>
        ic_state i = IS_ESCALATED \<and> ic_occurred_at i = now) \<and>
      (\<exists>q \<in> set (m6_requests ?s2). ct_kind q = CQ_FREEZE \<and> ct_occurred_at q = now) \<and>
      (m6_withdrawal_enabled s \<longrightarrow> under_way (m6_plan ?s2))"
    using finding_escalates [OF quiet1, of IT_KILL_STATE_BREACH CQ_FREEZE ?truth ?order] on c
    by (simp add: TYPE_TO_REQUEST_def withdrawal_types_def)
  show "\<exists>i \<in> set (m6_incidents t). ic_incident_type i = IT_KILL_STATE_BREACH \<and> ic_severity i = SV_CRITICAL \<and>
        ic_state i = IS_ESCALATED \<and> ic_occurred_at i = now"
    and "\<exists>q \<in> set (m6_requests t). ct_kind q = CQ_FREEZE \<and> ct_occurred_at q = now"
    and "m6_withdrawal_enabled s \<Longrightarrow> under_way (m6_plan t)"
    using keep esc unfolding keeps_book_def by blast+
  show "fires SV_CRITICAL (alerts_of now (Execution e) (Some r) s)"
    using quiet_alert [OF quiet1, of ?truth ?order]
    by (simp add: alerts_of_def fs finding_alerts_append fires_def alert_of_def)
qed

lemma critical_state: "fires SV_CRITICAL alerts \<Longrightarrow> monitoring_state recon intake alerts incs plan = MS_CRITICAL"
proof -
  have "worse x MS_CRITICAL = MS_CRITICAL" "worse MS_CRITICAL y = MS_CRITICAL" for x y
    by (cases x; cases y; simp add: worse_def)+
  then show "fires SV_CRITICAL alerts \<Longrightarrow> ?thesis" by (simp add: monitoring_state_def worse_if_def)
qed

subsection \<open>Completing a withdrawal\<close>

definition unconfirmed :: "OrderlyWithdrawalPlan option \<Rightarrow> bool" where
  "unconfirmed plan \<longleftrightarrow> (case plan of None \<Rightarrow> True | Some p \<Rightarrow> wp_state p \<notin> {WS_CONFIRMED, WS_COMPLETED})"

lemma after_findings_unconfirmed:
  "unconfirmed (m6_plan s) \<Longrightarrow> unconfirmed (m6_plan (after_findings now truth order fs s))"
  unfolding after_findings_def
proof (induction fs arbitrary: s)
  case (Cons f fs)
  have "unconfirmed (m6_plan (after_finding now truth order f s))"
    using Cons.prems
    by (simp add: after_finding_def after_incident_def after_escalate_def after_recommend_def Let_def unconfirmed_def)
  then show ?case using Cons.IH by simp
qed simp

lemma observe_plan: "unconfirmed (m6_plan s) \<Longrightarrow> unconfirmed (m6_plan (snd (observe H now x risk act s)))"
  by (rule observe_run [of H now x risk act s])
     (use collected_book [of s now x risk] in \<open>simp add: handled_def same_book_def after_findings_unconfirmed\<close>)

lemma m6_handle_plan: "m6_plan (snd (m6_handle iid f s)) = m6_plan s"
  by (simp add: m6_handle_def run_simps split: option.splits sum.splits)

lemma m6_withdraw_unconfirmed:
  "unconfirmed (m6_plan s) \<Longrightarrow> target \<noteq> WS_CONFIRMED \<Longrightarrow> unconfirmed (m6_plan (snd (m6_withdraw target now c s)))"
  by (rule m6_withdraw_cases [of target now c s])
     (auto simp: unconfirmed_def can_withdrawal_def WITHDRAWAL_TRANSITIONS_def split: if_splits)

lemma initiate_unconfirmed:
  "unconfirmed (m6_plan s) \<Longrightarrow> unconfirmed (m6_plan (snd (initiate_withdrawal now s)))"
  using m6_withdraw_unconfirmed [of s WS_APPROVAL_PENDING now False]
    m6_withdraw_unconfirmed [of _ WS_INITIATED now False]
  by (auto simp: initiate_withdrawal_def bnd_def get_st_def ret_def split: prod.splits sum.splits)

lemma close_remediation_plan: "m6_plan (snd (close_remediation ev tid s)) = m6_plan s"
  by (simp add: close_remediation_def split: option.splits prod.splits)

lemma pm6_run_unconfirmed:
  "unconfirmed (m6_plan s) \<Longrightarrow> \<forall>now. call \<noteq> Confirm_withdrawal now \<Longrightarrow> unconfirmed (m6_plan (pm6_run H call s))"
  by (cases call)
     (simp_all add: observe_plan m6_handler_defs m6_handle_plan withdrawal_defs m6_withdraw_unconfirmed
        initiate_unconfirmed close_remediation_plan)

end
