(* ===== verification/PostTradeClaims.thy ===== *)
theory PostTradeClaims
  imports PostTradeGuarantees Pm5Guarantees
begin

section \<open>Properties of the post-trade monitor\<close>

text \<open>
  The properties of the monitor over all call sequences, each with a concrete instance: an
  execution bundle of a filled simulation order, and the risk bundle of a latched gate.
\<close>

subsection \<open>Sample inputs\<close>

definition sample_execution :: ExecutionPublicationBundle where
  "sample_execution =
     \<lparr>eb_bundle_id = 20, eb_occurred_at = 0, eb_order = Some sample_order,
      eb_receipt = \<lparr>accepted = True, rp_order_id = Some 0, rp_state = Some ACKNOWLEDGED, rp_reasons = [],
        rp_detail = [], rp_broker_side_effect = False, rp_simulation = True, idempotent_replay = False\<rparr>,
      eb_command = None, eb_lifecycle = [], eb_fills = [], eb_control = [], eb_reconciliation = None,
      eb_exposure = None, eb_quality = None, eb_alerts = [], eb_operating_state = OS_NORMAL,
      eb_execution_mode = EM_SIMULATION, eb_broker_side_effect = False, eb_mt5_used = False,
      eb_durable = False, eb_producer = ''pm5_execution''\<rparr>"

definition latched_risk :: RiskPublicationBundle where
  "latched_risk = (sample_bundle 0 ''k1'' 2)\<lparr>rb_kill_switch :=
     (rb_kill_switch (sample_bundle 0 ''k1'' 2))\<lparr>ks_status := KILL_LATCHED\<rparr>\<rparr>"

definition sample_pm6 :: pm6 where
  "sample_pm6 = pm6_init pm6_config_default True True True True True"

definition no_digest :: "timeline_line list \<Rightarrow> string" where
  "no_digest ls = []"

text \<open>The monitor after the breach, and after its first incident was walked to its end.\<close>

definition alarmed :: pm6 where
  "alarmed = pm6_run no_digest (Observe 0 (Execution sample_execution) (Some latched_risk) None) sample_pm6"

lemma sample_pm6_reach: "pm6_reach H sample_pm6 sample_pm6"
  by (rule pm6_reach.start)

lemma alarmed_reach: "pm6_reach no_digest sample_pm6 alarmed"
  unfolding alarmed_def by (intro pm6_reach.intros)

lemma sample_inspected: "inspected (intake_of 0 (Execution sample_execution) (Some latched_risk) sample_pm6)"
  by code_simp

lemma sample_breach:
  "ks_status (rb_kill_switch latched_risk) \<in> {KILL_TRIPPED, KILL_LATCHED}" "accepted (eb_receipt sample_execution)"
  "eb_order sample_execution = Some sample_order" "state sample_order \<notin> set inactive_states"
  by (simp_all add: latched_risk_def sample_execution_def sample_order_def inactive_states_def)

lemma sample_quiet: "quiet sample_pm6 k now"
  by (simp add: quiet_def sample_pm6_def pm6_init_def dict_simps)

lemma sample_flags:
  "m6_incident_enabled sample_pm6" "m6_withdrawal_enabled sample_pm6" "m6_config sample_pm6 = pm6_config_default"
  by (simp_all add: sample_pm6_def pm6_init_def)

lemma alarmed_incident:
  obtains i where "i \<in> set (m6_incidents alarmed)" "ic_incident_type i = IT_KILL_STATE_BREACH"
    "ic_severity i = SV_CRITICAL" "ic_state i = IS_ESCALATED"
proof (rule observe_run [of no_digest 0 "Execution sample_execution" "Some latched_risk" None sample_pm6])
  fix b t
  assume "observe no_digest 0 (Execution sample_execution) (Some latched_risk) None sample_pm6 = (Inr b, t)"
    and "same_book (handled 0 (Execution sample_execution) (Some latched_risk) sample_pm6) t"
  then have "m6_incidents alarmed =
      m6_incidents (handled 0 (Execution sample_execution) (Some latched_risk) sample_pm6)"
    by (simp add: alarmed_def same_book_def)
  with that kill_handled(2) [OF sample_breach sample_inspected sample_flags(1) sample_quiet] show ?thesis by auto
qed

subsection \<open>Properties\<close>

text \<open>
  An observation of the monitor always returns a bundle, whatever it is given and
  whatever state it is in: no transition it makes is illegal and no validator refuses what it
  builds. The bundle reports this observation, never claims broker truth, never a side effect on
  the broker, and is what the queries answer from then on.
\<close>

theorem pm6_observe_returns:
  "\<exists>b t. observe H now x risk act s = (Inr b, t) \<and> ot_occurred_at b = now \<and>
     ot_truth_source b \<noteq> TS_BROKER_TRUTH \<and> \<not> ot_broker_side_effect b \<and> \<not> ot_mt5_used b \<and> \<not> ot_durable b \<and>
     ot_incidents b = filter incident_open (list_incidents t) \<and> ot_withdrawal b = get_withdrawal_plan t \<and>
     get_operational_truth t = Some b"
proof (rule observe_run [of H now x risk act s])
  fix b t
  assume "observe H now x risk act s = (Inr b, t)" "same_book (handled now x risk s) t"
    "reports now (normalize_observe (execution_of x) risk now) (intake_of now x risk s) (alerts_of now x risk s)
       (handled now x risk s) b" "m6_last_bundle t = Some b"
  then show ?thesis
    using classify_truth_safe [of "execution_of x"]
    by (simp add: reports_def same_book_def list_incidents_def get_withdrawal_plan_def get_operational_truth_def)
qed

text \<open>
  Claim C14. When incident handling is enabled, the risk bundle says that the kill switch is latched or
  tripped and the execution bundle shows an accepted, working order, then an observation whose intake is not rejected, and whose
  alert is not a duplicate within the window, reports a critical state on the snapshot and on
  the control lane, opens an escalated critical incident, asks for a freeze, and, with the
  planner enabled, leaves an orderly withdrawal under way.
\<close>

theorem pm6_kill_detected:
  assumes "m6_incident_enabled s"
    and "ks_status (rb_kill_switch r) \<in> {KILL_TRIPPED, KILL_LATCHED}"
    and "accepted (eb_receipt e)" and "eb_order e = Some ord" and "state ord \<notin> set inactive_states"
    and "ir_disposition (validate_observe (Some e) (Some r) now (m6_config s) (m6_feature_enabled s)) \<noteq> ID_REJECTED"
    and "quiet s (fp_of ''kill_breach'' (uuid_str (order_id ord))) now"
  shows "\<exists>b t. observe H now (Execution e) (Some r) act s = (Inr b, t) \<and>
     ms_state (ot_snapshot b) = MS_CRITICAL \<and> ln_priority (ot_control_lane b) = SV_CRITICAL \<and>
     (\<exists>i \<in> set (ot_incidents b). ic_incident_type i = IT_KILL_STATE_BREACH \<and> ic_severity i = SV_CRITICAL \<and>
        ic_state i = IS_ESCALATED \<and> ic_occurred_at i = now) \<and>
     (\<exists>q \<in> set (m6_requests t). ct_kind q = CQ_FREEZE \<and> ct_occurred_at q = now) \<and>
     (m6_withdrawal_enabled s \<longrightarrow>
        (\<exists>p. ot_withdrawal b = Some p \<and> wp_state p \<notin> {WS_NOT_REQUIRED, WS_COMPLETED, WS_FAILED}))"
proof (rule observe_run [of H now "Execution e" "Some r" act s])
  fix b t
  assume run: "observe H now (Execution e) (Some r) act s = (Inr b, t)"
    and book: "same_book (handled now (Execution e) (Some r) s) t"
    and rep: "reports now (normalize_observe (execution_of (Execution e)) (Some r) now)
       (intake_of now (Execution e) (Some r) s) (alerts_of now (Execution e) (Some r) s)
       (handled now (Execution e) (Some r) s) b"
  have "inspected (intake_of now (Execution e) (Some r) s)"
    using assms(6) by (simp add: inspected_def intake_of_def)
  note found = kill_handled [OF assms(2-5) this assms(1,7)]
  have kill: "ob_kill (normalize_observe (Some e) (Some r) now)"
    using assms(2) by (auto simp: normalize_observe_def risk_kill_latched_def)
  have worst: "worse_severity x SV_CRITICAL = SV_CRITICAL" for x
    by (cases x) (simp_all add: worse_severity_def)
  have "ms_state (ot_snapshot b) = MS_CRITICAL"
    using rep found(1)
    by (simp add: reports_def build_snapshot_def snapshot_of_def critical_state worse_def Let_def)
  moreover have "ln_priority (ot_control_lane b) = SV_CRITICAL"
    using rep kill by (simp add: reports_def build_lanes_def Let_def worst)
  moreover have "\<exists>i \<in> set (ot_incidents b). ic_incident_type i = IT_KILL_STATE_BREACH \<and>
      ic_severity i = SV_CRITICAL \<and> ic_state i = IS_ESCALATED \<and> ic_occurred_at i = now"
    using rep found(2) by (force simp: reports_def incident_open_def)
  moreover have "\<exists>q \<in> set (m6_requests t). ct_kind q = CQ_FREEZE \<and> ct_occurred_at q = now"
    using book found(3) by (simp add: same_book_def)
  moreover have "m6_withdrawal_enabled s \<longrightarrow>
      (\<exists>p. ot_withdrawal b = Some p \<and> wp_state p \<notin> {WS_NOT_REQUIRED, WS_COMPLETED, WS_FAILED})"
    using rep found(4) by (auto simp: reports_def under_way_def plan_idle_def split: option.splits)
  ultimately show ?thesis using run by blast
qed

theorem pm6_kill_detected_witness:
  "\<exists>b t. observe no_digest 0 (Execution sample_execution) (Some latched_risk) None sample_pm6 = (Inr b, t) \<and>
     ms_state (ot_snapshot b) = MS_CRITICAL \<and>
     (\<exists>i \<in> set (ot_incidents b). ic_incident_type i = IT_KILL_STATE_BREACH \<and> ic_state i = IS_ESCALATED) \<and>
     (\<exists>p. ot_withdrawal b = Some p \<and> wp_state p \<noteq> WS_COMPLETED)"
proof -
  have "ir_disposition (validate_observe (Some sample_execution) (Some latched_risk) 0 (m6_config sample_pm6)
      (m6_feature_enabled sample_pm6)) \<noteq> ID_REJECTED"
    by code_simp
  from pm6_kill_detected [OF sample_flags(1) sample_breach this sample_quiet, of no_digest None] sample_flags(2)
  show ?thesis by auto
qed

text \<open>
  Claim C15. Over every call sequence, incidents have distinct identifiers and each is backed by
  an alert of its severity that was not suppressed; a high or critical incident has an
  escalation and a remediation task; and no control request is ever a broker command or free of
  approval.
\<close>

theorem pm6_incidents_tracked:
  assumes "pm6_reach H (pm6_init c f v i g w) s"
  shows "distinct (map ic_incident_id (m6_incidents s)) \<and>
     (\<forall>r \<in> set (m6_incidents s).
        (\<exists>a \<in> set (m6_alerts s). ic_linked_alerts r = [al_alert_id a] \<and> \<not> al_suppressed a \<and>
           al_severity a = ic_severity r) \<and>
        (ic_severity r \<in> {SV_HIGH, SV_CRITICAL} \<longrightarrow>
           (\<exists>e \<in> set (m6_escalations s). ea_incident_id e = ic_incident_id r \<and> ea_severity e = ic_severity r) \<and>
           (\<exists>t \<in> set (m6_tasks s). rt_incident_id t = ic_incident_id r))) \<and>
     (\<forall>q \<in> set (m6_requests s). \<not> ct_broker_command q \<and> ct_approval_required q)"
proof -
  have inv: "m6_inv s" using pm6_reach_inv [OF assms m6_inv_init] .
  have "backed s r \<and> (ic_severity r \<in> {SV_HIGH, SV_CRITICAL} \<longrightarrow> answered s r)" if "r \<in> set (m6_incidents s)" for r
    using inv that unfolding m6_inv_def tracked_def by auto
  then have "(\<exists>a \<in> set (m6_alerts s). ic_linked_alerts r = [al_alert_id a] \<and> \<not> al_suppressed a \<and>
           al_severity a = ic_severity r) \<and>
        (ic_severity r \<in> {SV_HIGH, SV_CRITICAL} \<longrightarrow>
           (\<exists>e \<in> set (m6_escalations s). ea_incident_id e = ic_incident_id r \<and> ea_severity e = ic_severity r) \<and>
           (\<exists>t \<in> set (m6_tasks s). rt_incident_id t = ic_incident_id r))" if "r \<in> set (m6_incidents s)" for r
    using that unfolding backed_def answered_def image_iff by metis
  with inv show ?thesis by (simp add: m6_inv_def harmless_def)
qed

theorem pm6_incidents_tracked_witness:
  "\<exists>r \<in> set (m6_incidents alarmed). \<exists>e \<in> set (m6_escalations alarmed). ea_incident_id e = ic_incident_id r \<and>
     (\<exists>t \<in> set (m6_tasks alarmed). rt_incident_id t = ic_incident_id r)"
proof -
  obtain r where "r \<in> set (m6_incidents alarmed)" "ic_severity r = SV_CRITICAL" by (rule alarmed_incident)
  with pm6_incidents_tracked [OF alarmed_reach [unfolded sample_pm6_def]] show ?thesis by fastforce
qed

text \<open>
  Claim C16. An incident is never lost and never changes identity: whatever calls follow, the
  list still has it with its type, severity and time of detection, in a state that the
  transition table reaches from the earlier one; in particular a closed incident stays closed.
\<close>

theorem pm6_incident_lifecycle:
  assumes "pm6_reach H (pm6_init c f v i g w) s" and "pm6_reach H s t" and "r \<in> set (m6_incidents s)"
  shows "\<exists>r' \<in> set (m6_incidents t). ic_incident_id r' = ic_incident_id r \<and>
     ic_incident_type r' = ic_incident_type r \<and> ic_severity r' = ic_severity r \<and>
     ic_occurred_at r' = ic_occurred_at r \<and> can_incident\<^sup>*\<^sup>* (ic_state r) (ic_state r') \<and>
     (ic_state r = IS_CLOSED \<longrightarrow> ic_state r' = IS_CLOSED)"
proof -
  have "evolves s t"
    using pm6_reach_evolves [OF assms(2) pm6_reach_inv [OF assms(1) m6_inv_init]] .
  then obtain r' where "r' \<in> set (m6_incidents t)" "moves r r'"
    using assms(3) by (auto simp: evolves_def)
  then show ?thesis using closed_stays by (auto simp: moves_def)
qed

theorem pm6_incident_lifecycle_witness:
  "\<exists>r \<in> set (m6_incidents alarmed).
     \<exists>r' \<in> set (m6_incidents (pm6_run no_digest (Contain 1 (ic_incident_id r)) alarmed)).
       ic_incident_id r' = ic_incident_id r \<and> can_incident\<^sup>*\<^sup>* IS_ESCALATED (ic_state r')"
proof -
  obtain r where r: "r \<in> set (m6_incidents alarmed)" "ic_state r = IS_ESCALATED" by (rule alarmed_incident)
  have "pm6_reach no_digest alarmed (pm6_run no_digest (Contain 1 (ic_incident_id r)) alarmed)"
    by (intro pm6_reach.intros)
  from pm6_incident_lifecycle [OF alarmed_reach [unfolded sample_pm6_def] this r(1)] r show ?thesis by auto
qed

text \<open>
  Two alerts with one fingerprint that were both delivered, that is, not suppressed as
  duplicates, are more than the deduplication window apart, over every call sequence and for any
  behaviour of the clock.
\<close>

theorem pm6_alerts_spaced:
  assumes "pm6_config_ok c" and "pm6_reach H (pm6_init c f v i g w) s"
    and "j < k" and "k < length (m6_alerts s)"
    and "\<not> al_suppressed (m6_alerts s ! j)" and "\<not> al_suppressed (m6_alerts s ! k)"
    and "al_fingerprint (m6_alerts s ! j) = al_fingerprint (m6_alerts s ! k)"
  shows "al_occurred_at (m6_alerts s ! k) > al_occurred_at (m6_alerts s ! j) + seconds (pc_alert_dedup_seconds c)"
proof -
  have c: "m6_config (pm6_init c f v i g w) = c" by (simp add: pm6_init_def)
  have "0 \<le> pc_alert_dedup_seconds c" using assms(1) by (simp add: pm6_config_ok_def)
  then have "dedup_inv s \<and> m6_config s = c"
    using pm6_reach_dedup [OF assms(2) dedup_inv_init] c by simp
  then have "sorted_wrt (spaced (seconds (pc_alert_dedup_seconds c))) (m6_alerts s)"
    by (auto simp: dedup_inv_def)
  from sorted_wrt_nth_less [OF this assms(3,4)] assms(5-7) show ?thesis
    by (simp add: spaced_def)
qed

text \<open>A risk bundle that is reported late, twice.\<close>

definition late_report :: "datetime \<Rightarrow> pm6_call" where
  "late_report now = Observe now No_execution (Some (sample_bundle 0 ''k1'' 2)) None"

definition stale_once :: pm6 where
  "stale_once = pm6_run no_digest (late_report (seconds 400)) sample_pm6"

definition stale_twice :: pm6 where
  "stale_twice = pm6_run no_digest (late_report (seconds 500)) stale_once"

lemma stale_reach: "pm6_reach no_digest sample_pm6 stale_once" "pm6_reach no_digest sample_pm6 stale_twice"
  unfolding stale_once_def stale_twice_def by (intro pm6_reach.intros)+

text \<open>A monitor that watches, and what a late report adds to it.\<close>

definition watching :: "pm6 \<Rightarrow> bool" where
  "watching s \<longleftrightarrow> m6_config s = pm6_config_default \<and> m6_feature_enabled s \<and> m6_surveillance_enabled s"

definition stale_report :: "datetime \<Rightarrow> Finding" where
  "stale_report now =
     (finding ''stale_event'' ''monitoring'' SV_MEDIUM ''event older than freshness TTL'' ''degrade''
        IT_STALE_MONITORING_DATA ''stale'')\<lparr>fd_observed := [(''age_s'', M_int (whole_seconds now))]\<rparr>"

lemma late_findings:
  assumes "watching s" "seconds 300 < now" "now \<le> seconds 600"
  shows "findings_of now No_execution (Some (sample_bundle 0 ''k1'' 2)) s = [stale_report now]"
proof -
  let ?r = "sample_bundle 0 ''k1'' 2"
  have r: "rb_occurred_at ?r = 0" "rb_idempotency_key ?r = Some ''k1''" by (simp_all add: sample_bundle_def)
  have "ir_disposition (intake_of now No_execution (Some ?r) s) = ID_ACCEPTED"
    using assms r
    by (simp add: intake_of_def validate_observe_def watching_def time_reasons_def risk_reasons_def truthy_def
        settle_disposition_def pm6_config_default_def seconds_def Let_def reason_if_def)
  moreover have "m6_last_event (marked now No_execution (Some ?r) s) = Some 0"
    by (simp add: marked_def m6_note_def m6_mark_event_def m6_journal_def upd_st_def ret_def r)
  ultimately show ?thesis
    using assms r
    by (simp add: findings_of_def inspected_def evaluate_controls_def normalize_observe_def extra_findings_def
        burst_findings_def stale_finding_def observed_stamp_def silence_finding_def opt_list_def watched_def
        watching_def pm6_config_default_def seconds_def stale_report_def)
qed

lemma late_run:
  assumes s: "watching s" "quiet s ''stale'' now" and now: "seconds 300 < now" "now \<le> seconds 600"
  defines "t \<equiv> pm6_run no_digest (late_report now) s"
  shows "watching t" and "\<exists>a. m6_alerts t = m6_alerts s @ [a] \<and> \<not> al_suppressed a \<and> al_fingerprint a = ''stale'' \<and>
      al_occurred_at a = now \<and> dict_get (m6_seen t) ''stale'' = Some a"
    and "m6_incident_enabled s \<Longrightarrow> \<exists>i \<in> set (m6_incidents t). ic_severity i = SV_MEDIUM"
proof -
  let ?r = "Some (sample_bundle 0 ''k1'' 2)"
  let ?c = "collected now No_execution ?r s"
  let ?h = "after_finding now (classify_truth None) None (stale_report now) ?c"
  obtain b where "observe no_digest now No_execution ?r None s = (Inr b, t)" and "same_book (handled now No_execution ?r s) t"
    by (rule observe_run [of no_digest now No_execution ?r None s]) (auto simp: t_def late_report_def)
  then have t: "same_book ?h t"
    by (simp add: handled_def late_findings [OF s(1) now] after_findings_def)
  have c: "same_book s ?c" by (rule collected_book)
  show "watching t" using s(1) t c by (simp add: watching_def same_book_def)
  have fp: "fingerprint (stale_report now) = ''stale''" by (simp add: fingerprint_def stale_report_def finding_def)
  have "quiet ?c ''stale'' now" using s(2) c by (simp add: quiet_def same_book_def split: option.splits)
  then have q: "quiet ?c (fingerprint (stale_report now)) now" by (simp add: fp)
  let ?a = "alert_of (m6_next_id ?c) (stale_report now) now (classify_truth None) None"
  have a: "finding_alert now (classify_truth None) None (stale_report now) ?c = ?a" by (rule quiet_alert [OF q])
  have fresh: "\<not> al_suppressed ?a" "al_fingerprint ?a = ''stale''" "al_occurred_at ?a = now"
    by (simp_all add: fp) (simp_all add: alert_of_def)
  moreover have "m6_alerts t = m6_alerts s @ [?a]"
    using t c a by (simp add: same_book_def after_finding_def Let_def)
  moreover have "dict_get (m6_seen t) ''stale'' = Some ?a"
    using t quiet_seen [OF q] by (simp add: same_book_def fp dict_simps)
  ultimately show "\<exists>a. m6_alerts t = m6_alerts s @ [a] \<and> \<not> al_suppressed a \<and> al_fingerprint a = ''stale'' \<and>
      al_occurred_at a = now \<and> dict_get (m6_seen t) ''stale'' = Some a" by blast
  assume "m6_incident_enabled s"
  then have "opens_incident (stale_report now) ?a ?c"
    using c fresh(1) by (simp add: opens_incident_def same_book_def stale_report_def finding_def)
  moreover have "fd_severity (stale_report now) = SV_MEDIUM" by (simp add: stale_report_def finding_def)
  ultimately have "\<exists>i \<in> set (m6_incidents ?h). ic_severity i = SV_MEDIUM"
    by (simp add: after_finding_incidents a)
  then show "\<exists>i \<in> set (m6_incidents t). ic_severity i = SV_MEDIUM" using t by (simp add: same_book_def)
qed

lemma sample_watching: "watching sample_pm6"
  by (simp add: watching_def sample_pm6_def pm6_init_def)

lemma stale_incident: "\<exists>i \<in> set (m6_incidents stale_once). ic_severity i = SV_MEDIUM"
  unfolding stale_once_def using late_run(3) [OF sample_watching sample_quiet _ _ sample_flags(1)]
  by (simp add: seconds_def)

lemma stale_alerts:
  obtains a b where "m6_alerts stale_twice = [a, b]" "\<not> al_suppressed a" "\<not> al_suppressed b"
    "al_fingerprint a = al_fingerprint b"
proof -
  have one: "watching stale_once"
    unfolding stale_once_def using late_run(1) [OF sample_watching sample_quiet] by (simp add: seconds_def)
  obtain a where a: "m6_alerts stale_once = m6_alerts sample_pm6 @ [a]" "\<not> al_suppressed a"
    "al_fingerprint a = ''stale''" "al_occurred_at a = seconds 400" "dict_get (m6_seen stale_once) ''stale'' = Some a"
    unfolding stale_once_def using late_run(2) [OF sample_watching sample_quiet, of "seconds 400"]
    by (auto simp: seconds_def)
  have "quiet stale_once ''stale'' (seconds 500)"
    using a(4,5) one by (simp add: quiet_def watching_def pm6_config_default_def seconds_def)
  from late_run(2) [OF one this] obtain b where "m6_alerts stale_twice = m6_alerts stale_once @ [b]"
    "\<not> al_suppressed b" "al_fingerprint b = ''stale''"
    unfolding stale_twice_def by (auto simp: seconds_def)
  moreover have "m6_alerts sample_pm6 = []" by (simp add: sample_pm6_def pm6_init_def)
  ultimately show ?thesis using a that by simp
qed

theorem pm6_alerts_spaced_witness:
  "al_occurred_at (m6_alerts stale_twice ! 1) > al_occurred_at (m6_alerts stale_twice ! 0) + seconds 60"
proof (rule stale_alerts)
  fix a b
  assume "m6_alerts stale_twice = [a, b]" "\<not> al_suppressed a" "\<not> al_suppressed b"
    "al_fingerprint a = al_fingerprint b"
  then show ?thesis
    using pm6_alerts_spaced [OF pm6_config_default_ok stale_reach(2) [unfolded sample_pm6_def], of 0 1]
    by (simp add: pm6_config_default_def)
qed

text \<open>
  A withdrawal is not completed behind the operator's back: as long as nobody calls
  \<^verbatim>\<open>confirm_withdrawal\<close>, no sequence of calls takes a plan that is not confirmed yet to
  CONFIRMED or COMPLETED, \<^verbatim>\<open>complete_withdrawal\<close> included.
\<close>

theorem pm6_completion_confirmed:
  assumes "\<forall>call \<in> set calls. \<forall>now. call \<noteq> Confirm_withdrawal now"
    and "\<forall>p. get_withdrawal_plan s = Some p \<longrightarrow> wp_state p \<notin> {WS_CONFIRMED, WS_COMPLETED}"
    and "get_withdrawal_plan (fold (pm6_run H) calls s) = Some p"
  shows "wp_state p \<notin> {WS_CONFIRMED, WS_COMPLETED}"
proof -
  have "unconfirmed (m6_plan (fold (pm6_run H) calls s))"
    using assms(1,2)
  proof (induction calls arbitrary: s)
    case Nil
    then show ?case by (simp add: unconfirmed_def get_withdrawal_plan_def split: option.splits)
  next
    case (Cons call calls)
    have "unconfirmed (m6_plan s)"
      using Cons.prems(2) by (simp add: unconfirmed_def get_withdrawal_plan_def split: option.splits)
    then have "unconfirmed (m6_plan (pm6_run H call s))"
      using Cons.prems(1) by (intro pm6_run_unconfirmed) auto
    then have "\<forall>p. get_withdrawal_plan (pm6_run H call s) = Some p \<longrightarrow> wp_state p \<notin> {WS_CONFIRMED, WS_COMPLETED}"
      by (simp add: unconfirmed_def get_withdrawal_plan_def split: option.splits)
    with Cons.IH [of "pm6_run H call s"] Cons.prems(1) show ?case by simp
  qed
  with assms(3) show ?thesis by (simp add: unconfirmed_def get_withdrawal_plan_def)
qed

theorem pm6_completion_confirmed_witness:
  "\<exists>p. get_withdrawal_plan (pm6_run no_digest (Complete_withdrawal 1) alarmed) = Some p \<and> wp_state p \<noteq> WS_COMPLETED"
proof -
  let ?obs = "Observe 0 (Execution sample_execution) (Some latched_risk) None"
  obtain b t where run: "observe no_digest 0 (Execution sample_execution) (Some latched_risk) None sample_pm6 = (Inr b, t)"
    "same_book (handled 0 (Execution sample_execution) (Some latched_risk) sample_pm6) t"
    by (rule observe_run [of no_digest 0 "Execution sample_execution" "Some latched_risk" None sample_pm6])
  have "m6_plan alarmed = m6_plan (handled 0 (Execution sample_execution) (Some latched_risk) sample_pm6)"
    using run by (simp add: alarmed_def same_book_def)
  then have "under_way (m6_plan alarmed)"
    using kill_handled(4) [OF sample_breach sample_inspected sample_flags(1) sample_quiet sample_flags(2)] by simp
  then have plan: "m6_plan alarmed \<noteq> None" by (auto simp: under_way_def plan_idle_def split: option.splits)
  have "m6_plan (pm6_run no_digest (Complete_withdrawal 1) alarmed) \<noteq> None"
    by (rule m6_withdraw_cases [of WS_COMPLETED 1 True alarmed]) (simp_all add: complete_withdrawal_def plan)
  then obtain p where p: "get_withdrawal_plan (pm6_run no_digest (Complete_withdrawal 1) alarmed) = Some p"
    by (auto simp: get_withdrawal_plan_def)
  have "get_withdrawal_plan sample_pm6 = None"
    by (simp add: get_withdrawal_plan_def sample_pm6_def pm6_init_def)
  with pm6_completion_confirmed [of "[?obs, Complete_withdrawal 1]" sample_pm6 no_digest p] p
  show ?thesis by (simp add: alarmed_def)
qed

text \<open>
  A medium incident has no way to its end: over every call sequence it is classified
  or transferred, so none is ever contained, resolved or closed, although the table allows a
  classified incident to be contained or remediated.
\<close>

theorem pm6_medium_never_closes:
  assumes "pm6_reach H (pm6_init c f v i g w) s" and "r \<in> set (m6_incidents s)" and "ic_severity r = SV_MEDIUM"
  shows "ic_state r \<in> {IS_CLASSIFIED, IS_TRANSFERRED_TO_PERSISTENCE} \<and>
     can_incident IS_CLASSIFIED IS_CONTAINMENT_IN_PROGRESS"
proof -
  have "tracked s r"
    using pm6_reach_inv [OF assms(1) m6_inv_init] assms(2) by (simp add: m6_inv_def)
  then show ?thesis
    using assms(3) by (simp add: tracked_def parked_def can_incident_def INCIDENT_TRANSITIONS_def)
qed


theorem pm6_medium_never_closes_witness:
  "\<exists>r \<in> set (m6_incidents stale_once). ic_severity r = SV_MEDIUM \<and>
     ic_state r \<in> {IS_CLASSIFIED, IS_TRANSFERRED_TO_PERSISTENCE}"
proof -
  obtain r where r: "r \<in> set (m6_incidents stale_once)" "ic_severity r = SV_MEDIUM"
    using stale_incident by blast
  from pm6_medium_never_closes [OF stale_reach(1) [unfolded sample_pm6_def] this] r show ?thesis by auto
qed

text \<open>
  A recommended plan is initiated without an approval, although it says that one is required: the
  handler passes through APPROVAL_PENDING by itself.
\<close>

lemma initiate_self_approves:
  assumes "get_withdrawal_plan s = Some p" and "wp_state p = WS_RECOMMENDED" and "wp_approval_required p"
  shows "\<exists>p'. fst (initiate_withdrawal now s) = Inr p' \<and> wp_state p' = WS_INITIATED \<and> wp_approval_required p'"
  using assms
  by (simp add: get_withdrawal_plan_def initiate_withdrawal_def m6_withdraw_def withdrawal_transit_def raise_if_def
      can_withdrawal_def WITHDRAWAL_TRANSITIONS_def bnd_def get_st_def upd_st_def lift_res_def ret_def)

end
