(* ===== verification/PersistContracts.thy ===== *)
theory PersistContracts
  imports PostTradeContracts "HOL-Library.List_Lexorder" "HOL-Library.Char_ord"
begin

section \<open>Contracts of the persistence module\<close>

text \<open>
  \<^verbatim>\<open>contracts/v1/persistence.py\<close> and \<^verbatim>\<open>pm7_persistence/config/schema.py\<close>: enumerations, models as
  records, validators. A free-form dictionary is a list of keys with JSON values; \<open>J_other\<close> is
  any value that the canonical rendering prints as a text (a decimal, an instant, an identifier),
  \<open>J_float\<close> a float by its shortest decimal text.
  Dictionaries whose keys the code fixes are records. The Markdown text of an export is left out.
\<close>

subsection \<open>Enumerations\<close>

datatype PersistenceMode =
    PE_DISABLED
  | PE_MEMORY
  | PE_FILE_BACKED
  | PE_SQLITE_LOCAL
  | PE_DURABLE_CANDIDATE
  | PE_PRODUCTION_DURABLE

datatype PersistenceTruthSource =
    PT_PM2_CONTEXT
  | PT_PM3_STRATEGY
  | PT_PM3_FORECAST
  | PT_PM4_RISK
  | PT_PM5_LOCAL_OMS
  | PT_PM5_SIMULATION
  | PT_PM5_BROKER
  | PT_PM6_MONITORING
  | PT_OPERATOR
  | PT_DERIVED
  | PT_UNKNOWN

fun persist_truth_value :: "PersistenceTruthSource \<Rightarrow> string" where
  "persist_truth_value PT_PM2_CONTEXT = ''pm2_context''"
| "persist_truth_value PT_PM3_STRATEGY = ''pm3_strategy''"
| "persist_truth_value PT_PM3_FORECAST = ''pm3_forecast''"
| "persist_truth_value PT_PM4_RISK = ''pm4_risk''"
| "persist_truth_value PT_PM5_LOCAL_OMS = ''pm5_local_oms''"
| "persist_truth_value PT_PM5_SIMULATION = ''pm5_simulation''"
| "persist_truth_value PT_PM5_BROKER = ''pm5_broker''"
| "persist_truth_value PT_PM6_MONITORING = ''pm6_monitoring''"
| "persist_truth_value PT_OPERATOR = ''operator''"
| "persist_truth_value PT_DERIVED = ''derived''"
| "persist_truth_value PT_UNKNOWN = ''unknown''"

datatype IngestDisposition =
    IG_ACCEPTED
  | IG_COMMITTED
  | IG_DUPLICATE_IGNORED
  | IG_QUARANTINED
  | IG_REJECTED
  | IG_CONTRADICTION_RECORDED
  | IG_DEGRADED
  | IG_FEATURE_DISABLED

fun ingest_value :: "IngestDisposition \<Rightarrow> string" where
  "ingest_value IG_ACCEPTED = ''accepted''"
| "ingest_value IG_COMMITTED = ''committed''"
| "ingest_value IG_DUPLICATE_IGNORED = ''duplicate_ignored''"
| "ingest_value IG_QUARANTINED = ''quarantined''"
| "ingest_value IG_REJECTED = ''rejected''"
| "ingest_value IG_CONTRADICTION_RECORDED = ''contradiction_recorded''"
| "ingest_value IG_DEGRADED = ''degraded''"
| "ingest_value IG_FEATURE_DISABLED = ''feature_disabled''"

datatype JournalCategory =
    JC_SIGNAL_REFERENCE
  | JC_STRATEGY_DECISION
  | JC_FORECAST
  | JC_RISK_DECISION
  | JC_SIZING
  | JC_HEAT_CONTROL
  | JC_ORDER_INTENT
  | JC_ORDER_LIFECYCLE
  | JC_BROKER_ACKNOWLEDGEMENT
  | JC_FILL
  | JC_POSITION
  | JC_RECONCILIATION
  | JC_SURVEILLANCE
  | JC_INCIDENT
  | JC_ESCALATION
  | JC_REMEDIATION
  | JC_WITHDRAWAL
  | JC_OPERATOR_ACTION
  | JC_PARAMETER_CHANGE
  | JC_CONFIGURATION_CHANGE
  | JC_SNAPSHOT
  | JC_REPLAY
  | JC_INTEGRITY
  | JC_RETENTION_ARCHIVE
  | JC_RECOVERY
  | JC_CORRECTION

fun category_value :: "JournalCategory \<Rightarrow> string" where
  "category_value JC_SIGNAL_REFERENCE = ''signal_reference''"
| "category_value JC_STRATEGY_DECISION = ''strategy_decision''"
| "category_value JC_FORECAST = ''forecast''"
| "category_value JC_RISK_DECISION = ''risk_decision''"
| "category_value JC_SIZING = ''sizing''"
| "category_value JC_HEAT_CONTROL = ''heat_control''"
| "category_value JC_ORDER_INTENT = ''order_intent''"
| "category_value JC_ORDER_LIFECYCLE = ''order_lifecycle''"
| "category_value JC_BROKER_ACKNOWLEDGEMENT = ''broker_acknowledgement''"
| "category_value JC_FILL = ''fill''"
| "category_value JC_POSITION = ''position''"
| "category_value JC_RECONCILIATION = ''reconciliation''"
| "category_value JC_SURVEILLANCE = ''surveillance''"
| "category_value JC_INCIDENT = ''incident''"
| "category_value JC_ESCALATION = ''escalation''"
| "category_value JC_REMEDIATION = ''remediation''"
| "category_value JC_WITHDRAWAL = ''withdrawal''"
| "category_value JC_OPERATOR_ACTION = ''operator_action''"
| "category_value JC_PARAMETER_CHANGE = ''parameter_change''"
| "category_value JC_CONFIGURATION_CHANGE = ''configuration_change''"
| "category_value JC_SNAPSHOT = ''snapshot''"
| "category_value JC_REPLAY = ''replay''"
| "category_value JC_INTEGRITY = ''integrity''"
| "category_value JC_RETENTION_ARCHIVE = ''retention_archive''"
| "category_value JC_RECOVERY = ''recovery''"
| "category_value JC_CORRECTION = ''correction''"

datatype ReconciliationPersistState =
    RP_PASS
  | RP_MISMATCH
  | RP_DEGRADED
  | RP_UNAVAILABLE
  | RP_CRITICAL
  | RP_RESOLVED
  | RP_REQUIRES_REVIEW

datatype EvidenceState =
    EVS_DRAFT
  | EVS_ASSEMBLED
  | EVS_VERIFIED
  | EVS_EXPORTED
  | EVS_ARCHIVED
  | EVS_FROZEN

datatype ReplayState =
    RS_SCHEDULED
  | RS_RUNNING
  | RS_COMPLETED
  | RS_DIVERGENCE_DETECTED
  | RS_FAILED
  | RS_VERIFIED

datatype ReplayScope =
    RSC_SESSION
  | RSC_INCIDENT
  | RSC_ORDER
  | RSC_SYMBOL
  | RSC_STRATEGY
  | RSC_CONTROL
  | RSC_RECONCILIATION

datatype SnapshotScope =
    SS_SYSTEM
  | SS_SESSION
  | SS_SYMBOL
  | SS_ORDER
  | SS_POSITION
  | SS_PM4_CONTROL
  | SS_PM5_CONTROL
  | SS_PM6_MONITORING
  | SS_INCIDENT

datatype SnapshotState =
    SNS_PENDING
  | SNS_CAPTURED
  | SNS_VALIDATED
  | SNS_STALE
  | SNS_SUPERSEDED
  | SNS_CORRUPT

datatype IntegrityState =
    IN_UNKNOWN
  | IN_VALID
  | IN_WARNING
  | IN_COMPROMISED
  | IN_REPAIRED

fun integrity_value :: "IntegrityState \<Rightarrow> string" where
  "integrity_value IN_UNKNOWN = ''unknown''"
| "integrity_value IN_VALID = ''valid''"
| "integrity_value IN_WARNING = ''warning''"
| "integrity_value IN_COMPROMISED = ''compromised''"
| "integrity_value IN_REPAIRED = ''repaired''"

datatype ArchiveTier =
    AT_ACTIVE
  | AT_WARM
  | AT_COLD
  | AT_FROZEN
  | AT_RETENTION_LOCK
  | AT_EXPIRED
  | AT_PURGE_ELIGIBLE
  | AT_PURGED_IF_ALLOWED

fun tier_value :: "ArchiveTier \<Rightarrow> string" where
  "tier_value AT_ACTIVE = ''active''"
| "tier_value AT_WARM = ''warm''"
| "tier_value AT_COLD = ''cold''"
| "tier_value AT_FROZEN = ''frozen''"
| "tier_value AT_RETENTION_LOCK = ''retention_lock''"
| "tier_value AT_EXPIRED = ''expired''"
| "tier_value AT_PURGE_ELIGIBLE = ''purge_eligible''"
| "tier_value AT_PURGED_IF_ALLOWED = ''purged_if_allowed''"

datatype RecoveryStatus =
    RY_AVAILABLE
  | RY_UNAVAILABLE
  | RY_STALE
  | RY_VERIFICATION_FAILED
  | RY_RESTORE_PENDING
  | RY_RESTORED
  | RY_REQUIRES_REVIEW

datatype ReportKind =
    RK_DAILY_OPERATIONS
  | RK_INCIDENT_REVIEW
  | RK_RECONCILIATION_HEALTH
  | RK_CONTROL_ACTIVITY
  | RK_AUDIT_EVIDENCE_INDEX
  | RK_DATA_QUALITY
  | RK_INTEGRITY_VERIFICATION
  | RK_GOVERNANCE_REVIEW

fun report_value :: "ReportKind \<Rightarrow> string" where
  "report_value RK_DAILY_OPERATIONS = ''daily_operations''"
| "report_value RK_INCIDENT_REVIEW = ''incident_review''"
| "report_value RK_RECONCILIATION_HEALTH = ''reconciliation_health''"
| "report_value RK_CONTROL_ACTIVITY = ''control_activity''"
| "report_value RK_AUDIT_EVIDENCE_INDEX = ''audit_evidence_index''"
| "report_value RK_DATA_QUALITY = ''data_quality''"
| "report_value RK_INTEGRITY_VERIFICATION = ''integrity_verification''"
| "report_value RK_GOVERNANCE_REVIEW = ''governance_review''"

datatype DatasetQuality =
    DQS_OK
  | DQS_INSUFFICIENT_DATA
  | DQS_NOT_AVAILABLE
  | DQS_UNKNOWN
  | DQS_DEGRADED

text \<open>\<^verbatim>\<open>JournalCategory(text)\<close> and \<^verbatim>\<open>PersistenceTruthSource(text)\<close>, undefined on other texts.\<close>

definition all_categories :: "JournalCategory list" where
  "all_categories =
    [JC_SIGNAL_REFERENCE, JC_STRATEGY_DECISION, JC_FORECAST, JC_RISK_DECISION, JC_SIZING, JC_HEAT_CONTROL,
     JC_ORDER_INTENT, JC_ORDER_LIFECYCLE, JC_BROKER_ACKNOWLEDGEMENT, JC_FILL, JC_POSITION, JC_RECONCILIATION,
     JC_SURVEILLANCE, JC_INCIDENT, JC_ESCALATION, JC_REMEDIATION, JC_WITHDRAWAL, JC_OPERATOR_ACTION,
     JC_PARAMETER_CHANGE, JC_CONFIGURATION_CHANGE, JC_SNAPSHOT, JC_REPLAY, JC_INTEGRITY, JC_RETENTION_ARCHIVE,
     JC_RECOVERY, JC_CORRECTION]"

definition category_of :: "string \<Rightarrow> JournalCategory option" where
  "category_of x = find (\<lambda>c. category_value c = x) all_categories"

definition all_truths :: "PersistenceTruthSource list" where
  "all_truths = [PT_PM2_CONTEXT, PT_PM3_STRATEGY, PT_PM3_FORECAST, PT_PM4_RISK, PT_PM5_LOCAL_OMS, PT_PM5_SIMULATION,
     PT_PM5_BROKER, PT_PM6_MONITORING, PT_OPERATOR, PT_DERIVED, PT_UNKNOWN]"

definition truth_of :: "string \<Rightarrow> PersistenceTruthSource option" where
  "truth_of x = find (\<lambda>t. persist_truth_value t = x) all_truths"

subsection \<open>JSON values\<close>

datatype json_value =
    J_null
  | J_bool bool
  | J_int int
  | J_float string
  | J_text string
  | J_other string
  | J_list "json_value list"
  | J_dict "(string \<times> json_value) list"

type_synonym payload = "(string \<times> json_value) list"

text \<open>\<^verbatim>\<open>_SECRET_KEYS\<close> and \<^verbatim>\<open>_strip_secrets\<close>: nested dictionaries are entered, lists are not.\<close>

fun infix_of :: "string \<Rightarrow> string \<Rightarrow> bool" where
  "infix_of p [] \<longleftrightarrow> p = []"
| "infix_of p (x # xs) \<longleftrightarrow> take (length p) (x # xs) = p \<or> infix_of p xs"

definition SECRET_KEYS :: "string list" where
  "SECRET_KEYS = [''password'', ''token'', ''secret'', ''dsn'', ''credential'', ''api_key'']"

definition secret_key :: "string \<Rightarrow> bool" where
  "secret_key k \<longleftrightarrow> list_ex (\<lambda>t. infix_of t (lower k)) SECRET_KEYS"

fun strip_secrets :: "payload \<Rightarrow> payload" and strip_value :: "json_value \<Rightarrow> json_value" where
  "strip_secrets [] = []"
| "strip_secrets ((k, v) # rest) =
     (if secret_key k then strip_secrets rest else (k, strip_value v) # strip_secrets rest)"
| "strip_value (J_dict d) = J_dict (strip_secrets d)"
| "strip_value J_null = J_null"
| "strip_value (J_bool b) = J_bool b"
| "strip_value (J_int n) = J_int n"
| "strip_value (J_float x) = J_float x"
| "strip_value (J_text t) = J_text t"
| "strip_value (J_other t) = J_other t"
| "strip_value (J_list vs) = J_list vs"

text \<open>
  \<^verbatim>\<open>canonical_dumps\<close>: keys sorted, special values printed. The text is determined by this normal
  form and determines it.
\<close>

fun canon :: "json_value \<Rightarrow> json_value" and canon_items :: "payload \<Rightarrow> payload" and canon_values :: "json_value list \<Rightarrow> json_value list" where
  "canon (J_other t) = J_text t"
| "canon (J_list vs) = J_list (canon_values vs)"
| "canon (J_dict d) = J_dict (sort_key fst (canon_items d))"
| "canon J_null = J_null"
| "canon (J_bool b) = J_bool b"
| "canon (J_int n) = J_int n"
| "canon (J_float x) = J_float x"
| "canon (J_text t) = J_text t"
| "canon_items [] = []"
| "canon_items ((k, v) # rest) = (k, canon v) # canon_items rest"
| "canon_values [] = []"
| "canon_values (v # vs) = canon v # canon_values vs"

definition canon_payload :: "payload \<Rightarrow> payload" where
  "canon_payload p = sort_key fst (canon_items p)"

text \<open>Python truth of a value.\<close>

fun json_truthy :: "json_value \<Rightarrow> bool" where
  "json_truthy J_null = False"
| "json_truthy (J_bool b) = b"
| "json_truthy (J_int n) = (n \<noteq> 0)"
| "json_truthy (J_float x) = (x \<notin> {''0.0'', ''-0.0''})"
| "json_truthy (J_text t) = (t \<noteq> [])"
| "json_truthy (J_other t) = True"
| "json_truthy (J_list vs) = (vs \<noteq> [])"
| "json_truthy (J_dict d) = (d \<noteq> [])"

text \<open>A text or \<^verbatim>\<open>None\<close>, and a list of texts, as values.\<close>

definition text_or_null :: "string option \<Rightarrow> json_value" where
  "text_or_null x = (case x of None \<Rightarrow> J_null | Some t \<Rightarrow> J_text t)"

definition texts_json :: "string list \<Rightarrow> json_value" where
  "texts_json xs = J_list (map J_text xs)"

subsection \<open>Models\<close>

record LedgerEvent =
  lv_event_id :: uuid
  lv_trace_id :: uuid
  lv_correlation_id :: uuid
  lv_causation_id :: "uuid option"
  lv_session_id :: "string option"
  lv_source_module :: string
  lv_source_entity_id :: "string option"
  lv_event_type :: string
  lv_event_version :: string
  lv_event_timestamp :: datetime
  lv_ingested_at :: "datetime option"
  lv_source_timestamp :: "datetime option"
  lv_event_payload :: payload
  lv_truth_source :: PersistenceTruthSource
  lv_lineage_refs :: "string list"
  lv_integrity_metadata :: payload
  lv_operator_id :: "string option"
  lv_metadata :: payload
  lv_idempotency_key :: "string option"
  lv_category :: JournalCategory
  lv_ticket :: "string option"
  lv_symbol :: "string option"
  lv_order_id :: "string option"
  lv_strategy_id :: "string option"
  lv_incident_id :: "string option"

record CommittedJournalRecord =
  cj_sequence :: nat
  cj_event :: LedgerEvent
  cj_content_hash :: string
  cj_previous_hash :: string
  cj_committed_at :: datetime

record IngestResult =
  ig_disposition :: IngestDisposition
  ig_event_id :: "uuid option"
  ig_sequence :: "nat option"
  ig_content_hash :: "string option"
  ig_reasons :: "string list"
  ig_truth_source :: PersistenceTruthSource
  ig_durable :: bool

record ReconciliationPersistRecord =
  pr_record_id :: uuid
  pr_occurred_at :: datetime
  pr_order_id :: "string option"
  pr_session_id :: "string option"
  pr_symbol :: "string option"
  pr_state :: ReconciliationPersistState
  pr_broker_truth_available :: bool
  pr_truth_source :: PersistenceTruthSource
  pr_source_event_id :: "uuid option"
  pr_notes :: string
  pr_local_state :: "(string, nat) dict"
  pr_broker_state :: "(string, bool) dict"

record EvidenceBundle =
  vb_bundle_id :: uuid
  vb_occurred_at :: datetime
  vb_state :: EvidenceState
  vb_entity_id :: "string option"
  vb_actor :: "string option"
  vb_result :: string
  vb_unresolved :: "string list"
  vb_truth_source :: PersistenceTruthSource
  vb_integrity_status :: IntegrityState
  vb_source_event_ids :: "string list"
  vb_timeline :: "string list"
  vb_summary :: string
  vb_event_count :: nat
  vb_durable :: bool

record ReplayResult =
  yr_replay_id :: uuid
  yr_occurred_at :: datetime
  yr_scope :: ReplayScope
  yr_state :: ReplayState
  yr_event_count :: nat
  yr_timeline :: "string list"
  yr_reconstructed :: "(nat \<times> string \<times> nat) option"
  yr_snapshot_id :: "uuid option"
  yr_divergence_notes :: "string list"
  yr_verification :: IntegrityState
  yr_source_lineage :: "string list"

record snapshot_payload =
  sp_count :: nat
  sp_tip :: "string option"
  sp_event_ids :: "string list"

record SnapshotRecord =
  ss_snapshot_id :: uuid
  ss_occurred_at :: datetime
  ss_scope :: SnapshotScope
  ss_state :: SnapshotState
  ss_journal_sequence :: nat
  ss_checksum :: string
  ss_payload :: snapshot_payload

record IntegrityReport =
  iy_report_id :: uuid
  iy_occurred_at :: datetime
  iy_state :: IntegrityState
  iy_records_checked :: nat
  iy_chain_valid :: bool
  iy_mismatch_details :: "string list"
  iy_genesis_hash :: string
  iy_tip_hash :: "string option"
  iy_claim :: string

record RetentionStatus =
  rs_occurred_at :: datetime
  rs_tier :: ArchiveTier
  rs_frozen :: bool
  rs_lock_reason :: "string option"
  rs_purge_eligible :: bool
  rs_simulated :: bool
  rs_manifest_checksum :: "string option"

record QuerySpec =
  qs_query_id :: uuid
  qs_actor :: string
  qs_authorized :: bool
  qs_trace_id :: "string option"
  qs_session_id :: "string option"
  qs_symbol :: "string option"
  qs_strategy_id :: "string option"
  qs_order_id :: "string option"
  qs_decision_id :: "string option"
  qs_incident_id :: "string option"
  qs_category :: "JournalCategory option"
  qs_limit :: nat
  qs_offset :: nat

record QueryResult =
  qr_query_id :: uuid
  qr_authorized :: bool
  qr_actor :: string
  qr_event_ids :: "string list"
  qr_count :: nat
  qr_offset :: nat
  qr_limit :: nat
  qr_provenance :: "string list"
  qr_access :: string
  qr_reasons :: "string list"

record ExportPackage =
  xk_package_id :: uuid
  xk_occurred_at :: datetime
  xk_kind :: string
  xk_json_payload :: payload
  xk_manifest :: payload
  xk_checksum :: string
  xk_lineage_refs :: "string list"
  xk_integrity_status :: IntegrityState
  xk_truth_source :: PersistenceTruthSource

record AnalyticsDataset =
  an_dataset_id :: uuid
  an_occurred_at :: datetime
  an_scope :: string
  an_source_event_ids :: "string list"
  an_event_count :: nat
  an_simulation_tickets :: "nat option"
  an_by_module :: "(string, nat) dict"
  an_quality :: DatasetQuality
  an_truth_source :: PersistenceTruthSource

record AuditReport =
  au_report_id :: uuid
  au_occurred_at :: datetime
  au_kind :: ReportKind
  au_summary :: string
  au_dataset :: AnalyticsDataset
  au_lineage_refs :: "string list"
  au_quality :: DatasetQuality

record BackupMetadata =
  bk_backup_id :: uuid
  bk_occurred_at :: datetime
  bk_status :: RecoveryStatus
  bk_reference :: "string option"
  bk_journal_sequence :: nat
  bk_checksum :: "string option"

record PersistencePublicationBundle =
  pb_bundle_id :: uuid
  pb_occurred_at :: datetime
  pb_mode :: PersistenceMode
  pb_journal_sequence :: nat
  pb_ingest :: "IngestResult option"
  pb_integrity :: IntegrityState
  pb_retention :: ArchiveTier
  pb_reconciliation_state :: "ReconciliationPersistState option"
  pb_truth_source :: PersistenceTruthSource
  pb_persistence_handoff :: string
  pb_broker_side_effect :: bool
  pb_mt5_used :: bool
  pb_durable :: bool
  pb_producer :: string

subsection \<open>Validators\<close>

text \<open>\<^verbatim>\<open>payload.get(key) is True\<close>\<close>

definition is_true :: "string \<Rightarrow> payload \<Rightarrow> bool" where
  "is_true k p \<longleftrightarrow> map_of p k = Some (J_bool True)"

definition sim_text :: "string option \<Rightarrow> bool" where
  "sim_text t \<longleftrightarrow> (case t of None \<Rightarrow> False | Some x \<Rightarrow> take 4 x = ''SIM-'')"

text \<open>
  Building a \<^verbatim>\<open>LedgerEvent\<close>: the messages of the validation error, or the event with its names
  stripped and its payload cleaned. The model validator runs only when the fields are valid.
\<close>

definition event_provenance :: "LedgerEvent \<Rightarrow> string list + LedgerEvent" where
  "event_provenance e =
     (if sim_text (lv_ticket e) \<and> lv_truth_source e = PT_PM5_BROKER
      then Inl [''Value error, SIM-* cannot be mapped to pm5_broker'']
      else if is_true ''mt5_used'' (lv_event_payload e) then Inl [''Value error, PM7 forbids mt5_used=true'']
      else if is_true ''broker_side_effect'' (lv_event_payload e)
      then Inl [''Value error, PM7 forbids broker_side_effect=true'']
      else Inr (e\<lparr>lv_event_payload := strip_secrets (lv_event_payload e)\<rparr>))"

definition make_event :: "LedgerEvent \<Rightarrow> string list + LedgerEvent" where
  "make_event e =
     (let bad = reason_if (blank (lv_source_module e)) ''Value error, must be a non-empty string'' @
                reason_if (blank (lv_event_type e)) ''Value error, must be a non-empty string''
      in if bad \<noteq> [] then Inl bad
         else event_provenance (e\<lparr>lv_source_module := strip (lv_source_module e),
                                  lv_event_type := strip (lv_event_type e)\<rparr>))"

definition no_silent_pass :: "ReconciliationPersistRecord \<Rightarrow> ReconciliationPersistRecord res" where
  "no_silent_pass r =
     raise_if (\<not> pr_broker_truth_available r \<and> pr_state r = RP_PASS)
       (ValueError ''reconciliation without venue cannot be pass'') (Inr r)"

definition no_secrets :: "ExportPackage \<Rightarrow> ExportPackage" where
  "no_secrets x = x\<lparr>xk_json_payload := strip_secrets (xk_json_payload x), xk_manifest := strip_secrets (xk_manifest x)\<rparr>"

definition publication_safety :: "PersistencePublicationBundle \<Rightarrow> PersistencePublicationBundle res" where
  "publication_safety b =
     raise_if (pb_mt5_used b) (ValueError ''PM7 forbids mt5_used=true'')
     (raise_if (pb_broker_side_effect b) (ValueError ''PM7 forbids broker_side_effect=true'')
     (raise_if (pb_mode b = PE_PRODUCTION_DURABLE) (ValueError ''production_durable is refused in Sequence 09'')
     (raise_if (pb_durable b \<and> pb_mode b = PE_MEMORY) (ValueError ''memory mode cannot claim durable=true'')
     (Inr b))))"

subsection \<open>Configuration\<close>

record Pm7PersistenceConfig =
  p7_operating_mode :: PersistenceMode
  p7_observe_only :: bool
  p7_storage_path :: string
  p7_schema_version :: int
  p7_query_limit :: nat
  p7_snapshot_cadence_events :: int
  p7_replay_event_limit :: int
  p7_simulate_archive :: bool
  p7_allow_purge :: bool
  p7_hash_algorithm :: string
  p7_mt5_enabled :: bool
  p7_broker_commands :: bool
  p7_production_durable :: bool
  p7_auto_rearm :: bool
  p7_telemetry_verbose :: bool
  p7_journal_enabled :: bool
  p7_replay_enabled :: bool
  p7_integrity_enabled :: bool
  p7_retention_enabled :: bool
  p7_reporting_enabled :: bool

definition pm7_config_ok :: "Pm7PersistenceConfig \<Rightarrow> bool" where
  "pm7_config_ok c \<longleftrightarrow>
     p7_operating_mode c \<noteq> PE_PRODUCTION_DURABLE \<and> 1 \<le> p7_schema_version c \<and> 1 \<le> p7_query_limit c \<and>
     p7_query_limit c \<le> 500 \<and> 1 \<le> p7_snapshot_cadence_events c \<and> 1 \<le> p7_replay_event_limit c \<and>
     \<not> p7_auto_rearm c \<and> \<not> p7_mt5_enabled c \<and> \<not> p7_broker_commands c \<and> \<not> p7_production_durable c \<and>
     p7_hash_algorithm c = ''sha256'' \<and> \<not> (p7_allow_purge c \<and> \<not> p7_simulate_archive c)"

definition pm7_config_default :: Pm7PersistenceConfig where
  "pm7_config_default =
     \<lparr>p7_operating_mode = PE_MEMORY, p7_observe_only = True, p7_storage_path = ''data/local/pm7'',
      p7_schema_version = 1, p7_query_limit = 50, p7_snapshot_cadence_events = 10, p7_replay_event_limit = 1000,
      p7_simulate_archive = True, p7_allow_purge = False, p7_hash_algorithm = ''sha256'', p7_mt5_enabled = False,
      p7_broker_commands = False, p7_production_durable = False, p7_auto_rearm = False,
      p7_telemetry_verbose = True, p7_journal_enabled = True, p7_replay_enabled = True,
      p7_integrity_enabled = True, p7_retention_enabled = True, p7_reporting_enabled = True\<rparr>"

definition claims_durable :: "Pm7PersistenceConfig \<Rightarrow> bool" where
  "claims_durable c \<longleftrightarrow> p7_operating_mode c \<in> {PE_FILE_BACKED, PE_SQLITE_LOCAL, PE_DURABLE_CANDIDATE}"

lemma pm7_config_default_ok: "pm7_config_ok pm7_config_default"
  by (simp add: pm7_config_ok_def pm7_config_default_def)

end
