(* ===== verification/PersistJournal.thy ===== *)
theory PersistJournal
  imports PersistContracts
begin

section \<open>The journal and its services\<close>

text \<open>
  \<^verbatim>\<open>pm7_persistence\<close> below the module: hash chain, append-only journal, corrections, verification,
  intake and reconciliation records. \<open>H\<close> stands for SHA-256 of a canonical text: a link of the
  chain is given by the previous hash and the normal form of the event, any other digest by the
  normal form of the dictionary. Lookups by \<^verbatim>\<open>str(event_id)\<close> are by the identifier itself.
\<close>

subsection \<open>Digests\<close>

datatype digest_input =
    D_chain string LedgerEvent
  | D_payload payload

type_synonym digest = "digest_input \<Rightarrow> string"

definition GENESIS_HASH :: string where
  "GENESIS_HASH = replicate 64 (CHR ''0'')"

text \<open>The normal form of an event: its free-form dictionaries in normal form.\<close>

definition canon_event :: "LedgerEvent \<Rightarrow> LedgerEvent" where
  "canon_event e = e\<lparr>lv_event_payload := canon_payload (lv_event_payload e),
     lv_integrity_metadata := canon_payload (lv_integrity_metadata e),
     lv_metadata := canon_payload (lv_metadata e)\<rparr>"

definition next_hash :: "digest \<Rightarrow> string \<Rightarrow> LedgerEvent \<Rightarrow> string" where
  "next_hash H previous e = H (D_chain (if previous = [] then GENESIS_HASH else previous) (canon_event e))"

text \<open>\<^verbatim>\<open>sha256_hex\<close> of a free-form dictionary.\<close>

definition sha256_hex :: "digest \<Rightarrow> payload \<Rightarrow> string" where
  "sha256_hex H p = H (D_payload (canon_payload p))"

definition payload_fingerprint :: "digest \<Rightarrow> LedgerEvent \<Rightarrow> string" where
  "payload_fingerprint H e = sha256_hex H (lv_event_payload e)"

subsection \<open>The append-only journal\<close>

record journal =
  jn_records :: "CommittedJournalRecord list"
  jn_by_id :: "(uuid, CommittedJournalRecord) dict"
  jn_by_idem :: "(string, CommittedJournalRecord) dict"
  jn_fingerprints :: "(uuid, string) dict"

definition journal_init :: journal where
  "journal_init = \<lparr>jn_records = [], jn_by_id = [], jn_by_idem = [], jn_fingerprints = []\<rparr>"

definition journal_get :: "uuid \<Rightarrow> journal \<Rightarrow> CommittedJournalRecord option" where
  "journal_get i j = dict_get (jn_by_id j) i"

definition tip_hash :: "journal \<Rightarrow> string" where
  "tip_hash j = (if jn_records j = [] then GENESIS_HASH else cj_content_hash (last (jn_records j)))"

text \<open>A result that refers to a committed record, and one that reports a conflict.\<close>

definition duplicate_result :: "string \<Rightarrow> uuid \<Rightarrow> CommittedJournalRecord \<Rightarrow> LedgerEvent \<Rightarrow> bool \<Rightarrow> IngestResult" where
  "duplicate_result reason i r e durable =
     \<lparr>ig_disposition = IG_DUPLICATE_IGNORED, ig_event_id = Some i, ig_sequence = Some (cj_sequence r),
      ig_content_hash = Some (cj_content_hash r), ig_reasons = [reason], ig_truth_source = lv_truth_source e,
      ig_durable = durable\<rparr>"

definition conflict_result :: "string \<Rightarrow> uuid \<Rightarrow> LedgerEvent \<Rightarrow> bool \<Rightarrow> IngestResult" where
  "conflict_result reason i e durable =
     \<lparr>ig_disposition = IG_CONTRADICTION_RECORDED, ig_event_id = Some i, ig_sequence = None,
      ig_content_hash = None, ig_reasons = [reason], ig_truth_source = lv_truth_source e, ig_durable = durable\<rparr>"

definition journal_commit ::
  "digest \<Rightarrow> LedgerEvent \<Rightarrow> datetime \<Rightarrow> bool \<Rightarrow> journal \<Rightarrow> IngestResult \<times> journal" where
  "journal_commit H e now durable j =
     (let prev = tip_hash j; n = Suc (length (jn_records j)); content = next_hash H prev e;
          stamped = e\<lparr>lv_ingested_at := Some (case lv_ingested_at e of None \<Rightarrow> now | Some t \<Rightarrow> t)\<rparr>;
          r = \<lparr>cj_sequence = n, cj_event = stamped, cj_content_hash = content, cj_previous_hash = prev,
               cj_committed_at = now\<rparr>
      in (\<lparr>ig_disposition = IG_COMMITTED, ig_event_id = Some (lv_event_id e), ig_sequence = Some n,
           ig_content_hash = Some content, ig_reasons = [], ig_truth_source = lv_truth_source e,
           ig_durable = durable\<rparr>,
          j\<lparr>jn_records := jn_records j @ [r], jn_by_id := dict_put (lv_event_id e) r (jn_by_id j),
            jn_fingerprints := dict_put (lv_event_id e) (payload_fingerprint H e) (jn_fingerprints j),
            jn_by_idem := (if truthy (lv_idempotency_key e)
                           then dict_put (the (lv_idempotency_key e)) r (jn_by_idem j) else jn_by_idem j)\<rparr>))"

definition journal_append ::
  "digest \<Rightarrow> LedgerEvent \<Rightarrow> datetime \<Rightarrow> bool \<Rightarrow> journal \<Rightarrow> IngestResult \<times> journal" where
  "journal_append H e now durable j =
     (let i = lv_event_id e; fp = payload_fingerprint H e in
      case dict_get (jn_by_id j) i of
        Some r \<Rightarrow>
          (if dict_get (jn_fingerprints j) i = Some fp then duplicate_result ''duplicate_event_id'' i r e durable
           else conflict_result ''duplicate_event_id_payload_conflict'' i e durable, j)
      | None \<Rightarrow>
          (case (if truthy (lv_idempotency_key e) then dict_get (jn_by_idem j) (the (lv_idempotency_key e)) else None) of
             Some r \<Rightarrow>
               (let o' = lv_event_id (cj_event r) in
                (if dict_get (jn_fingerprints j) o' = Some fp
                 then duplicate_result ''duplicate_idempotency_key'' o' r e durable
                 else conflict_result ''idempotency_payload_conflict'' o' e durable, j))
           | None \<Rightarrow> journal_commit H e now durable j))"

text \<open>\<^verbatim>\<open>FileJournal\<close>: a line is the normal form of its record; loading reads the lines back.\<close>

definition canon_record :: "CommittedJournalRecord \<Rightarrow> CommittedJournalRecord" where
  "canon_record r = r\<lparr>cj_event := canon_event (cj_event r)\<rparr>"

definition file_append ::
  "digest \<Rightarrow> LedgerEvent \<Rightarrow> datetime \<Rightarrow> bool \<Rightarrow> journal \<times> CommittedJournalRecord list \<Rightarrow>
   IngestResult \<times> journal \<times> CommittedJournalRecord list" where
  "file_append H e now durable jf =
     (case journal_append H e now durable (fst jf) of (r, j) \<Rightarrow>
      (r, j, if ig_disposition r = IG_COMMITTED
             then (case journal_get (lv_event_id e) j of None \<Rightarrow> snd jf | Some c \<Rightarrow> snd jf @ [canon_record c])
             else snd jf))"

text \<open>The validation of the event runs again on the way back; its messages make the exception.\<close>

definition reload_index :: "digest \<Rightarrow> CommittedJournalRecord \<Rightarrow> journal \<Rightarrow> journal" where
  "reload_index H r j =
     (let e = cj_event r in
      j\<lparr>jn_records := jn_records j @ [r], jn_by_id := dict_put (lv_event_id e) r (jn_by_id j),
        jn_fingerprints := dict_put (lv_event_id e) (payload_fingerprint H e) (jn_fingerprints j),
        jn_by_idem := (if truthy (lv_idempotency_key e)
                       then dict_put (the (lv_idempotency_key e)) r (jn_by_idem j) else jn_by_idem j)\<rparr>)"

fun file_reload :: "digest \<Rightarrow> CommittedJournalRecord list \<Rightarrow> journal \<Rightarrow> journal res" where
  "file_reload H [] j = Inr j"
| "file_reload H (r # rest) j =
     (case make_event (cj_event r) of
        Inl msgs \<Rightarrow> Inl (ValueError (join '', '' msgs))
      | Inr e \<Rightarrow> file_reload H rest (reload_index H (r\<lparr>cj_event := e\<rparr>) j))"

subsection \<open>Corrections\<close>

text \<open>\<^verbatim>\<open>{"correction_of": ..., "reason": ..., **payload}\<close>\<close>

definition correction_payload :: "LedgerEvent \<Rightarrow> payload \<Rightarrow> string \<Rightarrow> payload" where
  "correction_payload original extra reason =
     fold (\<lambda>(k, v) d. dict_put k v d) extra
       [(''correction_of'', J_text (uuid_str (lv_event_id original))), (''reason'', J_text reason)]"

definition correction_event ::
  "uuid \<Rightarrow> LedgerEvent \<Rightarrow> payload \<Rightarrow> string \<Rightarrow> string \<Rightarrow> datetime \<Rightarrow> string list + LedgerEvent" where
  "correction_event i original extra actor reason now =
     make_event
       \<lparr>lv_event_id = i, lv_trace_id = lv_trace_id original, lv_correlation_id = lv_correlation_id original,
        lv_causation_id = Some (lv_event_id original), lv_session_id = lv_session_id original,
        lv_source_module = lv_source_module original, lv_source_entity_id = lv_source_entity_id original,
        lv_event_type = ''correction'', lv_event_version = ''v1'', lv_event_timestamp = now, lv_ingested_at = Some now,
        lv_source_timestamp = Some now, lv_event_payload = correction_payload original extra reason,
        lv_truth_source = (if actor \<noteq> [] then PT_OPERATOR else lv_truth_source original),
        lv_lineage_refs = [uuid_str (lv_event_id original)], lv_integrity_metadata = [],
        lv_operator_id = Some actor, lv_metadata = [(''reason'', J_text reason)], lv_idempotency_key = None,
        lv_category = JC_CORRECTION, lv_ticket = lv_ticket original, lv_symbol = lv_symbol original,
        lv_order_id = lv_order_id original, lv_strategy_id = lv_strategy_id original,
        lv_incident_id = lv_incident_id original\<rparr>"

subsection \<open>Verification\<close>

fun chain_mismatches :: "digest \<Rightarrow> string \<Rightarrow> CommittedJournalRecord list \<Rightarrow> string list" where
  "chain_mismatches H prev [] = []"
| "chain_mismatches H prev (r # rs) =
     reason_if (cj_previous_hash r \<noteq> prev) (''seq='' @ nat_str (cj_sequence r) @ '' previous_hash mismatch'') @
     reason_if (cj_content_hash r \<noteq> next_hash H prev (cj_event r))
       (''seq='' @ nat_str (cj_sequence r) @ '' content_hash mismatch'') @
     chain_mismatches H (cj_content_hash r) rs"

definition verify_chain :: "digest \<Rightarrow> uuid \<Rightarrow> datetime \<Rightarrow> CommittedJournalRecord list \<Rightarrow> IntegrityReport" where
  "verify_chain H i now records =
     (if records = []
      then \<lparr>iy_report_id = i, iy_occurred_at = now, iy_state = IN_UNKNOWN, iy_records_checked = 0,
            iy_chain_valid = True, iy_mismatch_details = [], iy_genesis_hash = GENESIS_HASH,
            iy_tip_hash = None, iy_claim = ''tamper_detection_only''\<rparr>
      else
        (let bad = chain_mismatches H GENESIS_HASH records in
         \<lparr>iy_report_id = i, iy_occurred_at = now, iy_state = (if bad = [] then IN_VALID else IN_COMPROMISED),
          iy_records_checked = length records, iy_chain_valid = (bad = []), iy_mismatch_details = bad,
          iy_genesis_hash = GENESIS_HASH, iy_tip_hash = Some (cj_content_hash (last records)),
          iy_claim = ''tamper_detection_only''\<rparr>))"

subsection \<open>Intake\<close>

text \<open>A mapping handed to \<^verbatim>\<open>ingest\<close>: the keys it has, with values of the type the contract asks for.\<close>

record event_mapping =
  em_event_id :: "uuid option"
  em_trace_id :: "uuid option"
  em_correlation_id :: "uuid option"
  em_causation_id :: "uuid option"
  em_session_id :: "string option"
  em_source_module :: "string option"
  em_source_entity_id :: "string option"
  em_event_type :: "string option"
  em_event_version :: "string option"
  em_event_timestamp :: "datetime option"
  em_ingested_at :: "datetime option option"
  em_source_timestamp :: "datetime option option"
  em_event_payload :: payload
  em_truth_source :: "string option"
  em_lineage_refs :: "string list"
  em_integrity_metadata :: payload
  em_operator_id :: "string option"
  em_metadata :: payload
  em_idempotency_key :: "string option"
  em_category :: "string option"
  em_ticket :: "string option"
  em_symbol :: "string option"
  em_order_id :: "string option"
  em_strategy_id :: "string option"
  em_incident_id :: "string option"

datatype ingest_source =
    S_event LedgerEvent
  | S_risk RiskPublicationBundle
  | S_execution ExecutionPublicationBundle
  | S_monitoring OperationalTruthBundle
  | S_mapping event_mapping
  | S_other string

text \<open>\<^verbatim>\<open>x or default\<close> and \<^verbatim>\<open>setdefault\<close> on an option\<close>

definition opt_or :: "'a option \<Rightarrow> 'a \<Rightarrow> 'a" where
  "opt_or x d = (case x of None \<Rightarrow> d | Some y \<Rightarrow> y)"

text \<open>The ticket in the payload: a text, since no other value prints with the prefix.\<close>

definition payload_ticket :: "payload \<Rightarrow> string option" where
  "payload_ticket p =
     (let v = (case map_of p ''ticket'' of Some x \<Rightarrow> if json_truthy x then Some x else map_of p ''broker_ticket''
               | None \<Rightarrow> map_of p ''broker_ticket'')
      in case v of Some (J_text t) \<Rightarrow> Some t | Some (J_other t) \<Rightarrow> Some t | _ \<Rightarrow> None)"

definition label_truth :: "LedgerEvent \<Rightarrow> LedgerEvent" where
  "label_truth e =
     (let ticket = (if truthy (lv_ticket e) then lv_ticket e else payload_ticket (lv_event_payload e)) in
      if sim_text ticket then e\<lparr>lv_truth_source := PT_PM5_SIMULATION, lv_ticket := ticket\<rparr> else e)"

definition from_risk :: "RiskPublicationBundle \<Rightarrow> datetime \<Rightarrow> LedgerEvent" where
  "from_risk b now =
     (let v = rb_verdict b in
      \<lparr>lv_event_id = bundle_id b, lv_trace_id = rv_correlation_id v, lv_correlation_id = rv_correlation_id v,
       lv_causation_id = rv_causation_id v, lv_session_id = None, lv_source_module = ''pm4_risk_gate'',
       lv_source_entity_id = Some (uuid_str (rv_intent_id v)), lv_event_type = ''risk_publication'', lv_event_version = ''v1'',
       lv_event_timestamp = rb_occurred_at b, lv_ingested_at = Some now,
       lv_source_timestamp = Some (rb_occurred_at b),
       lv_event_payload = [(''status'', J_text (verdict_value (rv_status v))), (''producer'', J_text (rb_producer b)),
         (''execution_permitted'', J_bool (execution_permitted b))],
       lv_truth_source = PT_PM4_RISK, lv_lineage_refs = [], lv_integrity_metadata = [], lv_operator_id = None,
       lv_metadata = [], lv_idempotency_key = Some (''pm4:'' @ uuid_str (bundle_id b)),
       lv_category = JC_RISK_DECISION, lv_ticket = None, lv_symbol = None, lv_order_id = None,
       lv_strategy_id = None, lv_incident_id = None\<rparr>)"

definition from_execution :: "ExecutionPublicationBundle \<Rightarrow> datetime \<Rightarrow> LedgerEvent" where
  "from_execution b now =
     (let order = eb_order b; ticket = Option.bind order broker_ticket;
          trace = (case order of None \<Rightarrow> eb_bundle_id b | Some r \<Rightarrow> correlation_id r)
      in \<lparr>lv_event_id = eb_bundle_id b, lv_trace_id = trace, lv_correlation_id = trace,
          lv_causation_id = Option.bind order causation_id, lv_session_id = None,
          lv_source_module = ''pm5_execution'',
          lv_source_entity_id = map_option (\<lambda>r. uuid_str (order_id r)) order,
          lv_event_type = ''execution_publication'', lv_event_version = ''v1'', lv_event_timestamp = eb_occurred_at b,
          lv_ingested_at = Some now, lv_source_timestamp = Some (eb_occurred_at b),
          lv_event_payload = [(''producer'', J_text (eb_producer b)),
            (''execution_mode'', J_text (exec_mode_value (eb_execution_mode b))),
            (''operating_state'', J_text (operating_value (eb_operating_state b))),
            (''ticket'', text_or_null ticket),
            (''simulation'', J_bool (case order of None \<Rightarrow> True | Some r \<Rightarrow> simulation r)),
            (''mt5_used'', J_bool False), (''broker_side_effect'', J_bool False)],
          lv_truth_source = (if eb_execution_mode b \<in> {EM_SIMULATION, EM_SHADOW} \<or> sim_text ticket
                             then PT_PM5_SIMULATION else PT_PM5_LOCAL_OMS),
          lv_lineage_refs = [], lv_integrity_metadata = [], lv_operator_id = None, lv_metadata = [],
          lv_idempotency_key = Some (''pm5:'' @ uuid_str (eb_bundle_id b)), lv_category = JC_ORDER_LIFECYCLE,
          lv_ticket = ticket, lv_symbol = map_option symbol order,
          lv_order_id = map_option (\<lambda>r. uuid_str (order_id r)) order, lv_strategy_id = None,
          lv_incident_id = None\<rparr>)"

text \<open>\<^verbatim>\<open>_TRUTH\<close> and the rewriting of broker truth.\<close>

definition monitoring_truth :: "TruthSource \<Rightarrow> PersistenceTruthSource" where
  "monitoring_truth t =
     (if t = TS_SIMULATION_TRUTH then PT_PM5_SIMULATION
      else if t = TS_LOCAL_OMS_TRUTH then PT_PM5_LOCAL_OMS
      else if t = TS_UNKNOWN \<or> t = TS_STALE then PT_UNKNOWN
      else PT_PM6_MONITORING)"

definition from_monitoring :: "OperationalTruthBundle \<Rightarrow> datetime \<Rightarrow> LedgerEvent" where
  "from_monitoring b now =
     \<lparr>lv_event_id = ot_bundle_id b, lv_trace_id = ot_bundle_id b, lv_correlation_id = ot_bundle_id b,
      lv_causation_id = None, lv_session_id = None, lv_source_module = ''pm6_post_trade'',
      lv_source_entity_id = Some (uuid_str (ms_monitoring_id (ot_snapshot b))),
      lv_event_type = ''operational_truth'', lv_event_version = ''v1'', lv_event_timestamp = ot_occurred_at b, lv_ingested_at = Some now,
      lv_source_timestamp = Some (ot_occurred_at b),
      lv_event_payload = [(''producer'', J_text (ot_producer b)), (''execution_mode'', J_text (ot_execution_mode b)),
        (''incidents'', J_int (int (length (ot_incidents b)))), (''alerts'', J_int (int (length (ot_alerts b)))),
        (''durable'', J_bool False)],
      lv_truth_source = monitoring_truth (ot_truth_source b), lv_lineage_refs = [], lv_integrity_metadata = [],
      lv_operator_id = None, lv_metadata = [], lv_idempotency_key = Some (''pm6:'' @ uuid_str (ot_bundle_id b)),
      lv_category = (if ot_incidents b = [] then JC_SURVEILLANCE else JC_INCIDENT), lv_ticket = None,
      lv_symbol = None, lv_order_id = None, lv_strategy_id = None,
      lv_incident_id = (case ot_incidents b of [] \<Rightarrow> None | i # _ \<Rightarrow> Some (uuid_str (ic_incident_id i)))\<rparr>"

text \<open>
  \<^verbatim>\<open>from_mapping\<close> up to the validation: the defaults, and a \<^verbatim>\<open>ValueError\<close> for a category or truth
  source that no enumeration member has.
\<close>

definition from_mapping :: "uuid \<Rightarrow> uuid \<Rightarrow> uuid \<Rightarrow> event_mapping \<Rightarrow> datetime \<Rightarrow> LedgerEvent res" where
  "from_mapping i1 i2 i3 m now =
     rbind (case em_category m of None \<Rightarrow> Inr JC_ORDER_LIFECYCLE
            | Some x \<Rightarrow> (case category_of x of None \<Rightarrow> Inl (ValueError (x @ '' is not a valid JournalCategory''))
                        | Some c \<Rightarrow> Inr c)) (\<lambda>cat.
     rbind (case em_truth_source m of None \<Rightarrow> Inr PT_UNKNOWN
            | Some x \<Rightarrow> (case truth_of x of None \<Rightarrow> Inl (ValueError (x @ '' is not a valid PersistenceTruthSource''))
                        | Some t \<Rightarrow> Inr t)) (\<lambda>truth.
     (let stamp = opt_or (em_event_timestamp m) now in
      Inr \<lparr>lv_event_id = opt_or (em_event_id m) i1, lv_trace_id = opt_or (em_trace_id m) i2,
        lv_correlation_id = opt_or (em_correlation_id m) i3, lv_causation_id = em_causation_id m,
        lv_session_id = em_session_id m, lv_source_module = opt_or (em_source_module m) ''operator'',
        lv_source_entity_id = em_source_entity_id m, lv_event_type = opt_or (em_event_type m) ''operator_action'',
        lv_event_version = opt_or (em_event_version m) ''v1'',
        lv_event_timestamp = stamp, lv_ingested_at = opt_or (em_ingested_at m) (Some now),
        lv_source_timestamp = opt_or (em_source_timestamp m) (Some stamp), lv_event_payload = em_event_payload m,
        lv_truth_source = truth, lv_lineage_refs = em_lineage_refs m,
        lv_integrity_metadata = em_integrity_metadata m, lv_operator_id = em_operator_id m,
        lv_metadata = em_metadata m, lv_idempotency_key = em_idempotency_key m, lv_category = cat,
        lv_ticket = em_ticket m, lv_symbol = em_symbol m, lv_order_id = em_order_id m,
        lv_strategy_id = em_strategy_id m, lv_incident_id = em_incident_id m\<rparr>)))"

text \<open>
  \<^verbatim>\<open>IntakeGateway.normalize\<close>: an exception that escapes, or the reasons of an \<^verbatim>\<open>IntakeError\<close>, or the
  event. A \<^verbatim>\<open>LedgerEvent\<close> was validated when it was built.
\<close>

definition intake_error :: "string list + LedgerEvent \<Rightarrow> string list + LedgerEvent" where
  "intake_error r = (case r of Inl msgs \<Rightarrow> Inl (''schema_invalid'' # take 3 msgs) | Inr e \<Rightarrow> Inr (label_truth e))"

definition normalize_source ::
  "uuid \<Rightarrow> uuid \<Rightarrow> uuid \<Rightarrow> ingest_source \<Rightarrow> datetime \<Rightarrow> (string list + LedgerEvent) res" where
  "normalize_source i1 i2 i3 src now =
     (case src of
        S_event e \<Rightarrow> Inr (Inr (label_truth e))
      | S_risk b \<Rightarrow> Inr (intake_error (make_event (from_risk b now)))
      | S_execution b \<Rightarrow> Inr (intake_error (make_event (from_execution b now)))
      | S_monitoring b \<Rightarrow> Inr (intake_error (make_event (from_monitoring b now)))
      | S_mapping m \<Rightarrow> rbind (from_mapping i1 i2 i3 m now) (\<lambda>e. Inr (intake_error (make_event e)))
      | S_other ty \<Rightarrow> Inl (TypeError (''unsupported ingest source '' @ ty)))"

definition ALLOWED_SOURCE_MODULES :: "string list" where
  "ALLOWED_SOURCE_MODULES =
    [''pm1_platform'', ''pm2_market_context'', ''pm3_strategy_engine'', ''pm3_forecasting'', ''pm4_risk'',
     ''pm4_risk_gate'', ''pm5_execution'', ''pm6_monitoring'', ''pm6_post_trade'', ''operator'']"

definition blank_result :: "IngestDisposition \<Rightarrow> string list \<Rightarrow> IngestResult" where
  "blank_result d reasons =
     \<lparr>ig_disposition = d, ig_event_id = None, ig_sequence = None, ig_content_hash = None, ig_reasons = reasons,
      ig_truth_source = PT_UNKNOWN, ig_durable = False\<rparr>"

definition event_reasons :: "LedgerEvent \<Rightarrow> datetime \<Rightarrow> string list" where
  "event_reasons e now =
     reason_if (lv_source_module e \<notin> set ALLOWED_SOURCE_MODULES) ''unknown_source_module'' @
     reason_if (lv_event_timestamp e > now + seconds 5) ''future_dated'' @
     reason_if (sim_text (lv_ticket e) \<and> lv_truth_source e = PT_PM5_BROKER) ''sim_labelled_broker_truth'' @
     reason_if (is_true ''mt5_used'' (lv_event_payload e)) ''mt5_used_forbidden'' @
     reason_if (is_true ''broker_side_effect'' (lv_event_payload e)) ''broker_side_effect_forbidden''"

definition validate_event :: "LedgerEvent \<Rightarrow> datetime \<Rightarrow> bool \<Rightarrow> IngestResult option" where
  "validate_event e now feature_enabled =
     (if \<not> feature_enabled then Some (blank_result IG_FEATURE_DISABLED [''feature_disabled''])
      else
        (let reasons = event_reasons e now in
         if reasons = [] then None
         else Some ((blank_result
           (if ''sim_labelled_broker_truth'' \<in> set reasons then IG_REJECTED
            else if ''unknown_source_module'' \<in> set reasons \<or> ''future_dated'' \<in> set reasons then IG_QUARANTINED
            else IG_REJECTED) reasons)
           \<lparr>ig_event_id := Some (lv_event_id e), ig_truth_source := lv_truth_source e\<rparr>)))"

subsection \<open>Reconciliation records\<close>

definition recon_state_of :: "ReconciliationOutcome \<Rightarrow> ReconciliationPersistState" where
  "recon_state_of x =
     (case x of RO_PASS \<Rightarrow> RP_PASS | RO_MISMATCH \<Rightarrow> RP_MISMATCH | RO_DEGRADED \<Rightarrow> RP_DEGRADED | RO_CRITICAL \<Rightarrow> RP_CRITICAL)"

definition recon_from_execution ::
  "uuid \<Rightarrow> ExecutionPublicationBundle \<Rightarrow> datetime \<Rightarrow> uuid \<Rightarrow> ReconciliationPersistRecord res" where
  "recon_from_execution rid b now source =
     (let oid = map_option (\<lambda>r. uuid_str (order_id r)) (eb_order b); sy = map_option symbol (eb_order b) in
      case eb_reconciliation b of
        None \<Rightarrow>
          no_silent_pass \<lparr>pr_record_id = rid, pr_occurred_at = now, pr_order_id = oid, pr_session_id = None,
            pr_symbol = sy, pr_state = RP_UNAVAILABLE, pr_broker_truth_available = False,
            pr_truth_source = PT_PM5_SIMULATION, pr_source_event_id = Some source,
            pr_notes = ''no venue; reconciliation unavailable'', pr_local_state = [], pr_broker_state = []\<rparr>
      | Some r \<Rightarrow>
          (let silent = (\<not> rc_broker_truth_available r \<and> recon_state_of (rc_outcome r) = RP_PASS) in
           no_silent_pass \<lparr>pr_record_id = rid, pr_occurred_at = rc_as_of r, pr_order_id = oid, pr_session_id = None,
             pr_symbol = sy, pr_state = (if silent then RP_DEGRADED else recon_state_of (rc_outcome r)),
             pr_broker_truth_available = rc_broker_truth_available r,
             pr_truth_source = (if rc_broker_truth_available r then PT_PM5_BROKER else PT_PM5_SIMULATION),
             pr_source_event_id = Some source,
             pr_notes = (if silent then ''no venue; pass rewritten to degraded''
                         else if rc_notes r \<noteq> [] then rc_notes r else rc_recommended_action r),
             pr_local_state = local_state r, pr_broker_state = broker_state r\<rparr>))"

definition recon_history ::
  "string option \<Rightarrow> string option \<Rightarrow> string option \<Rightarrow> ReconciliationPersistRecord list \<Rightarrow> ReconciliationPersistRecord list" where
  "recon_history oid sid sy rs =
     filter (\<lambda>r. (truthy oid \<longrightarrow> pr_order_id r = oid) \<and> (truthy sid \<longrightarrow> pr_session_id r = sid) \<and>
                 (truthy sy \<longrightarrow> pr_symbol r = sy)) rs"

end
