(* ===== verification/PersistServices.thy ===== *)
theory PersistServices
  imports PersistJournal
begin

section \<open>The services around the journal\<close>

text \<open>
  \<^verbatim>\<open>pm7_persistence\<close>: retention, snapshots, recovery metadata, replay, queries, evidence, export,
  reports. Each reads the list of committed records; none writes to it.
\<close>

subsection \<open>Retention\<close>

record retention =
  rt_tier :: ArchiveTier
  rt_frozen :: bool
  rt_lock_reason :: "string option"
  rt_simulate_archive :: bool
  rt_allow_purge :: bool
  rt_actions :: "timeline_line list"

definition retention_init :: "bool \<Rightarrow> bool \<Rightarrow> retention" where
  "retention_init simulate allow =
     \<lparr>rt_tier = AT_ACTIVE, rt_frozen = False, rt_lock_reason = None, rt_simulate_archive = simulate,
      rt_allow_purge = allow, rt_actions = []\<rparr>"

definition archive_manifest :: "digest \<Rightarrow> ArchiveTier \<Rightarrow> nat \<Rightarrow> bool \<Rightarrow> string option \<Rightarrow> string" where
  "archive_manifest H tier n frozen tip =
     sha256_hex H [(''tier'', J_text (tier_value tier)), (''sequence'', J_int (int n)), (''frozen'', J_bool frozen),
                   (''tip'', text_or_null tip)]"

definition retention_status :: "digest \<Rightarrow> datetime \<Rightarrow> nat \<Rightarrow> string option \<Rightarrow> retention \<Rightarrow> RetentionStatus" where
  "retention_status H now n tip r =
     \<lparr>rs_occurred_at = now, rs_tier = rt_tier r, rs_frozen = rt_frozen r, rs_lock_reason = rt_lock_reason r,
      rs_purge_eligible = (rt_tier r = AT_PURGE_ELIGIBLE \<and> \<not> rt_frozen r),
      rs_simulated = rt_simulate_archive r,
      rs_manifest_checksum = Some (archive_manifest H (rt_tier r) n (rt_frozen r) tip)\<rparr>"

definition retention_transition :: "digest \<Rightarrow> ArchiveTier \<Rightarrow> datetime \<Rightarrow> (retention, RetentionStatus) comp" where
  "retention_transition H tier now =
     bnd (get_st (\<lambda>r. rt_frozen r \<and> tier = AT_PURGED_IF_ALLOWED)) (\<lambda>blocked.
     if blocked then raise_exn (RetentionFrozenError ''frozen'')
     else bnd (upd_st (\<lambda>r. r\<lparr>rt_tier := tier, rt_actions := rt_actions r @ [(now, '':'' @ tier_value tier)]\<rparr>)) (\<lambda>_.
          get_st (retention_status H now 0 None)))"

definition retention_freeze :: "digest \<Rightarrow> string \<Rightarrow> datetime \<Rightarrow> (retention, RetentionStatus) comp" where
  "retention_freeze H reason now =
     bnd (upd_st (\<lambda>r. r\<lparr>rt_frozen := True, rt_lock_reason := Some reason, rt_tier := AT_FROZEN,
                        rt_actions := rt_actions r @ [(now, '':freeze:'' @ reason)]\<rparr>)) (\<lambda>_.
     get_st (retention_status H now 0 None))"

definition retention_lock :: "digest \<Rightarrow> string \<Rightarrow> datetime \<Rightarrow> (retention, RetentionStatus) comp" where
  "retention_lock H reason now =
     bnd (upd_st (\<lambda>r. r\<lparr>rt_frozen := True, rt_lock_reason := Some reason, rt_tier := AT_RETENTION_LOCK\<rparr>)) (\<lambda>_.
     get_st (retention_status H now 0 None))"

definition may_purge :: "bool \<Rightarrow> bool \<Rightarrow> bool \<Rightarrow> bool \<times> string" where
  "may_purge frozen allow simulate =
     (if frozen then (False, ''frozen'') else if \<not> allow then (False, ''purge_disabled'')
      else if simulate then (False, ''simulated_only'') else (True, ''allowed''))"

text \<open>The module calls \<^verbatim>\<open>purge\<close> without a list to clear.\<close>

definition retention_purge :: "digest \<Rightarrow> datetime \<Rightarrow> (retention, RetentionStatus \<times> string) comp" where
  "retention_purge H now =
     bnd (get_st (\<lambda>r. (may_purge (rt_frozen r) (rt_allow_purge r) (rt_simulate_archive r), rt_frozen r)))
     (\<lambda>((ok, why), frozen).
       if ok
       then bnd (upd_st (\<lambda>r. r\<lparr>rt_tier := AT_PURGED_IF_ALLOWED\<rparr>)) (\<lambda>_.
            get_st (\<lambda>r. (retention_status H now 0 None r, ''purged'')))
       else if frozen then raise_exn (RetentionFrozenError why)
       else bnd (upd_st (\<lambda>r. r\<lparr>rt_actions := rt_actions r @ [(now, '':purge_blocked:'' @ why)]\<rparr>)) (\<lambda>_.
            get_st (\<lambda>r. (retention_status H now 0 None r, why))))"

subsection \<open>Snapshots\<close>

definition event_id_text :: "CommittedJournalRecord \<Rightarrow> string" where
  "event_id_text r = uuid_str (lv_event_id (cj_event r))"

definition tail_n :: "nat \<Rightarrow> 'a list \<Rightarrow> 'a list" where
  "tail_n n xs = drop (length xs - n) xs"

definition last_sequence :: "CommittedJournalRecord list \<Rightarrow> nat" where
  "last_sequence rs = (if rs = [] then 0 else cj_sequence (last rs))"

definition last_content_hash :: "CommittedJournalRecord list \<Rightarrow> string option" where
  "last_content_hash rs = (if rs = [] then None else Some (cj_content_hash (last rs)))"

definition snapshot_digest :: "digest \<Rightarrow> nat \<Rightarrow> snapshot_payload \<Rightarrow> string" where
  "snapshot_digest H n p =
     sha256_hex H [(''sequence'', J_int (int n)),
       (''payload'', J_dict [(''count'', J_int (int (sp_count p))), (''tip'', text_or_null (sp_tip p)),
                             (''event_ids'', texts_json (sp_event_ids p))])]"

definition snapshot_capture ::
  "digest \<Rightarrow> uuid \<Rightarrow> datetime \<Rightarrow> CommittedJournalRecord list \<Rightarrow> SnapshotScope \<Rightarrow> SnapshotRecord" where
  "snapshot_capture H i now rs scope =
     (let n = last_sequence rs;
          p = \<lparr>sp_count = length rs, sp_tip = last_content_hash rs, sp_event_ids = map event_id_text (tail_n 8 rs)\<rparr>
      in \<lparr>ss_snapshot_id = i, ss_occurred_at = now, ss_scope = scope, ss_state = SNS_CAPTURED,
          ss_journal_sequence = n, ss_checksum = snapshot_digest H n p, ss_payload = p\<rparr>)"

definition validate_checksum :: "digest \<Rightarrow> SnapshotRecord \<Rightarrow> SnapshotState" where
  "validate_checksum H r =
     (if snapshot_digest H (ss_journal_sequence r) (ss_payload r) \<noteq> ss_checksum r then SNS_CORRUPT else SNS_VALIDATED)"

definition snapshot_service_capture ::
  "digest \<Rightarrow> uuid \<Rightarrow> datetime \<Rightarrow> CommittedJournalRecord list \<Rightarrow> SnapshotScope \<Rightarrow> SnapshotRecord list \<Rightarrow>
   SnapshotRecord \<times> SnapshotRecord list" where
  "snapshot_service_capture H i now rs scope items =
     (let older = (if items = [] then items else butlast items @ [(last items)\<lparr>ss_state := SNS_SUPERSEDED\<rparr>]);
          snap = snapshot_capture H i now rs scope;
          checked = snap\<lparr>ss_state := validate_checksum H snap\<rparr>
      in (checked, older @ [checked]))"

subsection \<open>Recovery metadata\<close>

record recovery =
  ry_status :: RecoveryStatus
  ry_reference :: "string option"
  ry_last :: "BackupMetadata option"

definition recovery_init :: recovery where
  "recovery_init = \<lparr>ry_status = RY_UNAVAILABLE, ry_reference = None, ry_last = None\<rparr>"

fun continuity_from :: "nat \<Rightarrow> CommittedJournalRecord list \<Rightarrow> bool" where
  "continuity_from n [] \<longleftrightarrow> True"
| "continuity_from n (r # rs) \<longleftrightarrow> cj_sequence r = n \<and> continuity_from (Suc n) rs"

definition continuity_ok :: "CommittedJournalRecord list \<Rightarrow> bool" where
  "continuity_ok rs \<longleftrightarrow> continuity_from 1 rs"

definition recovery_current ::
  "uuid \<Rightarrow> datetime \<Rightarrow> CommittedJournalRecord list \<Rightarrow> recovery \<Rightarrow> BackupMetadata \<times> recovery" where
  "recovery_current i now rs r =
     (let status = (if rs = [] then RY_UNAVAILABLE else if \<not> continuity_ok rs then RY_VERIFICATION_FAILED
                    else if truthy (ry_reference r) then RY_AVAILABLE else RY_UNAVAILABLE);
          meta = \<lparr>bk_backup_id = i, bk_occurred_at = now, bk_status = status, bk_reference = ry_reference r,
                  bk_journal_sequence = last_sequence rs, bk_checksum = last_content_hash rs\<rparr>
      in (meta, r\<lparr>ry_status := status, ry_last := Some meta\<rparr>))"

definition recovery_mark_stale ::
  "uuid \<Rightarrow> datetime \<Rightarrow> CommittedJournalRecord list \<Rightarrow> recovery \<Rightarrow> BackupMetadata \<times> recovery" where
  "recovery_mark_stale i now rs r =
     (let ref = (if truthy (ry_reference r) then ry_reference r else Some ''stale-ref'');
          meta = \<lparr>bk_backup_id = i, bk_occurred_at = now, bk_status = RY_STALE, bk_reference = ref,
                  bk_journal_sequence = last_sequence rs, bk_checksum = last_content_hash rs\<rparr>
      in (meta, \<lparr>ry_status = RY_STALE, ry_reference = ref, ry_last = Some meta\<rparr>))"

definition restore_request :: "RecoveryStatus \<Rightarrow> RecoveryStatus" where
  "restore_request s =
     (if s = RY_UNAVAILABLE \<or> s = RY_STALE \<or> s = RY_VERIFICATION_FAILED then RY_REQUIRES_REVIEW else RY_RESTORE_PENDING)"

definition recovery_request_restore :: "recovery \<Rightarrow> RecoveryStatus \<times> recovery" where
  "recovery_request_restore r = (let n = restore_request (ry_status r) in (n, r\<lparr>ry_status := n\<rparr>))"

subsection \<open>Replay\<close>

definition ordered :: "CommittedJournalRecord list \<Rightarrow> bool" where
  "ordered rs \<longleftrightarrow> (let ns = map cj_sequence rs in ns = sort ns \<and> length ns = length (remdups ns))"

definition compare_snapshot :: "nat \<Rightarrow> string \<Rightarrow> nat \<Rightarrow> string option \<Rightarrow> string list" where
  "compare_snapshot actual actual_hash expected expected_hash =
     reason_if (expected \<noteq> actual)
       (''sequence divergence expected='' @ nat_str expected @ '' actual='' @ nat_str actual) @
     reason_if (truthy expected_hash \<and> actual_hash \<noteq> [] \<and> expected_hash \<noteq> Some actual_hash) ''checksum divergence''"

definition timeline :: "CommittedJournalRecord list \<Rightarrow> string list" where
  "timeline rs = map (\<lambda>r. nat_str (cj_sequence r) @ '':'' @ lv_event_type (cj_event r)) rs"

definition replay_failed :: "uuid \<Rightarrow> datetime \<Rightarrow> ReplayScope \<Rightarrow> string \<Rightarrow> ReplayResult" where
  "replay_failed i now scope note =
     \<lparr>yr_replay_id = i, yr_occurred_at = now, yr_scope = scope, yr_state = RS_FAILED, yr_event_count = 0,
      yr_timeline = [], yr_reconstructed = None, yr_snapshot_id = None, yr_divergence_notes = [note],
      yr_verification = IN_UNKNOWN, yr_source_lineage = []\<rparr>"

definition replay_engine ::
  "uuid \<Rightarrow> datetime \<Rightarrow> ReplayScope \<Rightarrow> SnapshotRecord option \<Rightarrow> bool \<Rightarrow> CommittedJournalRecord list \<Rightarrow> ReplayResult" where
  "replay_engine i now scope snap enabled rs =
     (if \<not> enabled then replay_failed i now scope ''replay_disabled''
      else if rs = [] then replay_failed i now scope ''empty_chain''
      else if \<not> ordered rs
      then (replay_failed i now scope ''invalid_event_order'')
             \<lparr>yr_event_count := length rs, yr_source_lineage := map event_id_text rs\<rparr>
      else
        (let n = cj_sequence (last rs); h = cj_content_hash (last rs);
             notes = (case snap of None \<Rightarrow> []
                      | Some x \<Rightarrow> compare_snapshot n h (ss_journal_sequence x) (sp_tip (ss_payload x)));
             state = (if snap = None then RS_COMPLETED
                      else if notes \<noteq> [] then RS_DIVERGENCE_DETECTED else RS_VERIFIED)
         in \<lparr>yr_replay_id = i, yr_occurred_at = now, yr_scope = scope, yr_state = state,
             yr_event_count = length rs, yr_timeline = timeline rs,
             yr_reconstructed = Some (n, h, length rs), yr_snapshot_id = map_option ss_snapshot_id snap,
             yr_divergence_notes = notes,
             yr_verification = (if state = RS_VERIFIED then IN_VALID
                                else if notes \<noteq> [] then IN_WARNING else IN_UNKNOWN),
             yr_source_lineage = map event_id_text rs\<rparr>))"

subsection \<open>Queries\<close>

definition is_authorized :: "QuerySpec \<Rightarrow> bool" where
  "is_authorized q \<longleftrightarrow> qs_authorized q \<and> \<not> blank (qs_actor q)"

definition if_given :: "string option \<Rightarrow> (LedgerEvent \<Rightarrow> string option) \<Rightarrow> CommittedJournalRecord list \<Rightarrow> CommittedJournalRecord list" where
  "if_given x f rs = (if truthy x then filter (\<lambda>r. f (cj_event r) = x) rs else rs)"

definition apply_filters :: "QuerySpec \<Rightarrow> CommittedJournalRecord list \<Rightarrow> CommittedJournalRecord list" where
  "apply_filters q rs =
     (let a = if_given (qs_trace_id q) (\<lambda>e. Some (uuid_str (lv_trace_id e))) rs;
          b = if_given (qs_session_id q) lv_session_id a;
          c = if_given (qs_symbol q) lv_symbol b;
          d = if_given (qs_strategy_id q) lv_strategy_id c;
          e = if_given (qs_order_id q) lv_order_id d;
          f = if_given (qs_incident_id q) lv_incident_id e
      in case qs_category q of None \<Rightarrow> f | Some k \<Rightarrow> filter (\<lambda>r. lv_category (cj_event r) = k) f)"

definition query_execute :: "QuerySpec \<Rightarrow> CommittedJournalRecord list \<Rightarrow> nat \<Rightarrow> QueryResult" where
  "query_execute q rs cap =
     (if \<not> is_authorized q
      then \<lparr>qr_query_id = qs_query_id q, qr_authorized = False, qr_actor = qs_actor q, qr_event_ids = [],
            qr_count = 0, qr_offset = qs_offset q, qr_limit = qs_limit q, qr_provenance = [],
            qr_access = ''rejected'', qr_reasons = [''unauthorized'']\<rparr>
      else
        (let items = apply_filters q rs; limit = min (qs_limit q) cap;
             window = take limit (drop (qs_offset q) items)
         in \<lparr>qr_query_id = qs_query_id q, qr_authorized = True, qr_actor = qs_actor q,
             qr_event_ids = map event_id_text window, qr_count = length items, qr_offset = qs_offset q,
             qr_limit = limit, qr_provenance = map (\<lambda>r. persist_truth_value (lv_truth_source (cj_event r))) window,
             qr_access = ''granted'', qr_reasons = []\<rparr>))"

subsection \<open>Evidence, export, reports\<close>

definition last_truth :: "CommittedJournalRecord list \<Rightarrow> PersistenceTruthSource" where
  "last_truth rs = (if rs = [] then PT_UNKNOWN else lv_truth_source (cj_event (last rs)))"

definition build_evidence_bundle ::
  "uuid \<Rightarrow> datetime \<Rightarrow> CommittedJournalRecord list \<Rightarrow> IntegrityState \<Rightarrow> string option \<Rightarrow> string option \<Rightarrow> EvidenceBundle" where
  "build_evidence_bundle i now rs integrity entity actor =
     (let truth = last_truth rs; none = (rs = []) in
      \<lparr>vb_bundle_id = i, vb_occurred_at = now, vb_state = (if none then EVS_DRAFT else EVS_ASSEMBLED),
       vb_entity_id = entity, vb_actor = actor,
       vb_result = (if none then ''insufficient_data'' else ''assembled''),
       vb_unresolved = reason_if none ''no_source_events'', vb_truth_source = truth,
       vb_integrity_status = integrity, vb_source_event_ids = map event_id_text rs,
       vb_timeline = map (\<lambda>r. nat_str (cj_sequence r) @ '':'' @ lv_event_type (cj_event r) @ '':'' @
                              lv_source_module (cj_event r)) rs,
       vb_summary = (if none then ''insufficient_data''
                     else nat_str (length rs) @ '' committed events. truth='' @ persist_truth_value truth @
                          ''. integrity='' @ integrity_value integrity @ ''.''),
       vb_event_count = length rs, vb_durable = False\<rparr>)"

definition export_payload ::
  "string \<Rightarrow> string list \<Rightarrow> nat \<Rightarrow> PersistenceTruthSource \<Rightarrow> IntegrityState \<Rightarrow> payload" where
  "export_payload kind ids n truth integrity =
     [(''kind'', J_text kind), (''event_ids'', texts_json ids), (''count'', J_int (int n)),
      (''truth_source'', J_text (persist_truth_value truth)), (''integrity'', J_text (integrity_value integrity))]"

definition export_manifest :: "string \<Rightarrow> string list \<Rightarrow> string \<Rightarrow> IntegrityState \<Rightarrow> payload" where
  "export_manifest kind ids checksum integrity =
     [(''kind'', J_text kind), (''event_ids'', texts_json ids), (''checksum'', J_text checksum),
      (''integrity'', J_text (integrity_value integrity)), (''secrets'', J_bool False)]"

definition export_pack ::
  "digest \<Rightarrow> uuid \<Rightarrow> datetime \<Rightarrow> string \<Rightarrow> CommittedJournalRecord list \<Rightarrow> IntegrityState \<Rightarrow> PersistenceTruthSource \<Rightarrow> ExportPackage" where
  "export_pack H i now kind rs integrity truth =
     (let ids = map event_id_text rs; p = export_payload kind ids (length rs) truth integrity;
          checksum = sha256_hex H p
      in no_secrets
        \<lparr>xk_package_id = i, xk_occurred_at = now, xk_kind = kind, xk_json_payload = p,
         xk_manifest = export_manifest kind ids checksum integrity, xk_checksum = checksum,
         xk_lineage_refs = ids, xk_integrity_status = integrity, xk_truth_source = truth\<rparr>)"

definition module_counts :: "CommittedJournalRecord list \<Rightarrow> (string, nat) dict" where
  "module_counts rs =
     fold (\<lambda>r d. let m = lv_source_module (cj_event r) in
                 dict_put m (Suc (case dict_get d m of None \<Rightarrow> 0 | Some n \<Rightarrow> n)) d) rs []"

definition build_dataset :: "uuid \<Rightarrow> datetime \<Rightarrow> CommittedJournalRecord list \<Rightarrow> string \<Rightarrow> AnalyticsDataset" where
  "build_dataset i now rs scope =
     (if rs = []
      then \<lparr>an_dataset_id = i, an_occurred_at = now, an_scope = scope, an_source_event_ids = [],
            an_event_count = 0, an_simulation_tickets = None, an_by_module = [],
            an_quality = DQS_INSUFFICIENT_DATA, an_truth_source = PT_DERIVED\<rparr>
      else \<lparr>an_dataset_id = i, an_occurred_at = now, an_scope = scope,
            an_source_event_ids = map event_id_text rs, an_event_count = length rs,
            an_simulation_tickets = Some (length (filter (\<lambda>r. sim_text (lv_ticket (cj_event r))) rs)),
            an_by_module = module_counts rs, an_quality = DQS_OK, an_truth_source = PT_DERIVED\<rparr>)"

fun report_title :: "ReportKind \<Rightarrow> string" where
  "report_title RK_DAILY_OPERATIONS = ''Daily operations''"
| "report_title RK_INCIDENT_REVIEW = ''Incident review''"
| "report_title RK_RECONCILIATION_HEALTH = ''Reconciliation health''"
| "report_title RK_CONTROL_ACTIVITY = ''Control activity''"
| "report_title RK_AUDIT_EVIDENCE_INDEX = ''Audit evidence index''"
| "report_title RK_DATA_QUALITY = ''Data quality''"
| "report_title RK_INTEGRITY_VERIFICATION = ''Integrity verification''"
| "report_title RK_GOVERNANCE_REVIEW = ''Governance review''"

definition report_generate ::
  "uuid \<Rightarrow> uuid \<Rightarrow> datetime \<Rightarrow> ReportKind \<Rightarrow> CommittedJournalRecord list \<Rightarrow> ReconciliationPersistRecord list \<Rightarrow> bool \<Rightarrow>
   AuditReport" where
  "report_generate i di now kind rs recon enabled =
     (let base = build_dataset di now rs (report_value kind);
          health = (kind = RK_RECONCILIATION_HEALTH);
          degraded = length (filter (\<lambda>r. pr_state r = RP_DEGRADED \<or> pr_state r = RP_UNAVAILABLE) recon);
          extra = (if health then '' recon_degraded_or_unavailable='' @ nat_str degraded else []);
          d1 = (if health \<and> recon = [] then base\<lparr>an_quality := DQS_INSUFFICIENT_DATA\<rparr> else base);
          s1 = (if an_quality d1 = DQS_INSUFFICIENT_DATA then ''insufficient_data''
                else report_title kind @ ''. events='' @ nat_str (length rs) @ ''.'' @ extra);
          d2 = (if enabled then d1 else d1\<lparr>an_quality := DQS_NOT_AVAILABLE\<rparr>);
          s2 = (if enabled then s1 else ''reporting_disabled'')
      in \<lparr>au_report_id = i, au_occurred_at = now, au_kind = kind, au_summary = s2, au_dataset = d2,
          au_lineage_refs = an_source_event_ids d2, au_quality = an_quality d2\<rparr>)"

end
