(* ===== verification/PersistModule.thy ===== *)
theory PersistModule
  imports PersistServices
begin

section \<open>The persistence module\<close>

text \<open>
  \<^verbatim>\<open>PM7PersistenceModule\<close> of \<^verbatim>\<open>pm7_persistence/module.py\<close> with the state of the services it owns. The
  clock readings are arguments, \<open>m7_fresh\<close> stands for \<^verbatim>\<open>uuid4\<close>. The backend is the in-memory
  journal, with \<open>m7_files\<close> the three files of \<^verbatim>\<open>FileJournal\<close> when the mode is file-backed; the
  SQLite backend is not modelled. A note of the evidence registry is its instant and its text.
\<close>

subsection \<open>State\<close>

record store_files =
  fl_journal :: "CommittedJournalRecord list"
  fl_snapshots :: "SnapshotRecord list"
  fl_evidence :: "EvidenceBundle list"

record pm7_flags =
  g7_feature :: bool
  g7_journal :: bool
  g7_replay :: bool
  g7_integrity :: bool
  g7_retention :: bool
  g7_reporting :: bool

record pm7 =
  m7_config :: Pm7PersistenceConfig
  m7_feature_enabled :: bool
  m7_journal_enabled :: bool
  m7_replay_enabled :: bool
  m7_integrity_enabled :: bool
  m7_retention_enabled :: bool
  m7_reporting_enabled :: bool
  m7_journal :: journal
  m7_files :: "store_files option"
  m7_recon :: "ReconciliationPersistRecord list"
  m7_notes :: "timeline_line list"
  m7_bundles :: "EvidenceBundle list"
  m7_snapshots :: "SnapshotRecord list"
  m7_retention :: retention
  m7_recovery :: recovery
  m7_emitted :: "PersistencePublicationBundle list"
  m7_quarantine :: "IngestResult list"
  m7_last_integrity :: IntegrityState
  m7_last_bundle :: "PersistencePublicationBundle option"
  m7_next_id :: uuid

definition empty_files :: store_files where
  "empty_files = \<lparr>fl_journal = [], fl_snapshots = [], fl_evidence = []\<rparr>"

text \<open>
  \<^verbatim>\<open>_backend_for\<close>: the journal and the files it keeps, for the modes other than SQLite; \<open>None\<close> for
  the two SQLite modes.
\<close>

definition backend_for :: "digest \<Rightarrow> Pm7PersistenceConfig \<Rightarrow> store_files \<Rightarrow> (journal \<times> store_files option) res option" where
  "backend_for H c disk =
     (if p7_operating_mode c = PE_FILE_BACKED
      then Some (rbind (file_reload H (fl_journal disk) journal_init) (\<lambda>j. Inr (j, Some disk)))
      else if p7_operating_mode c \<in> {PE_SQLITE_LOCAL, PE_DURABLE_CANDIDATE} then None
      else Some (Inr (journal_init, None)))"

text \<open>The constructor with \<^verbatim>\<open>_reload_durable_sidecars\<close>.\<close>

definition pm7_assemble ::
  "Pm7PersistenceConfig \<Rightarrow> pm7_flags \<Rightarrow> uuid \<Rightarrow> journal \<times> store_files option \<Rightarrow> pm7" where
  "pm7_assemble c g n b =
     \<lparr>m7_config = c, m7_feature_enabled = g7_feature g, m7_journal_enabled = (g7_journal g \<and> g7_feature g),
      m7_replay_enabled = (g7_replay g \<and> g7_feature g), m7_integrity_enabled = (g7_integrity g \<and> g7_feature g),
      m7_retention_enabled = (g7_retention g \<and> g7_feature g),
      m7_reporting_enabled = (g7_reporting g \<and> g7_feature g), m7_journal = fst b, m7_files = snd b,
      m7_recon = [], m7_notes = [],
      m7_bundles = (case snd b of None \<Rightarrow> [] | Some f \<Rightarrow> fl_evidence f),
      m7_snapshots = (case snd b of None \<Rightarrow> [] | Some f \<Rightarrow> fl_snapshots f),
      m7_retention = retention_init (p7_simulate_archive c) (p7_allow_purge c), m7_recovery = recovery_init,
      m7_emitted = [], m7_quarantine = [], m7_last_integrity = IN_UNKNOWN, m7_last_bundle = None,
      m7_next_id = n\<rparr>"

definition pm7_init ::
  "digest \<Rightarrow> Pm7PersistenceConfig \<Rightarrow> pm7_flags \<Rightarrow> uuid \<Rightarrow> store_files \<Rightarrow> pm7 res option" where
  "pm7_init H c g n disk = map_option (\<lambda>b. rbind b (\<lambda>x. Inr (pm7_assemble c g n x))) (backend_for H c disk)"

definition m7_fresh :: "(pm7, uuid) comp" where
  "m7_fresh s = (Inr (m7_next_id s), s\<lparr>m7_next_id := Suc (m7_next_id s)\<rparr>)"

definition m7_note :: "datetime \<Rightarrow> string \<Rightarrow> (pm7, unit) comp" where
  "m7_note now text = upd_st (\<lambda>s. s\<lparr>m7_notes := m7_notes s @ [(now, text)]\<rparr>)"

definition m7_records :: "pm7 \<Rightarrow> CommittedJournalRecord list" where
  "m7_records s = jn_records (m7_journal s)"

subsection \<open>Ingestion\<close>

definition m7_append :: "digest \<Rightarrow> LedgerEvent \<Rightarrow> datetime \<Rightarrow> (pm7, IngestResult) comp" where
  "m7_append H e now s =
     (let durable = claims_durable (m7_config s) in
      case m7_files s of
        None \<Rightarrow> (case journal_append H e now durable (m7_journal s) of (r, j) \<Rightarrow> (Inr r, s\<lparr>m7_journal := j\<rparr>))
      | Some f \<Rightarrow>
          (case file_append H e now durable (m7_journal s, fl_journal f) of (r, j, lines) \<Rightarrow>
           (Inr r, s\<lparr>m7_journal := j, m7_files := Some (f\<lparr>fl_journal := lines\<rparr>)\<rparr>)))"

definition m7_quarantined :: "IngestResult \<Rightarrow> (pm7, unit) comp" where
  "m7_quarantined r = upd_st (\<lambda>s. s\<lparr>m7_quarantine := m7_quarantine s @ [r]\<rparr>)"

definition publication_bundle :: "uuid \<Rightarrow> datetime \<Rightarrow> IngestResult \<Rightarrow> PersistenceTruthSource \<Rightarrow> pm7 \<Rightarrow> PersistencePublicationBundle" where
  "publication_bundle i now r truth s =
     \<lparr>pb_bundle_id = i, pb_occurred_at = now, pb_mode = p7_operating_mode (m7_config s),
      pb_journal_sequence = length (m7_records s), pb_ingest = Some r, pb_integrity = m7_last_integrity s,
      pb_retention = rt_tier (m7_retention s),
      pb_reconciliation_state = (if m7_recon s = [] then None else Some (pr_state (last (m7_recon s)))),
      pb_truth_source = truth, pb_persistence_handoff = ''pending_pm8'', pb_broker_side_effect = False,
      pb_mt5_used = False,
      pb_durable = (if p7_operating_mode (m7_config s) = PE_MEMORY then False else claims_durable (m7_config s)),
      pb_producer = ''pm7_persistence''\<rparr>"

definition m7_emit :: "PersistencePublicationBundle \<Rightarrow> (pm7, unit) comp" where
  "m7_emit b = upd_st (\<lambda>s. s\<lparr>m7_emitted := m7_emitted s @ [b]\<rparr>)"

definition m7_publish :: "datetime \<Rightarrow> IngestResult \<Rightarrow> PersistenceTruthSource \<Rightarrow> (pm7, PersistencePublicationBundle) comp" where
  "m7_publish now r truth =
     bnd m7_fresh (\<lambda>i.
     bnd (get_st (publication_bundle i now r truth)) (\<lambda>raw.
     bnd (lift_res (publication_safety raw)) (\<lambda>b.
     bnd (m7_emit b) (\<lambda>_. ret b))))"

definition sequence_text :: "nat option \<Rightarrow> string" where
  "sequence_text x = (case x of None \<Rightarrow> ''None'' | Some n \<Rightarrow> nat_str n)"

text \<open>After the append: the note, a contradiction's quarantine, the reconciliation record of an
  execution bundle, the publication.\<close>

definition m7_after_append ::
  "datetime \<Rightarrow> ingest_source \<Rightarrow> LedgerEvent \<Rightarrow> IngestResult \<Rightarrow> (pm7, IngestResult) comp" where
  "m7_after_append now src e r =
     bnd (m7_note now ('' ingest '' @ ingest_value (ig_disposition r) @ '' seq='' @ sequence_text (ig_sequence r))) (\<lambda>_.
     bnd (if ig_disposition r = IG_CONTRADICTION_RECORDED
          then bnd (m7_quarantined r) (\<lambda>_. upd_st (\<lambda>s. s\<lparr>m7_last_integrity := IN_WARNING\<rparr>))
          else ret ()) (\<lambda>_.
     bnd (case src of
            S_execution b \<Rightarrow>
              if ig_disposition r = IG_COMMITTED
              then bnd m7_fresh (\<lambda>i.
                   bnd (lift_res (recon_from_execution i b now (lv_event_id e))) (\<lambda>rec.
                   upd_st (\<lambda>s. s\<lparr>m7_recon := m7_recon s @ [rec]\<rparr>)))
              else ret ()
          | _ \<Rightarrow> ret ()) (\<lambda>_.
     bnd (m7_publish now r (lv_truth_source e)) (\<lambda>b.
     bnd (upd_st (\<lambda>s. s\<lparr>m7_last_bundle := Some b\<rparr>)) (\<lambda>_. ret r)))))"

definition m7_accept :: "digest \<Rightarrow> datetime \<Rightarrow> ingest_source \<Rightarrow> LedgerEvent \<Rightarrow> (pm7, IngestResult) comp" where
  "m7_accept H now src e =
     bnd (get_st m7_feature_enabled) (\<lambda>on.
     case validate_event e now on of
       Some blocked \<Rightarrow>
         bnd (m7_quarantined blocked) (\<lambda>_.
         bnd (m7_note now ('' ingest '' @ ingest_value (ig_disposition blocked))) (\<lambda>_. ret blocked))
     | None \<Rightarrow>
         bnd (get_st m7_journal_enabled) (\<lambda>open.
         if \<not> open
         then bnd (m7_quarantined (blank_result IG_REJECTED [''journal_disabled''])) (\<lambda>_.
              ret (blank_result IG_REJECTED [''journal_disabled'']))
         else bnd (m7_append H e now) (m7_after_append now src e)))"

definition m7_ingest :: "digest \<Rightarrow> datetime \<Rightarrow> ingest_source \<Rightarrow> (pm7, IngestResult) comp" where
  "m7_ingest H now src =
     bnd (get_st m7_feature_enabled) (\<lambda>on.
     if \<not> on then ret (blank_result IG_FEATURE_DISABLED [''feature_disabled''])
     else
       bnd m7_fresh (\<lambda>i1. bnd m7_fresh (\<lambda>i2. bnd m7_fresh (\<lambda>i3.
       bnd (lift_res (normalize_source i1 i2 i3 src now)) (\<lambda>x.
       case x of
         Inl reasons \<Rightarrow>
           bnd (m7_quarantined (blank_result IG_REJECTED reasons)) (\<lambda>_.
           bnd (m7_note now '' ingest rejected schema'') (\<lambda>_. ret (blank_result IG_REJECTED reasons)))
       | Inr e \<Rightarrow> m7_accept H now src e)))))"

definition correct ::
  "digest \<Rightarrow> datetime \<Rightarrow> uuid \<Rightarrow> payload \<Rightarrow> string \<Rightarrow> string \<Rightarrow> (pm7, IngestResult) comp" where
  "correct H now original extra actor reason =
     bnd (get_st (\<lambda>s. journal_get original (m7_journal s))) (\<lambda>x.
     case x of
       None \<Rightarrow> ret (blank_result IG_REJECTED [''original_missing''])
     | Some r \<Rightarrow>
         bnd m7_fresh (\<lambda>i.
         case correction_event i (cj_event r) extra actor reason now of
           Inl msgs \<Rightarrow> raise_exn (ValueError (join '', '' msgs))
         | Inr e \<Rightarrow> m7_append H e now))"

definition mutate :: "uuid \<Rightarrow> (pm7, unit) comp" where
  "mutate i = raise_exn (ImmutableJournalError (''committed record '' @ uuid_str i @ '' cannot be mutated''))"

definition record_reconciliation :: "ReconciliationPersistRecord \<Rightarrow> (pm7, ReconciliationPersistRecord) comp" where
  "record_reconciliation r = bnd (upd_st (\<lambda>s. s\<lparr>m7_recon := m7_recon s @ [r]\<rparr>)) (\<lambda>_. ret r)"

subsection \<open>Verification, evidence, replay, snapshots\<close>

definition verify_integrity :: "digest \<Rightarrow> datetime \<Rightarrow> (pm7, IntegrityReport) comp" where
  "verify_integrity H now =
     bnd m7_fresh (\<lambda>i.
     bnd (get_st (\<lambda>s. let r = verify_chain H i now (m7_records s) in
                      if m7_integrity_enabled s then r
                      else r\<lparr>iy_state := IN_UNKNOWN, iy_claim := ''integrity_flag_off''\<rparr>)) (\<lambda>report.
     bnd (upd_st (\<lambda>s. s\<lparr>m7_last_integrity := iy_state report\<rparr>)) (\<lambda>_. ret report)))"

definition m7_persist_evidence :: "EvidenceBundle \<Rightarrow> (pm7, unit) comp" where
  "m7_persist_evidence b =
     upd_st (\<lambda>s. s\<lparr>m7_files := map_option (\<lambda>f. f\<lparr>fl_evidence := fl_evidence f @ [b]\<rparr>) (m7_files s)\<rparr>)"

definition m7_persist_snapshot :: "SnapshotRecord \<Rightarrow> (pm7, unit) comp" where
  "m7_persist_snapshot x =
     upd_st (\<lambda>s. s\<lparr>m7_files := map_option (\<lambda>f. f\<lparr>fl_snapshots := fl_snapshots f @ [x]\<rparr>) (m7_files s)\<rparr>)"

definition build_evidence ::
  "digest \<Rightarrow> datetime \<Rightarrow> datetime \<Rightarrow> string option \<Rightarrow> string option \<Rightarrow> (pm7, EvidenceBundle) comp" where
  "build_evidence H now now2 entity actor =
     bnd (verify_integrity H now2) (\<lambda>report.
     bnd m7_fresh (\<lambda>i.
     bnd (get_st (\<lambda>s. build_evidence_bundle i now (m7_records s) (iy_state report) entity actor)) (\<lambda>b.
     bnd (upd_st (\<lambda>s. s\<lparr>m7_bundles := m7_bundles s @ [b]\<rparr>)) (\<lambda>_.
     bnd (m7_persist_evidence b) (\<lambda>_. ret b)))))"

definition replay_selection :: "string option \<Rightarrow> CommittedJournalRecord list \<Rightarrow> CommittedJournalRecord list" where
  "replay_selection entity rs =
     (if truthy entity
      then filter (\<lambda>r. entity \<in> {lv_order_id (cj_event r), lv_incident_id (cj_event r), lv_session_id (cj_event r),
                                  lv_symbol (cj_event r)}) rs
      else rs)"

definition replay :: "datetime \<Rightarrow> ReplayScope \<Rightarrow> string option \<Rightarrow> (pm7, ReplayResult) comp" where
  "replay now scope entity =
     bnd m7_fresh (\<lambda>i.
     get_st (\<lambda>s. replay_engine i now scope (if m7_snapshots s = [] then None else Some (last (m7_snapshots s)))
                   (m7_replay_enabled s) (replay_selection entity (m7_records s))))"

definition capture_snapshot :: "digest \<Rightarrow> datetime \<Rightarrow> SnapshotScope \<Rightarrow> (pm7, SnapshotRecord) comp" where
  "capture_snapshot H now scope =
     bnd m7_fresh (\<lambda>i.
     bnd (get_st (\<lambda>s. snapshot_service_capture H i now (m7_records s) scope (m7_snapshots s))) (\<lambda>(snap, items).
     bnd (upd_st (\<lambda>s. s\<lparr>m7_snapshots := items\<rparr>)) (\<lambda>_.
     bnd (m7_persist_snapshot snap) (\<lambda>_. ret snap))))"

subsection \<open>Retention, queries, export, reports, recovery\<close>

definition m7_retain :: "(retention, 'a) comp \<Rightarrow> (pm7, 'a) comp" where
  "m7_retain c s = (case c (m7_retention s) of (r, t) \<Rightarrow> (r, s\<lparr>m7_retention := t\<rparr>))"

definition freeze :: "digest \<Rightarrow> datetime \<Rightarrow> string \<Rightarrow> string \<Rightarrow> (pm7, RetentionStatus) comp" where
  "freeze H now reason actor =
     bnd (get_st m7_retention_enabled) (\<lambda>on.
     if \<not> on then get_st (\<lambda>s. retention_status H now 0 None (m7_retention s))
     else bnd (m7_note now ('' freeze by '' @ actor @ '': '' @ reason)) (\<lambda>_.
          m7_retain (retention_freeze H reason now)))"

definition archive :: "digest \<Rightarrow> datetime \<Rightarrow> ArchiveTier \<Rightarrow> (pm7, RetentionStatus) comp" where
  "archive H now tier = m7_retain (retention_transition H tier now)"

definition purge :: "digest \<Rightarrow> datetime \<Rightarrow> (pm7, RetentionStatus \<times> string) comp" where
  "purge H now = m7_retain (retention_purge H now)"

definition query :: "QuerySpec \<Rightarrow> (pm7, QueryResult) comp" where
  "query q = get_st (\<lambda>s. query_execute q (m7_records s) (p7_query_limit (m7_config s)))"

definition export_package :: "digest \<Rightarrow> datetime \<Rightarrow> datetime \<Rightarrow> string \<Rightarrow> (pm7, ExportPackage) comp" where
  "export_package H now now2 kind =
     bnd (verify_integrity H now2) (\<lambda>report.
     bnd m7_fresh (\<lambda>i.
     get_st (\<lambda>s. export_pack H i now kind (m7_records s) (iy_state report) (last_truth (m7_records s)))))"

definition generate_report :: "datetime \<Rightarrow> ReportKind \<Rightarrow> (pm7, AuditReport) comp" where
  "generate_report now kind =
     bnd m7_fresh (\<lambda>d. bnd m7_fresh (\<lambda>i.
     get_st (\<lambda>s. report_generate i d now kind (m7_records s) (m7_recon s) (m7_reporting_enabled s))))"

definition backup_metadata :: "datetime \<Rightarrow> (pm7, BackupMetadata) comp" where
  "backup_metadata now =
     bnd m7_fresh (\<lambda>i.
     bnd (get_st (\<lambda>s. recovery_current i now (m7_records s) (m7_recovery s))) (\<lambda>(meta, r).
     bnd (upd_st (\<lambda>s. s\<lparr>m7_recovery := r\<rparr>)) (\<lambda>_. ret meta)))"

definition request_restore :: "(pm7, RecoveryStatus) comp" where
  "request_restore =
     bnd (get_st (\<lambda>s. recovery_request_restore (m7_recovery s))) (\<lambda>(status, r).
     bnd (upd_st (\<lambda>s. s\<lparr>m7_recovery := r\<rparr>)) (\<lambda>_. ret status))"

definition get_order_history :: "string \<Rightarrow> pm7 \<Rightarrow> CommittedJournalRecord list" where
  "get_order_history oid s = filter (\<lambda>r. lv_order_id (cj_event r) = Some oid) (m7_records s)"

definition get_incident_evidence :: "digest \<Rightarrow> datetime \<Rightarrow> datetime \<Rightarrow> string \<Rightarrow> (pm7, EvidenceBundle) comp" where
  "get_incident_evidence H now now2 inc =
     bnd (get_st (\<lambda>s. filter (\<lambda>r. lv_incident_id (cj_event r) = Some inc) (m7_records s))) (\<lambda>rs.
     bnd (verify_integrity H now2) (\<lambda>report.
     bnd m7_fresh (\<lambda>i. ret (build_evidence_bundle i now rs (iy_state report) (Some inc) None))))"

definition get_reconciliation_history :: "string option \<Rightarrow> pm7 \<Rightarrow> ReconciliationPersistRecord list" where
  "get_reconciliation_history oid s = recon_history oid None None (m7_recon s)"

definition publish :: "datetime \<Rightarrow> (pm7, PersistencePublicationBundle) comp" where
  "publish now =
     bnd (get_st m7_last_bundle) (\<lambda>last.
     case last of
       Some b \<Rightarrow> bnd (m7_emit b) (\<lambda>_. ret b)
     | None \<Rightarrow>
         bnd (m7_publish now (blank_result IG_DEGRADED [''no_ingest'']) PT_UNKNOWN) (\<lambda>b.
         bnd (m7_emit b) (\<lambda>_. ret b)))"

subsection \<open>Call sequences\<close>

datatype pm7_call =
    Ingest datetime ingest_source
  | Correct datetime uuid payload string string
  | Mutate uuid
  | Record_reconciliation ReconciliationPersistRecord
  | Verify_integrity datetime
  | Build_evidence datetime datetime "string option" "string option"
  | Replay datetime ReplayScope "string option"
  | Capture_snapshot datetime SnapshotScope
  | Freeze datetime string string
  | Archive datetime ArchiveTier
  | Purge datetime
  | Query QuerySpec
  | Export_package datetime datetime string
  | Generate_report datetime ReportKind
  | Backup_metadata datetime
  | Request_restore
  | Incident_evidence datetime datetime string
  | Publish datetime

fun pm7_run :: "digest \<Rightarrow> pm7_call \<Rightarrow> pm7 \<Rightarrow> pm7" where
  "pm7_run H (Ingest now src) s = snd (m7_ingest H now src s)"
| "pm7_run H (Correct now i extra actor reason) s = snd (correct H now i extra actor reason s)"
| "pm7_run H (Mutate i) s = snd (mutate i s)"
| "pm7_run H (Record_reconciliation r) s = snd (record_reconciliation r s)"
| "pm7_run H (Verify_integrity now) s = snd (verify_integrity H now s)"
| "pm7_run H (Build_evidence now now2 entity actor) s = snd (build_evidence H now now2 entity actor s)"
| "pm7_run H (Replay now scope entity) s = snd (replay now scope entity s)"
| "pm7_run H (Capture_snapshot now scope) s = snd (capture_snapshot H now scope s)"
| "pm7_run H (Freeze now reason actor) s = snd (freeze H now reason actor s)"
| "pm7_run H (Archive now tier) s = snd (archive H now tier s)"
| "pm7_run H (Purge now) s = snd (purge H now s)"
| "pm7_run H (Query q) s = snd (query q s)"
| "pm7_run H (Export_package now now2 kind) s = snd (export_package H now now2 kind s)"
| "pm7_run H (Generate_report now kind) s = snd (generate_report now kind s)"
| "pm7_run H (Backup_metadata now) s = snd (backup_metadata now s)"
| "pm7_run H Request_restore s = snd (request_restore s)"
| "pm7_run H (Incident_evidence now now2 inc) s = snd (get_incident_evidence H now now2 inc s)"
| "pm7_run H (Publish now) s = snd (publish now s)"

text \<open>Arguments that are contract models were validated when they were built.\<close>

definition event_valid :: "LedgerEvent \<Rightarrow> bool" where
  "event_valid e \<longleftrightarrow> make_event e = Inr e"

fun call_valid :: "pm7_call \<Rightarrow> bool" where
  "call_valid (Ingest now (S_event e)) = event_valid e"
| "call_valid (Record_reconciliation r) = (no_silent_pass r = Inr r)"
| "call_valid _ = True"

inductive pm7_reach :: "digest \<Rightarrow> pm7 \<Rightarrow> pm7 \<Rightarrow> bool" for H s where
  start: "pm7_reach H s s"
| step: "pm7_reach H s t \<Longrightarrow> call_valid call \<Longrightarrow> pm7_reach H s (pm7_run H call t)"

end
