(* ===== verification/Kept.thy ===== *)
theory Kept
  imports Prelude
begin

section \<open>Relations that computations keep\<close>

text \<open>
  The contract \<open>kept\<close>: a reflexive and transitive relation between states. From it, what every
  computation built from kept parts does to the state, and every sequence of calls.
\<close>

definition maintains :: "('s \<Rightarrow> 's \<Rightarrow> bool) \<Rightarrow> ('s, 'a) comp \<Rightarrow> bool" where
  "maintains R m \<longleftrightarrow> (\<forall>s. R s (snd (m s)))"

locale kept =
  fixes R :: "'s \<Rightarrow> 's \<Rightarrow> bool"
  assumes R_same: "R s s" and R_trans: "R s t \<Longrightarrow> R t u \<Longrightarrow> R s u"
begin

lemma maintains_ret: "maintains R (ret x)" "maintains R (raise_exn e)" "maintains R (get_st f)" "maintains R (lift_res r)"
  by (simp_all add: maintains_def run_simps R_same)

lemma maintains_upd: "(\<And>s. R s (u s)) \<Longrightarrow> maintains R (upd_st u)"
  by (simp add: maintains_def run_simps)

lemma maintains_bnd:
  assumes "maintains R m" and "\<And>x. maintains R (f x)"
  shows "maintains R (bnd m f)"
  unfolding maintains_def
proof
  fix s
  have "R s (snd (m s))" and "\<And>x t. R t (snd (f x t))" using assms by (simp_all add: maintains_def)
  then show "R s (snd (bnd m f s))" by (auto simp: bnd_def split: prod.splits sum.splits intro: R_trans)
qed

lemma maintains_if: "(b \<Longrightarrow> maintains R m) \<Longrightarrow> (\<not> b \<Longrightarrow> maintains R n) \<Longrightarrow> maintains R (if b then m else n)"
  by simp

lemma maintains_option:
  "(x = None \<Longrightarrow> maintains R m) \<Longrightarrow> (\<And>y. x = Some y \<Longrightarrow> maintains R (f y)) \<Longrightarrow> maintains R (case x of None \<Rightarrow> m | Some y \<Rightarrow> f y)"
  by (simp split: option.splits)

lemma maintains_sum:
  "(\<And>y. x = Inl y \<Longrightarrow> maintains R (f y)) \<Longrightarrow> (\<And>y. x = Inr y \<Longrightarrow> maintains R (g y)) \<Longrightarrow>
   maintains R (case x of Inl y \<Rightarrow> f y | Inr y \<Rightarrow> g y)"
  by (simp split: sum.splits)

lemma maintains_prod: "(\<And>a b. x = (a, b) \<Longrightarrow> maintains R (f a b)) \<Longrightarrow> maintains R (case x of (a, b) \<Rightarrow> f a b)"
  by (simp split: prod.splits)

lemma R_fold: "(\<And>c t. c \<in> set cs \<Longrightarrow> R t (perform c t)) \<Longrightarrow> R s (fold perform cs s)"
  by (induction cs arbitrary: s) (auto simp: R_same intro: R_trans)

end

end
