(* ===== verification/PersistProps.thy ===== *)
theory PersistProps
  imports PersistModule Kept "HOL-Library.Sublist"
begin

section \<open>Facts about the persistence module\<close>

text \<open>
  Redaction and normal forms of payloads, validity of events, the index of the journal against the
  plain list of records, the hash chain, and what every handler keeps.
\<close>

subsection \<open>Redaction\<close>

text \<open>
  No secret key at the top of a payload or in a dictionary reached through dictionaries alone. A list
  is clean whatever it holds, because the redaction keeps lists as they are.
\<close>

fun payload_clean :: "payload \<Rightarrow> bool" and value_clean :: "json_value \<Rightarrow> bool" where
  "payload_clean [] \<longleftrightarrow> True"
| "payload_clean ((k, v) # rest) \<longleftrightarrow> \<not> secret_key k \<and> value_clean v \<and> payload_clean rest"
| "value_clean (J_dict d) \<longleftrightarrow> payload_clean d"
| "value_clean J_null \<longleftrightarrow> True"
| "value_clean (J_bool b) \<longleftrightarrow> True"
| "value_clean (J_int n) \<longleftrightarrow> True"
| "value_clean (J_float x) \<longleftrightarrow> True"
| "value_clean (J_text t) \<longleftrightarrow> True"
| "value_clean (J_other t) \<longleftrightarrow> True"
| "value_clean (J_list vs) \<longleftrightarrow> True"

lemma strip_clean: "payload_clean (strip_secrets p)" and strip_value_clean: "value_clean (strip_value v)"
  by (induction p and v rule: strip_secrets_strip_value.induct) simp_all

lemma clean_fixed: "payload_clean p \<Longrightarrow> strip_secrets p = p"
  and clean_value_fixed: "value_clean v \<Longrightarrow> strip_value v = v"
  by (induction p and v rule: strip_secrets_strip_value.induct) simp_all

lemma strip_fixed_iff: "p = strip_secrets p \<longleftrightarrow> payload_clean p"
  by (metis clean_fixed strip_clean)

lemma strip_value_bool [simp]: "strip_value v = J_bool b \<longleftrightarrow> v = J_bool b"
  by (cases v) simp_all

lemma map_of_strip: "map_of (strip_secrets p) k = (if secret_key k then None else map_option strip_value (map_of p k))"
  by (induction p) (auto split: if_splits)

lemma is_true_strip: "is_true k (strip_secrets p) \<longleftrightarrow> \<not> secret_key k \<and> is_true k p"
  by (auto simp: is_true_def map_of_strip)

lemma payload_clean_set: "payload_clean p \<longleftrightarrow> (\<forall>(k, v) \<in> set p. \<not> secret_key k \<and> value_clean v)"
  by (induction p) auto

subsection \<open>Normal forms\<close>

lemma canon_items_map: "canon_items p = map (\<lambda>(k, v). (k, canon v)) p"
  by (induction p) auto

lemma canon_values_map: "canon_values vs = map canon vs"
  by (induction vs) auto

lemma insort_key_map:
  "(\<And>x. f (g x) = f x) \<Longrightarrow> insort_key f (g x) (map g xs) = map g (insort_key f x xs)"
  by (induction xs) simp_all

lemma sort_key_map: "(\<And>x. f (g x) = f x) \<Longrightarrow> sort_key f (map g xs) = map g (sort_key f xs)"
  by (induction xs) (simp_all add: insort_key_map)

lemma sort_key_idem: "sort_key f (sort_key f xs) = sort_key f xs"
  by (rule sort_key_id_if_sorted) simp

lemma canon_items_sort: "canon_items (sort_key fst p) = sort_key fst (canon_items p)"
  unfolding canon_items_map by (rule sort_key_map [symmetric]) auto

lemma canon_idem: "canon (canon v) = canon v"
  and canon_items_idem: "canon_items (canon_items p) = canon_items p"
  and canon_values_idem: "canon_values (canon_values vs) = canon_values vs"
  by (induction v and p and vs rule: canon_canon_items_canon_values.induct)
    (simp_all add: canon_items_sort sort_key_idem)

lemma canon_payload_idem: "canon_payload (canon_payload p) = canon_payload p"
  by (simp add: canon_payload_def canon_items_sort canon_items_idem sort_key_idem)

lemma map_of_insort: "map_of (insort_key fst (k, v) xs) = (map_of xs)(k \<mapsto> v)"
  by (induction xs) (auto simp: fun_eq_iff)

lemma map_of_sort: "map_of (sort_key fst xs) = map_of xs"
  by (induction xs) (auto simp: map_of_insort)

lemma map_of_canon_items: "map_of (canon_items p) k = map_option canon (map_of p k)"
  by (induction p) auto

lemma canon_bool [simp]: "canon v = J_bool b \<longleftrightarrow> v = J_bool b"
  by (cases v) simp_all

lemma is_true_canon: "is_true k (canon_payload p) \<longleftrightarrow> is_true k p"
  by (auto simp: is_true_def canon_payload_def map_of_sort map_of_canon_items)

lemma clean_canon: "value_clean v \<Longrightarrow> value_clean (canon v)"
  and clean_canon_items: "payload_clean p \<Longrightarrow> payload_clean (canon_items p)"
  and length_canon_values: "length (canon_values vs) = length vs"
  by (induction v and p and vs rule: canon_canon_items_canon_values.induct)
    (auto simp: payload_clean_set)

lemma clean_canon_payload: "payload_clean p \<Longrightarrow> payload_clean (canon_payload p)"
  using clean_canon_items [of p] by (simp add: canon_payload_def payload_clean_set)

subsection \<open>Valid events\<close>

lemma blank_strip [simp]: "blank (strip x) \<longleftrightarrow> blank x"
  by (metis strip_Nil_iff strip_idem)

lemma make_event_Inr:
  "make_event e = Inr e' \<longleftrightarrow>
     \<not> blank (lv_source_module e) \<and> \<not> blank (lv_event_type e) \<and>
     \<not> (sim_text (lv_ticket e) \<and> lv_truth_source e = PT_PM5_BROKER) \<and>
     \<not> is_true ''mt5_used'' (lv_event_payload e) \<and> \<not> is_true ''broker_side_effect'' (lv_event_payload e) \<and>
     e' = e\<lparr>lv_source_module := strip (lv_source_module e), lv_event_type := strip (lv_event_type e),
            lv_event_payload := strip_secrets (lv_event_payload e)\<rparr>"
  unfolding make_event_def event_provenance_def Let_def by (auto split: if_splits)

lemma event_valid_iff:
  "event_valid e \<longleftrightarrow>
     \<not> blank (lv_source_module e) \<and> \<not> blank (lv_event_type e) \<and> strip (lv_source_module e) = lv_source_module e \<and>
     strip (lv_event_type e) = lv_event_type e \<and> \<not> (sim_text (lv_ticket e) \<and> lv_truth_source e = PT_PM5_BROKER) \<and>
     \<not> is_true ''mt5_used'' (lv_event_payload e) \<and> \<not> is_true ''broker_side_effect'' (lv_event_payload e) \<and>
     payload_clean (lv_event_payload e)"
  unfolding event_valid_def make_event_Inr by (cases e) (auto simp: strip_fixed_iff)

lemma make_event_valid: "make_event e = Inr e' \<Longrightarrow> event_valid e'"
  by (simp add: make_event_Inr event_valid_iff strip_idem strip_clean is_true_strip)

lemma make_event_ingested: "make_event e = Inr e' \<Longrightarrow> lv_ingested_at e' = lv_ingested_at e"
  by (simp add: make_event_Inr)

lemma label_truth_valid: "event_valid e \<Longrightarrow> event_valid (label_truth e)"
  by (auto simp: label_truth_def Let_def event_valid_iff)

lemma label_truth_ingested [simp]: "lv_ingested_at (label_truth e) = lv_ingested_at e"
  by (simp add: label_truth_def Let_def)

lemma canon_event_valid: "event_valid e \<Longrightarrow> event_valid (canon_event e)"
  by (simp add: event_valid_iff canon_event_def is_true_canon clean_canon_payload)

lemma stamp_valid [simp]: "event_valid (e\<lparr>lv_ingested_at := t\<rparr>) \<longleftrightarrow> event_valid e"
  by (simp add: event_valid_iff)

lemma canon_event_idem: "canon_event (canon_event e) = canon_event e"
  by (simp add: canon_event_def canon_payload_idem)

lemma canon_event_keeps [simp]:
  "lv_event_id (canon_event e) = lv_event_id e" "lv_idempotency_key (canon_event e) = lv_idempotency_key e"
  "payload_fingerprint H (canon_event e) = payload_fingerprint H e" "next_hash H p (canon_event e) = next_hash H p e"
  by (simp_all add: canon_event_def payload_fingerprint_def sha256_hex_def next_hash_def canon_payload_idem)

lemma normalize_valid:
  assumes "normalize_source i1 i2 i3 src now = Inr (Inr e)"
    and "\<And>x. src = S_event x \<Longrightarrow> event_valid x"
  shows "event_valid e"
  using assms
  by (auto simp: normalize_source_def intake_error_def rbind_def split: ingest_source.splits sum.splits
      intro: label_truth_valid make_event_valid)

subsection \<open>The journal against a plain list\<close>

text \<open>
  The specification of the journal: a list of records searched from the front. The dictionaries of
  the code are an index of it.
\<close>

definition by_event_id :: "CommittedJournalRecord list \<Rightarrow> uuid \<Rightarrow> CommittedJournalRecord option" where
  "by_event_id rs i = find (\<lambda>r. lv_event_id (cj_event r) = i) rs"

definition by_key :: "CommittedJournalRecord list \<Rightarrow> string option \<Rightarrow> CommittedJournalRecord option" where
  "by_key rs k = (if truthy k then find (\<lambda>r. lv_idempotency_key (cj_event r) = k) rs else None)"

definition committed_record ::
  "digest \<Rightarrow> LedgerEvent \<Rightarrow> datetime \<Rightarrow> CommittedJournalRecord list \<Rightarrow> CommittedJournalRecord" where
  "committed_record H e now rs =
     (let prev = (if rs = [] then GENESIS_HASH else cj_content_hash (last rs)) in
      \<lparr>cj_sequence = Suc (length rs),
       cj_event = e\<lparr>lv_ingested_at := Some (case lv_ingested_at e of None \<Rightarrow> now | Some t \<Rightarrow> t)\<rparr>,
       cj_content_hash = next_hash H prev e, cj_previous_hash = prev, cj_committed_at = now\<rparr>)"

definition log_append ::
  "digest \<Rightarrow> LedgerEvent \<Rightarrow> datetime \<Rightarrow> bool \<Rightarrow> CommittedJournalRecord list \<Rightarrow>
   IngestResult \<times> CommittedJournalRecord list" where
  "log_append H e now durable rs =
     (let same = (\<lambda>r. payload_fingerprint H (cj_event r) = payload_fingerprint H e);
          i = lv_event_id e; new = committed_record H e now rs in
      case by_event_id rs i of
        Some r \<Rightarrow> (if same r then duplicate_result ''duplicate_event_id'' i r e durable
                   else conflict_result ''duplicate_event_id_payload_conflict'' i e durable, rs)
      | None \<Rightarrow>
          (case by_key rs (lv_idempotency_key e) of
             Some r \<Rightarrow> (if same r then duplicate_result ''duplicate_idempotency_key'' (lv_event_id (cj_event r)) r e durable
                        else conflict_result ''idempotency_payload_conflict'' (lv_event_id (cj_event r)) e durable, rs)
           | None \<Rightarrow>
               (\<lparr>ig_disposition = IG_COMMITTED, ig_event_id = Some i, ig_sequence = Some (Suc (length rs)),
                 ig_content_hash = Some (cj_content_hash new), ig_reasons = [],
                 ig_truth_source = lv_truth_source e, ig_durable = durable\<rparr>, rs @ [new])))"

definition indexed_ok :: "digest \<Rightarrow> journal \<Rightarrow> bool" where
  "indexed_ok H j \<longleftrightarrow>
     (\<forall>i. dict_get (jn_by_id j) i = by_event_id (jn_records j) i) \<and>
     (\<forall>i. dict_get (jn_fingerprints j) i =
           map_option (\<lambda>r. payload_fingerprint H (cj_event r)) (by_event_id (jn_records j) i)) \<and>
     (\<forall>k. truthy k \<longrightarrow> dict_get (jn_by_idem j) (the k) = by_key (jn_records j) k)"

text \<open>The keys that count for idempotency.\<close>

definition idempotency_keys :: "CommittedJournalRecord list \<Rightarrow> string option list" where
  "idempotency_keys rs = filter truthy (map (\<lambda>r. lv_idempotency_key (cj_event r)) rs)"

definition numbered :: "CommittedJournalRecord list \<Rightarrow> bool" where
  "numbered rs \<longleftrightarrow>
     map cj_sequence rs = [1..<Suc (length rs)] \<and> distinct (map (\<lambda>r. lv_event_id (cj_event r)) rs) \<and>
     distinct (idempotency_keys rs)"

lemma find_append: "find P (xs @ ys) = (case find P xs of None \<Rightarrow> find P ys | Some x \<Rightarrow> Some x)"
  by (induction xs) simp_all

lemma committed_event [simp]:
  "lv_event_id (cj_event (committed_record H e now rs)) = lv_event_id e"
  "lv_idempotency_key (cj_event (committed_record H e now rs)) = lv_idempotency_key e"
  "payload_fingerprint H (cj_event (committed_record H e now rs)) = payload_fingerprint H e"
  "cj_sequence (committed_record H e now rs) = Suc (length rs)"
  by (simp_all add: committed_record_def Let_def payload_fingerprint_def)

lemma by_event_id_snoc:
  "by_event_id (rs @ [r]) i =
     (case by_event_id rs i of None \<Rightarrow> if lv_event_id (cj_event r) = i then Some r else None | Some x \<Rightarrow> Some x)"
  by (simp add: by_event_id_def find_append split: option.splits)

lemma by_key_snoc:
  "by_key (rs @ [r]) k =
     (case by_key rs k of None \<Rightarrow> if truthy k \<and> lv_idempotency_key (cj_event r) = k then Some r else None
      | Some x \<Rightarrow> Some x)"
  by (simp add: by_key_def find_append split: option.splits)

lemma by_event_id_None: "by_event_id rs i = None \<longleftrightarrow> i \<notin> set (map (\<lambda>r. lv_event_id (cj_event r)) rs)"
  by (auto simp: by_event_id_def find_None_iff)

lemma by_event_id_Some: "by_event_id rs i = Some r \<Longrightarrow> r \<in> set rs \<and> lv_event_id (cj_event r) = i"
  by (auto simp: by_event_id_def find_Some_iff)

lemma by_event_id_member:
  "distinct (map (\<lambda>r. lv_event_id (cj_event r)) rs) \<Longrightarrow> r \<in> set rs \<Longrightarrow> by_event_id rs (lv_event_id (cj_event r)) = Some r"
  by (induction rs) (auto simp: by_event_id_def)

lemma by_key_Some: "by_key rs k = Some r \<Longrightarrow> r \<in> set rs \<and> lv_idempotency_key (cj_event r) = k"
  by (auto simp: by_key_def find_Some_iff split: if_splits)

lemma by_key_None: "by_key rs k = None \<longleftrightarrow> \<not> truthy k \<or> k \<notin> set (idempotency_keys rs)"
  by (auto simp: by_key_def find_None_iff idempotency_keys_def)

lemma journal_init_ok [simp]: "indexed_ok H journal_init" "numbered (jn_records journal_init)"
  by (simp_all add: indexed_ok_def journal_init_def numbered_def by_event_id_def by_key_def idempotency_keys_def dict_simps)

lemma journal_commit_eq:
  "journal_commit H e now durable j =
     (let new = committed_record H e now (jn_records j) in
      (\<lparr>ig_disposition = IG_COMMITTED, ig_event_id = Some (lv_event_id e), ig_sequence = Some (Suc (length (jn_records j))),
        ig_content_hash = Some (cj_content_hash new), ig_reasons = [], ig_truth_source = lv_truth_source e,
        ig_durable = durable\<rparr>, reload_index H new j))"
  by (simp add: journal_commit_def committed_record_def reload_index_def Let_def tip_hash_def payload_fingerprint_def)

lemma index_commit:
  assumes "indexed_ok H j" and "by_event_id (jn_records j) (lv_event_id (cj_event r)) = None"
    and "by_key (jn_records j) (lv_idempotency_key (cj_event r)) = None"
  shows "indexed_ok H (reload_index H r j)"
  using assms
  by (auto simp: indexed_ok_def reload_index_def Let_def by_event_id_snoc by_key_snoc dict_simps truthy_def
      split: option.splits)

lemma journal_append_spec:
  assumes "indexed_ok H j" and "numbered (jn_records j)"
  shows "log_append H e now durable (jn_records j) =
           (fst (journal_append H e now durable j), jn_records (snd (journal_append H e now durable j))) \<and>
         indexed_ok H (snd (journal_append H e now durable j))"
proof -
  let ?rs = "jn_records j" and ?i = "lv_event_id e" and ?k = "lv_idempotency_key e"
  have key: "(if truthy ?k then dict_get (jn_by_idem j) (the ?k) else None) = by_key ?rs ?k"
    and ids: "dict_get (jn_by_id j) ?i = by_event_id ?rs ?i"
    using assms(1) by (simp_all add: indexed_ok_def by_key_def)
  have fp: "dict_get (jn_fingerprints j) (lv_event_id (cj_event r)) = Some (payload_fingerprint H (cj_event r))"
    if "r \<in> set ?rs" for r
    using assms that by (simp add: indexed_ok_def numbered_def by_event_id_member)
  show ?thesis
  proof (cases "by_event_id ?rs ?i")
    case (Some r)
    with by_event_id_Some [OF Some] fp [of r] assms(1) ids show ?thesis
      by (simp add: log_append_def journal_append_def Let_def)
  next
    case None
    show ?thesis
    proof (cases "by_key ?rs ?k")
      case (Some r)
      with None by_key_Some [OF Some] fp [of r] assms(1) ids key show ?thesis
        by (simp add: log_append_def journal_append_def Let_def)
    next
      case unknown: None
      have "jn_records (reload_index H r j) = ?rs @ [r]" for r by (simp add: reload_index_def Let_def)
      with None unknown ids key index_commit [OF assms(1), of "committed_record H e now ?rs"] show ?thesis
        by (simp add: log_append_def journal_append_def Let_def journal_commit_eq)
    qed
  qed
qed

lemma log_append_cases:
  "snd (log_append H e now durable rs) =
     (if by_event_id rs (lv_event_id e) = None \<and> by_key rs (lv_idempotency_key e) = None
      then rs @ [committed_record H e now rs] else rs)"
  "ig_disposition (fst (log_append H e now durable rs)) = IG_COMMITTED \<longleftrightarrow>
     by_event_id rs (lv_event_id e) = None \<and> by_key rs (lv_idempotency_key e) = None"
  by (auto simp: log_append_def Let_def duplicate_result_def conflict_result_def split: option.splits)

lemma numbered_append: "numbered rs \<Longrightarrow> numbered (snd (log_append H e now durable rs))"
  by (auto simp: log_append_cases numbered_def by_event_id_None by_key_None idempotency_keys_def)

subsection \<open>The hash chain\<close>

lemma chain_snoc:
  "chain_mismatches H p (rs @ [r]) =
     chain_mismatches H p rs @ chain_mismatches H (if rs = [] then p else cj_content_hash (last rs)) [r]"
  by (induction rs arbitrary: p) auto

lemma committed_stamped:
  "lv_ingested_at e \<noteq> None \<Longrightarrow> cj_event (committed_record H e now rs) = e"
  by (cases e) (auto simp: committed_record_def Let_def)

lemma chain_committed:
  assumes "lv_ingested_at e \<noteq> None" and "chain_mismatches H GENESIS_HASH rs = []"
  shows "chain_mismatches H GENESIS_HASH (rs @ [committed_record H e now rs]) = []"
  using assms committed_stamped [OF assms(1), of H now rs] by (simp add: chain_snoc) (simp add: committed_record_def Let_def)

lemma chain_canon: "chain_mismatches H p (map canon_record rs) = chain_mismatches H p rs"
  by (induction rs arbitrary: p) (simp_all add: canon_record_def)

text \<open>Two chains without mismatches that end in the same hash, or two inputs with one hash.\<close>

definition chain_collision :: "digest \<Rightarrow> bool" where
  "chain_collision H \<longleftrightarrow>
     (\<exists>p e p' e'. (p, e) \<noteq> (p', e') \<and> H (D_chain p e) = H (D_chain p' e'))"

lemma chain_tip:
  assumes "length rs = length rs'"
    and "chain_mismatches H GENESIS_HASH rs = []" and "chain_mismatches H GENESIS_HASH rs' = []"
    and "rs \<noteq> [] \<Longrightarrow> cj_content_hash (last rs) = cj_content_hash (last rs')"
    and hex: "\<And>x. H x \<noteq> []" and free: "\<not> chain_collision H"
  shows "map (\<lambda>r. canon_event (cj_event r)) rs = map (\<lambda>r. canon_event (cj_event r)) rs'"
  using assms(1-4)
proof (induction rs rs' rule: rev_induct2)
  case (4 r rs r' rs')
  let ?t = "\<lambda>xs. if xs = [] then GENESIS_HASH else cj_content_hash (last xs)"
  have tail: "?t xs \<noteq> []" if "chain_mismatches H GENESIS_HASH xs = []" for xs
    using that by (cases xs rule: rev_cases) (simp_all add: chain_snoc next_hash_def hex, simp add: GENESIS_HASH_def)
  from 4 have len: "length rs = length rs'" and ok: "chain_mismatches H GENESIS_HASH rs = []"
    "chain_mismatches H GENESIS_HASH rs' = []"
    by (simp_all add: chain_snoc)
  have "next_hash H (?t rs) (cj_event r) = next_hash H (?t rs') (cj_event r')"
    using 4 by (simp add: chain_snoc)
  then have "H (D_chain (?t rs) (canon_event (cj_event r))) = H (D_chain (?t rs') (canon_event (cj_event r')))"
    unfolding next_hash_def using tail [OF ok(1)] tail [OF ok(2)] by (simp only: if_False)
  with free have "(?t rs, canon_event (cj_event r)) = (?t rs', canon_event (cj_event r'))"
    unfolding chain_collision_def by blast
  then have same: "?t rs = ?t rs'" and ev: "canon_event (cj_event r) = canon_event (cj_event r')"
    unfolding prod.inject by (rule conjunct1, rule conjunct2)
  have "map (\<lambda>r. canon_event (cj_event r)) rs = map (\<lambda>r. canon_event (cj_event r)) rs'"
    using same len by (intro 4(1) ok) auto
  with ev show ?case by simp
qed simp_all

subsection \<open>What the handlers keep\<close>

text \<open>The contract of the bookkeeping around an append: what \<^verbatim>\<open>ingest\<close> does besides appending.\<close>

locale module_quiet = kept R for R :: "pm7 \<Rightarrow> pm7 \<Rightarrow> bool" +
  assumes R_id: "R s (s\<lparr>m7_next_id := n\<rparr>)"
    and R_note: "R s (s\<lparr>m7_notes := m7_notes s @ [x1]\<rparr>)"
    and R_quarantine: "R s (s\<lparr>m7_quarantine := m7_quarantine s @ [x2]\<rparr>)"
    and R_recon: "no_silent_pass x3 = Inr x3 \<Longrightarrow> R s (s\<lparr>m7_recon := m7_recon s @ [x3]\<rparr>)"
    and R_integrity: "R s (s\<lparr>m7_last_integrity := x4\<rparr>)"
    and R_emit: "R s (s\<lparr>m7_emitted := m7_emitted s @ [x5]\<rparr>)"
    and R_last: "R s (s\<lparr>m7_last_bundle := x6\<rparr>)"
begin

lemma maintains_fresh: "maintains R m7_fresh"
  by (simp add: maintains_def m7_fresh_def R_id)

lemma maintains_note: "maintains R (m7_note now text)"
  by (simp add: maintains_def m7_note_def run_simps R_note)

lemma maintains_quarantined: "maintains R (m7_quarantined r)"
  by (simp add: maintains_def m7_quarantined_def run_simps R_quarantine)

lemma maintains_emit: "maintains R (m7_emit b)"
  by (simp add: maintains_def m7_emit_def run_simps R_emit)

lemmas maintains_rules = maintains_bnd maintains_ret maintains_if maintains_option maintains_sum maintains_prod maintains_fresh maintains_note
  maintains_quarantined maintains_emit

lemma maintains_publish: "maintains R (m7_publish now r truth)"
  unfolding m7_publish_def by (intro maintains_rules)

lemma maintains_recon: "no_silent_pass x = Inr x \<Longrightarrow> maintains R (upd_st (\<lambda>s. s\<lparr>m7_recon := m7_recon s @ [x]\<rparr>))"
  by (intro maintains_upd R_recon)

lemma recon_valid: "recon_from_execution i b now src = Inr x \<Longrightarrow> no_silent_pass x = Inr x"
  by (auto simp: recon_from_execution_def no_silent_pass_def raise_if_def Let_def split: option.splits if_splits)

lemma maintains_recon_from:
  "maintains R (bnd (lift_res (recon_from_execution i b now src)) (\<lambda>x. upd_st (\<lambda>s. s\<lparr>m7_recon := m7_recon s @ [x]\<rparr>)))"
  using recon_valid [of i b now src]
  by (auto simp: maintains_def run_simps R_same R_recon split: sum.splits)

lemma maintains_after_append: "maintains R (m7_after_append now src e r)"
proof -
  have "maintains R (case src of
            S_execution b \<Rightarrow>
              if ig_disposition r = IG_COMMITTED
              then bnd m7_fresh (\<lambda>i.
                   bnd (lift_res (recon_from_execution i b now (lv_event_id e))) (\<lambda>rec.
                   upd_st (\<lambda>s. s\<lparr>m7_recon := m7_recon s @ [rec]\<rparr>)))
              else ret ()
          | _ \<Rightarrow> ret ())"
    by (cases src) (auto intro!: maintains_bnd maintains_fresh maintains_recon_from maintains_ret)
  then show ?thesis
    unfolding m7_after_append_def
    by (intro maintains_rules maintains_publish maintains_upd R_integrity R_last)
qed

end

text \<open>
  A relation on the states of the module that every bookkeeping update keeps, and every append of
  an event in \<open>ok\<close>, is kept by every call.
\<close>

locale module_kept = module_quiet R for R :: "pm7 \<Rightarrow> pm7 \<Rightarrow> bool" +
  fixes H :: digest and ok :: "LedgerEvent \<Rightarrow> bool"
  assumes R_evidence: "R s (snd (m7_persist_evidence x7 (s\<lparr>m7_bundles := m7_bundles s @ [x7]\<rparr>)))"
    and R_recovery: "R s (s\<lparr>m7_recovery := x8\<rparr>)"
    and R_capture: "R s (snd (capture_snapshot H now scope s))"
    and R_freeze: "R s (snd (m7_retain (retention_freeze H reason now) s))"
    and R_archive: "R s (snd (m7_retain (retention_transition H tier now) s))"
    and R_purge: "R s (snd (m7_retain (retention_purge H now) s))"
    and R_append: "ok e \<Longrightarrow> R s (snd (m7_append H e now s))"
    and ok_correction: "correction_event i original extra actor reason now = Inr e \<Longrightarrow> ok e"
begin

lemma maintains_append: "ok e \<Longrightarrow> maintains R (m7_append H e now)"
  by (simp add: maintains_def R_append)

lemma maintains_accept: "ok e \<Longrightarrow> maintains R (m7_accept H now src e)"
  unfolding m7_accept_def by (intro maintains_rules maintains_append maintains_after_append)

lemma maintains_ingest:
  assumes "\<And>i1 i2 i3 e. normalize_source i1 i2 i3 src now = Inr (Inr e) \<Longrightarrow> ok e"
  shows "maintains R (m7_ingest H now src)"
proof -
  have "maintains R (bnd (lift_res (normalize_source i1 i2 i3 src now)) (\<lambda>x.
       case x of
         Inl reasons \<Rightarrow>
           bnd (m7_quarantined (blank_result IG_REJECTED reasons)) (\<lambda>_.
           bnd (m7_note now '' ingest rejected schema'') (\<lambda>_. ret (blank_result IG_REJECTED reasons)))
       | Inr e \<Rightarrow> m7_accept H now src e))" for i1 i2 i3
  proof (cases "normalize_source i1 i2 i3 src now")
    case (Inl x)
    then show ?thesis by (simp add: maintains_def run_simps R_same)
  next
    case (Inr y)
    have "maintains R (case y of Inl reasons \<Rightarrow>
           bnd (m7_quarantined (blank_result IG_REJECTED reasons)) (\<lambda>_.
           bnd (m7_note now '' ingest rejected schema'') (\<lambda>_. ret (blank_result IG_REJECTED reasons)))
       | Inr e \<Rightarrow> m7_accept H now src e)"
      using Inr assms by (intro maintains_rules maintains_accept) auto
    then show ?thesis by (simp add: maintains_def run_simps Inr)
  qed
  then show ?thesis
    unfolding m7_ingest_def by (intro maintains_if maintains_ret maintains_bnd [OF maintains_ret(3)] maintains_bnd [OF maintains_fresh])
qed

lemma maintains_correct: "maintains R (correct H now i extra actor reason)"
  unfolding correct_def by (intro maintains_rules maintains_append) (rule ok_correction)

lemma maintains_verify: "maintains R (verify_integrity H now)"
  unfolding verify_integrity_def by (intro maintains_rules maintains_upd R_integrity)

lemma maintains_evidence:
  "maintains R (bnd (upd_st (\<lambda>s. s\<lparr>m7_bundles := m7_bundles s @ [b]\<rparr>)) (\<lambda>_. bnd (m7_persist_evidence b) (\<lambda>_. ret b)))"
proof -
  have "maintains R (bnd (bnd (upd_st (\<lambda>s. s\<lparr>m7_bundles := m7_bundles s @ [b]\<rparr>)) (\<lambda>_. m7_persist_evidence b)) (\<lambda>_. ret b))"
    by (rule maintains_bnd [OF _ maintains_ret(1)]) (simp add: maintains_def run_simps R_evidence)
  then show ?thesis by (simp add: bnd_assoc)
qed

lemma maintains_build_evidence: "maintains R (build_evidence H now now2 entity actor)"
  unfolding build_evidence_def by (intro maintains_bnd [OF maintains_verify] maintains_bnd [OF maintains_fresh] maintains_bnd [OF maintains_ret(3)] maintains_evidence)

lemma maintains_freeze: "maintains R (freeze H now reason actor)"
proof -
  have "maintains R (m7_retain (retention_freeze H reason now))" by (simp add: maintains_def R_freeze)
  then show ?thesis unfolding freeze_def by (intro maintains_rules)
qed

lemma maintains_reports:
  "maintains R (replay now scope entity)" "maintains R (query q)" "maintains R (export_package H now now2 kind)"
  "maintains R (generate_report now rkind)" "maintains R (get_incident_evidence H now now2 inc)"
  unfolding replay_def query_def export_package_def generate_report_def get_incident_evidence_def
  by (intro maintains_rules maintains_verify)+

lemma maintains_recovery: "maintains R (backup_metadata now)" "maintains R request_restore"
  unfolding backup_metadata_def request_restore_def by (intro maintains_rules maintains_upd R_recovery)+

lemma maintains_publish_last: "maintains R (publish now)"
  unfolding publish_def by (intro maintains_rules maintains_publish)

lemma R_call:
  assumes "call_valid c"
    and "\<And>now src i1 i2 i3 e. c = Ingest now src \<Longrightarrow> normalize_source i1 i2 i3 src now = Inr (Inr e) \<Longrightarrow> ok e"
  shows "R s (pm7_run H c s)"
proof (cases c)
  case (Ingest now src)
  with assms(2) maintains_ingest [of src now] show ?thesis by (simp add: maintains_def)
next
  case (Record_reconciliation r)
  with assms(1) show ?thesis by (simp add: record_reconciliation_def run_simps R_recon)
next
  case (Build_evidence n1 n2 en ac)
  with maintains_build_evidence [of n1 n2 en ac] show ?thesis by (simp add: maintains_def)
qed (use maintains_correct maintains_verify maintains_freeze maintains_reports maintains_recovery maintains_publish_last in
    \<open>simp_all add: maintains_def mutate_def run_simps R_same R_capture archive_def R_archive purge_def R_purge\<close>)

lemma R_reach:
  assumes "pm7_reach H s t"
    and "\<And>now src i1 i2 i3 e. call_valid (Ingest now src) \<Longrightarrow> normalize_source i1 i2 i3 src now = Inr (Inr e) \<Longrightarrow> ok e"
  shows "R s t"
  using assms(1)
proof induction
  case (step t c)
  with assms(2) have "R t (pm7_run H c t)" by (intro R_call) auto
  with step.IH show ?case by (rule R_trans)
qed (rule R_same)

end

end
