(* ===== verification/PersistGuarantees.thy ===== *)
theory PersistGuarantees
  imports PersistProps
begin

section \<open>What the persistence module keeps\<close>

text \<open>
  The instances of the contract \<open>module_kept\<close>: logs only grow, the journal stays numbered and
  indexed, the hash chain verifies, events are clean, a freeze holds, snapshots match the journal,
  the files match the memory.
\<close>

subsection \<open>One append\<close>

definition after_append :: "digest \<Rightarrow> LedgerEvent \<Rightarrow> datetime \<Rightarrow> pm7 \<Rightarrow> journal" where
  "after_append H e now s = snd (journal_append H e now (claims_durable (m7_config s)) (m7_journal s))"

lemma append_records:
  "jn_records (snd (journal_append H e now d j)) = jn_records j \<or>
   jn_records (snd (journal_append H e now d j)) = jn_records j @ [committed_record H e now (jn_records j)]"
  by (simp add: journal_append_def Let_def journal_commit_eq reload_index_def split: option.splits)

lemma first_append: "jn_records (snd (journal_append H e now d journal_init)) = [committed_record H e now []]"
proof -
  have "by_event_id [] (lv_event_id e) = None" "by_key [] (lv_idempotency_key e) = None"
    by (simp_all add: by_event_id_def by_key_def)
  then show ?thesis
    using journal_append_spec [OF journal_init_ok, of H e now d] log_append_cases(1) [of H e now d "[]"]
    by (simp add: journal_init_def)
qed

lemma append_fresh_records:
  "drop (length (jn_records j)) (jn_records (snd (journal_append H e now d j))) =
     (if ig_disposition (fst (journal_append H e now d j)) = IG_COMMITTED
      then [committed_record H e now (jn_records j)] else [])"
  by (simp add: journal_append_def Let_def journal_commit_eq reload_index_def duplicate_result_def
      conflict_result_def split: option.splits)

lemma append_get:
  "ig_disposition (fst (journal_append H e now d j)) = IG_COMMITTED \<Longrightarrow>
   journal_get (lv_event_id e) (snd (journal_append H e now d j)) = Some (committed_record H e now (jn_records j))"
  by (auto simp: journal_append_def Let_def journal_commit_eq reload_index_def duplicate_result_def
      conflict_result_def journal_get_def dict_simps split: option.splits if_splits)

lemma file_append_eq:
  "file_append H e now d (j, lines) =
     (fst (journal_append H e now d j), snd (journal_append H e now d j),
      lines @ map canon_record (drop (length (jn_records j)) (jn_records (snd (journal_append H e now d j)))))"
  unfolding append_fresh_records
  by (cases "ig_disposition (fst (journal_append H e now d j)) = IG_COMMITTED")
    (simp_all add: file_append_def case_prod_beta append_get)

text \<open>An append to the module: the journal changes, and the file gets the lines of the new records.\<close>

lemma m7_append_eq:
  "m7_append H e now s =
     (Inr (fst (journal_append H e now (claims_durable (m7_config s)) (m7_journal s))),
      s\<lparr>m7_journal := after_append H e now s,
        m7_files := map_option (\<lambda>f. f\<lparr>fl_journal := fl_journal f @
          map canon_record (drop (length (m7_records s)) (jn_records (after_append H e now s)))\<rparr>) (m7_files s)\<rparr>)"
  by (cases "m7_files s")
    (simp_all add: m7_append_def Let_def file_append_eq after_append_def m7_records_def case_prod_beta)

lemma after_append_records:
  "jn_records (after_append H e now s) = m7_records s \<or>
   jn_records (after_append H e now s) = m7_records s @ [committed_record H e now (m7_records s)]"
  unfolding after_append_def m7_records_def by (rule append_records)

lemma correction_valid: "correction_event i original extra actor reason now = Inr e \<Longrightarrow> event_valid e"
  unfolding correction_event_def by (rule make_event_valid)

lemma correction_stamped: "correction_event i original extra actor reason now = Inr e \<Longrightarrow> lv_ingested_at e \<noteq> None"
  unfolding correction_event_def by (drule make_event_ingested) simp

text \<open>What the remaining updates leave alone.\<close>

lemma capture_run:
  "snd (capture_snapshot H now scope s) =
     (let items = snd (snapshot_service_capture H (m7_next_id s) now (m7_records s) scope (m7_snapshots s));
          snap = fst (snapshot_service_capture H (m7_next_id s) now (m7_records s) scope (m7_snapshots s))
      in s\<lparr>m7_next_id := Suc (m7_next_id s), m7_snapshots := items,
           m7_files := map_option (\<lambda>f. f\<lparr>fl_snapshots := fl_snapshots f @ [snap]\<rparr>) (m7_files s)\<rparr>)"
  by (simp add: capture_snapshot_def bnd_def m7_fresh_def run_simps m7_persist_snapshot_def Let_def m7_records_def
      split: prod.splits)

lemma retain_run: "snd (m7_retain c s) = s\<lparr>m7_retention := snd (c (m7_retention s))\<rparr>"
  by (simp add: m7_retain_def split: prod.splits)

lemma evidence_run:
  "snd (m7_persist_evidence b s) =
     s\<lparr>m7_files := map_option (\<lambda>f. f\<lparr>fl_evidence := fl_evidence f @ [b]\<rparr>) (m7_files s)\<rparr>"
  by (simp add: m7_persist_evidence_def run_simps)

lemmas module_updates = capture_run retain_run evidence_run m7_append_eq Let_def m7_records_def

interpretation calm: module_quiet "\<lambda>s t. m7_journal t = m7_journal s"
  by unfold_locales simp_all

text \<open>Past the checks, the journal after an ingest is the journal after the append.\<close>

lemma ingest_journal:
  assumes "m7_feature_enabled s" and "m7_journal_enabled s"
    and "\<And>i1 i2 i3. normalize_source i1 i2 i3 src now = Inr (Inr e)" and "validate_event e now True = None"
  shows "m7_journal (snd (m7_ingest H now src s)) = after_append H e now s"
proof -
  have quiet: "m7_journal (snd (m7_after_append now src e r t)) = m7_journal t" for r t
    using calm.maintains_after_append [of now src e r] by (simp add: maintains_def)
  have "m7_accept H now src e t = m7_after_append now src e (fst (journal_append H e now (claims_durable (m7_config t)) (m7_journal t)))
      (snd (m7_append H e now t))" if "m7_feature_enabled t" "m7_journal_enabled t" for t
    using that assms(4) by (simp add: m7_accept_def run_simps bnd_Inr [OF m7_append_eq]) (simp add: m7_append_eq)
  then show ?thesis
    using assms quiet by (simp add: m7_ingest_def run_simps bnd_def m7_fresh_def m7_append_eq after_append_def)
qed

subsection \<open>Logs\<close>

definition logs_grow :: "pm7 \<Rightarrow> pm7 \<Rightarrow> bool" where
  "logs_grow s t \<longleftrightarrow>
     prefix (m7_records s) (m7_records t) \<and> prefix (m7_notes s) (m7_notes t) \<and>
     prefix (m7_quarantine s) (m7_quarantine t) \<and> prefix (m7_recon s) (m7_recon t) \<and>
     prefix (m7_emitted s) (m7_emitted t) \<and> prefix (m7_bundles s) (m7_bundles t) \<and>
     m7_config t = m7_config s \<and> m7_feature_enabled t = m7_feature_enabled s \<and>
     m7_journal_enabled t = m7_journal_enabled s \<and> m7_integrity_enabled t = m7_integrity_enabled s \<and>
     m7_replay_enabled t = m7_replay_enabled s \<and> m7_retention_enabled t = m7_retention_enabled s"

interpretation grow: module_kept logs_grow H "\<lambda>_. True" for H
proof unfold_locales
  fix e now s
  show "logs_grow s (snd (m7_append H e now s))"
    using after_append_records [of H e now s] by (auto simp: logs_grow_def m7_append_eq m7_records_def)
qed (auto simp: logs_grow_def module_updates)

subsection \<open>Numbering and index\<close>

definition journal_sound :: "digest \<Rightarrow> pm7 \<Rightarrow> bool" where
  "journal_sound H s \<longleftrightarrow> indexed_ok H (m7_journal s) \<and> numbered (m7_records s)"

lemma append_sound:
  assumes "indexed_ok H j" and "numbered (jn_records j)"
  shows "indexed_ok H (snd (journal_append H e now d j))" and "numbered (jn_records (snd (journal_append H e now d j)))"
  using journal_append_spec [OF assms, of e now d] numbered_append [OF assms(2), of H e now d] by simp_all

interpretation sound: module_kept "\<lambda>s t. journal_sound H s \<longrightarrow> journal_sound H t" H "\<lambda>_. True" for H
proof unfold_locales
  fix e now s
  show "journal_sound H s \<longrightarrow> journal_sound H (snd (m7_append H e now s))"
    using append_sound [of H "m7_journal s" e now]
    by (simp add: journal_sound_def m7_append_eq after_append_def m7_records_def)
qed (auto simp: journal_sound_def module_updates)

subsection \<open>The chain\<close>

definition event_stamped :: "LedgerEvent \<Rightarrow> bool" where
  "event_stamped e \<longleftrightarrow> lv_ingested_at e \<noteq> None"

definition chain_intact :: "digest \<Rightarrow> pm7 \<Rightarrow> bool" where
  "chain_intact H s \<longleftrightarrow> chain_mismatches H GENESIS_HASH (m7_records s) = []"

interpretation chain: module_kept "\<lambda>s t. chain_intact H s \<longrightarrow> chain_intact H t" H event_stamped for H
proof unfold_locales
  fix e now s assume "event_stamped e"
  then show "chain_intact H s \<longrightarrow> chain_intact H (snd (m7_append H e now s))"
    using after_append_records [of H e now s] chain_committed [of e H "m7_records s" now]
    by (auto simp: chain_intact_def m7_append_eq m7_records_def event_stamped_def)
qed (auto simp: chain_intact_def event_stamped_def module_updates dest: correction_stamped)

text \<open>The sources whose events carry an ingestion time.\<close>

fun source_stamped :: "ingest_source \<Rightarrow> bool" where
  "source_stamped (S_event e) \<longleftrightarrow> event_stamped e"
| "source_stamped (S_mapping m) \<longleftrightarrow> em_ingested_at m \<noteq> Some None"
| "source_stamped _ \<longleftrightarrow> True"

fun call_stamped :: "pm7_call \<Rightarrow> bool" where
  "call_stamped (Ingest now src) \<longleftrightarrow> source_stamped src"
| "call_stamped _ \<longleftrightarrow> True"

lemma from_mapping_ingested:
  "from_mapping i1 i2 i3 m now = Inr e \<Longrightarrow> lv_ingested_at e = opt_or (em_ingested_at m) (Some now)"
  unfolding from_mapping_def rbind_def Let_def by (clarsimp split: option.splits sum.splits)

lemma intake_ingested: "intake_error (make_event x) = Inr e \<Longrightarrow> lv_ingested_at e = lv_ingested_at x"
  unfolding intake_error_def using make_event_ingested [of x] by (auto split: sum.splits)

lemma normalize_stamped:
  assumes "normalize_source i1 i2 i3 src now = Inr (Inr e)" and "source_stamped src"
  shows "event_stamped e"
proof (cases src)
  case (S_mapping m)
  with assms(1) obtain x where "from_mapping i1 i2 i3 m now = Inr x" and "intake_error (make_event x) = Inr e"
    by (auto simp: normalize_source_def rbind_def split: sum.splits)
  with assms(2) S_mapping show ?thesis
    by (auto simp: event_stamped_def opt_or_def dest!: from_mapping_ingested intake_ingested split: option.splits)
next
  case (S_risk b)
  with assms(1) intake_ingested [of "from_risk b now" e] show ?thesis
    by (simp add: normalize_source_def event_stamped_def from_risk_def Let_def)
next
  case (S_execution b)
  with assms(1) intake_ingested [of "from_execution b now" e] show ?thesis
    by (simp add: normalize_source_def event_stamped_def from_execution_def Let_def)
next
  case (S_monitoring b)
  with assms(1) intake_ingested [of "from_monitoring b now" e] show ?thesis
    by (simp add: normalize_source_def event_stamped_def from_monitoring_def)
qed (use assms in \<open>auto simp: normalize_source_def event_stamped_def\<close>)

subsection \<open>Clean events\<close>

definition events_clean :: "pm7 \<Rightarrow> bool" where
  "events_clean s \<longleftrightarrow>
     (\<forall>r \<in> set (m7_records s). event_valid (cj_event r)) \<and> 
     (\<forall>x \<in> set (m7_recon s). pr_broker_truth_available x \<or> pr_state x \<noteq> RP_PASS)"

lemma no_silent_pass_iff: "no_silent_pass x = Inr x \<longleftrightarrow> pr_broker_truth_available x \<or> pr_state x \<noteq> RP_PASS"
  by (simp add: no_silent_pass_def raise_if_def)

lemma committed_valid: "event_valid e \<Longrightarrow> event_valid (cj_event (committed_record H e now rs))"
  by (simp add: committed_record_def Let_def)

interpretation clean: module_kept "\<lambda>s t. events_clean s \<longrightarrow> events_clean t" H event_valid for H
proof unfold_locales
  fix e now s assume "event_valid e"
  then show "events_clean s \<longrightarrow> events_clean (snd (m7_append H e now s))"
    using after_append_records [of H e now s] committed_valid [of e H now "m7_records s"]
    by (auto simp: events_clean_def m7_append_eq m7_records_def)
next
  fix i original extra actor reason now e
  show "correction_event i original extra actor reason now = Inr e \<Longrightarrow> event_valid e" by (rule correction_valid)
next
  fix x s
  show "no_silent_pass x = Inr x \<Longrightarrow> events_clean s \<longrightarrow> events_clean (s\<lparr>m7_recon := m7_recon s @ [x]\<rparr>)"
    unfolding no_silent_pass_iff by (auto simp: events_clean_def m7_records_def)
next
  fix s t u
  show "events_clean s \<longrightarrow> events_clean t \<Longrightarrow> events_clean t \<longrightarrow> events_clean u \<Longrightarrow> events_clean s \<longrightarrow> events_clean u"
    by blast
qed (simp_all add: events_clean_def module_updates)

lemma call_valid_event:
  assumes "call_valid c" and "c = Ingest now src" and "normalize_source i1 i2 i3 src now = Inr (Inr e)"
  shows "event_valid e"
  using assms(1) unfolding assms(2) by (intro normalize_valid [OF assms(3)]) simp

subsection \<open>Retention\<close>

definition held :: "retention \<Rightarrow> bool" where
  "held r \<longleftrightarrow> rt_frozen r \<and> rt_tier r \<noteq> AT_PURGED_IF_ALLOWED"

lemma retention_runs:
  "snd (retention_freeze H reason now r) =
     r\<lparr>rt_frozen := True, rt_lock_reason := Some reason, rt_tier := AT_FROZEN,
       rt_actions := rt_actions r @ [(now, '':freeze:'' @ reason)]\<rparr>"
  "snd (retention_transition H tier now r) =
     (if rt_frozen r \<and> tier = AT_PURGED_IF_ALLOWED then r
      else r\<lparr>rt_tier := tier, rt_actions := rt_actions r @ [(now, '':'' @ tier_value tier)]\<rparr>)"
  "snd (retention_purge H now r) =
     (if rt_frozen r then r
      else if rt_allow_purge r \<and> \<not> rt_simulate_archive r then r\<lparr>rt_tier := AT_PURGED_IF_ALLOWED\<rparr>
      else r\<lparr>rt_actions := rt_actions r @
        [(now, '':purge_blocked:'' @ (if rt_allow_purge r then ''simulated_only'' else ''purge_disabled''))]\<rparr>)"
  by (simp_all add: retention_freeze_def retention_transition_def retention_purge_def may_purge_def run_simps)

interpretation hold: module_kept "\<lambda>s t. held (m7_retention s) \<longrightarrow> held (m7_retention t)" H "\<lambda>_. True" for H
  by unfold_locales (auto simp: held_def module_updates retention_runs)

interpretation policy: module_kept
  "\<lambda>s t. rt_allow_purge (m7_retention t) = rt_allow_purge (m7_retention s) \<and>
         rt_simulate_archive (m7_retention t) = rt_simulate_archive (m7_retention s)" H "\<lambda>_. True" for H
  by unfold_locales (auto simp: module_updates retention_runs)

subsection \<open>Snapshots\<close>

text \<open>A snapshot of the first records: their number and the hash of the last of them.\<close>

definition snapshot_covers :: "CommittedJournalRecord list \<Rightarrow> SnapshotRecord \<Rightarrow> bool" where
  "snapshot_covers rs x \<longleftrightarrow>
     ss_journal_sequence x \<le> length rs \<and>
     sp_tip (ss_payload x) = last_content_hash (take (ss_journal_sequence x) rs)"

definition snapshots_sound :: "digest \<Rightarrow> pm7 \<Rightarrow> bool" where
  "snapshots_sound H s \<longleftrightarrow> journal_sound H s \<and> (\<forall>x \<in> set (m7_snapshots s). snapshot_covers (m7_records s) x)"

lemma snapshot_covers_append: "snapshot_covers rs x \<Longrightarrow> snapshot_covers (rs @ ys) x"
  by (simp add: snapshot_covers_def)

lemma snapshot_covers_state [simp]: "snapshot_covers rs (x\<lparr>ss_state := y\<rparr>) \<longleftrightarrow> snapshot_covers rs x"
  by (simp add: snapshot_covers_def)

lemma numbered_last: "numbered rs \<Longrightarrow> last_sequence rs = length rs"
proof -
  assume "numbered rs"
  then have *: "map cj_sequence rs = [1..<Suc (length rs)]" by (simp add: numbered_def)
  show ?thesis
  proof (cases "rs = []")
    case False
    then have "cj_sequence (last rs) = last (map cj_sequence rs)" by (simp add: last_map)
    moreover have "1 \<le> length rs" using False by (cases rs) simp_all
    ultimately show ?thesis using * False by (simp add: last_sequence_def)
  qed (simp add: last_sequence_def)
qed

lemma capture_covers: "numbered rs \<Longrightarrow> snapshot_covers rs (snapshot_capture H i now rs scope)"
  by (simp add: snapshot_covers_def snapshot_capture_def Let_def numbered_last)

lemma service_capture_sound:
  assumes "numbered rs" and "\<forall>x \<in> set items. snapshot_covers rs x"
  shows "\<forall>x \<in> set (snd (snapshot_service_capture H i now rs scope items)). snapshot_covers rs x"
proof -
  have "\<forall>x \<in> set (butlast items). snapshot_covers rs x" and "items \<noteq> [] \<Longrightarrow> snapshot_covers rs (last items)"
    using assms(2) by (auto dest: in_set_butlastD)
  with assms show ?thesis
    by (auto simp: snapshot_service_capture_def Let_def capture_covers)
qed

interpretation snap: module_kept "\<lambda>s t. snapshots_sound H s \<longrightarrow> snapshots_sound H t" H "\<lambda>_. True" for H
proof unfold_locales
  fix now scope s
  show "snapshots_sound H s \<longrightarrow> snapshots_sound H (snd (capture_snapshot H now scope s))"
    using service_capture_sound [of "m7_records s" "m7_snapshots s" H "m7_next_id s" now scope]
    by (simp add: snapshots_sound_def journal_sound_def module_updates)
next
  fix e now s
  have "snapshot_covers (jn_records (after_append H e now s)) x" if "snapshot_covers (m7_records s) x" for x
    using after_append_records [of H e now s] snapshot_covers_append [OF that] that by auto
  moreover have "journal_sound H s \<longrightarrow> journal_sound H (snd (m7_append H e now s))" by (simp add: sound.R_append)
  ultimately show "snapshots_sound H s \<longrightarrow> snapshots_sound H (snd (m7_append H e now s))"
    by (simp add: snapshots_sound_def m7_append_eq m7_records_def)
qed (auto simp: snapshots_sound_def journal_sound_def module_updates)

subsection \<open>Files\<close>

text \<open>The files hold the normal form of the records, the bundles, and the snapshots up to their state.\<close>

definition files_match :: "pm7 \<Rightarrow> bool" where
  "files_match s \<longleftrightarrow>
     (\<exists>f. m7_files s = Some f \<and> fl_journal f = map canon_record (m7_records s) \<and> fl_evidence f = m7_bundles s \<and>
          map (\<lambda>x. x\<lparr>ss_state := SNS_VALIDATED\<rparr>) (m7_snapshots s) = fl_snapshots f)"

lemma capture_validated: "validate_checksum H (snapshot_capture H i now rs scope) = SNS_VALIDATED"
  by (simp add: validate_checksum_def snapshot_capture_def Let_def)

lemma service_capture_states:
  "map (\<lambda>x. x\<lparr>ss_state := SNS_VALIDATED\<rparr>) (snd (snapshot_service_capture H i now rs scope items)) =
   map (\<lambda>x. x\<lparr>ss_state := SNS_VALIDATED\<rparr>) items @ [fst (snapshot_service_capture H i now rs scope items)]"
  by (cases items rule: rev_cases)
    (simp_all add: snapshot_service_capture_def Let_def capture_validated)

interpretation disk: module_kept "\<lambda>s t. files_match s \<longrightarrow> files_match t" H "\<lambda>_. True" for H
proof unfold_locales
  fix e now s
  show "files_match s \<longrightarrow> files_match (snd (m7_append H e now s))"
    using after_append_records [of H e now s] by (auto simp: files_match_def m7_append_eq m7_records_def)
qed (auto simp: files_match_def module_updates service_capture_states)

lemma canon_record_event [simp]:
  "cj_event (canon_record r) = canon_event (cj_event r)" "cj_sequence (canon_record r) = cj_sequence r"
  "cj_content_hash (canon_record r) = cj_content_hash r" "(canon_record r)\<lparr>cj_event := canon_event (cj_event r)\<rparr> = canon_record r"
  by (simp_all add: canon_record_def)

lemma numbered_canon [simp]: "numbered (map canon_record rs) \<longleftrightarrow> numbered rs"
  by (simp add: numbered_def idempotency_keys_def comp_def)

lemma find_map: "find P (map f xs) = map_option f (find (\<lambda>x. P (f x)) xs)"
  by (induction xs) auto

lemma by_canon:
  "by_event_id (map canon_record rs) i = map_option canon_record (by_event_id rs i)"
  "by_key (map canon_record rs) k = map_option canon_record (by_key rs k)"
  by (simp_all add: by_event_id_def by_key_def find_map)

lemma reload_all:
  assumes "indexed_ok H j" and "numbered (jn_records j @ map canon_record rs)"
    and "\<forall>r \<in> set rs. event_valid (cj_event r)"
  shows "\<exists>j'. file_reload H (map canon_record rs) j = Inr j' \<and> jn_records j' = jn_records j @ map canon_record rs \<and>
              indexed_ok H j'"
  using assms
proof (induction rs arbitrary: j)
  case (Cons r rs)
  let ?r = "canon_record r"
  have "make_event (cj_event ?r) = Inr (cj_event ?r)"
    using Cons.prems(3) canon_event_valid [of "cj_event r"] by (simp add: event_valid_def)
  moreover have "indexed_ok H (reload_index H ?r j)"
    using Cons.prems(1, 2)
    by (intro index_commit) (auto simp: by_event_id_None by_key_None numbered_def idempotency_keys_def)
  moreover have "jn_records (reload_index H ?r j) = jn_records j @ [?r]" by (simp add: reload_index_def Let_def)
  ultimately show ?case using Cons.IH [of "reload_index H ?r j"] Cons.prems(2, 3) by simp
qed simp

lemma log_append_canon: "fst (log_append H e now d (map canon_record rs)) = fst (log_append H e now d rs)"
proof -
  have "cj_content_hash (committed_record H e now (map canon_record rs)) = cj_content_hash (committed_record H e now rs)"
    by (simp add: committed_record_def Let_def last_map)
  then show ?thesis
    by (simp add: log_append_def Let_def by_canon duplicate_result_def conflict_result_def split: option.splits)
qed

subsection \<open>Starting states\<close>

lemma init_cases:
  assumes "pm7_init H c g n empty_files = Some (Inr s)"
  shows "s = pm7_assemble c g n (journal_init, if p7_operating_mode c = PE_FILE_BACKED then Some empty_files else None)"
  using assms
  by (auto simp: pm7_init_def backend_for_def rbind_def empty_files_def split: if_splits)

lemma init_sound:
  assumes "pm7_init H c g n empty_files = Some (Inr s)"
  shows "journal_sound H s" "chain_intact H s" "events_clean s" "snapshots_sound H s"
    "p7_operating_mode c = PE_FILE_BACKED \<Longrightarrow> files_match s"
  unfolding init_cases [OF assms]
  by (simp_all add: journal_sound_def chain_intact_def events_clean_def snapshots_sound_def files_match_def
      pm7_assemble_def m7_records_def empty_files_def) (simp_all add: journal_init_def)

lemma restart:
  assumes "files_match s" and "journal_sound H s" and "events_clean s"
    and "p7_operating_mode c = PE_FILE_BACKED"
  obtains t where "pm7_init H c g n (the (m7_files s)) = Some (Inr t)"
    and "m7_records t = map canon_record (m7_records s)" and "journal_sound H t"
    and "m7_bundles t = m7_bundles s" and "m7_snapshots t = map (\<lambda>x. x\<lparr>ss_state := SNS_VALIDATED\<rparr>) (m7_snapshots s)"
    and "m7_retention t = retention_init (p7_simulate_archive c) (p7_allow_purge c)"
proof -
  from assms(1) obtain f where f: "m7_files s = Some f" "fl_journal f = map canon_record (m7_records s)"
      "fl_evidence f = m7_bundles s" "map (\<lambda>x. x\<lparr>ss_state := SNS_VALIDATED\<rparr>) (m7_snapshots s) = fl_snapshots f"
    by (auto simp: files_match_def)
  obtain j where j: "file_reload H (fl_journal f) journal_init = Inr j"
      "jn_records j = map canon_record (m7_records s)" "indexed_ok H j"
    using reload_all [of H journal_init "m7_records s"] assms(2, 3) f(2)
    by (auto simp: journal_sound_def events_clean_def) (auto simp: journal_init_def)
  show ?thesis
  proof (rule that)
    show "pm7_init H c g n (the (m7_files s)) = Some (Inr (pm7_assemble c g n (j, Some f)))"
      using f(1) j(1) assms(4) by (simp add: pm7_init_def backend_for_def rbind_def)
  qed (use f j assms(2) in \<open>simp_all add: pm7_assemble_def m7_records_def journal_sound_def\<close>)
qed

end
