(* ===== verification/PersistClaims.thy ===== *)
theory PersistClaims
  imports PersistGuarantees
begin

section \<open>Guarantees of the persistence module\<close>

text \<open>
  The journal as an append-only log with its specification, the hash chain and what it detects, the
  restart from files, redaction, freezes and replay, over every sequence of valid calls.
\<close>

subsection \<open>A sample\<close>

definition sample_flags :: pm7_flags where
  "sample_flags = \<lparr>g7_feature = True, g7_journal = True, g7_replay = True, g7_integrity = True, g7_retention = True,
     g7_reporting = True\<rparr>"

definition sample_event :: LedgerEvent where
  "sample_event =
     \<lparr>lv_event_id = 7, lv_trace_id = 8, lv_correlation_id = 9, lv_causation_id = None, lv_session_id = None,
      lv_source_module = ''operator'', lv_source_entity_id = None, lv_event_type = ''note'',
      lv_event_version = ''v1'', lv_event_timestamp = 0, lv_ingested_at = None, lv_source_timestamp = None,
      lv_event_payload = [], lv_truth_source = PT_OPERATOR, lv_lineage_refs = [], lv_integrity_metadata = [],
      lv_operator_id = None, lv_metadata = [], lv_idempotency_key = Some ''k1'',
      lv_category = JC_OPERATOR_ACTION, lv_ticket = None, lv_symbol = None, lv_order_id = None,
      lv_strategy_id = None, lv_incident_id = None\<rparr>"

text \<open>A digest that tells whether the hashed event had its ingestion time.\<close>

definition sample_digest :: digest where
  "sample_digest x = (case x of D_chain p e \<Rightarrow> if lv_ingested_at e = None then ''a'' else ''b'' | D_payload p \<Rightarrow> ''c'')"

definition sample_pm7 :: pm7 where
  "sample_pm7 = pm7_assemble pm7_config_default sample_flags 0 (journal_init, None)"

definition file_config :: Pm7PersistenceConfig where
  "file_config = pm7_config_default\<lparr>p7_operating_mode := PE_FILE_BACKED\<rparr>"

definition sample_file_pm7 :: pm7 where
  "sample_file_pm7 = pm7_assemble file_config sample_flags 0 (journal_init, Some empty_files)"

lemma sample_init: "pm7_init H pm7_config_default sample_flags 0 empty_files = Some (Inr sample_pm7)"
  by (simp add: pm7_init_def backend_for_def pm7_config_default_def rbind_def sample_pm7_def)

lemma sample_file_init: "pm7_init H file_config sample_flags 0 empty_files = Some (Inr sample_file_pm7)"
  by (simp add: pm7_init_def backend_for_def file_config_def rbind_def sample_file_pm7_def empty_files_def)

lemma sample_event_valid: "event_valid sample_event"
  by (simp add: event_valid_iff sample_event_def blank_def is_space_def strip_def sim_text_def is_true_def)

lemma sample_calls_valid: "call_valid (Ingest 0 (S_event sample_event))"
  by (simp add: sample_event_valid)

lemma sample_label: "label_truth sample_event = sample_event"
  by (simp add: sample_event_def label_truth_def Let_def truthy_def payload_ticket_def sim_text_def)

lemma sample_admitted: "validate_event sample_event 0 True = None"
  by (simp add: sample_event_def validate_event_def event_reasons_def ALLOWED_SOURCE_MODULES_def seconds_def
      is_true_def sim_text_def)

lemma sample_records:
  "m7_records (pm7_run H (Ingest 0 (S_event sample_event)) sample_pm7) = [committed_record H sample_event 0 []]"
  using ingest_journal [of sample_pm7 "S_event sample_event" 0 sample_event H]
  by (simp add: sample_pm7_def pm7_assemble_def sample_flags_def normalize_source_def sample_label sample_admitted
      after_append_def first_append m7_records_def)

lemmas sample_reach = pm7_reach.step [OF pm7_reach.start sample_calls_valid]

subsection \<open>The journal\<close>

text \<open>
  Claim C17. Whatever calls are made after start-up, the committed journal only grows at its end,
  with sequence numbers 1, 2, 3, ..., no event identifier twice and no idempotency key twice; the
  evidence notes, the quarantine, the reconciliation records and the emitted bundles only grow too.
\<close>

theorem pm7_journal_append_only:
  assumes "pm7_init H c g n empty_files = Some (Inr s0)" and "pm7_reach H s0 s" and "pm7_reach H s t"
  shows "prefix (m7_records s) (m7_records t) \<and>
         map cj_sequence (m7_records t) = [1..<Suc (length (m7_records t))] \<and>
         distinct (map (\<lambda>r. lv_event_id (cj_event r)) (m7_records t)) \<and>
         distinct (idempotency_keys (m7_records t)) \<and>
         prefix (m7_notes s) (m7_notes t) \<and> prefix (m7_quarantine s) (m7_quarantine t) \<and>
         prefix (m7_recon s) (m7_recon t) \<and> prefix (m7_emitted s) (m7_emitted t)"
proof -
  have "journal_sound H t"
    using sound.R_reach [OF assms(2)] sound.R_reach [OF assms(3)] init_sound(1) [OF assms(1)] by simp
  with grow.R_reach [OF assms(3)] show ?thesis by (simp add: logs_grow_def journal_sound_def numbered_def)
qed

theorem pm7_journal_append_only_witness:
  "prefix (m7_records sample_pm7) (m7_records (pm7_run sample_digest (Ingest 0 (S_event sample_event)) sample_pm7))"
  using pm7_journal_append_only [OF sample_init pm7_reach.start sample_reach, of sample_digest] by simp

text \<open>
  Claim C18. The journal refines a plain list searched from the front: in every reachable state the
  outcome of an append and the records it leaves are those of the list specification, which commits
  an event with a new identifier and a new idempotency key, answers a repetition with the sequence
  number and hash of the committed record, reports a repetition with another payload as a
  contradiction, and changes nothing in the last two cases; the lookup by identifier is the search.
\<close>

theorem pm7_journal_refines_log:
  assumes "pm7_init H c g n empty_files = Some (Inr s0)" and "pm7_reach H s0 s"
  shows "log_append H e now d (m7_records s) =
           (fst (journal_append H e now d (m7_journal s)), jn_records (snd (journal_append H e now d (m7_journal s)))) \<and>
         journal_get i (m7_journal s) = by_event_id (m7_records s) i"
proof -
  have "journal_sound H s" using sound.R_reach [OF assms(2)] init_sound(1) [OF assms(1)] by simp
  then have "indexed_ok H (m7_journal s)" "numbered (jn_records (m7_journal s))"
    by (simp_all add: journal_sound_def m7_records_def)
  with journal_append_spec [OF this, of e now d] show ?thesis
    by (simp add: m7_records_def journal_get_def indexed_ok_def)
qed

theorem pm7_journal_refines_log_witness:
  "journal_get 7 (m7_journal (pm7_run sample_digest (Ingest 0 (S_event sample_event)) sample_pm7)) =
   by_event_id (m7_records (pm7_run sample_digest (Ingest 0 (S_event sample_event)) sample_pm7)) 7"
  using pm7_journal_refines_log [OF sample_init sample_reach, of sample_digest] by simp

subsection \<open>The hash chain\<close>

text \<open>
  Claim C19. When every ingested event carries its ingestion time (the adapters of the risk,
  execution and monitoring bundles and the mapping default set it), verification always finds the
  chain intact: the report is valid, or unknown for an empty journal.
\<close>

theorem pm7_chain_verifies:
  assumes "pm7_init H c g n empty_files = Some (Inr s0)" and "g7_integrity g" and "g7_feature g"
    and "\<forall>call \<in> set cs. call_valid call \<and> call_stamped call"
  shows "\<exists>report. fst (verify_integrity H now (fold (pm7_run H) cs s0)) = Inr report \<and> iy_chain_valid report \<and>
           iy_state report = (if m7_records (fold (pm7_run H) cs s0) = [] then IN_UNKNOWN else IN_VALID)"
proof -
  let ?s = "fold (pm7_run H) cs s0"
  have "chain_intact H s0 \<longrightarrow> chain_intact H ?s"
  proof (intro chain.R_fold chain.R_call)
    fix call now src i1 i2 i3 e
    assume "call \<in> set cs" and "call = Ingest now src" and e: "normalize_source i1 i2 i3 src now = Inr (Inr e)"
    with assms(4) have "call_stamped (Ingest now src)" by blast
    then show "event_stamped e" by (intro normalize_stamped [OF e]) simp
  qed (use assms(4) in auto)
  moreover have "logs_grow s0 ?s"
    using assms(4) by (intro grow.R_fold grow.R_call) auto
  ultimately have "chain_intact H ?s" and "m7_integrity_enabled ?s"
    using init_sound(2) [OF assms(1)] assms(2, 3)
    by (simp_all add: logs_grow_def init_cases [OF assms(1)] pm7_assemble_def)
  then show ?thesis
    by (simp add: verify_integrity_def bnd_def m7_fresh_def run_simps m7_records_def verify_chain_def chain_intact_def Let_def)
qed

theorem pm7_chain_verifies_witness:
  "\<exists>report. fst (verify_integrity sample_digest 0
      (fold (pm7_run sample_digest) [Ingest 0 (S_event (sample_event\<lparr>lv_ingested_at := Some 0\<rparr>))] sample_pm7)) = Inr report \<and>
    iy_chain_valid report"
  using pm7_chain_verifies [OF sample_init, of "[Ingest 0 (S_event (sample_event\<lparr>lv_ingested_at := Some 0\<rparr>))]" sample_digest 0]
  by (simp add: sample_flags_def sample_event_valid event_stamped_def) blast

text \<open>
  A validated event without an ingestion time is hashed before the time is filled in. As
  soon as the digest distinguishes the two, verification reports the untouched journal of that one
  event as compromised.
\<close>

theorem pm7_unstamped_compromises:
  assumes "pm7_init H c g n empty_files = Some (Inr s0)" and "g7_journal g" and "g7_integrity g" and "g7_feature g"
    and "event_valid e" and "lv_ingested_at e = None" and "validate_event (label_truth e) now True = None"
    and "H (D_chain GENESIS_HASH (canon_event (label_truth e))) \<noteq>
         H (D_chain GENESIS_HASH (canon_event ((label_truth e)\<lparr>lv_ingested_at := Some now\<rparr>)))"
  shows "\<exists>report. fst (verify_integrity H later (pm7_run H (Ingest now (S_event e)) s0)) = Inr report \<and>
           iy_state report = IN_COMPROMISED"
proof -
  let ?e = "label_truth e" and ?t = "pm7_run H (Ingest now (S_event e)) s0"
  note s0 = init_cases [OF assms(1)]
  have empty: "m7_journal s0 = journal_init" "m7_feature_enabled s0" "m7_journal_enabled s0"
    using assms(2-4) by (simp_all add: s0 pm7_assemble_def)
  then have "m7_journal ?t = after_append H ?e now s0"
    using assms(7) by (simp add: ingest_journal normalize_source_def)
  then have recs: "m7_records ?t = [committed_record H ?e now []]"
    by (simp add: m7_records_def after_append_def empty first_append)
  have "logs_grow s0 ?t" using assms(5) by (intro grow.R_call) auto
  then have "m7_integrity_enabled ?t" using assms(3, 4) by (simp add: logs_grow_def s0 pm7_assemble_def)
  moreover have "chain_mismatches H GENESIS_HASH [committed_record H ?e now []] \<noteq> []"
    using assms(6, 8) by (simp add: committed_record_def Let_def next_hash_def GENESIS_HASH_def)
  ultimately show ?thesis
    using recs by (simp add: verify_integrity_def bnd_def m7_fresh_def run_simps m7_records_def verify_chain_def Let_def)
qed

theorem pm7_unstamped_compromises_witness:
  "\<exists>report. fst (verify_integrity sample_digest 1 (pm7_run sample_digest (Ingest 0 (S_event sample_event)) sample_pm7)) = Inr report \<and>
     iy_state report = IN_COMPROMISED"
  by (rule pm7_unstamped_compromises [OF sample_init])
    (simp_all add: sample_flags_def sample_event_valid sample_label sample_admitted,
      simp_all add: sample_event_def sample_digest_def canon_event_def)

text \<open>
  Claim C20. The chain is tamper evident: two journals that both verify as valid, with the same number
  of records and the same tip hash, hold the same events in the same order (up to the normal form
  of their payloads), unless the digest maps two different links to one text.
\<close>

theorem pm7_tamper_evident:
  assumes "\<And>x. H x \<noteq> []"
    and "iy_state (verify_chain H i now rs) = IN_VALID" and "iy_state (verify_chain H i' now' rs') = IN_VALID"
    and "iy_records_checked (verify_chain H i now rs) = iy_records_checked (verify_chain H i' now' rs')"
    and "iy_tip_hash (verify_chain H i now rs) = iy_tip_hash (verify_chain H i' now' rs')"
  shows "map (\<lambda>r. canon_event (cj_event r)) rs = map (\<lambda>r. canon_event (cj_event r)) rs' \<or> chain_collision H"
proof -
  have "rs \<noteq> []" "rs' \<noteq> []" using assms(2, 3) by (auto simp: verify_chain_def)
  with assms(2-5) have "length rs = length rs'" "chain_mismatches H GENESIS_HASH rs = []"
    "chain_mismatches H GENESIS_HASH rs' = []" "cj_content_hash (last rs) = cj_content_hash (last rs')"
    by (simp_all add: verify_chain_def Let_def split: if_splits)
  with assms(1) show ?thesis by (intro disjCI chain_tip)
qed

definition sample_record :: CommittedJournalRecord where
  "sample_record = committed_record sample_digest (sample_event\<lparr>lv_ingested_at := Some 0\<rparr>) 0 []"

lemma sample_record_verifies:
  "iy_state (verify_chain sample_digest i now [sample_record]) = IN_VALID"
  using chain_committed [of "sample_event\<lparr>lv_ingested_at := Some 0\<rparr>" sample_digest "[]" 0]
  by (simp add: verify_chain_def sample_record_def Let_def)

theorem pm7_tamper_evident_witness:
  "map (\<lambda>r. canon_event (cj_event r)) [sample_record] = map (\<lambda>r. canon_event (cj_event r)) [sample_record] \<or>
   chain_collision sample_digest"
  by (rule pm7_tamper_evident [of sample_digest 0 0 "[sample_record]" 1 1 "[sample_record]"])
    (simp_all add: sample_record_verifies, simp_all add: sample_digest_def verify_chain_def Let_def split: digest_input.splits)

subsection \<open>Restart\<close>

text \<open>
  Claim C21. A file-backed module that is restarted on its files reads them without an error: the
  records come back in the normal form of their payloads, every append then gives the result it
  would have given before the restart, and verification finds the same mismatches. The evidence
  bundles come back as they were. What does not come back: a freeze is gone, and every snapshot,
  also a superseded one, is validated again.
\<close>

theorem pm7_restart_restores:
  assumes "pm7_init H c g n empty_files = Some (Inr s0)" and "p7_operating_mode c = PE_FILE_BACKED"
    and "pm7_reach H s0 s"
  shows "\<exists>t. pm7_init H c g' n' (the (m7_files s)) = Some (Inr t) \<and>
           m7_records t = map canon_record (m7_records s) \<and>
           (\<forall>e now d. fst (journal_append H e now d (m7_journal t)) = fst (journal_append H e now d (m7_journal s))) \<and>
           chain_mismatches H GENESIS_HASH (m7_records t) = chain_mismatches H GENESIS_HASH (m7_records s) \<and>
           m7_bundles t = m7_bundles s \<and> \<not> rt_frozen (m7_retention t) \<and>
           m7_snapshots t = map (\<lambda>x. x\<lparr>ss_state := SNS_VALIDATED\<rparr>) (m7_snapshots s)"
proof -
  have ok: "files_match s" "journal_sound H s" "events_clean s"
    using disk.R_reach [OF assms(3)] sound.R_reach [OF assms(3)] clean.R_reach [OF assms(3)]
      init_sound [OF assms(1)] assms(2) call_valid_event by simp_all
  from restart [OF ok assms(2), of g' n'] obtain t where
    t: "pm7_init H c g' n' (the (m7_files s)) = Some (Inr t)" "m7_records t = map canon_record (m7_records s)"
      "journal_sound H t" "m7_bundles t = m7_bundles s"
      "m7_snapshots t = map (\<lambda>x. x\<lparr>ss_state := SNS_VALIDATED\<rparr>) (m7_snapshots s)"
      "m7_retention t = retention_init (p7_simulate_archive c) (p7_allow_purge c)" .
  have spec: "fst (journal_append H e now d (m7_journal u)) = fst (log_append H e now d (m7_records u))"
    if "journal_sound H u" for u e now d
    using journal_append_spec [of H "m7_journal u" e now d] that by (simp add: journal_sound_def m7_records_def)
  show ?thesis
    using t spec [OF ok(2)] spec [OF t(3)] by (simp add: log_append_canon chain_canon retention_init_def)
qed

theorem pm7_restart_restores_witness:
  "\<exists>t. pm7_init sample_digest file_config sample_flags 9
         (the (m7_files (pm7_run sample_digest (Ingest 0 (S_event sample_event)) sample_file_pm7))) = Some (Inr t) \<and>
       \<not> rt_frozen (m7_retention t)"
  using pm7_restart_restores [OF sample_file_init _ sample_reach, of sample_digest sample_flags 9]
  by (fastforce simp: file_config_def)

subsection \<open>Redaction and provenance\<close>

text \<open>
  Claim C22. In every state that calls with validated events and reconciliation records reach from a start
  without files no committed event has a secret key at the top of its payload or
  in a dictionary reached from it through dictionaries alone (the redaction does not enter lists, so a
  dictionary in a list keeps its secret keys); none labels a simulated ticket as broker truth, none records a use
  of MT5 or a broker side effect, and no reconciliation record passes without broker truth.
\<close>

theorem pm7_records_clean:
  assumes "pm7_init H c g n empty_files = Some (Inr s0)" and "pm7_reach H s0 s"
  shows "list_all (\<lambda>r. payload_clean (lv_event_payload (cj_event r)) \<and>
             \<not> (sim_text (lv_ticket (cj_event r)) \<and> lv_truth_source (cj_event r) = PT_PM5_BROKER) \<and>
             \<not> is_true ''mt5_used'' (lv_event_payload (cj_event r)) \<and>
             \<not> is_true ''broker_side_effect'' (lv_event_payload (cj_event r))) (m7_records s) \<and>
         list_all (\<lambda>x. pr_broker_truth_available x \<or> pr_state x \<noteq> RP_PASS) (m7_recon s)"
proof -
  have "events_clean s"
    using clean.R_reach [OF assms(2)] init_sound(3) [OF assms(1)] call_valid_event by simp
  then show ?thesis by (simp add: events_clean_def list_all_iff event_valid_iff)
qed

theorem pm7_records_clean_witness:
  "list_all (\<lambda>x. pr_broker_truth_available x \<or> pr_state x \<noteq> RP_PASS)
     (m7_recon (pm7_run sample_digest (Ingest 0 (S_event sample_event)) sample_pm7))"
  using pm7_records_clean [OF sample_init sample_reach] by blast

subsection \<open>Freezes\<close>

text \<open>
  Claim C23. With the retention service enabled, after a freeze, whatever calls with validated
  events and reconciliation records follow, a purge and an archive move to the purged tier raise \<^verbatim>\<open>RetentionFrozenError\<close> and change nothing, and the tier is never the purged one.
\<close>

theorem pm7_freeze_holds:
  assumes "m7_retention_enabled s" and "\<forall>call \<in> set cs. call_valid call"
  shows "let t = fold (pm7_run H) cs (pm7_run H (Freeze now reason actor) s) in
         purge H later t = (Inl (RetentionFrozenError ''frozen''), t) \<and>
         archive H later AT_PURGED_IF_ALLOWED t = (Inl (RetentionFrozenError ''frozen''), t) \<and>
         rt_tier (m7_retention t) \<noteq> AT_PURGED_IF_ALLOWED"
proof -
  let ?s = "pm7_run H (Freeze now reason actor) s"
  have "held (m7_retention ?s)"
    using assms(1) by (simp add: freeze_def run_simps bnd_def m7_note_def retain_run retention_runs held_def)
  moreover have "held (m7_retention ?s) \<longrightarrow> held (m7_retention (fold (pm7_run H) cs ?s))"
    using assms(2) by (intro hold.R_fold hold.R_call) auto
  ultimately have "held (m7_retention (fold (pm7_run H) cs ?s))" by blast
  then show ?thesis
    by (simp add: Let_def held_def purge_def archive_def m7_retain_def retention_purge_def retention_transition_def
        may_purge_def run_simps)
qed

theorem pm7_freeze_holds_witness:
  "purge sample_digest 2 (fold (pm7_run sample_digest) [Archive 1 AT_ACTIVE] (pm7_run sample_digest (Freeze 0 ''audit'' ''op'') sample_pm7)) =
     (Inl (RetentionFrozenError ''frozen''),
      fold (pm7_run sample_digest) [Archive 1 AT_ACTIVE] (pm7_run sample_digest (Freeze 0 ''audit'' ''op'') sample_pm7))"
  using pm7_freeze_holds [of sample_pm7 "[Archive 1 AT_ACTIVE]" sample_digest 0 "''audit''" "''op''" 2]
  by (simp add: sample_pm7_def pm7_assemble_def sample_flags_def Let_def)

subsection \<open>Replay\<close>

lemma numbered_ordered: "numbered rs \<Longrightarrow> ordered rs"
proof -
  assume "numbered rs"
  then have "map cj_sequence rs = [1..<Suc (length rs)]" by (simp add: numbered_def)
  then show ?thesis by (simp add: ordered_def Let_def sorted_sort_id del: upt_Suc)
qed

text \<open>
  Replay against the last snapshot is exact about position: in every reachable state with a
  committed record and a snapshot, a replay of the whole journal is verified if and only if nothing
  was committed after the snapshot was taken; otherwise it reports a divergence, although the
  journal still starts with the records of the snapshot.
\<close>

theorem pm7_replay_verified_iff:
  assumes "pm7_init H c g n empty_files = Some (Inr s0)" and "pm7_reach H s0 s" and "g7_replay g" and "g7_feature g"
    and "m7_records s \<noteq> []" and "m7_snapshots s \<noteq> []"
  shows "\<exists>y. fst (replay now scope None s) = Inr y \<and>
           yr_state y = (if ss_journal_sequence (last (m7_snapshots s)) = length (m7_records s)
                         then RS_VERIFIED else RS_DIVERGENCE_DETECTED) \<and>
           ss_journal_sequence (last (m7_snapshots s)) \<le> length (m7_records s) \<and>
           sp_tip (ss_payload (last (m7_snapshots s))) =
             last_content_hash (take (ss_journal_sequence (last (m7_snapshots s))) (m7_records s))"
proof -
  let ?x = "last (m7_snapshots s)" and ?rs = "m7_records s"
  have "snapshots_sound H s" using snap.R_reach [OF assms(2)] init_sound(4) [OF assms(1)] by simp
  then have num: "numbered ?rs" and x: "snapshot_covers ?rs ?x"
    using assms(6) by (simp_all add: snapshots_sound_def journal_sound_def)
  have "m7_replay_enabled s"
    using grow.R_reach [OF assms(2)] assms(3, 4)
    by (simp add: logs_grow_def init_cases [OF assms(1)] pm7_assemble_def)
  moreover have "cj_sequence (last ?rs) = length ?rs"
    using numbered_last [OF num] assms(5) by (simp add: last_sequence_def)
  moreover have "sp_tip (ss_payload ?x) = Some (cj_content_hash (last ?rs))" if "ss_journal_sequence ?x = length ?rs"
    using x that assms(5) by (simp add: snapshot_covers_def last_content_hash_def)
  ultimately show ?thesis
    using x assms(5, 6) numbered_ordered [OF num]
    by (auto simp: replay_def bnd_def m7_fresh_def run_simps m7_records_def replay_engine_def replay_selection_def
        truthy_def compare_snapshot_def Let_def snapshot_covers_def)
qed

definition sample_replayed :: pm7 where
  "sample_replayed = pm7_run sample_digest (Capture_snapshot 1 SS_SYSTEM)
     (pm7_run sample_digest (Ingest 0 (S_event sample_event)) sample_pm7)"

lemma sample_replayed_facts:
  "pm7_reach sample_digest sample_pm7 sample_replayed" "m7_records sample_replayed \<noteq> []"
  "m7_snapshots sample_replayed \<noteq> []"
proof -
  show "pm7_reach sample_digest sample_pm7 sample_replayed"
    unfolding sample_replayed_def by (intro pm7_reach.step sample_reach) simp
  show "m7_records sample_replayed \<noteq> []"
    using sample_records [of sample_digest] by (simp add: sample_replayed_def capture_run Let_def m7_records_def)
  show "m7_snapshots sample_replayed \<noteq> []"
    by (simp add: sample_replayed_def capture_run Let_def snapshot_service_capture_def)
qed

theorem pm7_replay_verified_iff_witness:
  "\<exists>y. fst (replay 2 RSC_SESSION None sample_replayed) = Inr y \<and> yr_state y \<in> {RS_VERIFIED, RS_DIVERGENCE_DETECTED}"
  using pm7_replay_verified_iff [OF sample_init sample_replayed_facts(1) _ _ sample_replayed_facts(2, 3), of 2 RSC_SESSION]
  by (auto simp: sample_flags_def)

end
