(* ===== verification/OperatorContracts.thy ===== *)
theory OperatorContracts
  imports PersistContracts
begin

section \<open>Contracts of the operator plane\<close>

text \<open>
  \<^verbatim>\<open>contracts/v1/operator.py\<close>, \<^verbatim>\<open>roles.py\<close>, the approval request of \<^verbatim>\<open>alerts.py\<close>, the change request of
  \<^verbatim>\<open>tuning.py\<close> and \<^verbatim>\<open>pm8_operator/config/schema.py\<close>: enumerations, records, validators. Fields whose type
  admits one literal only (no order, no broker side effect, no MT5, no live promotion) are left out.
\<close>

subsection \<open>Enumerations\<close>

datatype OperatorVerb =
    OV_HELP
  | OV_STATUS
  | OV_HEALTH
  | OV_DOCTOR
  | OV_PENDING
  | OV_LIST_ALERTS
  | OV_QUERY_JOURNAL
  | OV_ACK
  | OV_HALT
  | OV_APPROVE
  | OV_REJECT
  | OV_PROPOSE_TUNING
  | OV_PLACE_ORDER
  | OV_BUY
  | OV_SELL
  | OV_RESUME
  | OV_REARM
  | OV_ENABLE_LIVE
  | OV_CONNECT_MT5

fun verb_value :: "OperatorVerb \<Rightarrow> string" where
  "verb_value OV_HELP = ''help''"
| "verb_value OV_STATUS = ''status''"
| "verb_value OV_HEALTH = ''health''"
| "verb_value OV_DOCTOR = ''doctor''"
| "verb_value OV_PENDING = ''pending''"
| "verb_value OV_LIST_ALERTS = ''list_alerts''"
| "verb_value OV_QUERY_JOURNAL = ''query_journal''"
| "verb_value OV_ACK = ''ack''"
| "verb_value OV_HALT = ''halt''"
| "verb_value OV_APPROVE = ''approve''"
| "verb_value OV_REJECT = ''reject''"
| "verb_value OV_PROPOSE_TUNING = ''propose_tuning''"
| "verb_value OV_PLACE_ORDER = ''place_order''"
| "verb_value OV_BUY = ''buy''"
| "verb_value OV_SELL = ''sell''"
| "verb_value OV_RESUME = ''resume''"
| "verb_value OV_REARM = ''rearm''"
| "verb_value OV_ENABLE_LIVE = ''enable_live''"
| "verb_value OV_CONNECT_MT5 = ''connect_mt5''"

datatype CommandDisposition =
    CP_ACCEPTED
  | CP_REJECTED
  | CP_UNAUTHORIZED
  | CP_REFUSED
  | CP_DUPLICATE
  | CP_EXPIRED
  | CP_PENDING_HITL
  | CP_PENDING_DUAL_CONTROL

fun command_value :: "CommandDisposition \<Rightarrow> string" where
  "command_value CP_ACCEPTED = ''accepted''"
| "command_value CP_REJECTED = ''rejected''"
| "command_value CP_UNAUTHORIZED = ''unauthorized''"
| "command_value CP_REFUSED = ''refused''"
| "command_value CP_DUPLICATE = ''duplicate''"
| "command_value CP_EXPIRED = ''expired''"
| "command_value CP_PENDING_HITL = ''pending_hitl''"
| "command_value CP_PENDING_DUAL_CONTROL = ''pending_dual_control''"

datatype TransportMode =
    TM_DISABLED
  | TM_SIMULATED
  | TM_TELEGRAM_API

fun transport_value :: "TransportMode \<Rightarrow> string" where
  "transport_value TM_DISABLED = ''disabled''"
| "transport_value TM_SIMULATED = ''simulated''"
| "transport_value TM_TELEGRAM_API = ''telegram_api''"

datatype HaltState =
    HS_RUNNING
  | HS_HALT_REQUESTED
  | HS_HALTED

fun halt_value :: "HaltState \<Rightarrow> string" where
  "halt_value HS_RUNNING = ''running''"
| "halt_value HS_HALT_REQUESTED = ''halt_requested''"
| "halt_value HS_HALTED = ''halted''"

datatype OperatorRole =
    OR_OBSERVER
  | OR_OPERATOR
  | OR_RISK_OFFICER
  | OR_ADMIN

fun role_value :: "OperatorRole \<Rightarrow> string" where
  "role_value OR_OBSERVER = ''observer''"
| "role_value OR_OPERATOR = ''operator''"
| "role_value OR_RISK_OFFICER = ''risk_officer''"
| "role_value OR_ADMIN = ''admin''"

datatype PermissionScope =
    PS_READ_STATUS
  | PS_RUN_DOCTOR
  | PS_ISSUE_COMMAND
  | PS_APPROVE_INTENT
  | PS_CHANGE_TUNING
  | PS_HALT_SYSTEM

fun permission_value :: "PermissionScope \<Rightarrow> string" where
  "permission_value PS_READ_STATUS = ''read_status''"
| "permission_value PS_RUN_DOCTOR = ''run_doctor''"
| "permission_value PS_ISSUE_COMMAND = ''issue_command''"
| "permission_value PS_APPROVE_INTENT = ''approve_intent''"
| "permission_value PS_CHANGE_TUNING = ''change_tuning''"
| "permission_value PS_HALT_SYSTEM = ''halt_system''"

datatype ApprovalStatus =
    AP_PENDING
  | AP_APPROVED
  | AP_REJECTED
  | AP_EXPIRED

datatype TuningChangeStatus =
    TU_DRAFT
  | TU_PROPOSED
  | TU_VALIDATING
  | TU_ACCEPTED
  | TU_REJECTED
  | TU_SUPERSEDED

fun tuning_value :: "TuningChangeStatus \<Rightarrow> string" where
  "tuning_value TU_DRAFT = ''draft''"
| "tuning_value TU_PROPOSED = ''proposed''"
| "tuning_value TU_VALIDATING = ''validating''"
| "tuning_value TU_ACCEPTED = ''accepted''"
| "tuning_value TU_REJECTED = ''rejected''"
| "tuning_value TU_SUPERSEDED = ''superseded''"

definition REFUSED_VERBS :: "OperatorVerb list" where
  "REFUSED_VERBS = [OV_PLACE_ORDER, OV_BUY, OV_SELL, OV_RESUME, OV_REARM, OV_ENABLE_LIVE, OV_CONNECT_MT5]"

definition READ_VERBS :: "OperatorVerb list" where
  "READ_VERBS = [OV_HELP, OV_STATUS, OV_HEALTH, OV_DOCTOR, OV_PENDING, OV_LIST_ALERTS, OV_QUERY_JOURNAL]"

subsection \<open>Models\<close>

record OperatorIdentity =
  oi_actor_id :: string
  oi_display_name :: string
  oi_role :: OperatorRole
  oi_transport :: TransportMode
  oi_telegram_user_id :: "string option"

record OperatorCommand =
  oc_event_id :: uuid
  oc_correlation_id :: uuid
  oc_causation_id :: "uuid option"
  oc_idempotency_key :: string
  oc_occurred_at :: datetime
  oc_verb :: OperatorVerb
  oc_actor :: OperatorIdentity
  oc_text :: string
  oc_target_id :: "string option"
  oc_payload :: payload
  oc_channel :: string

record OperatorPublicationBundle =
  og_as_of :: datetime
  og_transport_mode :: TransportMode
  og_halt_state :: HaltState
  og_hitl_pending :: nat
  og_studio_open :: nat
  og_last_disposition :: "CommandDisposition option"
  og_enabled :: bool
  og_transport :: TransportMode
  og_audit_records :: nat

text \<open>The details of a receipt: a dictionary, or the dumped bundle of a status command.\<close>

datatype receipt_details = RD_dict payload | RD_bundle OperatorPublicationBundle

record CommandReceipt =
  ct_event_id :: uuid
  ct_correlation_id :: uuid
  ct_causation_id :: "uuid option"
  ct_idempotency_key :: string
  ct_occurred_at :: datetime
  ct_verb :: OperatorVerb
  ct_disposition :: CommandDisposition
  ct_actor_id :: string
  ct_role :: OperatorRole
  ct_message :: string
  ct_reason_code :: string
  ct_details :: receipt_details

record ApprovalRequest =
  aq_request_id :: uuid
  aq_idempotency_key :: string
  aq_occurred_at :: datetime
  aq_intent_id :: "uuid option"
  aq_status :: ApprovalStatus
  aq_requested_by :: string
  aq_note :: "string option"

record TuningChangeRequest =
  tq_request_id :: uuid
  tq_idempotency_key :: string
  tq_occurred_at :: datetime
  tq_parameter :: string
  tq_new_value :: json_value
  tq_status :: TuningChangeStatus
  tq_requested_by :: string

record RuntimeAlert =
  la_alert_id :: uuid
  la_occurred_at :: datetime
  la_code :: string
  la_message :: string
  la_severity :: string
  la_acked :: bool
  la_acked_by :: "string option"

record TelegramOutbound =
  to_chat_id :: string
  to_text :: string

subsection \<open>Validators\<close>

definition COMMAND_SECRETS :: "string list" where
  "COMMAND_SECRETS = [''token'', ''password'', ''secret'', ''api_key'', ''authorization'']"

definition secret_marked :: "string \<Rightarrow> bool" where
  "secret_marked t \<longleftrightarrow> list_ex (\<lambda>m. infix_of m (lower t)) COMMAND_SECRETS"

definition make_identity :: "OperatorIdentity \<Rightarrow> OperatorIdentity res" where
  "make_identity i =
     raise_if (blank (oi_actor_id i) \<or> blank (oi_display_name i)) (ValueError ''must be a non-empty string'')
       (Inr (i\<lparr>oi_actor_id := strip (oi_actor_id i), oi_display_name := strip (oi_display_name i)\<rparr>))"

definition make_command :: "OperatorCommand \<Rightarrow> OperatorCommand res" where
  "make_command c =
     raise_if (blank (oc_idempotency_key c)) (ValueError ''idempotency_key is required'')
     (raise_if (list_ex (\<lambda>(k, v). secret_marked k) (oc_payload c))
        (ValueError ''secret-shaped keys are forbidden on OperatorCommand'')
        (Inr (c\<lparr>oc_idempotency_key := strip (oc_idempotency_key c)\<rparr>)))"

subsection \<open>Python renderings\<close>

text \<open>
  \<^verbatim>\<open>str\<close> of a value. The texts inside a list or dictionary are quoted without escapes. A value is
  hashable unless it is a list or a dictionary.
\<close>

fun py_repr :: "json_value \<Rightarrow> string" where
  "py_repr J_null = ''None''"
| "py_repr (J_bool b) = (if b then ''True'' else ''False'')"
| "py_repr (J_int n) = int_str n"
| "py_repr (J_float x) = x"
| "py_repr (J_text t) = [CHR 0x27] @ t @ [CHR 0x27]"
| "py_repr (J_other t) = t"
| "py_repr (J_list vs) = ''['' @ join '', '' (map py_repr vs) @ '']''"
| "py_repr (J_dict d) =
     ''{'' @ join '', '' (map (\<lambda>(k, v). [CHR 0x27] @ k @ [CHR 0x27] @ '': '' @ py_repr v) d) @ ''}''"

definition py_str :: "json_value \<Rightarrow> string" where
  "py_str v = (case v of J_text t \<Rightarrow> t | _ \<Rightarrow> py_repr v)"

definition hashable :: "json_value \<Rightarrow> bool" where
  "hashable v \<longleftrightarrow> (case v of J_list _ \<Rightarrow> False | J_dict _ \<Rightarrow> False | _ \<Rightarrow> True)"

subsection \<open>Configuration\<close>

record Pm8OperatorConfig =
  p8_operating_mode :: string
  p8_observe_only :: bool
  p8_approval_ttl_seconds :: int
  p8_halt_requires_dual_control :: bool
  p8_allow_purge :: bool
  p8_mt5_enabled :: bool
  p8_broker_commands :: bool
  p8_telegram_api :: bool
  p8_auto_rearm :: bool
  p8_auto_promote_to_live :: bool
  p8_telemetry_verbose :: bool
  p8_hitl_enabled :: bool
  p8_studio_enabled :: bool
  p8_audit_enabled :: bool
  p8_query_limit :: int
  p8_allowlisted_user_ids :: "string list"

definition pm8_config_ok :: "Pm8OperatorConfig \<Rightarrow> bool" where
  "pm8_config_ok c \<longleftrightarrow>
     p8_operating_mode c \<in> {''disabled'', ''simulated''} \<and> 30 \<le> p8_approval_ttl_seconds c \<and>
     p8_approval_ttl_seconds c \<le> 86400 \<and> 1 \<le> p8_query_limit c \<and> p8_query_limit c \<le> 100 \<and>
     \<not> p8_auto_rearm c \<and> \<not> p8_mt5_enabled c \<and> \<not> p8_broker_commands c \<and> \<not> p8_telegram_api c \<and>
     \<not> p8_auto_promote_to_live c \<and> \<not> p8_allow_purge c"

definition pm8_config_default :: Pm8OperatorConfig where
  "pm8_config_default =
     \<lparr>p8_operating_mode = ''simulated'', p8_observe_only = True, p8_approval_ttl_seconds = 900,
      p8_halt_requires_dual_control = False, p8_allow_purge = False, p8_mt5_enabled = False,
      p8_broker_commands = False, p8_telegram_api = False, p8_auto_rearm = False,
      p8_auto_promote_to_live = False, p8_telemetry_verbose = True, p8_hitl_enabled = True,
      p8_studio_enabled = False, p8_audit_enabled = True, p8_query_limit = 20, p8_allowlisted_user_ids = []\<rparr>"

lemma pm8_config_default_ok: "pm8_config_ok pm8_config_default"
  by (simp add: pm8_config_ok_def pm8_config_default_def)

end
