(* ===== verification/OperatorModule.thy ===== *)
theory OperatorModule
  imports OperatorContracts
begin

section \<open>The operator plane\<close>

text \<open>
  \<^verbatim>\<open>pm8_operator\<close>: parser, role matrix, approval queue, studio, audit, simulated transport, publication
  and health (each a few definitions), and the commands of \<^verbatim>\<open>commands/router.py\<close> with the module that
  owns their state. Clock readings are arguments, \<open>o8_fresh\<close> stands for \<^verbatim>\<open>uuid4\<close>. What a bound
  persistence reports of its health is an argument of the status command. The scopes of a role are
  listed in the order of their enumeration.
\<close>

subsection \<open>Parser\<close>

text \<open>\<^verbatim>\<open>text.split()\<close>\<close>

function words :: "string \<Rightarrow> string list" where
  "words s =
     (let t = dropWhile is_space s in
      if t = [] then [] else takeWhile (\<lambda>c. \<not> is_space c) t # words (dropWhile (\<lambda>c. \<not> is_space c) t))"
  by pat_completeness auto
termination
proof (relation "measure length")
  fix s t :: string
  assume t: "t = dropWhile is_space s" "t \<noteq> []"
  then obtain c r where "t = c # r" "\<not> is_space c" by (metis hd_dropWhile list.collapse)
  then have "length (dropWhile (\<lambda>c. \<not> is_space c) t) \<le> length r" by (simp add: length_dropWhile_le)
  also have "length r < length s" using t(1) \<open>t = c # r\<close> length_dropWhile_le [of is_space s] by (metis Suc_le_eq length_Cons)
  finally show "(dropWhile (\<lambda>c. \<not> is_space c) t, s) \<in> measure length" by simp
qed simp

declare words.simps [simp del]

definition VERB_ALIASES :: "(string, OperatorVerb) dict" where
  "VERB_ALIASES =
    [(''help'', OV_HELP), (''start'', OV_HELP), (''status'', OV_STATUS), (''health'', OV_HEALTH),
     (''doctor'', OV_DOCTOR), (''pending'', OV_PENDING), (''alerts'', OV_LIST_ALERTS),
     (''list_alerts'', OV_LIST_ALERTS), (''journal'', OV_QUERY_JOURNAL), (''query'', OV_QUERY_JOURNAL),
     (''ack'', OV_ACK), (''acknowledge'', OV_ACK), (''halt'', OV_HALT), (''stop'', OV_HALT), (''kill'', OV_HALT),
     (''approve'', OV_APPROVE), (''reject'', OV_REJECT), (''deny'', OV_REJECT), (''propose'', OV_PROPOSE_TUNING),
     (''tune'', OV_PROPOSE_TUNING), (''buy'', OV_BUY), (''sell'', OV_SELL), (''order'', OV_PLACE_ORDER),
     (''place'', OV_PLACE_ORDER), (''trade'', OV_PLACE_ORDER), (''resume'', OV_RESUME), (''rearm'', OV_REARM),
     (''live'', OV_ENABLE_LIVE), (''enable_live'', OV_ENABLE_LIVE), (''mt5'', OV_CONNECT_MT5),
     (''connect'', OV_CONNECT_MT5)]"

definition command_head :: "string \<Rightarrow> string" where
  "command_head w = map (\<lambda>c. if c = CHR ''-'' then CHR ''_'' else c) (lower w)"

definition drop_command_slash :: "string \<Rightarrow> string" where
  "drop_command_slash raw = (if take 1 raw = ''/'' then drop 1 raw else raw)"

definition parse_text :: "string \<Rightarrow> OperatorVerb \<times> string option \<times> payload" where
  "parse_text text =
     (case words (drop_command_slash (strip text)) of
        [] \<Rightarrow> (OV_HELP, None, [])
      | w # rest \<Rightarrow>
          (let h = command_head w in
           case (case dict_get VERB_ALIASES h of Some v \<Rightarrow> Some v
                 | None \<Rightarrow> if h \<in> {''?'', ''h''} then Some OV_HELP else None) of
             None \<Rightarrow>
               (if h \<in> {''long'', ''short'', ''market'', ''limit'', ''close''}
                then (OV_PLACE_ORDER, None, [(''raw'', J_text text)]) else (OV_HELP, None, [(''unknown'', J_text h)]))
           | Some verb \<Rightarrow>
               (case rest of
                  [] \<Rightarrow> (verb, None, [])
                | target # args \<Rightarrow>
                    (verb, Some target,
                     if verb = OV_PROPOSE_TUNING \<and> args \<noteq> []
                     then [(''parameter'', J_text target), (''new_value'', J_text (join '' '' args))]
                     else [(''target_id'', J_text target)]))))"

subsection \<open>Roles\<close>

definition OPERATOR_EXTRA :: "OperatorVerb list" where
  "OPERATOR_EXTRA = [OV_ACK, OV_PROPOSE_TUNING]"

definition RISK_EXTRA :: "OperatorVerb list" where
  "RISK_EXTRA = [OV_HALT, OV_APPROVE, OV_REJECT]"

definition allowed_verbs :: "OperatorRole \<Rightarrow> OperatorVerb list" where
  "allowed_verbs role =
     filter (\<lambda>v. v \<notin> set REFUSED_VERBS)
       (READ_VERBS @ (if role \<in> {OR_OPERATOR, OR_RISK_OFFICER, OR_ADMIN} then OPERATOR_EXTRA else []) @
        (if role \<in> {OR_RISK_OFFICER, OR_ADMIN} then RISK_EXTRA else []))"

definition has_permission :: "OperatorRole \<Rightarrow> OperatorVerb \<Rightarrow> bool" where
  "has_permission role v \<longleftrightarrow> v \<notin> set REFUSED_VERBS \<and> v \<in> set (allowed_verbs role)"

definition scopes_for :: "OperatorRole \<Rightarrow> PermissionScope list" where
  "scopes_for role =
     (if role = OR_OBSERVER then [PS_READ_STATUS, PS_RUN_DOCTOR]
      else [PS_READ_STATUS, PS_RUN_DOCTOR, PS_ISSUE_COMMAND] @
           (if role \<in> {OR_RISK_OFFICER, OR_ADMIN} then [PS_APPROVE_INTENT] else []) @
           (if role \<in> {OR_OPERATOR, OR_RISK_OFFICER, OR_ADMIN} then [PS_CHANGE_TUNING] else []) @
           (if role \<in> {OR_RISK_OFFICER, OR_ADMIN} then [PS_HALT_SYSTEM] else []))"

subsection \<open>Approval queue\<close>

type_synonym hitl = "(string, ApprovalRequest) dict"

definition hitl_enqueue :: "ApprovalRequest \<Rightarrow> hitl \<Rightarrow> ApprovalRequest \<times> hitl" where
  "hitl_enqueue r q =
     (case dict_get q (uuid_str (aq_request_id r)) of Some x \<Rightarrow> (x, q)
      | None \<Rightarrow> (r, dict_put (uuid_str (aq_request_id r)) r q))"

definition request_due :: "int \<Rightarrow> datetime \<Rightarrow> ApprovalRequest \<Rightarrow> bool" where
  "request_due ttl now r \<longleftrightarrow> aq_status r = AP_PENDING \<and> now - aq_occurred_at r \<ge> seconds ttl"

definition hitl_expire_due :: "int \<Rightarrow> datetime \<Rightarrow> hitl \<Rightarrow> hitl" where
  "hitl_expire_due ttl now q =
     map (\<lambda>(k, r). (k, if request_due ttl now r then r\<lparr>aq_status := AP_EXPIRED\<rparr> else r)) q"

definition hitl_decide :: "string \<Rightarrow> bool \<Rightarrow> string \<Rightarrow> hitl \<Rightarrow> ApprovalRequest option \<times> hitl" where
  "hitl_decide k approved actor q =
     (case dict_get q k of
        None \<Rightarrow> (None, q)
      | Some r \<Rightarrow>
          if aq_status r \<noteq> AP_PENDING then (Some r, q)
          else
            (let u = r\<lparr>aq_status := (if approved then AP_APPROVED else AP_REJECTED),
                       aq_note := Some ((if approved then ''approved'' else ''rejected'') @ '' by '' @ actor)\<rparr>
             in (Some u, dict_put k u q)))"

definition hitl_pending :: "hitl \<Rightarrow> ApprovalRequest list" where
  "hitl_pending q = filter (\<lambda>r. aq_status r = AP_PENDING) (dict_values q)"

definition intent_request :: "uuid \<Rightarrow> uuid \<Rightarrow> string \<Rightarrow> datetime \<Rightarrow> ApprovalRequest" where
  "intent_request i k actor now =
     \<lparr>aq_request_id = i, aq_idempotency_key = ''hitl:'' @ uuid_str k, aq_occurred_at = now, aq_intent_id = None,
      aq_status = AP_PENDING, aq_requested_by = actor, aq_note = Some ''operator_hitl''\<rparr>"

subsection \<open>Studio\<close>

type_synonym studio = "(string, TuningChangeRequest) dict"

definition studio_propose ::
  "uuid \<Rightarrow> string \<Rightarrow> datetime \<Rightarrow> string \<Rightarrow> json_value \<Rightarrow> string \<Rightarrow> studio \<Rightarrow> TuningChangeRequest \<times> studio" where
  "studio_propose i actor now name v key d =
     (let r = \<lparr>tq_request_id = i, tq_idempotency_key = key, tq_occurred_at = now, tq_parameter = name,
               tq_new_value = v, tq_status = TU_PROPOSED, tq_requested_by = actor\<rparr>
      in case dict_get d key of Some x \<Rightarrow> (x, d)
         | None \<Rightarrow> (r, dict_put (uuid_str i) r (dict_put key r d)))"

definition studio_accept :: "string \<Rightarrow> studio \<Rightarrow> TuningChangeRequest option \<times> studio" where
  "studio_accept k d =
     (case dict_get d k of
        None \<Rightarrow> (None, d)
      | Some r \<Rightarrow>
          if tq_status r \<noteq> TU_PROPOSED then (Some r, d)
          else (let u = r\<lparr>tq_status := TU_ACCEPTED\<rparr> in (Some u, dict_put (tq_idempotency_key u) u (dict_put k u d))))"

definition studio_reject :: "string \<Rightarrow> studio \<Rightarrow> TuningChangeRequest option \<times> studio" where
  "studio_reject k d =
     (case dict_get d k of
        None \<Rightarrow> (None, d)
      | Some r \<Rightarrow> (let u = r\<lparr>tq_status := TU_REJECTED\<rparr> in (Some u, dict_put k u d)))"

text \<open>\<^verbatim>\<open>dict.fromkeys\<close> hashes every request, with its new value.\<close>

definition studio_open :: "studio \<Rightarrow> TuningChangeRequest list res" where
  "studio_open d =
     raise_if (\<not> list_all (\<lambda>r. hashable (tq_new_value r)) (dict_values d)) (TypeError ''unhashable type'')
       (Inr (filter (\<lambda>r. tq_status r \<in> {TU_DRAFT, TU_PROPOSED, TU_VALIDATING}) (fromkeys (dict_values d))))"

subsection \<open>Audit, transport, health\<close>

record audit_row =
  aw_idempotency_key :: string
  aw_verb :: string
  aw_actor_id :: string
  aw_role :: string
  aw_disposition :: string
  aw_reason_code :: string
  aw_text :: string
  aw_occurred_at :: datetime

definition audit_clean :: "string \<Rightarrow> string" where
  "audit_clean t = (if secret_marked t then ''[redacted]'' else t)"

definition audit_record :: "OperatorCommand \<Rightarrow> CommandReceipt \<Rightarrow> audit_row" where
  "audit_record c r =
     \<lparr>aw_idempotency_key = ct_idempotency_key r, aw_verb = verb_value (oc_verb c),
      aw_actor_id = oi_actor_id (oc_actor c), aw_role = role_value (oi_role (oc_actor c)),
      aw_disposition = command_value (ct_disposition r), aw_reason_code = ct_reason_code r,
      aw_text = audit_clean (oc_text c), aw_occurred_at = ct_occurred_at r\<rparr>"

definition format_receipt :: "CommandReceipt \<Rightarrow> string" where
  "format_receipt r =
     ''['' @ command_value (ct_disposition r) @ ''] '' @ verb_value (ct_verb r) @ [CHR 0x0A] @ ct_message r @ [CHR 0x0A] @
     ''reason='' @ ct_reason_code r @ '' actor='' @ ct_actor_id r @ [CHR 0x0A] @
     ''order=false pm4_skip=false mt5=false''"

record CheckResult =
  ck_name :: string
  ck_passed :: bool
  ck_critical :: bool
  ck_message :: string

definition op_health_checks ::
  "bool \<Rightarrow> bool \<Rightarrow> TransportMode \<Rightarrow> HaltState \<Rightarrow> bool \<Rightarrow> bool \<Rightarrow> CheckResult list" where
  "op_health_checks startup enabled transport halt telegram mt5 =
     [\<lparr>ck_name = (if startup then ''operator.startup'' else ''operator.liveness''), ck_passed = True, ck_critical = False,
       ck_message = (if enabled then ''pm8 operator kernel assembled'' else ''NullOperator path; flag off'')\<rparr>,
      \<lparr>ck_name = ''operator.no_mt5'', ck_passed = (\<not> mt5), ck_critical = True, ck_message = ''mt5 unbound''\<rparr>,
      \<lparr>ck_name = ''operator.no_telegram_api'', ck_passed = (\<not> telegram \<and> transport \<noteq> TM_TELEGRAM_API),
       ck_critical = True, ck_message = ''telegram bot api unbound''\<rparr>,
      \<lparr>ck_name = ''operator.transport'', ck_passed = (transport \<in> {TM_DISABLED, TM_SIMULATED}), ck_critical = True,
       ck_message = ''transport='' @ transport_value transport\<rparr>,
      \<lparr>ck_name = ''operator.execution_permitted'', ck_passed = True, ck_critical = True,
       ck_message = ''execution_permitted=false''\<rparr>,
      \<lparr>ck_name = ''operator.halt_state'', ck_passed = True, ck_critical = False,
       ck_message = ''halt_state='' @ halt_value halt\<rparr>]"

subsection \<open>State\<close>

record pm8 =
  o8_config :: Pm8OperatorConfig
  o8_feature_enabled :: bool
  o8_ledger_bound :: bool
  o8_transport_mode :: TransportMode
  o8_halt_state :: HaltState
  o8_dual_halt_actor :: "string option"
  o8_hitl :: hitl
  o8_studio :: studio
  o8_audit :: "audit_row list"
  o8_inbox :: "OperatorCommand list"
  o8_outbox :: "TelegramOutbound list"
  o8_alerts :: "RuntimeAlert list"
  o8_idempotency :: "(string, CommandReceipt) dict"
  o8_last_bundle :: "OperatorPublicationBundle option"
  o8_last_disposition :: "CommandDisposition option"
  o8_next_id :: uuid

definition pm8_init :: "Pm8OperatorConfig \<Rightarrow> bool \<Rightarrow> bool \<Rightarrow> pm8" where
  "pm8_init c feature ledger =
     \<lparr>o8_config = c, o8_feature_enabled = feature, o8_ledger_bound = ledger,
      o8_transport_mode = (if feature \<and> p8_operating_mode c = ''simulated'' then TM_SIMULATED else TM_DISABLED),
      o8_halt_state = HS_RUNNING, o8_dual_halt_actor = None, o8_hitl = [], o8_studio = [], o8_audit = [],
      o8_inbox = [], o8_outbox = [], o8_alerts = [], o8_idempotency = [], o8_last_bundle = None,
      o8_last_disposition = None, o8_next_id = 0\<rparr>"

definition o8_fresh :: "(pm8, uuid) comp" where
  "o8_fresh s = (Inr (o8_next_id s), s\<lparr>o8_next_id := Suc (o8_next_id s)\<rparr>)"

definition bind_persistence :: "(pm8, unit) comp" where
  "bind_persistence = upd_st (\<lambda>s. s\<lparr>o8_ledger_bound := True\<rparr>)"

definition is_ready :: "pm8 \<Rightarrow> bool" where
  "is_ready s \<longleftrightarrow> o8_feature_enabled s \<and> o8_transport_mode s = TM_SIMULATED"

definition raise_alert :: "datetime \<Rightarrow> string \<Rightarrow> string \<Rightarrow> string \<Rightarrow> (pm8, RuntimeAlert) comp" where
  "raise_alert now code message severity =
     bnd o8_fresh (\<lambda>i.
     let a = \<lparr>la_alert_id = i, la_occurred_at = now, la_code = code, la_message = message, la_severity = severity,
              la_acked = False, la_acked_by = None\<rparr>
     in bnd (upd_st (\<lambda>s. s\<lparr>o8_alerts := o8_alerts s @ [a]\<rparr>)) (\<lambda>_. ret a))"

definition operator_bundle :: "datetime \<Rightarrow> nat \<Rightarrow> pm8 \<Rightarrow> OperatorPublicationBundle" where
  "operator_bundle now open_count s =
     \<lparr>og_as_of = now, og_transport_mode = TM_SIMULATED, og_halt_state = o8_halt_state s,
      og_hitl_pending = length (hitl_pending (o8_hitl s)), og_studio_open = open_count,
      og_last_disposition = o8_last_disposition s, og_enabled = o8_feature_enabled s,
      og_transport = o8_transport_mode s, og_audit_records = length (o8_audit s)\<rparr>"

definition o8_publish :: "datetime \<Rightarrow> (pm8, OperatorPublicationBundle) comp" where
  "o8_publish now =
     bnd (get_st (\<lambda>s. studio_open (o8_studio s))) (\<lambda>r.
     bnd (lift_res r) (\<lambda>rs.
     bnd (get_st (operator_bundle now (length rs))) (\<lambda>b.
     bnd (upd_st (\<lambda>s. s\<lparr>o8_last_bundle := Some b\<rparr>)) (\<lambda>_. ret b))))"

subsection \<open>Commands\<close>

definition receipt ::
  "OperatorCommand \<Rightarrow> datetime \<Rightarrow> CommandDisposition \<Rightarrow> string \<Rightarrow> string \<Rightarrow> receipt_details \<Rightarrow> (pm8, CommandReceipt) comp" where
  "receipt c now d message reason details =
     bnd o8_fresh (\<lambda>i. ret
       \<lparr>ct_event_id = i, ct_correlation_id = oc_correlation_id c, ct_causation_id = Some (oc_event_id c),
        ct_idempotency_key = oc_idempotency_key c, ct_occurred_at = now, ct_verb = oc_verb c, ct_disposition = d,
        ct_actor_id = oi_actor_id (oc_actor c), ct_role = oi_role (oc_actor c), ct_message = message,
        ct_reason_code = reason, ct_details = details\<rparr>)"

text \<open>\<^verbatim>\<open>command.target_id or command.payload.get("target_id")\<close>, if true.\<close>

definition command_target :: "OperatorCommand \<Rightarrow> string option" where
  "command_target c =
     (if truthy (oc_target_id c) then oc_target_id c
      else case map_of (oc_payload c) ''target_id'' of
             None \<Rightarrow> None | Some v \<Rightarrow> if json_truthy v then Some (py_str v) else None)"

text \<open>What the bound persistence reports: version, number of events, integrity.\<close>

type_synonym store_health = "string \<times> string \<times> string"

definition health_text :: "store_health option \<Rightarrow> string" where
  "health_text h =
     (case h of None \<Rightarrow> []
      | Some (v, n, i) \<Rightarrow> '' persistence='' @ v @ '' events='' @ n @ '' integrity='' @ i)"

definition cmd_status :: "store_health option \<Rightarrow> OperatorCommand \<Rightarrow> datetime \<Rightarrow> datetime \<Rightarrow> (pm8, CommandReceipt) comp" where
  "cmd_status h c now pub =
     bnd (o8_publish pub) (\<lambda>b.
     receipt c now CP_ACCEPTED
       (''halt='' @ halt_value (og_halt_state b) @ '' transport='' @ transport_value (og_transport_mode b) @
        '' hitl='' @ nat_str (og_hitl_pending b) @ '' live=false'' @ health_text h)
       ''status'' (RD_bundle b))"

definition cmd_health :: "OperatorCommand \<Rightarrow> datetime \<Rightarrow> (pm8, CommandReceipt) comp" where
  "cmd_health c now =
     bnd (get_st (\<lambda>s. op_health_checks False (o8_feature_enabled s) (o8_transport_mode s) (o8_halt_state s) False False)) (\<lambda>cs.
     let failed = map ck_name (filter (\<lambda>x. \<not> ck_passed x) cs) in
     receipt c now CP_ACCEPTED (if failed = [] then ''health ok'' else ''failed:'' @ join '','' failed) ''health''
       (RD_dict [(''failed'', texts_json failed), (''count'', J_int (int (length cs)))]))"

definition cmd_pending :: "OperatorCommand \<Rightarrow> datetime \<Rightarrow> (pm8, CommandReceipt) comp" where
  "cmd_pending c now =
     bnd (get_st (\<lambda>s. hitl_pending (o8_hitl s))) (\<lambda>rs.
     receipt c now CP_ACCEPTED (nat_str (length rs) @ '' pending HITL requests'') ''pending''
       (RD_dict [(''ids'', texts_json (map (\<lambda>r. uuid_str (aq_request_id r)) rs))]))"

definition cmd_alerts :: "OperatorCommand \<Rightarrow> datetime \<Rightarrow> (pm8, CommandReceipt) comp" where
  "cmd_alerts c now =
     bnd (get_st (\<lambda>s. filter (\<lambda>a. \<not> la_acked a) (o8_alerts s))) (\<lambda>as.
     receipt c now CP_ACCEPTED (nat_str (length as) @ '' unacked alerts'') ''alerts''
       (RD_dict [(''ids'', texts_json (map (\<lambda>a. uuid_str (la_alert_id a)) as))]))"

definition cmd_journal :: "OperatorCommand \<Rightarrow> datetime \<Rightarrow> (pm8, CommandReceipt) comp" where
  "cmd_journal c now =
     bnd (get_st o8_ledger_bound) (\<lambda>bound.
     if \<not> bound then receipt c now CP_ACCEPTED ''ledger_unavailable'' ''ledger_unavailable'' (RD_dict [])
     else receipt c now CP_ACCEPTED ''journal query accepted (headless)'' ''journal_query'' (RD_dict []))"

text \<open>The first alert with the identifier is acknowledged.\<close>

fun ack_first :: "string \<Rightarrow> string \<Rightarrow> RuntimeAlert list \<Rightarrow> RuntimeAlert list" where
  "ack_first target actor [] = []"
| "ack_first target actor (a # as) =
     (if uuid_str (la_alert_id a) = target then a\<lparr>la_acked := True, la_acked_by := Some actor\<rparr> # as
      else a # ack_first target actor as)"

definition cmd_ack :: "OperatorCommand \<Rightarrow> datetime \<Rightarrow> (pm8, CommandReceipt) comp" where
  "cmd_ack c now =
     (case command_target c of
        None \<Rightarrow> receipt c now CP_REJECTED ''ack requires a target id'' ''missing_target'' (RD_dict [])
      | Some t \<Rightarrow>
          bnd (get_st (\<lambda>s. list_ex (\<lambda>a. uuid_str (la_alert_id a) = t) (o8_alerts s))) (\<lambda>found.
          if \<not> found then receipt c now CP_REJECTED ''alert not found'' ''not_found'' (RD_dict [])
          else
            bnd (upd_st (\<lambda>s. s\<lparr>o8_alerts := ack_first t (oi_actor_id (oc_actor c)) (o8_alerts s)\<rparr>)) (\<lambda>_.
            receipt c now CP_ACCEPTED (''acked '' @ t) ''acked'' (RD_dict []))))"

definition cmd_halt :: "OperatorCommand \<Rightarrow> datetime \<Rightarrow> (pm8, CommandReceipt) comp" where
  "cmd_halt c now =
     bnd (get_st (\<lambda>s. (p8_halt_requires_dual_control (o8_config s) \<and> o8_halt_state s = HS_RUNNING, o8_dual_halt_actor s)))
     (\<lambda>(dual, first).
       if dual \<and> first = None
       then bnd (upd_st (\<lambda>s. s\<lparr>o8_dual_halt_actor := Some (oi_actor_id (oc_actor c))\<rparr>)) (\<lambda>_.
            receipt c now CP_PENDING_DUAL_CONTROL ''halt waiting for a second distinct actor'' ''dual_control'' (RD_dict []))
       else if dual \<and> first = Some (oi_actor_id (oc_actor c))
       then receipt c now CP_PENDING_DUAL_CONTROL ''same actor cannot complete dual control'' ''dual_control_same_actor''
              (RD_dict [])
       else bnd (upd_st (\<lambda>s. s\<lparr>o8_halt_state := HS_HALTED, o8_dual_halt_actor := None\<rparr>)) (\<lambda>_.
            receipt c now CP_ACCEPTED
              ''halt requested and recorded. auto-rearm is forbidden. this is not a broker flatten.'' ''halted''
              (RD_dict [(''halt_state'', J_text (halt_value HS_HALTED)), (''broker_flatten'', J_bool False)])))"

definition o8_decide :: "string \<Rightarrow> bool \<Rightarrow> string \<Rightarrow> (pm8, ApprovalRequest option) comp" where
  "o8_decide t approved actor s =
     (case hitl_decide t approved actor (o8_hitl s) of (r, q) \<Rightarrow> (Inr r, s\<lparr>o8_hitl := q\<rparr>))"

definition o8_open_request :: "string \<Rightarrow> datetime \<Rightarrow> (pm8, ApprovalRequest) comp" where
  "o8_open_request actor now =
     bnd o8_fresh (\<lambda>k. bnd o8_fresh (\<lambda>i s.
       case hitl_enqueue (intent_request i k actor now) (o8_hitl s) of (r, q) \<Rightarrow> (Inr r, s\<lparr>o8_hitl := q\<rparr>)))"

definition decision_receipt :: "OperatorCommand \<Rightarrow> datetime \<Rightarrow> ApprovalRequest option \<Rightarrow> (pm8, CommandReceipt) comp" where
  "decision_receipt c now x =
     (case x of
        None \<Rightarrow> receipt c now CP_REJECTED ''HITL request not found'' ''not_found'' (RD_dict [])
      | Some r \<Rightarrow>
          if aq_status r = AP_EXPIRED then receipt c now CP_EXPIRED ''HITL request expired'' ''expired'' (RD_dict [])
          else if aq_status r = AP_APPROVED
          then receipt c now CP_ACCEPTED
                 ''HITL approved. Consent recorded. PM4 is still the only gate. No OrderRequest emitted.''
                 ''hitl_approved_not_an_order''
                 (RD_dict [(''request_id'', J_text (uuid_str (aq_request_id r))), (''order_emitted'', J_bool False)])
          else receipt c now CP_ACCEPTED ''HITL rejected'' ''hitl_rejected''
                 (RD_dict [(''request_id'', J_text (uuid_str (aq_request_id r)))]))"

definition cmd_decide :: "OperatorCommand \<Rightarrow> datetime \<Rightarrow> (pm8, CommandReceipt) comp" where
  "cmd_decide c now =
     bnd (get_st (\<lambda>s. p8_hitl_enabled (o8_config s))) (\<lambda>on.
     if \<not> on then receipt c now CP_REFUSED ''HITL flag is off'' ''hitl_disabled'' (RD_dict [])
     else
       case command_target c of
         None \<Rightarrow>
           bnd (o8_open_request (oi_actor_id (oc_actor c)) now) (\<lambda>r.
           receipt c now CP_PENDING_HITL (''opened HITL request '' @ uuid_str (aq_request_id r)) ''hitl_opened''
             (RD_dict [(''request_id'', J_text (uuid_str (aq_request_id r))), (''skips_pm4'', J_bool False)]))
       | Some t \<Rightarrow>
           bnd (o8_decide t (oc_verb c = OV_APPROVE) (oi_actor_id (oc_actor c))) (decision_receipt c now))"

definition proposal_name :: "OperatorCommand \<Rightarrow> string" where
  "proposal_name c =
     (case map_of (oc_payload c) ''parameter'' of
        Some v \<Rightarrow> if json_truthy v then py_str v else or_else (oc_target_id c) ''unnamed''
      | None \<Rightarrow> or_else (oc_target_id c) ''unnamed'')"

definition o8_propose :: "OperatorCommand \<Rightarrow> datetime \<Rightarrow> (pm8, TuningChangeRequest) comp" where
  "o8_propose c now =
     bnd o8_fresh (\<lambda>i s.
       case studio_propose i (oi_actor_id (oc_actor c)) now (proposal_name c)
              (case map_of (oc_payload c) ''new_value'' of None \<Rightarrow> J_text [] | Some v \<Rightarrow> v)
              (oc_idempotency_key c) (o8_studio s) of
         (r, d) \<Rightarrow> (Inr r, s\<lparr>o8_studio := d\<rparr>))"

definition cmd_propose :: "OperatorCommand \<Rightarrow> datetime \<Rightarrow> (pm8, CommandReceipt) comp" where
  "cmd_propose c now =
     bnd (get_st (\<lambda>s. p8_studio_enabled (o8_config s))) (\<lambda>on.
     if \<not> on then receipt c now CP_REFUSED ''studio flag is off'' ''studio_disabled'' (RD_dict [])
     else
       bnd (o8_propose c now) (\<lambda>r.
       receipt c now CP_ACCEPTED
         (''research proposal '' @ uuid_str (tq_request_id r) @ '' recorded; auto_promote_to_live=false'') ''studio_proposed''
         (RD_dict [(''request_id'', J_text (uuid_str (tq_request_id r))), (''auto_promote_to_live'', J_bool False),
                   (''status'', J_text (tuning_value (tq_status r)))])))"

definition HELP_MESSAGE :: string where
  "HELP_MESSAGE = ''Allowed: /status /health /doctor /pending /alerts /journal /ack /halt /approve /reject /propose. Refused: /buy /sell /order /resume /rearm /live /mt5.''"

fun run_verb :: "store_health option \<Rightarrow> OperatorVerb \<Rightarrow> OperatorCommand \<Rightarrow> datetime \<Rightarrow> datetime \<Rightarrow> (pm8, CommandReceipt) comp" where
  "run_verb h OV_HELP c now pub = receipt c now CP_ACCEPTED HELP_MESSAGE ''help'' (RD_dict [])"
| "run_verb h OV_STATUS c now pub = cmd_status h c now pub"
| "run_verb h OV_HEALTH c now pub = cmd_health c now"
| "run_verb h OV_DOCTOR c now pub =
     receipt c now CP_ACCEPTED
       ''doctor: live disabled, mt5 unbound, telegram api unbound, pm4 exclusive, execution_permitted=false''
       ''doctor'' (RD_dict [])"
| "run_verb h OV_PENDING c now pub = cmd_pending c now"
| "run_verb h OV_LIST_ALERTS c now pub = cmd_alerts c now"
| "run_verb h OV_QUERY_JOURNAL c now pub = cmd_journal c now"
| "run_verb h OV_ACK c now pub = cmd_ack c now"
| "run_verb h OV_HALT c now pub = cmd_halt c now"
| "run_verb h OV_APPROVE c now pub = cmd_decide c now"
| "run_verb h OV_REJECT c now pub = cmd_decide c now"
| "run_verb h OV_PROPOSE_TUNING c now pub = cmd_propose c now"
| "run_verb h _ c now pub = receipt c now CP_REJECTED ''unhandled verb'' ''unhandled'' (RD_dict [])"

definition dispatch :: "store_health option \<Rightarrow> OperatorCommand \<Rightarrow> datetime \<Rightarrow> datetime \<Rightarrow> (pm8, CommandReceipt) comp" where
  "dispatch h c now pub =
     bnd (upd_st (\<lambda>s. s\<lparr>o8_hitl := hitl_expire_due (p8_approval_ttl_seconds (o8_config s)) now (o8_hitl s)\<rparr>)) (\<lambda>_.
     if oc_verb c \<in> set REFUSED_VERBS
     then receipt c now CP_REFUSED ''Command is forbidden on the operator plane. It is not an order path.'' ''verb_refused''
            (RD_dict [(''execution_permitted'', J_bool False)])
     else if \<not> has_permission (oi_role (oc_actor c)) (oc_verb c)
     then receipt c now CP_UNAUTHORIZED
            (''role '' @ role_value (oi_role (oc_actor c)) @ '' cannot '' @ verb_value (oc_verb c)) ''rbac_denied''
            (RD_dict [(''scopes'', texts_json (map permission_value (scopes_for (oi_role (oc_actor c)))))])
     else run_verb h (oc_verb c) c now pub)"

text \<open>\<^verbatim>\<open>{**command.payload, **payload}\<close>\<close>

definition command_from_text :: "OperatorCommand \<Rightarrow> OperatorCommand" where
  "command_from_text c =
     (if oc_text c \<noteq> [] \<and> oc_verb c = OV_HELP
      then (case parse_text (oc_text c) of (verb, target, p) \<Rightarrow>
            c\<lparr>oc_verb := verb, oc_target_id := (if truthy target then target else oc_target_id c),
              oc_payload := fold (\<lambda>(k, v) d. dict_put k v d) p (oc_payload c)\<rparr>)
      else c)"

definition o8_settle :: "OperatorCommand \<Rightarrow> CommandReceipt \<Rightarrow> (pm8, CommandReceipt) comp" where
  "o8_settle c r =
     bnd (upd_st (\<lambda>s. s\<lparr>o8_idempotency := dict_put (oc_idempotency_key c) r (o8_idempotency s),
                        o8_last_disposition := Some (ct_disposition r)\<rparr>)) (\<lambda>_.
     bnd (upd_st (\<lambda>s. if p8_audit_enabled (o8_config s) then s\<lparr>o8_audit := o8_audit s @ [audit_record c r]\<rparr> else s)) (\<lambda>_.
     bnd (upd_st (\<lambda>s. s\<lparr>o8_inbox := o8_inbox s @ [c]\<rparr>)) (\<lambda>_.
     bnd (upd_st (\<lambda>s. s\<lparr>o8_outbox := o8_outbox s @
            [\<lparr>to_chat_id = or_else (oi_telegram_user_id (oc_actor c)) ''console'', to_text = format_receipt r\<rparr>]\<rparr>)) (\<lambda>_.
     ret r))))"

definition handle :: "store_health option \<Rightarrow> OperatorCommand \<Rightarrow> datetime \<Rightarrow> datetime \<Rightarrow> (pm8, CommandReceipt) comp" where
  "handle h raw now pub =
     (let c = command_from_text raw in
      bnd (get_st (\<lambda>s. dict_get (o8_idempotency s) (oc_idempotency_key c))) (\<lambda>known.
      case known of
        Some r \<Rightarrow> ret (r\<lparr>ct_disposition := CP_DUPLICATE, ct_reason_code := ''duplicate''\<rparr>)
      | None \<Rightarrow> bnd (dispatch h c now pub) (o8_settle c)))"

definition handle_text ::
  "store_health option \<Rightarrow> string \<Rightarrow> OperatorIdentity \<Rightarrow> string option \<Rightarrow> datetime \<Rightarrow> datetime \<Rightarrow> datetime \<Rightarrow>
   (pm8, CommandReceipt) comp" where
  "handle_text h text actor key sent now pub =
     (case parse_text text of (verb, target, p) \<Rightarrow>
      bnd o8_fresh (\<lambda>e. bnd o8_fresh (\<lambda>k.
      bnd (lift_res (make_command
        \<lparr>oc_event_id = e, oc_correlation_id = k, oc_causation_id = None,
         oc_idempotency_key = or_else key (oi_actor_id actor @ '':'' @ text), oc_occurred_at = sent, oc_verb = verb,
         oc_actor = actor, oc_text = text, oc_target_id = target, oc_payload = p, oc_channel = ''simulated''\<rparr>)) (\<lambda>c.
      handle h c now pub))))"

subsection \<open>Call sequences\<close>

datatype pm8_call =
    Handle "store_health option" OperatorCommand datetime datetime
  | Handle_text "store_health option" string OperatorIdentity "string option" datetime datetime datetime
  | Raise_alert datetime string string string
  | Bind_persistence
  | Publish_bundle datetime

fun pm8_run :: "pm8_call \<Rightarrow> pm8 \<Rightarrow> pm8" where
  "pm8_run (Handle h c now pub) s = snd (handle h c now pub s)"
| "pm8_run (Handle_text h text actor key sent now pub) s = snd (handle_text h text actor key sent now pub s)"
| "pm8_run (Raise_alert now code message severity) s = snd (raise_alert now code message severity s)"
| "pm8_run Bind_persistence s = snd (bind_persistence s)"
| "pm8_run (Publish_bundle now) s = snd (o8_publish now s)"

inductive pm8_reach :: "pm8 \<Rightarrow> pm8 \<Rightarrow> bool" for s where
  start: "pm8_reach s s"
| step: "pm8_reach s t \<Longrightarrow> pm8_reach s (pm8_run call t)"

end
