(* ===== verification/OperatorProps.thy ===== *)
theory OperatorProps
  imports OperatorModule Kept Latch
begin

section \<open>Facts about the operator plane\<close>

text \<open>
  Which commands change which part of the state: only a permitted halt changes the halt state and
  its first actor, only approvals, rejections and expiry change the approval queue. The contract
  \<open>operator_kept\<close> collects what the other commands do.
\<close>

subsection \<open>The remaining commands\<close>

locale operator_kept = kept R for R :: "pm8 \<Rightarrow> pm8 \<Rightarrow> bool" +
  assumes R_id: "R s (s\<lparr>o8_next_id := n\<rparr>)"
    and R_bundle: "R s (s\<lparr>o8_last_bundle := b\<rparr>)"
    and R_alerts: "R s (s\<lparr>o8_alerts := a\<rparr>)"
    and R_studio: "R s (s\<lparr>o8_studio := d\<rparr>)"
begin

lemma maintains_fresh: "maintains R o8_fresh"
  by (simp add: maintains_def o8_fresh_def R_id)

lemma maintains_receipt: "maintains R (receipt c now d message reason details)"
  unfolding receipt_def by (intro maintains_bnd maintains_fresh maintains_ret)

lemma maintains_publish: "maintains R (o8_publish now)"
  unfolding o8_publish_def by (intro maintains_bnd maintains_ret maintains_upd R_bundle)

lemma maintains_propose: "maintains R (o8_propose c now)"
  unfolding o8_propose_def
  by (rule maintains_bnd [OF maintains_fresh]) (simp add: maintains_def R_studio split: prod.splits)

lemma maintains_quiet:
  assumes "v \<notin> {OV_HALT, OV_APPROVE, OV_REJECT}"
  shows "maintains R (run_verb h v c now pub)"
proof -
  have "maintains R (cmd_health c now)"
    unfolding cmd_health_def Let_def by (intro maintains_bnd maintains_ret maintains_receipt)
  moreover have "maintains R (cmd_ack c now)"
    unfolding cmd_ack_def
    by (intro maintains_bnd maintains_ret maintains_receipt maintains_if maintains_option maintains_upd R_alerts)
  ultimately show ?thesis
    using assms
    by (cases v)
      (simp_all add: maintains_receipt cmd_status_def cmd_pending_def cmd_alerts_def cmd_journal_def cmd_propose_def
        maintains_bnd maintains_ret maintains_if maintains_publish maintains_propose)
qed

end

subsection \<open>Halt\<close>

definition plane :: "pm8 \<Rightarrow> Pm8OperatorConfig \<times> HaltState \<times> string option" where
  "plane s = (o8_config s, o8_halt_state s, o8_dual_halt_actor s)"

definition logs8 :: "pm8 \<Rightarrow> OperatorCommand list \<times> (string, CommandReceipt) dict" where
  "logs8 s = (o8_inbox s, o8_idempotency s)"

interpretation steady: operator_kept "\<lambda>s t. plane t = plane s \<and> o8_hitl t = o8_hitl s \<and> logs8 t = logs8 s"
  by unfold_locales (simp_all add: plane_def logs8_def)

interpretation steady_plane: operator_kept "\<lambda>s t. plane t = plane s \<and> logs8 t = logs8 s"
  by unfold_locales (simp_all add: plane_def logs8_def)

interpretation steady_queue: operator_kept "\<lambda>s t. o8_hitl t = o8_hitl s \<and> o8_config t = o8_config s \<and> logs8 t = logs8 s"
  by unfold_locales (simp_all add: logs8_def)

lemma receipt_run:
  "\<exists>r. receipt c now d message reason details s = (Inr r, s\<lparr>o8_next_id := Suc (o8_next_id s)\<rparr>) \<and>
       ct_disposition r = d \<and> ct_message r = message \<and> ct_reason_code r = reason \<and> ct_idempotency_key r = oc_idempotency_key c"
  by (simp add: receipt_def bnd_def o8_fresh_def run_simps)

text \<open>What a permitted halt does to the halt state and its first actor.\<close>

definition after_halt :: "OperatorCommand \<Rightarrow> pm8 \<Rightarrow> HaltState \<times> string option" where
  "after_halt c s =
     (if p8_halt_requires_dual_control (o8_config s) \<and> o8_halt_state s = HS_RUNNING \<and> o8_dual_halt_actor s = None
      then (HS_RUNNING, Some (oi_actor_id (oc_actor c)))
      else if p8_halt_requires_dual_control (o8_config s) \<and> o8_halt_state s = HS_RUNNING \<and>
              o8_dual_halt_actor s = Some (oi_actor_id (oc_actor c))
      then (HS_RUNNING, o8_dual_halt_actor s) else (HS_HALTED, None))"

lemma cmd_halt_run:
  "plane (snd (cmd_halt c now s)) = (o8_config s, after_halt c s) \<and> logs8 (snd (cmd_halt c now s)) = logs8 s \<and>
   o8_hitl (snd (cmd_halt c now s)) = o8_hitl s \<and> (\<exists>r. fst (cmd_halt c now s) = Inr r)"
  by (auto simp: cmd_halt_def run_simps plane_def after_halt_def logs8_def receipt_def bnd_def o8_fresh_def)

lemma maintains_decide: "maintains (\<lambda>s t. plane t = plane s \<and> logs8 t = logs8 s) (cmd_decide c now)"
proof -
  have "maintains (\<lambda>s t. plane t = plane s \<and> logs8 t = logs8 s) (o8_open_request a now)" for a
    unfolding o8_open_request_def
    by (intro steady_plane.maintains_bnd steady_plane.maintains_fresh)
      (simp add: maintains_def plane_def logs8_def split: prod.splits)
  moreover have "maintains (\<lambda>s t. plane t = plane s \<and> logs8 t = logs8 s) (o8_decide t b a)" for t b a
    by (simp add: maintains_def o8_decide_def plane_def logs8_def split: prod.splits)
  ultimately show ?thesis
    unfolding cmd_decide_def decision_receipt_def
    by (intro steady_plane.maintains_bnd steady_plane.maintains_ret steady_plane.maintains_if
        steady_plane.maintains_option steady_plane.maintains_receipt)
qed

definition permitted :: "OperatorCommand \<Rightarrow> bool" where
  "permitted c \<longleftrightarrow> has_permission (oi_role (oc_actor c)) (oc_verb c)"

lemma permitted_not_refused: "permitted c \<Longrightarrow> oc_verb c \<notin> set REFUSED_VERBS"
  by (simp add: permitted_def has_permission_def)

definition expired_at :: "datetime \<Rightarrow> pm8 \<Rightarrow> pm8" where
  "expired_at now s = s\<lparr>o8_hitl := hitl_expire_due (p8_approval_ttl_seconds (o8_config s)) now (o8_hitl s)\<rparr>"

lemma expired_at_keeps [simp]:
  "plane (expired_at now s) = plane s" "logs8 (expired_at now s) = logs8 s" "o8_config (expired_at now s) = o8_config s"
  "after_halt c (expired_at now s) = after_halt c s" "o8_alerts (expired_at now s) = o8_alerts s"
  "o8_studio (expired_at now s) = o8_studio s"
  by (simp_all add: expired_at_def plane_def logs8_def after_halt_def)

lemma dispatch_permitted: "permitted c \<Longrightarrow> dispatch h c now pub s = run_verb h (oc_verb c) c now pub (expired_at now s)"
  using permitted_not_refused [of c] by (simp add: dispatch_def run_simps permitted_def expired_at_def)

lemma dispatch_denied:
  assumes "\<not> permitted c"
  shows "\<exists>r. dispatch h c now pub s = (Inr r, (expired_at now s)\<lparr>o8_next_id := Suc (o8_next_id s)\<rparr>) \<and>
    ct_disposition r = (if oc_verb c \<in> set REFUSED_VERBS then CP_REFUSED else CP_UNAUTHORIZED)"
  using assms
  by (simp add: dispatch_def run_simps permitted_def expired_at_def receipt_def bnd_def o8_fresh_def)

lemma dispatch_plane:
  "plane (snd (dispatch h c now pub s)) =
     (o8_config s, if permitted c \<and> oc_verb c = OV_HALT then after_halt c s else (o8_halt_state s, o8_dual_halt_actor s)) \<and>
   logs8 (snd (dispatch h c now pub s)) = logs8 s"
proof (cases "permitted c")
  case True
  show ?thesis
  proof (cases "oc_verb c = OV_HALT")
    case halt: True
    with True cmd_halt_run [of c now "expired_at now s"] show ?thesis by (simp add: dispatch_permitted)
  next
    case False
    have "maintains (\<lambda>s t. plane t = plane s \<and> logs8 t = logs8 s) (run_verb h (oc_verb c) c now pub)"
      using False steady_plane.maintains_quiet [of "oc_verb c" h c now pub] maintains_decide [of c now]
      by (cases "oc_verb c") simp_all
    with True False show ?thesis
      by (simp add: dispatch_permitted maintains_def) (simp add: plane_def)
  qed
next
  case False
  with dispatch_denied [OF False, of h now pub s] show ?thesis by (auto simp: plane_def logs8_def expired_at_def)
qed

subsection \<open>One call\<close>

lemma settle_run:
  "\<exists>t. o8_settle c r s = (Inr r, t) \<and> plane t = plane s \<and> o8_hitl t = o8_hitl s \<and> o8_alerts t = o8_alerts s \<and>
       o8_studio t = o8_studio s \<and>
       logs8 t = (o8_inbox s @ [c], dict_put (oc_idempotency_key c) r (o8_idempotency s))"
  by (simp add: o8_settle_def run_simps plane_def logs8_def)

text \<open>The three ways a command ends: answered from the table, raised, settled.\<close>

lemma handle_ends:
  assumes "handle h raw now pub s = (x, t)"
  obtains (known) r where "dict_get (o8_idempotency s) (oc_idempotency_key (command_from_text raw)) = Some r" "t = s"
      "x = Inr (r\<lparr>ct_disposition := CP_DUPLICATE, ct_reason_code := ''duplicate''\<rparr>)"
  | (raised) e where "dict_get (o8_idempotency s) (oc_idempotency_key (command_from_text raw)) = None"
      "dispatch h (command_from_text raw) now pub s = (Inl e, t)" "x = Inl e"
  | (settled) r u where "dict_get (o8_idempotency s) (oc_idempotency_key (command_from_text raw)) = None"
      "dispatch h (command_from_text raw) now pub s = (Inr r, u)" "x = Inr r" "plane t = plane u" "o8_hitl t = o8_hitl u"
      "o8_alerts t = o8_alerts u" "o8_studio t = o8_studio u"
      "logs8 t = (o8_inbox u @ [command_from_text raw], dict_put (oc_idempotency_key (command_from_text raw)) r (o8_idempotency u))"
proof -
  let ?c = "command_from_text raw"
  show ?thesis
  proof (cases "dict_get (o8_idempotency s) (oc_idempotency_key ?c)")
    case (Some r)
    with assms have "x = Inr (r\<lparr>ct_disposition := CP_DUPLICATE, ct_reason_code := ''duplicate''\<rparr>)" "t = s"
      by (auto simp: handle_def Let_def run_simps)
    with Some show ?thesis by (intro known)
  next
    case None
    obtain y u where d: "dispatch h ?c now pub s = (y, u)" by force
    show ?thesis
    proof (cases y)
      case (Inl e)
      with assms None d have "x = Inl e" "t = u" by (simp_all add: handle_def Let_def run_simps bnd_def)
      with None d Inl show ?thesis by (intro raised) simp_all
    next
      case (Inr r)
      with assms None d have "o8_settle ?c r u = (x, t)" by (simp add: handle_def Let_def run_simps bnd_def)
      moreover obtain t' where "o8_settle ?c r u = (Inr r, t')" "plane t' = plane u" "o8_hitl t' = o8_hitl u"
        "o8_alerts t' = o8_alerts u" "o8_studio t' = o8_studio u"
        "logs8 t' = (o8_inbox u @ [?c], dict_put (oc_idempotency_key ?c) r (o8_idempotency u))"
        using settle_run [of ?c r u] by (elim exE conjE)
      ultimately show ?thesis using d Inr by (intro settled [OF None]) simp_all
    qed
  qed
qed

end
