(* ===== verification/OperatorClaims.thy ===== *)
theory OperatorClaims
  imports OperatorProps
begin

section \<open>Guarantees of the operator plane\<close>

text \<open>
  The contract \<open>operator_calls\<close> lifts a relation that one command keeps to every call of the module
  and every reachable state. From it: a halt holds and, under dual control, needs two operators;
  a command without permission has no effect; approval requests follow their lifecycle; receipts
  are remembered.
\<close>

subsection \<open>Calls\<close>

locale operator_calls = kept R for R :: "pm8 \<Rightarrow> pm8 \<Rightarrow> bool" +
  assumes R_alike: "plane t = plane s \<Longrightarrow> logs8 t = logs8 s \<Longrightarrow> o8_hitl t = o8_hitl s \<Longrightarrow> R s t"
    and R_handle: "R s (snd (handle h raw now pub s))"
begin

lemma R_text: "R s (snd (handle_text h text actor key sent now pub s))"
proof -
  obtain v target p where "parse_text text = (v, target, p)" by (cases "parse_text text") auto
  moreover have "R s (s\<lparr>o8_next_id := n\<rparr>)" for n by (rule R_alike) (simp_all add: plane_def logs8_def)
  ultimately show ?thesis
    by (auto simp: handle_text_def bnd_def o8_fresh_def lift_res_def split: sum.splits intro: R_trans R_handle)
qed

lemma R_run: "R s (pm8_run c s)"
proof (cases c)
  case (Handle h raw now pub)
  then show ?thesis by (simp add: R_handle)
next
  case (Handle_text h body actor key sent now pub)
  then show ?thesis by (simp add: R_text)
next
  case (Raise_alert now code message severity)
  then show ?thesis
    by (intro R_alike) (simp_all add: raise_alert_def bnd_def o8_fresh_def run_simps Let_def plane_def logs8_def)
next
  case Bind_persistence
  then show ?thesis by (intro R_alike) (simp_all add: bind_persistence_def run_simps plane_def logs8_def)
next
  case (Publish_bundle now)
  then show ?thesis using steady.maintains_publish [of now] by (intro R_alike) (simp_all add: maintains_def)
qed

lemma R_reachable: "pm8_reach s t \<Longrightarrow> R s t"
  by (induction rule: pm8_reach.induct) (auto simp: R_same intro: R_trans R_run)

end

subsection \<open>Halt\<close>

text \<open>A permitted halt command of an actor was received.\<close>

definition halt_by :: "string \<Rightarrow> pm8 \<Rightarrow> bool" where
  "halt_by a s \<longleftrightarrow>
     list_ex (\<lambda>c. oc_verb c = OV_HALT \<and> permitted c \<and> oi_actor_id (oc_actor c) = a) (o8_inbox s)"

definition dual_inv :: "pm8 \<Rightarrow> bool" where
  "dual_inv s \<longleftrightarrow>
     p8_halt_requires_dual_control (o8_config s) \<and> (\<forall>a. o8_dual_halt_actor s = Some a \<longrightarrow> halt_by a s) \<and>
     (o8_halt_state s \<noteq> HS_RUNNING \<longrightarrow> (\<exists>a b. a \<noteq> b \<and> halt_by a s \<and> halt_by b s))"

lemma halt_by_mono: "halt_by a s \<Longrightarrow> o8_inbox t = o8_inbox s @ cs \<Longrightarrow> halt_by a t"
  by (simp add: halt_by_def)

lemma dual_inv_grows:
  "dual_inv s \<Longrightarrow> plane t = plane s \<Longrightarrow> o8_inbox t = o8_inbox s @ cs \<Longrightarrow> dual_inv t"
  using halt_by_mono [of _ s t cs] by (auto simp: dual_inv_def plane_def)

lemma halt_returns: "permitted c \<Longrightarrow> oc_verb c = OV_HALT \<Longrightarrow> dispatch h c now pub s \<noteq> (Inl e, t)"
  using cmd_halt_run [of c now "expired_at now s"] by (auto simp: dispatch_permitted)

lemma handle_effect:
  "plane (snd (handle h raw now pub s)) =
     (if dict_get (o8_idempotency s) (oc_idempotency_key (command_from_text raw)) = None \<and>
         permitted (command_from_text raw) \<and> oc_verb (command_from_text raw) = OV_HALT
      then (o8_config s, after_halt (command_from_text raw) s) else plane s) \<and>
   (o8_inbox (snd (handle h raw now pub s)) = o8_inbox s @ [command_from_text raw] \<or>
    o8_inbox (snd (handle h raw now pub s)) = o8_inbox s \<and> plane (snd (handle h raw now pub s)) = plane s)"
proof -
  let ?c = "command_from_text raw"
  obtain x t where st: "handle h raw now pub s = (x, t)" by force
  note d = dispatch_plane [of h ?c now pub s]
  from st show ?thesis
  proof (cases rule: handle_ends)
    case (known r)
    with st show ?thesis by simp
  next
    case (raised e)
    with halt_returns [of ?c h now pub s e t] have "\<not> (permitted ?c \<and> oc_verb ?c = OV_HALT)" by blast
    with raised d st show ?thesis by (auto simp: plane_def logs8_def)
  next
    case (settled r u)
    with d st show ?thesis by (auto simp: plane_def logs8_def)
  qed
qed

lemma handle_dual:
  assumes "dual_inv s"
  shows "dual_inv (snd (handle h raw now pub s))"
proof -
  let ?t = "snd (handle h raw now pub s)" and ?c = "command_from_text raw"
  note eff = handle_effect [of h raw now pub s]
  then obtain cs where box: "o8_inbox ?t = o8_inbox s @ cs" and new: "plane ?t \<noteq> plane s \<longrightarrow> cs = [?c]"
    by (metis append_Nil2)
  show ?thesis
  proof (cases "plane ?t = plane s")
    case True
    with assms box show ?thesis by (blast intro: dual_inv_grows)
  next
    case False
    with eff have c: "permitted ?c" "oc_verb ?c = OV_HALT"
      and after: "plane ?t = (o8_config s, after_halt ?c s)"
      by (auto split: if_splits)
    have me: "halt_by (oi_actor_id (oc_actor ?c)) ?t" using box new False c by (simp add: halt_by_def)
    have old: "halt_by a ?t" if "halt_by a s" for a using that box by (rule halt_by_mono)
    show ?thesis
      using assms after me old by (auto simp: dual_inv_def plane_def after_halt_def split: if_splits) blast+
  qed
qed

interpretation dual: operator_calls "\<lambda>s t. dual_inv s \<longrightarrow> dual_inv t"
proof unfold_locales
  fix s t :: pm8
  show "plane t = plane s \<Longrightarrow> logs8 t = logs8 s \<Longrightarrow> dual_inv s \<longrightarrow> dual_inv t"
    using dual_inv_grows [of s t "[]"] by (simp add: logs8_def)
qed (auto intro: handle_dual)

interpretation halted: operator_calls "\<lambda>s t. o8_halt_state s = HS_HALTED \<longrightarrow> o8_halt_state t = HS_HALTED"
proof unfold_locales
  fix s h raw now pub
  show "o8_halt_state s = HS_HALTED \<longrightarrow> o8_halt_state (snd (handle h raw now pub s)) = HS_HALTED"
    using handle_effect [of h raw now pub s] by (auto simp: plane_def after_halt_def split: if_splits)
qed (auto simp: plane_def)

interpretation operator_halt: latch "\<lambda>_. True" "\<lambda>s. o8_halt_state s = HS_HALTED" pm8_run "\<lambda>_ _. False"
  using halted.R_run by unfold_locales auto

subsection \<open>The approval queue\<close>

text \<open>A later queue: every request is still there, unchanged once it is no longer pending.\<close>

definition succeeds :: "ApprovalRequest \<Rightarrow> ApprovalRequest \<Rightarrow> bool" where
  "succeeds r r' \<longleftrightarrow>
     aq_request_id r' = aq_request_id r \<and> aq_occurred_at r' = aq_occurred_at r \<and>
     aq_requested_by r' = aq_requested_by r \<and> (aq_status r \<noteq> AP_PENDING \<longrightarrow> r' = r)"

definition follows :: "hitl \<Rightarrow> hitl \<Rightarrow> bool" where
  "follows q q' \<longleftrightarrow> (\<forall>k r. dict_get q k = Some r \<longrightarrow> (\<exists>r'. dict_get q' k = Some r' \<and> succeeds r r'))"

lemma succeeds_refl [simp]: "succeeds r r"
  by (simp add: succeeds_def)

lemma succeeds_trans: "succeeds x y \<Longrightarrow> succeeds y z \<Longrightarrow> succeeds x z"
  unfolding succeeds_def by auto

lemma follows_refl [simp]: "follows q q"
  by (auto simp: follows_def)

lemma follows_trans: "follows p q \<Longrightarrow> follows q r \<Longrightarrow> follows p r"
  unfolding follows_def by (blast intro: succeeds_trans)

lemma dict_get_expired:
  "dict_get (hitl_expire_due ttl now q) k =
     map_option (\<lambda>r. if request_due ttl now r then r\<lparr>aq_status := AP_EXPIRED\<rparr> else r) (dict_get q k)"
  by (simp add: dict_get_def hitl_expire_due_def map_of_map)

lemma follows_expired: "follows q (hitl_expire_due ttl now q)"
  by (auto simp: follows_def succeeds_def dict_get_expired request_due_def)

lemma follows_decide: "follows q (snd (hitl_decide t b a q))"
  by (auto simp: follows_def succeeds_def hitl_decide_def Let_def dict_simps split: option.splits)

lemma follows_enqueue: "follows q (snd (hitl_enqueue r q))"
  by (auto simp: follows_def hitl_enqueue_def dict_simps split: option.splits)

interpretation queue: operator_kept "\<lambda>s t. follows (o8_hitl s) (o8_hitl t) \<and> logs8 t = logs8 s"
  by unfold_locales (auto simp: logs8_def intro: follows_trans)

lemma queue_decide: "maintains (\<lambda>s t. follows (o8_hitl s) (o8_hitl t) \<and> logs8 t = logs8 s) (cmd_decide c now)"
proof -
  have "maintains (\<lambda>s t. follows (o8_hitl s) (o8_hitl t) \<and> logs8 t = logs8 s) (o8_open_request a now)" for a
    unfolding o8_open_request_def
    by (intro queue.maintains_bnd queue.maintains_fresh)
      (simp add: maintains_def logs8_def case_prod_beta follows_enqueue)
  moreover have "maintains (\<lambda>s t. follows (o8_hitl s) (o8_hitl t) \<and> logs8 t = logs8 s) (o8_decide t b a)" for t b a
    by (simp add: maintains_def o8_decide_def logs8_def case_prod_beta follows_decide)
  ultimately show ?thesis
    unfolding cmd_decide_def decision_receipt_def
    by (intro queue.maintains_bnd queue.maintains_ret queue.maintains_if queue.maintains_option queue.maintains_receipt)
qed

lemma dispatch_queue: "follows (o8_hitl s) (o8_hitl (snd (dispatch h c now pub s)))"
proof (cases "permitted c")
  case True
  have "maintains (\<lambda>s t. follows (o8_hitl s) (o8_hitl t) \<and> logs8 t = logs8 s) (run_verb h (oc_verb c) c now pub)"
    using queue.maintains_quiet [of "oc_verb c" h c now pub] queue_decide [of c now] cmd_halt_run [of c now]
    by (cases "oc_verb c") (simp_all add: maintains_def)
  then have "follows (o8_hitl (expired_at now s)) (o8_hitl (snd (dispatch h c now pub s)))"
    using True by (simp add: dispatch_permitted maintains_def)
  then show ?thesis by (rule follows_trans [rotated]) (simp add: expired_at_def follows_expired)
next
  case False
  then show ?thesis using dispatch_denied [of c h now pub s] by (auto simp: expired_at_def follows_expired)
qed

interpretation requests: operator_calls "\<lambda>s t. follows (o8_hitl s) (o8_hitl t)"
proof unfold_locales
  fix s h raw now pub
  obtain x t where st: "handle h raw now pub s = (x, t)" by force
  then show "follows (o8_hitl s) (o8_hitl (snd (handle h raw now pub s)))"
    using dispatch_queue [of s h "command_from_text raw" now pub] by (cases rule: handle_ends) (simp_all add: st)
qed (auto intro: follows_trans)

text \<open>A pending request is decided only by a permitted decision on it, before it is due.\<close>

lemma decided_by_command:
  assumes "dict_get q k = Some r" and "aq_status r = AP_PENDING"
    and "dict_get (snd (hitl_decide t b a (hitl_expire_due ttl now q))) k = Some r'"
    and "aq_status r' \<in> {AP_APPROVED, AP_REJECTED}"
  shows "t = k \<and> now - aq_occurred_at r < seconds ttl \<and> aq_status r' = (if b then AP_APPROVED else AP_REJECTED)"
  using assms
  by (auto simp: hitl_decide_def Let_def dict_simps dict_get_expired request_due_def split: option.splits if_splits)

lemma undecided_expired:
  assumes "dict_get q k = Some r" and "aq_status r = AP_PENDING" and "dict_get (hitl_expire_due ttl now q) k = Some r'"
  shows "aq_status r' \<notin> {AP_APPROVED, AP_REJECTED}"
  using assms by (auto simp: dict_get_expired split: if_splits)

lemma undecided_enqueued:
  assumes "dict_get q k = Some r" and "aq_status r = AP_PENDING"
    and "dict_get (snd (hitl_enqueue x (hitl_expire_due ttl now q))) k = Some r'"
  shows "aq_status r' \<notin> {AP_APPROVED, AP_REJECTED}"
proof -
  have "dict_get (snd (hitl_enqueue x p)) k = dict_get p k" if "dict_get p k \<noteq> None" for p
    using that by (auto simp: hitl_enqueue_def dict_simps split: option.splits)
  moreover have "dict_get (hitl_expire_due ttl now q) k \<noteq> None" using assms(1) by (simp add: dict_get_expired)
  ultimately show ?thesis using assms undecided_expired by metis
qed

lemma cmd_decide_queue:
  "o8_hitl (snd (cmd_decide c now s)) =
     (if \<not> p8_hitl_enabled (o8_config s) then o8_hitl s
      else case command_target c of
             None \<Rightarrow> snd (hitl_enqueue (intent_request (Suc (o8_next_id s)) (o8_next_id s) (oi_actor_id (oc_actor c)) now) (o8_hitl s))
           | Some t \<Rightarrow> snd (hitl_decide t (oc_verb c = OV_APPROVE) (oi_actor_id (oc_actor c)) (o8_hitl s)))"
proof -
  have rec: "o8_hitl (snd (receipt c now d m re de u)) = o8_hitl u" for d m re de u
    by (simp add: receipt_def bnd_def o8_fresh_def run_simps)
  have dec: "o8_hitl (snd (decision_receipt c now x u)) = o8_hitl u" for x u
    by (simp add: decision_receipt_def rec split: option.splits)
  show ?thesis
    by (simp add: cmd_decide_def run_simps rec split: option.splits)
      (simp add: bnd_def o8_open_request_def o8_fresh_def o8_decide_def rec dec case_prod_beta)
qed

lemma decision_timely:
  assumes "dict_get (o8_hitl s) k = Some r" and "aq_status r = AP_PENDING"
    and "dict_get (o8_hitl (snd (handle h raw now pub s))) k = Some r'" and "aq_status r' \<in> {AP_APPROVED, AP_REJECTED}"
  shows "permitted (command_from_text raw) \<and> command_target (command_from_text raw) = Some k \<and>
    oc_verb (command_from_text raw) = (if aq_status r' = AP_APPROVED then OV_APPROVE else OV_REJECT) \<and>
    now - aq_occurred_at r < seconds (p8_approval_ttl_seconds (o8_config s))"
proof -
  let ?c = "command_from_text raw" and ?ttl = "p8_approval_ttl_seconds (o8_config s)"
  obtain x t where st: "handle h raw now pub s = (x, t)" by force
  then have q: "dict_get (o8_hitl (snd (dispatch h ?c now pub s))) k = Some r'"
    using assms by (cases rule: handle_ends) (auto simp: st)
  have exp: "o8_hitl (expired_at now s) = hitl_expire_due ?ttl now (o8_hitl s)" by (simp add: expired_at_def)
  have perm: "permitted ?c"
  proof (rule ccontr)
    assume "\<not> permitted ?c"
    from dispatch_denied [OF this, of h now pub s] q have "dict_get (hitl_expire_due ?ttl now (o8_hitl s)) k = Some r'"
      by (auto simp: exp)
    with undecided_expired [OF assms(1, 2), of ?ttl now r'] assms(4) show False by blast
  qed
  have verb: "oc_verb ?c \<in> {OV_APPROVE, OV_REJECT}"
  proof (rule ccontr)
    assume other: "oc_verb ?c \<notin> {OV_APPROVE, OV_REJECT}"
    have "o8_hitl (snd (dispatch h ?c now pub s)) = o8_hitl (expired_at now s)"
      using other perm steady.maintains_quiet [of "oc_verb ?c" h ?c now pub] cmd_halt_run [of ?c now "expired_at now s"]
      by (cases "oc_verb ?c") (simp_all add: dispatch_permitted maintains_def)
    with q undecided_expired [OF assms(1, 2), of ?ttl now r'] assms(4) show False by (simp add: exp)
  qed
  then have d: "o8_hitl (snd (dispatch h ?c now pub s)) = o8_hitl (snd (cmd_decide ?c now (expired_at now s)))"
    using perm by (auto simp: dispatch_permitted)
  show ?thesis
  proof (cases "command_target ?c")
    case None
    with q d undecided_expired [OF assms(1, 2), of ?ttl now r'] assms(4)
      undecided_enqueued [OF assms(1, 2), of _ ?ttl now r'] show ?thesis
      by (auto simp: cmd_decide_queue exp split: if_splits)
  next
    case (Some w)
    then have "dict_get (snd (hitl_decide w (oc_verb ?c = OV_APPROVE) (oi_actor_id (oc_actor ?c))
        (hitl_expire_due ?ttl now (o8_hitl s)))) k = Some r'"
      using q d undecided_expired [OF assms(1, 2), of ?ttl now r'] assms(4)
      by (auto simp: cmd_decide_queue exp split: if_splits)
    from decided_by_command [OF assms(1, 2) this assms(4)] Some perm verb show ?thesis by auto
  qed
qed

subsection \<open>Receipts\<close>

interpretation memo: operator_calls
  "\<lambda>s t. \<forall>k r. dict_get (o8_idempotency s) k = Some r \<longrightarrow> dict_get (o8_idempotency t) k = Some r"
proof unfold_locales
  fix s h raw now pub
  obtain x t where st: "handle h raw now pub s = (x, t)" by force
  then show "\<forall>k r. dict_get (o8_idempotency s) k = Some r \<longrightarrow>
      dict_get (o8_idempotency (snd (handle h raw now pub s))) k = Some r"
    using dispatch_plane [of h "command_from_text raw" now pub s]
    by (cases rule: handle_ends) (auto simp: st logs8_def dict_simps)
qed (auto simp: logs8_def)

lemma handle_remembers:
  assumes "handle h raw now pub s = (Inr r, t)"
  shows "\<exists>x. dict_get (o8_idempotency t) (oc_idempotency_key (command_from_text raw)) = Some x \<and>
    ct_message x = ct_message r \<and> ct_details x = ct_details r"
  using assms by (cases rule: handle_ends) (auto simp: logs8_def dict_simps)

lemma command_from_text_key [simp]: "oc_idempotency_key (command_from_text c) = oc_idempotency_key c"
  by (simp add: command_from_text_def split: prod.splits)

lemma handle_known:
  assumes "dict_get (o8_idempotency s) (oc_idempotency_key raw) = Some x"
  shows "handle h raw now pub s = (Inr (x\<lparr>ct_disposition := CP_DUPLICATE, ct_reason_code := ''duplicate''\<rparr>), s)"
  using assms by (simp add: handle_def Let_def run_simps)

subsection \<open>Guarantees\<close>

definition sample_actor :: "string \<Rightarrow> OperatorRole \<Rightarrow> OperatorIdentity" where
  "sample_actor a role = \<lparr>oi_actor_id = a, oi_display_name = a, oi_role = role, oi_transport = TM_SIMULATED,
     oi_telegram_user_id = None\<rparr>"

definition sample_command :: "OperatorVerb \<Rightarrow> string \<Rightarrow> OperatorRole \<Rightarrow> string \<Rightarrow> OperatorCommand" where
  "sample_command v a role key =
     \<lparr>oc_event_id = 0, oc_correlation_id = 0, oc_causation_id = None, oc_idempotency_key = key, oc_occurred_at = 0,
      oc_verb = v, oc_actor = sample_actor a role, oc_text = [], oc_target_id = None, oc_payload = [],
      oc_channel = ''simulated''\<rparr>"

definition dual_config :: Pm8OperatorConfig where
  "dual_config = pm8_config_default\<lparr>p8_halt_requires_dual_control := True\<rparr>"

definition dual_halted :: pm8 where
  "dual_halted = fold pm8_run
     [Handle None (sample_command OV_HALT ''ann'' OR_ADMIN ''k1'') 0 0, Handle None (sample_command OV_HALT ''bob'' OR_ADMIN ''k2'') 1 1]
     (pm8_init dual_config True False)"

lemma dual_halted_facts: "pm8_reach (pm8_init dual_config True False) dual_halted" "o8_halt_state dual_halted = HS_HALTED"
proof -
  show "pm8_reach (pm8_init dual_config True False) dual_halted"
    unfolding dual_halted_def by (simp del: pm8_run.simps) (intro pm8_reach.step pm8_reach.start)
  show "o8_halt_state dual_halted = HS_HALTED" by code_simp
qed

text \<open>
  Claim C24. A halt of the operator plane is final and, when the configuration asks for dual control,
  never the act of one person: in every reachable state that is halted, permitted halt commands of
  two different operators are in the inbox, and the plane stays halted whatever calls follow.
\<close>

theorem pm8_halt_dual_controlled:
  assumes "p8_halt_requires_dual_control c" and "pm8_reach (pm8_init c feature ledger) s"
    and "o8_halt_state s = HS_HALTED"
  shows "(\<exists>a b. a \<noteq> b \<and> halt_by a s \<and> halt_by b s) \<and> o8_halt_state (fold pm8_run cs s) = HS_HALTED"
proof -
  have "dual_inv (pm8_init c feature ledger)" using assms(1) by (simp add: dual_inv_def pm8_init_def)
  then have "dual_inv s" using dual.R_reachable [OF assms(2)] by blast
  with assms(3) operator_halt.holds [of s cs] show ?thesis by (auto simp: dual_inv_def)
qed

theorem pm8_halt_dual_controlled_witness:
  "\<exists>a b. a \<noteq> b \<and> halt_by a dual_halted \<and> halt_by b dual_halted"
  using pm8_halt_dual_controlled [OF _ dual_halted_facts] by (simp add: dual_config_def)

text \<open>
  Claim C25. A command without permission has no effect: whatever its key, the halt state, its first
  actor, the alerts and the proposals stay as they were. When its key was not answered before, it is
  answered REFUSED if the verb is forbidden to everybody (orders, resume, rearm, live trading, MT5)
  and UNAUTHORIZED if the role lacks it, and the approval queue only loses what is due. When the key
  was answered before (the lookup comes before the authorization), the answer is the earlier receipt
  marked DUPLICATE, and nothing at all changes.
\<close>

theorem pm8_denied_has_no_effect:
  assumes "\<not> permitted (command_from_text raw)"
  shows "\<exists>r t. handle h raw now pub s = (Inr r, t) \<and>
    o8_halt_state t = o8_halt_state s \<and> o8_dual_halt_actor t = o8_dual_halt_actor s \<and> o8_alerts t = o8_alerts s \<and>
    o8_studio t = o8_studio s \<and>
    (case dict_get (o8_idempotency s) (oc_idempotency_key raw) of
       None \<Rightarrow> ct_disposition r = (if oc_verb (command_from_text raw) \<in> set REFUSED_VERBS then CP_REFUSED else CP_UNAUTHORIZED) \<and>
         o8_hitl t = hitl_expire_due (p8_approval_ttl_seconds (o8_config s)) now (o8_hitl s)
     | Some r0 \<Rightarrow> r = r0\<lparr>ct_disposition := CP_DUPLICATE, ct_reason_code := ''duplicate''\<rparr> \<and> t = s)"
proof -
  obtain x t where st: "handle h raw now pub s = (x, t)" by force
  obtain r where d: "dispatch h (command_from_text raw) now pub s = (Inr r, (expired_at now s)\<lparr>o8_next_id := Suc (o8_next_id s)\<rparr>)"
    "ct_disposition r = (if oc_verb (command_from_text raw) \<in> set REFUSED_VERBS then CP_REFUSED else CP_UNAUTHORIZED)"
    using dispatch_denied [OF assms, of h now pub s] by blast
  from st show ?thesis
  proof (cases rule: handle_ends)
    case (settled r' u)
    with d st show ?thesis by (auto simp: plane_def expired_at_def)
  qed (use d st in simp_all)
qed

theorem pm8_denied_has_no_effect_witness:
  "\<exists>r t. handle None (sample_command OV_HALT ''eve'' OR_OBSERVER ''k'') 0 0 (pm8_init pm8_config_default True False) = (Inr r, t) \<and>
     ct_disposition r = CP_UNAUTHORIZED \<and> o8_halt_state t = HS_RUNNING"
proof -
  have "\<not> permitted (command_from_text (sample_command OV_HALT ''eve'' OR_OBSERVER ''k''))" by code_simp
  from pm8_denied_has_no_effect [OF this, of None 0 0 "pm8_init pm8_config_default True False"] show ?thesis
    by (auto simp: pm8_init_def dict_simps sample_command_def command_from_text_def REFUSED_VERBS_def)
qed

text \<open>
  Claim C26. An approval request is never lost and never reopened: whatever calls follow, it is in the
  queue under its key with its identity, and unchanged once it is approved, rejected or expired. It
  is approved or rejected only by a permitted command with that verb and that target, strictly
  before its time to live is over.
\<close>

theorem pm8_approval_lifecycle:
  assumes "dict_get (o8_hitl s) k = Some r"
  shows "(pm8_reach s t \<longrightarrow> (\<exists>r'. dict_get (o8_hitl t) k = Some r' \<and> succeeds r r')) \<and>
    (aq_status r = AP_PENDING \<and> dict_get (o8_hitl (snd (handle h raw now pub s))) k = Some r' \<and>
       aq_status r' \<in> {AP_APPROVED, AP_REJECTED} \<longrightarrow>
     permitted (command_from_text raw) \<and> command_target (command_from_text raw) = Some k \<and>
       oc_verb (command_from_text raw) = (if aq_status r' = AP_APPROVED then OV_APPROVE else OV_REJECT) \<and>
       now - aq_occurred_at r < seconds (p8_approval_ttl_seconds (o8_config s)))"
proof (intro conjI impI)
  show "\<exists>r'. dict_get (o8_hitl t) k = Some r' \<and> succeeds r r'" if "pm8_reach s t"
    using requests.R_reachable [OF that] assms by (simp add: follows_def)
qed (use decision_timely [OF assms, of h raw now pub r'] in blast)+

definition opened :: pm8 where
  "opened = (pm8_init pm8_config_default True False)\<lparr>o8_hitl := [(''r1'', intent_request 1 0 ''ann'' 0)]\<rparr>"

lemma opened_request: "dict_get (o8_hitl opened) ''r1'' = Some (intent_request 1 0 ''ann'' 0)"
  by (simp add: opened_def dict_get_def)

theorem pm8_approval_lifecycle_witness:
  "\<exists>r'. dict_get (o8_hitl (pm8_run (Publish_bundle 5) opened)) ''r1'' = Some r' \<and>
     succeeds (intent_request 1 0 ''ann'' 0) r'"
  using pm8_approval_lifecycle [OF opened_request, of "pm8_run (Publish_bundle 5) opened"]
    pm8_reach.step [OF pm8_reach.start, of opened "Publish_bundle 5"] by blast

text \<open>
  A text command sent without a key is answered once for ever: the key is made of the actor
  and the text, so the same text from the same actor is answered, in every later state, with the
  first receipt marked as a duplicate. A repeated status shows the message and details of the
  first one, not the present state.
\<close>

theorem pm8_text_answered_once:
  assumes "handle_text h body actor None sent now pub s = (Inr r, s1)" and "pm8_reach s1 t"
  shows "\<exists>r' t'. handle_text h' body actor None sent' now' pub' t = (Inr r', t') \<and>
    ct_disposition r' = CP_DUPLICATE \<and> ct_message r' = ct_message r \<and> ct_details r' = ct_details r"
proof -
  obtain v target p where parse: "parse_text body = (v, target, p)" by (cases "parse_text body") auto
  let ?raw = "\<lambda>e k w. \<lparr>oc_event_id = e, oc_correlation_id = k, oc_causation_id = None,
      oc_idempotency_key = or_else None (oi_actor_id actor @ '':'' @ body), oc_occurred_at = w, oc_verb = v,
      oc_actor = actor, oc_text = body, oc_target_id = target, oc_payload = p, oc_channel = ''simulated''\<rparr>"
  let ?key = "strip (oi_actor_id actor @ '':'' @ body)"
  have run: "handle_text g body actor None w n m u =
      (case make_command (?raw (o8_next_id u) (Suc (o8_next_id u)) w) of
         Inl e \<Rightarrow> (Inl e, u\<lparr>o8_next_id := Suc (Suc (o8_next_id u))\<rparr>)
       | Inr c \<Rightarrow> handle g c n m (u\<lparr>o8_next_id := Suc (Suc (o8_next_id u))\<rparr>))" for g w n m u
    by (simp add: handle_text_def parse bnd_def o8_fresh_def lift_res_def split: sum.splits)
  have make: "make_command (?raw e k w) = Inr ((?raw e k w)\<lparr>oc_idempotency_key := ?key\<rparr>)"
    if "make_command (?raw e' k' w') = Inr c" for e k w e' k' w' c
    using that by (auto simp: make_command_def raise_if_def or_else_def truthy_def split: if_splits)
  obtain c where c: "make_command (?raw (o8_next_id s) (Suc (o8_next_id s)) sent) = Inr c"
    using assms(1) run [of h sent now pub s] by (auto split: sum.splits)
  with make [OF c, of "o8_next_id s" "Suc (o8_next_id s)" sent] have key: "oc_idempotency_key c = ?key" by auto
  from assms(1) run [of h sent now pub s] c
  have "handle h c now pub (s\<lparr>o8_next_id := Suc (Suc (o8_next_id s))\<rparr>) = (Inr r, s1)" by simp
  from handle_remembers [OF this] key obtain x where
    x: "dict_get (o8_idempotency s1) ?key = Some x" "ct_message x = ct_message r" "ct_details x = ct_details r" by auto
  then have "dict_get (o8_idempotency t) ?key = Some x" using memo.R_reachable [OF assms(2)] by blast
  then show ?thesis
    using run [of h' sent' now' pub' t] make [OF c, of "o8_next_id t" "Suc (o8_next_id t)" sent'] x(2, 3)
    by (simp add: handle_known)
qed

lemma doctor_answers:
  "\<not> isl (fst (handle_text None ''/doctor'' (sample_actor ''ann'' OR_ADMIN) None 0 0 0 (pm8_init pm8_config_default True False)))"
  by code_simp

theorem pm8_text_answered_once_witness:
  "\<exists>r' t'. handle_text None ''/doctor'' (sample_actor ''ann'' OR_ADMIN) None 9 9 9
     (snd (handle_text None ''/doctor'' (sample_actor ''ann'' OR_ADMIN) None 0 0 0 (pm8_init pm8_config_default True False))) =
     (Inr r', t') \<and> ct_disposition r' = CP_DUPLICATE"
proof -
  let ?run = "handle_text None ''/doctor'' (sample_actor ''ann'' OR_ADMIN) None 0 0 0 (pm8_init pm8_config_default True False)"
  obtain r s1 where "?run = (Inr r, s1)"
    using doctor_answers by (cases ?run; cases "fst ?run") auto
  with pm8_text_answered_once [OF this pm8_reach.start, of None 9 9 9] show ?thesis by auto
qed

end
