(* ===== verification/FloatOrder.thy ===== *)
theory FloatOrder
  imports PyFloat
begin

section \<open>Order and rounding of binary floating point\<close>

text \<open>
  What computations on scores and probabilities rest on: rounding to binary64 is monotone, odd,
  idempotent and exact on powers of two, so a quotient of an accumulated part by an accumulated
  whole stays within zero and one although every single operation is rounded.
\<close>

subsection \<open>Powers of two and the binary exponent\<close>

lemma pow2_powi: "pow2 e = 2 powi e"
  by (simp add: pow2_def power_int_def inverse_eq_divide power_divide)

lemma pow2_add: "pow2 (a + b) = pow2 a * pow2 b"
  by (simp add: pow2_powi power_int_add)

lemma pow2_less: "pow2 a < pow2 b \<longleftrightarrow> a < b"
proof
  assume "a < b"
  then show "pow2 a < pow2 b" by (simp add: pow2_powi power_int_strict_increasing)
next
  assume "pow2 a < pow2 b"
  then show "a < b" using power_int_increasing [of b a "2 :: rat"] by (force simp: pow2_powi)
qed

lemma pow2_le: "pow2 a \<le> pow2 b \<longleftrightarrow> a \<le> b"
  by (simp add: pow2_less flip: not_less)

lemma pow2_0 [simp]: "pow2 0 = 1"
  by (simp add: pow2_def)

lemma bit_len_bounds: "0 < n \<Longrightarrow> 2 ^ (bit_len n - 1) \<le> n \<and> n < 2 ^ bit_len n \<and> 0 < bit_len n"
proof (induction n rule: bit_len.induct)
  case (1 n)
  show ?case
  proof (cases "n = 1")
    case True
    then show ?thesis by (simp add: bit_len.simps [of "Suc 0"] bit_len.simps [of 0])
  next
    case False
    with 1 have "n \<noteq> 0" and IH: "2 ^ (bit_len (n div 2) - 1) \<le> n div 2" "n div 2 < 2 ^ bit_len (n div 2)"
      "0 < bit_len (n div 2)" by auto
    obtain k where k: "bit_len (n div 2) = Suc k" using IH(3) by (cases "bit_len (n div 2)") auto
    show ?thesis using IH \<open>n \<noteq> 0\<close> by (simp add: bit_len.simps [of n] k) linarith
  qed
qed

lemma bin_exp_bounds:
  assumes "x \<noteq> 0"
  shows "pow2 (bin_exp x) \<le> \<bar>x\<bar>" and "\<bar>x\<bar> < pow2 (bin_exp x + 1)"
proof -
  obtain n d where q: "quotient_of \<bar>x\<bar> = (n, d)" by force
  then have d: "0 < d" and x: "\<bar>x\<bar> = of_int n / of_int d"
    by (simp_all add: quotient_of_denom_pos quotient_of_div)
  then have n: "0 < n" using assms by (simp add: zero_less_abs_iff [symmetric] zero_less_divide_iff del: zero_less_abs_iff)
  let ?a = "bit_len (nat n)" and ?b = "bit_len (nat d)"
  let ?k = "int ?a - int ?b"
  have nb: "2 ^ (?a - 1) \<le> nat n" "nat n < 2 ^ ?a" "0 < ?a" and db: "2 ^ (?b - 1) \<le> nat d" "nat d < 2 ^ ?b" "0 < ?b"
    using bit_len_bounds [of "nat n"] bit_len_bounds [of "nat d"] n d by simp_all
  have nr: "(2::rat) ^ (?a - 1) \<le> of_int n" "of_int n < (2::rat) ^ ?a"
    using nb n by (simp_all add: nat_less_iff le_nat_iff)
  have dr: "(2::rat) ^ (?b - 1) \<le> of_int d" "of_int d < (2::rat) ^ ?b"
    using db d by (simp_all add: nat_less_iff le_nat_iff)
  have up: "\<bar>x\<bar> < pow2 (?k + 1)"
  proof -
    have "\<bar>x\<bar> < 2 ^ ?a / 2 ^ (?b - 1)" unfolding x using nr dr d by (intro frac_less) (auto simp: n less_imp_le)
    also have "\<dots> = pow2 (int ?a - int (?b - 1))" by (simp add: pow2_powi power_int_diff)
    finally show ?thesis using db(3) by (simp add: of_nat_diff algebra_simps)
  qed
  have lo: "pow2 (?k - 1) \<le> \<bar>x\<bar>"
  proof -
    have "pow2 (int (?a - 1) - int ?b) = 2 ^ (?a - 1) / 2 ^ ?b" by (simp add: pow2_powi power_int_diff)
    also have "\<dots> \<le> \<bar>x\<bar>" unfolding x using nr dr d by (intro frac_le) (auto simp: n less_imp_le)
    finally show ?thesis using nb(3) by (simp add: of_nat_diff algebra_simps)
  qed
  have e: "bin_exp x = (if \<bar>x\<bar> < pow2 ?k then ?k - 1 else ?k)"
    by (simp add: bin_exp_def q)
  from up lo show "pow2 (bin_exp x) \<le> \<bar>x\<bar>" and "\<bar>x\<bar> < pow2 (bin_exp x + 1)" by (simp_all add: e)
qed

lemma bin_exp_unique: "pow2 e \<le> \<bar>x\<bar> \<Longrightarrow> \<bar>x\<bar> < pow2 (e + 1) \<Longrightarrow> bin_exp x = e"
proof -
  assume a: "pow2 e \<le> \<bar>x\<bar>" "\<bar>x\<bar> < pow2 (e + 1)"
  then have "x \<noteq> 0" using pow2_pos [of e] by auto
  note b = bin_exp_bounds [OF this]
  from a b have "pow2 e < pow2 (bin_exp x + 1)" and "pow2 (bin_exp x) < pow2 (e + 1)" by linarith+
  then show ?thesis by (simp add: pow2_less)
qed

lemma bin_exp_mono: "x \<noteq> 0 \<Longrightarrow> \<bar>x\<bar> \<le> \<bar>y\<bar> \<Longrightarrow> bin_exp x \<le> bin_exp y"
proof -
  assume a: "x \<noteq> 0" "\<bar>x\<bar> \<le> \<bar>y\<bar>"
  then have "pow2 (bin_exp x) < pow2 (bin_exp y + 1)"
    using bin_exp_bounds(1) [of x] bin_exp_bounds(2) [of y] by force
  then show ?thesis by (simp add: pow2_less)
qed


subsection \<open>Rounding\<close>

text \<open>The unit in the last place of a value, and rounding to it.\<close>

definition bulp :: "rat \<Rightarrow> rat" where
  "bulp x = pow2 (bin_exp x - 52)"

lemma bulp_pos: "0 < bulp x"
  by (simp add: bulp_def pow2_pos)

lemma f64_bulp: "x \<noteq> 0 \<Longrightarrow> f64 x = of_int (round_half_even (x / bulp x)) * bulp x"
  by (simp add: f64_def bulp_def Let_def)

lemma bin_exp_uminus [simp]: "bin_exp (- x) = bin_exp x"
  by (simp add: bin_exp_def)

lemma f64_uminus: "f64 (- x) = - f64 x"
  by (simp add: f64_def Let_def round_half_even_uminus)

lemma f64_minus_swap: "f64 (a - b) = - f64 (b - a)"
  using f64_uminus [of "b - a"] by simp

lemma pow2_multiple: "0 \<le> k \<Longrightarrow> pow2 (e + k) = of_int (2 ^ nat k) * pow2 e"
  by (simp add: pow2_add pow2_def [of k])

text \<open>A multiple of the unit in the last place is exact.\<close>

lemma f64_exact: "x = of_int m * bulp x \<Longrightarrow> f64 x = x"
proof (cases "x = 0")
  case False
  assume x: "x = of_int m * bulp x"
  then have "x / bulp x = of_int m" using bulp_pos [of x] by (simp add: field_simps)
  then show ?thesis using False x by (simp add: f64_bulp)
qed simp

lemma f64_pow2: "f64 (pow2 e) = pow2 e"
proof (rule f64_exact [of _ "2 ^ 52"])
  have "bin_exp (pow2 e) = e"
    using pow2_pos [of e] by (intro bin_exp_unique) (simp_all add: pow2_less)
  then show "pow2 e = of_int (2 ^ 52) * bulp (pow2 e)"
    using pow2_multiple [of 52 "e - 52"] by (simp add: bulp_def)
qed

lemma f64_1 [simp]: "f64 1 = 1"
  using f64_pow2 [of 0] by simp

text \<open>The result lies between the two powers of two around the argument.\<close>

lemma f64_between:
  assumes "0 < x"
  shows "pow2 (bin_exp x) \<le> f64 x" and "f64 x \<le> pow2 (bin_exp x + 1)"
proof -
  let ?u = "bulp x"
  have u: "0 < ?u" by (rule bulp_pos)
  have lo: "pow2 (bin_exp x) = of_int (2 ^ 52) * ?u" and hi: "pow2 (bin_exp x + 1) = of_int (2 ^ 53) * ?u"
    using pow2_multiple [of 52 "bin_exp x - 52"] pow2_multiple [of 53 "bin_exp x - 52"] by (simp_all add: bulp_def add.commute)
  have b: "pow2 (bin_exp x) \<le> x" "x \<le> pow2 (bin_exp x + 1)" using bin_exp_bounds [of x] assms by simp_all
  then have "of_int (2 ^ 52) \<le> x / ?u" and "x / ?u \<le> of_int (2 ^ 53)"
    unfolding lo hi using u by (simp_all add: field_simps)
  then have "2 ^ 52 \<le> round_half_even (x / ?u)" and "round_half_even (x / ?u) \<le> 2 ^ 53"
    using round_half_even_mono [of "of_int (2 ^ 52)"] round_half_even_mono [of _ "of_int (2 ^ 53)"]
    by (simp_all only: round_half_even_of_int)
  then have "of_int (2 ^ 52) \<le> (of_int (round_half_even (x / ?u)) :: rat)"
    and "of_int (round_half_even (x / ?u)) \<le> (of_int (2 ^ 53) :: rat)" by (simp_all only: of_int_le_iff)
  then show "pow2 (bin_exp x) \<le> f64 x" and "f64 x \<le> pow2 (bin_exp x + 1)"
    unfolding lo hi using assms u by (simp_all only: f64_bulp [of x] mult_le_cancel_right) simp_all
qed

lemma f64_mono_pos:
  assumes "0 < x" and "x \<le> y"
  shows "f64 x \<le> f64 y"
proof (cases "bin_exp x = bin_exp y")
  case True
  then have "bulp x = bulp y" by (simp add: bulp_def)
  moreover have "x / bulp y \<le> y / bulp y" using assms bulp_pos [of y] by (simp add: divide_right_mono)
  ultimately show ?thesis
    using assms bulp_pos [of y] by (simp add: f64_bulp round_half_even_mono)
next
  case False
  with bin_exp_mono [of x y] assms have "bin_exp x + 1 \<le> bin_exp y" by simp
  then have "pow2 (bin_exp x + 1) \<le> pow2 (bin_exp y)" by (simp add: pow2_le)
  with f64_between(2) [of x] f64_between(1) [of y] assms show ?thesis by linarith
qed

lemma f64_mono: "x \<le> y \<Longrightarrow> f64 x \<le> f64 y"
proof -
  assume xy: "x \<le> y"
  consider "0 < x" | "x \<le> 0" "0 \<le> y" | "y < 0" by linarith
  then show ?thesis
  proof cases
    case 1
    with xy show ?thesis by (rule f64_mono_pos [rotated])
  next
    case 2
    then show ?thesis using f64_nonneg [of y] f64_nonneg [of "- x"] by (simp add: f64_uminus)
  next
    case 3
    with xy have "f64 (- y) \<le> f64 (- x)" by (intro f64_mono_pos) simp_all
    then show ?thesis by (simp add: f64_uminus)
  qed
qed

lemma f64_idem [simp]: "f64 (f64 x) = f64 x"
proof -
  have pos: "f64 (f64 x) = f64 x" if x: "0 < x" for x
  proof (cases "f64 x = pow2 (bin_exp x + 1)")
    case True
    then show ?thesis by (simp add: f64_pow2)
  next
    case False
    note b = f64_between [OF x]
    then have "bin_exp (f64 x) = bin_exp x"
      using False pow2_pos [of "bin_exp x"] by (intro bin_exp_unique) simp_all
    then have "bulp (f64 x) = bulp x" by (simp add: bulp_def)
    then show ?thesis using x f64_bulp [of x] by (intro f64_exact [of _ "round_half_even (x / bulp x)"]) simp
  qed
  consider "0 < x" | "x = 0" | "0 < - x" by linarith
  then show ?thesis
  proof cases
    case 3
    from pos [OF this] show ?thesis by (simp add: f64_uminus)
  qed (simp_all add: pos)
qed

lemma f64_le_1: "x \<le> 1 \<Longrightarrow> f64 x \<le> 1"
  using f64_mono [of x 1] by simp

lemma f64_ge_1: "1 \<le> x \<Longrightarrow> 1 \<le> f64 x"
  using f64_mono [of 1 x] by simp

text \<open>A double: a value that rounding leaves alone.\<close>

definition is_f64 :: "rat \<Rightarrow> bool" where
  "is_f64 x \<longleftrightarrow> f64 x = x"

lemma is_f64_f64 [simp]: "is_f64 (f64 x)"
  by (simp add: is_f64_def)

lemma f64_le_double: "is_f64 y \<Longrightarrow> x \<le> y \<Longrightarrow> f64 x \<le> y"
  using f64_mono [of x y] by (simp add: is_f64_def)

text \<open>
  Evaluation: \<open>m / 2 ^ k\<close> with a significand of 53 bits is the rounded value when \<open>x * 2 ^ k\<close> is closer
  to \<open>m\<close> than one half, or just one half from an even \<open>m\<close>.
\<close>

lemma f64_significand:
  assumes "2 ^ 52 \<le> x * 2 ^ k" and "x * 2 ^ k < 2 ^ 53"
  shows "f64 x = of_int (round_half_even (x * 2 ^ k)) / 2 ^ k"
proof -
  have "0 < x * 2 ^ k" by (rule less_le_trans [OF _ assms(1)]) simp
  then have x: "0 < x" by (simp add: zero_less_mult_iff)
  have e: "pow2 (52 - int k) = 2 ^ 52 / 2 ^ k" "pow2 (53 - int k) = 2 ^ 53 / 2 ^ k"
    by (simp_all add: pow2_powi power_int_diff)
  have "bin_exp x = 52 - int k"
    using assms(1,2) x by (intro bin_exp_unique) (simp_all add: e field_simps)
  then have "bulp x = 1 / 2 ^ k" by (simp add: bulp_def pow2_def)
  then show ?thesis using x by (simp add: f64_bulp)
qed

lemma f64_eval:
  assumes "2 ^ 52 \<le> x * 2 ^ k" and "x * 2 ^ k < 2 ^ 53" and "\<bar>x * 2 ^ k - of_int m\<bar> < 1 / 2"
  shows "f64 x = of_int m / 2 ^ k"
proof -
  let ?r = "round_half_even (x * 2 ^ k)"
  have "\<bar>of_int ?r - of_int m\<bar> < (1 :: rat)"
    using assms(3) round_half_even_error [of "x * 2 ^ k"] by linarith
  then have "\<bar>of_int (?r - m)\<bar> < (1 :: rat)" by simp
  then have "?r = m" by (simp add: of_int_abs [symmetric] del: of_int_abs)
  then show ?thesis using f64_significand [OF assms(1,2)] by simp
qed

lemma f64_eval_tie:
  assumes "2 ^ 52 \<le> x * 2 ^ k" and "x * 2 ^ k < 2 ^ 53" and "even m" and "\<bar>x * 2 ^ k - of_int m\<bar> = 1 / 2"
  shows "f64 x = of_int m / 2 ^ k"
proof -
  let ?y = "x * 2 ^ k"
  from assms(4) consider "?y = of_int m + 1 / 2" | "?y = of_int (m - 1) + 1 / 2" by (auto simp: abs_if split: if_splits)
  then have "round_half_even ?y = m"
  proof cases
    case 1
    have "\<lfloor>?y\<rfloor> = m" unfolding 1 by (rule floor_unique) simp_all
    with 1 assms(3) show ?thesis by (simp add: round_half_even_def Let_def)
  next
    case 2
    have "\<lfloor>?y\<rfloor> = m - 1" unfolding 2 by (rule floor_unique) simp_all
    with 2 assms(3) show ?thesis by (simp add: round_half_even_def Let_def)
  qed
  then show ?thesis using f64_significand [OF assms(1,2)] by simp
qed

end
