(* ===== verification/StrategyContracts.thy ===== *)
theory StrategyContracts
  imports RiskInputs PyNumText FloatOrder "HOL-Library.List_Lexorder" "HOL-Library.Char_ord"
begin

section \<open>Contracts of the strategy engine\<close>

text \<open>
  \<^verbatim>\<open>contracts/v1/strategy_engine.py\<close>, the models of \<^verbatim>\<open>strategy.py\<close>, \<^verbatim>\<open>signals.py\<close> and \<^verbatim>\<open>tuning.py\<close> the
  engine uses, its entities, value objects and configuration. A Python float is the rational it
  denotes, a literal \<^verbatim>\<open>0.55\<close> is \<open>f64 (55 / 100)\<close>. The models shared with the risk gate hold a float
  by its shortest decimal rendering (\<open>shortest\<close>), and \<open>f64\<close> of a rendering is the float again.
  Fields that no code sets (the causation of a vote, the producer) are left out.
\<close>

subsection \<open>Enumerations\<close>

datatype StrategyTemplateType =
    TP_TREND_PULLBACK
  | TP_ORB_SESSION_BREAKOUT
  | TP_MEAN_REVERSION
  | TP_LIQUIDITY_SWEEP_REVERSAL
  | TP_VOLATILITY_SQUEEZE_BREAKOUT

fun template_value :: "StrategyTemplateType \<Rightarrow> string" where
  "template_value TP_TREND_PULLBACK = ''trend_pullback''"
| "template_value TP_ORB_SESSION_BREAKOUT = ''orb_session_breakout''"
| "template_value TP_MEAN_REVERSION = ''mean_reversion''"
| "template_value TP_LIQUIDITY_SWEEP_REVERSAL = ''liquidity_sweep_reversal''"
| "template_value TP_VOLATILITY_SQUEEZE_BREAKOUT = ''volatility_squeeze_breakout''"

datatype ProfileStatus =
    PR_DRAFT
  | PR_VALIDATED
  | PR_BACKTEST_CANDIDATE
  | PR_TESTED
  | PR_PAPER
  | PR_DEMO_CANDIDATE
  | PR_ACTIVE
  | PR_WATCHLIST
  | PR_DEGRADED
  | PR_DISABLED
  | PR_RETIRED

fun profile_status_value :: "ProfileStatus \<Rightarrow> string" where
  "profile_status_value PR_DRAFT = ''draft''"
| "profile_status_value PR_VALIDATED = ''validated''"
| "profile_status_value PR_BACKTEST_CANDIDATE = ''backtest_candidate''"
| "profile_status_value PR_TESTED = ''tested''"
| "profile_status_value PR_PAPER = ''paper''"
| "profile_status_value PR_DEMO_CANDIDATE = ''demo_candidate''"
| "profile_status_value PR_ACTIVE = ''active''"
| "profile_status_value PR_WATCHLIST = ''watchlist''"
| "profile_status_value PR_DEGRADED = ''degraded''"
| "profile_status_value PR_DISABLED = ''disabled''"
| "profile_status_value PR_RETIRED = ''retired''"

datatype HealthStatus =
    HL_HEALTHY
  | HL_WATCHLIST
  | HL_DEGRADED
  | HL_DISABLED
  | HL_RETIRED
  | HL_UNKNOWN

datatype VoteAbstentionReason =
    AB_INCOMPATIBLE_REGIME
  | AB_STALE_CONTEXT
  | AB_MALFORMED_CONTEXT
  | AB_DISABLED_TEMPLATE
  | AB_DISABLED_PROFILE
  | AB_HANDOFF_INELIGIBLE
  | AB_SYSTEM_FLAG
  | AB_INSUFFICIENT_EVIDENCE
  | AB_DATA_QUALITY
  | AB_LOOKAHEAD
  | AB_FEATURE_FLAG_OFF
  | AB_MAX_BRANCHES
  | AB_DUPLICATE_INTENT
  | AB_CONSENSUS_WAIT
  | AB_CONSENSUS_NO_TRADE
  | AB_NONE

fun abstention_value :: "VoteAbstentionReason \<Rightarrow> string" where
  "abstention_value AB_INCOMPATIBLE_REGIME = ''incompatible_regime''"
| "abstention_value AB_STALE_CONTEXT = ''stale_context''"
| "abstention_value AB_MALFORMED_CONTEXT = ''malformed_context''"
| "abstention_value AB_DISABLED_TEMPLATE = ''disabled_template''"
| "abstention_value AB_DISABLED_PROFILE = ''disabled_profile''"
| "abstention_value AB_HANDOFF_INELIGIBLE = ''handoff_ineligible''"
| "abstention_value AB_SYSTEM_FLAG = ''system_flag''"
| "abstention_value AB_INSUFFICIENT_EVIDENCE = ''insufficient_evidence''"
| "abstention_value AB_DATA_QUALITY = ''data_quality''"
| "abstention_value AB_LOOKAHEAD = ''lookahead''"
| "abstention_value AB_FEATURE_FLAG_OFF = ''feature_flag_off''"
| "abstention_value AB_MAX_BRANCHES = ''max_branches''"
| "abstention_value AB_DUPLICATE_INTENT = ''duplicate_intent''"
| "abstention_value AB_CONSENSUS_WAIT = ''consensus_wait''"
| "abstention_value AB_CONSENSUS_NO_TRADE = ''consensus_no_trade''"
| "abstention_value AB_NONE = ''none''"

datatype ProfileChangeAction =
    PA_CLONE_DRAFT
  | PA_UPDATE_DRAFT
  | PA_APPLY_PRESET
  | PA_VALIDATE
  | PA_PROMOTE
  | PA_ACTIVATE
  | PA_REPLACE_BINDING
  | PA_ROLLBACK
  | PA_DISABLE

datatype ParamKind = PK_INT | PK_FLOAT | PK_BOOL | PK_STRING | PK_ENUM

fun consensus_value :: "ConsensusDecision \<Rightarrow> string" where
  "consensus_value CD_ACCEPT = ''accept''"
| "consensus_value CD_REJECT = ''reject''"
| "consensus_value CD_ABSTAIN = ''abstain''"
| "consensus_value CD_GO_LONG = ''go_long''"
| "consensus_value CD_GO_SHORT = ''go_short''"
| "consensus_value CD_WAIT = ''wait''"
| "consensus_value CD_NO_TRADE = ''no_trade''"

definition FIRST_PHASE :: "StrategyTemplateType list" where
  "FIRST_PHASE = [TP_TREND_PULLBACK, TP_ORB_SESSION_BREAKOUT, TP_MEAN_REVERSION]"

definition ACTIVATABLE :: "ProfileStatus list" where
  "ACTIVATABLE = [PR_VALIDATED, PR_TESTED, PR_DEMO_CANDIDATE]"

definition NON_VOTING :: "ProfileStatus list" where
  "NON_VOTING = [PR_DRAFT, PR_DISABLED, PR_DEGRADED, PR_RETIRED]"

subsection \<open>Python floats and their texts\<close>

text \<open>
  The result of \<^verbatim>\<open>float(x)\<close>: a number, an infinity or NaN, with \<^verbatim>\<open>x < y\<close> and the clipping
  \<^verbatim>\<open>min(1.0, max(0.0, x))\<close>, which turns NaN into 0 because NaN is not above 0.
\<close>

datatype pyfloat = PF_num rat | PF_pinf | PF_ninf | PF_nan

fun pf_below :: "pyfloat \<Rightarrow> rat \<Rightarrow> bool" where
  "pf_below (PF_num x) b \<longleftrightarrow> x < b"
| "pf_below PF_ninf b \<longleftrightarrow> True"
| "pf_below _ b \<longleftrightarrow> False"

fun pf_above :: "pyfloat \<Rightarrow> rat \<Rightarrow> bool" where
  "pf_above (PF_num x) b \<longleftrightarrow> b < x"
| "pf_above PF_pinf b \<longleftrightarrow> True"
| "pf_above _ b \<longleftrightarrow> False"

definition clip01 :: "rat \<Rightarrow> rat" where
  "clip01 x = min 1 (max 0 x)"

fun pf_clip :: "pyfloat \<Rightarrow> rat" where
  "pf_clip (PF_num x) = clip01 x"
| "pf_clip PF_pinf = 1"
| "pf_clip PF_ninf = 0"
| "pf_clip PF_nan = 0"

lemma clip01_range [simp]: "0 \<le> clip01 x" "clip01 x \<le> 1"
  by (simp_all add: clip01_def)

lemma clip01_id: "0 \<le> x \<Longrightarrow> x \<le> 1 \<Longrightarrow> clip01 x = x"
  by (simp add: clip01_def)

lemma pf_clip_range [simp]: "0 \<le> pf_clip x" "pf_clip x \<le> 1"
  by (cases x; simp)+

text \<open>
  \<^verbatim>\<open>float(text)\<close>: blanks around it, a sign, \<^verbatim>\<open>inf\<close>, \<^verbatim>\<open>infinity\<close> or \<^verbatim>\<open>nan\<close> in any case, or digits with
  single underscores between them, a point and an exponent.
\<close>

fun under_ok :: "string \<Rightarrow> bool" where
  "under_ok (a # b # r) \<longleftrightarrow> (b = CHR ''_'' \<longrightarrow> is_digit a \<and> r \<noteq> [] \<and> is_digit (hd r)) \<and> under_ok (b # r)"
| "under_ok _ \<longleftrightarrow> True"

definition digit_run :: "string \<Rightarrow> bool" where
  "digit_run t \<longleftrightarrow> (t \<noteq> [] \<longrightarrow> is_digit (hd t) \<and> list_all (\<lambda>c. is_digit c \<or> c = CHR ''_'') t \<and> under_ok t)"

definition run_digits :: "string \<Rightarrow> string" where
  "run_digits t = filter is_digit t"

definition signed_body :: "string \<Rightarrow> bool \<times> string" where
  "signed_body t = (case t of [] \<Rightarrow> (False, [])
     | c # r \<Rightarrow> if c = CHR ''-'' then (True, r) else if c = CHR ''+'' then (False, r) else (False, t))"

definition read_number :: "string \<Rightarrow> rat option" where
  "read_number t =
     (let m = takeWhile (\<lambda>c. c \<noteq> CHR ''e'') t; e = dropWhile (\<lambda>c. c \<noteq> CHR ''e'') t;
          i = takeWhile (\<lambda>c. c \<noteq> CHR ''.'') m; f = tl (dropWhile (\<lambda>c. c \<noteq> CHR ''.'') m);
          (eneg, ed) = signed_body (tl e); k = int (digits_value (run_digits ed))
      in if digit_run i \<and> digit_run f \<and> (i \<noteq> [] \<or> f \<noteq> []) \<and> (e \<noteq> [] \<longrightarrow> ed \<noteq> [] \<and> digit_run ed)
         then Some (of_nat (digits_value (run_digits (i @ f))) * 10 powi (- int (length (run_digits f))) *
                10 powi (if eneg then - k else k))
         else None)"

text \<open>
  The double nearest to a number, exponents included: below \<open>2\<close> to the \<open>-1022\<close> doubles are the
  multiples of \<open>2\<close> to the \<open>-1074\<close>, and a rounded value of \<open>2\<close> to the \<open>1024\<close> or more is an infinity.
\<close>

definition double :: "rat \<Rightarrow> pyfloat" where
  "double x =
     (let y = (if \<bar>x\<bar> < 1 / 2 ^ 1022 then of_int (round_half_even (x * 2 ^ 1074)) / 2 ^ 1074 else f64 x)
      in if 2 ^ 1024 \<le> y then PF_pinf else if y \<le> - (2 ^ 1024) then PF_ninf else PF_num y)"

definition read_float :: "string \<Rightarrow> pyfloat option" where
  "read_float s =
     (let (neg, t) = signed_body (lower (strip s))
      in if t \<in> {''inf'', ''infinity''} then Some (if neg then PF_ninf else PF_pinf)
         else if t = ''nan'' then Some PF_nan
         else map_option (\<lambda>x. double (if neg then - x else x)) (read_number t))"

text \<open>
  The shortest decimal text of a double, as its value: the first number of digits for which a
  neighbouring decimal rounds back to the double, and the closer one of the two.
\<close>

definition decimals_near :: "rat \<Rightarrow> nat \<Rightarrow> rat list" where
  "decimals_near x n =
     (let q = 10 powi (adjusted x - int n + 1)
      in filter (\<lambda>c. f64 c = x) [of_int \<lfloor>x / q\<rfloor> * q, of_int \<lceil>x / q\<rceil> * q])"

definition shortest :: "rat \<Rightarrow> dec" where
  "shortest x =
     (if x = 0 then 0
      else case find (\<lambda>n. decimals_near x n \<noteq> []) [1..<18] of
        None \<Rightarrow> x
      | Some n \<Rightarrow> (case decimals_near x n of
            [a, b] \<Rightarrow> if b - x < x - a then b else a
          | cs \<Rightarrow> hd cs))"

text \<open>\<^verbatim>\<open>isoformat()\<close> of an aware UTC instant.\<close>

definition civil :: "int \<Rightarrow> int \<times> int \<times> int" where
  "civil days =
     (let z = days + 719468; era = z div 146097; doe = z mod 146097;
          yoe = (doe - doe div 1460 + doe div 36524 - doe div 146096) div 365;
          doy = doe - (365 * yoe + yoe div 4 - yoe div 100); mp = (5 * doy + 2) div 153;
          m = (if mp < 10 then mp + 3 else mp - 9)
      in (yoe + era * 400 + (if m \<le> 2 then 1 else 0), m, doy - (153 * mp + 2) div 5 + 1))"

definition isoformat :: "datetime \<Rightarrow> string" where
  "isoformat t =
     (let (y, m, d) = civil (t div 86400000000); us = t mod 86400000000; s = us div 1000000; f = us mod 1000000;
          two = (\<lambda>k. fixed_digits 2 (nat k))
      in fixed_digits 4 (nat y) @ ''-'' @ two m @ ''-'' @ two d @ ''T'' @ two (s div 3600) @ '':'' @
         two (s div 60 mod 60) @ '':'' @ two (s mod 60) @
         (if f = 0 then [] else ''.'' @ fixed_digits 6 (nat f)) @ ''+00:00'')"

subsection \<open>Parameter values\<close>

text \<open>The values of a parameter dictionary that JSON can render.\<close>

datatype param_value =
    PV_none
  | PV_bool bool
  | PV_int int
  | PV_float pyfloat
  | PV_text string
  | PV_list "param_value list"

type_synonym params = "(string \<times> param_value) list"

fun py_float :: "param_value \<Rightarrow> pyfloat res" where
  "py_float (PV_bool b) = Inr (PF_num (if b then 1 else 0))"
| "py_float (PV_int n) = (case double (of_int n) of PF_num x \<Rightarrow> Inr (PF_num x)
     | _ \<Rightarrow> Inl (OverflowError ''int too large to convert to float''))"
| "py_float (PV_float x) = Inr x"
| "py_float (PV_text t) = (case read_float t of None \<Rightarrow> Inl (ValueError ''could not convert string to float'') | Some x \<Rightarrow> Inr x)"
| "py_float _ = Inl (TypeError ''float() argument must be a string or a real number'')"

fun pv_num :: "param_value \<Rightarrow> rat option" where
  "pv_num (PV_bool b) = Some (if b then 1 else 0)"
| "pv_num (PV_int n) = Some (of_int n)"
| "pv_num (PV_float (PF_num x)) = Some x"
| "pv_num _ = None"

text \<open>\<^verbatim>\<open>a == b\<close>: numbers by value across types, NaN unequal to everything.\<close>

fun pv_eq :: "param_value \<Rightarrow> param_value \<Rightarrow> bool" where
  "pv_eq PV_none PV_none = True"
| "pv_eq (PV_text s) (PV_text t) = (s = t)"
| "pv_eq (PV_list xs) (PV_list ys) = list_all2 pv_eq xs ys"
| "pv_eq (PV_float PF_pinf) (PV_float PF_pinf) = True"
| "pv_eq (PV_float PF_ninf) (PV_float PF_ninf) = True"
| "pv_eq a b = (pv_num a \<noteq> None \<and> pv_num a = pv_num b)"

text \<open>The items of \<^verbatim>\<open>json.dumps(params, sort_keys=True)\<close>; its SHA-256 is a parameter of the model.\<close>

definition sorted_params :: "params \<Rightarrow> params" where
  "sorted_params p = sort_key fst p"

record ParameterSchema =
  pz_name :: string
  pz_display_name :: string
  pz_group :: string
  pz_type :: ParamKind
  pz_default :: param_value
  pz_min :: "rat option"
  pz_max :: "rat option"
  pz_step :: "rat option"
  pz_allowed_values :: "param_value list option"
  pz_ui_mode :: string
  pz_description :: string

subsection \<open>Entities\<close>

record StrategyPreset =
  sq_name :: string
  sq_template_type :: StrategyTemplateType
  sq_parameters :: params

record StrategyProfile =
  pf_profile_id :: string
  pf_name :: string
  pf_template_type :: StrategyTemplateType
  pf_status :: ProfileStatus
  pf_active_version_id :: "string option"
  pf_created_at :: datetime
  pf_schema :: "ParameterSchema list"
  pf_presets :: "StrategyPreset list"

record ProfileVersion =
  pv_version_id :: string
  pv_profile_id :: string
  pv_status :: ProfileStatus
  pv_parameters :: params
  pv_fingerprint :: string
  pv_created_at :: datetime
  pv_parent_version_id :: "string option"
  pv_immutable :: bool
  pv_notes :: string

record StrategyDraft =
  sd_draft_id :: string
  sd_profile_id :: string
  sd_source_version_id :: string
  sd_parameters :: params
  sd_created_at :: datetime
  sd_updated_at :: datetime

record SymbolStrategyBinding =
  sb_binding_id :: string
  sb_symbol :: string
  sb_profile_id :: string
  sb_version_id :: string
  sb_template_type :: StrategyTemplateType
  sb_active :: bool
  sb_created_at :: datetime
  sb_previous_version_id :: "string option"

record StrategyLifecycleEvent =
  se_event_id :: uuid
  se_correlation_id :: uuid
  se_occurred_at :: datetime
  se_action :: ProfileChangeAction
  se_profile_id :: string
  se_version_id :: "string option"
  se_symbol :: "string option"
  se_summary :: string
  se_attributes :: "(string \<times> string) list"

subsection \<open>Votes, consensus and decisions\<close>

text \<open>The values of diagnostic dictionaries.\<close>

datatype diag_item = DI_text string | DI_num rat | DI_bool bool

record StrategyVote =
  vt_vote_id :: uuid
  vt_event_id :: uuid
  vt_correlation_id :: uuid
  vt_occurred_at :: datetime
  vt_template :: StrategyTemplateType
  vt_profile_id :: string
  vt_version_id :: string
  vt_symbol :: string
  vt_direction :: Direction
  vt_raw_probability :: rat
  vt_calibrated_probability :: rat
  vt_setup_quality :: rat
  vt_regime_fit :: rat
  vt_friction_fit :: rat
  vt_historical_reliability :: rat
  vt_recent_live_health :: rat
  vt_entry_type :: EntryType
  vt_entry_hints :: "(string \<times> string) list"
  vt_diagnostics :: "(string, diag_item) dict"
  vt_abstained :: bool
  vt_abstention_reason :: VoteAbstentionReason
  vt_calibration_version :: string
  vt_calibration_fallback :: bool

datatype consensus_diag = CG_counts nat nat | CG_weights "(rat \<times> rat) list" rat rat

record SymbolConsensusResult =
  cn_event_id :: uuid
  cn_correlation_id :: uuid
  cn_occurred_at :: datetime
  cn_symbol :: string
  cn_decision :: ConsensusDecision
  cn_p_long :: rat
  cn_p_short :: rat
  cn_agreement_score :: rat
  cn_conflict_score :: rat
  cn_confidence :: rat
  cn_selected_votes :: "uuid list"
  cn_dropped_votes :: "uuid list"
  cn_abstention_reason :: "VoteAbstentionReason option"
  cn_diagnostics :: consensus_diag

definition unit_range :: "rat \<Rightarrow> bool" where
  "unit_range x \<longleftrightarrow> 0 \<le> x \<and> x \<le> 1"

text \<open>The bounds of the fields, which the model checks when it is built.\<close>

definition vote_bounds :: "StrategyVote \<Rightarrow> bool" where
  "vote_bounds v \<longleftrightarrow>
     unit_range (vt_raw_probability v) \<and> unit_range (vt_calibrated_probability v) \<and>
     unit_range (vt_setup_quality v) \<and> unit_range (vt_regime_fit v) \<and> unit_range (vt_friction_fit v) \<and>
     unit_range (vt_historical_reliability v) \<and> unit_range (vt_recent_live_health v)"

definition make_vote :: "StrategyVote \<Rightarrow> StrategyVote res" where
  "make_vote v = raise_if (\<not> vote_bounds v) (ValueError ''StrategyVote'') (Inr v)"

definition consensus_bounds :: "SymbolConsensusResult \<Rightarrow> bool" where
  "consensus_bounds r \<longleftrightarrow>
     unit_range (cn_p_long r) \<and> unit_range (cn_p_short r) \<and> unit_range (cn_agreement_score r) \<and>
     unit_range (cn_conflict_score r) \<and> unit_range (cn_confidence r)"

definition make_consensus :: "SymbolConsensusResult \<Rightarrow> SymbolConsensusResult res" where
  "make_consensus r = raise_if (\<not> consensus_bounds r) (ValueError ''SymbolConsensusResult'') (Inr r)"

definition make_trade_intent :: "TradeIntent \<Rightarrow> TradeIntent res" where
  "make_trade_intent t =
     raise_if (blank (ti_idempotency_key t)) (ValueError ''idempotency_key is required on TradeIntent'')
     (raise_if (ti_requested_volume t \<noteq> None) (ValueError ''TradeIntent must not carry lot size; requested_volume must be None'')
     (raise_if (\<not> trade_intent_ok t) (ValueError ''TradeIntent'') (Inr t)))"

record NoTradeDecision =
  nt_symbol :: string
  nt_reason :: string
  nt_as_of :: datetime
  nt_event_id :: uuid
  nt_correlation_id :: uuid
  nt_observe_only :: bool
  nt_diagnostics :: "(string, diag_item) dict"

datatype strategy_artifact = SA_intent TradeIntent | SA_no_trade NoTradeDecision

record SignalEvent =
  sg_event_id :: uuid
  sg_correlation_id :: uuid
  sg_causation_id :: "uuid option"
  sg_occurred_at :: datetime
  sg_symbol :: string
  sg_direction :: Direction
  sg_confluence :: dec

subsection \<open>Trackers and health\<close>

text \<open>The statistics of a tracker that no code fills stay \<^verbatim>\<open>None\<close> and are left out.\<close>

record TrackerSnapshot =
  tk_profile_id :: string
  tk_version_id :: string
  tk_as_of :: datetime
  tk_signals_today :: nat
  tk_intents_today :: nat
  tk_trades_today :: "nat option"
  tk_current_state :: string
  tk_insufficient_data :: bool

record ProfileHealthSnapshot =
  ph_profile_id :: string
  ph_version_id :: string
  ph_as_of :: datetime
  ph_health_status :: HealthStatus
  ph_degradation_triggers :: "string list"
  ph_recommended_action :: string
  ph_last_updated_at :: "datetime option"

record StrategyFeedbackEvent =
  sf_occurred_at :: datetime
  sf_symbol :: string
  sf_profile_id :: string
  sf_version_id :: string
  sf_kind :: string
  sf_valid :: bool

record ValidationReport =
  vr_ok :: bool
  vr_errors :: "string list"
  vr_fingerprint :: "string option"

subsection \<open>Configuration\<close>

record ConsensusWeights =
  cw_historical_reliability :: rat
  cw_regime_fit :: rat
  cw_setup_quality :: rat
  cw_friction_fit :: rat
  cw_recent_live_health :: rat

definition weights_sum :: "ConsensusWeights \<Rightarrow> rat" where
  "weights_sum w =
     f64 (f64 (f64 (f64 (cw_historical_reliability w + cw_regime_fit w) + cw_setup_quality w) + cw_friction_fit w) +
       cw_recent_live_health w)"

definition weights_ok :: "ConsensusWeights \<Rightarrow> bool" where
  "weights_ok w \<longleftrightarrow>
     unit_range (cw_historical_reliability w) \<and> unit_range (cw_regime_fit w) \<and> unit_range (cw_setup_quality w) \<and>
     unit_range (cw_friction_fit w) \<and> unit_range (cw_recent_live_health w) \<and>
     \<bar>f64 (weights_sum w - 1)\<bar> \<le> f64 (1 / 10 ^ 9)"

record ConsensusThresholds =
  ch_go_threshold :: rat
  ch_edge_margin :: rat
  ch_min_selected_votes :: nat
  ch_conflict_no_trade :: rat

definition thresholds_ok :: "ConsensusThresholds \<Rightarrow> bool" where
  "thresholds_ok h \<longleftrightarrow>
     unit_range (ch_go_threshold h) \<and> unit_range (ch_edge_margin h) \<and> 1 \<le> ch_min_selected_votes h \<and>
     ch_min_selected_votes h \<le> 3 \<and> unit_range (ch_conflict_no_trade h)"

record Pm3StrategyEngineConfig =
  pe_universe :: "string list"
  pe_operating_mode :: string
  pe_max_active_branches :: nat
  pe_require_handoff_eligibility :: bool
  pe_enabled_templates :: "string list"
  pe_disabled_templates :: "string list"
  pe_weights :: ConsensusWeights
  pe_thresholds :: ConsensusThresholds
  pe_calibration_policy :: string
  pe_stale_ttl_hours :: int
  pe_signal_expiry_hours :: int
  pe_observe_only :: bool
  pe_audit_events :: bool
  pe_require_feature_flag :: bool

definition clean_universe :: "string list \<Rightarrow> string list" where
  "clean_universe xs = map (\<lambda>s. upper (strip s)) (filter (\<lambda>s. \<not> blank s) xs)"

text \<open>A validated configuration: the symbols cleaned, the bounds and the validators satisfied.\<close>

definition pm3_config_ok :: "Pm3StrategyEngineConfig \<Rightarrow> bool" where
  "pm3_config_ok c \<longleftrightarrow>
     pe_universe c \<noteq> [] \<and> (\<exists>xs. pe_universe c = clean_universe xs) \<and>
     pe_operating_mode c \<in> {''shadow'', ''observe-only'', ''paper''} \<and>
     1 \<le> pe_max_active_branches c \<and> pe_max_active_branches c \<le> 3 \<and>
     weights_ok (pe_weights c) \<and> thresholds_ok (pe_thresholds c) \<and>
     1 \<le> pe_stale_ttl_hours c \<and> pe_stale_ttl_hours c \<le> 48 \<and>
     1 \<le> pe_signal_expiry_hours c \<and> pe_signal_expiry_hours c \<le> 48 \<and>
     set (pe_enabled_templates c) \<inter> set (pe_disabled_templates c) = {}"

definition weights_default :: ConsensusWeights where
  "weights_default =
     \<lparr>cw_historical_reliability = f64 (35 / 100), cw_regime_fit = f64 (25 / 100), cw_setup_quality = f64 (20 / 100),
      cw_friction_fit = f64 (10 / 100), cw_recent_live_health = f64 (10 / 100)\<rparr>"

definition thresholds_default :: ConsensusThresholds where
  "thresholds_default =
     \<lparr>ch_go_threshold = f64 (55 / 100), ch_edge_margin = f64 (10 / 100), ch_min_selected_votes = 1,
      ch_conflict_no_trade = f64 (35 / 100)\<rparr>"

definition pm3_config_default :: Pm3StrategyEngineConfig where
  "pm3_config_default =
     \<lparr>pe_universe = [''EURUSD'', ''GBPUSD'', ''USDJPY'', ''AUDUSD''], pe_operating_mode = ''shadow'',
      pe_max_active_branches = 3, pe_require_handoff_eligibility = True,
      pe_enabled_templates = map template_value [TP_TREND_PULLBACK, TP_ORB_SESSION_BREAKOUT, TP_MEAN_REVERSION],
      pe_disabled_templates = map template_value [TP_LIQUIDITY_SWEEP_REVERSAL, TP_VOLATILITY_SQUEEZE_BREAKOUT],
      pe_weights = weights_default, pe_thresholds = thresholds_default, pe_calibration_policy = ''reliability_table'',
      pe_stale_ttl_hours = 4, pe_signal_expiry_hours = 4, pe_observe_only = True, pe_audit_events = True,
      pe_require_feature_flag = True\<rparr>"

end
