(* ===== verification/StrategyVotes.thy ===== *)
theory StrategyVotes
  imports StrategyContracts
begin

section \<open>Templates, calibration and consensus of the strategy engine\<close>

text \<open>
  \<^verbatim>\<open>domain/policies.py\<close>, \<^verbatim>\<open>domain/factories.py\<close>, \<^verbatim>\<open>templates\<close>, \<^verbatim>\<open>consensus\<close> and the adapter of PM2
  candidates. Every arithmetic operation on floats is rounded where the code performs it. The
  identifiers of a vote are drawn by the caller: \<open>u\<close> is the vote, \<open>u + 1\<close> its event.
\<close>

subsection \<open>Policies\<close>

definition may_edit :: "ProfileStatus \<Rightarrow> bool \<Rightarrow> bool" where
  "may_edit st immutable \<longleftrightarrow> \<not> (immutable \<or> st = PR_ACTIVE) \<and> st = PR_DRAFT"

definition may_activate :: "ProfileStatus \<Rightarrow> bool" where
  "may_activate st \<longleftrightarrow> st \<in> set ACTIVATABLE"

definition may_vote :: "ProfileStatus \<Rightarrow> bool" where
  "may_vote st \<longleftrightarrow> st = PR_ACTIVE"

definition dropped_for_status :: "ProfileStatus \<Rightarrow> bool" where
  "dropped_for_status st \<longleftrightarrow> st \<in> set NON_VOTING"

definition default_health :: "nat \<Rightarrow> bool \<Rightarrow> bool \<Rightarrow> HealthStatus" where
  "default_health samples invalid stale_feedback =
     (if invalid then HL_DISABLED else if stale_feedback then HL_DEGRADED
      else if samples < 20 then HL_UNKNOWN else HL_WATCHLIST)"

subsection \<open>Evaluation context\<close>

record SystemFlags =
  fg_strategy_evaluation_enabled :: bool
  fg_observe_only :: bool
  fg_live_trading :: bool

definition flags_default :: SystemFlags where
  "flags_default = \<lparr>fg_strategy_evaluation_enabled = True, fg_observe_only = True, fg_live_trading = False\<rparr>"

definition evaluation_permitted :: "SystemFlags \<Rightarrow> bool" where
  "evaluation_permitted f \<longleftrightarrow> (if fg_live_trading f then False else fg_strategy_evaluation_enabled f)"

record FeatureView =
  fv_family_summary :: "(string, dec) dict"
  fv_confluence :: rat
  fv_long_score :: rat
  fv_short_score :: rat
  fv_structure :: rat
  fv_momentum :: rat
  fv_volatility :: rat
  fv_session :: rat

record EvaluationContext =
  ec_symbol :: string
  ec_as_of :: datetime
  ec_candidate_id :: uuid
  ec_correlation_id :: uuid
  ec_regime :: RegimeType
  ec_data_quality :: DataQualityStatus
  ec_stale :: bool
  ec_malformed :: bool
  ec_lookahead :: bool
  ec_handoff_eligible :: bool
  ec_session_quality :: rat
  ec_side_bias :: string
  ec_features :: FeatureView
  ec_params :: params
  ec_profile_id :: string
  ec_version_id :: string
  ec_flags :: SystemFlags

definition from_candidate ::
  "RankedCandidate \<Rightarrow> string \<Rightarrow> string \<Rightarrow> params \<Rightarrow> SystemFlags \<Rightarrow> EvaluationContext" where
  "from_candidate c pid vid ps fl =
     (let ctx = rk_context c; sc = rk_scorecard c in
      \<lparr>ec_symbol = rk_symbol c, ec_as_of = rk_as_of c, ec_candidate_id = rk_candidate_id c,
       ec_correlation_id = rk_correlation_id c, ec_regime = cc_regime ctx, ec_data_quality = cc_data_quality ctx,
       ec_stale = (cq_state (rk_state c) = QS_STALE \<or> cc_data_quality ctx = DQ_STALE \<or>
         (case rk_timing_valid_until c of None \<Rightarrow> False | Some t \<Rightarrow> t \<le> rk_as_of c)),
       ec_malformed = (cc_data_quality ctx = DQ_MALFORMED \<or> cc_data_quality ctx = DQ_INCOMPLETE),
       ec_lookahead = (rk_as_of c < cc_as_of ctx),
       ec_handoff_eligible = rk_handoff_eligibility c, ec_session_quality = f64 (cc_session_quality ctx),
       ec_side_bias = rk_side_bias c,
       ec_features = \<lparr>fv_family_summary = cc_feature_family_summary ctx, fv_confluence = f64 (sc_final_confluence_score sc),
         fv_long_score = f64 (sc_long_score sc), fv_short_score = f64 (sc_short_score sc),
         fv_structure = f64 (sc_structure_score sc), fv_momentum = f64 (sc_momentum_score sc),
         fv_volatility = f64 (sc_volatility_score sc), fv_session = f64 (sc_session_score sc)\<rparr>,
       ec_params = ps, ec_profile_id = pid, ec_version_id = vid, ec_flags = fl\<rparr>)"

subsection \<open>Votes\<close>

definition abstain_vote ::
  "uuid \<Rightarrow> StrategyTemplateType \<Rightarrow> string \<Rightarrow> string \<Rightarrow> string \<Rightarrow> datetime \<Rightarrow> VoteAbstentionReason \<Rightarrow> uuid \<Rightarrow>
   (string, diag_item) dict \<Rightarrow> StrategyVote" where
  "abstain_vote u tp pid vid sy now reason corr diag =
     \<lparr>vt_vote_id = u, vt_event_id = Suc u, vt_correlation_id = corr, vt_occurred_at = now, vt_template = tp,
      vt_profile_id = pid, vt_version_id = vid, vt_symbol = sy, vt_direction = FLAT,
      vt_raw_probability = 1 / 2, vt_calibrated_probability = 1 / 2, vt_setup_quality = 0, vt_regime_fit = 0,
      vt_friction_fit = 0, vt_historical_reliability = 1 / 2, vt_recent_live_health = 1 / 2,
      vt_entry_type = ET_LIMIT, vt_entry_hints = [],
      vt_diagnostics = (if diag = [] then [(''reason'', DI_text (abstention_value reason))] else diag),
      vt_abstained = True, vt_abstention_reason = reason, vt_calibration_version = ''reliability_table.v1'',
      vt_calibration_fallback = False\<rparr>"

definition directional_vote ::
  "uuid \<Rightarrow> StrategyTemplateType \<Rightarrow> string \<Rightarrow> string \<Rightarrow> string \<Rightarrow> datetime \<Rightarrow> Direction \<Rightarrow> rat \<Rightarrow> rat \<Rightarrow> rat \<Rightarrow> rat \<Rightarrow>
   pyfloat \<Rightarrow> pyfloat \<Rightarrow> uuid \<Rightarrow> (string \<times> string) list \<Rightarrow> (string, diag_item) dict \<Rightarrow> StrategyVote" where
  "directional_vote u tp pid vid sy now dir raw quality regime friction hist live corr hints diag =
     \<lparr>vt_vote_id = u, vt_event_id = Suc u, vt_correlation_id = corr, vt_occurred_at = now, vt_template = tp,
      vt_profile_id = pid, vt_version_id = vid, vt_symbol = sy, vt_direction = dir,
      vt_raw_probability = clip01 raw, vt_calibrated_probability = clip01 raw, vt_setup_quality = clip01 quality,
      vt_regime_fit = clip01 regime, vt_friction_fit = clip01 friction, vt_historical_reliability = pf_clip hist,
      vt_recent_live_health = pf_clip live, vt_entry_type = ET_LIMIT, vt_entry_hints = hints, vt_diagnostics = diag,
      vt_abstained = False, vt_abstention_reason = AB_NONE, vt_calibration_version = ''reliability_table.v1'',
      vt_calibration_fallback = False\<rparr>"

subsection \<open>Templates\<close>

definition unit_score :: "rat \<Rightarrow> rat" where
  "unit_score x = clip01 (f64 (x / 100))"

definition abstain_ctx ::
  "uuid \<Rightarrow> StrategyTemplateType \<Rightarrow> EvaluationContext \<Rightarrow> VoteAbstentionReason \<Rightarrow> (string, diag_item) dict \<Rightarrow> StrategyVote" where
  "abstain_ctx u tp c reason diag =
     abstain_vote u tp (ec_profile_id c) (ec_version_id c) (ec_symbol c) (ec_as_of c) reason (ec_correlation_id c) diag"

definition tp_gate ::
  "uuid \<Rightarrow> StrategyTemplateType \<Rightarrow> RegimeType list \<Rightarrow> EvaluationContext \<Rightarrow> StrategyVote option" where
  "tp_gate u tp regimes c =
     (if ec_lookahead c then Some (abstain_ctx u tp c AB_LOOKAHEAD [])
      else if ec_malformed c then Some (abstain_ctx u tp c AB_MALFORMED_CONTEXT [])
      else if ec_stale c \<or> ec_data_quality c \<in> {DQ_STALE, DQ_INCOMPLETE} then Some (abstain_ctx u tp c AB_STALE_CONTEXT [])
      else if ec_data_quality c = DQ_MALFORMED then Some (abstain_ctx u tp c AB_DATA_QUALITY [])
      else if ec_regime c \<notin> set regimes
        then Some (abstain_ctx u tp c AB_INCOMPATIBLE_REGIME [(''regime'', DI_text (regime_value (ec_regime c)))])
      else None)"

text \<open>\<^verbatim>\<open>float(params.get(name, default))\<close>\<close>

definition param_float :: "string \<Rightarrow> rat \<Rightarrow> params \<Rightarrow> pyfloat res" where
  "param_float nm dflt ps = (case dict_get ps nm of None \<Rightarrow> Inr (PF_num dflt) | Some v \<Rightarrow> py_float v)"

definition tp_vote ::
  "uuid \<Rightarrow> StrategyTemplateType \<Rightarrow> EvaluationContext \<Rightarrow> Direction \<Rightarrow> rat \<Rightarrow> rat \<Rightarrow> rat \<Rightarrow> rat \<Rightarrow> StrategyVote res" where
  "tp_vote u tp c dir raw regime quality friction =
     rbind (param_float ''historical_reliability'' (f64 (55 / 100)) (ec_params c)) (\<lambda>hist.
     rbind (param_float ''recent_live_health'' (f64 (50 / 100)) (ec_params c)) (\<lambda>live.
     make_vote (directional_vote u tp (ec_profile_id c) (ec_version_id c) (ec_symbol c) (ec_as_of c) dir raw quality
       regime friction hist live (ec_correlation_id c)
       [(''side_bias'', ec_side_bias c), (''regime'', regime_value (ec_regime c))]
       [(''template'', DI_text (template_value tp)), (''confluence'', DI_num (fv_confluence (ec_features c)))])))"

definition trend_pullback :: "uuid \<Rightarrow> EvaluationContext \<Rightarrow> StrategyVote res" where
  "trend_pullback u c =
     (case tp_gate u TP_TREND_PULLBACK [RG_TRENDING] c of Some v \<Rightarrow> Inr v | None \<Rightarrow>
      (let f = ec_features c; ls = fv_long_score f; ss = fv_short_score f;
           vote = (\<lambda>dir x. tp_vote u TP_TREND_PULLBACK c dir (f64 (f64 (55 / 100) + f64 (f64 (35 / 100) * unit_score x)))
             (f64 (85 / 100)) (max (unit_score (fv_structure f)) (unit_score (fv_confluence f))) (f64 (65 / 100)))
       in if ec_side_bias c = ''long'' \<or> f64 (ss + 5) < ls then vote BUY ls
          else if ec_side_bias c = ''short'' \<or> f64 (ls + 5) < ss then vote SELL ss
          else Inr (abstain_ctx u TP_TREND_PULLBACK c AB_INSUFFICIENT_EVIDENCE [])))"

definition orb_session_breakout :: "uuid \<Rightarrow> EvaluationContext \<Rightarrow> StrategyVote res" where
  "orb_session_breakout u c =
     (case tp_gate u TP_ORB_SESSION_BREAKOUT [RG_TRANSITIONAL, RG_COMPRESSION, RG_TRENDING] c of Some v \<Rightarrow> Inr v | None \<Rightarrow>
      (let f = ec_features c; sq = ec_session_quality c; m = fv_momentum f;
           raw = f64 (f64 (f64 (52 / 100) + f64 (f64 (30 / 100) * unit_score m)) + f64 (f64 (10 / 100) * sq))
       in if sq < f64 (4 / 10)
          then Inr (abstain_ctx u TP_ORB_SESSION_BREAKOUT c AB_INSUFFICIENT_EVIDENCE [(''session_quality'', DI_num sq)])
          else tp_vote u TP_ORB_SESSION_BREAKOUT c
            (if ec_side_bias c = ''short'' \<or> f64 (fv_long_score f + 8) < fv_short_score f then SELL else BUY)
            (min (f64 (95 / 100)) raw) (if ec_regime c \<noteq> RG_TRENDING then f64 (70 / 100) else f64 (60 / 100))
            (max (unit_score m) sq) (f64 (55 / 100))))"

definition mean_reversion :: "uuid \<Rightarrow> EvaluationContext \<Rightarrow> StrategyVote res" where
  "mean_reversion u c =
     (case tp_gate u TP_MEAN_REVERSION [RG_RANGING] c of Some v \<Rightarrow> Inr v | None \<Rightarrow>
      (let f = ec_features c;
           vote = (\<lambda>dir x. tp_vote u TP_MEAN_REVERSION c dir (f64 (f64 (50 / 100) + f64 (f64 (30 / 100) * unit_score x)))
             (f64 (80 / 100)) (unit_score (fv_confluence f)) (f64 (60 / 100)))
       in if fv_short_score f \<le> fv_long_score f then vote SELL (fv_long_score f) else vote BUY (fv_short_score f)))"

definition liquidity_sweep_reversal :: "uuid \<Rightarrow> EvaluationContext \<Rightarrow> StrategyVote res" where
  "liquidity_sweep_reversal u c =
     (case tp_gate u TP_LIQUIDITY_SWEEP_REVERSAL [RG_RANGING] c of Some v \<Rightarrow> Inr v | None \<Rightarrow>
      (let s = fv_structure (ec_features c)
       in if s < 40 then Inr (abstain_ctx u TP_LIQUIDITY_SWEEP_REVERSAL c AB_INSUFFICIENT_EVIDENCE [])
          else tp_vote u TP_LIQUIDITY_SWEEP_REVERSAL c (if ec_side_bias c = ''short'' then BUY else SELL)
            (f64 (f64 (48 / 100) + f64 (f64 (20 / 100) * unit_score s))) (f64 (55 / 100)) (unit_score s) (f64 (45 / 100))))"

definition volatility_squeeze_breakout :: "uuid \<Rightarrow> EvaluationContext \<Rightarrow> StrategyVote res" where
  "volatility_squeeze_breakout u c =
     (case tp_gate u TP_VOLATILITY_SQUEEZE_BREAKOUT [RG_COMPRESSION, RG_TRANSITIONAL] c of Some v \<Rightarrow> Inr v | None \<Rightarrow>
      (let f = ec_features c
       in tp_vote u TP_VOLATILITY_SQUEEZE_BREAKOUT c (if ec_side_bias c = ''short'' then SELL else BUY)
            (f64 (f64 (50 / 100) + f64 (f64 (25 / 100) * unit_score (fv_momentum f)))) (f64 (72 / 100))
            (if fv_volatility f \<noteq> 0 then unit_score (f64 (100 - fv_volatility f)) else 1 / 2) (f64 (50 / 100))))"

text \<open>The registry.\<close>

fun template_evaluate :: "StrategyTemplateType \<Rightarrow> uuid \<Rightarrow> EvaluationContext \<Rightarrow> StrategyVote res" where
  "template_evaluate TP_TREND_PULLBACK = trend_pullback"
| "template_evaluate TP_ORB_SESSION_BREAKOUT = orb_session_breakout"
| "template_evaluate TP_MEAN_REVERSION = mean_reversion"
| "template_evaluate TP_LIQUIDITY_SWEEP_REVERSAL = liquidity_sweep_reversal"
| "template_evaluate TP_VOLATILITY_SQUEEZE_BREAKOUT = volatility_squeeze_breakout"

definition is_enabled :: "string list \<Rightarrow> StrategyTemplateType \<Rightarrow> bool" where
  "is_enabled enabled tp \<longleftrightarrow> template_value tp \<in> set enabled"

definition all_types :: "StrategyTemplateType list" where
  "all_types = [TP_TREND_PULLBACK, TP_ORB_SESSION_BREAKOUT, TP_MEAN_REVERSION, TP_LIQUIDITY_SWEEP_REVERSAL,
     TP_VOLATILITY_SQUEEZE_BREAKOUT]"

definition enabled_types :: "string list \<Rightarrow> StrategyTemplateType list" where
  "enabled_types enabled = filter (is_enabled enabled) all_types"

subsection \<open>Calibration\<close>

definition RELIABILITY_TABLE :: "(rat \<times> rat) list" where
  "RELIABILITY_TABLE =
     [(0, f64 (12 / 100)), (1 / 4, f64 (28 / 100)), (1 / 2, f64 (48 / 100)), (3 / 4, f64 (68 / 100)), (1, f64 (82 / 100))]"

text \<open>The loop over neighbouring rows; the table is not empty.\<close>

fun interp_rows :: "rat \<Rightarrow> (rat \<times> rat) list \<Rightarrow> rat" where
  "interp_rows x ((x0, y0) # (x1, y1) # rows) =
     (if x0 \<le> x \<and> x \<le> x1
      then if x1 = x0 then y0
           else let t = f64 (f64 (x - x0) / f64 (x1 - x0)) in f64 (y0 + f64 (t * f64 (y1 - y0)))
      else interp_rows x ((x1, y1) # rows))"
| "interp_rows x rows = snd (last rows)"

definition interp :: "rat \<Rightarrow> rat" where
  "interp raw = interp_rows (clip01 raw) RELIABILITY_TABLE"

definition calibrate_table :: "StrategyVote \<Rightarrow> StrategyVote" where
  "calibrate_table v = v\<lparr>vt_calibrated_probability := interp (vt_raw_probability v),
     vt_calibration_version := ''reliability_table.v1'', vt_calibration_fallback := False\<rparr>"

definition calibrate_fallback :: "StrategyVote \<Rightarrow> StrategyVote" where
  "calibrate_fallback v =
     v\<lparr>vt_calibrated_probability := clip01 (f64 (1 / 2 + f64 (f64 (vt_raw_probability v - 1 / 2) * (1 / 2)))),
       vt_calibration_version := ''fallback.identity.v1'', vt_calibration_fallback := True,
       vt_diagnostics := dict_put ''calibration'' (DI_text ''fallback'') (vt_diagnostics v)\<rparr>"

definition calibrate_platt :: "StrategyVote \<Rightarrow> StrategyVote" where
  "calibrate_platt v = (let r = calibrate_fallback v in
     r\<lparr>vt_calibration_version := ''platt.unfitted.v1'', vt_calibration_fallback := True,
       vt_diagnostics := dict_put ''platt'' (DI_text ''unfitted'') (vt_diagnostics r)\<rparr>)"

definition calibrate_isotonic :: "StrategyVote \<Rightarrow> StrategyVote" where
  "calibrate_isotonic v = (let r = calibrate_fallback v in
     r\<lparr>vt_calibration_version := ''isotonic.unfitted.v1'', vt_calibration_fallback := True,
       vt_diagnostics := dict_put ''isotonic'' (DI_text ''unfitted'') (vt_diagnostics r)\<rparr>)"

definition policy_for :: "string \<Rightarrow> StrategyVote \<Rightarrow> StrategyVote" where
  "policy_for nm =
     (if nm = ''reliability_table'' then calibrate_table
      else if nm = ''fallback'' then calibrate_fallback
      else if nm = ''platt'' then calibrate_platt
      else if nm = ''isotonic'' then calibrate_isotonic
      else calibrate_table)"

subsection \<open>Consensus\<close>

definition vote_weight :: "ConsensusWeights \<Rightarrow> rat \<Rightarrow> rat \<Rightarrow> rat \<Rightarrow> rat \<Rightarrow> rat \<Rightarrow> rat" where
  "vote_weight w h r q f live =
     f64 (f64 (f64 (f64 (f64 (cw_historical_reliability w * h) + f64 (cw_regime_fit w * r)) +
       f64 (cw_setup_quality w * q)) + f64 (cw_friction_fit w * f)) + f64 (cw_recent_live_health w * live))"

definition weight_of :: "ConsensusWeights \<Rightarrow> StrategyVote \<Rightarrow> rat" where
  "weight_of w v =
     vote_weight w (clip01 (vt_historical_reliability v)) (clip01 (vt_regime_fit v)) (clip01 (vt_setup_quality v))
       (clip01 (vt_friction_fit v)) (clip01 (vt_recent_live_health v))"

definition cal_of :: "StrategyVote \<Rightarrow> rat" where
  "cal_of v = clip01 (vt_calibrated_probability v)"

text \<open>The accumulators of one side, in the order of the votes.\<close>

definition selected :: "StrategyVote \<Rightarrow> bool" where
  "selected v \<longleftrightarrow> \<not> vt_abstained v \<and> vt_direction v \<noteq> FLAT"

record tally =
  ty_long_acc :: rat
  ty_long_w :: rat
  ty_short_acc :: rat
  ty_short_w :: rat

definition tally_vote :: "ConsensusWeights \<Rightarrow> StrategyVote \<Rightarrow> tally \<Rightarrow> tally" where
  "tally_vote ws v t =
     (let w = weight_of ws v; p = cal_of v in
      case vt_direction v of
        BUY \<Rightarrow> t\<lparr>ty_long_acc := f64 (ty_long_acc t + f64 (w * p)), ty_long_w := f64 (ty_long_w t + w)\<rparr>
      | SELL \<Rightarrow> t\<lparr>ty_short_acc := f64 (ty_short_acc t + f64 (w * p)), ty_short_w := f64 (ty_short_w t + w)\<rparr>
      | FLAT \<Rightarrow> t)"

definition tally_votes :: "ConsensusWeights \<Rightarrow> StrategyVote list \<Rightarrow> tally" where
  "tally_votes ws vs = fold (tally_vote ws) vs \<lparr>ty_long_acc = 0, ty_long_w = 0, ty_short_acc = 0, ty_short_w = 0\<rparr>"

definition p_quotient :: "rat \<Rightarrow> rat \<Rightarrow> rat" where
  "p_quotient acc w = (if w \<noteq> 0 then f64 (acc / w) else 0)"

definition decision_of_p ::
  "ConsensusThresholds \<Rightarrow> rat \<Rightarrow> rat \<Rightarrow> rat \<Rightarrow> bool \<Rightarrow> ConsensusDecision \<times> VoteAbstentionReason option" where
  "decision_of_p th pl ps conflict both =
     (if ch_conflict_no_trade th \<le> conflict \<and> both then (CD_NO_TRADE, Some AB_CONSENSUS_NO_TRADE)
      else if ch_go_threshold th \<le> pl \<and> ch_edge_margin th \<le> f64 (pl - ps) then (CD_GO_LONG, None)
      else if ch_go_threshold th \<le> ps \<and> ch_edge_margin th \<le> f64 (ps - pl) then (CD_GO_SHORT, None)
      else (CD_WAIT, Some AB_CONSENSUS_WAIT))"

definition edge_of :: "rat \<Rightarrow> rat \<Rightarrow> rat" where
  "edge_of pl ps = \<bar>f64 (pl - ps)\<bar>"

definition conflict_of :: "rat \<Rightarrow> bool \<Rightarrow> rat" where
  "conflict_of edge both = min 1 (f64 (f64 (1 - edge) * (if both then 1 / 2 else f64 (15 / 100))))"

text \<open>The result when too few votes are selected, and the result of the scores.\<close>

definition wait_result :: "uuid \<Rightarrow> StrategyVote list \<Rightarrow> string \<Rightarrow> datetime \<Rightarrow> SymbolConsensusResult" where
  "wait_result u votes sy now =
     (let sel = filter selected votes; dropped = filter (\<lambda>v. \<not> selected v) votes in
      \<lparr>cn_event_id = u, cn_correlation_id = Suc u, cn_occurred_at = now, cn_symbol = sy, cn_decision = CD_WAIT,
       cn_p_long = 0, cn_p_short = 0, cn_agreement_score = 0, cn_conflict_score = 0, cn_confidence = 0,
       cn_selected_votes = map vt_vote_id sel, cn_dropped_votes = map vt_vote_id dropped,
       cn_abstention_reason = Some AB_INSUFFICIENT_EVIDENCE, cn_diagnostics = CG_counts (length sel) (length dropped)\<rparr>)"

definition scored_result ::
  "ConsensusWeights \<Rightarrow> ConsensusThresholds \<Rightarrow> uuid \<Rightarrow> StrategyVote list \<Rightarrow> string \<Rightarrow> datetime \<Rightarrow> SymbolConsensusResult" where
  "scored_result ws th u votes sy now =
     (let sel = filter selected votes; dropped = filter (\<lambda>v. \<not> selected v) votes;
          t = tally_votes ws sel;
          pl = p_quotient (ty_long_acc t) (ty_long_w t);
          ps = p_quotient (ty_short_acc t) (ty_short_w t);
          edge = edge_of pl ps;
          both = (ty_long_w t \<noteq> 0 \<and> ty_short_w t \<noteq> 0);
          conflict = conflict_of edge both;
          agreement = min 1 (f64 (edge * f64 (of_nat (length sel) / 3)));
          confidence = min 1 (f64 (max pl ps * f64 (1 - conflict)));
          d = decision_of_p th pl ps conflict both
      in \<lparr>cn_event_id = u, cn_correlation_id = Suc u, cn_occurred_at = now, cn_symbol = sy, cn_decision = fst d,
          cn_p_long = pl, cn_p_short = ps, cn_agreement_score = agreement, cn_conflict_score = conflict,
          cn_confidence = confidence, cn_selected_votes = map vt_vote_id sel, cn_dropped_votes = map vt_vote_id dropped,
          cn_abstention_reason = snd d,
          cn_diagnostics = CG_weights (map (\<lambda>v. (weight_of ws v, cal_of v)) sel) (ty_long_w t) (ty_short_w t)\<rparr>)"

definition decide_consensus ::
  "ConsensusWeights \<Rightarrow> ConsensusThresholds \<Rightarrow> uuid \<Rightarrow> StrategyVote list \<Rightarrow> string \<Rightarrow> datetime \<Rightarrow> SymbolConsensusResult res" where
  "decide_consensus ws th u votes sy now =
     make_consensus
       (if length (filter selected votes) < ch_min_selected_votes th then wait_result u votes sy now
        else scored_result ws th u votes sy now)"

end
