(* ===== verification/StrategyModule.thy ===== *)
theory StrategyModule
  imports StrategyVotes
begin

section \<open>The strategy engine\<close>

text \<open>
  The catalogue seed, the in-memory repositories, the services under \<^verbatim>\<open>application\<close>, the pipelines and
  \<^verbatim>\<open>PM3StrategyEngineModule\<close>. The state holds the five repositories, the event publisher, the issued
  intent keys and the last signals. A stored entity is mutated in place by the code and then saved
  under its own identifier; here it is replaced. \<^verbatim>\<open>uuid4()\<close> of events, votes and decisions is a
  counter; the first digits of \<^verbatim>\<open>uuid4().hex\<close> in the name of a draft, version or binding are an argument
  \<open>hx\<close> of the operation, because they need not be new. \<open>H\<close> stands for the SHA-256 of a rendering.
\<close>

type_synonym params_print = "params \<Rightarrow> string"

record pm3 =
  n3_config :: Pm3StrategyEngineConfig
  n3_feature_enabled :: bool
  n3_flags :: SystemFlags
  n3_profiles :: "(string, StrategyProfile) dict"
  n3_versions :: "(string, ProfileVersion) dict"
  n3_drafts :: "(string, StrategyDraft) dict"
  n3_bindings :: "(string, SymbolStrategyBinding) dict"
  n3_trackers :: "(string \<times> string, TrackerSnapshot) dict"
  n3_events :: "StrategyLifecycleEvent list"
  n3_seen :: "(string, string) dict"
  n3_last_signal :: "(string, SignalEvent) dict"
  n3_last_votes :: "StrategyVote list"
  n3_next_id :: uuid

subsection \<open>Repositories\<close>

definition save_profile :: "StrategyProfile \<Rightarrow> pm3 \<Rightarrow> pm3" where
  "save_profile p s = s\<lparr>n3_profiles := dict_put (pf_profile_id p) p (n3_profiles s)\<rparr>"

definition save_version :: "ProfileVersion \<Rightarrow> pm3 \<Rightarrow> pm3" where
  "save_version v s = s\<lparr>n3_versions := dict_put (pv_version_id v) v (n3_versions s)\<rparr>"

definition save_draft :: "StrategyDraft \<Rightarrow> pm3 \<Rightarrow> pm3" where
  "save_draft d s = s\<lparr>n3_drafts := dict_put (sd_draft_id d) d (n3_drafts s)\<rparr>"

definition save_binding :: "SymbolStrategyBinding \<Rightarrow> pm3 \<Rightarrow> pm3" where
  "save_binding b s = s\<lparr>n3_bindings := dict_put (sb_binding_id b) b (n3_bindings s)\<rparr>"

definition save_tracker :: "TrackerSnapshot \<Rightarrow> pm3 \<Rightarrow> pm3" where
  "save_tracker t s = s\<lparr>n3_trackers := dict_put (tk_profile_id t, tk_version_id t) t (n3_trackers s)\<rparr>"

definition bindings_for_symbol :: "string \<Rightarrow> pm3 \<Rightarrow> SymbolStrategyBinding list" where
  "bindings_for_symbol sy s = filter (\<lambda>b. sb_symbol b = sy) (dict_values (n3_bindings s))"

definition versions_for_profile :: "string \<Rightarrow> pm3 \<Rightarrow> ProfileVersion list" where
  "versions_for_profile pid s = filter (\<lambda>v. pv_profile_id v = pid) (dict_values (n3_versions s))"

definition n3_fresh :: "(pm3, uuid) comp" where
  "n3_fresh s = (Inr (n3_next_id s), s\<lparr>n3_next_id := Suc (n3_next_id s)\<rparr>)"

definition publish_event ::
  "datetime \<Rightarrow> ProfileChangeAction \<Rightarrow> string \<Rightarrow> string option \<Rightarrow> string option \<Rightarrow> string \<Rightarrow> (string \<times> string) list \<Rightarrow>
   (pm3, unit) comp" where
  "publish_event now act pid vid sy summary attrs =
     bnd n3_fresh (\<lambda>e. bnd n3_fresh (\<lambda>c. upd_st (\<lambda>s. s\<lparr>n3_events := n3_events s @
       [\<lparr>se_event_id = e, se_correlation_id = c, se_occurred_at = now, se_action = act, se_profile_id = pid,
         se_version_id = vid, se_symbol = sy, se_summary = summary, se_attributes = attrs\<rparr>]\<rparr>)))"

subsection \<open>Validation\<close>

text \<open>
  The errors of one parameter. \<^verbatim>\<open>float(value)\<close> of an integer that no double reaches raises \<^verbatim>\<open>OverflowError\<close>,
  which the handler does not catch.
\<close>

definition validate_item :: "params \<Rightarrow> ParameterSchema \<Rightarrow> string list res" where
  "validate_item ps z =
     (let nm = pz_name z in
      case dict_get ps nm of
        None \<Rightarrow> Inr [''missing parameter '' @ nm]
      | Some v \<Rightarrow>
        (let allowed = (case pz_allowed_values z of None \<Rightarrow> [] | Some xs \<Rightarrow>
               if xs \<noteq> [] \<and> \<not> list_ex (pv_eq v) xs then [nm @ '' not in allowed_values''] else []);
             bound = (\<lambda>below above.
               (case pz_min z of None \<Rightarrow> [] | Some b \<Rightarrow> if below b then [nm @ '' below min''] else []) @
               (case pz_max z of None \<Rightarrow> [] | Some b \<Rightarrow> if above b then [nm @ '' above max''] else []))
         in case pz_type z of
              PK_FLOAT \<Rightarrow> (case py_float v of
                  Inl (OverflowError e) \<Rightarrow> Inl (OverflowError e)
                | Inl _ \<Rightarrow> Inr [nm @ '' must be float'']
                | Inr x \<Rightarrow> Inr (bound (pf_below x) (pf_above x) @ allowed))
            | PK_INT \<Rightarrow> (case v of
                  PV_int n \<Rightarrow> Inr (bound (\<lambda>b. of_int n < b) (\<lambda>b. b < of_int n) @ allowed)
                | _ \<Rightarrow> Inr [nm @ '' must be int''])
            | _ \<Rightarrow> Inr allowed))"

fun validate_items :: "params \<Rightarrow> ParameterSchema list \<Rightarrow> string list res" where
  "validate_items ps [] = Inr []"
| "validate_items ps (z # zs) = rbind (validate_item ps z) (\<lambda>e. rbind (validate_items ps zs) (\<lambda>es. Inr (e @ es)))"

definition validate_parameters :: "params_print \<Rightarrow> ParameterSchema list \<Rightarrow> params \<Rightarrow> ValidationReport res" where
  "validate_parameters H schema ps =
     rbind (validate_items ps schema) (\<lambda>errors. Inr
       \<lparr>vr_ok = (errors = []), vr_errors = errors, vr_fingerprint = (if errors = [] then Some (H (sorted_params ps)) else None)\<rparr>)"

text \<open>The active bindings grouped by symbol, the symbols in the order they first occur.\<close>

definition validate_group :: "nat \<Rightarrow> string \<Rightarrow> SymbolStrategyBinding list \<Rightarrow> string list" where
  "validate_group max_active sy g =
     (if max_active < length g
      then [sy @ '' has '' @ nat_str (length g) @ '' active branches (max '' @ nat_str max_active @ '')''] else []) @
     (if distinct (map sb_template_type g) then [] else [sy @ '' has duplicate template bindings'']) @
     (if distinct (map sb_profile_id g) then [] else [sy @ '' has duplicate profile bindings''])"

definition validate_bindings :: "nat \<Rightarrow> SymbolStrategyBinding list \<Rightarrow> ValidationReport" where
  "validate_bindings max_active bs =
     (let act = filter sb_active bs;
          errors = concat (map (\<lambda>sy. validate_group max_active sy (filter (\<lambda>b. sb_symbol b = sy) act)) (fromkeys (map sb_symbol act)))
      in \<lparr>vr_ok = (errors = []), vr_errors = errors, vr_fingerprint = None\<rparr>)"

subsection \<open>Drafts\<close>

definition n3_version :: "string option \<Rightarrow> pm3 \<Rightarrow> ProfileVersion option" where
  "n3_version vid s = (case vid of None \<Rightarrow> None | Some i \<Rightarrow> dict_get (n3_versions s) i)"

definition clone_draft :: "string \<Rightarrow> string \<Rightarrow> datetime \<Rightarrow> (pm3, StrategyDraft) comp" where
  "clone_draft hx pid now =
     bnd (get_st (\<lambda>s. dict_get (n3_profiles s) pid)) (\<lambda>p.
     case p of None \<Rightarrow> raise_exn (ValueError ''profile or active version missing'')
     | Some prof \<Rightarrow>
       (if pf_active_version_id prof = None then raise_exn (ValueError ''profile or active version missing'')
        else bnd (get_st (n3_version (pf_active_version_id prof))) (\<lambda>src.
          case src of None \<Rightarrow> raise_exn (ValueError ''active version missing'')
          | Some v \<Rightarrow>
            (let d = \<lparr>sd_draft_id = ''draft:'' @ pid @ '':'' @ hx, sd_profile_id = pid, sd_source_version_id = pv_version_id v,
                  sd_parameters = pv_parameters v, sd_created_at = now, sd_updated_at = now\<rparr>
             in bnd (upd_st (save_draft d)) (\<lambda>_.
                bnd (publish_event now PA_CLONE_DRAFT pid (Some (pv_version_id v)) None (''cloned draft '' @ sd_draft_id d) []) (\<lambda>_.
                ret d))))))"

definition update_draft_parameter :: "string \<Rightarrow> string \<Rightarrow> param_value \<Rightarrow> datetime \<Rightarrow> (pm3, StrategyDraft) comp" where
  "update_draft_parameter did nm v now =
     bnd (get_st (\<lambda>s. dict_get (n3_drafts s) did)) (\<lambda>x.
     case x of None \<Rightarrow> raise_exn (ValueError ''unknown draft'')
     | Some d \<Rightarrow>
       (let d' = d\<lparr>sd_parameters := dict_put nm v (sd_parameters d), sd_updated_at := now\<rparr>
        in bnd (upd_st (save_draft d')) (\<lambda>_.
           bnd (publish_event now PA_UPDATE_DRAFT (sd_profile_id d) None None (''updated '' @ nm @ '' on '' @ did) [(''name'', nm)]) (\<lambda>_.
           ret d'))))"

definition apply_preset :: "string \<Rightarrow> string \<Rightarrow> datetime \<Rightarrow> (pm3, StrategyDraft) comp" where
  "apply_preset did preset now =
     bnd (get_st (\<lambda>s. dict_get (n3_drafts s) did)) (\<lambda>x.
     case x of None \<Rightarrow> raise_exn (ValueError ''unknown draft'')
     | Some d \<Rightarrow>
       bnd (get_st (\<lambda>s. dict_get (n3_profiles s) (sd_profile_id d))) (\<lambda>p.
       case p of None \<Rightarrow> raise_exn (ValueError ''unknown profile'')
       | Some prof \<Rightarrow>
         (case find (\<lambda>q. sq_name q = preset) (pf_presets prof) of
            None \<Rightarrow> raise_exn (ValueError ''unknown preset'')
          | Some q \<Rightarrow>
            (let d' = d\<lparr>sd_parameters := sq_parameters q, sd_updated_at := now\<rparr>
             in bnd (upd_st (save_draft d')) (\<lambda>_.
                bnd (publish_event now PA_APPLY_PRESET (sd_profile_id d) None None (''applied preset '' @ preset) []) (\<lambda>_.
                ret d'))))))"

definition assert_active_immutable :: "string \<Rightarrow> (pm3, unit) comp" where
  "assert_active_immutable vid =
     bnd (get_st (\<lambda>s. dict_get (n3_versions s) vid)) (\<lambda>x.
     case x of None \<Rightarrow> raise_exn (ValueError ''unknown version'')
     | Some v \<Rightarrow> (if \<not> may_edit (pv_status v) (pv_immutable v)
                  then raise_exn (ValueError ''active/immutable version cannot be edited in place'') else ret ()))"

subsection \<open>Promotion and activation\<close>

definition validate_draft :: "params_print \<Rightarrow> string \<Rightarrow> pm3 \<Rightarrow> ValidationReport res" where
  "validate_draft H did s =
     (case dict_get (n3_drafts s) did of
        None \<Rightarrow> Inr \<lparr>vr_ok = False, vr_errors = [''unknown draft''], vr_fingerprint = None\<rparr>
      | Some d \<Rightarrow> (case dict_get (n3_profiles s) (sd_profile_id d) of
          None \<Rightarrow> Inr \<lparr>vr_ok = False, vr_errors = [''unknown profile''], vr_fingerprint = None\<rparr>
        | Some p \<Rightarrow> validate_parameters H (pf_schema p) (sd_parameters d)))"

definition promote_version :: "params_print \<Rightarrow> string \<Rightarrow> string \<Rightarrow> datetime \<Rightarrow> (pm3, ProfileVersion) comp" where
  "promote_version H hx did now =
     bnd (\<lambda>s. (validate_draft H did s, s)) (\<lambda>report.
     if \<not> vr_ok report then raise_exn (ValueError (join ''; '' (vr_errors report)))
     else bnd (get_st (\<lambda>s. dict_get (n3_drafts s) did)) (\<lambda>x.
       case x of None \<Rightarrow> raise_exn (RuntimeError ''assert draft is not None'')
       | Some d \<Rightarrow>
         (let v = \<lparr>pv_version_id = ''version:'' @ sd_profile_id d @ '':'' @ hx, pv_profile_id = sd_profile_id d,
               pv_status = PR_TESTED, pv_parameters = sd_parameters d, pv_fingerprint = H (sorted_params (sd_parameters d)),
               pv_created_at = now, pv_parent_version_id = Some (sd_source_version_id d), pv_immutable = False,
               pv_notes = ''promoted from draft; not live trading''\<rparr>
          in bnd (upd_st (save_version v)) (\<lambda>_.
             bnd (publish_event now PA_PROMOTE (sd_profile_id d) (Some (pv_version_id v)) None
               (''promoted '' @ pv_version_id v @ '' to tested'') []) (\<lambda>_.
             ret v)))))"

definition demote_previous :: "StrategyProfile \<Rightarrow> ProfileVersion \<Rightarrow> pm3 \<Rightarrow> pm3" where
  "demote_previous p v s =
     (if truthy (pf_active_version_id p)
      then case n3_version (pf_active_version_id p) s of
          None \<Rightarrow> s
        | Some prev \<Rightarrow> (if pv_version_id prev \<noteq> pv_version_id v
            then save_version (prev\<lparr>pv_status := PR_WATCHLIST, pv_immutable := True\<rparr>) s else s)
      else s)"

definition activate_version :: "string \<Rightarrow> datetime \<Rightarrow> (pm3, ProfileVersion) comp" where
  "activate_version vid now =
     bnd (get_st (\<lambda>s. dict_get (n3_versions s) vid)) (\<lambda>x.
     case x of None \<Rightarrow> raise_exn (ValueError ''unknown version'')
     | Some v \<Rightarrow>
       (if \<not> may_activate (pv_status v)
        then raise_exn (ValueError (''status '' @ profile_status_value (pv_status v) @ '' cannot activate''))
        else bnd (get_st (\<lambda>s. dict_get (n3_profiles s) (pv_profile_id v))) (\<lambda>y.
          case y of None \<Rightarrow> raise_exn (ValueError ''unknown profile'')
          | Some p \<Rightarrow>
            (let v' = v\<lparr>pv_status := PR_ACTIVE, pv_immutable := True\<rparr>;
                 p' = p\<lparr>pf_active_version_id := Some (pv_version_id v), pf_status := PR_ACTIVE\<rparr>
             in bnd (upd_st (demote_previous p v)) (\<lambda>_.
                bnd (upd_st (save_version v')) (\<lambda>_.
                bnd (upd_st (save_profile p')) (\<lambda>_.
                bnd (publish_event now PA_ACTIVATE (pf_profile_id p) (Some (pv_version_id v)) None
                  ''activated in shadow/observe-only; not trading permission'' []) (\<lambda>_.
                ret v'))))))))"

subsection \<open>Bindings\<close>

text \<open>The loop that deactivates the bindings of one template; the last one found is the previous version.\<close>

definition deactivate_template :: "string option \<Rightarrow> SymbolStrategyBinding list \<Rightarrow> pm3 \<Rightarrow> string option \<times> pm3" where
  "deactivate_template tpl bs s =
     (if truthy tpl
      then fold (\<lambda>b (prev, s). if Some (template_value (sb_template_type b)) = tpl \<and> sb_active b
             then (Some (sb_version_id b), save_binding (b\<lparr>sb_active := False\<rparr>) s) else (prev, s)) bs (None, s)
      else (None, s))"

definition replace_active ::
  "string \<Rightarrow> string \<Rightarrow> string \<Rightarrow> datetime \<Rightarrow> string option \<Rightarrow> (pm3, SymbolStrategyBinding) comp" where
  "replace_active hx sy pid now tpl =
     bnd (get_st (\<lambda>s. dict_get (n3_profiles s) pid)) (\<lambda>x.
     case x of None \<Rightarrow> raise_exn (ValueError ''profile missing active version'')
     | Some p \<Rightarrow>
       (if pf_active_version_id p = None then raise_exn (ValueError ''profile missing active version'')
        else if pf_status p \<in> {PR_DISABLED, PR_DEGRADED, PR_RETIRED}
        then raise_exn (ValueError ''disabled profile cannot bind as active'')
        else bnd (get_st (n3_version (pf_active_version_id p))) (\<lambda>y.
          case y of None \<Rightarrow> raise_exn (ValueError ''version missing'')
          | Some v \<Rightarrow>
            bnd (\<lambda>s. let (prev, s') = deactivate_template tpl (bindings_for_symbol sy s) s in (Inr prev, s')) (\<lambda>prev.
            let b = \<lparr>sb_binding_id = ''bind:'' @ sy @ '':'' @ template_value (pf_template_type p) @ '':'' @ hx, sb_symbol = sy,
                  sb_profile_id = pid, sb_version_id = pv_version_id v, sb_template_type = pf_template_type p,
                  sb_active = True, sb_created_at = now, sb_previous_version_id = prev\<rparr>
            in bnd (upd_st (save_binding b)) (\<lambda>_.
               bnd (get_st (\<lambda>s. validate_bindings (pe_max_active_branches (n3_config s)) (bindings_for_symbol sy s))) (\<lambda>report.
               if \<not> vr_ok report
               then bnd (upd_st (save_binding (b\<lparr>sb_active := False\<rparr>))) (\<lambda>_.
                    raise_exn (ValueError (join ''; '' (vr_errors report))))
               else bnd (publish_event now PA_REPLACE_BINDING pid (Some (pv_version_id v)) (Some sy)
                      (''replaced binding on '' @ sy) []) (\<lambda>_. ret b)))))))"

definition rollback_binding :: "string \<Rightarrow> datetime \<Rightarrow> (pm3, SymbolStrategyBinding) comp" where
  "rollback_binding bid now =
     bnd (get_st (\<lambda>s. dict_get (n3_bindings s) bid)) (\<lambda>x.
     case x of None \<Rightarrow> raise_exn (ValueError ''unknown binding'')
     | Some b \<Rightarrow>
       (if \<not> truthy (sb_previous_version_id b) then raise_exn (ValueError ''no previous version to roll back to'')
        else bnd (get_st (n3_version (sb_previous_version_id b))) (\<lambda>y.
          case y of None \<Rightarrow> raise_exn (ValueError ''previous version missing'')
          | Some prev \<Rightarrow>
            (let b' = b\<lparr>sb_previous_version_id := Some (sb_version_id b), sb_version_id := pv_version_id prev\<rparr>
             in bnd (upd_st (save_binding b')) (\<lambda>_.
                bnd (publish_event now PA_ROLLBACK (sb_profile_id b) (Some (pv_version_id prev)) (Some (sb_symbol b))
                  (''rolled back binding '' @ bid) [(''from'', sb_version_id b), (''to'', pv_version_id prev)]) (\<lambda>_.
                ret b'))))))"

subsection \<open>Trackers, health and feedback\<close>

definition tracker_snapshot :: "string \<Rightarrow> string \<Rightarrow> datetime \<Rightarrow> (pm3, TrackerSnapshot) comp" where
  "tracker_snapshot pid vid now =
     bnd (get_st (\<lambda>s. dict_get (n3_trackers s) (pid, vid))) (\<lambda>x.
     case x of Some t \<Rightarrow> ret t
     | None \<Rightarrow>
       (let t = \<lparr>tk_profile_id = pid, tk_version_id = vid, tk_as_of = now, tk_signals_today = 0, tk_intents_today = 0,
             tk_trades_today = None, tk_current_state = ''observe-only'', tk_insufficient_data = True\<rparr>
        in bnd (upd_st (save_tracker t)) (\<lambda>_. ret t)))"

definition note_intent :: "string \<Rightarrow> string \<Rightarrow> datetime \<Rightarrow> (pm3, TrackerSnapshot) comp" where
  "note_intent pid vid now =
     bnd (tracker_snapshot pid vid now) (\<lambda>t.
     let t' = t\<lparr>tk_as_of := now, tk_signals_today := tk_signals_today t + 1, tk_intents_today := tk_intents_today t + 1,
           tk_insufficient_data := True\<rparr>
     in bnd (upd_st (save_tracker t')) (\<lambda>_. ret t'))"

definition apply_feedback :: "StrategyFeedbackEvent \<Rightarrow> (pm3, TrackerSnapshot) comp" where
  "apply_feedback ev =
     bnd (tracker_snapshot (sf_profile_id ev) (sf_version_id ev) (sf_occurred_at ev)) (\<lambda>t.
     if \<not> sf_valid ev then ret (t\<lparr>tk_as_of := sf_occurred_at ev, tk_current_state := ''degraded_feedback''\<rparr>)
     else let t1 = t\<lparr>tk_as_of := sf_occurred_at ev, tk_insufficient_data := True\<rparr>;
              t2 = (if sf_kind ev = ''synthetic_fill'' then t1\<lparr>tk_trades_today := None\<rparr> else t1)
          in bnd (upd_st (save_tracker t2)) (\<lambda>_. ret t2))"

definition health_snapshot :: "TrackerSnapshot \<Rightarrow> datetime \<Rightarrow> bool \<Rightarrow> bool \<Rightarrow> ProfileHealthSnapshot" where
  "health_snapshot t now invalid stale_feedback =
     (let st = default_health (tk_intents_today t) invalid stale_feedback in
      \<lparr>ph_profile_id = tk_profile_id t, ph_version_id = tk_version_id t, ph_as_of = now, ph_health_status = st,
       ph_degradation_triggers = (if invalid then [''invalid_config''] else []) @ (if stale_feedback then [''stale_feedback''] else []),
       ph_recommended_action = (if st = HL_DISABLED then ''disable_voting''
         else if st = HL_DEGRADED then ''suppress_until_consistent'' else ''observe''),
       ph_last_updated_at = Some now\<rparr>)"

definition ingest_feedback :: "StrategyFeedbackEvent \<Rightarrow> (pm3, TrackerSnapshot \<times> ProfileHealthSnapshot) comp" where
  "ingest_feedback ev =
     bnd (apply_feedback ev) (\<lambda>t.
     ret (t, health_snapshot t (sf_occurred_at ev) (sf_kind ev = ''invalid_config'')
       (\<not> sf_valid ev \<or> sf_kind ev = ''inconsistent'')))"

subsection \<open>Intents\<close>

definition no_trade :: "string \<Rightarrow> datetime \<Rightarrow> string \<Rightarrow> uuid \<Rightarrow> (string, diag_item) dict \<Rightarrow> (pm3, strategy_artifact) comp" where
  "no_trade sy now reason corr diag =
     bnd n3_fresh (\<lambda>e. ret (SA_no_trade
       \<lparr>nt_symbol = sy, nt_reason = reason, nt_as_of = now, nt_event_id = e, nt_correlation_id = corr,
        nt_observe_only = True, nt_diagnostics = diag\<rparr>))"

definition intent_key :: "string \<Rightarrow> datetime \<Rightarrow> uuid \<Rightarrow> string" where
  "intent_key sy now cid = ''pm3se:'' @ sy @ '':'' @ isoformat now @ '':'' @ uuid_str cid"

definition trade_intent_of ::
  "int \<Rightarrow> SymbolConsensusResult \<Rightarrow> RankedCandidate \<Rightarrow> string option \<Rightarrow> string option \<Rightarrow> Direction \<Rightarrow> uuid \<Rightarrow> uuid \<Rightarrow> TradeIntent" where
  "trade_intent_of hours cn c pid vid dir iid eid =
     \<lparr>ti_intent_id = iid, ti_event_id = eid, ti_correlation_id = rk_correlation_id c, ti_causation_id = Some (rk_event_id c),
      ti_idempotency_key = intent_key (rk_symbol c) (rk_as_of c) (rk_candidate_id c), ti_occurred_at = rk_as_of c,
      ti_symbol = rk_symbol c, ti_direction = dir, ti_entry_type = ET_LIMIT, ti_requested_volume = None,
      ti_entry_price = None,
      ti_exit_plan = Some \<lparr>xp_stop_loss = None, xp_take_profit = None, xp_time_stop_seconds = Some (hours * 3600),
        xp_notes = Some ''analytical exit sketch; PM4/PM5 not invoked'', xp_stop_type = ST_ATR, xp_stop_price = None,
        xp_tp_plan = Some ''1R/2R ladder (analytical)'', xp_trail_plan = Some ''none'',
        xp_time_stop_plan = Some (int_str hours @ ''h'')\<rparr>,
      ti_consensus = cn_decision cn, ti_producer = ''pm3_strategy_engine'',
      ti_thesis = Some ''PM3-Strategy Engine calibrated consensus (observe-only)'',
      ti_profile_id = pid, ti_version_id = vid,
      ti_entry_zone_low = Some (dsub 1 (4 / 10000)), ti_entry_zone_high = Some (dadd 1 (4 / 10000)),
      ti_confidence_score = shortest (cn_confidence cn),
      ti_setup_quality = shortest (min 1 (f64 (f64 (sc_final_confluence_score (rk_scorecard c)) / 100))),
      ti_consensus_score = shortest (max (cn_p_long cn) (cn_p_short cn)),
      ti_regime_state = Some (regime_value (cc_regime (rk_context c))), ti_urgency_class = UC_NORMAL,
      ti_signal_expiry = Some (rk_as_of c + seconds (hours * 3600)),
      ti_diagnostics = [(''p_long'', DOther), (''p_short'', DOther), (''observe_only'', DBool True), (''not_an_order'', DBool True)],
      ti_source_candidate_id = Some (rk_candidate_id c), ti_pm2_rank = Some (int (rk_final_rank c)),
      ti_created_at = Some (rk_as_of c)\<rparr>"

definition from_consensus ::
  "int \<Rightarrow> SymbolConsensusResult \<Rightarrow> RankedCandidate \<Rightarrow> string option \<Rightarrow> string option \<Rightarrow> (pm3, strategy_artifact) comp" where
  "from_consensus hours cn c pid vid =
     (let go = (\<lambda>dir. bnd n3_fresh (\<lambda>iid. bnd n3_fresh (\<lambda>eid.
            bnd (lift_res (make_trade_intent (trade_intent_of hours cn c pid vid dir iid eid))) (\<lambda>t. ret (SA_intent t)))));
          none = (\<lambda>reason diag. no_trade (rk_symbol c) (rk_as_of c) reason (rk_correlation_id c) diag)
      in case cn_decision cn of
           CD_WAIT \<Rightarrow> none ''consensus_wait'' [(''decision'', DI_text (consensus_value (cn_decision cn)))]
         | CD_ABSTAIN \<Rightarrow> none ''consensus_wait'' [(''decision'', DI_text (consensus_value (cn_decision cn)))]
         | CD_NO_TRADE \<Rightarrow> none ''consensus_no_trade'' [(''conflict'', DI_num (cn_conflict_score cn))]
         | CD_REJECT \<Rightarrow> none ''consensus_no_trade'' [(''conflict'', DI_num (cn_conflict_score cn))]
         | CD_GO_LONG \<Rightarrow> go BUY
         | CD_GO_SHORT \<Rightarrow> go SELL
         | CD_ACCEPT \<Rightarrow> none ''consensus_not_directional'' [])"

subsection \<open>The pipe of one symbol\<close>

text \<open>The checks before any binding is looked at, as the reason of the refusal.\<close>

definition pipe_refusal :: "RankedCandidate \<Rightarrow> pm3 \<Rightarrow> (string \<times> (string, diag_item) dict) option" where
  "pipe_refusal c s =
     (let q = cc_data_quality (rk_context c) in
      if \<not> n3_feature_enabled s then Some (''feature_flag_off'', [])
      else if \<not> evaluation_permitted (n3_flags s) then Some (''system_flag_disabled'', [])
      else if q = DQ_STALE then Some (''stale_pm2_context'', [])
      else if q \<in> {DQ_MALFORMED, DQ_INCOMPLETE} then Some (''bad_data_quality'', [])
      else if cq_state (rk_state c) = QS_STALE then Some (''stale_qualification'', [])
      else if rk_as_of c < cc_as_of (rk_context c) then Some (''lookahead'', [])
      else if pe_require_handoff_eligibility (n3_config s) \<and> \<not> rk_handoff_eligibility c
        then Some (''handoff_ineligible'', [(''observe_only'', DI_bool True), (''shadow_eval'', DI_bool True)])
      else if pe_max_active_branches (n3_config s) < length (filter sb_active (bindings_for_symbol (rk_symbol c) s))
        then Some (''max_branches_exceeded'', [])
      else None)"

text \<open>The vote of one active binding; none when its profile or version is unknown.\<close>

definition binding_vote :: "RankedCandidate \<Rightarrow> pm3 \<Rightarrow> uuid \<Rightarrow> SymbolStrategyBinding \<Rightarrow> StrategyVote option res" where
  "binding_vote c s u b =
     (let abstain = (\<lambda>reason. Inr (Some (abstain_vote u (sb_template_type b) (sb_profile_id b) (sb_version_id b) (rk_symbol c)
            (rk_as_of c) reason (rk_correlation_id c) [])))
      in case (dict_get (n3_profiles s) (sb_profile_id b), dict_get (n3_versions s) (sb_version_id b)) of
           (Some p, Some v) \<Rightarrow>
             if \<not> may_vote (pf_status p) \<or> \<not> may_vote (pv_status v) then abstain AB_DISABLED_PROFILE
             else if \<not> is_enabled (pe_enabled_templates (n3_config s)) (sb_template_type b) then abstain AB_DISABLED_TEMPLATE
             else rbind (template_evaluate (sb_template_type b) u
                    (from_candidate c (sb_profile_id b) (sb_version_id b) (pv_parameters v) (n3_flags s)))
                    (\<lambda>vote. Inr (Some (policy_for (pe_calibration_policy (n3_config s)) vote)))
         | _ \<Rightarrow> Inr None)"

fun collect_votes :: "RankedCandidate \<Rightarrow> SymbolStrategyBinding list \<Rightarrow> (pm3, StrategyVote list) comp" where
  "collect_votes c [] = ret []"
| "collect_votes c (b # bs) =
     bnd n3_fresh (\<lambda>u. bnd n3_fresh (\<lambda>_.
     bnd (\<lambda>s. (binding_vote c s u b, s)) (\<lambda>x.
     bnd (collect_votes c bs) (\<lambda>vs. ret (case x of None \<Rightarrow> vs | Some v \<Rightarrow> v # vs)))))"

definition pipe_evaluate :: "RankedCandidate \<Rightarrow> (pm3, strategy_artifact) comp" where
  "pipe_evaluate c =
     bnd (get_st (pipe_refusal c)) (\<lambda>r.
     case r of Some (reason, diag) \<Rightarrow> no_trade (rk_symbol c) (rk_as_of c) reason (rk_correlation_id c) diag
     | None \<Rightarrow>
       bnd (get_st (\<lambda>s. filter sb_active (bindings_for_symbol (rk_symbol c) s))) (\<lambda>active.
       bnd (collect_votes c active) (\<lambda>votes.
       bnd (upd_st (\<lambda>s. s\<lparr>n3_last_votes := votes\<rparr>)) (\<lambda>_.
       bnd (get_st n3_config) (\<lambda>cfg.
       bnd n3_fresh (\<lambda>u. bnd n3_fresh (\<lambda>_.
       bnd (lift_res (decide_consensus (pe_weights cfg) (pe_thresholds cfg) u votes (rk_symbol c) (rk_as_of c))) (\<lambda>cn.
       bnd (from_consensus (pe_signal_expiry_hours cfg) cn c
              (case active of [] \<Rightarrow> None | b # _ \<Rightarrow> Some (sb_profile_id b))
              (case active of [] \<Rightarrow> None | b # _ \<Rightarrow> Some (sb_version_id b))) (\<lambda>a.
       case a of SA_no_trade n \<Rightarrow> ret a
       | SA_intent t \<Rightarrow>
         bnd (get_st (\<lambda>s. dict_get (n3_seen s) (ti_idempotency_key t))) (\<lambda>seen.
         if seen \<noteq> None
         then no_trade (rk_symbol c) (rk_as_of c) ''duplicate_intent'' (rk_correlation_id c)
                [(''idempotency_key'', DI_text (ti_idempotency_key t))]
         else bnd (upd_st (\<lambda>s. s\<lparr>n3_seen := dict_put (ti_idempotency_key t) ''issued'' (n3_seen s)\<rparr>)) (\<lambda>_. ret a)))))))))))"

subsection \<open>The module\<close>

text \<open>\<^verbatim>\<open>SignalEvent(...)\<close> with the confluence score checked against its bounds.\<close>

definition note_signal :: "RankedCandidate \<Rightarrow> TradeIntent \<Rightarrow> (pm3, unit) comp" where
  "note_signal c t =
     bnd (note_intent (or_else (ti_profile_id t) ''unknown'') (or_else (ti_version_id t) ''unknown'') (rk_as_of c)) (\<lambda>_.
     if \<not> unit_range (ti_consensus_score t) then raise_exn (ValueError ''ConfluenceScore'')
     else bnd n3_fresh (\<lambda>e. upd_st (\<lambda>s. s\<lparr>n3_last_signal := dict_put (rk_symbol c)
            \<lparr>sg_event_id = e, sg_correlation_id = ti_correlation_id t, sg_causation_id = Some (ti_event_id t),
             sg_occurred_at = ti_occurred_at t, sg_symbol = ti_symbol t, sg_direction = ti_direction t,
             sg_confluence = ti_consensus_score t\<rparr> (n3_last_signal s)\<rparr>)))"

definition evaluate_candidate :: "RankedCandidate \<Rightarrow> (pm3, strategy_artifact) comp" where
  "evaluate_candidate c =
     bnd (pipe_evaluate c) (\<lambda>a.
     case a of SA_no_trade n \<Rightarrow> ret a
     | SA_intent t \<Rightarrow> bnd (note_signal c t) (\<lambda>_. ret a))"

text \<open>\<^verbatim>\<open>PM2HandoffService.candidates\<close>: one candidate per symbol, the last one given.\<close>

definition handoff_candidates :: "RankedCandidate list \<Rightarrow> RankedCandidate list \<Rightarrow> RankedCandidate list" where
  "handoff_candidates shortlist watchlist =
     dict_values (fold (\<lambda>c d. dict_put (rk_symbol c) c d) (shortlist @ watchlist) [])"

fun evaluate_all :: "RankedCandidate list \<Rightarrow> (pm3, strategy_artifact list) comp" where
  "evaluate_all [] = ret []"
| "evaluate_all (c # cs) = bnd (evaluate_candidate c) (\<lambda>a. bnd (evaluate_all cs) (\<lambda>r. ret (a # r)))"

definition evaluate_publication ::
  "RankedCandidate list \<Rightarrow> RankedCandidate list \<Rightarrow> (pm3, strategy_artifact list) comp" where
  "evaluate_publication shortlist watchlist = evaluate_all (handoff_candidates shortlist watchlist)"

definition latest_signal :: "string \<Rightarrow> pm3 \<Rightarrow> SignalEvent option" where
  "latest_signal sy s = dict_get (n3_last_signal s) sy"

subsection \<open>Profiles and the control bridge\<close>

text \<open>\<^verbatim>\<open>compare_versions\<close>: the parameters that differ, by name; an absent one is \<^verbatim>\<open>None\<close>.\<close>

definition param_or_none :: "string \<Rightarrow> params \<Rightarrow> param_value" where
  "param_or_none k ps = (case dict_get ps k of None \<Rightarrow> PV_none | Some v \<Rightarrow> v)"

definition compare_versions :: "string \<Rightarrow> string \<Rightarrow> pm3 \<Rightarrow> (string \<times> param_value \<times> param_value) list res" where
  "compare_versions l r s =
     (case (dict_get (n3_versions s) l, dict_get (n3_versions s) r) of
        (Some a, Some b) \<Rightarrow>
          (let ps = pv_parameters a; qs = pv_parameters b
           in Inr (map (\<lambda>k. (k, param_or_none k ps, param_or_none k qs))
                (filter (\<lambda>k. \<not> pv_eq (param_or_none k ps) (param_or_none k qs))
                  (sort (fromkeys (map fst ps @ map fst qs))))))
      | _ \<Rightarrow> Inl (ValueError ''unknown version''))"

definition list_symbols :: "pm3 \<Rightarrow> string list" where
  "list_symbols s = sort (fromkeys (map sb_symbol (dict_values (n3_bindings s))))"

definition list_available_strategies ::
  "pm3 \<Rightarrow> (string \<times> string \<times> string \<times> string \<times> string option) list" where
  "list_available_strategies s =
     map (\<lambda>p. (pf_profile_id p, pf_name p, template_value (pf_template_type p), profile_status_value (pf_status p),
       pf_active_version_id p)) (dict_values (n3_profiles s))"

definition list_active_strategies_by_symbol :: "string \<Rightarrow> pm3 \<Rightarrow> (string \<times> string \<times> string \<times> string) list" where
  "list_active_strategies_by_symbol sy s =
     map (\<lambda>b. (sb_binding_id b, sb_profile_id b, sb_version_id b, template_value (sb_template_type b)))
       (filter sb_active (bindings_for_symbol sy s))"

definition get_tuning_schema :: "string \<Rightarrow> pm3 \<Rightarrow> ParameterSchema list" where
  "get_tuning_schema pid s = (case dict_get (n3_profiles s) pid of None \<Rightarrow> [] | Some p \<Rightarrow> pf_schema p)"

definition get_bindings :: "pm3 \<Rightarrow> (string \<times> string \<times> string \<times> string \<times> bool \<times> string) list" where
  "get_bindings s =
     map (\<lambda>b. (sb_binding_id b, sb_symbol b, sb_profile_id b, sb_version_id b, sb_active b, template_value (sb_template_type b)))
       (dict_values (n3_bindings s))"

subsection \<open>Seed\<close>

definition strategy_schema :: "ParameterSchema list" where
  "strategy_schema =
     [\<lparr>pz_name = ''historical_reliability'', pz_display_name = ''Historical reliability'', pz_group = ''weights'',
       pz_type = PK_FLOAT, pz_default = PV_float (PF_num (f64 (55 / 100))), pz_min = Some 0, pz_max = Some 1,
       pz_step = Some (f64 (5 / 100)), pz_allowed_values = None, pz_ui_mode = ''slider'',
       pz_description = ''H_i input to consensus weight.''\<rparr>,
      \<lparr>pz_name = ''recent_live_health'', pz_display_name = ''Recent live health'', pz_group = ''weights'',
       pz_type = PK_FLOAT, pz_default = PV_float (PF_num (1 / 2)), pz_min = Some 0, pz_max = Some 1,
       pz_step = Some (f64 (5 / 100)), pz_allowed_values = None, pz_ui_mode = ''slider'',
       pz_description = ''L_i input. Not a claim of live edge.''\<rparr>,
      \<lparr>pz_name = ''lookback'', pz_display_name = ''Lookback bars'', pz_group = ''structure'',
       pz_type = PK_INT, pz_default = PV_int 20, pz_min = Some 5, pz_max = Some 80,
       pz_step = Some 1, pz_allowed_values = None, pz_ui_mode = ''input'',
       pz_description = ''Template lookback hint.''\<rparr>]"

definition DEFAULT_PARAMS :: params where
  "DEFAULT_PARAMS =
     [(''historical_reliability'', PV_float (PF_num (f64 (55 / 100)))), (''recent_live_health'', PV_float (PF_num (1 / 2))),
      (''lookback'', PV_int 20)]"

definition seed_profile :: "datetime \<Rightarrow> StrategyTemplateType \<Rightarrow> StrategyProfile" where
  "seed_profile now tp =
     \<lparr>pf_profile_id = ''profile:'' @ template_value tp,
      pf_name = map (\<lambda>c. if c = CHR ''_'' then CHR '' '' else c) (template_value tp), pf_template_type = tp,
      pf_status = PR_ACTIVE, pf_active_version_id = Some (''version:'' @ template_value tp @ '':v1''), pf_created_at = now,
      pf_schema = strategy_schema,
      pf_presets = [\<lparr>sq_name = ''balanced'', sq_template_type = tp, sq_parameters = DEFAULT_PARAMS\<rparr>]\<rparr>"

definition seed_version :: "params_print \<Rightarrow> datetime \<Rightarrow> StrategyTemplateType \<Rightarrow> ProfileVersion" where
  "seed_version H now tp =
     \<lparr>pv_version_id = ''version:'' @ template_value tp @ '':v1'', pv_profile_id = ''profile:'' @ template_value tp,
      pv_status = PR_ACTIVE, pv_parameters = DEFAULT_PARAMS, pv_fingerprint = H (sorted_params DEFAULT_PARAMS),
      pv_created_at = now, pv_parent_version_id = None, pv_immutable = True,
      pv_notes = ''seed tested->active (shadow only)''\<rparr>"

definition seed_binding :: "datetime \<Rightarrow> StrategyTemplateType \<Rightarrow> string \<Rightarrow> SymbolStrategyBinding" where
  "seed_binding now tp sy =
     \<lparr>sb_binding_id = ''bind:'' @ sy @ '':'' @ template_value tp, sb_symbol = sy,
      sb_profile_id = ''profile:'' @ template_value tp, sb_version_id = ''version:'' @ template_value tp @ '':v1'',
      sb_template_type = tp, sb_active = True, sb_created_at = now, sb_previous_version_id = None\<rparr>"

definition seed_template :: "params_print \<Rightarrow> datetime \<Rightarrow> string list \<Rightarrow> StrategyTemplateType \<Rightarrow> pm3 \<Rightarrow> pm3" where
  "seed_template H now universe tp s =
     fold (\<lambda>sy. save_binding (seed_binding now tp sy)) universe
       (save_version (seed_version H now tp) (save_profile (seed_profile now tp) s))"

definition seed_catalog :: "params_print \<Rightarrow> datetime \<Rightarrow> string list \<Rightarrow> pm3 \<Rightarrow> pm3" where
  "seed_catalog H now universe s = fold (seed_template H now universe) FIRST_PHASE s"

definition pm3_init :: "params_print \<Rightarrow> Pm3StrategyEngineConfig \<Rightarrow> bool \<Rightarrow> datetime \<Rightarrow> pm3" where
  "pm3_init H cfg feature now =
     seed_catalog H now (pe_universe cfg)
       \<lparr>n3_config = cfg, n3_feature_enabled = feature, n3_flags = flags_default, n3_profiles = [], n3_versions = [],
        n3_drafts = [], n3_bindings = [], n3_trackers = [], n3_events = [], n3_seen = [], n3_last_signal = [],
        n3_last_votes = [], n3_next_id = 0\<rparr>"

subsection \<open>Call sequences\<close>

datatype pm3_call =
    P3_evaluate RankedCandidate
  | P3_publication "RankedCandidate list" "RankedCandidate list"
  | P3_feedback StrategyFeedbackEvent
  | P3_tracker string string datetime
  | P3_clone string string datetime
  | P3_update string string param_value datetime
  | P3_preset string string datetime
  | P3_promote string string datetime
  | P3_activate string datetime
  | P3_replace string string string datetime "string option"
  | P3_rollback string datetime

text \<open>What a call answers: the artifacts it produced, or the exception.\<close>

fun pm3_call_run :: "params_print \<Rightarrow> pm3_call \<Rightarrow> (pm3, strategy_artifact list) comp" where
  "pm3_call_run H (P3_evaluate c) = bnd (evaluate_candidate c) (\<lambda>a. ret [a])"
| "pm3_call_run H (P3_publication sl wl) = evaluate_publication sl wl"
| "pm3_call_run H (P3_feedback ev) = bnd (ingest_feedback ev) (\<lambda>_. ret [])"
| "pm3_call_run H (P3_tracker pid vid now) = bnd (tracker_snapshot pid vid now) (\<lambda>_. ret [])"
| "pm3_call_run H (P3_clone hx pid now) = bnd (clone_draft hx pid now) (\<lambda>_. ret [])"
| "pm3_call_run H (P3_update did nm v now) = bnd (update_draft_parameter did nm v now) (\<lambda>_. ret [])"
| "pm3_call_run H (P3_preset did preset now) = bnd (apply_preset did preset now) (\<lambda>_. ret [])"
| "pm3_call_run H (P3_promote hx did now) = bnd (promote_version H hx did now) (\<lambda>_. ret [])"
| "pm3_call_run H (P3_activate vid now) = bnd (activate_version vid now) (\<lambda>_. ret [])"
| "pm3_call_run H (P3_replace hx sy pid now tpl) = bnd (replace_active hx sy pid now tpl) (\<lambda>_. ret [])"
| "pm3_call_run H (P3_rollback bid now) = bnd (rollback_binding bid now) (\<lambda>_. ret [])"

definition pm3_perform :: "params_print \<Rightarrow> pm3_call \<Rightarrow> pm3 \<Rightarrow> pm3" where
  "pm3_perform H call s = snd (pm3_call_run H call s)"

definition pm3_run :: "params_print \<Rightarrow> pm3_call list \<Rightarrow> pm3 \<Rightarrow> pm3" where
  "pm3_run H calls s = fold (pm3_perform H) calls s"

end
