(* ===== verification/StrategyConsensus.thy ===== *)
theory StrategyConsensus
  imports StrategyVotes
begin

section \<open>Facts about votes and consensus\<close>

text \<open>
  Bounds of the rounded computations: each side's accumulated probability stays below its
  accumulated weight, so the quotients and all scores of a consensus are within zero and one and the
  model is always built. Swapping buy and sell swaps the result.
\<close>

subsection \<open>Bounds\<close>

lemma vote_weight_nonneg: "weights_ok ws \<Longrightarrow> 0 \<le> weight_of ws v"
  by (simp add: weight_of_def vote_weight_def weights_ok_def unit_range_def f64_nonneg)

lemma weight_of_double: "is_f64 (weight_of ws v)"
  by (simp add: weight_of_def vote_weight_def)

lemma cal_of_range: "0 \<le> cal_of v" "cal_of v \<le> 1"
  by (simp_all add: cal_of_def)

lemma weighted_le: "weights_ok ws \<Longrightarrow> f64 (weight_of ws v * cal_of v) \<le> weight_of ws v"
  by (rule f64_le_double [OF weight_of_double]) (simp add: mult_left_le vote_weight_nonneg cal_of_range)

text \<open>The accumulators of both sides: a part and the whole.\<close>

definition tally_ok :: "tally \<Rightarrow> bool" where
  "tally_ok t \<longleftrightarrow>
     0 \<le> ty_long_acc t \<and> ty_long_acc t \<le> ty_long_w t \<and> 0 \<le> ty_short_acc t \<and> ty_short_acc t \<le> ty_short_w t"

lemma tally_vote_ok:
  assumes ws: "weights_ok ws" and t: "tally_ok t"
  shows "tally_ok (tally_vote ws v t)"
proof -
  let ?w = "weight_of ws v" and ?x = "f64 (weight_of ws v * cal_of v)"
  have "0 \<le> ?x" using ws by (simp add: f64_nonneg vote_weight_nonneg cal_of_range)
  with t weighted_le [OF ws, of v] show ?thesis
    by (auto simp: tally_ok_def tally_vote_def Let_def f64_nonneg intro!: f64_mono split: Direction.splits)
qed

lemma tally_votes_ok: "weights_ok ws \<Longrightarrow> tally_ok (tally_votes ws vs)"
proof -
  assume ws: "weights_ok ws"
  have "tally_ok t \<Longrightarrow> tally_ok (fold (tally_vote ws) vs t)" for t
    by (induction vs arbitrary: t) (simp_all add: tally_vote_ok ws)
  then show ?thesis by (simp add: tally_votes_def tally_ok_def)
qed

lemma p_quotient_range: "0 \<le> a \<Longrightarrow> a \<le> w \<Longrightarrow> unit_range (p_quotient a w)"
  by (auto simp: p_quotient_def unit_range_def intro!: f64_nonneg f64_le_1)

lemma edge_range:
  assumes "unit_range pl" and "unit_range ps"
  shows "unit_range (edge_of pl ps)"
proof -
  have "f64 (pl - ps) \<le> 1" and "f64 (ps - pl) \<le> 1"
    using assms by (auto simp: unit_range_def intro!: f64_le_1)
  then show ?thesis using f64_minus_swap [of pl ps] by (simp add: edge_of_def unit_range_def abs_le_iff)
qed

lemma conflict_range: "unit_range edge \<Longrightarrow> unit_range (conflict_of edge both)"
  by (auto simp: unit_range_def conflict_of_def intro!: f64_nonneg mult_nonneg_nonneg)

lemma min_f64_range: "0 \<le> x \<Longrightarrow> unit_range (min 1 (f64 x))"
  by (simp add: unit_range_def f64_nonneg)

text \<open>The fields of the scored result.\<close>

definition p_long :: "ConsensusWeights \<Rightarrow> StrategyVote list \<Rightarrow> rat" where
  "p_long ws votes = (let t = tally_votes ws (filter selected votes) in p_quotient (ty_long_acc t) (ty_long_w t))"

definition p_short :: "ConsensusWeights \<Rightarrow> StrategyVote list \<Rightarrow> rat" where
  "p_short ws votes = (let t = tally_votes ws (filter selected votes) in p_quotient (ty_short_acc t) (ty_short_w t))"

definition both_sides :: "ConsensusWeights \<Rightarrow> StrategyVote list \<Rightarrow> bool" where
  "both_sides ws votes = (let t = tally_votes ws (filter selected votes) in ty_long_w t \<noteq> 0 \<and> ty_short_w t \<noteq> 0)"

lemma scored_result_simps:
  "cn_p_long (scored_result ws th u votes sy now) = p_long ws votes"
  "cn_p_short (scored_result ws th u votes sy now) = p_short ws votes"
  "cn_agreement_score (scored_result ws th u votes sy now) =
     min 1 (f64 (edge_of (p_long ws votes) (p_short ws votes) * f64 (of_nat (length (filter selected votes)) / 3)))"
  "cn_conflict_score (scored_result ws th u votes sy now) =
     conflict_of (edge_of (p_long ws votes) (p_short ws votes)) (both_sides ws votes)"
  "cn_confidence (scored_result ws th u votes sy now) =
     min 1 (f64 (max (p_long ws votes) (p_short ws votes) *
       f64 (1 - conflict_of (edge_of (p_long ws votes) (p_short ws votes)) (both_sides ws votes))))"
  "cn_decision (scored_result ws th u votes sy now) =
     fst (decision_of_p th (p_long ws votes) (p_short ws votes)
       (conflict_of (edge_of (p_long ws votes) (p_short ws votes)) (both_sides ws votes)) (both_sides ws votes))"
  by (simp_all add: scored_result_def p_long_def p_short_def both_sides_def Let_def)

lemma p_range:
  assumes "weights_ok ws"
  shows "unit_range (p_long ws votes)" and "unit_range (p_short ws votes)"
  using tally_votes_ok [OF assms, of "filter selected votes"]
  by (simp_all add: tally_ok_def p_quotient_range p_long_def p_short_def Let_def)

lemma scored_bounds:
  assumes "weights_ok ws"
  shows "consensus_bounds (scored_result ws th u votes sy now)"
proof -
  note p = p_range [OF assms, of votes]
  note e = edge_range [OF p]
  note c = conflict_range [OF e]
  have "unit_range (cn_agreement_score (scored_result ws th u votes sy now))"
    unfolding scored_result_simps
    using e by (intro min_f64_range mult_nonneg_nonneg f64_nonneg) (simp_all add: unit_range_def)
  moreover have "unit_range (cn_confidence (scored_result ws th u votes sy now))"
    unfolding scored_result_simps
    using p c by (intro min_f64_range mult_nonneg_nonneg f64_nonneg) (auto simp: unit_range_def le_max_iff_disj)
  ultimately show ?thesis using p c by (simp add: consensus_bounds_def scored_result_simps(1,2,4))
qed

lemma wait_bounds: "consensus_bounds (wait_result u votes sy now)"
  by (simp add: consensus_bounds_def wait_result_def Let_def unit_range_def)

text \<open>The consensus of any votes is built, and within its bounds.\<close>

lemma decide_built:
  assumes "weights_ok ws"
  obtains r where "decide_consensus ws th u votes sy now = Inr r" and "consensus_bounds r"
proof -
  let ?r = "if length (filter selected votes) < ch_min_selected_votes th then wait_result u votes sy now
    else scored_result ws th u votes sy now"
  have "consensus_bounds ?r" using scored_bounds [OF assms] wait_bounds by simp
  with that [of ?r] show thesis by (simp add: decide_consensus_def make_consensus_def raise_if_def)
qed

subsection \<open>Directional decisions\<close>

lemma tally_long_none: "\<forall>v \<in> set vs. vt_direction v \<noteq> BUY \<Longrightarrow> ty_long_w (tally_votes ws vs) = 0"
proof -
  assume *: "\<forall>v \<in> set vs. vt_direction v \<noteq> BUY"
  then have "ty_long_w (fold (tally_vote ws) vs t) = ty_long_w t" for t
    by (induction vs arbitrary: t) (auto simp: tally_vote_def Let_def split: Direction.splits)
  then show ?thesis by (simp add: tally_votes_def)
qed

lemma tally_short_none: "\<forall>v \<in> set vs. vt_direction v \<noteq> SELL \<Longrightarrow> ty_short_w (tally_votes ws vs) = 0"
proof -
  assume *: "\<forall>v \<in> set vs. vt_direction v \<noteq> SELL"
  then have "ty_short_w (fold (tally_vote ws) vs t) = ty_short_w t" for t
    by (induction vs arbitrary: t) (auto simp: tally_vote_def Let_def split: Direction.splits)
  then show ?thesis by (simp add: tally_votes_def)
qed

text \<open>A directional decision meets the thresholds.\<close>

lemma decide_directional:
  assumes "decide_consensus ws th u votes sy now = Inr r" and "cn_decision r \<noteq> CD_WAIT"
  shows "r = scored_result ws th u votes sy now" and "ch_min_selected_votes th \<le> length (filter selected votes)"
  using assms by (auto simp: decide_consensus_def make_consensus_def raise_if_eq_Inr wait_result_def Let_def split: if_splits)

lemma p_long_vote: "p_long ws votes \<noteq> 0 \<Longrightarrow> \<exists>v \<in> set votes. selected v \<and> vt_direction v = BUY"
proof (rule ccontr)
  assume "p_long ws votes \<noteq> 0" and "\<not> (\<exists>v \<in> set votes. selected v \<and> vt_direction v = BUY)"
  then show False using tally_long_none [of "filter selected votes" ws] by (simp add: p_long_def p_quotient_def Let_def)
qed

lemma p_short_vote: "p_short ws votes \<noteq> 0 \<Longrightarrow> \<exists>v \<in> set votes. selected v \<and> vt_direction v = SELL"
proof (rule ccontr)
  assume "p_short ws votes \<noteq> 0" and "\<not> (\<exists>v \<in> set votes. selected v \<and> vt_direction v = SELL)"
  then show False using tally_short_none [of "filter selected votes" ws] by (simp add: p_short_def p_quotient_def Let_def)
qed

lemma decide_long:
  assumes "decide_consensus ws th u votes sy now = Inr r" and "cn_decision r = CD_GO_LONG"
  shows "ch_go_threshold th \<le> cn_p_long r" and "ch_edge_margin th \<le> f64 (cn_p_long r - cn_p_short r)"
proof -
  have r: "r = scored_result ws th u votes sy now" using decide_directional [OF assms(1)] assms(2) by simp
  then show "ch_go_threshold th \<le> cn_p_long r" and "ch_edge_margin th \<le> f64 (cn_p_long r - cn_p_short r)"
    using assms(2) by (auto simp: scored_result_simps decision_of_p_def split: if_splits)
qed

lemma decide_short:
  assumes "decide_consensus ws th u votes sy now = Inr r" and "cn_decision r = CD_GO_SHORT"
  shows "ch_go_threshold th \<le> cn_p_short r" and "ch_edge_margin th \<le> f64 (cn_p_short r - cn_p_long r)"
proof -
  have r: "r = scored_result ws th u votes sy now" using decide_directional [OF assms(1)] assms(2) by simp
  then show "ch_go_threshold th \<le> cn_p_short r" and "ch_edge_margin th \<le> f64 (cn_p_short r - cn_p_long r)"
    using assms(2) by (auto simp: scored_result_simps decision_of_p_def split: if_splits)
qed

text \<open>
  With a positive threshold or a positive margin the decision rests on a vote of its direction; with
  neither it may not, because then zero against zero goes long.
\<close>

lemma f64_pos_iff: "0 < f64 x \<longleftrightarrow> 0 < x"
proof
  assume "0 < f64 x"
  then show "0 < x" using f64_mono [of x 0] by (simp add: not_less [symmetric]) force
next
  assume "0 < x"
  then show "0 < f64 x" using f64_between [of x] by (meson less_le_trans pow2_pos)
qed

lemma decide_vote:
  assumes "decide_consensus ws th u votes sy now = Inr r" and "weights_ok ws" and "0 < ch_go_threshold th \<or> 0 < ch_edge_margin th"
  shows "cn_decision r = CD_GO_LONG \<Longrightarrow> \<exists>v \<in> set votes. selected v \<and> vt_direction v = BUY"
    and "cn_decision r = CD_GO_SHORT \<Longrightarrow> \<exists>v \<in> set votes. selected v \<and> vt_direction v = SELL"
proof -
  have r: "cn_p_long r = p_long ws votes" "cn_p_short r = p_short ws votes" if "cn_decision r \<noteq> CD_WAIT"
    using decide_directional [OF assms(1) that] by (simp_all add: scored_result_simps)
  note range = p_range [OF assms(2), of votes, unfolded unit_range_def]
  {
    assume d: "cn_decision r = CD_GO_LONG"
    have "0 < p_long ws votes \<or> 0 < f64 (p_long ws votes - p_short ws votes)"
      using decide_long [OF assms(1) d] r assms(3) d by force
    then have "p_long ws votes \<noteq> 0" using range by (auto simp: f64_pos_iff)
    then show "\<exists>v \<in> set votes. selected v \<and> vt_direction v = BUY" by (rule p_long_vote)
  }
  {
    assume d: "cn_decision r = CD_GO_SHORT"
    have "0 < p_short ws votes \<or> 0 < f64 (p_short ws votes - p_long ws votes)"
      using decide_short [OF assms(1) d] r assms(3) d by force
    then have "p_short ws votes \<noteq> 0" using range by (auto simp: f64_pos_iff)
    then show "\<exists>v \<in> set votes. selected v \<and> vt_direction v = SELL" by (rule p_short_vote)
  }
qed

text \<open>The side of a directional decision is the stronger one.\<close>

lemma rounded_edge: "0 \<le> m \<Longrightarrow> m \<le> f64 (a - b) \<Longrightarrow> b \<le> a"
  using f64_pos_iff [of "b - a"] f64_minus_swap [of a b] by (auto simp: not_less [symmetric])

subsection \<open>Symmetry\<close>

fun flip_dir :: "Direction \<Rightarrow> Direction" where
  "flip_dir BUY = SELL"
| "flip_dir SELL = BUY"
| "flip_dir FLAT = FLAT"

definition flip_vote :: "StrategyVote \<Rightarrow> StrategyVote" where
  "flip_vote v = v\<lparr>vt_direction := flip_dir (vt_direction v)\<rparr>"

fun flip_decision :: "ConsensusDecision \<Rightarrow> ConsensusDecision" where
  "flip_decision CD_GO_LONG = CD_GO_SHORT"
| "flip_decision CD_GO_SHORT = CD_GO_LONG"
| "flip_decision d = d"

fun flip_diag :: "consensus_diag \<Rightarrow> consensus_diag" where
  "flip_diag (CG_weights ws l s) = CG_weights ws s l"
| "flip_diag d = d"

definition flip_result :: "SymbolConsensusResult \<Rightarrow> SymbolConsensusResult" where
  "flip_result r = r\<lparr>cn_decision := flip_decision (cn_decision r), cn_p_long := cn_p_short r, cn_p_short := cn_p_long r,
     cn_diagnostics := flip_diag (cn_diagnostics r)\<rparr>"

definition flip_tally :: "tally \<Rightarrow> tally" where
  "flip_tally t = \<lparr>ty_long_acc = ty_short_acc t, ty_long_w = ty_short_w t, ty_short_acc = ty_long_acc t, ty_short_w = ty_long_w t\<rparr>"

lemma flip_vote_simps [simp]:
  "selected (flip_vote v) = selected v" "weight_of ws (flip_vote v) = weight_of ws v" "cal_of (flip_vote v) = cal_of v"
  "vt_vote_id (flip_vote v) = vt_vote_id v"
  by (cases "vt_direction v"; simp add: flip_vote_def selected_def weight_of_def cal_of_def)+

lemma flip_tally_vote: "tally_vote ws (flip_vote v) (flip_tally t) = flip_tally (tally_vote ws v t)"
proof -
  have "weight_of ws (v\<lparr>vt_direction := d\<rparr>) = weight_of ws v" "cal_of (v\<lparr>vt_direction := d\<rparr>) = cal_of v" for d
    by (simp_all add: weight_of_def cal_of_def)
  then show ?thesis
    by (cases "vt_direction v") (simp_all add: tally_vote_def flip_vote_def flip_tally_def Let_def)
qed

lemma flip_tally_votes: "tally_votes ws (map flip_vote vs) = flip_tally (tally_votes ws vs)"
proof -
  have "fold (tally_vote ws) (map flip_vote vs) (flip_tally t) = flip_tally (fold (tally_vote ws) vs t)" for t
    by (induction vs arbitrary: t) (simp_all add: flip_tally_vote)
  from this [of "\<lparr>ty_long_acc = 0, ty_long_w = 0, ty_short_acc = 0, ty_short_w = 0\<rparr>"] show ?thesis
    by (simp add: tally_votes_def flip_tally_def)
qed

lemma edge_of_swap: "edge_of a b = edge_of b a"
  using f64_minus_swap [of a b] by (simp add: edge_of_def)

lemma decision_of_p_flip:
  assumes "0 < ch_edge_margin th"
  shows "decision_of_p th ps pl c b = apfst flip_decision (decision_of_p th pl ps c b)"
  using assms f64_minus_swap [of pl ps] by (auto simp: decision_of_p_def)

lemma filter_flip: "filter P (map flip_vote vs) = map flip_vote (filter (\<lambda>v. P (flip_vote v)) vs)"
  by (simp add: filter_map comp_def)

lemma scored_flip:
  assumes "0 < ch_edge_margin th"
  shows "scored_result ws th u (map flip_vote votes) sy now = flip_result (scored_result ws th u votes sy now)"
proof -
  let ?t = "tally_votes ws (filter selected votes)"
  have sel: "filter selected (map flip_vote votes) = map flip_vote (filter selected votes)"
    "filter (\<lambda>v. \<not> selected v) (map flip_vote votes) = map flip_vote (filter (\<lambda>v. \<not> selected v) votes)"
    by (simp_all add: filter_flip)
  have e: "edge_of (p_quotient (ty_short_acc ?t) (ty_short_w ?t)) (p_quotient (ty_long_acc ?t) (ty_long_w ?t)) =
      edge_of (p_quotient (ty_long_acc ?t) (ty_long_w ?t)) (p_quotient (ty_short_acc ?t) (ty_short_w ?t))"
    by (rule edge_of_swap)
  show ?thesis
    unfolding scored_result_def Let_def sel flip_tally_votes
    by (simp add: flip_tally_def flip_result_def e comp_def max.commute conj_commute
        decision_of_p_flip [OF assms, of "p_quotient (ty_short_acc ?t) (ty_short_w ?t)" "p_quotient (ty_long_acc ?t) (ty_long_w ?t)"])
qed

lemma wait_flip: "wait_result u (map flip_vote votes) sy now = flip_result (wait_result u votes sy now)"
  by (simp add: wait_result_def flip_result_def Let_def filter_flip comp_def)

lemma make_consensus_flip: "make_consensus (flip_result r) = map_sum id flip_result (make_consensus r)"
  by (auto simp: make_consensus_def raise_if_def consensus_bounds_def flip_result_def)

lemma decide_flip:
  assumes "0 < ch_edge_margin th"
  shows "decide_consensus ws th u (map flip_vote votes) sy now = map_sum id flip_result (decide_consensus ws th u votes sy now)"
  by (simp add: decide_consensus_def filter_flip scored_flip [OF assms] wait_flip make_consensus_flip)

end
