(* ===== verification/StrategyProps.thy ===== *)
theory StrategyProps
  imports StrategyModule StrategyConsensus Kept
begin

section \<open>Facts about the strategy engine\<close>

text \<open>
  Which operation changes which repository. \<open>engine_kept\<close> is the contract of a relation that the event
  publisher keeps; its extensions add the updates of the evaluation, of the drafts and of the
  catalogue. Interpreted, they show that only promotion and activation touch versions, only
  replacement and rollback touch bindings, and only the evaluation touches the issued keys.
\<close>

subsection \<open>Contracts\<close>

locale engine_kept = kept R for R :: "pm3 \<Rightarrow> pm3 \<Rightarrow> bool" +
  assumes R_id: "R s (s\<lparr>n3_next_id := n\<rparr>)"
    and R_events: "R s (s\<lparr>n3_events := es\<rparr>)"
begin

lemma maintains_n3_fresh: "maintains R n3_fresh"
  by (simp add: maintains_def n3_fresh_def R_id)

lemma maintains_publish_event: "maintains R (publish_event now act pid vid sy summary attrs)"
  unfolding publish_event_def by (intro maintains_bnd maintains_n3_fresh maintains_upd R_events)

lemma maintains_no_trade: "maintains R (no_trade sy now reason corr diag)"
  unfolding no_trade_def by (intro maintains_bnd maintains_n3_fresh maintains_ret)

lemma maintains_from_consensus: "maintains R (from_consensus hours cn c pid vid)"
  unfolding from_consensus_def Let_def
  by (cases "cn_decision cn") (simp_all add: maintains_no_trade maintains_bnd maintains_n3_fresh maintains_ret)

lemma maintains_read: "maintains R (\<lambda>s. (f s, s))"
  by (simp add: maintains_def R_same)

lemma maintains_collect_votes: "maintains R (collect_votes c bs)"
  by (induction bs) (simp_all add: maintains_bnd maintains_n3_fresh maintains_ret maintains_read)

end

locale evaluation_kept = engine_kept R for R :: "pm3 \<Rightarrow> pm3 \<Rightarrow> bool" +
  assumes R_votes: "R s (s\<lparr>n3_last_votes := vs\<rparr>)"
    and R_seen: "R s (s\<lparr>n3_seen := d\<rparr>)"
    and R_trackers: "R s (s\<lparr>n3_trackers := ts\<rparr>)"
    and R_signal: "R s (s\<lparr>n3_last_signal := gs\<rparr>)"
begin

lemma maintains_tracker: "maintains R (tracker_snapshot pid vid now)"
  unfolding tracker_snapshot_def Let_def
  by (intro maintains_bnd maintains_ret maintains_option maintains_upd) (simp add: save_tracker_def R_trackers)

lemma maintains_note_intent: "maintains R (note_intent pid vid now)"
  unfolding note_intent_def Let_def
  by (intro maintains_bnd maintains_tracker maintains_ret maintains_upd) (simp add: save_tracker_def R_trackers)

lemma maintains_feedback: "maintains R (ingest_feedback ev)"
  unfolding ingest_feedback_def apply_feedback_def Let_def
  by (intro maintains_bnd maintains_tracker maintains_ret maintains_if maintains_upd) (simp add: save_tracker_def R_trackers)

lemma maintains_artifact:
  "(\<And>n. a = SA_no_trade n \<Longrightarrow> maintains R (f n)) \<Longrightarrow> (\<And>t. a = SA_intent t \<Longrightarrow> maintains R (g t)) \<Longrightarrow>
   maintains R (case a of SA_no_trade n \<Rightarrow> f n | SA_intent t \<Rightarrow> g t)"
  by (cases a) simp_all

lemma maintains_pipe: "maintains R (pipe_evaluate c)"
  unfolding pipe_evaluate_def
  by (intro maintains_bnd maintains_ret maintains_option maintains_prod maintains_no_trade maintains_collect_votes
      maintains_upd maintains_n3_fresh maintains_from_consensus maintains_artifact maintains_if R_votes R_seen)

lemma maintains_evaluate: "maintains R (evaluate_candidate c)"
  unfolding evaluate_candidate_def note_signal_def
  by (intro maintains_bnd maintains_pipe maintains_artifact maintains_ret maintains_note_intent maintains_if
      maintains_n3_fresh maintains_upd R_signal)

lemma maintains_evaluate_all: "maintains R (evaluate_all cs)"
  by (induction cs) (simp_all add: maintains_ret maintains_bnd maintains_evaluate)

end

locale draft_kept = engine_kept R for R :: "pm3 \<Rightarrow> pm3 \<Rightarrow> bool" +
  assumes R_drafts: "R s (s\<lparr>n3_drafts := ds\<rparr>)"
begin

lemma maintains_save_draft: "maintains R (upd_st (save_draft d))"
  by (intro maintains_upd) (simp add: save_draft_def R_drafts)

lemma maintains_clone: "maintains R (clone_draft hx pid now)"
  unfolding clone_draft_def Let_def
  by (intro maintains_bnd maintains_ret maintains_option maintains_if maintains_save_draft maintains_publish_event)

lemma maintains_update: "maintains R (update_draft_parameter did nm v now)"
  unfolding update_draft_parameter_def Let_def
  by (intro maintains_bnd maintains_ret maintains_option maintains_save_draft maintains_publish_event)

lemma maintains_preset: "maintains R (apply_preset did preset now)"
  unfolding apply_preset_def Let_def
  by (intro maintains_bnd maintains_ret maintains_option maintains_save_draft maintains_publish_event)

end

locale binding_kept = engine_kept R for R :: "pm3 \<Rightarrow> pm3 \<Rightarrow> bool" +
  assumes R_bindings: "R s (s\<lparr>n3_bindings := bs\<rparr>)"
begin

lemma R_deactivate: "R s (snd (deactivate_template tpl bs s))"
proof -
  have "R t (snd (fold (\<lambda>b (prev, s). if Some (template_value (sb_template_type b)) = tpl \<and> sb_active b
      then (Some (sb_version_id b), save_binding (b\<lparr>sb_active := False\<rparr>) s) else (prev, s)) bs (p, t)))" for p t
  proof (induction bs arbitrary: p t)
    case (Cons b bs)
    have "R t (save_binding x t)" for x by (simp add: save_binding_def R_bindings)
    with Cons show ?case by (auto intro: R_trans)
  qed (simp add: R_same)
  then show ?thesis by (simp add: deactivate_template_def R_same)
qed

lemma maintains_save_binding: "maintains R (upd_st (save_binding b))"
  by (intro maintains_upd) (simp add: save_binding_def R_bindings)

lemma maintains_replace: "maintains R (replace_active hx sy pid now tpl)"
proof -
  have "maintains R (\<lambda>s. let (prev, s') = deactivate_template tpl (bindings_for_symbol sy s) s in (Inr prev, s'))"
    unfolding maintains_def Let_def using R_deactivate by (auto simp: split_beta)
  then show ?thesis
    unfolding replace_active_def Let_def
    by (intro maintains_bnd maintains_ret maintains_option maintains_if maintains_save_binding maintains_publish_event)
qed

lemma maintains_rollback: "maintains R (rollback_binding bid now)"
  unfolding rollback_binding_def Let_def
  by (intro maintains_bnd maintains_ret maintains_option maintains_if maintains_save_binding maintains_publish_event)

end

locale catalog_kept = engine_kept R for R :: "pm3 \<Rightarrow> pm3 \<Rightarrow> bool" +
  assumes R_versions: "R s (s\<lparr>n3_versions := vs\<rparr>)"
    and R_profiles: "R s (s\<lparr>n3_profiles := ps\<rparr>)"
begin

lemma maintains_save_version: "maintains R (upd_st (save_version v))"
  by (intro maintains_upd) (simp add: save_version_def R_versions)

lemma maintains_promote: "maintains R (promote_version H hx did now)"
  unfolding promote_version_def Let_def
  by (intro maintains_read maintains_bnd maintains_ret maintains_option maintains_if maintains_save_version maintains_publish_event)

lemma maintains_activate: "maintains R (activate_version vid now)"
proof -
  have "maintains R (upd_st (demote_previous p v))" for p v
    by (intro maintains_upd) (auto simp: demote_previous_def save_version_def R_versions R_same split: option.splits)
  moreover have "maintains R (upd_st (save_profile p))" for p
    by (intro maintains_upd) (simp add: save_profile_def R_profiles)
  ultimately show ?thesis
    unfolding activate_version_def Let_def
    by (intro maintains_bnd maintains_ret maintains_option maintains_if maintains_save_version maintains_publish_event)
qed

end

subsection \<open>Interpretations\<close>

definition same_catalog :: "pm3 \<Rightarrow> pm3 \<Rightarrow> bool" where
  "same_catalog s t \<longleftrightarrow> n3_profiles t = n3_profiles s \<and> n3_versions t = n3_versions s"

definition same_bindings :: "pm3 \<Rightarrow> pm3 \<Rightarrow> bool" where
  "same_bindings s t \<longleftrightarrow> n3_bindings t = n3_bindings s"

definition same_keys :: "pm3 \<Rightarrow> pm3 \<Rightarrow> bool" where
  "same_keys s t \<longleftrightarrow> n3_seen t = n3_seen s"

definition same_engine :: "pm3 \<Rightarrow> pm3 \<Rightarrow> bool" where
  "same_engine s t \<longleftrightarrow> n3_config t = n3_config s \<and> n3_feature_enabled t = n3_feature_enabled s \<and> n3_flags t = n3_flags s"

interpretation cat_ev: evaluation_kept same_catalog
  by unfold_locales (simp_all add: same_catalog_def)

interpretation cat_dr: draft_kept same_catalog
  by unfold_locales (simp_all add: same_catalog_def)

interpretation cat_bd: binding_kept same_catalog
  by unfold_locales (simp_all add: same_catalog_def)

interpretation bd_ev: evaluation_kept same_bindings
  by unfold_locales (simp_all add: same_bindings_def)

interpretation bd_dr: draft_kept same_bindings
  by unfold_locales (simp_all add: same_bindings_def)

interpretation bd_ct: catalog_kept same_bindings
  by unfold_locales (simp_all add: same_bindings_def)

interpretation sn_dr: draft_kept same_keys
  by unfold_locales (simp_all add: same_keys_def)

interpretation sn_bd: binding_kept same_keys
  by unfold_locales (simp_all add: same_keys_def)

interpretation sn_ct: catalog_kept same_keys
  by unfold_locales (simp_all add: same_keys_def)

interpretation st_ev: evaluation_kept same_engine
  by unfold_locales (simp_all add: same_engine_def)

interpretation st_dr: draft_kept same_engine
  by unfold_locales (simp_all add: same_engine_def)

interpretation st_bd: binding_kept same_engine
  by unfold_locales (simp_all add: same_engine_def)

interpretation st_ct: catalog_kept same_engine
  by unfold_locales (simp_all add: same_engine_def)

subsection \<open>Calls\<close>

lemma snd_bnd_ret: "snd (bnd m (\<lambda>x. ret (f x)) s) = snd (m s)"
  by (simp add: bnd_def ret_def split: prod.splits sum.splits)

lemma maintains_call: "maintains R m \<Longrightarrow> R s (snd (m s))"
  by (simp add: maintains_def)

fun evaluates :: "pm3_call \<Rightarrow> bool" where
  "evaluates (P3_evaluate c) = True"
| "evaluates (P3_publication sl wl) = True"
| "evaluates _ = False"

fun catalogs :: "pm3_call \<Rightarrow> bool" where
  "catalogs (P3_promote hx did now) = True"
| "catalogs (P3_activate vid now) = True"
| "catalogs _ = False"

fun rebinds :: "pm3_call \<Rightarrow> bool" where
  "rebinds (P3_replace hx sy pid now tpl) = True"
| "rebinds (P3_rollback bid now) = True"
| "rebinds _ = False"

lemma call_catalog: "\<not> catalogs call \<Longrightarrow> same_catalog s (pm3_perform H call s)"
  by (cases call)
    (simp_all add: pm3_perform_def evaluate_publication_def snd_bnd_ret maintains_call cat_ev.maintains_evaluate
      cat_ev.maintains_evaluate_all cat_ev.maintains_feedback cat_ev.maintains_tracker cat_dr.maintains_clone
      cat_dr.maintains_update cat_dr.maintains_preset cat_bd.maintains_replace cat_bd.maintains_rollback)

lemma call_bindings: "\<not> rebinds call \<Longrightarrow> same_bindings s (pm3_perform H call s)"
  by (cases call)
    (simp_all add: pm3_perform_def evaluate_publication_def snd_bnd_ret maintains_call bd_ev.maintains_evaluate
      bd_ev.maintains_evaluate_all bd_ev.maintains_feedback bd_ev.maintains_tracker bd_dr.maintains_clone
      bd_dr.maintains_update bd_dr.maintains_preset bd_ct.maintains_promote bd_ct.maintains_activate)

lemma call_setup: "same_engine s (pm3_perform H call s)"
  by (cases call)
    (simp_all add: pm3_perform_def evaluate_publication_def snd_bnd_ret maintains_call st_ev.maintains_evaluate
      st_ev.maintains_evaluate_all st_ev.maintains_feedback st_ev.maintains_tracker st_dr.maintains_clone
      st_dr.maintains_update st_dr.maintains_preset st_bd.maintains_replace st_bd.maintains_rollback
      st_ct.maintains_promote st_ct.maintains_activate)

lemma call_same_keys: "\<not> evaluates call \<Longrightarrow> same_keys s (pm3_perform H call s)"
proof -
  have "maintains same_keys (tracker_snapshot pid vid now)" "maintains same_keys (ingest_feedback ev)" for pid vid now ev
    by (auto simp: tracker_snapshot_def ingest_feedback_def apply_feedback_def Let_def save_tracker_def same_keys_def
        intro!: sn_dr.maintains_bnd sn_dr.maintains_ret sn_dr.maintains_option sn_dr.maintains_upd sn_dr.maintains_if)
  then show "\<not> evaluates call \<Longrightarrow> ?thesis"
    by (cases call)
      (simp_all add: pm3_perform_def snd_bnd_ret maintains_call sn_dr.maintains_clone sn_dr.maintains_update
        sn_dr.maintains_preset sn_bd.maintains_replace sn_bd.maintains_rollback sn_ct.maintains_promote sn_ct.maintains_activate)
qed

subsection \<open>Parameters\<close>

text \<open>The parameters a vote converts are there and convert.\<close>

definition float_params :: "params \<Rightarrow> bool" where
  "float_params ps \<longleftrightarrow>
     (\<exists>x. param_float ''historical_reliability'' (f64 (55 / 100)) ps = Inr x) \<and>
     (\<exists>x. param_float ''recent_live_health'' (f64 (50 / 100)) ps = Inr x)"

lemma validated_float:
  assumes "validate_item ps z = Inr []" and "pz_type z = PK_FLOAT"
  shows "\<exists>v x. dict_get ps (pz_name z) = Some v \<and> py_float v = Inr x"
  using assms by (auto simp: validate_item_def Let_def split: option.splits sum.splits py_exn.splits)

lemma validated_items: "validate_items ps zs = Inr [] \<Longrightarrow> z \<in> set zs \<Longrightarrow> validate_item ps z = Inr []"
  by (induction zs) (auto simp: res_simps)

lemma validated_params: "validate_parameters H strategy_schema ps = Inr r \<Longrightarrow> vr_ok r \<Longrightarrow> float_params ps"
proof -
  assume "validate_parameters H strategy_schema ps = Inr r" and "vr_ok r"
  then have "validate_items ps strategy_schema = Inr []" by (auto simp: validate_parameters_def res_simps)
  then have ok: "validate_item ps z = Inr []" if "z \<in> set strategy_schema" for z using that by (rule validated_items)
  let ?a = "strategy_schema ! 0" and ?b = "strategy_schema ! 1"
  have "?a \<in> set strategy_schema" "?b \<in> set strategy_schema" by (simp_all add: strategy_schema_def)
  with ok have "validate_item ps ?a = Inr []" "validate_item ps ?b = Inr []" by blast+
  from validated_float [OF this(1)] validated_float [OF this(2)] show ?thesis
    by (auto simp: float_params_def param_float_def strategy_schema_def)
qed

lemma default_params: "float_params DEFAULT_PARAMS"
  by (simp add: float_params_def param_float_def DEFAULT_PARAMS_def dict_get_def)

subsection \<open>The catalogue\<close>

definition catalog_ok :: "pm3 \<Rightarrow> bool" where
  "catalog_ok s \<longleftrightarrow>
     (\<forall>k p. dict_get (n3_profiles s) k = Some p \<longrightarrow> pf_profile_id p = k \<and> pf_schema p = strategy_schema) \<and>
     (\<forall>k v. dict_get (n3_versions s) k = Some v \<longrightarrow> pv_version_id v = k \<and> k \<noteq> [] \<and> float_params (pv_parameters v))"

lemma catalog_same: "same_catalog s t \<Longrightarrow> catalog_ok t = catalog_ok s"
  by (simp add: same_catalog_def catalog_ok_def)

lemma catalog_version:
  "catalog_ok s \<Longrightarrow> pv_version_id v \<noteq> [] \<Longrightarrow> float_params (pv_parameters v) \<Longrightarrow> catalog_ok (save_version v s)"
  by (simp add: catalog_ok_def save_version_def dict_simps)

lemma catalog_profile: "catalog_ok s \<Longrightarrow> pf_schema p = strategy_schema \<Longrightarrow> catalog_ok (save_profile p s)"
  by (simp add: catalog_ok_def save_profile_def dict_simps)

text \<open>What promotion and activation do to the catalogue.\<close>

definition promoted :: "params_print \<Rightarrow> string \<Rightarrow> StrategyDraft \<Rightarrow> datetime \<Rightarrow> ProfileVersion" where
  "promoted H hx d now =
     \<lparr>pv_version_id = ''version:'' @ sd_profile_id d @ '':'' @ hx, pv_profile_id = sd_profile_id d, pv_status = PR_TESTED,
      pv_parameters = sd_parameters d, pv_fingerprint = H (sorted_params (sd_parameters d)), pv_created_at = now,
      pv_parent_version_id = Some (sd_source_version_id d), pv_immutable = False,
      pv_notes = ''promoted from draft; not live trading''\<rparr>"

lemma publish_event_run [run_simps]:
  "publish_event now act pid vid sy summary attrs s = (Inr (), s\<lparr>n3_next_id := n3_next_id s + 2,
     n3_events := n3_events s @ [\<lparr>se_event_id = n3_next_id s, se_correlation_id = Suc (n3_next_id s), se_occurred_at = now,
       se_action = act, se_profile_id = pid, se_version_id = vid, se_symbol = sy, se_summary = summary, se_attributes = attrs\<rparr>]\<rparr>)"
  by (simp add: publish_event_def bnd_def n3_fresh_def upd_st_def)

lemma bnd_read [run_simps]: "bnd (\<lambda>s. (f s, s)) g s = (case f s of Inl e \<Rightarrow> (Inl e, s) | Inr x \<Rightarrow> g x s)"
  by (simp add: bnd_def split: sum.splits)

lemma bnd_publish_event [run_simps]:
  "bnd (publish_event now act pid vid sy summary attrs) f s = f () (snd (publish_event now act pid vid sy summary attrs s))"
  by (simp add: bnd_def publish_event_run)

lemma promote_effect:
  obtains (none) "same_catalog s (snd (promote_version H hx did now s))"
  | (saved) d p r where "dict_get (n3_drafts s) did = Some d" and "dict_get (n3_profiles s) (sd_profile_id d) = Some p"
      and "validate_parameters H (pf_schema p) (sd_parameters d) = Inr r" and "vr_ok r"
      and "same_catalog (save_version (promoted H hx d now) s) (snd (promote_version H hx did now s))"
proof (cases "dict_get (n3_drafts s) did")
  case None
  then have "same_catalog s (snd (promote_version H hx did now s))"
    by (simp add: promote_version_def validate_draft_def run_simps same_catalog_def)
  then show thesis by (rule none)
next
  case (Some d)
  show thesis
  proof (cases "dict_get (n3_profiles s) (sd_profile_id d)")
    case None
    with Some have "same_catalog s (snd (promote_version H hx did now s))"
      by (simp add: promote_version_def validate_draft_def run_simps same_catalog_def)
    then show thesis by (rule none)
  next
    case p: (Some p)
    show thesis
    proof (cases "\<exists>r. validate_parameters H (pf_schema p) (sd_parameters d) = Inr r \<and> vr_ok r")
      case True
      then obtain r where r: "validate_parameters H (pf_schema p) (sd_parameters d) = Inr r" "vr_ok r" by blast
      with Some p have "same_catalog (save_version (promoted H hx d now) s) (snd (promote_version H hx did now s))"
        by (simp add: promote_version_def validate_draft_def run_simps same_catalog_def promoted_def Let_def)
      with Some p r show thesis by (rule saved)
    next
      case False
      with Some p have "same_catalog s (snd (promote_version H hx did now s))"
        by (cases "validate_parameters H (pf_schema p) (sd_parameters d)")
          (simp_all add: promote_version_def validate_draft_def run_simps same_catalog_def)
      then show thesis by (rule none)
    qed
  qed
qed

definition activated :: "ProfileVersion \<Rightarrow> StrategyProfile \<Rightarrow> pm3 \<Rightarrow> pm3" where
  "activated v p s =
     save_profile (p\<lparr>pf_active_version_id := Some (pv_version_id v), pf_status := PR_ACTIVE\<rparr>)
       (save_version (v\<lparr>pv_status := PR_ACTIVE, pv_immutable := True\<rparr>) (demote_previous p v s))"

lemma activate_effect:
  obtains (none) e where "activate_version vid now s = (Inl e, s)"
  | (ok) v p where "dict_get (n3_versions s) vid = Some v" and "may_activate (pv_status v)"
      and "dict_get (n3_profiles s) (pv_profile_id v) = Some p"
      and "fst (activate_version vid now s) = Inr (v\<lparr>pv_status := PR_ACTIVE, pv_immutable := True\<rparr>)"
      and "same_catalog (activated v p s) (snd (activate_version vid now s))"
proof (cases "dict_get (n3_versions s) vid")
  case None
  show thesis by (rule none) (simp add: None activate_version_def run_simps)
next
  case v: (Some v)
  show thesis
  proof (cases "may_activate (pv_status v)")
    case False
    show thesis by (rule none) (simp add: v False activate_version_def run_simps)
  next
    case act: True
    show thesis
    proof (cases "dict_get (n3_profiles s) (pv_profile_id v)")
      case None
      show thesis by (rule none) (simp add: v act None activate_version_def run_simps)
    next
      case (Some p)
      show thesis
        by (rule ok [OF v act Some]) (simp_all add: v act Some activate_version_def run_simps activated_def same_catalog_def Let_def)
    qed
  qed
qed

lemma catalog_demote: "catalog_ok s \<Longrightarrow> catalog_ok (demote_previous p v s)"
proof -
  assume ok: "catalog_ok s"
  have "catalog_ok (save_version (prev\<lparr>pv_status := PR_WATCHLIST, pv_immutable := True\<rparr>) s)"
    if "n3_version i s = Some prev" for prev i
    using that ok by (intro catalog_version) (auto simp: n3_version_def catalog_ok_def split: option.splits)
  with ok show ?thesis by (simp add: demote_previous_def split: option.splits)
qed

lemma catalog_call: "catalog_ok s \<Longrightarrow> catalog_ok (pm3_perform H call s)"
proof -
  assume cat: "catalog_ok s"
  have pr: "catalog_ok (snd (promote_version H hx did now s))" for hx did now
  proof (cases rule: promote_effect [of s H hx did now])
    case none
    with cat show ?thesis by (simp add: catalog_same)
  next
    case (saved d p r)
    with cat have "float_params (sd_parameters d)" by (intro validated_params [of H _ r]) (auto simp: catalog_ok_def)
    with cat have "catalog_ok (save_version (promoted H hx d now) s)"
      by (intro catalog_version) (simp_all add: promoted_def)
    with saved show ?thesis by (simp add: catalog_same)
  qed
  have ac: "catalog_ok (snd (activate_version vid now s))" for vid now
  proof (cases rule: activate_effect [of vid now s])
    case (ok v p)
    with cat have "pv_version_id v \<noteq> []" "float_params (pv_parameters v)" "pf_schema p = strategy_schema"
      by (auto simp: catalog_ok_def)
    then have "catalog_ok (activated v p s)"
      unfolding activated_def by (intro catalog_profile catalog_version catalog_demote cat) simp_all
    with ok(5) show ?thesis by (simp add: catalog_same)
  qed (use cat in simp)
  show ?thesis
  proof (cases "catalogs call")
    case True
    then show ?thesis by (cases call) (simp_all add: pm3_perform_def snd_bnd_ret pr ac)
  next
    case False
    from catalog_same [OF call_catalog [OF this, of s H]] cat show ?thesis by simp
  qed
qed

end
