(* ===== verification/StrategyInvariants.thy ===== *)
theory StrategyInvariants
  imports StrategyProps "HOL-Library.Sublist"
begin

section \<open>Invariants of the strategy engine\<close>

text \<open>
  The life of a version (tested, active, watchlist) and the limit on the active bindings of a
  symbol. The first needs that the digits drawn for a promoted version are new (\<open>fresh_call\<close>), the
  second holds whatever digits are drawn.
\<close>

subsection \<open>Reachable states\<close>

fun fresh_call :: "pm3_call \<Rightarrow> pm3 \<Rightarrow> bool" where
  "fresh_call (P3_promote hx did now) s \<longleftrightarrow>
     (case dict_get (n3_drafts s) did of None \<Rightarrow> True
      | Some d \<Rightarrow> dict_get (n3_versions s) (''version:'' @ sd_profile_id d @ '':'' @ hx) = None)"
| "fresh_call _ s \<longleftrightarrow> True"

inductive pm3_reach :: "params_print \<Rightarrow> pm3 \<Rightarrow> pm3 \<Rightarrow> bool" for H :: params_print and s0 :: pm3 where
  start: "pm3_reach H s0 s0"
| step: "pm3_reach H s0 s \<Longrightarrow> fresh_call call s \<Longrightarrow> pm3_reach H s0 (pm3_perform H call s)"

lemma reach_catalog: "pm3_reach H s0 s \<Longrightarrow> catalog_ok s0 \<Longrightarrow> catalog_ok s"
  by (induction rule: pm3_reach.induct) (simp_all add: catalog_call)

lemma reach_setup: "pm3_reach H s0 s \<Longrightarrow> same_engine s0 s"
proof (induction rule: pm3_reach.induct)
  case (step s call)
  from step.IH call_setup [of s H call] show ?case by (rule st_ev.R_trans)
qed (simp add: same_engine_def)

subsection \<open>Life of a version\<close>

definition profile_live :: "pm3 \<Rightarrow> string \<Rightarrow> StrategyProfile \<Rightarrow> bool" where
  "profile_live s k p \<longleftrightarrow> pf_status p = PR_ACTIVE \<and>
     (\<exists>i v. pf_active_version_id p = Some i \<and> dict_get (n3_versions s) i = Some v \<and> pv_status v = PR_ACTIVE \<and> pv_profile_id v = k)"

definition version_staged :: "pm3 \<Rightarrow> string \<Rightarrow> ProfileVersion \<Rightarrow> bool" where
  "version_staged s k v \<longleftrightarrow>
     pv_status v = PR_TESTED \<and> \<not> pv_immutable v \<or>
     pv_status v = PR_WATCHLIST \<and> pv_immutable v \<or>
     pv_status v = PR_ACTIVE \<and> pv_immutable v \<and>
       (\<exists>p. dict_get (n3_profiles s) (pv_profile_id v) = Some p \<and> pf_active_version_id p = Some k)"

definition lifecycle_ok :: "pm3 \<Rightarrow> bool" where
  "lifecycle_ok s \<longleftrightarrow>
     (\<forall>k p. dict_get (n3_profiles s) k = Some p \<longrightarrow> profile_live s k p) \<and>
     (\<forall>k v. dict_get (n3_versions s) k = Some v \<longrightarrow> version_staged s k v)"

lemma lifecycleI:
  assumes "\<And>k p. dict_get (n3_profiles s) k = Some p \<Longrightarrow> profile_live s k p"
    and "\<And>k v. dict_get (n3_versions s) k = Some v \<Longrightarrow> version_staged s k v"
  shows "lifecycle_ok s"
  using assms by (simp add: lifecycle_ok_def)

lemma lifecycle_profile: "lifecycle_ok s \<Longrightarrow> dict_get (n3_profiles s) k = Some p \<Longrightarrow> profile_live s k p"
  by (simp add: lifecycle_ok_def)

lemma lifecycle_version: "lifecycle_ok s \<Longrightarrow> dict_get (n3_versions s) k = Some v \<Longrightarrow> version_staged s k v"
  by (simp add: lifecycle_ok_def)

text \<open>The next stage of a version; the content never changes.\<close>

definition stage_le :: "ProfileStatus \<Rightarrow> ProfileStatus \<Rightarrow> bool" where
  "stage_le a b \<longleftrightarrow> a = b \<or> a = PR_TESTED \<and> b \<in> {PR_ACTIVE, PR_WATCHLIST} \<or> a = PR_ACTIVE \<and> b = PR_WATCHLIST"

definition version_next :: "ProfileVersion \<Rightarrow> ProfileVersion \<Rightarrow> bool" where
  "version_next v w \<longleftrightarrow> pv_profile_id w = pv_profile_id v \<and> pv_parameters w = pv_parameters v \<and>
     pv_fingerprint w = pv_fingerprint v \<and> pv_parent_version_id w = pv_parent_version_id v \<and>
     stage_le (pv_status v) (pv_status w)"

definition versions_grow :: "pm3 \<Rightarrow> pm3 \<Rightarrow> bool" where
  "versions_grow s t \<longleftrightarrow>
     (\<forall>k v. dict_get (n3_versions s) k = Some v \<longrightarrow> (\<exists>w. dict_get (n3_versions t) k = Some w \<and> version_next v w))"

lemma version_next_refl: "version_next v v"
  by (simp add: version_next_def stage_le_def)

lemma version_next_trans: "version_next v w \<Longrightarrow> version_next w x \<Longrightarrow> version_next v x"
  by (auto simp: version_next_def stage_le_def)

interpretation vg: kept versions_grow
proof
  fix s t u
  show "versions_grow s s" by (simp add: versions_grow_def version_next_refl)
  assume "versions_grow s t" and "versions_grow t u"
  then show "versions_grow s u" unfolding versions_grow_def by (meson version_next_trans)
qed

lemma lifecycle_same: "same_catalog s t \<Longrightarrow> lifecycle_ok t = lifecycle_ok s"
  by (simp add: same_catalog_def lifecycle_ok_def profile_live_def version_staged_def)

lemma versions_grow_same: "same_catalog s t \<Longrightarrow> versions_grow u t = versions_grow u s"
  by (simp add: same_catalog_def versions_grow_def)

text \<open>A new tested version.\<close>

lemma lifecycle_new:
  assumes "lifecycle_ok s" and "dict_get (n3_versions s) (pv_version_id w) = None"
    and "pv_status w = PR_TESTED" and "\<not> pv_immutable w"
  shows "lifecycle_ok (save_version w s)" and "versions_grow s (save_version w s)"
proof -
  show "versions_grow s (save_version w s)"
    using assms(2) by (auto simp: versions_grow_def save_version_def dict_simps version_next_refl)
  show "lifecycle_ok (save_version w s)"
  proof (rule lifecycleI)
    fix k q assume "dict_get (n3_profiles (save_version w s)) k = Some q"
    then have "profile_live s k q" using lifecycle_profile [OF assms(1)] by (simp add: save_version_def)
    then obtain i v where "pf_status q = PR_ACTIVE" "pf_active_version_id q = Some i" "dict_get (n3_versions s) i = Some v"
      "pv_status v = PR_ACTIVE" "pv_profile_id v = k" by (auto simp: profile_live_def)
    moreover from this assms(2) have "i \<noteq> pv_version_id w" by auto
    ultimately show "profile_live (save_version w s) k q" by (simp add: profile_live_def save_version_def dict_simps)
  next
    fix k v assume "dict_get (n3_versions (save_version w s)) k = Some v"
    then have "v = w \<or> version_staged s k v"
      using lifecycle_version [OF assms(1)] by (auto simp: save_version_def dict_simps split: if_splits)
    then show "version_staged (save_version w s) k v"
      using assms(3,4) by (auto simp: version_staged_def save_version_def)
  qed
qed

lemma lifecycle_promote:
  assumes "lifecycle_ok s" and "dict_get (n3_versions s) (''version:'' @ sd_profile_id d @ '':'' @ hx) = None"
  shows "lifecycle_ok (save_version (promoted H hx d now) s)" and "versions_grow s (save_version (promoted H hx d now) s)"
  using assms by (intro lifecycle_new; simp add: promoted_def)+

text \<open>An activation: the profile's active version steps down, the new one steps up.\<close>

lemma activated_get:
  assumes cat: "catalog_ok s" and life: "lifecycle_ok s"
    and v: "dict_get (n3_versions s) vid = Some v" "may_activate (pv_status v)"
    and p: "dict_get (n3_profiles s) (pv_profile_id v) = Some p"
  obtains i w where "pf_active_version_id p = Some i" and "dict_get (n3_versions s) i = Some w" and "i \<noteq> vid"
    and "pv_status w = PR_ACTIVE" and "pv_profile_id w = pv_profile_id v" and "pv_status v = PR_TESTED"
    and "n3_versions (activated v p s) = dict_put vid (v\<lparr>pv_status := PR_ACTIVE, pv_immutable := True\<rparr>)
           (dict_put i (w\<lparr>pv_status := PR_WATCHLIST, pv_immutable := True\<rparr>) (n3_versions s))"
    and "n3_profiles (activated v p s) = dict_put (pv_profile_id v)
           (p\<lparr>pf_active_version_id := Some vid, pf_status := PR_ACTIVE\<rparr>) (n3_profiles s)"
proof -
  obtain i w where i: "pf_active_version_id p = Some i" "dict_get (n3_versions s) i = Some w"
      "pv_status w = PR_ACTIVE" "pv_profile_id w = pv_profile_id v"
    using lifecycle_profile [OF life p] by (auto simp: profile_live_def)
  have ts: "pv_status v = PR_TESTED"
    using lifecycle_version [OF life v(1)] v(2) by (auto simp: version_staged_def may_activate_def ACTIVATABLE_def)
  have ids: "pv_version_id v = vid" "pv_version_id w = i" "i \<noteq> []" "pf_profile_id p = pv_profile_id v"
    using cat v i p by (auto simp: catalog_ok_def)
  have ne: "i \<noteq> vid" using i(2,3) v(1) ts by auto
  show thesis
    by (rule that [OF i(1,2) ne i(3,4) ts])
      (use i ids ne in \<open>simp_all add: activated_def demote_previous_def truthy_def n3_version_def save_profile_def save_version_def\<close>)
qed

lemma lifecycle_activate:
  assumes cat: "catalog_ok s" and life: "lifecycle_ok s"
    and v: "dict_get (n3_versions s) vid = Some v" "may_activate (pv_status v)"
    and p: "dict_get (n3_profiles s) (pv_profile_id v) = Some p"
  shows "lifecycle_ok (activated v p s)" and "versions_grow s (activated v p s)"
proof -
  obtain i w where g: "pf_active_version_id p = Some i" "dict_get (n3_versions s) i = Some w" "i \<noteq> vid"
    "pv_status w = PR_ACTIVE" "pv_profile_id w = pv_profile_id v" "pv_status v = PR_TESTED"
    and vs: "n3_versions (activated v p s) = dict_put vid (v\<lparr>pv_status := PR_ACTIVE, pv_immutable := True\<rparr>)
           (dict_put i (w\<lparr>pv_status := PR_WATCHLIST, pv_immutable := True\<rparr>) (n3_versions s))"
    and ps: "n3_profiles (activated v p s) = dict_put (pv_profile_id v)
           (p\<lparr>pf_active_version_id := Some vid, pf_status := PR_ACTIVE\<rparr>) (n3_profiles s)"
    using activated_get [OF assms] .
  show "versions_grow s (activated v p s)"
    unfolding versions_grow_def
  proof (intro allI impI)
    fix k x assume x: "dict_get (n3_versions s) k = Some x"
    consider "k = vid" | "k = i" | "k \<noteq> vid" "k \<noteq> i" by blast
    then show "\<exists>y. dict_get (n3_versions (activated v p s)) k = Some y \<and> version_next x y"
      unfolding vs using x g v(1) by cases (simp_all add: dict_simps version_next_def stage_le_def)
  qed
  show "lifecycle_ok (activated v p s)"
  proof (rule lifecycleI)
    fix k q assume q: "dict_get (n3_profiles (activated v p s)) k = Some q"
    show "profile_live (activated v p s) k q"
    proof (cases "k = pv_profile_id v")
      case True
      with q have "q = p\<lparr>pf_active_version_id := Some vid, pf_status := PR_ACTIVE\<rparr>" by (simp add: ps dict_simps)
      with True show ?thesis by (simp add: profile_live_def vs dict_simps)
    next
      case False
      with q have "profile_live s k q" using lifecycle_profile [OF life] by (simp add: ps dict_simps)
      then obtain j x where jx: "pf_status q = PR_ACTIVE" "pf_active_version_id q = Some j" "dict_get (n3_versions s) j = Some x"
        "pv_status x = PR_ACTIVE" "pv_profile_id x = k" by (auto simp: profile_live_def)
      moreover from jx g v False have "j \<noteq> i" "j \<noteq> vid" by auto
      ultimately show ?thesis by (simp add: profile_live_def vs dict_simps)
    qed
  next
    fix k x assume x: "dict_get (n3_versions (activated v p s)) k = Some x"
    consider "k = vid" | "k = i" "k \<noteq> vid" | "k \<noteq> vid" "k \<noteq> i" by blast
    then show "version_staged (activated v p s) k x"
    proof cases
      case 3
      with x have st: "version_staged s k x" using lifecycle_version [OF life] by (simp add: vs dict_simps)
      moreover from st p g(1) 3 have "pv_status x = PR_ACTIVE \<Longrightarrow> pv_profile_id x \<noteq> pv_profile_id v"
        by (auto simp: version_staged_def)
      ultimately show ?thesis by (auto simp: version_staged_def ps dict_simps)
    qed (use x in \<open>auto simp: version_staged_def vs ps dict_simps\<close>)
  qed
qed

lemma lifecycle_call:
  assumes "catalog_ok s" and "lifecycle_ok s" and "fresh_call call s"
  shows "lifecycle_ok (pm3_perform H call s)" and "versions_grow s (pm3_perform H call s)"
proof -
  have "lifecycle_ok (pm3_perform H call s) \<and> versions_grow s (pm3_perform H call s)"
  proof (cases "catalogs call")
    case False
    from call_catalog [OF this, of s H] assms(2) show ?thesis
      by (simp add: lifecycle_same versions_grow_same vg.R_same)
  next
    case True
    then consider hx did now where "call = P3_promote hx did now" | vid now where "call = P3_activate vid now"
      by (cases call) auto
    then show ?thesis
    proof cases
      case 1
      have st: "pm3_perform H call s = snd (promote_version H hx did now s)" by (simp add: 1 pm3_perform_def snd_bnd_ret)
      show ?thesis
      proof (cases rule: promote_effect [of s H hx did now])
        case none
        with assms(2) show ?thesis by (simp add: st lifecycle_same versions_grow_same vg.R_same)
      next
        case (saved d p r)
        with assms(3) 1 have "dict_get (n3_versions s) (''version:'' @ sd_profile_id d @ '':'' @ hx) = None" by simp
        from lifecycle_promote [OF assms(2) this] saved(5) show ?thesis
          by (simp add: st lifecycle_same versions_grow_same)
      qed
    next
      case 2
      have st: "pm3_perform H call s = snd (activate_version vid now s)" by (simp add: 2 pm3_perform_def snd_bnd_ret)
      show ?thesis
      proof (cases rule: activate_effect [of vid now s])
        case (none e)
        with assms(2) show ?thesis by (simp add: st vg.R_same)
      next
        case (ok v p)
        from lifecycle_activate [OF assms(1,2) ok(1-3)] ok(5) show ?thesis
          by (simp add: st lifecycle_same versions_grow_same)
      qed
    qed
  qed
  then show "lifecycle_ok (pm3_perform H call s)" and "versions_grow s (pm3_perform H call s)" by simp_all
qed

lemma reach_lifecycle:
  assumes "pm3_reach H s0 s" and "catalog_ok s0" and "lifecycle_ok s0"
  shows "lifecycle_ok s" and "versions_grow s0 s"
proof -
  from assms have "lifecycle_ok s \<and> versions_grow s0 s"
  proof (induction rule: pm3_reach.induct)
    case (step s call)
    from lifecycle_call [OF reach_catalog [OF step.hyps(1) assms(2)] _ step.hyps(2)] step show ?case
      by (auto intro: vg.R_trans)
  qed (simp add: vg.R_same)
  then show "lifecycle_ok s" and "versions_grow s0 s" by simp_all
qed

subsection \<open>Active bindings of a symbol\<close>

definition branch_ok :: "nat \<Rightarrow> SymbolStrategyBinding list \<Rightarrow> bool" where
  "branch_ok n g \<longleftrightarrow> length g \<le> n \<and> distinct (map sb_template_type g) \<and> distinct (map sb_profile_id g)"

definition active_on :: "string \<Rightarrow> pm3 \<Rightarrow> SymbolStrategyBinding list" where
  "active_on sy s = filter sb_active (bindings_for_symbol sy s)"

definition branches_ok :: "pm3 \<Rightarrow> bool" where
  "branches_ok s \<longleftrightarrow> (\<forall>sy. branch_ok 3 (active_on sy s))"

lemma active_on_alt: "active_on sy s = filter (\<lambda>b. sb_active b \<and> sb_symbol b = sy) (dict_values (n3_bindings s))"
  by (simp add: active_on_def bindings_for_symbol_def conj_commute)

text \<open>Leaving out bindings keeps the limit.\<close>

lemma distinct_subseq: "subseq xs ys \<Longrightarrow> distinct ys \<Longrightarrow> distinct xs"
  by (auto simp: subseq_conv_nths)

lemma branch_ok_subseq: "subseq g h \<Longrightarrow> branch_ok n h \<Longrightarrow> branch_ok n g"
  unfolding branch_ok_def
  by (meson list_emb_length order_trans distinct_subseq subseq_map)

text \<open>Storing an element that the filter drops only leaves elements out.\<close>

lemma filter_put_drop: "\<not> P v \<Longrightarrow> subseq (filter P (dict_values (dict_put k v d))) (filter P (dict_values d))"
  by (induction d) (auto simp: dict_put_def dict_values_def)

lemma active_on_drop:
  "\<not> (sb_active b \<and> sb_symbol b = sy) \<Longrightarrow> subseq (active_on sy (save_binding b s)) (active_on sy s)"
  unfolding active_on_alt save_binding_def by (simp add: filter_put_drop)

lemma branches_drop: "\<not> sb_active b \<Longrightarrow> branches_ok s \<Longrightarrow> branches_ok (save_binding b s)"
  unfolding branches_ok_def by (metis active_on_drop branch_ok_subseq)

lemma save_binding_twice: "sb_binding_id b = sb_binding_id c \<Longrightarrow> save_binding b (save_binding c s) = save_binding b s"
  by (simp add: save_binding_def dict_put_def)

text \<open>The shape of the bindings, without their versions.\<close>

definition shape :: "SymbolStrategyBinding \<Rightarrow> string \<times> string \<times> StrategyTemplateType \<times> bool" where
  "shape b = (sb_symbol b, sb_profile_id b, sb_template_type b, sb_active b)"

lemma put_shape:
  "dict_get d k = Some b \<Longrightarrow> shape c = shape b \<Longrightarrow> map shape (dict_values (dict_put k c d)) = map shape (dict_values d)"
  by (induction d) (auto simp: dict_get_def dict_put_def dict_values_def split: if_splits)

lemma branch_ok_shape: "map shape g = map shape h \<Longrightarrow> branch_ok n g = branch_ok n h"
proof -
  assume eq: "map shape g = map shape h"
  have "map sb_template_type xs = map (\<lambda>(a, b, c, d). c) (map shape xs)" "map sb_profile_id xs = map (\<lambda>(a, b, c, d). b) (map shape xs)"
    for xs by (simp_all add: shape_def)
  then show ?thesis unfolding branch_ok_def using eq map_eq_imp_length_eq [OF eq] by metis
qed

lemma filter_shape: "map shape (filter (\<lambda>b. sb_active b \<and> sb_symbol b = sy) xs) =
    filter (\<lambda>(a, b, c, d). d \<and> a = sy) (map shape xs)"
  by (induction xs) (auto simp: shape_def)

lemma branches_shape:
  assumes "map shape (dict_values (n3_bindings t)) = map shape (dict_values (n3_bindings s))" and "branches_ok s"
  shows "branches_ok t"
proof -
  have "map shape (active_on sy t) = map shape (active_on sy s)" for sy
    unfolding active_on_alt filter_shape by (simp add: assms(1))
  then show ?thesis using assms(2) branch_ok_shape unfolding branches_ok_def by blast
qed

text \<open>A binding is stored under its identifier.\<close>

definition bindings_keyed :: "pm3 \<Rightarrow> bool" where
  "bindings_keyed s \<longleftrightarrow> (\<forall>k b. dict_get (n3_bindings s) k = Some b \<longrightarrow> sb_binding_id b = k)"

lemma keyed_save: "bindings_keyed s \<Longrightarrow> bindings_keyed (save_binding b s)"
  by (simp add: bindings_keyed_def save_binding_def dict_simps)

lemma same_bindings_inv: "same_bindings s t \<Longrightarrow> branches_ok t = branches_ok s \<and> bindings_keyed t = bindings_keyed s"
  by (simp add: same_bindings_def branches_ok_def active_on_alt bindings_keyed_def)

text \<open>What a rollback and a replacement do to the bindings.\<close>

lemma rollback_effect:
  obtains (none) e where "rollback_binding bid now s = (Inl e, s)"
  | (swapped) b v where "dict_get (n3_bindings s) bid = Some b" and "n3_version (sb_previous_version_id b) s = Some v"
      and "fst (rollback_binding bid now s) =
             Inr (b\<lparr>sb_previous_version_id := Some (sb_version_id b), sb_version_id := pv_version_id v\<rparr>)"
      and "same_bindings (save_binding (b\<lparr>sb_previous_version_id := Some (sb_version_id b), sb_version_id := pv_version_id v\<rparr>) s)
             (snd (rollback_binding bid now s))"
proof (cases "dict_get (n3_bindings s) bid")
  case None
  show thesis by (rule none) (simp add: None rollback_binding_def run_simps)
next
  case b: (Some b)
  show thesis
  proof (cases "truthy (sb_previous_version_id b)")
    case False
    show thesis by (rule none) (simp add: b False rollback_binding_def run_simps)
  next
    case tr: True
    show thesis
    proof (cases "n3_version (sb_previous_version_id b) s")
      case None
      show thesis by (rule none) (simp add: b tr None rollback_binding_def run_simps)
    next
      case (Some v)
      show thesis
        by (rule swapped [OF b Some]) (simp_all add: b tr Some rollback_binding_def run_simps Let_def same_bindings_def)
    qed
  qed
qed

lemma branches_rollback:
  assumes "branches_ok s" and "bindings_keyed s"
  shows "branches_ok (snd (rollback_binding bid now s)) \<and> bindings_keyed (snd (rollback_binding bid now s))"
proof (cases rule: rollback_effect [of bid now s])
  case (swapped b v)
  let ?b = "b\<lparr>sb_previous_version_id := Some (sb_version_id b), sb_version_id := pv_version_id v\<rparr>"
  have "sb_binding_id b = bid" using assms(2) swapped(1) by (simp add: bindings_keyed_def)
  then have "map shape (dict_values (n3_bindings (save_binding ?b s))) = map shape (dict_values (n3_bindings s))"
    using swapped(1) by (simp add: save_binding_def put_shape shape_def)
  then have "branches_ok (save_binding ?b s)" using assms(1) by (rule branches_shape)
  then show ?thesis using same_bindings_inv [OF swapped(4)] keyed_save [OF assms(2)] by simp
qed (use assms in simp)

lemma deactivate_keeps:
  assumes "branches_ok s" and "bindings_keyed s"
  shows "branches_ok (snd (deactivate_template tpl bs s)) \<and> bindings_keyed (snd (deactivate_template tpl bs s))"
proof -
  have "branches_ok t \<and> bindings_keyed t \<Longrightarrow>
    branches_ok (snd (fold (\<lambda>b (prev, s). if Some (template_value (sb_template_type b)) = tpl \<and> sb_active b
      then (Some (sb_version_id b), save_binding (b\<lparr>sb_active := False\<rparr>) s) else (prev, s)) bs (p, t))) \<and>
    bindings_keyed (snd (fold (\<lambda>b (prev, s). if Some (template_value (sb_template_type b)) = tpl \<and> sb_active b
      then (Some (sb_version_id b), save_binding (b\<lparr>sb_active := False\<rparr>) s) else (prev, s)) bs (p, t)))" for p t
    by (induction bs arbitrary: p t) (simp_all add: branches_drop keyed_save)
  with assms show ?thesis by (simp add: deactivate_template_def)
qed

text \<open>A new binding that the validation accepts.\<close>

lemma validated_branches:
  assumes "vr_ok (validate_bindings n (bindings_for_symbol sy s))"
  shows "branch_ok n (active_on sy s)"
proof (cases "active_on sy s")
  case Nil
  then show ?thesis by (simp add: branch_ok_def)
next
  case (Cons b g)
  have sy: "sb_symbol c = sy" if "c \<in> set (active_on sy s)" for c
    using that by (simp add: active_on_def bindings_for_symbol_def)
  then have "sy \<in> set (fromkeys (map sb_symbol (active_on sy s)))" using Cons by (metis set_fromkeys list.set_intros(1) list.simps(9))
  moreover have "filter (\<lambda>b. sb_symbol b = sy) (active_on sy s) = active_on sy s" using sy by simp
  ultimately have "validate_group n sy (active_on sy s) = []"
    using assms unfolding validate_bindings_def Let_def active_on_def [symmetric] by auto
  then show ?thesis by (auto simp: validate_group_def branch_ok_def split: if_splits)
qed

lemma branches_added:
  assumes "branches_ok s" and "vr_ok (validate_bindings n (bindings_for_symbol (sb_symbol b) (save_binding b s)))" and "n \<le> 3"
  shows "branches_ok (save_binding b s)"
  unfolding branches_ok_def
proof
  fix sy
  show "branch_ok 3 (active_on sy (save_binding b s))"
  proof (cases "sb_symbol b = sy")
    case True
    with validated_branches [OF assms(2)] assms(3) show ?thesis by (simp add: branch_ok_def)
  next
    case False
    then show ?thesis using active_on_drop [of b sy s] assms(1) by (auto simp: branches_ok_def intro: branch_ok_subseq)
  qed
qed

definition new_binding ::
  "string \<Rightarrow> string \<Rightarrow> StrategyProfile \<Rightarrow> string \<Rightarrow> ProfileVersion \<Rightarrow> datetime \<Rightarrow> string option \<Rightarrow> SymbolStrategyBinding" where
  "new_binding hx sy p pid v now prev =
     \<lparr>sb_binding_id = ''bind:'' @ sy @ '':'' @ template_value (pf_template_type p) @ '':'' @ hx, sb_symbol = sy,
      sb_profile_id = pid, sb_version_id = pv_version_id v, sb_template_type = pf_template_type p,
      sb_active = True, sb_created_at = now, sb_previous_version_id = prev\<rparr>"

lemma replace_effect:
  obtains (none) e where "replace_active hx sy pid now tpl s = (Inl e, s)"
  | (stored) p v prev s1 b where "dict_get (n3_profiles s) pid = Some p" and "n3_version (pf_active_version_id p) s = Some v"
      and "deactivate_template tpl (bindings_for_symbol sy s) s = (prev, s1)" and "b = new_binding hx sy p pid v now prev"
      and "\<not> vr_ok (validate_bindings (pe_max_active_branches (n3_config (save_binding b s1))) (bindings_for_symbol sy (save_binding b s1))) \<Longrightarrow>
           (\<exists>e. replace_active hx sy pid now tpl s = (Inl e, save_binding (b\<lparr>sb_active := False\<rparr>) s1))"
      and "vr_ok (validate_bindings (pe_max_active_branches (n3_config (save_binding b s1))) (bindings_for_symbol sy (save_binding b s1))) \<Longrightarrow>
           fst (replace_active hx sy pid now tpl s) = Inr b \<and> same_bindings (save_binding b s1) (snd (replace_active hx sy pid now tpl s))"
proof (cases "dict_get (n3_profiles s) pid")
  case None
  show thesis by (rule none) (simp add: None replace_active_def run_simps)
next
  case p: (Some p)
  show thesis
  proof (cases "pf_active_version_id p = None \<or> pf_status p \<in> {PR_DISABLED, PR_DEGRADED, PR_RETIRED} \<or>
      n3_version (pf_active_version_id p) s = None")
    case True
    then have "\<exists>e. replace_active hx sy pid now tpl s = (Inl e, s)"
      by (auto simp: p replace_active_def run_simps split: option.splits)
    then show thesis using none by blast
  next
    case False
    then obtain i v where i: "pf_active_version_id p = Some i" and v: "n3_version (pf_active_version_id p) s = Some v" by auto
    obtain prev s1 where d: "deactivate_template tpl (bindings_for_symbol sy s) s = (prev, s1)" by fastforce
    let ?b = "new_binding hx sy p pid v now prev"
    have run: "replace_active hx sy pid now tpl s =
      (let s2 = save_binding ?b s1; report = validate_bindings (pe_max_active_branches (n3_config s2)) (bindings_for_symbol sy s2)
       in if \<not> vr_ok report then (Inl (ValueError (join ''; '' (vr_errors report))), save_binding (?b\<lparr>sb_active := False\<rparr>) s2)
          else (Inr ?b, snd (publish_event now PA_REPLACE_BINDING pid (Some (pv_version_id v)) (Some sy)
                  (''replaced binding on '' @ sy) [] s2)))"
    proof -
      have D: "bnd (\<lambda>s. let (prev, s') = deactivate_template tpl (bindings_for_symbol sy s) s in (Inr prev, s')) f s = f prev s1"
        for f :: "string option \<Rightarrow> (pm3, SymbolStrategyBinding) comp" by (rule bnd_Inr) (simp add: d)
      show ?thesis
        using False v unfolding replace_active_def
        by (simp only: bnd_get p i D option.case if_False simp_thms insert_iff empty_iff option.distinct)
          (simp add: new_binding_def Let_def run_simps)
    qed
    show thesis
      by (rule stored [OF p v d refl])
        (simp_all add: run Let_def publish_event_run same_bindings_def save_binding_twice)
  qed
qed

lemma branches_replace:
  assumes "branches_ok s" and "bindings_keyed s" and n: "pe_max_active_branches (n3_config s) \<le> 3"
  shows "branches_ok (snd (replace_active hx sy pid now tpl s)) \<and> bindings_keyed (snd (replace_active hx sy pid now tpl s))"
proof (cases rule: replace_effect [of hx sy pid now tpl s])
  case (stored p v prev s1 b)
  have s1: "branches_ok s1" "bindings_keyed s1"
    using deactivate_keeps [OF assms(1,2), of tpl "bindings_for_symbol sy s"] stored(3) by simp_all
  have "n3_config s1 = n3_config s"
    using st_bd.R_deactivate [of s tpl "bindings_for_symbol sy s"] stored(3) by (simp add: same_engine_def)
  then have n1: "pe_max_active_branches (n3_config (save_binding b s1)) \<le> 3" using n by (simp add: save_binding_def)
  have sy: "sb_symbol b = sy" using stored(4) by (simp add: new_binding_def)
  show ?thesis
  proof (cases "vr_ok (validate_bindings (pe_max_active_branches (n3_config (save_binding b s1))) (bindings_for_symbol sy (save_binding b s1)))")
    case True
    then have "branches_ok (save_binding b s1)" using branches_added [OF s1(1) _ n1] sy by simp
    moreover have "same_bindings (save_binding b s1) (snd (replace_active hx sy pid now tpl s))" using stored(6) [OF True] by simp
    ultimately show ?thesis using same_bindings_inv keyed_save [OF s1(2), of b] by blast
  next
    case False
    from stored(5) [OF this] s1 show ?thesis by (auto simp: branches_drop keyed_save)
  qed
qed (use assms in simp)

lemma branches_call:
  assumes "branches_ok s" and "bindings_keyed s" and "pe_max_active_branches (n3_config s) \<le> 3"
  shows "branches_ok (pm3_perform H call s) \<and> bindings_keyed (pm3_perform H call s)"
proof (cases "rebinds call")
  case True
  then show ?thesis
    by (cases call) (simp_all add: pm3_perform_def snd_bnd_ret branches_replace branches_rollback assms)
next
  case False
  from same_bindings_inv [OF call_bindings [OF this, of s H]] assms show ?thesis by simp
qed

subsection \<open>The seeded catalogue\<close>

lemma template_value_inj: "template_value a = template_value b \<longleftrightarrow> a = b"
  by (cases a; cases b; simp)

text \<open>What the seed leaves: its own profiles, versions and bindings, each under its identifier.\<close>

definition seeded_catalog :: "params_print \<Rightarrow> datetime \<Rightarrow> StrategyTemplateType set \<Rightarrow> pm3 \<Rightarrow> bool" where
  "seeded_catalog H now tps s \<longleftrightarrow>
     (\<forall>k p. dict_get (n3_profiles s) k = Some p \<longleftrightarrow> (\<exists>tp \<in> tps. p = seed_profile now tp \<and> k = pf_profile_id p)) \<and>
     (\<forall>k v. dict_get (n3_versions s) k = Some v \<longleftrightarrow> (\<exists>tp \<in> tps. v = seed_version H now tp \<and> k = pv_version_id v))"

definition seeded_bindings :: "datetime \<Rightarrow> StrategyTemplateType set \<Rightarrow> pm3 \<Rightarrow> bool" where
  "seeded_bindings now tps s \<longleftrightarrow>
     (\<forall>k b. (k, b) \<in> set (n3_bindings s) \<longrightarrow> (\<exists>tp \<in> tps. \<exists>sy. b = seed_binding now tp sy \<and> k = sb_binding_id b)) \<and>
     distinct (map fst (n3_bindings s))"

lemma seed_ids:
  "pf_profile_id (seed_profile now a) = pf_profile_id (seed_profile now b) \<longleftrightarrow> a = b"
  "pv_version_id (seed_version H now a) = pv_version_id (seed_version H now b) \<longleftrightarrow> a = b"
  by (simp_all add: seed_profile_def seed_version_def template_value_inj)

lemma set_dict_put: "set (dict_put k v d) \<subseteq> insert (k, v) (set d)"
  by (induction d) (auto simp: dict_put_def)

lemma save_bindings_frame:
  "n3_profiles (fold (\<lambda>sy. save_binding (f sy)) xs s) = n3_profiles s"
  "n3_versions (fold (\<lambda>sy. save_binding (f sy)) xs s) = n3_versions s"
  by (induction xs arbitrary: s) (simp_all add: save_binding_def)

lemma seeded_catalog_step:
  assumes "seeded_catalog H now tps s"
  shows "seeded_catalog H now (insert tp tps) (seed_template H now universe tp s)"
proof -
  have "dict_get (n3_profiles (seed_template H now universe tp s)) k =
      (if k = pf_profile_id (seed_profile now tp) then Some (seed_profile now tp) else dict_get (n3_profiles s) k)"
    "dict_get (n3_versions (seed_template H now universe tp s)) k =
      (if k = pv_version_id (seed_version H now tp) then Some (seed_version H now tp) else dict_get (n3_versions s) k)" for k
    by (simp_all add: seed_template_def save_bindings_frame save_version_def save_profile_def dict_simps)
  then show ?thesis using assms unfolding seeded_catalog_def by (auto simp: seed_ids)
qed

lemma seeded_bindings_step:
  assumes "seeded_bindings now tps s"
  shows "seeded_bindings now (insert tp tps) (seed_template H now universe tp s)"
proof -
  have save: "seeded_bindings now (insert tp tps) (save_binding (seed_binding now tp sy) t)"
    if "seeded_bindings now (insert tp tps) t" for sy t
    using that set_dict_put [of "sb_binding_id (seed_binding now tp sy)" "seed_binding now tp sy" "n3_bindings t"]
    unfolding seeded_bindings_def save_binding_def by (auto simp: dict_put_distinct)
  have "seeded_bindings now (insert tp tps) t \<Longrightarrow>
    seeded_bindings now (insert tp tps) (fold (\<lambda>sy. save_binding (seed_binding now tp sy)) universe t)" for t
    by (induction universe arbitrary: t) (simp_all add: save)
  moreover have "seeded_bindings now (insert tp tps) (save_version (seed_version H now tp) (save_profile (seed_profile now tp) s))"
    using assms unfolding seeded_bindings_def save_version_def save_profile_def by simp
  ultimately show ?thesis by (simp add: seed_template_def)
qed

lemma init_seeded:
  "seeded_catalog H now (set FIRST_PHASE) (pm3_init H cfg f now)" "seeded_bindings now (set FIRST_PHASE) (pm3_init H cfg f now)"
proof -
  have e: "set FIRST_PHASE = insert TP_MEAN_REVERSION (insert TP_ORB_SESSION_BREAKOUT (insert TP_TREND_PULLBACK {}))"
    by (auto simp: FIRST_PHASE_def)
  show "seeded_catalog H now (set FIRST_PHASE) (pm3_init H cfg f now)"
    unfolding e unfolding pm3_init_def seed_catalog_def FIRST_PHASE_def fold.simps comp_def id_def
    by (intro seeded_catalog_step) (simp add: seeded_catalog_def dict_simps)
  show "seeded_bindings now (set FIRST_PHASE) (pm3_init H cfg f now)"
    unfolding e unfolding pm3_init_def seed_catalog_def FIRST_PHASE_def fold.simps comp_def id_def
    by (intro seeded_bindings_step) (simp add: seeded_bindings_def)
qed

lemma init_catalog: "catalog_ok (pm3_init H cfg f now)"
proof -
  note c = init_seeded(1) [of H now cfg f, unfolded seeded_catalog_def]
  have "pf_schema (seed_profile now tp) = strategy_schema" "pv_version_id (seed_version H now tp) \<noteq> []"
    "pv_parameters (seed_version H now tp) = DEFAULT_PARAMS" for tp
    by (simp_all add: seed_profile_def seed_version_def)
  with c default_params show ?thesis unfolding catalog_ok_def by metis
qed

lemma init_lifecycle: "lifecycle_ok (pm3_init H cfg f now)"
proof (rule lifecycleI)
  let ?s = "pm3_init H cfg f now"
  note c = init_seeded(1) [of H now cfg f, unfolded seeded_catalog_def]
  have link: "pf_active_version_id (seed_profile now tp) = Some (pv_version_id (seed_version H now tp))"
    "pv_profile_id (seed_version H now tp) = pf_profile_id (seed_profile now tp)" for tp
    by (simp_all add: seed_profile_def seed_version_def)
  {
    fix k p assume "dict_get (n3_profiles ?s) k = Some p"
    then obtain tp where tp: "tp \<in> set FIRST_PHASE" "p = seed_profile now tp" "k = pf_profile_id p" using c by blast
    with c have "dict_get (n3_versions ?s) (pv_version_id (seed_version H now tp)) = Some (seed_version H now tp)" by blast
    with tp show "profile_live ?s k p"
      unfolding profile_live_def by (simp add: link) (simp add: seed_profile_def seed_version_def)
  next
    fix k v assume "dict_get (n3_versions ?s) k = Some v"
    then obtain tp where tp: "tp \<in> set FIRST_PHASE" "v = seed_version H now tp" "k = pv_version_id v" using c by blast
    with c have "dict_get (n3_profiles ?s) (pf_profile_id (seed_profile now tp)) = Some (seed_profile now tp)" by blast
    with tp show "version_staged ?s k v"
      unfolding version_staged_def by (simp add: link) (simp add: seed_version_def)
  }
qed

lemma distinct_by_key:
  assumes "distinct (map fst d)" and "\<And>k b. (k, b) \<in> set d \<Longrightarrow> P b \<Longrightarrow> k = key (f b)"
  shows "distinct (map f (filter P (dict_values d)))"
  using assms
proof (induction d)
  case (Cons x d)
  obtain k b where x: "x = (k, b)" by (cases x)
  have "f c \<noteq> f b" if "P b" "(j, c) \<in> set d" "P c" for j c
  proof
    assume "f c = f b"
    with Cons.prems(2) that x have "j = k" by (metis list.set_intros)
    with that(2) Cons.prems(1) x show False by (force simp: rev_image_eqI)
  qed
  then show ?case using Cons x by (auto simp: dict_values_def) blast
qed (simp add: dict_values_def)

lemma init_branches: "branches_ok (pm3_init H cfg f now)" "bindings_keyed (pm3_init H cfg f now)"
proof -
  let ?s = "pm3_init H cfg f now"
  have b: "\<exists>tp \<in> set FIRST_PHASE. \<exists>sy. b = seed_binding now tp sy \<and> k = sb_binding_id b" if "(k, b) \<in> set (n3_bindings ?s)" for k b
    using init_seeded(2) [of now H cfg f] that unfolding seeded_bindings_def by blast
  have d: "distinct (map fst (n3_bindings ?s))" using init_seeded(2) [of now H cfg f] by (simp add: seeded_bindings_def)
  show "bindings_keyed ?s" unfolding bindings_keyed_def dict_get_def using b by (blast dest: map_of_SomeD)
  have sh: "k = ''bind:'' @ sb_symbol b @ '':'' @ template_value (sb_template_type b)"
    "sb_profile_id b = ''profile:'' @ template_value (sb_template_type b)" "sb_template_type b \<in> set FIRST_PHASE"
    if kb: "(k, b) \<in> set (n3_bindings ?s)" for k b
  proof -
    obtain tp sy where x: "tp \<in> set FIRST_PHASE" "b = seed_binding now tp sy" "k = sb_binding_id b" using b [OF kb] by blast
    then show "k = ''bind:'' @ sb_symbol b @ '':'' @ template_value (sb_template_type b)"
      "sb_profile_id b = ''profile:'' @ template_value (sb_template_type b)" "sb_template_type b \<in> set FIRST_PHASE"
      by (simp_all add: seed_binding_def)
  qed
  have t: "distinct (map sb_template_type (active_on sy ?s))" for sy
    unfolding active_on_alt
  proof (rule distinct_by_key [OF d, of _ "\<lambda>tp. ''bind:'' @ sy @ '':'' @ template_value tp"])
    fix k b assume "(k, b) \<in> set (n3_bindings ?s)" and "sb_active b \<and> sb_symbol b = sy"
    then show "k = ''bind:'' @ sy @ '':'' @ template_value (sb_template_type b)" using sh(1) [of k b] by blast
  qed
  have p: "distinct (map sb_profile_id (active_on sy ?s))" for sy
    unfolding active_on_alt
  proof (rule distinct_by_key [OF d, of _ "\<lambda>p. ''bind:'' @ sy @ '':'' @ drop 8 p"])
    fix k b assume kb: "(k, b) \<in> set (n3_bindings ?s)" and sy: "sb_active b \<and> sb_symbol b = sy"
    have "drop 8 (sb_profile_id b) = template_value (sb_template_type b)" by (simp add: sh(2) [OF kb])
    then show "k = ''bind:'' @ sy @ '':'' @ drop 8 (sb_profile_id b)" using sh(1) [OF kb] sy by metis
  qed
  have "set (map sb_template_type (active_on sy ?s)) \<subseteq> set FIRST_PHASE" for sy
    using sh(3) by (force simp: active_on_alt dict_values_def)
  then have "length (active_on sy ?s) \<le> 3" for sy
    using distinct_card [OF t [of sy]] card_mono [of "set FIRST_PHASE" "set (map sb_template_type (active_on sy ?s))"]
      card_length [of FIRST_PHASE] by (fastforce simp: FIRST_PHASE_def)
  with t p show "branches_ok ?s" by (simp add: branches_ok_def branch_ok_def)
qed

end
