(* ===== verification/StrategyPipe.thy ===== *)
theory StrategyPipe
  imports StrategyInvariants
begin

section \<open>The evaluation of a candidate\<close>

text \<open>
  When a vote counts, that the pipe of a symbol answers every candidate, and what an intent that it
  issues rests on.
\<close>

subsection \<open>Votes that count\<close>

fun supported_regimes :: "StrategyTemplateType \<Rightarrow> RegimeType list" where
  "supported_regimes TP_TREND_PULLBACK = [RG_TRENDING]"
| "supported_regimes TP_ORB_SESSION_BREAKOUT = [RG_TRANSITIONAL, RG_COMPRESSION, RG_TRENDING]"
| "supported_regimes TP_MEAN_REVERSION = [RG_RANGING]"
| "supported_regimes TP_LIQUIDITY_SWEEP_REVERSAL = [RG_RANGING]"
| "supported_regimes TP_VOLATILITY_SQUEEZE_BREAKOUT = [RG_COMPRESSION, RG_TRANSITIONAL]"

lemmas template_defs = trend_pullback_def orb_session_breakout_def mean_reversion_def liquidity_sweep_reversal_def
  volatility_squeeze_breakout_def

lemma abstain_unselected [simp]: "\<not> selected (abstain_vote u tp pid vid sy now reason corr diag)"
  "\<not> selected (abstain_ctx u tp c reason diag)"
  by (simp_all add: selected_def abstain_vote_def abstain_ctx_def)

lemma gate_abstains: "tp_gate u tp regimes c = Some v \<Longrightarrow> \<not> selected v"
  by (auto simp: tp_gate_def split: if_splits)

lemma gate_passed:
  "tp_gate u tp regimes c = None \<Longrightarrow> \<not> ec_lookahead c \<and> \<not> ec_stale c \<and> \<not> ec_malformed c \<and> ec_regime c \<in> set regimes"
  by (auto simp: tp_gate_def split: if_splits)

lemma template_gated:
  assumes "template_evaluate tp u c = Inr v" and "selected v"
  shows "tp_gate u tp (supported_regimes tp) c = None"
proof (cases "tp_gate u tp (supported_regimes tp) c")
  case (Some w)
  then have "template_evaluate tp u c = Inr w" by (cases tp) (simp_all add: template_defs)
  with assms gate_abstains [OF Some] show ?thesis by simp
qed

text \<open>A vote is cast under the binding's template, profile and version.\<close>

lemma tp_vote_built:
  assumes "float_params (ec_params c)"
  obtains v where "tp_vote u tp c dir raw regime quality friction = Inr v"
proof -
  obtain h l where "param_float ''historical_reliability'' (f64 (55 / 100)) (ec_params c) = Inr h"
    and "param_float ''recent_live_health'' (f64 (50 / 100)) (ec_params c) = Inr l"
    using assms unfolding float_params_def by blast
  with that show thesis
    by (simp add: tp_vote_def make_vote_def raise_if_def vote_bounds_def unit_range_def directional_vote_def)
qed

lemma template_built:
  assumes "float_params (ec_params c)"
  obtains v where "template_evaluate tp u c = Inr v"
proof -
  have vote: "\<exists>v. tp_vote u tp c dir raw regime quality friction = Inr v" for tp dir raw regime quality friction
    using tp_vote_built [OF assms] by metis
  have "\<exists>v. template_evaluate tp u c = Inr v"
    by (cases tp) (simp_all add: template_defs Let_def vote split: option.splits)
  then show thesis using that by blast
qed

definition cast_under :: "string \<Rightarrow> string \<Rightarrow> StrategyTemplateType \<Rightarrow> StrategyVote \<Rightarrow> bool" where
  "cast_under pid vid tp v \<longleftrightarrow> vt_profile_id v = pid \<and> vt_version_id v = vid \<and> vt_template v = tp"

lemma abstain_cast: "cast_under pid vid tp (abstain_vote u tp pid vid sy now reason corr diag)"
  by (simp add: cast_under_def abstain_vote_def)

lemma tp_vote_cast:
  "tp_vote u tp c dir raw regime quality friction = Inr v \<Longrightarrow> cast_under (ec_profile_id c) (ec_version_id c) tp v"
  by (auto simp: tp_vote_def res_simps make_vote_def directional_vote_def cast_under_def)

lemma template_cast: "template_evaluate tp u c = Inr v \<Longrightarrow> cast_under (ec_profile_id c) (ec_version_id c) tp v"
proof -
  have ab: "cast_under (ec_profile_id c) (ec_version_id c) tp (abstain_ctx u tp c r d)" for tp r d
    by (simp add: abstain_ctx_def abstain_cast)
  then have g: "tp_gate u tp rs c = Some w \<Longrightarrow> cast_under (ec_profile_id c) (ec_version_id c) tp w" for tp rs w
    by (auto simp: tp_gate_def split: if_splits)
  assume "template_evaluate tp u c = Inr v"
  then show ?thesis
    by (cases tp) (auto simp: template_defs Let_def ab g tp_vote_cast split: option.splits if_splits)
qed

lemma policy_keeps [simp]:
  "vt_abstained (policy_for nm v) = vt_abstained v" "vt_direction (policy_for nm v) = vt_direction v"
  "selected (policy_for nm v) = selected v" "cast_under pid vid tp (policy_for nm v) = cast_under pid vid tp v"
  by (simp_all add: policy_for_def calibrate_table_def calibrate_fallback_def calibrate_platt_def calibrate_isotonic_def
      Let_def selected_def cast_under_def)

text \<open>What stands behind a vote that counts.\<close>

definition vote_backed :: "RankedCandidate \<Rightarrow> pm3 \<Rightarrow> SymbolStrategyBinding \<Rightarrow> StrategyVote \<Rightarrow> bool" where
  "vote_backed c s b v \<longleftrightarrow>
     sb_active b \<and> sb_symbol b = rk_symbol c \<and> cast_under (sb_profile_id b) (sb_version_id b) (sb_template_type b) v \<and>
     (\<exists>p. dict_get (n3_profiles s) (sb_profile_id b) = Some p \<and> pf_status p = PR_ACTIVE) \<and>
     (\<exists>w. dict_get (n3_versions s) (sb_version_id b) = Some w \<and> pv_status w = PR_ACTIVE) \<and>
     is_enabled (pe_enabled_templates (n3_config s)) (sb_template_type b) \<and>
     cc_regime (rk_context c) \<in> set (supported_regimes (sb_template_type b)) \<and>
     (\<forall>t. rk_timing_valid_until c = Some t \<longrightarrow> rk_as_of c < t)"

lemma binding_vote_backed:
  assumes "binding_vote c s u b = Inr (Some v)" and "selected v" and "sb_active b" and "sb_symbol b = rk_symbol c"
  shows "vote_backed c s b v"
proof -
  obtain p w where p: "dict_get (n3_profiles s) (sb_profile_id b) = Some p" and w: "dict_get (n3_versions s) (sb_version_id b) = Some w"
    using assms(1) by (auto simp: binding_vote_def Let_def split: option.splits)
  from assms(1,2) p w have st: "pf_status p = PR_ACTIVE" "pv_status w = PR_ACTIVE"
      "is_enabled (pe_enabled_templates (n3_config s)) (sb_template_type b)"
    by (auto simp: binding_vote_def Let_def may_vote_def split: if_splits)
  let ?ctx = "from_candidate c (sb_profile_id b) (sb_version_id b) (pv_parameters w) (n3_flags s)"
  from assms(1) p w st obtain x where x: "template_evaluate (sb_template_type b) u ?ctx = Inr x"
      "v = policy_for (pe_calibration_policy (n3_config s)) x"
    by (auto simp: binding_vote_def Let_def may_vote_def res_simps)
  have g: "\<not> ec_lookahead ?ctx \<and> \<not> ec_stale ?ctx \<and> \<not> ec_malformed ?ctx \<and>
      ec_regime ?ctx \<in> set (supported_regimes (sb_template_type b))"
    using template_gated [OF x(1)] assms(2) x(2) by (intro gate_passed) simp
  have "cast_under (sb_profile_id b) (sb_version_id b) (sb_template_type b) v"
    using template_cast [OF x(1)] x(2) by (simp add: from_candidate_def Let_def)
  with g p w st assms(3,4) show ?thesis
    by (auto simp: vote_backed_def from_candidate_def Let_def)
qed

lemma binding_vote_built:
  assumes "catalog_ok s"
  obtains x where "binding_vote c s u b = Inr x"
proof (cases "dict_get (n3_profiles s) (sb_profile_id b)")
  case None
  then show thesis using that by (simp add: binding_vote_def Let_def)
next
  case p: (Some p)
  show thesis
  proof (cases "dict_get (n3_versions s) (sb_version_id b)")
    case None
    with p show thesis using that by (simp add: binding_vote_def Let_def)
  next
    case (Some w)
    let ?ctx = "from_candidate c (sb_profile_id b) (sb_version_id b) (pv_parameters w) (n3_flags s)"
    have "float_params (ec_params ?ctx)" using assms Some by (auto simp: catalog_ok_def from_candidate_def Let_def)
    then obtain v where "template_evaluate (sb_template_type b) u ?ctx = Inr v" by (rule template_built)
    then have "\<exists>x. binding_vote c s u b = Inr x" using p Some by (simp add: binding_vote_def Let_def)
    then show thesis using that by blast
  qed
qed

lemma binding_vote_id [simp]: "binding_vote c (s\<lparr>n3_next_id := n\<rparr>) u b = binding_vote c s u b"
  by (simp add: binding_vote_def Let_def split: option.splits)

lemma collect_votes_run:
  assumes "catalog_ok s"
  obtains vs n where "collect_votes c bs s = (Inr vs, s\<lparr>n3_next_id := n\<rparr>)"
    and "\<forall>v \<in> set vs. \<exists>b \<in> set bs. \<exists>u. binding_vote c s u b = Inr (Some v)"
proof -
  have "\<exists>vs n. collect_votes c bs s = (Inr vs, s\<lparr>n3_next_id := n\<rparr>) \<and>
      (\<forall>v \<in> set vs. \<exists>b \<in> set bs. \<exists>u. binding_vote c s u b = Inr (Some v))"
    using assms
  proof (induction bs arbitrary: s)
    case Nil
    show ?case by (rule exI [of _ "[]"], rule exI [of _ "n3_next_id s"]) (simp add: ret_def)
  next
    case (Cons b bs)
    let ?u = "n3_next_id s" and ?s = "s\<lparr>n3_next_id := Suc (Suc (n3_next_id s))\<rparr>"
    have "catalog_ok ?s" using Cons.prems by (simp add: catalog_ok_def)
    from Cons.IH [OF this] obtain vs n where vs: "collect_votes c bs ?s = (Inr vs, ?s\<lparr>n3_next_id := n\<rparr>)"
      "\<forall>v \<in> set vs. \<exists>b \<in> set bs. \<exists>u. binding_vote c ?s u b = Inr (Some v)" by blast
    obtain x where x: "binding_vote c s ?u b = Inr x" using binding_vote_built [OF Cons.prems] .
    have "collect_votes c (b # bs) s = (Inr (case x of None \<Rightarrow> vs | Some v \<Rightarrow> v # vs), s\<lparr>n3_next_id := n\<rparr>)"
      using vs(1) by (simp add: bnd_def n3_fresh_def x ret_def)
    moreover have "\<forall>v \<in> set (case x of None \<Rightarrow> vs | Some v \<Rightarrow> v # vs). \<exists>b' \<in> set (b # bs). \<exists>u. binding_vote c s u b' = Inr (Some v)"
      using vs(2) x by (auto split: option.splits)
    ultimately show ?case by blast
  qed
  then show thesis using that by blast
qed

subsection \<open>Renderings of scores\<close>

lemma decimals_near_range:
  assumes x: "0 < x" "x \<le> 1" and n: "1 \<le> n" and c: "c \<in> set (decimals_near x n)"
  shows "unit_range c"
proof -
  let ?e = "adjusted x - int n + 1"
  let ?q = "10 powi ?e :: rat"
  have q: "0 < ?q" by simp
  have "adjusted x \<le> 0"
  proof -
    have "10 powi adjusted x \<le> (10 :: rat) powi 0" using adjusted_bounds(1) [of x] x by simp
    then show ?thesis by (simp only: pow10_le)
  qed
  then have "?e \<le> 0" using n by simp
  then obtain k where k: "?e = - int k" by (metis neg_equal_iff_equal minus_minus zero_le_imp_eq_int neg_0_le_iff_le)
  have iq: "1 / ?q = of_int (10 ^ k)" by (simp add: k power_int_minus divide_inverse)
  have "x / ?q \<le> 1 / ?q" using x q by (intro divide_right_mono) simp_all
  then have "x / ?q \<le> of_int (10 ^ k)" unfolding iq .
  then have "\<lceil>x / ?q\<rceil> \<le> 10 ^ k" by (simp add: ceiling_le_iff)
  then have "of_int \<lceil>x / ?q\<rceil> \<le> 1 / ?q" unfolding iq by (simp only: of_int_le_iff)
  then have hi: "of_int \<lceil>x / ?q\<rceil> * ?q \<le> 1" using q by (simp add: field_simps)
  have lo: "of_int \<lfloor>x / ?q\<rfloor> \<le> (of_int \<lceil>x / ?q\<rceil> :: rat)" by (simp add: floor_le_ceiling)
  have "0 \<le> \<lfloor>x / ?q\<rfloor>" using x q by simp
  then have "0 \<le> of_int \<lfloor>x / ?q\<rfloor> * ?q" using q by simp
  moreover have "of_int \<lfloor>x / ?q\<rfloor> * ?q \<le> of_int \<lceil>x / ?q\<rceil> * ?q" using lo q by (simp add: mult_right_mono)
  moreover have "c = of_int \<lfloor>x / ?q\<rfloor> * ?q \<or> c = of_int \<lceil>x / ?q\<rceil> * ?q"
    using c by (auto simp: decimals_near_def Let_def split: if_splits)
  ultimately show ?thesis unfolding unit_range_def using hi by linarith
qed

lemma shortest_range:
  assumes "unit_range x"
  shows "unit_range (shortest x)"
proof (cases "x = 0")
  case True
  then show ?thesis by (simp add: shortest_def unit_range_def)
next
  case False
  with assms have x: "0 < x" "x \<le> 1" by (auto simp: unit_range_def)
  show ?thesis
  proof (cases "find (\<lambda>n. decimals_near x n \<noteq> []) [1..<18]")
    case None
    with False assms show ?thesis by (simp add: shortest_def)
  next
    case (Some n)
    then have n: "1 \<le> n" "decimals_near x n \<noteq> []" by (auto simp: find_Some_iff)
    then have "\<And>c. c \<in> set (decimals_near x n) \<Longrightarrow> unit_range c" using decimals_near_range x by blast
    with n(2) False Some show ?thesis by (auto simp: shortest_def split: list.splits)
  qed
qed

text \<open>Rounding the rendering gives the double back.\<close>

lemma shortest_double: "is_f64 x \<Longrightarrow> f64 (shortest x) = x"
proof -
  assume x: "is_f64 x"
  have near: "f64 c = x" if "c \<in> set (decimals_near x n)" for c n
    using that by (auto simp: decimals_near_def Let_def split: if_splits)
  show ?thesis
  proof (cases "find (\<lambda>n. decimals_near x n \<noteq> []) [1..<18]")
    case None
    with x show ?thesis by (simp add: shortest_def is_f64_def)
  next
    case (Some n)
    then have "decimals_near x n \<noteq> []" by (auto simp: find_Some_iff)
    moreover have "\<And>c. c \<in> set (decimals_near x n) \<Longrightarrow> f64 c = x" by (rule near)
    ultimately show ?thesis using Some by (auto simp: shortest_def split: list.splits)
  qed
qed

subsection \<open>Answers of the pipe\<close>

text \<open>The bound of the candidate contract that an intent copies.\<close>

definition candidate_ok :: "RankedCandidate \<Rightarrow> bool" where
  "candidate_ok c \<longleftrightarrow> 0 \<le> sc_final_confluence_score (rk_scorecard c)"

lemma key_not_blank: "\<not> blank (intent_key sy now cid)"
  by (simp add: intent_key_def blank_def is_space_def)

lemma intent_built:
  assumes "consensus_bounds cn" and "candidate_ok c"
  shows "make_trade_intent (trade_intent_of hours cn c pid vid dir iid eid) = Inr (trade_intent_of hours cn c pid vid dir iid eid)"
    and "trade_intent_ok (trade_intent_of hours cn c pid vid dir iid eid)"
proof -
  have "unit_range (shortest (cn_confidence cn))" "unit_range (shortest (max (cn_p_long cn) (cn_p_short cn)))"
    using assms(1) by (intro shortest_range; auto simp: consensus_bounds_def unit_range_def le_max_iff_disj)+
  moreover have "unit_range (shortest (min 1 (f64 (f64 (sc_final_confluence_score (rk_scorecard c)) / 100))))"
    using assms(2) by (intro shortest_range min_f64_range) (simp add: candidate_ok_def f64_nonneg)
  ultimately show ok: "trade_intent_ok (trade_intent_of hours cn c pid vid dir iid eid)"
    by (simp add: trade_intent_ok_def trade_intent_of_def key_not_blank unit_range_def)
  then show "make_trade_intent (trade_intent_of hours cn c pid vid dir iid eid) = Inr (trade_intent_of hours cn c pid vid dir iid eid)"
    by (simp add: make_trade_intent_def raise_if_def trade_intent_ok_def)
qed

text \<open>What an intent rests on: the consensus of the votes of the active bindings, the selected ones backed.\<close>

definition intent_backed :: "RankedCandidate \<Rightarrow> pm3 \<Rightarrow> TradeIntent \<Rightarrow> bool" where
  "intent_backed c s t \<longleftrightarrow>
     (\<exists>votes cn u pid vid iid eid.
        (\<forall>v \<in> set votes. selected v \<longrightarrow> (\<exists>b. b \<in> set (dict_values (n3_bindings s)) \<and> vote_backed c s b v)) \<and>
        (\<exists>s'. collect_votes c (filter sb_active (bindings_for_symbol (rk_symbol c) s)) s = (Inr votes, s')) \<and>
        decide_consensus (pe_weights (n3_config s)) (pe_thresholds (n3_config s)) u votes (rk_symbol c) (rk_as_of c) = Inr cn \<and>
        cn_decision cn = ti_consensus t \<and>
        (cn_decision cn = CD_GO_LONG \<and> ti_direction t = BUY \<or> cn_decision cn = CD_GO_SHORT \<and> ti_direction t = SELL) \<and>
        t = trade_intent_of (pe_signal_expiry_hours (n3_config s)) cn c pid vid (ti_direction t) iid eid)"

lemma no_trade_run: "no_trade sy now reason corr diag s = (Inr (SA_no_trade \<lparr>nt_symbol = sy, nt_reason = reason, nt_as_of = now,
    nt_event_id = n3_next_id s, nt_correlation_id = corr, nt_observe_only = True, nt_diagnostics = diag\<rparr>),
    s\<lparr>n3_next_id := Suc (n3_next_id s)\<rparr>)"
  by (simp add: no_trade_def bnd_def n3_fresh_def ret_def)

lemma bnd_n3_fresh: "bnd n3_fresh f s = f (n3_next_id s) (s\<lparr>n3_next_id := Suc (n3_next_id s)\<rparr>)"
  by (simp add: bnd_def n3_fresh_def)

lemma no_trade_seen: "\<exists>n s'. no_trade sy now reason corr diag s = (Inr (SA_no_trade n), s') \<and> n3_seen s' = n3_seen s"
  by (simp add: no_trade_run)

lemma from_consensus_run:
  assumes "consensus_bounds cn" and "candidate_ok c"
  obtains (none) n i where "from_consensus hours cn c pid vid s = (Inr (SA_no_trade n), s\<lparr>n3_next_id := i\<rparr>)"
  | (go) t i iid eid where "from_consensus hours cn c pid vid s = (Inr (SA_intent t), s\<lparr>n3_next_id := i\<rparr>)"
      and "t = trade_intent_of hours cn c pid vid (ti_direction t) iid eid"
      and "cn_decision cn = CD_GO_LONG \<and> ti_direction t = BUY \<or> cn_decision cn = CD_GO_SHORT \<and> ti_direction t = SELL"
proof -
  have d: "ti_direction (trade_intent_of hours cn c pid vid dir iid eid) = dir" for dir iid eid by (simp add: trade_intent_of_def)
  have r: "bnd n3_fresh (\<lambda>iid. bnd n3_fresh (\<lambda>eid. bnd (lift_res (make_trade_intent (trade_intent_of hours cn c pid vid dir iid eid)))
      (\<lambda>t. ret (SA_intent t)))) s =
      (Inr (SA_intent (trade_intent_of hours cn c pid vid dir (n3_next_id s) (Suc (n3_next_id s)))), s\<lparr>n3_next_id := Suc (Suc (n3_next_id s))\<rparr>)"
    for dir by (simp add: bnd_def n3_fresh_def lift_res_def ret_def intent_built [OF assms])
  show thesis
  proof (cases "cn_decision cn")
    case CD_GO_LONG
    show thesis
      by (rule go [of "trade_intent_of hours cn c pid vid BUY (n3_next_id s) (Suc (n3_next_id s))" _ "n3_next_id s" "Suc (n3_next_id s)"])
        (simp_all add: CD_GO_LONG from_consensus_def Let_def d r [of BUY])
  next
    case CD_GO_SHORT
    show thesis
      by (rule go [of "trade_intent_of hours cn c pid vid SELL (n3_next_id s) (Suc (n3_next_id s))" _ "n3_next_id s" "Suc (n3_next_id s)"])
        (simp_all add: CD_GO_SHORT from_consensus_def Let_def d r [of SELL])
  qed (use none in \<open>simp_all add: from_consensus_def Let_def no_trade_run\<close>)
qed

lemma pipe_refused:
  "pipe_refusal c s = Some (reason, diag) \<Longrightarrow>
   pipe_evaluate c s = no_trade (rk_symbol c) (rk_as_of c) reason (rk_correlation_id c) diag s"
  by (simp add: pipe_evaluate_def run_simps)

text \<open>The pipe answers, and issues an intent only under a key it has not issued before.\<close>

lemma pipe_outcome:
  assumes cat: "catalog_ok s" and ws: "weights_ok (pe_weights (n3_config s))" and c: "candidate_ok c"
  obtains (none) n s' where "pipe_evaluate c s = (Inr (SA_no_trade n), s')" and "n3_seen s' = n3_seen s"
  | (go) t s' where "pipe_evaluate c s = (Inr (SA_intent t), s')" and "pipe_refusal c s = None" and "intent_backed c s t"
      and "trade_intent_ok t" and "ti_idempotency_key t = intent_key (rk_symbol c) (rk_as_of c) (rk_candidate_id c)"
      and "dict_get (n3_seen s) (ti_idempotency_key t) = None"
      and "n3_seen s' = dict_put (ti_idempotency_key t) ''issued'' (n3_seen s)"
proof (cases "pipe_refusal c s")
  case (Some rd)
  then obtain reason diag where "pipe_refusal c s = Some (reason, diag)" by (cases rd) simp
  from pipe_refused [OF this] no_trade_seen show thesis using none by metis
next
  case ok: None
  let ?act = "filter sb_active (bindings_for_symbol (rk_symbol c) s)" and ?cfg = "n3_config s"
  obtain vs i where vs: "collect_votes c ?act s = (Inr vs, s\<lparr>n3_next_id := i\<rparr>)"
    and bk: "\<forall>v \<in> set vs. \<exists>b \<in> set ?act. \<exists>u. binding_vote c s u b = Inr (Some v)"
    using collect_votes_run [OF cat] .
  obtain cn where cn: "decide_consensus (pe_weights ?cfg) (pe_thresholds ?cfg) i vs (rk_symbol c) (rk_as_of c) = Inr cn"
    and cb: "consensus_bounds cn" using decide_built [OF ws] .
  let ?pid = "case ?act of [] \<Rightarrow> None | b # _ \<Rightarrow> Some (sb_profile_id b)" and ?vid = "case ?act of [] \<Rightarrow> None | b # _ \<Rightarrow> Some (sb_version_id b)"
  let ?s = "s\<lparr>n3_last_votes := vs, n3_next_id := Suc (Suc i)\<rparr>"
  have run: "pipe_evaluate c s = bnd (from_consensus (pe_signal_expiry_hours ?cfg) cn c ?pid ?vid) (\<lambda>a.
       case a of SA_no_trade n \<Rightarrow> ret a
       | SA_intent t \<Rightarrow>
         bnd (get_st (\<lambda>s. dict_get (n3_seen s) (ti_idempotency_key t))) (\<lambda>seen.
         if seen \<noteq> None
         then no_trade (rk_symbol c) (rk_as_of c) ''duplicate_intent'' (rk_correlation_id c)
                [(''idempotency_key'', DI_text (ti_idempotency_key t))]
         else bnd (upd_st (\<lambda>s. s\<lparr>n3_seen := dict_put (ti_idempotency_key t) ''issued'' (n3_seen s)\<rparr>)) (\<lambda>_. ret a))) ?s"
    unfolding pipe_evaluate_def
    by (simp only: bnd_get ok option.case bnd_Inr [of "collect_votes c ?act" s, OF vs] bnd_upd)
      (simp add: run_simps bnd_n3_fresh cn)
  show thesis
    using cb c
  proof (cases rule: from_consensus_run [of cn c "pe_signal_expiry_hours ?cfg" ?pid ?vid ?s])
    case (none n j)
    then show thesis by (intro that(1) [of n "?s\<lparr>n3_next_id := j\<rparr>"]) (simp_all add: run bnd_Inr ret_def)
  next
    case (go t j iid eid)
    show thesis
    proof (cases "dict_get (n3_seen s) (ti_idempotency_key t)")
      case (Some x)
      with go(1) have "pipe_evaluate c s = no_trade (rk_symbol c) (rk_as_of c) ''duplicate_intent'' (rk_correlation_id c)
          [(''idempotency_key'', DI_text (ti_idempotency_key t))] (?s\<lparr>n3_next_id := j\<rparr>)"
        by (simp add: run bnd_Inr run_simps)
      moreover obtain n s' where "no_trade (rk_symbol c) (rk_as_of c) ''duplicate_intent'' (rk_correlation_id c)
          [(''idempotency_key'', DI_text (ti_idempotency_key t))] (?s\<lparr>n3_next_id := j\<rparr>) = (Inr (SA_no_trade n), s')"
          "n3_seen s' = n3_seen (?s\<lparr>n3_next_id := j\<rparr>)" using no_trade_seen by blast
      ultimately show thesis by (intro that(1) [of n s']) simp_all
    next
      case None
      have key: "ti_idempotency_key t = intent_key (rk_symbol c) (rk_as_of c) (rk_candidate_id c)" "ti_consensus t = cn_decision cn"
        by (subst go(2), simp add: trade_intent_of_def)+
      have vb: "\<forall>v \<in> set vs. selected v \<longrightarrow> (\<exists>b. b \<in> set (dict_values (n3_bindings s)) \<and> vote_backed c s b v)"
        using bk by (fastforce simp: bindings_for_symbol_def intro: binding_vote_backed)
      have "intent_backed c s t"
        unfolding intent_backed_def
        by (rule exI [of _ vs], rule exI [of _ cn], rule exI [of _ i], rule exI [of _ ?pid], rule exI [of _ ?vid],
            rule exI [of _ iid], rule exI [of _ eid], intro conjI vb cn go(2,3) key(2) [symmetric]) (use vs in blast)
      moreover have "trade_intent_ok t" by (subst go(2)) (rule intent_built [OF cb c])
      ultimately show thesis using go None key(1) ok by (intro that(2) [of t "?s\<lparr>n3_next_id := j, n3_seen := dict_put (ti_idempotency_key t) ''issued'' (n3_seen s)\<rparr>"])
          (simp_all add: run bnd_Inr run_simps)
    qed
  qed
qed

text \<open>The module answers as its pipe does.\<close>

lemma note_signal_run:
  assumes "unit_range (ti_consensus_score t)"
  obtains s' where "note_signal c t s = (Inr (), s')" and "n3_seen s' = n3_seen s"
proof -
  have "\<exists>s'. note_signal c t s = (Inr (), s') \<and> n3_seen s' = n3_seen s"
    using assms
    by (simp add: note_signal_def note_intent_def tracker_snapshot_def bnd_def get_st_def upd_st_def ret_def n3_fresh_def
        save_tracker_def Let_def split: option.splits)
  then show thesis using that by blast
qed

lemma evaluate_outcome:
  assumes "catalog_ok s" and "weights_ok (pe_weights (n3_config s))" and "candidate_ok c"
  obtains (none) n s' where "evaluate_candidate c s = (Inr (SA_no_trade n), s')" and "n3_seen s' = n3_seen s"
  | (go) t s' where "evaluate_candidate c s = (Inr (SA_intent t), s')" and "pipe_refusal c s = None" and "intent_backed c s t"
      and "trade_intent_ok t" and "ti_idempotency_key t = intent_key (rk_symbol c) (rk_as_of c) (rk_candidate_id c)"
      and "dict_get (n3_seen s) (ti_idempotency_key t) = None"
      and "n3_seen s' = dict_put (ti_idempotency_key t) ''issued'' (n3_seen s)"
  using assms
proof (cases rule: pipe_outcome)
  case (none n s')
  then show thesis by (intro that(1) [of n s']) (simp_all add: evaluate_candidate_def bnd_Inr ret_def)
next
  case (go t s')
  then have "unit_range (ti_consensus_score t)" by (simp add: trade_intent_ok_def unit_range_def)
  then obtain s2 where "note_signal c t s' = (Inr (), s2)" "n3_seen s2 = n3_seen s'" by (rule note_signal_run)
  with go show thesis by (intro that(2) [of t s2]) (simp_all add: evaluate_candidate_def bnd_Inr ret_def)
qed

subsection \<open>Issued keys\<close>

text \<open>What an evaluation does to the issued keys \<open>d\<close>, whatever the state.\<close>

definition issues :: "(string, string) dict \<Rightarrow> (py_exn + strategy_artifact) \<times> pm3 \<Rightarrow> bool" where
  "issues d out \<longleftrightarrow> (case out of
       (Inr (SA_intent t), s') \<Rightarrow> dict_get d (ti_idempotency_key t) = None \<and> n3_seen s' = dict_put (ti_idempotency_key t) ''issued'' d
     | (_, s') \<Rightarrow> n3_seen s' = d)"

lemma issues_bnd:
  assumes "maintains same_keys m" and "\<And>x s. issues (n3_seen s) (f x s)"
  shows "issues (n3_seen s) (bnd m f s)"
proof -
  obtain r s' where m: "m s = (r, s')" by (cases "m s")
  have e: "n3_seen s' = n3_seen s" using assms(1) m unfolding maintains_def same_keys_def by (metis snd_conv)
  show ?thesis
  proof (cases r)
    case (Inl x)
    with m e show ?thesis by (simp add: bnd_def issues_def)
  next
    case (Inr x)
    with m e assms(2) [of s' x] show ?thesis by (simp add: bnd_def)
  qed
qed

lemma issues_no_trade: "issues (n3_seen s) (no_trade sy now reason corr diag s)"
  by (simp add: issues_def no_trade_run)

lemma issues_final:
  "issues (n3_seen s) ((case a of SA_no_trade n \<Rightarrow> ret a
     | SA_intent t \<Rightarrow>
         bnd (get_st (\<lambda>s. dict_get (n3_seen s) (ti_idempotency_key t))) (\<lambda>seen.
         if seen \<noteq> None then no_trade sy now reason corr (diag t)
         else bnd (upd_st (\<lambda>s. s\<lparr>n3_seen := dict_put (ti_idempotency_key t) ''issued'' (n3_seen s)\<rparr>)) (\<lambda>_. ret a))) s)"
  by (cases a) (auto simp: run_simps issues_no_trade, simp_all add: issues_def)

lemma pipe_issues: "issues (n3_seen s) (pipe_evaluate c s)"
proof (cases "pipe_refusal c s")
  case (Some rd)
  then show ?thesis by (cases rd) (simp add: pipe_refused issues_no_trade)
next
  case None
  have u: "maintains same_keys (upd_st (\<lambda>s. s\<lparr>n3_last_votes := vs\<rparr>))" for vs
    by (simp add: maintains_def run_simps same_keys_def)
  show ?thesis
    unfolding pipe_evaluate_def
    by (simp only: bnd_get None option.case)
      (intro issues_bnd issues_final sn_dr.maintains_collect_votes u sn_dr.maintains_ret sn_dr.maintains_n3_fresh
        sn_dr.maintains_from_consensus)
qed

definition dict_grows :: "('k, 'v) dict \<Rightarrow> ('k, 'v) dict \<Rightarrow> bool" where
  "dict_grows d e \<longleftrightarrow> (\<forall>k. dict_get d k \<noteq> None \<longrightarrow> dict_get e k \<noteq> None)"

lemma grows_refl: "dict_grows d d" and grows_trans: "dict_grows d e \<Longrightarrow> dict_grows e f \<Longrightarrow> dict_grows d f"
  and grows_put: "dict_grows d (dict_put k v d)"
  by (simp_all add: dict_grows_def dict_simps)

lemma note_signal_seen: "n3_seen (snd (note_signal c t s)) = n3_seen s"
  by (simp add: note_signal_def note_intent_def tracker_snapshot_def bnd_def get_st_def upd_st_def ret_def raise_exn_def n3_fresh_def
      save_tracker_def Let_def split: option.splits)

lemma evaluate_issues:
  assumes "evaluate_candidate c s = (r, s')"
  shows "dict_grows (n3_seen s) (n3_seen s')"
    and "r = Inr (SA_intent t) \<Longrightarrow> dict_get (n3_seen s) (ti_idempotency_key t) = None \<and> dict_get (n3_seen s') (ti_idempotency_key t) \<noteq> None"
proof -
  obtain q s1 where p: "pipe_evaluate c s = (q, s1)" by (cases "pipe_evaluate c s")
  note i = pipe_issues [of s c, unfolded p issues_def]
  consider e where "q = Inl e" | n where "q = Inr (SA_no_trade n)" | u where "q = Inr (SA_intent u)"
    by (metis strategy_artifact.exhaust sumE)
  then have "dict_grows (n3_seen s) (n3_seen s') \<and> (\<forall>t. r = Inr (SA_intent t) \<longrightarrow>
      dict_get (n3_seen s) (ti_idempotency_key t) = None \<and> dict_get (n3_seen s') (ti_idempotency_key t) \<noteq> None)"
  proof cases
    case (3 u)
    obtain w s2 where n: "note_signal c u s1 = (w, s2)" by (cases "note_signal c u s1")
    with note_signal_seen [of c u s1] have "n3_seen s2 = n3_seen s1" by simp
    with assms p i n 3 show ?thesis
      by (cases w) (auto simp: evaluate_candidate_def bnd_def ret_def grows_put dict_simps)
  qed (use assms p i in \<open>auto simp: evaluate_candidate_def bnd_def ret_def grows_refl\<close>)
  then show "dict_grows (n3_seen s) (n3_seen s')"
    and "r = Inr (SA_intent t) \<Longrightarrow> dict_get (n3_seen s) (ti_idempotency_key t) = None \<and> dict_get (n3_seen s') (ti_idempotency_key t) \<noteq> None"
    by auto
qed

text \<open>The intents among the artifacts, and their keys.\<close>

fun intents_in :: "strategy_artifact list \<Rightarrow> TradeIntent list" where
  "intents_in [] = []"
| "intents_in (SA_intent t # as) = t # intents_in as"
| "intents_in (SA_no_trade n # as) = intents_in as"

definition keys_in :: "strategy_artifact list \<Rightarrow> string list" where
  "keys_in as = map ti_idempotency_key (intents_in as)"

lemma keys_in_simps [simp]: "keys_in [] = []" "keys_in (SA_intent t # as) = ti_idempotency_key t # keys_in as"
  "keys_in (SA_no_trade n # as) = keys_in as"
  by (simp_all add: keys_in_def)

text \<open>New keys: distinct, not issued before, issued now.\<close>

definition new_keys :: "(string, string) dict \<Rightarrow> string list \<Rightarrow> (string, string) dict \<Rightarrow> bool" where
  "new_keys d ks e \<longleftrightarrow> distinct ks \<and> (\<forall>k \<in> set ks. dict_get d k = None \<and> dict_get e k \<noteq> None) \<and> dict_grows d e"

lemma new_keys_append: "new_keys d ks e \<Longrightarrow> new_keys e ls f \<Longrightarrow> new_keys d (ks @ ls) f"
proof -
  assume a: "new_keys d ks e" and b: "new_keys e ls f"
  then have "dict_grows d f" by (auto simp: new_keys_def intro: grows_trans)
  moreover have "set ks \<inter> set ls = {}" using a b by (fastforce simp: new_keys_def)
  moreover have "dict_get d k = None \<and> dict_get f k \<noteq> None" if "k \<in> set (ks @ ls)" for k
    using that a b unfolding new_keys_def dict_grows_def by (metis Un_iff set_append)
  ultimately show ?thesis using a b by (simp add: new_keys_def)
qed

lemma evaluate_all_keys:
  "evaluate_all cs s = (r, s') \<Longrightarrow> new_keys (n3_seen s) (case r of Inl e \<Rightarrow> [] | Inr as \<Rightarrow> keys_in as) (n3_seen s')"
proof (induction cs arbitrary: s r s')
  case Nil
  then show ?case by (auto simp: ret_def new_keys_def grows_refl)
next
  case (Cons c cs)
  obtain q s1 where q: "evaluate_candidate c s = (q, s1)" by (cases "evaluate_candidate c s")
  note i = evaluate_issues [OF q]
  show ?case
  proof (cases q)
    case (Inl e)
    with Cons.prems q i(1) show ?thesis by (auto simp: bnd_def new_keys_def)
  next
    case (Inr a)
    obtain w s2 where w: "evaluate_all cs s1 = (w, s2)" by (cases "evaluate_all cs s1")
    note IH = Cons.IH [OF w]
    have a: "new_keys (n3_seen s) (keys_in [a]) (n3_seen s1)" using i Inr by (cases a) (auto simp: new_keys_def)
    from Cons.prems q Inr w have s': "s' = s2" and r: "r = (case w of Inl e \<Rightarrow> Inl e | Inr as \<Rightarrow> Inr (a # as))"
      by (auto simp: bnd_def ret_def split: sum.splits)
    have k: "keys_in (a # as) = keys_in [a] @ keys_in as" for as by (cases a) simp_all
    show ?thesis
    proof (cases w)
      case (Inl e)
      with IH r s' grows_trans [OF i(1)] show ?thesis by (simp add: new_keys_def)
    next
      case (Inr as)
      with new_keys_append [OF a, of "keys_in as" "n3_seen s2"] IH have "new_keys (n3_seen s) (keys_in [a] @ keys_in as) (n3_seen s2)" by simp
      with r s' Inr show ?thesis by (simp add: k [symmetric])
    qed
  qed
qed

text \<open>The intents of a run, in the order they are answered.\<close>

fun pm3_intents :: "params_print \<Rightarrow> pm3_call list \<Rightarrow> pm3 \<Rightarrow> TradeIntent list" where
  "pm3_intents H [] s = []"
| "pm3_intents H (call # calls) s =
     (case fst (pm3_call_run H call s) of Inl e \<Rightarrow> [] | Inr as \<Rightarrow> intents_in as) @ pm3_intents H calls (pm3_perform H call s)"

lemma call_issued:
  "new_keys (n3_seen s) (map ti_idempotency_key (case fst (pm3_call_run H call s) of Inl e \<Rightarrow> [] | Inr as \<Rightarrow> intents_in as))
     (n3_seen (pm3_perform H call s))"
proof (cases "evaluates call")
  case False
  then have "n3_seen (pm3_perform H call s) = n3_seen s" using call_same_keys [of call s H] by (simp add: same_keys_def)
  moreover have "fst (pm3_call_run H call s) = Inr as \<Longrightarrow> as = []" for as
    using False by (cases call) (auto simp: bnd_def ret_def split: prod.splits sum.splits)
  ultimately show ?thesis by (auto simp: new_keys_def grows_refl split: sum.splits)
next
  case True
  then consider c where "call = P3_evaluate c" | sl wl where "call = P3_publication sl wl" by (cases call) auto
  then show ?thesis
  proof cases
    case (1 c)
    have "pm3_call_run H call s = evaluate_all [c] s"
      unfolding 1 by (simp add: bnd_def ret_def split: prod.splits sum.splits)
    then show ?thesis using evaluate_all_keys [of "[c]" s] by (cases "evaluate_all [c] s") (auto simp: pm3_perform_def keys_in_def split: sum.splits)
  next
    case (2 sl wl)
    then show ?thesis using evaluate_all_keys [of "handoff_candidates sl wl" s]
      by (cases "evaluate_all (handoff_candidates sl wl) s")
        (auto simp: pm3_perform_def evaluate_publication_def keys_in_def split: sum.splits)
  qed
qed

lemma run_keys: "new_keys (n3_seen s) (map ti_idempotency_key (pm3_intents H calls s)) (n3_seen (pm3_run H calls s))"
proof (induction calls arbitrary: s)
  case Nil
  show ?case by (simp add: pm3_run_def new_keys_def grows_refl)
next
  case (Cons call calls)
  from new_keys_append [OF call_issued Cons] show ?case by (simp add: pm3_run_def)
qed

end
