(* ===== verification/StrategySamples.thy ===== *)
theory StrategySamples
  imports StrategyPipe
begin

section \<open>A concrete engine\<close>

text \<open>
  The rounded values that one evaluation meets, the engine seeded for one symbol, a candidate in a
  trend, and the intent it leads to.
\<close>

subsection \<open>Rounded values\<close>

lemma f64_value_0: "f64 (1 / 1000000000) = 4835703278458517 / 4835703278458516698824704"
  using f64_eval [of "1 / 1000000000" 82 4835703278458517] by simp

lemma f64_value_1: "f64 (5743978399754152548850064193015 / 162259276829213363391578010288128) = 5101677657885297 / 144115188075855872"
  using f64_eval [of "5743978399754152548850064193015 / 162259276829213363391578010288128" 57 5101677657885297] by simp

lemma f64_value_2: "f64 (1 / 20) = 3602879701896397 / 72057594037927936"
  using f64_eval [of "1 / 20" 57 7205759403792794] by simp

lemma f64_value_3: "f64 (3602879701896397 / 72057594037927936) = 3602879701896397 / 72057594037927936"
  using f64_eval [of "3602879701896397 / 72057594037927936" 57 7205759403792794] by simp

lemma f64_value_4: "f64 (21093705987797739132416984833065 / 324518553658426726783156020576256) = 1170935903116329 / 18014398509481984"
  using f64_eval [of "21093705987797739132416984833065 / 324518553658426726783156020576256" 56 4683743612465316] by simp

lemma f64_value_5: "f64 (851861203353369689431423307481 / 10141204801825835211973625643008) = 6052837899185943 / 72057594037927936"
  using f64_eval [of "851861203353369689431423307481 / 10141204801825835211973625643008" 56 6052837899185943] by simp

lemma f64_value_6: "f64 (1 / 10) = 3602879701896397 / 36028797018963968"
  using f64_eval [of "1 / 10" 56 7205759403792794] by simp

lemma f64_value_7: "f64 (3 / 25) = 1080863910568919 / 9007199254740992"
  using f64_eval [of "3 / 25" 56 8646911284551352] by simp

lemma f64_value_8: "f64 (630503947831869 / 4503599627370496) = 630503947831869 / 4503599627370496"
  using f64_eval [of "630503947831869 / 4503599627370496" 55 5044031582654952] by simp

lemma f64_value_9: "f64 (3 / 20) = 5404319552844595 / 36028797018963968"
  using f64_eval [of "3 / 20" 55 5404319552844595] by simp

lemma f64_value_10: "f64 (1351079888211149 / 9007199254740992) = 1351079888211149 / 9007199254740992"
  using f64_eval [of "1351079888211149 / 9007199254740992" 55 5404319552844596] by simp

lemma f64_value_11: "f64 (7808727697405893248327680566231 / 40564819207303340847894502572032) = 1733885856537641 / 9007199254740992"
  using f64_eval [of "7808727697405893248327680566231 / 40564819207303340847894502572032" 55 6935543426150564] by simp

lemma f64_value_12: "f64 (1 / 5) = 3602879701896397 / 18014398509481984"
  using f64_eval [of "1 / 5" 55 7205759403792794] by simp

lemma f64_value_13: "f64 (3602879701896397 / 18014398509481984) = 3602879701896397 / 18014398509481984"
  using f64_eval [of "3602879701896397 / 18014398509481984" 55 7205759403792794] by simp

lemma f64_value_14: "f64 (7656119366529843 / 36028797018963968) = 7656119366529843 / 36028797018963968"
  using f64_eval [of "7656119366529843 / 36028797018963968" 55 7656119366529843] by simp

lemma f64_value_15: "f64 (1062849512059437 / 4503599627370496) = 1062849512059437 / 4503599627370496"
  using f64_eval [of "1062849512059437 / 4503599627370496" 55 8502796096475496] by simp

lemma f64_value_16: "f64 (1 / 4) = 1 / 4"
  using f64_eval [of "1 / 4" 54 4503599627370496] by simp

lemma f64_value_17: "f64 (20661014582919834127879667049999 / 81129638414606681695789005144064) = 4587666820414745 / 18014398509481984"
  using f64_eval [of "20661014582919834127879667049999 / 81129638414606681695789005144064" 54 4587666820414745] by simp

lemma f64_value_18: "f64 (7 / 25) = 1261007895663739 / 4503599627370496"
  using f64_eval [of "7 / 25" 54 5044031582654956] by simp

lemma f64_value_19: "f64 (1 / 3) = 6004799503160661 / 18014398509481984"
  using f64_eval [of "1 / 3" 54 6004799503160661] by simp

lemma f64_value_20: "f64 (3152519739159347 / 9007199254740992) = 3152519739159347 / 9007199254740992"
  using f64_eval [of "3152519739159347 / 9007199254740992" 54 6305039478318694] by simp

lemma f64_value_21: "f64 (7 / 20) = 3152519739159347 / 9007199254740992"
  using f64_eval [of "7 / 20" 54 6305039478318694] by simp

lemma f64_value_22: "f64 (2 / 5) = 3602879701896397 / 9007199254740992"
  using f64_eval [of "2 / 5" 54 7205759403792794] by simp

lemma f64_value_23: "f64 (14591662792680407 / 36028797018963968) = 1823957849085051 / 4503599627370496"
  using f64_eval_tie [of "14591662792680407 / 36028797018963968" 54 7295831396340204] by simp

lemma f64_value_24: "f64 (12 / 25) = 1080863910568919 / 2251799813685248"
  using f64_eval [of "12 / 25" 54 8646911284551352] by simp

lemma f64_value_25: "f64 (1 / 2) = 1 / 2"
  using f64_eval [of "1 / 2" 53 4503599627370496] by simp

lemma f64_value_26: "f64 (11 / 20) = 2476979795053773 / 4503599627370496"
  using f64_eval [of "11 / 20" 53 4953959590107546] by simp

lemma f64_value_27: "f64 (11156947874776710635500027125663 / 20282409603651670423947251286016) = 4954680166047925 / 9007199254740992"
  using f64_eval [of "11156947874776710635500027125663 / 20282409603651670423947251286016" 53 4954680166047925] by simp

lemma f64_value_28: "f64 (4954680166047925 / 9007199254740992) = 4954680166047925 / 9007199254740992"
  using f64_eval [of "4954680166047925 / 9007199254740992" 53 4954680166047925] by simp

lemma f64_value_29: "f64 (5404319552844595 / 9007199254740992) = 5404319552844595 / 9007199254740992"
  using f64_eval [of "5404319552844595 / 9007199254740992" 53 5404319552844595] by simp

lemma f64_value_30: "f64 (1351079888211149 / 2251799813685248) = 1351079888211149 / 2251799813685248"
  using f64_eval [of "1351079888211149 / 2251799813685248" 53 5404319552844596] by simp

lemma f64_value_31: "f64 (10898711098236601 / 18014398509481984) = 1362338887279575 / 2251799813685248"
  using f64_eval_tie [of "10898711098236601 / 18014398509481984" 53 5449355549118300] by simp

lemma f64_value_32: "f64 (13 / 20) = 5854679515581645 / 9007199254740992"
  using f64_eval [of "13 / 20" 53 5854679515581645] by simp

lemma f64_value_33: "f64 (12069647001352929 / 18014398509481984) = 377176468792279 / 562949953421312"
  using f64_eval_tie [of "12069647001352929 / 18014398509481984" 53 6034823500676464] by simp

lemma f64_value_34: "f64 (17 / 25) = 6124895493223875 / 9007199254740992"
  using f64_eval [of "17 / 25" 53 6124895493223875] by simp

lemma f64_value_35: "f64 (51881467707308109 / 72057594037927936) = 3242591731706757 / 4503599627370496"
  using f64_eval [of "51881467707308109 / 72057594037927936" 53 6485183463413514] by simp

lemma f64_value_36: "f64 (3242591731706757 / 4503599627370496) = 3242591731706757 / 4503599627370496"
  using f64_eval [of "3242591731706757 / 4503599627370496" 53 6485183463413514] by simp

lemma f64_value_37: "f64 (29894422000026710060982484337499 / 40564819207303340847894502572032) = 6637895122458095 / 9007199254740992"
  using f64_eval [of "29894422000026710060982484337499 / 40564819207303340847894502572032" 53 6637895122458095] by simp

lemma f64_value_38: "f64 (55052001844976943 / 72057594037927936) = 3440750115311059 / 4503599627370496"
  using f64_eval [of "55052001844976943 / 72057594037927936" 53 6881500230622118] by simp

lemma f64_value_39: "f64 (3440750115311059 / 4503599627370496) = 3440750115311059 / 4503599627370496"
  using f64_eval [of "3440750115311059 / 4503599627370496" 53 6881500230622118] by simp

lemma f64_value_40: "f64 (4954680166047925 / 6485183463413514) = 3440750115311059 / 4503599627370496"
  using f64_eval [of "4954680166047925 / 6485183463413514" 53 6881500230622118] by simp

lemma f64_value_41: "f64 (14411518807585587 / 18014398509481984) = 3602879701896397 / 4503599627370496"
  using f64_eval_tie [of "14411518807585587 / 18014398509481984" 53 7205759403792794] by simp

lemma f64_value_42: "f64 (41 / 50) = 7385903388887613 / 9007199254740992"
  using f64_eval [of "41 / 50" 53 7385903388887613] by simp

lemma f64_value_43: "f64 (17 / 20) = 7656119366529843 / 9007199254740992"
  using f64_eval [of "17 / 20" 53 7656119366529843] by simp

lemma f64_value_44: "f64 (8106479329266893 / 9007199254740992) = 8106479329266893 / 9007199254740992"
  using f64_eval [of "8106479329266893 / 9007199254740992" 53 8106479329266893] by simp

lemma f64_value_45: "f64 (32425917317067573 / 36028797018963968) = 8106479329266893 / 9007199254740992"
  using f64_eval [of "32425917317067573 / 36028797018963968" 53 8106479329266893] by simp

lemma f64_value_46: "f64 (139013510417970575 / 144115188075855872) = 8688344401123161 / 9007199254740992"
  using f64_eval [of "139013510417970575 / 144115188075855872" 53 8688344401123161] by simp

lemma f64_value_47: "f64 (36028797018963969 / 36028797018963968) = 1"
  using f64_eval [of "36028797018963969 / 36028797018963968" 52 4503599627370496] by simp

lemma f64_value_48: "f64 (5) = 5"
  using f64_eval [of "5" 50 5629499534213120] by simp

lemma f64_value_49: "f64 (100) = 100"
  using f64_eval [of "100" 46 7036874417766400] by simp

lemma f64_value_50: "f64 (105) = 105"
  using f64_eval [of "105" 46 7388718138654720] by simp

lemmas f64_values =
  f64_value_0 f64_value_1 f64_value_2 f64_value_3 f64_value_4 f64_value_5 f64_value_6 f64_value_7 f64_value_8 f64_value_9 f64_value_10 f64_value_11 f64_value_12 f64_value_13 f64_value_14 f64_value_15 f64_value_16 f64_value_17 f64_value_18 f64_value_19 f64_value_20 f64_value_21 f64_value_22 f64_value_23 f64_value_24 f64_value_25 f64_value_26 f64_value_27 f64_value_28 f64_value_29 f64_value_30 f64_value_31 f64_value_32 f64_value_33 f64_value_34 f64_value_35 f64_value_36 f64_value_37 f64_value_38 f64_value_39 f64_value_40 f64_value_41 f64_value_42 f64_value_43 f64_value_44 f64_value_45 f64_value_46 f64_value_47 f64_value_48 f64_value_49 f64_value_50

subsection \<open>Configuration and state\<close>

lemma weights_default_ok: "weights_ok weights_default"
  by (simp add: weights_ok_def weights_default_def weights_sum_def unit_range_def f64_values)

lemma thresholds_default_ok: "thresholds_ok thresholds_default"
  by (simp add: thresholds_ok_def thresholds_default_def unit_range_def f64_values)

definition config3 :: Pm3StrategyEngineConfig where
  "config3 = pm3_config_default\<lparr>pe_universe := [''EURUSD''], pe_enabled_templates := [''trend_pullback'']\<rparr>"

lemma config3_ok: "pm3_config_ok config3"
proof -
  have "[''EURUSD''] = clean_universe [''EURUSD'']" by code_simp
  then have "\<exists>xs. [''EURUSD''] = clean_universe xs" by blast
  then show ?thesis
    using weights_default_ok thresholds_default_ok by (simp add: pm3_config_ok_def config3_def pm3_config_default_def)
qed

definition no_print :: params_print where
  "no_print ps = ''sha256''"

definition engine3 :: pm3 where
  "engine3 = pm3_init no_print config3 True 0"

definition candidate3 :: RankedCandidate where
  "candidate3 =
     \<lparr>rk_candidate_id = 7, rk_event_id = 8, rk_correlation_id = 9, rk_causation_id = None, rk_symbol = ''EURUSD'', rk_as_of = 0,
      rk_final_rank = 1, rk_shortlist_rank = Some 1,
      rk_scorecard = \<lparr>sc_long_score = 100, sc_short_score = 0, sc_final_confluence_score = 100, sc_directional_edge_gap = 100,
        sc_regime_score = 100, sc_structure_score = 100, sc_momentum_score = 100, sc_volatility_score = 0, sc_session_score = 100,
        sc_liquidity_score = 100, sc_correlation_penalty = 0, sc_feature_redundancy_penalty = 0, sc_confidence_score = 100,
        sc_quality_tier = QT_TOP, sc_components = [], sc_vetoes = []\<rparr>,
      rk_state = \<lparr>cq_state = QS_QUALIFIED, cq_entered_at = 0, cq_persistence_count = 3, cq_cooldown_until = None,
        cq_stale_after = None, cq_last_transition_reason = ''''\<rparr>,
      rk_context = \<lparr>cc_candidate_id = 7, cc_event_id = 8, cc_correlation_id = 9, cc_symbol = ''EURUSD'', cc_as_of = 0,
        cc_timeframes = [], cc_regime = RG_TRENDING, cc_regime_confidence = 1, cc_sessions = [], cc_session_quality = 1 / 2,
        cc_data_quality = DQ_OK, cc_feature_family_summary = [], cc_feature_set_version = ''pm2.features.v1'',
        cc_producer = ''pm2_market_context''\<rparr>,
      rk_suppression = None, rk_correlation_cluster = None, rk_handoff_eligibility = True, rk_side_bias = ''long'',
      rk_timing_valid_until = None, rk_producer = ''pm2_market_context''\<rparr>"

lemmas seed_simps = pm3_init_def seed_catalog_def FIRST_PHASE_def seed_template_def save_profile_def save_version_def
  save_binding_def dict_put_def

lemma engine3_bindings: "n3_bindings engine3 = map (\<lambda>tp. (sb_binding_id (seed_binding 0 tp ''EURUSD''), seed_binding 0 tp ''EURUSD'')) FIRST_PHASE"
  by (simp add: engine3_def seed_simps config3_def seed_binding_def)

lemma engine3_setup: "n3_config engine3 = config3" "n3_feature_enabled engine3" "n3_flags engine3 = flags_default"
  "n3_seen engine3 = []" "n3_drafts engine3 = []" "n3_next_id engine3 = 0"
  by (simp_all add: engine3_def seed_simps config3_def)

lemma engine3_profile: "dict_get (n3_profiles engine3) (''profile:'' @ template_value tp) =
    (if tp \<in> set FIRST_PHASE then Some (seed_profile 0 tp) else None)"
  by (cases tp) (simp_all add: engine3_def seed_simps config3_def seed_profile_def dict_get_def)

lemma engine3_version: "dict_get (n3_versions engine3) (''version:'' @ template_value tp @ '':v1'') =
    (if tp \<in> set FIRST_PHASE then Some (seed_version no_print 0 tp) else None)"
  by (cases tp) (simp_all add: engine3_def seed_simps config3_def seed_version_def dict_get_def)

subsection \<open>The intent of the candidate\<close>

lemma active3: "filter sb_active (bindings_for_symbol ''EURUSD'' engine3) = map (\<lambda>tp. seed_binding 0 tp ''EURUSD'') FIRST_PHASE"
  by (simp add: bindings_for_symbol_def engine3_bindings dict_values_def FIRST_PHASE_def seed_binding_def)

lemma refusal3: "pipe_refusal candidate3 engine3 = None"
proof -
  have "rk_symbol candidate3 = ''EURUSD''" by (simp add: candidate3_def)
  then show ?thesis
    unfolding pipe_refusal_def Let_def
    by (simp add: active3 engine3_setup) (simp add: candidate3_def flags_default_def evaluation_permitted_def config3_def
        pm3_config_default_def FIRST_PHASE_def)
qed

definition vote3 :: "uuid \<Rightarrow> StrategyVote" where
  "vote3 u = directional_vote u TP_TREND_PULLBACK ''profile:trend_pullback'' ''version:trend_pullback:v1'' ''EURUSD'' 0 BUY
     (8106479329266893 / 9007199254740992) 1 (f64 (17 / 20)) (f64 (13 / 20)) (PF_num (f64 (11 / 20))) (PF_num (1 / 2)) 9
     [(''side_bias'', ''long''), (''regime'', ''trending'')]
     [(''template'', DI_text ''trend_pullback''), (''confluence'', DI_num 100)]"

lemma trend3:
  "template_evaluate TP_TREND_PULLBACK u
     (from_candidate candidate3 ''profile:trend_pullback'' ''version:trend_pullback:v1'' DEFAULT_PARAMS flags_default) = Inr (vote3 u)"
  by (simp add: trend_pullback_def tp_gate_def from_candidate_def candidate3_def Let_def unit_score_def clip01_def f64_values
      tp_vote_def param_float_def DEFAULT_PARAMS_def dict_get_def make_vote_def raise_if_def vote_bounds_def unit_range_def
      directional_vote_def vote3_def)

lemma binding3:
  "binding_vote candidate3 engine3 u (seed_binding 0 TP_TREND_PULLBACK ''EURUSD'') = Inr (Some (calibrate_table (vote3 u)))"
  "tp \<in> {TP_ORB_SESSION_BREAKOUT, TP_MEAN_REVERSION} \<Longrightarrow>
   \<exists>v. binding_vote candidate3 engine3 u (seed_binding 0 tp ''EURUSD'') = Inr (Some v) \<and> \<not> selected v"
proof -
  have b: "sb_profile_id (seed_binding 0 tp ''EURUSD'') = ''profile:'' @ template_value tp"
    "sb_version_id (seed_binding 0 tp ''EURUSD'') = ''version:'' @ template_value tp @ '':v1''"
    "sb_template_type (seed_binding 0 tp ''EURUSD'') = tp" for tp by (simp_all add: seed_binding_def)
  have st: "pf_status (seed_profile 0 tp) = PR_ACTIVE" "pv_status (seed_version no_print 0 tp) = PR_ACTIVE"
    "pv_parameters (seed_version no_print 0 tp) = DEFAULT_PARAMS" for tp by (simp_all add: seed_profile_def seed_version_def)
  have en: "is_enabled (pe_enabled_templates config3) TP_TREND_PULLBACK"
    "\<not> is_enabled (pe_enabled_templates config3) TP_ORB_SESSION_BREAKOUT"
    "\<not> is_enabled (pe_enabled_templates config3) TP_MEAN_REVERSION" "policy_for (pe_calibration_policy config3) = calibrate_table"
    by (simp_all add: is_enabled_def config3_def pm3_config_default_def policy_for_def)
  show "binding_vote candidate3 engine3 u (seed_binding 0 TP_TREND_PULLBACK ''EURUSD'') = Inr (Some (calibrate_table (vote3 u)))"
    unfolding binding_vote_def Let_def b engine3_profile engine3_version engine3_setup
    using trend3 [of u] by (simp add: FIRST_PHASE_def st en may_vote_def)
  show "tp \<in> {TP_ORB_SESSION_BREAKOUT, TP_MEAN_REVERSION} \<Longrightarrow>
    \<exists>v. binding_vote candidate3 engine3 u (seed_binding 0 tp ''EURUSD'') = Inr (Some v) \<and> \<not> selected v"
    unfolding binding_vote_def Let_def b engine3_profile engine3_version engine3_setup
    using en by (auto simp: FIRST_PHASE_def st may_vote_def)
qed

lemma votes3:
  obtains a b where "collect_votes candidate3 (map (\<lambda>tp. seed_binding 0 tp ''EURUSD'') FIRST_PHASE) engine3 =
      (Inr [calibrate_table (vote3 0), a, b], engine3\<lparr>n3_next_id := 6\<rparr>)" and "\<not> selected a" and "\<not> selected b"
proof -
  let ?b = "\<lambda>tp. seed_binding 0 tp ''EURUSD''"
  obtain a where a: "binding_vote candidate3 engine3 2 (?b TP_ORB_SESSION_BREAKOUT) = Inr (Some a)" "\<not> selected a"
    using binding3(2) [of TP_ORB_SESSION_BREAKOUT 2] by auto
  obtain b where b: "binding_vote candidate3 engine3 4 (?b TP_MEAN_REVERSION) = Inr (Some b)" "\<not> selected b"
    using binding3(2) [of TP_MEAN_REVERSION 4] by auto
  have step: "collect_votes candidate3 (x # xs) (engine3\<lparr>n3_next_id := n\<rparr>) = (Inr (v # vs), s')"
    if "binding_vote candidate3 engine3 n x = Inr (Some v)"
      and "collect_votes candidate3 xs (engine3\<lparr>n3_next_id := Suc (Suc n)\<rparr>) = (Inr vs, s')" for x xs n v vs s'
    using that by (simp add: bnd_def n3_fresh_def ret_def)
  have c2: "collect_votes candidate3 [?b TP_MEAN_REVERSION] (engine3\<lparr>n3_next_id := 4\<rparr>) = (Inr [b], engine3\<lparr>n3_next_id := 6\<rparr>)"
    by (rule step [OF b(1)]) (simp add: ret_def)
  have c1: "collect_votes candidate3 [?b TP_ORB_SESSION_BREAKOUT, ?b TP_MEAN_REVERSION] (engine3\<lparr>n3_next_id := 2\<rparr>) =
      (Inr [a, b], engine3\<lparr>n3_next_id := 6\<rparr>)"
    by (rule step [OF a(1)]) (use c2 in \<open>simp del: collect_votes.simps\<close>)
  have "collect_votes candidate3 (map ?b FIRST_PHASE) (engine3\<lparr>n3_next_id := 0\<rparr>) =
      (Inr [calibrate_table (vote3 0), a, b], engine3\<lparr>n3_next_id := 6\<rparr>)"
    unfolding FIRST_PHASE_def list.map
    by (rule step [OF binding3(1)]) (use c1 in \<open>simp del: collect_votes.simps add: numeral_2_eq_2\<close>)
  moreover have "engine3\<lparr>n3_next_id := 0\<rparr> = engine3" using engine3_setup(6) by simp
  ultimately show thesis using that [of a b] a(2) b(2) by simp
qed

lemma interp3: "interp (8106479329266893 / 9007199254740992) = 3440750115311059 / 4503599627370496"
  by (simp add: interp_def clip01_def RELIABILITY_TABLE_def f64_values Let_def)

lemma decided3:
  assumes "\<not> selected a" and "\<not> selected b"
  shows "cn_decision (scored_result weights_default thresholds_default u [calibrate_table (vote3 i), a, b] ''EURUSD'' now) = CD_GO_LONG"
    and "length (filter selected [calibrate_table (vote3 i), a, b]) = 1"
proof -
  let ?v = "calibrate_table (vote3 i)"
  have v: "selected ?v" "vt_direction ?v = BUY" "cal_of ?v = 3440750115311059 / 4503599627370496"
    "weight_of weights_default ?v = 3242591731706757 / 4503599627370496"
    using interp3
    by (simp_all add: selected_def calibrate_table_def vote3_def directional_vote_def cal_of_def weight_of_def vote_weight_def
        weights_default_def clip01_def f64_values)
  then have f: "filter selected [?v, a, b] = [?v]" using assms by simp
  have t: "tally_votes weights_default [?v] = \<lparr>ty_long_acc = f64 (f64 (weight_of weights_default ?v * cal_of ?v)),
      ty_long_w = f64 (weight_of weights_default ?v), ty_short_acc = 0, ty_short_w = 0\<rparr>"
    using v(2) by (simp add: tally_votes_def tally_vote_def Let_def)
  show "length (filter selected [?v, a, b]) = 1" by (simp only: f) simp
  have p: "p_long weights_default [?v, a, b] = 3440750115311059 / 4503599627370496" "p_short weights_default [?v, a, b] = 0"
    "\<not> both_sides weights_default [?v, a, b]"
    unfolding p_long_def p_short_def both_sides_def Let_def f t v(3,4) by (simp_all add: p_quotient_def f64_values)
  show "cn_decision (scored_result weights_default thresholds_default u [?v, a, b] ''EURUSD'' now) = CD_GO_LONG"
    unfolding scored_result_simps p by (simp add: decision_of_p_def p(3) thresholds_default_def f64_values)
qed

lemma intent3:
  obtains t s' where "evaluate_candidate candidate3 engine3 = (Inr (SA_intent t), s')"
proof -
  have c: "rk_symbol candidate3 = ''EURUSD''" "candidate_ok candidate3" by (simp_all add: candidate3_def candidate_ok_def)
  have w: "weights_ok (pe_weights (n3_config engine3))" and cat: "catalog_ok engine3"
    using config3_ok by (simp_all add: engine3_setup pm3_config_ok_def) (simp add: engine3_def init_catalog)
  have cfg: "pe_weights config3 = weights_default" "pe_thresholds config3 = thresholds_default" "ch_min_selected_votes thresholds_default = 1"
    by (simp_all add: config3_def pm3_config_default_def thresholds_default_def)
  obtain a b where votes: "collect_votes candidate3 (map (\<lambda>tp. seed_binding 0 tp ''EURUSD'') FIRST_PHASE) engine3 =
      (Inr [calibrate_table (vote3 0), a, b], engine3\<lparr>n3_next_id := 6\<rparr>)" and ab: "\<not> selected a" "\<not> selected b"
    by (rule votes3)
  let ?r = "scored_result weights_default thresholds_default 6 [calibrate_table (vote3 0), a, b] ''EURUSD'' (rk_as_of candidate3)"
  have d: "decide_consensus weights_default thresholds_default 6 [calibrate_table (vote3 0), a, b] ''EURUSD'' (rk_as_of candidate3) = Inr ?r"
    using decided3(2) [OF ab, of 0] scored_bounds [OF weights_default_ok]
    by (simp add: decide_consensus_def make_consensus_def raise_if_def cfg)
  have g: "cn_decision ?r = CD_GO_LONG" by (rule decided3(1) [OF ab])
  have b: "consensus_bounds ?r" by (rule scored_bounds [OF weights_default_ok])
  have "\<exists>t s'. pipe_evaluate candidate3 engine3 = (Inr (SA_intent t), s')"
    unfolding pipe_evaluate_def c(1)
    by (simp only: bnd_get refusal3 option.case active3 bnd_Inr [of "collect_votes candidate3 _" engine3, OF votes] bnd_upd)
      (simp add: bnd_n3_fresh bnd_get engine3_setup cfg bnd_lift d from_consensus_def g Let_def bnd_assoc intent_built(1) [OF b c(2)]
        bnd_ret dict_simps bnd_upd ret_run)
  then obtain t s' where p: "pipe_evaluate candidate3 engine3 = (Inr (SA_intent t), s')" by blast
  show thesis
    using cat w c(2)
  proof (cases rule: evaluate_outcome)
    case (none n s2)
    then show ?thesis using p by (auto simp: evaluate_candidate_def bnd_def ret_def split: prod.splits sum.splits)
  next
    case (go t s2)
    then show ?thesis using that by blast
  qed
qed

subsection \<open>A promoted version\<close>

text \<open>The catalogue after a clone and a promotion of the trend profile.\<close>

definition draft3 :: StrategyDraft where
  "draft3 = \<lparr>sd_draft_id = ''draft:profile:trend_pullback:aaaaaaaa'', sd_profile_id = ''profile:trend_pullback'',
     sd_source_version_id = ''version:trend_pullback:v1'', sd_parameters = DEFAULT_PARAMS, sd_created_at = 0, sd_updated_at = 0\<rparr>"

definition cloned3 :: pm3 where
  "cloned3 = pm3_perform no_print (P3_clone ''aaaaaaaa'' ''profile:trend_pullback'' 0) engine3"

definition promoted3 :: pm3 where
  "promoted3 = pm3_perform no_print (P3_promote ''bbbbbbbb'' ''draft:profile:trend_pullback:aaaaaaaa'' 0) cloned3"

lemma trend_profile3: "dict_get (n3_profiles engine3) ''profile:trend_pullback'' = Some (seed_profile 0 TP_TREND_PULLBACK)"
  using engine3_profile [of TP_TREND_PULLBACK] by (simp add: FIRST_PHASE_def)

lemma trend_version3: "dict_get (n3_versions engine3) ''version:trend_pullback:v1'' = Some (seed_version no_print 0 TP_TREND_PULLBACK)"
  using engine3_version [of TP_TREND_PULLBACK] by (simp add: FIRST_PHASE_def)

lemma cloned3_state:
  "n3_profiles cloned3 = n3_profiles engine3" "n3_versions cloned3 = n3_versions engine3"
  "n3_drafts cloned3 = dict_put ''draft:profile:trend_pullback:aaaaaaaa'' draft3 []"
proof -
  have c: "cloned3 = snd (clone_draft ''aaaaaaaa'' ''profile:trend_pullback'' 0 engine3)"
    by (simp add: cloned3_def pm3_perform_def snd_bnd_ret)
  show "n3_profiles cloned3 = n3_profiles engine3" "n3_versions cloned3 = n3_versions engine3"
    "n3_drafts cloned3 = dict_put ''draft:profile:trend_pullback:aaaaaaaa'' draft3 []"
    unfolding c using trend_version3
    by (simp_all add: clone_draft_def run_simps trend_profile3 seed_profile_def n3_version_def seed_version_def save_draft_def
        engine3_setup draft3_def Let_def)
qed

lemma default_params_valid: "\<exists>r. validate_parameters H strategy_schema DEFAULT_PARAMS = Inr r \<and> vr_ok r"
  by (simp add: validate_parameters_def validate_item_def strategy_schema_def DEFAULT_PARAMS_def dict_get_def Let_def f64_values)

lemma fresh3: "dict_get (n3_versions engine3) ''version:profile:trend_pullback:bbbbbbbb'' = None"
  by (simp add: engine3_def seed_simps config3_def seed_version_def dict_get_def)

lemma promoted3_state:
  "n3_profiles promoted3 = n3_profiles engine3"
  "n3_versions promoted3 = dict_put ''version:profile:trend_pullback:bbbbbbbb'' (promoted no_print ''bbbbbbbb'' draft3 0) (n3_versions engine3)"
proof -
  let ?did = "''draft:profile:trend_pullback:aaaaaaaa''"
  have d: "dict_get (n3_drafts cloned3) ?did = Some draft3" by (simp add: cloned3_state dict_simps)
  have p: "dict_get (n3_profiles cloned3) (sd_profile_id draft3) = Some (seed_profile 0 TP_TREND_PULLBACK)"
    by (simp add: cloned3_state draft3_def trend_profile3)
  obtain r where ok: "validate_draft no_print ?did cloned3 = Inr r" "vr_ok r"
    unfolding validate_draft_def d option.case p
    using default_params_valid [of no_print] by (auto simp: seed_profile_def draft3_def)
  have pr: "promoted3 = snd (promote_version no_print ''bbbbbbbb'' ?did 0 cloned3)"
    by (simp add: promoted3_def pm3_perform_def snd_bnd_ret)
  show "n3_profiles promoted3 = n3_profiles engine3"
    "n3_versions promoted3 = dict_put ''version:profile:trend_pullback:bbbbbbbb'' (promoted no_print ''bbbbbbbb'' draft3 0) (n3_versions engine3)"
    unfolding pr using ok d by (simp_all add: promote_version_def run_simps cloned3_state save_version_def promoted_def Let_def) (simp_all add: draft3_def)
qed

lemma promoted3_reach: "pm3_reach no_print engine3 promoted3"
  unfolding promoted3_def cloned3_def
  by (intro pm3_reach.step pm3_reach.start)
    (use fresh3 in \<open>simp_all add: cloned3_state(2) cloned3_state(3) [unfolded cloned3_def] cloned3_state(2) [unfolded cloned3_def]
       dict_simps draft3_def split: option.split\<close>)

lemma activated3:
  obtains v s1 where "activate_version ''version:profile:trend_pullback:bbbbbbbb'' 0 promoted3 = (Inr v, s1)"
    and "pv_profile_id v = ''profile:trend_pullback''"
proof -
  let ?vid = "''version:profile:trend_pullback:bbbbbbbb''"
  let ?v = "promoted no_print ''bbbbbbbb'' draft3 0"
  have v: "dict_get (n3_versions promoted3) ?vid = Some ?v" by (simp add: promoted3_state dict_simps)
  have p: "may_activate (pv_status ?v)" "pv_profile_id ?v = ''profile:trend_pullback''"
    "dict_get (n3_profiles promoted3) ''profile:trend_pullback'' = Some (seed_profile 0 TP_TREND_PULLBACK)"
    using trend_profile3 by (simp_all add: promoted_def may_activate_def ACTIVATABLE_def draft3_def promoted3_state)
  show thesis
  proof (cases rule: activate_effect [of ?vid 0 promoted3])
    case (none e)
    then show ?thesis using v p by (simp add: activate_version_def run_simps Let_def)
  next
    case (ok v' p')
    with v p that [of "v'\<lparr>pv_status := PR_ACTIVE, pv_immutable := True\<rparr>" "snd (activate_version ?vid 0 promoted3)"] show ?thesis
      by (simp add: prod_eq_iff)
  qed
qed

end
