(* ===== verification/StrategyClaims.thy ===== *)
theory StrategyClaims
  imports StrategySamples
begin

section \<open>Properties of the strategy engine\<close>

text \<open>
  The evaluation always answers, an intent is justified by votes and never issued twice, a profile has
  one active version, a replaced version stays mute, the active bindings of a symbol are limited, and
  the consensus treats both directions alike.
\<close>

lemma reach_ready:
  assumes "pm3_reach H (pm3_init H cfg f t0) s" and "pm3_config_ok cfg"
  shows "catalog_ok s" and "weights_ok (pe_weights (n3_config s))" and "n3_config s = cfg"
proof -
  show "catalog_ok s" using reach_catalog [OF assms(1) init_catalog] .
  have "n3_config (fold (seed_template H t0 u) tps s0) = n3_config s0" for u tps s0
  proof (induction tps arbitrary: s0)
    case (Cons tp tps)
    have "n3_config (fold (\<lambda>sy. save_binding (seed_binding t0 tp sy)) xs r) = n3_config r" for xs r
      by (induction xs arbitrary: r) (simp_all add: save_binding_def)
    then have "n3_config (seed_template H t0 u tp s0) = n3_config s0"
      unfolding seed_template_def by (simp add: save_version_def save_profile_def)
    with Cons show ?case by simp
  qed simp
  then have "n3_config (pm3_init H cfg f t0) = cfg" by (simp add: pm3_init_def seed_catalog_def)
  then show "n3_config s = cfg" using reach_setup [OF assms(1)] by (simp add: same_engine_def)
  then show "weights_ok (pe_weights (n3_config s))" using assms(2) by (simp add: pm3_config_ok_def)
qed

text \<open>
  Claim C30. An evaluation always answers: in every state that calls can reach, whatever was drafted,
  promoted, activated, rebound or rolled back before, a candidate is answered with an artifact and
  no exception, and a trade intent among the answers satisfies its contract: a key, no lot size and
  scores within zero and one.
\<close>

theorem pm3_evaluation_answers:
  assumes "pm3_config_ok cfg" and "pm3_reach H (pm3_init H cfg f t0) s" and "candidate_ok c"
  shows "\<exists>a s'. evaluate_candidate c s = (Inr a, s') \<and> (\<forall>t. a = SA_intent t \<longrightarrow> trade_intent_ok t)"
  using reach_ready(1,2) [OF assms(2,1)] assms(3) by (cases rule: evaluate_outcome) auto

theorem pm3_evaluation_answers_witness:
  "\<exists>a s'. evaluate_candidate candidate3 engine3 = (Inr a, s') \<and> (\<forall>t. a = SA_intent t \<longrightarrow> trade_intent_ok t)"
proof -
  have "candidate_ok candidate3" by (simp add: candidate3_def candidate_ok_def)
  then show ?thesis
    using pm3_evaluation_answers [OF config3_ok pm3_reach.start, of candidate3 no_print True 0] by (simp add: engine3_def)
qed

text \<open>
  Claim C27. An intent is justified. It is issued only when the feature and system flags permit it,
  the candidate is neither stale, nor malformed, nor from the future, nor (when required)
  ineligible for handoff, and the symbol has at most the configured number of active bindings. Its
  votes are those of the active bindings of the symbol, and every selected one among them comes
  from an active binding with an active profile, an active version, an enabled template and a regime
  that the template supports. The consensus of these votes gives the direction of the intent a
  probability that meets the threshold, is not below the other side's and leads it by the edge margin,
  and the consensus score of the intent is this probability as it prints. Where the threshold or the
  margin is positive (both may be configured as zero), at least one of the selected votes goes in
  the direction of the intent. The intent carries no lot size.
\<close>

theorem pm3_intent_justified:
  assumes "pm3_config_ok cfg" and "pm3_reach H (pm3_init H cfg f t0) s" and "candidate_ok c"
    and "evaluate_candidate c s = (Inr (SA_intent t), s')"
  shows "n3_feature_enabled s \<and> evaluation_permitted (n3_flags s) \<and> cc_data_quality (rk_context c) \<in> {DQ_OK, DQ_DEGRADED} \<and>
      cq_state (rk_state c) \<noteq> QS_STALE \<and> cc_as_of (rk_context c) \<le> rk_as_of c \<and>
      (pe_require_handoff_eligibility cfg \<longrightarrow> rk_handoff_eligibility c) \<and>
      length (filter sb_active (bindings_for_symbol (rk_symbol c) s)) \<le> pe_max_active_branches cfg \<and>
      ti_symbol t = rk_symbol c \<and> ti_requested_volume t = None \<and>
      (\<exists>votes s2 u cn p q. collect_votes c (filter sb_active (bindings_for_symbol (rk_symbol c) s)) s = (Inr votes, s2) \<and>
         (\<forall>v \<in> set votes. selected v \<longrightarrow> (\<exists>b. b \<in> set (dict_values (n3_bindings s)) \<and> vote_backed c s b v)) \<and>
         decide_consensus (pe_weights cfg) (pe_thresholds cfg) u votes (rk_symbol c) (rk_as_of c) = Inr cn \<and>
         (ti_direction t = BUY \<and> p = cn_p_long cn \<and> q = cn_p_short cn \<or>
          ti_direction t = SELL \<and> p = cn_p_short cn \<and> q = cn_p_long cn) \<and>
         ch_go_threshold (pe_thresholds cfg) \<le> p \<and> p \<le> 1 \<and> q \<le> p \<and>
         ch_edge_margin (pe_thresholds cfg) \<le> f64 (p - q) \<and> ti_consensus_score t = shortest p \<and>
         (0 < ch_go_threshold (pe_thresholds cfg) \<or> 0 < ch_edge_margin (pe_thresholds cfg) \<longrightarrow>
            (\<exists>v \<in> set votes. selected v \<and> vt_direction v = ti_direction t)))"
  using reach_ready(1,2) [OF assms(2,1)] assms(3)
proof (cases rule: evaluate_outcome)
  case (none n s2)
  with assms(4) show ?thesis by simp
next
  case (go t2 s2)
  with assms(4) have t2: "t2 = t" by simp
  have cfg: "n3_config s = cfg" using reach_ready(3) [OF assms(2,1)] .
  have gates: "n3_feature_enabled s" "evaluation_permitted (n3_flags s)" "cc_data_quality (rk_context c) \<in> {DQ_OK, DQ_DEGRADED}"
    "cq_state (rk_state c) \<noteq> QS_STALE" "cc_as_of (rk_context c) \<le> rk_as_of c"
    "pe_require_handoff_eligibility cfg \<longrightarrow> rk_handoff_eligibility c"
    "length (filter sb_active (bindings_for_symbol (rk_symbol c) s)) \<le> pe_max_active_branches cfg"
    using go(2) by (cases "cc_data_quality (rk_context c)"; auto simp: pipe_refusal_def Let_def cfg split: if_splits)+
  from go(3) [unfolded t2 intent_backed_def cfg] obtain votes cn u pid vid iid eid s3 where
    vb: "\<forall>v \<in> set votes. selected v \<longrightarrow> (\<exists>b. b \<in> set (dict_values (n3_bindings s)) \<and> vote_backed c s b v)" and
    vs: "collect_votes c (filter sb_active (bindings_for_symbol (rk_symbol c) s)) s = (Inr votes, s3)" and
    cn: "decide_consensus (pe_weights cfg) (pe_thresholds cfg) u votes (rk_symbol c) (rk_as_of c) = Inr cn" and
    dir: "cn_decision cn = CD_GO_LONG \<and> ti_direction t = BUY \<or> cn_decision cn = CD_GO_SHORT \<and> ti_direction t = SELL" and
    t: "t = trade_intent_of (pe_signal_expiry_hours cfg) cn c pid vid (ti_direction t) iid eid" by blast
  have f: "ti_symbol t = rk_symbol c" "ti_requested_volume t = None" "ti_consensus_score t = shortest (max (cn_p_long cn) (cn_p_short cn))"
    by (subst t, simp add: trade_intent_of_def)+
  have ws: "weights_ok (pe_weights cfg)" and m: "0 \<le> ch_edge_margin (pe_thresholds cfg)"
    using assms(1) by (simp_all add: pm3_config_ok_def thresholds_ok_def unit_range_def)
  obtain p q where side: "ti_direction t = BUY \<and> p = cn_p_long cn \<and> q = cn_p_short cn \<or>
      ti_direction t = SELL \<and> p = cn_p_short cn \<and> q = cn_p_long cn" using dir by blast
  have lead: "ch_go_threshold (pe_thresholds cfg) \<le> p" "ch_edge_margin (pe_thresholds cfg) \<le> f64 (p - q)"
    using dir side decide_long [OF cn] decide_short [OF cn] by auto
  have qp: "q \<le> p" using rounded_edge [OF m lead(2)] .
  have p1: "p \<le> 1" using side cn by (auto simp: decide_consensus_def make_consensus_def raise_if_eq_Inr consensus_bounds_def unit_range_def)
  have score: "ti_consensus_score t = shortest p" using side qp f(3) by (auto simp: max_def)
  have vote: "0 < ch_go_threshold (pe_thresholds cfg) \<or> 0 < ch_edge_margin (pe_thresholds cfg) \<longrightarrow>
      (\<exists>v \<in> set votes. selected v \<and> vt_direction v = ti_direction t)"
    using dir decide_vote [OF cn ws] by auto
  show ?thesis
    by (intro conjI gates f(1,2) exI [of _ votes] exI [of _ s3] exI [of _ u] exI [of _ cn] exI [of _ p] exI [of _ q]
        vs vb cn side lead p1 qp score vote)
qed

theorem pm3_intent_justified_witness:
  "\<exists>t s' votes s2 v. evaluate_candidate candidate3 engine3 = (Inr (SA_intent t), s') \<and> ti_requested_volume t = None \<and>
     collect_votes candidate3 (filter sb_active (bindings_for_symbol (rk_symbol candidate3) engine3)) engine3 = (Inr votes, s2) \<and>
     v \<in> set votes \<and> selected v \<and> vt_direction v = ti_direction t"
proof -
  obtain t s' where e: "evaluate_candidate candidate3 engine3 = (Inr (SA_intent t), s')" by (rule intent3)
  have c: "candidate_ok candidate3" by (simp add: candidate3_def candidate_ok_def)
  have th: "0 < ch_go_threshold (pe_thresholds config3)"
    by (simp add: config3_def pm3_config_default_def thresholds_default_def f64_values)
  show ?thesis
    using pm3_intent_justified [OF config3_ok pm3_reach.start c e [unfolded engine3_def]] e th unfolding engine3_def by blast
qed

text \<open>
  Claim C29. No intent is issued twice: over every sequence of calls, evaluations, publications and
  changes of the catalogue in any order, the trade intents the engine answers carry pairwise different
  idempotency keys.
\<close>

theorem pm3_intents_unique: "distinct (map ti_idempotency_key (pm3_intents H calls s))"
  using run_keys [of s H calls] by (simp add: new_keys_def)

text \<open>
  Claim C28. A profile has one active version. In every reachable state (the digits drawn for a promoted
  version being new) the active version of a profile exists, belongs to it, has status active and is
  immutable, and it is the only version of the profile with this status; every other version is
  tested and editable by promotion only, or on the watchlist and immutable.
\<close>

theorem pm3_one_active_version:
  assumes "pm3_reach H (pm3_init H cfg f t0) s" and "dict_get (n3_profiles s) pid = Some p"
  shows "\<exists>i v. pf_active_version_id p = Some i \<and> dict_get (n3_versions s) i = Some v \<and> pv_profile_id v = pid \<and>
      pv_status v = PR_ACTIVE \<and> pv_immutable v \<and>
      (\<forall>j w. dict_get (n3_versions s) j = Some w \<and> pv_profile_id w = pid \<longrightarrow>
         (pv_status w = PR_ACTIVE \<longleftrightarrow> j = i) \<and> (pv_immutable w \<longleftrightarrow> pv_status w \<noteq> PR_TESTED) \<and>
         pv_status w \<in> {PR_TESTED, PR_ACTIVE, PR_WATCHLIST})"
proof -
  have life: "lifecycle_ok s" using reach_lifecycle(1) [OF assms(1) init_catalog init_lifecycle] .
  obtain i v where v: "pf_active_version_id p = Some i" "dict_get (n3_versions s) i = Some v" "pv_status v = PR_ACTIVE" "pv_profile_id v = pid"
    using lifecycle_profile [OF life assms(2)] by (auto simp: profile_live_def)
  have im: "pv_immutable v" using lifecycle_version [OF life v(2)] v(3) by (auto simp: version_staged_def)
  have rest: "(pv_status w = PR_ACTIVE \<longleftrightarrow> j = i) \<and> (pv_immutable w \<longleftrightarrow> pv_status w \<noteq> PR_TESTED) \<and>
      pv_status w \<in> {PR_TESTED, PR_ACTIVE, PR_WATCHLIST}"
    if w: "dict_get (n3_versions s) j = Some w" "pv_profile_id w = pid" for j w
    using lifecycle_version [OF life w(1)] w v assms(2) by (auto simp: version_staged_def)
  show ?thesis using v im rest by blast
qed

theorem pm3_one_active_version_witness:
  "\<exists>i v. pf_active_version_id (seed_profile 0 TP_TREND_PULLBACK) = Some i \<and> dict_get (n3_versions engine3) i = Some v \<and>
     pv_profile_id v = ''profile:trend_pullback'' \<and> pv_status v = PR_ACTIVE \<and> pv_immutable v"
proof -
  have "dict_get (n3_profiles engine3) ''profile:trend_pullback'' = Some (seed_profile 0 TP_TREND_PULLBACK)"
    using engine3_profile [of TP_TREND_PULLBACK] by (simp add: FIRST_PHASE_def)
  from pm3_one_active_version [OF pm3_reach.start this [unfolded engine3_def]] show ?thesis unfolding engine3_def by blast
qed

text \<open>
  Claim C33. A replaced version stays mute. Once another version of the profile has been activated, the
  version it replaced is on the watchlist in every later state: a binding that still names it, or that a
  rollback sends back to it, is silent or abstains because its profile version is disabled, whatever
  the candidate, and the version cannot be activated again.
\<close>

theorem pm3_replaced_version_mute:
  assumes "pm3_reach H (pm3_init H cfg f t0) s" and "dict_get (n3_profiles s) pid = Some p" and "pf_active_version_id p = Some i"
    and "activate_version vid now s = (Inr v, s1)" and "pv_profile_id v = pid" and "pm3_reach H s1 t" and "sb_version_id b = i"
  shows "(\<exists>w. dict_get (n3_versions t) i = Some w \<and> pv_status w = PR_WATCHLIST) \<and>
      binding_vote c t u b \<in> {Inr None, Inr (Some (abstain_vote u (sb_template_type b) (sb_profile_id b) (sb_version_id b) (rk_symbol c)
            (rk_as_of c) AB_DISABLED_PROFILE (rk_correlation_id c) []))} \<and>
      (\<exists>e. activate_version i now' t = (Inl e, t))"
proof -
  have cat: "catalog_ok s" and life: "lifecycle_ok s"
    using reach_catalog [OF assms(1) init_catalog] reach_lifecycle(1) [OF assms(1) init_catalog init_lifecycle] by simp_all
  have s1: "s1 = pm3_perform H (P3_activate vid now) s" by (simp add: pm3_perform_def snd_bnd_ret assms(4))
  have cat1: "catalog_ok s1" and life1: "lifecycle_ok s1"
    unfolding s1 using catalog_call [OF cat] lifecycle_call(1) [OF cat life, of "P3_activate vid now"] by simp_all
  have "\<exists>w. dict_get (n3_versions s1) i = Some w \<and> pv_status w = PR_WATCHLIST"
  proof (cases rule: activate_effect [of vid now s])
    case (none e)
    with assms(4) show ?thesis by simp
  next
    case (ok v0 p0)
    with assms(2,4,5) have p0: "p0 = p" by auto
    have vs: "n3_versions s1 = n3_versions (activated v0 p0 s)" using ok(5) assms(4) by (simp add: same_catalog_def)
    show ?thesis
      by (rule activated_get [OF cat life ok(1-3)]) (use assms(3) p0 in \<open>simp add: vs dict_simps\<close>)
  qed
  then obtain w1 where w1: "dict_get (n3_versions s1) i = Some w1" "pv_status w1 = PR_WATCHLIST" by blast
  then obtain w where w: "dict_get (n3_versions t) i = Some w" "version_next w1 w"
    using reach_lifecycle(2) [OF assms(6) cat1 life1] unfolding versions_grow_def by blast
  from w(2) w1(2) have wl: "pv_status w = PR_WATCHLIST" by (simp add: version_next_def stage_le_def)
  have "\<exists>e. activate_version i now' t = (Inl e, t)"
    using w(1) wl by (simp add: activate_version_def run_simps may_activate_def ACTIVATABLE_def)
  then show ?thesis
    using w(1) wl assms(7) by (auto simp: binding_vote_def Let_def may_vote_def split: option.splits)
qed

theorem pm3_replaced_version_mute_witness:
  "\<exists>v s1. activate_version ''version:profile:trend_pullback:bbbbbbbb'' 0 promoted3 = (Inr v, s1) \<and>
     (\<exists>w. dict_get (n3_versions s1) ''version:trend_pullback:v1'' = Some w \<and> pv_status w = PR_WATCHLIST) \<and>
     (\<exists>e. activate_version ''version:trend_pullback:v1'' 1 s1 = (Inl e, s1))"
proof -
  obtain v s1 where a: "activate_version ''version:profile:trend_pullback:bbbbbbbb'' 0 promoted3 = (Inr v, s1)"
    and pid: "pv_profile_id v = ''profile:trend_pullback''" by (rule activated3)
  let ?p = "seed_profile 0 TP_TREND_PULLBACK" and ?b = "seed_binding 0 TP_TREND_PULLBACK ''EURUSD''"
  have p: "dict_get (n3_profiles promoted3) ''profile:trend_pullback'' = Some ?p" using trend_profile3 by (simp add: promoted3_state)
  have i: "pf_active_version_id ?p = Some ''version:trend_pullback:v1''" "sb_version_id ?b = ''version:trend_pullback:v1''"
    by (simp_all add: seed_profile_def seed_binding_def)
  show ?thesis
    using pm3_replaced_version_mute [OF promoted3_reach [unfolded engine3_def] p i(1) a pid pm3_reach.start i(2)] a by blast
qed

text \<open>
  Claim C31. The branches of a symbol are limited. After any sequence of calls every symbol has at most
  three active bindings, no two of the same template and no two of the same profile, also where a
  replacement was refused half way or a rollback reactivated a binding.
\<close>

theorem pm3_branch_limit:
  assumes "pm3_config_ok cfg"
  shows "length (filter sb_active (bindings_for_symbol sy (pm3_run H calls (pm3_init H cfg f t0)))) \<le> 3 \<and>
      distinct (map sb_template_type (filter sb_active (bindings_for_symbol sy (pm3_run H calls (pm3_init H cfg f t0))))) \<and>
      distinct (map sb_profile_id (filter sb_active (bindings_for_symbol sy (pm3_run H calls (pm3_init H cfg f t0)))))"
proof -
  have run: "branches_ok (pm3_run H calls s)"
    if "branches_ok s" "bindings_keyed s" "pe_max_active_branches (n3_config s) \<le> 3" for s
    using that
  proof (induction calls arbitrary: s)
    case (Cons call calls)
    have "n3_config (pm3_perform H call s) = n3_config s" using call_setup [of s H call] by (simp add: same_engine_def)
    with Cons.prems branches_call [OF Cons.prems, of H call] Cons.IH [of "pm3_perform H call s"] show ?case
      by (simp add: pm3_run_def)
  qed (simp add: pm3_run_def)
  have "pe_max_active_branches (n3_config (pm3_init H cfg f t0)) \<le> 3"
    using reach_ready(3) [OF pm3_reach.start assms] assms by (simp add: pm3_config_ok_def)
  from run [OF init_branches this] show ?thesis by (simp add: branches_ok_def branch_ok_def active_on_def)
qed

theorem pm3_branch_limit_witness:
  "length (filter sb_active (bindings_for_symbol ''EURUSD'' (pm3_run no_print [P3_rollback ''bind:EURUSD:trend_pullback'' 1] engine3))) \<le> 3 \<and>
   pm3_config_ok config3"
  using pm3_branch_limit [OF config3_ok, of "''EURUSD''" no_print "[P3_rollback ''bind:EURUSD:trend_pullback'' 1]" True 0] config3_ok
  by (simp add: engine3_def)

text \<open>
  Claim C32. The consensus treats both directions alike: exchanging buy and sell in every vote
  exchanges the long and the short probability, weight and decision of the result and nothing else,
  for votes of any number, quality and order and with the rounding of every operation, as long as the
  configured edge margin is positive (with a margin of zero, which the schema allows, a tie goes long).
\<close>

theorem pm3_consensus_symmetric:
  assumes "0 < ch_edge_margin th"
  shows "decide_consensus ws th u (map flip_vote votes) sy now = map_sum id flip_result (decide_consensus ws th u votes sy now)"
  by (rule decide_flip [OF assms])

theorem pm3_consensus_symmetric_witness:
  "decide_consensus weights_default thresholds_default 1 (map flip_vote [calibrate_table (vote3 0)]) ''EURUSD'' 0 =
     map_sum id flip_result (decide_consensus weights_default thresholds_default 1 [calibrate_table (vote3 0)] ''EURUSD'' 0)"
  by (rule pm3_consensus_symmetric) (simp add: thresholds_default_def f64_values)

end
