(* ===== verification/Spec2Isabelle.thy ===== *)
theory Spec2Isabelle
  imports Pm5Guarantees RiskGuarantees CapitalClaims PostTradeClaims PersistClaims OperatorClaims StrategyClaims
begin

text \<open>
  A verification library for \<^verbatim>\<open>botmoduleproject1\<close>, a simulation-first FX trading bot
  built from numbered modules. The strategy engine (PM3) lets the strategies bound to a symbol vote
  on a ranked candidate (PM2) and turns their consensus into a trade intent or a refusal. The
  intent with its candidate and forecast is evaluated by the risk gate (PM4), which publishes a bundle with a verdict and a size; the
  execution fabric (PM5) turns an allowed bundle into an order, walks it through a transition
  table against a simulated broker, and obeys a control plane that can freeze it. The post-trade
  monitor (PM6) watches the bundles of both, raises alerts and incidents and plans withdrawals.
  The persistence module (PM7) takes the bundles of all three into an append-only, hash-chained
  journal and serves snapshots, replay, queries, evidence and retention from it.
  The operator plane (PM8) takes commands of operators, checks their roles, and can halt, decide
  approval requests and record proposals; no command of it is an order.

  \<^bold>\<open>Conventions.\<close> \<open>Prelude\<close> has the Python exceptions, computations with state and
  exceptions (\<open>('s, 'a) comp\<close>, with triples), insertion-ordered dictionaries, and time in
  microseconds; \<open>PyText\<close> the string operations on ASCII text; \<open>PyDecimal\<close> the
  28-digit decimal context (rounding half even, \<^verbatim>\<open>quantize\<close>); \<open>DecimalError\<close> comparison
  up to rounding errors; \<open>PyFloat\<close> the rounding of a double; \<open>PyNumText\<close> numbers as text and
  the money of \<^verbatim>\<open>pm8_persistence/money.py\<close>. A handler is a computation
  that returns its value or an exception, and the state in both cases. A clock reading is an
  argument and \<^verbatim>\<open>uuid4\<close> a counter in the state.

  \<^bold>\<open>Contracts.\<close> \<open>RiskContracts\<close>, \<open>ExecContracts\<close> and \<open>RiskInputs\<close> hold the records and
  enumerations of \<^verbatim>\<open>contracts/v1\<close> and the two configurations with their validators.

  \<^bold>\<open>PM5 (\<^verbatim>\<open>modules/pm5_execution\<close>).\<close> \<open>Oms\<close>: \<^verbatim>\<open>oms/\<close> and \<^verbatim>\<open>domain/states.py\<close>, the
  order book and its event logs. \<open>ControlPlane\<close>, \<open>Surveillance\<close>: the operator latches and
  the burst detectors. \<open>Pm5Services\<close>: intake validation, adapters, reconciliation, exposure,
  quality report. \<open>Pm5Module\<close>: every handler of \<^verbatim>\<open>module.py\<close> and the step relation
  \<open>pm5_reach\<close>. \<open>Pm5Props\<close> proves what each handler does to the book by triples;
  \<open>Pm5Guarantees\<close> the properties over all call sequences.

  \<^bold>\<open>PM4 gate (\<^verbatim>\<open>modules/pm4_risk_gate\<close>).\<close> \<open>RiskLadders\<close>: kill switch, drawdown ladder,
  heat, budget tree. \<open>RiskChecks\<close>: intake checks, concentration, sizing, pre-trade controls,
  admission, handoff. \<open>RiskGate\<close>: \<^verbatim>\<open>module.py\<close>, in the stages of \<^verbatim>\<open>evaluate_request\<close>,
  and the step relation \<open>gate_reach\<close>. \<open>RiskProps\<close> gives the evaluation as one equation over
  its stages; \<open>RiskSamples\<close> a request that is allowed; \<open>RiskGuarantees\<close> the invariant and
  the properties.

  \<^bold>\<open>PM4 capital management (\<^verbatim>\<open>modules/pm4_risk_gate/capital\<close>).\<close> \<open>CapitalContracts\<close>:
  \<^verbatim>\<open>contracts/v1/pm4_capital.py\<close> with its validators. \<open>CapitalSizing\<close>: \<^verbatim>\<open>sizing.py\<close> and
  \<^verbatim>\<open>portfolio.py\<close>. \<open>CapitalChecks\<close>: the forty checks of \<^verbatim>\<open>checks.py\<close>, and that a run puts one
  outcome per entry of the catalogue, in order, all clear exactly when \<open>capital_limits\<close> holds.
  \<open>CapitalLedger\<close>: the drawdown ledger with its event log and the safe halt. \<open>CapitalService\<close>:
  \<^verbatim>\<open>evaluation.py\<close>, as the risk gate builds it (no persistence injected), and the step relation
  \<open>capital_reach\<close>; the hash of a payload is the parameter \<open>H\<close>. \<open>CapitalProps\<close> inverts an
  evaluation into its stages and shows which exceptions it contains, \<open>CapitalReturns\<close> when checks
  and sizing return, \<open>CapitalGuarantees\<close> the invariant and the bounds of a size,
  \<open>CapitalSamples\<close> a request that is approved, \<open>CapitalClaims\<close> the properties, among them the
  refinement of an abstract gate (a halt flag and a table of answers).

  \<^bold>\<open>PM6 (\<^verbatim>\<open>modules/pm6_post_trade\<close>).\<close> \<open>PostTradeContracts\<close>: \<^verbatim>\<open>contracts/v1/post_trade.py\<close>, the
  state tables and the configuration. \<open>PostTradeServices\<close>: intake, control findings, detectors,
  deduplication, incident lifecycle, escalation, withdrawal planner, snapshot, lanes, packets.
  \<open>PostTradeModule\<close>: \<^verbatim>\<open>observe\<close>, the queries and the operator handlers of \<^verbatim>\<open>module.py\<close>, and the
  step relation \<open>pm6_reach\<close>; the digest of the timeline is the parameter \<open>H\<close>. \<open>PostTradeProps\<close>
  shows that no step of an observation raises, gives each as a function on the state and proves
  the invariant of the incidents; \<open>PostTradeGuarantees\<close> the spacing of alerts, the handling of
  a breach of the kill latch and the need for a confirmation; \<open>PostTradeClaims\<close> the properties.

  \<^bold>\<open>PM7 (\<^verbatim>\<open>modules/pm7_persistence\<close>).\<close> \<open>PersistContracts\<close>: \<^verbatim>\<open>contracts/v1/persistence.py\<close> with its
  validators, redaction and the normal form that \<^verbatim>\<open>canonical_dumps\<close> renders. \<open>PersistJournal\<close>: the
  hash chain, \<^verbatim>\<open>journal/append_only.py\<close>, the file journal, corrections, verification, intake and the
  reconciliation records. \<open>PersistServices\<close>: retention, snapshots, recovery, replay, queries, evidence,
  export, reports. \<open>PersistModule\<close>: every handler of \<^verbatim>\<open>module.py\<close> and the step relation \<open>pm7_reach\<close>;
  SHA-256 is the parameter \<open>H\<close>, and no fact assumes it free of collisions. \<open>PersistProps\<close> has the
  list specification of the journal, its index, the chain, and the contract of a kept relation;
  \<open>PersistGuarantees\<close> what every call keeps and the restart; \<open>PersistClaims\<close> the properties.

  \<^bold>\<open>PM8 operator plane (\<^verbatim>\<open>modules/pm8_operator\<close>).\<close> \<open>OperatorContracts\<close>: \<^verbatim>\<open>contracts/v1/operator.py\<close>,
  \<^verbatim>\<open>roles.py\<close> and the requests of \<^verbatim>\<open>alerts.py\<close> and \<^verbatim>\<open>tuning.py\<close>. \<open>OperatorModule\<close>: parser, role matrix,
  approval queue, studio, audit, transport, the commands of \<^verbatim>\<open>commands/router.py\<close>, the handlers of
  \<^verbatim>\<open>module.py\<close> and the step relation \<open>pm8_reach\<close>. \<open>OperatorProps\<close> shows which command changes which
  part of the state and the three ways a command ends; \<open>OperatorClaims\<close> the properties.

  \<^bold>\<open>PM3 strategy engine (\<^verbatim>\<open>modules/pm3_strategy_engine\<close>).\<close> \<open>FloatOrder\<close> has the order facts of
  the rounding of a double and its evaluation on numerals. \<open>StrategyContracts\<close>:
  \<^verbatim>\<open>contracts/v1/strategy_engine.py\<close>, entities, parameter values, the reading and shortest printing of
  floats, the configuration with its validators. \<open>StrategyVotes\<close>: policies, the context of a candidate,
  the five templates, calibration and \<^verbatim>\<open>weighted_ensemble.py\<close>, every operation rounded as the code
  rounds it. \<open>StrategyModule\<close>: repositories, the services of \<^verbatim>\<open>application/\<close>, the pipes, \<^verbatim>\<open>module.py\<close>, the
  seed, and call sequences (\<open>pm3_run\<close>). \<open>StrategyConsensus\<close> shows that the scores of a consensus
  stay within their bounds, what a go implies and that both directions are treated alike;
  \<open>StrategyProps\<close> which call changes which part of the state and what promotion and activation do;
  \<open>StrategyInvariants\<close> the step relation \<open>pm3_reach\<close>, the life of a version and the limit on active
  bindings; \<open>StrategyPipe\<close> that a vote and an intent are backed, the outcomes of an evaluation and
  the growth of the issued keys; \<open>StrategySamples\<close> a candidate that yields an intent, computed on
  the default weights; \<open>StrategyClaims\<close> the properties. The step relation assumes that the digits
  drawn for the name of a promoted version are new; the facts on bindings and keys do not.

  \<^bold>\<open>Interfaces.\<close> The locale \<open>order_book\<close> of \<open>Oms\<close> states what the handlers rely on of the
  book and is interpreted on it; the locale \<open>latch\<close> of \<open>Latch\<close> states the contract of a
  latched safety control and is interpreted on the new-order block and the kill latch of PM5,
  on the kill switch of PM4 and on the safe halt of the capital service, which lifts their
  one-call facts to call sequences. The locale \<open>incident_handler\<close> of \<open>PostTradeProps\<close> is the
  contract that the six operator calls on an incident share, and is interpreted on each of them.
  The locale \<open>kept\<close> of \<open>Kept\<close> states what it takes for a relation between states to be kept
  by a computation; \<open>module_quiet\<close> and \<open>module_kept\<close> extend it by the updates of the persistence
  module and lift the relation to its handlers, call sequences and reachable states. They are
  interpreted on nine relations: the growth of the logs, the numbering and index of the journal,
  the chain, the cleanness of events, the freeze, the purge policy, the snapshots, the files, and
  the journal under bookkeeping. For the operator plane, \<open>operator_kept\<close> extends it by the updates
  of the commands that neither halt nor decide, and \<open>operator_calls\<close> lifts a relation from one
  command to all calls; they are interpreted on the halt state, the approval queue, the receipts
  and the evidence of dual control, and the halt is a \<open>latch\<close> that no call releases. For the
  strategy engine, \<open>engine_kept\<close> extends \<open>kept\<close> by the events, and \<open>evaluation_kept\<close>,
  \<open>draft_kept\<close>, \<open>binding_kept\<close> and \<open>catalog_kept\<close> extend it by the updates of an evaluation, of
  drafts, of bindings and of the catalogue; they are interpreted on the catalogue, the bindings,
  the issued keys and the configuration.

  \<^bold>\<open>This theory\<close> has the properties that span PM4 and PM5: an accepted order is bounded by
  the gate's limits, an allowed bundle is delivered, a latched gate stops the pipeline.

  \<^bold>\<open>Bounds.\<close> No fuel is needed: recursions are structural, or (\<open>words\<close>, the splitting of a
  command text) decrease a length. Sizes, losses and budgets are
  bounded up to one part in ten to the 26, which covers the at most nine roundings between
  the exact bound and the computed value.

  \<^bold>\<open>Not modelled.\<close> The exponent range of decimals and doubles (about a million and a
  thousand; it is modelled where a strategy parameter is converted), non-ASCII text (the arrow in the note of a seeded version is written \<^verbatim>\<open>->\<close>), NaN outside
  the parameters of a strategy (the contracts reject it), the free-text rationale of a sizing, health checks, manifests and metadata. A float-valued field of a contract is the
  decimal its \<^verbatim>\<open>str\<close> prints, which is how the gate reads it. Of the capital management, the
  lookup and commit in an injected persistence, the adapter that fills a request from keyword
  arguments and the latency histogram are not modelled. Of the post-trade monitor, helpers
  without a caller (alert correlation, deadline table) are left out. Of the
  persistence module, the SQLite journal and the Markdown text of an export are left out. The text
  of a list or dictionary given as a command target is rendered without escapes. Of the strategy
  engine, the settings reader and statistics of a tracker that no code fills are left out. Of the
  other modules (the stores of PM8, market context, forecasting, observability) nothing is modelled;
  databases, network and command line are out of scope.
\<close>

section \<open>From the risk gate to the execution module\<close>

lemma fresh_bundle:
  assumes "dict_get (g_by_key g) (ti_idempotency_key (rq_intent rq)) = None"
    and "evaluate_request now rq g = (Inr b, g')"
  shows "rb_occurred_at b = now \<and> rb_symbol b = ti_symbol (rq_intent rq) \<and>
    rb_kill_switch b = g_kill (after_protect now rq g) \<and>
    rb_idempotency_key b = Some (ti_idempotency_key (rq_intent rq)) \<and>
    rv_expires_at (rb_verdict b) = Some (now + seconds (verdict_ttl_seconds (g_config g)))"
proof -
  obtain k where "b = request_bundle now rq g k" using evaluate_fresh_Inr [OF assms] by metis
  then show ?thesis by (simp add: request_verdict_def)
qed

lemma allowed_admission:
  assumes "dict_get (g_by_key g) (ti_idempotency_key (rq_intent rq)) = None"
    and "evaluate_request now rq g = (Inr b, g')" and "rv_status (rb_verdict b) = ALLOW"
  shows "ac_decision (rb_admission b) \<in> {AD_APPROVE, AD_REDUCE}"
proof -
  obtain k where "b = request_bundle now rq g k" using evaluate_fresh_Inr [OF assms(1, 2)] by metis
  with assms(3) show ?thesis
    by (simp add: request_bundle_cards request_verdict_def verdict_allow_iff admits_def)
qed

lemma open_plane_blocks:
  assumes "pm5_inv s" and "\<not> cp_block_new (pm_control s)"
  shows "\<not> ingest_blocks sy a s \<and> \<not> cp_kill_latched (pm_control s)"
  using assms control_blocks_iff
  by (auto simp: ingest_blocks_def pm5_inv_def control_inv_def)

lemma allowed_reasons:
  assumes gate: "gate_reach g" "dict_get (g_by_key g) (ti_idempotency_key (rq_intent rq)) = None"
      "evaluate_request now rq g = (Inr b, g')" "rv_status (rb_verdict b) = ALLOW" "\<not> kill_latched (g_kill g)"
    and pm5: "pm5_reach s" "pm_simulation_enabled s" "\<not> cp_block_new (pm_control s)"
    and time: "now \<le> later" "later \<le> now + seconds (stale_ttl_seconds (pm_config s))"
      "later \<le> now + seconds (verdict_ttl_seconds (g_config g))"
    and args: "ti_idempotency_key (rq_intent rq) \<noteq> []" "ti_symbol (rq_intent rq) \<in> set (symbol_allowlist (pm_config s))"
      "ia_direction a \<noteq> None" "ia_quantity a = None" "ia_order_type a \<in> set (allowed_order_types (pm_config s))"
  shows "ingest_reasons later (Some b) a s = []"
proof -
  from pm5_reach_inv [OF pm5(1)] have inv: "pm5_inv s" .
  note bnd = fresh_bundle [OF gate(2, 3)]
  have vol: "recommended_volume (rb_verdict b) = Some (recommended_size (rb_sizing b))"
    and stage: "throttle_stage (rb_drawdown b) \<noteq> DD_KILL_PROTECTED"
    using allow_sound [OF gate(2-4)] by auto
  obtain k where k: "sized_cards now rq g = Inr k" "b = request_bundle now rq g k"
    using evaluate_fresh_Inr [OF gate(2, 3)] by metis
  have pos: "0 < recommended_size (rb_sizing b)"
    using allow_outcome(3, 4) [OF k(1)] gate(4) k(2) by simp
  have kill: "rb_kill_switch b = g_kill g" using bnd stage k(2) by (simp add: after_protect_kept)
  show ?thesis
    using open_plane_blocks [OF inv pm5(3)] allowed_admission [OF gate(2-4)] bnd vol pos kill gate(4, 5)
      pm5(2) time args inv
    by (auto simp: ingest_reasons_def validate_intake_def Let_def ingest_qty_def approved_quantity_def
        kill_latched_def pm5_inv_def split: option.splits if_splits)
qed

lemma allowed_taken:
  assumes inv: "pm5_inv s" and reasons: "ingest_reasons later (Some b) a s = []" and new: "known_order s (Some b) = None"
  obtains bn s' r where "ingest later (Some b) a s = (Inr bn, s')" "accepted (eb_receipt bn)"
    "\<not> idempotent_replay (eb_receipt bn)" "eb_order bn = Some r" "symbol r = rb_symbol b"
    "ingest_qty (Some b) a = Some (original_quantity r)"
  using inv
proof (cases rule: ingest_cases [where bndl = "Some b" and now = later and a = a])
  case (take b' bn s')
  then have "taken s b a bn s'" by simp
  then obtain r where "says True False [] (Some r) bn" "symbol r = rb_symbol b"
    "ingest_qty (Some b) a = Some (original_quantity r)" by (elim takenE) simp
  then show ?thesis using that [of bn s' r] take(4) by (simp add: says_def)
qed (use reasons new in simp_all)

text \<open>
  Claim C35. The pipeline delivers: a bundle that the risk gate has just allowed while its switch
  was not latched, handed to an open execution module within both lifetimes, for an allowed symbol
  and order type, with a side and no quantity of its own and under a new key, is accepted, and the
  order carries exactly the gate's size.
\<close>

theorem pipeline_delivers:
  assumes "gate_reach g" and "dict_get (g_by_key g) (ti_idempotency_key (rq_intent rq)) = None"
    and "evaluate_request now rq g = (Inr b, g')" and "rv_status (rb_verdict b) = ALLOW"
    and "\<not> kill_latched (g_kill g)"
    and "pm5_reach s" and "pm_simulation_enabled s" and "\<not> cp_block_new (pm_control s)"
    and "now \<le> later" and "later \<le> now + seconds (stale_ttl_seconds (pm_config s))"
    and "later \<le> now + seconds (verdict_ttl_seconds (g_config g))"
    and "ti_idempotency_key (rq_intent rq) \<noteq> []"
    and "ti_symbol (rq_intent rq) \<in> set (symbol_allowlist (pm_config s))"
    and "ia_direction a \<noteq> None" and "ia_quantity a = None"
    and "ia_order_type a \<in> set (allowed_order_types (pm_config s))"
    and "known_order s (Some b) = None"
  shows "\<exists>bn s' r. ingest later (Some b) a s = (Inr bn, s') \<and> accepted (eb_receipt bn) \<and>
    \<not> idempotent_replay (eb_receipt bn) \<and> eb_order bn = Some r \<and>
    symbol r = ti_symbol (rq_intent rq) \<and> original_quantity r = recommended_size (rb_sizing b)"
proof -
  have reasons: "ingest_reasons later (Some b) a s = []" using assms(1-16) by (rule allowed_reasons)
  have vol: "recommended_volume (rb_verdict b) = Some (recommended_size (rb_sizing b))"
    using allow_sound [OF assms(2-4)] by blast
  obtain bn s' r where out: "ingest later (Some b) a s = (Inr bn, s')" "accepted (eb_receipt bn)"
    "\<not> idempotent_replay (eb_receipt bn)" "eb_order bn = Some r" "symbol r = rb_symbol b"
    and q: "ingest_qty (Some b) a = Some (original_quantity r)"
    by (rule allowed_taken [OF pm5_reach_inv [OF assms(6)] reasons assms(17)])
  have "original_quantity r = recommended_size (rb_sizing b)"
    using q vol assms(15) by (simp add: ingest_qty_def approved_quantity_def)
  with out fresh_bundle [OF assms(2, 3)] show ?thesis by auto
qed

lemma sample_open:
  "pm_simulation_enabled sample_pm5" "\<not> cp_block_new (pm_control sample_pm5)"
  "ti_symbol (rq_intent sample_request) \<in> set (symbol_allowlist (pm_config sample_pm5))"
  "ia_order_type sample_args \<in> set (allowed_order_types (pm_config sample_pm5))"
  "(0::int) \<le> 0 + seconds (stale_ttl_seconds (pm_config sample_pm5))"
  by code_simp+

lemma sample_handed:
  "\<not> kill_latched (g_kill sample_gate)" "(0::int) \<le> 0 + seconds (verdict_ttl_seconds (g_config sample_gate))"
  "ti_idempotency_key (rq_intent sample_request) \<noteq> []" "ia_direction sample_args \<noteq> None" "ia_quantity sample_args = None"
  by (simp_all add: pm4_config_default_def sample_request_def sample_intent_def sample_args_def)

lemmas sample_hand_over = sample_open(1, 2) order_refl sample_open(5) sample_handed(2, 3) sample_open(3)
  sample_handed(4, 5) sample_open(4)

theorem pipeline_delivers_witness:
  "\<exists>b g' bn s' r. evaluate_request 0 sample_request sample_gate = (Inr b, g') \<and>
     ingest 0 (Some b) sample_args sample_pm5 = (Inr bn, s') \<and> accepted (eb_receipt bn) \<and>
     eb_order bn = Some r \<and> symbol r = ti_symbol (rq_intent sample_request)"
proof -
  obtain b g' where run: "evaluate_request 0 sample_request sample_gate = (Inr b, g')"
    and allow: "rv_status (rb_verdict b) = ALLOW" by (rule sample_evaluated)
  from pipeline_delivers [OF sample_gate_reach sample_fresh run allow sample_handed(1) sample_pm5_reach
      sample_hand_over sample_unknown] run show ?thesis by blast
qed

text \<open>
  Claim C4. From intent to order: when the execution module freshly accepts a bundle that the
  risk gate has just evaluated, then the gate had allowed it with no kill switch blocking the
  request, the order is for the intent's symbol with a quantity that is positive, at most the
  gate's size and at most its hard cap, what the order can lose at the intent's stop is at most
  the per-trade share of the equity (up to one part in ten to the 26), and it is accepted within
  the lifetime of the execution module's staleness window after the evaluation.
\<close>

theorem pipeline_order_bounded:
  assumes "gate_reach g" and "dict_get (g_by_key g) (ti_idempotency_key (rq_intent rq)) = None"
    and "evaluate_request now rq g = (Inr b, g')" and "stop_distance rq = Some d"
    and "pm5_reach s" and "ingest later (Some b) a s = (Inr bn, s')"
    and "accepted (eb_receipt bn)" and "\<not> idempotent_replay (eb_receipt bn)"
  shows "\<not> request_blocked rq (g_kill g) \<and> now \<le> later \<and>
    later \<le> now + seconds (stale_ttl_seconds (pm_config s)) \<and>
    (\<exists>r. eb_order bn = Some r \<and> oms_get (pm_oms s') (order_id r) = Some r \<and> 0 < original_quantity r \<and>
       original_quantity r \<le> recommended_size (rb_sizing b) \<and> original_quantity r \<le> max_lots (g_config g) \<and>
       original_quantity r * (d * contract_size (g_config g)) \<le>
         gate_equity (g_config g) rq * max_per_trade_risk_pct (g_config g) * (1 + 1 / 10 ^ 26))"
proof -
  from accept_authorised [OF assms(5-8)] obtain r where allow: "rv_status (rb_verdict b) = ALLOW"
    and time: "rb_occurred_at b \<le> later" "later - rb_occurred_at b \<le> seconds (stale_ttl_seconds (pm_config s))"
    and r: "eb_order bn = Some r" "oms_get (pm_oms s') = (oms_get (pm_oms s))(order_id r \<mapsto> r)"
      "0 < original_quantity r" "original_quantity r \<le> approved_quantity b" by auto
  let ?q = "recommended_size (rb_sizing b)" and ?l = "d * contract_size (g_config g)"
  have sound: "\<not> request_blocked rq (g_kill g)" "recommended_volume (rb_verdict b) = Some ?q"
    using allow_sound [OF assms(2, 3) allow] by blast+
  have size: "?q \<le> max_lots (g_config g)"
    "?q * ?l \<le> gate_equity (g_config g) rq * max_per_trade_risk_pct (g_config g) * (1 + 1 / 10 ^ 26)"
    using allow_bounded [OF assms(1-3) allow assms(4)] unfolding Let_def by blast+
  have le: "original_quantity r \<le> ?q" using r(4) sound(2) by (simp add: approved_quantity_def)
  have "0 < contract_size (g_config g)"
    using gate_reach_inv [OF assms(1)] by (simp add: gate_inv_def pm4_config_ok_def)
  then have "0 \<le> ?l" using stop_distance_pos [OF assms(4)] by simp
  with le have "original_quantity r * ?l \<le> ?q * ?l" by (rule mult_right_mono)
  with size le r sound time fresh_bundle [OF assms(2, 3)] show ?thesis by auto
qed

theorem pipeline_order_bounded_witness:
  "\<exists>b g' bn s' r. evaluate_request 0 sample_request sample_gate = (Inr b, g') \<and>
     ingest 0 (Some b) sample_args sample_pm5 = (Inr bn, s') \<and> eb_order bn = Some r \<and>
     0 < original_quantity r \<and> original_quantity r \<le> max_lots pm4_config_default"
proof -
  obtain b g' where run: "evaluate_request 0 sample_request sample_gate = (Inr b, g')"
    and allow: "rv_status (rb_verdict b) = ALLOW" by (rule sample_evaluated)
  have reasons: "ingest_reasons 0 (Some b) sample_args sample_pm5 = []"
    using allowed_reasons [OF sample_gate_reach sample_fresh run allow sample_handed(1) sample_pm5_reach
      sample_hand_over] .
  obtain bn s' where ing: "ingest 0 (Some b) sample_args sample_pm5 = (Inr bn, s')"
    and acc: "accepted (eb_receipt bn)" "\<not> idempotent_replay (eb_receipt bn)"
    by (rule allowed_taken [OF pm5_reach_inv [OF sample_pm5_reach] reasons sample_unknown])
  from pipeline_order_bounded [OF sample_gate_reach sample_fresh run sample_stop sample_pm5_reach ing acc] run ing
  show ?thesis by auto
qed

text \<open>
  A latched switch stops the pipeline whatever its scope: a bundle that the risk gate
  newly evaluates while its kill switch is latched, even for another symbol, sleeve or cluster,
  is never freshly accepted by the execution module.
\<close>

theorem pipeline_latched_stops:
  assumes "kill_latched (g_kill g)" and "dict_get (g_by_key g) (ti_idempotency_key (rq_intent rq)) = None"
    and "evaluate_request now rq g = (Inr b, g')"
    and "pm5_reach s" and "ingest later (Some b) a s = (Inr bn, s')"
  shows "\<not> (accepted (eb_receipt bn) \<and> \<not> idempotent_replay (eb_receipt bn))"
proof
  assume "accepted (eb_receipt bn) \<and> \<not> idempotent_replay (eb_receipt bn)"
  with accept_authorised [OF assms(4, 5)] have "ks_status (rb_kill_switch b) \<in> {KILL_DISARMED, KILL_ARMED}" by auto
  moreover have "kill_latched (rb_kill_switch b)"
    using fresh_bundle [OF assms(2, 3)] assms(1) by (simp add: after_protect_def)
  ultimately show False by (auto simp: kill_latched_def)
qed

theorem pipeline_latched_stops_witness:
  "\<exists>b g' bn s'. evaluate_request 0 sample_request tripped_gate = (Inr b, g') \<and>
     ingest 0 (Some b) sample_args sample_pm5 = (Inr bn, s') \<and>
     \<not> (accepted (eb_receipt bn) \<and> \<not> idempotent_replay (eb_receipt bn))"
proof -
  have block: "request_blocked sample_request (g_kill tripped_gate)" by (simp add: request_blocked_def)
  obtain b g' where run: "evaluate_request 0 sample_request tripped_gate = (Inr b, g')"
    using blocked_outcome [OF after_protect_blocked [OF block] tripped_fresh] by metis
  obtain bn s' where ing: "ingest 0 (Some b) sample_args sample_pm5 = (Inr bn, s')"
    using ingest_outcome [OF pm5_reach_inv [OF sample_pm5_reach]] by blast
  have "kill_latched (g_kill tripped_gate)" by simp
  from pipeline_latched_stops [OF this tripped_fresh run sample_pm5_reach ing] run ing show ?thesis by blast
qed

end
